(* ===== verification/Go_Prelude.thy ===== *)
theory Go_Prelude
  imports Main "HOL-Library.Word"
begin

text \<open>
  What the component theories share: the collections of rewrite rules, the parts of Go's standard
  library the sources use (\<open>strings.Join\<close>, \<open>strconv.Itoa\<close>, \<open>strings.Contains\<close>), the
  \<open>if s != "" { sql.WriteString(kw); sql.WriteString(s) }\<close> idiom of the SQL builders, balanced
  parentheses, and generic lemmas on lists, options and association lists.
  A Go string is a byte sequence; it is a \<open>string\<close> (a list of bytes) here.
\<close>

section \<open>Collections\<close>

named_theorems sql_defs "rendering functions of the SQL model"
named_theorems bal_intros "balance of rendered text"

section \<open>Standard library\<close>

text \<open>\<open>strings.Join\<close>\<close>

fun join :: "string list \<Rightarrow> string \<Rightarrow> string" where
  "join [] sep = []"
| "join [x] sep = x"
| "join (x # y # ys) sep = x @ sep @ join (y # ys) sep"

lemma join_Cons: "join (x # xs) sep = x @ (if xs = [] then [] else sep @ join xs sep)"
  by (cases xs) auto

lemma join_append_single:
  "join (xs @ [y]) sep = (if xs = [] then y else join xs sep @ sep @ y)"
  by (induction xs) (auto simp: join_Cons)

text \<open>\<open>strconv.Itoa\<close> and the \<open>%d\<close> verb of \<open>fmt.Sprintf\<close>: decimal digits, most significant first.\<close>

definition digit :: "nat \<Rightarrow> char" where
  "digit d = char_of (48 + d :: nat)"

fun nat_digits :: "nat \<Rightarrow> string" where
  "nat_digits n = (if n < 10 then [digit n] else nat_digits (n div 10) @ [digit (n mod 10)])"

declare nat_digits.simps [simp del]

definition Itoa :: "int \<Rightarrow> string" where
  "Itoa i = (if i < 0 then CHR ''-'' # nat_digits (nat (- i)) else nat_digits (nat i))"

text \<open>Reading the digits back, to show that the printed number determines the number.\<close>

definition digit_val :: "char \<Rightarrow> nat" where
  "digit_val c = of_char c - 48"

definition read_nat :: "string \<Rightarrow> nat" where
  "read_nat s = foldl (\<lambda>acc c. 10 * acc + digit_val c) 0 s"

lemma digit_val_digit [simp]: "d < 10 \<Longrightarrow> digit_val (digit d) = d"
  by (simp add: digit_val_def digit_def)

lemma read_nat_snoc [simp]: "read_nat (s @ [c]) = 10 * read_nat s + digit_val c"
  by (simp add: read_nat_def)

lemma read_nat_digits [simp]: "read_nat (nat_digits n) = n"
proof (induction n rule: nat_digits.induct)
  case (1 n)
  show ?case
  proof (cases "n < 10")
    case True
    then show ?thesis by (simp add: nat_digits.simps [of n] read_nat_def)
  next
    case False
    with 1 show ?thesis by (simp add: nat_digits.simps [of n])
  qed
qed

lemma nat_digits_inject [simp]: "nat_digits m = nat_digits n \<longleftrightarrow> m = n"
  by (metis read_nat_digits)

lemma nat_digits_all_digits: "c \<in> set (nat_digits n) \<Longrightarrow> 48 \<le> (of_char c :: nat) \<and> (of_char c :: nat) \<le> 57"
proof (induction n rule: nat_digits.induct)
  case (1 n)
  then show ?case
    by (subst (asm) nat_digits.simps) (auto simp: digit_def split: if_splits)
qed

lemma nat_digits_not_Nil [simp]: "nat_digits n \<noteq> []"
  by (subst nat_digits.simps) simp

text \<open>\<open>strings.Contains\<close>\<close>

definition contains :: "string \<Rightarrow> string \<Rightarrow> bool" where
  "contains s sub = list_ex (\<lambda>i. take (length sub) (drop i s) = sub) [0..<Suc (length s)]"

lemma contains_iff: "contains s sub \<longleftrightarrow> (\<exists>pre post. s = pre @ sub @ post)"
proof
  assume "contains s sub"
  then obtain i where t: "take (length sub) (drop i s) = sub"
    unfolding contains_def list_ex_iff by blast
  then have "s = take i s @ sub @ drop (length sub) (drop i s)"
    by (metis append_take_drop_id)
  then show "\<exists>pre post. s = pre @ sub @ post" by blast
next
  assume "\<exists>pre post. s = pre @ sub @ post"
  then obtain pre post where s: "s = pre @ sub @ post" by blast
  then have "take (length sub) (drop (length pre) s) = sub" and "length pre \<le> length s" by auto
  then show "contains s sub"
    unfolding contains_def list_ex_iff by (intro bexI [of _ "length pre"]) (auto simp del: upt_Suc)
qed

section \<open>The SQL builders' optional clauses\<close>

definition clause :: "string \<Rightarrow> string \<Rightarrow> string" where
  "clause kw s = (if s = [] then [] else kw @ s)"

lemma clause_Nil [simp]: "clause kw [] = []"
  by (simp add: clause_def)

lemma clause_nonempty: "s \<noteq> [] \<Longrightarrow> clause kw s = kw @ s"
  by (simp add: clause_def)

section \<open>Balanced parentheses\<close>

text \<open>
  \<open>paren_depth d s\<close> scans \<open>s\<close> starting at depth \<open>d\<close>: \<open>None\<close> when a closing parenthesis has
  no partner, \<open>Some\<close> of the depth at the end otherwise.
\<close>

fun paren_depth :: "nat \<Rightarrow> string \<Rightarrow> nat option" where
  "paren_depth d [] = Some d"
| "paren_depth d (c # cs) =
     (if c = CHR ''('' then paren_depth (Suc d) cs
      else if c = CHR '')'' then (case d of 0 \<Rightarrow> None | Suc d' \<Rightarrow> paren_depth d' cs)
      else paren_depth d cs)"

definition balanced :: "string \<Rightarrow> bool" where
  "balanced s \<longleftrightarrow> paren_depth 0 s = Some 0"

lemma paren_depth_append:
  "paren_depth d (s @ t) = Option.bind (paren_depth d s) (\<lambda>e. paren_depth e t)"
  by (induction s arbitrary: d) (auto split: nat.splits)

lemma paren_depth_shift: "paren_depth d s = Some e \<Longrightarrow> paren_depth (d + k) s = Some (e + k)"
proof (induction s arbitrary: d)
  case Nil
  then show ?case by simp
next
  case (Cons c s)
  have IH: "paren_depth d' s = Some e \<Longrightarrow> paren_depth (d' + k) s = Some (e + k)" for d'
    by (rule Cons.IH)
  from Cons.prems IH [of "Suc d"] IH [of d] IH [of "d - 1"] show ?case
    by (cases d) (auto split: if_splits nat.splits)
qed

lemma balanced_depth: "balanced s \<Longrightarrow> paren_depth d s = Some d"
  using paren_depth_shift [of 0 s 0 d] by (simp add: balanced_def)

lemma balanced_Nil [simp]: "balanced []"
  by (simp add: balanced_def)

lemma balanced_append [bal_intros]: "balanced s \<Longrightarrow> balanced t \<Longrightarrow> balanced (s @ t)"
  by (simp add: balanced_def paren_depth_append)

lemma balanced_paren [bal_intros]:
  assumes "balanced s"
  shows "balanced (CHR ''('' # s @ '')'')"
  using balanced_depth [OF assms, of "Suc 0"] by (simp add: balanced_def paren_depth_append)

lemma balanced_paren2 [bal_intros]:
  assumes "balanced s" and "balanced t"
  shows "balanced (CHR ''('' # s @ CHR '','' # CHR '' '' # t @ '')'')"
  using balanced_depth [OF assms(1), of "Suc 0"] balanced_depth [OF assms(2), of "Suc 0"]
  by (simp add: balanced_def paren_depth_append)

lemma balanced_Cons: "c \<noteq> CHR ''('' \<Longrightarrow> c \<noteq> CHR '')'' \<Longrightarrow> balanced (c # s) = balanced s"
  by (simp add: balanced_def)

lemma balanced_noparen: "CHR ''('' \<notin> set s \<Longrightarrow> CHR '')'' \<notin> set s \<Longrightarrow> balanced s"
  by (induction s) (auto simp: balanced_Cons)

lemma balanced_comma [simp]: "balanced '', ''"
  by (simp add: balanced_def)

lemma balanced_join [bal_intros]:
  "(\<And>x. x \<in> set xs \<Longrightarrow> balanced x) \<Longrightarrow> balanced sep \<Longrightarrow> balanced (join xs sep)"
  by (induction xs sep rule: join.induct) (auto intro!: bal_intros)

lemma balanced_clause [bal_intros]: "balanced kw \<Longrightarrow> balanced s \<Longrightarrow> balanced (clause kw s)"
  by (simp add: clause_def balanced_append)

lemma balanced_nat_digits [simp]: "balanced (nat_digits n)"
  by (rule balanced_noparen) (auto dest: nat_digits_all_digits)

lemma balanced_Itoa [simp]: "balanced (Itoa i)"
  by (simp add: Itoa_def balanced_Cons)

section \<open>Lists of options\<close>

fun those_list :: "'a option list \<Rightarrow> 'a list option" where
  "those_list [] = Some []"
| "those_list (x # xs) =
     (case x of None \<Rightarrow> None
      | Some v \<Rightarrow> (case those_list xs of None \<Rightarrow> None | Some vs \<Rightarrow> Some (v # vs)))"

lemma those_list_None_iff: "those_list xs = None \<longleftrightarrow> None \<in> set xs"
  by (induction xs) (auto split: option.splits)

lemma those_list_map_None: "those_list (map f xs) = None \<longleftrightarrow> (\<exists>x \<in> set xs. f x = None)"
  by (induction xs) (auto split: option.splits)

lemma those_list_set: "those_list xs = Some ys \<Longrightarrow> y \<in> set ys \<Longrightarrow> Some y \<in> set xs"
  by (induction xs arbitrary: ys) (auto split: option.splits)

lemma those_list_map_Some [simp]: "those_list (map Some xs) = Some xs"
  by (induction xs) auto

lemma those_list_length: "those_list xs = Some ys \<Longrightarrow> length ys = length xs"
  by (induction xs arbitrary: ys) (auto split: option.splits)

section \<open>First occurrences\<close>

text \<open>The distinct elements of a list in the order of their first occurrence.\<close>

definition firsts :: "'a list \<Rightarrow> 'a list" where
  "firsts xs = rev (remdups (rev xs))"

lemma firsts_snoc: "firsts (xs @ [x]) = (if x \<in> set xs then firsts xs else firsts xs @ [x])"
  by (simp add: firsts_def)

lemma firsts_Nil [simp]: "firsts [] = []"
  by (simp add: firsts_def)

lemma firsts_single [simp]: "firsts [x] = [x]"
  by (simp add: firsts_def)

lemma set_firsts [simp]: "set (firsts xs) = set xs"
  by (simp add: firsts_def)

lemma distinct_firsts [simp]: "distinct (firsts xs)"
  by (simp add: firsts_def)

text \<open>An index map that locates the elements of a list.\<close>

definition locates :: "('a \<rightharpoonup> nat) \<Rightarrow> 'a list \<Rightarrow> bool" where
  "locates ix xs \<longleftrightarrow> (\<forall>x i. ix x = Some i \<longleftrightarrow> i < length xs \<and> xs ! i = x)"

lemma locates_None:
  assumes "locates ix xs"
  shows "ix x = None \<longleftrightarrow> x \<notin> set xs"
proof -
  have "ix x = None \<longleftrightarrow> (\<forall>i. ix x \<noteq> Some i)" by (cases "ix x") auto
  also have "\<dots> \<longleftrightarrow> x \<notin> set xs"
    using assms unfolding locates_def in_set_conv_nth by auto
  finally show ?thesis .
qed

lemma locates_Some: "locates ix xs \<Longrightarrow> ix x = Some i \<Longrightarrow> i < length xs \<and> xs ! i = x"
  by (simp add: locates_def)

lemma locates_Nil [simp]: "locates Map.empty []"
  by (simp add: locates_def)

lemma locates_snoc: "locates ix xs \<Longrightarrow> x \<notin> set xs \<Longrightarrow> locates (ix(x \<mapsto> length xs)) (xs @ [x])"
  by (auto simp: locates_def nth_append less_Suc_eq in_set_conv_nth)

lemma map_update_at:
  assumes "distinct xs" "i < length xs" "xs ! i = x" "\<And>y. y \<noteq> x \<Longrightarrow> f y = g y"
  shows "(map f xs)[i := g x] = map g xs"
  using assms by (intro nth_equalityI) (auto simp: nth_list_update nth_eq_iff_index_eq)

lemma filter_fresh: "x \<notin> f ` set es \<Longrightarrow> filter (\<lambda>e. f e = x) es = []"
  unfolding filter_empty_conv by blast

text \<open>A separator that does not occur before it determines where a text is split.\<close>

lemma split_at_sep:
  assumes "z \<notin> set x" and "z \<notin> set y" and "x @ z # s = y @ z # t"
  shows "x = y \<and> s = t"
proof -
  have "takeWhile (\<lambda>c. c \<noteq> z) (x @ z # s) = x" "takeWhile (\<lambda>c. c \<noteq> z) (y @ z # t) = y"
    using assms(1,2) by (auto intro!: takeWhile_append2 [THEN trans])
  with assms(3) have "x = y" by metis
  with assms(3) show ?thesis by simp
qed

section \<open>Integers of 64 bits\<close>

text \<open>Reduction to the range of \<open>int64\<close>.\<close>

definition wrap64 :: "int \<Rightarrow> int" where
  "wrap64 x = (x + 2 ^ 63) mod 2 ^ 64 - 2 ^ 63"

text \<open>Go's integer division truncates.\<close>

definition quot :: "int \<Rightarrow> int \<Rightarrow> int" where
  "quot a b = sgn a * sgn b * (\<bar>a\<bar> div \<bar>b\<bar>)"

lemma wrap64_id: "- (2 ^ 63) \<le> x \<Longrightarrow> x < 2 ^ 63 \<Longrightarrow> wrap64 x = x"
  by (simp add: wrap64_def)

lemma quot_nonneg: "0 \<le> a \<Longrightarrow> 0 < b \<Longrightarrow> quot a b = a div b"
  by (cases "a = 0") (simp_all add: quot_def)

end
