(* ===== verification/Sql_Columns.thy ===== *)
theory Sql_Columns
  imports Go_Prelude
begin

text \<open>
  The column model of the schema migrator
  (\<open>cmd/signozschemamigrator/schema_migrator/column.go\<close>): the column types, their \<open>String\<close> and
  \<open>GetType\<close> methods, column settings and \<open>Column.ToSQL\<close>.
  \<open>Column.Type\<close> is an interface value that may be nil (an \<open>ALTER ... MODIFY COLUMN\<close> may leave
  it out), so it is an option here, and calling \<open>String\<close> on a nil type, which panics in Go, is
  \<open>None\<close>. Element types inside arrays, maps, tuples and functions are never nil in the model.
\<close>

section \<open>Data\<close>

datatype ColumnTypeEnum =
  ColumnTypeEnumString
  | ColumnTypeEnumInt8 | ColumnTypeEnumInt16 | ColumnTypeEnumInt32 | ColumnTypeEnumInt64
  | ColumnTypeEnumInt128 | ColumnTypeEnumInt256
  | ColumnTypeEnumUInt8 | ColumnTypeEnumUInt16 | ColumnTypeEnumUInt32 | ColumnTypeEnumUInt64
  | ColumnTypeEnumUInt128 | ColumnTypeEnumUInt256
  | ColumnTypeEnumFloat32 | ColumnTypeEnumFloat64
  | ColumnTypeEnumBool
  | ColumnTypeEnumDate | ColumnTypeEnumDate32
  | ColumnTypeEnumUUID
  | ColumnTypeEnumIPv4 | ColumnTypeEnumIPv6
  | ColumnTypeEnumLowCardinality | ColumnTypeEnumNullable
  | ColumnTypeEnumSimpleAggregateFunction | ColumnTypeEnumAggregateFunction
  | ColumnTypeEnumJSON | ColumnTypeEnumFixedString
  | ColumnTypeEnumDateTime | ColumnTypeEnumDateTime64
  | ColumnTypeEnumArray | ColumnTypeEnumMap | ColumnTypeEnumTuple | ColumnTypeEnumEnumeration

record ColumnSetting =
  cs_Name :: string
  cs_Value :: string

datatype ColumnType =
    PrimitiveColumnType string ColumnTypeEnum
  | JSONColumnType "nat option" "nat option" "Column list"
  | FixedStringColumnType int
  | DateTimeColumnType string
  | DateTime64ColumnType int string
  | ArrayColumnType ColumnType
  | MapColumnType ColumnType ColumnType
  | TupleColumnType "ColumnType list"
  | LowCardinalityColumnType ColumnType
  | EnumerationColumnType "string list" int
  | NullableColumnType ColumnType
  | SimpleAggregateFunction string "ColumnType list"
  | AggregateFunction string "ColumnType list"
and Column =
    Column (col_Name: string) (col_Type: "ColumnType option") (col_Codec: string)
      (col_Alias: string) (col_Default: string) (col_Materialized: string) (col_TTL: string)
      (col_Settings: "ColumnSetting list option") (col_Comment: string)

text \<open>The predeclared primitive types.\<close>

definition ColumnTypeString :: ColumnType where
  "ColumnTypeString = PrimitiveColumnType ''String'' ColumnTypeEnumString"
definition ColumnTypeInt64 :: ColumnType where
  "ColumnTypeInt64 = PrimitiveColumnType ''Int64'' ColumnTypeEnumInt64"
definition ColumnTypeUInt64 :: ColumnType where
  "ColumnTypeUInt64 = PrimitiveColumnType ''UInt64'' ColumnTypeEnumUInt64"

definition primitive_types :: "ColumnType list" where
  "primitive_types =
     [ColumnTypeString,
      PrimitiveColumnType ''Int8'' ColumnTypeEnumInt8,
      PrimitiveColumnType ''Int16'' ColumnTypeEnumInt16,
      PrimitiveColumnType ''Int32'' ColumnTypeEnumInt32,
      ColumnTypeInt64,
      PrimitiveColumnType ''Int128'' ColumnTypeEnumInt128,
      PrimitiveColumnType ''Int256'' ColumnTypeEnumInt256,
      PrimitiveColumnType ''UInt8'' ColumnTypeEnumUInt8,
      PrimitiveColumnType ''UInt16'' ColumnTypeEnumUInt16,
      PrimitiveColumnType ''UInt32'' ColumnTypeEnumUInt32,
      ColumnTypeUInt64,
      PrimitiveColumnType ''UInt128'' ColumnTypeEnumUInt128,
      PrimitiveColumnType ''UInt256'' ColumnTypeEnumUInt256,
      PrimitiveColumnType ''Float32'' ColumnTypeEnumFloat32,
      PrimitiveColumnType ''Float64'' ColumnTypeEnumFloat64,
      PrimitiveColumnType ''Bool'' ColumnTypeEnumBool,
      PrimitiveColumnType ''Date'' ColumnTypeEnumDate,
      PrimitiveColumnType ''Date32'' ColumnTypeEnumDate32,
      PrimitiveColumnType ''UUID'' ColumnTypeEnumUUID,
      PrimitiveColumnType ''IPv4'' ColumnTypeEnumIPv4,
      PrimitiveColumnType ''IPv6'' ColumnTypeEnumIPv6]"

section \<open>Methods\<close>

definition JSON_params :: "nat option \<Rightarrow> nat option \<Rightarrow> string list" where
  "JSON_params paths types =
     (case paths of None \<Rightarrow> [] | Some p \<Rightarrow> [''max_dynamic_paths='' @ nat_digits p]) @
     (case types of None \<Rightarrow> [] | Some t \<Rightarrow> [''max_dynamic_types='' @ nat_digits t])"

definition FixedStringColumnType_String :: "int \<Rightarrow> string" where
  "FixedStringColumnType_String len = ''FixedString('' @ Itoa len @ '')''"

definition DateTimeColumnType_String :: "string \<Rightarrow> string" where
  "DateTimeColumnType_String tz =
     (if tz = [] then ''DateTime'' else ''DateTime('' @ tz @ '')'')"

definition DateTime64ColumnType_String :: "int \<Rightarrow> string \<Rightarrow> string" where
  "DateTime64ColumnType_String p tz =
     (if tz = [] then ''DateTime64('' @ Itoa p @ '')''
      else ''DateTime64('' @ Itoa p @ '', '' @ tz @ '')'')"

definition EnumerationColumnType_String :: "string list \<Rightarrow> int \<Rightarrow> string" where
  "EnumerationColumnType_String vals sz =
     ''Enum'' @ Itoa sz @ ''('' @ join vals '', '' @ '')''"

text \<open>\<open>ColumnType.String\<close>: \<open>None\<close> is the panic of a nil type inside a JSON column.\<close>

fun ColumnType_String :: "ColumnType \<Rightarrow> string option"
and Column_JSON_param :: "Column \<Rightarrow> string option" where
  "ColumnType_String (PrimitiveColumnType t e) = Some t"
| "ColumnType_String (JSONColumnType paths types cols) =
     map_option (\<lambda>ps. ''JSON('' @ join (JSON_params paths types @ ps) '', '' @ '')'')
       (those_list (map Column_JSON_param cols))"
| "ColumnType_String (FixedStringColumnType len) = Some (FixedStringColumnType_String len)"
| "ColumnType_String (DateTimeColumnType tz) = Some (DateTimeColumnType_String tz)"
| "ColumnType_String (DateTime64ColumnType p tz) = Some (DateTime64ColumnType_String p tz)"
| "ColumnType_String (ArrayColumnType et) =
     map_option (\<lambda>s. ''Array('' @ s @ '')'') (ColumnType_String et)"
| "ColumnType_String (MapColumnType kt vt) =
     (case ColumnType_String kt of None \<Rightarrow> None
      | Some k \<Rightarrow> map_option (\<lambda>v. ''Map('' @ k @ '', '' @ v @ '')'') (ColumnType_String vt))"
| "ColumnType_String (TupleColumnType ets) =
     map_option (\<lambda>es. ''Tuple('' @ join es '', '' @ '')'') (those_list (map ColumnType_String ets))"
| "ColumnType_String (LowCardinalityColumnType et) =
     map_option (\<lambda>s. ''LowCardinality('' @ s @ '')'') (ColumnType_String et)"
| "ColumnType_String (EnumerationColumnType vals sz) = Some (EnumerationColumnType_String vals sz)"
| "ColumnType_String (NullableColumnType et) =
     map_option (\<lambda>s. ''Nullable('' @ s @ '')'') (ColumnType_String et)"
| "ColumnType_String (SimpleAggregateFunction fn args) =
     map_option (\<lambda>as. ''SimpleAggregateFunction('' @ fn @ '', '' @ join as '', '' @ '')'')
       (those_list (map ColumnType_String args))"
| "ColumnType_String (AggregateFunction fn args) =
     map_option (\<lambda>as. ''AggregateFunction('' @ fn @ '', '' @ join as '', '' @ '')'')
       (those_list (map ColumnType_String args))"
| "Column_JSON_param (Column name ty codec al def mat ttl settings comment) =
     (case ty of None \<Rightarrow> None
      | Some t \<Rightarrow> map_option (\<lambda>s. name @ '' '' @ s) (ColumnType_String t))"

fun GetType :: "ColumnType \<Rightarrow> ColumnTypeEnum" where
  "GetType (PrimitiveColumnType t e) = e"
| "GetType (JSONColumnType _ _ _) = ColumnTypeEnumJSON"
| "GetType (FixedStringColumnType _) = ColumnTypeEnumFixedString"
| "GetType (DateTimeColumnType _) = ColumnTypeEnumDateTime"
| "GetType (DateTime64ColumnType _ _) = ColumnTypeEnumDateTime64"
| "GetType (ArrayColumnType _) = ColumnTypeEnumArray"
| "GetType (MapColumnType _ _) = ColumnTypeEnumMap"
| "GetType (TupleColumnType _) = ColumnTypeEnumTuple"
| "GetType (LowCardinalityColumnType _) = ColumnTypeEnumLowCardinality"
| "GetType (EnumerationColumnType _ _) = ColumnTypeEnumEnumeration"
| "GetType (NullableColumnType _) = ColumnTypeEnumNullable"
| "GetType (SimpleAggregateFunction _ _) = ColumnTypeEnumSimpleAggregateFunction"
| "GetType (AggregateFunction _ _) = ColumnTypeEnumAggregateFunction"

definition ColumnSetting_String :: "ColumnSetting \<Rightarrow> string" where
  "ColumnSetting_String c = cs_Name c @ '' = '' @ cs_Value c"

definition ColumnSettings_Names :: "ColumnSetting list \<Rightarrow> string list" where
  "ColumnSettings_Names c = map cs_Name c"

definition ColumnSettings_String :: "ColumnSetting list \<Rightarrow> string" where
  "ColumnSettings_String c = join (map ColumnSetting_String c) '', ''"

definition codec_clause :: "string \<Rightarrow> string" where
  "codec_clause s = (if s = [] then [] else '' CODEC('' @ s @ '')'')"

definition settings_clause :: "ColumnSetting list option \<Rightarrow> string" where
  "settings_clause st =
     (case st of None \<Rightarrow> [] | Some s \<Rightarrow> '' SETTINGS '' @ ColumnSettings_String s)"

definition Column_ToSQL :: "Column \<Rightarrow> string option" where
  "Column_ToSQL c =
     (case col_Type c of None \<Rightarrow> None
      | Some t \<Rightarrow> map_option (\<lambda>ty.
          col_Name c @ '' '' @ ty @
          clause '' ALIAS '' (col_Alias c) @
          clause '' DEFAULT '' (col_Default c) @
          clause '' MATERIALIZED '' (col_Materialized c) @
          codec_clause (col_Codec c) @
          clause '' TTL '' (col_TTL c) @
          settings_clause (col_Settings c) @
          clause '' COMMENT '' (col_Comment c)) (ColumnType_String t))"

section \<open>When rendering panics\<close>

text \<open>A type is \<open>renderable\<close> when every column of every JSON type inside it has a type.\<close>

fun renderable :: "ColumnType \<Rightarrow> bool" and col_renderable :: "Column \<Rightarrow> bool" where
  "renderable (JSONColumnType paths types cols) = list_all col_renderable cols"
| "renderable (ArrayColumnType et) = renderable et"
| "renderable (MapColumnType kt vt) = (renderable kt \<and> renderable vt)"
| "renderable (TupleColumnType ets) = list_all renderable ets"
| "renderable (LowCardinalityColumnType et) = renderable et"
| "renderable (NullableColumnType et) = renderable et"
| "renderable (SimpleAggregateFunction fn args) = list_all renderable args"
| "renderable (AggregateFunction fn args) = list_all renderable args"
| "renderable _ = True"
| "col_renderable (Column name ty codec al def mat ttl settings comment) =
     (case ty of None \<Rightarrow> False | Some t \<Rightarrow> renderable t)"

lemma String_renderable_mutual:
  "(ColumnType_String t = None) = (\<not> renderable t)"
  "(Column_JSON_param c = None) = (\<not> col_renderable c)"
proof (induction t and c rule: ColumnType_String_Column_JSON_param.induct)
qed (auto simp: those_list_map_None list_all_iff split: option.splits)

lemma ColumnType_String_defined: "(\<exists>s. ColumnType_String t = Some s) \<longleftrightarrow> renderable t"
  using String_renderable_mutual(1) [of t] by auto

lemma Column_ToSQL_defined: "Column_ToSQL c \<noteq> None \<longleftrightarrow> col_renderable c"
  by (cases c) (auto simp: Column_ToSQL_def ColumnType_String_defined [symmetric] split: option.splits)

section \<open>Balance of the rendered text\<close>

fun ty_bal :: "ColumnType \<Rightarrow> bool" and col_param_bal :: "Column \<Rightarrow> bool" where
  "ty_bal (PrimitiveColumnType t e) = balanced t"
| "ty_bal (JSONColumnType paths types cols) = list_all col_param_bal cols"
| "ty_bal (FixedStringColumnType len) = True"
| "ty_bal (DateTimeColumnType tz) = balanced tz"
| "ty_bal (DateTime64ColumnType p tz) = balanced tz"
| "ty_bal (ArrayColumnType et) = ty_bal et"
| "ty_bal (MapColumnType kt vt) = (ty_bal kt \<and> ty_bal vt)"
| "ty_bal (TupleColumnType ets) = list_all ty_bal ets"
| "ty_bal (LowCardinalityColumnType et) = ty_bal et"
| "ty_bal (EnumerationColumnType vals sz) = list_all balanced vals"
| "ty_bal (NullableColumnType et) = ty_bal et"
| "ty_bal (SimpleAggregateFunction fn args) = (balanced fn \<and> list_all ty_bal args)"
| "ty_bal (AggregateFunction fn args) = (balanced fn \<and> list_all ty_bal args)"
| "col_param_bal (Column name ty codec al def mat ttl settings comment) =
     (balanced name \<and> (case ty of None \<Rightarrow> True | Some t \<Rightarrow> ty_bal t))"

text \<open>\<open>KIND(args)\<close> is balanced when \<open>KIND\<close> has no parenthesis and the arguments are balanced.\<close>

lemma balanced_call:
  "balanced k \<Longrightarrow> balanced s \<Longrightarrow> balanced (k @ CHR ''('' # s @ '')'')"
  by (simp add: bal_intros)

lemma those_list_map_balanced:
  assumes "those_list (map f xs) = Some ys" and "\<And>x s. x \<in> set xs \<Longrightarrow> f x = Some s \<Longrightarrow> balanced s"
  shows "balanced (join ys '', '')"
proof (rule balanced_join)
  fix y
  assume "y \<in> set ys"
  with assms(1) have "Some y \<in> set (map f xs)" by (rule those_list_set)
  then obtain x where "x \<in> set xs" and "f x = Some y" by auto
  then show "balanced y" by (rule assms(2))
qed simp

lemma String_balanced_mutual:
  "ty_bal t \<Longrightarrow> ColumnType_String t = Some s \<Longrightarrow> balanced s"
  "col_param_bal c \<Longrightarrow> Column_JSON_param c = Some s \<Longrightarrow> balanced s"
proof (induction t and c arbitrary: s and s rule: ColumnType_String_Column_JSON_param.induct)
  case (2 paths types cols)
  from "2.prems"(2) obtain ps where ps: "those_list (map Column_JSON_param cols) = Some ps"
    and s: "s = ''JSON('' @ join (JSON_params paths types @ ps) '', '' @ '')''" by auto
  have "balanced y" if "y \<in> set (JSON_params paths types @ ps)" for y
  proof (cases "y \<in> set ps")
    case True
    with ps have "Some y \<in> set (map Column_JSON_param cols)" by (rule those_list_set)
    then obtain c where "c \<in> set cols" and "Column_JSON_param c = Some y" by auto
    with "2.IH" [of c] "2.prems"(1) show ?thesis by (simp add: list_all_iff)
  next
    case False
    with that show ?thesis
      by (auto simp: JSON_params_def balanced_Cons split: option.splits)
  qed
  then have "balanced (join (JSON_params paths types @ ps) '', '')"
    by (rule balanced_join) simp_all
  then show ?case unfolding s by (simp add: balanced_Cons balanced_paren)
next
  case (10 vals sz)
  then have "balanced (join vals '', '')" by (auto intro: balanced_join simp: list_all_iff)
  with 10 show ?case
    by (auto simp: EnumerationColumnType_String_def balanced_Cons intro!: bal_intros)
qed (auto simp: list_all_iff FixedStringColumnType_String_def DateTimeColumnType_String_def
      DateTime64ColumnType_String_def balanced_Cons
      intro!: balanced_append balanced_paren balanced_paren2 those_list_map_balanced
      split: option.splits if_splits)

end
