(* ===== verification/Sql_Tables.thy ===== *)
theory Sql_Tables
  imports Sql_Columns
begin

text \<open>
  Table engines and settings (\<open>schema_migrator/table.go\<close>), the \<open>Index\<close> of
  \<open>index_operations.go\<close> and the \<open>Projection\<close> of \<open>table_operations.go\<close>, and the contract that
  every renderable migration object offers its caller (\<open>OnCluster\<close>, \<open>WithReplication\<close>, \<open>ToSQL\<close>)
  as a locale, interpreted on the table engines here and on the operations in \<open>Sql_Operations\<close>.
\<close>

section \<open>Settings\<close>

record TableSetting =
  ts_Name :: string
  ts_Value :: string

definition TableSetting_ToSQL :: "TableSetting \<Rightarrow> string" where
  "TableSetting_ToSQL t = ts_Name t @ '' = '' @ ts_Value t"

definition TableSettings_ToSQL :: "TableSetting list \<Rightarrow> string" where
  "TableSettings_ToSQL t = join (map TableSetting_ToSQL t) '', ''"

section \<open>Engines\<close>

record MergeTree =
  Replicated :: bool
  OrderBy :: string
  PrimaryKey :: string
  PartitionBy :: string
  SampleBy :: string
  mt_TTL :: string
  mt_Settings :: "TableSetting list"

definition MergeTree_EngineParams :: "MergeTree \<Rightarrow> string" where
  "MergeTree_EngineParams m =
     clause '' PRIMARY KEY '' (PrimaryKey m) @
     clause '' ORDER BY '' (OrderBy m) @
     clause '' PARTITION BY '' (PartitionBy m) @
     clause '' SAMPLE BY '' (SampleBy m) @
     clause '' TTL '' (mt_TTL m) @
     (if length (mt_Settings m) > 0 then '' SETTINGS '' @ TableSettings_ToSQL (mt_Settings m) else [])"

definition MergeTree_EngineType :: "MergeTree \<Rightarrow> string" where
  "MergeTree_EngineType m = (if Replicated m then ''ReplicatedMergeTree'' else ''MergeTree'')"

definition MergeTree_ToSQL :: "MergeTree \<Rightarrow> string" where
  "MergeTree_ToSQL m = MergeTree_EngineType m @ MergeTree_EngineParams m"

definition MergeTree_WithReplication :: "MergeTree \<Rightarrow> MergeTree" where
  "MergeTree_WithReplication m = m\<lparr>Replicated := True\<rparr>"

text \<open>The other MergeTree families embed a \<open>MergeTree\<close>.\<close>

record ReplacingMergeTree = MergeTree +
  Version :: string

definition ReplacingMergeTree_EngineType :: "ReplacingMergeTree \<Rightarrow> string" where
  "ReplacingMergeTree_EngineType r =
     (if Replicated r then ''ReplicatedReplacingMergeTree'' else ''ReplacingMergeTree'')"

definition ReplacingMergeTree_ToSQL :: "ReplacingMergeTree \<Rightarrow> string" where
  "ReplacingMergeTree_ToSQL r =
     ReplacingMergeTree_EngineType r @
     (if Version r = [] then [] else ''('' @ Version r @ '')'') @
     MergeTree_EngineParams (MergeTree.truncate r)"

definition ReplacingMergeTree_WithReplication :: "ReplacingMergeTree \<Rightarrow> ReplacingMergeTree" where
  "ReplacingMergeTree_WithReplication r = r\<lparr>Replicated := True\<rparr>"

definition AggregatingMergeTree_EngineType :: "MergeTree \<Rightarrow> string" where
  "AggregatingMergeTree_EngineType a =
     (if Replicated a then ''ReplicatedAggregatingMergeTree'' else ''AggregatingMergeTree'')"

definition AggregatingMergeTree_ToSQL :: "MergeTree \<Rightarrow> string" where
  "AggregatingMergeTree_ToSQL a = AggregatingMergeTree_EngineType a @ MergeTree_EngineParams a"

definition AggregatingMergeTree_WithReplication :: "MergeTree \<Rightarrow> MergeTree" where
  "AggregatingMergeTree_WithReplication a = a\<lparr>Replicated := True\<rparr>"

definition SummingMergeTree_EngineType :: "MergeTree \<Rightarrow> string" where
  "SummingMergeTree_EngineType s =
     (if Replicated s then ''ReplicatedSummingMergeTree'' else ''SummingMergeTree'')"

definition SummingMergeTree_ToSQL :: "MergeTree \<Rightarrow> string" where
  "SummingMergeTree_ToSQL s = SummingMergeTree_EngineType s @ MergeTree_EngineParams s"

definition SummingMergeTree_WithReplication :: "MergeTree \<Rightarrow> MergeTree" where
  "SummingMergeTree_WithReplication s = s\<lparr>Replicated := True\<rparr>"

record Distributed =
  d_Cluster :: string
  d_Database :: string
  d_Table :: string
  d_ShardingKey :: string

definition Distributed_OnCluster :: "string \<Rightarrow> Distributed \<Rightarrow> Distributed" where
  "Distributed_OnCluster cluster d = d\<lparr>d_Cluster := cluster\<rparr>"

definition Distributed_ToSQL :: "Distributed \<Rightarrow> string" where
  "Distributed_ToSQL d =
     ''Distributed('' @ [CHR 0x27] @ d_Cluster d @ [CHR 0x27] @ '', '' @ d_Database d @ '', '' @
     d_Table d @ '', '' @ d_ShardingKey d @ '')''"

text \<open>An interface value of type \<open>TableEngine\<close>: one constructor per implementing struct.\<close>

datatype TableEngine =
    EMergeTree MergeTree
  | EReplacing ReplacingMergeTree
  | EAggregating MergeTree
  | ESumming MergeTree
  | EDistributed Distributed

fun Engine_EngineType :: "TableEngine \<Rightarrow> string" where
  "Engine_EngineType (EMergeTree m) = MergeTree_EngineType m"
| "Engine_EngineType (EReplacing m) = ReplacingMergeTree_EngineType m"
| "Engine_EngineType (EAggregating m) = AggregatingMergeTree_EngineType m"
| "Engine_EngineType (ESumming m) = SummingMergeTree_EngineType m"
| "Engine_EngineType (EDistributed d) = ''Distributed''"

fun Engine_ToSQL :: "TableEngine \<Rightarrow> string" where
  "Engine_ToSQL (EMergeTree m) = MergeTree_ToSQL m"
| "Engine_ToSQL (EReplacing m) = ReplacingMergeTree_ToSQL m"
| "Engine_ToSQL (EAggregating m) = AggregatingMergeTree_ToSQL m"
| "Engine_ToSQL (ESumming m) = SummingMergeTree_ToSQL m"
| "Engine_ToSQL (EDistributed d) = Distributed_ToSQL d"

fun Engine_OnCluster :: "string \<Rightarrow> TableEngine \<Rightarrow> TableEngine" where
  "Engine_OnCluster c (EDistributed d) = EDistributed (Distributed_OnCluster c d)"
| "Engine_OnCluster c e = e"

fun Engine_WithReplication :: "TableEngine \<Rightarrow> TableEngine" where
  "Engine_WithReplication (EMergeTree m) = EMergeTree (MergeTree_WithReplication m)"
| "Engine_WithReplication (EReplacing m) = EReplacing (ReplacingMergeTree_WithReplication m)"
| "Engine_WithReplication (EAggregating m) = EAggregating (AggregatingMergeTree_WithReplication m)"
| "Engine_WithReplication (ESumming m) = ESumming (SummingMergeTree_WithReplication m)"
| "Engine_WithReplication (EDistributed d) = EDistributed d"

lemmas engine_defs = MergeTree_EngineType_def ReplacingMergeTree_EngineType_def
  AggregatingMergeTree_EngineType_def SummingMergeTree_EngineType_def MergeTree_ToSQL_def
  ReplacingMergeTree_ToSQL_def AggregatingMergeTree_ToSQL_def SummingMergeTree_ToSQL_def
  MergeTree_WithReplication_def ReplacingMergeTree_WithReplication_def
  AggregatingMergeTree_WithReplication_def SummingMergeTree_WithReplication_def
  Distributed_OnCluster_def

lemmas [sql_defs] = engine_defs

section \<open>The contract of a migration object\<close>

text \<open>
  \<open>RunOperation\<close> rewrites an object with \<open>OnCluster\<close> and \<open>WithReplication\<close> before it renders it.
  The laws below make that preparation a function of the configuration only: it can be
  repeated, and the order of the two rewrites does not matter.
\<close>

locale sql_target =
  fixes onCluster :: "string \<Rightarrow> 'o \<Rightarrow> 'o"
    and withReplication :: "'o \<Rightarrow> 'o"
  assumes onCluster_onCluster: "onCluster c (onCluster d x) = onCluster c x"
    and withReplication_idem: "withReplication (withReplication x) = withReplication x"
    and onCluster_withReplication:
      "onCluster c (withReplication x) = withReplication (onCluster c x)"
begin

definition prepare :: "string \<Rightarrow> bool \<Rightarrow> 'o \<Rightarrow> 'o" where
  "prepare cluster replication x =
     (let x = (if cluster \<noteq> [] then onCluster cluster x else x)
      in if replication then withReplication x else x)"

lemma prepare_idem: "prepare c r (prepare c r x) = prepare c r x"
  by (simp add: prepare_def Let_def onCluster_onCluster withReplication_idem
      onCluster_withReplication)

lemma prepare_reprepare:
  "c \<noteq> [] \<Longrightarrow> (r \<Longrightarrow> r') \<Longrightarrow> prepare c r' (prepare d r x) = prepare c r' x"
  by (simp add: prepare_def Let_def onCluster_onCluster withReplication_idem
      onCluster_withReplication)

end

interpretation engine: sql_target Engine_OnCluster Engine_WithReplication
proof unfold_locales
  show "Engine_OnCluster c (Engine_OnCluster d x) = Engine_OnCluster c x" for c d x
    by (cases x) (simp_all add: sql_defs)
  show "Engine_WithReplication (Engine_WithReplication x) = Engine_WithReplication x" for x
    by (cases x) (simp_all add: sql_defs)
  show "Engine_OnCluster c (Engine_WithReplication x) = Engine_WithReplication (Engine_OnCluster c x)"
    for c x by (cases x) (simp_all add: sql_defs)
qed

lemma Engine_WithReplication_EngineType:
  "Engine_EngineType (Engine_WithReplication e) =
     (case e of EDistributed d \<Rightarrow> ''Distributed''
      | _ \<Rightarrow> (if take 10 (Engine_EngineType e) = ''Replicated'' then Engine_EngineType e
              else ''Replicated'' @ Engine_EngineType e))"
  by (cases e) (auto simp: engine_defs)

section \<open>Indexes and projections\<close>

record Index =
  idx_Name :: string
  idx_Expression :: string
  idx_Type :: string
  idx_Granularity :: int

definition Index_ToSQL :: "Index \<Rightarrow> string" where
  "Index_ToSQL i =
     ''INDEX '' @ idx_Name i @ '' '' @ idx_Expression i @ '' TYPE '' @ idx_Type i @
     '' GRANULARITY '' @ Itoa (idx_Granularity i)"

record Projection =
  p_Name :: string
  p_Query :: string

definition Projection_ToSQL :: "Projection \<Rightarrow> string" where
  "Projection_ToSQL p = ''PROJECTION '' @ p_Name p @ '' ('' @ p_Query p @ '')''"

end
