(* ===== verification/Sql_Operations.thy ===== *)
theory Sql_Operations
  imports Sql_Tables
begin

text \<open>
  The migration operations of \<open>cmd/signozschemamigrator/schema_migrator\<close>: every struct that
  implements the \<open>Operation\<close> interface of \<open>op.go\<close> (\<open>table_operations.go\<close>,
  \<open>column_operations.go\<close>, \<open>index_operations.go\<close>, \<open>projection_operations.go\<close>,
  \<open>data_operations.go\<close>), as a record with the struct's fields. For each struct, \<open>_attrs\<close> holds
  what its methods \<open>ShouldWaitForDistributionQueue\<close>, \<open>IsMutation\<close>, \<open>IsIdempotent\<close>,
  \<open>IsLightweight\<close> and \<open>ForceMigrate\<close> return and \<open>_ToSQL\<close> is its rendering, \<open>None\<close> where the Go
  code panics on a column without a type. \<open>Operation\<close> is the interface value and \<open>Op_attrs\<close>,
  \<open>Op_ToSQL\<close>, \<open>Op_OnCluster\<close> and \<open>Op_WithReplication\<close> dispatch on it.
\<close>

section \<open>Fields and fragments the structs share\<close>

record op_base =
  op_cluster :: string
  op_Database :: string

record op_table = op_base +
  op_Table :: string

record op_column = op_table +
  op_Column :: Column

record op_index = op_table +
  op_Index :: Index

record op_attrs =
  shouldWait :: "bool \<times> string \<times> string"
  isMutation :: bool
  isIdempotent :: bool
  isLightweight :: bool
  forceMigrate :: bool

definition set_cluster :: "string \<Rightarrow> 'a op_base_scheme \<Rightarrow> 'a op_base_scheme" where
  "set_cluster c a = a\<lparr>op_cluster := c\<rparr>"

definition on_cluster :: "'a op_base_scheme \<Rightarrow> string" where
  "on_cluster a = clause '' ON CLUSTER '' (op_cluster a)"

definition alter_prefix :: "'a op_table_scheme \<Rightarrow> string" where
  "alter_prefix a = ''ALTER TABLE '' @ op_Database a @ ''.'' @ op_Table a @ on_cluster a"

definition view_columns :: "Column list \<Rightarrow> string option" where
  "view_columns cols =
     (if length cols > 0
      then map_option (\<lambda>ps. '' ('' @ join ps '', '' @ '')'') (those_list (map Column_ToSQL cols))
      else Some [])"

section \<open>The operations\<close>

subsection \<open>\<open>CreateTableOperation\<close>\<close>

record CreateTableOperation = op_table +
  ct_Columns :: "Column list"
  ct_Indexes :: "Index list"
  ct_Projections :: "Projection list"
  ct_Engine :: TableEngine

definition CreateTableOperation_attrs :: "CreateTableOperation \<Rightarrow> op_attrs" where
  "CreateTableOperation_attrs a =
     \<lparr>shouldWait = (False, op_Database a, op_Table a),
      isMutation = False,
      isIdempotent = True,
      isLightweight = True,
      forceMigrate = False\<rparr>"

definition CreateTableOperation_ToSQL :: "CreateTableOperation \<Rightarrow> string option" where
  "CreateTableOperation_ToSQL a =
     (case those_list (map Column_ToSQL (ct_Columns a)) of
        None \<Rightarrow> None
      | Some columnParts \<Rightarrow> Some
          (''CREATE TABLE IF NOT EXISTS '' @ op_Database a @ ''.'' @ op_Table a @ on_cluster a @
           '' ('' @ join columnParts '', '' @
           concat (map (\<lambda>i. '', '' @ Index_ToSQL i) (ct_Indexes a)) @
           concat (map (\<lambda>p. '', '' @ Projection_ToSQL p) (ct_Projections a)) @
           '')'' @ '' ENGINE = '' @ Engine_ToSQL (ct_Engine a)))"

subsection \<open>\<open>DropTableOperation\<close>\<close>

record DropTableOperation = op_table +
  dt_Settings :: "TableSetting list"

definition DropTableOperation_attrs :: "DropTableOperation \<Rightarrow> op_attrs" where
  "DropTableOperation_attrs a =
     \<lparr>shouldWait = (False, op_Database a, op_Table a),
      isMutation = True,
      isIdempotent = True,
      isLightweight = True,
      forceMigrate = False\<rparr>"

definition DropTableOperation_ToSQL :: "DropTableOperation \<Rightarrow> string" where
  "DropTableOperation_ToSQL a =
     ''DROP TABLE IF EXISTS '' @ op_Database a @ ''.'' @ op_Table a @ on_cluster a @
     (if length (dt_Settings a) > 0 then '' SETTINGS '' @ TableSettings_ToSQL (dt_Settings a) else [])"

subsection \<open>\<open>CreateMaterializedViewOperation\<close>\<close>

record CreateMaterializedViewOperation = op_base +
  ViewName :: string
  DestTable :: string
  mv_Columns :: "Column list"
  mv_Query :: string

definition CreateMaterializedViewOperation_attrs :: "CreateMaterializedViewOperation \<Rightarrow> op_attrs" where
  "CreateMaterializedViewOperation_attrs a =
     \<lparr>shouldWait = (False, op_Database a, ViewName a),
      isMutation = False,
      isIdempotent = True,
      isLightweight = True,
      forceMigrate = False\<rparr>"

definition CreateMaterializedViewOperation_ToSQL :: "CreateMaterializedViewOperation \<Rightarrow> string option" where
  "CreateMaterializedViewOperation_ToSQL a =
     (case view_columns (mv_Columns a) of
        None \<Rightarrow> None
      | Some cols \<Rightarrow> Some
          (''CREATE MATERIALIZED VIEW IF NOT EXISTS '' @ op_Database a @ ''.'' @ ViewName a @
           on_cluster a @ '' TO '' @ op_Database a @ ''.'' @ DestTable a @ cols @
           '' AS '' @ mv_Query a))"

subsection \<open>\<open>CreateRefreshableMaterializedViewOperation\<close>\<close>

record CreateRefreshableMaterializedViewOperation = CreateMaterializedViewOperation +
  RefreshEvery :: string
  RandomizeFor :: string
  Append :: bool
  Empty :: bool
  Definer :: string
  SQLSecurity :: string

definition CreateRefreshableMaterializedViewOperation_attrs :: "CreateRefreshableMaterializedViewOperation \<Rightarrow> op_attrs" where
  "CreateRefreshableMaterializedViewOperation_attrs a =
     \<lparr>shouldWait = (False, op_Database a, ViewName a),
      isMutation = False,
      isIdempotent = True,
      isLightweight = True,
      forceMigrate = False\<rparr>"

definition CreateRefreshableMaterializedViewOperation_ToSQL :: "CreateRefreshableMaterializedViewOperation \<Rightarrow> string option" where
  "CreateRefreshableMaterializedViewOperation_ToSQL a =
     (case view_columns (mv_Columns a) of
        None \<Rightarrow> None
      | Some cols \<Rightarrow> Some
          (''CREATE MATERIALIZED VIEW IF NOT EXISTS '' @ op_Database a @ ''.'' @ ViewName a @
           on_cluster a @ '' REFRESH EVERY '' @ RefreshEvery a @
           clause '' RANDOMIZE FOR '' (RandomizeFor a) @
           (if Append a then '' APPEND'' else []) @
           '' TO '' @ op_Database a @ ''.'' @ DestTable a @ cols @
           (if Empty a then '' EMPTY'' else []) @
           clause '' DEFINER = '' (Definer a) @
           clause '' SQL SECURITY '' (SQLSecurity a) @
           '' AS '' @ mv_Query a))"

subsection \<open>\<open>ModifyQueryMaterializedViewOperation\<close>\<close>

record ModifyQueryMaterializedViewOperation = op_base +
  mq_ViewName :: string
  mq_Query :: string

definition ModifyQueryMaterializedViewOperation_attrs :: "ModifyQueryMaterializedViewOperation \<Rightarrow> op_attrs" where
  "ModifyQueryMaterializedViewOperation_attrs a =
     \<lparr>shouldWait = (False, op_Database a, mq_ViewName a),
      isMutation = False,
      isIdempotent = True,
      isLightweight = True,
      forceMigrate = False\<rparr>"

definition ModifyQueryMaterializedViewOperation_ToSQL :: "ModifyQueryMaterializedViewOperation \<Rightarrow> string" where
  "ModifyQueryMaterializedViewOperation_ToSQL a =
     ''ALTER TABLE '' @ op_Database a @ ''.'' @ mq_ViewName a @ on_cluster a @
     '' MODIFY QUERY '' @ mq_Query a"

subsection \<open>\<open>TruncateTableOperation\<close>\<close>

type_synonym TruncateTableOperation = op_table

definition TruncateTableOperation_attrs :: "TruncateTableOperation \<Rightarrow> op_attrs" where
  "TruncateTableOperation_attrs a =
     \<lparr>shouldWait = (False, op_Database a, op_Table a),
      isMutation = True,
      isIdempotent = True,
      isLightweight = False,
      forceMigrate = False\<rparr>"

definition TruncateTableOperation_ToSQL :: "TruncateTableOperation \<Rightarrow> string" where
  "TruncateTableOperation_ToSQL a =
     ''TRUNCATE TABLE IF EXISTS '' @ op_Database a @ ''.'' @ op_Table a @ on_cluster a"

subsection \<open>\<open>AlterTableModifyTTL\<close>\<close>

record AlterTableModifyTTL = op_table +
  mttl_TTL :: string
  MaterializeTTLAfterModify :: bool

definition AlterTableModifyTTL_attrs :: "AlterTableModifyTTL \<Rightarrow> op_attrs" where
  "AlterTableModifyTTL_attrs a =
     \<lparr>shouldWait = (False, op_Database a, op_Table a),
      isMutation = (MaterializeTTLAfterModify a),
      isIdempotent = True,
      isLightweight = (\<not> MaterializeTTLAfterModify a),
      forceMigrate = False\<rparr>"

definition AlterTableModifyTTL_ToSQL :: "AlterTableModifyTTL \<Rightarrow> string" where
  "AlterTableModifyTTL_ToSQL a =
     alter_prefix a @ '' MODIFY TTL '' @ mttl_TTL a @
     (if \<not> MaterializeTTLAfterModify a then '' SETTINGS '' @ ''materialize_ttl_after_modify = 0'' else [])"

subsection \<open>\<open>AlterTableDropTTL\<close>\<close>

type_synonym AlterTableDropTTL = op_table

definition AlterTableDropTTL_attrs :: "AlterTableDropTTL \<Rightarrow> op_attrs" where
  "AlterTableDropTTL_attrs a =
     \<lparr>shouldWait = (False, op_Database a, op_Table a),
      isMutation = False,
      isIdempotent = True,
      isLightweight = True,
      forceMigrate = False\<rparr>"

definition AlterTableDropTTL_ToSQL :: "AlterTableDropTTL \<Rightarrow> string" where
  "AlterTableDropTTL_ToSQL a =
     alter_prefix a @ '' REMOVE TTL''"

subsection \<open>\<open>AlterTableModifySettings\<close>\<close>

record AlterTableModifySettings = op_table +
  ms_Settings :: "TableSetting list"

definition AlterTableModifySettings_attrs :: "AlterTableModifySettings \<Rightarrow> op_attrs" where
  "AlterTableModifySettings_attrs a =
     \<lparr>shouldWait = (False, op_Database a, op_Table a),
      isMutation = False,
      isIdempotent = True,
      isLightweight = True,
      forceMigrate = False\<rparr>"

definition AlterTableModifySettings_ToSQL :: "AlterTableModifySettings \<Rightarrow> string" where
  "AlterTableModifySettings_ToSQL a =
     alter_prefix a @ '' MODIFY SETTING '' @ TableSettings_ToSQL (ms_Settings a)"

subsection \<open>\<open>AlterTableAddColumn\<close>\<close>

record AlterTableAddColumn = op_column +
  ac_After :: "Column option"

definition AlterTableAddColumn_attrs :: "AlterTableAddColumn \<Rightarrow> op_attrs" where
  "AlterTableAddColumn_attrs a =
     \<lparr>shouldWait = (False, op_Database a, op_Table a),
      isMutation = False,
      isIdempotent = True,
      isLightweight = True,
      forceMigrate = False\<rparr>"

definition AlterTableAddColumn_ToSQL :: "AlterTableAddColumn \<Rightarrow> string option" where
  "AlterTableAddColumn_ToSQL a =
     (case Column_ToSQL (op_Column a) of
        None \<Rightarrow> None
      | Some col \<Rightarrow> Some
          (alter_prefix a @ '' ADD COLUMN IF NOT EXISTS '' @ col @
           (case ac_After a of None \<Rightarrow> [] | Some aft \<Rightarrow> '' AFTER '' @ col_Name aft)))"

subsection \<open>\<open>AlterTableDropColumn\<close>\<close>

type_synonym AlterTableDropColumn = op_column

definition AlterTableDropColumn_attrs :: "AlterTableDropColumn \<Rightarrow> op_attrs" where
  "AlterTableDropColumn_attrs a =
     \<lparr>shouldWait = (True, op_Database a, op_Table a),
      isMutation = True,
      isIdempotent = True,
      isLightweight = True,
      forceMigrate = False\<rparr>"

definition AlterTableDropColumn_ToSQL :: "AlterTableDropColumn \<Rightarrow> string" where
  "AlterTableDropColumn_ToSQL a =
     alter_prefix a @ '' DROP COLUMN IF EXISTS '' @ col_Name (op_Column a)"

subsection \<open>\<open>AlterTableModifyColumn\<close>\<close>

type_synonym AlterTableModifyColumn = op_column

definition AlterTableModifyColumn_attrs :: "AlterTableModifyColumn \<Rightarrow> op_attrs" where
  "AlterTableModifyColumn_attrs a =
     \<lparr>shouldWait = (False, op_Database a, op_Table a),
      isMutation = (col_Type (op_Column a) \<noteq> None \<or> col_TTL (op_Column a) \<noteq> []),
      isIdempotent = True,
      isLightweight = (col_Type (op_Column a) \<noteq> None \<or> col_TTL (op_Column a) \<noteq> []),
      forceMigrate = False\<rparr>"

definition AlterTableModifyColumn_ToSQL :: "AlterTableModifyColumn \<Rightarrow> string option" where
  "AlterTableModifyColumn_ToSQL a =
     (case (case col_Type (op_Column a) of None \<Rightarrow> Some []
            | Some t \<Rightarrow> map_option (\<lambda>s. '' '' @ s) (ColumnType_String t)) of
        None \<Rightarrow> None
      | Some ty \<Rightarrow> Some
          (alter_prefix a @ '' MODIFY COLUMN IF EXISTS '' @ col_Name (op_Column a) @ ty @
           clause '' DEFAULT '' (col_Default (op_Column a)) @
           codec_clause (col_Codec (op_Column a)) @
           clause '' TTL '' (col_TTL (op_Column a)) @
           settings_clause (col_Settings (op_Column a))))"

subsection \<open>\<open>AlterTableModifyColumnRemove\<close>\<close>

record AlterTableModifyColumnRemove = op_column +
  mcr_Property :: string

definition AlterTableModifyColumnRemove_attrs :: "AlterTableModifyColumnRemove \<Rightarrow> op_attrs" where
  "AlterTableModifyColumnRemove_attrs a =
     \<lparr>shouldWait = (False, op_Database a, op_Table a),
      isMutation = False,
      isIdempotent = False,
      isLightweight = True,
      forceMigrate = False\<rparr>"

definition AlterTableModifyColumnRemove_ToSQL :: "AlterTableModifyColumnRemove \<Rightarrow> string" where
  "AlterTableModifyColumnRemove_ToSQL a =
     alter_prefix a @ '' MODIFY COLUMN IF EXISTS '' @ col_Name (op_Column a) @
     '' REMOVE '' @ mcr_Property a"

subsection \<open>\<open>AlterTableModifyColumnModifySettings\<close>\<close>

record AlterTableModifyColumnModifySettings = op_column +
  mcs_Settings :: "ColumnSetting list"

definition AlterTableModifyColumnModifySettings_attrs :: "AlterTableModifyColumnModifySettings \<Rightarrow> op_attrs" where
  "AlterTableModifyColumnModifySettings_attrs a =
     \<lparr>shouldWait = (False, op_Database a, op_Table a),
      isMutation = False,
      isIdempotent = True,
      isLightweight = True,
      forceMigrate = False\<rparr>"

definition AlterTableModifyColumnModifySettings_ToSQL :: "AlterTableModifyColumnModifySettings \<Rightarrow> string" where
  "AlterTableModifyColumnModifySettings_ToSQL a =
     alter_prefix a @ '' MODIFY COLUMN IF EXISTS '' @ col_Name (op_Column a) @
     '' MODIFY SETTING '' @ ColumnSettings_String (mcs_Settings a)"

subsection \<open>\<open>AlterTableModifyColumnResetSettings\<close>\<close>

record AlterTableModifyColumnResetSettings = op_column +
  mrs_Settings :: "ColumnSetting list"

definition AlterTableModifyColumnResetSettings_attrs :: "AlterTableModifyColumnResetSettings \<Rightarrow> op_attrs" where
  "AlterTableModifyColumnResetSettings_attrs a =
     \<lparr>shouldWait = (False, op_Database a, op_Table a),
      isMutation = False,
      isIdempotent = True,
      isLightweight = True,
      forceMigrate = False\<rparr>"

definition AlterTableModifyColumnResetSettings_ToSQL :: "AlterTableModifyColumnResetSettings \<Rightarrow> string" where
  "AlterTableModifyColumnResetSettings_ToSQL a =
     alter_prefix a @ '' MODIFY COLUMN IF EXISTS '' @ col_Name (op_Column a) @
     '' RESET SETTING '' @ join (ColumnSettings_Names (mrs_Settings a)) '', ''"

subsection \<open>\<open>AlterTableMaterializeColumn\<close>\<close>

record AlterTableMaterializeColumn = op_column +
  matc_Partition :: string
  matc_PartitionID :: string

definition AlterTableMaterializeColumn_attrs :: "AlterTableMaterializeColumn \<Rightarrow> op_attrs" where
  "AlterTableMaterializeColumn_attrs a =
     \<lparr>shouldWait = (False, op_Database a, op_Table a),
      isMutation = True,
      isIdempotent = True,
      isLightweight = False,
      forceMigrate = False\<rparr>"

definition AlterTableMaterializeColumn_ToSQL :: "AlterTableMaterializeColumn \<Rightarrow> string" where
  "AlterTableMaterializeColumn_ToSQL a =
     alter_prefix a @ '' MATERIALIZE COLUMN '' @ col_Name (op_Column a) @
     (if matc_Partition a \<noteq> [] then '' IN PARTITION '' @ matc_Partition a
      else if matc_PartitionID a \<noteq> [] then '' IN PARTITION '' @ matc_PartitionID a else [])"

subsection \<open>\<open>AlterTableAddIndex\<close>\<close>

type_synonym AlterTableAddIndex = op_index

definition AlterTableAddIndex_attrs :: "AlterTableAddIndex \<Rightarrow> op_attrs" where
  "AlterTableAddIndex_attrs a =
     \<lparr>shouldWait = (False, op_Database a, op_Table a),
      isMutation = False,
      isIdempotent = True,
      isLightweight = True,
      forceMigrate = False\<rparr>"

definition AlterTableAddIndex_ToSQL :: "AlterTableAddIndex \<Rightarrow> string" where
  "AlterTableAddIndex_ToSQL a =
     alter_prefix a @ '' ADD INDEX IF NOT EXISTS '' @ idx_Name (op_Index a) @ '' '' @
     idx_Expression (op_Index a) @ '' TYPE '' @ idx_Type (op_Index a) @
     '' GRANULARITY '' @ Itoa (idx_Granularity (op_Index a))"

subsection \<open>\<open>AlterTableDropIndex\<close>\<close>

type_synonym AlterTableDropIndex = op_index

definition AlterTableDropIndex_attrs :: "AlterTableDropIndex \<Rightarrow> op_attrs" where
  "AlterTableDropIndex_attrs a =
     \<lparr>shouldWait = (False, op_Database a, op_Table a),
      isMutation = True,
      isIdempotent = True,
      isLightweight = True,
      forceMigrate = False\<rparr>"

definition AlterTableDropIndex_ToSQL :: "AlterTableDropIndex \<Rightarrow> string" where
  "AlterTableDropIndex_ToSQL a =
     alter_prefix a @ '' DROP INDEX IF EXISTS '' @ idx_Name (op_Index a)"

subsection \<open>\<open>AlterTableMaterializeIndex\<close>\<close>

record AlterTableMaterializeIndex = op_index +
  mati_Partition :: string

definition AlterTableMaterializeIndex_attrs :: "AlterTableMaterializeIndex \<Rightarrow> op_attrs" where
  "AlterTableMaterializeIndex_attrs a =
     \<lparr>shouldWait = (False, op_Database a, op_Table a),
      isMutation = True,
      isIdempotent = True,
      isLightweight = False,
      forceMigrate = False\<rparr>"

definition AlterTableMaterializeIndex_ToSQL :: "AlterTableMaterializeIndex \<Rightarrow> string" where
  "AlterTableMaterializeIndex_ToSQL a =
     alter_prefix a @ '' MATERIALIZE INDEX IF EXISTS '' @ idx_Name (op_Index a) @
     clause '' IN PARTITION '' (mati_Partition a)"

subsection \<open>\<open>AlterTableClearIndex\<close>\<close>

record AlterTableClearIndex = op_index +
  cli_Partition :: string

definition AlterTableClearIndex_attrs :: "AlterTableClearIndex \<Rightarrow> op_attrs" where
  "AlterTableClearIndex_attrs a =
     \<lparr>shouldWait = (False, op_Database a, op_Table a),
      isMutation = True,
      isIdempotent = True,
      isLightweight = False,
      forceMigrate = False\<rparr>"

definition AlterTableClearIndex_ToSQL :: "AlterTableClearIndex \<Rightarrow> string" where
  "AlterTableClearIndex_ToSQL a =
     alter_prefix a @ '' CLEAR INDEX IF EXISTS '' @ idx_Name (op_Index a) @
     clause '' IN PARTITION '' (cli_Partition a)"

subsection \<open>\<open>CreateProjectionOperation\<close>\<close>

record CreateProjectionOperation = op_table +
  cp_Projection :: Projection

definition CreateProjectionOperation_attrs :: "CreateProjectionOperation \<Rightarrow> op_attrs" where
  "CreateProjectionOperation_attrs a =
     \<lparr>shouldWait = (False, op_Database a, op_Table a),
      isMutation = False,
      isIdempotent = True,
      isLightweight = True,
      forceMigrate = False\<rparr>"

definition CreateProjectionOperation_ToSQL :: "CreateProjectionOperation \<Rightarrow> string" where
  "CreateProjectionOperation_ToSQL a =
     ''ALTER TABLE '' @ op_Database a @ ''.'' @ op_Table a @ '' ADD PROJECTION IF NOT EXISTS '' @
     p_Name (cp_Projection a) @ '' ('' @ p_Query (cp_Projection a) @ '')''"

subsection \<open>\<open>DropProjectionOperation\<close>\<close>

record DropProjectionOperation = op_table +
  dp_Projection :: Projection

definition DropProjectionOperation_attrs :: "DropProjectionOperation \<Rightarrow> op_attrs" where
  "DropProjectionOperation_attrs a =
     \<lparr>shouldWait = (False, op_Database a, op_Table a),
      isMutation = False,
      isIdempotent = True,
      isLightweight = True,
      forceMigrate = False\<rparr>"

definition DropProjectionOperation_ToSQL :: "DropProjectionOperation \<Rightarrow> string" where
  "DropProjectionOperation_ToSQL a =
     alter_prefix a @ '' DROP PROJECTION IF EXISTS '' @ p_Name (dp_Projection a)"

subsection \<open>\<open>InsertIntoTable\<close>\<close>

record InsertIntoTable = op_table +
  ins_Columns :: "string list"
  LightWeight :: bool
  Synchronous :: bool
  ins_Values :: string

definition InsertIntoTable_attrs :: "InsertIntoTable \<Rightarrow> op_attrs" where
  "InsertIntoTable_attrs a =
     \<lparr>shouldWait = (False, op_Database a, op_Table a),
      isMutation = False,
      isIdempotent = False,
      isLightweight = (LightWeight a),
      forceMigrate = Synchronous a\<rparr>"

definition InsertIntoTable_ToSQL :: "InsertIntoTable \<Rightarrow> string" where
  "InsertIntoTable_ToSQL a =
     ''INSERT INTO '' @ op_Database a @ ''.'' @ op_Table a @
     (if length (ins_Columns a) > 0 then '' ('' @ join (ins_Columns a) '', '' @ '')'' else []) @
     '' VALUES '' @ ins_Values a"
section \<open>The interface\<close>

definition CreateTableOperation_OnCluster ::
    "string \<Rightarrow> CreateTableOperation \<Rightarrow> CreateTableOperation" where
  "CreateTableOperation_OnCluster c a =
     a\<lparr>op_cluster := c, ct_Engine := Engine_OnCluster c (ct_Engine a)\<rparr>"

definition CreateTableOperation_WithReplication ::
    "CreateTableOperation \<Rightarrow> CreateTableOperation" where
  "CreateTableOperation_WithReplication a =
     a\<lparr>ct_Engine := Engine_WithReplication (ct_Engine a)\<rparr>"

datatype Operation =
    OpCreateTable CreateTableOperation
  | OpDropTable DropTableOperation
  | OpCreateMaterializedView CreateMaterializedViewOperation
  | OpCreateRefreshableMaterializedView CreateRefreshableMaterializedViewOperation
  | OpModifyQueryMaterializedView ModifyQueryMaterializedViewOperation
  | OpTruncateTable TruncateTableOperation
  | OpModifyTTL AlterTableModifyTTL
  | OpDropTTL AlterTableDropTTL
  | OpModifySettings AlterTableModifySettings
  | OpAddColumn AlterTableAddColumn
  | OpDropColumn AlterTableDropColumn
  | OpModifyColumn AlterTableModifyColumn
  | OpModifyColumnRemove AlterTableModifyColumnRemove
  | OpModifyColumnModifySettings AlterTableModifyColumnModifySettings
  | OpModifyColumnResetSettings AlterTableModifyColumnResetSettings
  | OpMaterializeColumn AlterTableMaterializeColumn
  | OpAddIndex AlterTableAddIndex
  | OpDropIndex AlterTableDropIndex
  | OpMaterializeIndex AlterTableMaterializeIndex
  | OpClearIndex AlterTableClearIndex
  | OpCreateProjection CreateProjectionOperation
  | OpDropProjection DropProjectionOperation
  | OpInsertIntoTable InsertIntoTable

fun Op_attrs :: "Operation \<Rightarrow> op_attrs" where
  "Op_attrs (OpCreateTable a) = CreateTableOperation_attrs a"
| "Op_attrs (OpDropTable a) = DropTableOperation_attrs a"
| "Op_attrs (OpCreateMaterializedView a) = CreateMaterializedViewOperation_attrs a"
| "Op_attrs (OpCreateRefreshableMaterializedView a) = CreateRefreshableMaterializedViewOperation_attrs a"
| "Op_attrs (OpModifyQueryMaterializedView a) = ModifyQueryMaterializedViewOperation_attrs a"
| "Op_attrs (OpTruncateTable a) = TruncateTableOperation_attrs a"
| "Op_attrs (OpModifyTTL a) = AlterTableModifyTTL_attrs a"
| "Op_attrs (OpDropTTL a) = AlterTableDropTTL_attrs a"
| "Op_attrs (OpModifySettings a) = AlterTableModifySettings_attrs a"
| "Op_attrs (OpAddColumn a) = AlterTableAddColumn_attrs a"
| "Op_attrs (OpDropColumn a) = AlterTableDropColumn_attrs a"
| "Op_attrs (OpModifyColumn a) = AlterTableModifyColumn_attrs a"
| "Op_attrs (OpModifyColumnRemove a) = AlterTableModifyColumnRemove_attrs a"
| "Op_attrs (OpModifyColumnModifySettings a) = AlterTableModifyColumnModifySettings_attrs a"
| "Op_attrs (OpModifyColumnResetSettings a) = AlterTableModifyColumnResetSettings_attrs a"
| "Op_attrs (OpMaterializeColumn a) = AlterTableMaterializeColumn_attrs a"
| "Op_attrs (OpAddIndex a) = AlterTableAddIndex_attrs a"
| "Op_attrs (OpDropIndex a) = AlterTableDropIndex_attrs a"
| "Op_attrs (OpMaterializeIndex a) = AlterTableMaterializeIndex_attrs a"
| "Op_attrs (OpClearIndex a) = AlterTableClearIndex_attrs a"
| "Op_attrs (OpCreateProjection a) = CreateProjectionOperation_attrs a"
| "Op_attrs (OpDropProjection a) = DropProjectionOperation_attrs a"
| "Op_attrs (OpInsertIntoTable a) = InsertIntoTable_attrs a"

fun Op_ToSQL :: "Operation \<Rightarrow> string option" where
  "Op_ToSQL (OpCreateTable a) = CreateTableOperation_ToSQL a"
| "Op_ToSQL (OpDropTable a) = Some (DropTableOperation_ToSQL a)"
| "Op_ToSQL (OpCreateMaterializedView a) = CreateMaterializedViewOperation_ToSQL a"
| "Op_ToSQL (OpCreateRefreshableMaterializedView a) = CreateRefreshableMaterializedViewOperation_ToSQL a"
| "Op_ToSQL (OpModifyQueryMaterializedView a) = Some (ModifyQueryMaterializedViewOperation_ToSQL a)"
| "Op_ToSQL (OpTruncateTable a) = Some (TruncateTableOperation_ToSQL a)"
| "Op_ToSQL (OpModifyTTL a) = Some (AlterTableModifyTTL_ToSQL a)"
| "Op_ToSQL (OpDropTTL a) = Some (AlterTableDropTTL_ToSQL a)"
| "Op_ToSQL (OpModifySettings a) = Some (AlterTableModifySettings_ToSQL a)"
| "Op_ToSQL (OpAddColumn a) = AlterTableAddColumn_ToSQL a"
| "Op_ToSQL (OpDropColumn a) = Some (AlterTableDropColumn_ToSQL a)"
| "Op_ToSQL (OpModifyColumn a) = AlterTableModifyColumn_ToSQL a"
| "Op_ToSQL (OpModifyColumnRemove a) = Some (AlterTableModifyColumnRemove_ToSQL a)"
| "Op_ToSQL (OpModifyColumnModifySettings a) = Some (AlterTableModifyColumnModifySettings_ToSQL a)"
| "Op_ToSQL (OpModifyColumnResetSettings a) = Some (AlterTableModifyColumnResetSettings_ToSQL a)"
| "Op_ToSQL (OpMaterializeColumn a) = Some (AlterTableMaterializeColumn_ToSQL a)"
| "Op_ToSQL (OpAddIndex a) = Some (AlterTableAddIndex_ToSQL a)"
| "Op_ToSQL (OpDropIndex a) = Some (AlterTableDropIndex_ToSQL a)"
| "Op_ToSQL (OpMaterializeIndex a) = Some (AlterTableMaterializeIndex_ToSQL a)"
| "Op_ToSQL (OpClearIndex a) = Some (AlterTableClearIndex_ToSQL a)"
| "Op_ToSQL (OpCreateProjection a) = Some (CreateProjectionOperation_ToSQL a)"
| "Op_ToSQL (OpDropProjection a) = Some (DropProjectionOperation_ToSQL a)"
| "Op_ToSQL (OpInsertIntoTable a) = Some (InsertIntoTable_ToSQL a)"

fun Op_OnCluster :: "string \<Rightarrow> Operation \<Rightarrow> Operation" where
  "Op_OnCluster c (OpCreateTable a) = OpCreateTable (CreateTableOperation_OnCluster c a)"
| "Op_OnCluster c (OpDropTable a) = OpDropTable (set_cluster c a)"
| "Op_OnCluster c (OpCreateMaterializedView a) = OpCreateMaterializedView (set_cluster c a)"
| "Op_OnCluster c (OpCreateRefreshableMaterializedView a) = OpCreateRefreshableMaterializedView (set_cluster c a)"
| "Op_OnCluster c (OpModifyQueryMaterializedView a) = OpModifyQueryMaterializedView (set_cluster c a)"
| "Op_OnCluster c (OpTruncateTable a) = OpTruncateTable (set_cluster c a)"
| "Op_OnCluster c (OpModifyTTL a) = OpModifyTTL (set_cluster c a)"
| "Op_OnCluster c (OpDropTTL a) = OpDropTTL (set_cluster c a)"
| "Op_OnCluster c (OpModifySettings a) = OpModifySettings (set_cluster c a)"
| "Op_OnCluster c (OpAddColumn a) = OpAddColumn (set_cluster c a)"
| "Op_OnCluster c (OpDropColumn a) = OpDropColumn (set_cluster c a)"
| "Op_OnCluster c (OpModifyColumn a) = OpModifyColumn (set_cluster c a)"
| "Op_OnCluster c (OpModifyColumnRemove a) = OpModifyColumnRemove (set_cluster c a)"
| "Op_OnCluster c (OpModifyColumnModifySettings a) = OpModifyColumnModifySettings (set_cluster c a)"
| "Op_OnCluster c (OpModifyColumnResetSettings a) = OpModifyColumnResetSettings (set_cluster c a)"
| "Op_OnCluster c (OpMaterializeColumn a) = OpMaterializeColumn (set_cluster c a)"
| "Op_OnCluster c (OpAddIndex a) = OpAddIndex (set_cluster c a)"
| "Op_OnCluster c (OpDropIndex a) = OpDropIndex (set_cluster c a)"
| "Op_OnCluster c (OpMaterializeIndex a) = OpMaterializeIndex (set_cluster c a)"
| "Op_OnCluster c (OpClearIndex a) = OpClearIndex (set_cluster c a)"
| "Op_OnCluster c (OpCreateProjection a) = OpCreateProjection (set_cluster c a)"
| "Op_OnCluster c (OpDropProjection a) = OpDropProjection (set_cluster c a)"
| "Op_OnCluster c (OpInsertIntoTable a) = OpInsertIntoTable (set_cluster c a)"

lemmas attrs_defs =
  CreateTableOperation_attrs_def
  DropTableOperation_attrs_def
  CreateMaterializedViewOperation_attrs_def
  CreateRefreshableMaterializedViewOperation_attrs_def
  ModifyQueryMaterializedViewOperation_attrs_def
  TruncateTableOperation_attrs_def
  AlterTableModifyTTL_attrs_def
  AlterTableDropTTL_attrs_def
  AlterTableModifySettings_attrs_def
  AlterTableAddColumn_attrs_def
  AlterTableDropColumn_attrs_def
  AlterTableModifyColumn_attrs_def
  AlterTableModifyColumnRemove_attrs_def
  AlterTableModifyColumnModifySettings_attrs_def
  AlterTableModifyColumnResetSettings_attrs_def
  AlterTableMaterializeColumn_attrs_def
  AlterTableAddIndex_attrs_def
  AlterTableDropIndex_attrs_def
  AlterTableMaterializeIndex_attrs_def
  AlterTableClearIndex_attrs_def
  CreateProjectionOperation_attrs_def
  DropProjectionOperation_attrs_def
  InsertIntoTable_attrs_def

lemmas ToSQL_defs =
  CreateTableOperation_ToSQL_def
  DropTableOperation_ToSQL_def
  CreateMaterializedViewOperation_ToSQL_def
  CreateRefreshableMaterializedViewOperation_ToSQL_def
  ModifyQueryMaterializedViewOperation_ToSQL_def
  TruncateTableOperation_ToSQL_def
  AlterTableModifyTTL_ToSQL_def
  AlterTableDropTTL_ToSQL_def
  AlterTableModifySettings_ToSQL_def
  AlterTableAddColumn_ToSQL_def
  AlterTableDropColumn_ToSQL_def
  AlterTableModifyColumn_ToSQL_def
  AlterTableModifyColumnRemove_ToSQL_def
  AlterTableModifyColumnModifySettings_ToSQL_def
  AlterTableModifyColumnResetSettings_ToSQL_def
  AlterTableMaterializeColumn_ToSQL_def
  AlterTableAddIndex_ToSQL_def
  AlterTableDropIndex_ToSQL_def
  AlterTableMaterializeIndex_ToSQL_def
  AlterTableClearIndex_ToSQL_def
  CreateProjectionOperation_ToSQL_def
  DropProjectionOperation_ToSQL_def
  InsertIntoTable_ToSQL_def
text \<open>Only a table being created has an engine to replicate; elsewhere it is a no-op.\<close>

fun Op_WithReplication :: "Operation \<Rightarrow> Operation" where
  "Op_WithReplication (OpCreateTable a) = OpCreateTable (CreateTableOperation_WithReplication a)"
| "Op_WithReplication x = x"

section \<open>The interface as a contract\<close>

text \<open>
  What \<open>RunOperation\<close> and the migrate commands rely on: the preparation laws, and that preparing an
  operation does not change how it is classified, so the decision taken on the operation as
  written in the migration list holds for the statement that is executed.
\<close>

locale migration_operation = sql_target onCluster withReplication
  for onCluster :: "string \<Rightarrow> 'o \<Rightarrow> 'o" and withReplication :: "'o \<Rightarrow> 'o" +
  fixes attrs :: "'o \<Rightarrow> op_attrs"
  assumes attrs_onCluster: "attrs (onCluster c x) = attrs x"
    and attrs_withReplication: "attrs (withReplication x) = attrs x"
begin

lemma attrs_prepare: "attrs (prepare c r x) = attrs x"
  by (simp add: prepare_def Let_def attrs_onCluster attrs_withReplication)

end

lemmas cluster_defs = set_cluster_def on_cluster_def alter_prefix_def
  CreateTableOperation_OnCluster_def CreateTableOperation_WithReplication_def

lemma Op_attrs_OnCluster: "Op_attrs (Op_OnCluster c x) = Op_attrs x"
  by (cases x) (simp_all add: attrs_defs cluster_defs)

lemma Op_attrs_WithReplication: "Op_attrs (Op_WithReplication x) = Op_attrs x"
  by (cases x) (simp_all add: attrs_defs cluster_defs)

interpretation ops: migration_operation Op_OnCluster Op_WithReplication Op_attrs
proof unfold_locales
  show "Op_OnCluster c (Op_OnCluster d x) = Op_OnCluster c x" for c d x
    by (cases x) (simp_all add: cluster_defs engine.onCluster_onCluster)
  show "Op_WithReplication (Op_WithReplication x) = Op_WithReplication x" for x
    by (cases x) (simp_all add: cluster_defs engine.withReplication_idem)
  show "Op_OnCluster c (Op_WithReplication x) = Op_WithReplication (Op_OnCluster c x)" for c x
    by (cases x) (simp_all add: cluster_defs engine.onCluster_withReplication)
qed (simp_all add: Op_attrs_OnCluster Op_attrs_WithReplication)

section \<open>When rendering an operation panics\<close>

fun op_renderable :: "Operation \<Rightarrow> bool" where
  "op_renderable (OpCreateTable a) = list_all col_renderable (ct_Columns a)"
| "op_renderable (OpCreateMaterializedView a) = list_all col_renderable (mv_Columns a)"
| "op_renderable (OpCreateRefreshableMaterializedView a) = list_all col_renderable (mv_Columns a)"
| "op_renderable (OpAddColumn a) = col_renderable (op_Column a)"
| "op_renderable (OpModifyColumn a) =
     (case col_Type (op_Column a) of None \<Rightarrow> True | Some t \<Rightarrow> renderable t)"
| "op_renderable _ = True"

lemma those_columns_defined:
  "those_list (map Column_ToSQL cols) \<noteq> None \<longleftrightarrow> list_all col_renderable cols"
  using Column_ToSQL_defined by (auto simp: those_list_map_None list_all_iff)

lemma view_columns_defined: "view_columns cols \<noteq> None \<longleftrightarrow> list_all col_renderable cols"
  using those_columns_defined [of cols] by (cases cols) (auto simp: view_columns_def)

lemma ModifyColumn_ToSQL_defined:
  "AlterTableModifyColumn_ToSQL a \<noteq> None \<longleftrightarrow> op_renderable (OpModifyColumn a)"
proof (cases "col_Type (op_Column a)")
  case None
  then show ?thesis by (simp add: AlterTableModifyColumn_ToSQL_def)
next
  case (Some t)
  then show ?thesis
    using String_renderable_mutual(1) [of t]
    by (cases "ColumnType_String t") (simp_all add: AlterTableModifyColumn_ToSQL_def)
qed

lemma Op_ToSQL_None_iff: "Op_ToSQL x = None \<longleftrightarrow> \<not> op_renderable x"
proof (cases x)
  case (OpCreateTable a)
  then show ?thesis using those_columns_defined [of "ct_Columns a"]
    by (auto simp: CreateTableOperation_ToSQL_def split: option.splits)
next
  case (OpCreateMaterializedView a)
  then show ?thesis using view_columns_defined [of "mv_Columns a"]
    by (auto simp: CreateMaterializedViewOperation_ToSQL_def split: option.splits)
next
  case (OpCreateRefreshableMaterializedView a)
  then show ?thesis using view_columns_defined [of "mv_Columns a"]
    by (auto simp: CreateRefreshableMaterializedViewOperation_ToSQL_def split: option.splits)
next
  case (OpAddColumn a)
  then show ?thesis using Column_ToSQL_defined [of "op_Column a"]
    by (auto simp: AlterTableAddColumn_ToSQL_def split: option.splits)
next
  case (OpModifyColumn a)
  then show ?thesis using ModifyColumn_ToSQL_defined [of a] by auto
qed simp_all

text \<open>
  Rendering an operation panics exactly when one of the columns it renders has no type
  (or, for a column modification, when the type it does have contains an untyped JSON column).
\<close>

theorem Op_ToSQL_panics_iff: "Op_ToSQL x = None \<longleftrightarrow> \<not> op_renderable x"
  by (rule Op_ToSQL_None_iff)

section \<open>The cluster reaches the statement\<close>

text \<open>Inserts and the creation of a projection render without their cluster.\<close>

fun cluster_aware :: "Operation \<Rightarrow> bool" where
  "cluster_aware (OpInsertIntoTable a) = False"
| "cluster_aware (OpCreateProjection a) = False"
| "cluster_aware _ = True"

lemma contains_append:
  "contains t u \<Longrightarrow> contains (s @ t) u"
  "contains s u \<Longrightarrow> contains (s @ t) u"
  unfolding contains_iff by (metis append.assoc)+

lemma contains_refl: "contains u u"
  unfolding contains_iff by (metis append_Nil append_Nil2)

lemma contains_clause:
  "c \<noteq> [] \<Longrightarrow> contains (clause kw c @ post) (kw @ c)"
  by (simp add: clause_def contains_append(2) contains_refl flip: append_assoc)

lemma op_cluster_set_cluster [simp]: "op_cluster (set_cluster c a) = c"
  by (simp add: set_cluster_def)

lemma on_cluster_set [simp]: "on_cluster (set_cluster c a) = clause '' ON CLUSTER '' c"
  by (simp add: on_cluster_def)

lemma contains_named: "c \<noteq> [] \<Longrightarrow>
    contains (kw @ db @ ''.'' @ tb @ clause '' ON CLUSTER '' c @ post) ('' ON CLUSTER '' @ c)"
  by (intro contains_append(1) contains_clause)

lemma contains_named_end: "c \<noteq> [] \<Longrightarrow>
    contains (kw @ db @ ''.'' @ tb @ clause '' ON CLUSTER '' c) ('' ON CLUSTER '' @ c)"
  using contains_named [of c kw db tb "[]"] by simp

lemma contains_alter_prefix:
  "c \<noteq> [] \<Longrightarrow> op_cluster a = c \<Longrightarrow> contains (alter_prefix a @ post) ('' ON CLUSTER '' @ c)"
  using contains_named [of c "''ALTER TABLE ''" "op_Database a" "op_Table a" post]
  by (simp add: alter_prefix_def on_cluster_def)

lemma contains_alter_prefix_end:
  "c \<noteq> [] \<Longrightarrow> op_cluster a = c \<Longrightarrow> contains (alter_prefix a) ('' ON CLUSTER '' @ c)"
  using contains_alter_prefix [of c a "[]"] by simp

text \<open>
  Once an operation has been sent to a cluster, the statement it renders names that cluster:
  for every operation except an insert and the creation of a projection.
\<close>

theorem OnCluster_reaches_statement:
  assumes "cluster_aware x" and "c \<noteq> []" and "Op_ToSQL (Op_OnCluster c x) = Some s"
  shows "contains s ('' ON CLUSTER '' @ c)"
proof (cases x)
qed (use assms in \<open>auto simp: ToSQL_defs CreateTableOperation_OnCluster_def on_cluster_def
      simp del: append.simps append_assoc split: option.splits
      intro!: contains_alter_prefix contains_named contains_named_end\<close>)

theorem OnCluster_reaches_statement_witness:
  "contains (the (Op_ToSQL (Op_OnCluster ''c1''
      (OpDropColumn \<lparr>op_cluster = [], op_Database = ''db'', op_Table = ''t'',
         op_Column = Column ''x'' None [] [] [] [] [] None []\<rparr>)))) '' ON CLUSTER c1''"
  using OnCluster_reaches_statement [of "OpDropColumn \<lparr>op_cluster = [], op_Database = ''db'',
      op_Table = ''t'', op_Column = Column ''x'' None [] [] [] [] [] None []\<rparr>" "''c1''"]
  by simp

text \<open>
  The creation of a projection accepts a cluster and then renders without it: the statement is
  the same on every cluster, while dropping the same projection names the cluster.
\<close>

theorem CreateProjection_ignores_cluster:
  "Op_ToSQL (Op_OnCluster c (OpCreateProjection a)) = Op_ToSQL (OpCreateProjection a)"
  by (simp add: CreateProjectionOperation_ToSQL_def set_cluster_def)

section \<open>Replication reaches the engine\<close>

lemma Engine_replicated:
  "(\<exists>d. e = EDistributed d) \<or>
   (\<exists>rest. Engine_ToSQL (Engine_WithReplication e) = ''Replicated'' @ rest)"
  by (cases e) (simp_all add: engine_defs)

lemma CreateTable_ToSQL_engine:
  assumes "CreateTableOperation_ToSQL a = Some s"
  obtains pre where
    "\<And>e. CreateTableOperation_ToSQL (a\<lparr>ct_Engine := e\<rparr>) = Some (pre @ '' ENGINE = '' @ Engine_ToSQL e)"
proof -
  from assms obtain cols where cols: "those_list (map Column_ToSQL (ct_Columns a)) = Some cols"
    by (auto simp: CreateTableOperation_ToSQL_def split: option.splits)
  let ?pre = "''CREATE TABLE IF NOT EXISTS '' @ op_Database a @ ''.'' @ op_Table a @ on_cluster a @
    '' ('' @ join cols '', '' @
    concat (map (\<lambda>i. '', '' @ Index_ToSQL i) (ct_Indexes a)) @
    concat (map (\<lambda>p. '', '' @ Projection_ToSQL p) (ct_Projections a)) @ '')''"
  from cols have "CreateTableOperation_ToSQL (a\<lparr>ct_Engine := e\<rparr>) =
      Some (?pre @ '' ENGINE = '' @ Engine_ToSQL e)" for e
    by (simp add: CreateTableOperation_ToSQL_def on_cluster_def)
  then show thesis by (rule that)
qed

text \<open>
  With replication enabled, a table that is not Distributed is created with a replicated
  engine, and a Distributed table keeps the statement it had.
\<close>

theorem WithReplication_statement:
  assumes "Op_ToSQL (OpCreateTable a) = Some s"
  shows "if (\<exists>d. ct_Engine a = EDistributed d)
    then Op_ToSQL (Op_WithReplication (OpCreateTable a)) = Some s
    else (\<exists>pre post. Op_ToSQL (Op_WithReplication (OpCreateTable a)) =
            Some (pre @ '' ENGINE = Replicated'' @ post))"
proof (cases "\<exists>d. ct_Engine a = EDistributed d")
  case True
  then have "CreateTableOperation_WithReplication a = a"
    by (auto simp: CreateTableOperation_WithReplication_def)
  with True assms show ?thesis by simp
next
  case False
  with Engine_replicated [of "ct_Engine a"] obtain rest where
    r: "Engine_ToSQL (Engine_WithReplication (ct_Engine a)) = ''Replicated'' @ rest" by blast
  from assms obtain pre where
    "\<And>e. CreateTableOperation_ToSQL (a\<lparr>ct_Engine := e\<rparr>) = Some (pre @ '' ENGINE = '' @ Engine_ToSQL e)"
    by (auto elim: CreateTable_ToSQL_engine)
  from this [of "Engine_WithReplication (ct_Engine a)"] r
  have "Op_ToSQL (Op_WithReplication (OpCreateTable a)) = Some (pre @ '' ENGINE = Replicated'' @ rest)"
    by (simp add: CreateTableOperation_WithReplication_def)
  with False show ?thesis by auto
qed

theorem WithReplication_statement_witness:
  "\<exists>pre post. Op_ToSQL (Op_WithReplication (OpCreateTable
      \<lparr>op_cluster = [], op_Database = ''db'', op_Table = ''t'', ct_Columns = [], ct_Indexes = [],
       ct_Projections = [], ct_Engine = EMergeTree \<lparr>Replicated = False, OrderBy = ''id'',
         PrimaryKey = [], PartitionBy = [], SampleBy = [], mt_TTL = [], mt_Settings = []\<rparr>\<rparr>)) =
     Some (pre @ '' ENGINE = Replicated'' @ post)"
  using WithReplication_statement [of "\<lparr>op_cluster = [], op_Database = ''db'', op_Table = ''t'',
       ct_Columns = [], ct_Indexes = [],
       ct_Projections = [], ct_Engine = EMergeTree \<lparr>Replicated = False, OrderBy = ''id'',
         PrimaryKey = [], PartitionBy = [], SampleBy = [], mt_TTL = [], mt_Settings = []\<rparr>\<rparr>"]
  by (simp add: CreateTableOperation_ToSQL_def)

end
