(* ===== verification/Migration_Effects.thy ===== *)
theory Migration_Effects
  imports Sql_Operations
begin

text \<open>
  The effects of the migration manager. ClickHouse, its Go client, the backoff package and
  \<open>net/netip\<close> are not part of the repository, so their answers are a parameter: \<open>env\<close> holds one
  function per kind of request, which may depend on the whole history of requests made before.
  A computation threads the manager's state (its cached host addresses and open connections) and
  the history of the requests it issued; its outcome is a value, an error, a panic, or
  \<open>Diverge\<close> when the fuel of a polling loop runs out. \<open>errors.Join\<close> concatenates error lists.
\<close>

section \<open>Requests, answers and state\<close>

datatype call =
    CExec string
  | CInsertEntry string nat string
  | CUpdateEntry string nat string "string list"
  | CStatusQuery string nat
  | CCountTables string string
  | CCountMigrations string
  | CHostRows "string option"
  | COpen string
  | CReset
  | CNextBackOff
  | CSleep
  | CSelectMutations string
  | CSelectDDL
  | CDistributionQueue string string string
  | CNewBackOff
  | CRetryBackOff
  | CDatabases
  | CReadyHosts
  | CPing string nat
  | CKeeper

datatype ddl_answer = DDLRows nat | DDLNoNode string | DDLError string

datatype status_answer = NoRows | Row string | StatusError string

record env =
  e_exec :: "call list \<Rightarrow> string \<Rightarrow> string option"
  e_insert :: "call list \<Rightarrow> string \<Rightarrow> nat \<Rightarrow> string \<Rightarrow> string option"
  e_update :: "call list \<Rightarrow> string \<Rightarrow> nat \<Rightarrow> string \<Rightarrow> string option"
  e_status :: "call list \<Rightarrow> string \<Rightarrow> nat \<Rightarrow> status_answer"
  e_tables :: "call list \<Rightarrow> string \<Rightarrow> string \<Rightarrow> string + nat"
  e_migrations :: "call list \<Rightarrow> string \<Rightarrow> string + nat"
  e_hostrows :: "call list \<Rightarrow> string option \<Rightarrow> string + (string \<times> nat) list"
  e_addrport :: "string \<Rightarrow> nat \<Rightarrow> string + string"
  e_iterate :: "string list \<Rightarrow> string list"
  e_open :: "call list \<Rightarrow> string \<Rightarrow> string option"
  e_stop :: "call list \<Rightarrow> bool"
  e_mutations :: "call list \<Rightarrow> string \<Rightarrow> string + nat"
  e_ddl :: "call list \<Rightarrow> ddl_answer"
  e_distribution :: "call list \<Rightarrow> string \<Rightarrow> string \<Rightarrow> string \<Rightarrow> string option"

text \<open>\<open>addrs\<close> and \<open>conns\<close> are the manager's caches, \<open>hist\<close> the requests issued so far.\<close>

record st =
  addrs :: "string list"
  conns :: "string list"
  hist :: "call list"

type_synonym err = "string list"

datatype 'a res = Ok 'a | Err err | Panic string | Diverge

type_synonym 'a comp = "st \<Rightarrow> 'a res \<times> st"

section \<open>Combinators\<close>

definition ret :: "'a \<Rightarrow> 'a comp" where
  "ret x s = (Ok x, s)"

definition fail :: "err \<Rightarrow> 'a comp" where
  "fail e s = (Err e, s)"

definition bnd :: "'a comp \<Rightarrow> ('a \<Rightarrow> 'b comp) \<Rightarrow> 'b comp" where
  "bnd m f s =
     (case m s of
        (Ok x, s') \<Rightarrow> f x s'
      | (Err e, s') \<Rightarrow> (Err e, s')
      | (Panic p, s') \<Rightarrow> (Panic p, s')
      | (Diverge, s') \<Rightarrow> (Diverge, s'))"

text \<open>\<open>if err != nil { return handler(err) }\<close>\<close>

definition on_err :: "'a comp \<Rightarrow> (err \<Rightarrow> 'a comp) \<Rightarrow> 'a comp" where
  "on_err m handler s = (case m s of (Err e, s') \<Rightarrow> handler e s' | r \<Rightarrow> r)"

text \<open>Issue a request: read the answer, then record the request in the history.\<close>

definition ask :: "call \<Rightarrow> (call list \<Rightarrow> 'a) \<Rightarrow> 'a comp" where
  "ask c q s = (Ok (q (hist s)), s\<lparr>hist := hist s @ [c]\<rparr>)"

definition ask_err :: "call \<Rightarrow> (call list \<Rightarrow> string option) \<Rightarrow> unit comp" where
  "ask_err c q = bnd (ask c q) (\<lambda>e. case e of None \<Rightarrow> ret () | Some msg \<Rightarrow> fail [msg])"

definition ask_sum :: "call \<Rightarrow> (call list \<Rightarrow> string + 'a) \<Rightarrow> 'a comp" where
  "ask_sum c q = bnd (ask c q) (\<lambda>r. case r of Inl msg \<Rightarrow> fail [msg] | Inr x \<Rightarrow> ret x)"

text \<open>\<open>for _, x := range xs { if err := body(x); err != nil { return err } }\<close>\<close>

fun for_each :: "('a \<Rightarrow> unit comp) \<Rightarrow> 'a list \<Rightarrow> unit comp" where
  "for_each body [] = ret ()"
| "for_each body (x # xs) = bnd (body x) (\<lambda>_. for_each body xs)"

lemma bnd_ret [simp]: "bnd (ret x) f = f x"
  by (simp add: bnd_def ret_def fun_eq_iff)

lemma bnd_assoc: "bnd (bnd m f) g = bnd m (\<lambda>x. bnd (f x) g)"
  by (auto simp: bnd_def fun_eq_iff split: res.splits prod.splits)

lemma for_each_append:
  "for_each body (xs @ ys) = bnd (for_each body xs) (\<lambda>_. for_each body ys)"
  by (induction xs) (simp_all add: bnd_assoc)

lemma for_each_skip:
  "for_each (\<lambda>x. if P x then body x else ret ()) xs = for_each body (filter P xs)"
  by (induction xs) auto

section \<open>Reasoning about the history\<close>

text \<open>
  \<open>emits P m\<close>: whatever \<open>m\<close> does, it only appends requests that satisfy \<open>P\<close>.
  \<open>returns m\<close>: it never diverges.
\<close>

definition emits :: "(call \<Rightarrow> bool) \<Rightarrow> 'a comp \<Rightarrow> bool" where
  "emits P m \<longleftrightarrow> (\<forall>s r s'. m s = (r, s') \<longrightarrow> (\<exists>t. hist s' = hist s @ t \<and> list_all P t))"

definition returns :: "'a comp \<Rightarrow> bool" where
  "returns m \<longleftrightarrow> (\<forall>s. fst (m s) \<noteq> Diverge)"

named_theorems emits_intros "which requests a computation can issue"
named_theorems returns_intros "computations that return"

lemma emitsD:
  assumes "emits P m" and "m s = (r, s')"
  obtains t where "hist s' = hist s @ t" and "list_all P t"
  using assms unfolding emits_def by blast

lemma emits_mono: "emits P m \<Longrightarrow> (\<And>c. P c \<Longrightarrow> Q c) \<Longrightarrow> emits Q m"
  unfolding emits_def by (metis list.pred_mono_strong)

lemma emits_ret [emits_intros]: "emits P (ret x)"
  by (simp add: emits_def ret_def)

lemma emits_fail [emits_intros]: "emits P (fail e)"
  by (simp add: emits_def fail_def)

lemma emits_panic [emits_intros]: "emits P (\<lambda>s. (Panic p, s))"
  by (simp add: emits_def)

lemma emits_diverge [emits_intros]: "emits P (\<lambda>s. (Diverge, s))"
  by (simp add: emits_def)

lemma emits_bnd [emits_intros]:
  assumes "emits P m" and "\<And>x. emits P (f x)"
  shows "emits P (bnd m f)"
  unfolding emits_def
proof (intro allI impI)
  fix s r s'
  assume run: "bnd m f s = (r, s')"
  obtain r1 s1 where m: "m s = (r1, s1)" by (cases "m s")
  with assms(1) obtain t where t: "hist s1 = hist s @ t" "list_all P t" by (rule emitsD)
  show "\<exists>t. hist s' = hist s @ t \<and> list_all P t"
  proof (cases r1)
    case (Ok x)
    with run m have "f x s1 = (r, s')" by (simp add: bnd_def)
    with assms(2) obtain t' where "hist s' = hist s1 @ t'" "list_all P t'" by (rule emitsD)
    with t show ?thesis by auto
  qed (use run m t in \<open>auto simp: bnd_def\<close>)
qed

lemma emits_on_err [emits_intros]:
  assumes "emits P m" and "\<And>e. emits P (h e)"
  shows "emits P (on_err m h)"
  unfolding emits_def
proof (intro allI impI)
  fix s r s'
  assume run: "on_err m h s = (r, s')"
  obtain r1 s1 where m: "m s = (r1, s1)" by (cases "m s")
  with assms(1) obtain t where t: "hist s1 = hist s @ t" "list_all P t" by (rule emitsD)
  show "\<exists>t. hist s' = hist s @ t \<and> list_all P t"
  proof (cases r1)
    case (Err e)
    with run m have "h e s1 = (r, s')" by (simp add: on_err_def)
    with assms(2) obtain t' where "hist s' = hist s1 @ t'" "list_all P t'" by (rule emitsD)
    with t show ?thesis by auto
  qed (use run m t in \<open>auto simp: on_err_def\<close>)
qed

lemma emits_ask [emits_intros]: "P c \<Longrightarrow> emits P (ask c q)"
  by (simp add: emits_def ask_def)

lemma emits_ask_err [emits_intros]: "P c \<Longrightarrow> emits P (ask_err c q)"
  unfolding ask_err_def by (intro emits_intros) (auto intro: emits_intros split: option.splits)

lemma emits_ask_sum [emits_intros]: "P c \<Longrightarrow> emits P (ask_sum c q)"
  unfolding ask_sum_def by (intro emits_intros) (auto intro: emits_intros split: sum.splits)

lemma emits_for_each [emits_intros]: "(\<And>x. x \<in> set xs \<Longrightarrow> emits P (body x)) \<Longrightarrow> emits P (for_each body xs)"
  by (induction xs) (auto intro: emits_intros)

lemma emits_if [emits_intros]:
  "(b \<Longrightarrow> emits P m) \<Longrightarrow> (\<not> b \<Longrightarrow> emits P n) \<Longrightarrow> emits P (if b then m else n)"
  by simp

lemma emits_let [emits_intros]: "emits P (f x) \<Longrightarrow> emits P (let y = x in f y)"
  by simp

lemma returns_ret [returns_intros]: "returns (ret x)"
  by (simp add: returns_def ret_def)

lemma returns_fail [returns_intros]: "returns (fail e)"
  by (simp add: returns_def fail_def)

lemma returns_panic [returns_intros]: "returns (\<lambda>s. (Panic p, s))"
  by (simp add: returns_def)

lemma returns_bnd [returns_intros]: "returns m \<Longrightarrow> (\<And>x. returns (f x)) \<Longrightarrow> returns (bnd m f)"
  unfolding returns_def bnd_def by (auto split: res.splits prod.splits) (metis fst_conv)

lemma returns_on_err [returns_intros]: "returns m \<Longrightarrow> (\<And>e. returns (h e)) \<Longrightarrow> returns (on_err m h)"
  unfolding returns_def on_err_def by (auto split: res.splits prod.splits) (metis fst_conv)

lemma returns_ask [returns_intros]: "returns (ask c q)"
  by (simp add: returns_def ask_def)

lemma returns_ask_err [returns_intros]: "returns (ask_err c q)"
  unfolding ask_err_def by (intro returns_intros) (auto intro: returns_intros split: option.splits)

lemma returns_ask_sum [returns_intros]: "returns (ask_sum c q)"
  unfolding ask_sum_def by (intro returns_intros) (auto intro: returns_intros split: sum.splits)

lemma returns_for_each [returns_intros]:
  "(\<And>x. x \<in> set xs \<Longrightarrow> returns (body x)) \<Longrightarrow> returns (for_each body xs)"
  by (induction xs) (auto intro: returns_intros)

lemma returns_if [returns_intros]:
  "(b \<Longrightarrow> returns m) \<Longrightarrow> (\<not> b \<Longrightarrow> returns n) \<Longrightarrow> returns (if b then m else n)"
  by simp

lemma returns_let [returns_intros]: "returns (f x) \<Longrightarrow> returns (let y = x in f y)"
  by simp

text \<open>Successful runs of the combinators, taken apart.\<close>

lemma bnd_OkE:
  assumes "bnd m f s = (Ok y, s')"
  obtains x s1 where "m s = (Ok x, s1)" and "f x s1 = (Ok y, s')"
  using assms by (auto simp: bnd_def split: res.splits prod.splits)

lemma on_err_fail_OkE:
  assumes "on_err m h s = (Ok y, s')" and "\<And>e s1 s2 y. h e s1 \<noteq> (Ok y, s2)"
  shows "m s = (Ok y, s')"
  using assms by (auto simp: on_err_def split: res.splits prod.splits)

lemma ask_err_OkE:
  assumes "ask_err c q s = (Ok u, s')"
  obtains "q (hist s) = None" and "s' = s\<lparr>hist := hist s @ [c]\<rparr>"
  using assms by (auto simp: ask_err_def bnd_def ask_def ret_def fail_def split: option.splits)

end
