(* ===== verification/Migration_Manager.thy ===== *)
theory Migration_Manager
  imports Migration_Effects
begin

text \<open>
  The migration manager (\<open>cmd/signozschemamigrator/schema_migrator/manager.go\<close>): host discovery,
  the waits for running mutations, for the distributed DDL queue and for the distribution queue,
  \<open>RunOperation\<close> with its status protocol, the decision whether a migration runs, and the four
  migration commands. \<open>Fuel\<close> bounds the polls of a wait; \<open>backoff_bounded\<close> states the documented
  behaviour of the backoff package (it stops after a bounded number of calls since its reset) and
  the theorems show that this fuel is then enough.
\<close>

section \<open>Configuration and constants\<close>

record manager =
  clusterName :: string
  replicationEnabled :: bool
  development :: bool
  Fuel :: nat

record SchemaMigrationRecord =
  MigrationID :: nat
  UpItems :: "Operation list"
  DownItems :: "Operation list"

text \<open>The migration lists are data; the theorems hold for all of them.\<close>

record migration_lists =
  TracesMigrations :: "SchemaMigrationRecord list"
  LogsMigrations :: "SchemaMigrationRecord list"
  MetricsMigrations :: "SchemaMigrationRecord list"
  MetadataMigrations :: "SchemaMigrationRecord list"
  AnalyticsMigrations :: "SchemaMigrationRecord list"
  MeterMigrations :: "SchemaMigrationRecord list"
  CustomRetentionLogsMigrations :: "SchemaMigrationRecord list"
  SquashedMetricsMigrations :: "SchemaMigrationRecord list"
  SquashedTracesMigrations :: "SchemaMigrationRecord list"

definition SignozLogsDB :: string where "SignozLogsDB = ''signoz_logs''"
definition SignozMetricsDB :: string where "SignozMetricsDB = ''signoz_metrics''"
definition SignozTracesDB :: string where "SignozTracesDB = ''signoz_traces''"
definition SignozMetadataDB :: string where "SignozMetadataDB = ''signoz_metadata''"
definition SignozAnalyticsDB :: string where "SignozAnalyticsDB = ''signoz_analytics''"
definition SignozMeterDB :: string where "SignozMeterDB = ''signoz_meter''"

lemmas db_defs = SignozLogsDB_def SignozMetricsDB_def SignozTracesDB_def SignozMetadataDB_def
  SignozAnalyticsDB_def SignozMeterDB_def

definition Databases :: "string list" where
  "Databases = [SignozTracesDB, SignozMetricsDB, SignozLogsDB, SignozMetadataDB,
     SignozAnalyticsDB, SignozMeterDB]"

definition InProgressStatus :: string where "InProgressStatus = ''in-progress''"
definition FinishedStatus :: string where "FinishedStatus = ''finished''"
definition FailedStatus :: string where "FailedStatus = ''failed''"

lemmas status_defs = InProgressStatus_def FinishedStatus_def FailedStatus_def

definition legacyMigrationsTable :: string where "legacyMigrationsTable = ''schema_migrations''"

section \<open>Creating the databases\<close>

definition createDBs :: "env \<Rightarrow> manager \<Rightarrow> unit comp" where
  "createDBs E m = for_each (\<lambda>db.
     (let cmd = ''CREATE DATABASE IF NOT EXISTS '' @ db @ '' ON CLUSTER '' @ clusterName m
      in on_err (ask_err (CExec cmd) (\<lambda>h. e_exec E h cmd))
           (\<lambda>e. fail (''failed to create dbs'' # e)))) Databases"

section \<open>Hosts and connections\<close>

text \<open>The addresses of the rows of one \<open>system.clusters\<close> query; the first bad address is an error.\<close>

fun scan_rows :: "env \<Rightarrow> (string \<times> nat) list \<Rightarrow> err + string list" where
  "scan_rows E [] = Inr []"
| "scan_rows E ((hostAddr, port) # rows) =
     (case e_addrport E hostAddr port of
        Inl e \<Rightarrow> Inl [''failed to get host addrs'', e]
      | Inr a \<Rightarrow> (case scan_rows E rows of Inl e \<Rightarrow> Inl e | Inr as \<Rightarrow> Inr (a # as)))"

definition query_hosts :: "env \<Rightarrow> string option \<Rightarrow> string \<Rightarrow> string list comp" where
  "query_hosts E via e0 =
     bnd (on_err (ask_sum (CHostRows via) (\<lambda>h. e_hostrows E h via)) (\<lambda>e. fail (e0 # e)))
       (\<lambda>rows. case scan_rows E rows of Inl e \<Rightarrow> fail e | Inr as \<Rightarrow> ret as)"

text \<open>
  \<open>HostAddrs\<close>: the keys of the address map are collected from the manager's own connection and, if
  there are any, from one more host, the first the map iteration yields.
\<close>

definition discoverHosts :: "env \<Rightarrow> string list comp" where
  "discoverHosts E =
     bnd (query_hosts E None ''failed to get host addrs'') (\<lambda>as.
       let hostAddrs = remdups as in
       bnd (if hostAddrs \<noteq> []
            then (let other = hd (e_iterate E hostAddrs) in
              bnd (on_err (ask_err (COpen other) (\<lambda>h. e_open E h other))
                     (\<lambda>e. fail (''failed to get conn'' # e)))
                (\<lambda>_. bnd (query_hosts E (Some other) ''failed to get conn'')
                  (\<lambda>bs. ret (remdups (hostAddrs @ bs)))))
            else ret hostAddrs)
         (\<lambda>all s. let out = e_iterate E all in (Ok out, s\<lparr>addrs := out\<rparr>)))"

definition HostAddrs :: "env \<Rightarrow> manager \<Rightarrow> string list comp" where
  "HostAddrs E m s =
     (if development m then ret [] s
      else if length (addrs s) \<noteq> 0 then ret (addrs s) s
      else discoverHosts E s)"

definition getConn :: "env \<Rightarrow> string \<Rightarrow> unit comp" where
  "getConn E hostAddr s =
     (if hostAddr \<in> set (conns s) then ret () s
      else bnd (ask_err (COpen hostAddr) (\<lambda>h. e_open E h hostAddr))
             (\<lambda>_ s'. (Ok (), s'\<lparr>conns := hostAddr # conns s'\<rparr>)) s)"

section \<open>Waiting\<close>

fun poll_mutations :: "nat \<Rightarrow> env \<Rightarrow> string \<Rightarrow> unit comp" where
  "poll_mutations 0 E host = (\<lambda>s. (Diverge, s))"
| "poll_mutations (Suc n) E host =
     bnd (ask CNextBackOff (e_stop E)) (\<lambda>stop.
       if stop then fail [''backoff stopped'']
       else bnd (ask_sum (CSelectMutations host) (\<lambda>h. e_mutations E h host)) (\<lambda>k.
         if k \<noteq> 0
         then bnd (ask CNextBackOff (e_stop E)) (\<lambda>_. bnd (ask CSleep (\<lambda>_. ())) (\<lambda>_. poll_mutations n E host))
         else ret ()))"

definition waitForMutationsOnHost :: "env \<Rightarrow> manager \<Rightarrow> string \<Rightarrow> unit comp" where
  "waitForMutationsOnHost E m host =
     bnd (ask CReset (\<lambda>_. ())) (\<lambda>_. bnd (getConn E host) (\<lambda>_. poll_mutations (Fuel m) E host))"

definition WaitForRunningMutations :: "env \<Rightarrow> manager \<Rightarrow> unit comp" where
  "WaitForRunningMutations E m =
     bnd (HostAddrs E m) (for_each (\<lambda>host.
       on_err (waitForMutationsOnHost E m host)
         (\<lambda>e. fail (''failed to wait for mutations'' # e))))"

text \<open>
  The queue is fetched at most ten times; a "No node" exception is retried and, after the tenth,
  the (empty) queue read so far is returned without an error.
\<close>

fun fetch_ddl :: "nat \<Rightarrow> env \<Rightarrow> nat comp" where
  "fetch_ddl 0 E = ret 0"
| "fetch_ddl (Suc i) E =
     bnd (ask CSelectDDL (e_ddl E)) (\<lambda>r. case r of
        DDLRows k \<Rightarrow> ret k
      | DDLNoNode _ \<Rightarrow> fetch_ddl i E
      | DDLError e \<Rightarrow> fail [e])"

definition getDistributedDDLQueue :: "env \<Rightarrow> nat comp" where
  "getDistributedDDLQueue E = fetch_ddl 10 E"

fun poll_ddl :: "nat \<Rightarrow> env \<Rightarrow> unit comp" where
  "poll_ddl 0 E = (\<lambda>s. (Diverge, s))"
| "poll_ddl (Suc n) E =
     bnd (ask CNextBackOff (e_stop E)) (\<lambda>stop.
       if stop then fail [''backoff stopped'']
       else bnd (getDistributedDDLQueue E) (\<lambda>k.
         if k \<noteq> 0
         then bnd (ask CNextBackOff (e_stop E)) (\<lambda>_. bnd (ask CSleep (\<lambda>_. ())) (\<lambda>_. poll_ddl n E))
         else ret ()))"

definition WaitDistributedDDLQueue :: "env \<Rightarrow> manager \<Rightarrow> unit comp" where
  "WaitDistributedDDLQueue E m = bnd (ask CReset (\<lambda>_. ())) (\<lambda>_. poll_ddl (Fuel m) E)"

text \<open>
  The wait on one host (a goroutine that counts inserts against a two-minute timer) is one request
  whose answer is its error, if any.
\<close>

definition WaitForDistributionQueue :: "env \<Rightarrow> manager \<Rightarrow> string \<Rightarrow> string \<Rightarrow> unit comp" where
  "WaitForDistributionQueue E m db table =
     on_err (bnd (HostAddrs E m) (for_each (\<lambda>host.
       bnd (getConn E host) (\<lambda>_.
         ask_err (CDistributionQueue host db table) (\<lambda>h. e_distribution E h host db table)))))
       (\<lambda>e. fail (''failed to wait for distribution queue'' # e))"

section \<open>Running one operation\<close>

definition insertMigrationEntry :: "env \<Rightarrow> string \<Rightarrow> nat \<Rightarrow> string \<Rightarrow> unit comp" where
  "insertMigrationEntry E db mid status =
     ask_err (CInsertEntry db mid status) (\<lambda>h. e_insert E h db mid status)"

definition updateMigrationEntry :: "env \<Rightarrow> string \<Rightarrow> nat \<Rightarrow> string \<Rightarrow> err \<Rightarrow> unit comp" where
  "updateMigrationEntry E db mid status msg =
     ask_err (CUpdateEntry db mid status msg) (\<lambda>h. e_update E h db mid status)"

text \<open>On an error: record the failure; if that fails too, return both errors.\<close>

definition record_failure :: "env \<Rightarrow> string \<Rightarrow> nat \<Rightarrow> err \<Rightarrow> unit comp" where
  "record_failure E db mid e =
     bnd (on_err (updateMigrationEntry E db mid FailedStatus e) (\<lambda>ue. fail (e @ ue))) (\<lambda>_. fail e)"

definition prepareOperation :: "manager \<Rightarrow> Operation \<Rightarrow> Operation" where
  "prepareOperation m op =
     (let op = (if clusterName m \<noteq> [] then Op_OnCluster (clusterName m) op else op)
      in if replicationEnabled m then Op_WithReplication op else op)"

definition execOperation :: "env \<Rightarrow> Operation \<Rightarrow> unit comp" where
  "execOperation E op =
     (case Op_ToSQL op of
        None \<Rightarrow> (\<lambda>s. (Panic ''nil column type'', s))
      | Some sql \<Rightarrow> ask_err (CExec sql) (\<lambda>h. e_exec E h sql))"

definition RunOperation ::
    "env \<Rightarrow> manager \<Rightarrow> Operation \<Rightarrow> nat \<Rightarrow> string \<Rightarrow> bool \<Rightarrow> unit comp" where
  "RunOperation E m operation mid database skipStatusUpdate =
     (let op = prepareOperation m operation in
      bnd (on_err (WaitForRunningMutations E m) (record_failure E database mid)) (\<lambda>_.
      bnd (on_err (WaitDistributedDDLQueue E m) (record_failure E database mid)) (\<lambda>_.
      bnd (case shouldWait (Op_attrs op) of (wait, qdb, qtable) \<Rightarrow>
             if wait
             then on_err (WaitForDistributionQueue E m qdb qtable) (record_failure E qdb mid)
             else ret ()) (\<lambda>_.
      bnd (if \<not> skipStatusUpdate then insertMigrationEntry E database mid InProgressStatus
           else ret ()) (\<lambda>_.
      bnd (on_err (execOperation E op) (record_failure E database mid)) (\<lambda>_.
      bnd (on_err (WaitForRunningMutations E m) (record_failure E database mid)) (\<lambda>_.
      bnd (on_err (WaitDistributedDDLQueue E m) (record_failure E database mid)) (\<lambda>_.
      if \<not> skipStatusUpdate then updateMigrationEntry E database mid FinishedStatus []
      else ret ()))))))))"

definition RunOperationWithoutUpdate ::
    "env \<Rightarrow> manager \<Rightarrow> Operation \<Rightarrow> nat \<Rightarrow> string \<Rightarrow> unit comp" where
  "RunOperationWithoutUpdate E m operation mid database =
     (let op = prepareOperation m operation in
      bnd (WaitForRunningMutations E m) (\<lambda>_.
      bnd (WaitDistributedDDLQueue E m) (\<lambda>_.
      bnd (case shouldWait (Op_attrs op) of (wait, qdb, qtable) \<Rightarrow>
             if wait then WaitForDistributionQueue E m qdb qtable else ret ()) (\<lambda>_.
      execOperation E op))))"

definition CheckMigrationStatus :: "env \<Rightarrow> string \<Rightarrow> nat \<Rightarrow> string \<Rightarrow> bool comp" where
  "CheckMigrationStatus E db mid status =
     bnd (ask (CStatusQuery db mid) (\<lambda>h. e_status E h db mid)) (\<lambda>r. case r of
        NoRows \<Rightarrow> ret False
      | StatusError e \<Rightarrow> fail [e]
      | Row s \<Rightarrow> ret (s = status))"

text \<open>
  \<open>Bootstrap\<close>: the databases, then the migrations tables of each database, given as the list of
  the \<open>V2MigrationTables...\<close> in source order. Status updates are skipped: there is no table yet.
\<close>

definition Bootstrap :: "env \<Rightarrow> manager \<Rightarrow> (string \<times> SchemaMigrationRecord list) list \<Rightarrow> unit comp" where
  "Bootstrap E m tables =
     bnd (on_err (createDBs E m) (\<lambda>e. fail (''failed to create dbs'' # e))) (\<lambda>_.
     for_each (\<lambda>(db, migrations). for_each (\<lambda>migration. for_each (\<lambda>item.
       on_err (RunOperation E m item (MigrationID migration) db True)
         (\<lambda>e. fail (''failed to create schema_migrations_v2 table'' # e))) (UpItems migration))
       migrations) tables)"

section \<open>Which migrations and which operations run\<close>

definition shouldRunMigration :: "env \<Rightarrow> string \<Rightarrow> nat \<Rightarrow> nat list \<Rightarrow> bool comp" where
  "shouldRunMigration E db mid versions =
     (if length versions \<noteq> 0 \<and> mid \<notin> set versions then ret False
      else bnd (ask (CStatusQuery db mid) (\<lambda>h. e_status E h db mid)) (\<lambda>r. case r of
             NoRows \<Rightarrow> ret True
           | StatusError e \<Rightarrow> (\<lambda>s. (Panic e, s))
           | Row s \<Rightarrow> ret (s \<noteq> InProgressStatus \<and> s \<noteq> FinishedStatus)))"

definition IsSyncOperation :: "Operation \<Rightarrow> bool" where
  "IsSyncOperation item \<longleftrightarrow>
     forceMigrate (Op_attrs item) \<or>
     (\<not> isMutation (Op_attrs item) \<and> isIdempotent (Op_attrs item) \<and> isLightweight (Op_attrs item))"

definition IsSync :: "SchemaMigrationRecord \<Rightarrow> bool" where
  "IsSync migration = list_ex IsSyncOperation (UpItems migration)"

definition IsAsyncOperation :: "Operation \<Rightarrow> bool" where
  "IsAsyncOperation item =
     (if forceMigrate (Op_attrs item) then False
      else if \<not> isMutation (Op_attrs item) \<and> isIdempotent (Op_attrs item) \<and>
              isLightweight (Op_attrs item) then False
      else True)"

definition IsAsync :: "SchemaMigrationRecord \<Rightarrow> bool" where
  "IsAsync migration = list_ex IsAsyncOperation (UpItems migration)"

definition executeSyncOperations ::
    "env \<Rightarrow> manager \<Rightarrow> Operation list \<Rightarrow> nat \<Rightarrow> string \<Rightarrow> unit comp" where
  "executeSyncOperations E m operations mid db = for_each (\<lambda>item.
     if forceMigrate (Op_attrs item) \<or>
        (\<not> isMutation (Op_attrs item) \<and> isIdempotent (Op_attrs item) \<and> isLightweight (Op_attrs item))
     then RunOperation E m item mid db False
     else ret ()) operations"

text \<open>The body of the asynchronous commands' inner loop.\<close>

definition executeAsyncOperations ::
    "env \<Rightarrow> manager \<Rightarrow> Operation list \<Rightarrow> nat \<Rightarrow> string \<Rightarrow> unit comp" where
  "executeAsyncOperations E m operations mid db = for_each (\<lambda>item.
     if forceMigrate (Op_attrs item) then ret ()
     else if \<not> isMutation (Op_attrs item) \<and> isIdempotent (Op_attrs item) \<and>
             isLightweight (Op_attrs item) then ret ()
     else if isIdempotent (Op_attrs item) then RunOperation E m item mid db False
     else ret ()) operations"

text \<open>One \<open>for _, migration := range ...\<close> loop of a command.\<close>

definition run_phase ::
    "(Operation list \<Rightarrow> nat \<Rightarrow> string \<Rightarrow> unit comp) \<Rightarrow> (SchemaMigrationRecord \<Rightarrow> Operation list) \<Rightarrow>
     env \<Rightarrow> nat list \<Rightarrow> string \<Rightarrow> SchemaMigrationRecord list \<Rightarrow> unit comp" where
  "run_phase execute items E versions db migrations = for_each (\<lambda>migration.
     bnd (shouldRunMigration E db (MigrationID migration) versions) (\<lambda>should.
       if \<not> should then ret () else execute (items migration) (MigrationID migration) db)) migrations"

definition MigrateUpSync :: "env \<Rightarrow> manager \<Rightarrow> migration_lists \<Rightarrow> nat list \<Rightarrow> unit comp" where
  "MigrateUpSync E m L upVersions =
     (let phase = run_phase (executeSyncOperations E m) UpItems E upVersions in
      bnd (phase SignozTracesDB (TracesMigrations L)) (\<lambda>_.
      bnd (phase SignozLogsDB (LogsMigrations L)) (\<lambda>_.
      bnd (phase SignozMetricsDB (MetricsMigrations L)) (\<lambda>_.
      bnd (phase SignozMetadataDB (MetadataMigrations L)) (\<lambda>_.
      bnd (phase SignozAnalyticsDB (AnalyticsMigrations L)) (\<lambda>_.
      phase SignozMeterDB (MeterMigrations L)))))))"

definition MigrateDownSync :: "env \<Rightarrow> manager \<Rightarrow> migration_lists \<Rightarrow> nat list \<Rightarrow> unit comp" where
  "MigrateDownSync E m L downVersions =
     (let phase = run_phase (executeSyncOperations E m) DownItems E downVersions in
      bnd (phase SignozTracesDB (TracesMigrations L)) (\<lambda>_.
      bnd (phase SignozLogsDB (LogsMigrations L)) (\<lambda>_.
      bnd (phase SignozMetricsDB (MetricsMigrations L)) (\<lambda>_.
      bnd (phase SignozAnalyticsDB (AnalyticsMigrations L)) (\<lambda>_.
      phase SignozMeterDB (MeterMigrations L))))))"

definition MigrateUpAsync :: "env \<Rightarrow> manager \<Rightarrow> migration_lists \<Rightarrow> nat list \<Rightarrow> unit comp" where
  "MigrateUpAsync E m L upVersions =
     (let phase = run_phase (executeAsyncOperations E m) UpItems E upVersions in
      bnd (phase SignozTracesDB (TracesMigrations L)) (\<lambda>_.
      bnd (phase SignozMetricsDB (MetricsMigrations L)) (\<lambda>_.
      phase SignozLogsDB (LogsMigrations L))))"

definition MigrateDownAsync :: "env \<Rightarrow> manager \<Rightarrow> migration_lists \<Rightarrow> nat list \<Rightarrow> unit comp" where
  "MigrateDownAsync E m L downVersions =
     (let phase = run_phase (executeAsyncOperations E m) DownItems E downVersions in
      bnd (phase SignozTracesDB (TracesMigrations L)) (\<lambda>_.
      bnd (phase SignozMetricsDB (MetricsMigrations L)) (\<lambda>_.
      phase SignozLogsDB (LogsMigrations L))))"

section \<open>Squashed migrations\<close>

definition shouldRunSquashed :: "env \<Rightarrow> string \<Rightarrow> bool comp" where
  "shouldRunSquashed E db =
     bnd (ask_sum (CCountTables db legacyMigrationsTable) (\<lambda>h. e_tables E h db legacyMigrationsTable)) (\<lambda>cnt.
     bnd (ask_sum (CCountTables db ''schema_migrations_v2'') (\<lambda>h. e_tables E h db ''schema_migrations_v2'')) (\<lambda>countV2.
     bnd (if countV2 > 0
          then bnd (ask_sum (CCountMigrations db) (\<lambda>h. e_migrations E h db)) (\<lambda>k. ret (k > 0))
          else ret False) (\<lambda>didMigrateV2.
     ret (cnt = 0 \<and> \<not> didMigrateV2))))"

definition ShouldRunSquashedV2 :: "env \<Rightarrow> string \<Rightarrow> bool comp" where
  "ShouldRunSquashedV2 E db =
     bnd (ask_sum (CCountTables db legacyMigrationsTable) (\<lambda>h. e_tables E h db legacyMigrationsTable))
       (\<lambda>cnt. ret (cnt = 0))"

definition runSquashedFor ::
    "env \<Rightarrow> manager \<Rightarrow> string \<Rightarrow> SchemaMigrationRecord list \<Rightarrow> unit comp" where
  "runSquashedFor E m db migrations =
     bnd (shouldRunSquashed E db) (\<lambda>should.
       if \<not> should then ret ()
       else for_each (\<lambda>migration. for_each (\<lambda>item.
              RunOperation E m item (MigrationID migration) db False) (UpItems migration)) migrations)"

definition runCustomRetentionMigrationsForLogs :: "env \<Rightarrow> manager \<Rightarrow> migration_lists \<Rightarrow> unit comp" where
  "runCustomRetentionMigrationsForLogs E m L =
     runSquashedFor E m ''signoz_logs'' (CustomRetentionLogsMigrations L)"

definition runSquashedMigrationsForMetrics :: "env \<Rightarrow> manager \<Rightarrow> migration_lists \<Rightarrow> unit comp" where
  "runSquashedMigrationsForMetrics E m L =
     runSquashedFor E m SignozMetricsDB (SquashedMetricsMigrations L)"

definition runSquashedMigrationsForTraces :: "env \<Rightarrow> manager \<Rightarrow> migration_lists \<Rightarrow> unit comp" where
  "runSquashedMigrationsForTraces E m L =
     runSquashedFor E m SignozTracesDB (SquashedTracesMigrations L)"

definition RunSquashedMigrations :: "env \<Rightarrow> manager \<Rightarrow> migration_lists \<Rightarrow> unit comp" where
  "RunSquashedMigrations E m L =
     (let wrap = (\<lambda>c. on_err c (\<lambda>e. fail (''failed to run squashed migrations'' # e))) in
      bnd (wrap (runCustomRetentionMigrationsForLogs E m L)) (\<lambda>_.
      bnd (wrap (runSquashedMigrationsForMetrics E m L)) (\<lambda>_.
      wrap (runSquashedMigrationsForTraces E m L))))"

end
