(* ===== verification/Migration_Literals.thy ===== *)
theory Migration_Literals
  imports Migration_Manager
begin

text \<open>
  Composite literals of the migration lists. A Go struct literal leaves out the fields that have
  their zero value; the functions here take the fields the migration lists of
  \<open>cmd/signozschemamigrator/schema_migrator\<close> do write and fill in the zero values of the others.
  The theories \<open>Migrations_*\<close> hold the lists themselves, one definition per migration, field by
  field as in the source.
\<close>

section \<open>Primitive column types\<close>

definition ColumnTypeInt8 :: ColumnType where
  "ColumnTypeInt8 = PrimitiveColumnType ''Int8'' ColumnTypeEnumInt8"
definition ColumnTypeInt16 :: ColumnType where
  "ColumnTypeInt16 = PrimitiveColumnType ''Int16'' ColumnTypeEnumInt16"
definition ColumnTypeUInt8 :: ColumnType where
  "ColumnTypeUInt8 = PrimitiveColumnType ''UInt8'' ColumnTypeEnumUInt8"
definition ColumnTypeUInt16 :: ColumnType where
  "ColumnTypeUInt16 = PrimitiveColumnType ''UInt16'' ColumnTypeEnumUInt16"
definition ColumnTypeUInt32 :: ColumnType where
  "ColumnTypeUInt32 = PrimitiveColumnType ''UInt32'' ColumnTypeEnumUInt32"
definition ColumnTypeFloat64 :: ColumnType where
  "ColumnTypeFloat64 = PrimitiveColumnType ''Float64'' ColumnTypeEnumFloat64"
definition ColumnTypeBool :: ColumnType where
  "ColumnTypeBool = PrimitiveColumnType ''Bool'' ColumnTypeEnumBool"

section \<open>Text\<close>

text \<open>A line break of a raw string literal, followed by \<open>n\<close> tabulators.\<close>

definition br :: "nat \<Rightarrow> string" where
  "br n = CHR 0x0A # replicate n (CHR 0x09)"

section \<open>Columns, indexes, settings and engines\<close>

definition col :: "string \<Rightarrow> ColumnType \<Rightarrow> string \<Rightarrow> string \<Rightarrow> Column" where
  "col name ty codec dflt = Column name (Some ty) codec [] dflt [] [] None []"

definition col_name :: "string \<Rightarrow> Column" where
  "col_name name = Column name None [] [] [] [] [] None []"

definition idx :: "string \<Rightarrow> string \<Rightarrow> string \<Rightarrow> int \<Rightarrow> Index" where
  "idx name expression ty granularity =
     \<lparr>idx_Name = name, idx_Expression = expression, idx_Type = ty, idx_Granularity = granularity\<rparr>"

definition setting :: "string \<Rightarrow> string \<Rightarrow> TableSetting" where
  "setting name val = \<lparr>ts_Name = name, ts_Value = val\<rparr>"

definition projection :: "string \<Rightarrow> string \<Rightarrow> Projection" where
  "projection name query = \<lparr>p_Name = name, p_Query = query\<rparr>"

definition merge_tree ::
    "string \<Rightarrow> string \<Rightarrow> string \<Rightarrow> string \<Rightarrow> TableSetting list \<Rightarrow> MergeTree" where
  "merge_tree orderBy primaryKey partitionBy ttl settings =
     \<lparr>Replicated = False, OrderBy = orderBy, PrimaryKey = primaryKey, PartitionBy = partitionBy,
      SampleBy = [], mt_TTL = ttl, mt_Settings = settings\<rparr>"

definition replacing :: "MergeTree \<Rightarrow> string \<Rightarrow> TableEngine" where
  "replacing mt version = EReplacing (MergeTree.extend mt (ReplacingMergeTree.fields version))"

definition distributed :: "string \<Rightarrow> string \<Rightarrow> string \<Rightarrow> TableEngine" where
  "distributed db table shardingKey =
     EDistributed \<lparr>d_Cluster = [], d_Database = db, d_Table = table, d_ShardingKey = shardingKey\<rparr>"

text \<open>\<open>JSONPathsIndexExpr\<close> and \<open>JSONFullTextIndexExpr\<close> of \<open>index_operations.go\<close>\<close>

definition JSONPathsIndexExpr :: "string \<Rightarrow> string" where
  "JSONPathsIndexExpr column = ''JSONAllPaths('' @ column @ '')''"

definition JSONFullTextIndexExpr :: "string \<Rightarrow> string" where
  "JSONFullTextIndexExpr column = ''lower(toString('' @ column @ ''))''"

section \<open>Operations\<close>

definition create_table :: "string \<Rightarrow> string \<Rightarrow> Column list \<Rightarrow> Index list \<Rightarrow> Projection list \<Rightarrow>
    TableEngine \<Rightarrow> Operation" where
  "create_table db table columns indexes projections engine =
     OpCreateTable \<lparr>op_cluster = [], op_Database = db, op_Table = table, ct_Columns = columns,
       ct_Indexes = indexes, ct_Projections = projections, ct_Engine = engine\<rparr>"

definition drop_table :: "string \<Rightarrow> string \<Rightarrow> Operation" where
  "drop_table db table =
     OpDropTable \<lparr>op_cluster = [], op_Database = db, op_Table = table, dt_Settings = []\<rparr>"

definition create_view :: "string \<Rightarrow> string \<Rightarrow> string \<Rightarrow> Column list \<Rightarrow> string \<Rightarrow> Operation" where
  "create_view db view dest columns query =
     OpCreateMaterializedView \<lparr>op_cluster = [], op_Database = db, ViewName = view, DestTable = dest,
       mv_Columns = columns, mv_Query = query\<rparr>"

definition create_refreshable_view :: "string \<Rightarrow> string \<Rightarrow> string \<Rightarrow> Column list \<Rightarrow> string \<Rightarrow>
    string \<Rightarrow> string \<Rightarrow> bool \<Rightarrow> bool \<Rightarrow> Operation" where
  "create_refreshable_view db view dest columns query every randomize app emp =
     OpCreateRefreshableMaterializedView \<lparr>op_cluster = [], op_Database = db, ViewName = view,
       DestTable = dest, mv_Columns = columns, mv_Query = query, RefreshEvery = every,
       RandomizeFor = randomize, Append = app, Empty = emp, Definer = [], SQLSecurity = []\<rparr>"

definition modify_query :: "string \<Rightarrow> string \<Rightarrow> string \<Rightarrow> Operation" where
  "modify_query db view query =
     OpModifyQueryMaterializedView \<lparr>op_cluster = [], op_Database = db, mq_ViewName = view, mq_Query = query\<rparr>"

definition modify_ttl :: "string \<Rightarrow> string \<Rightarrow> string \<Rightarrow> bool \<Rightarrow> Operation" where
  "modify_ttl db table ttl materialize =
     OpModifyTTL \<lparr>op_cluster = [], op_Database = db, op_Table = table, mttl_TTL = ttl,
       MaterializeTTLAfterModify = materialize\<rparr>"

definition drop_table_ttl :: "string \<Rightarrow> string \<Rightarrow> Operation" where
  "drop_table_ttl db table = OpDropTTL \<lparr>op_cluster = [], op_Database = db, op_Table = table\<rparr>"

definition modify_settings :: "string \<Rightarrow> string \<Rightarrow> TableSetting list \<Rightarrow> Operation" where
  "modify_settings db table settings =
     OpModifySettings \<lparr>op_cluster = [], op_Database = db, op_Table = table, ms_Settings = settings\<rparr>"

definition add_column :: "string \<Rightarrow> string \<Rightarrow> Column \<Rightarrow> Column option \<Rightarrow> Operation" where
  "add_column db table column after =
     OpAddColumn \<lparr>op_cluster = [], op_Database = db, op_Table = table, op_Column = column, ac_After = after\<rparr>"

definition drop_column :: "string \<Rightarrow> string \<Rightarrow> Column \<Rightarrow> Operation" where
  "drop_column db table column =
     OpDropColumn \<lparr>op_cluster = [], op_Database = db, op_Table = table, op_Column = column\<rparr>"

definition modify_column :: "string \<Rightarrow> string \<Rightarrow> Column \<Rightarrow> Operation" where
  "modify_column db table column =
     OpModifyColumn \<lparr>op_cluster = [], op_Database = db, op_Table = table, op_Column = column\<rparr>"

definition materialize_column :: "string \<Rightarrow> string \<Rightarrow> Column \<Rightarrow> Operation" where
  "materialize_column db table column =
     OpMaterializeColumn \<lparr>op_cluster = [], op_Database = db, op_Table = table, op_Column = column,
       matc_Partition = [], matc_PartitionID = []\<rparr>"

definition add_index :: "string \<Rightarrow> string \<Rightarrow> Index \<Rightarrow> Operation" where
  "add_index db table index =
     OpAddIndex \<lparr>op_cluster = [], op_Database = db, op_Table = table, op_Index = index\<rparr>"

definition drop_index :: "string \<Rightarrow> string \<Rightarrow> Index \<Rightarrow> Operation" where
  "drop_index db table index =
     OpDropIndex \<lparr>op_cluster = [], op_Database = db, op_Table = table, op_Index = index\<rparr>"

definition insert_into :: "string \<Rightarrow> string \<Rightarrow> string list \<Rightarrow> bool \<Rightarrow> bool \<Rightarrow> string \<Rightarrow> Operation" where
  "insert_into db table columns lightWeight synchronous vals =
     OpInsertIntoTable \<lparr>op_cluster = [], op_Database = db, op_Table = table, ins_Columns = columns,
       LightWeight = lightWeight, Synchronous = synchronous, ins_Values = vals\<rparr>"

definition migration :: "nat \<Rightarrow> Operation list \<Rightarrow> Operation list \<Rightarrow> SchemaMigrationRecord" where
  "migration mid up down = \<lparr>MigrationID = mid, UpItems = up, DownItems = down\<rparr>"

section \<open>What an operation refers to\<close>

text \<open>
  The database an operation names, the tables it refers to, and the one it creates or drops. A
  distributed table refers to the table it distributes, a view to the table it writes to, an ALTER or
  INSERT to its table; a DROP has IF EXISTS and refers to none.
\<close>

fun op_db :: "Operation \<Rightarrow> string" where
  "op_db (OpCreateTable a) = op_Database a"
| "op_db (OpDropTable a) = op_Database a"
| "op_db (OpCreateMaterializedView a) = op_Database a"
| "op_db (OpCreateRefreshableMaterializedView a) = op_Database a"
| "op_db (OpModifyQueryMaterializedView a) = op_Database a"
| "op_db (OpTruncateTable a) = op_Database a"
| "op_db (OpModifyTTL a) = op_Database a"
| "op_db (OpDropTTL a) = op_Database a"
| "op_db (OpModifySettings a) = op_Database a"
| "op_db (OpAddColumn a) = op_Database a"
| "op_db (OpDropColumn a) = op_Database a"
| "op_db (OpModifyColumn a) = op_Database a"
| "op_db (OpModifyColumnRemove a) = op_Database a"
| "op_db (OpModifyColumnModifySettings a) = op_Database a"
| "op_db (OpModifyColumnResetSettings a) = op_Database a"
| "op_db (OpMaterializeColumn a) = op_Database a"
| "op_db (OpAddIndex a) = op_Database a"
| "op_db (OpDropIndex a) = op_Database a"
| "op_db (OpMaterializeIndex a) = op_Database a"
| "op_db (OpClearIndex a) = op_Database a"
| "op_db (OpCreateProjection a) = op_Database a"
| "op_db (OpDropProjection a) = op_Database a"
| "op_db (OpInsertIntoTable a) = op_Database a"

fun engine_needs :: "TableEngine \<Rightarrow> string list" where
  "engine_needs (EDistributed d) = [d_Table d]"
| "engine_needs _ = []"

fun needs :: "Operation \<Rightarrow> string list" where
  "needs (OpCreateTable a) = engine_needs (ct_Engine a)"
| "needs (OpDropTable a) = []"
| "needs (OpCreateMaterializedView a) = [DestTable a]"
| "needs (OpCreateRefreshableMaterializedView a) = [DestTable a]"
| "needs (OpModifyQueryMaterializedView a) = [mq_ViewName a]"
| "needs (OpTruncateTable a) = [op_Table a]"
| "needs (OpModifyTTL a) = [op_Table a]"
| "needs (OpDropTTL a) = [op_Table a]"
| "needs (OpModifySettings a) = [op_Table a]"
| "needs (OpAddColumn a) = [op_Table a]"
| "needs (OpDropColumn a) = [op_Table a]"
| "needs (OpModifyColumn a) = [op_Table a]"
| "needs (OpModifyColumnRemove a) = [op_Table a]"
| "needs (OpModifyColumnModifySettings a) = [op_Table a]"
| "needs (OpModifyColumnResetSettings a) = [op_Table a]"
| "needs (OpMaterializeColumn a) = [op_Table a]"
| "needs (OpAddIndex a) = [op_Table a]"
| "needs (OpDropIndex a) = [op_Table a]"
| "needs (OpMaterializeIndex a) = [op_Table a]"
| "needs (OpClearIndex a) = [op_Table a]"
| "needs (OpCreateProjection a) = [op_Table a]"
| "needs (OpDropProjection a) = [op_Table a]"
| "needs (OpInsertIntoTable a) = [op_Table a]"

fun makes :: "Operation \<Rightarrow> string option" where
  "makes (OpCreateTable a) = Some (op_Table a)"
| "makes (OpCreateMaterializedView a) = Some (ViewName a)"
| "makes (OpCreateRefreshableMaterializedView a) = Some (ViewName a)"
| "makes _ = None"

fun removes :: "Operation \<Rightarrow> string option" where
  "removes (OpDropTable a) = Some (op_Table a)"
| "removes _ = None"

section \<open>Facts about the literals\<close>

named_theorems lit_facts "attributes and references of the literals"
named_theorems lit_congs "literals are not simplified inside"

lemma migration_facts [lit_facts]:
  "MigrationID (migration mid up down) = mid" "UpItems (migration mid up down) = up"
  "DownItems (migration mid up down) = down"
  by (simp_all add: migration_def)

lemma engine_facts [lit_facts]:
  "engine_needs (EMergeTree mt) = []" "engine_needs (replacing mt v) = []"
  "engine_needs (EAggregating mt) = []" "engine_needs (ESumming mt) = []"
  "engine_needs (distributed db tbl key) = [tbl]"
  by (simp_all add: replacing_def distributed_def)

lemma create_table_facts [lit_facts]:
  "IsSyncOperation (create_table db tbl columns indexes projections engine) = True"
  "isIdempotent (Op_attrs (create_table db tbl columns indexes projections engine)) = True"
  "op_db (create_table db tbl columns indexes projections engine) = db"
  "needs (create_table db tbl columns indexes projections engine) = engine_needs engine"
  "makes (create_table db tbl columns indexes projections engine) = Some tbl"
  "removes (create_table db tbl columns indexes projections engine) = None"
  by (simp_all add: create_table_def IsSyncOperation_def attrs_defs)

lemma drop_table_facts [lit_facts]:
  "IsSyncOperation (drop_table db tbl) = False"
  "isIdempotent (Op_attrs (drop_table db tbl)) = True"
  "op_db (drop_table db tbl) = db"
  "needs (drop_table db tbl) = []"
  "makes (drop_table db tbl) = None"
  "removes (drop_table db tbl) = Some tbl"
  by (simp_all add: drop_table_def IsSyncOperation_def attrs_defs)

lemma create_view_facts [lit_facts]:
  "IsSyncOperation (create_view db view dest columns query) = True"
  "isIdempotent (Op_attrs (create_view db view dest columns query)) = True"
  "op_db (create_view db view dest columns query) = db"
  "needs (create_view db view dest columns query) = [dest]"
  "makes (create_view db view dest columns query) = Some view"
  "removes (create_view db view dest columns query) = None"
  by (simp_all add: create_view_def IsSyncOperation_def attrs_defs)

lemma create_refreshable_view_facts [lit_facts]:
  "IsSyncOperation (create_refreshable_view db view dest columns query every randomize app emp) = True"
  "isIdempotent (Op_attrs (create_refreshable_view db view dest columns query every randomize app emp)) = True"
  "op_db (create_refreshable_view db view dest columns query every randomize app emp) = db"
  "needs (create_refreshable_view db view dest columns query every randomize app emp) = [dest]"
  "makes (create_refreshable_view db view dest columns query every randomize app emp) = Some view"
  "removes (create_refreshable_view db view dest columns query every randomize app emp) = None"
  by (simp_all add: create_refreshable_view_def IsSyncOperation_def attrs_defs)

lemma modify_query_facts [lit_facts]:
  "IsSyncOperation (modify_query db view query) = True"
  "isIdempotent (Op_attrs (modify_query db view query)) = True"
  "op_db (modify_query db view query) = db"
  "needs (modify_query db view query) = [view]"
  "makes (modify_query db view query) = None"
  "removes (modify_query db view query) = None"
  by (simp_all add: modify_query_def IsSyncOperation_def attrs_defs)

lemma modify_ttl_facts [lit_facts]:
  "IsSyncOperation (modify_ttl db tbl ttl mat) = (\<not> mat)"
  "isIdempotent (Op_attrs (modify_ttl db tbl ttl mat)) = True"
  "op_db (modify_ttl db tbl ttl mat) = db"
  "needs (modify_ttl db tbl ttl mat) = [tbl]"
  "makes (modify_ttl db tbl ttl mat) = None"
  "removes (modify_ttl db tbl ttl mat) = None"
  by (simp_all add: modify_ttl_def IsSyncOperation_def attrs_defs)

lemma drop_table_ttl_facts [lit_facts]:
  "IsSyncOperation (drop_table_ttl db tbl) = True"
  "isIdempotent (Op_attrs (drop_table_ttl db tbl)) = True"
  "op_db (drop_table_ttl db tbl) = db"
  "needs (drop_table_ttl db tbl) = [tbl]"
  "makes (drop_table_ttl db tbl) = None"
  "removes (drop_table_ttl db tbl) = None"
  by (simp_all add: drop_table_ttl_def IsSyncOperation_def attrs_defs)

lemma modify_settings_facts [lit_facts]:
  "IsSyncOperation (modify_settings db tbl settings) = True"
  "isIdempotent (Op_attrs (modify_settings db tbl settings)) = True"
  "op_db (modify_settings db tbl settings) = db"
  "needs (modify_settings db tbl settings) = [tbl]"
  "makes (modify_settings db tbl settings) = None"
  "removes (modify_settings db tbl settings) = None"
  by (simp_all add: modify_settings_def IsSyncOperation_def attrs_defs)

lemma add_column_facts [lit_facts]:
  "IsSyncOperation (add_column db tbl column aft) = True"
  "isIdempotent (Op_attrs (add_column db tbl column aft)) = True"
  "op_db (add_column db tbl column aft) = db"
  "needs (add_column db tbl column aft) = [tbl]"
  "makes (add_column db tbl column aft) = None"
  "removes (add_column db tbl column aft) = None"
  by (simp_all add: add_column_def IsSyncOperation_def attrs_defs)

lemma drop_column_facts [lit_facts]:
  "IsSyncOperation (drop_column db tbl column) = False"
  "isIdempotent (Op_attrs (drop_column db tbl column)) = True"
  "op_db (drop_column db tbl column) = db"
  "needs (drop_column db tbl column) = [tbl]"
  "makes (drop_column db tbl column) = None"
  "removes (drop_column db tbl column) = None"
  by (simp_all add: drop_column_def IsSyncOperation_def attrs_defs)

lemma modify_column_facts [lit_facts]:
  "IsSyncOperation (modify_column db tbl column) = False"
  "isIdempotent (Op_attrs (modify_column db tbl column)) = True"
  "op_db (modify_column db tbl column) = db"
  "needs (modify_column db tbl column) = [tbl]"
  "makes (modify_column db tbl column) = None"
  "removes (modify_column db tbl column) = None"
  by (auto simp add: modify_column_def IsSyncOperation_def attrs_defs)

lemma materialize_column_facts [lit_facts]:
  "IsSyncOperation (materialize_column db tbl column) = False"
  "isIdempotent (Op_attrs (materialize_column db tbl column)) = True"
  "op_db (materialize_column db tbl column) = db"
  "needs (materialize_column db tbl column) = [tbl]"
  "makes (materialize_column db tbl column) = None"
  "removes (materialize_column db tbl column) = None"
  by (simp_all add: materialize_column_def IsSyncOperation_def attrs_defs)

lemma add_index_facts [lit_facts]:
  "IsSyncOperation (add_index db tbl ix) = True"
  "isIdempotent (Op_attrs (add_index db tbl ix)) = True"
  "op_db (add_index db tbl ix) = db"
  "needs (add_index db tbl ix) = [tbl]"
  "makes (add_index db tbl ix) = None"
  "removes (add_index db tbl ix) = None"
  by (simp_all add: add_index_def IsSyncOperation_def attrs_defs)

lemma drop_index_facts [lit_facts]:
  "IsSyncOperation (drop_index db tbl ix) = False"
  "isIdempotent (Op_attrs (drop_index db tbl ix)) = True"
  "op_db (drop_index db tbl ix) = db"
  "needs (drop_index db tbl ix) = [tbl]"
  "makes (drop_index db tbl ix) = None"
  "removes (drop_index db tbl ix) = None"
  by (simp_all add: drop_index_def IsSyncOperation_def attrs_defs)

lemma insert_into_facts [lit_facts]:
  "IsSyncOperation (insert_into db tbl columns lightWeight synchronous vals) = synchronous"
  "isIdempotent (Op_attrs (insert_into db tbl columns lightWeight synchronous vals)) = False"
  "op_db (insert_into db tbl columns lightWeight synchronous vals) = db"
  "needs (insert_into db tbl columns lightWeight synchronous vals) = [tbl]"
  "makes (insert_into db tbl columns lightWeight synchronous vals) = None"
  "removes (insert_into db tbl columns lightWeight synchronous vals) = None"
  by (simp_all add: insert_into_def IsSyncOperation_def attrs_defs)

text \<open>Congruence rules without premises: the simplifier leaves the arguments alone.\<close>

lemma lit_weak_congs [lit_congs]:
  "create_table db tbl columns indexes projections engine = create_table db tbl columns indexes projections engine"
  "drop_table db tbl = drop_table db tbl"
  "create_view db view dest columns query = create_view db view dest columns query"
  "create_refreshable_view db view dest columns query every randomize app emp = create_refreshable_view db view dest columns query every randomize app emp"
  "modify_query db view query = modify_query db view query"
  "modify_ttl db tbl ttl mat = modify_ttl db tbl ttl mat"
  "drop_table_ttl db tbl = drop_table_ttl db tbl"
  "modify_settings db tbl settings = modify_settings db tbl settings"
  "add_column db tbl column aft = add_column db tbl column aft"
  "drop_column db tbl column = drop_column db tbl column"
  "modify_column db tbl column = modify_column db tbl column"
  "materialize_column db tbl column = materialize_column db tbl column"
  "add_index db tbl ix = add_index db tbl ix"
  "drop_index db tbl ix = drop_index db tbl ix"
  "migration mid up down = migration mid up down"
  "replacing mt v = replacing mt v"
  "distributed db tbl key = distributed db tbl key"
  "EMergeTree mt = EMergeTree mt"
  "EAggregating mt = EAggregating mt"
  "ESumming mt = ESumming mt"
  by (rule refl)+

lemma insert_into_weak_cong [lit_congs]:
  "insert_into db tbl columns lightWeight synchronous vals = insert_into db tbl columns lightWeight synchronous vals"
  by (rule refl)

end
