(* ===== verification/Migrations_Logs.thy ===== *)
theory Migrations_Logs
  imports Migration_Literals
begin

text \<open>
  The migrations of the logs database: \<open>LogsMigrations\<close>, and the two lists a new installation
  starts from, of which \<open>SquashedLogsMigrations\<close> is no longer referenced by the commands.
\<close>

section \<open>\<open>LogsMigrations\<close> (\<open>logs_migrations.go\<close>)\<close>

definition logs_migration_1000 :: SchemaMigrationRecord where
  "logs_migration_1000 = migration 1000
     [drop_table ''signoz_logs'' ''attribute_keys_bool_final_mv'',
      drop_table ''signoz_logs'' ''attribute_keys_float64_final_mv'',
      drop_table ''signoz_logs'' ''attribute_keys_string_final_mv'',
      drop_table ''signoz_logs'' ''resource_keys_string_final_mv'']
     [create_view ''signoz_logs'' ''attribute_keys_bool_final_mv'' ''logs_attribute_keys''
       [col ''name'' ColumnTypeString [] [],
        col ''datatype'' ColumnTypeString [] []]
       (''SELECT DISTINCT'' @ br 0 @ ''arrayJoin(mapKeys(attributes_bool)) AS name,'' @ br 0 @
         ''\\'Bool\\' AS datatype'' @ br 0 @ ''FROM signoz_logs.logs_v2'' @ br 0 @ ''ORDER BY name ASC''),
      create_view ''signoz_logs'' ''attribute_keys_float64_final_mv'' ''logs_attribute_keys''
       [col ''name'' ColumnTypeString [] [],
        col ''datatype'' ColumnTypeString [] []]
       (''SELECT DISTINCT'' @ br 0 @ ''arrayJoin(mapKeys(attributes_number)) AS name,'' @ br 0 @
         ''\\'Float64\\' AS datatype'' @ br 0 @ ''FROM signoz_logs.logs_v2'' @ br 0 @
         ''ORDER BY name ASC''),
      create_view ''signoz_logs'' ''attribute_keys_string_final_mv'' ''logs_attribute_keys''
       [col ''name'' ColumnTypeString [] [],
        col ''datatype'' ColumnTypeString [] []]
       (''SELECT DISTINCT'' @ br 0 @ ''arrayJoin(mapKeys(attributes_string)) AS name,'' @ br 0 @
         ''\\'String\\' AS datatype'' @ br 0 @ ''FROM signoz_logs.logs_v2'' @ br 0 @ ''ORDER BY name ASC''),
      create_view ''signoz_logs'' ''resource_keys_string_final_mv'' ''logs_resource_keys''
       [col ''name'' ColumnTypeString [] [],
        col ''datatype'' ColumnTypeString [] []]
       (''SELECT DISTINCT'' @ br 0 @ ''arrayJoin(mapKeys(resources_string)) AS name,'' @ br 0 @
         ''\\'String\\' AS datatype'' @ br 0 @ ''FROM signoz_logs.logs_v2'' @ br 0 @ ''ORDER BY name ASC'')]"

definition logs_migration_1001 :: SchemaMigrationRecord where
  "logs_migration_1001 = migration 1001
     [create_table ''signoz_logs'' ''tag_attributes_v2''
       [col ''unix_milli'' ColumnTypeInt64 ''Delta(8), ZSTD(1)'' [],
        col ''tag_key'' ColumnTypeString ''ZSTD(1)'' [],
        col ''tag_type'' (LowCardinalityColumnType ColumnTypeString) ''ZSTD(1)'' [],
        col ''tag_data_type'' (LowCardinalityColumnType ColumnTypeString) ''ZSTD(1)'' [],
        col ''string_value'' ColumnTypeString ''ZSTD(1)'' [],
        col ''number_value'' (NullableColumnType ColumnTypeFloat64) ''ZSTD(1)'' []]
       [idx ''string_value_index'' ''string_value'' ''ngrambf_v1(4, 1024, 3, 0)'' 1,
        idx ''number_value_index'' ''number_value'' ''minmax'' 1]
       []
       (replacing (merge_tree ''(tag_key, tag_type, tag_data_type, string_value, number_value)'' []
         ''toDate(unix_milli / 1000)'' ''toDateTime(unix_milli / 1000) + toIntervalSecond(1296000)''
         [setting ''index_granularity'' ''8192'', setting ''ttl_only_drop_parts'' ''1'', setting
         ''allow_nullable_key'' ''1'']) []),
      create_table ''signoz_logs'' ''distributed_tag_attributes_v2''
       [col ''unix_milli'' ColumnTypeInt64 ''Delta(8), ZSTD(1)'' [],
        col ''tag_key'' ColumnTypeString ''ZSTD(1)'' [],
        col ''tag_type'' (LowCardinalityColumnType ColumnTypeString) ''ZSTD(1)'' [],
        col ''tag_data_type'' (LowCardinalityColumnType ColumnTypeString) ''ZSTD(1)'' [],
        col ''string_value'' ColumnTypeString ''ZSTD(1)'' [],
        col ''number_value'' (NullableColumnType ColumnTypeFloat64) ''ZSTD(1)'' []]
       []
       []
       (distributed ''signoz_logs'' ''tag_attributes_v2'' ''cityHash64(rand())'')]
     []"

definition logs_migration_1002 :: SchemaMigrationRecord where
  "logs_migration_1002 = migration 1002
     [add_column ''signoz_logs'' ''logs_attribute_keys''
       (col ''timestamp'' (DateTimeColumnType []) [] ''toDateTime(now())'') None,
      add_column ''signoz_logs'' ''logs_resource_keys''
       (col ''timestamp'' (DateTimeColumnType []) [] ''toDateTime(now())'') None,
      modify_ttl ''signoz_logs'' ''logs_attribute_keys'' ''timestamp + INTERVAL 15 DAY'' False,
      modify_ttl ''signoz_logs'' ''logs_resource_keys'' ''timestamp + INTERVAL 15 DAY'' False]
     []"

definition logs_migration_1003 :: SchemaMigrationRecord where
  "logs_migration_1003 = migration 1003
     [materialize_column ''signoz_logs'' ''logs_attribute_keys'' (col_name ''timestamp''),
      materialize_column ''signoz_logs'' ''logs_resource_keys'' (col_name ''timestamp'')]
     []"

definition logs_migration_1004 :: SchemaMigrationRecord where
  "logs_migration_1004 = migration 1004
     [add_column ''signoz_logs'' ''logs_v2''
       (col ''resource'' (JSONColumnType (Some 100) None []) ''ZSTD(1)'' []) None,
      add_column ''signoz_logs'' ''distributed_logs_v2''
       (col ''resource'' (JSONColumnType (Some 100) None []) ''ZSTD(1)'' []) None]
     [drop_column ''signoz_logs'' ''distributed_logs_v2'' (col_name ''resource''),
      drop_column ''signoz_logs'' ''logs_v2'' (col_name ''resource'')]"

definition logs_migration_1005 :: SchemaMigrationRecord where
  "logs_migration_1005 = migration 1005
     [add_index ''signoz_logs'' ''logs_v2'' (idx ''trace_id_idx'' ''trace_id'' ''tokenbf_v1(10000, 5,0)'' 1),
      add_index ''signoz_logs'' ''logs_v2'' (idx ''span_id_idx'' ''span_id'' ''tokenbf_v1(5000, 5,0)'' 1)]
     [drop_index ''signoz_logs'' ''logs_v2'' (idx ''trace_id_idx'' [] [] 0),
      drop_index ''signoz_logs'' ''logs_v2'' (idx ''span_id_idx'' [] [] 0)]"

definition logs_migration_2001_up1 :: "Operation list" where
  "logs_migration_2001_up1 =
     [create_table SignozMetadataDB ''field_keys''
       [col ''signal'' ColumnTypeString ''ZSTD(1)'' [],
        col ''field_context'' ColumnTypeString ''ZSTD(1)'' [],
        col ''field_name'' ColumnTypeString ''ZSTD(1)'' [],
        col ''field_data_type'' ColumnTypeString ''ZSTD(1)'' [],
        col ''last_seen'' ColumnTypeUInt64 ''DoubleDelta, LZ4'' []]
       []
       []
       (replacing (merge_tree (''(signal, field_context, '' @ ''field_name'' @ '', '' @
         ''field_data_type'' @ '')'') [] ''toDate(last_seen / 1000000000)''
         ''toDateTime(last_seen / 1000000000) + toIntervalSecond(1296000)'' [setting ''index_granularity''
         ''8192'', setting ''ttl_only_drop_parts'' ''1'']) []),
      create_table SignozMetadataDB ''distributed_field_keys''
       [col ''signal'' ColumnTypeString ''ZSTD(1)'' [],
        col ''field_context'' ColumnTypeString ''ZSTD(1)'' [],
        col ''field_name'' ColumnTypeString ''ZSTD(1)'' [],
        col ''field_data_type'' ColumnTypeString ''ZSTD(1)'' [],
        col ''last_seen'' ColumnTypeUInt64 ''DoubleDelta, LZ4'' []]
       []
       []
       (distributed SignozMetadataDB ''field_keys'' (''cityHash64(signal, field_context, '' @
         ''field_name'' @ '')'')),
      modify_settings ''signoz_logs'' ''logs_v2'' [setting ''object_serialization_version'' (''\\'v3'' @
        [CHR 0x27]), setting ''object_shared_data_serialization_version'' (''\\'advanced'' @ [CHR 0x27])],
      add_column ''signoz_logs'' ''logs_v2''
       (col ''body_v2'' (JSONColumnType (Some 0) None [col ''message'' ColumnTypeString [] []])
         ''ZSTD(1)'' []) (Some (col_name ''body'')),
      add_column ''signoz_logs'' ''distributed_logs_v2''
       (col ''body_v2'' (JSONColumnType (Some 0) None [col ''message'' ColumnTypeString [] []])
         ''ZSTD(1)'' []) (Some (col_name ''body'')),
      add_column ''signoz_logs'' ''logs_v2''
       (col ''body_promoted'' (JSONColumnType None None []) ''ZSTD(1)'' []) (Some (col_name ''body_v2'')),
      add_column ''signoz_logs'' ''distributed_logs_v2''
       (col ''body_promoted'' (JSONColumnType None None []) ''ZSTD(1)'' []) (Some (col_name ''body_v2'')),
      add_index ''signoz_logs'' ''logs_v2'' (idx ''body_v2_string_ngram_idx'' (JSONFullTextIndexExpr
        ''body_v2'') ''ngrambf_v1(4, 15000, 3, 0)'' 1),
      add_index ''signoz_logs'' ''logs_v2'' (idx ''body_v2_string_token_idx'' (JSONFullTextIndexExpr
        ''body_v2'') ''tokenbf_v1(10000, 2, 0)'' 1),
      add_index ''signoz_logs'' ''logs_v2'' (idx ''body_v2_paths_ngram_idx'' (JSONPathsIndexExpr
        ''body_v2'') ''ngrambf_v1(4, 15000, 3, 0)'' 1)]"

definition logs_migration_2001_up2 :: "Operation list" where
  "logs_migration_2001_up2 =
     [add_index ''signoz_logs'' ''logs_v2'' (idx ''body_v2_paths_token_idx'' (JSONPathsIndexExpr
       ''body_v2'') ''tokenbf_v1(10000, 2, 0)'' 1)]"

definition logs_migration_2001_down :: "Operation list" where
  "logs_migration_2001_down =
     [drop_index ''signoz_logs'' ''logs_v2'' (idx ''body_v2_string_ngram_idx'' [] [] 0),
      drop_index ''signoz_logs'' ''logs_v2'' (idx ''body_v2_string_token_idx'' [] [] 0),
      drop_index ''signoz_logs'' ''logs_v2'' (idx ''body_v2_paths_ngram_idx'' [] [] 0),
      drop_index ''signoz_logs'' ''logs_v2'' (idx ''body_v2_paths_token_idx'' [] [] 0),
      drop_column ''signoz_logs'' ''distributed_logs_v2'' (col_name ''body_promoted''),
      drop_column ''signoz_logs'' ''distributed_logs_v2'' (col_name ''body_v2''),
      drop_column ''signoz_logs'' ''logs_v2'' (col_name ''body_promoted''),
      drop_column ''signoz_logs'' ''logs_v2'' (col_name ''body_v2''),
      drop_table SignozMetadataDB ''distributed_field_keys'',
      drop_table SignozMetadataDB ''field_keys'']"

definition logs_migration_2001 :: SchemaMigrationRecord where
  "logs_migration_2001 = migration 2001
     (logs_migration_2001_up1 @ logs_migration_2001_up2)
     logs_migration_2001_down"

definition logs_migration_2002 :: SchemaMigrationRecord where
  "logs_migration_2002 = migration 2002
     [add_column ''signoz_logs'' ''logs_v2''
       (col ''inserted_at'' (DateTime64ColumnType 3 []) ''Delta(8), ZSTD(1)'' []) None,
      add_column ''signoz_logs'' ''distributed_logs_v2''
       (col ''inserted_at'' (DateTime64ColumnType 3 []) ''Delta(8), ZSTD(1)'' []) None,
      add_column ''signoz_logs'' ''logs_v2''
       (col ''created_at'' (DateTime64ColumnType 3 []) ''Delta(8), ZSTD(1)'' ''now64(3)'') None,
      add_column ''signoz_logs'' ''distributed_logs_v2''
       (col ''created_at'' (DateTime64ColumnType 3 []) ''Delta(8), ZSTD(1)'' ''now64(3)'') None]
     [drop_column ''signoz_logs'' ''distributed_logs_v2'' (col_name ''inserted_at''),
      drop_column ''signoz_logs'' ''logs_v2'' (col_name ''inserted_at''),
      drop_column ''signoz_logs'' ''distributed_logs_v2'' (col_name ''created_at''),
      drop_column ''signoz_logs'' ''logs_v2'' (col_name ''created_at'')]"

definition logs_migrations :: "SchemaMigrationRecord list" where
  "logs_migrations =
     [logs_migration_1000, logs_migration_1001, logs_migration_1002, logs_migration_1003,
      logs_migration_1004, logs_migration_1005, logs_migration_2001, logs_migration_2002]"

section \<open>\<open>CustomRetentionLogsMigrations\<close>
  (\<open>v2_squashed_logs_migration.go\<close>)\<close>

definition custom_retention_1 :: SchemaMigrationRecord where
  "custom_retention_1 = migration 1
     [create_table ''signoz_logs'' ''logs_attribute_keys''
       [col ''name'' ColumnTypeString [] [],
        col ''datatype'' ColumnTypeString [] []]
       []
       []
       (replacing (merge_tree ''(name, datatype)'' [] [] [] [setting ''index_granularity'' ''8192'']) [])]
     [drop_table ''signoz_logs'' ''logs_attribute_keys'']"

definition custom_retention_2 :: SchemaMigrationRecord where
  "custom_retention_2 = migration 2
     [create_table ''signoz_logs'' ''distributed_logs_attribute_keys''
       [col ''name'' ColumnTypeString [] [],
        col ''datatype'' ColumnTypeString [] []]
       []
       []
       (distributed ''signoz_logs'' ''logs_attribute_keys'' ''cityHash64(datatype)'')]
     [drop_table ''signoz_logs'' ''distributed_logs_attribute_keys'']"

definition custom_retention_3 :: SchemaMigrationRecord where
  "custom_retention_3 = migration 3
     [create_table ''signoz_logs'' ''logs_resource_keys''
       [col ''name'' ColumnTypeString [] [],
        col ''datatype'' ColumnTypeString [] []]
       []
       []
       (replacing (merge_tree ''(name, datatype)'' [] [] [] [setting ''index_granularity'' ''8192'']) [])]
     [drop_table ''signoz_logs'' ''logs_resource_keys'']"

definition custom_retention_4 :: SchemaMigrationRecord where
  "custom_retention_4 = migration 4
     [create_table ''signoz_logs'' ''distributed_logs_resource_keys''
       [col ''name'' ColumnTypeString [] [],
        col ''datatype'' ColumnTypeString [] []]
       []
       []
       (distributed ''signoz_logs'' ''logs_resource_keys'' ''cityHash64(datatype)'')]
     []"

definition custom_retention_5 :: SchemaMigrationRecord where
  "custom_retention_5 = migration 5
     [create_table ''signoz_logs'' ''usage''
       [col ''tenant'' ColumnTypeString ''ZSTD(1)'' [],
        col ''collector_id'' ColumnTypeString ''ZSTD(1)'' [],
        col ''exporter_id'' ColumnTypeString ''ZSTD(1)'' [],
        col ''timestamp'' (DateTimeColumnType []) ''ZSTD(1)'' [],
        col ''data'' ColumnTypeString ''ZSTD(1)'' []]
       []
       []
       (EMergeTree (merge_tree ''(tenant, collector_id, exporter_id, timestamp)'' [] []
         ''timestamp + toIntervalDay(3)'' [setting ''index_granularity'' ''8192'']))]
     [drop_table ''signoz_logs'' ''usage'']"

definition custom_retention_6 :: SchemaMigrationRecord where
  "custom_retention_6 = migration 6
     [create_table ''signoz_logs'' ''distributed_usage''
       [col ''tenant'' ColumnTypeString ''ZSTD(1)'' [],
        col ''collector_id'' ColumnTypeString ''ZSTD(1)'' [],
        col ''exporter_id'' ColumnTypeString ''ZSTD(1)'' [],
        col ''timestamp'' (DateTimeColumnType []) ''ZSTD(1)'' [],
        col ''data'' ColumnTypeString ''ZSTD(1)'' []]
       []
       []
       (distributed ''signoz_logs'' ''usage'' ''cityHash64(rand())'')]
     [drop_table ''signoz_logs'' ''distributed_usage'']"

definition custom_retention_7 :: SchemaMigrationRecord where
  "custom_retention_7 = migration 7
     [create_table ''signoz_logs'' ''logs_v2''
       [col ''ts_bucket_start'' ColumnTypeUInt64 ''DoubleDelta, LZ4'' [],
        col ''resource_fingerprint'' ColumnTypeString ''ZSTD(1)'' [],
        col ''timestamp'' ColumnTypeUInt64 ''DoubleDelta, LZ4'' [],
        col ''observed_timestamp'' ColumnTypeUInt64 ''DoubleDelta, LZ4'' [],
        col ''id'' ColumnTypeString ''ZSTD(1)'' [],
        col ''trace_id'' ColumnTypeString ''ZSTD(1)'' [],
        col ''span_id'' ColumnTypeString ''ZSTD(1)'' [],
        col ''trace_flags'' ColumnTypeUInt32 [] [],
        col ''severity_text'' (LowCardinalityColumnType ColumnTypeString) ''ZSTD(1)'' [],
        col ''severity_number'' ColumnTypeUInt8 [] [],
        col ''body'' ColumnTypeString ''ZSTD(2)'' [],
        col ''attributes_string'' (MapColumnType (LowCardinalityColumnType ColumnTypeString)
          ColumnTypeString) ''ZSTD(1)'' [],
        col ''attributes_number'' (MapColumnType (LowCardinalityColumnType ColumnTypeString)
          ColumnTypeFloat64) ''ZSTD(1)'' [],
        col ''attributes_bool'' (MapColumnType (LowCardinalityColumnType ColumnTypeString) ColumnTypeBool)
          ''ZSTD(1)'' [],
        col ''resources_string'' (MapColumnType (LowCardinalityColumnType ColumnTypeString)
          ColumnTypeString) ''ZSTD(1)'' [],
        col ''scope_name'' ColumnTypeString ''ZSTD(1)'' [],
        col ''scope_version'' ColumnTypeString ''ZSTD(1)'' [],
        col ''scope_string'' (MapColumnType (LowCardinalityColumnType ColumnTypeString) ColumnTypeString)
          ''ZSTD(1)'' [],
        col ''_retention_days'' ColumnTypeUInt16 [] ''15'',
        col ''_retention_days_cold'' ColumnTypeUInt16 [] ''0'']
       [idx ''id_minmax'' ''id'' ''minmax'' 1,
        idx ''severity_number_idx'' ''severity_number'' ''set(25)'' 4,
        idx ''severity_text_idx'' ''severity_text'' ''set(25)'' 4,
        idx ''trace_flags_idx'' ''trace_flags'' ''bloom_filter'' 4,
        idx ''body_index_v2_token'' ''lower(body)'' ''tokenbf_v1(10000, 2, 0)'' 1,
        idx ''body_index_v2_ngram'' ''lower(body)'' ''ngrambf_v1(4, 15000, 3, 0)'' 1,
        idx ''scope_name_idx'' ''scope_name'' ''tokenbf_v1(10240, 3, 0)'' 4,
        idx ''attributes_string_idx_key'' ''mapKeys(attributes_string)'' ''tokenbf_v1(1024, 2, 0)'' 1,
        idx ''attributes_string_idx_val'' ''mapValues(attributes_string)'' ''ngrambf_v1(4, 5000, 2, 0)'' 1,
        idx ''attributes_number_idx_key'' ''mapKeys(attributes_number)'' ''tokenbf_v1(1024, 2, 0)'' 1,
        idx ''attributes_number_idx_val'' ''mapValues(attributes_number)'' ''bloom_filter'' 1,
        idx ''attributes_bool_idx_key'' ''mapKeys(attributes_bool)'' ''tokenbf_v1(1024, 2, 0)'' 1]
       []
       (EMergeTree (merge_tree ''(ts_bucket_start, resource_fingerprint, severity_text, timestamp, id)''
         [] ''(toDate(timestamp / 1000000000), _retention_days, _retention_days_cold)''
         ''toDateTime(timestamp / 1000000000) + toIntervalDay(_retention_days)'' [setting
         ''index_granularity'' ''8192'', setting ''ttl_only_drop_parts'' ''1'']))]
     [drop_table ''signoz_logs'' ''logs_v2'']"

definition custom_retention_8 :: SchemaMigrationRecord where
  "custom_retention_8 = migration 8
     [create_table ''signoz_logs'' ''distributed_logs_v2''
       [col ''ts_bucket_start'' ColumnTypeUInt64 ''DoubleDelta, LZ4'' [],
        col ''resource_fingerprint'' ColumnTypeString ''ZSTD(1)'' [],
        col ''timestamp'' ColumnTypeUInt64 ''DoubleDelta, LZ4'' [],
        col ''observed_timestamp'' ColumnTypeUInt64 ''DoubleDelta, LZ4'' [],
        col ''id'' ColumnTypeString ''ZSTD(1)'' [],
        col ''trace_id'' ColumnTypeString ''ZSTD(1)'' [],
        col ''span_id'' ColumnTypeString ''ZSTD(1)'' [],
        col ''trace_flags'' ColumnTypeUInt32 [] [],
        col ''severity_text'' (LowCardinalityColumnType ColumnTypeString) ''ZSTD(1)'' [],
        col ''severity_number'' ColumnTypeUInt8 [] [],
        col ''body'' ColumnTypeString ''ZSTD(2)'' [],
        col ''attributes_string'' (MapColumnType (LowCardinalityColumnType ColumnTypeString)
          ColumnTypeString) ''ZSTD(1)'' [],
        col ''attributes_number'' (MapColumnType (LowCardinalityColumnType ColumnTypeString)
          ColumnTypeFloat64) ''ZSTD(1)'' [],
        col ''attributes_bool'' (MapColumnType (LowCardinalityColumnType ColumnTypeString) ColumnTypeBool)
          ''ZSTD(1)'' [],
        col ''resources_string'' (MapColumnType (LowCardinalityColumnType ColumnTypeString)
          ColumnTypeString) ''ZSTD(1)'' [],
        col ''scope_name'' ColumnTypeString ''ZSTD(1)'' [],
        col ''scope_version'' ColumnTypeString ''ZSTD(1)'' [],
        col ''scope_string'' (MapColumnType (LowCardinalityColumnType ColumnTypeString) ColumnTypeString)
          ''ZSTD(1)'' [],
        col ''_retention_days'' ColumnTypeUInt16 [] ''15'',
        col ''_retention_days_cold'' ColumnTypeUInt16 [] ''0'']
       []
       []
       (distributed ''signoz_logs'' ''logs_v2'' ''cityHash64(id)'')]
     [drop_table ''signoz_logs'' ''distributed_logs_v2'']"

definition custom_retention_9 :: SchemaMigrationRecord where
  "custom_retention_9 = migration 9
     [create_table ''signoz_logs'' ''logs_v2_resource''
       [col ''labels'' ColumnTypeString ''ZSTD(5)'' [],
        col ''fingerprint'' ColumnTypeString ''ZSTD(1)'' [],
        col ''seen_at_ts_bucket_start'' ColumnTypeInt64 ''Delta(8), ZSTD(1)'' [],
        col ''_retention_days'' ColumnTypeUInt16 [] ''15'',
        col ''_retention_days_cold'' ColumnTypeUInt16 [] ''0'']
       [idx ''idx_labels'' ''lower(labels)'' ''ngrambf_v1(4, 1024, 3, 0)'' 1,
        idx ''idx_labels_v1'' ''labels'' ''ngrambf_v1(4, 1024, 3, 0)'' 1]
       []
       (replacing (merge_tree ''(labels, fingerprint, seen_at_ts_bucket_start)'' []
         ''(toDate(seen_at_ts_bucket_start), _retention_days, _retention_days_cold)''
         ''toDateTime(seen_at_ts_bucket_start) + toIntervalDay(_retention_days) + toIntervalSecond(1800)''
         [setting ''ttl_only_drop_parts'' ''1'', setting ''index_granularity'' ''8192'']) []),
      create_table ''signoz_logs'' ''distributed_logs_v2_resource''
       [col ''labels'' ColumnTypeString ''ZSTD(5)'' [],
        col ''fingerprint'' ColumnTypeString ''ZSTD(1)'' [],
        col ''seen_at_ts_bucket_start'' ColumnTypeInt64 ''Delta(8), ZSTD(1)'' [],
        col ''_retention_days'' ColumnTypeUInt16 [] ''15'',
        col ''_retention_days_cold'' ColumnTypeUInt16 [] ''0'']
       []
       []
       (distributed ''signoz_logs'' ''logs_v2_resource'' ''cityHash64(labels, fingerprint)'')]
     [drop_table ''signoz_logs'' ''logs_v2_resource'',
      drop_table ''signoz_logs'' ''distributed_logs_v2_resource'']"

definition custom_retention_logs_migrations :: "SchemaMigrationRecord list" where
  "custom_retention_logs_migrations =
     [custom_retention_1, custom_retention_2, custom_retention_3, custom_retention_4,
      custom_retention_5, custom_retention_6, custom_retention_7, custom_retention_8,
      custom_retention_9]"

section \<open>\<open>SquashedLogsMigrations\<close> (\<open>squashed_logs_migrations.go\<close>)\<close>

definition squashed_logs_1 :: SchemaMigrationRecord where
  "squashed_logs_1 = migration 1
     [create_table ''signoz_logs'' ''logs''
       [col ''timestamp'' ColumnTypeUInt64 ''DoubleDelta, LZ4'' [],
        col ''observed_timestamp'' ColumnTypeUInt64 ''DoubleDelta, LZ4'' [],
        col ''id'' ColumnTypeString ''ZSTD(1)'' [],
        col ''trace_id'' ColumnTypeString ''ZSTD(1)'' [],
        col ''span_id'' ColumnTypeString ''ZSTD(1)'' [],
        col ''trace_flags'' ColumnTypeUInt32 [] [],
        col ''severity_text'' (LowCardinalityColumnType ColumnTypeString) ''ZSTD(1)'' [],
        col ''severity_number'' ColumnTypeUInt8 [] [],
        col ''body'' ColumnTypeString ''ZSTD(2)'' [],
        col ''resources_string_key'' (ArrayColumnType ColumnTypeString) ''ZSTD(1)'' [],
        col ''resources_string_value'' (ArrayColumnType ColumnTypeString) ''ZSTD(1)'' [],
        col ''attributes_string_key'' (ArrayColumnType ColumnTypeString) ''ZSTD(1)'' [],
        col ''attributes_string_value'' (ArrayColumnType ColumnTypeString) ''ZSTD(1)'' [],
        col ''attributes_int64_key'' (ArrayColumnType ColumnTypeString) ''ZSTD(1)'' [],
        col ''attributes_int64_value'' (ArrayColumnType ColumnTypeInt64) ''ZSTD(1)'' [],
        col ''attributes_float64_key'' (ArrayColumnType ColumnTypeString) ''ZSTD(1)'' [],
        col ''attributes_float64_value'' (ArrayColumnType ColumnTypeFloat64) ''ZSTD(1)'' [],
        col ''attributes_bool_key'' (ArrayColumnType ColumnTypeString) ''ZSTD(1)'' [],
        col ''attributes_bool_value'' (ArrayColumnType ColumnTypeBool) ''ZSTD(1)'' [],
        col ''scope_name'' ColumnTypeString ''ZSTD(1)'' [],
        col ''scope_version'' ColumnTypeString ''ZSTD(1)'' [],
        col ''scope_string_key'' (ArrayColumnType ColumnTypeString) ''ZSTD(1)'' [],
        col ''scope_string_value'' (ArrayColumnType ColumnTypeString) ''ZSTD(1)'' []]
       [idx ''id_minmax'' ''id'' ''minmax'' 1,
        idx ''severity_number_idx'' ''severity_number'' ''set(25)'' 4,
        idx ''severity_text_idx'' ''severity_text'' ''set(25)'' 4,
        idx ''trace_flags_idx'' ''trace_flags'' ''bloom_filter'' 4,
        idx ''body_idx'' ''lower(body)'' ''ngrambf_v1(4, 60000, 5, 0)'' 1,
        idx ''scope_name_idx'' ''scope_name'' ''tokenbf_v1(10240, 3, 0)'' 4]
       []
       (EMergeTree (merge_tree ''(timestamp, id)'' [] ''toDate(timestamp / 1000000000)''
         ''toDateTime(timestamp / 1000000000) + toIntervalSecond(1296000)'' [setting ''index_granularity''
         ''8192'', setting ''ttl_only_drop_parts'' ''1'']))]
     [drop_table ''signoz_logs'' ''logs'']"

definition squashed_logs_2 :: SchemaMigrationRecord where
  "squashed_logs_2 = migration 2
     [create_table ''signoz_logs'' ''distributed_logs''
       [col ''timestamp'' ColumnTypeUInt64 ''DoubleDelta, LZ4'' [],
        col ''observed_timestamp'' ColumnTypeUInt64 ''DoubleDelta, LZ4'' [],
        col ''id'' ColumnTypeString ''ZSTD(1)'' [],
        col ''trace_id'' ColumnTypeString ''ZSTD(1)'' [],
        col ''span_id'' ColumnTypeString ''ZSTD(1)'' [],
        col ''trace_flags'' ColumnTypeUInt32 [] [],
        col ''severity_text'' (LowCardinalityColumnType ColumnTypeString) ''ZSTD(1)'' [],
        col ''severity_number'' ColumnTypeUInt8 [] [],
        col ''body'' ColumnTypeString ''ZSTD(2)'' [],
        col ''resources_string_key'' (ArrayColumnType ColumnTypeString) ''ZSTD(1)'' [],
        col ''resources_string_value'' (ArrayColumnType ColumnTypeString) ''ZSTD(1)'' [],
        col ''attributes_string_key'' (ArrayColumnType ColumnTypeString) ''ZSTD(1)'' [],
        col ''attributes_string_value'' (ArrayColumnType ColumnTypeString) ''ZSTD(1)'' [],
        col ''attributes_int64_key'' (ArrayColumnType ColumnTypeString) ''ZSTD(1)'' [],
        col ''attributes_int64_value'' (ArrayColumnType ColumnTypeInt64) ''ZSTD(1)'' [],
        col ''attributes_float64_key'' (ArrayColumnType ColumnTypeString) ''ZSTD(1)'' [],
        col ''attributes_float64_value'' (ArrayColumnType ColumnTypeFloat64) ''ZSTD(1)'' [],
        col ''attributes_bool_key'' (ArrayColumnType ColumnTypeString) ''ZSTD(1)'' [],
        col ''attributes_bool_value'' (ArrayColumnType ColumnTypeBool) ''ZSTD(1)'' [],
        col ''scope_name'' ColumnTypeString ''ZSTD(1)'' [],
        col ''scope_version'' ColumnTypeString ''ZSTD(1)'' [],
        col ''scope_string_key'' (ArrayColumnType ColumnTypeString) ''ZSTD(1)'' [],
        col ''scope_string_value'' (ArrayColumnType ColumnTypeString) ''ZSTD(1)'' []]
       []
       []
       (distributed ''signoz_logs'' ''logs'' ''cityHash64(id)'')]
     [drop_table ''signoz_logs'' ''distributed_logs'']"

definition squashed_logs_3 :: SchemaMigrationRecord where
  "squashed_logs_3 = migration 3
     [create_table ''signoz_logs'' ''logs_attribute_keys''
       [col ''name'' ColumnTypeString [] [],
        col ''datatype'' ColumnTypeString [] []]
       []
       []
       (replacing (merge_tree ''(name, datatype)'' [] [] [] [setting ''index_granularity'' ''8192'']) [])]
     [drop_table ''signoz_logs'' ''logs_attribute_keys'']"

definition squashed_logs_4 :: SchemaMigrationRecord where
  "squashed_logs_4 = migration 4
     [create_table ''signoz_logs'' ''distributed_logs_attribute_keys''
       [col ''name'' ColumnTypeString [] [],
        col ''datatype'' ColumnTypeString [] []]
       []
       []
       (distributed ''signoz_logs'' ''logs_attribute_keys'' ''cityHash64(datatype)'')]
     [drop_table ''signoz_logs'' ''distributed_logs_attribute_keys'']"

definition squashed_logs_5 :: SchemaMigrationRecord where
  "squashed_logs_5 = migration 5
     [create_view ''signoz_logs'' ''attribute_keys_bool_final_mv'' ''logs_attribute_keys''
       [col ''name'' ColumnTypeString [] [],
        col ''datatype'' ColumnTypeString [] []]
       (''SELECT DISTINCT'' @ br 0 @ ''    arrayJoin(attributes_bool_key) AS name,'' @ br 0 @
         ''    \\'Bool\\' AS datatype'' @ br 0 @ ''FROM signoz_logs.logs'' @ br 0 @ ''ORDER BY name ASC'')]
     [drop_table ''signoz_logs'' ''attribute_keys_bool_final_mv'']"

definition squashed_logs_6 :: SchemaMigrationRecord where
  "squashed_logs_6 = migration 6
     [create_view ''signoz_logs'' ''attribute_keys_float64_final_mv'' ''logs_attribute_keys''
       [col ''name'' ColumnTypeString [] [],
        col ''datatype'' ColumnTypeString [] []]
       (''SELECT DISTINCT'' @ br 0 @ ''    arrayJoin(attributes_float64_key) AS name,'' @ br 0 @
         ''    \\'Float64\\' AS datatype'' @ br 0 @ ''FROM signoz_logs.logs'' @ br 0 @
         ''ORDER BY name ASC'')]
     [drop_table ''signoz_logs'' ''attribute_keys_float64_final_mv'']"

definition squashed_logs_7 :: SchemaMigrationRecord where
  "squashed_logs_7 = migration 7
     [create_view ''signoz_logs'' ''attribute_keys_int64_final_mv'' ''logs_attribute_keys''
       [col ''name'' ColumnTypeString [] [],
        col ''datatype'' ColumnTypeString [] []]
       (''SELECT DISTINCT'' @ br 0 @ ''    arrayJoin(attributes_int64_key) AS name,'' @ br 0 @
         ''    \\'Int64\\' AS datatype'' @ br 0 @ ''FROM signoz_logs.logs'' @ br 0 @ ''ORDER BY name ASC'')]
     [drop_table ''signoz_logs'' ''attribute_keys_int64_final_mv'']"

definition squashed_logs_8 :: SchemaMigrationRecord where
  "squashed_logs_8 = migration 8
     [create_view ''signoz_logs'' ''attribute_keys_string_final_mv'' ''logs_attribute_keys''
       [col ''name'' ColumnTypeString [] [],
        col ''datatype'' ColumnTypeString [] []]
       (''SELECT DISTINCT'' @ br 0 @ ''    arrayJoin(attributes_string_key) AS name,'' @ br 0 @
         ''    \\'String\\' AS datatype'' @ br 0 @ ''FROM signoz_logs.logs'' @ br 0 @
         ''ORDER BY name ASC'')]
     [drop_table ''signoz_logs'' ''attribute_keys_string_final_mv'']"

definition squashed_logs_9 :: SchemaMigrationRecord where
  "squashed_logs_9 = migration 9
     [create_table ''signoz_logs'' ''logs_resource_keys''
       [col ''name'' ColumnTypeString [] [],
        col ''datatype'' ColumnTypeString [] []]
       []
       []
       (replacing (merge_tree ''(name, datatype)'' [] [] [] [setting ''index_granularity'' ''8192'']) [])]
     [drop_table ''signoz_logs'' ''logs_resource_keys'']"

definition squashed_logs_10 :: SchemaMigrationRecord where
  "squashed_logs_10 = migration 10
     [create_table ''signoz_logs'' ''distributed_logs_resource_keys''
       [col ''name'' ColumnTypeString [] [],
        col ''datatype'' ColumnTypeString [] []]
       []
       []
       (distributed ''signoz_logs'' ''logs_resource_keys'' ''cityHash64(datatype)'')]
     []"

definition squashed_logs_11 :: SchemaMigrationRecord where
  "squashed_logs_11 = migration 11
     [create_view ''signoz_logs'' ''resource_keys_string_final_mv'' ''logs_resource_keys''
       [col ''name'' ColumnTypeString [] [],
        col ''datatype'' ColumnTypeString [] []]
       (''SELECT DISTINCT'' @ br 0 @ ''    arrayJoin(resources_string_key) AS name,'' @ br 0 @
         ''    \\'String\\' AS datatype'' @ br 0 @ ''FROM signoz_logs.logs'' @ br 0 @
         ''ORDER BY name ASC'')]
     [drop_table ''signoz_logs'' ''resource_keys_string_final_mv'']"

definition squashed_logs_12 :: SchemaMigrationRecord where
  "squashed_logs_12 = migration 12
     [create_table ''signoz_logs'' ''tag_attributes''
       [col ''timestamp'' (DateTimeColumnType []) ''ZSTD(1)'' [],
        col ''tagKey'' (LowCardinalityColumnType ColumnTypeString) ''ZSTD(1)'' [],
        col ''tagType'' (EnumerationColumnType [''\\'tag\\' = 1'', ''\\'resource\\' = 2'',
          ''\\'scope\\' = 3''] 8) ''ZSTD(1)'' [],
        col ''tagDataType'' (EnumerationColumnType [''\\'string\\' = 1'', ''\\'bool\\' = 2'',
          ''\\'int64\\' = 3'', ''\\'float64\\' = 4''] 8) ''ZSTD(1)'' [],
        col ''stringTagValue'' ColumnTypeString ''ZSTD(1)'' [],
        col ''int64TagValue'' (NullableColumnType ColumnTypeInt64) ''ZSTD(1)'' [],
        col ''float64TagValue'' (NullableColumnType ColumnTypeFloat64) ''ZSTD(1)'' []]
       []
       []
       (replacing (merge_tree
         ''(tagKey, tagType, tagDataType, stringTagValue, int64TagValue, float64TagValue)'' [] []
         ''toDateTime(timestamp) + toIntervalSecond(172800)'' [setting ''index_granularity'' ''8192'',
         setting ''ttl_only_drop_parts'' ''1'', setting ''allow_nullable_key'' ''1'']) [])]
     [drop_table ''signoz_logs'' ''tag_attributes'']"

definition squashed_logs_13 :: SchemaMigrationRecord where
  "squashed_logs_13 = migration 13
     [create_table ''signoz_logs'' ''distributed_tag_attributes''
       [col ''timestamp'' (DateTimeColumnType []) ''ZSTD(1)'' [],
        col ''tagKey'' (LowCardinalityColumnType ColumnTypeString) ''ZSTD(1)'' [],
        col ''tagType'' (EnumerationColumnType [''\\'tag\\' = 1'', ''\\'resource\\' = 2'',
          ''\\'scope\\' = 3''] 8) ''ZSTD(1)'' [],
        col ''tagDataType'' (EnumerationColumnType [''\\'string\\' = 1'', ''\\'bool\\' = 2'',
          ''\\'int64\\' = 3'', ''\\'float64\\' = 4''] 8) ''ZSTD(1)'' [],
        col ''stringTagValue'' ColumnTypeString ''ZSTD(1)'' [],
        col ''int64TagValue'' (NullableColumnType ColumnTypeInt64) ''ZSTD(1)'' [],
        col ''float64TagValue'' (NullableColumnType ColumnTypeFloat64) ''ZSTD(1)'' []]
       []
       []
       (distributed ''signoz_logs'' ''tag_attributes'' ''rand()'')]
     [drop_table ''signoz_logs'' ''distributed_tag_attributes'']"

definition squashed_logs_14 :: SchemaMigrationRecord where
  "squashed_logs_14 = migration 14
     [create_table ''signoz_logs'' ''usage''
       [col ''tenant'' ColumnTypeString ''ZSTD(1)'' [],
        col ''collector_id'' ColumnTypeString ''ZSTD(1)'' [],
        col ''exporter_id'' ColumnTypeString ''ZSTD(1)'' [],
        col ''timestamp'' (DateTimeColumnType []) ''ZSTD(1)'' [],
        col ''data'' ColumnTypeString ''ZSTD(1)'' []]
       []
       []
       (EMergeTree (merge_tree ''(tenant, collector_id, exporter_id, timestamp)'' [] []
         ''timestamp + toIntervalDay(3)'' [setting ''index_granularity'' ''8192'']))]
     [drop_table ''signoz_logs'' ''usage'']"

definition squashed_logs_15 :: SchemaMigrationRecord where
  "squashed_logs_15 = migration 15
     [create_table ''signoz_logs'' ''distributed_usage''
       [col ''tenant'' ColumnTypeString ''ZSTD(1)'' [],
        col ''collector_id'' ColumnTypeString ''ZSTD(1)'' [],
        col ''exporter_id'' ColumnTypeString ''ZSTD(1)'' [],
        col ''timestamp'' (DateTimeColumnType []) ''ZSTD(1)'' [],
        col ''data'' ColumnTypeString ''ZSTD(1)'' []]
       []
       []
       (distributed ''signoz_logs'' ''usage'' ''cityHash64(rand())'')]
     [drop_table ''signoz_logs'' ''distributed_usage'']"

definition squashed_logs_16 :: SchemaMigrationRecord where
  "squashed_logs_16 = migration 16
     [create_table ''signoz_logs'' ''logs_v2''
       [col ''ts_bucket_start'' ColumnTypeUInt64 ''DoubleDelta, LZ4'' [],
        col ''resource_fingerprint'' ColumnTypeString ''ZSTD(1)'' [],
        col ''timestamp'' ColumnTypeUInt64 ''DoubleDelta, LZ4'' [],
        col ''observed_timestamp'' ColumnTypeUInt64 ''DoubleDelta, LZ4'' [],
        col ''id'' ColumnTypeString ''ZSTD(1)'' [],
        col ''trace_id'' ColumnTypeString ''ZSTD(1)'' [],
        col ''span_id'' ColumnTypeString ''ZSTD(1)'' [],
        col ''trace_flags'' ColumnTypeUInt32 [] [],
        col ''severity_text'' (LowCardinalityColumnType ColumnTypeString) ''ZSTD(1)'' [],
        col ''severity_number'' ColumnTypeUInt8 [] [],
        col ''body'' ColumnTypeString ''ZSTD(2)'' [],
        col ''attributes_string'' (MapColumnType (LowCardinalityColumnType ColumnTypeString)
          ColumnTypeString) ''ZSTD(1)'' [],
        col ''attributes_number'' (MapColumnType (LowCardinalityColumnType ColumnTypeString)
          ColumnTypeFloat64) ''ZSTD(1)'' [],
        col ''attributes_bool'' (MapColumnType (LowCardinalityColumnType ColumnTypeString) ColumnTypeBool)
          ''ZSTD(1)'' [],
        col ''resources_string'' (MapColumnType (LowCardinalityColumnType ColumnTypeString)
          ColumnTypeString) ''ZSTD(1)'' [],
        col ''scope_name'' ColumnTypeString ''ZSTD(1)'' [],
        col ''scope_version'' ColumnTypeString ''ZSTD(1)'' [],
        col ''scope_string'' (MapColumnType (LowCardinalityColumnType ColumnTypeString) ColumnTypeString)
          ''ZSTD(1)'' []]
       [idx ''id_minmax'' ''id'' ''minmax'' 1,
        idx ''severity_number_idx'' ''severity_number'' ''set(25)'' 4,
        idx ''severity_text_idx'' ''severity_text'' ''set(25)'' 4,
        idx ''trace_flags_idx'' ''trace_flags'' ''bloom_filter'' 4,
        idx ''body_idx'' ''lower(body)'' ''ngrambf_v1(4, 60000, 5, 0)'' 1,
        idx ''scope_name_idx'' ''scope_name'' ''tokenbf_v1(10240, 3, 0)'' 4,
        idx ''attributes_string_idx_key'' ''mapKeys(attributes_string)'' ''tokenbf_v1(1024, 2, 0)'' 1,
        idx ''attributes_string_idx_val'' ''mapValues(attributes_string)'' ''ngrambf_v1(4, 5000, 2, 0)'' 1,
        idx ''attributes_number_idx_key'' ''mapKeys(attributes_number)'' ''tokenbf_v1(1024, 2, 0)'' 1,
        idx ''attributes_number_idx_val'' ''mapValues(attributes_number)'' ''bloom_filter'' 1,
        idx ''attributes_bool_idx_key'' ''mapKeys(attributes_bool)'' ''tokenbf_v1(1024, 2, 0)'' 1]
       []
       (EMergeTree (merge_tree ''(ts_bucket_start, resource_fingerprint, severity_text, timestamp, id)''
         [] ''toDate(timestamp / 1000000000)''
         ''toDateTime(timestamp / 1000000000) + toIntervalSecond(1296000)'' [setting ''index_granularity''
         ''8192'', setting ''ttl_only_drop_parts'' ''1'']))]
     [drop_table ''signoz_logs'' ''logs_v2'']"

definition squashed_logs_17 :: SchemaMigrationRecord where
  "squashed_logs_17 = migration 17
     [create_table ''signoz_logs'' ''distributed_logs_v2''
       [col ''ts_bucket_start'' ColumnTypeUInt64 ''DoubleDelta, LZ4'' [],
        col ''resource_fingerprint'' ColumnTypeString ''ZSTD(1)'' [],
        col ''timestamp'' ColumnTypeUInt64 ''DoubleDelta, LZ4'' [],
        col ''observed_timestamp'' ColumnTypeUInt64 ''DoubleDelta, LZ4'' [],
        col ''id'' ColumnTypeString ''ZSTD(1)'' [],
        col ''trace_id'' ColumnTypeString ''ZSTD(1)'' [],
        col ''span_id'' ColumnTypeString ''ZSTD(1)'' [],
        col ''trace_flags'' ColumnTypeUInt32 [] [],
        col ''severity_text'' (LowCardinalityColumnType ColumnTypeString) ''ZSTD(1)'' [],
        col ''severity_number'' ColumnTypeUInt8 [] [],
        col ''body'' ColumnTypeString ''ZSTD(2)'' [],
        col ''attributes_string'' (MapColumnType (LowCardinalityColumnType ColumnTypeString)
          ColumnTypeString) ''ZSTD(1)'' [],
        col ''attributes_number'' (MapColumnType (LowCardinalityColumnType ColumnTypeString)
          ColumnTypeFloat64) ''ZSTD(1)'' [],
        col ''attributes_bool'' (MapColumnType (LowCardinalityColumnType ColumnTypeString) ColumnTypeBool)
          ''ZSTD(1)'' [],
        col ''resources_string'' (MapColumnType (LowCardinalityColumnType ColumnTypeString)
          ColumnTypeString) ''ZSTD(1)'' [],
        col ''scope_name'' ColumnTypeString ''ZSTD(1)'' [],
        col ''scope_version'' ColumnTypeString ''ZSTD(1)'' [],
        col ''scope_string'' (MapColumnType (LowCardinalityColumnType ColumnTypeString) ColumnTypeString)
          ''ZSTD(1)'' []]
       []
       []
       (distributed ''signoz_logs'' ''logs_v2'' ''cityHash64(id)'')]
     [drop_table ''signoz_logs'' ''distributed_logs_v2'']"

definition squashed_logs_18 :: SchemaMigrationRecord where
  "squashed_logs_18 = migration 18
     [drop_table ''signoz_logs'' ''resource_keys_string_final_mv'',
      drop_table ''signoz_logs'' ''attribute_keys_float64_final_mv'',
      drop_table ''signoz_logs'' ''attribute_keys_int64_final_mv'',
      drop_table ''signoz_logs'' ''attribute_keys_string_final_mv'',
      drop_table ''signoz_logs'' ''attribute_keys_bool_final_mv'']
     []"

definition squashed_logs_19 :: SchemaMigrationRecord where
  "squashed_logs_19 = migration 19
     [create_view ''signoz_logs'' ''attribute_keys_string_final_mv'' ''logs_attribute_keys''
       [col ''name'' ColumnTypeString [] [],
        col ''datatype'' ColumnTypeString [] []]
       (''SELECT DISTINCT'' @ br 0 @ ''    arrayJoin(mapKeys(attributes_string)) AS name,'' @ br 0 @
         ''    \\'String\\' AS datatype'' @ br 0 @ ''FROM signoz_logs.logs_v2'' @ br 0 @
         ''ORDER BY name ASC''),
      create_view ''signoz_logs'' ''attribute_keys_float64_final_mv'' ''logs_attribute_keys''
       [col ''name'' ColumnTypeString [] [],
        col ''datatype'' ColumnTypeString [] []]
       (''SELECT DISTINCT'' @ br 0 @ ''    arrayJoin(mapKeys(attributes_number)) AS name,'' @ br 0 @
         ''    \\'Float64\\' AS datatype'' @ br 0 @ ''FROM signoz_logs.logs_v2'' @ br 0 @
         ''ORDER BY name ASC''),
      create_view ''signoz_logs'' ''attribute_keys_bool_final_mv'' ''logs_attribute_keys''
       [col ''name'' ColumnTypeString [] [],
        col ''datatype'' ColumnTypeString [] []]
       (''SELECT DISTINCT'' @ br 0 @ ''    arrayJoin(mapKeys(attributes_bool)) AS name,'' @ br 0 @
         ''    \\'Bool\\' AS datatype'' @ br 0 @ ''FROM signoz_logs.logs_v2'' @ br 0 @
         ''ORDER BY name ASC''),
      create_view ''signoz_logs'' ''resource_keys_string_final_mv'' ''logs_resource_keys''
       [col ''name'' ColumnTypeString [] [],
        col ''datatype'' ColumnTypeString [] []]
       (''SELECT DISTINCT'' @ br 0 @ ''    arrayJoin(mapKeys(resources_string)) AS name,'' @ br 0 @
         ''    \\'String\\' AS datatype'' @ br 0 @ ''FROM signoz_logs.logs_v2'' @ br 0 @
         ''ORDER BY name ASC'')]
     []"

definition squashed_logs_20 :: SchemaMigrationRecord where
  "squashed_logs_20 = migration 20
     [create_table ''signoz_logs'' ''logs_v2_resource''
       [col ''labels'' ColumnTypeString ''ZSTD(5)'' [],
        col ''fingerprint'' ColumnTypeString ''ZSTD(1)'' [],
        col ''seen_at_ts_bucket_start'' ColumnTypeInt64 ''Delta(8), ZSTD(1)'' []]
       [idx ''idx_labels'' ''lower(labels)'' ''ngrambf_v1(4, 1024, 3, 0)'' 1,
        idx ''idx_labels_v1'' ''labels'' ''ngrambf_v1(4, 1024, 3, 0)'' 1]
       []
       (replacing (merge_tree ''(labels, fingerprint, seen_at_ts_bucket_start)'' []
         ''toDate(seen_at_ts_bucket_start / 1000)''
         ''toDateTime(seen_at_ts_bucket_start) + INTERVAL 1296000 SECOND + INTERVAL 1800 SECOND DELETE''
         [setting ''ttl_only_drop_parts'' ''1'', setting ''index_granularity'' ''8192'']) []),
      create_table ''signoz_logs'' ''distributed_logs_v2_resource''
       [col ''labels'' ColumnTypeString ''ZSTD(5)'' [],
        col ''fingerprint'' ColumnTypeString ''ZSTD(1)'' [],
        col ''seen_at_ts_bucket_start'' ColumnTypeInt64 ''Delta(8), ZSTD(1)'' []]
       []
       []
       (distributed ''signoz_logs'' ''logs_v2_resource'' ''cityHash64(labels, fingerprint)'')]
     [drop_table ''signoz_logs'' ''logs_v2_resource'',
      drop_table ''signoz_logs'' ''distributed_logs_v2_resource'']"

definition squashed_logs_migrations :: "SchemaMigrationRecord list" where
  "squashed_logs_migrations =
     [squashed_logs_1, squashed_logs_2, squashed_logs_3, squashed_logs_4, squashed_logs_5,
      squashed_logs_6, squashed_logs_7, squashed_logs_8, squashed_logs_9, squashed_logs_10,
      squashed_logs_11, squashed_logs_12, squashed_logs_13, squashed_logs_14,
      squashed_logs_15, squashed_logs_16, squashed_logs_17, squashed_logs_18,
      squashed_logs_19, squashed_logs_20]"

lemmas logs_migrations_recs =
  logs_migration_1000_def logs_migration_1001_def logs_migration_1002_def logs_migration_1003_def
  logs_migration_1004_def logs_migration_1005_def logs_migration_2001_def logs_migration_2002_def

lemmas logs_migrations_ops =
  logs_migration_2001_up1_def logs_migration_2001_up2_def logs_migration_2001_down_def

lemmas custom_retention_logs_migrations_recs =
  custom_retention_1_def custom_retention_2_def custom_retention_3_def custom_retention_4_def
  custom_retention_5_def custom_retention_6_def custom_retention_7_def custom_retention_8_def
  custom_retention_9_def

lemmas squashed_logs_migrations_recs =
  squashed_logs_1_def squashed_logs_2_def squashed_logs_3_def squashed_logs_4_def
  squashed_logs_5_def squashed_logs_6_def squashed_logs_7_def squashed_logs_8_def
  squashed_logs_9_def squashed_logs_10_def squashed_logs_11_def squashed_logs_12_def
  squashed_logs_13_def squashed_logs_14_def squashed_logs_15_def squashed_logs_16_def
  squashed_logs_17_def squashed_logs_18_def squashed_logs_19_def squashed_logs_20_def

end
