(* ===== verification/Migrations_Metrics.thy ===== *)
theory Migrations_Metrics
  imports Migration_Literals
begin

text \<open>
  The migrations of the metrics database, and the squashed list a new installation starts from.
\<close>

section \<open>\<open>MetricsMigrations\<close> (\<open>metrics_migrations.go\<close>)\<close>

definition metrics_migration_1000_up1 :: "Operation list" where
  "metrics_migration_1000_up1 =
     [add_column ''signoz_metrics'' ''time_series_v4''
       (col ''attrs'' (MapColumnType (LowCardinalityColumnType ColumnTypeString) ColumnTypeString)
         ''ZSTD(1)'' ''map()'') None,
      add_column ''signoz_metrics'' ''time_series_v4''
       (col ''scope_attrs'' (MapColumnType (LowCardinalityColumnType ColumnTypeString) ColumnTypeString)
         ''ZSTD(1)'' ''map()'') None,
      add_column ''signoz_metrics'' ''time_series_v4''
       (col ''resource_attrs'' (MapColumnType (LowCardinalityColumnType ColumnTypeString)
         ColumnTypeString) ''ZSTD(1)'' ''map()'') None,
      add_column ''signoz_metrics'' ''distributed_time_series_v4''
       (col ''attrs'' (MapColumnType (LowCardinalityColumnType ColumnTypeString) ColumnTypeString)
         ''ZSTD(1)'' ''map()'') None,
      add_column ''signoz_metrics'' ''distributed_time_series_v4''
       (col ''scope_attrs'' (MapColumnType (LowCardinalityColumnType ColumnTypeString) ColumnTypeString)
         ''ZSTD(1)'' ''map()'') None,
      add_column ''signoz_metrics'' ''distributed_time_series_v4''
       (col ''resource_attrs'' (MapColumnType (LowCardinalityColumnType ColumnTypeString)
         ColumnTypeString) ''ZSTD(1)'' ''map()'') None,
      add_column ''signoz_metrics'' ''time_series_v4_6hrs''
       (col ''attrs'' (MapColumnType (LowCardinalityColumnType ColumnTypeString) ColumnTypeString)
         ''ZSTD(1)'' ''map()'') None,
      add_column ''signoz_metrics'' ''time_series_v4_6hrs''
       (col ''scope_attrs'' (MapColumnType (LowCardinalityColumnType ColumnTypeString) ColumnTypeString)
         ''ZSTD(1)'' ''map()'') None,
      add_column ''signoz_metrics'' ''time_series_v4_6hrs''
       (col ''resource_attrs'' (MapColumnType (LowCardinalityColumnType ColumnTypeString)
         ColumnTypeString) ''ZSTD(1)'' ''map()'') None,
      add_column ''signoz_metrics'' ''distributed_time_series_v4_6hrs''
       (col ''attrs'' (MapColumnType (LowCardinalityColumnType ColumnTypeString) ColumnTypeString)
         ''ZSTD(1)'' ''map()'') None]"

definition metrics_migration_1000_up2 :: "Operation list" where
  "metrics_migration_1000_up2 =
     [add_column ''signoz_metrics'' ''distributed_time_series_v4_6hrs''
       (col ''scope_attrs'' (MapColumnType (LowCardinalityColumnType ColumnTypeString) ColumnTypeString)
         ''ZSTD(1)'' ''map()'') None,
      add_column ''signoz_metrics'' ''distributed_time_series_v4_6hrs''
       (col ''resource_attrs'' (MapColumnType (LowCardinalityColumnType ColumnTypeString)
         ColumnTypeString) ''ZSTD(1)'' ''map()'') None,
      add_column ''signoz_metrics'' ''time_series_v4_1day''
       (col ''attrs'' (MapColumnType (LowCardinalityColumnType ColumnTypeString) ColumnTypeString)
         ''ZSTD(1)'' ''map()'') None,
      add_column ''signoz_metrics'' ''time_series_v4_1day''
       (col ''scope_attrs'' (MapColumnType (LowCardinalityColumnType ColumnTypeString) ColumnTypeString)
         ''ZSTD(1)'' ''map()'') None,
      add_column ''signoz_metrics'' ''time_series_v4_1day''
       (col ''resource_attrs'' (MapColumnType (LowCardinalityColumnType ColumnTypeString)
         ColumnTypeString) ''ZSTD(1)'' ''map()'') None,
      add_column ''signoz_metrics'' ''distributed_time_series_v4_1day''
       (col ''attrs'' (MapColumnType (LowCardinalityColumnType ColumnTypeString) ColumnTypeString)
         ''ZSTD(1)'' ''map()'') None,
      add_column ''signoz_metrics'' ''distributed_time_series_v4_1day''
       (col ''scope_attrs'' (MapColumnType (LowCardinalityColumnType ColumnTypeString) ColumnTypeString)
         ''ZSTD(1)'' ''map()'') None,
      add_column ''signoz_metrics'' ''distributed_time_series_v4_1day''
       (col ''resource_attrs'' (MapColumnType (LowCardinalityColumnType ColumnTypeString)
         ColumnTypeString) ''ZSTD(1)'' ''map()'') None,
      add_column ''signoz_metrics'' ''time_series_v4_1week''
       (col ''attrs'' (MapColumnType (LowCardinalityColumnType ColumnTypeString) ColumnTypeString)
         ''ZSTD(1)'' ''map()'') None,
      add_column ''signoz_metrics'' ''time_series_v4_1week''
       (col ''scope_attrs'' (MapColumnType (LowCardinalityColumnType ColumnTypeString) ColumnTypeString)
         ''ZSTD(1)'' ''map()'') None]"

definition metrics_migration_1000_up3 :: "Operation list" where
  "metrics_migration_1000_up3 =
     [add_column ''signoz_metrics'' ''time_series_v4_1week''
       (col ''resource_attrs'' (MapColumnType (LowCardinalityColumnType ColumnTypeString)
         ColumnTypeString) ''ZSTD(1)'' ''map()'') None,
      add_column ''signoz_metrics'' ''distributed_time_series_v4_1week''
       (col ''attrs'' (MapColumnType (LowCardinalityColumnType ColumnTypeString) ColumnTypeString)
         ''ZSTD(1)'' ''map()'') None,
      add_column ''signoz_metrics'' ''distributed_time_series_v4_1week''
       (col ''scope_attrs'' (MapColumnType (LowCardinalityColumnType ColumnTypeString) ColumnTypeString)
         ''ZSTD(1)'' ''map()'') None,
      add_column ''signoz_metrics'' ''distributed_time_series_v4_1week''
       (col ''resource_attrs'' (MapColumnType (LowCardinalityColumnType ColumnTypeString)
         ColumnTypeString) ''ZSTD(1)'' ''map()'') None,
      create_table ''signoz_metrics'' ''metadata''
       [col ''temporality'' (LowCardinalityColumnType ColumnTypeString) ''ZSTD(1)'' [],
        col ''metric_name'' (LowCardinalityColumnType ColumnTypeString) ''ZSTD(1)'' [],
        col ''description'' ColumnTypeString ''ZSTD(1)'' [],
        col ''unit'' (LowCardinalityColumnType ColumnTypeString) ''ZSTD(1)'' [],
        col ''type'' (LowCardinalityColumnType ColumnTypeString) ''ZSTD(1)'' [],
        col ''is_monotonic'' ColumnTypeBool ''ZSTD(1)'' [],
        col ''attr_name'' (LowCardinalityColumnType ColumnTypeString) ''ZSTD(1)'' [],
        col ''attr_type'' (LowCardinalityColumnType ColumnTypeString) ''ZSTD(1)'' [],
        col ''attr_datatype'' (LowCardinalityColumnType ColumnTypeString) ''ZSTD(1)'' [],
        col ''attr_string_value'' ColumnTypeString ''ZSTD(1)'' [],
        col ''first_reported_unix_milli'' (SimpleAggregateFunction ''min'' [ColumnTypeUInt64]) ''ZSTD(1)'' [],
        col ''last_reported_unix_milli'' (SimpleAggregateFunction ''max'' [ColumnTypeUInt64]) ''ZSTD(1)'' []]
       []
       []
       (EAggregating (merge_tree
         ''(temporality, metric_name, attr_name, attr_type, attr_datatype, attr_string_value)'' []
         ''toDate(last_reported_unix_milli / 1000)''
         ''toDateTime(last_reported_unix_milli / 1000) + toIntervalSecond(2592000)'' [setting
         ''ttl_only_drop_parts'' ''1''])),
      create_table ''signoz_metrics'' ''distributed_metadata''
       [col ''temporality'' (LowCardinalityColumnType ColumnTypeString) ''ZSTD(1)'' [],
        col ''metric_name'' (LowCardinalityColumnType ColumnTypeString) ''ZSTD(1)'' [],
        col ''description'' ColumnTypeString ''ZSTD(1)'' [],
        col ''unit'' (LowCardinalityColumnType ColumnTypeString) ''ZSTD(1)'' [],
        col ''type'' (LowCardinalityColumnType ColumnTypeString) ''ZSTD(1)'' [],
        col ''is_monotonic'' ColumnTypeBool ''ZSTD(1)'' [],
        col ''attr_name'' (LowCardinalityColumnType ColumnTypeString) ''ZSTD(1)'' [],
        col ''attr_type'' (LowCardinalityColumnType ColumnTypeString) ''ZSTD(1)'' [],
        col ''attr_datatype'' (LowCardinalityColumnType ColumnTypeString) ''ZSTD(1)'' [],
        col ''attr_string_value'' ColumnTypeString ''ZSTD(1)'' [],
        col ''first_reported_unix_milli'' (SimpleAggregateFunction ''min'' [ColumnTypeUInt64]) ''ZSTD(1)'' [],
        col ''last_reported_unix_milli'' (SimpleAggregateFunction ''max'' [ColumnTypeUInt64]) ''ZSTD(1)'' []]
       []
       []
       (distributed ''signoz_metrics'' ''metadata'' ''rand()''),
      create_view ''signoz_metrics'' ''time_series_v4_6hrs_mv_separate_attrs'' ''time_series_v4_6hrs''
       [col ''env'' (LowCardinalityColumnType ColumnTypeString) [] (''\\'default'' @ [CHR 0x27]),
        col ''temporality'' (LowCardinalityColumnType ColumnTypeString) [] (''\\'Unspecified'' @ [CHR 0x27]),
        col ''metric_name'' (LowCardinalityColumnType ColumnTypeString) [] [],
        col ''description'' (LowCardinalityColumnType ColumnTypeString) ''ZSTD(1)'' [CHR 0x27, CHR 0x27],
        col ''unit'' (LowCardinalityColumnType ColumnTypeString) ''ZSTD(1)'' [CHR 0x27, CHR 0x27],
        col ''type'' (LowCardinalityColumnType ColumnTypeString) ''ZSTD(1)'' [CHR 0x27, CHR 0x27],
        col ''is_monotonic'' ColumnTypeBool ''ZSTD(1)'' ''false'',
        col ''fingerprint'' ColumnTypeUInt64 ''Delta(8), ZSTD(1)'' [],
        col ''unix_milli'' ColumnTypeInt64 ''Delta(8), ZSTD(1)'' [],
        col ''labels'' ColumnTypeString ''ZSTD(5)'' [],
        col ''attrs'' (MapColumnType (LowCardinalityColumnType ColumnTypeString) ColumnTypeString)
          ''ZSTD(1)'' [],
        col ''scope_attrs'' (MapColumnType (LowCardinalityColumnType ColumnTypeString) ColumnTypeString)
          ''ZSTD(1)'' [],
        col ''resource_attrs'' (MapColumnType (LowCardinalityColumnType ColumnTypeString)
          ColumnTypeString) ''ZSTD(1)'' []]
       (''SELECT'' @ br 7 @ ''env,'' @ br 7 @ ''temporality,'' @ br 7 @ ''metric_name,'' @ br 7 @
         ''description,'' @ br 7 @ ''unit,'' @ br 7 @ ''type,'' @ br 7 @ ''is_monotonic,'' @ br 7 @
         ''fingerprint,'' @ br 7 @ ''floor(unix_milli / 21600000) * 21600000 AS unix_milli,'' @ br 7 @
         ''labels,'' @ br 7 @ ''attrs,'' @ br 7 @ ''scope_attrs,'' @ br 7 @ ''resource_attrs'' @ br 6 @
         ''FROM signoz_metrics.time_series_v4'')]"

definition metrics_migration_1000_up4 :: "Operation list" where
  "metrics_migration_1000_up4 =
     [create_view ''signoz_metrics'' ''time_series_v4_1day_mv_separate_attrs'' ''time_series_v4_1day''
       [col ''env'' (LowCardinalityColumnType ColumnTypeString) [] (''\\'default'' @ [CHR 0x27]),
        col ''temporality'' (LowCardinalityColumnType ColumnTypeString) [] (''\\'Unspecified'' @ [CHR 0x27]),
        col ''metric_name'' (LowCardinalityColumnType ColumnTypeString) [] [],
        col ''description'' (LowCardinalityColumnType ColumnTypeString) ''ZSTD(1)'' [CHR 0x27, CHR 0x27],
        col ''unit'' (LowCardinalityColumnType ColumnTypeString) ''ZSTD(1)'' [CHR 0x27, CHR 0x27],
        col ''type'' (LowCardinalityColumnType ColumnTypeString) ''ZSTD(1)'' [CHR 0x27, CHR 0x27],
        col ''is_monotonic'' ColumnTypeBool ''ZSTD(1)'' ''false'',
        col ''fingerprint'' ColumnTypeUInt64 ''Delta(8), ZSTD(1)'' [],
        col ''unix_milli'' ColumnTypeInt64 ''Delta(8), ZSTD(1)'' [],
        col ''labels'' ColumnTypeString ''ZSTD(5)'' [],
        col ''attrs'' (MapColumnType (LowCardinalityColumnType ColumnTypeString) ColumnTypeString)
          ''ZSTD(1)'' [],
        col ''scope_attrs'' (MapColumnType (LowCardinalityColumnType ColumnTypeString) ColumnTypeString)
          ''ZSTD(1)'' [],
        col ''resource_attrs'' (MapColumnType (LowCardinalityColumnType ColumnTypeString)
          ColumnTypeString) ''ZSTD(1)'' []]
       (''SELECT'' @ br 7 @ ''env,'' @ br 7 @ ''temporality,'' @ br 7 @ ''metric_name,'' @ br 7 @
         ''description,'' @ br 7 @ ''unit,'' @ br 7 @ ''type,'' @ br 7 @ ''is_monotonic,'' @ br 7 @
         ''fingerprint,'' @ br 7 @ ''floor(unix_milli / 86400000) * 86400000 AS unix_milli,'' @ br 7 @
         ''labels,'' @ br 7 @ ''attrs,'' @ br 7 @ ''scope_attrs,'' @ br 7 @ ''resource_attrs'' @ br 6 @
         ''FROM signoz_metrics.time_series_v4_6hrs''),
      create_view ''signoz_metrics'' ''time_series_v4_1week_mv_separate_attrs'' ''time_series_v4_1week''
       [col ''env'' (LowCardinalityColumnType ColumnTypeString) [] (''\\'default'' @ [CHR 0x27]),
        col ''temporality'' (LowCardinalityColumnType ColumnTypeString) [] (''\\'Unspecified'' @ [CHR 0x27]),
        col ''metric_name'' (LowCardinalityColumnType ColumnTypeString) [] [],
        col ''description'' (LowCardinalityColumnType ColumnTypeString) ''ZSTD(1)'' [CHR 0x27, CHR 0x27],
        col ''unit'' (LowCardinalityColumnType ColumnTypeString) ''ZSTD(1)'' [CHR 0x27, CHR 0x27],
        col ''type'' (LowCardinalityColumnType ColumnTypeString) ''ZSTD(1)'' [CHR 0x27, CHR 0x27],
        col ''is_monotonic'' ColumnTypeBool ''ZSTD(1)'' ''false'',
        col ''fingerprint'' ColumnTypeUInt64 ''Delta(8), ZSTD(1)'' [],
        col ''unix_milli'' ColumnTypeInt64 ''Delta(8), ZSTD(1)'' [],
        col ''labels'' ColumnTypeString ''ZSTD(5)'' [],
        col ''attrs'' (MapColumnType (LowCardinalityColumnType ColumnTypeString) ColumnTypeString)
          ''ZSTD(1)'' [],
        col ''scope_attrs'' (MapColumnType (LowCardinalityColumnType ColumnTypeString) ColumnTypeString)
          ''ZSTD(1)'' [],
        col ''resource_attrs'' (MapColumnType (LowCardinalityColumnType ColumnTypeString)
          ColumnTypeString) ''ZSTD(1)'' []]
       (''SELECT'' @ br 7 @ ''env,'' @ br 7 @ ''temporality,'' @ br 7 @ ''metric_name,'' @ br 7 @
         ''description,'' @ br 7 @ ''unit,'' @ br 7 @ ''type,'' @ br 7 @ ''is_monotonic,'' @ br 7 @
         ''fingerprint,'' @ br 7 @ ''floor(unix_milli / 604800000) * 604800000 AS unix_milli,'' @ br 7 @
         ''labels,'' @ br 7 @ ''attrs,'' @ br 7 @ ''scope_attrs,'' @ br 7 @ ''resource_attrs'' @ br 6 @
         ''FROM signoz_metrics.time_series_v4_1day'')]"

definition metrics_migration_1000 :: SchemaMigrationRecord where
  "metrics_migration_1000 = migration 1000
     (metrics_migration_1000_up1 @ metrics_migration_1000_up2 @ metrics_migration_1000_up3 @
       metrics_migration_1000_up4)
     []"

definition metrics_migration_1001_up1 :: "Operation list" where
  "metrics_migration_1001_up1 =
     [add_column ''signoz_metrics'' ''time_series_v4''
       (col ''__normalized'' ColumnTypeBool ''ZSTD(1)'' ''true'') None,
      add_column ''signoz_metrics'' ''distributed_time_series_v4''
       (col ''__normalized'' ColumnTypeBool ''ZSTD(1)'' ''true'') None,
      add_column ''signoz_metrics'' ''time_series_v4_6hrs''
       (col ''__normalized'' ColumnTypeBool ''ZSTD(1)'' ''true'') None,
      add_column ''signoz_metrics'' ''distributed_time_series_v4_6hrs''
       (col ''__normalized'' ColumnTypeBool ''ZSTD(1)'' ''true'') None,
      add_column ''signoz_metrics'' ''time_series_v4_1day''
       (col ''__normalized'' ColumnTypeBool ''ZSTD(1)'' ''true'') None,
      add_column ''signoz_metrics'' ''distributed_time_series_v4_1day''
       (col ''__normalized'' ColumnTypeBool ''ZSTD(1)'' ''true'') None,
      add_column ''signoz_metrics'' ''time_series_v4_1week''
       (col ''__normalized'' ColumnTypeBool ''ZSTD(1)'' ''true'') None,
      add_column ''signoz_metrics'' ''distributed_time_series_v4_1week''
       (col ''__normalized'' ColumnTypeBool ''ZSTD(1)'' ''true'') None,
      modify_query ''signoz_metrics'' ''time_series_v4_6hrs_mv''
       (''SELECT'' @ br 7 @ ''env,'' @ br 7 @ ''temporality,'' @ br 7 @ ''metric_name,'' @ br 7 @
         ''description,'' @ br 7 @ ''unit,'' @ br 7 @ ''type,'' @ br 7 @ ''is_monotonic,'' @ br 7 @
         ''fingerprint,'' @ br 7 @ ''floor(unix_milli / 21600000) * 21600000 AS unix_milli,'' @ br 7 @
         ''labels,'' @ br 7 @ ''__normalized'' @ br 6 @ ''FROM signoz_metrics.time_series_v4''),
      modify_query ''signoz_metrics'' ''time_series_v4_1day_mv''
       (''SELECT'' @ br 7 @ ''env,'' @ br 7 @ ''temporality,'' @ br 7 @ ''metric_name,'' @ br 7 @
         ''description,'' @ br 7 @ ''unit,'' @ br 7 @ ''type,'' @ br 7 @ ''is_monotonic,'' @ br 7 @
         ''fingerprint,'' @ br 7 @ ''floor(unix_milli / 86400000) * 86400000 AS unix_milli,'' @ br 7 @
         ''labels,'' @ br 7 @ ''__normalized'' @ br 6 @ ''FROM signoz_metrics.time_series_v4_6hrs''),
      modify_query ''signoz_metrics'' ''time_series_v4_1week_mv''
       (''SELECT'' @ br 7 @ ''env,'' @ br 7 @ ''temporality,'' @ br 7 @ ''metric_name,'' @ br 7 @
         ''description,'' @ br 7 @ ''unit,'' @ br 7 @ ''type,'' @ br 7 @ ''is_monotonic,'' @ br 7 @
         ''fingerprint,'' @ br 7 @ ''floor(unix_milli / 604800000) * 604800000 AS unix_milli,'' @ br 7 @
         ''labels,'' @ br 7 @ ''__normalized'' @ br 6 @ ''FROM signoz_metrics.time_series_v4_1day'')]"

definition metrics_migration_1001_up2 :: "Operation list" where
  "metrics_migration_1001_up2 =
     [modify_query ''signoz_metrics'' ''time_series_v4_6hrs_mv_separate_attrs''
       (''SELECT'' @ br 7 @ ''env,'' @ br 7 @ ''temporality,'' @ br 7 @ ''metric_name,'' @ br 7 @
         ''description,'' @ br 7 @ ''unit,'' @ br 7 @ ''type,'' @ br 7 @ ''is_monotonic,'' @ br 7 @
         ''fingerprint,'' @ br 7 @ ''floor(unix_milli / 21600000) * 21600000 AS unix_milli,'' @ br 7 @
         ''labels,'' @ br 7 @ ''attrs,'' @ br 7 @ ''scope_attrs,'' @ br 7 @ ''resource_attrs,'' @ br 7 @
         ''__normalized'' @ br 6 @ ''FROM signoz_metrics.time_series_v4''),
      modify_query ''signoz_metrics'' ''time_series_v4_1day_mv_separate_attrs''
       (''SELECT'' @ br 7 @ ''env,'' @ br 7 @ ''temporality,'' @ br 7 @ ''metric_name,'' @ br 7 @
         ''description,'' @ br 7 @ ''unit,'' @ br 7 @ ''type,'' @ br 7 @ ''is_monotonic,'' @ br 7 @
         ''fingerprint,'' @ br 7 @ ''floor(unix_milli / 86400000) * 86400000 AS unix_milli,'' @ br 7 @
         ''labels,'' @ br 7 @ ''attrs,'' @ br 7 @ ''scope_attrs,'' @ br 7 @ ''resource_attrs,'' @ br 7 @
         ''__normalized'' @ br 6 @ ''FROM signoz_metrics.time_series_v4_6hrs''),
      modify_query ''signoz_metrics'' ''time_series_v4_1week_mv_separate_attrs''
       (''SELECT'' @ br 7 @ ''env,'' @ br 7 @ ''temporality,'' @ br 7 @ ''metric_name,'' @ br 7 @
         ''description,'' @ br 7 @ ''unit,'' @ br 7 @ ''type,'' @ br 7 @ ''is_monotonic,'' @ br 7 @
         ''fingerprint,'' @ br 7 @ ''floor(unix_milli / 604800000) * 604800000 AS unix_milli,'' @ br 7 @
         ''labels,'' @ br 7 @ ''attrs,'' @ br 7 @ ''scope_attrs,'' @ br 7 @ ''resource_attrs,'' @ br 7 @
         ''__normalized'' @ br 6 @ ''FROM signoz_metrics.time_series_v4_1day'')]"

definition metrics_migration_1001 :: SchemaMigrationRecord where
  "metrics_migration_1001 = migration 1001
     (metrics_migration_1001_up1 @ metrics_migration_1001_up2)
     []"

definition metrics_migration_1002 :: SchemaMigrationRecord where
  "metrics_migration_1002 = migration 1002
     [create_table ''signoz_metrics'' ''updated_metadata''
       [col ''metric_name'' (LowCardinalityColumnType ColumnTypeString) ''ZSTD(1)'' [],
        col ''temporality'' (LowCardinalityColumnType ColumnTypeString) ''ZSTD(1)'' [],
        col ''is_monotonic'' ColumnTypeBool ''ZSTD(1)'' [],
        col ''type'' (LowCardinalityColumnType ColumnTypeString) ''ZSTD(1)'' [],
        col ''description'' (LowCardinalityColumnType ColumnTypeString) ''ZSTD(1)'' [],
        col ''unit'' (LowCardinalityColumnType ColumnTypeString) ''ZSTD(1)'' [],
        col ''created_at'' ColumnTypeInt64 ''ZSTD(1)'' []]
       []
       []
       (EMergeTree (merge_tree ''(metric_name)'' [] [] [] [])),
      create_table ''signoz_metrics'' ''distributed_updated_metadata''
       [col ''metric_name'' (LowCardinalityColumnType ColumnTypeString) ''ZSTD(1)'' [],
        col ''temporality'' (LowCardinalityColumnType ColumnTypeString) ''ZSTD(1)'' [],
        col ''is_monotonic'' ColumnTypeBool ''ZSTD(1)'' [],
        col ''type'' (LowCardinalityColumnType ColumnTypeString) ''ZSTD(1)'' [],
        col ''description'' (LowCardinalityColumnType ColumnTypeString) ''ZSTD(1)'' [],
        col ''unit'' (LowCardinalityColumnType ColumnTypeString) ''ZSTD(1)'' [],
        col ''created_at'' ColumnTypeInt64 ''ZSTD(1)'' []]
       []
       []
       (distributed ''signoz_metrics'' ''updated_metadata'' ''cityHash64(metric_name)'')]
     []"

definition metrics_migration_1003 :: SchemaMigrationRecord where
  "metrics_migration_1003 = migration 1003
     [add_column ''signoz_metrics'' ''samples_v4''
       (col ''flags'' ColumnTypeUInt32 ''ZSTD(1)'' ''0'') None,
      add_column ''signoz_metrics'' ''distributed_samples_v4''
       (col ''flags'' ColumnTypeUInt32 ''ZSTD(1)'' ''0'') None,
      add_column ''signoz_metrics'' ''exp_hist''
       (col ''flags'' ColumnTypeUInt32 ''ZSTD(1)'' ''0'') None,
      add_column ''signoz_metrics'' ''distributed_exp_hist''
       (col ''flags'' ColumnTypeUInt32 ''ZSTD(1)'' ''0'') None,
      modify_query ''signoz_metrics'' ''samples_v4_agg_5m_mv''
       (''SELECT'' @ br 7 @ ''env,'' @ br 7 @ ''temporality,'' @ br 7 @ ''metric_name,'' @ br 7 @
         ''fingerprint,'' @ br 7 @ ''intDiv(unix_milli, 300000) * 300000 as unix_milli,'' @ br 7 @
         ''anyLast(value) as last,'' @ br 7 @ ''min(value) as min,'' @ br 7 @ ''max(value) as max,'' @ br
         7 @ ''sum(value) as sum,'' @ br 7 @ ''count(*) as count'' @ br 6 @
         ''FROM signoz_metrics.samples_v4'' @ br 6 @ ''WHERE bitAnd(flags, 1) = 0'' @ br 6 @ ''GROUP BY''
         @ br 7 @ ''env,'' @ br 7 @ ''temporality,'' @ br 7 @ ''metric_name,'' @ br 7 @ ''fingerprint,'' @
         br 7 @ ''unix_milli;''),
      modify_query ''signoz_metrics'' ''samples_v4_agg_30m_mv''
       (''SELECT'' @ br 7 @ ''env,'' @ br 7 @ ''temporality,'' @ br 7 @ ''metric_name,'' @ br 7 @
         ''fingerprint,'' @ br 7 @ ''intDiv(unix_milli, 1800000) * 1800000 AS unix_milli,'' @ br 7 @
         ''anyLast(last) AS last,'' @ br 7 @ ''min(min) AS min,'' @ br 7 @ ''max(max) AS max,'' @ br 7 @
         ''sum(sum) AS sum,'' @ br 7 @ ''sum(count) AS count'' @ br 6 @
         ''FROM signoz_metrics.samples_v4_agg_5m'' @ br 6 @ ''GROUP BY'' @ br 7 @ ''env,'' @ br 7 @
         ''temporality,'' @ br 7 @ ''metric_name,'' @ br 7 @ ''fingerprint,'' @ br 7 @ ''unix_milli;'')]
     []"

definition metrics_migration_1004 :: SchemaMigrationRecord where
  "metrics_migration_1004 = migration 1004
     [modify_query ''signoz_metrics'' ''time_series_v4_6hrs_mv''
       (''SELECT'' @ br 7 @ ''env,'' @ br 7 @ ''temporality,'' @ br 7 @ ''metric_name,'' @ br 7 @
         ''description,'' @ br 7 @ ''unit,'' @ br 7 @ ''type,'' @ br 7 @ ''is_monotonic,'' @ br 7 @
         ''fingerprint,'' @ br 7 @ ''floor(unix_milli / 21600000) * 21600000 AS unix_milli,'' @ br 7 @
         ''labels,'' @ br 7 @ ''attrs,'' @ br 7 @ ''scope_attrs,'' @ br 7 @ ''resource_attrs,'' @ br 7 @
         ''__normalized'' @ br 6 @ ''FROM signoz_metrics.time_series_v4''),
      modify_query ''signoz_metrics'' ''time_series_v4_1day_mv''
       (''SELECT'' @ br 7 @ ''env,'' @ br 7 @ ''temporality,'' @ br 7 @ ''metric_name,'' @ br 7 @
         ''description,'' @ br 7 @ ''unit,'' @ br 7 @ ''type,'' @ br 7 @ ''is_monotonic,'' @ br 7 @
         ''fingerprint,'' @ br 7 @ ''floor(unix_milli / 86400000) * 86400000 AS unix_milli,'' @ br 7 @
         ''labels,'' @ br 7 @ ''attrs,'' @ br 7 @ ''scope_attrs,'' @ br 7 @ ''resource_attrs,'' @ br 7 @
         ''__normalized'' @ br 6 @ ''FROM signoz_metrics.time_series_v4_6hrs''),
      modify_query ''signoz_metrics'' ''time_series_v4_1week_mv''
       (''SELECT'' @ br 7 @ ''env,'' @ br 7 @ ''temporality,'' @ br 7 @ ''metric_name,'' @ br 7 @
         ''description,'' @ br 7 @ ''unit,'' @ br 7 @ ''type,'' @ br 7 @ ''is_monotonic,'' @ br 7 @
         ''fingerprint,'' @ br 7 @ ''floor(unix_milli / 604800000) * 604800000 AS unix_milli,'' @ br 7 @
         ''labels,'' @ br 7 @ ''attrs,'' @ br 7 @ ''scope_attrs,'' @ br 7 @ ''resource_attrs,'' @ br 7 @
         ''__normalized'' @ br 6 @ ''FROM signoz_metrics.time_series_v4_1day'')]
     []"

definition metrics_migration_1005 :: SchemaMigrationRecord where
  "metrics_migration_1005 = migration 1005
     [drop_table ''signoz_metrics'' ''time_series_v4_6hrs_mv_separate_attrs'',
      drop_table ''signoz_metrics'' ''time_series_v4_1day_mv_separate_attrs'',
      drop_table ''signoz_metrics'' ''time_series_v4_1week_mv_separate_attrs'']
     []"

definition metrics_migration_1006 :: SchemaMigrationRecord where
  "metrics_migration_1006 = migration 1006
     [drop_index ''signoz_metrics'' ''time_series_v4'' (idx ''idx_labels'' [] [] 0),
      drop_index ''signoz_metrics'' ''time_series_v4_6hrs'' (idx ''idx_labels'' [] [] 0),
      drop_index ''signoz_metrics'' ''time_series_v4_1day'' (idx ''idx_labels'' [] [] 0),
      drop_index ''signoz_metrics'' ''time_series_v4_1week'' (idx ''idx_labels'' [] [] 0)]
     []"

definition metrics_migration_1007 :: SchemaMigrationRecord where
  "metrics_migration_1007 = migration 1007
     [add_column ''signoz_metrics'' ''samples_v4''
       (col ''inserted_at_unix_milli'' ColumnTypeInt64 ''ZSTD(1)'' []) None,
      add_column ''signoz_metrics'' ''distributed_samples_v4''
       (col ''inserted_at_unix_milli'' ColumnTypeInt64 ''ZSTD(1)'' []) None,
      add_column ''signoz_metrics'' ''time_series_v4''
       (col ''inserted_at_unix_milli'' ColumnTypeInt64 ''ZSTD(1)'' []) None,
      add_column ''signoz_metrics'' ''distributed_time_series_v4''
       (col ''inserted_at_unix_milli'' ColumnTypeInt64 ''ZSTD(1)'' []) None,
      add_column ''signoz_metrics'' ''exp_hist''
       (col ''inserted_at_unix_milli'' ColumnTypeInt64 ''ZSTD(1)'' []) None,
      add_column ''signoz_metrics'' ''distributed_exp_hist''
       (col ''inserted_at_unix_milli'' ColumnTypeInt64 ''ZSTD(1)'' []) None]
     []"

definition metrics_migration_1008_up1 :: "Operation list" where
  "metrics_migration_1008_up1 =
     [create_table ''signoz_metrics'' ''samples_v4_buffer''
       [col ''env'' (LowCardinalityColumnType ColumnTypeString) [] (''\\'default'' @ [CHR 0x27]),
        col ''temporality'' (LowCardinalityColumnType ColumnTypeString) [] (''\\'Unspecified'' @ [CHR 0x27]),
        col ''metric_name'' (LowCardinalityColumnType ColumnTypeString) [] [],
        col ''fingerprint'' ColumnTypeUInt64 ''Delta(8), ZSTD(1)'' [],
        col ''reduced_fingerprint'' ColumnTypeUInt64 ''ZSTD(1)'' ''0'',
        col ''is_monotonic'' ColumnTypeBool ''ZSTD(1)'' ''false'',
        col ''unix_milli'' ColumnTypeInt64 ''DoubleDelta, ZSTD(1)'' [],
        col ''value'' ColumnTypeFloat64 ''Gorilla, ZSTD(1)'' [],
        col ''flags'' ColumnTypeUInt32 ''ZSTD(1)'' ''0'',
        col ''inserted_at_unix_milli'' ColumnTypeInt64 ''ZSTD(1)'' []]
       [idx ''idx_unix_milli'' ''unix_milli'' ''minmax'' 1]
       []
       (EMergeTree (merge_tree ''(env, temporality, metric_name, fingerprint, unix_milli)'' []
         ''toDate(unix_milli / 1000)'' ''toDateTime(unix_milli / 1000) + toIntervalSecond(90000)''
         [setting ''index_granularity'' ''8192'', setting ''ttl_only_drop_parts'' ''1''])),
      create_table ''signoz_metrics'' ''distributed_samples_v4_buffer''
       [col ''env'' (LowCardinalityColumnType ColumnTypeString) [] (''\\'default'' @ [CHR 0x27]),
        col ''temporality'' (LowCardinalityColumnType ColumnTypeString) [] (''\\'Unspecified'' @ [CHR 0x27]),
        col ''metric_name'' (LowCardinalityColumnType ColumnTypeString) [] [],
        col ''fingerprint'' ColumnTypeUInt64 ''Delta(8), ZSTD(1)'' [],
        col ''reduced_fingerprint'' ColumnTypeUInt64 ''ZSTD(1)'' ''0'',
        col ''is_monotonic'' ColumnTypeBool ''ZSTD(1)'' ''false'',
        col ''unix_milli'' ColumnTypeInt64 ''DoubleDelta, ZSTD(1)'' [],
        col ''value'' ColumnTypeFloat64 ''Gorilla, ZSTD(1)'' [],
        col ''flags'' ColumnTypeUInt32 ''ZSTD(1)'' ''0'',
        col ''inserted_at_unix_milli'' ColumnTypeInt64 ''ZSTD(1)'' []]
       []
       []
       (distributed ''signoz_metrics'' ''samples_v4_buffer''
         ''cityHash64(env, temporality, metric_name, if(reduced_fingerprint != 0, reduced_fingerprint, fingerprint))''),
      create_table ''signoz_metrics'' ''time_series_v4_buffer''
       [col ''env'' (LowCardinalityColumnType ColumnTypeString) [] (''\\'default'' @ [CHR 0x27]),
        col ''temporality'' (LowCardinalityColumnType ColumnTypeString) [] (''\\'Unspecified'' @ [CHR 0x27]),
        col ''metric_name'' (LowCardinalityColumnType ColumnTypeString) [] [],
        col ''description'' (LowCardinalityColumnType ColumnTypeString) ''ZSTD(1)'' [CHR 0x27, CHR 0x27],
        col ''unit'' (LowCardinalityColumnType ColumnTypeString) ''ZSTD(1)'' [CHR 0x27, CHR 0x27],
        col ''type'' (LowCardinalityColumnType ColumnTypeString) ''ZSTD(1)'' [CHR 0x27, CHR 0x27],
        col ''is_monotonic'' ColumnTypeBool ''ZSTD(1)'' ''false'',
        col ''fingerprint'' ColumnTypeUInt64 ''Delta(8), ZSTD(1)'' [],
        col ''reduced_fingerprint'' ColumnTypeUInt64 ''ZSTD(1)'' ''0'',
        col ''is_reduced'' ColumnTypeBool ''ZSTD(1)'' ''false'',
        col ''unix_milli'' ColumnTypeInt64 ''Delta(8), ZSTD(1)'' [],
        col ''labels'' ColumnTypeString ''ZSTD(5)'' [],
        col ''attrs'' (MapColumnType (LowCardinalityColumnType ColumnTypeString) ColumnTypeString)
          ''ZSTD(1)'' ''map()'',
        col ''scope_attrs'' (MapColumnType (LowCardinalityColumnType ColumnTypeString) ColumnTypeString)
          ''ZSTD(1)'' ''map()'',
        col ''resource_attrs'' (MapColumnType (LowCardinalityColumnType ColumnTypeString)
          ColumnTypeString) ''ZSTD(1)'' ''map()'',
        col ''__normalized'' ColumnTypeBool ''ZSTD(1)'' ''true'',
        col ''inserted_at_unix_milli'' ColumnTypeInt64 ''ZSTD(1)'' []]
       []
       []
       (replacing (merge_tree ''(env, temporality, metric_name, fingerprint, unix_milli, is_reduced)'' []
         ''toDate(unix_milli / 1000)'' ''toDateTime(unix_milli / 1000) + toIntervalSecond(90000)''
         [setting ''index_granularity'' ''8192'', setting ''ttl_only_drop_parts'' ''1'']) []),
      create_table ''signoz_metrics'' ''distributed_time_series_v4_buffer''
       [col ''env'' (LowCardinalityColumnType ColumnTypeString) [] (''\\'default'' @ [CHR 0x27]),
        col ''temporality'' (LowCardinalityColumnType ColumnTypeString) [] (''\\'Unspecified'' @ [CHR 0x27]),
        col ''metric_name'' (LowCardinalityColumnType ColumnTypeString) [] [],
        col ''description'' (LowCardinalityColumnType ColumnTypeString) ''ZSTD(1)'' [CHR 0x27, CHR 0x27],
        col ''unit'' (LowCardinalityColumnType ColumnTypeString) ''ZSTD(1)'' [CHR 0x27, CHR 0x27],
        col ''type'' (LowCardinalityColumnType ColumnTypeString) ''ZSTD(1)'' [CHR 0x27, CHR 0x27],
        col ''is_monotonic'' ColumnTypeBool ''ZSTD(1)'' ''false'',
        col ''fingerprint'' ColumnTypeUInt64 ''Delta(8), ZSTD(1)'' [],
        col ''reduced_fingerprint'' ColumnTypeUInt64 ''ZSTD(1)'' ''0'',
        col ''is_reduced'' ColumnTypeBool ''ZSTD(1)'' ''false'',
        col ''unix_milli'' ColumnTypeInt64 ''Delta(8), ZSTD(1)'' [],
        col ''labels'' ColumnTypeString ''ZSTD(5)'' [],
        col ''attrs'' (MapColumnType (LowCardinalityColumnType ColumnTypeString) ColumnTypeString)
          ''ZSTD(1)'' ''map()'',
        col ''scope_attrs'' (MapColumnType (LowCardinalityColumnType ColumnTypeString) ColumnTypeString)
          ''ZSTD(1)'' ''map()'',
        col ''resource_attrs'' (MapColumnType (LowCardinalityColumnType ColumnTypeString)
          ColumnTypeString) ''ZSTD(1)'' ''map()'',
        col ''__normalized'' ColumnTypeBool ''ZSTD(1)'' ''true'',
        col ''inserted_at_unix_milli'' ColumnTypeInt64 ''ZSTD(1)'' []]
       []
       []
       (distributed ''signoz_metrics'' ''time_series_v4_buffer''
         ''cityHash64(env, temporality, metric_name, if(reduced_fingerprint != 0, reduced_fingerprint, fingerprint))'')]"

definition metrics_migration_1008_up2 :: "Operation list" where
  "metrics_migration_1008_up2 =
     [create_table ''signoz_metrics'' ''time_series_v4_reduced''
       [col ''env'' (LowCardinalityColumnType ColumnTypeString) [] (''\\'default'' @ [CHR 0x27]),
        col ''temporality'' (LowCardinalityColumnType ColumnTypeString) [] (''\\'Unspecified'' @ [CHR 0x27]),
        col ''metric_name'' (LowCardinalityColumnType ColumnTypeString) [] [],
        col ''description'' (LowCardinalityColumnType ColumnTypeString) ''ZSTD(1)'' [CHR 0x27, CHR 0x27],
        col ''unit'' (LowCardinalityColumnType ColumnTypeString) ''ZSTD(1)'' [CHR 0x27, CHR 0x27],
        col ''type'' (LowCardinalityColumnType ColumnTypeString) ''ZSTD(1)'' [CHR 0x27, CHR 0x27],
        col ''is_monotonic'' ColumnTypeBool ''ZSTD(1)'' ''false'',
        col ''fingerprint'' ColumnTypeUInt64 ''Delta(8), ZSTD(1)'' [],
        col ''unix_milli'' ColumnTypeInt64 ''Delta(8), ZSTD(1)'' [],
        col ''labels'' ColumnTypeString ''ZSTD(5)'' [],
        col ''attrs'' (MapColumnType (LowCardinalityColumnType ColumnTypeString) ColumnTypeString)
          ''ZSTD(1)'' ''map()'',
        col ''scope_attrs'' (MapColumnType (LowCardinalityColumnType ColumnTypeString) ColumnTypeString)
          ''ZSTD(1)'' ''map()'',
        col ''resource_attrs'' (MapColumnType (LowCardinalityColumnType ColumnTypeString)
          ColumnTypeString) ''ZSTD(1)'' ''map()'',
        col ''__normalized'' ColumnTypeBool ''ZSTD(1)'' ''true'',
        col ''inserted_at_unix_milli'' ColumnTypeInt64 ''ZSTD(1)'' []]
       []
       []
       (replacing (merge_tree ''(env, temporality, metric_name, fingerprint, unix_milli)'' []
         ''toDate(unix_milli / 1000)'' ''toDateTime(unix_milli / 1000) + toIntervalSecond(2592000)''
         [setting ''index_granularity'' ''8192'', setting ''ttl_only_drop_parts'' ''1'']) []),
      create_table ''signoz_metrics'' ''distributed_time_series_v4_reduced''
       [col ''env'' (LowCardinalityColumnType ColumnTypeString) [] (''\\'default'' @ [CHR 0x27]),
        col ''temporality'' (LowCardinalityColumnType ColumnTypeString) [] (''\\'Unspecified'' @ [CHR 0x27]),
        col ''metric_name'' (LowCardinalityColumnType ColumnTypeString) [] [],
        col ''description'' (LowCardinalityColumnType ColumnTypeString) ''ZSTD(1)'' [CHR 0x27, CHR 0x27],
        col ''unit'' (LowCardinalityColumnType ColumnTypeString) ''ZSTD(1)'' [CHR 0x27, CHR 0x27],
        col ''type'' (LowCardinalityColumnType ColumnTypeString) ''ZSTD(1)'' [CHR 0x27, CHR 0x27],
        col ''is_monotonic'' ColumnTypeBool ''ZSTD(1)'' ''false'',
        col ''fingerprint'' ColumnTypeUInt64 ''Delta(8), ZSTD(1)'' [],
        col ''unix_milli'' ColumnTypeInt64 ''Delta(8), ZSTD(1)'' [],
        col ''labels'' ColumnTypeString ''ZSTD(5)'' [],
        col ''attrs'' (MapColumnType (LowCardinalityColumnType ColumnTypeString) ColumnTypeString)
          ''ZSTD(1)'' ''map()'',
        col ''scope_attrs'' (MapColumnType (LowCardinalityColumnType ColumnTypeString) ColumnTypeString)
          ''ZSTD(1)'' ''map()'',
        col ''resource_attrs'' (MapColumnType (LowCardinalityColumnType ColumnTypeString)
          ColumnTypeString) ''ZSTD(1)'' ''map()'',
        col ''__normalized'' ColumnTypeBool ''ZSTD(1)'' ''true'',
        col ''inserted_at_unix_milli'' ColumnTypeInt64 ''ZSTD(1)'' []]
       []
       []
       (distributed ''signoz_metrics'' ''time_series_v4_reduced''
         ''cityHash64(env, temporality, metric_name, fingerprint)''),
      create_table ''signoz_metrics'' ''samples_v4_reduced_last_60s''
       [col ''env'' (LowCardinalityColumnType ColumnTypeString) [] (''\\'default'' @ [CHR 0x27]),
        col ''temporality'' (LowCardinalityColumnType ColumnTypeString) [] (''\\'Unspecified'' @ [CHR 0x27]),
        col ''metric_name'' (LowCardinalityColumnType ColumnTypeString) [] [],
        col ''reduced_fingerprint'' ColumnTypeUInt64 ''ZSTD(1)'' [],
        col ''unix_milli'' ColumnTypeInt64 ''Delta(8), ZSTD(1)'' [],
        col ''sum_last'' ColumnTypeFloat64 ''Gorilla, ZSTD(1)'' [],
        col ''min'' ColumnTypeFloat64 ''Gorilla, ZSTD(1)'' [],
        col ''max'' ColumnTypeFloat64 ''Gorilla, ZSTD(1)'' [],
        col ''sum_values'' ColumnTypeFloat64 ''Gorilla, ZSTD(1)'' [],
        col ''count_series'' ColumnTypeUInt64 ''ZSTD(1)'' [],
        col ''count_samples'' ColumnTypeUInt64 ''ZSTD(1)'' [],
        col ''computed_at'' (DateTimeColumnType []) ''ZSTD(1)'' ''now()'']
       []
       []
       (replacing (merge_tree ''(env, temporality, metric_name, reduced_fingerprint, unix_milli)'' []
         ''toDate(unix_milli / 1000)'' ''toDateTime(unix_milli / 1000) + toIntervalSecond(2592000)''
         [setting ''index_granularity'' ''8192'', setting ''ttl_only_drop_parts'' ''1'']) ''computed_at''),
      create_table ''signoz_metrics'' ''distributed_samples_v4_reduced_last_60s''
       [col ''env'' (LowCardinalityColumnType ColumnTypeString) [] (''\\'default'' @ [CHR 0x27]),
        col ''temporality'' (LowCardinalityColumnType ColumnTypeString) [] (''\\'Unspecified'' @ [CHR 0x27]),
        col ''metric_name'' (LowCardinalityColumnType ColumnTypeString) [] [],
        col ''reduced_fingerprint'' ColumnTypeUInt64 ''ZSTD(1)'' [],
        col ''unix_milli'' ColumnTypeInt64 ''Delta(8), ZSTD(1)'' [],
        col ''sum_last'' ColumnTypeFloat64 ''Gorilla, ZSTD(1)'' [],
        col ''min'' ColumnTypeFloat64 ''Gorilla, ZSTD(1)'' [],
        col ''max'' ColumnTypeFloat64 ''Gorilla, ZSTD(1)'' [],
        col ''sum_values'' ColumnTypeFloat64 ''Gorilla, ZSTD(1)'' [],
        col ''count_series'' ColumnTypeUInt64 ''ZSTD(1)'' [],
        col ''count_samples'' ColumnTypeUInt64 ''ZSTD(1)'' [],
        col ''computed_at'' (DateTimeColumnType []) ''ZSTD(1)'' ''now()'']
       []
       []
       (distributed ''signoz_metrics'' ''samples_v4_reduced_last_60s''
         ''cityHash64(env, temporality, metric_name, reduced_fingerprint)''),
      create_table ''signoz_metrics'' ''samples_v4_reduced_sum_60s''
       [col ''env'' (LowCardinalityColumnType ColumnTypeString) [] (''\\'default'' @ [CHR 0x27]),
        col ''temporality'' (LowCardinalityColumnType ColumnTypeString) [] (''\\'Unspecified'' @ [CHR 0x27]),
        col ''metric_name'' (LowCardinalityColumnType ColumnTypeString) [] [],
        col ''reduced_fingerprint'' ColumnTypeUInt64 ''ZSTD(1)'' [],
        col ''unix_milli'' ColumnTypeInt64 ''Delta(8), ZSTD(1)'' [],
        col ''sum'' ColumnTypeFloat64 ''Gorilla, ZSTD(1)'' [],
        col ''count_series'' ColumnTypeUInt64 ''ZSTD(1)'' [],
        col ''count_samples'' ColumnTypeUInt64 ''ZSTD(1)'' [],
        col ''computed_at'' (DateTimeColumnType []) ''ZSTD(1)'' ''now()'']
       []
       []
       (replacing (merge_tree ''(env, temporality, metric_name, reduced_fingerprint, unix_milli)'' []
         ''toDate(unix_milli / 1000)'' ''toDateTime(unix_milli / 1000) + toIntervalSecond(2592000)''
         [setting ''index_granularity'' ''8192'', setting ''ttl_only_drop_parts'' ''1'']) ''computed_at'')]"

definition metrics_migration_1008_up3 :: "Operation list" where
  "metrics_migration_1008_up3 =
     [create_table ''signoz_metrics'' ''distributed_samples_v4_reduced_sum_60s''
       [col ''env'' (LowCardinalityColumnType ColumnTypeString) [] (''\\'default'' @ [CHR 0x27]),
        col ''temporality'' (LowCardinalityColumnType ColumnTypeString) [] (''\\'Unspecified'' @ [CHR 0x27]),
        col ''metric_name'' (LowCardinalityColumnType ColumnTypeString) [] [],
        col ''reduced_fingerprint'' ColumnTypeUInt64 ''ZSTD(1)'' [],
        col ''unix_milli'' ColumnTypeInt64 ''Delta(8), ZSTD(1)'' [],
        col ''sum'' ColumnTypeFloat64 ''Gorilla, ZSTD(1)'' [],
        col ''count_series'' ColumnTypeUInt64 ''ZSTD(1)'' [],
        col ''count_samples'' ColumnTypeUInt64 ''ZSTD(1)'' [],
        col ''computed_at'' (DateTimeColumnType []) ''ZSTD(1)'' ''now()'']
       []
       []
       (distributed ''signoz_metrics'' ''samples_v4_reduced_sum_60s''
         ''cityHash64(env, temporality, metric_name, reduced_fingerprint)''),
      create_table ''signoz_metrics'' ''metric_reduction_rules''
       [col ''metric_name'' (LowCardinalityColumnType ColumnTypeString) ''ZSTD(1)'' [],
        col ''labels'' (ArrayColumnType (LowCardinalityColumnType ColumnTypeString)) ''ZSTD(1)'' [],
        col ''match_type'' (LowCardinalityColumnType ColumnTypeString) ''ZSTD(1)'' (''\\'drop'' @ [CHR 0x27]),
        col ''effective_from_unix_milli'' ColumnTypeInt64 ''ZSTD(1)'' [],
        col ''deleted'' ColumnTypeBool ''ZSTD(1)'' ''false'',
        col ''updated_at'' (DateTime64ColumnType 3 []) ''ZSTD(1)'' ''now64(3)'']
       []
       []
       (replacing (merge_tree ''metric_name'' [] [] [] []) ''updated_at''),
      create_table ''signoz_metrics'' ''distributed_metric_reduction_rules''
       [col ''metric_name'' (LowCardinalityColumnType ColumnTypeString) ''ZSTD(1)'' [],
        col ''labels'' (ArrayColumnType (LowCardinalityColumnType ColumnTypeString)) ''ZSTD(1)'' [],
        col ''match_type'' (LowCardinalityColumnType ColumnTypeString) ''ZSTD(1)'' (''\\'drop'' @ [CHR 0x27]),
        col ''effective_from_unix_milli'' ColumnTypeInt64 ''ZSTD(1)'' [],
        col ''deleted'' ColumnTypeBool ''ZSTD(1)'' ''false'',
        col ''updated_at'' (DateTime64ColumnType 3 []) ''ZSTD(1)'' ''now64(3)'']
       []
       []
       (distributed ''signoz_metrics'' ''metric_reduction_rules'' ''cityHash64(metric_name)''),
      create_view ''signoz_metrics'' ''samples_v4_mv'' ''samples_v4''
       [col ''env'' (LowCardinalityColumnType ColumnTypeString) [] (''\\'default'' @ [CHR 0x27]),
        col ''temporality'' (LowCardinalityColumnType ColumnTypeString) [] (''\\'Unspecified'' @ [CHR 0x27]),
        col ''metric_name'' (LowCardinalityColumnType ColumnTypeString) [] [],
        col ''fingerprint'' ColumnTypeUInt64 ''Delta(8), ZSTD(1)'' [],
        col ''unix_milli'' ColumnTypeInt64 ''DoubleDelta, ZSTD(1)'' [],
        col ''value'' ColumnTypeFloat64 ''Gorilla, ZSTD(1)'' [],
        col ''flags'' ColumnTypeUInt32 ''ZSTD(1)'' ''0'',
        col ''inserted_at_unix_milli'' ColumnTypeInt64 ''ZSTD(1)'' []]
       (''SELECT'' @ br 7 @ ''env,'' @ br 7 @ ''temporality,'' @ br 7 @ ''metric_name,'' @ br 7 @
         ''fingerprint,'' @ br 7 @ ''unix_milli,'' @ br 7 @ ''value,'' @ br 7 @ ''flags,'' @ br 7 @
         ''inserted_at_unix_milli'' @ br 6 @ ''FROM signoz_metrics.samples_v4_buffer'' @ br 6 @
         ''WHERE reduced_fingerprint = 0''),
      create_view ''signoz_metrics'' ''time_series_v4_mv'' ''time_series_v4''
       [col ''env'' (LowCardinalityColumnType ColumnTypeString) [] (''\\'default'' @ [CHR 0x27]),
        col ''temporality'' (LowCardinalityColumnType ColumnTypeString) [] (''\\'Unspecified'' @ [CHR 0x27]),
        col ''metric_name'' (LowCardinalityColumnType ColumnTypeString) [] [],
        col ''description'' (LowCardinalityColumnType ColumnTypeString) ''ZSTD(1)'' [CHR 0x27, CHR 0x27],
        col ''unit'' (LowCardinalityColumnType ColumnTypeString) ''ZSTD(1)'' [CHR 0x27, CHR 0x27],
        col ''type'' (LowCardinalityColumnType ColumnTypeString) ''ZSTD(1)'' [CHR 0x27, CHR 0x27],
        col ''is_monotonic'' ColumnTypeBool ''ZSTD(1)'' ''false'',
        col ''fingerprint'' ColumnTypeUInt64 ''Delta(8), ZSTD(1)'' [],
        col ''unix_milli'' ColumnTypeInt64 ''Delta(8), ZSTD(1)'' [],
        col ''labels'' ColumnTypeString ''ZSTD(5)'' [],
        col ''attrs'' (MapColumnType (LowCardinalityColumnType ColumnTypeString) ColumnTypeString)
          ''ZSTD(1)'' [],
        col ''scope_attrs'' (MapColumnType (LowCardinalityColumnType ColumnTypeString) ColumnTypeString)
          ''ZSTD(1)'' [],
        col ''resource_attrs'' (MapColumnType (LowCardinalityColumnType ColumnTypeString)
          ColumnTypeString) ''ZSTD(1)'' [],
        col ''__normalized'' ColumnTypeBool ''ZSTD(1)'' ''true'',
        col ''inserted_at_unix_milli'' ColumnTypeInt64 ''ZSTD(1)'' []]
       (''SELECT'' @ br 7 @ ''env,'' @ br 7 @ ''temporality,'' @ br 7 @ ''metric_name,'' @ br 7 @
         ''description,'' @ br 7 @ ''unit,'' @ br 7 @ ''type,'' @ br 7 @ ''is_monotonic,'' @ br 7 @
         ''fingerprint,'' @ br 7 @ ''unix_milli,'' @ br 7 @ ''labels,'' @ br 7 @ ''attrs,'' @ br 7 @
         ''scope_attrs,'' @ br 7 @ ''resource_attrs,'' @ br 7 @ ''__normalized,'' @ br 7 @
         ''inserted_at_unix_milli'' @ br 6 @ ''FROM signoz_metrics.time_series_v4_buffer'' @ br 6 @
         ''WHERE is_reduced = false AND reduced_fingerprint = 0'')]"

definition metrics_migration_1008_up4 :: "Operation list" where
  "metrics_migration_1008_up4 =
     [create_view ''signoz_metrics'' ''time_series_v4_reduced_mv'' ''time_series_v4_reduced''
       [col ''env'' (LowCardinalityColumnType ColumnTypeString) [] (''\\'default'' @ [CHR 0x27]),
        col ''temporality'' (LowCardinalityColumnType ColumnTypeString) [] (''\\'Unspecified'' @ [CHR 0x27]),
        col ''metric_name'' (LowCardinalityColumnType ColumnTypeString) [] [],
        col ''description'' (LowCardinalityColumnType ColumnTypeString) ''ZSTD(1)'' [CHR 0x27, CHR 0x27],
        col ''unit'' (LowCardinalityColumnType ColumnTypeString) ''ZSTD(1)'' [CHR 0x27, CHR 0x27],
        col ''type'' (LowCardinalityColumnType ColumnTypeString) ''ZSTD(1)'' [CHR 0x27, CHR 0x27],
        col ''is_monotonic'' ColumnTypeBool ''ZSTD(1)'' ''false'',
        col ''fingerprint'' ColumnTypeUInt64 ''Delta(8), ZSTD(1)'' [],
        col ''unix_milli'' ColumnTypeInt64 ''Delta(8), ZSTD(1)'' [],
        col ''labels'' ColumnTypeString ''ZSTD(5)'' [],
        col ''attrs'' (MapColumnType (LowCardinalityColumnType ColumnTypeString) ColumnTypeString)
          ''ZSTD(1)'' [],
        col ''scope_attrs'' (MapColumnType (LowCardinalityColumnType ColumnTypeString) ColumnTypeString)
          ''ZSTD(1)'' [],
        col ''resource_attrs'' (MapColumnType (LowCardinalityColumnType ColumnTypeString)
          ColumnTypeString) ''ZSTD(1)'' [],
        col ''__normalized'' ColumnTypeBool ''ZSTD(1)'' ''true'',
        col ''inserted_at_unix_milli'' ColumnTypeInt64 ''ZSTD(1)'' []]
       (''SELECT'' @ br 7 @ ''env,'' @ br 7 @
         ''if((temporality = \\'Cumulative\\') AND is_monotonic, \\'Delta\\', temporality) AS temporality,''
         @ br 7 @ ''metric_name,'' @ br 7 @ ''description,'' @ br 7 @ ''unit,'' @ br 7 @ ''type,'' @ br 7
         @ ''is_monotonic,'' @ br 7 @ ''fingerprint,'' @ br 7 @ ''unix_milli,'' @ br 7 @ ''labels,'' @ br
         7 @ ''attrs,'' @ br 7 @ ''scope_attrs,'' @ br 7 @ ''resource_attrs,'' @ br 7 @ ''__normalized,''
         @ br 7 @ ''inserted_at_unix_milli'' @ br 6 @ ''FROM signoz_metrics.time_series_v4_buffer'' @ br 6
         @ ''WHERE is_reduced = true''),
      create_refreshable_view ''signoz_metrics'' ''samples_v4_reduced_last_60s_mv''
        ''samples_v4_reduced_last_60s''
       [col ''env'' (LowCardinalityColumnType ColumnTypeString) [] [],
        col ''temporality'' (LowCardinalityColumnType ColumnTypeString) [] [],
        col ''metric_name'' (LowCardinalityColumnType ColumnTypeString) [] [],
        col ''reduced_fingerprint'' ColumnTypeUInt64 [] [],
        col ''unix_milli'' ColumnTypeInt64 [] [],
        col ''sum_last'' ColumnTypeFloat64 [] [],
        col ''min'' ColumnTypeFloat64 [] [],
        col ''max'' ColumnTypeFloat64 [] [],
        col ''sum_values'' ColumnTypeFloat64 [] [],
        col ''count_series'' ColumnTypeUInt64 [] [],
        col ''count_samples'' ColumnTypeUInt64 [] [],
        col ''computed_at'' (DateTimeColumnType []) [] []]
       (''SELECT'' @ br 7 @ ''env,'' @ br 7 @ ''temporality,'' @ br 7 @ ''metric_name,'' @ br 7 @
         ''reduced_fingerprint,'' @ br 7 @ ''bucket_unix_milli AS unix_milli,'' @ br 7 @
         ''sum(last) AS sum_last,'' @ br 7 @ ''min(min_value) AS min,'' @ br 7 @
         ''max(max_value) AS max,'' @ br 7 @ ''sum(sum_value) AS sum_values,'' @ br 7 @
         ''count() AS count_series,'' @ br 7 @ ''sum(num_values) AS count_samples,'' @ br 7 @
         ''now() AS computed_at'' @ br 6 @ ''FROM'' @ br 6 @ ''('' @ br 7 @ ''SELECT'' @ br 8 @ ''env,'' @
         br 8 @ ''temporality,'' @ br 8 @ ''metric_name,'' @ br 8 @ ''reduced_fingerprint,'' @ br 8 @
         ''fingerprint,'' @ br 8 @ ''intDiv(unix_milli, 60000) * 60000 AS bucket_unix_milli,'' @ br 8 @
         ''argMax(value, unix_milli) AS last,'' @ br 8 @ ''min(value) AS min_value,'' @ br 8 @
         ''max(value) AS max_value,'' @ br 8 @ ''sum(value) AS sum_value,'' @ br 8 @
         ''count(value) AS num_values'' @ br 7 @ ''FROM signoz_metrics.samples_v4_buffer'' @ br 7 @
         ''PREWHERE reduced_fingerprint != 0'' @ br 7 @ ''WHERE (bitAnd(flags, 1) = 0)'' @ br 8 @
         ''AND ((temporality = \\'Unspecified\\') OR ((temporality = \\'Cumulative\\') AND (is_monotonic = false)))''
         @ br 8 @ ''AND (unix_milli < (toUnixTimestamp(now() - toIntervalSecond(120)) * 1000))'' @ br 8 @
         ''AND (unix_milli >= (toUnixTimestamp(now() - toIntervalMinute(11)) * 1000))'' @ br 7 @
         ''GROUP BY'' @ br 8 @ ''env,'' @ br 8 @ ''temporality,'' @ br 8 @ ''metric_name,'' @ br 8 @
         ''reduced_fingerprint,'' @ br 8 @ ''fingerprint,'' @ br 8 @ ''bucket_unix_milli'' @ br 6 @ '')''
         @ br 6 @ ''WHERE bucket_unix_milli >= (toUnixTimestamp(now() - toIntervalMinute(10)) * 1000)'' @
         br 6 @ ''GROUP BY'' @ br 7 @ ''env,'' @ br 7 @ ''temporality,'' @ br 7 @ ''metric_name,'' @ br 7
         @ ''reduced_fingerprint,'' @ br 7 @ ''bucket_unix_milli'')
       ''1 MINUTE'' ''10 SECOND'' True True]"

definition metrics_migration_1008_up5 :: "Operation list" where
  "metrics_migration_1008_up5 =
     [create_refreshable_view ''signoz_metrics'' ''samples_v4_reduced_sum_60s_delta_mv''
       ''samples_v4_reduced_sum_60s''
       [col ''env'' (LowCardinalityColumnType ColumnTypeString) [] [],
        col ''temporality'' (LowCardinalityColumnType ColumnTypeString) [] [],
        col ''metric_name'' (LowCardinalityColumnType ColumnTypeString) [] [],
        col ''reduced_fingerprint'' ColumnTypeUInt64 [] [],
        col ''unix_milli'' ColumnTypeInt64 [] [],
        col ''sum'' ColumnTypeFloat64 [] [],
        col ''count_series'' ColumnTypeUInt64 [] [],
        col ''count_samples'' ColumnTypeUInt64 [] [],
        col ''computed_at'' (DateTimeColumnType []) [] []]
       (''SELECT'' @ br 7 @ ''env,'' @ br 7 @ ''temporality,'' @ br 7 @ ''metric_name,'' @ br 7 @
         ''reduced_fingerprint,'' @ br 7 @ ''bucket_unix_milli AS unix_milli,'' @ br 7 @
         ''sum(series_sum) AS sum,'' @ br 7 @ ''count() AS count_series,'' @ br 7 @
         ''sum(num_values) AS count_samples,'' @ br 7 @ ''now() AS computed_at'' @ br 6 @ ''FROM'' @ br 6
         @ ''('' @ br 7 @ ''SELECT'' @ br 8 @ ''env,'' @ br 8 @ ''temporality,'' @ br 8 @ ''metric_name,''
         @ br 8 @ ''reduced_fingerprint,'' @ br 8 @ ''fingerprint,'' @ br 8 @
         ''intDiv(unix_milli, 60000) * 60000 AS bucket_unix_milli,'' @ br 8 @
         ''sum(value) AS series_sum,'' @ br 8 @ ''count(value) AS num_values'' @ br 7 @
         ''FROM signoz_metrics.samples_v4_buffer'' @ br 7 @ ''PREWHERE reduced_fingerprint != 0'' @ br 7 @
         ''WHERE (bitAnd(flags, 1) = 0)'' @ br 8 @ ''AND (temporality = \\'Delta\\')'' @ br 8 @
         ''AND (unix_milli < (toUnixTimestamp(now() - toIntervalSecond(120)) * 1000))'' @ br 8 @
         ''AND (unix_milli >= (toUnixTimestamp(now() - toIntervalMinute(11)) * 1000))'' @ br 7 @
         ''GROUP BY'' @ br 8 @ ''env,'' @ br 8 @ ''temporality,'' @ br 8 @ ''metric_name,'' @ br 8 @
         ''reduced_fingerprint,'' @ br 8 @ ''fingerprint,'' @ br 8 @ ''bucket_unix_milli'' @ br 6 @ '')''
         @ br 6 @ ''WHERE bucket_unix_milli >= (toUnixTimestamp(now() - toIntervalMinute(10)) * 1000)'' @
         br 6 @ ''GROUP BY'' @ br 7 @ ''env,'' @ br 7 @ ''temporality,'' @ br 7 @ ''metric_name,'' @ br 7
         @ ''reduced_fingerprint,'' @ br 7 @ ''bucket_unix_milli'')
       ''1 MINUTE'' ''10 SECOND'' True True]"

definition metrics_migration_1008_up6 :: "Operation list" where
  "metrics_migration_1008_up6 =
     [create_refreshable_view ''signoz_metrics'' ''samples_v4_reduced_sum_60s_cumulative_mv''
       ''samples_v4_reduced_sum_60s''
       [col ''env'' (LowCardinalityColumnType ColumnTypeString) [] [],
        col ''temporality'' (LowCardinalityColumnType ColumnTypeString) [] [],
        col ''metric_name'' (LowCardinalityColumnType ColumnTypeString) [] [],
        col ''reduced_fingerprint'' ColumnTypeUInt64 [] [],
        col ''unix_milli'' ColumnTypeInt64 [] [],
        col ''sum'' ColumnTypeFloat64 [] [],
        col ''count_series'' ColumnTypeUInt64 [] [],
        col ''count_samples'' ColumnTypeUInt64 [] [],
        col ''computed_at'' (DateTimeColumnType []) [] []]
       (''SELECT'' @ br 7 @ ''env,'' @ br 7 @ ''\\'Delta\\' AS temporality,'' @ br 7 @ ''metric_name,'' @
         br 7 @ ''reduced_fingerprint,'' @ br 7 @ ''bucket_unix_milli AS unix_milli,'' @ br 7 @
         ''sum(series_increment) AS sum,'' @ br 7 @ ''count() AS count_series,'' @ br 7 @
         ''sum(num_values) AS count_samples,'' @ br 7 @ ''now() AS computed_at'' @ br 6 @ ''FROM'' @ br 6
         @ ''('' @ br 7 @ ''SELECT'' @ br 8 @ ''env,'' @ br 8 @ ''temporality,'' @ br 8 @ ''metric_name,''
         @ br 8 @ ''reduced_fingerprint,'' @ br 8 @ ''fingerprint,'' @ br 8 @ ''bucket_unix_milli,'' @ br
         8 @ ''sum(increment) AS series_increment,'' @ br 8 @ ''count() AS num_values'' @ br 7 @ ''FROM''
         @ br 7 @ ''('' @ br 8 @ ''SELECT'' @ br 9 @ ''env,'' @ br 9 @ ''temporality,'' @ br 9 @
         ''metric_name,'' @ br 9 @ ''reduced_fingerprint,'' @ br 9 @ ''fingerprint,'' @ br 9 @
         ''intDiv(unix_milli, 60000) * 60000 AS bucket_unix_milli,'' @ br 9 @ ''multiIf('' @ br 10 @
         ''row_number() OVER rate_window = 1, nan,'' @ br 10 @
         ''value < lagInFrame(value, 1) OVER rate_window, value,'' @ br 10 @
         ''value - lagInFrame(value, 1) OVER rate_window'' @ br 9 @ '') AS increment'' @ br 8 @
         ''FROM signoz_metrics.samples_v4_buffer'' @ br 8 @ ''PREWHERE reduced_fingerprint != 0'' @ br 8 @
         ''WHERE (bitAnd(flags, 1) = 0)'' @ br 9 @
         ''AND ((temporality = \\'Cumulative\\') AND (is_monotonic = true))'' @ br 9 @
         ''AND (unix_milli < (toUnixTimestamp(now() - toIntervalSecond(120)) * 1000))'' @ br 9 @
         ''AND (unix_milli >= (toUnixTimestamp(now() - toIntervalMinute(11)) * 1000))'' @ br 8 @
         ''WINDOW rate_window AS (PARTITION BY env, temporality, metric_name, fingerprint ORDER BY unix_milli)''
         @ br 7 @ '')'' @ br 7 @ ''WHERE (isNaN(increment) = 0)'' @ br 8 @
         ''AND (bucket_unix_milli >= (toUnixTimestamp(now() - toIntervalMinute(10)) * 1000))'' @ br 7 @
         ''GROUP BY'' @ br 8 @ ''env,'' @ br 8 @ ''temporality,'' @ br 8 @ ''metric_name,'' @ br 8 @
         ''reduced_fingerprint,'' @ br 8 @ ''fingerprint,'' @ br 8 @ ''bucket_unix_milli'' @ br 6 @ '')''
         @ br 6 @ ''GROUP BY'' @ br 7 @ ''env,'' @ br 7 @ ''temporality,'' @ br 7 @ ''metric_name,'' @ br
         7 @ ''reduced_fingerprint,'' @ br 7 @ ''bucket_unix_milli'')
       ''1 MINUTE'' ''10 SECOND'' True True]"

definition metrics_migration_1008_down :: "Operation list" where
  "metrics_migration_1008_down =
     [drop_table ''signoz_metrics'' ''samples_v4_reduced_sum_60s_cumulative_mv'',
      drop_table ''signoz_metrics'' ''samples_v4_reduced_sum_60s_delta_mv'',
      drop_table ''signoz_metrics'' ''samples_v4_reduced_last_60s_mv'',
      drop_table ''signoz_metrics'' ''time_series_v4_reduced_mv'',
      drop_table ''signoz_metrics'' ''time_series_v4_mv'',
      drop_table ''signoz_metrics'' ''samples_v4_mv'',
      drop_table ''signoz_metrics'' ''distributed_metric_reduction_rules'',
      drop_table ''signoz_metrics'' ''metric_reduction_rules'',
      drop_table ''signoz_metrics'' ''distributed_samples_v4_reduced_sum_60s'',
      drop_table ''signoz_metrics'' ''samples_v4_reduced_sum_60s'',
      drop_table ''signoz_metrics'' ''distributed_samples_v4_reduced_last_60s'',
      drop_table ''signoz_metrics'' ''samples_v4_reduced_last_60s'',
      drop_table ''signoz_metrics'' ''distributed_time_series_v4_reduced'',
      drop_table ''signoz_metrics'' ''time_series_v4_reduced'',
      drop_table ''signoz_metrics'' ''distributed_time_series_v4_buffer'',
      drop_table ''signoz_metrics'' ''time_series_v4_buffer'',
      drop_table ''signoz_metrics'' ''distributed_samples_v4_buffer'',
      drop_table ''signoz_metrics'' ''samples_v4_buffer'']"

definition metrics_migration_1008 :: SchemaMigrationRecord where
  "metrics_migration_1008 = migration 1008
     (metrics_migration_1008_up1 @ metrics_migration_1008_up2 @ metrics_migration_1008_up3 @
       metrics_migration_1008_up4 @ metrics_migration_1008_up5 @ metrics_migration_1008_up6)
     metrics_migration_1008_down"

definition metrics_migration_1009_up1 :: "Operation list" where
  "metrics_migration_1009_up1 =
     [create_table ''signoz_metrics'' ''samples_v4_reduced_last_5m''
       [col ''env'' (LowCardinalityColumnType ColumnTypeString) [] (''\\'default'' @ [CHR 0x27]),
        col ''temporality'' (LowCardinalityColumnType ColumnTypeString) [] (''\\'Unspecified'' @ [CHR 0x27]),
        col ''metric_name'' (LowCardinalityColumnType ColumnTypeString) [] [],
        col ''reduced_fingerprint'' ColumnTypeUInt64 ''ZSTD(1)'' [],
        col ''unix_milli'' ColumnTypeInt64 ''Delta(8), ZSTD(1)'' [],
        col ''last'' ColumnTypeFloat64 ''Gorilla, ZSTD(1)'' [],
        col ''min'' ColumnTypeFloat64 ''Gorilla, ZSTD(1)'' [],
        col ''max'' ColumnTypeFloat64 ''Gorilla, ZSTD(1)'' [],
        col ''sum'' ColumnTypeFloat64 ''Gorilla, ZSTD(1)'' [],
        col ''sum_values'' ColumnTypeFloat64 ''Gorilla, ZSTD(1)'' [],
        col ''count'' ColumnTypeUInt64 ''ZSTD(1)'' [],
        col ''sum_count_series'' ColumnTypeUInt64 ''ZSTD(1)'' [],
        col ''count_samples'' ColumnTypeUInt64 ''ZSTD(1)'' [],
        col ''computed_at'' (DateTimeColumnType []) ''ZSTD(1)'' ''now()'']
       []
       []
       (replacing (merge_tree ''(env, temporality, metric_name, reduced_fingerprint, unix_milli)'' []
         ''toDate(unix_milli / 1000)'' ''toDateTime(unix_milli / 1000) + toIntervalSecond(2592000)''
         [setting ''index_granularity'' ''8192'', setting ''ttl_only_drop_parts'' ''1'', setting
         ''min_age_to_force_merge_seconds'' ''7200'', setting ''min_age_to_force_merge_on_partition_only''
         ''1'']) ''computed_at''),
      create_table ''signoz_metrics'' ''distributed_samples_v4_reduced_last_5m''
       [col ''env'' (LowCardinalityColumnType ColumnTypeString) [] (''\\'default'' @ [CHR 0x27]),
        col ''temporality'' (LowCardinalityColumnType ColumnTypeString) [] (''\\'Unspecified'' @ [CHR 0x27]),
        col ''metric_name'' (LowCardinalityColumnType ColumnTypeString) [] [],
        col ''reduced_fingerprint'' ColumnTypeUInt64 ''ZSTD(1)'' [],
        col ''unix_milli'' ColumnTypeInt64 ''Delta(8), ZSTD(1)'' [],
        col ''last'' ColumnTypeFloat64 ''Gorilla, ZSTD(1)'' [],
        col ''min'' ColumnTypeFloat64 ''Gorilla, ZSTD(1)'' [],
        col ''max'' ColumnTypeFloat64 ''Gorilla, ZSTD(1)'' [],
        col ''sum'' ColumnTypeFloat64 ''Gorilla, ZSTD(1)'' [],
        col ''sum_values'' ColumnTypeFloat64 ''Gorilla, ZSTD(1)'' [],
        col ''count'' ColumnTypeUInt64 ''ZSTD(1)'' [],
        col ''sum_count_series'' ColumnTypeUInt64 ''ZSTD(1)'' [],
        col ''count_samples'' ColumnTypeUInt64 ''ZSTD(1)'' [],
        col ''computed_at'' (DateTimeColumnType []) ''ZSTD(1)'' ''now()'']
       []
       []
       (distributed ''signoz_metrics'' ''samples_v4_reduced_last_5m''
         ''cityHash64(env, temporality, metric_name, reduced_fingerprint)''),
      create_table ''signoz_metrics'' ''samples_v4_reduced_sum_5m''
       [col ''env'' (LowCardinalityColumnType ColumnTypeString) [] (''\\'default'' @ [CHR 0x27]),
        col ''temporality'' (LowCardinalityColumnType ColumnTypeString) [] (''\\'Unspecified'' @ [CHR 0x27]),
        col ''metric_name'' (LowCardinalityColumnType ColumnTypeString) [] [],
        col ''reduced_fingerprint'' ColumnTypeUInt64 ''ZSTD(1)'' [],
        col ''unix_milli'' ColumnTypeInt64 ''Delta(8), ZSTD(1)'' [],
        col ''sum'' ColumnTypeFloat64 ''Gorilla, ZSTD(1)'' [],
        col ''count'' ColumnTypeUInt64 ''ZSTD(1)'' [],
        col ''sum_count_series'' ColumnTypeUInt64 ''ZSTD(1)'' [],
        col ''count_samples'' ColumnTypeUInt64 ''ZSTD(1)'' [],
        col ''computed_at'' (DateTimeColumnType []) ''ZSTD(1)'' ''now()'']
       []
       []
       (replacing (merge_tree ''(env, temporality, metric_name, reduced_fingerprint, unix_milli)'' []
         ''toDate(unix_milli / 1000)'' ''toDateTime(unix_milli / 1000) + toIntervalSecond(2592000)''
         [setting ''index_granularity'' ''8192'', setting ''ttl_only_drop_parts'' ''1'', setting
         ''min_age_to_force_merge_seconds'' ''7200'', setting ''min_age_to_force_merge_on_partition_only''
         ''1'']) ''computed_at''),
      create_table ''signoz_metrics'' ''distributed_samples_v4_reduced_sum_5m''
       [col ''env'' (LowCardinalityColumnType ColumnTypeString) [] (''\\'default'' @ [CHR 0x27]),
        col ''temporality'' (LowCardinalityColumnType ColumnTypeString) [] (''\\'Unspecified'' @ [CHR 0x27]),
        col ''metric_name'' (LowCardinalityColumnType ColumnTypeString) [] [],
        col ''reduced_fingerprint'' ColumnTypeUInt64 ''ZSTD(1)'' [],
        col ''unix_milli'' ColumnTypeInt64 ''Delta(8), ZSTD(1)'' [],
        col ''sum'' ColumnTypeFloat64 ''Gorilla, ZSTD(1)'' [],
        col ''count'' ColumnTypeUInt64 ''ZSTD(1)'' [],
        col ''sum_count_series'' ColumnTypeUInt64 ''ZSTD(1)'' [],
        col ''count_samples'' ColumnTypeUInt64 ''ZSTD(1)'' [],
        col ''computed_at'' (DateTimeColumnType []) ''ZSTD(1)'' ''now()'']
       []
       []
       (distributed ''signoz_metrics'' ''samples_v4_reduced_sum_5m''
         ''cityHash64(env, temporality, metric_name, reduced_fingerprint)'')]"

definition metrics_migration_1009_up2 :: "Operation list" where
  "metrics_migration_1009_up2 =
     [create_table ''signoz_metrics'' ''samples_v4_reduced_last_30m''
       [col ''env'' (LowCardinalityColumnType ColumnTypeString) [] (''\\'default'' @ [CHR 0x27]),
        col ''temporality'' (LowCardinalityColumnType ColumnTypeString) [] (''\\'Unspecified'' @ [CHR 0x27]),
        col ''metric_name'' (LowCardinalityColumnType ColumnTypeString) [] [],
        col ''reduced_fingerprint'' ColumnTypeUInt64 ''ZSTD(1)'' [],
        col ''unix_milli'' ColumnTypeInt64 ''Delta(8), ZSTD(1)'' [],
        col ''last'' ColumnTypeFloat64 ''Gorilla, ZSTD(1)'' [],
        col ''min'' ColumnTypeFloat64 ''Gorilla, ZSTD(1)'' [],
        col ''max'' ColumnTypeFloat64 ''Gorilla, ZSTD(1)'' [],
        col ''sum'' ColumnTypeFloat64 ''Gorilla, ZSTD(1)'' [],
        col ''sum_values'' ColumnTypeFloat64 ''Gorilla, ZSTD(1)'' [],
        col ''count'' ColumnTypeUInt64 ''ZSTD(1)'' [],
        col ''sum_count_series'' ColumnTypeUInt64 ''ZSTD(1)'' [],
        col ''count_samples'' ColumnTypeUInt64 ''ZSTD(1)'' [],
        col ''computed_at'' (DateTimeColumnType []) ''ZSTD(1)'' ''now()'']
       []
       []
       (replacing (merge_tree ''(env, temporality, metric_name, reduced_fingerprint, unix_milli)'' []
         ''toDate(unix_milli / 1000)'' ''toDateTime(unix_milli / 1000) + toIntervalSecond(2592000)''
         [setting ''index_granularity'' ''8192'', setting ''ttl_only_drop_parts'' ''1'', setting
         ''min_age_to_force_merge_seconds'' ''7200'', setting ''min_age_to_force_merge_on_partition_only''
         ''1'']) ''computed_at''),
      create_table ''signoz_metrics'' ''distributed_samples_v4_reduced_last_30m''
       [col ''env'' (LowCardinalityColumnType ColumnTypeString) [] (''\\'default'' @ [CHR 0x27]),
        col ''temporality'' (LowCardinalityColumnType ColumnTypeString) [] (''\\'Unspecified'' @ [CHR 0x27]),
        col ''metric_name'' (LowCardinalityColumnType ColumnTypeString) [] [],
        col ''reduced_fingerprint'' ColumnTypeUInt64 ''ZSTD(1)'' [],
        col ''unix_milli'' ColumnTypeInt64 ''Delta(8), ZSTD(1)'' [],
        col ''last'' ColumnTypeFloat64 ''Gorilla, ZSTD(1)'' [],
        col ''min'' ColumnTypeFloat64 ''Gorilla, ZSTD(1)'' [],
        col ''max'' ColumnTypeFloat64 ''Gorilla, ZSTD(1)'' [],
        col ''sum'' ColumnTypeFloat64 ''Gorilla, ZSTD(1)'' [],
        col ''sum_values'' ColumnTypeFloat64 ''Gorilla, ZSTD(1)'' [],
        col ''count'' ColumnTypeUInt64 ''ZSTD(1)'' [],
        col ''sum_count_series'' ColumnTypeUInt64 ''ZSTD(1)'' [],
        col ''count_samples'' ColumnTypeUInt64 ''ZSTD(1)'' [],
        col ''computed_at'' (DateTimeColumnType []) ''ZSTD(1)'' ''now()'']
       []
       []
       (distributed ''signoz_metrics'' ''samples_v4_reduced_last_30m''
         ''cityHash64(env, temporality, metric_name, reduced_fingerprint)''),
      create_table ''signoz_metrics'' ''samples_v4_reduced_sum_30m''
       [col ''env'' (LowCardinalityColumnType ColumnTypeString) [] (''\\'default'' @ [CHR 0x27]),
        col ''temporality'' (LowCardinalityColumnType ColumnTypeString) [] (''\\'Unspecified'' @ [CHR 0x27]),
        col ''metric_name'' (LowCardinalityColumnType ColumnTypeString) [] [],
        col ''reduced_fingerprint'' ColumnTypeUInt64 ''ZSTD(1)'' [],
        col ''unix_milli'' ColumnTypeInt64 ''Delta(8), ZSTD(1)'' [],
        col ''sum'' ColumnTypeFloat64 ''Gorilla, ZSTD(1)'' [],
        col ''count'' ColumnTypeUInt64 ''ZSTD(1)'' [],
        col ''sum_count_series'' ColumnTypeUInt64 ''ZSTD(1)'' [],
        col ''count_samples'' ColumnTypeUInt64 ''ZSTD(1)'' [],
        col ''computed_at'' (DateTimeColumnType []) ''ZSTD(1)'' ''now()'']
       []
       []
       (replacing (merge_tree ''(env, temporality, metric_name, reduced_fingerprint, unix_milli)'' []
         ''toDate(unix_milli / 1000)'' ''toDateTime(unix_milli / 1000) + toIntervalSecond(2592000)''
         [setting ''index_granularity'' ''8192'', setting ''ttl_only_drop_parts'' ''1'', setting
         ''min_age_to_force_merge_seconds'' ''7200'', setting ''min_age_to_force_merge_on_partition_only''
         ''1'']) ''computed_at''),
      create_table ''signoz_metrics'' ''distributed_samples_v4_reduced_sum_30m''
       [col ''env'' (LowCardinalityColumnType ColumnTypeString) [] (''\\'default'' @ [CHR 0x27]),
        col ''temporality'' (LowCardinalityColumnType ColumnTypeString) [] (''\\'Unspecified'' @ [CHR 0x27]),
        col ''metric_name'' (LowCardinalityColumnType ColumnTypeString) [] [],
        col ''reduced_fingerprint'' ColumnTypeUInt64 ''ZSTD(1)'' [],
        col ''unix_milli'' ColumnTypeInt64 ''Delta(8), ZSTD(1)'' [],
        col ''sum'' ColumnTypeFloat64 ''Gorilla, ZSTD(1)'' [],
        col ''count'' ColumnTypeUInt64 ''ZSTD(1)'' [],
        col ''sum_count_series'' ColumnTypeUInt64 ''ZSTD(1)'' [],
        col ''count_samples'' ColumnTypeUInt64 ''ZSTD(1)'' [],
        col ''computed_at'' (DateTimeColumnType []) ''ZSTD(1)'' ''now()'']
       []
       []
       (distributed ''signoz_metrics'' ''samples_v4_reduced_sum_30m''
         ''cityHash64(env, temporality, metric_name, reduced_fingerprint)'')]"

definition metrics_migration_1009_up3 :: "Operation list" where
  "metrics_migration_1009_up3 =
     [create_table ''signoz_metrics'' ''time_series_v4_reduced_1day''
       [col ''env'' (LowCardinalityColumnType ColumnTypeString) [] (''\\'default'' @ [CHR 0x27]),
        col ''temporality'' (LowCardinalityColumnType ColumnTypeString) [] (''\\'Unspecified'' @ [CHR 0x27]),
        col ''metric_name'' (LowCardinalityColumnType ColumnTypeString) [] [],
        col ''description'' (LowCardinalityColumnType ColumnTypeString) ''ZSTD(1)'' [CHR 0x27, CHR 0x27],
        col ''unit'' (LowCardinalityColumnType ColumnTypeString) ''ZSTD(1)'' [CHR 0x27, CHR 0x27],
        col ''type'' (LowCardinalityColumnType ColumnTypeString) ''ZSTD(1)'' [CHR 0x27, CHR 0x27],
        col ''is_monotonic'' ColumnTypeBool ''ZSTD(1)'' ''false'',
        col ''fingerprint'' ColumnTypeUInt64 ''Delta(8), ZSTD(1)'' [],
        col ''unix_milli'' ColumnTypeInt64 ''Delta(8), ZSTD(1)'' [],
        col ''labels'' ColumnTypeString ''ZSTD(5)'' [],
        col ''attrs'' (MapColumnType (LowCardinalityColumnType ColumnTypeString) ColumnTypeString)
          ''ZSTD(1)'' ''map()'',
        col ''scope_attrs'' (MapColumnType (LowCardinalityColumnType ColumnTypeString) ColumnTypeString)
          ''ZSTD(1)'' ''map()'',
        col ''resource_attrs'' (MapColumnType (LowCardinalityColumnType ColumnTypeString)
          ColumnTypeString) ''ZSTD(1)'' ''map()'',
        col ''__normalized'' ColumnTypeBool ''ZSTD(1)'' ''true'',
        col ''inserted_at_unix_milli'' ColumnTypeInt64 ''ZSTD(1)'' []]
       []
       []
       (replacing (merge_tree ''(env, temporality, metric_name, fingerprint, unix_milli)'' []
         ''toDate(unix_milli / 1000)'' ''toDateTime(unix_milli / 1000) + toIntervalSecond(2592000)''
         [setting ''index_granularity'' ''8192'', setting ''ttl_only_drop_parts'' ''1'', setting
         ''min_age_to_force_merge_seconds'' ''7200'', setting ''min_age_to_force_merge_on_partition_only''
         ''1'']) []),
      create_table ''signoz_metrics'' ''distributed_time_series_v4_reduced_1day''
       [col ''env'' (LowCardinalityColumnType ColumnTypeString) [] (''\\'default'' @ [CHR 0x27]),
        col ''temporality'' (LowCardinalityColumnType ColumnTypeString) [] (''\\'Unspecified'' @ [CHR 0x27]),
        col ''metric_name'' (LowCardinalityColumnType ColumnTypeString) [] [],
        col ''description'' (LowCardinalityColumnType ColumnTypeString) ''ZSTD(1)'' [CHR 0x27, CHR 0x27],
        col ''unit'' (LowCardinalityColumnType ColumnTypeString) ''ZSTD(1)'' [CHR 0x27, CHR 0x27],
        col ''type'' (LowCardinalityColumnType ColumnTypeString) ''ZSTD(1)'' [CHR 0x27, CHR 0x27],
        col ''is_monotonic'' ColumnTypeBool ''ZSTD(1)'' ''false'',
        col ''fingerprint'' ColumnTypeUInt64 ''Delta(8), ZSTD(1)'' [],
        col ''unix_milli'' ColumnTypeInt64 ''Delta(8), ZSTD(1)'' [],
        col ''labels'' ColumnTypeString ''ZSTD(5)'' [],
        col ''attrs'' (MapColumnType (LowCardinalityColumnType ColumnTypeString) ColumnTypeString)
          ''ZSTD(1)'' ''map()'',
        col ''scope_attrs'' (MapColumnType (LowCardinalityColumnType ColumnTypeString) ColumnTypeString)
          ''ZSTD(1)'' ''map()'',
        col ''resource_attrs'' (MapColumnType (LowCardinalityColumnType ColumnTypeString)
          ColumnTypeString) ''ZSTD(1)'' ''map()'',
        col ''__normalized'' ColumnTypeBool ''ZSTD(1)'' ''true'',
        col ''inserted_at_unix_milli'' ColumnTypeInt64 ''ZSTD(1)'' []]
       []
       []
       (distributed ''signoz_metrics'' ''time_series_v4_reduced_1day''
         ''cityHash64(env, temporality, metric_name, fingerprint)'')]"

definition metrics_migration_1009_down :: "Operation list" where
  "metrics_migration_1009_down =
     [drop_table ''signoz_metrics'' ''distributed_time_series_v4_reduced_1day'',
      drop_table ''signoz_metrics'' ''time_series_v4_reduced_1day'',
      drop_table ''signoz_metrics'' ''distributed_samples_v4_reduced_sum_30m'',
      drop_table ''signoz_metrics'' ''samples_v4_reduced_sum_30m'',
      drop_table ''signoz_metrics'' ''distributed_samples_v4_reduced_last_30m'',
      drop_table ''signoz_metrics'' ''samples_v4_reduced_last_30m'',
      drop_table ''signoz_metrics'' ''distributed_samples_v4_reduced_sum_5m'',
      drop_table ''signoz_metrics'' ''samples_v4_reduced_sum_5m'',
      drop_table ''signoz_metrics'' ''distributed_samples_v4_reduced_last_5m'',
      drop_table ''signoz_metrics'' ''samples_v4_reduced_last_5m'']"

definition metrics_migration_1009 :: SchemaMigrationRecord where
  "metrics_migration_1009 = migration 1009
     (metrics_migration_1009_up1 @ metrics_migration_1009_up2 @ metrics_migration_1009_up3)
     metrics_migration_1009_down"

definition metrics_migration_1010 :: SchemaMigrationRecord where
  "metrics_migration_1010 = migration 1010
     [modify_settings ''signoz_metrics'' ''samples_v4_reduced_last_60s'' [setting
       ''min_age_to_force_merge_seconds'' ''7200'', setting ''min_age_to_force_merge_on_partition_only''
       ''1''],
      modify_settings ''signoz_metrics'' ''samples_v4_reduced_sum_60s'' [setting
        ''min_age_to_force_merge_seconds'' ''7200'', setting ''min_age_to_force_merge_on_partition_only''
        ''1''],
      modify_settings ''signoz_metrics'' ''time_series_v4_reduced'' [setting
        ''min_age_to_force_merge_seconds'' ''7200'', setting ''min_age_to_force_merge_on_partition_only''
        ''1'']]
     []"

definition metrics_migration_1011_up1 :: "Operation list" where
  "metrics_migration_1011_up1 =
     [create_refreshable_view ''signoz_metrics'' ''samples_v4_reduced_last_5m_mv''
       ''samples_v4_reduced_last_5m''
       [col ''env'' (LowCardinalityColumnType ColumnTypeString) [] [],
        col ''temporality'' (LowCardinalityColumnType ColumnTypeString) [] [],
        col ''metric_name'' (LowCardinalityColumnType ColumnTypeString) [] [],
        col ''reduced_fingerprint'' ColumnTypeUInt64 [] [],
        col ''unix_milli'' ColumnTypeInt64 [] [],
        col ''last'' ColumnTypeFloat64 [] [],
        col ''min'' ColumnTypeFloat64 [] [],
        col ''max'' ColumnTypeFloat64 [] [],
        col ''sum'' ColumnTypeFloat64 [] [],
        col ''sum_values'' ColumnTypeFloat64 [] [],
        col ''count'' ColumnTypeUInt64 [] [],
        col ''sum_count_series'' ColumnTypeUInt64 [] [],
        col ''count_samples'' ColumnTypeUInt64 [] [],
        col ''computed_at'' (DateTimeColumnType []) [] []]
       (''SELECT'' @ br 7 @ ''env,'' @ br 7 @ ''temporality,'' @ br 7 @ ''metric_name,'' @ br 7 @
         ''reduced_fingerprint,'' @ br 7 @ ''bucket_unix_milli AS unix_milli,'' @ br 7 @ ''last,'' @ br 7
         @ ''min,'' @ br 7 @ ''max,'' @ br 7 @ ''sum,'' @ br 7 @ ''sum_values,'' @ br 7 @ ''count,'' @ br
         7 @ ''sum_count_series,'' @ br 7 @ ''count_samples,'' @ br 7 @ ''now() AS computed_at'' @ br 6 @
         ''FROM'' @ br 6 @ ''('' @ br 7 @ ''SELECT'' @ br 8 @ ''env,'' @ br 8 @ ''temporality,'' @ br 8 @
         ''metric_name,'' @ br 8 @ ''reduced_fingerprint,'' @ br 8 @
         ''intDiv(unix_milli, 300000) * 300000 AS bucket_unix_milli,'' @ br 8 @
         ''argMax(sum_last, unix_milli) AS last,'' @ br 8 @ ''min(min) AS min,'' @ br 8 @
         ''max(max) AS max,'' @ br 8 @ ''sum(sum_last) AS sum,'' @ br 8 @
         ''sum(sum_values) AS sum_values,'' @ br 8 @ ''count() AS count,'' @ br 8 @
         ''sum(count_series) AS sum_count_series,'' @ br 8 @ ''sum(count_samples) AS count_samples'' @ br
         7 @ ''FROM signoz_metrics.samples_v4_reduced_last_60s FINAL'' @ br 7 @
         ''WHERE (unix_milli >= (toUnixTimestamp(now() - toIntervalMinute(40)) * 1000))'' @ br 8 @
         ''AND (unix_milli < (toUnixTimestamp(now() - toIntervalMinute(12)) * 1000))'' @ br 7 @
         ''GROUP BY'' @ br 8 @ ''env,'' @ br 8 @ ''temporality,'' @ br 8 @ ''metric_name,'' @ br 8 @
         ''reduced_fingerprint,'' @ br 8 @ ''bucket_unix_milli'' @ br 6 @ '')'' @ br 6 @
         ''WHERE (bucket_unix_milli >= (toUnixTimestamp(now() - toIntervalMinute(35)) * 1000))'' @ br 7 @
         ''AND ((bucket_unix_milli + 300000) <= (toUnixTimestamp(now() - toIntervalMinute(12)) * 1000))'')
       ''5 MINUTE'' ''30 SECOND'' True True,
      create_refreshable_view ''signoz_metrics'' ''samples_v4_reduced_sum_5m_mv''
        ''samples_v4_reduced_sum_5m''
       [col ''env'' (LowCardinalityColumnType ColumnTypeString) [] [],
        col ''temporality'' (LowCardinalityColumnType ColumnTypeString) [] [],
        col ''metric_name'' (LowCardinalityColumnType ColumnTypeString) [] [],
        col ''reduced_fingerprint'' ColumnTypeUInt64 [] [],
        col ''unix_milli'' ColumnTypeInt64 [] [],
        col ''sum'' ColumnTypeFloat64 [] [],
        col ''count'' ColumnTypeUInt64 [] [],
        col ''sum_count_series'' ColumnTypeUInt64 [] [],
        col ''count_samples'' ColumnTypeUInt64 [] [],
        col ''computed_at'' (DateTimeColumnType []) [] []]
       (''SELECT'' @ br 7 @ ''env,'' @ br 7 @ ''temporality,'' @ br 7 @ ''metric_name,'' @ br 7 @
         ''reduced_fingerprint,'' @ br 7 @ ''bucket_unix_milli AS unix_milli,'' @ br 7 @ ''sum,'' @ br 7 @
         ''count,'' @ br 7 @ ''sum_count_series,'' @ br 7 @ ''count_samples,'' @ br 7 @
         ''now() AS computed_at'' @ br 6 @ ''FROM'' @ br 6 @ ''('' @ br 7 @ ''SELECT'' @ br 8 @ ''env,'' @
         br 8 @ ''temporality,'' @ br 8 @ ''metric_name,'' @ br 8 @ ''reduced_fingerprint,'' @ br 8 @
         ''intDiv(unix_milli, 300000) * 300000 AS bucket_unix_milli,'' @ br 8 @ ''sum(sum) AS sum,'' @ br
         8 @ ''count() AS count,'' @ br 8 @ ''sum(count_series) AS sum_count_series,'' @ br 8 @
         ''sum(count_samples) AS count_samples'' @ br 7 @
         ''FROM signoz_metrics.samples_v4_reduced_sum_60s FINAL'' @ br 7 @
         ''WHERE (unix_milli >= (toUnixTimestamp(now() - toIntervalMinute(40)) * 1000))'' @ br 8 @
         ''AND (unix_milli < (toUnixTimestamp(now() - toIntervalMinute(12)) * 1000))'' @ br 7 @
         ''GROUP BY'' @ br 8 @ ''env,'' @ br 8 @ ''temporality,'' @ br 8 @ ''metric_name,'' @ br 8 @
         ''reduced_fingerprint,'' @ br 8 @ ''bucket_unix_milli'' @ br 6 @ '')'' @ br 6 @
         ''WHERE (bucket_unix_milli >= (toUnixTimestamp(now() - toIntervalMinute(35)) * 1000))'' @ br 7 @
         ''AND ((bucket_unix_milli + 300000) <= (toUnixTimestamp(now() - toIntervalMinute(12)) * 1000))'')
       ''5 MINUTE'' ''30 SECOND'' True True]"

definition metrics_migration_1011_up2 :: "Operation list" where
  "metrics_migration_1011_up2 =
     [create_refreshable_view ''signoz_metrics'' ''samples_v4_reduced_last_30m_mv''
       ''samples_v4_reduced_last_30m''
       [col ''env'' (LowCardinalityColumnType ColumnTypeString) [] [],
        col ''temporality'' (LowCardinalityColumnType ColumnTypeString) [] [],
        col ''metric_name'' (LowCardinalityColumnType ColumnTypeString) [] [],
        col ''reduced_fingerprint'' ColumnTypeUInt64 [] [],
        col ''unix_milli'' ColumnTypeInt64 [] [],
        col ''last'' ColumnTypeFloat64 [] [],
        col ''min'' ColumnTypeFloat64 [] [],
        col ''max'' ColumnTypeFloat64 [] [],
        col ''sum'' ColumnTypeFloat64 [] [],
        col ''sum_values'' ColumnTypeFloat64 [] [],
        col ''count'' ColumnTypeUInt64 [] [],
        col ''sum_count_series'' ColumnTypeUInt64 [] [],
        col ''count_samples'' ColumnTypeUInt64 [] [],
        col ''computed_at'' (DateTimeColumnType []) [] []]
       (''SELECT'' @ br 7 @ ''env,'' @ br 7 @ ''temporality,'' @ br 7 @ ''metric_name,'' @ br 7 @
         ''reduced_fingerprint,'' @ br 7 @ ''bucket_unix_milli AS unix_milli,'' @ br 7 @ ''last,'' @ br 7
         @ ''min,'' @ br 7 @ ''max,'' @ br 7 @ ''sum,'' @ br 7 @ ''sum_values,'' @ br 7 @ ''count,'' @ br
         7 @ ''sum_count_series,'' @ br 7 @ ''count_samples,'' @ br 7 @ ''now() AS computed_at'' @ br 6 @
         ''FROM'' @ br 6 @ ''('' @ br 7 @ ''SELECT'' @ br 8 @ ''env,'' @ br 8 @ ''temporality,'' @ br 8 @
         ''metric_name,'' @ br 8 @ ''reduced_fingerprint,'' @ br 8 @
         ''intDiv(unix_milli, 1800000) * 1800000 AS bucket_unix_milli,'' @ br 8 @
         ''argMax(last, unix_milli) AS last,'' @ br 8 @ ''min(min) AS min,'' @ br 8 @ ''max(max) AS max,''
         @ br 8 @ ''sum(sum) AS sum,'' @ br 8 @ ''sum(sum_values) AS sum_values,'' @ br 8 @
         ''sum(count) AS count,'' @ br 8 @ ''sum(sum_count_series) AS sum_count_series,'' @ br 8 @
         ''sum(count_samples) AS count_samples'' @ br 7 @
         ''FROM signoz_metrics.samples_v4_reduced_last_5m FINAL'' @ br 7 @
         ''WHERE (unix_milli >= (toUnixTimestamp(now() - toIntervalMinute(180)) * 1000))'' @ br 8 @
         ''AND (unix_milli < (toUnixTimestamp(now() - toIntervalMinute(40)) * 1000))'' @ br 7 @
         ''GROUP BY'' @ br 8 @ ''env,'' @ br 8 @ ''temporality,'' @ br 8 @ ''metric_name,'' @ br 8 @
         ''reduced_fingerprint,'' @ br 8 @ ''bucket_unix_milli'' @ br 6 @ '')'' @ br 6 @
         ''WHERE (bucket_unix_milli >= (toUnixTimestamp(now() - toIntervalMinute(150)) * 1000))'' @ br 7 @
         ''AND ((bucket_unix_milli + 1800000) <= (toUnixTimestamp(now() - toIntervalMinute(40)) * 1000))'')
       ''30 MINUTE'' ''2 MINUTE'' True True,
      create_refreshable_view ''signoz_metrics'' ''samples_v4_reduced_sum_30m_mv''
        ''samples_v4_reduced_sum_30m''
       [col ''env'' (LowCardinalityColumnType ColumnTypeString) [] [],
        col ''temporality'' (LowCardinalityColumnType ColumnTypeString) [] [],
        col ''metric_name'' (LowCardinalityColumnType ColumnTypeString) [] [],
        col ''reduced_fingerprint'' ColumnTypeUInt64 [] [],
        col ''unix_milli'' ColumnTypeInt64 [] [],
        col ''sum'' ColumnTypeFloat64 [] [],
        col ''count'' ColumnTypeUInt64 [] [],
        col ''sum_count_series'' ColumnTypeUInt64 [] [],
        col ''count_samples'' ColumnTypeUInt64 [] [],
        col ''computed_at'' (DateTimeColumnType []) [] []]
       (''SELECT'' @ br 7 @ ''env,'' @ br 7 @ ''temporality,'' @ br 7 @ ''metric_name,'' @ br 7 @
         ''reduced_fingerprint,'' @ br 7 @ ''bucket_unix_milli AS unix_milli,'' @ br 7 @ ''sum,'' @ br 7 @
         ''count,'' @ br 7 @ ''sum_count_series,'' @ br 7 @ ''count_samples,'' @ br 7 @
         ''now() AS computed_at'' @ br 6 @ ''FROM'' @ br 6 @ ''('' @ br 7 @ ''SELECT'' @ br 8 @ ''env,'' @
         br 8 @ ''temporality,'' @ br 8 @ ''metric_name,'' @ br 8 @ ''reduced_fingerprint,'' @ br 8 @
         ''intDiv(unix_milli, 1800000) * 1800000 AS bucket_unix_milli,'' @ br 8 @ ''sum(sum) AS sum,'' @
         br 8 @ ''sum(count) AS count,'' @ br 8 @ ''sum(sum_count_series) AS sum_count_series,'' @ br 8 @
         ''sum(count_samples) AS count_samples'' @ br 7 @
         ''FROM signoz_metrics.samples_v4_reduced_sum_5m FINAL'' @ br 7 @
         ''WHERE (unix_milli >= (toUnixTimestamp(now() - toIntervalMinute(180)) * 1000))'' @ br 8 @
         ''AND (unix_milli < (toUnixTimestamp(now() - toIntervalMinute(40)) * 1000))'' @ br 7 @
         ''GROUP BY'' @ br 8 @ ''env,'' @ br 8 @ ''temporality,'' @ br 8 @ ''metric_name,'' @ br 8 @
         ''reduced_fingerprint,'' @ br 8 @ ''bucket_unix_milli'' @ br 6 @ '')'' @ br 6 @
         ''WHERE (bucket_unix_milli >= (toUnixTimestamp(now() - toIntervalMinute(150)) * 1000))'' @ br 7 @
         ''AND ((bucket_unix_milli + 1800000) <= (toUnixTimestamp(now() - toIntervalMinute(40)) * 1000))'')
       ''30 MINUTE'' ''2 MINUTE'' True True]"

definition metrics_migration_1011_up3 :: "Operation list" where
  "metrics_migration_1011_up3 =
     [create_view ''signoz_metrics'' ''time_series_v4_reduced_1day_mv'' ''time_series_v4_reduced_1day''
       [col ''env'' (LowCardinalityColumnType ColumnTypeString) [] (''\\'default'' @ [CHR 0x27]),
        col ''temporality'' (LowCardinalityColumnType ColumnTypeString) [] (''\\'Unspecified'' @ [CHR 0x27]),
        col ''metric_name'' (LowCardinalityColumnType ColumnTypeString) [] [],
        col ''description'' (LowCardinalityColumnType ColumnTypeString) ''ZSTD(1)'' [CHR 0x27, CHR 0x27],
        col ''unit'' (LowCardinalityColumnType ColumnTypeString) ''ZSTD(1)'' [CHR 0x27, CHR 0x27],
        col ''type'' (LowCardinalityColumnType ColumnTypeString) ''ZSTD(1)'' [CHR 0x27, CHR 0x27],
        col ''is_monotonic'' ColumnTypeBool ''ZSTD(1)'' ''false'',
        col ''fingerprint'' ColumnTypeUInt64 ''Delta(8), ZSTD(1)'' [],
        col ''unix_milli'' ColumnTypeInt64 ''Delta(8), ZSTD(1)'' [],
        col ''labels'' ColumnTypeString ''ZSTD(5)'' [],
        col ''attrs'' (MapColumnType (LowCardinalityColumnType ColumnTypeString) ColumnTypeString)
          ''ZSTD(1)'' [],
        col ''scope_attrs'' (MapColumnType (LowCardinalityColumnType ColumnTypeString) ColumnTypeString)
          ''ZSTD(1)'' [],
        col ''resource_attrs'' (MapColumnType (LowCardinalityColumnType ColumnTypeString)
          ColumnTypeString) ''ZSTD(1)'' [],
        col ''__normalized'' ColumnTypeBool ''ZSTD(1)'' ''true'',
        col ''inserted_at_unix_milli'' ColumnTypeInt64 ''ZSTD(1)'' []]
       (''SELECT'' @ br 7 @ ''env,'' @ br 7 @ ''temporality,'' @ br 7 @ ''metric_name,'' @ br 7 @
         ''description,'' @ br 7 @ ''unit,'' @ br 7 @ ''type,'' @ br 7 @ ''is_monotonic,'' @ br 7 @
         ''fingerprint,'' @ br 7 @ ''floor(unix_milli / 86400000) * 86400000 AS unix_milli,'' @ br 7 @
         ''labels,'' @ br 7 @ ''attrs,'' @ br 7 @ ''scope_attrs,'' @ br 7 @ ''resource_attrs,'' @ br 7 @
         ''__normalized,'' @ br 7 @ ''inserted_at_unix_milli'' @ br 6 @
         ''FROM signoz_metrics.time_series_v4_reduced'')]"

definition metrics_migration_1011_down :: "Operation list" where
  "metrics_migration_1011_down =
     [drop_table ''signoz_metrics'' ''time_series_v4_reduced_1day_mv'',
      drop_table ''signoz_metrics'' ''samples_v4_reduced_sum_30m_mv'',
      drop_table ''signoz_metrics'' ''samples_v4_reduced_last_30m_mv'',
      drop_table ''signoz_metrics'' ''samples_v4_reduced_sum_5m_mv'',
      drop_table ''signoz_metrics'' ''samples_v4_reduced_last_5m_mv'']"

definition metrics_migration_1011 :: SchemaMigrationRecord where
  "metrics_migration_1011 = migration 1011
     (metrics_migration_1011_up1 @ metrics_migration_1011_up2 @ metrics_migration_1011_up3)
     metrics_migration_1011_down"

definition metrics_migrations :: "SchemaMigrationRecord list" where
  "metrics_migrations =
     [metrics_migration_1000, metrics_migration_1001, metrics_migration_1002,
      metrics_migration_1003, metrics_migration_1004, metrics_migration_1005,
      metrics_migration_1006, metrics_migration_1007, metrics_migration_1008,
      metrics_migration_1009, metrics_migration_1010, metrics_migration_1011]"

section \<open>\<open>SquashedMetricsMigrations\<close>
  (\<open>squashed_metrics_migrations.go\<close>)\<close>

definition squashed_metrics_1 :: SchemaMigrationRecord where
  "squashed_metrics_1 = migration 1
     [create_table ''signoz_metrics'' ''samples_v2''
       [col ''metric_name'' (LowCardinalityColumnType ColumnTypeString) [] [],
        col ''fingerprint'' ColumnTypeUInt64 ''ZSTD(1)'' [],
        col ''timestamp_ms'' ColumnTypeInt64 ''DoubleDelta, LZ4'' [],
        col ''value'' ColumnTypeFloat64 ''Gorilla, LZ4'' []]
       []
       []
       (EMergeTree (merge_tree ''(metric_name, fingerprint, timestamp_ms)'' []
         ''toDate(timestamp_ms / 1000)'' ''toDateTime(timestamp_ms / 1000) + toIntervalSecond(2592000)''
         [setting ''index_granularity'' ''8192'', setting ''ttl_only_drop_parts'' ''1'']))]
     [drop_table ''signoz_metrics'' ''samples_v2'']"

definition squashed_metrics_2 :: SchemaMigrationRecord where
  "squashed_metrics_2 = migration 2
     [create_table ''signoz_metrics'' ''distributed_samples_v2''
       [col ''metric_name'' (LowCardinalityColumnType ColumnTypeString) [] [],
        col ''fingerprint'' ColumnTypeUInt64 ''ZSTD(1)'' [],
        col ''timestamp_ms'' ColumnTypeInt64 ''DoubleDelta, LZ4'' [],
        col ''value'' ColumnTypeFloat64 ''Gorilla, LZ4'' []]
       []
       []
       (distributed ''signoz_metrics'' ''samples_v2'' ''cityHash64(metric_name, fingerprint)'')]
     [drop_table ''signoz_metrics'' ''distributed_samples_v2'']"

definition squashed_metrics_3 :: SchemaMigrationRecord where
  "squashed_metrics_3 = migration 3
     [create_table ''signoz_metrics'' ''time_series_v2''
       [col ''metric_name'' (LowCardinalityColumnType ColumnTypeString) [] [],
        col ''fingerprint'' ColumnTypeUInt64 ''ZSTD(1)'' [],
        col ''timestamp_ms'' ColumnTypeInt64 ''DoubleDelta, LZ4'' [],
        col ''labels'' ColumnTypeString ''ZSTD(5)'' [],
        col ''temporality'' (LowCardinalityColumnType ColumnTypeString) ''ZSTD(5)'' (''\\'Unspecified'' @
          [CHR 0x27]),
        col ''description'' (LowCardinalityColumnType ColumnTypeString) ''ZSTD(1)'' [CHR 0x27, CHR 0x27],
        col ''unit'' (LowCardinalityColumnType ColumnTypeString) ''ZSTD(1)'' [CHR 0x27, CHR 0x27],
        col ''type'' (LowCardinalityColumnType ColumnTypeString) ''ZSTD(1)'' [CHR 0x27, CHR 0x27],
        col ''is_monotonic'' ColumnTypeBool ''ZSTD(1)'' ''false'']
       [idx ''temporality_index'' ''temporality'' ''SET(3)'' 1]
       []
       (replacing (merge_tree ''(metric_name, fingerprint)'' [] ''toDate(timestamp_ms / 1000)'' []
         [setting ''index_granularity'' ''8192'']) [])]
     []"

definition squashed_metrics_4 :: SchemaMigrationRecord where
  "squashed_metrics_4 = migration 4
     [create_table ''signoz_metrics'' ''distributed_time_series_v2''
       [col ''metric_name'' (LowCardinalityColumnType ColumnTypeString) [] [],
        col ''fingerprint'' ColumnTypeUInt64 ''ZSTD(1)'' [],
        col ''timestamp_ms'' ColumnTypeInt64 ''DoubleDelta, LZ4'' [],
        col ''labels'' ColumnTypeString ''ZSTD(5)'' [],
        col ''temporality'' (LowCardinalityColumnType ColumnTypeString) ''ZSTD(5)'' (''\\'Unspecified'' @
          [CHR 0x27]),
        col ''description'' (LowCardinalityColumnType ColumnTypeString) ''ZSTD(1)'' [CHR 0x27, CHR 0x27],
        col ''unit'' (LowCardinalityColumnType ColumnTypeString) ''ZSTD(1)'' [CHR 0x27, CHR 0x27],
        col ''type'' (LowCardinalityColumnType ColumnTypeString) ''ZSTD(1)'' [CHR 0x27, CHR 0x27],
        col ''is_monotonic'' ColumnTypeBool ''ZSTD(1)'' ''false'']
       []
       []
       (distributed ''signoz_metrics'' ''time_series_v2'' ''cityHash64(metric_name, fingerprint)'')]
     []"

definition squashed_metrics_5 :: SchemaMigrationRecord where
  "squashed_metrics_5 = migration 5
     [create_table ''signoz_metrics'' ''exp_hist''
       [col ''env'' (LowCardinalityColumnType ColumnTypeString) [] (''\\'default'' @ [CHR 0x27]),
        col ''temporality'' (LowCardinalityColumnType ColumnTypeString) [] (''\\'Unspecified'' @ [CHR 0x27]),
        col ''metric_name'' (LowCardinalityColumnType ColumnTypeString) [] [],
        col ''fingerprint'' ColumnTypeUInt64 ''Delta(8), ZSTD(1)'' [],
        col ''unix_milli'' ColumnTypeInt64 ''DoubleDelta, ZSTD(1)'' [],
        col ''count'' ColumnTypeUInt64 ''ZSTD(1)'' [],
        col ''sum'' ColumnTypeFloat64 ''Gorilla, ZSTD(1)'' [],
        col ''min'' ColumnTypeFloat64 ''Gorilla, ZSTD(1)'' [],
        col ''max'' ColumnTypeFloat64 ''Gorilla, ZSTD(1)'' [],
        col ''sketch'' (AggregateFunction ''quantilesDD(0.01, 0.5, 0.75, 0.9, 0.95, 0.99)''
          [ColumnTypeUInt64]) ''ZSTD(1)'' []]
       []
       []
       (EMergeTree (merge_tree ''(env, temporality, metric_name, fingerprint, unix_milli)'' []
         ''toDate(unix_milli / 1000)'' ''toDateTime(unix_milli / 1000) + toIntervalSecond(2592000)''
         [setting ''index_granularity'' ''8192'', setting ''ttl_only_drop_parts'' ''1'']))]
     [drop_table ''signoz_metrics'' ''exp_hist'']"

definition squashed_metrics_6 :: SchemaMigrationRecord where
  "squashed_metrics_6 = migration 6
     [create_table ''signoz_metrics'' ''distributed_exp_hist''
       [col ''env'' (LowCardinalityColumnType ColumnTypeString) [] (''\\'default'' @ [CHR 0x27]),
        col ''temporality'' (LowCardinalityColumnType ColumnTypeString) [] (''\\'Unspecified'' @ [CHR 0x27]),
        col ''metric_name'' (LowCardinalityColumnType ColumnTypeString) [] [],
        col ''fingerprint'' ColumnTypeUInt64 ''Delta(8), ZSTD(1)'' [],
        col ''unix_milli'' ColumnTypeInt64 ''DoubleDelta, ZSTD(1)'' [],
        col ''count'' ColumnTypeUInt64 ''ZSTD(1)'' [],
        col ''sum'' ColumnTypeFloat64 ''Gorilla, ZSTD(1)'' [],
        col ''min'' ColumnTypeFloat64 ''Gorilla, ZSTD(1)'' [],
        col ''max'' ColumnTypeFloat64 ''Gorilla, ZSTD(1)'' [],
        col ''sketch'' (AggregateFunction ''quantilesDD(0.01, 0.5, 0.75, 0.9, 0.95, 0.99)''
          [ColumnTypeUInt64]) ''ZSTD(1)'' []]
       []
       []
       (distributed ''signoz_metrics'' ''exp_hist''
         ''cityHash64(env, temporality, metric_name, fingerprint)'')]
     [drop_table ''signoz_metrics'' ''distributed_exp_hist'']"

definition squashed_metrics_7 :: SchemaMigrationRecord where
  "squashed_metrics_7 = migration 7
     [create_table ''signoz_metrics'' ''samples_v4''
       [col ''env'' (LowCardinalityColumnType ColumnTypeString) [] (''\\'default'' @ [CHR 0x27]),
        col ''temporality'' (LowCardinalityColumnType ColumnTypeString) [] (''\\'Unspecified'' @ [CHR 0x27]),
        col ''metric_name'' (LowCardinalityColumnType ColumnTypeString) [] [],
        col ''fingerprint'' ColumnTypeUInt64 ''Delta(8), ZSTD(1)'' [],
        col ''unix_milli'' ColumnTypeInt64 ''DoubleDelta, ZSTD(1)'' [],
        col ''value'' ColumnTypeFloat64 ''Gorilla, ZSTD(1)'' []]
       []
       []
       (EMergeTree (merge_tree ''(env, temporality, metric_name, fingerprint, unix_milli)'' []
         ''toDate(unix_milli / 1000)'' ''toDateTime(unix_milli / 1000) + toIntervalSecond(2592000)''
         [setting ''index_granularity'' ''8192'', setting ''ttl_only_drop_parts'' ''1'']))]
     [drop_table ''signoz_metrics'' ''samples_v4'']"

definition squashed_metrics_8 :: SchemaMigrationRecord where
  "squashed_metrics_8 = migration 8
     [create_table ''signoz_metrics'' ''distributed_samples_v4''
       [col ''env'' (LowCardinalityColumnType ColumnTypeString) [] (''\\'default'' @ [CHR 0x27]),
        col ''temporality'' (LowCardinalityColumnType ColumnTypeString) [] (''\\'Unspecified'' @ [CHR 0x27]),
        col ''metric_name'' (LowCardinalityColumnType ColumnTypeString) [] [],
        col ''fingerprint'' ColumnTypeUInt64 ''Delta(8), ZSTD(1)'' [],
        col ''unix_milli'' ColumnTypeInt64 ''DoubleDelta, ZSTD(1)'' [],
        col ''value'' ColumnTypeFloat64 ''Gorilla, ZSTD(1)'' []]
       []
       []
       (distributed ''signoz_metrics'' ''samples_v4''
         ''cityHash64(env, temporality, metric_name, fingerprint)'')]
     [drop_table ''signoz_metrics'' ''distributed_samples_v4'']"

definition squashed_metrics_9 :: SchemaMigrationRecord where
  "squashed_metrics_9 = migration 9
     [create_table ''signoz_metrics'' ''time_series_v4''
       [col ''env'' (LowCardinalityColumnType ColumnTypeString) [] (''\\'default'' @ [CHR 0x27]),
        col ''temporality'' (LowCardinalityColumnType ColumnTypeString) [] (''\\'Unspecified'' @ [CHR 0x27]),
        col ''metric_name'' (LowCardinalityColumnType ColumnTypeString) [] [],
        col ''description'' (LowCardinalityColumnType ColumnTypeString) ''ZSTD(1)'' [CHR 0x27, CHR 0x27],
        col ''unit'' (LowCardinalityColumnType ColumnTypeString) ''ZSTD(1)'' [CHR 0x27, CHR 0x27],
        col ''type'' (LowCardinalityColumnType ColumnTypeString) ''ZSTD(1)'' [CHR 0x27, CHR 0x27],
        col ''is_monotonic'' ColumnTypeBool ''ZSTD(1)'' ''false'',
        col ''fingerprint'' ColumnTypeUInt64 ''Delta(8), ZSTD(1)'' [],
        col ''unix_milli'' ColumnTypeInt64 ''Delta(8), ZSTD(1)'' [],
        col ''labels'' ColumnTypeString ''ZSTD(5)'' []]
       []
       []
       (replacing (merge_tree ''(env, temporality, metric_name, fingerprint, unix_milli)'' []
         ''toDate(unix_milli / 1000)'' ''toDateTime(unix_milli / 1000) + toIntervalSecond(2592000)''
         [setting ''index_granularity'' ''8192'', setting ''ttl_only_drop_parts'' ''1'']) [])]
     [drop_table ''signoz_metrics'' ''time_series_v4'']"

definition squashed_metrics_10 :: SchemaMigrationRecord where
  "squashed_metrics_10 = migration 10
     [create_table ''signoz_metrics'' ''distributed_time_series_v4''
       [col ''env'' (LowCardinalityColumnType ColumnTypeString) [] (''\\'default'' @ [CHR 0x27]),
        col ''temporality'' (LowCardinalityColumnType ColumnTypeString) [] (''\\'Unspecified'' @ [CHR 0x27]),
        col ''metric_name'' (LowCardinalityColumnType ColumnTypeString) [] [],
        col ''description'' (LowCardinalityColumnType ColumnTypeString) ''ZSTD(1)'' [CHR 0x27, CHR 0x27],
        col ''unit'' (LowCardinalityColumnType ColumnTypeString) ''ZSTD(1)'' [CHR 0x27, CHR 0x27],
        col ''type'' (LowCardinalityColumnType ColumnTypeString) ''ZSTD(1)'' [CHR 0x27, CHR 0x27],
        col ''is_monotonic'' ColumnTypeBool ''ZSTD(1)'' ''false'',
        col ''fingerprint'' ColumnTypeUInt64 ''Delta(8), ZSTD(1)'' [],
        col ''unix_milli'' ColumnTypeInt64 ''Delta(8), ZSTD(1)'' [],
        col ''labels'' ColumnTypeString ''ZSTD(5)'' []]
       []
       []
       (distributed ''signoz_metrics'' ''time_series_v4''
         ''cityHash64(env, temporality, metric_name, fingerprint)'')]
     [drop_table ''signoz_metrics'' ''distributed_time_series_v4'']"

definition squashed_metrics_11 :: SchemaMigrationRecord where
  "squashed_metrics_11 = migration 11
     [create_table ''signoz_metrics'' ''time_series_v4_6hrs''
       [col ''env'' (LowCardinalityColumnType ColumnTypeString) [] (''\\'default'' @ [CHR 0x27]),
        col ''temporality'' (LowCardinalityColumnType ColumnTypeString) [] (''\\'Unspecified'' @ [CHR 0x27]),
        col ''metric_name'' (LowCardinalityColumnType ColumnTypeString) [] [],
        col ''description'' (LowCardinalityColumnType ColumnTypeString) ''ZSTD(1)'' [CHR 0x27, CHR 0x27],
        col ''unit'' (LowCardinalityColumnType ColumnTypeString) ''ZSTD(1)'' [CHR 0x27, CHR 0x27],
        col ''type'' (LowCardinalityColumnType ColumnTypeString) ''ZSTD(1)'' [CHR 0x27, CHR 0x27],
        col ''is_monotonic'' ColumnTypeBool ''ZSTD(1)'' ''false'',
        col ''fingerprint'' ColumnTypeUInt64 ''Delta(8), ZSTD(1)'' [],
        col ''unix_milli'' ColumnTypeInt64 ''Delta(8), ZSTD(1)'' [],
        col ''labels'' ColumnTypeString ''ZSTD(5)'' []]
       []
       []
       (replacing (merge_tree ''(env, temporality, metric_name, fingerprint, unix_milli)'' []
         ''toDate(unix_milli / 1000)'' ''toDateTime(unix_milli / 1000) + toIntervalSecond(2592000)''
         [setting ''index_granularity'' ''8192'', setting ''ttl_only_drop_parts'' ''1'']) [])]
     [drop_table ''signoz_metrics'' ''time_series_v4_6hrs'']"

definition squashed_metrics_12 :: SchemaMigrationRecord where
  "squashed_metrics_12 = migration 12
     [create_table ''signoz_metrics'' ''distributed_time_series_v4_6hrs''
       [col ''env'' (LowCardinalityColumnType ColumnTypeString) [] (''\\'default'' @ [CHR 0x27]),
        col ''temporality'' (LowCardinalityColumnType ColumnTypeString) [] (''\\'Unspecified'' @ [CHR 0x27]),
        col ''metric_name'' (LowCardinalityColumnType ColumnTypeString) [] [],
        col ''description'' (LowCardinalityColumnType ColumnTypeString) ''ZSTD(1)'' [CHR 0x27, CHR 0x27],
        col ''unit'' (LowCardinalityColumnType ColumnTypeString) ''ZSTD(1)'' [CHR 0x27, CHR 0x27],
        col ''type'' (LowCardinalityColumnType ColumnTypeString) ''ZSTD(1)'' [CHR 0x27, CHR 0x27],
        col ''is_monotonic'' ColumnTypeBool ''ZSTD(1)'' ''false'',
        col ''fingerprint'' ColumnTypeUInt64 ''Delta(8), ZSTD(1)'' [],
        col ''unix_milli'' ColumnTypeInt64 ''Delta(8), ZSTD(1)'' [],
        col ''labels'' ColumnTypeString ''ZSTD(5)'' []]
       []
       []
       (distributed ''signoz_metrics'' ''time_series_v4_6hrs''
         ''cityHash64(env, temporality, metric_name, fingerprint)'')]
     [drop_table ''signoz_metrics'' ''distributed_time_series_v4_6hrs'']"

definition squashed_metrics_13 :: SchemaMigrationRecord where
  "squashed_metrics_13 = migration 13
     [create_table ''signoz_metrics'' ''time_series_v4_1day''
       [col ''env'' (LowCardinalityColumnType ColumnTypeString) [] (''\\'default'' @ [CHR 0x27]),
        col ''temporality'' (LowCardinalityColumnType ColumnTypeString) [] (''\\'Unspecified'' @ [CHR 0x27]),
        col ''metric_name'' (LowCardinalityColumnType ColumnTypeString) [] [],
        col ''description'' (LowCardinalityColumnType ColumnTypeString) ''ZSTD(1)'' [CHR 0x27, CHR 0x27],
        col ''unit'' (LowCardinalityColumnType ColumnTypeString) ''ZSTD(1)'' [CHR 0x27, CHR 0x27],
        col ''type'' (LowCardinalityColumnType ColumnTypeString) ''ZSTD(1)'' [CHR 0x27, CHR 0x27],
        col ''is_monotonic'' ColumnTypeBool ''ZSTD(1)'' ''false'',
        col ''fingerprint'' ColumnTypeUInt64 ''Delta(8), ZSTD(1)'' [],
        col ''unix_milli'' ColumnTypeInt64 ''Delta(8), ZSTD(1)'' [],
        col ''labels'' ColumnTypeString ''ZSTD(5)'' []]
       []
       []
       (replacing (merge_tree ''(env, temporality, metric_name, fingerprint, unix_milli)'' []
         ''toDate(unix_milli / 1000)'' ''toDateTime(unix_milli / 1000) + toIntervalSecond(2592000)''
         [setting ''index_granularity'' ''8192'', setting ''ttl_only_drop_parts'' ''1'']) [])]
     [drop_table ''signoz_metrics'' ''time_series_v4_1day'']"

definition squashed_metrics_14 :: SchemaMigrationRecord where
  "squashed_metrics_14 = migration 14
     [create_table ''signoz_metrics'' ''distributed_time_series_v4_1day''
       [col ''env'' (LowCardinalityColumnType ColumnTypeString) [] (''\\'default'' @ [CHR 0x27]),
        col ''temporality'' (LowCardinalityColumnType ColumnTypeString) [] (''\\'Unspecified'' @ [CHR 0x27]),
        col ''metric_name'' (LowCardinalityColumnType ColumnTypeString) [] [],
        col ''description'' (LowCardinalityColumnType ColumnTypeString) ''ZSTD(1)'' [CHR 0x27, CHR 0x27],
        col ''unit'' (LowCardinalityColumnType ColumnTypeString) ''ZSTD(1)'' [CHR 0x27, CHR 0x27],
        col ''type'' (LowCardinalityColumnType ColumnTypeString) ''ZSTD(1)'' [CHR 0x27, CHR 0x27],
        col ''is_monotonic'' ColumnTypeBool ''ZSTD(1)'' ''false'',
        col ''fingerprint'' ColumnTypeUInt64 ''Delta(8), ZSTD(1)'' [],
        col ''unix_milli'' ColumnTypeInt64 ''Delta(8), ZSTD(1)'' [],
        col ''labels'' ColumnTypeString ''ZSTD(5)'' []]
       []
       []
       (distributed ''signoz_metrics'' ''time_series_v4_1day''
         ''cityHash64(env, temporality, metric_name, fingerprint)'')]
     [drop_table ''signoz_metrics'' ''distributed_time_series_v4_1day'']"

definition squashed_metrics_15 :: SchemaMigrationRecord where
  "squashed_metrics_15 = migration 15
     [create_table ''signoz_metrics'' ''time_series_v4_1week''
       [col ''env'' (LowCardinalityColumnType ColumnTypeString) [] (''\\'default'' @ [CHR 0x27]),
        col ''temporality'' (LowCardinalityColumnType ColumnTypeString) [] (''\\'Unspecified'' @ [CHR 0x27]),
        col ''metric_name'' (LowCardinalityColumnType ColumnTypeString) [] [],
        col ''description'' (LowCardinalityColumnType ColumnTypeString) ''ZSTD(1)'' [CHR 0x27, CHR 0x27],
        col ''unit'' (LowCardinalityColumnType ColumnTypeString) ''ZSTD(1)'' [CHR 0x27, CHR 0x27],
        col ''type'' (LowCardinalityColumnType ColumnTypeString) ''ZSTD(1)'' [CHR 0x27, CHR 0x27],
        col ''is_monotonic'' ColumnTypeBool ''ZSTD(1)'' ''false'',
        col ''fingerprint'' ColumnTypeUInt64 ''Delta(8), ZSTD(1)'' [],
        col ''unix_milli'' ColumnTypeInt64 ''Delta(8), ZSTD(1)'' [],
        col ''labels'' ColumnTypeString ''ZSTD(5)'' []]
       []
       []
       (replacing (merge_tree ''(env, temporality, metric_name, fingerprint, unix_milli)'' []
         ''toDate(unix_milli / 1000)'' ''toDateTime(unix_milli / 1000) + toIntervalSecond(2592000)''
         [setting ''index_granularity'' ''8192'', setting ''ttl_only_drop_parts'' ''1'']) [])]
     [drop_table ''signoz_metrics'' ''time_series_v4_1week'']"

definition squashed_metrics_16 :: SchemaMigrationRecord where
  "squashed_metrics_16 = migration 16
     [create_table ''signoz_metrics'' ''distributed_time_series_v4_1week''
       [col ''env'' (LowCardinalityColumnType ColumnTypeString) [] (''\\'default'' @ [CHR 0x27]),
        col ''temporality'' (LowCardinalityColumnType ColumnTypeString) [] (''\\'Unspecified'' @ [CHR 0x27]),
        col ''metric_name'' (LowCardinalityColumnType ColumnTypeString) [] [],
        col ''description'' (LowCardinalityColumnType ColumnTypeString) ''ZSTD(1)'' [CHR 0x27, CHR 0x27],
        col ''unit'' (LowCardinalityColumnType ColumnTypeString) ''ZSTD(1)'' [CHR 0x27, CHR 0x27],
        col ''type'' (LowCardinalityColumnType ColumnTypeString) ''ZSTD(1)'' [CHR 0x27, CHR 0x27],
        col ''is_monotonic'' ColumnTypeBool ''ZSTD(1)'' ''false'',
        col ''fingerprint'' ColumnTypeUInt64 ''Delta(8), ZSTD(1)'' [],
        col ''unix_milli'' ColumnTypeInt64 ''Delta(8), ZSTD(1)'' [],
        col ''labels'' ColumnTypeString ''ZSTD(5)'' []]
       []
       []
       (distributed ''signoz_metrics'' ''time_series_v4_1week''
         ''cityHash64(env, temporality, metric_name, fingerprint)'')]
     [drop_table ''signoz_metrics'' ''distributed_time_series_v4_1week'']"

definition squashed_metrics_17 :: SchemaMigrationRecord where
  "squashed_metrics_17 = migration 17
     [create_view ''signoz_metrics'' ''time_series_v4_6hrs_mv'' ''time_series_v4_6hrs''
       [col ''env'' (LowCardinalityColumnType ColumnTypeString) [] (''\\'default'' @ [CHR 0x27]),
        col ''temporality'' (LowCardinalityColumnType ColumnTypeString) [] (''\\'Unspecified'' @ [CHR 0x27]),
        col ''metric_name'' (LowCardinalityColumnType ColumnTypeString) [] [],
        col ''description'' (LowCardinalityColumnType ColumnTypeString) ''ZSTD(1)'' [CHR 0x27, CHR 0x27],
        col ''unit'' (LowCardinalityColumnType ColumnTypeString) ''ZSTD(1)'' [CHR 0x27, CHR 0x27],
        col ''type'' (LowCardinalityColumnType ColumnTypeString) ''ZSTD(1)'' [CHR 0x27, CHR 0x27],
        col ''is_monotonic'' ColumnTypeBool ''ZSTD(1)'' ''false'',
        col ''fingerprint'' ColumnTypeUInt64 ''Delta(8), ZSTD(1)'' [],
        col ''unix_milli'' ColumnTypeInt64 ''Delta(8), ZSTD(1)'' [],
        col ''labels'' ColumnTypeString ''ZSTD(5)'' []]
       (''SELECT'' @ br 0 @ ''    env,'' @ br 0 @ ''    temporality,'' @ br 0 @ ''    metric_name,'' @ br
         0 @ ''    description,'' @ br 0 @ ''    unit,'' @ br 0 @ ''    type,'' @ br 0 @
         ''    is_monotonic,'' @ br 0 @ ''    fingerprint,'' @ br 0 @
         ''    floor(unix_milli / 21600000) * 21600000 AS unix_milli,'' @ br 0 @ ''    labels'' @ br 0 @
         ''FROM signoz_metrics.time_series_v4'')]
     [drop_table ''signoz_metrics'' ''time_series_v4_6hrs_mv'']"

definition squashed_metrics_18 :: SchemaMigrationRecord where
  "squashed_metrics_18 = migration 18
     [create_view ''signoz_metrics'' ''time_series_v4_1day_mv'' ''time_series_v4_1day''
       [col ''env'' (LowCardinalityColumnType ColumnTypeString) [] (''\\'default'' @ [CHR 0x27]),
        col ''temporality'' (LowCardinalityColumnType ColumnTypeString) [] (''\\'Unspecified'' @ [CHR 0x27]),
        col ''metric_name'' (LowCardinalityColumnType ColumnTypeString) [] [],
        col ''description'' (LowCardinalityColumnType ColumnTypeString) ''ZSTD(1)'' [CHR 0x27, CHR 0x27],
        col ''unit'' (LowCardinalityColumnType ColumnTypeString) ''ZSTD(1)'' [CHR 0x27, CHR 0x27],
        col ''type'' (LowCardinalityColumnType ColumnTypeString) ''ZSTD(1)'' [CHR 0x27, CHR 0x27],
        col ''is_monotonic'' ColumnTypeBool ''ZSTD(1)'' ''false'',
        col ''fingerprint'' ColumnTypeUInt64 ''Delta(8), ZSTD(1)'' [],
        col ''unix_milli'' ColumnTypeInt64 ''Delta(8), ZSTD(1)'' [],
        col ''labels'' ColumnTypeString ''ZSTD(5)'' []]
       (''SELECT'' @ br 0 @ ''    env,'' @ br 0 @ ''    temporality,'' @ br 0 @ ''    metric_name,'' @ br
         0 @ ''    description,'' @ br 0 @ ''    unit,'' @ br 0 @ ''    type,'' @ br 0 @
         ''    is_monotonic,'' @ br 0 @ ''    fingerprint,'' @ br 0 @
         ''    floor(unix_milli / 86400000) * 86400000 AS unix_milli,'' @ br 0 @ ''    labels'' @ br 0 @
         ''FROM signoz_metrics.time_series_v4'')]
     [drop_table ''signoz_metrics'' ''time_series_v4_1day_mv'']"

definition squashed_metrics_19 :: SchemaMigrationRecord where
  "squashed_metrics_19 = migration 19
     [create_view ''signoz_metrics'' ''time_series_v4_1week_mv'' ''time_series_v4_1week''
       [col ''env'' (LowCardinalityColumnType ColumnTypeString) [] (''\\'default'' @ [CHR 0x27]),
        col ''temporality'' (LowCardinalityColumnType ColumnTypeString) [] (''\\'Unspecified'' @ [CHR 0x27]),
        col ''metric_name'' (LowCardinalityColumnType ColumnTypeString) [] [],
        col ''description'' (LowCardinalityColumnType ColumnTypeString) ''ZSTD(1)'' [CHR 0x27, CHR 0x27],
        col ''unit'' (LowCardinalityColumnType ColumnTypeString) ''ZSTD(1)'' [CHR 0x27, CHR 0x27],
        col ''type'' (LowCardinalityColumnType ColumnTypeString) ''ZSTD(1)'' [CHR 0x27, CHR 0x27],
        col ''is_monotonic'' ColumnTypeBool ''ZSTD(1)'' ''false'',
        col ''fingerprint'' ColumnTypeUInt64 ''Delta(8), ZSTD(1)'' [],
        col ''unix_milli'' ColumnTypeInt64 ''Delta(8), ZSTD(1)'' [],
        col ''labels'' ColumnTypeString ''ZSTD(5)'' []]
       (''SELECT'' @ br 0 @ ''    env,'' @ br 0 @ ''    temporality,'' @ br 0 @ ''    metric_name,'' @ br
         0 @ ''    description,'' @ br 0 @ ''    unit,'' @ br 0 @ ''    type,'' @ br 0 @
         ''    is_monotonic,'' @ br 0 @ ''    fingerprint,'' @ br 0 @
         ''    floor(unix_milli / 604800000) * 604800000 AS unix_milli,'' @ br 0 @ ''    labels'' @ br 0 @
         ''FROM signoz_metrics.time_series_v4_1day'')]
     [drop_table ''signoz_metrics'' ''time_series_v4_1week_mv'']"

definition squashed_metrics_20 :: SchemaMigrationRecord where
  "squashed_metrics_20 = migration 20
     [create_table ''signoz_metrics'' ''samples_v4_agg_5m''
       [col ''env'' (LowCardinalityColumnType ColumnTypeString) [] (''\\'default'' @ [CHR 0x27]),
        col ''temporality'' (LowCardinalityColumnType ColumnTypeString) [] (''\\'Unspecified'' @ [CHR 0x27]),
        col ''metric_name'' (LowCardinalityColumnType ColumnTypeString) [] [],
        col ''fingerprint'' ColumnTypeUInt64 ''ZSTD(1)'' [],
        col ''unix_milli'' ColumnTypeInt64 ''Delta(8), ZSTD(1)'' [],
        col ''last'' (SimpleAggregateFunction ''anyLast'' [ColumnTypeFloat64]) ''ZSTD(1)'' [],
        col ''min'' (SimpleAggregateFunction ''min'' [ColumnTypeFloat64]) ''ZSTD(1)'' [],
        col ''max'' (SimpleAggregateFunction ''max'' [ColumnTypeFloat64]) ''ZSTD(1)'' [],
        col ''sum'' (SimpleAggregateFunction ''sum'' [ColumnTypeFloat64]) ''ZSTD(1)'' [],
        col ''count'' (SimpleAggregateFunction ''sum'' [ColumnTypeUInt64]) ''ZSTD(1)'' []]
       []
       []
       (EAggregating (merge_tree ''(env, temporality, metric_name, fingerprint, unix_milli)'' []
         ''toDate(unix_milli / 1000)'' ''toDateTime(unix_milli / 1000) + toIntervalSecond(2592000)''
         [setting ''index_granularity'' ''8192'', setting ''ttl_only_drop_parts'' ''1'']))]
     [drop_table ''signoz_metrics'' ''samples_v4_agg_5m'']"

definition squashed_metrics_21 :: SchemaMigrationRecord where
  "squashed_metrics_21 = migration 21
     [create_table ''signoz_metrics'' ''samples_v4_agg_30m''
       [col ''env'' (LowCardinalityColumnType ColumnTypeString) [] (''\\'default'' @ [CHR 0x27]),
        col ''temporality'' (LowCardinalityColumnType ColumnTypeString) [] (''\\'Unspecified'' @ [CHR 0x27]),
        col ''metric_name'' (LowCardinalityColumnType ColumnTypeString) [] [],
        col ''fingerprint'' ColumnTypeUInt64 ''ZSTD(1)'' [],
        col ''unix_milli'' ColumnTypeInt64 ''Delta(8), ZSTD(1)'' [],
        col ''last'' (SimpleAggregateFunction ''anyLast'' [ColumnTypeFloat64]) ''ZSTD(1)'' [],
        col ''min'' (SimpleAggregateFunction ''min'' [ColumnTypeFloat64]) ''ZSTD(1)'' [],
        col ''max'' (SimpleAggregateFunction ''max'' [ColumnTypeFloat64]) ''ZSTD(1)'' [],
        col ''sum'' (SimpleAggregateFunction ''sum'' [ColumnTypeFloat64]) ''ZSTD(1)'' [],
        col ''count'' (SimpleAggregateFunction ''sum'' [ColumnTypeUInt64]) ''ZSTD(1)'' []]
       []
       []
       (EAggregating (merge_tree ''(env, temporality, metric_name, fingerprint, unix_milli)'' []
         ''toDate(unix_milli / 1000)'' ''toDateTime(unix_milli / 1000) + toIntervalSecond(2592000)''
         [setting ''index_granularity'' ''8192'', setting ''ttl_only_drop_parts'' ''1'']))]
     [drop_table ''signoz_metrics'' ''samples_v4_agg_30m'']"

definition squashed_metrics_22 :: SchemaMigrationRecord where
  "squashed_metrics_22 = migration 22
     [create_view ''signoz_metrics'' ''samples_v4_agg_5m_mv'' ''samples_v4_agg_5m''
       []
       (''SELECT'' @ br 0 @ ''    env,'' @ br 0 @ ''    temporality,'' @ br 0 @ ''    metric_name,'' @ br
         0 @ ''    fingerprint,'' @ br 0 @ ''    intDiv(unix_milli, 300000) * 300000 as unix_milli,'' @ br
         0 @ ''    anyLast(value) as last,'' @ br 0 @ ''    min(value) as min,'' @ br 0 @
         ''    max(value) as max,'' @ br 0 @ ''    sum(value) as sum,'' @ br 0 @ ''    count(*) as count''
         @ br 0 @ ''FROM signoz_metrics.samples_v4 '' @ br 0 @ ''GROUP BY'' @ br 0 @ ''    env,'' @ br 0 @
         ''    temporality,'' @ br 0 @ ''    metric_name,'' @ br 0 @ ''    fingerprint,'' @ br 0 @
         ''    unix_milli;'')]
     [drop_table ''signoz_metrics'' ''samples_v4_agg_5m_mv'']"

definition squashed_metrics_23 :: SchemaMigrationRecord where
  "squashed_metrics_23 = migration 23
     [create_view ''signoz_metrics'' ''samples_v4_agg_30m_mv'' ''samples_v4_agg_30m''
       []
       (''SELECT'' @ br 0 @ ''    env,'' @ br 0 @ ''    temporality,'' @ br 0 @ ''    metric_name,'' @ br
         0 @ ''    fingerprint,'' @ br 0 @ ''    intDiv(unix_milli, 1800000) * 1800000 as unix_milli,'' @
         br 0 @ ''    anyLast(last) as last,'' @ br 0 @ ''    min(min) as min,'' @ br 0 @
         ''    max(max) as max,'' @ br 0 @ ''    sum(sum) as sum,'' @ br 0 @ ''    sum(count) as count'' @
         br 0 @ ''FROM signoz_metrics.samples_v4_agg_5m '' @ br 0 @ ''GROUP BY'' @ br 0 @ ''    env,'' @
         br 0 @ ''    temporality,'' @ br 0 @ ''    metric_name,'' @ br 0 @ ''    fingerprint,'' @ br 0 @
         ''    unix_milli;'')]
     [drop_table ''signoz_metrics'' ''samples_v4_agg_30m_mv'']"

definition squashed_metrics_24 :: SchemaMigrationRecord where
  "squashed_metrics_24 = migration 24
     [create_table ''signoz_metrics'' ''distributed_samples_v4_agg_5m''
       [col ''env'' (LowCardinalityColumnType ColumnTypeString) [] (''\\'default'' @ [CHR 0x27]),
        col ''temporality'' (LowCardinalityColumnType ColumnTypeString) [] (''\\'Unspecified'' @ [CHR 0x27]),
        col ''metric_name'' (LowCardinalityColumnType ColumnTypeString) [] [],
        col ''fingerprint'' ColumnTypeUInt64 ''ZSTD(1)'' [],
        col ''unix_milli'' ColumnTypeInt64 ''Delta(8), ZSTD(1)'' [],
        col ''last'' (SimpleAggregateFunction ''anyLast'' [ColumnTypeFloat64]) ''ZSTD(1)'' [],
        col ''min'' (SimpleAggregateFunction ''min'' [ColumnTypeFloat64]) ''ZSTD(1)'' [],
        col ''max'' (SimpleAggregateFunction ''max'' [ColumnTypeFloat64]) ''ZSTD(1)'' [],
        col ''sum'' (SimpleAggregateFunction ''sum'' [ColumnTypeFloat64]) ''ZSTD(1)'' [],
        col ''count'' (SimpleAggregateFunction ''sum'' [ColumnTypeUInt64]) ''ZSTD(1)'' []]
       []
       []
       (distributed ''signoz_metrics'' ''samples_v4_agg_5m''
         ''cityHash64(env, temporality, metric_name, fingerprint)'')]
     [drop_table ''signoz_metrics'' ''distributed_samples_v4_agg_5m'']"

definition squashed_metrics_25 :: SchemaMigrationRecord where
  "squashed_metrics_25 = migration 25
     [create_table ''signoz_metrics'' ''distributed_samples_v4_agg_30m''
       [col ''env'' (LowCardinalityColumnType ColumnTypeString) [] (''\\'default'' @ [CHR 0x27]),
        col ''temporality'' (LowCardinalityColumnType ColumnTypeString) [] (''\\'Unspecified'' @ [CHR 0x27]),
        col ''metric_name'' (LowCardinalityColumnType ColumnTypeString) [] [],
        col ''fingerprint'' ColumnTypeUInt64 ''ZSTD(1)'' [],
        col ''unix_milli'' ColumnTypeInt64 ''Delta(8), ZSTD(1)'' [],
        col ''last'' (SimpleAggregateFunction ''anyLast'' [ColumnTypeFloat64]) ''ZSTD(1)'' [],
        col ''min'' (SimpleAggregateFunction ''min'' [ColumnTypeFloat64]) ''ZSTD(1)'' [],
        col ''max'' (SimpleAggregateFunction ''max'' [ColumnTypeFloat64]) ''ZSTD(1)'' [],
        col ''sum'' (SimpleAggregateFunction ''sum'' [ColumnTypeFloat64]) ''ZSTD(1)'' [],
        col ''count'' (SimpleAggregateFunction ''sum'' [ColumnTypeUInt64]) ''ZSTD(1)'' []]
       []
       []
       (distributed ''signoz_metrics'' ''samples_v4_agg_30m''
         ''cityHash64(env, temporality, metric_name, fingerprint)'')]
     [drop_table ''signoz_metrics'' ''distributed_samples_v4_agg_30m'']"

definition squashed_metrics_26 :: SchemaMigrationRecord where
  "squashed_metrics_26 = migration 26
     [create_table ''signoz_metrics'' ''usage''
       [col ''tenant'' ColumnTypeString ''ZSTD(1)'' [],
        col ''collector_id'' ColumnTypeString ''ZSTD(1)'' [],
        col ''exporter_id'' ColumnTypeString ''ZSTD(1)'' [],
        col ''timestamp'' (DateTimeColumnType []) ''ZSTD(1)'' [],
        col ''data'' ColumnTypeString ''ZSTD(1)'' []]
       []
       []
       (EMergeTree (merge_tree ''(tenant, collector_id, exporter_id, timestamp)'' [] []
         ''timestamp + toIntervalDay(3)'' [setting ''index_granularity'' ''8192'']))]
     [drop_table ''signoz_metrics'' ''usage'']"

definition squashed_metrics_27 :: SchemaMigrationRecord where
  "squashed_metrics_27 = migration 27
     [create_table ''signoz_metrics'' ''distributed_usage''
       [col ''tenant'' ColumnTypeString ''ZSTD(1)'' [],
        col ''collector_id'' ColumnTypeString ''ZSTD(1)'' [],
        col ''exporter_id'' ColumnTypeString ''ZSTD(1)'' [],
        col ''timestamp'' (DateTimeColumnType []) ''ZSTD(1)'' [],
        col ''data'' ColumnTypeString ''ZSTD(1)'' []]
       []
       []
       (distributed ''signoz_metrics'' ''usage'' ''cityHash64(rand())'')]
     [drop_table ''signoz_metrics'' ''distributed_usage'']"

definition squashed_metrics_28_up1 :: "Operation list" where
  "squashed_metrics_28_up1 =
     [create_table ''signoz_metrics'' ''samples_v4_agg_5m''
       [col ''env'' (LowCardinalityColumnType ColumnTypeString) [] (''\\'default'' @ [CHR 0x27]),
        col ''temporality'' (LowCardinalityColumnType ColumnTypeString) [] (''\\'Unspecified'' @ [CHR 0x27]),
        col ''metric_name'' (LowCardinalityColumnType ColumnTypeString) [] [],
        col ''fingerprint'' ColumnTypeUInt64 ''ZSTD(1)'' [],
        col ''unix_milli'' ColumnTypeInt64 ''Delta(8), ZSTD(1)'' [],
        col ''last'' (SimpleAggregateFunction ''anyLast'' [ColumnTypeFloat64]) ''ZSTD(1)'' [],
        col ''min'' (SimpleAggregateFunction ''min'' [ColumnTypeFloat64]) ''ZSTD(1)'' [],
        col ''max'' (SimpleAggregateFunction ''max'' [ColumnTypeFloat64]) ''ZSTD(1)'' [],
        col ''sum'' (SimpleAggregateFunction ''sum'' [ColumnTypeFloat64]) ''ZSTD(1)'' [],
        col ''count'' (SimpleAggregateFunction ''sum'' [ColumnTypeUInt64]) ''ZSTD(1)'' []]
       []
       []
       (EAggregating (merge_tree ''(env, temporality, metric_name, fingerprint, unix_milli)'' []
         ''toDate(unix_milli / 1000)'' ''toDateTime(unix_milli/1000) + INTERVAL 2592000 SECOND DELETE''
         [setting ''ttl_only_drop_parts'' ''1''])),
      create_table ''signoz_metrics'' ''samples_v4_agg_30m''
       [col ''env'' (LowCardinalityColumnType ColumnTypeString) [] (''\\'default'' @ [CHR 0x27]),
        col ''temporality'' (LowCardinalityColumnType ColumnTypeString) [] (''\\'Unspecified'' @ [CHR 0x27]),
        col ''metric_name'' (LowCardinalityColumnType ColumnTypeString) [] [],
        col ''fingerprint'' ColumnTypeUInt64 ''ZSTD(1)'' [],
        col ''unix_milli'' ColumnTypeInt64 ''Delta(8), ZSTD(1)'' [],
        col ''last'' (SimpleAggregateFunction ''anyLast'' [ColumnTypeFloat64]) ''ZSTD(1)'' [],
        col ''min'' (SimpleAggregateFunction ''min'' [ColumnTypeFloat64]) ''ZSTD(1)'' [],
        col ''max'' (SimpleAggregateFunction ''max'' [ColumnTypeFloat64]) ''ZSTD(1)'' [],
        col ''sum'' (SimpleAggregateFunction ''sum'' [ColumnTypeFloat64]) ''ZSTD(1)'' [],
        col ''count'' (SimpleAggregateFunction ''sum'' [ColumnTypeUInt64]) ''ZSTD(1)'' []]
       []
       []
       (EAggregating (merge_tree ''(env, temporality, metric_name, fingerprint, unix_milli)'' []
         ''toDate(unix_milli / 1000)'' ''toDateTime(unix_milli/1000) + INTERVAL 2592000 SECOND DELETE''
         [setting ''ttl_only_drop_parts'' ''1''])),
      create_view ''signoz_metrics'' ''samples_v4_agg_5m_mv'' ''samples_v4_agg_5m''
       [col ''env'' (LowCardinalityColumnType ColumnTypeString) [] (''\\'default'' @ [CHR 0x27]),
        col ''temporality'' (LowCardinalityColumnType ColumnTypeString) [] (''\\'Unspecified'' @ [CHR 0x27]),
        col ''metric_name'' (LowCardinalityColumnType ColumnTypeString) [] [],
        col ''fingerprint'' ColumnTypeUInt64 ''ZSTD(1)'' [],
        col ''unix_milli'' ColumnTypeInt64 ''Delta(8), ZSTD(1)'' [],
        col ''last'' (SimpleAggregateFunction ''anyLast'' [ColumnTypeFloat64]) ''ZSTD(1)'' [],
        col ''min'' (SimpleAggregateFunction ''min'' [ColumnTypeFloat64]) ''ZSTD(1)'' [],
        col ''max'' (SimpleAggregateFunction ''max'' [ColumnTypeFloat64]) ''ZSTD(1)'' [],
        col ''sum'' (SimpleAggregateFunction ''sum'' [ColumnTypeFloat64]) ''ZSTD(1)'' [],
        col ''count'' (SimpleAggregateFunction ''sum'' [ColumnTypeUInt64]) ''ZSTD(1)'' []]
       (''SELECT'' @ br 0 @ ''    env,'' @ br 0 @ ''    temporality,'' @ br 0 @ ''    metric_name,'' @ br
         0 @ ''    fingerprint,'' @ br 0 @ ''    intDiv(unix_milli, 300000) * 300000 as unix_milli,'' @ br
         0 @ ''    anyLast(value) as last,'' @ br 0 @ ''    min(value) as min,'' @ br 0 @
         ''    max(value) as max,'' @ br 0 @ ''    sum(value) as sum,'' @ br 0 @ ''    count(*) as count''
         @ br 0 @ ''FROM signoz_metrics.samples_v4 '' @ br 0 @ ''GROUP BY'' @ br 0 @ ''    env,'' @ br 0 @
         ''    temporality,'' @ br 0 @ ''    metric_name,'' @ br 0 @ ''    fingerprint,'' @ br 0 @
         ''    unix_milli;''),
      create_view ''signoz_metrics'' ''samples_v4_agg_30m_mv'' ''samples_v4_agg_30m''
       [col ''env'' (LowCardinalityColumnType ColumnTypeString) [] (''\\'default'' @ [CHR 0x27]),
        col ''temporality'' (LowCardinalityColumnType ColumnTypeString) [] (''\\'Unspecified'' @ [CHR 0x27]),
        col ''metric_name'' (LowCardinalityColumnType ColumnTypeString) [] [],
        col ''fingerprint'' ColumnTypeUInt64 ''ZSTD(1)'' [],
        col ''unix_milli'' ColumnTypeInt64 ''Delta(8), ZSTD(1)'' [],
        col ''last'' (SimpleAggregateFunction ''anyLast'' [ColumnTypeFloat64]) ''ZSTD(1)'' [],
        col ''min'' (SimpleAggregateFunction ''min'' [ColumnTypeFloat64]) ''ZSTD(1)'' [],
        col ''max'' (SimpleAggregateFunction ''max'' [ColumnTypeFloat64]) ''ZSTD(1)'' [],
        col ''sum'' (SimpleAggregateFunction ''sum'' [ColumnTypeFloat64]) ''ZSTD(1)'' [],
        col ''count'' (SimpleAggregateFunction ''sum'' [ColumnTypeUInt64]) ''ZSTD(1)'' []]
       (''SELECT'' @ br 0 @ ''    env,'' @ br 0 @ ''    temporality,'' @ br 0 @ ''    metric_name,'' @ br
         0 @ ''    fingerprint,'' @ br 0 @ ''    intDiv(unix_milli, 1800000) * 1800000 as unix_milli,'' @
         br 0 @ ''    anyLast(last) as last,'' @ br 0 @ ''    min(min) as min,'' @ br 0 @
         ''    max(max) as max,'' @ br 0 @ ''    sum(sum) as sum,'' @ br 0 @ ''    sum(count) as count'' @
         br 0 @ ''FROM signoz_metrics.samples_v4_agg_5m '' @ br 0 @ ''GROUP BY'' @ br 0 @ ''    env,'' @
         br 0 @ ''    temporality,'' @ br 0 @ ''    metric_name,'' @ br 0 @ ''    fingerprint,'' @ br 0 @
         ''    unix_milli;'')]"

definition squashed_metrics_28_up2 :: "Operation list" where
  "squashed_metrics_28_up2 =
     [create_table ''signoz_metrics'' ''distributed_samples_v4_agg_5m''
       [col ''env'' (LowCardinalityColumnType ColumnTypeString) [] (''\\'default'' @ [CHR 0x27]),
        col ''temporality'' (LowCardinalityColumnType ColumnTypeString) [] (''\\'Unspecified'' @ [CHR 0x27]),
        col ''metric_name'' (LowCardinalityColumnType ColumnTypeString) [] [],
        col ''fingerprint'' ColumnTypeUInt64 ''ZSTD(1)'' [],
        col ''unix_milli'' ColumnTypeInt64 ''Delta(8), ZSTD(1)'' [],
        col ''last'' (SimpleAggregateFunction ''anyLast'' [ColumnTypeFloat64]) ''ZSTD(1)'' [],
        col ''min'' (SimpleAggregateFunction ''min'' [ColumnTypeFloat64]) ''ZSTD(1)'' [],
        col ''max'' (SimpleAggregateFunction ''max'' [ColumnTypeFloat64]) ''ZSTD(1)'' [],
        col ''sum'' (SimpleAggregateFunction ''sum'' [ColumnTypeFloat64]) ''ZSTD(1)'' [],
        col ''count'' (SimpleAggregateFunction ''sum'' [ColumnTypeUInt64]) ''ZSTD(1)'' []]
       []
       []
       (distributed ''signoz_metrics'' ''samples_v4_agg_5m''
         ''cityHash64(env, temporality, metric_name, fingerprint)''),
      create_table ''signoz_metrics'' ''distributed_samples_v4_agg_30m''
       [col ''env'' (LowCardinalityColumnType ColumnTypeString) [] (''\\'default'' @ [CHR 0x27]),
        col ''temporality'' (LowCardinalityColumnType ColumnTypeString) [] (''\\'Unspecified'' @ [CHR 0x27]),
        col ''metric_name'' (LowCardinalityColumnType ColumnTypeString) [] [],
        col ''fingerprint'' ColumnTypeUInt64 ''ZSTD(1)'' [],
        col ''unix_milli'' ColumnTypeInt64 ''Delta(8), ZSTD(1)'' [],
        col ''last'' (SimpleAggregateFunction ''anyLast'' [ColumnTypeFloat64]) ''ZSTD(1)'' [],
        col ''min'' (SimpleAggregateFunction ''min'' [ColumnTypeFloat64]) ''ZSTD(1)'' [],
        col ''max'' (SimpleAggregateFunction ''max'' [ColumnTypeFloat64]) ''ZSTD(1)'' [],
        col ''sum'' (SimpleAggregateFunction ''sum'' [ColumnTypeFloat64]) ''ZSTD(1)'' [],
        col ''count'' (SimpleAggregateFunction ''sum'' [ColumnTypeUInt64]) ''ZSTD(1)'' []]
       []
       []
       (distributed ''signoz_metrics'' ''samples_v4_agg_30m''
         ''cityHash64(env, temporality, metric_name, fingerprint)''),
      create_table ''signoz_metrics'' ''time_series_v4_1week''
       [col ''env'' (LowCardinalityColumnType ColumnTypeString) [] (''\\'default'' @ [CHR 0x27]),
        col ''temporality'' (LowCardinalityColumnType ColumnTypeString) [] (''\\'Unspecified'' @ [CHR 0x27]),
        col ''metric_name'' (LowCardinalityColumnType ColumnTypeString) [] [],
        col ''description'' (LowCardinalityColumnType ColumnTypeString) [] (''\\'default'' @ [CHR 0x27]),
        col ''unit'' (LowCardinalityColumnType ColumnTypeString) [] (''\\'default'' @ [CHR 0x27]),
        col ''type'' (LowCardinalityColumnType ColumnTypeString) [] (''\\'default'' @ [CHR 0x27]),
        col ''is_monotonic'' ColumnTypeBool [] ''false'',
        col ''fingerprint'' ColumnTypeUInt64 ''Delta(8), ZSTD(1)'' [],
        col ''unix_milli'' ColumnTypeInt64 ''Delta(8), ZSTD(1)'' [],
        col ''labels'' ColumnTypeString ''ZSTD(5)'' []]
       []
       []
       (replacing (merge_tree ''(env, temporality, metric_name, fingerprint, unix_milli)'' []
         ''toDate(unix_milli / 1000)'' ''toDateTime(unix_milli/1000) + INTERVAL 2592000 SECOND DELETE''
         [setting ''ttl_only_drop_parts'' ''1'']) []),
      create_view ''signoz_metrics'' ''time_series_v4_1week_mv'' ''time_series_v4_1week''
       [col ''env'' (LowCardinalityColumnType ColumnTypeString) [] (''\\'default'' @ [CHR 0x27]),
        col ''temporality'' (LowCardinalityColumnType ColumnTypeString) [] (''\\'Unspecified'' @ [CHR 0x27]),
        col ''metric_name'' (LowCardinalityColumnType ColumnTypeString) [] [],
        col ''description'' (LowCardinalityColumnType ColumnTypeString) [] (''\\'default'' @ [CHR 0x27]),
        col ''unit'' (LowCardinalityColumnType ColumnTypeString) [] (''\\'default'' @ [CHR 0x27]),
        col ''type'' (LowCardinalityColumnType ColumnTypeString) [] (''\\'default'' @ [CHR 0x27]),
        col ''is_monotonic'' ColumnTypeBool [] ''false'',
        col ''fingerprint'' ColumnTypeUInt64 ''Delta(8), ZSTD(1)'' [],
        col ''unix_milli'' ColumnTypeInt64 ''Delta(8), ZSTD(1)'' [],
        col ''labels'' ColumnTypeString ''ZSTD(5)'' []]
       (''SELECT'' @ br 0 @ ''    env,'' @ br 0 @ ''    temporality,'' @ br 0 @ ''    metric_name,'' @ br
         0 @ ''    description,'' @ br 0 @ ''    unit,'' @ br 0 @ ''    type,'' @ br 0 @
         ''    is_monotonic,'' @ br 0 @ ''    fingerprint,'' @ br 0 @
         ''    floor(unix_milli/604800000)*604800000 AS unix_milli,'' @ br 0 @ ''    labels'' @ br 0 @
         ''FROM signoz_metrics.time_series_v4_1day;''),
      create_table ''signoz_metrics'' ''distributed_time_series_v4_1week''
       [col ''env'' (LowCardinalityColumnType ColumnTypeString) [] (''\\'default'' @ [CHR 0x27]),
        col ''temporality'' (LowCardinalityColumnType ColumnTypeString) [] (''\\'Unspecified'' @ [CHR 0x27]),
        col ''metric_name'' (LowCardinalityColumnType ColumnTypeString) [] [],
        col ''description'' (LowCardinalityColumnType ColumnTypeString) [] (''\\'default'' @ [CHR 0x27])]
       []
       []
       (distributed ''signoz_metrics'' ''time_series_v4_1week''
         ''cityHash64(env, temporality, metric_name, fingerprint)'')]"

definition squashed_metrics_28_down :: "Operation list" where
  "squashed_metrics_28_down =
     [drop_table ''signoz_metrics'' ''samples_v4_agg_5m'',
      drop_table ''signoz_metrics'' ''samples_v4_agg_5m_mv'',
      drop_table ''signoz_metrics'' ''samples_v4_agg_30m'',
      drop_table ''signoz_metrics'' ''samples_v4_agg_30m_mv'',
      drop_table ''signoz_metrics'' ''distributed_samples_v4_agg_5m'',
      drop_table ''signoz_metrics'' ''distributed_samples_v4_agg_30m'',
      drop_table ''signoz_metrics'' ''time_series_v4_1week'',
      drop_table ''signoz_metrics'' ''distributed_time_series_v4_1week'',
      drop_table ''signoz_metrics'' ''time_series_v4_1week_mv'']"

definition squashed_metrics_28 :: SchemaMigrationRecord where
  "squashed_metrics_28 = migration 28
     (squashed_metrics_28_up1 @ squashed_metrics_28_up2)
     squashed_metrics_28_down"

definition squashed_metrics_migrations :: "SchemaMigrationRecord list" where
  "squashed_metrics_migrations =
     [squashed_metrics_1, squashed_metrics_2, squashed_metrics_3, squashed_metrics_4,
      squashed_metrics_5, squashed_metrics_6, squashed_metrics_7, squashed_metrics_8,
      squashed_metrics_9, squashed_metrics_10, squashed_metrics_11, squashed_metrics_12,
      squashed_metrics_13, squashed_metrics_14, squashed_metrics_15, squashed_metrics_16,
      squashed_metrics_17, squashed_metrics_18, squashed_metrics_19, squashed_metrics_20,
      squashed_metrics_21, squashed_metrics_22, squashed_metrics_23, squashed_metrics_24,
      squashed_metrics_25, squashed_metrics_26, squashed_metrics_27, squashed_metrics_28]"

lemmas metrics_migrations_recs =
  metrics_migration_1000_def metrics_migration_1001_def metrics_migration_1002_def
  metrics_migration_1003_def metrics_migration_1004_def metrics_migration_1005_def
  metrics_migration_1006_def metrics_migration_1007_def metrics_migration_1008_def
  metrics_migration_1009_def metrics_migration_1010_def metrics_migration_1011_def

lemmas metrics_migrations_ops =
  metrics_migration_1000_up1_def metrics_migration_1000_up2_def metrics_migration_1000_up3_def
  metrics_migration_1000_up4_def metrics_migration_1001_up1_def metrics_migration_1001_up2_def
  metrics_migration_1008_up1_def metrics_migration_1008_up2_def metrics_migration_1008_up3_def
  metrics_migration_1008_up4_def metrics_migration_1008_up5_def metrics_migration_1008_up6_def
  metrics_migration_1008_down_def metrics_migration_1009_up1_def metrics_migration_1009_up2_def
  metrics_migration_1009_up3_def metrics_migration_1009_down_def metrics_migration_1011_up1_def
  metrics_migration_1011_up2_def metrics_migration_1011_up3_def metrics_migration_1011_down_def

lemmas squashed_metrics_migrations_recs =
  squashed_metrics_1_def squashed_metrics_2_def squashed_metrics_3_def squashed_metrics_4_def
  squashed_metrics_5_def squashed_metrics_6_def squashed_metrics_7_def squashed_metrics_8_def
  squashed_metrics_9_def squashed_metrics_10_def squashed_metrics_11_def squashed_metrics_12_def
  squashed_metrics_13_def squashed_metrics_14_def squashed_metrics_15_def squashed_metrics_16_def
  squashed_metrics_17_def squashed_metrics_18_def squashed_metrics_19_def squashed_metrics_20_def
  squashed_metrics_21_def squashed_metrics_22_def squashed_metrics_23_def squashed_metrics_24_def
  squashed_metrics_25_def squashed_metrics_26_def squashed_metrics_27_def squashed_metrics_28_def

lemmas squashed_metrics_migrations_ops =
  squashed_metrics_28_up1_def squashed_metrics_28_up2_def squashed_metrics_28_down_def

end
