(* ===== verification/Migrations_Traces.thy ===== *)
theory Migrations_Traces
  imports Migration_Literals
begin

text \<open>
  The migrations of the traces database, and the squashed list a new installation starts from.
\<close>

section \<open>\<open>TracesMigrations\<close> (\<open>traces_migrations.go\<close>)\<close>

definition traces_migration_1000_up1 :: "Operation list" where
  "traces_migration_1000_up1 =
     [create_table ''signoz_traces'' ''signoz_index_v3''
       [col ''ts_bucket_start'' ColumnTypeUInt64 ''DoubleDelta, LZ4'' [],
        col ''resource_fingerprint'' ColumnTypeString ''ZSTD(1)'' [],
        col ''timestamp'' (DateTime64ColumnType 9 []) ''DoubleDelta, LZ4'' [],
        col ''trace_id'' (FixedStringColumnType 32) ''ZSTD(1)'' [],
        col ''span_id'' ColumnTypeString ''ZSTD(1)'' [],
        col ''trace_state'' ColumnTypeString ''ZSTD(1)'' [],
        col ''parent_span_id'' ColumnTypeString ''ZSTD(1)'' [],
        col ''flags'' ColumnTypeUInt32 ''T64, ZSTD(1)'' [],
        col ''name'' (LowCardinalityColumnType ColumnTypeString) ''ZSTD(1)'' [],
        col ''kind'' ColumnTypeInt8 ''T64, ZSTD(1)'' [],
        col ''kind_string'' ColumnTypeString ''ZSTD(1)'' [],
        col ''duration_nano'' ColumnTypeUInt64 ''T64, ZSTD(1)'' [],
        col ''status_code'' ColumnTypeInt16 ''T64, ZSTD(1)'' [],
        col ''status_message'' ColumnTypeString ''ZSTD(1)'' [],
        col ''status_code_string'' ColumnTypeString ''ZSTD(1)'' [],
        col ''attributes_string'' (MapColumnType (LowCardinalityColumnType ColumnTypeString)
          ColumnTypeString) ''ZSTD(1)'' [],
        col ''attributes_number'' (MapColumnType (LowCardinalityColumnType ColumnTypeString)
          ColumnTypeFloat64) ''ZSTD(1)'' [],
        col ''attributes_bool'' (MapColumnType (LowCardinalityColumnType ColumnTypeString) ColumnTypeBool)
          ''ZSTD(1)'' [],
        col ''resources_string'' (MapColumnType (LowCardinalityColumnType ColumnTypeString)
          ColumnTypeString) ''ZSTD(1)'' [],
        col ''events'' (ArrayColumnType ColumnTypeString) ''ZSTD(2)'' [],
        col ''links'' ColumnTypeString ''ZSTD(1)'' [],
        col ''response_status_code'' (LowCardinalityColumnType ColumnTypeString) ''ZSTD(1)'' [],
        col ''external_http_url'' (LowCardinalityColumnType ColumnTypeString) ''ZSTD(1)'' [],
        col ''http_url'' (LowCardinalityColumnType ColumnTypeString) ''ZSTD(1)'' [],
        col ''external_http_method'' (LowCardinalityColumnType ColumnTypeString) ''ZSTD(1)'' [],
        col ''http_method'' (LowCardinalityColumnType ColumnTypeString) ''ZSTD(1)'' [],
        col ''http_host'' (LowCardinalityColumnType ColumnTypeString) ''ZSTD(1)'' [],
        col ''db_name'' (LowCardinalityColumnType ColumnTypeString) ''ZSTD(1)'' [],
        col ''db_operation'' (LowCardinalityColumnType ColumnTypeString) ''ZSTD(1)'' [],
        col ''has_error'' ColumnTypeBool ''T64, ZSTD(1)'' [],
        col ''is_remote'' (LowCardinalityColumnType ColumnTypeString) ''ZSTD(1)'' [],
        col ''resource_string_service$$name'' (LowCardinalityColumnType ColumnTypeString) ''ZSTD(1)''
          ''resources_string[\\'service.name\\']'',
        col ''attribute_string_http$$route'' (LowCardinalityColumnType ColumnTypeString) ''ZSTD(1)''
          ''attributes_string[\\'http.route\\']'',
        col ''attribute_string_messaging$$system'' (LowCardinalityColumnType ColumnTypeString) ''ZSTD(1)''
          ''attributes_string[\\'messaging.system\\']'',
        col ''attribute_string_messaging$$operation'' (LowCardinalityColumnType ColumnTypeString)
          ''ZSTD(1)'' ''attributes_string[\\'messaging.operation\\']'',
        col ''attribute_string_db$$system'' (LowCardinalityColumnType ColumnTypeString) ''ZSTD(1)''
          ''attributes_string[\\'db.system\\']'',
        col ''attribute_string_rpc$$system'' (LowCardinalityColumnType ColumnTypeString) ''ZSTD(1)''
          ''attributes_string[\\'rpc.system\\']'',
        col ''attribute_string_rpc$$service'' (LowCardinalityColumnType ColumnTypeString) ''ZSTD(1)''
          ''attributes_string[\\'rpc.service\\']'',
        col ''attribute_string_rpc$$method'' (LowCardinalityColumnType ColumnTypeString) ''ZSTD(1)''
          ''attributes_string[\\'rpc.method\\']'',
        col ''attribute_string_peer$$service'' (LowCardinalityColumnType ColumnTypeString) ''ZSTD(1)''
          ''attributes_string[\\'peer.service\\']'',
        Column ''traceID'' (Some (FixedStringColumnType 32)) [] ''trace_id'' [] [] [] None [],
        Column ''spanID'' (Some ColumnTypeString) [] ''span_id'' [] [] [] None [],
        Column ''parentSpanID'' (Some ColumnTypeString) [] ''parent_span_id'' [] [] [] None [],
        Column ''spanKind'' (Some ColumnTypeString) [] ''kind_string'' [] [] [] None [],
        Column ''durationNano'' (Some ColumnTypeUInt64) [] ''duration_nano'' [] [] [] None [],
        Column ''statusCode'' (Some ColumnTypeInt16) [] ''status_code'' [] [] [] None [],
        Column ''statusMessage'' (Some ColumnTypeString) [] ''status_message'' [] [] [] None [],
        Column ''statusCodeString'' (Some ColumnTypeString) [] ''status_code_string'' [] [] [] None [],
        Column ''references'' (Some ColumnTypeString) [] ''links'' [] [] [] None [],
        Column ''responseStatusCode'' (Some (LowCardinalityColumnType ColumnTypeString)) []
          ''response_status_code'' [] [] [] None [],
        Column ''externalHttpUrl'' (Some (LowCardinalityColumnType ColumnTypeString)) []
          ''external_http_url'' [] [] [] None [],
        Column ''httpUrl'' (Some (LowCardinalityColumnType ColumnTypeString)) [] ''http_url'' [] [] []
          None [],
        Column ''externalHttpMethod'' (Some (LowCardinalityColumnType ColumnTypeString)) []
          ''external_http_method'' [] [] [] None [],
        Column ''httpMethod'' (Some (LowCardinalityColumnType ColumnTypeString)) [] ''http_method'' [] []
          [] None [],
        Column ''httpHost'' (Some (LowCardinalityColumnType ColumnTypeString)) [] ''http_host'' [] [] []
          None [],
        Column ''dbName'' (Some (LowCardinalityColumnType ColumnTypeString)) [] ''db_name'' [] [] [] None [],
        Column ''dbOperation'' (Some (LowCardinalityColumnType ColumnTypeString)) [] ''db_operation'' []
          [] [] None [],
        Column ''hasError'' (Some ColumnTypeBool) [] ''has_error'' [] [] [] None [],
        Column ''isRemote'' (Some (LowCardinalityColumnType ColumnTypeString)) [] ''is_remote'' [] [] []
          None [],
        Column ''serviceName'' (Some (LowCardinalityColumnType ColumnTypeString)) []
          ''resource_string_service$$name'' [] [] [] None [],
        Column ''httpRoute'' (Some (LowCardinalityColumnType ColumnTypeString)) []
          ''attribute_string_http$$route'' [] [] [] None [],
        Column ''msgSystem'' (Some (LowCardinalityColumnType ColumnTypeString)) []
          ''attribute_string_messaging$$system'' [] [] [] None [],
        Column ''msgOperation'' (Some (LowCardinalityColumnType ColumnTypeString)) []
          ''attribute_string_messaging$$operation'' [] [] [] None [],
        Column ''dbSystem'' (Some (LowCardinalityColumnType ColumnTypeString)) []
          ''attribute_string_db$$system'' [] [] [] None [],
        Column ''rpcSystem'' (Some (LowCardinalityColumnType ColumnTypeString)) []
          ''attribute_string_rpc$$system'' [] [] [] None [],
        Column ''rpcService'' (Some (LowCardinalityColumnType ColumnTypeString)) []
          ''attribute_string_rpc$$service'' [] [] [] None [],
        Column ''rpcMethod'' (Some (LowCardinalityColumnType ColumnTypeString)) []
          ''attribute_string_rpc$$method'' [] [] [] None [],
        Column ''peerService'' (Some (LowCardinalityColumnType ColumnTypeString)) []
          ''attribute_string_peer$$service'' [] [] [] None []]
       [idx ''idx_trace_id'' ''trace_id'' ''tokenbf_v1(10000, 5,0)'' 1,
        idx ''idx_span_id'' ''span_id'' ''tokenbf_v1(5000, 5,0)'' 1,
        idx ''idx_duration'' ''duration_nano'' ''minmax'' 1,
        idx ''idx_name'' ''name'' ''ngrambf_v1(4, 5000, 2, 0)'' 1,
        idx ''idx_kind'' ''kind'' ''minmax'' 4,
        idx ''idx_http_route'' ''attribute_string_http$$route'' ''bloom_filter'' 4,
        idx ''idx_http_url'' ''http_url'' ''bloom_filter'' 4,
        idx ''idx_http_host'' ''http_host'' ''bloom_filter'' 4,
        idx ''idx_http_method'' ''http_method'' ''bloom_filter'' 4,
        idx ''idx_timestamp'' ''timestamp'' ''minmax'' 1,
        idx ''idx_rpc_method'' ''attribute_string_rpc$$method'' ''bloom_filter'' 4,
        idx ''idx_response_statusCode'' ''response_status_code'' ''set(0)'' 1,
        idx ''idx_status_code_string'' ''status_code_string'' ''set(3)'' 4,
        idx ''idx_kind_string'' ''kind_string'' ''set(5)'' 4,
        idx ''attributes_string_idx_key'' ''mapKeys(attributes_string)'' ''tokenbf_v1(1024, 2, 0)'' 1,
        idx ''attributes_string_idx_val'' ''mapValues(attributes_string)'' ''ngrambf_v1(4, 5000, 2, 0)'' 1,
        idx ''attributes_number_idx_key'' ''mapKeys(attributes_number)'' ''tokenbf_v1(1024, 2, 0)'' 1,
        idx ''attributes_number_idx_val'' ''mapValues(attributes_number)'' ''bloom_filter'' 1,
        idx ''attributes_bool_idx_key'' ''mapKeys(attributes_bool)'' ''tokenbf_v1(1024, 2, 0)'' 1,
        idx ''resources_string_idx_key'' ''mapKeys(resources_string)'' ''tokenbf_v1(1024, 2, 0)'' 1,
        idx ''resources_string_idx_val'' ''mapValues(resources_string)'' ''ngrambf_v1(4, 5000, 2, 0)'' 1]
       []
       (EMergeTree (merge_tree ''(ts_bucket_start, resource_fingerprint, has_error, name, timestamp)'' []
         ''toDate(timestamp)'' ''toDateTime(timestamp) + toIntervalSecond(1296000)'' [setting
         ''index_granularity'' ''8192'', setting ''ttl_only_drop_parts'' ''1'']))]"

definition traces_migration_1000_up2 :: "Operation list" where
  "traces_migration_1000_up2 =
     [create_table ''signoz_traces'' ''distributed_signoz_index_v3''
       [col ''ts_bucket_start'' ColumnTypeUInt64 ''DoubleDelta, LZ4'' [],
        col ''resource_fingerprint'' ColumnTypeString ''ZSTD(1)'' [],
        col ''timestamp'' (DateTime64ColumnType 9 []) ''DoubleDelta, LZ4'' [],
        col ''trace_id'' (FixedStringColumnType 32) ''ZSTD(1)'' [],
        col ''span_id'' ColumnTypeString ''ZSTD(1)'' [],
        col ''trace_state'' ColumnTypeString ''ZSTD(1)'' [],
        col ''parent_span_id'' ColumnTypeString ''ZSTD(1)'' [],
        col ''flags'' ColumnTypeUInt32 ''T64, ZSTD(1)'' [],
        col ''name'' (LowCardinalityColumnType ColumnTypeString) ''ZSTD(1)'' [],
        col ''kind'' ColumnTypeInt8 ''T64, ZSTD(1)'' [],
        col ''kind_string'' ColumnTypeString ''ZSTD(1)'' [],
        col ''duration_nano'' ColumnTypeUInt64 ''T64, ZSTD(1)'' [],
        col ''status_code'' ColumnTypeInt16 ''T64, ZSTD(1)'' [],
        col ''status_message'' ColumnTypeString ''ZSTD(1)'' [],
        col ''status_code_string'' ColumnTypeString ''ZSTD(1)'' [],
        col ''attributes_string'' (MapColumnType (LowCardinalityColumnType ColumnTypeString)
          ColumnTypeString) ''ZSTD(1)'' [],
        col ''attributes_number'' (MapColumnType (LowCardinalityColumnType ColumnTypeString)
          ColumnTypeFloat64) ''ZSTD(1)'' [],
        col ''attributes_bool'' (MapColumnType (LowCardinalityColumnType ColumnTypeString) ColumnTypeBool)
          ''ZSTD(1)'' [],
        col ''resources_string'' (MapColumnType (LowCardinalityColumnType ColumnTypeString)
          ColumnTypeString) ''ZSTD(1)'' [],
        col ''events'' (ArrayColumnType ColumnTypeString) ''ZSTD(2)'' [],
        col ''links'' ColumnTypeString ''ZSTD(1)'' [],
        col ''response_status_code'' (LowCardinalityColumnType ColumnTypeString) ''ZSTD(1)'' [],
        col ''external_http_url'' (LowCardinalityColumnType ColumnTypeString) ''ZSTD(1)'' [],
        col ''http_url'' (LowCardinalityColumnType ColumnTypeString) ''ZSTD(1)'' [],
        col ''external_http_method'' (LowCardinalityColumnType ColumnTypeString) ''ZSTD(1)'' [],
        col ''http_method'' (LowCardinalityColumnType ColumnTypeString) ''ZSTD(1)'' [],
        col ''http_host'' (LowCardinalityColumnType ColumnTypeString) ''ZSTD(1)'' [],
        col ''db_name'' (LowCardinalityColumnType ColumnTypeString) ''ZSTD(1)'' [],
        col ''db_operation'' (LowCardinalityColumnType ColumnTypeString) ''ZSTD(1)'' [],
        col ''has_error'' ColumnTypeBool ''T64, ZSTD(1)'' [],
        col ''is_remote'' (LowCardinalityColumnType ColumnTypeString) ''ZSTD(1)'' [],
        col ''resource_string_service$$name'' (LowCardinalityColumnType ColumnTypeString) ''ZSTD(1)''
          ''resources_string[\\'service.name\\']'',
        col ''attribute_string_http$$route'' (LowCardinalityColumnType ColumnTypeString) ''ZSTD(1)''
          ''attributes_string[\\'http.route\\']'',
        col ''attribute_string_messaging$$system'' (LowCardinalityColumnType ColumnTypeString) ''ZSTD(1)''
          ''attributes_string[\\'messaging.system\\']'',
        col ''attribute_string_messaging$$operation'' (LowCardinalityColumnType ColumnTypeString)
          ''ZSTD(1)'' ''attributes_string[\\'messaging.operation\\']'',
        col ''attribute_string_db$$system'' (LowCardinalityColumnType ColumnTypeString) ''ZSTD(1)''
          ''attributes_string[\\'db.system\\']'',
        col ''attribute_string_rpc$$system'' (LowCardinalityColumnType ColumnTypeString) ''ZSTD(1)''
          ''attributes_string[\\'rpc.system\\']'',
        col ''attribute_string_rpc$$service'' (LowCardinalityColumnType ColumnTypeString) ''ZSTD(1)''
          ''attributes_string[\\'rpc.service\\']'',
        col ''attribute_string_rpc$$method'' (LowCardinalityColumnType ColumnTypeString) ''ZSTD(1)''
          ''attributes_string[\\'rpc.method\\']'',
        col ''attribute_string_peer$$service'' (LowCardinalityColumnType ColumnTypeString) ''ZSTD(1)''
          ''attributes_string[\\'peer.service\\']'',
        Column ''traceID'' (Some (FixedStringColumnType 32)) [] ''trace_id'' [] [] [] None [],
        Column ''spanID'' (Some ColumnTypeString) [] ''span_id'' [] [] [] None [],
        Column ''parentSpanID'' (Some ColumnTypeString) [] ''parent_span_id'' [] [] [] None [],
        Column ''spanKind'' (Some ColumnTypeString) [] ''kind_string'' [] [] [] None [],
        Column ''durationNano'' (Some ColumnTypeUInt64) [] ''duration_nano'' [] [] [] None [],
        Column ''statusCode'' (Some ColumnTypeInt16) [] ''status_code'' [] [] [] None [],
        Column ''statusMessage'' (Some ColumnTypeString) [] ''status_message'' [] [] [] None [],
        Column ''statusCodeString'' (Some ColumnTypeString) [] ''status_code_string'' [] [] [] None [],
        Column ''references'' (Some ColumnTypeString) [] ''links'' [] [] [] None [],
        Column ''responseStatusCode'' (Some (LowCardinalityColumnType ColumnTypeString)) []
          ''response_status_code'' [] [] [] None [],
        Column ''externalHttpUrl'' (Some (LowCardinalityColumnType ColumnTypeString)) []
          ''external_http_url'' [] [] [] None [],
        Column ''httpUrl'' (Some (LowCardinalityColumnType ColumnTypeString)) [] ''http_url'' [] [] []
          None [],
        Column ''externalHttpMethod'' (Some (LowCardinalityColumnType ColumnTypeString)) []
          ''external_http_method'' [] [] [] None [],
        Column ''httpMethod'' (Some (LowCardinalityColumnType ColumnTypeString)) [] ''http_method'' [] []
          [] None [],
        Column ''httpHost'' (Some (LowCardinalityColumnType ColumnTypeString)) [] ''http_host'' [] [] []
          None [],
        Column ''dbName'' (Some (LowCardinalityColumnType ColumnTypeString)) [] ''db_name'' [] [] [] None [],
        Column ''dbOperation'' (Some (LowCardinalityColumnType ColumnTypeString)) [] ''db_operation'' []
          [] [] None [],
        Column ''hasError'' (Some ColumnTypeBool) [] ''has_error'' [] [] [] None [],
        Column ''isRemote'' (Some (LowCardinalityColumnType ColumnTypeString)) [] ''is_remote'' [] [] []
          None [],
        Column ''serviceName'' (Some (LowCardinalityColumnType ColumnTypeString)) []
          ''resource_string_service$$name'' [] [] [] None [],
        Column ''httpRoute'' (Some (LowCardinalityColumnType ColumnTypeString)) []
          ''attribute_string_http$$route'' [] [] [] None [],
        Column ''msgSystem'' (Some (LowCardinalityColumnType ColumnTypeString)) []
          ''attribute_string_messaging$$system'' [] [] [] None [],
        Column ''msgOperation'' (Some (LowCardinalityColumnType ColumnTypeString)) []
          ''attribute_string_messaging$$operation'' [] [] [] None [],
        Column ''dbSystem'' (Some (LowCardinalityColumnType ColumnTypeString)) []
          ''attribute_string_db$$system'' [] [] [] None [],
        Column ''rpcSystem'' (Some (LowCardinalityColumnType ColumnTypeString)) []
          ''attribute_string_rpc$$system'' [] [] [] None [],
        Column ''rpcService'' (Some (LowCardinalityColumnType ColumnTypeString)) []
          ''attribute_string_rpc$$service'' [] [] [] None [],
        Column ''rpcMethod'' (Some (LowCardinalityColumnType ColumnTypeString)) []
          ''attribute_string_rpc$$method'' [] [] [] None [],
        Column ''peerService'' (Some (LowCardinalityColumnType ColumnTypeString)) []
          ''attribute_string_peer$$service'' [] [] [] None []]
       []
       []
       (distributed ''signoz_traces'' ''signoz_index_v3'' ''cityHash64(trace_id)''),
      create_table ''signoz_traces'' ''traces_v3_resource''
       [col ''labels'' ColumnTypeString ''ZSTD(5)'' [],
        col ''fingerprint'' ColumnTypeString ''ZSTD(1)'' [],
        col ''seen_at_ts_bucket_start'' ColumnTypeInt64 ''Delta(8), ZSTD(1)'' []]
       [idx ''idx_labels'' ''lower(labels)'' ''ngrambf_v1(4, 1024, 3, 0)'' 1,
        idx ''idx_labels_v1'' ''labels'' ''ngrambf_v1(4, 1024, 3, 0)'' 1]
       []
       (replacing (merge_tree ''(labels, fingerprint, seen_at_ts_bucket_start)'' []
         ''toDate(seen_at_ts_bucket_start)''
         ''toDateTime(seen_at_ts_bucket_start) + INTERVAL 1296000 SECOND + INTERVAL 1800 SECOND DELETE''
         [setting ''ttl_only_drop_parts'' ''1'', setting ''index_granularity'' ''8192'']) []),
      create_table ''signoz_traces'' ''distributed_traces_v3_resource''
       [col ''labels'' ColumnTypeString ''ZSTD(5)'' [],
        col ''fingerprint'' ColumnTypeString ''ZSTD(1)'' [],
        col ''seen_at_ts_bucket_start'' ColumnTypeInt64 ''Delta(8), ZSTD(1)'' []]
       []
       []
       (distributed ''signoz_traces'' ''traces_v3_resource'' ''cityHash64(labels, fingerprint)'')]"

definition traces_migration_1000_up3 :: "Operation list" where
  "traces_migration_1000_up3 =
     [create_table ''signoz_traces'' ''trace_summary''
       [col ''trace_id'' ColumnTypeString ''ZSTD(1)'' [],
        col ''start'' (SimpleAggregateFunction ''min'' [(DateTime64ColumnType 9 [])]) ''ZSTD(1)'' [],
        col ''end'' (SimpleAggregateFunction ''max'' [(DateTime64ColumnType 9 [])]) ''ZSTD(1)'' [],
        col ''num_spans'' (SimpleAggregateFunction ''sum'' [ColumnTypeUInt64]) ''ZSTD(1)'' []]
       []
       []
       (EAggregating (merge_tree ''(trace_id)'' [] ''toDate(end)''
         ''toDateTime(end) + toIntervalSecond(1296000)'' [setting ''index_granularity'' ''8192'', setting
         ''ttl_only_drop_parts'' ''1''])),
      create_table ''signoz_traces'' ''distributed_trace_summary''
       [col ''trace_id'' ColumnTypeString ''ZSTD(1)'' [],
        col ''start'' (SimpleAggregateFunction ''min'' [(DateTime64ColumnType 9 [])]) ''ZSTD(1)'' [],
        col ''end'' (SimpleAggregateFunction ''max'' [(DateTime64ColumnType 9 [])]) ''ZSTD(1)'' [],
        col ''num_spans'' (SimpleAggregateFunction ''sum'' [ColumnTypeUInt64]) ''ZSTD(1)'' []]
       []
       []
       (distributed ''signoz_traces'' ''trace_summary'' ''cityHash64(trace_id)''),
      create_view ''signoz_traces'' ''trace_summary_mv'' ''trace_summary''
       []
       (''SELECT'' @ br 7 @ ''trace_id,'' @ br 7 @ ''min(timestamp) AS start,'' @ br 7 @
         ''max(timestamp) AS end,'' @ br 7 @ ''toUInt64(count()) AS num_spans'' @ br 6 @
         ''FROM signoz_traces.signoz_index_v3'' @ br 6 @ ''GROUP BY trace_id;''),
      modify_query ''signoz_traces'' ''root_operations''
       (''SELECT DISTINCT'' @ br 7 @ ''name,'' @ br 7 @ ''resource_string_service$$name as serviceName'' @
         br 6 @ ''FROM signoz_traces.signoz_index_v3'' @ br 6 @ ''WHERE parent_span_id = '' @
         [CHR 0x27, CHR 0x27]),
      modify_query ''signoz_traces'' ''sub_root_operations''
       (''SELECT DISTINCT'' @ br 7 @ ''name,'' @ br 7 @ ''resource_string_service$$name as serviceName'' @
         br 6 @ ''FROM signoz_traces.signoz_index_v3 AS A, signoz_traces.signoz_index_v3 AS B'' @ br 6 @
         ''WHERE (A.resource_string_service$$name != B.resource_string_service$$name) AND (A.parent_span_id = B.span_id)'')]"

definition traces_migration_1000_down :: "Operation list" where
  "traces_migration_1000_down =
     [drop_table ''signoz_traces'' ''signoz_index_v3'',
      drop_table ''signoz_traces'' ''distributed_signoz_index_v3'',
      drop_table ''signoz_traces'' ''traces_v3_resource'',
      drop_table ''signoz_traces'' ''distributed_traces_v3_resource'',
      drop_table ''signoz_traces'' ''trace_summary'',
      drop_table ''signoz_traces'' ''distributed_trace_summary'',
      drop_table ''signoz_traces'' ''trace_summary_mv'',
      modify_query ''signoz_traces'' ''root_operations''
       (''SELECT DISTINCT'' @ br 7 @ ''name,'' @ br 7 @ ''serviceName'' @ br 6 @
         ''FROM signoz_traces.signoz_index_v2'' @ br 6 @ ''WHERE parentSpanID = '' @ [CHR 0x27, CHR 0x27]),
      modify_query ''signoz_traces'' ''sub_root_operations''
       (''SELECT DISTINCT'' @ br 7 @ ''name,'' @ br 7 @ ''serviceName'' @ br 6 @
         ''FROM signoz_traces.signoz_index_v2 AS A, signoz_traces.signoz_index_v2 AS B'' @ br 6 @
         ''WHERE (A.serviceName != B.serviceName) AND (A.parentSpanID = B.spanID)'')]"

definition traces_migration_1000 :: SchemaMigrationRecord where
  "traces_migration_1000 = migration 1000
     (traces_migration_1000_up1 @ traces_migration_1000_up2 @ traces_migration_1000_up3)
     traces_migration_1000_down"

definition traces_migration_1001 :: SchemaMigrationRecord where
  "traces_migration_1001 = migration 1001
     [drop_table ''signoz_traces'' ''durationSortMV'',
      drop_table ''signoz_traces'' ''distributed_durationSort'']
     []"

definition traces_migration_1002 :: SchemaMigrationRecord where
  "traces_migration_1002 = migration 1002
     [modify_query ''signoz_traces'' ''dependency_graph_minutes_db_calls_mv_v2''
       (''SELECT'' @ br 7 @ ''resource_string_service$$name AS src,'' @ br 7 @
         ''attribute_string_db$$system AS dest,'' @ br 7 @
         ''quantilesState(0.5, 0.75, 0.9, 0.95, 0.99)(toFloat64(duration_nano)) AS duration_quantiles_state,''
         @ br 7 @ ''countIf(status_code = 2) AS error_count,'' @ br 7 @ ''count(*) AS total_count,'' @ br
         7 @ ''toStartOfMinute(timestamp) AS timestamp,'' @ br 7 @
         ''resources_string[\\'deployment.environment\\'] AS deployment_environment,'' @ br 7 @
         ''resources_string[\\'k8s.cluster.name\\'] AS k8s_cluster_name,'' @ br 7 @
         ''resources_string[\\'k8s.namespace.name\\'] AS k8s_namespace_name'' @ br 6 @
         ''FROM signoz_traces.signoz_index_v3'' @ br 6 @ ''WHERE (dest != '' @ [CHR 0x27, CHR 0x27] @
         '') AND (kind != 2)'' @ br 6 @ ''GROUP BY'' @ br 7 @ ''timestamp,'' @ br 7 @ ''src,'' @ br 7 @
         ''dest,'' @ br 7 @ ''deployment_environment,'' @ br 7 @ ''k8s_cluster_name,'' @ br 7 @
         ''k8s_namespace_name''),
      modify_query ''signoz_traces'' ''dependency_graph_minutes_messaging_calls_mv_v2''
       (''SELECT'' @ br 7 @ ''resource_string_service$$name  AS src,'' @ br 7 @
         ''attribute_string_messaging$$system AS dest,'' @ br 7 @
         ''quantilesState(0.5, 0.75, 0.9, 0.95, 0.99)(toFloat64(duration_nano)) AS duration_quantiles_state,''
         @ br 7 @ ''countIf(status_code = 2) AS error_count,'' @ br 7 @ ''count(*) AS total_count,'' @ br
         7 @ ''toStartOfMinute(timestamp) AS timestamp,'' @ br 7 @
         ''resources_string[\\'deployment.environment\\'] AS deployment_environment,'' @ br 7 @
         ''resources_string[\\'k8s.cluster.name\\'] AS k8s_cluster_name,'' @ br 7 @
         ''resources_string[\\'k8s.namespace.name\\'] AS k8s_namespace_name'' @ br 6 @
         ''FROM signoz_traces.signoz_index_v3'' @ br 6 @ ''WHERE (dest != '' @ [CHR 0x27, CHR 0x27] @
         '') AND (kind != 2)'' @ br 6 @ ''GROUP BY'' @ br 7 @ ''timestamp,'' @ br 7 @ ''src,'' @ br 7 @
         ''dest,'' @ br 7 @ ''deployment_environment,'' @ br 7 @ ''k8s_cluster_name,'' @ br 7 @
         ''k8s_namespace_name''),
      modify_query ''signoz_traces'' ''dependency_graph_minutes_service_calls_mv_v2''
       (''SELECT'' @ br 7 @ ''A.resource_string_service$$name AS src,'' @ br 7 @
         ''B.resource_string_service$$name AS dest,'' @ br 7 @
         ''quantilesState(0.5, 0.75, 0.9, 0.95, 0.99)(toFloat64(B.duration_nano)) AS duration_quantiles_state,''
         @ br 7 @ ''countIf(B.status_code = 2) AS error_count,'' @ br 7 @ ''count(*) AS total_count,'' @
         br 7 @ ''toStartOfMinute(B.timestamp) AS timestamp,'' @ br 7 @
         ''B.resources_string[\\'deployment.environment\\'] AS deployment_environment,'' @ br 7 @
         ''B.resources_string[\\'k8s.cluster.name\\'] AS k8s_cluster_name,'' @ br 7 @
         ''B.resources_string[\\'k8s.namespace.name\\'] AS k8s_namespace_name'' @ br 6 @
         ''FROM signoz_traces.signoz_index_v3 AS A, signoz_traces.signoz_index_v3 AS B'' @ br 6 @
         ''WHERE (A.resource_string_service$$name != B.resource_string_service$$name) AND (A.span_id = B.parent_span_id)''
         @ br 6 @ ''GROUP BY'' @ br 7 @ ''timestamp,'' @ br 7 @ ''src,'' @ br 7 @ ''dest,'' @ br 7 @
         ''deployment_environment,'' @ br 7 @ ''k8s_cluster_name,'' @ br 7 @ ''k8s_namespace_name'')]
     []"

definition traces_migration_1003 :: SchemaMigrationRecord where
  "traces_migration_1003 = migration 1003
     [drop_table ''signoz_traces'' ''dependency_graph_minutes_db_calls_mv'',
      drop_table ''signoz_traces'' ''dependency_graph_minutes_messaging_calls_mv'',
      drop_table ''signoz_traces'' ''dependency_graph_minutes_service_calls_mv'',
      drop_table ''signoz_traces'' ''distributed_dependency_graph_minutes'']
     []"

definition traces_migration_1004 :: SchemaMigrationRecord where
  "traces_migration_1004 = migration 1004
     [create_table ''signoz_traces'' ''tag_attributes_v2''
       [col ''unix_milli'' ColumnTypeInt64 ''Delta(8), ZSTD(1)'' [],
        col ''tag_key'' ColumnTypeString ''ZSTD(1)'' [],
        col ''tag_type'' (LowCardinalityColumnType ColumnTypeString) ''ZSTD(1)'' [],
        col ''tag_data_type'' (LowCardinalityColumnType ColumnTypeString) ''ZSTD(1)'' [],
        col ''string_value'' ColumnTypeString ''ZSTD(1)'' [],
        col ''number_value'' (NullableColumnType ColumnTypeFloat64) ''ZSTD(1)'' []]
       [idx ''string_value_index'' ''string_value'' ''ngrambf_v1(4, 1024, 3, 0)'' 1,
        idx ''number_value_index'' ''number_value'' ''minmax'' 1]
       []
       (replacing (merge_tree ''(tag_key, tag_type, tag_data_type, string_value, number_value)'' []
         ''toDate(unix_milli / 1000)'' ''toDateTime(unix_milli / 1000) + toIntervalSecond(1296000)''
         [setting ''index_granularity'' ''8192'', setting ''ttl_only_drop_parts'' ''1'', setting
         ''allow_nullable_key'' ''1'']) []),
      create_table ''signoz_traces'' ''distributed_tag_attributes_v2''
       [col ''unix_milli'' ColumnTypeInt64 ''Delta(8), ZSTD(1)'' [],
        col ''tag_key'' ColumnTypeString ''ZSTD(1)'' [],
        col ''tag_type'' (LowCardinalityColumnType ColumnTypeString) ''ZSTD(1)'' [],
        col ''tag_data_type'' (LowCardinalityColumnType ColumnTypeString) ''ZSTD(1)'' [],
        col ''string_value'' ColumnTypeString ''ZSTD(1)'' [],
        col ''number_value'' (NullableColumnType ColumnTypeFloat64) ''ZSTD(1)'' []]
       []
       []
       (distributed ''signoz_traces'' ''tag_attributes_v2'' ''cityHash64(rand())'')]
     []"

definition traces_migration_1005_up1 :: "Operation list" where
  "traces_migration_1005_up1 =
     [add_column ''signoz_traces'' ''signoz_index_v3''
       (col ''resource_string_service$$name_exists'' ColumnTypeBool ''ZSTD(1)''
         ''if(mapContains(resources_string, \\'service.name\\') != 0, true, false)'') None,
      add_column ''signoz_traces'' ''signoz_index_v3''
       (col ''attribute_string_http$$route_exists'' ColumnTypeBool ''ZSTD(1)''
         ''if(mapContains(attributes_string, \\'http.route\\') != 0, true, false)'') None,
      add_column ''signoz_traces'' ''signoz_index_v3''
       (col ''attribute_string_messaging$$system_exists'' ColumnTypeBool ''ZSTD(1)''
         ''if(mapContains(attributes_string, \\'messaging.system\\') != 0, true, false)'') None,
      add_column ''signoz_traces'' ''signoz_index_v3''
       (col ''attribute_string_messaging$$operation_exists'' ColumnTypeBool ''ZSTD(1)''
         ''if(mapContains(attributes_string, \\'messaging.operation\\') != 0, true, false)'') None,
      add_column ''signoz_traces'' ''signoz_index_v3''
       (col ''attribute_string_db$$system_exists'' ColumnTypeBool ''ZSTD(1)''
         ''if(mapContains(attributes_string, \\'db.system\\') != 0, true, false)'') None,
      add_column ''signoz_traces'' ''signoz_index_v3''
       (col ''attribute_string_rpc$$system_exists'' ColumnTypeBool ''ZSTD(1)''
         ''if(mapContains(attributes_string, \\'rpc.system\\') != 0, true, false)'') None,
      add_column ''signoz_traces'' ''signoz_index_v3''
       (col ''attribute_string_rpc$$service_exists'' ColumnTypeBool ''ZSTD(1)''
         ''if(mapContains(attributes_string, \\'rpc.service\\') != 0, true, false)'') None,
      add_column ''signoz_traces'' ''signoz_index_v3''
       (col ''attribute_string_rpc$$method_exists'' ColumnTypeBool ''ZSTD(1)''
         ''if(mapContains(attributes_string, \\'rpc.method\\') != 0, true, false)'') None,
      add_column ''signoz_traces'' ''signoz_index_v3''
       (col ''attribute_string_peer$$service_exists'' ColumnTypeBool ''ZSTD(1)''
         ''if(mapContains(attributes_string, \\'peer.service\\') != 0, true, false)'') None,
      add_column ''signoz_traces'' ''distributed_signoz_index_v3''
       (col ''resource_string_service$$name_exists'' ColumnTypeBool ''ZSTD(1)''
         ''if(mapContains(resources_string, \\'service.name\\') != 0, true, false)'') None,
      add_column ''signoz_traces'' ''distributed_signoz_index_v3''
       (col ''attribute_string_http$$route_exists'' ColumnTypeBool ''ZSTD(1)''
         ''if(mapContains(attributes_string, \\'http.route\\') != 0, true, false)'') None,
      add_column ''signoz_traces'' ''distributed_signoz_index_v3''
       (col ''attribute_string_messaging$$system_exists'' ColumnTypeBool ''ZSTD(1)''
         ''if(mapContains(attributes_string, \\'messaging.system\\') != 0, true, false)'') None,
      add_column ''signoz_traces'' ''distributed_signoz_index_v3''
       (col ''attribute_string_messaging$$operation_exists'' ColumnTypeBool ''ZSTD(1)''
         ''if(mapContains(attributes_string, \\'messaging.operation\\') != 0, true, false)'') None]"

definition traces_migration_1005_up2 :: "Operation list" where
  "traces_migration_1005_up2 =
     [add_column ''signoz_traces'' ''distributed_signoz_index_v3''
       (col ''attribute_string_db$$system_exists'' ColumnTypeBool ''ZSTD(1)''
         ''if(mapContains(attributes_string, \\'db.system\\') != 0, true, false)'') None,
      add_column ''signoz_traces'' ''distributed_signoz_index_v3''
       (col ''attribute_string_rpc$$system_exists'' ColumnTypeBool ''ZSTD(1)''
         ''if(mapContains(attributes_string, \\'rpc.system\\') != 0, true, false)'') None,
      add_column ''signoz_traces'' ''distributed_signoz_index_v3''
       (col ''attribute_string_rpc$$service_exists'' ColumnTypeBool ''ZSTD(1)''
         ''if(mapContains(attributes_string, \\'rpc.service\\') != 0, true, false)'') None,
      add_column ''signoz_traces'' ''distributed_signoz_index_v3''
       (col ''attribute_string_rpc$$method_exists'' ColumnTypeBool ''ZSTD(1)''
         ''if(mapContains(attributes_string, \\'rpc.method\\') != 0, true, false)'') None,
      add_column ''signoz_traces'' ''distributed_signoz_index_v3''
       (col ''attribute_string_peer$$service_exists'' ColumnTypeBool ''ZSTD(1)''
         ''if(mapContains(attributes_string, \\'peer.service\\') != 0, true, false)'') None]"

definition traces_migration_1005_down :: "Operation list" where
  "traces_migration_1005_down =
     [drop_column ''signoz_traces'' ''distributed_signoz_index_v3'' (col_name
       ''resource_string_service$$name_exists''),
      drop_column ''signoz_traces'' ''distributed_signoz_index_v3'' (col_name
        ''attribute_string_http$$route_exists''),
      drop_column ''signoz_traces'' ''distributed_signoz_index_v3'' (col_name
        ''attribute_string_messaging$$system_exists''),
      drop_column ''signoz_traces'' ''distributed_signoz_index_v3'' (col_name
        ''attribute_string_messaging$$operation_exists''),
      drop_column ''signoz_traces'' ''distributed_signoz_index_v3'' (col_name
        ''attribute_string_db$$system_exists''),
      drop_column ''signoz_traces'' ''distributed_signoz_index_v3'' (col_name
        ''attribute_string_rpc$$system_exists''),
      drop_column ''signoz_traces'' ''distributed_signoz_index_v3'' (col_name
        ''attribute_string_rpc$$service_exists''),
      drop_column ''signoz_traces'' ''distributed_signoz_index_v3'' (col_name
        ''attribute_string_rpc$$method_exists''),
      drop_column ''signoz_traces'' ''distributed_signoz_index_v3'' (col_name
        ''attribute_string_peer$$service_exists''),
      drop_column ''signoz_traces'' ''signoz_index_v3'' (col_name ''resource_string_service$$name_exists''),
      drop_column ''signoz_traces'' ''signoz_index_v3'' (col_name ''attribute_string_http$$route_exists''),
      drop_column ''signoz_traces'' ''signoz_index_v3'' (col_name
        ''attribute_string_messaging$$system_exists''),
      drop_column ''signoz_traces'' ''signoz_index_v3'' (col_name
        ''attribute_string_messaging$$operation_exists''),
      drop_column ''signoz_traces'' ''signoz_index_v3'' (col_name ''attribute_string_db$$system_exists''),
      drop_column ''signoz_traces'' ''signoz_index_v3'' (col_name ''attribute_string_rpc$$system_exists''),
      drop_column ''signoz_traces'' ''signoz_index_v3'' (col_name ''attribute_string_rpc$$service_exists''),
      drop_column ''signoz_traces'' ''signoz_index_v3'' (col_name ''attribute_string_rpc$$method_exists''),
      drop_column ''signoz_traces'' ''signoz_index_v3'' (col_name ''attribute_string_peer$$service_exists'')]"

definition traces_migration_1005 :: SchemaMigrationRecord where
  "traces_migration_1005 = migration 1005
     (traces_migration_1005_up1 @ traces_migration_1005_up2)
     traces_migration_1005_down"

definition traces_migration_1006 :: SchemaMigrationRecord where
  "traces_migration_1006 = migration 1006
     [add_column ''signoz_traces'' ''signoz_index_v3''
       (col ''resource'' (JSONColumnType (Some 100) None []) ''ZSTD(1)'' []) None,
      add_column ''signoz_traces'' ''distributed_signoz_index_v3''
       (col ''resource'' (JSONColumnType (Some 100) None []) ''ZSTD(1)'' []) None]
     [drop_column ''signoz_traces'' ''distributed_signoz_index_v3'' (col_name ''resource''),
      drop_column ''signoz_traces'' ''signoz_index_v3'' (col_name ''resource'')]"

definition traces_migration_1007 :: SchemaMigrationRecord where
  "traces_migration_1007 = migration 1007
     [modify_query ''signoz_traces'' ''dependency_graph_minutes_service_calls_mv_v2''
       (''SELECT'' @ br 7 @ ''A.resource_string_service$$name AS src,'' @ br 7 @
         ''B.resource_string_service$$name AS dest,'' @ br 7 @
         ''quantilesState(0.5, 0.75, 0.9, 0.95, 0.99)(toFloat64(B.duration_nano)) AS duration_quantiles_state,''
         @ br 7 @ ''countIf(B.status_code = 2) AS error_count,'' @ br 7 @ ''count(*) AS total_count,'' @
         br 7 @ ''toStartOfMinute(B.timestamp) AS timestamp,'' @ br 7 @
         ''B.resources_string[\\'deployment.environment\\'] AS deployment_environment,'' @ br 7 @
         ''B.resources_string[\\'k8s.cluster.name\\'] AS k8s_cluster_name,'' @ br 7 @
         ''B.resources_string[\\'k8s.namespace.name\\'] AS k8s_namespace_name'' @ br 6 @
         ''FROM signoz_traces.signoz_index_v3 AS A, signoz_traces.signoz_index_v3 AS B'' @ br 6 @
         ''WHERE (A.resource_string_service$$name != B.resource_string_service$$name) AND (A.span_id = B.parent_span_id)''
         @ br 7 @ ''AND B.span_id != '' @ [CHR 0x27, CHR 0x27] @ '' AND A.span_id != '' @
         [CHR 0x27, CHR 0x27] @ br 6 @ ''GROUP BY'' @ br 7 @ ''timestamp,'' @ br 7 @ ''src,'' @ br 7 @
         ''dest,'' @ br 7 @ ''deployment_environment,'' @ br 7 @ ''k8s_cluster_name,'' @ br 7 @
         ''k8s_namespace_name;''),
      modify_query ''signoz_traces'' ''sub_root_operations''
       (''SELECT DISTINCT'' @ br 7 @ ''name,'' @ br 7 @ ''resource_string_service$$name AS serviceName'' @
         br 6 @ ''FROM signoz_traces.signoz_index_v3 AS A, signoz_traces.signoz_index_v3 AS B'' @ br 6 @
         ''WHERE (A.resource_string_service$$name != B.resource_string_service$$name) AND (A.parent_span_id = B.span_id) AND B.span_id != ''
         @ [CHR 0x27, CHR 0x27] @ '' AND A.span_id != '' @ [CHR 0x27, CHR 0x27])]
     [modify_query ''signoz_traces'' ''dependency_graph_minutes_service_calls_mv_v2''
       (''SELECT'' @ br 7 @ ''A.resource_string_service$$name AS src,'' @ br 7 @
         ''B.resource_string_service$$name AS dest,'' @ br 7 @
         ''quantilesState(0.5, 0.75, 0.9, 0.95, 0.99)(toFloat64(B.duration_nano)) AS duration_quantiles_state,''
         @ br 7 @ ''countIf(B.status_code = 2) AS error_count,'' @ br 7 @ ''count(*) AS total_count,'' @
         br 7 @ ''toStartOfMinute(B.timestamp) AS timestamp,'' @ br 7 @
         ''B.resources_string[\\'deployment.environment\\'] AS deployment_environment,'' @ br 7 @
         ''B.resources_string[\\'k8s.cluster.name\\'] AS k8s_cluster_name,'' @ br 7 @
         ''B.resources_string[\\'k8s.namespace.name\\'] AS k8s_namespace_name'' @ br 6 @
         ''FROM signoz_traces.signoz_index_v3 AS A, signoz_traces.signoz_index_v3 AS B'' @ br 6 @
         ''WHERE (A.resource_string_service$$name != B.resource_string_service$$name) AND (A.span_id = B.parent_span_id)''
         @ br 6 @ ''GROUP BY'' @ br 7 @ ''timestamp,'' @ br 7 @ ''src,'' @ br 7 @ ''dest,'' @ br 7 @
         ''deployment_environment,'' @ br 7 @ ''k8s_cluster_name,'' @ br 7 @ ''k8s_namespace_name;''),
      modify_query ''signoz_traces'' ''sub_root_operations''
       (''SELECT DISTINCT'' @ br 7 @ ''name,'' @ br 7 @ ''resource_string_service$$name AS serviceName'' @
         br 6 @ ''FROM signoz_traces.signoz_index_v3 AS A, signoz_traces.signoz_index_v3 AS B'' @ br 6 @
         ''WHERE (A.resource_string_service$$name != B.resource_string_service$$name) AND (A.parent_span_id = B.span_id)'')]"

definition traces_migration_1008 :: SchemaMigrationRecord where
  "traces_migration_1008 = migration 1008
     [add_column ''signoz_traces'' ''span_attributes_keys''
       (col ''timestamp'' (DateTimeColumnType []) [] ''toDateTime(now())'') None,
      modify_ttl ''signoz_traces'' ''span_attributes_keys'' ''timestamp + INTERVAL 15 DAY'' False]
     [drop_column ''signoz_traces'' ''span_attributes_keys'' (col_name ''timestamp''),
      drop_table_ttl ''signoz_traces'' ''span_attributes_keys'']"

definition traces_migration_1009 :: SchemaMigrationRecord where
  "traces_migration_1009 = migration 1009
     [add_column ''signoz_traces'' ''signoz_index_v3''
       (col ''scope'' (JSONColumnType (Some 0) None [col ''name'' ColumnTypeString [] [], col ''version''
         ColumnTypeString [] [], col ''attributes'' (JSONColumnType (Some 0) None []) [] []]) ''ZSTD(1)''
         []) None,
      add_column ''signoz_traces'' ''distributed_signoz_index_v3''
       (col ''scope'' (JSONColumnType (Some 0) None [col ''name'' ColumnTypeString [] [], col ''version''
         ColumnTypeString [] [], col ''attributes'' (JSONColumnType (Some 0) None []) [] []]) ''ZSTD(1)''
         []) None]
     [drop_column ''signoz_traces'' ''distributed_signoz_index_v3'' (col_name ''scope''),
      drop_column ''signoz_traces'' ''signoz_index_v3'' (col_name ''scope'')]"

definition traces_migration_1010 :: SchemaMigrationRecord where
  "traces_migration_1010 = migration 1010
     [modify_column ''signoz_traces'' ''span_attributes_keys'' (col ''tagType'' (EnumerationColumnType [''\\'tag\\' = 1'',
       ''\\'resource\\' = 2'', ''\\'scope\\' = 3''] 8) [] []),
      modify_column ''signoz_traces'' ''distributed_span_attributes_keys'' (col ''tagType''
        (EnumerationColumnType [''\\'tag\\' = 1'', ''\\'resource\\' = 2'', ''\\'scope\\' = 3''] 8) [] [])]
     [modify_column ''signoz_traces'' ''distributed_span_attributes_keys'' (col ''tagType''
       (EnumerationColumnType [''\\'tag\\' = 1'', ''\\'resource\\' = 2''] 8) [] []),
      modify_column ''signoz_traces'' ''span_attributes_keys'' (col ''tagType'' (EnumerationColumnType [''\\'tag\\' = 1'',
        ''\\'resource\\' = 2''] 8) [] [])]"

definition traces_migration_1011 :: SchemaMigrationRecord where
  "traces_migration_1011 = migration 1011
     [modify_settings ''signoz_traces'' ''signoz_index_v3'' [setting ''object_serialization_version'' (''\\'v3''
       @ [CHR 0x27]), setting ''object_shared_data_serialization_version'' (''\\'advanced'' @ [CHR 0x27])]]
     []"

definition traces_migration_1012 :: SchemaMigrationRecord where
  "traces_migration_1012 = migration 1012
     [add_column ''signoz_traces'' ''signoz_index_v3''
       (col ''attributes'' (JSONColumnType (Some 0) None []) ''ZSTD(1)'' []) (Some (col_name
         ''attributes_bool'')),
      add_column ''signoz_traces'' ''distributed_signoz_index_v3''
       (col ''attributes'' (JSONColumnType (Some 0) None []) ''ZSTD(1)'' []) (Some (col_name
         ''attributes_bool''))]
     [drop_column ''signoz_traces'' ''distributed_signoz_index_v3'' (col_name ''attributes''),
      drop_column ''signoz_traces'' ''signoz_index_v3'' (col_name ''attributes'')]"

definition traces_migration_1013 :: SchemaMigrationRecord where
  "traces_migration_1013 = migration 1013
     [add_index ''signoz_traces'' ''signoz_index_v3'' (idx ''attributes_paths_tokenbf''
       (JSONPathsIndexExpr ''attributes'') ''tokenbf_v1(1024, 2, 0)'' 1)]
     [drop_index ''signoz_traces'' ''signoz_index_v3'' (idx ''attributes_paths_tokenbf'' [] [] 0)]"

definition traces_migration_1014 :: SchemaMigrationRecord where
  "traces_migration_1014 = migration 1014
     [add_column ''signoz_traces'' ''signoz_index_v3''
       (col ''inserted_at'' (DateTime64ColumnType 3 []) ''Delta(8), ZSTD(1)'' []) None,
      add_column ''signoz_traces'' ''distributed_signoz_index_v3''
       (col ''inserted_at'' (DateTime64ColumnType 3 []) ''Delta(8), ZSTD(1)'' []) None,
      add_column ''signoz_traces'' ''signoz_index_v3''
       (col ''created_at'' (DateTime64ColumnType 3 []) ''Delta(8), ZSTD(1)'' ''now64(3)'') None,
      add_column ''signoz_traces'' ''distributed_signoz_index_v3''
       (col ''created_at'' (DateTime64ColumnType 3 []) ''Delta(8), ZSTD(1)'' ''now64(3)'') None]
     [drop_column ''signoz_traces'' ''distributed_signoz_index_v3'' (col_name ''inserted_at''),
      drop_column ''signoz_traces'' ''signoz_index_v3'' (col_name ''inserted_at''),
      drop_column ''signoz_traces'' ''distributed_signoz_index_v3'' (col_name ''created_at''),
      drop_column ''signoz_traces'' ''signoz_index_v3'' (col_name ''created_at'')]"

definition traces_migration_1015 :: SchemaMigrationRecord where
  "traces_migration_1015 = migration 1015
     [add_column ''signoz_traces'' ''signoz_index_v3''
       (col ''attributes_promoted'' (JSONColumnType None None []) ''ZSTD(1)'' []) (Some (col_name
         ''attributes'')),
      add_column ''signoz_traces'' ''distributed_signoz_index_v3''
       (col ''attributes_promoted'' (JSONColumnType None None []) ''ZSTD(1)'' []) (Some (col_name
         ''attributes''))]
     [drop_column ''signoz_traces'' ''distributed_signoz_index_v3'' (col_name ''attributes_promoted''),
      drop_column ''signoz_traces'' ''signoz_index_v3'' (col_name ''attributes_promoted'')]"

definition traces_migration_1016 :: SchemaMigrationRecord where
  "traces_migration_1016 = migration 1016
     [add_index ''signoz_traces'' ''signoz_index_v3'' (idx ''attributes_promoted_paths_tokenbf''
       (JSONPathsIndexExpr ''attributes_promoted'') ''tokenbf_v1(1024, 2, 0)'' 1)]
     [drop_index ''signoz_traces'' ''signoz_index_v3'' (idx ''attributes_promoted_paths_tokenbf'' [] [] 0)]"

definition traces_migration_1017_up1 :: "Operation list" where
  "traces_migration_1017_up1 =
     [add_column ''signoz_traces'' ''signoz_index_v3''
       (col ''attribute_string_gen_ai$$request$$model'' (LowCardinalityColumnType ColumnTypeString)
         ''ZSTD(1)'' ''attributes_string[\\'gen_ai.request.model\\']'') None,
      add_column ''signoz_traces'' ''signoz_index_v3''
       (col ''attribute_string_gen_ai$$request$$model_exists'' ColumnTypeBool ''ZSTD(1)''
         ''if(mapContains(attributes_string, \\'gen_ai.request.model\\') != 0, true, false)'') None,
      add_column ''signoz_traces'' ''distributed_signoz_index_v3''
       (col ''attribute_string_gen_ai$$request$$model'' (LowCardinalityColumnType ColumnTypeString)
         ''ZSTD(1)'' ''attributes_string[\\'gen_ai.request.model\\']'') None,
      add_column ''signoz_traces'' ''distributed_signoz_index_v3''
       (col ''attribute_string_gen_ai$$request$$model_exists'' ColumnTypeBool ''ZSTD(1)''
         ''if(mapContains(attributes_string, \\'gen_ai.request.model\\') != 0, true, false)'') None,
      add_column ''signoz_traces'' ''signoz_index_v3''
       (col ''attribute_string_gen_ai$$provider$$name'' (LowCardinalityColumnType ColumnTypeString)
         ''ZSTD(1)'' ''attributes_string[\\'gen_ai.provider.name\\']'') None,
      add_column ''signoz_traces'' ''signoz_index_v3''
       (col ''attribute_string_gen_ai$$provider$$name_exists'' ColumnTypeBool ''ZSTD(1)''
         ''if(mapContains(attributes_string, \\'gen_ai.provider.name\\') != 0, true, false)'') None,
      add_column ''signoz_traces'' ''distributed_signoz_index_v3''
       (col ''attribute_string_gen_ai$$provider$$name'' (LowCardinalityColumnType ColumnTypeString)
         ''ZSTD(1)'' ''attributes_string[\\'gen_ai.provider.name\\']'') None,
      add_column ''signoz_traces'' ''distributed_signoz_index_v3''
       (col ''attribute_string_gen_ai$$provider$$name_exists'' ColumnTypeBool ''ZSTD(1)''
         ''if(mapContains(attributes_string, \\'gen_ai.provider.name\\') != 0, true, false)'') None,
      add_column ''signoz_traces'' ''signoz_index_v3''
       (col ''attribute_string_gen_ai$$tool$$name'' (LowCardinalityColumnType ColumnTypeString)
         ''ZSTD(1)'' ''attributes_string[\\'gen_ai.tool.name\\']'') None,
      add_column ''signoz_traces'' ''signoz_index_v3''
       (col ''attribute_string_gen_ai$$tool$$name_exists'' ColumnTypeBool ''ZSTD(1)''
         ''if(mapContains(attributes_string, \\'gen_ai.tool.name\\') != 0, true, false)'') None,
      add_column ''signoz_traces'' ''distributed_signoz_index_v3''
       (col ''attribute_string_gen_ai$$tool$$name'' (LowCardinalityColumnType ColumnTypeString)
         ''ZSTD(1)'' ''attributes_string[\\'gen_ai.tool.name\\']'') None,
      add_column ''signoz_traces'' ''distributed_signoz_index_v3''
       (col ''attribute_string_gen_ai$$tool$$name_exists'' ColumnTypeBool ''ZSTD(1)''
         ''if(mapContains(attributes_string, \\'gen_ai.tool.name\\') != 0, true, false)'') None,
      add_column ''signoz_traces'' ''signoz_index_v3''
       (col ''attribute_string_gen_ai$$agent$$name'' (LowCardinalityColumnType ColumnTypeString)
         ''ZSTD(1)'' ''attributes_string[\\'gen_ai.agent.name\\']'') None,
      add_column ''signoz_traces'' ''signoz_index_v3''
       (col ''attribute_string_gen_ai$$agent$$name_exists'' ColumnTypeBool ''ZSTD(1)''
         ''if(mapContains(attributes_string, \\'gen_ai.agent.name\\') != 0, true, false)'') None]"

definition traces_migration_1017_up2 :: "Operation list" where
  "traces_migration_1017_up2 =
     [add_column ''signoz_traces'' ''distributed_signoz_index_v3''
       (col ''attribute_string_gen_ai$$agent$$name'' (LowCardinalityColumnType ColumnTypeString)
         ''ZSTD(1)'' ''attributes_string[\\'gen_ai.agent.name\\']'') None,
      add_column ''signoz_traces'' ''distributed_signoz_index_v3''
       (col ''attribute_string_gen_ai$$agent$$name_exists'' ColumnTypeBool ''ZSTD(1)''
         ''if(mapContains(attributes_string, \\'gen_ai.agent.name\\') != 0, true, false)'') None,
      add_column ''signoz_traces'' ''signoz_index_v3''
       (col ''attribute_number_signoz$$gen_ai$$usage$$tokens$$cost'' ColumnTypeFloat64 ''ZSTD(1)''
         ''attributes_number[\\'signoz.gen_ai.usage.tokens.cost\\']'') None,
      add_column ''signoz_traces'' ''signoz_index_v3''
       (col ''attribute_number_signoz$$gen_ai$$usage$$tokens$$cost_exists'' ColumnTypeBool ''ZSTD(1)''
         ''if(mapContains(attributes_number, \\'signoz.gen_ai.usage.tokens.cost\\') != 0, true, false)'')
         None,
      add_column ''signoz_traces'' ''distributed_signoz_index_v3''
       (col ''attribute_number_signoz$$gen_ai$$usage$$tokens$$cost'' ColumnTypeFloat64 ''ZSTD(1)''
         ''attributes_number[\\'signoz.gen_ai.usage.tokens.cost\\']'') None,
      add_column ''signoz_traces'' ''distributed_signoz_index_v3''
       (col ''attribute_number_signoz$$gen_ai$$usage$$tokens$$cost_exists'' ColumnTypeBool ''ZSTD(1)''
         ''if(mapContains(attributes_number, \\'signoz.gen_ai.usage.tokens.cost\\') != 0, true, false)'')
         None,
      add_column ''signoz_traces'' ''signoz_index_v3''
       (col ''attribute_number_gen_ai$$usage$$input_tokens'' ColumnTypeFloat64 ''ZSTD(1)''
         ''attributes_number[\\'gen_ai.usage.input_tokens\\']'') None,
      add_column ''signoz_traces'' ''signoz_index_v3''
       (col ''attribute_number_gen_ai$$usage$$input_tokens_exists'' ColumnTypeBool ''ZSTD(1)''
         ''if(mapContains(attributes_number, \\'gen_ai.usage.input_tokens\\') != 0, true, false)'') None,
      add_column ''signoz_traces'' ''distributed_signoz_index_v3''
       (col ''attribute_number_gen_ai$$usage$$input_tokens'' ColumnTypeFloat64 ''ZSTD(1)''
         ''attributes_number[\\'gen_ai.usage.input_tokens\\']'') None,
      add_column ''signoz_traces'' ''distributed_signoz_index_v3''
       (col ''attribute_number_gen_ai$$usage$$input_tokens_exists'' ColumnTypeBool ''ZSTD(1)''
         ''if(mapContains(attributes_number, \\'gen_ai.usage.input_tokens\\') != 0, true, false)'') None,
      add_column ''signoz_traces'' ''signoz_index_v3''
       (col ''attribute_number_gen_ai$$usage$$output_tokens'' ColumnTypeFloat64 ''ZSTD(1)''
         ''attributes_number[\\'gen_ai.usage.output_tokens\\']'') None,
      add_column ''signoz_traces'' ''signoz_index_v3''
       (col ''attribute_number_gen_ai$$usage$$output_tokens_exists'' ColumnTypeBool ''ZSTD(1)''
         ''if(mapContains(attributes_number, \\'gen_ai.usage.output_tokens\\') != 0, true, false)'') None,
      add_column ''signoz_traces'' ''distributed_signoz_index_v3''
       (col ''attribute_number_gen_ai$$usage$$output_tokens'' ColumnTypeFloat64 ''ZSTD(1)''
         ''attributes_number[\\'gen_ai.usage.output_tokens\\']'') None,
      add_column ''signoz_traces'' ''distributed_signoz_index_v3''
       (col ''attribute_number_gen_ai$$usage$$output_tokens_exists'' ColumnTypeBool ''ZSTD(1)''
         ''if(mapContains(attributes_number, \\'gen_ai.usage.output_tokens\\') != 0, true, false)'')
         None]"

definition traces_migration_1017_up3 :: "Operation list" where
  "traces_migration_1017_up3 =
     [add_column ''signoz_traces'' ''signoz_index_v3''
       (col ''attribute_number_gen_ai$$usage$$cache_read$$input_tokens'' ColumnTypeFloat64 ''ZSTD(1)''
         ''attributes_number[\\'gen_ai.usage.cache_read.input_tokens\\']'') None,
      add_column ''signoz_traces'' ''signoz_index_v3''
       (col ''attribute_number_gen_ai$$usage$$cache_read$$input_tokens_exists'' ColumnTypeBool ''ZSTD(1)''
         ''if(mapContains(attributes_number, \\'gen_ai.usage.cache_read.input_tokens\\') != 0, true, false)'')
         None,
      add_column ''signoz_traces'' ''distributed_signoz_index_v3''
       (col ''attribute_number_gen_ai$$usage$$cache_read$$input_tokens'' ColumnTypeFloat64 ''ZSTD(1)''
         ''attributes_number[\\'gen_ai.usage.cache_read.input_tokens\\']'') None,
      add_column ''signoz_traces'' ''distributed_signoz_index_v3''
       (col ''attribute_number_gen_ai$$usage$$cache_read$$input_tokens_exists'' ColumnTypeBool ''ZSTD(1)''
         ''if(mapContains(attributes_number, \\'gen_ai.usage.cache_read.input_tokens\\') != 0, true, false)'')
         None,
      add_column ''signoz_traces'' ''signoz_index_v3''
       (col ''attribute_number_gen_ai$$usage$$cache_creation$$input_tokens'' ColumnTypeFloat64 ''ZSTD(1)''
         ''attributes_number[\\'gen_ai.usage.cache_creation.input_tokens\\']'') None,
      add_column ''signoz_traces'' ''signoz_index_v3''
       (col ''attribute_number_gen_ai$$usage$$cache_creation$$input_tokens_exists'' ColumnTypeBool
         ''ZSTD(1)''
         ''if(mapContains(attributes_number, \\'gen_ai.usage.cache_creation.input_tokens\\') != 0, true, false)'')
         None,
      add_column ''signoz_traces'' ''distributed_signoz_index_v3''
       (col ''attribute_number_gen_ai$$usage$$cache_creation$$input_tokens'' ColumnTypeFloat64 ''ZSTD(1)''
         ''attributes_number[\\'gen_ai.usage.cache_creation.input_tokens\\']'') None,
      add_column ''signoz_traces'' ''distributed_signoz_index_v3''
       (col ''attribute_number_gen_ai$$usage$$cache_creation$$input_tokens_exists'' ColumnTypeBool
         ''ZSTD(1)''
         ''if(mapContains(attributes_number, \\'gen_ai.usage.cache_creation.input_tokens\\') != 0, true, false)'')
         None,
      add_column ''signoz_traces'' ''signoz_index_v3''
       (col ''attribute_number_signoz$$gen_ai$$usage$$input_tokens$$cost'' ColumnTypeFloat64 ''ZSTD(1)''
         ''attributes_number[\\'signoz.gen_ai.usage.input_tokens.cost\\']'') None,
      add_column ''signoz_traces'' ''signoz_index_v3''
       (col ''attribute_number_signoz$$gen_ai$$usage$$input_tokens$$cost_exists'' ColumnTypeBool
         ''ZSTD(1)''
         ''if(mapContains(attributes_number, \\'signoz.gen_ai.usage.input_tokens.cost\\') != 0, true, false)'')
         None,
      add_column ''signoz_traces'' ''distributed_signoz_index_v3''
       (col ''attribute_number_signoz$$gen_ai$$usage$$input_tokens$$cost'' ColumnTypeFloat64 ''ZSTD(1)''
         ''attributes_number[\\'signoz.gen_ai.usage.input_tokens.cost\\']'') None,
      add_column ''signoz_traces'' ''distributed_signoz_index_v3''
       (col ''attribute_number_signoz$$gen_ai$$usage$$input_tokens$$cost_exists'' ColumnTypeBool
         ''ZSTD(1)''
         ''if(mapContains(attributes_number, \\'signoz.gen_ai.usage.input_tokens.cost\\') != 0, true, false)'')
         None,
      add_column ''signoz_traces'' ''signoz_index_v3''
       (col ''attribute_number_signoz$$gen_ai$$usage$$output_tokens$$cost'' ColumnTypeFloat64 ''ZSTD(1)''
         ''attributes_number[\\'signoz.gen_ai.usage.output_tokens.cost\\']'') None,
      add_column ''signoz_traces'' ''signoz_index_v3''
       (col ''attribute_number_signoz$$gen_ai$$usage$$output_tokens$$cost_exists'' ColumnTypeBool
         ''ZSTD(1)''
         ''if(mapContains(attributes_number, \\'signoz.gen_ai.usage.output_tokens.cost\\') != 0, true, false)'')
         None]"

definition traces_migration_1017_up4 :: "Operation list" where
  "traces_migration_1017_up4 =
     [add_column ''signoz_traces'' ''distributed_signoz_index_v3''
       (col ''attribute_number_signoz$$gen_ai$$usage$$output_tokens$$cost'' ColumnTypeFloat64 ''ZSTD(1)''
         ''attributes_number[\\'signoz.gen_ai.usage.output_tokens.cost\\']'') None,
      add_column ''signoz_traces'' ''distributed_signoz_index_v3''
       (col ''attribute_number_signoz$$gen_ai$$usage$$output_tokens$$cost_exists'' ColumnTypeBool
         ''ZSTD(1)''
         ''if(mapContains(attributes_number, \\'signoz.gen_ai.usage.output_tokens.cost\\') != 0, true, false)'')
         None,
      add_column ''signoz_traces'' ''signoz_index_v3''
       (col ''attribute_number_signoz$$gen_ai$$usage$$cache_read$$input_tokens$$cost'' ColumnTypeFloat64
         ''ZSTD(1)'' ''attributes_number[\\'signoz.gen_ai.usage.cache_read.input_tokens.cost\\']'') None,
      add_column ''signoz_traces'' ''signoz_index_v3''
       (col ''attribute_number_signoz$$gen_ai$$usage$$cache_read$$input_tokens$$cost_exists''
         ColumnTypeBool ''ZSTD(1)''
         ''if(mapContains(attributes_number, \\'signoz.gen_ai.usage.cache_read.input_tokens.cost\\') != 0, true, false)'')
         None,
      add_column ''signoz_traces'' ''distributed_signoz_index_v3''
       (col ''attribute_number_signoz$$gen_ai$$usage$$cache_read$$input_tokens$$cost'' ColumnTypeFloat64
         ''ZSTD(1)'' ''attributes_number[\\'signoz.gen_ai.usage.cache_read.input_tokens.cost\\']'') None,
      add_column ''signoz_traces'' ''distributed_signoz_index_v3''
       (col ''attribute_number_signoz$$gen_ai$$usage$$cache_read$$input_tokens$$cost_exists''
         ColumnTypeBool ''ZSTD(1)''
         ''if(mapContains(attributes_number, \\'signoz.gen_ai.usage.cache_read.input_tokens.cost\\') != 0, true, false)'')
         None,
      add_column ''signoz_traces'' ''signoz_index_v3''
       (col ''attribute_number_signoz$$gen_ai$$usage$$cache_write$$input_tokens$$cost'' ColumnTypeFloat64
         ''ZSTD(1)'' ''attributes_number[\\'signoz.gen_ai.usage.cache_write.input_tokens.cost\\']'') None,
      add_column ''signoz_traces'' ''signoz_index_v3''
       (col ''attribute_number_signoz$$gen_ai$$usage$$cache_write$$input_tokens$$cost_exists''
         ColumnTypeBool ''ZSTD(1)''
         ''if(mapContains(attributes_number, \\'signoz.gen_ai.usage.cache_write.input_tokens.cost\\') != 0, true, false)'')
         None,
      add_column ''signoz_traces'' ''distributed_signoz_index_v3''
       (col ''attribute_number_signoz$$gen_ai$$usage$$cache_write$$input_tokens$$cost'' ColumnTypeFloat64
         ''ZSTD(1)'' ''attributes_number[\\'signoz.gen_ai.usage.cache_write.input_tokens.cost\\']'') None,
      add_column ''signoz_traces'' ''distributed_signoz_index_v3''
       (col ''attribute_number_signoz$$gen_ai$$usage$$cache_write$$input_tokens$$cost_exists''
         ColumnTypeBool ''ZSTD(1)''
         ''if(mapContains(attributes_number, \\'signoz.gen_ai.usage.cache_write.input_tokens.cost\\') != 0, true, false)'')
         None,
      add_index ''signoz_traces'' ''signoz_index_v3'' (idx ''idx_gen_ai_request_model''
        ''attribute_string_gen_ai$$request$$model'' ''bloom_filter'' 1),
      add_index ''signoz_traces'' ''signoz_index_v3'' (idx ''idx_gen_ai_provider_name''
        ''attribute_string_gen_ai$$provider$$name'' ''bloom_filter'' 1),
      add_index ''signoz_traces'' ''signoz_index_v3'' (idx ''idx_gen_ai_span_exists''
        ''(attribute_string_gen_ai$$request$$model_exists, attribute_string_gen_ai$$tool$$name_exists, attribute_string_gen_ai$$agent$$name_exists)''
        ''set(8)'' 1)]"

definition traces_migration_1017_down1 :: "Operation list" where
  "traces_migration_1017_down1 =
     [drop_index ''signoz_traces'' ''signoz_index_v3'' (idx ''idx_gen_ai_request_model'' [] [] 0),
      drop_index ''signoz_traces'' ''signoz_index_v3'' (idx ''idx_gen_ai_provider_name'' [] [] 0),
      drop_index ''signoz_traces'' ''signoz_index_v3'' (idx ''idx_gen_ai_span_exists'' [] [] 0),
      drop_column ''signoz_traces'' ''distributed_signoz_index_v3'' (col_name
        ''attribute_string_gen_ai$$request$$model''),
      drop_column ''signoz_traces'' ''distributed_signoz_index_v3'' (col_name
        ''attribute_string_gen_ai$$request$$model_exists''),
      drop_column ''signoz_traces'' ''distributed_signoz_index_v3'' (col_name
        ''attribute_string_gen_ai$$provider$$name''),
      drop_column ''signoz_traces'' ''distributed_signoz_index_v3'' (col_name
        ''attribute_string_gen_ai$$provider$$name_exists''),
      drop_column ''signoz_traces'' ''distributed_signoz_index_v3'' (col_name
        ''attribute_string_gen_ai$$tool$$name''),
      drop_column ''signoz_traces'' ''distributed_signoz_index_v3'' (col_name
        ''attribute_string_gen_ai$$tool$$name_exists''),
      drop_column ''signoz_traces'' ''distributed_signoz_index_v3'' (col_name
        ''attribute_string_gen_ai$$agent$$name''),
      drop_column ''signoz_traces'' ''distributed_signoz_index_v3'' (col_name
        ''attribute_string_gen_ai$$agent$$name_exists''),
      drop_column ''signoz_traces'' ''distributed_signoz_index_v3'' (col_name
        ''attribute_number_signoz$$gen_ai$$usage$$tokens$$cost''),
      drop_column ''signoz_traces'' ''distributed_signoz_index_v3'' (col_name
        ''attribute_number_signoz$$gen_ai$$usage$$tokens$$cost_exists''),
      drop_column ''signoz_traces'' ''distributed_signoz_index_v3'' (col_name
        ''attribute_number_gen_ai$$usage$$input_tokens''),
      drop_column ''signoz_traces'' ''distributed_signoz_index_v3'' (col_name
        ''attribute_number_gen_ai$$usage$$input_tokens_exists''),
      drop_column ''signoz_traces'' ''distributed_signoz_index_v3'' (col_name
        ''attribute_number_gen_ai$$usage$$output_tokens''),
      drop_column ''signoz_traces'' ''distributed_signoz_index_v3'' (col_name
        ''attribute_number_gen_ai$$usage$$output_tokens_exists''),
      drop_column ''signoz_traces'' ''distributed_signoz_index_v3'' (col_name
        ''attribute_number_gen_ai$$usage$$cache_read$$input_tokens''),
      drop_column ''signoz_traces'' ''distributed_signoz_index_v3'' (col_name
        ''attribute_number_gen_ai$$usage$$cache_read$$input_tokens_exists''),
      drop_column ''signoz_traces'' ''distributed_signoz_index_v3'' (col_name
        ''attribute_number_gen_ai$$usage$$cache_creation$$input_tokens''),
      drop_column ''signoz_traces'' ''distributed_signoz_index_v3'' (col_name
        ''attribute_number_gen_ai$$usage$$cache_creation$$input_tokens_exists''),
      drop_column ''signoz_traces'' ''distributed_signoz_index_v3'' (col_name
        ''attribute_number_signoz$$gen_ai$$usage$$input_tokens$$cost''),
      drop_column ''signoz_traces'' ''distributed_signoz_index_v3'' (col_name
        ''attribute_number_signoz$$gen_ai$$usage$$input_tokens$$cost_exists''),
      drop_column ''signoz_traces'' ''distributed_signoz_index_v3'' (col_name
        ''attribute_number_signoz$$gen_ai$$usage$$output_tokens$$cost''),
      drop_column ''signoz_traces'' ''distributed_signoz_index_v3'' (col_name
        ''attribute_number_signoz$$gen_ai$$usage$$output_tokens$$cost_exists''),
      drop_column ''signoz_traces'' ''distributed_signoz_index_v3'' (col_name
        ''attribute_number_signoz$$gen_ai$$usage$$cache_read$$input_tokens$$cost''),
      drop_column ''signoz_traces'' ''distributed_signoz_index_v3'' (col_name
        ''attribute_number_signoz$$gen_ai$$usage$$cache_read$$input_tokens$$cost_exists''),
      drop_column ''signoz_traces'' ''distributed_signoz_index_v3'' (col_name
        ''attribute_number_signoz$$gen_ai$$usage$$cache_write$$input_tokens$$cost'')]"

definition traces_migration_1017_down2 :: "Operation list" where
  "traces_migration_1017_down2 =
     [drop_column ''signoz_traces'' ''distributed_signoz_index_v3'' (col_name
       ''attribute_number_signoz$$gen_ai$$usage$$cache_write$$input_tokens$$cost_exists''),
      drop_column ''signoz_traces'' ''signoz_index_v3'' (col_name
        ''attribute_string_gen_ai$$request$$model''),
      drop_column ''signoz_traces'' ''signoz_index_v3'' (col_name
        ''attribute_string_gen_ai$$request$$model_exists''),
      drop_column ''signoz_traces'' ''signoz_index_v3'' (col_name
        ''attribute_string_gen_ai$$provider$$name''),
      drop_column ''signoz_traces'' ''signoz_index_v3'' (col_name
        ''attribute_string_gen_ai$$provider$$name_exists''),
      drop_column ''signoz_traces'' ''signoz_index_v3'' (col_name ''attribute_string_gen_ai$$tool$$name''),
      drop_column ''signoz_traces'' ''signoz_index_v3'' (col_name
        ''attribute_string_gen_ai$$tool$$name_exists''),
      drop_column ''signoz_traces'' ''signoz_index_v3'' (col_name ''attribute_string_gen_ai$$agent$$name''),
      drop_column ''signoz_traces'' ''signoz_index_v3'' (col_name
        ''attribute_string_gen_ai$$agent$$name_exists''),
      drop_column ''signoz_traces'' ''signoz_index_v3'' (col_name
        ''attribute_number_signoz$$gen_ai$$usage$$tokens$$cost''),
      drop_column ''signoz_traces'' ''signoz_index_v3'' (col_name
        ''attribute_number_signoz$$gen_ai$$usage$$tokens$$cost_exists''),
      drop_column ''signoz_traces'' ''signoz_index_v3'' (col_name
        ''attribute_number_gen_ai$$usage$$input_tokens''),
      drop_column ''signoz_traces'' ''signoz_index_v3'' (col_name
        ''attribute_number_gen_ai$$usage$$input_tokens_exists''),
      drop_column ''signoz_traces'' ''signoz_index_v3'' (col_name
        ''attribute_number_gen_ai$$usage$$output_tokens''),
      drop_column ''signoz_traces'' ''signoz_index_v3'' (col_name
        ''attribute_number_gen_ai$$usage$$output_tokens_exists''),
      drop_column ''signoz_traces'' ''signoz_index_v3'' (col_name
        ''attribute_number_gen_ai$$usage$$cache_read$$input_tokens''),
      drop_column ''signoz_traces'' ''signoz_index_v3'' (col_name
        ''attribute_number_gen_ai$$usage$$cache_read$$input_tokens_exists''),
      drop_column ''signoz_traces'' ''signoz_index_v3'' (col_name
        ''attribute_number_gen_ai$$usage$$cache_creation$$input_tokens''),
      drop_column ''signoz_traces'' ''signoz_index_v3'' (col_name
        ''attribute_number_gen_ai$$usage$$cache_creation$$input_tokens_exists''),
      drop_column ''signoz_traces'' ''signoz_index_v3'' (col_name
        ''attribute_number_signoz$$gen_ai$$usage$$input_tokens$$cost''),
      drop_column ''signoz_traces'' ''signoz_index_v3'' (col_name
        ''attribute_number_signoz$$gen_ai$$usage$$input_tokens$$cost_exists''),
      drop_column ''signoz_traces'' ''signoz_index_v3'' (col_name
        ''attribute_number_signoz$$gen_ai$$usage$$output_tokens$$cost''),
      drop_column ''signoz_traces'' ''signoz_index_v3'' (col_name
        ''attribute_number_signoz$$gen_ai$$usage$$output_tokens$$cost_exists''),
      drop_column ''signoz_traces'' ''signoz_index_v3'' (col_name
        ''attribute_number_signoz$$gen_ai$$usage$$cache_read$$input_tokens$$cost''),
      drop_column ''signoz_traces'' ''signoz_index_v3'' (col_name
        ''attribute_number_signoz$$gen_ai$$usage$$cache_read$$input_tokens$$cost_exists''),
      drop_column ''signoz_traces'' ''signoz_index_v3'' (col_name
        ''attribute_number_signoz$$gen_ai$$usage$$cache_write$$input_tokens$$cost''),
      drop_column ''signoz_traces'' ''signoz_index_v3'' (col_name
        ''attribute_number_signoz$$gen_ai$$usage$$cache_write$$input_tokens$$cost_exists'')]"

definition traces_migration_1017 :: SchemaMigrationRecord where
  "traces_migration_1017 = migration 1017
     (traces_migration_1017_up1 @ traces_migration_1017_up2 @ traces_migration_1017_up3 @
       traces_migration_1017_up4)
     (traces_migration_1017_down1 @ traces_migration_1017_down2)"

definition traces_migration_1018 :: SchemaMigrationRecord where
  "traces_migration_1018 = migration 1018
     [add_index ''signoz_traces'' ''signoz_index_v3'' (idx ''idx_attributes_http_route''
       ''attributes.http.route::String'' ''bloom_filter'' 4),
      add_index ''signoz_traces'' ''signoz_index_v3'' (idx ''idx_attributes_rpc_method''
        ''attributes.rpc.method::String'' ''bloom_filter'' 4),
      add_index ''signoz_traces'' ''signoz_index_v3'' (idx ''idx_attributes_gen_ai_request_model''
        ''attributes.gen_ai.request.model::String'' ''bloom_filter'' 1),
      add_index ''signoz_traces'' ''signoz_index_v3'' (idx ''idx_attributes_gen_ai_provider_name''
        ''attributes.gen_ai.provider.name::String'' ''bloom_filter'' 1)]
     [drop_index ''signoz_traces'' ''signoz_index_v3'' (idx ''idx_attributes_http_route'' [] [] 0),
      drop_index ''signoz_traces'' ''signoz_index_v3'' (idx ''idx_attributes_rpc_method'' [] [] 0),
      drop_index ''signoz_traces'' ''signoz_index_v3'' (idx ''idx_attributes_gen_ai_request_model'' [] [] 0),
      drop_index ''signoz_traces'' ''signoz_index_v3'' (idx ''idx_attributes_gen_ai_provider_name'' [] [] 0)]"

definition traces_migrations :: "SchemaMigrationRecord list" where
  "traces_migrations =
     [traces_migration_1000, traces_migration_1001, traces_migration_1002,
      traces_migration_1003, traces_migration_1004, traces_migration_1005,
      traces_migration_1006, traces_migration_1007, traces_migration_1008,
      traces_migration_1009, traces_migration_1010, traces_migration_1011,
      traces_migration_1012, traces_migration_1013, traces_migration_1014,
      traces_migration_1015, traces_migration_1016, traces_migration_1017,
      traces_migration_1018]"

section \<open>\<open>SquashedTracesMigrations\<close> (\<open>squashed_traces_migrations.go\<close>)\<close>

definition squashed_traces_1 :: SchemaMigrationRecord where
  "squashed_traces_1 = migration 1
     [create_table ''signoz_traces'' ''signoz_index_v2''
       [col ''timestamp'' (DateTime64ColumnType 9 []) ''DoubleDelta, LZ4'' [],
        col ''traceID'' (FixedStringColumnType 32) ''ZSTD(1)'' [],
        col ''spanID'' ColumnTypeString ''ZSTD(1)'' [],
        col ''parentSpanID'' ColumnTypeString ''ZSTD(1)'' [],
        col ''serviceName'' (LowCardinalityColumnType ColumnTypeString) ''ZSTD(1)'' [],
        col ''name'' (LowCardinalityColumnType ColumnTypeString) ''ZSTD(1)'' [],
        col ''kind'' ColumnTypeInt8 ''T64, ZSTD(1)'' [],
        col ''durationNano'' ColumnTypeUInt64 ''T64, ZSTD(1)'' [],
        col ''statusCode'' ColumnTypeInt16 ''T64, ZSTD(1)'' [],
        col ''externalHttpMethod'' (LowCardinalityColumnType ColumnTypeString) ''ZSTD(1)'' [],
        col ''externalHttpUrl'' (LowCardinalityColumnType ColumnTypeString) ''ZSTD(1)'' [],
        col ''dbSystem'' (LowCardinalityColumnType ColumnTypeString) ''ZSTD(1)'' [],
        col ''dbName'' (LowCardinalityColumnType ColumnTypeString) ''ZSTD(1)'' [],
        col ''dbOperation'' (LowCardinalityColumnType ColumnTypeString) ''ZSTD(1)'' [],
        col ''peerService'' (LowCardinalityColumnType ColumnTypeString) ''ZSTD(1)'' [],
        col ''events'' (ArrayColumnType ColumnTypeString) ''ZSTD(2)'' [],
        col ''httpMethod'' (LowCardinalityColumnType ColumnTypeString) ''ZSTD(1)'' [],
        col ''httpUrl'' (LowCardinalityColumnType ColumnTypeString) ''ZSTD(1)'' [],
        col ''httpRoute'' (LowCardinalityColumnType ColumnTypeString) ''ZSTD(1)'' [],
        col ''httpHost'' (LowCardinalityColumnType ColumnTypeString) ''ZSTD(1)'' [],
        col ''msgSystem'' (LowCardinalityColumnType ColumnTypeString) ''ZSTD(1)'' [],
        col ''msgOperation'' (LowCardinalityColumnType ColumnTypeString) ''ZSTD(1)'' [],
        col ''hasError'' ColumnTypeBool ''T64, ZSTD(1)'' [],
        col ''rpcSystem'' (LowCardinalityColumnType ColumnTypeString) ''ZSTD(1)'' [],
        col ''rpcService'' (LowCardinalityColumnType ColumnTypeString) ''ZSTD(1)'' [],
        col ''rpcMethod'' (LowCardinalityColumnType ColumnTypeString) ''ZSTD(1)'' [],
        col ''responseStatusCode'' (LowCardinalityColumnType ColumnTypeString) ''ZSTD(1)'' [],
        col ''stringTagMap'' (MapColumnType ColumnTypeString ColumnTypeString) ''ZSTD(1)'' [],
        col ''numberTagMap'' (MapColumnType ColumnTypeString ColumnTypeFloat64) ''ZSTD(1)'' [],
        col ''boolTagMap'' (MapColumnType ColumnTypeString ColumnTypeBool) ''ZSTD(1)'' [],
        col ''resourceTagsMap'' (MapColumnType (LowCardinalityColumnType ColumnTypeString)
          ColumnTypeString) ''ZSTD(1)'' [],
        col ''isRemote'' (LowCardinalityColumnType ColumnTypeString) ''ZSTD(1)'' [],
        col ''statusMessage'' ColumnTypeString ''ZSTD(1)'' [],
        col ''statusCodeString'' ColumnTypeString ''ZSTD(1)'' [],
        col ''spanKind'' ColumnTypeString ''ZSTD(1)'' []]
       [idx ''idx_service'' ''serviceName'' ''bloom_filter'' 4,
        idx ''idx_name'' ''name'' ''bloom_filter'' 4,
        idx ''idx_kind'' ''kind'' ''minmax'' 4,
        idx ''idx_duration'' ''durationNano'' ''minmax'' 1,
        idx ''idx_hasError'' ''hasError'' ''set(2)'' 1,
        idx ''idx_httpRoute'' ''httpRoute'' ''bloom_filter'' 4,
        idx ''idx_httpUrl'' ''httpUrl'' ''bloom_filter'' 4,
        idx ''idx_httpHost'' ''httpHost'' ''bloom_filter'' 4,
        idx ''idx_httpMethod'' ''httpMethod'' ''bloom_filter'' 4,
        idx ''idx_timestamp'' ''timestamp'' ''minmax'' 1,
        idx ''idx_rpcMethod'' ''rpcMethod'' ''bloom_filter'' 4,
        idx ''idx_responseStatusCode'' ''responseStatusCode'' ''set(0)'' 1,
        idx ''idx_resourceTagsMapKeys'' ''mapKeys(resourceTagsMap)'' ''bloom_filter(0.01)'' 64,
        idx ''idx_resourceTagsMapValues'' ''mapValues(resourceTagsMap)'' ''bloom_filter(0.01)'' 64,
        idx ''idx_statusCodeString'' ''statusCodeString'' ''set(3)'' 4,
        idx ''idx_spanKind'' ''spanKind'' ''set(5)'' 4,
        idx ''idx_stringTagMapKeys'' ''mapKeys(stringTagMap)'' ''tokenbf_v1(1024, 2, 0)'' 1,
        idx ''idx_stringTagMapValues'' ''mapValues(stringTagMap)'' ''ngrambf_v1(4, 5000, 2, 0)'' 1,
        idx ''idx_numberTagMapKeys'' ''mapKeys(numberTagMap)'' ''tokenbf_v1(1024, 2, 0)'' 1,
        idx ''idx_numberTagMapValues'' ''mapValues(numberTagMap)'' ''bloom_filter(0.01)'' 1,
        idx ''idx_boolTagMapKeys'' ''mapKeys(boolTagMap)'' ''tokenbf_v1(1024, 2, 0)'' 1,
        idx ''idx_resourceTagMapKeys'' ''mapKeys(resourceTagsMap)'' ''tokenbf_v1(1024, 2, 0)'' 1,
        idx ''idx_resourceTagMapValues'' ''mapValues(resourceTagsMap)'' ''ngrambf_v1(4, 5000, 2, 0)'' 1]
       [projection ''timestampSort'' ''SELECT * ORDER BY timestamp'']
       (EMergeTree (merge_tree ''(serviceName, hasError, toStartOfHour(timestamp), name, timestamp)''
         ''(serviceName, hasError, toStartOfHour(timestamp), name)'' ''toDate(timestamp)''
         ''toDateTime(timestamp) + toIntervalSecond(1296000)'' [setting ''index_granularity'' ''8192'',
         setting ''ttl_only_drop_parts'' ''1'']))]
     [drop_table ''signoz_traces'' ''signoz_index_v2'']"

definition squashed_traces_2 :: SchemaMigrationRecord where
  "squashed_traces_2 = migration 2
     [create_table ''signoz_traces'' ''distributed_signoz_index_v2''
       [col ''timestamp'' (DateTime64ColumnType 9 []) ''DoubleDelta, LZ4'' [],
        col ''traceID'' (FixedStringColumnType 32) ''ZSTD(1)'' [],
        col ''spanID'' ColumnTypeString ''ZSTD(1)'' [],
        col ''parentSpanID'' ColumnTypeString ''ZSTD(1)'' [],
        col ''serviceName'' (LowCardinalityColumnType ColumnTypeString) ''ZSTD(1)'' [],
        col ''name'' (LowCardinalityColumnType ColumnTypeString) ''ZSTD(1)'' [],
        col ''kind'' ColumnTypeInt8 ''T64, ZSTD(1)'' [],
        col ''durationNano'' ColumnTypeUInt64 ''T64, ZSTD(1)'' [],
        col ''statusCode'' ColumnTypeInt16 ''T64, ZSTD(1)'' [],
        col ''externalHttpMethod'' (LowCardinalityColumnType ColumnTypeString) ''ZSTD(1)'' [],
        col ''externalHttpUrl'' (LowCardinalityColumnType ColumnTypeString) ''ZSTD(1)'' [],
        col ''dbSystem'' (LowCardinalityColumnType ColumnTypeString) ''ZSTD(1)'' [],
        col ''dbName'' (LowCardinalityColumnType ColumnTypeString) ''ZSTD(1)'' [],
        col ''dbOperation'' (LowCardinalityColumnType ColumnTypeString) ''ZSTD(1)'' [],
        col ''peerService'' (LowCardinalityColumnType ColumnTypeString) ''ZSTD(1)'' [],
        col ''events'' (ArrayColumnType ColumnTypeString) ''ZSTD(2)'' [],
        col ''httpMethod'' (LowCardinalityColumnType ColumnTypeString) ''ZSTD(1)'' [],
        col ''httpUrl'' (LowCardinalityColumnType ColumnTypeString) ''ZSTD(1)'' [],
        col ''httpRoute'' (LowCardinalityColumnType ColumnTypeString) ''ZSTD(1)'' [],
        col ''httpHost'' (LowCardinalityColumnType ColumnTypeString) ''ZSTD(1)'' [],
        col ''msgSystem'' (LowCardinalityColumnType ColumnTypeString) ''ZSTD(1)'' [],
        col ''msgOperation'' (LowCardinalityColumnType ColumnTypeString) ''ZSTD(1)'' [],
        col ''hasError'' ColumnTypeBool ''T64, ZSTD(1)'' [],
        col ''rpcSystem'' (LowCardinalityColumnType ColumnTypeString) ''ZSTD(1)'' [],
        col ''rpcService'' (LowCardinalityColumnType ColumnTypeString) ''ZSTD(1)'' [],
        col ''rpcMethod'' (LowCardinalityColumnType ColumnTypeString) ''ZSTD(1)'' [],
        col ''responseStatusCode'' (LowCardinalityColumnType ColumnTypeString) ''ZSTD(1)'' [],
        col ''stringTagMap'' (MapColumnType ColumnTypeString ColumnTypeString) ''ZSTD(1)'' [],
        col ''numberTagMap'' (MapColumnType ColumnTypeString ColumnTypeFloat64) ''ZSTD(1)'' [],
        col ''boolTagMap'' (MapColumnType ColumnTypeString ColumnTypeBool) ''ZSTD(1)'' [],
        col ''resourceTagsMap'' (MapColumnType (LowCardinalityColumnType ColumnTypeString)
          ColumnTypeString) ''ZSTD(1)'' [],
        col ''isRemote'' (LowCardinalityColumnType ColumnTypeString) ''ZSTD(1)'' [],
        col ''statusMessage'' ColumnTypeString ''ZSTD(1)'' [],
        col ''statusCodeString'' ColumnTypeString ''ZSTD(1)'' [],
        col ''spanKind'' ColumnTypeString ''ZSTD(1)'' []]
       []
       []
       (distributed ''signoz_traces'' ''signoz_index_v2'' ''cityHash64(traceID)'')]
     [drop_table ''signoz_traces'' ''distributed_signoz_index_v2'']"

definition squashed_traces_3 :: SchemaMigrationRecord where
  "squashed_traces_3 = migration 3
     [create_table ''signoz_traces'' ''durationSort''
       [col ''timestamp'' (DateTime64ColumnType 9 []) ''DoubleDelta, LZ4'' [],
        col ''traceID'' (FixedStringColumnType 32) ''ZSTD(1)'' [],
        col ''spanID'' ColumnTypeString ''ZSTD(1)'' [],
        col ''parentSpanID'' ColumnTypeString ''ZSTD(1)'' [],
        col ''serviceName'' (LowCardinalityColumnType ColumnTypeString) ''ZSTD(1)'' [],
        col ''name'' (LowCardinalityColumnType ColumnTypeString) ''ZSTD(1)'' [],
        col ''kind'' ColumnTypeInt8 ''T64, ZSTD(1)'' [],
        col ''durationNano'' ColumnTypeUInt64 ''T64, ZSTD(1)'' [],
        col ''statusCode'' ColumnTypeInt16 ''T64, ZSTD(1)'' [],
        col ''httpMethod'' (LowCardinalityColumnType ColumnTypeString) ''ZSTD(1)'' [],
        col ''httpUrl'' (LowCardinalityColumnType ColumnTypeString) ''ZSTD(1)'' [],
        col ''httpRoute'' (LowCardinalityColumnType ColumnTypeString) ''ZSTD(1)'' [],
        col ''httpHost'' (LowCardinalityColumnType ColumnTypeString) ''ZSTD(1)'' [],
        col ''hasError'' ColumnTypeBool ''T64, ZSTD(1)'' [],
        col ''rpcSystem'' (LowCardinalityColumnType ColumnTypeString) ''ZSTD(1)'' [],
        col ''rpcService'' (LowCardinalityColumnType ColumnTypeString) ''ZSTD(1)'' [],
        col ''rpcMethod'' (LowCardinalityColumnType ColumnTypeString) ''ZSTD(1)'' [],
        col ''responseStatusCode'' (LowCardinalityColumnType ColumnTypeString) ''ZSTD(1)'' [],
        col ''stringTagMap'' (MapColumnType ColumnTypeString ColumnTypeString) ''ZSTD(1)'' [],
        col ''numberTagMap'' (MapColumnType ColumnTypeString ColumnTypeFloat64) ''ZSTD(1)'' [],
        col ''boolTagMap'' (MapColumnType ColumnTypeString ColumnTypeBool) ''ZSTD(1)'' [],
        col ''isRemote'' (LowCardinalityColumnType ColumnTypeString) ''ZSTD(1)'' [],
        col ''statusMessage'' ColumnTypeString ''ZSTD(1)'' [],
        col ''statusCodeString'' ColumnTypeString ''ZSTD(1)'' [],
        col ''spanKind'' ColumnTypeString ''ZSTD(1)'' []]
       [idx ''idx_service'' ''serviceName'' ''bloom_filter'' 4,
        idx ''idx_name'' ''name'' ''bloom_filter'' 4,
        idx ''idx_kind'' ''kind'' ''minmax'' 4,
        idx ''idx_duration'' ''durationNano'' ''minmax'' 1,
        idx ''idx_hasError'' ''hasError'' ''set(2)'' 1,
        idx ''idx_httpRoute'' ''httpRoute'' ''bloom_filter'' 4,
        idx ''idx_httpUrl'' ''httpUrl'' ''bloom_filter'' 4,
        idx ''idx_httpHost'' ''httpHost'' ''bloom_filter'' 4,
        idx ''idx_httpMethod'' ''httpMethod'' ''bloom_filter'' 4,
        idx ''idx_timestamp'' ''timestamp'' ''minmax'' 1,
        idx ''idx_rpcMethod'' ''rpcMethod'' ''bloom_filter'' 4,
        idx ''idx_responseStatusCode'' ''responseStatusCode'' ''set(0)'' 1]
       []
       (EMergeTree (merge_tree ''(durationNano, timestamp)'' [] ''toDate(timestamp)''
         ''toDateTime(timestamp) + toIntervalSecond(1296000)'' [setting ''index_granularity'' ''8192'',
         setting ''ttl_only_drop_parts'' ''1'']))]
     [drop_table ''signoz_traces'' ''durationSort'']"

definition squashed_traces_4 :: SchemaMigrationRecord where
  "squashed_traces_4 = migration 4
     [create_view ''signoz_traces'' ''durationSortMV'' ''durationSort''
       [col ''timestamp'' (DateTime64ColumnType 9 []) ''DoubleDelta, LZ4'' [],
        col ''traceID'' (FixedStringColumnType 32) ''ZSTD(1)'' [],
        col ''spanID'' ColumnTypeString ''ZSTD(1)'' [],
        col ''parentSpanID'' ColumnTypeString ''ZSTD(1)'' [],
        col ''serviceName'' (LowCardinalityColumnType ColumnTypeString) ''ZSTD(1)'' [],
        col ''name'' (LowCardinalityColumnType ColumnTypeString) ''ZSTD(1)'' [],
        col ''kind'' ColumnTypeInt8 ''T64, ZSTD(1)'' [],
        col ''durationNano'' ColumnTypeUInt64 ''T64, ZSTD(1)'' [],
        col ''statusCode'' ColumnTypeInt16 ''T64, ZSTD(1)'' [],
        col ''httpMethod'' (LowCardinalityColumnType ColumnTypeString) ''ZSTD(1)'' [],
        col ''httpUrl'' (LowCardinalityColumnType ColumnTypeString) ''ZSTD(1)'' [],
        col ''httpRoute'' (LowCardinalityColumnType ColumnTypeString) ''ZSTD(1)'' [],
        col ''httpHost'' (LowCardinalityColumnType ColumnTypeString) ''ZSTD(1)'' [],
        col ''hasError'' ColumnTypeBool ''T64, ZSTD(1)'' [],
        col ''rpcSystem'' (LowCardinalityColumnType ColumnTypeString) ''ZSTD(1)'' [],
        col ''rpcService'' (LowCardinalityColumnType ColumnTypeString) ''ZSTD(1)'' [],
        col ''rpcMethod'' (LowCardinalityColumnType ColumnTypeString) ''ZSTD(1)'' [],
        col ''responseStatusCode'' (LowCardinalityColumnType ColumnTypeString) ''ZSTD(1)'' [],
        col ''stringTagMap'' (MapColumnType ColumnTypeString ColumnTypeString) ''ZSTD(1)'' [],
        col ''numberTagMap'' (MapColumnType ColumnTypeString ColumnTypeFloat64) ''ZSTD(1)'' [],
        col ''boolTagMap'' (MapColumnType ColumnTypeString ColumnTypeBool) ''ZSTD(1)'' [],
        col ''isRemote'' (LowCardinalityColumnType ColumnTypeString) ''ZSTD(1)'' [],
        col ''statusMessage'' ColumnTypeString ''ZSTD(1)'' [],
        col ''statusCodeString'' ColumnTypeString ''ZSTD(1)'' [],
        col ''spanKind'' ColumnTypeString ''ZSTD(1)'' []]
       (''SELECT'' @ br 0 @ ''    timestamp,'' @ br 0 @ ''    traceID,'' @ br 0 @ ''    spanID,'' @ br 0 @
         ''    parentSpanID,'' @ br 0 @ ''    serviceName,'' @ br 0 @ ''    name,'' @ br 0 @ ''    kind,''
         @ br 0 @ ''    durationNano,'' @ br 0 @ ''    statusCode,'' @ br 0 @ ''    httpMethod,'' @ br 0 @
         ''    httpUrl,'' @ br 0 @ ''    httpRoute,'' @ br 0 @ ''    httpHost,'' @ br 0 @
         ''    hasError,'' @ br 0 @ ''    rpcSystem,'' @ br 0 @ ''    rpcService,'' @ br 0 @
         ''    rpcMethod,'' @ br 0 @ ''    responseStatusCode,'' @ br 0 @ ''    stringTagMap,'' @ br 0 @
         ''    numberTagMap,'' @ br 0 @ ''    boolTagMap,'' @ br 0 @ ''    isRemote,'' @ br 0 @
         ''    statusMessage,'' @ br 0 @ ''    statusCodeString,'' @ br 0 @ ''    spanKind'' @ br 0 @
         ''FROM signoz_traces.signoz_index_v2'' @ br 0 @ ''ORDER BY'' @ br 0 @ ''    durationNano ASC,'' @
         br 0 @ ''    timestamp ASC'')]
     [drop_table ''signoz_traces'' ''durationSortMV'']"

definition squashed_traces_5 :: SchemaMigrationRecord where
  "squashed_traces_5 = migration 5
     [create_table ''signoz_traces'' ''distributed_durationSort''
       [col ''timestamp'' (DateTime64ColumnType 9 []) ''DoubleDelta, LZ4'' [],
        col ''traceID'' (FixedStringColumnType 32) ''ZSTD(1)'' [],
        col ''spanID'' ColumnTypeString ''ZSTD(1)'' [],
        col ''parentSpanID'' ColumnTypeString ''ZSTD(1)'' [],
        col ''serviceName'' (LowCardinalityColumnType ColumnTypeString) ''ZSTD(1)'' [],
        col ''name'' (LowCardinalityColumnType ColumnTypeString) ''ZSTD(1)'' [],
        col ''kind'' ColumnTypeInt8 ''T64, ZSTD(1)'' [],
        col ''durationNano'' ColumnTypeUInt64 ''T64, ZSTD(1)'' [],
        col ''statusCode'' ColumnTypeInt16 ''T64, ZSTD(1)'' [],
        col ''httpMethod'' (LowCardinalityColumnType ColumnTypeString) ''ZSTD(1)'' [],
        col ''httpUrl'' (LowCardinalityColumnType ColumnTypeString) ''ZSTD(1)'' [],
        col ''httpRoute'' (LowCardinalityColumnType ColumnTypeString) ''ZSTD(1)'' [],
        col ''httpHost'' (LowCardinalityColumnType ColumnTypeString) ''ZSTD(1)'' [],
        col ''hasError'' ColumnTypeBool ''T64, ZSTD(1)'' [],
        col ''rpcSystem'' (LowCardinalityColumnType ColumnTypeString) ''ZSTD(1)'' [],
        col ''rpcService'' (LowCardinalityColumnType ColumnTypeString) ''ZSTD(1)'' [],
        col ''rpcMethod'' (LowCardinalityColumnType ColumnTypeString) ''ZSTD(1)'' [],
        col ''responseStatusCode'' (LowCardinalityColumnType ColumnTypeString) ''ZSTD(1)'' [],
        col ''stringTagMap'' (MapColumnType ColumnTypeString ColumnTypeString) ''ZSTD(1)'' [],
        col ''numberTagMap'' (MapColumnType ColumnTypeString ColumnTypeFloat64) ''ZSTD(1)'' [],
        col ''boolTagMap'' (MapColumnType ColumnTypeString ColumnTypeBool) ''ZSTD(1)'' [],
        col ''isRemote'' (LowCardinalityColumnType ColumnTypeString) ''ZSTD(1)'' [],
        col ''statusMessage'' ColumnTypeString ''ZSTD(1)'' [],
        col ''statusCodeString'' ColumnTypeString ''ZSTD(1)'' [],
        col ''spanKind'' ColumnTypeString ''ZSTD(1)'' []]
       []
       []
       (distributed ''signoz_traces'' ''durationSort'' ''cityHash64(traceID)'')]
     [drop_table ''signoz_traces'' ''distributed_durationSort'']"

definition squashed_traces_6 :: SchemaMigrationRecord where
  "squashed_traces_6 = migration 6
     [create_table ''signoz_traces'' ''signoz_error_index_v2''
       [col ''timestamp'' (DateTime64ColumnType 9 []) ''DoubleDelta, LZ4'' [],
        col ''errorID'' (FixedStringColumnType 32) ''ZSTD(1)'' [],
        col ''groupID'' (FixedStringColumnType 32) ''ZSTD(1)'' [],
        col ''traceID'' (FixedStringColumnType 32) ''ZSTD(1)'' [],
        col ''spanID'' ColumnTypeString ''ZSTD(1)'' [],
        col ''serviceName'' (LowCardinalityColumnType ColumnTypeString) ''ZSTD(1)'' [],
        col ''exceptionType'' (LowCardinalityColumnType ColumnTypeString) ''ZSTD(1)'' [],
        col ''exceptionMessage'' ColumnTypeString ''ZSTD(1)'' [],
        col ''exceptionStacktrace'' ColumnTypeString ''ZSTD(1)'' [],
        col ''exceptionEscaped'' ColumnTypeBool ''T64, ZSTD(1)'' [],
        col ''resourceTagsMap'' (MapColumnType (LowCardinalityColumnType ColumnTypeString)
          ColumnTypeString) ''ZSTD(1)'' []]
       [idx ''idx_error_id'' ''errorID'' ''bloom_filter'' 4,
        idx ''idx_resourceTagsMapKeys'' ''mapKeys(resourceTagsMap)'' ''bloom_filter(0.01)'' 64,
        idx ''idx_resourceTagsMapValues'' ''mapValues(resourceTagsMap)'' ''bloom_filter(0.01)'' 64]
       []
       (EMergeTree (merge_tree ''(timestamp, groupID)'' [] ''toDate(timestamp)''
         ''toDateTime(timestamp) + toIntervalSecond(1296000)'' [setting ''index_granularity'' ''8192'',
         setting ''ttl_only_drop_parts'' ''1'']))]
     [drop_table ''signoz_traces'' ''signoz_error_index_v2'']"

definition squashed_traces_7 :: SchemaMigrationRecord where
  "squashed_traces_7 = migration 7
     [create_table ''signoz_traces'' ''distributed_signoz_error_index_v2''
       [col ''timestamp'' (DateTime64ColumnType 9 []) ''DoubleDelta, LZ4'' [],
        col ''errorID'' (FixedStringColumnType 32) ''ZSTD(1)'' [],
        col ''groupID'' (FixedStringColumnType 32) ''ZSTD(1)'' [],
        col ''traceID'' (FixedStringColumnType 32) ''ZSTD(1)'' [],
        col ''spanID'' ColumnTypeString ''ZSTD(1)'' [],
        col ''serviceName'' (LowCardinalityColumnType ColumnTypeString) ''ZSTD(1)'' [],
        col ''exceptionType'' (LowCardinalityColumnType ColumnTypeString) ''ZSTD(1)'' [],
        col ''exceptionMessage'' ColumnTypeString ''ZSTD(1)'' [],
        col ''exceptionStacktrace'' ColumnTypeString ''ZSTD(1)'' [],
        col ''exceptionEscaped'' ColumnTypeBool ''T64, ZSTD(1)'' [],
        col ''resourceTagsMap'' (MapColumnType (LowCardinalityColumnType ColumnTypeString)
          ColumnTypeString) ''ZSTD(1)'' []]
       []
       []
       (distributed ''signoz_traces'' ''signoz_error_index_v2'' ''cityHash64(groupID)'')]
     [drop_table ''signoz_traces'' ''distributed_signoz_error_index_v2'']"

definition squashed_traces_8 :: SchemaMigrationRecord where
  "squashed_traces_8 = migration 8
     [create_table ''signoz_traces'' ''signoz_spans''
       [col ''timestamp'' (DateTime64ColumnType 9 []) ''DoubleDelta, LZ4'' [],
        col ''traceID'' (FixedStringColumnType 32) ''ZSTD(1)'' [],
        col ''model'' ColumnTypeString ''ZSTD(9)'' []]
       []
       []
       (EMergeTree (merge_tree ''(traceID)'' [] ''toDate(timestamp)''
         ''toDateTime(timestamp) + toIntervalSecond(1296000)'' [setting ''index_granularity'' ''1024'',
         setting ''ttl_only_drop_parts'' ''1'']))]
     [drop_table ''signoz_traces'' ''signoz_spans'']"

definition squashed_traces_9 :: SchemaMigrationRecord where
  "squashed_traces_9 = migration 9
     [create_table ''signoz_traces'' ''distributed_signoz_spans''
       [col ''timestamp'' (DateTime64ColumnType 9 []) ''DoubleDelta, LZ4'' [],
        col ''traceID'' (FixedStringColumnType 32) ''ZSTD(1)'' [],
        col ''model'' ColumnTypeString ''ZSTD(9)'' []]
       []
       []
       (distributed ''signoz_traces'' ''signoz_spans'' ''cityHash64(traceID)'')]
     [drop_table ''signoz_traces'' ''distributed_signoz_spans'']"

definition squashed_traces_10 :: SchemaMigrationRecord where
  "squashed_traces_10 = migration 10
     [create_table ''signoz_traces'' ''dependency_graph_minutes_v2''
       [col ''src'' (LowCardinalityColumnType ColumnTypeString) ''ZSTD(1)'' [],
        col ''dest'' (LowCardinalityColumnType ColumnTypeString) ''ZSTD(1)'' [],
        col ''duration_quantiles_state'' (AggregateFunction ''quantiles(0.5, 0.75, 0.9, 0.95, 0.99)''
          [ColumnTypeFloat64]) ''Default'' [],
        col ''error_count'' (SimpleAggregateFunction ''sum'' [ColumnTypeUInt64]) ''T64, ZSTD(1)'' [],
        col ''total_count'' (SimpleAggregateFunction ''sum'' [ColumnTypeUInt64]) ''T64, ZSTD(1)'' [],
        col ''timestamp'' (DateTimeColumnType []) ''DoubleDelta, LZ4'' [],
        col ''deployment_environment'' (LowCardinalityColumnType ColumnTypeString) ''ZSTD(1)'' [],
        col ''k8s_cluster_name'' (LowCardinalityColumnType ColumnTypeString) ''ZSTD(1)'' [],
        col ''k8s_namespace_name'' (LowCardinalityColumnType ColumnTypeString) ''ZSTD(1)'' []]
       []
       []
       (EAggregating (merge_tree
         ''(timestamp, src, dest, deployment_environment, k8s_cluster_name, k8s_namespace_name)'' []
         ''toDate(timestamp)'' ''toDateTime(timestamp) + toIntervalSecond(1296000)'' [setting
         ''index_granularity'' ''8192'']))]
     [drop_table ''signoz_traces'' ''dependency_graph_minutes_v2'']"

definition squashed_traces_11 :: SchemaMigrationRecord where
  "squashed_traces_11 = migration 11
     [create_view ''signoz_traces'' ''dependency_graph_minutes_db_calls_mv_v2''
       ''dependency_graph_minutes_v2''
       [col ''src'' (LowCardinalityColumnType ColumnTypeString) ''ZSTD(1)'' [],
        col ''dest'' (LowCardinalityColumnType ColumnTypeString) ''ZSTD(1)'' [],
        col ''duration_quantiles_state'' (AggregateFunction ''quantiles(0.5, 0.75, 0.9, 0.95, 0.99)''
          [ColumnTypeFloat64]) ''Default'' [],
        col ''error_count'' (SimpleAggregateFunction ''sum'' [ColumnTypeUInt64]) ''T64, ZSTD(1)'' [],
        col ''total_count'' (SimpleAggregateFunction ''sum'' [ColumnTypeUInt64]) ''T64, ZSTD(1)'' [],
        col ''timestamp'' (DateTimeColumnType []) ''DoubleDelta, LZ4'' [],
        col ''deployment_environment'' (LowCardinalityColumnType ColumnTypeString) ''ZSTD(1)'' [],
        col ''k8s_cluster_name'' (LowCardinalityColumnType ColumnTypeString) ''ZSTD(1)'' [],
        col ''k8s_namespace_name'' (LowCardinalityColumnType ColumnTypeString) ''ZSTD(1)'' []]
       (''SELECT'' @ br 0 @ ''    serviceName AS src,'' @ br 0 @ ''    dbSystem AS dest,'' @ br 0 @
         ''    quantilesState(0.5, 0.75, 0.9, 0.95, 0.99)(toFloat64(durationNano)) AS duration_quantiles_state,''
         @ br 0 @ ''    countIf(statusCode = 2) AS error_count,'' @ br 0 @
         ''    count(*) AS total_count,'' @ br 0 @ ''    toStartOfMinute(timestamp) AS timestamp,'' @ br 0
         @ ''    resourceTagsMap[\\'deployment.environment\\'] AS deployment_environment,'' @ br 0 @
         ''    resourceTagsMap[\\'k8s.cluster.name\\'] AS k8s_cluster_name,'' @ br 0 @
         ''    resourceTagsMap[\\'k8s.namespace.name\\'] AS k8s_namespace_name'' @ br 0 @
         ''FROM signoz_traces.signoz_index_v2'' @ br 0 @ ''WHERE (dest != '' @ [CHR 0x27, CHR 0x27] @
         '') AND (kind != 2)'' @ br 0 @ ''GROUP BY'' @ br 0 @ ''    timestamp,'' @ br 0 @ ''    src,'' @
         br 0 @ ''    dest,'' @ br 0 @ ''    deployment_environment,'' @ br 0 @ ''    k8s_cluster_name,''
         @ br 0 @ ''    k8s_namespace_name'')]
     [drop_table ''signoz_traces'' ''dependency_graph_minutes_db_calls_mv_v2'']"

definition squashed_traces_12 :: SchemaMigrationRecord where
  "squashed_traces_12 = migration 12
     [create_view ''signoz_traces'' ''dependency_graph_minutes_messaging_calls_mv_v2''
       ''dependency_graph_minutes_v2''
       [col ''src'' (LowCardinalityColumnType ColumnTypeString) ''ZSTD(1)'' [],
        col ''dest'' (LowCardinalityColumnType ColumnTypeString) ''ZSTD(1)'' [],
        col ''duration_quantiles_state'' (AggregateFunction ''quantiles(0.5, 0.75, 0.9, 0.95, 0.99)''
          [ColumnTypeFloat64]) ''Default'' [],
        col ''error_count'' (SimpleAggregateFunction ''sum'' [ColumnTypeUInt64]) ''T64, ZSTD(1)'' [],
        col ''total_count'' (SimpleAggregateFunction ''sum'' [ColumnTypeUInt64]) ''T64, ZSTD(1)'' [],
        col ''timestamp'' (DateTimeColumnType []) ''DoubleDelta, LZ4'' [],
        col ''deployment_environment'' (LowCardinalityColumnType ColumnTypeString) ''ZSTD(1)'' [],
        col ''k8s_cluster_name'' (LowCardinalityColumnType ColumnTypeString) ''ZSTD(1)'' [],
        col ''k8s_namespace_name'' (LowCardinalityColumnType ColumnTypeString) ''ZSTD(1)'' []]
       (''SELECT'' @ br 0 @ ''    serviceName AS src,'' @ br 0 @ ''    msgSystem AS dest,'' @ br 0 @
         ''    quantilesState(0.5, 0.75, 0.9, 0.95, 0.99)(toFloat64(durationNano)) AS duration_quantiles_state,''
         @ br 0 @ ''    countIf(statusCode = 2) AS error_count,'' @ br 0 @
         ''    count(*) AS total_count,'' @ br 0 @ ''    toStartOfMinute(timestamp) AS timestamp,'' @ br 0
         @ ''    resourceTagsMap[\\'deployment.environment\\'] AS deployment_environment,'' @ br 0 @
         ''    resourceTagsMap[\\'k8s.cluster.name\\'] AS k8s_cluster_name,'' @ br 0 @
         ''    resourceTagsMap[\\'k8s.namespace.name\\'] AS k8s_namespace_name'' @ br 0 @
         ''FROM signoz_traces.signoz_index_v2'' @ br 0 @ ''WHERE (dest != '' @ [CHR 0x27, CHR 0x27] @
         '') AND (kind != 2)'' @ br 0 @ ''GROUP BY'' @ br 0 @ ''    timestamp,'' @ br 0 @ ''    src,'' @
         br 0 @ ''    dest,'' @ br 0 @ ''    deployment_environment,'' @ br 0 @ ''    k8s_cluster_name,''
         @ br 0 @ ''    k8s_namespace_name'')]
     [drop_table ''signoz_traces'' ''dependency_graph_minutes_messaging_calls_mv_v2'']"

definition squashed_traces_13 :: SchemaMigrationRecord where
  "squashed_traces_13 = migration 13
     [create_view ''signoz_traces'' ''dependency_graph_minutes_service_calls_mv_v2''
       ''dependency_graph_minutes_v2''
       [col ''src'' (LowCardinalityColumnType ColumnTypeString) ''ZSTD(1)'' [],
        col ''dest'' (LowCardinalityColumnType ColumnTypeString) ''ZSTD(1)'' [],
        col ''duration_quantiles_state'' (AggregateFunction ''quantiles(0.5, 0.75, 0.9, 0.95, 0.99)''
          [ColumnTypeFloat64]) ''Default'' [],
        col ''error_count'' (SimpleAggregateFunction ''sum'' [ColumnTypeUInt64]) ''T64, ZSTD(1)'' [],
        col ''total_count'' (SimpleAggregateFunction ''sum'' [ColumnTypeUInt64]) ''T64, ZSTD(1)'' [],
        col ''timestamp'' (DateTimeColumnType []) ''DoubleDelta, LZ4'' [],
        col ''deployment_environment'' (LowCardinalityColumnType ColumnTypeString) ''ZSTD(1)'' [],
        col ''k8s_cluster_name'' (LowCardinalityColumnType ColumnTypeString) ''ZSTD(1)'' [],
        col ''k8s_namespace_name'' (LowCardinalityColumnType ColumnTypeString) ''ZSTD(1)'' []]
       (''SELECT'' @ br 0 @ ''    A.serviceName AS src,'' @ br 0 @ ''    B.serviceName AS dest,'' @ br 0 @
         ''    quantilesState(0.5, 0.75, 0.9, 0.95, 0.99)(toFloat64(B.durationNano)) AS duration_quantiles_state,''
         @ br 0 @ ''    countIf(B.statusCode = 2) AS error_count,'' @ br 0 @
         ''    count(*) AS total_count,'' @ br 0 @ ''    toStartOfMinute(B.timestamp) AS timestamp,'' @ br
         0 @ ''    B.resourceTagsMap[\\'deployment.environment\\'] AS deployment_environment,'' @ br 0 @
         ''    B.resourceTagsMap[\\'k8s.cluster.name\\'] AS k8s_cluster_name,'' @ br 0 @
         ''    B.resourceTagsMap[\\'k8s.namespace.name\\'] AS k8s_namespace_name'' @ br 0 @
         ''FROM signoz_traces.signoz_index_v2 AS A, signoz_traces.signoz_index_v2 AS B'' @ br 0 @
         ''WHERE (A.serviceName != B.serviceName) AND (A.spanID = B.parentSpanID)'' @ br 0 @ ''GROUP BY''
         @ br 0 @ ''    timestamp,'' @ br 0 @ ''    src,'' @ br 0 @ ''    dest,'' @ br 0 @
         ''    deployment_environment,'' @ br 0 @ ''    k8s_cluster_name,'' @ br 0 @
         ''    k8s_namespace_name'')]
     [drop_table ''signoz_traces'' ''dependency_graph_minutes_service_calls_mv_v2'']"

definition squashed_traces_14 :: SchemaMigrationRecord where
  "squashed_traces_14 = migration 14
     [create_table ''signoz_traces'' ''distributed_dependency_graph_minutes_v2''
       [col ''src'' (LowCardinalityColumnType ColumnTypeString) ''ZSTD(1)'' [],
        col ''dest'' (LowCardinalityColumnType ColumnTypeString) ''ZSTD(1)'' [],
        col ''duration_quantiles_state'' (AggregateFunction ''quantiles(0.5, 0.75, 0.9, 0.95, 0.99)''
          [ColumnTypeFloat64]) ''Default'' [],
        col ''error_count'' (SimpleAggregateFunction ''sum'' [ColumnTypeUInt64]) ''T64, ZSTD(1)'' [],
        col ''total_count'' (SimpleAggregateFunction ''sum'' [ColumnTypeUInt64]) ''T64, ZSTD(1)'' [],
        col ''timestamp'' (DateTimeColumnType []) ''DoubleDelta, LZ4'' [],
        col ''deployment_environment'' (LowCardinalityColumnType ColumnTypeString) ''ZSTD(1)'' [],
        col ''k8s_cluster_name'' (LowCardinalityColumnType ColumnTypeString) ''ZSTD(1)'' [],
        col ''k8s_namespace_name'' (LowCardinalityColumnType ColumnTypeString) ''ZSTD(1)'' []]
       []
       []
       (distributed ''signoz_traces'' ''dependency_graph_minutes_v2'' ''cityHash64(rand())'')]
     [drop_table ''signoz_traces'' ''distributed_dependency_graph_minutes_v2'']"

definition squashed_traces_15 :: SchemaMigrationRecord where
  "squashed_traces_15 = migration 15
     [create_table ''signoz_traces'' ''usage_explorer''
       [col ''timestamp'' (DateTime64ColumnType 9 []) ''DoubleDelta, LZ4'' [],
        col ''service_name'' (LowCardinalityColumnType ColumnTypeString) ''ZSTD(1)'' [],
        col ''count'' ColumnTypeUInt64 ''T64, ZSTD(1)'' []]
       []
       []
       (ESumming (merge_tree ''(timestamp, service_name)'' [] ''toDate(timestamp)''
         ''toDateTime(timestamp) + toIntervalSecond(1296000)'' [setting ''index_granularity'' ''8192'',
         setting ''ttl_only_drop_parts'' ''1'']))]
     [drop_table ''signoz_traces'' ''usage_explorer'']"

definition squashed_traces_16 :: SchemaMigrationRecord where
  "squashed_traces_16 = migration 16
     [create_view ''signoz_traces'' ''usage_explorer_mv'' ''usage_explorer''
       [col ''timestamp'' (DateTime64ColumnType 9 []) ''DoubleDelta, LZ4'' [],
        col ''service_name'' (LowCardinalityColumnType ColumnTypeString) ''ZSTD(1)'' [],
        col ''count'' ColumnTypeUInt64 ''T64, ZSTD(1)'' []]
       (''SELECT'' @ br 0 @ ''    toStartOfHour(timestamp) AS timestamp,'' @ br 0 @
         ''    serviceName AS service_name,'' @ br 0 @ ''    count() AS count'' @ br 0 @
         ''FROM signoz_traces.signoz_index_v2'' @ br 0 @ ''GROUP BY'' @ br 0 @ ''    timestamp,'' @ br 0 @
         ''    serviceName'')]
     [drop_table ''signoz_traces'' ''usage_explorer_mv'']"

definition squashed_traces_17 :: SchemaMigrationRecord where
  "squashed_traces_17 = migration 17
     [create_table ''signoz_traces'' ''distributed_usage_explorer''
       [col ''timestamp'' (DateTime64ColumnType 9 []) ''DoubleDelta, LZ4'' [],
        col ''service_name'' (LowCardinalityColumnType ColumnTypeString) ''ZSTD(1)'' [],
        col ''count'' ColumnTypeUInt64 ''T64, ZSTD(1)'' []]
       []
       []
       (distributed ''signoz_traces'' ''usage_explorer'' ''cityHash64(rand())'')]
     [drop_table ''signoz_traces'' ''distributed_usage_explorer'']"

definition squashed_traces_18 :: SchemaMigrationRecord where
  "squashed_traces_18 = migration 18
     [create_table ''signoz_traces'' ''top_level_operations''
       [col ''name'' (LowCardinalityColumnType ColumnTypeString) ''ZSTD(1)'' [],
        col ''serviceName'' (LowCardinalityColumnType ColumnTypeString) ''ZSTD(1)'' [],
        col ''time'' (DateTimeColumnType []) ''ZSTD(1)'' ''now()'']
       []
       []
       (replacing (merge_tree ''(serviceName, name)'' [] [] ''time + toIntervalMonth(1)'' [setting
         ''index_granularity'' ''8192'']) [])]
     [drop_table ''signoz_traces'' ''top_level_operations'']"

definition squashed_traces_19 :: SchemaMigrationRecord where
  "squashed_traces_19 = migration 19
     [create_table ''signoz_traces'' ''distributed_top_level_operations''
       [col ''name'' (LowCardinalityColumnType ColumnTypeString) ''ZSTD(1)'' [],
        col ''serviceName'' (LowCardinalityColumnType ColumnTypeString) ''ZSTD(1)'' [],
        col ''time'' (DateTimeColumnType []) ''ZSTD(1)'' ''now()'']
       []
       []
       (distributed ''signoz_traces'' ''top_level_operations'' ''cityHash64(rand())'')]
     [drop_table ''signoz_traces'' ''distributed_top_level_operations'']"

definition squashed_traces_20 :: SchemaMigrationRecord where
  "squashed_traces_20 = migration 20
     [create_view ''signoz_traces'' ''root_operations'' ''top_level_operations''
       [col ''name'' (LowCardinalityColumnType ColumnTypeString) ''ZSTD(1)'' [],
        col ''serviceName'' (LowCardinalityColumnType ColumnTypeString) ''ZSTD(1)'' []]
       (''SELECT DISTINCT'' @ br 0 @ ''    name,'' @ br 0 @ ''    serviceName'' @ br 0 @
         ''FROM signoz_traces.signoz_index_v2'' @ br 0 @ ''WHERE parentSpanID = '' @ [CHR 0x27, CHR 0x27])]
     [drop_table ''signoz_traces'' ''root_operations'']"

definition squashed_traces_21 :: SchemaMigrationRecord where
  "squashed_traces_21 = migration 21
     [create_view ''signoz_traces'' ''sub_root_operations'' ''top_level_operations''
       [col ''name'' (LowCardinalityColumnType ColumnTypeString) ''ZSTD(1)'' [],
        col ''serviceName'' (LowCardinalityColumnType ColumnTypeString) ''ZSTD(1)'' []]
       (''SELECT DISTINCT'' @ br 0 @ ''    name,'' @ br 0 @ ''    serviceName'' @ br 0 @
         ''FROM signoz_traces.signoz_index_v2 AS A, signoz_traces.signoz_index_v2 AS B'' @ br 0 @
         ''WHERE (A.serviceName != B.serviceName) AND (A.parentSpanID = B.spanID)'')]
     [drop_table ''signoz_traces'' ''sub_root_operations'']"

definition squashed_traces_22 :: SchemaMigrationRecord where
  "squashed_traces_22 = migration 22
     [create_table ''signoz_traces'' ''span_attributes''
       [col ''timestamp'' (DateTimeColumnType []) ''DoubleDelta, ZSTD(1)'' [],
        col ''tagKey'' (LowCardinalityColumnType ColumnTypeString) ''ZSTD(1)'' [],
        col ''tagType'' (EnumerationColumnType [''\\'tag\\' = 1'', ''\\'resource\\' = 2''] 8) ''ZSTD(1)'' [],
        col ''dataType'' (EnumerationColumnType [''\\'string\\' = 1'', ''\\'bool\\' = 2'',
          ''\\'float64\\' = 3''] 8) ''ZSTD(1)'' [],
        col ''stringTagValue'' ColumnTypeString ''ZSTD(1)'' [],
        col ''float64TagValue'' (NullableColumnType ColumnTypeFloat64) ''ZSTD(1)'' [],
        col ''isColumn'' ColumnTypeBool ''ZSTD(1)'' []]
       []
       []
       (replacing (merge_tree ''(tagKey, tagType, dataType, stringTagValue, float64TagValue, isColumn)''
         [] [] ''toDateTime(timestamp) + toIntervalSecond(172800)'' [setting ''index_granularity''
         ''8192'', setting ''ttl_only_drop_parts'' ''1'', setting ''allow_nullable_key'' ''1'']) [])]
     [drop_table ''signoz_traces'' ''span_attributes'']"

definition squashed_traces_23 :: SchemaMigrationRecord where
  "squashed_traces_23 = migration 23
     [create_table ''signoz_traces'' ''distributed_span_attributes''
       [col ''timestamp'' (DateTimeColumnType []) ''DoubleDelta, ZSTD(1)'' [],
        col ''tagKey'' (LowCardinalityColumnType ColumnTypeString) ''ZSTD(1)'' [],
        col ''tagType'' (EnumerationColumnType [''\\'tag\\' = 1'', ''\\'resource\\' = 2''] 8) ''ZSTD(1)'' [],
        col ''dataType'' (EnumerationColumnType [''\\'string\\' = 1'', ''\\'bool\\' = 2'',
          ''\\'float64\\' = 3''] 8) ''ZSTD(1)'' [],
        col ''stringTagValue'' ColumnTypeString ''ZSTD(1)'' [],
        col ''float64TagValue'' (NullableColumnType ColumnTypeFloat64) ''ZSTD(1)'' [],
        col ''isColumn'' ColumnTypeBool ''ZSTD(1)'' []]
       []
       []
       (distributed ''signoz_traces'' ''span_attributes'' ''cityHash64(rand())'')]
     [drop_table ''signoz_traces'' ''distributed_span_attributes'']"

definition squashed_traces_24 :: SchemaMigrationRecord where
  "squashed_traces_24 = migration 24
     [create_table ''signoz_traces'' ''span_attributes_keys''
       [col ''tagKey'' (LowCardinalityColumnType ColumnTypeString) ''ZSTD(1)'' [],
        col ''tagType'' (EnumerationColumnType [''\\'tag\\' = 1'', ''\\'resource\\' = 2''] 8) ''ZSTD(1)'' [],
        col ''dataType'' (EnumerationColumnType [''\\'string\\' = 1'', ''\\'bool\\' = 2'',
          ''\\'float64\\' = 3''] 8) ''ZSTD(1)'' [],
        col ''isColumn'' ColumnTypeBool ''ZSTD(1)'' []]
       []
       []
       (replacing (merge_tree ''(tagKey, tagType, dataType, isColumn)'' [] [] [] []) [])]
     [drop_table ''signoz_traces'' ''span_attributes_keys'']"

definition squashed_traces_25 :: SchemaMigrationRecord where
  "squashed_traces_25 = migration 25
     [create_table ''signoz_traces'' ''distributed_span_attributes_keys''
       [col ''tagKey'' (LowCardinalityColumnType ColumnTypeString) ''ZSTD(1)'' [],
        col ''tagType'' (EnumerationColumnType [''\\'tag\\' = 1'', ''\\'resource\\' = 2''] 8) ''ZSTD(1)'' [],
        col ''dataType'' (EnumerationColumnType [''\\'string\\' = 1'', ''\\'bool\\' = 2'',
          ''\\'float64\\' = 3''] 8) ''ZSTD(1)'' [],
        col ''isColumn'' ColumnTypeBool ''ZSTD(1)'' []]
       []
       []
       (distributed ''signoz_traces'' ''span_attributes_keys'' ''cityHash64(rand())'')]
     [drop_table ''signoz_traces'' ''distributed_span_attributes_keys'']"

definition squashed_traces_26 :: SchemaMigrationRecord where
  "squashed_traces_26 = migration 26
     [create_table ''signoz_traces'' ''usage''
       [col ''tenant'' ColumnTypeString ''ZSTD(1)'' [],
        col ''collector_id'' ColumnTypeString ''ZSTD(1)'' [],
        col ''exporter_id'' ColumnTypeString ''ZSTD(1)'' [],
        col ''timestamp'' (DateTimeColumnType []) ''ZSTD(1)'' [],
        col ''data'' ColumnTypeString ''ZSTD(1)'' []]
       []
       []
       (EMergeTree (merge_tree ''(tenant, collector_id, exporter_id, timestamp)'' [] []
         ''timestamp + toIntervalDay(3)'' [setting ''index_granularity'' ''8192'']))]
     [drop_table ''signoz_traces'' ''usage'']"

definition squashed_traces_27 :: SchemaMigrationRecord where
  "squashed_traces_27 = migration 27
     [create_table ''signoz_traces'' ''distributed_usage''
       [col ''tenant'' ColumnTypeString ''ZSTD(1)'' [],
        col ''collector_id'' ColumnTypeString ''ZSTD(1)'' [],
        col ''exporter_id'' ColumnTypeString ''ZSTD(1)'' [],
        col ''timestamp'' (DateTimeColumnType []) ''ZSTD(1)'' [],
        col ''data'' ColumnTypeString ''ZSTD(1)'' []]
       []
       []
       (distributed ''signoz_traces'' ''usage'' ''cityHash64(rand())'')]
     []"

definition squashed_traces_migrations :: "SchemaMigrationRecord list" where
  "squashed_traces_migrations =
     [squashed_traces_1, squashed_traces_2, squashed_traces_3, squashed_traces_4,
      squashed_traces_5, squashed_traces_6, squashed_traces_7, squashed_traces_8,
      squashed_traces_9, squashed_traces_10, squashed_traces_11, squashed_traces_12,
      squashed_traces_13, squashed_traces_14, squashed_traces_15, squashed_traces_16,
      squashed_traces_17, squashed_traces_18, squashed_traces_19, squashed_traces_20,
      squashed_traces_21, squashed_traces_22, squashed_traces_23, squashed_traces_24,
      squashed_traces_25, squashed_traces_26, squashed_traces_27]"

lemmas traces_migrations_recs =
  traces_migration_1000_def traces_migration_1001_def traces_migration_1002_def
  traces_migration_1003_def traces_migration_1004_def traces_migration_1005_def
  traces_migration_1006_def traces_migration_1007_def traces_migration_1008_def
  traces_migration_1009_def traces_migration_1010_def traces_migration_1011_def
  traces_migration_1012_def traces_migration_1013_def traces_migration_1014_def
  traces_migration_1015_def traces_migration_1016_def traces_migration_1017_def
  traces_migration_1018_def

lemmas traces_migrations_ops =
  traces_migration_1000_up1_def traces_migration_1000_up2_def traces_migration_1000_up3_def
  traces_migration_1000_down_def traces_migration_1005_up1_def traces_migration_1005_up2_def
  traces_migration_1005_down_def traces_migration_1017_up1_def traces_migration_1017_up2_def
  traces_migration_1017_up3_def traces_migration_1017_up4_def traces_migration_1017_down1_def
  traces_migration_1017_down2_def

lemmas squashed_traces_migrations_recs =
  squashed_traces_1_def squashed_traces_2_def squashed_traces_3_def squashed_traces_4_def
  squashed_traces_5_def squashed_traces_6_def squashed_traces_7_def squashed_traces_8_def
  squashed_traces_9_def squashed_traces_10_def squashed_traces_11_def squashed_traces_12_def
  squashed_traces_13_def squashed_traces_14_def squashed_traces_15_def squashed_traces_16_def
  squashed_traces_17_def squashed_traces_18_def squashed_traces_19_def squashed_traces_20_def
  squashed_traces_21_def squashed_traces_22_def squashed_traces_23_def squashed_traces_24_def
  squashed_traces_25_def squashed_traces_26_def squashed_traces_27_def

end
