(* ===== verification/Migrations_Others.thy ===== *)
theory Migrations_Others
  imports Migration_Literals
begin

text \<open>
  The migrations of the metadata, analytics and meter databases, and the tables that record which
  migrations have run. \<open>nano\<close> is the clock: its successive readings while the package is
    initialised.
\<close>

section \<open>\<open>MetadataMigrations\<close> (\<open>metadata_migrations.go\<close>)\<close>

definition metadata_migration_1000 :: SchemaMigrationRecord where
  "metadata_migration_1000 = migration 1000
     [create_table ''signoz_metadata'' ''attributes_metadata''
       [col ''unix_milli'' ColumnTypeUInt64 [] [],
        col ''data_source'' ColumnTypeString [] [],
        col ''resource_fingerprint'' ColumnTypeUInt64 [] [],
        col ''attrs_fingerprint'' ColumnTypeUInt64 [] [],
        col ''resource_attributes'' (MapColumnType (LowCardinalityColumnType ColumnTypeString)
          ColumnTypeString) [] [],
        col ''attributes'' (MapColumnType (LowCardinalityColumnType ColumnTypeString) ColumnTypeString) [] []]
       [idx ''idx_resource_attributes_map_keys'' ''mapKeys(resource_attributes)''
         ''tokenbf_v1(1024, 2, 0)'' 1,
        idx ''idx_attributes_map_keys'' ''mapKeys(attributes)'' ''tokenbf_v1(1024, 2, 0)'' 1,
        idx ''idx_resource_attributes_map_values'' ''mapValues(resource_attributes)''
          ''ngrambf_v1(4, 5000, 2, 0)'' 1,
        idx ''idx_attributes_map_values'' ''mapValues(attributes)'' ''ngrambf_v1(4, 5000, 2, 0)'' 1]
       []
       (replacing (merge_tree ''(data_source, unix_milli, resource_fingerprint, attrs_fingerprint)'' []
         ''toDate(unix_milli / 1000)'' ''toDateTime(unix_milli / 1000) + INTERVAL 2592000 SECOND DELETE''
         [setting ''ttl_only_drop_parts'' ''1'', setting ''index_granularity'' ''8192'']) []),
      create_table ''signoz_metadata'' ''distributed_attributes_metadata''
       [col ''unix_milli'' ColumnTypeUInt64 [] [],
        col ''data_source'' ColumnTypeString [] [],
        col ''resource_fingerprint'' ColumnTypeUInt64 [] [],
        col ''attrs_fingerprint'' ColumnTypeUInt64 [] [],
        col ''resource_attributes'' (MapColumnType (LowCardinalityColumnType ColumnTypeString)
          ColumnTypeString) [] [],
        col ''attributes'' (MapColumnType (LowCardinalityColumnType ColumnTypeString) ColumnTypeString) [] []]
       []
       []
       (distributed ''signoz_metadata'' ''attributes_metadata''
         ''cityHash64(data_source, resource_fingerprint, attrs_fingerprint)'')]
     [drop_table ''signoz_metadata'' ''distributed_attributes_metadata'',
      drop_table ''signoz_metadata'' ''attributes_metadata'']"

definition metadata_migration_1001 :: "(nat \<Rightarrow> int) \<Rightarrow> SchemaMigrationRecord" where
  "metadata_migration_1001 nano = migration 1001
     [create_table ''signoz_metadata'' ''column_evolution_metadata''
       [col ''signal'' ColumnTypeString ''ZSTD(1)'' [],
        col ''column_name'' ColumnTypeString ''ZSTD(1)'' [],
        col ''column_type'' ColumnTypeString ''ZSTD(1)'' [],
        col ''field_context'' ColumnTypeString ''ZSTD(1)'' [],
        col ''field_name'' ColumnTypeString ''ZSTD(1)'' [],
        col ''version'' ColumnTypeUInt32 ''DoubleDelta, ZSTD(1)'' [],
        col ''release_time'' (SimpleAggregateFunction ''min'' [ColumnTypeFloat64]) ''ZSTD(1)'' []]
       []
       []
       (EAggregating (merge_tree
         ''(signal, column_name, column_type, field_context, field_name, version)'' []
         ''toDate(release_time / 1000000000)'' [] [])),
      create_table ''signoz_metadata'' ''distributed_column_evolution_metadata''
       [col ''signal'' ColumnTypeString ''ZSTD(1)'' [],
        col ''column_name'' ColumnTypeString ''ZSTD(1)'' [],
        col ''column_type'' ColumnTypeString ''ZSTD(1)'' [],
        col ''field_context'' ColumnTypeString ''ZSTD(1)'' [],
        col ''field_name'' ColumnTypeString ''ZSTD(1)'' [],
        col ''version'' ColumnTypeUInt32 ''DoubleDelta, ZSTD(1)'' [],
        col ''release_time'' (SimpleAggregateFunction ''min'' [ColumnTypeFloat64]) ''ZSTD(1)'' []]
       []
       []
       (distributed ''signoz_metadata'' ''column_evolution_metadata'' ''cityHash64(signal,column_name)''),
      insert_into ''signoz_metadata'' ''distributed_column_evolution_metadata''
       [''signal'', ''column_name'', ''column_type'', ''field_context'', ''field_name'', ''version'',
         ''release_time'']
       True True
         ''(\\'logs\\', \\'resources_string\\', \\'Map(LowCardinality(String), Float64)\\', \\'resource\\', \\'__all__\\', 0, 0)'',
      insert_into ''signoz_metadata'' ''distributed_column_evolution_metadata''
       [''signal'', ''column_name'', ''column_type'', ''field_context'', ''field_name'', ''version'',
         ''release_time'']
       True True (''(\\'logs\\', \\'resource\\', \\'JSON()\\', \\'resource\\', \\'__all__\\', 1, '' @ Itoa
         (nano 0) @ '')''),
      insert_into ''signoz_metadata'' ''distributed_column_evolution_metadata''
       [''signal'', ''column_name'', ''column_type'', ''field_context'', ''field_name'', ''version'',
         ''release_time'']
       True True
         ''(\\'traces\\', \\'resources_string\\', \\'Map(LowCardinality(String), Float64)\\', \\'resource\\', \\'__all__\\', 0, 0)'',
      insert_into ''signoz_metadata'' ''distributed_column_evolution_metadata''
       [''signal'', ''column_name'', ''column_type'', ''field_context'', ''field_name'', ''version'',
         ''release_time'']
       True True (''(\\'traces\\', \\'resource\\', \\'JSON()\\', \\'resource\\', \\'__all__\\', 1, '' @
         Itoa (nano 1) @ '')'')]
     [drop_table ''signoz_metadata'' ''distributed_column_evolution_metadata'',
      drop_table ''signoz_metadata'' ''column_evolution_metadata'']"

definition metadata_migration_1002 :: "(nat \<Rightarrow> int) \<Rightarrow> SchemaMigrationRecord" where
  "metadata_migration_1002 nano = migration 1002
     [insert_into ''signoz_metadata'' ''distributed_column_evolution_metadata''
       [''signal'', ''column_name'', ''column_type'', ''field_context'', ''field_name'', ''version'',
         ''release_time'']
       True True (''(\\'traces\\', \\'attributes\\', \\'JSON()\\', \\'attribute\\', \\'__all__\\', 1, '' @
         Itoa (nano 2) @ '')'')]
     []"

definition metadata_migrations :: "(nat \<Rightarrow> int) \<Rightarrow> SchemaMigrationRecord list" where
  "metadata_migrations nano =
     [metadata_migration_1000, metadata_migration_1001 nano, metadata_migration_1002 nano]"

section \<open>\<open>AnalyticsMigrations\<close> (\<open>analytics_migrations.go\<close>)\<close>

definition analytics_migration_1 :: SchemaMigrationRecord where
  "analytics_migration_1 = migration 1
     [create_table ''signoz_analytics'' ''rule_state_history_v0''
       [col ''_retention_days'' ColumnTypeUInt32 [] ''180'',
        col ''rule_id'' (LowCardinalityColumnType ColumnTypeString) [] [],
        col ''rule_name'' (LowCardinalityColumnType ColumnTypeString) [] [],
        col ''overall_state'' (LowCardinalityColumnType ColumnTypeString) [] [],
        col ''overall_state_changed'' ColumnTypeBool [] [],
        col ''state'' (LowCardinalityColumnType ColumnTypeString) [] [],
        col ''state_changed'' ColumnTypeBool [] [],
        col ''unix_milli'' ColumnTypeInt64 ''Delta(8), ZSTD(1)'' [],
        col ''fingerprint'' ColumnTypeUInt64 ''ZSTD(1)'' [],
        col ''value'' ColumnTypeFloat64 ''Gorilla, ZSTD(1)'' [],
        col ''labels'' ColumnTypeString ''ZSTD(5)'' []]
       []
       []
       (EMergeTree (merge_tree ''(rule_id, unix_milli)'' [] ''toDate(unix_milli / 1000)''
         ''toDateTime(unix_milli / 1000) + toIntervalDay(_retention_days)'' [setting
         ''ttl_only_drop_parts'' ''1'', setting ''index_granularity'' ''8192''])),
      create_table ''signoz_analytics'' ''distributed_rule_state_history_v0''
       [col ''rule_id'' (LowCardinalityColumnType ColumnTypeString) [] [],
        col ''rule_name'' (LowCardinalityColumnType ColumnTypeString) [] [],
        col ''overall_state'' (LowCardinalityColumnType ColumnTypeString) [] [],
        col ''overall_state_changed'' ColumnTypeBool [] [],
        col ''state'' (LowCardinalityColumnType ColumnTypeString) [] [],
        col ''state_changed'' ColumnTypeBool [] [],
        col ''unix_milli'' ColumnTypeInt64 ''Delta(8), ZSTD(1)'' [],
        col ''fingerprint'' ColumnTypeUInt64 ''ZSTD(1)'' [],
        col ''value'' ColumnTypeFloat64 ''Gorilla, ZSTD(1)'' [],
        col ''labels'' ColumnTypeString ''ZSTD(5)'' []]
       []
       []
       (distributed ''signoz_analytics'' ''rule_state_history_v0''
         ''cityHash64(rule_id, rule_name, fingerprint)'')]
     [drop_table ''signoz_analytics'' ''distributed_rule_state_history_v0'',
      drop_table ''signoz_analytics'' ''rule_state_history_v0'']"

definition analytics_migrations :: "SchemaMigrationRecord list" where
  "analytics_migrations =
     [analytics_migration_1]"

section \<open>\<open>MeterMigrations\<close> (\<open>meter_migrations.go\<close>)\<close>

definition meter_migration_1 :: SchemaMigrationRecord where
  "meter_migration_1 = migration 1
     [create_table ''signoz_meter'' ''samples''
       [col ''temporality'' (LowCardinalityColumnType ColumnTypeString) [] (''\\'Unspecified'' @ [CHR 0x27]),
        col ''metric_name'' (LowCardinalityColumnType ColumnTypeString) [] [],
        col ''description'' (LowCardinalityColumnType ColumnTypeString) [] (''\\'default'' @ [CHR 0x27]),
        col ''unit'' (LowCardinalityColumnType ColumnTypeString) [] (''\\'default'' @ [CHR 0x27]),
        col ''type'' (LowCardinalityColumnType ColumnTypeString) [] (''\\'default'' @ [CHR 0x27]),
        col ''is_monotonic'' ColumnTypeBool [] ''false'',
        col ''labels'' ColumnTypeString ''ZSTD(5)'' [],
        col ''fingerprint'' ColumnTypeUInt64 ''Delta(8), ZSTD(1)'' [],
        col ''unix_milli'' ColumnTypeInt64 ''DoubleDelta, ZSTD(1)'' [],
        col ''value'' ColumnTypeFloat64 ''Gorilla, ZSTD(1)'' []]
       []
       []
       (EMergeTree (merge_tree
         ''(temporality, metric_name, fingerprint, toDayOfMonth(toDateTime(intDiv(unix_milli, 1000))))''
         [] ''toYYYYMM(toDateTime(intDiv(unix_milli, 1000)))''
         ''toDateTime(intDiv(unix_milli, 1000)) + toIntervalYear(1)'' [setting ''index_granularity''
         ''8192'', setting ''ttl_only_drop_parts'' ''1'']))]
     [drop_table ''signoz_meter'' ''samples'']"

definition meter_migration_2 :: SchemaMigrationRecord where
  "meter_migration_2 = migration 2
     [create_table ''signoz_meter'' ''distributed_samples''
       [col ''temporality'' (LowCardinalityColumnType ColumnTypeString) [] (''\\'Unspecified'' @ [CHR 0x27]),
        col ''metric_name'' (LowCardinalityColumnType ColumnTypeString) [] [],
        col ''description'' (LowCardinalityColumnType ColumnTypeString) [] (''\\'default'' @ [CHR 0x27]),
        col ''unit'' (LowCardinalityColumnType ColumnTypeString) [] (''\\'default'' @ [CHR 0x27]),
        col ''type'' (LowCardinalityColumnType ColumnTypeString) [] (''\\'default'' @ [CHR 0x27]),
        col ''is_monotonic'' ColumnTypeBool [] ''false'',
        col ''labels'' ColumnTypeString ''ZSTD(5)'' [],
        col ''fingerprint'' ColumnTypeUInt64 ''Delta(8), ZSTD(1)'' [],
        col ''unix_milli'' ColumnTypeInt64 ''DoubleDelta, ZSTD(1)'' [],
        col ''value'' ColumnTypeFloat64 ''Gorilla, ZSTD(1)'' []]
       []
       []
       (distributed ''signoz_meter'' ''samples'' ''cityHash64(temporality, metric_name, fingerprint)'')]
     [drop_table ''signoz_meter'' ''distributed_samples'']"

definition meter_migration_3 :: SchemaMigrationRecord where
  "meter_migration_3 = migration 3
     [create_table ''signoz_meter'' ''samples_agg_1d''
       [col ''temporality'' (LowCardinalityColumnType ColumnTypeString) [] (''\\'Unspecified'' @ [CHR 0x27]),
        col ''metric_name'' (LowCardinalityColumnType ColumnTypeString) [] [],
        col ''description'' (LowCardinalityColumnType ColumnTypeString) [] (''\\'default'' @ [CHR 0x27]),
        col ''unit'' (LowCardinalityColumnType ColumnTypeString) [] (''\\'default'' @ [CHR 0x27]),
        col ''type'' (LowCardinalityColumnType ColumnTypeString) [] (''\\'default'' @ [CHR 0x27]),
        col ''is_monotonic'' ColumnTypeBool [] ''false'',
        col ''labels'' ColumnTypeString ''ZSTD(5)'' [],
        col ''fingerprint'' ColumnTypeUInt64 ''Delta(8), ZSTD(1)'' [],
        col ''unix_milli'' ColumnTypeInt64 ''DoubleDelta, ZSTD(1)'' [],
        col ''last'' (SimpleAggregateFunction ''anyLast'' [ColumnTypeFloat64]) ''ZSTD(1)'' [],
        col ''min'' (SimpleAggregateFunction ''min'' [ColumnTypeFloat64]) ''ZSTD(1)'' [],
        col ''max'' (SimpleAggregateFunction ''max'' [ColumnTypeFloat64]) ''ZSTD(1)'' [],
        col ''sum'' (SimpleAggregateFunction ''sum'' [ColumnTypeFloat64]) ''ZSTD(1)'' [],
        col ''count'' (SimpleAggregateFunction ''sum'' [ColumnTypeUInt64]) ''ZSTD(1)'' []]
       []
       []
       (EAggregating (merge_tree
         ''(temporality, metric_name, fingerprint, toDayOfMonth(toDateTime(intDiv(unix_milli, 1000))))''
         [] ''toYYYYMM(toDateTime(intDiv(unix_milli, 1000)))''
         ''toDateTime(intDiv(unix_milli, 1000)) + toIntervalYear(1)'' [setting ''index_granularity''
         ''8192'', setting ''ttl_only_drop_parts'' ''1'']))]
     [drop_table ''signoz_meter'' ''samples_agg_1d'']"

definition meter_migration_4 :: SchemaMigrationRecord where
  "meter_migration_4 = migration 4
     [create_table ''signoz_meter'' ''distributed_samples_agg_1d''
       [col ''temporality'' (LowCardinalityColumnType ColumnTypeString) [] (''\\'Unspecified'' @ [CHR 0x27]),
        col ''metric_name'' (LowCardinalityColumnType ColumnTypeString) [] [],
        col ''description'' (LowCardinalityColumnType ColumnTypeString) [] (''\\'default'' @ [CHR 0x27]),
        col ''unit'' (LowCardinalityColumnType ColumnTypeString) [] (''\\'default'' @ [CHR 0x27]),
        col ''type'' (LowCardinalityColumnType ColumnTypeString) [] (''\\'default'' @ [CHR 0x27]),
        col ''is_monotonic'' ColumnTypeBool [] ''false'',
        col ''labels'' ColumnTypeString ''ZSTD(5)'' [],
        col ''fingerprint'' ColumnTypeUInt64 ''Delta(8), ZSTD(1)'' [],
        col ''unix_milli'' ColumnTypeInt64 ''DoubleDelta, ZSTD(1)'' [],
        col ''last'' (SimpleAggregateFunction ''anyLast'' [ColumnTypeFloat64]) ''ZSTD(1)'' [],
        col ''min'' (SimpleAggregateFunction ''min'' [ColumnTypeFloat64]) ''ZSTD(1)'' [],
        col ''max'' (SimpleAggregateFunction ''max'' [ColumnTypeFloat64]) ''ZSTD(1)'' [],
        col ''sum'' (SimpleAggregateFunction ''sum'' [ColumnTypeFloat64]) ''ZSTD(1)'' [],
        col ''count'' (SimpleAggregateFunction ''sum'' [ColumnTypeUInt64]) ''ZSTD(1)'' []]
       []
       []
       (distributed ''signoz_meter'' ''samples_agg_1d''
         ''cityHash64(temporality, metric_name, fingerprint)'')]
     [drop_table ''signoz_meter'' ''distributed_samples_agg_1d'']"

definition meter_migration_5 :: SchemaMigrationRecord where
  "meter_migration_5 = migration 5
     [create_view ''signoz_meter'' ''samples_agg_1d_mv'' ''samples_agg_1d''
       [col ''temporality'' (LowCardinalityColumnType ColumnTypeString) [] (''\\'Unspecified'' @ [CHR 0x27]),
        col ''metric_name'' (LowCardinalityColumnType ColumnTypeString) [] [],
        col ''description'' (LowCardinalityColumnType ColumnTypeString) [] (''\\'default'' @ [CHR 0x27]),
        col ''unit'' (LowCardinalityColumnType ColumnTypeString) [] (''\\'default'' @ [CHR 0x27]),
        col ''type'' (LowCardinalityColumnType ColumnTypeString) [] (''\\'default'' @ [CHR 0x27]),
        col ''is_monotonic'' ColumnTypeBool [] ''false'',
        col ''labels'' ColumnTypeString ''ZSTD(5)'' [],
        col ''fingerprint'' ColumnTypeUInt64 ''Delta(8), ZSTD(1)'' [],
        col ''unix_milli'' ColumnTypeInt64 ''DoubleDelta, ZSTD(1)'' [],
        col ''last'' (SimpleAggregateFunction ''anyLast'' [ColumnTypeFloat64]) ''ZSTD(1)'' [],
        col ''min'' (SimpleAggregateFunction ''min'' [ColumnTypeFloat64]) ''ZSTD(1)'' [],
        col ''max'' (SimpleAggregateFunction ''max'' [ColumnTypeFloat64]) ''ZSTD(1)'' [],
        col ''sum'' (SimpleAggregateFunction ''sum'' [ColumnTypeFloat64]) ''ZSTD(1)'' [],
        col ''count'' (SimpleAggregateFunction ''sum'' [ColumnTypeUInt64]) ''ZSTD(1)'' []]
       (''SELECT'' @ br 7 @ ''temporality,'' @ br 7 @ ''metric_name,'' @ br 7 @ ''description,'' @ br 7 @
         ''unit,'' @ br 7 @ ''type,'' @ br 7 @ ''is_monotonic,'' @ br 7 @ ''labels,'' @ br 7 @
         ''fingerprint,'' @ br 7 @ ''intDiv(unix_milli,86400000) * 86400000 as unix_milli,'' @ br 7 @
         ''anyLast(value) as last,'' @ br 7 @ ''min(value) as min,'' @ br 7 @ ''max(value) as max,'' @ br
         7 @ ''sum(value) as sum,'' @ br 7 @ ''count(*) as count'' @ br 6 @ ''FROM signoz_meter.samples''
         @ br 6 @ ''GROUP BY'' @ br 7 @ ''temporality,'' @ br 7 @ ''metric_name,'' @ br 7 @
         ''fingerprint,'' @ br 7 @ ''description,'' @ br 7 @ ''unit,'' @ br 7 @ ''type,'' @ br 7 @
         ''is_monotonic,'' @ br 7 @ ''labels,'' @ br 7 @ ''unix_milli;'')]
     [drop_table ''signoz_meter'' ''samples_agg_1d_mv'']"

definition meter_migrations :: "SchemaMigrationRecord list" where
  "meter_migrations =
     [meter_migration_1, meter_migration_2, meter_migration_3, meter_migration_4,
      meter_migration_5]"

section \<open>\<open>V2MigrationTablesLogs\<close> (\<open>schema_migrations_v2_tables.go\<close>)\<close>

definition v2_table_1 :: SchemaMigrationRecord where
  "v2_table_1 = migration 1
     [create_table ''signoz_logs'' ''schema_migrations_v2''
       [col ''migration_id'' ColumnTypeUInt64 [] [],
        col ''status'' ColumnTypeString [] [],
        col ''error'' ColumnTypeString [] [],
        col ''created_at'' (DateTime64ColumnType 9 []) [] [],
        col ''updated_at'' (DateTime64ColumnType 9 []) [] []]
       []
       []
       (replacing (merge_tree ''migration_id'' ''migration_id'' [] [] []) [])]
     []"

definition v2_table_2 :: SchemaMigrationRecord where
  "v2_table_2 = migration 2
     [create_table ''signoz_logs'' ''distributed_schema_migrations_v2''
       [col ''migration_id'' ColumnTypeUInt64 [] [],
        col ''status'' ColumnTypeString [] [],
        col ''error'' ColumnTypeString [] [],
        col ''created_at'' (DateTime64ColumnType 9 []) [] [],
        col ''updated_at'' (DateTime64ColumnType 9 []) [] []]
       []
       []
       (distributed ''signoz_logs'' ''schema_migrations_v2'' ''rand()'')]
     []"

definition v2_migration_tables_logs :: "SchemaMigrationRecord list" where
  "v2_migration_tables_logs =
     [v2_table_1, v2_table_2]"

section \<open>\<open>V2MigrationTablesTraces\<close> (\<open>schema_migrations_v2_tables.go\<close>)\<close>

definition v2_table_3 :: SchemaMigrationRecord where
  "v2_table_3 = migration 3
     [create_table ''signoz_traces'' ''schema_migrations_v2''
       [col ''migration_id'' ColumnTypeUInt64 [] [],
        col ''status'' ColumnTypeString [] [],
        col ''error'' ColumnTypeString [] [],
        col ''created_at'' (DateTime64ColumnType 9 []) [] [],
        col ''updated_at'' (DateTime64ColumnType 9 []) [] []]
       []
       []
       (replacing (merge_tree ''migration_id'' ''migration_id'' [] [] []) [])]
     []"

definition v2_table_4 :: SchemaMigrationRecord where
  "v2_table_4 = migration 4
     [create_table ''signoz_traces'' ''distributed_schema_migrations_v2''
       [col ''migration_id'' ColumnTypeUInt64 [] [],
        col ''status'' ColumnTypeString [] [],
        col ''error'' ColumnTypeString [] [],
        col ''created_at'' (DateTime64ColumnType 9 []) [] [],
        col ''updated_at'' (DateTime64ColumnType 9 []) [] []]
       []
       []
       (distributed ''signoz_traces'' ''schema_migrations_v2'' ''rand()'')]
     []"

definition v2_migration_tables_traces :: "SchemaMigrationRecord list" where
  "v2_migration_tables_traces =
     [v2_table_3, v2_table_4]"

section \<open>\<open>V2MigrationTablesMetrics\<close> (\<open>schema_migrations_v2_tables.go\<close>)\<close>

definition v2_table_5 :: SchemaMigrationRecord where
  "v2_table_5 = migration 5
     [create_table ''signoz_metrics'' ''schema_migrations_v2''
       [col ''migration_id'' ColumnTypeUInt64 [] [],
        col ''status'' ColumnTypeString [] [],
        col ''error'' ColumnTypeString [] [],
        col ''created_at'' (DateTime64ColumnType 9 []) [] [],
        col ''updated_at'' (DateTime64ColumnType 9 []) [] []]
       []
       []
       (replacing (merge_tree ''migration_id'' ''migration_id'' [] [] []) [])]
     []"

definition v2_table_6 :: SchemaMigrationRecord where
  "v2_table_6 = migration 6
     [create_table ''signoz_metrics'' ''distributed_schema_migrations_v2''
       [col ''migration_id'' ColumnTypeUInt64 [] [],
        col ''status'' ColumnTypeString [] [],
        col ''error'' ColumnTypeString [] [],
        col ''created_at'' (DateTime64ColumnType 9 []) [] [],
        col ''updated_at'' (DateTime64ColumnType 9 []) [] []]
       []
       []
       (distributed ''signoz_metrics'' ''schema_migrations_v2'' ''rand()'')]
     []"

definition v2_migration_tables_metrics :: "SchemaMigrationRecord list" where
  "v2_migration_tables_metrics =
     [v2_table_5, v2_table_6]"

section \<open>\<open>V2MigrationTablesMetadata\<close>
  (\<open>schema_migrations_v2_tables.go\<close>)\<close>

definition v2_table_7 :: SchemaMigrationRecord where
  "v2_table_7 = migration 7
     [create_table ''signoz_metadata'' ''schema_migrations_v2''
       [col ''migration_id'' ColumnTypeUInt64 [] [],
        col ''status'' ColumnTypeString [] [],
        col ''error'' ColumnTypeString [] [],
        col ''created_at'' (DateTime64ColumnType 9 []) [] [],
        col ''updated_at'' (DateTime64ColumnType 9 []) [] []]
       []
       []
       (replacing (merge_tree ''migration_id'' ''migration_id'' [] [] []) [])]
     []"

definition v2_table_8 :: SchemaMigrationRecord where
  "v2_table_8 = migration 8
     [create_table ''signoz_metadata'' ''distributed_schema_migrations_v2''
       [col ''migration_id'' ColumnTypeUInt64 [] [],
        col ''status'' ColumnTypeString [] [],
        col ''error'' ColumnTypeString [] [],
        col ''created_at'' (DateTime64ColumnType 9 []) [] [],
        col ''updated_at'' (DateTime64ColumnType 9 []) [] []]
       []
       []
       (distributed ''signoz_metadata'' ''schema_migrations_v2'' ''rand()'')]
     []"

definition v2_migration_tables_metadata :: "SchemaMigrationRecord list" where
  "v2_migration_tables_metadata =
     [v2_table_7, v2_table_8]"

section \<open>\<open>V2MigrationTablesAnalytics\<close>
  (\<open>schema_migrations_v2_tables.go\<close>)\<close>

definition v2_table_9 :: SchemaMigrationRecord where
  "v2_table_9 = migration 9
     [create_table ''signoz_analytics'' ''schema_migrations_v2''
       [col ''migration_id'' ColumnTypeUInt64 [] [],
        col ''status'' ColumnTypeString [] [],
        col ''error'' ColumnTypeString [] [],
        col ''created_at'' (DateTime64ColumnType 9 []) [] [],
        col ''updated_at'' (DateTime64ColumnType 9 []) [] []]
       []
       []
       (replacing (merge_tree ''migration_id'' ''migration_id'' [] [] []) []),
      create_table ''signoz_analytics'' ''distributed_schema_migrations_v2''
       [col ''migration_id'' ColumnTypeUInt64 [] [],
        col ''status'' ColumnTypeString [] [],
        col ''error'' ColumnTypeString [] [],
        col ''created_at'' (DateTime64ColumnType 9 []) [] [],
        col ''updated_at'' (DateTime64ColumnType 9 []) [] []]
       []
       []
       (distributed ''signoz_analytics'' ''schema_migrations_v2'' ''rand()'')]
     []"

definition v2_migration_tables_analytics :: "SchemaMigrationRecord list" where
  "v2_migration_tables_analytics =
     [v2_table_9]"

section \<open>\<open>V2MigrationTablesMeter\<close> (\<open>schema_migrations_v2_tables.go\<close>)\<close>

definition v2_table_10 :: SchemaMigrationRecord where
  "v2_table_10 = migration 10
     [create_table ''signoz_meter'' ''schema_migrations_v2''
       [col ''migration_id'' ColumnTypeUInt64 [] [],
        col ''status'' ColumnTypeString [] [],
        col ''error'' ColumnTypeString [] [],
        col ''created_at'' (DateTime64ColumnType 9 []) [] [],
        col ''updated_at'' (DateTime64ColumnType 9 []) [] []]
       []
       []
       (replacing (merge_tree ''migration_id'' ''migration_id'' [] [] []) []),
      create_table ''signoz_meter'' ''distributed_schema_migrations_v2''
       [col ''migration_id'' ColumnTypeUInt64 [] [],
        col ''status'' ColumnTypeString [] [],
        col ''error'' ColumnTypeString [] [],
        col ''created_at'' (DateTime64ColumnType 9 []) [] [],
        col ''updated_at'' (DateTime64ColumnType 9 []) [] []]
       []
       []
       (distributed ''signoz_meter'' ''schema_migrations_v2'' ''rand()'')]
     []"

definition v2_migration_tables_meter :: "SchemaMigrationRecord list" where
  "v2_migration_tables_meter =
     [v2_table_10]"

lemmas metadata_migrations_recs =
  metadata_migration_1000_def metadata_migration_1001_def metadata_migration_1002_def

lemmas analytics_migrations_recs =
  analytics_migration_1_def

lemmas meter_migrations_recs =
  meter_migration_1_def meter_migration_2_def meter_migration_3_def meter_migration_4_def
  meter_migration_5_def

lemmas v2_migration_tables_logs_recs =
  v2_table_1_def v2_table_2_def

lemmas v2_migration_tables_traces_recs =
  v2_table_3_def v2_table_4_def

lemmas v2_migration_tables_metrics_recs =
  v2_table_5_def v2_table_6_def

lemmas v2_migration_tables_metadata_recs =
  v2_table_7_def v2_table_8_def

lemmas v2_migration_tables_analytics_recs =
  v2_table_9_def

lemmas v2_migration_tables_meter_recs =
  v2_table_10_def

end
