(* ===== verification/Migration_Protocol.thy ===== *)
theory Migration_Protocol
  imports Migration_Manager
begin

text \<open>
  What the migration manager promises: which operations the synchronous and the asynchronous
  commands run, the order in which \<open>RunOperation\<close> writes status entries and executes its
  statement, what an error leaves behind, and that it returns.
\<close>

section \<open>Requests made while waiting\<close>

fun is_wait :: "call \<Rightarrow> bool" where
  "is_wait (CExec _) = False"
| "is_wait (CInsertEntry _ _ _) = False"
| "is_wait (CUpdateEntry _ _ _ _) = False"
| "is_wait (CStatusQuery _ _) = False"
| "is_wait (CCountTables _ _) = False"
| "is_wait (CCountMigrations _) = False"
| "is_wait CNewBackOff = False"
| "is_wait _ = True"

lemma emits_cond [emits_intros]:
  "emits P m \<Longrightarrow> emits P n \<Longrightarrow> emits P (\<lambda>s. if b s then m s else n s)"
  unfolding emits_def by metis

lemma emits_set_addrs [emits_intros]: "emits P (\<lambda>s. (Ok x, s\<lparr>addrs := a\<rparr>))"
  by (simp add: emits_def)

lemma emits_set_conns [emits_intros]: "emits P (\<lambda>s. (Ok x, s\<lparr>conns := a # conns s\<rparr>))"
  by (simp add: emits_def)

lemma emits_query_hosts [emits_intros]:
  "(\<And>v. P (CHostRows v)) \<Longrightarrow> emits P (query_hosts E via e0)"
  unfolding query_hosts_def
  by (intro emits_intros) (auto intro: emits_intros split: sum.splits)

lemma emits_discoverHosts [emits_intros]:
  "(\<And>v. P (CHostRows v)) \<Longrightarrow> (\<And>a. P (COpen a)) \<Longrightarrow> emits P (discoverHosts E)"
  unfolding discoverHosts_def Let_def by (intro emits_intros) auto

lemma emits_HostAddrs [emits_intros]:
  "(\<And>v. P (CHostRows v)) \<Longrightarrow> (\<And>a. P (COpen a)) \<Longrightarrow> emits P (HostAddrs E m)"
  unfolding HostAddrs_def [abs_def]
  by (intro emits_cond emits_discoverHosts emits_ret) (auto simp: emits_def ret_def)

lemma emits_getConn [emits_intros]: "(\<And>a. P (COpen a)) \<Longrightarrow> emits P (getConn E host)"
  unfolding getConn_def [abs_def] by (intro emits_intros)

lemma emits_poll_mutations [emits_intros]:
  "P CNextBackOff \<Longrightarrow> P CSleep \<Longrightarrow> P (CSelectMutations host) \<Longrightarrow> emits P (poll_mutations n E host)"
  by (induction n) (auto intro!: emits_intros)

lemma emits_fetch_ddl [emits_intros]: "P CSelectDDL \<Longrightarrow> emits P (fetch_ddl n E)"
proof (induction n)
  case (Suc n)
  then show ?case
    unfolding fetch_ddl.simps
    by (intro emits_intros) (auto intro: emits_intros split: ddl_answer.splits)
qed (auto intro: emits_intros)

lemma emits_poll_ddl [emits_intros]:
  "P CNextBackOff \<Longrightarrow> P CSleep \<Longrightarrow> P CSelectDDL \<Longrightarrow> emits P (poll_ddl n E)"
  by (induction n) (auto intro!: emits_intros simp: getDistributedDDLQueue_def)

lemma emits_WaitForRunningMutations: "emits is_wait (WaitForRunningMutations E m)"
  unfolding WaitForRunningMutations_def waitForMutationsOnHost_def by (intro emits_intros) simp_all

lemma emits_WaitDistributedDDLQueue: "emits is_wait (WaitDistributedDDLQueue E m)"
  unfolding WaitDistributedDDLQueue_def by (intro emits_intros) simp_all

lemma emits_WaitForDistributionQueue: "emits is_wait (WaitForDistributionQueue E m db table)"
  unfolding WaitForDistributionQueue_def by (intro emits_intros) simp_all

section \<open>The effects of a run\<close>

text \<open>\<open>effects s s'\<close>: the requests issued between two states, those of the waits left out.\<close>

definition effects :: "st \<Rightarrow> st \<Rightarrow> call list" where
  "effects s s' = filter (\<lambda>c. \<not> is_wait c) (drop (length (hist s)) (hist s'))"

definition extends :: "st \<Rightarrow> st \<Rightarrow> bool" where
  "extends s s' \<longleftrightarrow> (\<exists>t. hist s' = hist s @ t)"

lemma extends_trans: "extends s s' \<Longrightarrow> extends s' s'' \<Longrightarrow> extends s s''"
  by (auto simp: extends_def)

lemma extends_refl [simp]: "extends s s"
  by (simp add: extends_def)

lemma effects_refl [simp]: "effects s s = []"
  by (simp add: effects_def)

lemma effects_trans:
  "extends s s' \<Longrightarrow> extends s' s'' \<Longrightarrow> effects s s'' = effects s s' @ effects s' s''"
  by (auto simp: effects_def extends_def)

lemma emits_effects:
  assumes "emits is_wait m" and "m s = (r, s')"
  shows "extends s s'" and "effects s s' = []"
proof -
  from assms obtain t where "hist s' = hist s @ t" and "list_all is_wait t" by (rule emitsD)
  then show "extends s s'" and "effects s s' = []"
    by (auto simp: extends_def effects_def list_all_iff filter_empty_conv)
qed

lemma effects_snoc: "\<not> is_wait c \<Longrightarrow> effects s (s\<lparr>hist := hist s @ [c]\<rparr>) = [c]"
  by (simp add: effects_def)

lemma extends_snoc [simp]: "extends s (s\<lparr>hist := hist s @ [c]\<rparr>)"
  by (simp add: extends_def)

text \<open>
  \<open>runs m s r s' es\<close>: running \<open>m\<close> from \<open>s\<close> ends in \<open>r\<close> and \<open>s'\<close>, and its effects are \<open>es\<close>.
\<close>

definition runs :: "'a comp \<Rightarrow> st \<Rightarrow> 'a res \<Rightarrow> st \<Rightarrow> call list \<Rightarrow> bool" where
  "runs m s r s' es \<longleftrightarrow> m s = (r, s') \<and> extends s s' \<and> effects s s' = es"

lemma runs_waitI: "emits is_wait m \<Longrightarrow> m s = (r, s') \<Longrightarrow> runs m s r s' []"
  unfolding runs_def using emits_effects [of m s r s'] by blast

lemma runs_ask_err:
  assumes "ask_err c q s = (r, s')" and "\<not> is_wait c"
  shows "runs (ask_err c q) s r s' [c]"
  using assms
  by (auto simp: runs_def ask_err_def bnd_def ask_def ret_def fail_def effects_snoc split: option.splits)

lemma runs_trans:
  "runs m s r s1 es \<Longrightarrow> runs n s1 r' s' es' \<Longrightarrow> extends s s' \<and> effects s s' = es @ es'"
  unfolding runs_def using effects_trans [of s s1 s'] extends_trans [of s s1 s'] by auto

text \<open>The steps of \<open>RunOperation\<close> that can succeed.\<close>

lemma record_failure_not_Ok: "record_failure E db mid e s \<noteq> (Ok y, s')"
  by (auto simp: record_failure_def bnd_def on_err_def fail_def split: res.splits prod.splits)

lemma guarded_wait_Ok:
  assumes "on_err w (record_failure E db mid) s = (Ok x, s')" and "emits is_wait w"
  shows "runs w s (Ok x) s' []"
  using on_err_fail_OkE [OF assms(1) record_failure_not_Ok] assms(2) by (rule runs_waitI [rotated])

lemma guarded_exec_Ok:
  assumes "on_err (execOperation E op) (record_failure E db mid) s = (Ok x, s')"
  obtains sql where "Op_ToSQL op = Some sql" and "runs (execOperation E op) s (Ok x) s' [CExec sql]"
proof -
  from on_err_fail_OkE [OF assms record_failure_not_Ok]
  have run: "execOperation E op s = (Ok x, s')" .
  then obtain sql where sql: "Op_ToSQL op = Some sql"
    by (auto simp: execOperation_def split: option.splits)
  then have eq: "execOperation E op = ask_err (CExec sql) (\<lambda>h. e_exec E h sql)"
    by (simp add: execOperation_def)
  have "runs (execOperation E op) s (Ok x) s' [CExec sql]"
    unfolding eq by (rule runs_ask_err) (use run eq in simp_all)
  with sql show thesis by (rule that)
qed

lemma insert_runs:
  "insertMigrationEntry E db mid st s = (r, s') \<Longrightarrow>
   runs (insertMigrationEntry E db mid st) s r s' [CInsertEntry db mid st]"
  unfolding insertMigrationEntry_def by (rule runs_ask_err) simp_all

lemma update_runs:
  "updateMigrationEntry E db mid st msg s = (r, s') \<Longrightarrow>
   runs (updateMigrationEntry E db mid st msg) s r s' [CUpdateEntry db mid st msg]"
  unfolding updateMigrationEntry_def by (rule runs_ask_err) simp_all

text \<open>
  \<open>RunOperation\<close> in stages: what happens before the entry is inserted, and from the statement to
  the last wait.
\<close>

definition guarded :: "env \<Rightarrow> string \<Rightarrow> nat \<Rightarrow> unit comp \<Rightarrow> unit comp" where
  "guarded E db mid w = on_err w (record_failure E db mid)"

definition stage_before :: "env \<Rightarrow> manager \<Rightarrow> Operation \<Rightarrow> nat \<Rightarrow> string \<Rightarrow> unit comp" where
  "stage_before E m op mid db =
     bnd (guarded E db mid (WaitForRunningMutations E m)) (\<lambda>_.
     bnd (guarded E db mid (WaitDistributedDDLQueue E m)) (\<lambda>_.
     case shouldWait (Op_attrs op) of (wait, qdb, qt) \<Rightarrow>
       if wait then guarded E qdb mid (WaitForDistributionQueue E m qdb qt) else ret ()))"

definition stage_exec :: "env \<Rightarrow> manager \<Rightarrow> Operation \<Rightarrow> nat \<Rightarrow> string \<Rightarrow> unit comp" where
  "stage_exec E m op mid db =
     bnd (guarded E db mid (execOperation E op)) (\<lambda>_.
     bnd (guarded E db mid (WaitForRunningMutations E m)) (\<lambda>_.
     guarded E db mid (WaitDistributedDDLQueue E m)))"

lemma RunOperation_stages:
  "RunOperation E m operation mid db False =
     bnd (stage_before E m (prepareOperation m operation) mid db) (\<lambda>_.
     bnd (insertMigrationEntry E db mid InProgressStatus) (\<lambda>_.
     bnd (stage_exec E m (prepareOperation m operation) mid db) (\<lambda>_.
     updateMigrationEntry E db mid FinishedStatus [])))"
  unfolding RunOperation_def stage_before_def stage_exec_def guarded_def bnd_assoc Let_def by simp

lemma runs_bnd: "runs m s (Ok x) s1 es \<Longrightarrow> runs (f x) s1 r s' es' \<Longrightarrow> runs (bnd m f) s r s' (es @ es')"
  using runs_trans [of m s "Ok x" s1 es "f x" r s' es'] by (auto simp: runs_def bnd_def)

lemma guarded_Ok:
  "guarded E db mid w s = (Ok x, s') \<Longrightarrow> emits is_wait w \<Longrightarrow> runs (guarded E db mid w) s (Ok x) s' []"
  using guarded_wait_Ok [of w E db mid s x s'] by (simp add: guarded_def runs_def)

lemma stage_before_Ok:
  assumes "stage_before E m op mid db s = (Ok x, s')"
  shows "runs (stage_before E m op mid db) s (Ok x) s' []"
proof -
  obtain wait qdb qt where sw: "shouldWait (Op_attrs op) = (wait, qdb, qt)"
    by (cases "shouldWait (Op_attrs op)")
  let ?w3 = "if wait then guarded E qdb mid (WaitForDistributionQueue E m qdb qt) else ret ()"
  from assms sw obtain u1 s1 u2 s2 where
      w1: "guarded E db mid (WaitForRunningMutations E m) s = (Ok u1, s1)"
    and w2: "guarded E db mid (WaitDistributedDDLQueue E m) s1 = (Ok u2, s2)"
    and w3: "?w3 s2 = (Ok x, s')"
    unfolding stage_before_def by (auto elim!: bnd_OkE)
  have "runs ?w3 s2 (Ok x) s' []"
    using w3 guarded_Ok [OF _ emits_WaitForDistributionQueue]
    by (cases wait) (auto simp: runs_def ret_def)
  from runs_bnd [OF guarded_Ok [OF w1 emits_WaitForRunningMutations]
      runs_bnd [OF guarded_Ok [OF w2 emits_WaitDistributedDDLQueue] this]]
  show ?thesis by (simp add: stage_before_def sw)
qed

lemma stage_exec_Ok:
  assumes "stage_exec E m op mid db s = (Ok x, s')"
  obtains sql where "Op_ToSQL op = Some sql"
    and "runs (stage_exec E m op mid db) s (Ok x) s' [CExec sql]"
proof -
  from assms obtain u1 s1 u2 s2 where
      ex: "guarded E db mid (execOperation E op) s = (Ok u1, s1)"
    and w1: "guarded E db mid (WaitForRunningMutations E m) s1 = (Ok u2, s2)"
    and w2: "guarded E db mid (WaitDistributedDDLQueue E m) s2 = (Ok x, s')"
    unfolding stage_exec_def by (auto elim!: bnd_OkE)
  from ex [unfolded guarded_def] obtain sql where sql: "Op_ToSQL op = Some sql"
    and "runs (execOperation E op) s (Ok u1) s1 [CExec sql]" by (rule guarded_exec_Ok)
  then have "runs (guarded E db mid (execOperation E op)) s (Ok u1) s1 [CExec sql]"
    using ex by (simp add: runs_def)
  from runs_bnd [OF this runs_bnd [OF guarded_Ok [OF w1 emits_WaitForRunningMutations]
      guarded_Ok [OF w2 emits_WaitDistributedDDLQueue]]]
  have "runs (stage_exec E m op mid db) s (Ok x) s' [CExec sql]" by (simp add: stage_exec_def)
  with sql show thesis by (rule that)
qed

lemma RunOperation_writes:
  assumes "RunOperation E m operation mid db False s = (Ok (), s')"
  shows "\<exists>sql. Op_ToSQL (prepareOperation m operation) = Some sql \<and> extends s s' \<and>
    effects s s' = [CInsertEntry db mid InProgressStatus, CExec sql,
                    CUpdateEntry db mid FinishedStatus []]"
proof -
  let ?op = "prepareOperation m operation"
  from assms obtain u1 s1 u2 s2 u3 s3 where
      b: "stage_before E m ?op mid db s = (Ok u1, s1)"
    and i: "insertMigrationEntry E db mid InProgressStatus s1 = (Ok u2, s2)"
    and e: "stage_exec E m ?op mid db s2 = (Ok u3, s3)"
    and f: "updateMigrationEntry E db mid FinishedStatus [] s3 = (Ok (), s')"
    unfolding RunOperation_stages by (auto elim!: bnd_OkE)
  from e obtain sql where sql: "Op_ToSQL ?op = Some sql"
    and er: "runs (stage_exec E m ?op mid db) s2 (Ok u3) s3 [CExec sql]" by (rule stage_exec_Ok)
  from runs_bnd [OF stage_before_Ok [OF b] runs_bnd [OF insert_runs [OF i]
      runs_bnd [OF er update_runs [OF f]]]] sql
  show ?thesis by (auto simp: runs_def)
qed

text \<open>
  C4. When \<open>RunOperation\<close> succeeds with status updates on, its requests other than the polling of
  the waits are exactly: insert the in-progress entry, execute the statement of the prepared
  operation, mark the entry finished; in this order and each once.
\<close>

theorem RunOperation_protocol:
  assumes "RunOperation E m operation mid db False s = (Ok (), s')"
  shows "\<exists>sql. Op_ToSQL (prepareOperation m operation) = Some sql \<and>
    effects s s' = [CInsertEntry db mid InProgressStatus, CExec sql,
                    CUpdateEntry db mid FinishedStatus []]"
  using RunOperation_writes [OF assms] by blast

section \<open>What an error leaves behind\<close>

lemma bnd_ErrE:
  assumes "bnd m f s = (Err e, s')"
  obtains "m s = (Err e, s')" | x s1 where "m s = (Ok x, s1)" and "f x s1 = (Err e, s')"
  using assms by (auto simp: bnd_def split: res.splits prod.splits)

text \<open>The last effect between the two states records the failure of the migration.\<close>

definition failure_recorded :: "nat \<Rightarrow> st \<Rightarrow> st \<Rightarrow> bool" where
  "failure_recorded mid s s' \<longleftrightarrow> extends s s' \<and>
     (\<exists>db msg es. effects s s' = es @ [CUpdateEntry db mid FailedStatus msg])"

lemma failure_recorded_after:
  "runs m s r s1 es \<Longrightarrow> failure_recorded mid s1 s' \<Longrightarrow> failure_recorded mid s s'"
  unfolding failure_recorded_def runs_def
  by (metis append.assoc effects_trans extends_trans)

lemma record_failure_recorded:
  "record_failure E db mid e0 s = (Err e, s') \<Longrightarrow> failure_recorded mid s s'"
  using update_runs [of E db mid FailedStatus e0 s]
  by (auto simp: record_failure_def bnd_def on_err_def fail_def failure_recorded_def runs_def
      split: res.splits prod.splits)

lemma guarded_Err:
  assumes "guarded E db mid w s = (Err e, s')" and "emits P w"
  shows "failure_recorded mid s s'"
proof -
  from assms(1) obtain e0 s1 where w: "w s = (Err e0, s1)"
    and r: "record_failure E db mid e0 s1 = (Err e, s')"
    by (auto simp: guarded_def on_err_def split: res.splits prod.splits)
  from assms(2) w have "extends s s1" by (auto elim!: emitsD simp: extends_def)
  then have "runs w s (Err e0) s1 (effects s s1)" using w by (simp add: runs_def)
  then show ?thesis using record_failure_recorded [OF r] by (rule failure_recorded_after)
qed

lemma emits_any: "emits is_wait w \<Longrightarrow> emits (\<lambda>_. True) w"
  by (erule emits_mono) simp

lemma emits_execOperation: "emits (\<lambda>_. True) (execOperation E op)"
  unfolding execOperation_def by (auto intro: emits_intros split: option.splits)

lemma stage_before_Err:
  assumes "stage_before E m op mid db s = (Err e, s')"
  shows "failure_recorded mid s s'"
proof -
  obtain wait qdb qt where sw: "shouldWait (Op_attrs op) = (wait, qdb, qt)"
    by (cases "shouldWait (Op_attrs op)")
  from assms show ?thesis unfolding stage_before_def sw prod.case
  proof (elim bnd_ErrE)
    fix u1 s1 u2 s2
    assume w1: "guarded E db mid (WaitForRunningMutations E m) s = (Ok u1, s1)"
      and w2: "guarded E db mid (WaitDistributedDDLQueue E m) s1 = (Ok u2, s2)"
      and w3: "(if wait then guarded E qdb mid (WaitForDistributionQueue E m qdb qt) else ret ()) s2
        = (Err e, s')"
    from w3 have "failure_recorded mid s2 s'"
      by (cases wait) (auto simp: ret_def intro: guarded_Err emits_WaitForDistributionQueue)
    then show ?thesis
      using guarded_Ok [OF w1 emits_WaitForRunningMutations]
        guarded_Ok [OF w2 emits_WaitDistributedDDLQueue] failure_recorded_after by blast
  next
    fix u1 s1
    assume w1: "guarded E db mid (WaitForRunningMutations E m) s = (Ok u1, s1)"
      and w2: "guarded E db mid (WaitDistributedDDLQueue E m) s1 = (Err e, s')"
    show ?thesis
      using guarded_Ok [OF w1 emits_WaitForRunningMutations]
        guarded_Err [OF w2 emits_WaitDistributedDDLQueue] by (rule failure_recorded_after)
  qed (auto intro: guarded_Err emits_WaitForRunningMutations)
qed

lemma stage_exec_Err:
  assumes "stage_exec E m op mid db s = (Err e, s')"
  shows "failure_recorded mid s s'"
proof -
  from assms show ?thesis unfolding stage_exec_def
  proof (elim bnd_ErrE)
    fix u1 s1 u2 s2
    assume ex: "guarded E db mid (execOperation E op) s = (Ok u1, s1)"
      and w1: "guarded E db mid (WaitForRunningMutations E m) s1 = (Ok u2, s2)"
      and w2: "guarded E db mid (WaitDistributedDDLQueue E m) s2 = (Err e, s')"
    from ex obtain sql where "runs (execOperation E op) s (Ok u1) s1 [CExec sql]"
      unfolding guarded_def by (rule guarded_exec_Ok)
    moreover have "failure_recorded mid s1 s'"
      using guarded_Ok [OF w1 emits_WaitForRunningMutations]
        guarded_Err [OF w2 emits_WaitDistributedDDLQueue] by (rule failure_recorded_after)
    ultimately show ?thesis by (rule failure_recorded_after)
  next
    fix u1 s1
    assume ex: "guarded E db mid (execOperation E op) s = (Ok u1, s1)"
      and w1: "guarded E db mid (WaitForRunningMutations E m) s1 = (Err e, s')"
    from ex obtain sql where "runs (execOperation E op) s (Ok u1) s1 [CExec sql]"
      unfolding guarded_def by (rule guarded_exec_Ok)
    then show ?thesis
      using guarded_Err [OF w1 emits_WaitForRunningMutations] by (rule failure_recorded_after)
  qed (auto intro: guarded_Err emits_execOperation)
qed


section \<open>Operations are split between the commands\<close>

lemma IsAsyncOperation_iff: "IsAsyncOperation item \<longleftrightarrow> \<not> IsSyncOperation item"
  by (simp add: IsAsyncOperation_def IsSyncOperation_def)

lemma executeSync_filter:
  "executeSyncOperations E m operations mid db =
     for_each (\<lambda>item. RunOperation E m item mid db False) (filter IsSyncOperation operations)"
  unfolding executeSyncOperations_def IsSyncOperation_def [symmetric] by (rule for_each_skip)

lemma executeAsync_filter:
  "executeAsyncOperations E m operations mid db =
     for_each (\<lambda>item. RunOperation E m item mid db False)
       (filter (\<lambda>item. IsAsyncOperation item \<and> isIdempotent (Op_attrs item)) operations)"
proof -
  have "(\<lambda>item. if forceMigrate (Op_attrs item) then ret ()
      else if \<not> isMutation (Op_attrs item) \<and> isIdempotent (Op_attrs item) \<and>
              isLightweight (Op_attrs item) then ret ()
      else if isIdempotent (Op_attrs item) then RunOperation E m item mid db False
      else ret ()) =
    (\<lambda>item. if IsAsyncOperation item \<and> isIdempotent (Op_attrs item)
      then RunOperation E m item mid db False else ret ())"
    by (auto simp: IsAsyncOperation_def fun_eq_iff)
  then show ?thesis
    unfolding executeAsyncOperations_def by (simp only: for_each_skip)
qed

text \<open>
  The two executors split a migration: the synchronous one runs, in order, exactly the
  operations the classification calls synchronous, the asynchronous one exactly the idempotent ones
  it calls asynchronous; no operation is run by both, and the ones run by neither are exactly
  the asynchronous operations that are not idempotent.
\<close>

theorem executors_split_operations:
  "executeSyncOperations E m ops mid db =
     for_each (\<lambda>item. RunOperation E m item mid db False) (filter IsSyncOperation ops) \<and>
   executeAsyncOperations E m ops mid db =
     for_each (\<lambda>item. RunOperation E m item mid db False)
       (filter (\<lambda>item. \<not> IsSyncOperation item \<and> isIdempotent (Op_attrs item)) ops) \<and>
   (IsAsync (| MigrationID = mid, UpItems = ops, DownItems = down |)
      \<longleftrightarrow> \<not> list_all IsSyncOperation ops)"
  by (auto simp: executeSync_filter executeAsync_filter IsAsyncOperation_iff IsAsync_def
      list_ex_iff list_all_iff)

text \<open>
  An \<open>ALTER TABLE ... MODIFY COLUMN ... REMOVE\<close> is run by neither executor: both leave the
  state as it is, without a request to ClickHouse.
\<close>

theorem ModifyColumnRemove_never_run:
  "executeSyncOperations E m [OpModifyColumnRemove a] mid db = ret () \<and>
   executeAsyncOperations E m [OpModifyColumnRemove a] mid db = ret ()"
  by (simp add: executeSync_filter executeAsync_filter IsAsyncOperation_iff IsSyncOperation_def attrs_defs)

section \<open>The version filter\<close>

text \<open>
  With a non-empty list of versions only those versions are looked up and run; a migration that
  is in the table as in progress or finished is not run again, and one that is absent or failed is.
\<close>

theorem shouldRunMigration_decides:
  assumes "\<And>h e. e_status E h db mid \<noteq> StatusError e"
  shows "fst (shouldRunMigration E db mid versions s) =
    Ok ((versions = [] \<or> mid \<in> set versions) \<and>
        e_status E (hist s) db mid \<notin> {Row InProgressStatus, Row FinishedStatus})"
  using assms [of "hist s"]
  by (auto simp: shouldRunMigration_def bnd_def ask_def ret_def split: status_answer.splits)

end
