(* ===== verification/Migration_Liveness.thy ===== *)
theory Migration_Liveness
  imports Migration_Protocol
begin

text \<open>
  The migration commands as a whole: they return when the backoff package stops, and running the
  synchronous command again after it succeeded changes nothing.
\<close>

section \<open>The waits return\<close>

text \<open>
  \<open>since start c h\<close>: requests \<open>c\<close> since the last \<open>start\<close>. \<open>polls h\<close>: calls of \<open>NextBackOff\<close> since the last \<open>Reset\<close>. \<open>backoff_bounded E N\<close> is the documented
  behaviour of \<open>ExponentialBackOff\<close>: after its maximal elapsed time, reached after at most \<open>N\<close>
  calls, \<open>NextBackOff\<close> answers \<open>Stop\<close>.
\<close>

definition since :: "call \<Rightarrow> call \<Rightarrow> call list \<Rightarrow> nat" where
  "since start c h = length (filter (\<lambda>x. x = c) (takeWhile (\<lambda>x. x \<noteq> start) (rev h)))"

definition polls :: "call list \<Rightarrow> nat" where
  "polls = since CReset CNextBackOff"

definition backoff_bounded :: "env \<Rightarrow> nat \<Rightarrow> bool" where
  "backoff_bounded E N \<longleftrightarrow> (\<forall>h. N \<le> polls h \<longrightarrow> e_stop E h)"

lemma since_append:
  "start \<notin> set t \<Longrightarrow> since start c (h @ t) = since start c h + length (filter (\<lambda>x. x = c) t)"
proof -
  assume "start \<notin> set t"
  then have "takeWhile (\<lambda>x. x \<noteq> start) (rev t @ rev h) = rev t @ takeWhile (\<lambda>x. x \<noteq> start) (rev h)"
    by (intro takeWhile_append2) auto
  then show ?thesis by (simp add: since_def rev_filter [symmetric])
qed

lemma since_start: "since start c (h @ [start]) = 0"
  by (simp add: since_def)

lemma polls_append:
  "CReset \<notin> set t \<Longrightarrow> polls (h @ t) = polls h + length (filter (\<lambda>c. c = CNextBackOff) t)"
  by (simp add: polls_def since_append)

lemma polls_mono: "CReset \<notin> set t \<Longrightarrow> polls h \<le> polls (h @ t)"
  by (simp add: polls_append)

lemma emits_polls:
  assumes "emits (\<lambda>c. c \<noteq> CReset) w" and "w s = (r, s')"
  shows "polls (hist s) \<le> polls (hist s')"
proof -
  from assms obtain t where "hist s' = hist s @ t" and "list_all (\<lambda>c. c \<noteq> CReset) t" by (rule emitsD)
  then show ?thesis by (auto simp: list_all_iff intro: polls_mono)
qed

text \<open>A poll that goes on has seen the backoff answer, so fewer than \<open>N\<close> calls were made before.\<close>

lemma not_stopped: "backoff_bounded E N \<Longrightarrow> \<not> e_stop E h \<Longrightarrow> polls h < N"
  unfolding backoff_bounded_def by (meson not_le)

lemma poll_mutations_returns:
  assumes "backoff_bounded E N"
  shows "N < polls (hist s) + n \<Longrightarrow> 0 < n \<Longrightarrow> fst (poll_mutations n E host s) \<noteq> Diverge"
proof (induction n arbitrary: s)
  case (Suc n)
  show ?case
  proof (cases "e_stop E (hist s)")
    case False
    let ?s = "s\<lparr>hist := hist s @ [CNextBackOff, CSelectMutations host, CNextBackOff, CSleep]\<rparr>"
    from not_stopped [OF assms False] Suc.prems have "N < polls (hist ?s) + n" and "0 < n"
      by (simp_all add: polls_append)
    then have "fst (poll_mutations n E host ?s) \<noteq> Diverge" by (rule Suc.IH)
    with False show ?thesis
      by (auto simp: bnd_def ask_def ask_sum_def ret_def fail_def split: sum.splits)
  qed (simp add: bnd_def ask_def fail_def)
qed simp

lemma returns_fetch_ddl [returns_intros]: "returns (fetch_ddl n E)"
proof (induction n)
  case (Suc n)
  then show ?case
    unfolding fetch_ddl.simps
    by (intro returns_intros) (auto intro: returns_intros split: ddl_answer.splits)
qed (auto intro: returns_intros)

lemma poll_ddl_returns:
  assumes "backoff_bounded E N"
  shows "N < polls (hist s) + n \<Longrightarrow> 0 < n \<Longrightarrow> fst (poll_ddl n E s) \<noteq> Diverge"
proof (induction n arbitrary: s)
  case (Suc n)
  show ?case
  proof (cases "e_stop E (hist s)")
    case False
    let ?s = "s\<lparr>hist := hist s @ [CNextBackOff]\<rparr>"
    obtain r s1 where g: "getDistributedDDLQueue E ?s = (r, s1)" by (cases "getDistributedDDLQueue E ?s")
    have "polls (hist ?s) \<le> polls (hist s1)"
    proof (rule emits_polls [where w = "getDistributedDDLQueue E"])
      show "emits (\<lambda>c. c \<noteq> CReset) (getDistributedDDLQueue E)"
        unfolding getDistributedDDLQueue_def by (intro emits_intros) simp
    qed (rule g)
    then have "polls (hist s) < polls (hist s1)" by (simp add: polls_append)
    moreover have "r \<noteq> Diverge"
      using g returns_fetch_ddl by (metis fst_conv getDistributedDDLQueue_def returns_def)
    moreover from not_stopped [OF assms False] Suc.prems(1) have "0 < n" by simp
    ultimately show ?thesis
      using False g Suc.prems(1) Suc.IH [of "s1\<lparr>hist := hist s1 @ [CNextBackOff, CSleep]\<rparr>"]
      by (cases r) (auto simp: bnd_def ask_def ret_def polls_append)
  qed (simp add: bnd_def ask_def fail_def)
qed simp

lemma polls_reset: "polls (h @ [CReset]) = 0"
  by (simp add: polls_def since_start)

lemma returns_getConn [returns_intros]: "returns (getConn E host)"
  unfolding getConn_def [abs_def]
  by (auto simp: returns_def bnd_def ask_err_def ask_def ret_def fail_def split: option.splits)

lemma returns_waitForMutationsOnHost:
  assumes "backoff_bounded E N" and "N < Fuel m"
  shows "returns (waitForMutationsOnHost E m host)"
  unfolding returns_def
proof
  fix s :: st
  let ?s = "s\<lparr>hist := hist s @ [CReset]\<rparr>"
  obtain r s1 where g: "getConn E host ?s = (r, s1)" by (cases "getConn E host ?s")
  have "r \<noteq> Diverge" using g returns_getConn by (metis fst_conv returns_def)
  moreover have "fst (poll_mutations (Fuel m) E host s1) \<noteq> Diverge"
    by (rule poll_mutations_returns [OF assms(1)]) (use assms(2) in simp_all)
  ultimately show "fst (waitForMutationsOnHost E m host s) \<noteq> Diverge"
    using g by (cases r) (auto simp: waitForMutationsOnHost_def bnd_def ask_def)
qed

lemma returns_WaitDistributedDDLQueue:
  assumes "backoff_bounded E N" and "N < Fuel m"
  shows "returns (WaitDistributedDDLQueue E m)"
  unfolding returns_def
proof
  fix s :: st
  have "fst (poll_ddl (Fuel m) E (s\<lparr>hist := hist s @ [CReset]\<rparr>)) \<noteq> Diverge"
    by (rule poll_ddl_returns [OF assms(1)]) (use assms(2) in simp_all)
  then show "fst (WaitDistributedDDLQueue E m s) \<noteq> Diverge"
    by (simp add: WaitDistributedDDLQueue_def bnd_def ask_def)
qed

lemma returns_query_hosts [returns_intros]: "returns (query_hosts E via e0)"
  unfolding query_hosts_def
  by (intro returns_intros) (auto intro: returns_intros split: sum.splits)

lemma returns_set_addrs [returns_intros]: "returns (\<lambda>s. (Ok x, s\<lparr>addrs := a\<rparr>))"
  by (simp add: returns_def)

lemma returns_discoverHosts [returns_intros]: "returns (discoverHosts E)"
  unfolding discoverHosts_def Let_def by (intro returns_intros)

lemma returns_HostAddrs [returns_intros]: "returns (HostAddrs E m)"
  using returns_discoverHosts [of E] by (auto simp: returns_def HostAddrs_def ret_def)

lemma returns_WaitForDistributionQueue: "returns (WaitForDistributionQueue E m db table)"
  unfolding WaitForDistributionQueue_def by (intro returns_intros)

lemma returns_WaitForRunningMutations:
  "backoff_bounded E N \<Longrightarrow> N < Fuel m \<Longrightarrow> returns (WaitForRunningMutations E m)"
  unfolding WaitForRunningMutations_def
  by (intro returns_intros returns_waitForMutationsOnHost)

lemma returns_record_failure [returns_intros]: "returns (record_failure E db mid e)"
  unfolding record_failure_def updateMigrationEntry_def by (intro returns_intros)

lemma returns_execOperation [returns_intros]: "returns (execOperation E op)"
  unfolding execOperation_def by (auto intro: returns_intros split: option.splits)

lemma returns_RunOperation:
  assumes "backoff_bounded E N" and "N < Fuel m"
  shows "returns (RunOperation E m operation mid db skip)"
  unfolding RunOperation_def Let_def insertMigrationEntry_def updateMigrationEntry_def
  by (intro returns_intros returns_WaitForRunningMutations [OF assms]
      returns_WaitDistributedDDLQueue [OF assms])
    (auto intro!: returns_intros returns_WaitForDistributionQueue split: prod.splits)

lemma returns_shouldRunMigration [returns_intros]: "returns (shouldRunMigration E db mid versions)"
  unfolding shouldRunMigration_def
  by (intro returns_intros) (auto intro: returns_intros split: status_answer.splits)

lemma returns_run_phase:
  "(\<And>items mid db. returns (execute items mid db)) \<Longrightarrow>
   returns (run_phase execute items E versions db migrations)"
  unfolding run_phase_def by (intro returns_intros)

lemma returns_executors:
  assumes "backoff_bounded E N" and "N < Fuel m"
  shows "returns (executeSyncOperations E m ops mid db)"
    and "returns (executeAsyncOperations E m ops mid db)"
  unfolding executeSync_filter executeAsync_filter
  by (intro returns_intros returns_RunOperation [OF assms])+

text \<open>
  C6. The migration commands return (with success, an error or a panic) whatever ClickHouse
  answers, as long as the backoff stops: a fuel above the number of polls the backoff allows is
  enough for every wait, so no command polls forever.
\<close>

theorem Migrate_commands_return:
  assumes "backoff_bounded E N" and "N < Fuel m"
  shows "returns (MigrateUpSync E m L versions) \<and> returns (MigrateDownSync E m L versions) \<and>
    returns (MigrateUpAsync E m L versions) \<and> returns (MigrateDownAsync E m L versions)"
  unfolding MigrateUpSync_def MigrateDownSync_def MigrateUpAsync_def MigrateDownAsync_def Let_def
  by (intro conjI returns_intros returns_run_phase returns_executors [OF assms])

section \<open>Running the synchronous command again\<close>

text \<open>
  The status table as its writes leave it: an insert sets the row of a migration, an update changes
  it if there is one, on top of the rows \<open>T\<close> that were there before. \<open>reads_table E T\<close> is the documented behaviour of ClickHouse the
  manager relies on: a status query
  answers from the rows written so far, and does not fail.
\<close>

fun apply_write :: "(string \<Rightarrow> nat \<Rightarrow> status_answer) \<Rightarrow> call \<Rightarrow> (string \<Rightarrow> nat \<Rightarrow> status_answer)" where
  "apply_write T (CInsertEntry db mid st) = T(db := (T db)(mid := Row st))"
| "apply_write T (CUpdateEntry db mid st msg) =
     (if T db mid = NoRows then T else T(db := (T db)(mid := Row st)))"
| "apply_write T _ = T"

definition table :: "(string \<Rightarrow> nat \<Rightarrow> status_answer) \<Rightarrow> call list \<Rightarrow> (string \<Rightarrow> nat \<Rightarrow> status_answer)" where
  "table T h = foldl apply_write T h"

definition reads_table :: "env \<Rightarrow> (string \<Rightarrow> nat \<Rightarrow> status_answer) \<Rightarrow> bool" where
  "reads_table E T \<longleftrightarrow> (\<forall>h. e_status E h = table T h) \<and> (\<forall>db mid e. T db mid \<noteq> StatusError e)"

lemma apply_write_wait: "is_wait c \<Longrightarrow> apply_write T c = T"
  by (cases c) simp_all

lemma table_drop_waits: "table T h = table T (filter (\<lambda>c. \<not> is_wait c) h)"
  unfolding table_def by (induction h arbitrary: T) (simp_all add: apply_write_wait)

lemma table_effects:
  assumes "extends s s'"
  shows "table T (hist s') = table (table T (hist s)) (effects s s')"
proof -
  from assms obtain t where t: "hist s' = hist s @ t" by (auto simp: extends_def)
  then have "table T (hist s') = table (table T (hist s)) t" by (simp add: table_def)
  also have "\<dots> = table (table T (hist s)) (filter (\<lambda>c. \<not> is_wait c) t)" by (rule table_drop_waits)
  finally show ?thesis by (simp add: effects_def t)
qed

text \<open>A migration is settled when its row says in progress or finished.\<close>

definition settled :: "(string \<Rightarrow> nat \<Rightarrow> status_answer) \<Rightarrow> st \<Rightarrow> (string \<times> nat) set" where
  "settled T s = {(db, mid). table T (hist s) db mid \<in> {Row InProgressStatus, Row FinishedStatus}}"

lemma RunOperation_Ok_settles:
  assumes "RunOperation E m operation mid db False s = (Ok (), s')"
  shows "settled T s' = insert (db, mid) (settled T s)" and "extends s s'"
proof -
  from RunOperation_writes [OF assms] obtain sql where x: "extends s s'" and
    e: "effects s s' = [CInsertEntry db mid InProgressStatus, CExec sql, CUpdateEntry db mid FinishedStatus []]"
    by blast
  show "extends s s'" by (rule x)
  from table_effects [OF x, of T] e show "settled T s' = insert (db, mid) (settled T s)"
    by (auto simp: settled_def table_def split: if_splits)
qed

lemma for_each_RunOperation_settles:
  "for_each (\<lambda>item. RunOperation E m item mid db False) ops s = (Ok (), s') \<Longrightarrow>
   settled T s' = (if ops = [] then settled T s else insert (db, mid) (settled T s)) \<and> extends s s'"
proof (induction ops arbitrary: s)
  case (Cons op ops)
  then obtain s1 where run: "RunOperation E m op mid db False s = (Ok (), s1)"
    and rest: "for_each (\<lambda>item. RunOperation E m item mid db False) ops s1 = (Ok (), s')"
    by (auto elim!: bnd_OkE)
  from Cons.IH [OF rest] RunOperation_Ok_settles [OF run] extends_trans
  show ?case by auto
qed (simp add: ret_def)

lemma table_no_error:
  "(\<forall>db mid e. T db mid \<noteq> StatusError e) \<Longrightarrow> table T h db mid \<noteq> StatusError e"
proof (induction h arbitrary: T)
  case (Cons c h)
  have "\<forall>db mid e. apply_write T c db mid \<noteq> StatusError e" using Cons.prems by (cases c) auto
  then show ?case using Cons.IH [of "apply_write T c"] by (simp add: table_def)
qed (simp add: table_def)

fun is_query :: "call \<Rightarrow> bool" where
  "is_query (CStatusQuery _ _) = True"
| "is_query _ = False"

text \<open>The decision reads the table and adds at most one status query to the history.\<close>

lemma shouldRunMigration_settled:
  assumes "reads_table E T"
  shows "\<exists>s1. shouldRunMigration E db mid versions s =
      (Ok ((versions = [] \<or> mid \<in> set versions) \<and> (db, mid) \<notin> settled T s), s1) \<and>
    settled T s1 = settled T s \<and> extends s s1 \<and> list_all is_query (effects s s1)"
  using assms table_no_error [of T "hist s" db mid]
  by (auto simp: shouldRunMigration_def bnd_def ask_def ret_def settled_def reads_table_def table_def
      effects_snoc split: status_answer.splits)

definition sync_step ::
    "env \<Rightarrow> manager \<Rightarrow> nat list \<Rightarrow> string \<times> SchemaMigrationRecord \<Rightarrow> unit comp" where
  "sync_step E m versions = (\<lambda>(db, migration).
     bnd (shouldRunMigration E db (MigrationID migration) versions) (\<lambda>should.
       if \<not> should then ret ()
       else executeSyncOperations E m (UpItems migration) (MigrationID migration) db))"

definition up_sync_work :: "migration_lists \<Rightarrow> (string \<times> SchemaMigrationRecord) list" where
  "up_sync_work L =
     map (Pair SignozTracesDB) (TracesMigrations L) @ map (Pair SignozLogsDB) (LogsMigrations L) @
     map (Pair SignozMetricsDB) (MetricsMigrations L) @ map (Pair SignozMetadataDB) (MetadataMigrations L) @
     map (Pair SignozAnalyticsDB) (AnalyticsMigrations L) @ map (Pair SignozMeterDB) (MeterMigrations L)"

lemma run_phase_steps:
  "run_phase (executeSyncOperations E m) UpItems E versions db migrations =
   for_each (sync_step E m versions) (map (Pair db) migrations)"
  unfolding run_phase_def by (induction migrations) (simp_all add: sync_step_def)

lemma MigrateUpSync_work:
  "MigrateUpSync E m L versions = for_each (sync_step E m versions) (up_sync_work L)"
  by (simp add: MigrateUpSync_def up_sync_work_def run_phase_steps for_each_append)

text \<open>There is nothing left to run for a migration.\<close>

fun idle :: "(string \<Rightarrow> nat \<Rightarrow> status_answer) \<Rightarrow> nat list \<Rightarrow> st \<Rightarrow> string \<times> SchemaMigrationRecord \<Rightarrow> bool" where
  "idle T versions s (db, migration) \<longleftrightarrow>
     \<not> (versions = [] \<or> MigrationID migration \<in> set versions) \<or>
     (db, MigrationID migration) \<in> settled T s \<or> filter IsSyncOperation (UpItems migration) = []"

lemma idle_mono: "idle T versions s x \<Longrightarrow> settled T s \<subseteq> settled T s' \<Longrightarrow> idle T versions s' x"
  by (cases x) auto

lemma sync_step_Ok:
  assumes "reads_table E T" and "sync_step E m versions (db, migration) s = (Ok (), s')"
  shows "settled T s \<subseteq> settled T s' \<and> idle T versions s' (db, migration)"
proof -
  let ?mid = "MigrationID migration" and ?ops = "filter IsSyncOperation (UpItems migration)"
  from shouldRunMigration_settled [OF assms(1)] obtain s1 where
    sh: "shouldRunMigration E db ?mid versions s =
      (Ok ((versions = [] \<or> ?mid \<in> set versions) \<and> (db, ?mid) \<notin> settled T s), s1)"
    and eq: "settled T s1 = settled T s" by blast
  show ?thesis
  proof (cases "(versions = [] \<or> ?mid \<in> set versions) \<and> (db, ?mid) \<notin> settled T s")
    case True
    with assms(2) sh
    have "for_each (\<lambda>item. RunOperation E m item ?mid db False) ?ops s1 = (Ok (), s')"
      by (simp add: sync_step_def bnd_def executeSync_filter)
    from for_each_RunOperation_settles [OF this, of T] eq show ?thesis by auto
  next
    case False
    with assms(2) sh eq show ?thesis by (auto simp: sync_step_def bnd_def ret_def)
  qed
qed

lemma sync_steps_Ok:
  "reads_table E T \<Longrightarrow> for_each (sync_step E m versions) xs s = (Ok (), s') \<Longrightarrow>
   settled T s \<subseteq> settled T s' \<and> list_all (idle T versions s') xs"
proof (induction xs arbitrary: s)
  case (Cons x xs)
  then obtain s1 where step: "sync_step E m versions x s = (Ok (), s1)"
    and rest: "for_each (sync_step E m versions) xs s1 = (Ok (), s')" by (auto elim!: bnd_OkE)
  from sync_step_Ok [OF Cons.prems(1)] step have "settled T s \<subseteq> settled T s1 \<and> idle T versions s1 x"
    by (cases x) blast
  with Cons.IH [OF Cons.prems(1) rest] show ?case by (auto intro: idle_mono)
qed (simp add: ret_def)

lemma idle_step:
  assumes "reads_table E T" and "idle T versions s x"
  shows "\<exists>s'. sync_step E m versions x s = (Ok (), s') \<and> settled T s' = settled T s \<and>
    extends s s' \<and> list_all is_query (effects s s')"
proof -
  obtain db migration where x: "x = (db, migration)" by (cases x)
  from shouldRunMigration_settled [OF assms(1), of db "MigrationID migration" versions s] assms(2) x
  show ?thesis
    by (auto simp: sync_step_def bnd_def ret_def executeSync_filter)
qed

lemma idle_steps:
  "reads_table E T \<Longrightarrow> list_all (idle T versions s) xs \<Longrightarrow>
   \<exists>s'. for_each (sync_step E m versions) xs s = (Ok (), s') \<and> extends s s' \<and>
     list_all is_query (effects s s')"
proof (induction xs arbitrary: s)
  case (Cons x xs)
  from idle_step [OF Cons.prems(1), of versions s x m] Cons.prems(2) obtain s1 where
    step: "sync_step E m versions x s = (Ok (), s1)" and eq: "settled T s1 = settled T s"
    and x1: "extends s s1" "list_all is_query (effects s s1)" by auto
  from Cons.prems(2) eq have "list_all (idle T versions s1) xs"
    by (auto simp: list_all_iff intro: idle_mono)
  from Cons.IH [OF Cons.prems(1) this] obtain s' where
    rest: "for_each (sync_step E m versions) xs s1 = (Ok (), s')"
    and x2: "extends s1 s'" "list_all is_query (effects s1 s')" by blast
  from step rest x1 x2 effects_trans [OF x1(1) x2(1)] extends_trans [OF x1(1) x2(1)]
  show ?case by (auto simp: bnd_def)
qed (simp add: ret_def)


section \<open>With every request answered, the command succeeds\<close>

text \<open>
  \<open>healthy E\<close>: no request fails, no mutation and no distributed DDL is pending, and a backoff that
  was just reset does not stop.
\<close>

definition healthy :: "env \<Rightarrow> bool" where
  "healthy E \<longleftrightarrow>
     (\<forall>h q. e_exec E h q = None) \<and> (\<forall>h db mid st. e_insert E h db mid st = None) \<and>
     (\<forall>h db mid st. e_update E h db mid st = None) \<and>
     (\<forall>h db mid e. e_status E h db mid \<noteq> StatusError e) \<and>
     (\<forall>h via e. e_hostrows E h via \<noteq> Inl e) \<and> (\<forall>a p e. e_addrport E a p \<noteq> Inl e) \<and>
     (\<forall>h a. e_open E h a = None) \<and> (\<forall>h. polls h = 0 \<longrightarrow> \<not> e_stop E h) \<and>
     (\<forall>h a. e_mutations E h a = Inr 0) \<and> (\<forall>h. e_ddl E h = DDLRows 0) \<and>
     (\<forall>h a db t. e_distribution E h a db t = None)"

definition succeeds :: "'a comp \<Rightarrow> bool" where
  "succeeds m \<longleftrightarrow> (\<forall>s. \<exists>x s'. m s = (Ok x, s'))"

named_theorems succeeds_intros "computations that succeed"

lemma succeeds_ret [succeeds_intros]: "succeeds (ret x)"
  by (simp add: succeeds_def ret_def)

lemma succeedsE:
  assumes "succeeds m"
  obtains x s' where "m s = (Ok x, s')"
  using assms unfolding succeeds_def by blast

lemma succeeds_bnd [succeeds_intros]:
  assumes "succeeds m" and "\<And>x. succeeds (f x)"
  shows "succeeds (bnd m f)"
  unfolding succeeds_def
proof
  fix s
  from assms(1) obtain x s1 where m: "m s = (Ok x, s1)" by (rule succeedsE)
  from assms(2) obtain y s2 where "f x s1 = (Ok y, s2)" by (rule succeedsE)
  with m show "\<exists>x s'. bnd m f s = (Ok x, s')" by (simp add: bnd_def)
qed

lemma succeeds_on_err [succeeds_intros]:
  assumes "succeeds m"
  shows "succeeds (on_err m h)"
  unfolding succeeds_def
proof
  fix s
  from assms obtain x s1 where "m s = (Ok x, s1)" by (rule succeedsE)
  then show "\<exists>x s'. on_err m h s = (Ok x, s')" by (simp add: on_err_def)
qed

lemma succeeds_ask [succeeds_intros]: "succeeds (ask c q)"
  by (simp add: succeeds_def ask_def)

lemma succeeds_ask_err [succeeds_intros]: "(\<And>h. q h = None) \<Longrightarrow> succeeds (ask_err c q)"
  by (simp add: succeeds_def ask_err_def bnd_def ask_def ret_def)

lemma succeeds_for_each [succeeds_intros]:
  "(\<And>x. x \<in> set xs \<Longrightarrow> succeeds (body x)) \<Longrightarrow> succeeds (for_each body xs)"
  by (induction xs) (auto intro: succeeds_intros)

lemma succeeds_if [succeeds_intros]:
  "(b \<Longrightarrow> succeeds m) \<Longrightarrow> (\<not> b \<Longrightarrow> succeeds n) \<Longrightarrow> succeeds (if b then m else n)"
  by simp

lemma scan_rows_healthy: "healthy E \<Longrightarrow> \<exists>as. scan_rows E rows = Inr as"
proof (induction rows)
  case (Cons row rows)
  then obtain a where "e_addrport E (fst row) (snd row) = Inr a"
    unfolding healthy_def by (metis sum.exhaust)
  with Cons show ?case by (cases row) auto
qed simp

lemma succeeds_query_hosts: "healthy E \<Longrightarrow> succeeds (query_hosts E via e0)"
  unfolding succeeds_def
proof
  fix s :: st
  assume h: "healthy E"
  then obtain rows where "e_hostrows E (hist s) via = Inr rows"
    unfolding healthy_def by (metis sum.exhaust)
  with scan_rows_healthy [OF h, of rows] show "\<exists>x s'. query_hosts E via e0 s = (Ok x, s')"
    by (auto simp: query_hosts_def bnd_def on_err_def ask_sum_def ask_def ret_def)
qed

lemma succeeds_HostAddrs: "healthy E \<Longrightarrow> succeeds (HostAddrs E m)"
proof -
  assume h: "healthy E"
  have "succeeds (discoverHosts E)"
    unfolding discoverHosts_def Let_def
    by (intro succeeds_intros succeeds_query_hosts h)
      (use h in \<open>auto simp: succeeds_def healthy_def\<close>)
  then show ?thesis by (simp add: succeeds_def HostAddrs_def ret_def)
qed

lemma getConn_healthy:
  "healthy E \<Longrightarrow> \<exists>s'. getConn E host s = (Ok (), s') \<and> (hist s' = hist s \<or> hist s' = hist s @ [COpen host])"
  by (simp add: getConn_def ask_err_def bnd_def ask_def ret_def healthy_def)

lemma succeeds_waitForMutationsOnHost:
  assumes "healthy E" and "0 < Fuel m"
  shows "succeeds (waitForMutationsOnHost E m host)"
  unfolding succeeds_def
proof
  fix s :: st
  let ?s = "s\<lparr>hist := hist s @ [CReset]\<rparr>"
  from getConn_healthy [OF assms(1), of host ?s] obtain s1 where
    g: "getConn E host ?s = (Ok (), s1)" and "hist s1 = hist ?s \<or> hist s1 = hist ?s @ [COpen host]"
    by blast
  then have "polls (hist s1) = 0" by (auto simp: polls_def since_def)
  with assms(1) have "\<not> e_stop E (hist s1)" by (simp add: healthy_def)
  with assms g show "\<exists>x s'. waitForMutationsOnHost E m host s = (Ok x, s')"
    by (cases "Fuel m")
      (auto simp: waitForMutationsOnHost_def bnd_def ask_def ask_sum_def ret_def healthy_def)
qed

lemma succeeds_WaitForRunningMutations:
  "healthy E \<Longrightarrow> 0 < Fuel m \<Longrightarrow> succeeds (WaitForRunningMutations E m)"
  unfolding WaitForRunningMutations_def
  by (intro succeeds_intros succeeds_HostAddrs succeeds_waitForMutationsOnHost)

lemma succeeds_WaitDistributedDDLQueue:
  assumes "healthy E" and "0 < Fuel m"
  shows "succeeds (WaitDistributedDDLQueue E m)"
proof -
  have "\<not> e_stop E (h @ [CReset])" for h using assms(1) polls_reset by (simp add: healthy_def)
  with assms show ?thesis
    by (cases "Fuel m")
      (auto simp: succeeds_def WaitDistributedDDLQueue_def bnd_def ask_def ret_def healthy_def
        getDistributedDDLQueue_def eval_nat_numeral)
qed

lemma succeeds_WaitForDistributionQueue:
  assumes "healthy E"
  shows "succeeds (WaitForDistributionQueue E m db tbl)"
proof -
  have "succeeds (getConn E host)" for host
    using getConn_healthy [OF assms] by (metis succeeds_def)
  with assms show ?thesis
    unfolding WaitForDistributionQueue_def
    by (intro succeeds_intros succeeds_HostAddrs) (simp_all add: healthy_def)
qed

lemma succeeds_RunOperation:
  assumes "healthy E" and "0 < Fuel m" and "Op_ToSQL (prepareOperation m operation) \<noteq> None"
  shows "succeeds (RunOperation E m operation mid db skip)"
proof -
  have dq: "succeeds (case shouldWait a of (wait, qdb, qt) \<Rightarrow>
      if wait then on_err (WaitForDistributionQueue E m qdb qt) (record_failure E qdb mid) else ret ())" for a
    by (auto intro!: succeeds_intros succeeds_WaitForDistributionQueue assms(1) split: prod.splits)
  have ex: "succeeds (execOperation E (prepareOperation m operation))"
    using assms by (auto simp: execOperation_def healthy_def intro!: succeeds_intros)
  have en: "succeeds (insertMigrationEntry E db mid st)" "succeeds (updateMigrationEntry E db mid st msg)" for st msg
    using assms(1) unfolding insertMigrationEntry_def updateMigrationEntry_def healthy_def
    by (auto intro!: succeeds_intros)
  show ?thesis unfolding RunOperation_def Let_def
    by (intro succeeds_intros dq ex en succeeds_WaitForRunningMutations
        succeeds_WaitDistributedDDLQueue assms(1,2))
qed

lemma succeeds_shouldRunMigration: "healthy E \<Longrightarrow> succeeds (shouldRunMigration E db mid versions)"
  unfolding succeeds_def
proof
  fix s :: st
  assume "healthy E"
  then have "\<And>e. e_status E (hist s) db mid \<noteq> StatusError e" by (simp add: healthy_def)
  then show "\<exists>x s'. shouldRunMigration E db mid versions s = (Ok x, s')"
    by (auto simp: shouldRunMigration_def bnd_def ask_def ret_def split: status_answer.splits)
qed

text \<open>Every operation of the synchronous lists has a statement.\<close>

definition all_rendered :: "manager \<Rightarrow> migration_lists \<Rightarrow> bool" where
  "all_rendered m L = list_all (\<lambda>(db, migration).
     list_all (\<lambda>op. Op_ToSQL (prepareOperation m op) \<noteq> None) (UpItems migration)) (up_sync_work L)"

lemma succeeds_MigrateUpSync:
  assumes "healthy E" and "0 < Fuel m" and "all_rendered m L"
  shows "succeeds (MigrateUpSync E m L versions)"
proof -
  have "succeeds (sync_step E m versions x)" if "x \<in> set (up_sync_work L)" for x
    using that assms(3) unfolding sync_step_def all_rendered_def executeSync_filter
    by (cases x)
      (auto simp: list_all_iff intro!: succeeds_intros succeeds_RunOperation assms(1,2)
        succeeds_shouldRunMigration)
  then show ?thesis unfolding MigrateUpSync_work by (rule succeeds_for_each)
qed

text \<open>
  With a healthy ClickHouse, and no operation with a missing column type, the synchronous
  command succeeds from every state, whatever the migration lists and the requested versions.
\<close>

theorem MigrateUpSync_succeeds:
  assumes "healthy E" and "0 < Fuel m" and "all_rendered m L"
  shows "\<exists>s'. MigrateUpSync E m L versions s = (Ok (), s')"
  using succeeds_MigrateUpSync [OF assms] by (auto simp: succeeds_def)

section \<open>A concrete environment\<close>

text \<open>
  A ClickHouse with one host that answers every request, and a backoff that allows three polls.
\<close>

definition quiet_env :: env where
  "quiet_env = \<lparr>e_exec = (\<lambda>h q. None), e_insert = (\<lambda>h db mid st. None),
     e_update = (\<lambda>h db mid st. None), e_status = table (\<lambda>db mid. NoRows),
     e_tables = (\<lambda>h db t. Inr 0), e_migrations = (\<lambda>h db. Inr 0),
     e_hostrows = (\<lambda>h via. Inr [(''ch1'', 9000)]), e_addrport = (\<lambda>a p. Inr a),
     e_iterate = (\<lambda>xs. xs), e_open = (\<lambda>h a. None), e_stop = (\<lambda>h. 3 \<le> polls h),
     e_mutations = (\<lambda>h a. Inr 0), e_ddl = (\<lambda>h. DDLRows 0),
     e_distribution = (\<lambda>h a db t. None)\<rparr>"

definition start :: st where
  "start = \<lparr>addrs = [], conns = [], hist = []\<rparr>"

definition manager1 :: manager where
  "manager1 = \<lparr>clusterName = ''cluster'', replicationEnabled = True, development = False, Fuel = 4\<rparr>"

definition drop_ttl :: Operation where
  "drop_ttl = OpDropTTL \<lparr>op_cluster = [], op_Database = ''signoz_logs'', op_Table = ''old''\<rparr>"

definition lists1 :: migration_lists where
  "lists1 = \<lparr>TracesMigrations = [], LogsMigrations = [\<lparr>MigrationID = 7, UpItems = [drop_ttl], DownItems = []\<rparr>],
     MetricsMigrations = [], MetadataMigrations = [], AnalyticsMigrations = [], MeterMigrations = [],
     CustomRetentionLogsMigrations = [], SquashedMetricsMigrations = [], SquashedTracesMigrations = []\<rparr>"

lemma healthy_quiet: "healthy quiet_env"
  by (simp add: healthy_def quiet_env_def table_no_error)

lemma backoff_quiet: "backoff_bounded quiet_env 3"
  by (simp add: backoff_bounded_def quiet_env_def)

lemma reads_quiet: "reads_table quiet_env (\<lambda>db mid. NoRows)"
  by (simp add: reads_table_def quiet_env_def)

lemma rendered1: "all_rendered manager1 lists1" "Op_ToSQL (prepareOperation manager1 drop_ttl) \<noteq> None"
  by (simp_all add: all_rendered_def up_sync_work_def lists1_def drop_ttl_def manager1_def
      prepareOperation_def)

lemma drop_ttl_runs:
  obtains s' where "RunOperation quiet_env manager1 drop_ttl 7 SignozLogsDB False start = (Ok (), s')"
proof -
  have "succeeds (RunOperation quiet_env manager1 drop_ttl 7 SignozLogsDB False)"
    by (rule succeeds_RunOperation [OF healthy_quiet]) (simp_all add: rendered1, simp add: manager1_def)
  then show thesis by (rule succeedsE) (auto intro: that)
qed

lemma RunOperation_protocol_witness:
  "\<exists>s' sql. RunOperation quiet_env manager1 drop_ttl 7 SignozLogsDB False start = (Ok (), s') \<and>
    effects start s' = [CInsertEntry SignozLogsDB 7 InProgressStatus, CExec sql,
                        CUpdateEntry SignozLogsDB 7 FinishedStatus []]"
  using drop_ttl_runs RunOperation_protocol by metis

text \<open>An environment that refuses every statement.\<close>

definition refusing_env :: env where
  "refusing_env = quiet_env\<lparr>e_exec := \<lambda>h q. Some ''refused''\<rparr>"

definition manager2 :: manager where
  "manager2 = \<lparr>clusterName = [], replicationEnabled = False, development = True, Fuel = 4\<rparr>"


lemma shouldRunMigration_decides_witness:
  "fst (shouldRunMigration quiet_env SignozLogsDB 7 [7] start) = Ok True"
proof -
  have "\<And>h e. e_status quiet_env h SignozLogsDB 7 \<noteq> StatusError e"
    by (simp add: quiet_env_def table_no_error)
  from shouldRunMigration_decides [OF this, of "[7]" start] show ?thesis
    by (simp add: quiet_env_def start_def table_def)
qed

lemma Migrate_commands_return_witness:
  "returns (MigrateUpSync quiet_env manager1 lists1 []) \<and>
   returns (MigrateDownSync quiet_env manager1 lists1 []) \<and>
   returns (MigrateUpAsync quiet_env manager1 lists1 []) \<and>
   returns (MigrateDownAsync quiet_env manager1 lists1 [])"
  by (rule Migrate_commands_return [OF backoff_quiet]) (simp add: manager1_def)

lemma lists1_runs:
  obtains s' where "MigrateUpSync quiet_env manager1 lists1 [] start = (Ok (), s')"
proof -
  have "0 < Fuel manager1" by (simp add: manager1_def)
  from succeeds_MigrateUpSync [OF healthy_quiet this rendered1(1)] show thesis
    by (rule succeedsE) (auto intro: that)
qed


lemma MigrateUpSync_succeeds_witness:
  "\<exists>s'. MigrateUpSync quiet_env manager1 lists1 [7] start = (Ok (), s')"
  by (rule MigrateUpSync_succeeds [OF healthy_quiet _ rendered1(1)]) (simp add: manager1_def)

end
