(* ===== verification/Migrate_Commands.thy ===== *)
theory Migrate_Commands
  imports Migration_Liveness
begin

text \<open>
  The migration commands of the collector binary (\<open>cmd/signozotelcollector/migrate\<close>): readiness,
  bootstrap, the synchronous and asynchronous up commands and their checks, with the retry loop
  around each. An error of a command is a \<open>base\<close>, the original error with its retryable flag; nil is
  \<open>None\<close>. The answers that only these commands need are the fields of \<open>cmd_env\<close>.
\<close>

section \<open>Errors\<close>

record base =
  orig :: err
  isRetryable :: bool

definition New :: "err \<Rightarrow> base" where
  "New e = \<lparr>orig = e, isRetryable = False\<rparr>"

definition NewRetryableError :: "err \<Rightarrow> base" where
  "NewRetryableError e = \<lparr>orig = e, isRetryable = True\<rparr>"

type_synonym cmd = "base option comp"

text \<open>
  The answer to a query whose rows are scanned one by one: the query can fail, or a scan. The
  keeper query can fail with an exception of ClickHouse, which has a code and a message.
\<close>

datatype 'a rows = QueryError err | ScanError err | Rows 'a

datatype keeper_answer = KException nat string | KError err | KScanError err | KRows

record cmd_env =
  ce :: env
  ce_stop :: "call list \<Rightarrow> bool"
  ce_order :: "string list \<Rightarrow> string list"
  ce_databases :: "call list \<Rightarrow> string list rows"
  ce_hosts :: "call list \<Rightarrow> (string \<times> string \<times> nat) list rows"
  ce_open :: "string \<Rightarrow> nat \<Rightarrow> string option"
  ce_ping :: "call list \<Rightarrow> string \<Rightarrow> nat \<Rightarrow> string option"
  ce_keeper :: "call list \<Rightarrow> keeper_answer"

text \<open>Run a call; on an error return it wrapped, otherwise go on.\<close>

definition attempt :: "'a comp \<Rightarrow> (err + 'a) comp" where
  "attempt m s = (case m s of
     (Ok x, s') \<Rightarrow> (Ok (Inr x), s') | (Err e, s') \<Rightarrow> (Ok (Inl e), s')
   | (Panic p, s') \<Rightarrow> (Panic p, s') | (Diverge, s') \<Rightarrow> (Diverge, s'))"

definition or_return :: "(err \<Rightarrow> base) \<Rightarrow> 'a comp \<Rightarrow> ('a \<Rightarrow> cmd) \<Rightarrow> cmd" where
  "or_return wrap m f =
     bnd (attempt m) (\<lambda>r. case r of Inl e \<Rightarrow> ret (Some (wrap e)) | Inr x \<Rightarrow> f x)"

definition and_then :: "cmd \<Rightarrow> cmd \<Rightarrow> cmd" where
  "and_then a b = bnd a (\<lambda>r. case r of None \<Rightarrow> b | Some e \<Rightarrow> ret (Some e))"

fun cmd_each :: "('a \<Rightarrow> cmd) \<Rightarrow> 'a list \<Rightarrow> cmd" where
  "cmd_each body [] = ret None"
| "cmd_each body (x # xs) = and_then (body x) (cmd_each body xs)"

section \<open>The up commands\<close>

text \<open>The part of \<open>run\<close> for one migration; \<open>wrap\<close> wraps the error of the last status write.\<close>

definition run_migration ::
    "env \<Rightarrow> manager \<Rightarrow> (SchemaMigrationRecord \<Rightarrow> bool) \<Rightarrow> (err \<Rightarrow> base) \<Rightarrow> string \<Rightarrow> SchemaMigrationRecord \<Rightarrow> cmd" where
  "run_migration E m select wrap db migration =
     (if \<not> select migration then ret None
      else or_return NewRetryableError (CheckMigrationStatus E db (MigrationID migration) FinishedStatus) (\<lambda>ok.
        if ok then ret None
        else bnd (attempt (for_each (\<lambda>item.
               RunOperationWithoutUpdate E m item (MigrationID migration) db) (UpItems migration)))
          (\<lambda>r. case r of
             Inl e \<Rightarrow> or_return New (insertMigrationEntry E db (MigrationID migration) FailedStatus)
                        (\<lambda>_. ret (Some (New e)))
           | Inr _ \<Rightarrow> or_return wrap (insertMigrationEntry E db (MigrationID migration) FinishedStatus)
                        (\<lambda>_. ret None))))"

definition syncUp_run :: "env \<Rightarrow> manager \<Rightarrow> SchemaMigrationRecord list \<Rightarrow> string \<Rightarrow> cmd" where
  "syncUp_run E m migrations db = cmd_each (run_migration E m IsSync NewRetryableError db) migrations"

definition asyncUp_run :: "env \<Rightarrow> manager \<Rightarrow> SchemaMigrationRecord list \<Rightarrow> string \<Rightarrow> cmd" where
  "asyncUp_run E m migrations db = cmd_each (run_migration E m IsAsync New db) migrations"

text \<open>
  The squashed migrations, a Go map ranged over in the order the environment gives. The first
  database that should not run them ends the loop.
\<close>

definition squashed_list :: "migration_lists \<Rightarrow> string \<Rightarrow> SchemaMigrationRecord list" where
  "squashed_list L db =
     (if db = SignozLogsDB then CustomRetentionLogsMigrations L
      else if db = SignozMetricsDB then SquashedMetricsMigrations L
      else if db = SignozTracesDB then SquashedTracesMigrations L
      else [])"

fun squashed_loop ::
    "env \<Rightarrow> (SchemaMigrationRecord list \<Rightarrow> string \<Rightarrow> cmd) \<Rightarrow> migration_lists \<Rightarrow> string list \<Rightarrow> cmd" where
  "squashed_loop E run L [] = ret None"
| "squashed_loop E run L (db # dbs) =
     or_return NewRetryableError (ShouldRunSquashedV2 E db) (\<lambda>should.
       if \<not> should then ret None
       else and_then (run (squashed_list L db) db) (squashed_loop E run L dbs))"

definition runSquashedMigrations ::
    "cmd_env \<Rightarrow> (SchemaMigrationRecord list \<Rightarrow> string \<Rightarrow> cmd) \<Rightarrow> migration_lists \<Rightarrow> cmd" where
  "runSquashedMigrations C run L =
     squashed_loop (ce C) run L (ce_order C [SignozLogsDB, SignozMetricsDB, SignozTracesDB])"

definition up_databases ::
    "(SchemaMigrationRecord list \<Rightarrow> string \<Rightarrow> cmd) \<Rightarrow> migration_lists \<Rightarrow> cmd" where
  "up_databases run L =
     and_then (run (TracesMigrations L) SignozTracesDB) (
     and_then (run (LogsMigrations L) SignozLogsDB) (
     and_then (run (MetricsMigrations L) SignozMetricsDB) (
     and_then (run (MetadataMigrations L) SignozMetadataDB) (
     and_then (run (AnalyticsMigrations L) SignozAnalyticsDB) (
     run (MeterMigrations L) SignozMeterDB)))))"

definition SyncUp :: "cmd_env \<Rightarrow> manager \<Rightarrow> migration_lists \<Rightarrow> cmd" where
  "SyncUp C m L =
     and_then (runSquashedMigrations C (syncUp_run (ce C) m) L) (up_databases (syncUp_run (ce C) m) L)"

definition asyncUp_Up :: "cmd_env \<Rightarrow> manager \<Rightarrow> migration_lists \<Rightarrow> cmd" where
  "asyncUp_Up C m L =
     and_then (runSquashedMigrations C (asyncUp_run (ce C) m) L) (up_databases (asyncUp_run (ce C) m) L)"

section \<open>The checks\<close>

definition getLastSyncMigration :: "SchemaMigrationRecord list \<Rightarrow> string + nat" where
  "getLastSyncMigration migrations =
     (case find IsSync (rev migrations) of
        Some migration \<Rightarrow> Inr (MigrationID migration) | None \<Rightarrow> Inl ''no sync migration found'')"

definition getLastAsyncMigration :: "SchemaMigrationRecord list \<Rightarrow> string + nat" where
  "getLastAsyncMigration migrations =
     (case find IsAsync (rev migrations) of
        Some migration \<Rightarrow> Inr (MigrationID migration) | None \<Rightarrow> Inl ''no async migrations found'')"

definition check_finished :: "env \<Rightarrow> string \<Rightarrow> nat \<Rightarrow> cmd" where
  "check_finished E db mid =
     or_return New (CheckMigrationStatus E db mid FinishedStatus) (\<lambda>ok.
       if \<not> ok then ret (Some (New [''migration with ID '' @ nat_digits mid @ '' for database '' @
                 [CHR 0x27] @ db @ [CHR 0x27] @ '' has not been completed'']))
       else ret None)"

text \<open>\<open>if err == nil { ... }\<close> around a check, then the rest of the function.\<close>

definition check_last :: "env \<Rightarrow> string \<Rightarrow> string + nat \<Rightarrow> cmd \<Rightarrow> cmd" where
  "check_last E db lastID rest =
     (case lastID of Inl e \<Rightarrow> rest | Inr mid \<Rightarrow> and_then (check_finished E db mid) rest)"

text \<open>The same with \<open>return err\<close> at the end of the branch.\<close>

definition check_last_return :: "env \<Rightarrow> string \<Rightarrow> string + nat \<Rightarrow> cmd \<Rightarrow> cmd" where
  "check_last_return E db lastID rest =
     (case lastID of Inl e \<Rightarrow> rest | Inr mid \<Rightarrow> check_finished E db mid)"

definition syncCheck_Check :: "env \<Rightarrow> migration_lists \<Rightarrow> cmd" where
  "syncCheck_Check E L =
     check_last E SignozTracesDB (getLastSyncMigration (TracesMigrations L)) (
     check_last E SignozLogsDB (getLastSyncMigration (LogsMigrations L)) (
     check_last E SignozMetricsDB (getLastSyncMigration (MetricsMigrations L)) (
     check_last E SignozMetadataDB (getLastSyncMigration (MetadataMigrations L)) (
     check_last E SignozAnalyticsDB (getLastSyncMigration (AnalyticsMigrations L)) (
     check_last E SignozMeterDB (getLastSyncMigration (MeterMigrations L)) (ret None))))))"

definition asyncCheck_Check :: "env \<Rightarrow> migration_lists \<Rightarrow> cmd" where
  "asyncCheck_Check E L =
     check_last E SignozTracesDB (getLastAsyncMigration (TracesMigrations L)) (
     check_last E SignozLogsDB (getLastAsyncMigration (LogsMigrations L)) (
     check_last E SignozMetricsDB (getLastAsyncMigration (MetricsMigrations L)) (
     check_last_return E SignozMetadataDB (getLastAsyncMigration (MetadataMigrations L)) (
     check_last_return E SignozAnalyticsDB (getLastAsyncMigration (AnalyticsMigrations L)) (
     check_last_return E SignozMeterDB (getLastAsyncMigration (MeterMigrations L)) (ret None))))))"

section \<open>Bootstrap\<close>

text \<open>
  The migration tables in source order; all but the first are run under the metrics database, as in
  the code.
\<close>

record migration_tables =
  V2MigrationTablesLogs :: "SchemaMigrationRecord list"
  V2MigrationTablesMetrics :: "SchemaMigrationRecord list"
  V2MigrationTablesTraces :: "SchemaMigrationRecord list"
  V2MigrationTablesMetadata :: "SchemaMigrationRecord list"
  V2MigrationTablesAnalytics :: "SchemaMigrationRecord list"
  V2MigrationTablesMeter :: "SchemaMigrationRecord list"

definition CreateDatabases :: "cmd_env \<Rightarrow> manager \<Rightarrow> cmd" where
  "CreateDatabases C m =
     bnd (ask CDatabases (ce_databases C)) (\<lambda>r. case r of
       QueryError e \<Rightarrow> ret (Some (NewRetryableError e))
     | ScanError e \<Rightarrow> ret (Some (New e))
     | Rows databases \<Rightarrow> cmd_each (\<lambda>database.
         if database \<in> set databases then ret None
         else (let command = ''CREATE DATABASE '' @ database @ '' ON CLUSTER '' @ clusterName m in
               or_return New (ask_err (CExec command) (\<lambda>h. e_exec (ce C) h command)) (\<lambda>_. ret None)))
         Databases)"

fun ShouldRunOperation :: "env \<Rightarrow> Operation \<Rightarrow> bool comp" where
  "ShouldRunOperation E (OpCreateTable a) =
     bnd (ask_sum (CCountTables (op_Database a) (op_Table a))
            (\<lambda>h. e_tables E h (op_Database a) (op_Table a))) (\<lambda>cnt. ret (\<not> cnt > 0))"
| "ShouldRunOperation E op = ret True"

definition create_tables :: "env \<Rightarrow> manager \<Rightarrow> string \<Rightarrow> SchemaMigrationRecord list \<Rightarrow> cmd" where
  "create_tables E m db migrations = cmd_each (\<lambda>migration. cmd_each (\<lambda>operation.
     or_return NewRetryableError (ShouldRunOperation E operation) (\<lambda>shouldRun.
       if \<not> shouldRun then ret None
       else or_return New (RunOperation E m operation (MigrationID migration) db True) (\<lambda>_. ret None)))
     (UpItems migration)) migrations"

definition CreateMigrationTables :: "env \<Rightarrow> manager \<Rightarrow> migration_tables \<Rightarrow> cmd" where
  "CreateMigrationTables E m V =
     and_then (create_tables E m SignozLogsDB (V2MigrationTablesLogs V)) (
     and_then (create_tables E m SignozMetricsDB (V2MigrationTablesMetrics V)) (
     and_then (create_tables E m SignozMetricsDB (V2MigrationTablesTraces V)) (
     and_then (create_tables E m SignozMetricsDB (V2MigrationTablesMetadata V)) (
     and_then (create_tables E m SignozMetricsDB (V2MigrationTablesAnalytics V)) (
     create_tables E m SignozMetricsDB (V2MigrationTablesMeter V))))))"

definition bootstrap_Bootstrap :: "cmd_env \<Rightarrow> manager \<Rightarrow> migration_tables \<Rightarrow> cmd" where
  "bootstrap_Bootstrap C m V = and_then (CreateDatabases C m) (CreateMigrationTables (ce C) m V)"

section \<open>Readiness\<close>

definition ping_host :: "cmd_env \<Rightarrow> string \<times> string \<times> nat \<Rightarrow> cmd" where
  "ping_host C = (\<lambda>(name, address, port).
     case ce_open C address port of
       Some e \<Rightarrow> ret (Some (New [e]))
     | None \<Rightarrow> bnd (ask (CPing address port) (\<lambda>h. ce_ping C h address port)) (\<lambda>r. case r of
         Some e \<Rightarrow> ret (Some (NewRetryableError [''clickhouse host '' @ address @ '':'' @
                     nat_digits port @ '' not reachable'', e]))
       | None \<Rightarrow> ret None))"

definition CheckClickhouse :: "cmd_env \<Rightarrow> cmd" where
  "CheckClickhouse C =
     bnd (ask CReadyHosts (ce_hosts C)) (\<lambda>r. case r of
       QueryError e \<Rightarrow> ret (Some (NewRetryableError e))
     | ScanError e \<Rightarrow> ret (Some (New e))
     | Rows hosts \<Rightarrow>
         (let emptyHosts = map fst (filter (\<lambda>(name, address, port). address = []) hosts) in
          if length emptyHosts > 0
          then ret (Some (NewRetryableError
                 (''waiting for host address to be populated for hosts'' # emptyHosts)))
          else cmd_each (ping_host C) hosts))"

definition CheckKeeper :: "cmd_env \<Rightarrow> cmd" where
  "CheckKeeper C =
     bnd (ask CKeeper (ce_keeper C)) (\<lambda>r. case r of
       KException code msg \<Rightarrow>
         if code = 999 \<and> contains msg ''No node'' then ret (Some (NewRetryableError [msg]))
         else ret (Some (New [msg]))
     | KError e \<Rightarrow> ret (Some (New e))
     | KScanError e \<Rightarrow> ret (Some (New e))
     | KRows \<Rightarrow> ret None)"

definition Ready :: "cmd_env \<Rightarrow> cmd" where
  "Ready C = and_then (CheckClickhouse C) (CheckKeeper C)"

section \<open>The retry loops\<close>

text \<open>
  \<open>Run\<close> of every command: repeat until success, a non-retryable error (when \<open>early\<close> says the loop
  looks at the flag) or the end of the backoff.
\<close>

fun retry_loop :: "nat \<Rightarrow> cmd_env \<Rightarrow> bool \<Rightarrow> string \<Rightarrow> string \<Rightarrow> cmd \<Rightarrow> err option comp" where
  "retry_loop 0 C early failed timed_out body = (\<lambda>s. (Diverge, s))"
| "retry_loop (Suc n) C early failed timed_out body =
     bnd body (\<lambda>r. case r of
       None \<Rightarrow> ret None
     | Some b \<Rightarrow>
         if early \<and> \<not> isRetryable b then ret (Some (failed # orig b))
         else bnd (ask CRetryBackOff (ce_stop C)) (\<lambda>stop.
           if stop then ret (Some [timed_out])
           else bnd (ask CSleep (\<lambda>_. ())) (\<lambda>_. retry_loop n C early failed timed_out body)))"

definition run_command :: "nat \<Rightarrow> cmd_env \<Rightarrow> bool \<Rightarrow> string \<Rightarrow> string \<Rightarrow> cmd \<Rightarrow> err option comp" where
  "run_command n C early failed timed_out body =
     bnd (ask CNewBackOff (\<lambda>_. ())) (\<lambda>_. retry_loop n C early failed timed_out body)"

definition ready_Run :: "nat \<Rightarrow> cmd_env \<Rightarrow> err option comp" where
  "ready_Run n C = run_command n C True ''store not ready due to non-retryable error''
     ''timed out waiting for store readiness checks to pass'' (Ready C)"

definition bootstrap_Run :: "nat \<Rightarrow> cmd_env \<Rightarrow> manager \<Rightarrow> migration_tables \<Rightarrow> err option comp" where
  "bootstrap_Run n C m V = run_command n C True ''failed to bootstrap store for migrations''
     ''failed to bootstrap store for migrations within the configured timeout'' (bootstrap_Bootstrap C m V)"

definition syncUp_Run :: "nat \<Rightarrow> cmd_env \<Rightarrow> manager \<Rightarrow> migration_lists \<Rightarrow> err option comp" where
  "syncUp_Run n C m L = run_command n C True ''failed to run migrations up sync''
     ''timed out waiting for sync up to complete within the configured timeout'' (SyncUp C m L)"

definition asyncUp_Run :: "nat \<Rightarrow> cmd_env \<Rightarrow> manager \<Rightarrow> migration_lists \<Rightarrow> err option comp" where
  "asyncUp_Run n C m L = run_command n C True ''failed to run migrations''
     ''timed out waiting for migration to complete within the configured timeout'' (asyncUp_Up C m L)"

definition syncCheck_Run :: "nat \<Rightarrow> cmd_env \<Rightarrow> migration_lists \<Rightarrow> err option comp" where
  "syncCheck_Run n C L = run_command n C False []
     ''timed out waiting for sync migrations to complete within the configured timeout''
     (syncCheck_Check (ce C) L)"

definition asyncCheck_Run :: "nat \<Rightarrow> cmd_env \<Rightarrow> migration_lists \<Rightarrow> err option comp" where
  "asyncCheck_Run n C L = run_command n C False []
     ''timed out waiting for sync migrations to complete within the configured timeout''
     (asyncCheck_Check (ce C) L)"

end
