(* ===== verification/Migrate_Properties.thy ===== *)
theory Migrate_Properties
  imports Migrate_Commands
begin

text \<open>
  Theorems on the migration commands of the collector: the up command establishes what the check
  tests, what the checks test, that a permanent error is put on record, that the retry loops return,
  and that the up command returns nil against a healthy ClickHouse.
\<close>

section \<open>What the commands write\<close>

fun is_write :: "call \<Rightarrow> bool" where
  "is_write (CInsertEntry _ _ _) = True"
| "is_write (CUpdateEntry _ _ _ _) = True"
| "is_write _ = False"

lemma apply_write_skip: "\<not> is_write c \<Longrightarrow> apply_write T c = T"
  by (cases c) simp_all

lemma table_skip: "list_all (\<lambda>c. \<not> is_write c) t \<Longrightarrow> table T (h @ t) = table T h"
  unfolding table_def by (induction t rule: rev_induct) (simp_all add: apply_write_skip flip: append_assoc)

lemma wait_not_write: "is_wait c \<Longrightarrow> \<not> is_write c"
  by (cases c) simp_all

lemma emits_attempt [emits_intros]: "emits P m \<Longrightarrow> emits P (attempt m)"
  unfolding emits_def attempt_def by (fastforce split: res.splits prod.splits)

lemma emits_RunOperationWithoutUpdate [emits_intros]:
  assumes "\<And>c. is_wait c \<Longrightarrow> P c" and "\<And>q. P (CExec q)"
  shows "emits P (RunOperationWithoutUpdate E m op mid db)"
proof -
  have w: "emits P w" if "emits is_wait w" for w :: "unit comp"
    using that by (rule emits_mono) (rule assms(1))
  have q: "emits P (case shouldWait a of (wait, qdb, qt) \<Rightarrow>
      if wait then WaitForDistributionQueue E m qdb qt else ret ())" for a
    by (auto intro!: emits_intros w [OF emits_WaitForDistributionQueue] split: prod.splits)
  have x: "emits P (execOperation E op)" for op
    unfolding execOperation_def using assms(2) by (auto intro!: emits_intros split: option.splits)
  show ?thesis
    unfolding RunOperationWithoutUpdate_def Let_def
    by (intro emits_intros q x w [OF emits_WaitForRunningMutations] w [OF emits_WaitDistributedDDLQueue])
qed

text \<open>The migrations whose row says finished.\<close>

definition finished :: "(string \<Rightarrow> nat \<Rightarrow> status_answer) \<Rightarrow> st \<Rightarrow> (string \<times> nat) set" where
  "finished T s = {(db, mid). table T (hist s) db mid = Row FinishedStatus}"

lemma finished_skip:
  assumes "emits (\<lambda>c. \<not> is_write c) m" and "m s = (r, s')"
  shows "finished T s' = finished T s"
proof -
  from assms obtain t where "hist s' = hist s @ t" and "list_all (\<lambda>c. \<not> is_write c) t" by (rule emitsD)
  then show ?thesis by (simp add: finished_def table_skip)
qed

text \<open>A command is \<open>monotone\<close> when a run that returns nil unfinishes nothing.\<close>

definition monotone_cmd :: "(string \<Rightarrow> nat \<Rightarrow> status_answer) \<Rightarrow> cmd \<Rightarrow> bool" where
  "monotone_cmd T c \<longleftrightarrow> (\<forall>s s'. c s = (Ok None, s') \<longrightarrow> finished T s \<subseteq> finished T s')"

lemma and_then_nil:
  assumes "and_then a b s = (Ok None, s')"
  obtains s1 where "a s = (Ok None, s1)" and "b s1 = (Ok None, s')"
  using assms by (auto simp: and_then_def ret_def elim!: bnd_OkE split: option.splits)

lemma monotone_ret: "monotone_cmd T (ret x)"
  by (simp add: monotone_cmd_def ret_def)

lemma monotone_and_then: "monotone_cmd T a \<Longrightarrow> monotone_cmd T b \<Longrightarrow> monotone_cmd T (and_then a b)"
  unfolding monotone_cmd_def by (meson and_then_nil subset_trans)

lemma monotone_cmd_each: "(\<And>x. monotone_cmd T (body x)) \<Longrightarrow> monotone_cmd T (cmd_each body xs)"
  by (induction xs) (simp_all add: monotone_ret monotone_and_then)

lemma attempt_Ok:
  assumes "attempt m s = (Ok r, s')"
  obtains x where "r = Inr x" and "m s = (Ok x, s')" | e where "r = Inl e" and "m s = (Err e, s')"
  using assms by (auto simp: attempt_def split: res.splits prod.splits)

lemma or_return_nil:
  assumes "or_return wrap m f s = (Ok None, s')"
  obtains x s1 where "m s = (Ok x, s1)" and "f x s1 = (Ok None, s')"
  using assms by (auto simp: or_return_def ret_def elim!: bnd_OkE attempt_Ok split: sum.splits)

lemma insert_finished:
  "insertMigrationEntry E db mid FinishedStatus s = (Ok u, s') \<Longrightarrow>
   finished T s' = insert (db, mid) (finished T s)"
  unfolding insertMigrationEntry_def
  by (auto elim!: ask_err_OkE simp: finished_def table_def split: if_splits)

lemma CheckMigrationStatus_Ok:
  assumes "CheckMigrationStatus E db mid st s = (Ok ok, s1)" and "reads_table E T"
  shows "finished T s1 = finished T s" and "st = FinishedStatus \<Longrightarrow> ok \<longleftrightarrow> (db, mid) \<in> finished T s"
proof -
  have "emits (\<lambda>c. \<not> is_write c) (CheckMigrationStatus E db mid st)"
    unfolding CheckMigrationStatus_def
    by (intro emits_intros) (auto intro: emits_intros split: status_answer.splits)
  from finished_skip [OF this assms(1)] show "finished T s1 = finished T s" .
  show "ok \<longleftrightarrow> (db, mid) \<in> finished T s" if "st = FinishedStatus"
    using assms that
    by (auto simp: CheckMigrationStatus_def bnd_def ask_def ret_def fail_def finished_def reads_table_def
        split: status_answer.splits)
qed

text \<open>When the run of a selected migration returns nil, its row says finished.\<close>

lemma run_migration_nil:
  assumes "reads_table E T" and "run_migration E m select wrap db migration s = (Ok None, s')"
  shows "finished T s \<subseteq> finished T s'"
    and "select migration \<Longrightarrow> (db, MigrationID migration) \<in> finished T s'"
proof -
  let ?mid = "MigrationID migration"
  let ?ops = "for_each (\<lambda>item. RunOperationWithoutUpdate E m item ?mid db) (UpItems migration)"
  have "finished T s \<subseteq> finished T s' \<and> (db, ?mid) \<in> finished T s'" if sel: "select migration"
  proof -
    from assms(2) sel obtain ok s1 where
      st: "CheckMigrationStatus E db ?mid FinishedStatus s = (Ok ok, s1)"
      and rest: "(if ok then ret None
        else bnd (attempt ?ops) (\<lambda>r. case r of
             Inl e \<Rightarrow> or_return New (insertMigrationEntry E db ?mid FailedStatus) (\<lambda>_. ret (Some (New e)))
           | Inr _ \<Rightarrow> or_return wrap (insertMigrationEntry E db ?mid FinishedStatus) (\<lambda>_. ret None))) s1
        = (Ok None, s')"
      by (auto simp: run_migration_def elim!: or_return_nil)
    note chk = CheckMigrationStatus_Ok [OF st assms(1)]
    show ?thesis
    proof (cases ok)
      case True
      with rest chk show ?thesis by (auto simp: ret_def)
    next
      case False
      with rest obtain r s2 where a: "attempt ?ops s1 = (Ok r, s2)"
        and k: "(case r of
             Inl e \<Rightarrow> or_return New (insertMigrationEntry E db ?mid FailedStatus) (\<lambda>_. ret (Some (New e)))
           | Inr _ \<Rightarrow> or_return wrap (insertMigrationEntry E db ?mid FinishedStatus) (\<lambda>_. ret None)) s2
          = (Ok None, s')" by (auto elim!: bnd_OkE)
      have "emits (\<lambda>c. \<not> is_write c) (attempt ?ops)"
        by (intro emits_intros) (simp_all add: wait_not_write)
      from finished_skip [OF this a] chk(1) have eq: "finished T s2 = finished T s" by simp
      from k obtain u where "insertMigrationEntry E db ?mid FinishedStatus s2 = (Ok u, s')"
        by (auto simp: ret_def elim!: or_return_nil split: sum.splits)
      from insert_finished [OF this] eq show ?thesis by auto
    qed
  qed
  moreover have "finished T s' = finished T s" if "\<not> select migration"
    using assms(2) that by (simp add: run_migration_def ret_def)
  ultimately show "finished T s \<subseteq> finished T s'"
    and "select migration \<Longrightarrow> (db, ?mid) \<in> finished T s'" by auto
qed

lemma monotone_run_migration:
  "reads_table E T \<Longrightarrow> monotone_cmd T (run_migration E m select wrap db migration)"
  unfolding monotone_cmd_def by (blast dest: run_migration_nil(1))

lemma run_migrations_nil:
  "reads_table E T \<Longrightarrow> cmd_each (run_migration E m select wrap db) migrations s = (Ok None, s') \<Longrightarrow>
   migration \<in> set migrations \<Longrightarrow> select migration \<Longrightarrow> (db, MigrationID migration) \<in> finished T s'"
proof (induction migrations arbitrary: s)
  case (Cons x xs)
  from Cons.prems(2) obtain s1 where x: "run_migration E m select wrap db x s = (Ok None, s1)"
    and xs: "cmd_each (run_migration E m select wrap db) xs s1 = (Ok None, s')"
    by (auto elim!: and_then_nil)
  show ?case
  proof (cases "migration \<in> set xs")
    case True
    then show ?thesis using Cons.IH [OF Cons.prems(1) xs] Cons.prems(4) by blast
  next
    case False
    with Cons.prems(3) have eq: "migration = x" by simp
    have "monotone_cmd T (cmd_each (run_migration E m select wrap db) xs)"
      by (intro monotone_cmd_each monotone_run_migration Cons.prems(1))
    with xs have "finished T s1 \<subseteq> finished T s'" unfolding monotone_cmd_def by blast
    with run_migration_nil(2) [OF Cons.prems(1) x] Cons.prems(4) eq show ?thesis by blast
  qed
qed simp

lemma check_finished_ok:
  assumes "reads_table E T" and "(db, mid) \<in> finished T s"
  shows "\<exists>s'. check_finished E db mid s = (Ok None, s') \<and> finished T s' = finished T s"
proof -
  have "table T (hist s @ [CStatusQuery db mid]) = table T (hist s)" by (simp add: table_skip)
  with assms show ?thesis
    by (simp add: check_finished_def or_return_def bnd_def attempt_def CheckMigrationStatus_def ask_def
        ret_def finished_def reads_table_def)
qed

definition checked :: "(string \<Rightarrow> nat \<Rightarrow> status_answer) \<Rightarrow> st \<Rightarrow> string \<Rightarrow> string + nat \<Rightarrow> bool" where
  "checked T s db lastID = (case lastID of Inl e \<Rightarrow> True | Inr mid \<Rightarrow> (db, mid) \<in> finished T s)"

lemma check_last_ok:
  assumes "reads_table E T" and "checked T s db lastID"
    and "\<And>s1. finished T s1 = finished T s \<Longrightarrow> \<exists>s'. rest s1 = (Ok None, s')"
  shows "\<exists>s'. check_last E db lastID rest s = (Ok None, s')"
proof (cases lastID)
  case (Inl e)
  then show ?thesis using assms(3) [of s] by (simp add: check_last_def)
next
  case (Inr mid)
  with assms(2) have "(db, mid) \<in> finished T s" by (simp add: checked_def)
  from check_finished_ok [OF assms(1) this] obtain s1 where
    "check_finished E db mid s = (Ok None, s1)" and "finished T s1 = finished T s" by blast
  with assms(3) Inr show ?thesis by (auto simp: check_last_def and_then_def bnd_def)
qed

lemma checked_cong: "finished T s1 = finished T s \<Longrightarrow> checked T s1 db lastID = checked T s db lastID"
  by (simp add: checked_def split: sum.splits)

lemma last_sync_checked:
  assumes "\<And>x. x \<in> set migrations \<Longrightarrow> IsSync x \<Longrightarrow> (db, MigrationID x) \<in> finished T s"
  shows "checked T s db (getLastSyncMigration migrations)"
proof (cases "find IsSync (rev migrations)")
  case (Some x)
  then have "x \<in> set migrations" and "IsSync x" by (auto simp: find_Some_iff) (metis nth_mem set_rev length_rev)
  with Some assms show ?thesis by (simp add: getLastSyncMigration_def checked_def)
qed (simp add: getLastSyncMigration_def checked_def)

lemma syncUp_run_checked:
  assumes "reads_table E T" and "syncUp_run E m migrations db s = (Ok None, s1)"
    and "finished T s1 \<subseteq> finished T s'"
  shows "checked T s' db (getLastSyncMigration migrations)"
  using assms(3) run_migrations_nil [OF assms(1) assms(2) [unfolded syncUp_run_def]]
  by (intro last_sync_checked) blast

lemma monotone_syncUp_run: "reads_table E T \<Longrightarrow> monotone_cmd T (syncUp_run E m migrations db)"
  unfolding syncUp_run_def by (intro monotone_cmd_each monotone_run_migration)

lemma monotoneD: "monotone_cmd T c \<Longrightarrow> c s = (Ok None, s') \<Longrightarrow> finished T s \<subseteq> finished T s'"
  unfolding monotone_cmd_def by blast

text \<open>
  C1. The checks agree with the command: once the synchronous up command has returned nil, the
  synchronous check returns nil, whatever the migration lists and whatever order the squashed
  migrations were ranged over.
\<close>

theorem SyncUp_then_check:
  assumes "reads_table (ce C) T" and "SyncUp C m L s = (Ok None, s')"
  shows "\<exists>s''. syncCheck_Check (ce C) L s' = (Ok None, s'')"
proof -
  note mono = monotoneD [OF monotone_syncUp_run [OF assms(1)]]
  let ?run = "syncUp_run (ce C) m"
  from assms(2) obtain s0 s1 s2 s3 s4 s5 where
      t: "?run (TracesMigrations L) SignozTracesDB s0 = (Ok None, s1)"
    and l: "?run (LogsMigrations L) SignozLogsDB s1 = (Ok None, s2)"
    and me: "?run (MetricsMigrations L) SignozMetricsDB s2 = (Ok None, s3)"
    and md: "?run (MetadataMigrations L) SignozMetadataDB s3 = (Ok None, s4)"
    and an: "?run (AnalyticsMigrations L) SignozAnalyticsDB s4 = (Ok None, s5)"
    and mt: "?run (MeterMigrations L) SignozMeterDB s5 = (Ok None, s')"
    unfolding SyncUp_def up_databases_def by (auto elim!: and_then_nil)
  note chain = mono [OF l] mono [OF me] mono [OF md] mono [OF an] mono [OF mt]
  have c: "checked T s' SignozTracesDB (getLastSyncMigration (TracesMigrations L))"
    "checked T s' SignozLogsDB (getLastSyncMigration (LogsMigrations L))"
    "checked T s' SignozMetricsDB (getLastSyncMigration (MetricsMigrations L))"
    "checked T s' SignozMetadataDB (getLastSyncMigration (MetadataMigrations L))"
    "checked T s' SignozAnalyticsDB (getLastSyncMigration (AnalyticsMigrations L))"
    "checked T s' SignozMeterDB (getLastSyncMigration (MeterMigrations L))"
    using chain
    by (blast intro: syncUp_run_checked [OF assms(1)] t l me md an mt subset_trans order_refl)+
  show ?thesis unfolding syncCheck_Check_def
    by (intro check_last_ok [OF assms(1)]) (simp_all add: c checked_cong ret_def)
qed

section \<open>What the synchronous check says\<close>

lemma checkMigration_finished:
  assumes "reads_table E T" and "check_finished E db mid s = (Ok None, s')"
  shows "(db, mid) \<in> finished T s \<and> finished T s' = finished T s"
proof -
  from assms(2) obtain ok s1 where st: "CheckMigrationStatus E db mid FinishedStatus s = (Ok ok, s1)"
    and r: "ok" "s' = s1"
    by (auto simp: check_finished_def ret_def elim!: or_return_nil split: if_splits)
  from CheckMigrationStatus_Ok [OF st assms(1)] r show ?thesis by simp
qed

lemma check_last_iff:
  assumes "reads_table E T" and "finished T s1 = finished T s"
    and "\<And>s2. finished T s2 = finished T s \<Longrightarrow> (\<exists>s'. rest s2 = (Ok None, s')) \<longleftrightarrow> Q"
  shows "(\<exists>s'. check_last E db lastID rest s1 = (Ok None, s')) \<longleftrightarrow> checked T s db lastID \<and> Q"
proof (cases lastID)
  case (Inl e)
  with assms show ?thesis by (simp add: check_last_def checked_def)
next
  case (Inr mid)
  let ?run = "\<lambda>s'. and_then (check_finished E db mid) rest s1 = (Ok None, s')"
  have "(\<exists>s'. ?run s') \<longleftrightarrow> (db, mid) \<in> finished T s1 \<and> Q"
  proof
    assume "\<exists>s'. ?run s'"
    then obtain s' s2 where "check_finished E db mid s1 = (Ok None, s2)" "rest s2 = (Ok None, s')"
      by (auto elim!: and_then_nil)
    with checkMigration_finished [OF assms(1), of db mid s1 s2] assms(2,3)
    show "(db, mid) \<in> finished T s1 \<and> Q" by auto
  next
    assume r: "(db, mid) \<in> finished T s1 \<and> Q"
    then obtain s2 where c: "check_finished E db mid s1 = (Ok None, s2)"
      and "finished T s2 = finished T s1" using check_finished_ok [OF assms(1)] by blast
    with assms(2,3) r obtain s' where "rest s2 = (Ok None, s')" by blast
    with c show "\<exists>s'. ?run s'" by (simp add: and_then_def bnd_def)
  qed
  with Inr assms(2) show ?thesis by (simp add: check_last_def checked_def)
qed

text \<open>
  The synchronous check returns nil exactly when, in each of the six databases, the last
  migration with a synchronous operation (if there is one) has a finished row.
\<close>

theorem syncCheck_iff:
  assumes "reads_table E T"
  shows "(\<exists>s'. syncCheck_Check E L s = (Ok None, s')) \<longleftrightarrow>
    checked T s SignozTracesDB (getLastSyncMigration (TracesMigrations L)) \<and>
    checked T s SignozLogsDB (getLastSyncMigration (LogsMigrations L)) \<and>
    checked T s SignozMetricsDB (getLastSyncMigration (MetricsMigrations L)) \<and>
    checked T s SignozMetadataDB (getLastSyncMigration (MetadataMigrations L)) \<and>
    checked T s SignozAnalyticsDB (getLastSyncMigration (AnalyticsMigrations L)) \<and>
    checked T s SignozMeterDB (getLastSyncMigration (MeterMigrations L))"
    (is "?ok \<longleftrightarrow> ?t \<and> ?l \<and> ?m \<and> ?d \<and> ?a \<and> ?e")
proof -
  have "?ok \<longleftrightarrow> ?t \<and> ?l \<and> ?m \<and> ?d \<and> ?a \<and> ?e \<and> True"
    unfolding syncCheck_Check_def
    by (intro check_last_iff [OF assms]) (simp_all add: ret_def)
  then show ?thesis by simp
qed

text \<open>
  The asynchronous check stops after the metadata database: if metadata has an asynchronous
  migration at all, its result does not depend on the analytics and meter migrations.
\<close>

theorem asyncCheck_skips_analytics_and_meter:
  assumes "getLastAsyncMigration (MetadataMigrations L) = Inr mid"
  shows "asyncCheck_Check E (L\<lparr>AnalyticsMigrations := a, MeterMigrations := b\<rparr>) = asyncCheck_Check E L"
  using assms by (simp add: asyncCheck_Check_def check_last_return_def)

section \<open>Errors of the up command\<close>

text \<open>The last request marks a migration as failed.\<close>

definition marked :: "st \<Rightarrow> st \<Rightarrow> bool" where
  "marked s s' \<longleftrightarrow> (\<exists>t db mid. hist s' = hist s @ t @ [CInsertEntry db mid FailedStatus])"

definition marks_failures :: "cmd \<Rightarrow> bool" where
  "marks_failures c \<longleftrightarrow>
     (\<forall>s s' b. c s = (Ok (Some b), s') \<longrightarrow> isRetryable b \<or> marked s s') \<and> emits (\<lambda>c. c \<noteq> CNewBackOff) c"

lemma marked_after: "emits P m \<Longrightarrow> m s = (r, s1) \<Longrightarrow> marked s1 s' \<Longrightarrow> marked s s'"
  by (auto elim!: emitsD simp: marked_def)

lemma emits_or_return [emits_intros]:
  "emits P m \<Longrightarrow> (\<And>x. emits P (f x)) \<Longrightarrow> emits P (or_return wrap m f)"
  unfolding or_return_def by (intro emits_intros) (auto intro: emits_intros split: sum.splits)

lemma emits_and_then [emits_intros]: "emits P a \<Longrightarrow> emits P b \<Longrightarrow> emits P (and_then a b)"
  unfolding and_then_def by (intro emits_intros) (auto intro: emits_intros split: option.splits)

lemma emits_cmd_each [emits_intros]: "(\<And>x. emits P (body x)) \<Longrightarrow> emits P (cmd_each body xs)"
  by (induction xs) (auto intro: emits_intros)

lemma marks_bnd:
  assumes "emits (\<lambda>c. c \<noteq> CNewBackOff) m" and "\<And>x. marks_failures (f x)"
  shows "marks_failures (bnd m f)"
proof -
  have "isRetryable e \<or> marked s s'" if run: "bnd m f s = (Ok (Some e), s')" for s s' e
  proof -
    from run obtain x s1 where "m s = (Ok x, s1)" and "f x s1 = (Ok (Some e), s')" by (rule bnd_OkE)
    with assms show ?thesis using marked_after unfolding marks_failures_def by blast
  qed
  moreover have "emits (\<lambda>c. c \<noteq> CNewBackOff) (bnd m f)"
    using assms by (intro emits_intros) (simp_all add: marks_failures_def)
  ultimately show ?thesis by (simp add: marks_failures_def)
qed

lemma marks_ret: "r = None \<or> isRetryable (the r) \<Longrightarrow> marks_failures (ret r)"
  unfolding marks_failures_def using emits_ret by (auto simp: ret_def [of r])

lemma marks_and_then:
  assumes "marks_failures a" and "marks_failures b"
  shows "marks_failures (and_then a b)"
proof -
  have "isRetryable e \<or> marked s s'" if run: "and_then a b s = (Ok (Some e), s')" for s s' e
  proof -
    from run obtain r s1 where a: "a s = (Ok r, s1)"
      and b: "(case r of None \<Rightarrow> b | Some e \<Rightarrow> ret (Some e)) s1 = (Ok (Some e), s')"
      by (auto simp: and_then_def elim!: bnd_OkE)
    show ?thesis
    proof (cases r)
      case None
      with b assms(2) have "isRetryable e \<or> marked s1 s'" by (simp add: marks_failures_def)
      with a assms(1) show ?thesis using marked_after unfolding marks_failures_def by blast
    next
      case (Some e')
      with a b assms(1) show ?thesis by (simp add: marks_failures_def ret_def)
    qed
  qed
  with assms show ?thesis by (auto simp: marks_failures_def intro: emits_intros)
qed

lemma marks_cmd_each: "(\<And>x. marks_failures (body x)) \<Longrightarrow> marks_failures (cmd_each body xs)"
  by (induction xs) (simp_all add: marks_and_then marks_ret)

lemma marks_or_return_retryable:
  assumes "emits (\<lambda>c. c \<noteq> CNewBackOff) m" and "\<And>x. marks_failures (f x)"
  shows "marks_failures (or_return NewRetryableError m f)"
  unfolding or_return_def
proof (rule marks_bnd)
  show "emits (\<lambda>c. c \<noteq> CNewBackOff) (attempt m)" using assms(1) by (rule emits_attempt)
  show "marks_failures (case r of Inl e \<Rightarrow> ret (Some (NewRetryableError e)) | Inr x \<Rightarrow> f x)" for r
    using assms(2) by (cases r) (simp_all add: marks_ret NewRetryableError_def)
qed

lemma marks_insert_failed:
  "marks_failures (or_return wrap (insertMigrationEntry E db mid FailedStatus) (\<lambda>_. ret r))"
proof -
  have "emits (\<lambda>c. c \<noteq> CNewBackOff) (or_return wrap (insertMigrationEntry E db mid FailedStatus) (\<lambda>_. ret r))"
    by (intro emits_intros, unfold insertMigrationEntry_def, intro emits_intros) simp
  then show ?thesis
    by (auto simp: marks_failures_def marked_def or_return_def bnd_def attempt_def insertMigrationEntry_def
        ask_err_def ask_def ret_def fail_def split: option.splits)
qed

lemma emits_CheckMigrationStatus [emits_intros]:
  "P (CStatusQuery db mid) \<Longrightarrow> emits P (CheckMigrationStatus E db mid st)"
  unfolding CheckMigrationStatus_def
  by (intro emits_intros) (auto intro: emits_intros split: status_answer.splits)

lemma emits_insertMigrationEntry [emits_intros]:
  "P (CInsertEntry db mid st) \<Longrightarrow> emits P (insertMigrationEntry E db mid st)"
  unfolding insertMigrationEntry_def by (intro emits_intros)

lemma emits_run_migration:
  "(\<And>c. is_wait c \<Longrightarrow> P c) \<Longrightarrow> (\<And>q. P (CExec q)) \<Longrightarrow> (\<And>db mid. P (CStatusQuery db mid)) \<Longrightarrow>
   (\<And>db mid st. P (CInsertEntry db mid st)) \<Longrightarrow> emits P (run_migration E m select wrap db migration)"
  unfolding run_migration_def
  by (intro emits_intros emits_RunOperationWithoutUpdate | assumption | blast
      | auto intro!: emits_intros split: sum.splits)+


lemma marks_run_migration:
  "marks_failures (run_migration E m select NewRetryableError db migration)"
proof -
  let ?mid = "MigrationID migration"
  have ops: "emits (\<lambda>c. c \<noteq> CNewBackOff)
      (attempt (for_each (\<lambda>item. RunOperationWithoutUpdate E m item ?mid db) (UpItems migration)))"
    by (intro emits_intros) auto
  have "marks_failures (case r of
      Inl e \<Rightarrow> or_return New (insertMigrationEntry E db ?mid FailedStatus) (\<lambda>_. ret (Some (New e)))
    | Inr _ \<Rightarrow> or_return NewRetryableError (insertMigrationEntry E db ?mid FinishedStatus) (\<lambda>_. ret None))"
    for r :: "err + unit"
    by (cases r) (auto intro!: marks_insert_failed marks_or_return_retryable marks_ret emits_intros)
  then show ?thesis unfolding run_migration_def
    by (auto intro!: marks_ret marks_or_return_retryable marks_bnd [OF ops] emits_intros)
qed

lemma marks_squashed_loop:
  "(\<And>migrations db. marks_failures (run migrations db)) \<Longrightarrow> marks_failures (squashed_loop E run L dbs)"
proof (induction dbs)
  case (Cons db dbs)
  have "emits (\<lambda>c. c \<noteq> CNewBackOff) (ShouldRunSquashedV2 E db)"
    unfolding ShouldRunSquashedV2_def by (intro emits_intros) simp
  with Cons show ?case by (auto intro!: marks_or_return_retryable marks_and_then marks_ret)
qed (simp add: marks_ret)

lemma marks_SyncUp: "marks_failures (SyncUp C m L)"
proof -
  have "marks_failures (syncUp_run (ce C) m migrations db)" for migrations db
    unfolding syncUp_run_def by (intro marks_cmd_each marks_run_migration)
  then show ?thesis
    unfolding SyncUp_def runSquashedMigrations_def up_databases_def
    by (intro marks_and_then marks_squashed_loop)
qed

text \<open>
  When the synchronous up command returns an error its retry loop will not retry, the last
  request of the attempt inserts a failed entry: a permanent failure is always put on record.
\<close>

theorem SyncUp_error_marks_failed:
  assumes "SyncUp C m L s = (Ok (Some b), s')" and "\<not> isRetryable b"
  shows "\<exists>t db mid. hist s' = hist s @ t @ [CInsertEntry db mid FailedStatus]"
  using marks_SyncUp [of C m L] assms unfolding marks_failures_def marked_def by blast

section \<open>The retry loops return\<close>

text \<open>
  \<open>retry_bounded C N\<close> is the documented behaviour of the backoff of a \<open>Run\<close>: with a maximal
  elapsed time set, it stops after at most \<open>N\<close> calls.
\<close>

definition retries :: "call list \<Rightarrow> nat" where
  "retries = since CNewBackOff CRetryBackOff"

definition retry_bounded :: "cmd_env \<Rightarrow> nat \<Rightarrow> bool" where
  "retry_bounded C N \<longleftrightarrow> (\<forall>h. N \<le> retries h \<longrightarrow> ce_stop C h)"

lemma retry_loop_returns:
  assumes "retry_bounded C N" and "returns body" and "emits (\<lambda>c. c \<noteq> CNewBackOff) body"
  shows "N < retries (hist s) + n \<Longrightarrow> 0 < n \<Longrightarrow> fst (retry_loop n C early failed to body s) \<noteq> Diverge"
proof (induction n arbitrary: s)
  case (Suc n)
  obtain r s1 where b: "body s = (r, s1)" by (cases "body s")
  have r: "r \<noteq> Diverge" using assms(2) b by (metis fst_conv returns_def)
  from assms(3) b obtain t where t: "hist s1 = hist s @ t" "list_all (\<lambda>c. c \<noteq> CNewBackOff) t"
    by (rule emitsD)
  then have "CNewBackOff \<notin> set t" by (auto simp: list_all_iff)
  then have le: "retries (hist s) \<le> retries (hist s1)" by (simp add: retries_def t(1) since_append)
  let ?s = "s1\<lparr>hist := hist s1 @ [CRetryBackOff, CSleep]\<rparr>"
  have "fst (retry_loop n C early failed to body ?s) \<noteq> Diverge" if "\<not> ce_stop C (hist s1)"
  proof (rule Suc.IH)
    from that assms(1) have "retries (hist s1) < N" unfolding retry_bounded_def by (meson not_le)
    then show "N < retries (hist ?s) + n" and "0 < n"
      using le Suc.prems by (simp_all add: retries_def since_append)
  qed
  then show ?case using b r
    by (cases r) (auto simp: bnd_def ask_def ret_def split: option.splits)
qed simp

lemma returns_run_command:
  assumes "retry_bounded C N" and "N < n" and "returns body" and "emits (\<lambda>c. c \<noteq> CNewBackOff) body"
  shows "returns (run_command n C early failed to body)"
  unfolding returns_def
proof
  fix s :: st
  have "fst (retry_loop n C early failed to body (s\<lparr>hist := hist s @ [CNewBackOff]\<rparr>)) \<noteq> Diverge"
    by (rule retry_loop_returns [OF assms(1,3,4)]) (use assms(2) in simp_all)
  then show "fst (run_command n C early failed to body s) \<noteq> Diverge"
    by (simp add: run_command_def bnd_def ask_def)
qed

lemma returns_attempt [returns_intros]: "returns m \<Longrightarrow> returns (attempt m)"
  unfolding returns_def attempt_def by (auto split: res.splits prod.splits) (metis fst_conv)

lemma returns_or_return [returns_intros]:
  "returns m \<Longrightarrow> (\<And>x. returns (f x)) \<Longrightarrow> returns (or_return wrap m f)"
  unfolding or_return_def by (intro returns_intros) (auto intro: returns_intros split: sum.splits)

lemma returns_and_then [returns_intros]: "returns a \<Longrightarrow> returns b \<Longrightarrow> returns (and_then a b)"
  unfolding and_then_def by (intro returns_intros) (auto intro: returns_intros split: option.splits)

lemma returns_cmd_each [returns_intros]: "(\<And>x. returns (body x)) \<Longrightarrow> returns (cmd_each body xs)"
  by (induction xs) (auto intro: returns_intros)

lemma returns_squashed_loop [returns_intros]:
  "(\<And>migrations db. returns (run migrations db)) \<Longrightarrow> returns (squashed_loop E run L dbs)"
  by (induction dbs) (auto intro!: returns_intros simp: ShouldRunSquashedV2_def)

lemma emits_squashed_loop [emits_intros]:
  "(\<And>migrations db. emits P (run migrations db)) \<Longrightarrow> (\<And>db t. P (CCountTables db t)) \<Longrightarrow>
   emits P (squashed_loop E run L dbs)"
  by (induction dbs) (auto intro!: emits_intros simp: ShouldRunSquashedV2_def)

lemma returns_run_migration:
  assumes "backoff_bounded E K" and "K < Fuel m"
  shows "returns (run_migration E m select wrap db migration)"
proof -
  have q: "returns (case shouldWait a of (wait, qdb, qt) \<Rightarrow>
      if wait then WaitForDistributionQueue E m qdb qt else ret ())" for a
    by (auto intro!: returns_intros returns_WaitForDistributionQueue split: prod.splits)
  have op: "returns (RunOperationWithoutUpdate E m item mid db)" for item mid
    unfolding RunOperationWithoutUpdate_def Let_def
    by (intro returns_intros q returns_WaitForRunningMutations [OF assms]
        returns_WaitDistributedDDLQueue [OF assms])
  show ?thesis
    unfolding run_migration_def CheckMigrationStatus_def insertMigrationEntry_def
    by (intro returns_intros) (auto intro!: returns_intros op split: sum.splits status_answer.splits)
qed

lemma up_command_bodies:
  assumes "backoff_bounded (ce C) K" and "K < Fuel m"
  shows "returns (SyncUp C m L)" and "returns (asyncUp_Up C m L)"
    and "emits (\<lambda>c. c \<noteq> CNewBackOff) (SyncUp C m L)"
    and "emits (\<lambda>c. c \<noteq> CNewBackOff) (asyncUp_Up C m L)"
proof -
  have e: "emits (\<lambda>c. c \<noteq> CNewBackOff) (run_migration E m select wrap db migration)" for E select wrap db migration
    by (rule emits_run_migration) auto
  note defs = SyncUp_def asyncUp_Up_def runSquashedMigrations_def up_databases_def syncUp_run_def asyncUp_run_def
  show "returns (SyncUp C m L)" "returns (asyncUp_Up C m L)"
    unfolding defs by (intro returns_intros returns_run_migration [OF assms])+
  show "emits (\<lambda>c. c \<noteq> CNewBackOff) (SyncUp C m L)" "emits (\<lambda>c. c \<noteq> CNewBackOff) (asyncUp_Up C m L)"
    unfolding defs by (intro emits_intros e; simp)+
qed

lemma check_bodies:
  "returns (syncCheck_Check E L)" "returns (asyncCheck_Check E L)"
  "emits (\<lambda>c. c \<noteq> CNewBackOff) (syncCheck_Check E L)" "emits (\<lambda>c. c \<noteq> CNewBackOff) (asyncCheck_Check E L)"
proof -
  have r: "returns (check_finished E db mid)" for db mid
    unfolding check_finished_def CheckMigrationStatus_def
    by (intro returns_intros) (auto intro: returns_intros split: status_answer.splits)
  have e: "emits (\<lambda>c. c \<noteq> CNewBackOff) (check_finished E db mid)" for db mid
    unfolding check_finished_def by (intro emits_intros) simp
  note defs = syncCheck_Check_def asyncCheck_Check_def check_last_def check_last_return_def
  show "returns (syncCheck_Check E L)" "returns (asyncCheck_Check E L)"
    unfolding defs by (auto intro!: returns_intros r split: sum.splits)
  show "emits (\<lambda>c. c \<noteq> CNewBackOff) (syncCheck_Check E L)" "emits (\<lambda>c. c \<noteq> CNewBackOff) (asyncCheck_Check E L)"
    unfolding defs by (auto intro!: emits_intros e split: sum.splits)
qed

lemma ready_body: "returns (Ready C)" "emits (\<lambda>c. c \<noteq> CNewBackOff) (Ready C)"
proof -
  have r: "returns (ping_host C host)" and e: "emits (\<lambda>c. c \<noteq> CNewBackOff) (ping_host C host)" for host
    unfolding ping_host_def
    by (auto intro!: returns_intros emits_intros split: prod.splits option.splits)
  show "returns (Ready C)"
    unfolding Ready_def CheckClickhouse_def CheckKeeper_def Let_def
    by (auto intro!: returns_intros r split: rows.splits keeper_answer.splits)
  show "emits (\<lambda>c. c \<noteq> CNewBackOff) (Ready C)"
    unfolding Ready_def CheckClickhouse_def CheckKeeper_def Let_def
    by (auto intro!: emits_intros e split: rows.splits keeper_answer.splits)
qed

text \<open>
  Every command returns: the up commands, the checks and the readiness command end after
  finitely many attempts whatever the store answers, given that the two backoffs stop; \<open>n\<close> bounds
  the attempts and any \<open>n\<close> above the retry bound is enough.
\<close>

theorem commands_return:
  assumes "retry_bounded C N" and "N < n" and "backoff_bounded (ce C) K" and "K < Fuel m"
  shows "returns (syncUp_Run n C m L) \<and> returns (asyncUp_Run n C m L) \<and>
    returns (syncCheck_Run n C L) \<and> returns (asyncCheck_Run n C L) \<and> returns (ready_Run n C)"
  unfolding syncUp_Run_def asyncUp_Run_def syncCheck_Run_def asyncCheck_Run_def ready_Run_def
  by (intro conjI returns_run_command [OF assms(1,2)] up_command_bodies [OF assms(3,4)] check_bodies ready_body)

section \<open>With every request answered, the up command returns nil\<close>

definition nils :: "cmd \<Rightarrow> bool" where
  "nils c \<longleftrightarrow> (\<forall>s. \<exists>s'. c s = (Ok None, s'))"

lemma nils_ret: "nils (ret None)"
  by (simp add: nils_def ret_def)

lemma nils_and_then: "nils a \<Longrightarrow> nils b \<Longrightarrow> nils (and_then a b)"
  unfolding nils_def and_then_def bnd_def
proof
  fix s
  assume "\<forall>s. \<exists>s'. a s = (Ok None, s')" and b: "\<forall>s. \<exists>s'. b s = (Ok None, s')"
  then obtain s1 where "a s = (Ok None, s1)" by blast
  with b show "\<exists>s'. (case a s of (Ok x, s') \<Rightarrow> (case x of None \<Rightarrow> b | Some e \<Rightarrow> ret (Some e)) s'
      | (Err e, s') \<Rightarrow> (Err e, s') | (Panic p, s') \<Rightarrow> (Panic p, s') | (Diverge, s') \<Rightarrow> (Diverge, s')) = (Ok None, s')"
    by simp
qed

lemma nils_cmd_each: "(\<And>x. x \<in> set xs \<Longrightarrow> nils (body x)) \<Longrightarrow> nils (cmd_each body xs)"
  by (induction xs) (simp_all add: nils_ret nils_and_then)

lemma nils_bnd:
  assumes "succeeds m" and "\<And>x s s1. m s = (Ok x, s1) \<Longrightarrow> nils (f x)"
  shows "nils (bnd m f)"
  unfolding nils_def
proof
  fix s
  from assms(1) obtain x s1 where m: "m s = (Ok x, s1)" by (rule succeedsE)
  with assms(2) show "\<exists>s'. bnd m f s = (Ok None, s')" by (auto simp: nils_def bnd_def)
qed

lemma succeeds_attempt:
  assumes "succeeds m"
  shows "succeeds (attempt m)" and "attempt m s = (Ok r, s1) \<Longrightarrow> \<exists>x. r = Inr x"
proof -
  show "succeeds (attempt m)" unfolding succeeds_def
  proof
    fix s
    from assms obtain x s' where "m s = (Ok x, s')" by (rule succeedsE)
    then show "\<exists>x s'. attempt m s = (Ok x, s')" by (simp add: attempt_def)
  qed
  from assms obtain x s' where "m s = (Ok x, s')" by (rule succeedsE)
  then show "attempt m s = (Ok r, s1) \<Longrightarrow> \<exists>x. r = Inr x" by (auto simp: attempt_def)
qed

lemma nils_or_return:
  assumes "succeeds m" and "\<And>x. nils (f x)"
  shows "nils (or_return wrap m f)"
  unfolding or_return_def
proof (rule nils_bnd [OF succeeds_attempt(1) [OF assms(1)]])
  fix r s s1
  assume "attempt m s = (Ok r, s1)"
  from succeeds_attempt(2) [OF assms(1) this] assms(2)
  show "nils (case r of Inl e \<Rightarrow> ret (Some (wrap e)) | Inr x \<Rightarrow> f x)" by auto
qed

text \<open>All operations of a list of migrations have a statement.\<close>

definition rendered :: "manager \<Rightarrow> SchemaMigrationRecord list \<Rightarrow> bool" where
  "rendered m migrations = list_all (\<lambda>migration.
     list_all (\<lambda>op. Op_ToSQL (prepareOperation m op) \<noteq> None) (UpItems migration)) migrations"

lemma nils_run_migration:
  assumes "healthy E" and "0 < Fuel m"
    and "list_all (\<lambda>op. Op_ToSQL (prepareOperation m op) \<noteq> None) (UpItems migration)"
  shows "nils (run_migration E m select wrap db migration)"
proof -
  let ?mid = "MigrationID migration"
  have q: "succeeds (case shouldWait a of (wait, qdb, qt) \<Rightarrow>
      if wait then WaitForDistributionQueue E m qdb qt else ret ())" for a
    by (auto intro!: succeeds_intros succeeds_WaitForDistributionQueue assms(1) split: prod.splits)
  have x: "succeeds (execOperation E (prepareOperation m item))" if "item \<in> set (UpItems migration)" for item
    using assms(1,3) that
    by (auto simp: execOperation_def healthy_def list_all_iff intro!: succeeds_intros split: option.splits)
  have ops: "succeeds (for_each (\<lambda>item. RunOperationWithoutUpdate E m item ?mid db) (UpItems migration))"
    unfolding RunOperationWithoutUpdate_def Let_def
    by (intro succeeds_intros q x succeeds_WaitForRunningMutations succeeds_WaitDistributedDDLQueue assms(1,2))
  have st: "succeeds (CheckMigrationStatus E db ?mid FinishedStatus)"
    using assms(1)
    by (auto simp: succeeds_def CheckMigrationStatus_def bnd_def ask_def ret_def healthy_def split: status_answer.splits)
  have ins: "succeeds (insertMigrationEntry E db ?mid status)" for status
    using assms(1) unfolding insertMigrationEntry_def healthy_def by (auto intro!: succeeds_intros)
  have "nils (bnd (attempt (for_each (\<lambda>item. RunOperationWithoutUpdate E m item ?mid db) (UpItems migration)))
      (\<lambda>r. case r of
         Inl e \<Rightarrow> or_return New (insertMigrationEntry E db ?mid FailedStatus) (\<lambda>_. ret (Some (New e)))
       | Inr _ \<Rightarrow> or_return wrap (insertMigrationEntry E db ?mid FinishedStatus) (\<lambda>_. ret None)))"
    by (rule nils_bnd [OF succeeds_attempt(1) [OF ops]])
      (use succeeds_attempt(2) [OF ops] in \<open>fastforce intro!: nils_or_return ins nils_ret\<close>)
  then show ?thesis
    unfolding run_migration_def by (auto intro!: nils_ret nils_or_return st)
qed

definition all_lists :: "migration_lists \<Rightarrow> SchemaMigrationRecord list list" where
  "all_lists L = [TracesMigrations L, LogsMigrations L, MetricsMigrations L, MetadataMigrations L,
     AnalyticsMigrations L, MeterMigrations L, CustomRetentionLogsMigrations L,
     SquashedMetricsMigrations L, SquashedTracesMigrations L]"

lemma nils_SyncUp:
  assumes "healthy (ce C)" and "\<And>h db t. \<exists>k. e_tables (ce C) h db t = Inr k"
    and "0 < Fuel m" and "list_all (rendered m) (all_lists L)"
  shows "nils (SyncUp C m L)"
proof -
  have run: "nils (syncUp_run (ce C) m migrations db)" if "rendered m migrations" for migrations db
    using that unfolding syncUp_run_def rendered_def
    by (intro nils_cmd_each nils_run_migration assms(1,3)) (simp add: list_all_iff)
  have sq: "rendered m (squashed_list L db)" for db
    using assms(4) by (simp add: squashed_list_def all_lists_def rendered_def)
  have cnt: "succeeds (ShouldRunSquashedV2 (ce C) db)" for db
    unfolding succeeds_def
  proof
    fix s :: st
    from assms(2) obtain k where "e_tables (ce C) (hist s) db legacyMigrationsTable = Inr k" by blast
    then show "\<exists>x s'. ShouldRunSquashedV2 (ce C) db s = (Ok x, s')"
      by (simp add: ShouldRunSquashedV2_def ask_sum_def bnd_def ask_def ret_def)
  qed
  have "nils (squashed_loop (ce C) (syncUp_run (ce C) m) L dbs)" for dbs
    by (induction dbs) (auto intro!: nils_ret nils_or_return nils_and_then cnt run sq)
  then show ?thesis
    using assms(4) unfolding SyncUp_def runSquashedMigrations_def up_databases_def all_lists_def
    by (auto intro!: nils_and_then run)
qed

text \<open>
  Against a ClickHouse that answers every request, the whole retry loop of the synchronous up
  command returns nil on its first attempt.
\<close>

theorem syncUp_Run_succeeds:
  assumes "healthy (ce C)" and "\<And>h db t. \<exists>k. e_tables (ce C) h db t = Inr k"
    and "0 < Fuel m" and "list_all (rendered m) (all_lists L)" and "0 < n"
  shows "\<exists>s'. syncUp_Run n C m L s = (Ok None, s')"
proof -
  from assms(5) obtain k where n: "n = Suc k" by (cases n) simp_all
  from nils_SyncUp [OF assms(1-4)] obtain s' where
    "SyncUp C m L (s\<lparr>hist := hist s @ [CNewBackOff]\<rparr>) = (Ok None, s')" unfolding nils_def by blast
  then show ?thesis by (simp add: syncUp_Run_def run_command_def n bnd_def ask_def ret_def)
qed

section \<open>Concrete instances\<close>

definition cmd_env1 :: cmd_env where
  "cmd_env1 = \<lparr>ce = quiet_env, ce_stop = (\<lambda>h. 2 \<le> retries h), ce_order = (\<lambda>dbs. dbs),
     ce_databases = (\<lambda>h. Rows []), ce_hosts = (\<lambda>h. Rows [(''host'', ''10.0.0.1'', 9000)]),
     ce_open = (\<lambda>a p. None), ce_ping = (\<lambda>h a p. None), ce_keeper = (\<lambda>h. KRows)\<rparr>"

lemma lists1_rendered: "list_all (rendered manager1) (all_lists lists1)"
  by (simp add: all_lists_def rendered_def lists1_def drop_ttl_def manager1_def prepareOperation_def)

lemma SyncUp1:
  obtains s' where "SyncUp cmd_env1 manager1 lists1 start = (Ok None, s')"
proof -
  have "nils (SyncUp cmd_env1 manager1 lists1)"
    by (rule nils_SyncUp [OF _ _ _ lists1_rendered])
      (simp_all add: cmd_env1_def healthy_quiet, simp_all add: quiet_env_def manager1_def)
  then show thesis using that unfolding nils_def by blast
qed

lemma SyncUp_then_check_witness:
  "\<exists>s' s''. SyncUp cmd_env1 manager1 lists1 start = (Ok None, s') \<and>
    syncCheck_Check (ce cmd_env1) lists1 s' = (Ok None, s'')"
proof -
  have "reads_table (ce cmd_env1) (\<lambda>db mid. NoRows)" by (simp add: cmd_env1_def reads_quiet)
  then show ?thesis using SyncUp1 SyncUp_then_check by metis
qed

lemma syncCheck_iff_witness: "\<not> (\<exists>s'. syncCheck_Check quiet_env lists1 start = (Ok None, s'))"
  unfolding syncCheck_iff [OF reads_quiet]
  by (simp add: lists1_def checked_def getLastSyncMigration_def IsSync_def IsSyncOperation_def
      drop_ttl_def attrs_defs finished_def start_def table_def)

definition remove_ttl :: Operation where
  "remove_ttl = OpModifyColumnRemove \<lparr>op_cluster = [], op_Database = ''signoz_metadata'', op_Table = ''t'',
     op_Column = Column ''c'' None [] [] [] [] [] None [], mcr_Property = ''TTL''\<rparr>"

definition lists2 :: migration_lists where
  "lists2 = lists1\<lparr>MetadataMigrations := [\<lparr>MigrationID = 3, UpItems = [remove_ttl], DownItems = []\<rparr>]\<rparr>"

lemma asyncCheck_skips_witness:
  "asyncCheck_Check quiet_env (lists2\<lparr>AnalyticsMigrations := MetadataMigrations lists2, MeterMigrations := []\<rparr>) =
   asyncCheck_Check quiet_env lists2"
  by (rule asyncCheck_skips_analytics_and_meter [where mid = 3])
    (simp add: lists2_def getLastAsyncMigration_def IsAsync_def IsAsyncOperation_def remove_ttl_def attrs_defs)

lemma commands_return_witness:
  "returns (syncUp_Run 3 cmd_env1 manager1 lists1) \<and> returns (asyncUp_Run 3 cmd_env1 manager1 lists1) \<and>
   returns (syncCheck_Run 3 cmd_env1 lists1) \<and> returns (asyncCheck_Run 3 cmd_env1 lists1) \<and>
   returns (ready_Run 3 cmd_env1)"
  by (rule commands_return [where N = 2 and K = 3])
    (simp_all add: retry_bounded_def cmd_env1_def backoff_quiet manager1_def)

lemma syncUp_Run_succeeds_witness: "\<exists>s'. syncUp_Run 1 cmd_env1 manager1 lists1 start = (Ok None, s')"
  by (rule syncUp_Run_succeeds [OF _ _ _ lists1_rendered])
    (simp_all add: cmd_env1_def healthy_quiet, simp_all add: quiet_env_def manager1_def)

text \<open>A ClickHouse that refuses every statement.\<close>

definition cmd_env2 :: cmd_env where
  "cmd_env2 = cmd_env1\<lparr>ce := refusing_env\<rparr>"

lemma refused_run:
  "\<exists>s'. run_migration refusing_env manager2 IsSync NewRetryableError SignozLogsDB
     \<lparr>MigrationID = 7, UpItems = [drop_ttl], DownItems = []\<rparr> s = (Ok (Some (New [''refused''])), s')"
  if "hist s = [CCountTables SignozLogsDB legacyMigrationsTable,
     CCountTables SignozMetricsDB legacyMigrationsTable, CCountTables SignozTracesDB legacyMigrationsTable]"
  using that
  by (simp add: run_migration_def IsSync_def IsSyncOperation_def drop_ttl_def attrs_defs or_return_def
      bnd_def attempt_def CheckMigrationStatus_def ask_def refusing_env_def quiet_env_def table_def ret_def
      RunOperationWithoutUpdate_def prepareOperation_def manager2_def WaitForRunningMutations_def
      HostAddrs_def WaitDistributedDDLQueue_def getDistributedDDLQueue_def numeral_eq_Suc polls_def since_def
      execOperation_def ask_err_def fail_def insertMigrationEntry_def)

lemma SyncUp_error_marks_failed_witness:
  "\<exists>s' t db mid. SyncUp cmd_env2 manager2 lists1 start = (Ok (Some (New [''refused''])), s') \<and>
    hist s' = hist start @ t @ [CInsertEntry db mid FailedStatus]"
proof -
  let ?s = "start\<lparr>hist := [CCountTables SignozLogsDB legacyMigrationsTable,
     CCountTables SignozMetricsDB legacyMigrationsTable, CCountTables SignozTracesDB legacyMigrationsTable]\<rparr>"
  from refused_run [of ?s] obtain s' where
    "run_migration refusing_env manager2 IsSync NewRetryableError SignozLogsDB
     \<lparr>MigrationID = 7, UpItems = [drop_ttl], DownItems = []\<rparr> ?s = (Ok (Some (New [''refused''])), s')" by auto
  then have run: "SyncUp cmd_env2 manager2 lists1 start = (Ok (Some (New [''refused''])), s')"
    by (simp add: SyncUp_def runSquashedMigrations_def cmd_env2_def cmd_env1_def ShouldRunSquashedV2_def
        squashed_list_def lists1_def syncUp_run_def up_databases_def and_then_def or_return_def attempt_def
        bnd_def ask_sum_def ask_def ret_def db_defs refusing_env_def quiet_env_def start_def)
  from SyncUp_error_marks_failed [OF run] show ?thesis using run by (simp add: New_def)
qed

end
