(* ===== verification/Migration_Catalog.thy ===== *)
theory Migration_Catalog
  imports Migrations_Logs Migrations_Metrics Migrations_Traces Migrations_Others Migrate_Properties
begin

text \<open>
  Theorems on the migrations the program ships with, as opposed to those on the commands that run any
  list of migrations. The lists are evaluated in the kernel by rewriting: the rules below look at one
  migration at a time and never inside the text of a statement.
\<close>

section \<open>The shipped lists\<close>

definition shipped :: "(nat \<Rightarrow> int) \<Rightarrow> migration_lists" where
  "shipped nano = \<lparr>TracesMigrations = traces_migrations, LogsMigrations = logs_migrations,
     MetricsMigrations = metrics_migrations, MetadataMigrations = metadata_migrations nano,
     AnalyticsMigrations = analytics_migrations, MeterMigrations = meter_migrations,
     CustomRetentionLogsMigrations = custom_retention_logs_migrations,
     SquashedMetricsMigrations = squashed_metrics_migrations,
     SquashedTracesMigrations = squashed_traces_migrations\<rparr>"

text \<open>What the status table of a database records: the squashed list, then the ordinary one.\<close>

definition of_database :: "migration_lists \<Rightarrow> (string \<times> SchemaMigrationRecord list) list" where
  "of_database L =
     [(SignozTracesDB, SquashedTracesMigrations L @ TracesMigrations L),
      (SignozLogsDB, CustomRetentionLogsMigrations L @ LogsMigrations L),
      (SignozMetricsDB, SquashedMetricsMigrations L @ MetricsMigrations L),
      (SignozMetadataDB, MetadataMigrations L),
      (SignozAnalyticsDB, AnalyticsMigrations L),
      (SignozMeterDB, MeterMigrations L)]"

text \<open>A migration is homogeneous when one of the two executors runs all of its operations.\<close>

definition homogeneous :: "SchemaMigrationRecord \<Rightarrow> bool" where
  "homogeneous m \<longleftrightarrow> UpItems m \<noteq> [] \<and>
     (list_all IsSyncOperation (UpItems m) \<or>
      list_all (\<lambda>p. \<not> IsSyncOperation p \<and> isIdempotent (Op_attrs p)) (UpItems m))"

definition well_typed :: "SchemaMigrationRecord \<Rightarrow> bool" where
  "well_typed m \<longleftrightarrow> list_all op_renderable (UpItems m) \<and> list_all op_renderable (DownItems m)"

section \<open>Rules that unfold one migration\<close>

lemma homogeneous_unfold: "m = migration i u d \<Longrightarrow> homogeneous m \<longleftrightarrow> u \<noteq> [] \<and>
   (list_all IsSyncOperation u \<or> list_all (\<lambda>p. \<not> IsSyncOperation p \<and> isIdempotent (Op_attrs p)) u)"
  by (simp add: homogeneous_def migration_def)

lemma well_typed_unfold:
  "m = migration i u d \<Longrightarrow> well_typed m \<longleftrightarrow> list_all op_renderable u \<and> list_all op_renderable d"
  by (simp add: well_typed_def migration_def)

lemma MigrationID_unfold: "m = migration i u d \<Longrightarrow> MigrationID m = i"
  by (simp add: migration_def)

lemma col_facts [lit_facts]:
  "col_renderable (col name ty codec dflt) = renderable ty"
  "col_renderable (Column name (Some ty) codec al dflt mat ttl settings comment) = renderable ty"
  "col_renderable (col_name name) = False"
  by (simp_all add: col_def col_name_def)

lemma primitive_facts [lit_facts]:
  "renderable ColumnTypeString" "renderable ColumnTypeInt64" "renderable ColumnTypeUInt64"
  "renderable ColumnTypeInt8" "renderable ColumnTypeInt16" "renderable ColumnTypeUInt8"
  "renderable ColumnTypeUInt16" "renderable ColumnTypeUInt32" "renderable ColumnTypeFloat64"
  "renderable ColumnTypeBool"
  by (simp_all add: ColumnTypeString_def ColumnTypeInt64_def ColumnTypeUInt64_def ColumnTypeInt8_def
      ColumnTypeInt16_def ColumnTypeUInt8_def ColumnTypeUInt16_def ColumnTypeUInt32_def
      ColumnTypeFloat64_def ColumnTypeBool_def)

lemma renderable_facts [lit_facts]:
  "op_renderable (create_table db tbl columns indexes projections engine) = list_all col_renderable columns"
  "op_renderable (drop_table db tbl) = True"
  "op_renderable (create_view db view dest columns query) = list_all col_renderable columns"
  "op_renderable (create_refreshable_view db view dest columns query every randomize app emp) =
     list_all col_renderable columns"
  "op_renderable (modify_query db view query) = True"
  "op_renderable (modify_ttl db tbl ttl mat) = True"
  "op_renderable (drop_table_ttl db tbl) = True"
  "op_renderable (modify_settings db tbl settings) = True"
  "op_renderable (add_column db tbl column aft) = col_renderable column"
  "op_renderable (drop_column db tbl column) = True"
  "op_renderable (modify_column db tbl (col name ty codec dflt)) = renderable ty"
  "op_renderable (materialize_column db tbl column) = True"
  "op_renderable (add_index db tbl ix) = True"
  "op_renderable (drop_index db tbl ix) = True"
  "op_renderable (insert_into db tbl cols lightWeight synchronous vals) = True"
  by (simp_all add: create_table_def drop_table_def create_view_def create_refreshable_view_def
      modify_query_def modify_ttl_def drop_table_ttl_def modify_settings_def add_column_def
      drop_column_def modify_column_def materialize_column_def add_index_def drop_index_def
      insert_into_def col_def)

lemma col_weak_cong [lit_congs]: "col name ty codec dflt = col name ty codec dflt"
  by (rule refl)

lemma list_all_unfold: "ps = qs \<Longrightarrow> list_all P ps = list_all P qs"
  by simp

section \<open>Each list\<close>

definition catalog_ok :: "SchemaMigrationRecord list \<Rightarrow> bool" where
  "catalog_ok ms \<longleftrightarrow> list_all (\<lambda>m. homogeneous m \<and> well_typed m) ms"

lemma catalog_ok_append [simp]: "catalog_ok (ms @ ns) \<longleftrightarrow> catalog_ok ms \<and> catalog_ok ns"
  by (auto simp: catalog_ok_def)

lemma logs_ok: "catalog_ok logs_migrations"
  unfolding catalog_ok_def logs_migrations_def
  by (simp add: logs_migrations_recs [THEN homogeneous_unfold] logs_migrations_recs [THEN well_typed_unfold]
      logs_migrations_ops lit_facts cong: lit_congs)

lemma custom_retention_ok: "catalog_ok custom_retention_logs_migrations"
  unfolding catalog_ok_def custom_retention_logs_migrations_def
  by (simp add: custom_retention_logs_migrations_recs [THEN homogeneous_unfold] custom_retention_logs_migrations_recs [THEN well_typed_unfold]
      lit_facts cong: lit_congs)

lemma metrics_ok: "catalog_ok metrics_migrations"
  unfolding catalog_ok_def metrics_migrations_def
  by (simp add: metrics_migrations_recs [THEN homogeneous_unfold] metrics_migrations_recs [THEN well_typed_unfold]
      metrics_migrations_ops lit_facts cong: lit_congs)

lemma squashed_metrics_ok: "catalog_ok squashed_metrics_migrations"
  unfolding catalog_ok_def squashed_metrics_migrations_def
  by (simp add: squashed_metrics_migrations_recs [THEN homogeneous_unfold] squashed_metrics_migrations_recs [THEN well_typed_unfold]
      squashed_metrics_migrations_ops lit_facts cong: lit_congs)

lemma traces_ok: "catalog_ok traces_migrations"
  unfolding catalog_ok_def traces_migrations_def
  by (simp add: traces_migrations_recs [THEN homogeneous_unfold] traces_migrations_recs [THEN well_typed_unfold]
      traces_migrations_ops lit_facts cong: lit_congs)

lemma squashed_traces_ok: "catalog_ok squashed_traces_migrations"
  unfolding catalog_ok_def squashed_traces_migrations_def
  by (simp add: squashed_traces_migrations_recs [THEN homogeneous_unfold] squashed_traces_migrations_recs [THEN well_typed_unfold]
      lit_facts cong: lit_congs)

lemma metadata_ok: "catalog_ok (metadata_migrations nano)"
  unfolding catalog_ok_def metadata_migrations_def
  by (simp add: metadata_migrations_recs [THEN homogeneous_unfold] metadata_migrations_recs [THEN well_typed_unfold]
      lit_facts cong: lit_congs)

lemma analytics_ok: "catalog_ok analytics_migrations"
  unfolding catalog_ok_def analytics_migrations_def
  by (simp add: analytics_migrations_recs [THEN homogeneous_unfold] analytics_migrations_recs [THEN well_typed_unfold]
      lit_facts cong: lit_congs)

lemma meter_ok: "catalog_ok meter_migrations"
  unfolding catalog_ok_def meter_migrations_def
  by (simp add: meter_migrations_recs [THEN homogeneous_unfold] meter_migrations_recs [THEN well_typed_unfold]
      lit_facts cong: lit_congs)

lemmas lists_ok = logs_ok custom_retention_ok metrics_ok squashed_metrics_ok traces_ok
  squashed_traces_ok metadata_ok analytics_ok meter_ok

lemmas migration_ids = logs_migrations_recs [THEN MigrationID_unfold]
  custom_retention_logs_migrations_recs [THEN MigrationID_unfold]
  metrics_migrations_recs [THEN MigrationID_unfold]
  squashed_metrics_migrations_recs [THEN MigrationID_unfold]
  traces_migrations_recs [THEN MigrationID_unfold]
  squashed_traces_migrations_recs [THEN MigrationID_unfold]
  metadata_migrations_recs [THEN MigrationID_unfold]
  analytics_migrations_recs [THEN MigrationID_unfold]
  meter_migrations_recs [THEN MigrationID_unfold]

lemmas list_defs = logs_migrations_def custom_retention_logs_migrations_def metrics_migrations_def
  squashed_metrics_migrations_def traces_migrations_def squashed_traces_migrations_def
  metadata_migrations_def analytics_migrations_def meter_migrations_def

text \<open>
  The identifiers of the shipped migrations of a database, in the order in which they are run,
  strictly increase. So no two of them share a row of the status table, and the last migration of a
  list, which the checks look at, is the one with the largest identifier.
\<close>

theorem shipped_ids_ascending:
  "list_all (\<lambda>(db, ms). sorted_wrt (<) (map MigrationID ms)) (of_database (shipped nano))"
  by (simp add: of_database_def shipped_def list_defs migration_ids)

text \<open>
  Every shipped migration is run completely by exactly one of the two executors of the manager:
  the synchronous one runs all of its operations and the asynchronous one none, or the other way
  around. No operation is run by neither.
\<close>

theorem shipped_run_by_one_executor:
  "list_all (\<lambda>(db, ms). list_all (\<lambda>m. UpItems m \<noteq> [] \<and>
      (filter IsSyncOperation (UpItems m),
       filter (\<lambda>p. IsAsyncOperation p \<and> isIdempotent (Op_attrs p)) (UpItems m)) \<in>
      {(UpItems m, []), ([], UpItems m)}) ms) (of_database (shipped nano))"
proof -
  have "UpItems m \<noteq> [] \<and>
      (filter IsSyncOperation (UpItems m),
       filter (\<lambda>p. IsAsyncOperation p \<and> isIdempotent (Op_attrs p)) (UpItems m)) \<in>
      {(UpItems m, []), ([], UpItems m)}" if "homogeneous m" for m
    using that unfolding homogeneous_def IsAsyncOperation_iff list_all_iff
    by (auto simp: filter_empty_conv filter_id_conv)
  then have "catalog_ok ms \<Longrightarrow> list_all (\<lambda>m. UpItems m \<noteq> [] \<and>
      (filter IsSyncOperation (UpItems m),
       filter (\<lambda>p. IsAsyncOperation p \<and> isIdempotent (Op_attrs p)) (UpItems m)) \<in>
      {(UpItems m, []), ([], UpItems m)}) ms" for ms
    unfolding catalog_ok_def list_all_iff by blast
  then show ?thesis
    by (simp only: of_database_def shipped_def migration_lists.select_convs list.pred_inject prod.case
        catalog_ok_append lists_ok simp_thms)
qed

section \<open>Rendering and success\<close>

lemma op_renderable_OnCluster: "op_renderable (Op_OnCluster c p) = op_renderable p"
  by (cases p) (simp_all add: set_cluster_def CreateTableOperation_OnCluster_def)

lemma op_renderable_WithReplication: "op_renderable (Op_WithReplication p) = op_renderable p"
  by (cases p) (simp_all add: CreateTableOperation_WithReplication_def)

lemma op_renderable_prepare: "op_renderable (prepareOperation m p) = op_renderable p"
  by (simp add: prepareOperation_def Let_def op_renderable_OnCluster op_renderable_WithReplication)

lemma catalog_ok_rendered: "catalog_ok ms \<Longrightarrow> rendered m ms"
  by (auto simp: catalog_ok_def rendered_def well_typed_def list_all_iff Op_ToSQL_None_iff
      op_renderable_prepare)

text \<open>
  C16. With the shipped migrations and a ClickHouse that answers every request, the synchronous up
  command returns nil, whatever the cluster and the replication of the manager: no operation of the
  lists panics when it is rendered.
\<close>

theorem shipped_SyncUp_succeeds:
  assumes "healthy (ce C)" and "\<And>h db t. \<exists>k. e_tables (ce C) h db t = Inr k" and "0 < Fuel m"
  shows "\<exists>s'. SyncUp C m (shipped nano) s = (Ok None, s')"
proof -
  have "list_all (rendered m) (all_lists (shipped nano))"
    by (simp add: all_lists_def shipped_def catalog_ok_rendered lists_ok)
  from nils_SyncUp [OF assms this] show ?thesis by (simp add: nils_def)
qed

lemma shipped_SyncUp_succeeds_witness:
  "\<exists>s'. SyncUp cmd_env1 manager1 (shipped (\<lambda>k. 0)) start = (Ok None, s')"
  by (rule shipped_SyncUp_succeeds)
    (simp_all add: cmd_env1_def healthy_quiet, simp_all add: quiet_env_def manager1_def)

section \<open>Replaying a fresh installation\<close>

text \<open>
  The tables of one database while operations run in order: an operation on another database does
  nothing to it, one that refers to a table that does not exist fails. The up commands run the
  migrations of the squashed lists and then the ordinary ones, first those with synchronous
  operations, then those with asynchronous ones.
\<close>

definition after :: "Operation \<Rightarrow> string set \<Rightarrow> string set" where
  "after p ts =
     (case makes p of Some t \<Rightarrow> insert t ts
      | None \<Rightarrow> (case removes p of Some t \<Rightarrow> ts - {t} | None \<Rightarrow> ts))"

fun exec_tables :: "string \<Rightarrow> Operation list \<Rightarrow> string set \<Rightarrow> string set
  option" where
  "exec_tables db [] ts = Some ts"
| "exec_tables db (p # ps) ts =
     (if op_db p \<noteq> db then exec_tables db ps ts
      else if set (needs p) \<subseteq> ts then exec_tables db ps (after p ts)
      else None)"

fun run_tables :: "(SchemaMigrationRecord \<Rightarrow> bool) \<Rightarrow> string \<Rightarrow>
  SchemaMigrationRecord list \<Rightarrow>
    string set \<Rightarrow> string set option" where
  "run_tables select db [] ts = Some ts"
| "run_tables select db (m # ms) ts =
     Option.bind (if select m then exec_tables db (UpItems m) ts else Some ts) (run_tables select db ms)"

definition install_order :: "migration_lists \<Rightarrow> SchemaMigrationRecord list" where
  "install_order L = CustomRetentionLogsMigrations L @ SquashedMetricsMigrations L @
     SquashedTracesMigrations L @ TracesMigrations L @ LogsMigrations L @ MetricsMigrations L @
     MetadataMigrations L @ AnalyticsMigrations L @ MeterMigrations L"

definition fresh_install :: "migration_lists \<Rightarrow> string \<Rightarrow> string set option" where
  "fresh_install L db =
     Option.bind (run_tables IsSync db (install_order L) {}) (run_tables IsAsync db (install_order L))"

lemma exec_tables_append:
  "exec_tables db (ps @ qs) ts = Option.bind (exec_tables db ps ts) (exec_tables db qs)"
  by (induction db ps ts rule: exec_tables.induct) auto

lemma run_tables_append:
  "run_tables select db (ms @ ns) = (\<lambda>ts. Option.bind (run_tables select db ms ts) (run_tables
    select db ns))"
proof
  show "run_tables select db (ms @ ns) ts = Option.bind (run_tables select db ms ts) (run_tables select db
    ns)" for ts
    by (induction ms arbitrary: ts) (auto split: Option.bind_splits)
qed

text \<open>Lists that name other databases only.\<close>

definition foreign :: "string \<Rightarrow> SchemaMigrationRecord list \<Rightarrow> bool" where
  "foreign db ms \<longleftrightarrow> list_all (\<lambda>m. list_all (\<lambda>p. op_db p \<noteq> db)
    (UpItems m)) ms"

lemma exec_tables_foreign: "list_all (\<lambda>p. op_db p \<noteq> db) ps \<Longrightarrow> exec_tables db
  ps ts = Some ts"
  by (induction ps) auto

lemma run_tables_foreign:
  assumes "foreign db ms"
  shows "run_tables select db ms = Some"
proof
  show "run_tables select db ms ts = Some ts" for ts
    using assms by (induction ms) (auto simp: foreign_def exec_tables_foreign)
qed

subsection \<open>Evaluation\<close>

text \<open>
  The set of tables is a list of names in the rules below. Their congruence rules stop the simplifier
  from visiting names and operations it does not need.
\<close>

definition streq :: "string \<Rightarrow> string \<Rightarrow> bool" where
  "streq x y \<longleftrightarrow> x = y"

definition same_db :: "string \<Rightarrow> string \<Rightarrow> bool" where
  "same_db x y \<longleftrightarrow> x = y"

definition tabs :: "string list \<Rightarrow> string set" where
  "tabs xs = set xs"

definition require :: "string list \<Rightarrow> string set \<Rightarrow> (string set \<Rightarrow> string
  set option) \<Rightarrow> string set option" where
  "require ns ts k = (if set ns \<subseteq> ts then k ts else None)"

definition require1 :: "string \<Rightarrow> string set \<Rightarrow> string set option \<Rightarrow>
  string set option" where
  "require1 t ts k = (if t \<in> ts then k else None)"

definition change :: "string option \<Rightarrow> string option \<Rightarrow> string set \<Rightarrow>
    (string set \<Rightarrow> string set option) \<Rightarrow> string set option" where
  "change mk rm ts k =
     k (case mk of Some t \<Rightarrow> insert t ts | None \<Rightarrow> (case rm of Some t \<Rightarrow>
       ts - {t} | None \<Rightarrow> ts))"

definition without :: "string \<Rightarrow> string list \<Rightarrow> string list \<Rightarrow>
    (string set \<Rightarrow> string set option) \<Rightarrow> string set option" where
  "without t xs acc k = k (set acc \<union> (set xs - {t}))"

lemma streq_rules:
  "streq [] [] = True" "streq [] (y # ys) = False" "streq (x # xs) [] = False"
  "streq (x # xs) (y # ys) = (if x = y then streq xs ys else False)"
  "same_db v w = streq v w"
  by (simp_all add: streq_def same_db_def)

lemma require_rules:
  "require [] ts k = k ts" "require (n # ns) ts k = require1 n ts (require ns ts k)"
  "require1 t (tabs []) r = None"
  "require1 t (tabs (x # xs)) r = (if streq t x then r else require1 t (tabs xs) r)"
  by (simp_all add: require_def require1_def tabs_def streq_def)

lemma change_rules:
  "change None None ts k = k ts" "change (Some t) rm (tabs xs) k = k (tabs (t # xs))"
  "change None (Some t) (tabs xs) k = without t xs [] k"
  by (simp_all add: change_def without_def tabs_def)

lemma without_rules:
  "without t [] acc k = k (tabs acc)"
  "without t (x # xs) acc k = (if streq t x then without t xs acc k else without t xs (x # acc) k)"
  by (auto simp: without_def tabs_def streq_def intro: arg_cong [of _ _ k])

lemma exec_tables_Cons:
  "exec_tables db (p # ps) ts =
     (if same_db (op_db p) db
      then require (needs p) ts (\<lambda>ts. change (makes p) (removes p) ts (exec_tables db ps))
      else exec_tables db ps ts)"
  by (simp add: require_def change_def same_db_def after_def split: option.splits)

lemma exec_tables_unfold: "ps = qs \<Longrightarrow> exec_tables db ps ts = exec_tables db qs ts"
  by simp

lemma exec_tables_UpItems: "m = migration i u d \<Longrightarrow> exec_tables db (UpItems m) ts =
  exec_tables db u ts"
  by (simp add: migration_def)

lemma IsSync_unfold: "m = migration i u d \<Longrightarrow> IsSync m = list_ex IsSyncOperation u"
  by (simp add: migration_def IsSync_def)

lemma IsAsync_unfold: "m = migration i u d \<Longrightarrow> IsAsync m = list_ex IsAsyncOperation u"
  by (simp add: migration_def IsAsync_def)

lemma foreign_unfold:
  "m = migration i u d \<Longrightarrow> list_all (\<lambda>p. op_db p \<noteq> db) (UpItems m) = list_all
    (\<lambda>p. op_db p \<noteq> db) u"
  by (simp add: migration_def)

lemma list_ex_unfold: "ps = qs \<Longrightarrow> list_ex P ps = list_ex P qs"
  by simp

lemma conj_left_cong: "P = P1 \<Longrightarrow> (P \<and> Q) = (P1 \<and> Q)"
  by simp

lemma disj_left_cong: "P = P1 \<Longrightarrow> (P \<or> Q) = (P1 \<or> Q)"
  by simp

lemma bind_left_cong: "x = y \<Longrightarrow> Option.bind x f = Option.bind y f"
  by simp

lemma require_left_cong: "ns = ns1 \<Longrightarrow> require ns ts k = require ns1 ts k"
  by simp

lemma change_left_cong: "a = a1 \<Longrightarrow> b = b1 \<Longrightarrow> change a b ts k = change a1 b1
  ts k"
  by simp

lemma stop_congs:
  "run_tables select db ms ts = run_tables select db ms ts"
  "exec_tables db ps ts = exec_tables db ps ts" "require1 t ts r = require1 t ts r"
  "list_ex P ps = list_ex P ps" "without t xs acc k = without t xs acc k"
  "tabs xs = tabs xs" "streq x y = streq x y"
  by (rule refl)+

lemmas eval_congs = lit_congs conj_left_cong disj_left_cong bind_left_cong require_left_cong
  change_left_cong stop_congs

lemmas eval_rules = lit_facts exec_tables_Cons exec_tables_append require_rules change_rules
  without_rules streq_rules IsAsyncOperation_iff list_ex_append

lemma replay_traces:
  "Option.bind (run_tables IsSync ''signoz_traces'' squashed_traces_migrations (tabs []))
     (\<lambda>ts. Option.bind (run_tables IsSync ''signoz_traces'' traces_migrations ts) (\<lambda>ts.
       Option.bind (run_tables IsAsync ''signoz_traces'' squashed_traces_migrations ts) (run_tables
         IsAsync ''signoz_traces'' traces_migrations))) \<noteq> None"
  unfolding squashed_traces_migrations_def traces_migrations_def
  by (simp add: eval_rules
      squashed_traces_migrations_recs [THEN exec_tables_UpItems]
        squashed_traces_migrations_recs [THEN IsSync_unfold]
          squashed_traces_migrations_recs [THEN IsAsync_unfold]
      traces_migrations_recs [THEN exec_tables_UpItems] traces_migrations_recs [THEN IsSync_unfold]
        traces_migrations_recs [THEN IsAsync_unfold]
      traces_migrations_ops [THEN exec_tables_unfold] traces_migrations_ops [THEN list_ex_unfold]
      cong: eval_congs del: exec_tables.simps(2))

lemma replay_metrics:
  "Option.bind (run_tables IsSync ''signoz_metrics'' squashed_metrics_migrations (tabs []))
     (\<lambda>ts. Option.bind (run_tables IsSync ''signoz_metrics'' metrics_migrations ts) (\<lambda>ts.
       Option.bind (run_tables IsAsync ''signoz_metrics'' squashed_metrics_migrations ts) (run_tables
         IsAsync ''signoz_metrics'' metrics_migrations))) \<noteq> None"
  unfolding squashed_metrics_migrations_def metrics_migrations_def
  by (simp add: eval_rules
      squashed_metrics_migrations_recs [THEN exec_tables_UpItems]
        squashed_metrics_migrations_recs [THEN IsSync_unfold]
          squashed_metrics_migrations_recs [THEN IsAsync_unfold]
      squashed_metrics_migrations_ops [THEN exec_tables_unfold]
        squashed_metrics_migrations_ops [THEN list_ex_unfold]
      metrics_migrations_recs [THEN exec_tables_UpItems] metrics_migrations_recs [THEN IsSync_unfold]
        metrics_migrations_recs [THEN IsAsync_unfold]
      metrics_migrations_ops [THEN exec_tables_unfold] metrics_migrations_ops [THEN list_ex_unfold]
      cong: eval_congs del: exec_tables.simps(2))

lemma replay_logs:
  "Option.bind (run_tables IsSync ''signoz_logs'' custom_retention_logs_migrations (tabs []))
     (\<lambda>ts. Option.bind (run_tables IsSync ''signoz_logs'' logs_migrations ts) (\<lambda>ts.
       Option.bind (run_tables IsAsync ''signoz_logs'' custom_retention_logs_migrations ts) (run_tables
         IsAsync ''signoz_logs'' logs_migrations))) \<noteq> None"
  unfolding custom_retention_logs_migrations_def logs_migrations_def
  by (simp add: eval_rules
      custom_retention_logs_migrations_recs [THEN exec_tables_UpItems]
        custom_retention_logs_migrations_recs [THEN IsSync_unfold] custom_retention_logs_migrations_recs
          [THEN IsAsync_unfold]
      logs_migrations_recs [THEN exec_tables_UpItems] logs_migrations_recs [THEN IsSync_unfold]
        logs_migrations_recs [THEN IsAsync_unfold]
      logs_migrations_ops [THEN exec_tables_unfold] logs_migrations_ops [THEN list_ex_unfold]
      cong: eval_congs del: exec_tables.simps(2))

lemma replay_metadata:
  "Option.bind (run_tables IsSync ''signoz_metadata'' logs_migrations (tabs []))
     (\<lambda>ts. Option.bind (run_tables IsSync ''signoz_metadata'' (metadata_migrations nano) ts)
       (\<lambda>ts. Option.bind (run_tables IsAsync ''signoz_metadata'' logs_migrations ts) (run_tables
         IsAsync ''signoz_metadata'' (metadata_migrations nano)))) \<noteq> None"
  unfolding logs_migrations_def metadata_migrations_def
  by (simp add: eval_rules
      logs_migrations_recs [THEN exec_tables_UpItems] logs_migrations_recs [THEN IsSync_unfold]
        logs_migrations_recs [THEN IsAsync_unfold]
      logs_migrations_ops [THEN exec_tables_unfold] logs_migrations_ops [THEN list_ex_unfold]
      metadata_migrations_recs [THEN exec_tables_UpItems] metadata_migrations_recs [THEN IsSync_unfold]
        metadata_migrations_recs [THEN IsAsync_unfold]
      cong: eval_congs del: exec_tables.simps(2))

lemma replay_analytics:
  "Option.bind (run_tables IsSync ''signoz_analytics'' analytics_migrations (tabs []))
     (run_tables IsAsync ''signoz_analytics'' analytics_migrations) \<noteq> None"
  unfolding analytics_migrations_def
  by (simp add: eval_rules
      analytics_migrations_recs [THEN exec_tables_UpItems] analytics_migrations_recs [THEN IsSync_unfold]
        analytics_migrations_recs [THEN IsAsync_unfold]
      cong: eval_congs del: exec_tables.simps(2))

lemma replay_meter:
  "Option.bind (run_tables IsSync ''signoz_meter'' meter_migrations (tabs []))
     (run_tables IsAsync ''signoz_meter'' meter_migrations) \<noteq> None"
  unfolding meter_migrations_def
  by (simp add: eval_rules
      meter_migrations_recs [THEN exec_tables_UpItems] meter_migrations_recs [THEN IsSync_unfold]
        meter_migrations_recs [THEN IsAsync_unfold]
      cong: eval_congs del: exec_tables.simps(2))

lemma foreign_custom_retention_logs_migrations: "''signoz_logs'' \<noteq> db \<Longrightarrow> foreign db
  custom_retention_logs_migrations"
  unfolding foreign_def custom_retention_logs_migrations_def
  by (simp add: custom_retention_logs_migrations_recs [THEN foreign_unfold] lit_facts cong: lit_congs)

lemma foreign_squashed_metrics_migrations: "''signoz_metrics'' \<noteq> db \<Longrightarrow> foreign db
  squashed_metrics_migrations"
  unfolding foreign_def squashed_metrics_migrations_def
  by (simp add: squashed_metrics_migrations_recs [THEN foreign_unfold] squashed_metrics_migrations_ops
    lit_facts cong: lit_congs)

lemma foreign_squashed_traces_migrations: "''signoz_traces'' \<noteq> db \<Longrightarrow> foreign db
  squashed_traces_migrations"
  unfolding foreign_def squashed_traces_migrations_def
  by (simp add: squashed_traces_migrations_recs [THEN foreign_unfold] lit_facts cong: lit_congs)

lemma foreign_traces_migrations: "''signoz_traces'' \<noteq> db \<Longrightarrow> foreign db
  traces_migrations"
  unfolding foreign_def traces_migrations_def
  by (simp add: traces_migrations_recs [THEN foreign_unfold] traces_migrations_ops lit_facts cong:
    lit_congs)

lemma foreign_logs_migrations: "''signoz_logs'' \<noteq> db \<Longrightarrow> ''signoz_metadata'' \<noteq>
  db \<Longrightarrow> foreign db logs_migrations"
  unfolding foreign_def logs_migrations_def
  by (simp add: logs_migrations_recs [THEN foreign_unfold] logs_migrations_ops lit_facts
    SignozMetadataDB_def cong: lit_congs)

lemma foreign_metrics_migrations: "''signoz_metrics'' \<noteq> db \<Longrightarrow> foreign db
  metrics_migrations"
  unfolding foreign_def metrics_migrations_def
  by (simp add: metrics_migrations_recs [THEN foreign_unfold] metrics_migrations_ops lit_facts cong:
    lit_congs)

lemma foreign_metadata_migrations: "''signoz_metadata'' \<noteq> db \<Longrightarrow> foreign db
  (metadata_migrations nano)"
  unfolding foreign_def metadata_migrations_def
  by (simp add: metadata_migrations_recs [THEN foreign_unfold] lit_facts SignozMetadataDB_def cong:
    lit_congs)

lemma foreign_analytics_migrations: "''signoz_analytics'' \<noteq> db \<Longrightarrow> foreign db
  analytics_migrations"
  unfolding foreign_def analytics_migrations_def
  by (simp add: analytics_migrations_recs [THEN foreign_unfold] lit_facts cong: lit_congs)

lemma foreign_meter_migrations: "''signoz_meter'' \<noteq> db \<Longrightarrow> foreign db meter_migrations"
  unfolding foreign_def meter_migrations_def
  by (simp add: meter_migrations_recs [THEN foreign_unfold] lit_facts cong: lit_congs)

lemmas foreign_lists = foreign_custom_retention_logs_migrations foreign_squashed_metrics_migrations
  foreign_squashed_traces_migrations
  foreign_traces_migrations foreign_logs_migrations foreign_metrics_migrations
  foreign_metadata_migrations foreign_analytics_migrations foreign_meter_migrations

lemmas fresh_install_unfold = fresh_install_def install_order_def shipped_def
  migration_lists.select_convs run_tables_append

lemma fresh_traces: "fresh_install (shipped nano) ''signoz_traces'' \<noteq> None"
  using replay_traces by (simp add: fresh_install_unfold run_tables_foreign foreign_lists tabs_def)

lemma fresh_metrics: "fresh_install (shipped nano) ''signoz_metrics'' \<noteq> None"
  using replay_metrics by (simp add: fresh_install_unfold run_tables_foreign foreign_lists tabs_def)

lemma fresh_logs: "fresh_install (shipped nano) ''signoz_logs'' \<noteq> None"
  using replay_logs by (simp add: fresh_install_unfold run_tables_foreign foreign_lists tabs_def)

lemma fresh_metadata: "fresh_install (shipped nano) ''signoz_metadata'' \<noteq> None"
  using replay_metadata [of nano] by (simp add: fresh_install_unfold run_tables_foreign foreign_lists
    tabs_def)

lemma fresh_analytics: "fresh_install (shipped nano) ''signoz_analytics'' \<noteq> None"
  using replay_analytics by (simp add: fresh_install_unfold run_tables_foreign foreign_lists tabs_def)

lemma fresh_meter: "fresh_install (shipped nano) ''signoz_meter'' \<noteq> None"
  using replay_meter by (simp add: fresh_install_unfold run_tables_foreign foreign_lists tabs_def)


end
