(* ===== verification/Go_Floats.thy ===== *)
theory Go_Floats
  imports Go_Prelude "HOL-Library.Log_Nat"
begin

text \<open>
  Binary floating point as the sources use it: a finite float is the rational it denotes, and an
  operation is the exact one followed by rounding to the nearest representable value, ties to even.
  \<open>float64\<close> has 53 bits of precision and a least exponent; Go's \<open>big.Float\<close> has the precision of
  its receiver and, for the magnitudes here, no bounds on its exponent. Rounding is monotone, and
  exact on the values it can represent.
\<close>

section \<open>Rounding\<close>

text \<open>The exponent of a positive rational: the integer part of its binary logarithm.\<close>

definition exponent :: "rat \<Rightarrow> int" where
  "exponent x = (case quotient_of x of (n, d) \<Rightarrow>
     (let k = bitlen n - bitlen d in if 2 powi k \<le> x then k else k - 1))"

definition half_even :: "rat \<Rightarrow> int" where
  "half_even x =
     (let f = \<lfloor>x\<rfloor>; r = x - of_int f in
      if r < 1 / 2 then f else if r > 1 / 2 then f + 1 else if even f then f else f + 1)"

text \<open>Round to a multiple of \<open>2\<close> to the power \<open>u\<close>.\<close>

definition round_to :: "int \<Rightarrow> rat \<Rightarrow> rat" where
  "round_to u x = of_int (half_even (x / 2 powi u)) * 2 powi u"

text \<open>\<open>ulp\<close> gives the exponent of the last place from the exponent of the value.\<close>

definition round_float :: "(int \<Rightarrow> int) \<Rightarrow> rat \<Rightarrow> rat" where
  "round_float ulp x =
     (if x = 0 then 0
      else if 0 < x then round_to (ulp (exponent x)) x
      else - round_to (ulp (exponent (- x))) (- x))"

definition float64 :: "rat \<Rightarrow> rat" where
  "float64 = round_float (\<lambda>e. max (e - 52) (- 1074))"

definition bigFloat :: "int \<Rightarrow> rat \<Rightarrow> rat" where
  "bigFloat prec = round_float (\<lambda>e. e - (prec - 1))"

text \<open>\<open>(*big.Float).Uint64\<close>: truncation towards zero, clipped to the range of \<open>uint64\<close>.\<close>

definition bigFloat_Uint64 :: "rat \<Rightarrow> 64 word" where
  "bigFloat_Uint64 x = word_of_int (max 0 (min (2 ^ 64 - 1) \<lfloor>x\<rfloor>))"

section \<open>The exponent\<close>

lemma bitlen_bound:
  assumes "0 < n"
  shows "(2::rat) powi (bitlen n - 1) \<le> of_int n \<and> of_int n < (2::rat) powi (bitlen n)"
proof -
  obtain m where m: "bitlen n = int (Suc m)"
    using assms by (metis bitlen_def bitlen_eq_zero_iff linorder_not_less nat_0_iff
        not0_implies_Suc of_nat_0 bitlen_nonneg nat_eq_iff2)
  have k: "nat (bitlen n - 1) = m" "nat (bitlen n) = Suc m" by (simp_all add: m)
  have "(2::int) ^ m \<le> n \<and> n < 2 ^ Suc m"
    using bitlen_bounds [OF assms] by (simp only: k)
  then have "(of_int (2 ^ m) :: rat) \<le> of_int n \<and> (of_int n :: rat) < of_int (2 ^ Suc m)"
    by (simp only: of_int_le_iff of_int_less_iff)
  moreover have "(2::rat) powi (bitlen n) = 2 ^ Suc m" unfolding m by (rule power_int_of_nat)
  moreover have "(2::rat) powi (bitlen n - 1) = 2 ^ m" by (simp add: m)
  ultimately show ?thesis by simp
qed

lemma exponent_bounds:
  assumes "0 < x"
  shows "2 powi (exponent x) \<le> x" and "x < 2 powi (exponent x + 1)"
proof -
  obtain n d where q: "quotient_of x = (n, d)" by fastforce
  then have d: "0 < d" and x: "x = of_int n / of_int d"
    by (auto intro: quotient_of_denom_pos quotient_of_div)
  then have n: "0 < n" using assms by (simp add: zero_less_divide_iff)
  let ?k = "bitlen n - bitlen d"
  have "(2::rat) powi (?k - 1) = 2 powi (bitlen n - 1) / 2 powi (bitlen d)"
    by (simp add: power_int_diff)
  also have "\<dots> \<le> x"
    unfolding x using bitlen_bound [OF n] bitlen_bound [OF d] d n by (intro frac_le) auto
  finally have lo: "2 powi (?k - 1) \<le> x" .
  have "x < 2 powi (bitlen n) / 2 powi (bitlen d - 1)"
    unfolding x using bitlen_bound [OF n] bitlen_bound [OF d] d n by (intro frac_less) auto
  also have "\<dots> = (2::rat) powi (?k + 1)" by (simp add: power_int_diff power_int_add)
  finally have hi: "x < 2 powi (?k + 1)" .
  show "2 powi (exponent x) \<le> x" "x < 2 powi (exponent x + 1)"
    using lo hi by (auto simp: exponent_def q Let_def)
qed

lemma powi_less: "m < n \<Longrightarrow> (2::rat) powi m < 2 powi n"
  by (rule power_int_strict_increasing) auto

lemma powi_le: "m \<le> n \<Longrightarrow> (2::rat) powi m \<le> 2 powi n"
  by (rule power_int_increasing) auto

lemma exponent_mono:
  assumes "0 < x" and "x \<le> y"
  shows "exponent x \<le> exponent y"
proof (rule ccontr)
  assume "\<not> exponent x \<le> exponent y"
  then have "2 powi (exponent y + 1) \<le> (2::rat) powi (exponent x)" by (intro powi_le) simp
  with exponent_bounds [of x] exponent_bounds [of y] assms show False by linarith
qed

lemma exponent_less_iff: "0 < x \<Longrightarrow> exponent x < k \<longleftrightarrow> x < 2 powi k"
proof
  assume x: "0 < x" and "exponent x < k"
  then have "2 powi (exponent x + 1) \<le> (2::rat) powi k" by (intro powi_le) simp
  with exponent_bounds [OF x] show "x < 2 powi k" by linarith
next
  assume x: "0 < x" and "x < 2 powi k"
  with exponent_bounds(1) [OF x] have "(2::rat) powi (exponent x) < 2 powi k" by linarith
  then show "exponent x < k" by (metis linorder_not_less powi_le)
qed

section \<open>Rounding is monotone\<close>

lemma half_even_int [simp]: "half_even (of_int n) = n"
  by (simp add: half_even_def)

lemma half_even_error: "\<bar>of_int (half_even x) - x\<bar> \<le> 1 / 2"
proof -
  have "of_int \<lfloor>x\<rfloor> \<le> x" "x < of_int \<lfloor>x\<rfloor> + 1" by linarith+
  then show ?thesis unfolding half_even_def Let_def abs_if by (auto; linarith)
qed

lemma half_even_mono:
  assumes "x \<le> y"
  shows "half_even x \<le> half_even y"
proof -
  have "\<lfloor>x\<rfloor> \<le> \<lfloor>y\<rfloor>" using assms by (rule floor_mono)
  moreover have "half_even x \<le> half_even y" if "\<lfloor>x\<rfloor> = \<lfloor>y\<rfloor>"
    using that assms by (auto simp: half_even_def Let_def)
  moreover have "half_even x \<le> \<lfloor>x\<rfloor> + 1" "\<lfloor>y\<rfloor> \<le> half_even y"
    by (auto simp: half_even_def Let_def)
  ultimately show ?thesis by linarith
qed

lemma round_to_mono: "x \<le> y \<Longrightarrow> round_to u x \<le> round_to u y"
  by (simp add: round_to_def half_even_mono divide_right_mono)

lemma round_to_exact: "round_to u (of_int n * 2 powi u) = of_int n * 2 powi u"
  by (simp add: round_to_def)

lemma round_to_pow:
  assumes "u \<le> k"
  shows "round_to u (2 powi k) = 2 powi k"
proof -
  have "(2::rat) powi k = of_int (2 ^ nat (k - u)) * 2 powi u"
    using assms power_int_add [of "2::rat" "k - u" u] by (simp add: power_int_def)
  then show ?thesis by (metis round_to_exact)
qed

lemma round_to_error: "\<bar>round_to u x - x\<bar> \<le> 2 powi u / 2"
proof -
  have "round_to u x - x = (of_int (half_even (x / 2 powi u)) - x / 2 powi u) * 2 powi u"
    by (simp add: round_to_def algebra_simps)
  then have "\<bar>round_to u x - x\<bar> = \<bar>of_int (half_even (x / 2 powi u)) - x / 2 powi u\<bar> * 2 powi u"
    by (simp add: abs_mult)
  also have "\<dots> \<le> 1 / 2 * 2 powi u"
    by (intro mult_right_mono half_even_error) simp
  finally show ?thesis by simp
qed

text \<open>A precision: values of a larger exponent have the same last place, or one they can spare.\<close>

definition precision :: "(int \<Rightarrow> int) \<Rightarrow> bool" where
  "precision ulp \<longleftrightarrow> (\<forall>e e'. e < e' \<longrightarrow> ulp e = ulp e' \<or> (ulp e \<le> ulp e' \<and> ulp e' \<le> e'))"

lemma precision_float64: "precision (\<lambda>e. max (e - 52) (- 1074))"
  by (auto simp: precision_def)

lemma precision_bigFloat: "1 \<le> p \<Longrightarrow> precision (\<lambda>e. e - (p - 1))"
  by (auto simp: precision_def)

lemma round_float_mono_pos:
  assumes "precision ulp" and "0 < x" and "x \<le> y"
  shows "round_float ulp x \<le> round_float ulp y"
proof (cases "ulp (exponent x) = ulp (exponent y)")
  case True
  with assms show ?thesis by (simp add: round_float_def round_to_mono)
next
  case False
  let ?u = "ulp (exponent x)" and ?v = "ulp (exponent y)"
  have lt: "exponent x < exponent y"
    using exponent_mono [OF assms(2,3)] False by (metis order_le_less)
  with assms(1) False have u: "?u \<le> ?v" "?v \<le> exponent y" by (auto simp: precision_def)
  have "round_to ?u x \<le> round_to ?u (2 powi exponent y)"
    using lt assms(2) by (intro round_to_mono) (simp add: exponent_less_iff)
  also have "\<dots> = round_to ?v (2 powi exponent y)" using u by (simp add: round_to_pow)
  also have "\<dots> \<le> round_to ?v y"
    using exponent_bounds(1) [of y] assms(2,3) by (intro round_to_mono) simp
  finally show ?thesis using assms(2,3) by (simp add: round_float_def)
qed

lemma round_float_nonneg:
  assumes "0 \<le> x"
  shows "0 \<le> round_float ulp x"
proof -
  have "0 \<le> round_to (ulp (exponent x)) x"
    using round_to_mono [OF assms, of "ulp (exponent x)"] round_to_exact [of "ulp (exponent x)" 0] by simp
  with assms show ?thesis by (simp add: round_float_def)
qed

lemma round_float_mono:
  assumes "precision ulp" and "0 \<le> x" and "x \<le> y"
  shows "round_float ulp x \<le> round_float ulp y"
proof (cases "x = 0")
  case True
  with assms round_float_nonneg [of y ulp] show ?thesis by (simp add: round_float_def)
qed (use assms round_float_mono_pos [of ulp x y] in auto)

lemma exponent_one [simp]: "exponent 1 = 0"
  by (simp add: exponent_def)

lemma float64_one [simp]: "float64 1 = 1"
  using round_to_pow [of "- 52" 0] by (simp add: float64_def round_float_def)

lemma float64_mono: "0 \<le> x \<Longrightarrow> x \<le> y \<Longrightarrow> float64 x \<le> float64 y"
  unfolding float64_def by (rule round_float_mono [OF precision_float64])

lemma float64_nonneg: "0 \<le> x \<Longrightarrow> 0 \<le> float64 x"
  unfolding float64_def by (rule round_float_nonneg)

lemma float64_minus: "0 < x \<Longrightarrow> float64 (- x) = - float64 x"
  by (simp add: float64_def round_float_def)

text \<open>Integers of up to 53 bits are exact.\<close>

lemma float64_int:
  assumes "0 < n" "n < 2 ^ 53"
  shows "float64 (of_int n) = of_int n"
proof -
  let ?e = "exponent (of_int n)"
  have "(of_int n :: rat) < of_int (2 ^ 53)" using assms(2) by (simp only: of_int_less_iff)
  then have "(of_int n :: rat) < 2 powi 53" by (simp add: power_int_def)
  then have e: "?e < 53" using assms(1) exponent_less_iff [of "of_int n" 53] by simp
  have "(2::rat) powi 0 \<le> of_int n" using assms(1) by simp
  then have e0: "0 \<le> ?e" using exponent_less_iff [of "of_int n" 0] assms(1) by (metis linorder_not_less of_int_0_less_iff)
  have "(of_int n :: rat) = of_int (n * 2 ^ nat (52 - ?e)) * 2 powi (?e - 52)"
    using e power_int_add [of "2::rat" "52 - ?e" "?e - 52"] by (simp add: power_int_def [of _ "52 - ?e"])
  then have "round_to (?e - 52) (of_int n) = of_int n" by (metis round_to_exact)
  then show ?thesis using assms(1) e0 by (simp add: float64_def round_float_def max_def)
qed

lemma bigFloat_Uint64_mono:
  assumes "x \<le> y"
  shows "bigFloat_Uint64 x \<le> bigFloat_Uint64 y"
proof -
  have "uint (bigFloat_Uint64 z) = max 0 (min (2 ^ 64 - 1) \<lfloor>z\<rfloor>)" for z
    by (simp add: bigFloat_Uint64_def uint_word_of_int_eq take_bit_int_eq_self_iff)
  moreover have "\<lfloor>x\<rfloor> \<le> \<lfloor>y\<rfloor>" using assms by (rule floor_mono)
  ultimately show ?thesis by (simp add: word_le_def)
qed

end
