(* ===== verification/Sampling_Policies.thy ===== *)
theory Sampling_Policies
  imports Go_Floats Complex_Main
begin

text \<open>
  The sampling policies of the tail sampler (\<open>processor/signoztailsampler/internal/sampling\<close> and
  \<open>evaluator.go\<close>): the trace data they look at, the iterators over spans, every policy, and the
  default evaluator that combines filters, sub-policies and a sampler. A policy keeps state (rate
  counters, the cache of regex results), so \<open>Evaluate\<close> returns the policy's next state with its
  decision. The clock is read once per evaluation.
\<close>

section \<open>Traces\<close>

text \<open>
  An attribute value is what the two accessors the policies use return for it, \<open>Str()\<close> and
  \<open>Int()\<close>.
\<close>

record attr =
  a_Str :: string
  a_Int :: int

type_synonym attrs = "string \<Rightarrow> attr option"

datatype StatusCode = StatusCodeUnset | StatusCodeOk | StatusCodeError

type_synonym TraceID = "8 word list"

record Span =
  sp_TraceID :: TraceID
  StartTimestamp :: "64 word"
  EndTimestamp :: "64 word"
  sp_Attributes :: attrs
  sp_Status :: StatusCode
  sp_TraceState :: string

record ResourceSpans =
  Resource :: attrs
  ScopeSpans :: "Span list list"

type_synonym Traces = "ResourceSpans list"

datatype Decision =
    Unspecified | Pending | Sampled | NotSampled | Dropped | Error
  | InvertSampled | InvertNotSampled | NoResult

record TraceData =
  Decisions :: "Decision list"
  SpanCount :: int
  ReceivedBatches :: Traces
  FinalDecision :: Decision

text \<open>All spans of a trace, in order.\<close>

definition all_spans :: "Traces \<Rightarrow> Span list" where
  "all_spans td = concat (map (\<lambda>rs. concat (ScopeSpans rs)) td)"

text \<open>
  Code outside the repository: regular expression matching, the insertion of the LRU cache and the
  parser of trace states. \<open>now\<close> is the clock, in Unix seconds.
\<close>

record deps =
  now :: int
  MatchString :: "string \<Rightarrow> string \<Rightarrow> bool"
  lru_Add :: "nat \<Rightarrow> (string \<times> bool) list \<Rightarrow> string \<Rightarrow> bool \<Rightarrow> (string \<times> bool) list"
  trace_state_get :: "string \<Rightarrow> string \<Rightarrow> string option"

section \<open>Iterators (\<open>util.go\<close>)\<close>

text \<open>
  The callbacks keep state in their closures, so the iterators thread a state; they stop at the
  first callback that decides.
\<close>

fun any_st :: "('a \<Rightarrow> 's \<Rightarrow> bool \<times> 's) \<Rightarrow> 'a list \<Rightarrow> 's \<Rightarrow> bool \<times> 's" where
  "any_st f [] s = (False, s)"
| "any_st f (x # xs) s = (case f x s of (True, s') \<Rightarrow> (True, s') | (False, s') \<Rightarrow> any_st f xs s')"

fun all_st :: "('a \<Rightarrow> 's \<Rightarrow> bool \<times> 's) \<Rightarrow> 'a list \<Rightarrow> 's \<Rightarrow> bool \<times> 's" where
  "all_st f [] s = (True, s)"
| "all_st f (x # xs) s = (case f x s of (False, s') \<Rightarrow> (False, s') | (True, s') \<Rightarrow> all_st f xs s')"

definition hasInstrumentationLibrarySpanWithCondition ::
    "Span list list \<Rightarrow> (Span \<Rightarrow> 's \<Rightarrow> bool \<times> 's) \<Rightarrow> 's \<Rightarrow> bool \<times> 's" where
  "hasInstrumentationLibrarySpanWithCondition ilss check = any_st (\<lambda>ils. any_st check ils) ilss"

definition invertHasInstrumentationLibrarySpanWithCondition ::
    "Span list list \<Rightarrow> (Span \<Rightarrow> 's \<Rightarrow> bool \<times> 's) \<Rightarrow> 's \<Rightarrow> bool \<times> 's" where
  "invertHasInstrumentationLibrarySpanWithCondition ilss check = all_st (\<lambda>ils. all_st check ils) ilss"

definition hasSpanWithCondition :: "Traces \<Rightarrow> (Span \<Rightarrow> 's \<Rightarrow> bool \<times> 's) \<Rightarrow> 's \<Rightarrow> Decision \<times> 's" where
  "hasSpanWithCondition td check s =
     (case any_st (\<lambda>rs. hasInstrumentationLibrarySpanWithCondition (ScopeSpans rs) check) td s of
        (b, s') \<Rightarrow> (if b then Sampled else NotSampled, s'))"

definition hasResourceOrSpanWithCondition ::
    "Traces \<Rightarrow> (attrs \<Rightarrow> 's \<Rightarrow> bool \<times> 's) \<Rightarrow> (Span \<Rightarrow> 's \<Rightarrow> bool \<times> 's) \<Rightarrow> 's \<Rightarrow> Decision \<times> 's" where
  "hasResourceOrSpanWithCondition td shouldSampleResource shouldSampleSpan s =
     (case any_st (\<lambda>rs s. case shouldSampleResource (Resource rs) s of
         (True, s') \<Rightarrow> (True, s')
       | (False, s') \<Rightarrow> hasInstrumentationLibrarySpanWithCondition (ScopeSpans rs) shouldSampleSpan s') td s of
        (b, s') \<Rightarrow> (if b then Sampled else NotSampled, s'))"

definition invertHasResourceOrSpanWithCondition ::
    "Traces \<Rightarrow> (attrs \<Rightarrow> 's \<Rightarrow> bool \<times> 's) \<Rightarrow> (Span \<Rightarrow> 's \<Rightarrow> bool \<times> 's) \<Rightarrow> 's \<Rightarrow> Decision \<times> 's" where
  "invertHasResourceOrSpanWithCondition td shouldSampleResource shouldSampleSpan s =
     (case all_st (\<lambda>rs s. case shouldSampleResource (Resource rs) s of
         (False, s') \<Rightarrow> (False, s')
       | (True, s') \<Rightarrow> invertHasInstrumentationLibrarySpanWithCondition (ScopeSpans rs) shouldSampleSpan s') td s of
        (b, s') \<Rightarrow> (if b then InvertSampled else InvertNotSampled, s'))"

section \<open>Leaf policies\<close>

subsection \<open>Latency\<close>

text \<open>\<open>time.Duration\<close> is a saturating difference of int64 nanoseconds.\<close>

definition sat64 :: "int \<Rightarrow> int" where
  "sat64 x = max (- (2 ^ 63)) (min (2 ^ 63 - 1) x)"

definition Milliseconds :: "int \<Rightarrow> int" where
  "Milliseconds d = (if d < 0 then - ((- d) div 1000000) else d div 1000000)"

definition latency_check ::
    "int \<Rightarrow> Span \<Rightarrow> 64 word \<times> 64 word \<Rightarrow> bool \<times> (64 word \<times> 64 word)" where
  "latency_check thresholdMs sp = (\<lambda>(minTime, maxTime).
     (let minTime = (if minTime = 0 \<or> StartTimestamp sp < minTime then StartTimestamp sp else minTime);
          maxTime = (if maxTime = 0 \<or> EndTimestamp sp > maxTime then EndTimestamp sp else maxTime);
          duration = sat64 (sint maxTime - sint minTime)
      in (Milliseconds duration \<ge> thresholdMs, (minTime, maxTime))))"

definition latency_Evaluate :: "int \<Rightarrow> TraceData \<Rightarrow> Decision" where
  "latency_Evaluate thresholdMs trace =
     fst (hasSpanWithCondition (ReceivedBatches trace) (latency_check thresholdMs) (0, 0))"

subsection \<open>Stateless filters\<close>

text \<open>A callback that keeps no state.\<close>

definition pure_check :: "('a \<Rightarrow> bool) \<Rightarrow> 'a \<Rightarrow> unit \<Rightarrow> bool \<times> unit" where
  "pure_check p x s = (p x, s)"

definition numericAttributeFilter_Evaluate :: "string \<Rightarrow> int \<Rightarrow> int \<Rightarrow> TraceData \<Rightarrow> Decision" where
  "numericAttributeFilter_Evaluate key minValue maxValue trace =
     fst (hasSpanWithCondition (ReceivedBatches trace) (pure_check (\<lambda>span.
       case sp_Attributes span key of
         None \<Rightarrow> False
       | Some v \<Rightarrow> a_Int v \<ge> minValue \<and> a_Int v \<le> maxValue)) ())"

definition spanCount_Evaluate :: "int \<Rightarrow> TraceData \<Rightarrow> Decision" where
  "spanCount_Evaluate minSpans trace = (if SpanCount trace \<ge> minSpans then Sampled else NotSampled)"

fun parse_status :: "string \<Rightarrow> StatusCode option" where
  "parse_status s =
     (if s = ''OK'' then Some StatusCodeOk
      else if s = ''ERROR'' then Some StatusCodeError
      else if s = ''UNSET'' then Some StatusCodeUnset
      else None)"

text \<open>The first unknown code is an error; so is an empty list.\<close>

fun parse_statuses :: "string list \<Rightarrow> string + StatusCode list" where
  "parse_statuses [] = Inr []"
| "parse_statuses (s # ss) =
     (case parse_status s of
        None \<Rightarrow> Inl (''unknown status code '' @ s)
      | Some c \<Rightarrow> (case parse_statuses ss of Inl e \<Rightarrow> Inl e | Inr cs \<Rightarrow> Inr (c # cs)))"

definition NewStatusCodeFilter :: "string list \<Rightarrow> string + StatusCode list" where
  "NewStatusCodeFilter statusCodeString =
     (if length statusCodeString = 0 then Inl ''expected at least one status code to filter on''
      else parse_statuses statusCodeString)"

definition statusCodeFilter_Evaluate :: "StatusCode list \<Rightarrow> TraceData \<Rightarrow> Decision" where
  "statusCodeFilter_Evaluate statusCodes trace =
     fst (hasSpanWithCondition (ReceivedBatches trace) (pure_check (\<lambda>span.
       list_ex (\<lambda>c. sp_Status span = c) statusCodes)) ())"

definition NewTraceStateFilter :: "string \<Rightarrow> string list \<Rightarrow> string list" where
  "NewTraceStateFilter key values =
     filter (\<lambda>value. value \<noteq> [] \<and> length key + length value < 256) values"

text \<open>\<open>trace_state_get\<close> parses the state and looks the key up; \<open>None\<close> is a parse error.\<close>

definition traceStateFilter_Evaluate :: "deps \<Rightarrow> string \<Rightarrow> string list \<Rightarrow> TraceData \<Rightarrow> Decision" where
  "traceStateFilter_Evaluate D key valuesMap trace =
     fst (hasSpanWithCondition (ReceivedBatches trace) (pure_check (\<lambda>span.
       case trace_state_get D (sp_TraceState span) key of
         None \<Rightarrow> False
       | Some v \<Rightarrow> v \<in> set valuesMap)) ())"

subsection \<open>String attributes\<close>

text \<open>\<open>RegexMatcher patterns evict cache\<close>: the LRU cache remembers the result for a string.\<close>

datatype matcher = ExactMatcher "string list" | RegexMatcher "string list" nat "(string \<times> bool) list"

definition NewStringMatcher :: "string list \<Rightarrow> bool \<Rightarrow> int \<Rightarrow> matcher" where
  "NewStringMatcher values regexMatchEnabled evictSize =
     (if regexMatchEnabled
      then RegexMatcher values (if evictSize \<le> 0 then 128 else nat evictSize) []
      else ExactMatcher (filter (\<lambda>v. v \<noteq> []) values))"

fun matches :: "deps \<Rightarrow> string \<Rightarrow> matcher \<Rightarrow> bool \<times> matcher" where
  "matches D toMatch (ExactMatcher valuesMap) = (toMatch \<in> set valuesMap, ExactMatcher valuesMap)"
| "matches D toMatch (RegexMatcher filterList evict matchedAttrs) =
     (case map_of matchedAttrs toMatch of
        Some v \<Rightarrow> (v, RegexMatcher filterList evict matchedAttrs)
      | None \<Rightarrow>
          (let r = list_ex (\<lambda>re. MatchString D re toMatch) filterList
           in (r, RegexMatcher filterList evict (lru_Add D evict matchedAttrs toMatch r))))"

definition resource_matches :: "deps \<Rightarrow> string \<Rightarrow> attrs \<Rightarrow> matcher \<Rightarrow> bool \<times> matcher" where
  "resource_matches D key attributes mt =
     (case attributes key of None \<Rightarrow> (False, mt) | Some v \<Rightarrow> matches D (a_Str v) mt)"

definition span_matches :: "deps \<Rightarrow> string \<Rightarrow> Span \<Rightarrow> matcher \<Rightarrow> bool \<times> matcher" where
  "span_matches D key sp mt =
     (case sp_Attributes sp key of
        None \<Rightarrow> (False, mt)
      | Some v \<Rightarrow> if length (a_Str v) > 0 then matches D (a_Str v) mt else (False, mt))"

definition negate :: "bool \<times> 's \<Rightarrow> bool \<times> 's" where
  "negate r = (\<not> fst r, snd r)"

definition stringAttributeFilter_Evaluate ::
    "deps \<Rightarrow> string \<Rightarrow> matcher \<Rightarrow> bool \<Rightarrow> TraceData \<Rightarrow> Decision \<times> matcher" where
  "stringAttributeFilter_Evaluate D key mt invertMatch trace =
     (if invertMatch
      then invertHasResourceOrSpanWithCondition (ReceivedBatches trace)
             (\<lambda>resource s. negate (resource_matches D key resource s))
             (\<lambda>span s. negate (span_matches D key span s)) mt
      else hasResourceOrSpanWithCondition (ReceivedBatches trace)
             (resource_matches D key) (span_matches D key) mt)"

subsection \<open>Probabilistic\<close>

text \<open>FNV-1a over 64 bits, as in \<open>hash/fnv\<close>.\<close>

definition fnv64a :: "64 word \<Rightarrow> 8 word list \<Rightarrow> 64 word" where
  "fnv64a h bs = foldl (\<lambda>h b. (xor h (ucast b)) * 1099511628211) h bs"

definition bytes_of :: "string \<Rightarrow> 8 word list" where
  "bytes_of s = map (\<lambda>c. word_of_nat (of_char c)) s"

definition hashTraceID :: "string \<Rightarrow> 8 word list \<Rightarrow> 64 word" where
  "hashTraceID salt b = fnv64a (fnv64a 14695981039346656037 (bytes_of salt)) b"

definition probabilisticSampler_Evaluate :: "64 word \<Rightarrow> string \<Rightarrow> TraceID \<Rightarrow> Decision" where
  "probabilisticSampler_Evaluate threshold hashSalt traceID =
     (if hashTraceID hashSalt traceID \<le> threshold then Sampled else NotSampled)"

subsection \<open>Rate limiting\<close>

text \<open>int64 addition.\<close>

definition add64 :: "int \<Rightarrow> int \<Rightarrow> int" where
  "add64 a b = (a + b + 2 ^ 63) mod 2 ^ 64 - 2 ^ 63"

record rateLimiting =
  currentSecond :: int
  spansInCurrentSecond :: int
  spansPerSecond :: int

definition NewRateLimiting :: "int \<Rightarrow> rateLimiting" where
  "NewRateLimiting sps = \<lparr>currentSecond = 0, spansInCurrentSecond = 0, spansPerSecond = sps\<rparr>"

definition rateLimiting_Evaluate :: "int \<Rightarrow> rateLimiting \<Rightarrow> TraceData \<Rightarrow> Decision \<times> rateLimiting" where
  "rateLimiting_Evaluate currSecond r trace =
     (let r = (if currentSecond r \<noteq> currSecond
               then r\<lparr>currentSecond := currSecond, spansInCurrentSecond := 0\<rparr> else r);
          spansInSecondIfSampled = add64 (spansInCurrentSecond r) (SpanCount trace)
      in if spansInSecondIfSampled < spansPerSecond r
         then (Sampled, r\<lparr>spansInCurrentSecond := spansInSecondIfSampled\<rparr>)
         else (NotSampled, r))"

section \<open>Evaluators\<close>

text \<open>
  The policies as one type. \<open>CompositeP\<close> has its sub-policies with the allocated and the sampled
  spans per second, the total and the current second; \<open>DefaultP\<close> is \<open>defaultEvaluator\<close>: its sampler,
  operator, filters and sub-evaluators.
\<close>

datatype evaluator =
    AlwaysSampleP
  | NeverSampleP
  | LatencyP int
  | NumericAttributeP string int int
  | ProbabilisticP "64 word" string
  | SpanCountP int
  | StatusCodeP "StatusCode list"
  | StringAttributeP string matcher bool
  | TraceStateP string "string list"
  | RateLimitingP rateLimiting
  | AndP "evaluator list"
  | CompositeP "(evaluator \<times> int \<times> int) list" int int
  | DefaultP string evaluator string "evaluator list" "evaluator list"

type_synonym outcome = "string + Decision"

definition ToLower :: "string \<Rightarrow> string" where
  "ToLower s = map (\<lambda>c. let n = of_char c :: nat in if 65 \<le> n \<and> n \<le> 90 then char_of (n + 32) else c) s"

text \<open>
  The loops of the compound policies. Each gets its sub-policies together with what evaluating
  them now would give, the outcome and the next state; a sub-policy the loop does not reach keeps its
  state.
\<close>

type_synonym evaluated = "evaluator \<times> outcome \<times> evaluator"

fun and_loop :: "evaluated list \<Rightarrow> outcome \<times> evaluator list" where
  "and_loop [] = (Inr Sampled, [])"
| "and_loop ((sub, Inl e, sub') # subs) = (Inl e, sub' # map fst subs)"
| "and_loop ((sub, Inr d, sub') # subs) =
     (if d = NotSampled \<or> d = InvertNotSampled then (Inr NotSampled, sub' # map fst subs)
      else (case and_loop subs of (r, subs') \<Rightarrow> (r, sub' # subs')))"

text \<open>\<open>(evaluator, allocatedSPS, sampledSPS)\<close>\<close>

type_synonym subpolicy = "evaluator \<times> int \<times> int"

fun composite_loop :: "int \<Rightarrow> int \<Rightarrow> (subpolicy \<times> outcome \<times> evaluator) list \<Rightarrow> outcome \<times> subpolicy list" where
  "composite_loop maxTotalSPS spans [] = (Inr NotSampled, [])"
| "composite_loop maxTotalSPS spans (((sub, allocatedSPS, sampledSPS), Inl e, sub') # subs) =
     (Inl e, (sub', allocatedSPS, sampledSPS) # map fst subs)"
| "composite_loop maxTotalSPS spans (((sub, allocatedSPS, sampledSPS), Inr d, sub') # subs) =
     (if d = Sampled \<or> d = InvertSampled
      then (let spansInSecondIfSampled = add64 sampledSPS spans
            in if spansInSecondIfSampled \<le> allocatedSPS \<and> spansInSecondIfSampled \<le> maxTotalSPS
               then (Inr Sampled, (sub', allocatedSPS, spansInSecondIfSampled) # map fst subs)
               else (Inr NotSampled, (sub', allocatedSPS, sampledSPS) # map fst subs))
      else (case composite_loop maxTotalSPS spans subs of
              (r, subs') \<Rightarrow> (r, (sub', allocatedSPS, sampledSPS) # subs')))"

text \<open>The filters of the default evaluator: \<open>Inl\<close> is an early return, \<open>Inr\<close> the value of \<open>filterMatched\<close>.\<close>

fun filter_loop :: "string \<Rightarrow> bool \<Rightarrow> evaluated list \<Rightarrow> (Decision + bool) \<times> evaluator list" where
  "filter_loop op filterMatched [] = (Inr filterMatched, [])"
| "filter_loop op filterMatched ((fe, Inl e, fe') # fes) = (Inl Error, fe' # map fst fes)"
| "filter_loop op filterMatched ((fe, Inr filterResult, fe') # fes) =
     (if filterResult = NotSampled \<and> ToLower op = ''and'' then (Inl NoResult, fe' # map fst fes)
      else (case filter_loop op (filterMatched \<or> filterResult = Sampled) fes of
              (r, fes') \<Rightarrow> (r, fe' # fes')))"

text \<open>The sub-policies of the default evaluator: \<open>None\<close> when none of them decided.\<close>

fun sub_loop :: "evaluated list \<Rightarrow> Decision option \<times> evaluator list" where
  "sub_loop [] = (None, [])"
| "sub_loop ((sp, Inl e, sp') # sps) = (case sub_loop sps of (r, sps') \<Rightarrow> (r, sp' # sps'))"
| "sub_loop ((sp, Inr d, sp') # sps) =
     (if d \<noteq> NoResult then (Some d, sp' # map fst sps)
      else (case sub_loop sps of (r, sps') \<Rightarrow> (r, sp' # sps')))"

fun Evaluate :: "deps \<Rightarrow> TraceID \<Rightarrow> TraceData \<Rightarrow> evaluator \<Rightarrow> outcome \<times> evaluator" where
  "Evaluate D traceID trace AlwaysSampleP = (Inr Sampled, AlwaysSampleP)"
| "Evaluate D traceID trace NeverSampleP = (Inr NotSampled, NeverSampleP)"
| "Evaluate D traceID trace (LatencyP t) = (Inr (latency_Evaluate t trace), LatencyP t)"
| "Evaluate D traceID trace (NumericAttributeP k lo hi) =
     (Inr (numericAttributeFilter_Evaluate k lo hi trace), NumericAttributeP k lo hi)"
| "Evaluate D traceID trace (ProbabilisticP t salt) =
     (Inr (probabilisticSampler_Evaluate t salt traceID), ProbabilisticP t salt)"
| "Evaluate D traceID trace (SpanCountP n) = (Inr (spanCount_Evaluate n trace), SpanCountP n)"
| "Evaluate D traceID trace (StatusCodeP cs) = (Inr (statusCodeFilter_Evaluate cs trace), StatusCodeP cs)"
| "Evaluate D traceID trace (StringAttributeP k mt invert) =
     (case stringAttributeFilter_Evaluate D k mt invert trace of
        (d, mt') \<Rightarrow> (Inr d, StringAttributeP k mt' invert))"
| "Evaluate D traceID trace (TraceStateP k vs) =
     (Inr (traceStateFilter_Evaluate D k vs trace), TraceStateP k vs)"
| "Evaluate D traceID trace (RateLimitingP r) =
     (case rateLimiting_Evaluate (now D) r trace of (d, r') \<Rightarrow> (Inr d, RateLimitingP r'))"
| "Evaluate D traceID trace (AndP subs) =
     (case and_loop (map (\<lambda>e. (e, Evaluate D traceID trace e)) subs) of (d, subs') \<Rightarrow> (d, AndP subs'))"
| "Evaluate D traceID trace (CompositeP subs maxTotalSPS second) =
     (let evaluated = map (\<lambda>(e, alloc, sps).
            ((e, alloc, if second \<noteq> now D then 0 else sps), Evaluate D traceID trace e)) subs
      in case composite_loop maxTotalSPS (SpanCount trace) evaluated of
           (d, subs') \<Rightarrow> (d, CompositeP subs' maxTotalSPS (now D)))"
| "Evaluate D traceID trace (DefaultP name sampler op filters subs) =
     (case filter_loop op False (map (\<lambda>e. (e, Evaluate D traceID trace e)) filters) of
        (Inl d, filters') \<Rightarrow> (Inr d, DefaultP name sampler op filters' subs)
      | (Inr filterMatched, filters') \<Rightarrow>
          if \<not> filterMatched then (Inr NoResult, DefaultP name sampler op filters' subs)
          else (case sub_loop (map (\<lambda>e. (e, Evaluate D traceID trace e)) subs) of
             (Some d, subs') \<Rightarrow> (Inr d, DefaultP name sampler op filters' subs')
           | (None, subs') \<Rightarrow>
               (case Evaluate D traceID trace sampler of
                  (d, sampler') \<Rightarrow> (d, DefaultP name sampler' op filters' subs'))))"

definition NewComposite :: "int \<Rightarrow> (evaluator \<times> int) list \<Rightarrow> evaluator" where
  "NewComposite maxTotalSpansPerSecond subPolicyParams =
     CompositeP (map (\<lambda>(e, sps). (e, sps, 0)) subPolicyParams) maxTotalSpansPerSecond 0"

section \<open>Building evaluators (\<open>evaluator.go\<close>, \<open>config.go\<close>)\<close>

record NumericAttributeCfg =
  nc_Key :: string
  MinValue :: int
  MaxValue :: int

record StringAttributeCfg =
  sc_Key :: string
  Values :: "string list"
  EnabledRegexMatching :: bool
  CacheMaxSize :: int
  InvertMatch :: bool

record BasePolicy =
  bp_Name :: string
  Priority :: int
  SamplingPercentage :: rat
  FilterOp :: string
  StringAttributeCfgs :: "StringAttributeCfg list"
  NumericAttributeCfgs :: "NumericAttributeCfg list"

definition NewStringAttributeFilter :: "StringAttributeCfg \<Rightarrow> evaluator" where
  "NewStringAttributeFilter s =
     StringAttributeP (sc_Key s)
       (NewStringMatcher (Values s) (EnabledRegexMatching s) (CacheMaxSize s)) (InvertMatch s)"

definition prepareFilterEvaluators :: "BasePolicy \<Rightarrow> evaluator list" where
  "prepareFilterEvaluators cfg =
     map NewStringAttributeFilter (StringAttributeCfgs cfg) @
     map (\<lambda>n. NumericAttributeP (nc_Key n) (MinValue n) (MaxValue n)) (NumericAttributeCfgs cfg)"

text \<open>
  A percentage is the rational a finite \<open>float64\<close> denotes. The division by \<open>100\<close> is rounded to
  \<open>float64\<close>; the product is that of a \<open>big.Float\<close> of 64 bits, the precision \<open>SetInt\<close> gives to
  \<open>math.MaxUint64\<close>.
\<close>

definition calculateThreshold :: "rat \<Rightarrow> 64 word" where
  "calculateThreshold ratio = bigFloat_Uint64 (bigFloat 64 ((2 ^ 64 - 1) * ratio))"

definition NewProbabilisticSampler :: "string \<Rightarrow> rat \<Rightarrow> evaluator" where
  "NewProbabilisticSampler hashSalt samplingPercentage =
     ProbabilisticP (calculateThreshold (float64 (samplingPercentage / 100)))
       (if hashSalt = [] then ''default-hash-seed'' else hashSalt)"

text \<open>
  \<open>NewDefaultEvaluator\<close>. The order \<open>sort.Slice\<close> gives to equal priorities is a
  parameter.
\<close>

definition choose_sampler :: "rat \<Rightarrow> evaluator" where
  "choose_sampler percentage =
     (if percentage = 0 then NeverSampleP
      else if percentage = 100 then AlwaysSampleP
      else NewProbabilisticSampler [] percentage)"

definition default_evaluator :: "BasePolicy \<Rightarrow> evaluator list \<Rightarrow> evaluator" where
  "default_evaluator cfg subEvaluators =
     DefaultP (bp_Name cfg) (choose_sampler (SamplingPercentage cfg)) (FilterOp cfg)
       (prepareFilterEvaluators cfg) subEvaluators"

definition NewDefaultEvaluator ::
    "(BasePolicy list \<Rightarrow> BasePolicy list) \<Rightarrow> BasePolicy \<Rightarrow> BasePolicy list \<Rightarrow> evaluator" where
  "NewDefaultEvaluator sort_Slice policyCfg subpolicies =
     default_evaluator policyCfg
       (map (\<lambda>subRule. default_evaluator subRule []) (sort_Slice subpolicies))"

section \<open>The iterators\<close>

lemma any_st_append:
  "any_st f (xs @ ys) s = (case any_st f xs s of (True, s') \<Rightarrow> (True, s') | (False, s') \<Rightarrow> any_st f ys s')"
  by (induction xs arbitrary: s) (auto split: prod.splits bool.splits)

lemma any_st_concat: "any_st (\<lambda>ys. any_st f ys) xss s = any_st f (concat xss) s"
  by (induction xss arbitrary: s) (auto simp: any_st_append split: prod.splits bool.splits)

lemma any_st_map: "any_st (\<lambda>x. any_st f (g x)) xs s = any_st f (concat (map g xs)) s"
  by (induction xs arbitrary: s) (auto simp: any_st_append split: prod.splits bool.splits)

lemma hasSpanWithCondition_spans:
  "hasSpanWithCondition td check s =
     (case any_st check (all_spans td) s of (b, s') \<Rightarrow> (if b then Sampled else NotSampled, s'))"
  by (simp add: hasSpanWithCondition_def hasInstrumentationLibrarySpanWithCondition_def
      any_st_concat [abs_def] any_st_map all_spans_def)

lemma any_st_pure: "any_st (pure_check p) xs s = (list_ex p xs, s)"
  by (induction xs) (auto simp: pure_check_def split: bool.splits)

text \<open>The stateless filters look for one span.\<close>

lemma hasSpan_pure:
  "fst (hasSpanWithCondition td (pure_check p) ()) = (if list_ex p (all_spans td) then Sampled else NotSampled)"
  by (simp add: hasSpanWithCondition_spans any_st_pure)

section \<open>The matcher and its cache\<close>

text \<open>
  \<open>lru_ok\<close> is the documented behaviour of the cache: adding keeps or evicts what was there and adds
  the new pair. \<open>cache_ok\<close> is the invariant of the filter: cached results are right.
\<close>

definition lru_ok :: "deps \<Rightarrow> bool" where
  "lru_ok D \<longleftrightarrow> (\<forall>n c k v. set (lru_Add D n c k v) \<subseteq> insert (k, v) (set c))"

fun matches_spec :: "deps \<Rightarrow> matcher \<Rightarrow> string \<Rightarrow> bool" where
  "matches_spec D (ExactMatcher vs) x \<longleftrightarrow> x \<in> set vs"
| "matches_spec D (RegexMatcher ps n c) x \<longleftrightarrow> list_ex (\<lambda>re. MatchString D re x) ps"

fun cache_ok :: "deps \<Rightarrow> matcher \<Rightarrow> bool" where
  "cache_ok D (ExactMatcher vs) = True"
| "cache_ok D (RegexMatcher ps n c) = (\<forall>(k, v) \<in> set c. v = list_ex (\<lambda>re. MatchString D re k) ps)"

text \<open>The patterns of a matcher, which no evaluation changes.\<close>

fun same_matcher :: "matcher \<Rightarrow> matcher \<Rightarrow> bool" where
  "same_matcher (ExactMatcher vs) (ExactMatcher vs') \<longleftrightarrow> vs = vs'"
| "same_matcher (RegexMatcher ps n c) (RegexMatcher ps' n' c') \<longleftrightarrow> ps = ps' \<and> n = n'"
| "same_matcher _ _ = False"

definition good :: "deps \<Rightarrow> matcher \<Rightarrow> matcher \<Rightarrow> bool" where
  "good D mt mt' \<longleftrightarrow> same_matcher mt mt' \<and> cache_ok D mt'"

lemma good_refl: "cache_ok D mt \<Longrightarrow> good D mt mt"
  by (cases mt) (simp_all add: good_def)

lemma good_spec: "good D mt mt' \<Longrightarrow> matches_spec D mt' x = matches_spec D mt x"
  by (cases mt; cases mt') (simp_all add: good_def)

lemma matches_good:
  assumes "lru_ok D" and "good D mt mt'"
  shows "fst (matches D x mt') = matches_spec D mt x" and "good D mt (snd (matches D x mt'))"
proof -
  have "fst (matches D x mt') = matches_spec D mt x \<and> good D mt (snd (matches D x mt'))"
  proof (cases mt')
    case (ExactMatcher vs)
    with assms(2) show ?thesis by (cases mt) (auto simp: good_def)
  next
    case (RegexMatcher ps n c)
    let ?r = "list_ex (\<lambda>re. MatchString D re x) ps"
    from RegexMatcher assms(2) obtain c0 where mt: "mt = RegexMatcher ps n c0"
      and ok: "\<forall>(k, v) \<in> set c. v = list_ex (\<lambda>re. MatchString D re k) ps"
      by (cases mt) (auto simp: good_def)
    have "set (lru_Add D n c x ?r) \<subseteq> insert (x, ?r) (set c)"
      using assms(1) by (simp add: lru_ok_def)
    with ok have "\<forall>(k, v) \<in> set (lru_Add D n c x ?r). v = list_ex (\<lambda>re. MatchString D re k) ps" by blast
    with ok show ?thesis
      by (auto simp: RegexMatcher mt good_def Let_def split: option.splits dest!: map_of_SomeD)
  qed
  then show "fst (matches D x mt') = matches_spec D mt x" and "good D mt (snd (matches D x mt'))" by auto
qed

text \<open>Reference: does a resource or a span carry a matching value?\<close>

definition resource_hit :: "deps \<Rightarrow> string \<Rightarrow> matcher \<Rightarrow> attrs \<Rightarrow> bool" where
  "resource_hit D key mt r = (case r key of None \<Rightarrow> False | Some v \<Rightarrow> matches_spec D mt (a_Str v))"

definition span_hit :: "deps \<Rightarrow> string \<Rightarrow> matcher \<Rightarrow> Span \<Rightarrow> bool" where
  "span_hit D key mt sp =
     (case sp_Attributes sp key of None \<Rightarrow> False | Some v \<Rightarrow> a_Str v \<noteq> [] \<and> matches_spec D mt (a_Str v))"

definition trace_hit :: "deps \<Rightarrow> string \<Rightarrow> matcher \<Rightarrow> Traces \<Rightarrow> bool" where
  "trace_hit D key mt td =
     list_ex (\<lambda>rs. resource_hit D key mt (Resource rs) \<or> list_ex (span_hit D key mt) (concat (ScopeSpans rs))) td"

text \<open>\<open>computes P f p\<close>: on states in \<open>P\<close> the callback \<open>f\<close> answers \<open>p\<close> and stays in \<open>P\<close>.\<close>

definition computes :: "('s \<Rightarrow> bool) \<Rightarrow> ('a \<Rightarrow> 's \<Rightarrow> bool \<times> 's) \<Rightarrow> ('a \<Rightarrow> bool) \<Rightarrow> bool" where
  "computes P f p \<longleftrightarrow> (\<forall>x s. P s \<longrightarrow> fst (f x s) = p x \<and> P (snd (f x s)))"

lemma computes_any_st: "computes P f p \<Longrightarrow> computes P (any_st f) (list_ex p)"
proof -
  assume c: "computes P f p"
  have "P s \<longrightarrow> fst (any_st f xs s) = list_ex p xs \<and> P (snd (any_st f xs s))" for xs s
  proof (induction xs arbitrary: s)
    case (Cons x xs)
    obtain b s1 where fx: "f x s = (b, s1)" by (cases "f x s")
    from c have "P s \<Longrightarrow> b = p x \<and> P s1" unfolding computes_def by (metis fst_conv snd_conv fx)
    with Cons.IH [of s1] fx show ?case by (cases b) auto
  qed simp
  then show ?thesis by (simp add: computes_def)
qed

lemma computes_all_st: "computes P f p \<Longrightarrow> computes P (all_st f) (list_all p)"
proof -
  assume c: "computes P f p"
  have "P s \<longrightarrow> fst (all_st f xs s) = list_all p xs \<and> P (snd (all_st f xs s))" for xs s
  proof (induction xs arbitrary: s)
    case (Cons x xs)
    obtain b s1 where fx: "f x s = (b, s1)" by (cases "f x s")
    from c have "P s \<Longrightarrow> b = p x \<and> P s1" unfolding computes_def by (metis fst_conv snd_conv fx)
    with Cons.IH [of s1] fx show ?case by (cases b) auto
  qed simp
  then show ?thesis by (simp add: computes_def)
qed

lemma computes_negate: "computes P f p \<Longrightarrow> computes P (\<lambda>x s. negate (f x s)) (\<lambda>x. \<not> p x)"
  by (simp add: computes_def negate_def)

lemma resource_computes:
  "lru_ok D \<Longrightarrow> computes (good D mt) (resource_matches D key) (resource_hit D key mt)"
  by (auto simp: computes_def resource_matches_def resource_hit_def matches_good split: option.splits)

lemma span_computes:
  "lru_ok D \<Longrightarrow> computes (good D mt) (span_matches D key) (span_hit D key mt)"
  by (auto simp: computes_def span_matches_def span_hit_def matches_good split: option.splits)

end
