(* ===== verification/Sampling_Batcher.thy ===== *)
theory Sampling_Batcher
  imports Sampling_Policies
begin

text \<open>
  The batcher of trace identifiers (\<open>internal/idbatcher/id_batcher.go\<close>): a pipeline of batches and a
  batch being built, fed through a channel by one goroutine. \<open>drain\<close> is one step of the goroutine; a
  full channel makes the sender wait for such a step. \<open>None\<close> is a panic (a send on, or a close of, a
  closed channel) or a receive that blocks forever.
\<close>

section \<open>The batcher\<close>

record batcher =
  pendingIds :: "TraceID list"
  batches :: "TraceID list list"
  currentBatch :: "TraceID list"
  stopped :: bool
  batchChannelSize :: nat

definition batcher_New :: "nat \<Rightarrow> nat \<Rightarrow> string + batcher" where
  "batcher_New numBatches channelSize =
     (if numBatches < 1 then Inl ''invalid number of batches, it must be greater than zero''
      else if channelSize < 1 then Inl ''invalid batch channel size, it must be greater than zero''
      else Inr \<lparr>pendingIds = [], batches = replicate numBatches [], currentBatch = [],
                stopped = False, batchChannelSize = channelSize\<rparr>)"

definition drain :: "batcher \<Rightarrow> batcher" where
  "drain b = (case pendingIds b of
     [] \<Rightarrow> b
   | i # ids \<Rightarrow> b\<lparr>pendingIds := ids, currentBatch := currentBatch b @ [i]\<rparr>)"

definition AddToCurrentBatch :: "TraceID \<Rightarrow> batcher \<Rightarrow> batcher option" where
  "AddToCurrentBatch i b =
     (if stopped b then None
      else (let b = (if length (pendingIds b) < batchChannelSize b then b else drain b)
            in Some (b\<lparr>pendingIds := pendingIds b @ [i]\<rparr>)))"

definition CloseCurrentAndTakeFirstBatch :: "batcher \<Rightarrow> (TraceID list \<times> bool \<times> batcher) option" where
  "CloseCurrentAndTakeFirstBatch b =
     (case batches b of
        readBatch # rest \<Rightarrow>
          if \<not> stopped b
          then Some (readBatch, True, b\<lparr>batches := rest @ [currentBatch b], currentBatch := []\<rparr>)
          else Some (readBatch, True, b\<lparr>batches := rest\<rparr>)
      | [] \<Rightarrow> if stopped b then Some (currentBatch b, False, b\<lparr>currentBatch := []\<rparr>) else None)"

definition batcher_Stop :: "batcher \<Rightarrow> batcher option" where
  "batcher_Stop b =
     (if stopped b then None
      else Some (b\<lparr>pendingIds := [], currentBatch := currentBatch b @ pendingIds b, stopped := True\<rparr>))"

section \<open>The contract\<close>

text \<open>
  What a client relies on: the identifiers inside form a queue. Adding appends, closing removes a
  prefix and never blocks, and neither the goroutine nor \<open>Stop\<close> changes them.
\<close>

locale id_queue =
  fixes add :: "TraceID \<Rightarrow> 'b \<Rightarrow> 'b option" and close :: "'b \<Rightarrow> (TraceID list \<times> bool \<times> 'b) option"
    and stop :: "'b \<Rightarrow> 'b option" and background :: "'b \<Rightarrow> 'b"
    and contents :: "'b \<Rightarrow> TraceID list" and inv :: "'b \<Rightarrow> bool"
  assumes add_law: "inv b \<Longrightarrow> add i b = Some b' \<Longrightarrow> contents b' = contents b @ [i] \<and> inv b'"
    and close_total: "inv b \<Longrightarrow> close b \<noteq> None"
    and close_law: "inv b \<Longrightarrow> close b = Some (batch, ok, b') \<Longrightarrow> contents b = batch @ contents b' \<and> inv b'"
    and stop_law: "inv b \<Longrightarrow> stop b = Some b' \<Longrightarrow> contents b' = contents b \<and> inv b'"
    and background_law: "inv b \<Longrightarrow> contents (background b) = contents b \<and> inv (background b)"

datatype batcher_op = Add TraceID | Close | Stop | Background

text \<open>Runs of a batcher: the operations so far, what they emitted, and the batcher they lead to.\<close>

inductive batcher_run ::
    "(TraceID \<Rightarrow> 'b \<Rightarrow> 'b option) \<Rightarrow> ('b \<Rightarrow> (TraceID list \<times> bool \<times> 'b) option) \<Rightarrow> ('b \<Rightarrow> 'b option) \<Rightarrow>
     ('b \<Rightarrow> 'b) \<Rightarrow> 'b \<Rightarrow> batcher_op list \<Rightarrow> TraceID list \<Rightarrow> 'b \<Rightarrow> bool"
  for add close stop background b0 where
  run_start: "batcher_run add close stop background b0 [] [] b0"
| run_add: "batcher_run add close stop background b0 ops out b \<Longrightarrow> add i b = Some b' \<Longrightarrow>
    batcher_run add close stop background b0 (ops @ [Add i]) out b'"
| run_close: "batcher_run add close stop background b0 ops out b \<Longrightarrow> close b = Some (batch, ok, b') \<Longrightarrow>
    batcher_run add close stop background b0 (ops @ [Close]) (out @ batch) b'"
| run_stop: "batcher_run add close stop background b0 ops out b \<Longrightarrow> stop b = Some b' \<Longrightarrow>
    batcher_run add close stop background b0 (ops @ [Stop]) out b'"
| run_background: "batcher_run add close stop background b0 ops out b \<Longrightarrow>
    batcher_run add close stop background b0 (ops @ [Background]) out (background b)"

fun added :: "batcher_op list \<Rightarrow> TraceID list" where
  "added [] = []"
| "added (Add i # ops) = i # added ops"
| "added (_ # ops) = added ops"

lemma added_append: "added (ops @ ops') = added ops @ added ops'"
  by (induction ops rule: added.induct) simp_all

context id_queue
begin

lemma run_queue:
  assumes "batcher_run add close stop background b0 ops out b" and "inv b0"
  shows "inv b \<and> contents b0 @ added ops = out @ contents b"
  using assms
proof (induction rule: batcher_run.induct)
  case (run_add ops out b i b')
  then show ?case using add_law by (auto simp: added_append)
next
  case (run_close ops out b batch ok b')
  then show ?case using close_law by (auto simp: added_append)
next
  case (run_stop ops out b b')
  then show ?case using stop_law by (auto simp: added_append)
next
  case (run_background ops out b)
  then show ?case using background_law by (auto simp: added_append)
qed simp

end

section \<open>The batcher meets it\<close>

definition contents :: "batcher \<Rightarrow> TraceID list" where
  "contents b = concat (batches b) @ currentBatch b @ pendingIds b"

definition batcher_inv :: "batcher \<Rightarrow> bool" where
  "batcher_inv b \<longleftrightarrow> 0 < batchChannelSize b \<and> (if stopped b then pendingIds b = [] else batches b \<noteq> [])"

lemmas batcher_defs = contents_def batcher_inv_def AddToCurrentBatch_def CloseCurrentAndTakeFirstBatch_def
  batcher_Stop_def drain_def

interpretation ids: id_queue AddToCurrentBatch CloseCurrentAndTakeFirstBatch batcher_Stop drain contents batcher_inv
proof (unfold_locales, goal_cases)
  case (1 b i b')
  then show ?case by (auto simp: batcher_defs Let_def split: if_splits list.splits)
next
  case (2 b)
  then show ?case by (auto simp: batcher_defs split: if_splits list.splits)
next
  case (3 b batch ok b')
  then show ?case by (auto simp: batcher_defs split: if_splits list.splits)
next
  case (4 b b')
  then show ?case by (auto simp: batcher_defs split: if_splits)
next
  case (5 b)
  then show ?case by (auto simp: batcher_defs split: list.splits)
qed

lemma batcher_New_inv: "batcher_New n k = Inr b \<Longrightarrow> batcher_inv b \<and> contents b = []"
  by (auto simp: batcher_New_def batcher_inv_def contents_def split: if_splits)

text \<open>
  C10. Whatever the interleaving of additions, closes, the goroutine and the stop, the identifiers
  that came out of a new batcher, followed by those still inside, are the identifiers added, in order:
  none is lost, duplicated or reordered.
\<close>

theorem batcher_fifo:
  assumes "batcher_New numBatches channelSize = Inr b0"
    and "batcher_run AddToCurrentBatch CloseCurrentAndTakeFirstBatch batcher_Stop drain b0 ops out b"
  shows "added ops = out @ contents b"
  using ids.run_queue [OF assms(2)] batcher_New_inv [OF assms(1)] by simp

text \<open>\<open>k\<close> closes in a row.\<close>

fun closes :: "nat \<Rightarrow> batcher \<Rightarrow> TraceID list list option" where
  "closes 0 b = Some []"
| "closes (Suc k) b =
     (case CloseCurrentAndTakeFirstBatch b of
        None \<Rightarrow> None
      | Some (batch, ok, b') \<Rightarrow> map_option ((#) batch) (closes k b'))"

lemma closes_pipeline:
  "\<not> stopped b \<Longrightarrow> batches b = xs @ ys \<Longrightarrow> xs \<noteq> [] \<Longrightarrow> closes (length xs) b = Some xs"
proof (induction xs arbitrary: b ys)
  case (Cons x xs)
  then show ?case
  proof (cases "xs = []")
    case False
    let ?b = "b\<lparr>batches := xs @ ys @ [currentBatch b], currentBatch := []\<rparr>"
    have "closes (length xs) ?b = Some xs" using Cons.prems False by (intro Cons.IH) auto
    with Cons.prems show ?thesis by (simp add: CloseCurrentAndTakeFirstBatch_def)
  qed (simp add: CloseCurrentAndTakeFirstBatch_def)
qed simp

text \<open>
  The pipeline delays by its length: with \<open>n\<close> batches in the pipe, the batch being built now is
  the one the \<open>n + 1\<close>-th close from now returns, after the \<open>n\<close> batches already in the pipe. With one
  close per second this is the decision wait.
\<close>

theorem batcher_delay:
  assumes "\<not> stopped b" and "batcher_inv b"
  shows "closes (length (batches b) + 1) b = Some (batches b @ [currentBatch b])"
proof (cases "batches b")
  case (Cons x xs)
  let ?b = "b\<lparr>batches := xs @ [currentBatch b], currentBatch := []\<rparr>"
  have "closes (length (xs @ [currentBatch b])) ?b = Some (xs @ [currentBatch b])"
    using assms(1) by (intro closes_pipeline [where ys = "[]"]) auto
  with Cons assms show ?thesis by (simp add: CloseCurrentAndTakeFirstBatch_def)
qed (use assms in \<open>simp add: batcher_inv_def\<close>)

definition batcher1 :: batcher where
  "batcher1 = \<lparr>pendingIds = [], batches = [[], []], currentBatch = [], stopped = False, batchChannelSize = 1\<rparr>"

lemma batcher_fifo_witness:
  "added [Add [7], Close] = [] @ contents (snd (snd (the (CloseCurrentAndTakeFirstBatch
     (the (AddToCurrentBatch [7] batcher1))))))"
proof (rule batcher_fifo [of 2 1])
  show "batcher_New 2 1 = Inr batcher1" by (simp add: batcher_New_def batcher1_def numeral_2_eq_2)
  let ?b1 = "the (AddToCurrentBatch [7] batcher1)"
  have add: "AddToCurrentBatch [7] batcher1 = Some ?b1"
    by (simp add: AddToCurrentBatch_def batcher1_def)
  have close: "CloseCurrentAndTakeFirstBatch ?b1 =
      Some ([], True, snd (snd (the (CloseCurrentAndTakeFirstBatch ?b1))))"
    by (simp add: AddToCurrentBatch_def CloseCurrentAndTakeFirstBatch_def batcher1_def)
  let ?run = "batcher_run AddToCurrentBatch CloseCurrentAndTakeFirstBatch batcher_Stop drain batcher1"
  have "?run ([] @ [Add [7]]) [] ?b1" by (rule run_add [where add = AddToCurrentBatch, OF run_start add])
  then have "?run (([] @ [Add [7]]) @ [Close]) ([] @ []) (snd (snd (the (CloseCurrentAndTakeFirstBatch ?b1))))"
    by (rule run_close [where close = CloseCurrentAndTakeFirstBatch, OF _ close])
  then show "batcher_run AddToCurrentBatch CloseCurrentAndTakeFirstBatch batcher_Stop drain batcher1
      [Add [7], Close] [] (snd (snd (the (CloseCurrentAndTakeFirstBatch ?b1))))" by simp
qed

lemma batcher_delay_witness:
  "closes 3 (batcher1\<lparr>currentBatch := [[7]]\<rparr>) = Some [[], [], [[7]]]"
  using batcher_delay [of "batcher1\<lparr>currentBatch := [[7]]\<rparr>"]
  by (simp add: batcher1_def batcher_inv_def numeral_eq_Suc)

end
