(* ===== verification/Sampling_Properties.thy ===== *)
theory Sampling_Properties
  imports Sampling_Policies
begin

text \<open>
  What the sampling policies decide: the string filter against its reference, the latency filter
  against the duration of the whole trace, the span budgets of the rate limited policies, and the
  default evaluator.
\<close>

section \<open>The string filter\<close>

lemma hasResource_computes:
  assumes "lru_ok D" and "good D mt mt'"
  shows "fst (hasResourceOrSpanWithCondition td (resource_matches D key) (span_matches D key) mt') =
      (if trace_hit D key mt td then Sampled else NotSampled)"
    and "good D mt (snd (hasResourceOrSpanWithCondition td (resource_matches D key) (span_matches D key) mt'))"
proof -
  let ?f = "\<lambda>(rs :: ResourceSpans) s. case resource_matches D key (Resource rs) s of (True, s') \<Rightarrow> (True, s')
    | (False, s') \<Rightarrow> hasInstrumentationLibrarySpanWithCondition (ScopeSpans rs) (span_matches D key) s'"
  let ?p = "\<lambda>(rs :: ResourceSpans). resource_hit D key mt (Resource rs) \<or> list_ex (span_hit D key mt) (concat (ScopeSpans rs))"
  note r = resource_computes [OF assms(1), of mt key]
  note sp = computes_any_st [OF span_computes [OF assms(1), of mt key]]
  have "computes (good D mt) ?f ?p"
    unfolding computes_def hasInstrumentationLibrarySpanWithCondition_def any_st_concat
  proof (intro allI impI)
    fix rs :: ResourceSpans and s
    assume s: "good D mt s"
    obtain b s1 where m: "resource_matches D key (Resource rs) s = (b, s1)"
      by (cases "resource_matches D key (Resource rs) s")
    with r s have "b = resource_hit D key mt (Resource rs)" and "good D mt s1"
      unfolding computes_def by (metis fst_conv snd_conv)+
    with m sp show "fst (case resource_matches D key (Resource rs) s of (True, s') \<Rightarrow> (True, s')
        | (False, s') \<Rightarrow> any_st (span_matches D key) (concat (ScopeSpans rs)) s') = ?p rs \<and>
      good D mt (snd (case resource_matches D key (Resource rs) s of (True, s') \<Rightarrow> (True, s')
        | (False, s') \<Rightarrow> any_st (span_matches D key) (concat (ScopeSpans rs)) s'))"
      by (cases b) (auto simp: computes_def)
  qed
  from computes_any_st [OF this] assms(2)
  have "fst (any_st ?f td mt') = trace_hit D key mt td \<and> good D mt (snd (any_st ?f td mt'))"
    unfolding computes_def trace_hit_def by blast
  moreover obtain b s1 where eq: "any_st ?f td mt' = (b, s1)" by (cases "any_st ?f td mt'")
  ultimately show "fst (hasResourceOrSpanWithCondition td (resource_matches D key) (span_matches D key) mt') =
      (if trace_hit D key mt td then Sampled else NotSampled)"
    and "good D mt (snd (hasResourceOrSpanWithCondition td (resource_matches D key) (span_matches D key) mt'))"
    by (auto simp: hasResourceOrSpanWithCondition_def)
qed

lemma all_st_concat: "all_st (\<lambda>ys. all_st f ys) xss s = all_st f (concat xss) s"
proof -
  have app: "all_st f (xs @ ys) s = (case all_st f xs s of (False, s') \<Rightarrow> (False, s') | (True, s') \<Rightarrow> all_st f ys s')"
    for xs ys s
    by (induction xs arbitrary: s) (auto split: prod.splits bool.splits)
  show ?thesis by (induction xss arbitrary: s) (auto simp: app split: prod.splits bool.splits)
qed

lemma invertHasResource_computes:
  assumes "lru_ok D" and "good D mt mt'"
  shows "fst (invertHasResourceOrSpanWithCondition td (\<lambda>r s. negate (resource_matches D key r s))
        (\<lambda>sp s. negate (span_matches D key sp s)) mt') =
      (if trace_hit D key mt td then InvertNotSampled else InvertSampled)"
    and "good D mt (snd (invertHasResourceOrSpanWithCondition td (\<lambda>r s. negate (resource_matches D key r s))
        (\<lambda>sp s. negate (span_matches D key sp s)) mt'))"
proof -
  let ?r = "\<lambda>r s. negate (resource_matches D key r s)" and ?sp = "\<lambda>sp s. negate (span_matches D key sp s)"
  let ?f = "\<lambda>(rs :: ResourceSpans) s. case ?r (Resource rs) s of (False, s') \<Rightarrow> (False, s')
    | (True, s') \<Rightarrow> invertHasInstrumentationLibrarySpanWithCondition (ScopeSpans rs) ?sp s'"
  let ?p = "\<lambda>(rs :: ResourceSpans). \<not> resource_hit D key mt (Resource rs) \<and>
    list_all (\<lambda>sp. \<not> span_hit D key mt sp) (concat (ScopeSpans rs))"
  note r = computes_negate [OF resource_computes [OF assms(1), of mt key]]
  note sp = computes_all_st [OF computes_negate [OF span_computes [OF assms(1), of mt key]]]
  have "computes (good D mt) ?f ?p"
    unfolding computes_def invertHasInstrumentationLibrarySpanWithCondition_def all_st_concat
  proof (intro allI impI)
    fix rs :: ResourceSpans and s
    assume s: "good D mt s"
    obtain b s1 where m: "?r (Resource rs) s = (b, s1)" by (cases "?r (Resource rs) s")
    with r s have "b = (\<not> resource_hit D key mt (Resource rs))" and "good D mt s1"
      unfolding computes_def by (metis fst_conv snd_conv)+
    with m sp show "fst (case ?r (Resource rs) s of (False, s') \<Rightarrow> (False, s')
        | (True, s') \<Rightarrow> all_st ?sp (concat (ScopeSpans rs)) s') = ?p rs \<and>
      good D mt (snd (case ?r (Resource rs) s of (False, s') \<Rightarrow> (False, s')
        | (True, s') \<Rightarrow> all_st ?sp (concat (ScopeSpans rs)) s'))"
      by (cases b) (auto simp: computes_def)
  qed
  from computes_all_st [OF this] assms(2)
  have "fst (all_st ?f td mt') = list_all ?p td \<and> good D mt (snd (all_st ?f td mt'))"
    unfolding computes_def by blast
  moreover have "list_all ?p td \<longleftrightarrow> \<not> trace_hit D key mt td"
    by (auto simp: trace_hit_def list_all_iff list_ex_iff)
  moreover obtain b s1 where eq: "all_st ?f td mt' = (b, s1)" by (cases "all_st ?f td mt'")
  ultimately show "fst (invertHasResourceOrSpanWithCondition td ?r ?sp mt') =
      (if trace_hit D key mt td then InvertNotSampled else InvertSampled)"
    and "good D mt (snd (invertHasResourceOrSpanWithCondition td ?r ?sp mt'))"
    by (auto simp: invertHasResourceOrSpanWithCondition_def)
qed

lemma stringAttributeFilter_spec:
  assumes "lru_ok D" and "good D mt mt'"
  shows "fst (stringAttributeFilter_Evaluate D key mt' invert trace) =
      (if invert then (if trace_hit D key mt (ReceivedBatches trace) then InvertNotSampled else InvertSampled)
       else (if trace_hit D key mt (ReceivedBatches trace) then Sampled else NotSampled))"
    and "good D mt (snd (stringAttributeFilter_Evaluate D key mt' invert trace))"
  using hasResource_computes [OF assms] invertHasResource_computes [OF assms]
  by (simp_all add: stringAttributeFilter_Evaluate_def)

text \<open>A sequence of evaluations of one string filter, each with the cache the last one left.\<close>

fun string_decisions :: "deps \<Rightarrow> string \<Rightarrow> bool \<Rightarrow> matcher \<Rightarrow> TraceData list \<Rightarrow> Decision list" where
  "string_decisions D key invert mt [] = []"
| "string_decisions D key invert mt (trace # traces) =
     (case stringAttributeFilter_Evaluate D key mt invert trace of
        (d, mt') \<Rightarrow> d # string_decisions D key invert mt' traces)"

lemma string_decisions_good:
  "lru_ok D \<Longrightarrow> good D mt mt' \<Longrightarrow>
   string_decisions D key invert mt' traces = map (\<lambda>trace.
     if invert then (if trace_hit D key mt (ReceivedBatches trace) then InvertNotSampled else InvertSampled)
     else (if trace_hit D key mt (ReceivedBatches trace) then Sampled else NotSampled)) traces"
proof (induction traces arbitrary: mt')
  case (Cons trace traces)
  obtain d mt1 where e: "stringAttributeFilter_Evaluate D key mt' invert trace = (d, mt1)"
    by (cases "stringAttributeFilter_Evaluate D key mt' invert trace")
  from stringAttributeFilter_spec [OF Cons.prems, of key invert trace] e Cons.IH [OF Cons.prems(1), of mt1]
  show ?case by simp
qed simp

lemma NewStringMatcher_good: "good D (NewStringMatcher vs b n) (NewStringMatcher vs b n)"
  by (rule good_refl) (simp add: NewStringMatcher_def)

text \<open>
  A string attribute filter with its regex cache decides every trace of a sequence as the
  reference without a cache does: sampled exactly when a resource, or a span with a non-empty value,
  carries a matching value for the key; inverted, the two invert decisions.
\<close>

theorem string_filter_equals_reference:
  assumes "lru_ok D"
  shows "string_decisions D key invert (NewStringMatcher values regex evictSize) traces = map (\<lambda>trace.
     let hit = trace_hit D key (NewStringMatcher values regex evictSize) (ReceivedBatches trace)
     in if invert then (if hit then InvertNotSampled else InvertSampled)
        else (if hit then Sampled else NotSampled)) traces"
  using string_decisions_good [OF assms NewStringMatcher_good] by (simp add: Let_def)

section \<open>Latency\<close>

text \<open>Timestamps that are set and fit in an int64.\<close>

definition timed :: "Span \<Rightarrow> bool" where
  "timed sp \<longleftrightarrow> 0 < StartTimestamp sp \<and> unat (StartTimestamp sp) < 2 ^ 63 \<and>
     0 < EndTimestamp sp \<and> unat (EndTimestamp sp) < 2 ^ 63"

lemma sint_small:
  assumes "unat (w :: 64 word) < 2 ^ 63"
  shows "sint w = int (unat w)"
proof -
  from assms have "int (unat w) < int (2 ^ 63)" by (simp only: of_nat_less_iff)
  then have "uint w < 2 ^ 63" by simp
  moreover have "- (2 ^ 63) \<le> uint w" by (rule order_trans [of _ 0]) simp_all
  ultimately have "signed_take_bit 63 (uint w) = uint w" by (intro signed_take_bit_int_eq_self)
  then show ?thesis by (simp add: sint_uint)
qed

lemma sat64_diff: "0 \<le> p \<Longrightarrow> p < 2 ^ 63 \<Longrightarrow> 0 \<le> q \<Longrightarrow> q < 2 ^ 63 \<Longrightarrow> sat64 (p - q) = p - q"
  unfolding sat64_def by (simp add: max_def min_def)

lemma duration_small:
  assumes "unat (a :: 64 word) < 2 ^ 63" and "unat (b :: 64 word) < 2 ^ 63"
  shows "sat64 (sint a - sint b) = int (unat a) - int (unat b)"
proof -
  from assms have "int (unat a) < int (2 ^ 63)" "int (unat b) < int (2 ^ 63)"
    by (simp_all only: of_nat_less_iff)
  then show ?thesis unfolding sint_small [OF assms(1)] sint_small [OF assms(2)]
    by (intro sat64_diff) simp_all
qed

lemma Milliseconds_mono:
  assumes "a \<le> b"
  shows "Milliseconds a \<le> Milliseconds b"
  using assms zdiv_mono1 [of a b 1000000] zdiv_mono1 [of "- b" "- a" 1000000]
    pos_imp_zdiv_nonneg_iff [of 1000000 "- a"] pos_imp_zdiv_nonneg_iff [of 1000000 b]
  by (auto simp: Milliseconds_def)

text \<open>The earliest start and the latest end of a list of spans.\<close>

definition min_start :: "Span list \<Rightarrow> 64 word" where
  "min_start sps = Min (StartTimestamp ` set sps)"

definition max_end :: "Span list \<Rightarrow> 64 word" where
  "max_end sps = Max (EndTimestamp ` set sps)"

definition trace_ms :: "Span list \<Rightarrow> int" where
  "trace_ms sps = Milliseconds (int (unat (max_end sps)) - int (unat (min_start sps)))"

lemma latency_check_step:
  assumes "ps \<noteq> []" and "list_all timed (ps @ [x])"
  shows "latency_check thr x (min_start ps, max_end ps) =
    (thr \<le> trace_ms (ps @ [x]), (min_start (ps @ [x]), max_end (ps @ [x])))"
proof -
  have fin: "finite (StartTimestamp ` set ps)" "StartTimestamp ` set ps \<noteq> {}"
    "finite (EndTimestamp ` set ps)" "EndTimestamp ` set ps \<noteq> {}" using assms(1) by auto
  have "min_start ps \<in> StartTimestamp ` set ps" "max_end ps \<in> EndTimestamp ` set ps"
    unfolding min_start_def max_end_def using fin by (auto intro: Min_in Max_in)
  then have nz: "min_start ps \<noteq> 0" "max_end ps \<noteq> 0" using assms(2) by (auto simp: list_all_iff timed_def)
  have mn: "min_start (ps @ [x]) = min (StartTimestamp x) (min_start ps)"
    and mx: "max_end (ps @ [x]) = max (EndTimestamp x) (max_end ps)"
    using fin by (simp_all add: min_start_def max_end_def)
  have "min_start (ps @ [x]) \<in> StartTimestamp ` set (ps @ [x])" "max_end (ps @ [x]) \<in> EndTimestamp ` set (ps @ [x])"
    unfolding min_start_def max_end_def by (rule Min_in Max_in; simp)+
  then have b: "unat (min_start (ps @ [x])) < 2 ^ 63" "unat (max_end (ps @ [x])) < 2 ^ 63"
    using assms(2) by (auto simp: list_all_iff timed_def)
  have "sat64 (sint (max_end (ps @ [x])) - sint (min_start (ps @ [x]))) =
      int (unat (max_end (ps @ [x]))) - int (unat (min_start (ps @ [x])))"
    using b(2,1) by (rule duration_small)
  moreover have "(if min_start ps = 0 \<or> StartTimestamp x < min_start ps then StartTimestamp x else min_start ps) =
      min_start (ps @ [x])" using nz mn by (auto simp: min_def)
  moreover have "(if max_end ps = 0 \<or> EndTimestamp x > max_end ps then EndTimestamp x else max_end ps) =
      max_end (ps @ [x])" using nz mx by (auto simp: max_def)
  ultimately show ?thesis
    unfolding latency_check_def Let_def prod.case trace_ms_def by (simp only:)
qed

lemma trace_ms_mono:
  assumes "ps \<noteq> []" and "set ps \<subseteq> set qs"
  shows "trace_ms ps \<le> trace_ms qs"
proof -
  have "min_start qs \<le> min_start ps" and "max_end ps \<le> max_end qs"
    unfolding min_start_def max_end_def using assms by (auto intro!: Min_antimono Max_mono)
  then have "unat (min_start qs) \<le> unat (min_start ps)" and "unat (max_end ps) \<le> unat (max_end qs)"
    by (simp_all add: word_le_nat_alt)
  then show ?thesis unfolding trace_ms_def by (intro Milliseconds_mono) linarith
qed

lemma latency_loop:
  "ps \<noteq> [] \<Longrightarrow> list_all timed (ps @ xs) \<Longrightarrow> \<not> thr \<le> trace_ms ps \<Longrightarrow>
   fst (any_st (latency_check thr) xs (min_start ps, max_end ps)) \<longleftrightarrow> thr \<le> trace_ms (ps @ xs)"
proof (induction xs arbitrary: ps)
  case (Cons x xs)
  have step: "latency_check thr x (min_start ps, max_end ps) =
      (thr \<le> trace_ms (ps @ [x]), (min_start (ps @ [x]), max_end (ps @ [x])))"
    using Cons.prems by (intro latency_check_step) auto
  show ?case
  proof (cases "thr \<le> trace_ms (ps @ [x])")
    case True
    moreover have "trace_ms (ps @ [x]) \<le> trace_ms (ps @ x # xs)" by (rule trace_ms_mono) auto
    ultimately show ?thesis by (simp add: step)
  next
    case False
    with Cons.IH [of "ps @ [x]"] Cons.prems show ?thesis by (simp add: step)
  qed
qed simp

lemma latency_first:
  assumes "timed x"
  shows "latency_check thr x (0, 0) = (thr \<le> trace_ms [x], (min_start [x], max_end [x]))"
proof -
  have "sat64 (sint (EndTimestamp x) - sint (StartTimestamp x)) =
      int (unat (EndTimestamp x)) - int (unat (StartTimestamp x))"
    using assms by (intro duration_small) (simp_all add: timed_def)
  then show ?thesis by (simp add: latency_check_def Let_def trace_ms_def min_start_def max_end_def)
qed

text \<open>
  C11. The latency policy, which looks at the spans one by one and stops early, samples a trace
  exactly when the time from its earliest start to its latest end reaches the threshold, whatever the
  order and the grouping of the spans.
\<close>

theorem latency_Evaluate_iff:
  assumes "all_spans (ReceivedBatches trace) \<noteq> []" and "list_all timed (all_spans (ReceivedBatches trace))"
  shows "latency_Evaluate thresholdMs trace =
    (if thresholdMs \<le> trace_ms (all_spans (ReceivedBatches trace)) then Sampled else NotSampled)"
proof -
  from assms(1) obtain x xs where sps: "all_spans (ReceivedBatches trace) = x # xs"
    by (cases "all_spans (ReceivedBatches trace)") simp_all
  with assms(2) have t: "timed x" "list_all timed ([x] @ xs)" by simp_all
  show ?thesis
  proof (cases "thresholdMs \<le> trace_ms [x]")
    case True
    moreover have "trace_ms [x] \<le> trace_ms (x # xs)" by (rule trace_ms_mono) auto
    ultimately show ?thesis
      by (simp add: latency_Evaluate_def hasSpanWithCondition_spans sps latency_first [OF t(1)])
  next
    case False
    from latency_loop [OF _ t(2) False] have
      "fst (any_st (latency_check thresholdMs) xs (min_start [x], max_end [x])) \<longleftrightarrow> thresholdMs \<le> trace_ms (x # xs)"
      by simp
    with False show ?thesis
      by (cases "any_st (latency_check thresholdMs) xs (min_start [x], max_end [x])")
        (simp add: latency_Evaluate_def hasSpanWithCondition_spans sps latency_first [OF t(1)])
  qed
qed

definition span1 :: Span where
  "span1 = \<lparr>sp_TraceID = [1], StartTimestamp = 1000000, EndTimestamp = 3000000, sp_Attributes = (\<lambda>k. None),
     sp_Status = StatusCodeOk, sp_TraceState = []\<rparr>"

definition trace1 :: TraceData where
  "trace1 = \<lparr>Decisions = [], SpanCount = 1,
     ReceivedBatches = [\<lparr>Resource = (\<lambda>k. None), ScopeSpans = [[span1]]\<rparr>], FinalDecision = Unspecified\<rparr>"

lemma latency_Evaluate_iff_witness: "latency_Evaluate 2 trace1 = Sampled"
proof -
  have sps: "all_spans (ReceivedBatches trace1) = [span1]" by (simp add: trace1_def all_spans_def)
  have "timed span1" by (simp add: timed_def span1_def)
  then show ?thesis
    using latency_Evaluate_iff [of trace1 2]
    by (simp add: sps trace_ms_def min_start_def max_end_def Milliseconds_def) (simp add: span1_def)
qed

section \<open>Span budgets\<close>

text \<open>
  The contract of a policy that limits the spans it samples per second: \<open>eval\<close> says at a time
  whether a trace is sampled, \<open>used\<close> counts the spans sampled in the second \<open>second\<close>, and never
  exceeds \<open>limit\<close>. Span counts are below \<open>2 ^ 62\<close>, so the int64 sums do not wrap.
\<close>

locale span_budget =
  fixes eval :: "int \<Rightarrow> TraceData \<Rightarrow> 's \<Rightarrow> bool \<times> 's"
    and second :: "'s \<Rightarrow> int" and used :: "'s \<Rightarrow> int" and limit :: "'s \<Rightarrow> int" and inv :: "'s \<Rightarrow> bool"
  assumes step: "inv s \<Longrightarrow> 0 \<le> SpanCount tr \<Longrightarrow> SpanCount tr < 2 ^ 62 \<Longrightarrow> eval t tr s = (b, s') \<Longrightarrow>
      inv s' \<and> limit s' = limit s \<and> second s' = t \<and>
      used s' = (if second s = t then used s else 0) + (if b then SpanCount tr else 0)"
    and bounded: "inv s \<Longrightarrow> used s \<le> limit s"

text \<open>The traces a policy samples, with their times, from a sequence of evaluations.\<close>

fun sampled_run :: "(int \<Rightarrow> TraceData \<Rightarrow> 's \<Rightarrow> bool \<times> 's) \<Rightarrow> (int \<times> TraceData) list \<Rightarrow> 's \<Rightarrow> (int \<times> TraceData) list" where
  "sampled_run eval [] s = []"
| "sampled_run eval ((t, tr) # evs) s =
     (case eval t tr s of (b, s') \<Rightarrow> (if b then [(t, tr)] else []) @ sampled_run eval evs s')"

definition spans_in :: "int \<Rightarrow> (int \<times> TraceData) list \<Rightarrow> int" where
  "spans_in t evs = sum_list (map (\<lambda>(t', tr). if t' = t then SpanCount tr else 0) evs)"

text \<open>Evaluations in the order of the clock, of traces of a possible size.\<close>

definition timely :: "int \<Rightarrow> (int \<times> TraceData) list \<Rightarrow> bool" where
  "timely t0 evs \<longleftrightarrow> sorted (t0 # map fst evs) \<and>
     list_all (\<lambda>(t, tr). 0 \<le> SpanCount tr \<and> SpanCount tr < 2 ^ 62) evs"

lemma spans_in_later:
  "list_all (\<lambda>(t', tr). t < t') evs \<Longrightarrow> spans_in t evs = 0"
  unfolding spans_in_def by (induction evs) auto

lemma sampled_run_subset: "set (sampled_run eval evs s) \<subseteq> set evs"
  by (induction eval evs s rule: sampled_run.induct) (auto split: prod.splits if_splits)

context span_budget
begin

lemma budget_run:
  "inv s \<Longrightarrow> timely (second s) evs \<Longrightarrow>
   spans_in T (sampled_run eval evs s) + (if second s = T then used s else 0) \<le> max 0 (limit s)"
proof (induction evs arbitrary: s)
  case Nil
  then show ?case using bounded [of s] by (simp add: spans_in_def max.coboundedI2)
next
  case (Cons ev evs)
  obtain t tr where ev: "ev = (t, tr)" by (cases ev)
  obtain b s' where e: "eval t tr s = (b, s')" by (cases "eval t tr s")
  from Cons.prems(2) ev have g: "0 \<le> SpanCount tr" "SpanCount tr < 2 ^ 62" and le: "second s \<le> t"
    and rest: "timely t evs" by (auto simp: timely_def)
  from step [OF Cons.prems(1) g e] have s': "inv s'" "limit s' = limit s" "second s' = t"
    "used s' = (if second s = t then used s else 0) + (if b then SpanCount tr else 0)" by auto
  have ih: "spans_in T (sampled_run eval evs s') + (if second s' = T then used s' else 0) \<le> max 0 (limit s')"
    using Cons.IH [OF s'(1)] rest s'(3) by simp
  have later: "spans_in T (sampled_run eval evs s') = 0" if "T < t"
  proof (rule spans_in_later)
    have "list_all (\<lambda>(t', tr). T < t') evs" using rest that by (force simp: timely_def list_all_iff)
    then show "list_all (\<lambda>(t', tr). T < t') (sampled_run eval evs s')"
      using sampled_run_subset [of eval evs s'] unfolding list_all_iff by blast
  qed
  show ?case
    using ih s' le later bounded [OF Cons.prems(1)]
    by (auto simp: ev e spans_in_def split: if_splits)
qed

end

lemma add64_exact: "0 \<le> a \<Longrightarrow> a < 2 ^ 62 \<Longrightarrow> 0 \<le> b \<Longrightarrow> b < 2 ^ 62 \<Longrightarrow> add64 a b = a + b"
  by (simp add: add64_def)

subsection \<open>Rate limiting\<close>

definition rate_inv :: "rateLimiting \<Rightarrow> bool" where
  "rate_inv r \<longleftrightarrow> 0 \<le> spansInCurrentSecond r \<and> spansInCurrentSecond r \<le> max 0 (spansPerSecond r - 1) \<and>
     spansPerSecond r < 2 ^ 62"

definition rate_eval :: "int \<Rightarrow> TraceData \<Rightarrow> rateLimiting \<Rightarrow> bool \<times> rateLimiting" where
  "rate_eval t tr r = (case rateLimiting_Evaluate t r tr of (d, r') \<Rightarrow> (d = Sampled, r'))"

interpretation rate: span_budget rate_eval currentSecond spansInCurrentSecond
  "\<lambda>r. max 0 (spansPerSecond r - 1)" rate_inv
proof
  fix s tr t b s'
  assume i: "rate_inv s" and c: "0 \<le> SpanCount tr" "SpanCount tr < 2 ^ 62" and e: "rate_eval t tr s = (b, s')"
  let ?n = "if currentSecond s = t then spansInCurrentSecond s else 0"
  have "0 \<le> ?n" and "?n < 2 ^ 62" using i by (auto simp: rate_inv_def)
  then have "add64 ?n (SpanCount tr) = ?n + SpanCount tr" using c by (intro add64_exact)
  then show "rate_inv s' \<and> max 0 (spansPerSecond s' - 1) = max 0 (spansPerSecond s - 1) \<and> currentSecond s' = t \<and>
      spansInCurrentSecond s' = ?n + (if b then SpanCount tr else 0)"
    using e i c
    by (auto simp: rate_eval_def rateLimiting_Evaluate_def Let_def rate_inv_def split: if_splits)
qed (simp add: rate_inv_def)

text \<open>
  C13. Whatever traces arrive, in each second the rate limiting policy samples fewer spans than its
  limit (none when the limit is not positive).
\<close>

theorem rateLimiting_budget:
  assumes "limit < 2 ^ 62" and "timely 0 evs"
  shows "spans_in t (sampled_run rate_eval evs (NewRateLimiting limit)) \<le> max 0 (limit - 1)"
proof -
  have "rate_inv (NewRateLimiting limit)" using assms(1) by (simp add: rate_inv_def NewRateLimiting_def)
  from rate.budget_run [OF this, of evs t] assms(2) show ?thesis
    by (auto simp: NewRateLimiting_def split: if_splits)
qed

subsection \<open>Composite\<close>

definition sub_ok :: "subpolicy \<Rightarrow> bool" where
  "sub_ok = (\<lambda>(e, allocated, sampled). 0 \<le> sampled \<and> sampled \<le> allocated \<and> allocated < 2 ^ 62)"

definition allocated_sum :: "subpolicy list \<Rightarrow> int" where
  "allocated_sum subs = sum_list (map (\<lambda>(e, allocated, sampled). allocated) subs)"

definition sampled_sum :: "subpolicy list \<Rightarrow> int" where
  "sampled_sum subs = sum_list (map (\<lambda>(e, allocated, sampled). sampled) subs)"

lemma composite_loop_counts:
  "list_all sub_ok (map fst es) \<Longrightarrow> 0 \<le> spans \<Longrightarrow> spans < 2 ^ 62 \<Longrightarrow>
   composite_loop maxTotalSPS spans es = (r, subs') \<Longrightarrow>
   list_all sub_ok subs' \<and> allocated_sum subs' = allocated_sum (map fst es) \<and>
   sampled_sum subs' = sampled_sum (map fst es) + (if r = Inr Sampled then spans else 0)"
proof (induction maxTotalSPS spans es arbitrary: r subs' rule: composite_loop.induct)
  case (3 maxTotalSPS spans sub allocatedSPS sampledSPS d sub' subs)
  from "3.prems" have exact: "add64 sampledSPS spans = sampledSPS + spans"
    by (intro add64_exact) (auto simp: sub_ok_def)
  show ?case
  proof (cases "d = Sampled \<or> d = InvertSampled")
    case True
    with "3.prems" exact show ?thesis
      by (auto simp: Let_def sub_ok_def allocated_sum_def sampled_sum_def split: if_splits)
  next
    case False
    obtain r1 subs1 where rest: "composite_loop maxTotalSPS spans subs = (r1, subs1)"
      by (cases "composite_loop maxTotalSPS spans subs")
    from "3.IH" [OF False _ "3.prems"(2,3) rest] "3.prems" False rest show ?thesis
      by (auto simp: sub_ok_def allocated_sum_def sampled_sum_def)
  qed
qed (auto simp: sub_ok_def allocated_sum_def sampled_sum_def)

fun composite_subs :: "evaluator \<Rightarrow> subpolicy list" where
  "composite_subs (CompositeP subs mx sec) = subs"
| "composite_subs _ = []"

fun composite_second :: "evaluator \<Rightarrow> int" where
  "composite_second (CompositeP subs mx sec) = sec"
| "composite_second _ = 0"

fun composite_inv :: "evaluator \<Rightarrow> bool" where
  "composite_inv (CompositeP subs mx sec) = list_all sub_ok subs"
| "composite_inv _ = False"

definition composite_eval :: "deps \<Rightarrow> TraceID \<Rightarrow> int \<Rightarrow> TraceData \<Rightarrow> evaluator \<Rightarrow> bool \<times> evaluator" where
  "composite_eval D traceID t tr e =
     (case Evaluate (D\<lparr>now := t\<rparr>) traceID tr e of (d, e') \<Rightarrow> (d = Inr Sampled, e'))"

lemma sampled_sum_bounds: "list_all sub_ok subs \<Longrightarrow> 0 \<le> sampled_sum subs \<and> sampled_sum subs \<le> allocated_sum subs"
  by (induction subs) (auto simp: sub_ok_def sampled_sum_def allocated_sum_def)

interpretation composite: span_budget "composite_eval D traceID" composite_second
  "\<lambda>e. sampled_sum (composite_subs e)" "\<lambda>e. allocated_sum (composite_subs e)" composite_inv
proof
  fix s tr t b s'
  assume i: "composite_inv s" and c: "0 \<le> SpanCount tr" "SpanCount tr < 2 ^ 62"
    and e: "composite_eval D traceID t tr s = (b, s')"
  from i obtain subs mx sec where s: "s = CompositeP subs mx sec" and ok: "list_all sub_ok subs"
    by (cases s) auto
  let ?es = "map (\<lambda>(x, alloc, sps). ((x, alloc, if sec \<noteq> t then 0 else sps),
    Evaluate (D\<lparr>now := t\<rparr>) traceID tr x)) subs"
  obtain r subs' where loop: "composite_loop mx (SpanCount tr) ?es = (r, subs')"
    by (cases "composite_loop mx (SpanCount tr) ?es")
  have fst: "map fst ?es = map (\<lambda>(x, alloc, sps). (x, alloc, if sec \<noteq> t then 0 else sps)) subs"
    by (simp add: case_prod_unfold)
  have ok': "list_all sub_ok (map fst ?es)" unfolding fst using ok by (auto simp: list_all_iff sub_ok_def)
  have sums: "allocated_sum (map fst ?es) = allocated_sum subs"
    "sampled_sum (map fst ?es) = (if sec = t then sampled_sum subs else 0)"
    unfolding fst by (induction subs) (auto simp: allocated_sum_def sampled_sum_def)
  from composite_loop_counts [OF ok' c loop] sums e loop
  show "composite_inv s' \<and> allocated_sum (composite_subs s') = allocated_sum (composite_subs s) \<and>
      composite_second s' = t \<and> sampled_sum (composite_subs s') =
        (if composite_second s = t then sampled_sum (composite_subs s) else 0) + (if b then SpanCount tr else 0)"
    by (auto simp: composite_eval_def s Let_def)
next
  fix s
  assume "composite_inv s"
  then show "sampled_sum (composite_subs s) \<le> allocated_sum (composite_subs s)"
    by (cases s) (auto dest: sampled_sum_bounds)
qed

text \<open>
  In each second a composite policy samples at most the sum of the spans per second allocated
  to its sub-policies, whatever its sub-policies are.
\<close>

theorem composite_budget:
  assumes "list_all (\<lambda>(e, sps). 0 \<le> sps \<and> sps < 2 ^ 62) params" and "timely 0 evs"
  shows "spans_in t (sampled_run (composite_eval D traceID) evs (NewComposite maxTotal params)) \<le>
    sum_list (map snd params)"
proof -
  let ?c = "NewComposite maxTotal params"
  have "composite_inv ?c" using assms(1) by (auto simp: NewComposite_def list_all_iff sub_ok_def)
  moreover have "allocated_sum (composite_subs ?c) = sum_list (map snd params)"
    "sampled_sum (composite_subs ?c) = 0" "composite_second ?c = 0"
    unfolding NewComposite_def composite_subs.simps composite_second.simps
    by (induction params) (auto simp: allocated_sum_def sampled_sum_def)
  moreover have "0 \<le> sum_list (map snd params)"
    using assms(1) by (fastforce simp: list_all_iff intro!: sum_list_nonneg)
  ultimately show ?thesis
    using composite.budget_run [of ?c evs t D traceID] assms(2) by (auto split: if_splits)
qed

definition numbered :: "int \<Rightarrow> TraceData" where
  "numbered k = \<lparr>Decisions = [], SpanCount = 10,
     ReceivedBatches = [\<lparr>Resource = (\<lambda>x. None), ScopeSpans = [[
       \<lparr>sp_TraceID = [], StartTimestamp = 1, EndTimestamp = 2,
        sp_Attributes = (\<lambda>x. if x = ''k'' then Some \<lparr>a_Str = [], a_Int = k\<rparr> else None),
        sp_Status = StatusCodeOk, sp_TraceState = []\<rparr>]]\<rparr>], FinalDecision = Unspecified\<rparr>"

text \<open>
  The total \<open>maxTotalSPS\<close> is compared with the counter of one sub-policy, not with their sum:
  two sub-policies of ten spans per second sample twenty spans in one second under a total of ten.
\<close>

theorem composite_exceeds_total:
  "spans_in 5 (sampled_run (composite_eval D traceID) [(5, numbered 1), (5, numbered 2)]
     (NewComposite 10 [(NumericAttributeP ''k'' 1 1, 10), (AlwaysSampleP, 10)])) = 20"
  by (simp add: composite_eval_def NewComposite_def numericAttributeFilter_Evaluate_def hasSpan_pure
      all_spans_def numbered_def spans_in_def add64_def)

lemma rateLimiting_budget_witness:
  "spans_in 5 (sampled_run rate_eval [(5, numbered 1), (5, numbered 2)] (NewRateLimiting 11)) \<le> 10"
  using rateLimiting_budget [of 11 "[(5, numbered 1), (5, numbered 2)]" 5]
  by (simp add: timely_def numbered_def)

lemma composite_budget_witness:
  "spans_in 5 (sampled_run (composite_eval \<lparr>now = 0, MatchString = (\<lambda>re s. False), lru_Add = (\<lambda>n c k v. c),
       trace_state_get = (\<lambda>s k. None)\<rparr> [1]) [(5, numbered 1), (5, numbered 2)]
     (NewComposite 10 [(NumericAttributeP ''k'' 1 1, 10), (AlwaysSampleP, 10)])) \<le> 20"
  using composite_budget [of "[(NumericAttributeP ''k'' 1 1, 10), (AlwaysSampleP, 10)]"
      "[(5, numbered 1), (5, numbered 2)]" 5]
  by (simp add: timely_def numbered_def)

section \<open>The default evaluator\<close>

lemma and_loop_no_error:
  "list_all (\<lambda>(e, r, e'). \<exists>d. r = Inr d) es \<Longrightarrow> \<exists>d. fst (and_loop es) = Inr d"
  by (induction es rule: and_loop.induct) (auto split: prod.splits)

lemma composite_loop_no_error:
  "list_all (\<lambda>(e, r, e'). \<exists>d. r = Inr d) es \<Longrightarrow> \<exists>d. fst (composite_loop mx n es) = Inr d"
  by (induction mx n es rule: composite_loop.induct) (auto simp: Let_def split: prod.splits)

text \<open>No policy ever returns an error: the error branches of the callers are unreachable.\<close>

lemma Evaluate_no_error: "\<exists>d. fst (Evaluate D traceID trace e) = Inr d"
proof (induction e)
  case (AndP subs)
  then have "list_all (\<lambda>(e, r, e'). \<exists>d. r = Inr d) (map (\<lambda>e. (e, Evaluate D traceID trace e)) subs)"
    by (auto simp: list_all_iff case_prod_unfold)
  from and_loop_no_error [OF this] show ?case by (auto split: prod.splits)
next
  case (CompositeP subs mx sec)
  let ?es = "map (\<lambda>(e, alloc, sps). ((e, alloc, if sec \<noteq> now D then 0 else sps), Evaluate D traceID trace e)) subs"
  have "list_all (\<lambda>(e, r, e'). \<exists>d. r = Inr d) ?es"
    using CompositeP by (fastforce simp: list_all_iff case_prod_unfold)
  from composite_loop_no_error [OF this, of mx "SpanCount trace"] show ?case
    by (auto simp: Let_def split: prod.splits)
next
  case (DefaultP name sampler op filters subs)
  then show ?case by (auto split: prod.splits sum.splits option.splits)
qed (auto split: prod.splits)

text \<open>The decision of a policy, as a value.\<close>

definition dec :: "deps \<Rightarrow> TraceID \<Rightarrow> TraceData \<Rightarrow> evaluator \<Rightarrow> Decision" where
  "dec D traceID trace e = projr (fst (Evaluate D traceID trace e))"

lemma Evaluate_dec: "fst (Evaluate D traceID trace e) = Inr (dec D traceID trace e)"
  using Evaluate_no_error [of D traceID trace e] by (auto simp: dec_def)

lemma filter_loop_decs:
  "fst (filter_loop op m (map (\<lambda>e. (e, Evaluate D traceID trace e)) es)) =
     (if ToLower op = ''and'' \<and> list_ex (\<lambda>e. dec D traceID trace e = NotSampled) es then Inl NoResult
      else Inr (m \<or> list_ex (\<lambda>e. dec D traceID trace e = Sampled) es))"
proof (induction es arbitrary: m)
  case (Cons e es)
  obtain e' where e: "Evaluate D traceID trace e = (Inr (dec D traceID trace e), e')"
    using Evaluate_dec [of D traceID trace e] by (cases "Evaluate D traceID trace e") auto
  obtain r es' where rest: "filter_loop op (m \<or> dec D traceID trace e = Sampled)
      (map (\<lambda>e. (e, Evaluate D traceID trace e)) es) = (r, es')" by (meson surj_pair)
  with Cons.IH [of "m \<or> dec D traceID trace e = Sampled"] e show ?case by auto
qed simp

lemma sub_loop_decs:
  "fst (sub_loop (map (\<lambda>e. (e, Evaluate D traceID trace e)) es)) =
     find (\<lambda>d. d \<noteq> NoResult) (map (dec D traceID trace) es)"
proof (induction es)
  case (Cons e es)
  obtain e' where e: "Evaluate D traceID trace e = (Inr (dec D traceID trace e), e')"
    using Evaluate_dec [of D traceID trace e] by (cases "Evaluate D traceID trace e") auto
  obtain r es' where rest: "sub_loop (map (\<lambda>e. (e, Evaluate D traceID trace e)) es) = (r, es')"
    by (meson surj_pair)
  with Cons.IH e show ?case by auto
qed simp

text \<open>Does a policy apply to a trace?\<close>

definition applies :: "deps \<Rightarrow> TraceID \<Rightarrow> TraceData \<Rightarrow> string \<Rightarrow> evaluator list \<Rightarrow> bool" where
  "applies D traceID trace op filters \<longleftrightarrow>
     list_ex (\<lambda>e. dec D traceID trace e = Sampled) filters \<and>
     (ToLower op = ''and'' \<longrightarrow> \<not> list_ex (\<lambda>e. dec D traceID trace e = NotSampled) filters)"

lemma Evaluate_default:
  "fst (Evaluate D traceID trace (DefaultP name sampler op filters subs)) =
     Inr (if \<not> applies D traceID trace op filters then NoResult
          else case find (\<lambda>d. d \<noteq> NoResult) (map (dec D traceID trace) subs) of
                 Some d \<Rightarrow> d | None \<Rightarrow> dec D traceID trace sampler)"
proof -
  obtain r fs where f: "filter_loop op False (map (\<lambda>e. (e, Evaluate D traceID trace e)) filters) = (r, fs)"
    by (meson surj_pair)
  obtain d ss where s: "sub_loop (map (\<lambda>e. (e, Evaluate D traceID trace e)) subs) = (d, ss)"
    by (meson surj_pair)
  obtain s' where sm: "Evaluate D traceID trace sampler = (Inr (dec D traceID trace sampler), s')"
    using Evaluate_dec [of D traceID trace sampler] by (cases "Evaluate D traceID trace sampler") auto
  have "d = find (\<lambda>d. d \<noteq> NoResult) (map (dec D traceID trace) subs)"
    using sub_loop_decs [of D traceID trace subs] s by simp
  moreover have "r = (if ToLower op = ''and'' \<and> list_ex (\<lambda>e. dec D traceID trace e = NotSampled) filters
      then Inl NoResult else Inr (list_ex (\<lambda>e. dec D traceID trace e = Sampled) filters))"
    using filter_loop_decs [of op False D traceID trace filters] f by simp
  ultimately show ?thesis
    by (auto simp: f s sm applies_def split: option.splits)
qed

text \<open>
  C8. The default evaluator has no opinion on a trace its filters do not select: some filter must
  sample it and, under the operator and, none may reject it. On a selected trace the first sub-policy
  with an opinion decides, and if there is none the policy's own sampler; it never returns an error.
\<close>

theorem defaultEvaluator_decision:
  "fst (Evaluate D traceID trace (DefaultP name sampler op filters subs)) =
     Inr (if \<not> applies D traceID trace op filters then NoResult
          else case find (\<lambda>d. d \<noteq> NoResult) (map (dec D traceID trace) subs) of
                 Some d \<Rightarrow> d | None \<Rightarrow> dec D traceID trace sampler)"
  by (rule Evaluate_default)

fun inverted :: "evaluator \<Rightarrow> bool" where
  "inverted (StringAttributeP key mt invert) = invert"
| "inverted _ = False"

lemma inverted_dec:
  assumes "inverted e"
  shows "dec D traceID trace e \<noteq> Sampled"
proof -
  from assms obtain key mt where "e = StringAttributeP key mt True" by (cases e) auto
  then show ?thesis
    by (auto simp: dec_def stringAttributeFilter_Evaluate_def invertHasResourceOrSpanWithCondition_def
        split: prod.splits if_splits)
qed

text \<open>
  A policy whose filters are all inverted never applies: an inverted filter answers with the
  invert decisions, which the default evaluator does not look at, so no trace is selected.
\<close>

theorem inverted_filters_never_apply:
  assumes "list_all inverted filters"
  shows "fst (Evaluate D traceID trace (DefaultP name sampler op filters subs)) = Inr NoResult"
proof -
  have "\<not> applies D traceID trace op filters"
    using assms inverted_dec [of _ D traceID trace] by (auto simp: applies_def list_all_iff list_ex_iff)
  then show ?thesis unfolding Evaluate_default by simp
qed

definition deps0 :: deps where
  "deps0 = \<lparr>now = 0, MatchString = (\<lambda>re s. re = s), lru_Add = (\<lambda>n c k v. take n ((k, v) # c)),
     trace_state_get = (\<lambda>s k. None)\<rparr>"

lemma inverted_filters_never_apply_witness:
  "fst (Evaluate deps0 [1] trace1 (DefaultP ''p'' AlwaysSampleP ''or''
     [StringAttributeP ''env'' (ExactMatcher [''prod'']) True] [])) = Inr NoResult"
  by (rule inverted_filters_never_apply) simp

lemma string_filter_equals_reference_witness:
  "string_decisions deps0 ''env'' False (NewStringMatcher [''prod''] True 2) [trace1, trace1] = [NotSampled, NotSampled]"
proof -
  have "lru_ok deps0" by (auto simp: lru_ok_def deps0_def dest: in_set_takeD)
  from string_filter_equals_reference [OF this, of "''env''" False "[''prod'']" True 2 "[trace1, trace1]"]
  show ?thesis by (simp add: trace_hit_def trace1_def resource_hit_def span_hit_def span1_def)
qed

end
