(* ===== verification/Sampling_Percentage.thy ===== *)
theory Sampling_Percentage
  imports Sampling_Properties
begin

text \<open>
  The probabilistic sampler: its threshold is the requested share of the hash values up to one and a
  half of them, and raising a sampling percentage never turns a sampled trace into one that is not.
\<close>

section \<open>The threshold\<close>

lemma calculateThreshold_mono:
  assumes "0 \<le> p" and "p \<le> q"
  shows "calculateThreshold p \<le> calculateThreshold q"
  unfolding calculateThreshold_def bigFloat_def
  using assms by (intro bigFloat_Uint64_mono round_float_mono precision_bigFloat mult_left_mono) simp_all

lemma bigFloat64_error:
  assumes "0 \<le> x" and "x \<le> 2 ^ 64 - 1"
  shows "0 \<le> bigFloat 64 x" and "bigFloat 64 x \<le> 2 ^ 64 - 1" and "\<bar>bigFloat 64 x - x\<bar> \<le> 1 / 2"
proof -
  show "0 \<le> bigFloat 64 x" using assms by (simp add: bigFloat_def round_float_nonneg)
  have "x < 2 powi 64" using assms by simp
  then have e: "exponent x \<le> 63" if "0 < x" using that exponent_less_iff [of x 64] by simp
  let ?u = "exponent x - 63"
  show "\<bar>bigFloat 64 x - x\<bar> \<le> 1 / 2"
  proof (cases "x = 0")
    case False
    with assms e have "(2::rat) powi ?u \<le> 2 powi 0" by (intro powi_le) simp
    with round_to_error [of ?u x] False assms show ?thesis
      by (simp add: bigFloat_def round_float_def)
  qed (simp add: bigFloat_def round_float_def)
  have "bigFloat 64 x \<le> bigFloat 64 (2 ^ 64 - 1)"
    unfolding bigFloat_def using assms by (intro round_float_mono precision_bigFloat) simp_all
  also have "\<dots> = 2 ^ 64 - 1" by code_simp
  finally show "bigFloat 64 x \<le> 2 ^ 64 - 1" .
qed

lemma calculateThreshold_one: "calculateThreshold 1 = - 1"
  by code_simp

text \<open>
  The threshold of the probabilistic sampler is the requested ratio of the largest 64-bit
  hash, up to less than one and a half: the detour over \<open>big.Float\<close> loses nothing that matters.
\<close>

theorem calculateThreshold_accurate:
  assumes "0 \<le> r" and "r \<le> 1"
  shows "\<bar>of_nat (unat (calculateThreshold r)) - (2 ^ 64 - 1) * r\<bar> < 3 / 2"
proof -
  let ?x = "(2 ^ 64 - 1) * r"
  let ?y = "bigFloat 64 ?x"
  have x: "0 \<le> ?x" "?x \<le> 2 ^ 64 - 1" using assms by simp_all
  note y = bigFloat64_error [OF x]
  have f: "0 \<le> \<lfloor>?y\<rfloor>" "\<lfloor>?y\<rfloor> \<le> 2 ^ 64 - 1"
    using y by (simp_all add: floor_le_iff)
  then have "uint (calculateThreshold r) = \<lfloor>?y\<rfloor>"
    by (simp add: calculateThreshold_def bigFloat_Uint64_def uint_word_of_int_eq take_bit_int_eq_self_iff)
  then have "of_nat (unat (calculateThreshold r)) = (of_int \<lfloor>?y\<rfloor> :: rat)"
    by (metis of_int_of_nat_eq uint_nat)
  moreover have "of_int \<lfloor>?y\<rfloor> \<le> ?y" "?y < of_int \<lfloor>?y\<rfloor> + 1" by linarith+
  ultimately show ?thesis using y(3) by linarith
qed

lemma calculateThreshold_accurate_witness:
  "\<bar>of_nat (unat (calculateThreshold (1 / 4))) - (2 ^ 64 - 1) * (1 / 4)\<bar> < (3 / 2 :: rat)"
  by (rule calculateThreshold_accurate) simp_all

section \<open>Percentages\<close>

text \<open>
  C12. A policy's sampler is consistent: a trace that is sampled at some percentage is sampled at
  every higher one, whichever of the never, always and probabilistic samplers either selects.
\<close>

theorem sampling_percentage_monotone:
  assumes "0 \<le> p" and "p \<le> q" and "dec D i trace (choose_sampler p) = Sampled"
  shows "dec D i trace (choose_sampler q) = Sampled"
proof -
  let ?t = "\<lambda>p. calculateThreshold (float64 (p / 100))"
  have mono: "?t x \<le> ?t y" if "0 \<le> x" "x \<le> y" for x y
    using that by (intro calculateThreshold_mono float64_mono float64_nonneg divide_right_mono) simp_all
  have "?t 100 = - 1" by (simp add: calculateThreshold_one)
  with mono [of 100 q] have "?t q = - 1" if "100 \<le> q"
    using that by (metis word_order.extremum_uniqueI zero_le_numeral)
  with mono [of p q] assms show ?thesis
    by (auto simp: dec_def choose_sampler_def NewProbabilisticSampler_def
        probabilisticSampler_Evaluate_def split: if_splits)
qed

lemma sampling_percentage_monotone_witness:
  "dec deps0 [1] trace1 (choose_sampler 10) = Sampled \<and> dec deps0 [1] trace1 (choose_sampler 25) = Sampled"
proof -
  have "dec deps0 [1] trace1 (choose_sampler 10) = Sampled" by code_simp
  with sampling_percentage_monotone [of 10 25 deps0 "[1]" trace1] show ?thesis by simp
qed

end
