(* ===== verification/Sampling_Processor.thy ===== *)
theory Sampling_Processor
  imports Sampling_Batcher Sampling_Percentage
begin

text \<open>
  The tail sampling processor (\<open>processor.go\<close>, \<open>config.go\<close>): the map from trace identifiers to the
  data collected, the channel of identifiers that bounds it, the batcher, and the policies. Incoming
  spans, ticks of the policy timer and steps of the batcher's goroutine are operations on one state;
  every interleaving of them is a sequence of steps. \<open>None\<close> is a panic or an operation that blocks
  forever. What is passed to the next consumer is appended to \<open>sent\<close>.
\<close>

section \<open>State\<close>

record policy =
  pol_name :: string
  pol_evaluator :: evaluator

record tsp =
  maxNumTraces :: nat
  policies :: "policy list"
  idToTrace :: "TraceID \<Rightarrow> TraceData option"
  decisionBatcher :: batcher
  deleteChan :: "TraceID list"
  numTracesOnMap :: "64 word"
  sent :: "Traces list"

section \<open>Configuration\<close>

record PolicyGroupCfg = BasePolicy +
  SubPolicies :: "BasePolicy list"

record Config =
  DecisionWaitSeconds :: nat
  NumTraces :: nat
  PolicyCfgs :: "PolicyGroupCfg list"

definition Validate :: "Config \<Rightarrow> string list" where
  "Validate c = map (\<lambda>p. bp_Name p @ '': priority must be greater than 1'')
     (filter (\<lambda>p. Priority p = 0) (PolicyCfgs c))"

text \<open>Go's \<open>copy\<close>: as many elements as the shorter of the two has.\<close>

definition go_copy :: "'a list \<Rightarrow> 'a list \<Rightarrow> 'a list" where
  "go_copy dst src = take (length dst) src @ drop (length src) dst"

definition newTracesProcessor ::
    "(BasePolicy list \<Rightarrow> BasePolicy list) \<Rightarrow> (PolicyGroupCfg list \<Rightarrow> PolicyGroupCfg list) \<Rightarrow>
     nat \<Rightarrow> Config \<Rightarrow> string list + tsp" where
  "newTracesProcessor sort_base sort_groups numCPU cfg =
     (if Validate cfg \<noteq> [] then Inl (''config invalid'' # Validate cfg)
      else (case batcher_New (DecisionWaitSeconds cfg) (2 * numCPU) of
        Inl e \<Rightarrow> Inl [e]
      | Inr inBatcher \<Rightarrow>
          (let policyGroups = sort_groups (go_copy [] (PolicyCfgs cfg)) in
           Inr \<lparr>maxNumTraces = NumTraces cfg,
                policies = map (\<lambda>policyCfg. \<lparr>pol_name = bp_Name policyCfg,
                  pol_evaluator = NewDefaultEvaluator sort_base
                    (BasePolicy.truncate policyCfg) (SubPolicies policyCfg)\<rparr>) policyGroups,
                idToTrace = (\<lambda>_. None), decisionBatcher = inBatcher, deleteChan = [],
                numTracesOnMap = 0, sent = []\<rparr>)))"

section \<open>Deciding\<close>

text \<open>
  The loop over the policies: the first that says sampled or not sampled ends it. Writing the
  decision of policy \<open>i\<close> panics when the trace has no slot \<open>i\<close>.
\<close>

fun decide_loop :: "deps \<Rightarrow> TraceID \<Rightarrow> nat \<Rightarrow> policy list \<Rightarrow> TraceData \<Rightarrow>
    (Decision \<times> TraceData \<times> policy list) option" where
  "decide_loop D i k [] trace = Some (NoResult, trace, [])"
| "decide_loop D i k (p # ps) trace =
     (case Evaluate D i trace (pol_evaluator p) of (r, ev') \<Rightarrow>
        (let d = (case r of Inl e \<Rightarrow> Unspecified | Inr d \<Rightarrow> d);
             p' = p\<lparr>pol_evaluator := ev'\<rparr>
         in if k \<ge> length (Decisions trace) then None
            else (let trace' = trace\<lparr>Decisions := (Decisions trace)[k := d]\<rparr>
                  in if d = Sampled \<or> d = NotSampled then Some (d, trace', p' # ps)
                     else map_option (\<lambda>(d', trace'', ps'). (d', trace'', p' # ps'))
                            (decide_loop D i (Suc k) ps trace'))))"

definition makeDecision :: "deps \<Rightarrow> TraceID \<Rightarrow> policy list \<Rightarrow> TraceData \<Rightarrow>
    (Decision \<times> TraceData \<times> policy list) option" where
  "makeDecision D i ps trace =
     map_option (\<lambda>(d, trace', ps'). (if d = NoResult then Sampled else d, trace', ps'))
       (decide_loop D i 0 ps trace)"

text \<open>The body of the tick for one identifier.\<close>

definition decide_id :: "deps \<Rightarrow> TraceID \<Rightarrow> tsp \<Rightarrow> tsp option" where
  "decide_id D i s =
     (case idToTrace s i of
        None \<Rightarrow> Some s
      | Some trace \<Rightarrow>
          map_option (\<lambda>(d, trace', ps').
            s\<lparr>policies := ps',
              idToTrace := (idToTrace s)(i \<mapsto> trace'\<lparr>FinalDecision := d\<rparr>),
              sent := (if d = Sampled then sent s @ [ReceivedBatches trace'] else sent s)\<rparr>)
            (makeDecision D i (policies s) trace))"

fun fold_opt :: "('a \<Rightarrow> 's \<Rightarrow> 's option) \<Rightarrow> 'a list \<Rightarrow> 's \<Rightarrow> 's option" where
  "fold_opt f [] s = Some s"
| "fold_opt f (x # xs) s = (case f x s of None \<Rightarrow> None | Some s' \<Rightarrow> fold_opt f xs s')"

definition samplingPolicyOnTick :: "deps \<Rightarrow> tsp \<Rightarrow> tsp option" where
  "samplingPolicyOnTick D s =
     (case CloseCurrentAndTakeFirstBatch (decisionBatcher s) of
        None \<Rightarrow> None
      | Some (batch, _, b') \<Rightarrow> fold_opt (decide_id D) batch (s\<lparr>decisionBatcher := b'\<rparr>))"

section \<open>Receiving\<close>

definition dropTrace :: "TraceID \<Rightarrow> tsp \<Rightarrow> tsp" where
  "dropTrace i s =
     (case idToTrace s i of
        None \<Rightarrow> s
      | Some trace \<Rightarrow> s\<lparr>idToTrace := (idToTrace s)(i := None), numTracesOnMap := numTracesOnMap s + not 0\<rparr>)"

text \<open>
  The loop that posts an identifier for deletion: when the channel is full, its oldest identifier is
  received and dropped. With a channel of size zero it blocks.
\<close>

function post_deletion :: "TraceID \<Rightarrow> tsp \<Rightarrow> tsp option" where
  "post_deletion i s =
     (if length (deleteChan s) < maxNumTraces s then Some (s\<lparr>deleteChan := deleteChan s @ [i]\<rparr>)
      else (case deleteChan s of
              [] \<Rightarrow> None
            | k # ks \<Rightarrow> post_deletion i (dropTrace k (s\<lparr>deleteChan := ks\<rparr>))))"
  by pat_completeness auto

termination
  by (relation "measure (\<lambda>(i, s). length (deleteChan s))")
    (auto simp: dropTrace_def split: option.splits)

declare post_deletion.simps [simp del]

definition appendToTraces :: "ResourceSpans \<Rightarrow> Span list \<Rightarrow> ResourceSpans" where
  "appendToTraces rss spans = \<lparr>Resource = Resource rss, ScopeSpans = [spans]\<rparr>"

definition new_trace :: "tsp \<Rightarrow> int \<Rightarrow> TraceData" where
  "new_trace s lenSpans = \<lparr>Decisions = replicate (length (policies s)) Pending, SpanCount = lenSpans,
     ReceivedBatches = [], FinalDecision = Unspecified\<rparr>"

text \<open>Load or store the trace of an identifier.\<close>

definition load_or_store :: "TraceID \<Rightarrow> int \<Rightarrow> tsp \<Rightarrow> tsp option" where
  "load_or_store i lenSpans s =
     (case idToTrace s i of
        Some trace \<Rightarrow>
          Some (s\<lparr>idToTrace := (idToTrace s)(i \<mapsto> trace\<lparr>SpanCount := SpanCount trace + lenSpans\<rparr>)\<rparr>)
      | None \<Rightarrow>
          (case AddToCurrentBatch i (decisionBatcher s) of
             None \<Rightarrow> None
           | Some b' \<Rightarrow> post_deletion i (s\<lparr>idToTrace := (idToTrace s)(i \<mapsto> new_trace s lenSpans),
                 decisionBatcher := b', numTracesOnMap := numTracesOnMap s + 1\<rparr>)))"

text \<open>
  The spans of one identifier: kept while there is no decision, forwarded when it was sampled,
  discarded when it was not.
\<close>

definition deliver :: "ResourceSpans \<Rightarrow> TraceID \<Rightarrow> Span list \<Rightarrow> tsp \<Rightarrow> tsp" where
  "deliver rss i spans s =
     (case idToTrace s i of
        None \<Rightarrow> s
      | Some trace \<Rightarrow>
          if FinalDecision trace = Unspecified
          then s\<lparr>idToTrace := (idToTrace s)(i \<mapsto>
                   trace\<lparr>ReceivedBatches := ReceivedBatches trace @ [appendToTraces rss spans]\<rparr>)\<rparr>
          else if FinalDecision trace = Sampled then s\<lparr>sent := sent s @ [[appendToTraces rss spans]]\<rparr>
          else s)"

definition receive :: "ResourceSpans \<Rightarrow> TraceID \<Rightarrow> Span list \<Rightarrow> tsp \<Rightarrow> tsp option" where
  "receive rss i spans s = map_option (deliver rss i spans) (load_or_store i (int (length spans)) s)"

definition spans_of :: "TraceID \<Rightarrow> ResourceSpans \<Rightarrow> Span list" where
  "spans_of i rss = filter (\<lambda>sp. sp_TraceID sp = i) (concat (ScopeSpans rss))"

text \<open>\<open>groupSpansByTraceKey\<close>: the identifiers in order of appearance, each with its spans.\<close>

definition groupSpansByTraceKey :: "ResourceSpans \<Rightarrow> (TraceID \<times> Span list) list" where
  "groupSpansByTraceKey rss =
     map (\<lambda>i. (i, spans_of i rss)) (remdups (map sp_TraceID (concat (ScopeSpans rss))))"

text \<open>\<open>order\<close> is the order in which Go's map iteration visits the groups.\<close>

definition processTraces ::
    "((TraceID \<times> Span list) list \<Rightarrow> (TraceID \<times> Span list) list) \<Rightarrow> ResourceSpans \<Rightarrow> tsp \<Rightarrow> tsp option" where
  "processTraces order rss s = fold_opt (\<lambda>(i, spans) s.
     receive rss i spans s)
     (order (groupSpansByTraceKey rss)) s"

definition ConsumeTraces ::
    "((TraceID \<times> Span list) list \<Rightarrow> (TraceID \<times> Span list) list) \<Rightarrow> Traces \<Rightarrow> tsp \<Rightarrow> tsp option" where
  "ConsumeTraces order td s = fold_opt (processTraces order) td s"

section \<open>Steps\<close>

text \<open>One group of spans at a time, a tick, or a step of the batcher's goroutine.\<close>

inductive step :: "tsp \<Rightarrow> tsp \<Rightarrow> bool" where
  step_receive: "receive rss i spans s = Some s' \<Longrightarrow> step s s'"
| step_tick: "samplingPolicyOnTick D s = Some s' \<Longrightarrow> step s s'"
| step_drain: "step s (s\<lparr>decisionBatcher := drain (decisionBatcher s)\<rparr>)"

inductive reachable :: "tsp \<Rightarrow> tsp \<Rightarrow> bool" for s0 where
  reach_start: "reachable s0 s0"
| reach_step: "reachable s0 s \<Longrightarrow> step s s' \<Longrightarrow> reachable s0 s'"

lemma fold_opt_invariant:
  assumes "\<And>x s s'. P s \<Longrightarrow> f x s = Some s' \<Longrightarrow> P s'"
  shows "P s \<Longrightarrow> fold_opt f xs s = Some s' \<Longrightarrow> P s'"
  by (induction xs arbitrary: s) (auto split: option.splits intro: assms)

section \<open>The invariant\<close>

text \<open>
  The deletion channel holds exactly the identifiers of the map, once each, and never more than its
  capacity; the counter is their number; every trace has one decision slot per policy and a final
  decision the code expects.
\<close>

definition trace_ok :: "nat \<Rightarrow> TraceData \<Rightarrow> bool" where
  "trace_ok n trace \<longleftrightarrow> length (Decisions trace) = n \<and>
     FinalDecision trace \<in> {Unspecified, Sampled, NotSampled} \<and>
     (FinalDecision trace = Unspecified \<longrightarrow>
        SpanCount trace = int (length (all_spans (ReceivedBatches trace))))"

definition tsp_inv :: "tsp \<Rightarrow> bool" where
  "tsp_inv s \<longleftrightarrow> distinct (deleteChan s) \<and> set (deleteChan s) = dom (idToTrace s) \<and>
     length (deleteChan s) \<le> maxNumTraces s \<and> maxNumTraces s < 2 ^ 63 \<and>
     unat (numTracesOnMap s) = length (deleteChan s) \<and> batcher_inv (decisionBatcher s) \<and>
     (\<forall>i trace. idToTrace s i = Some trace \<longrightarrow> trace_ok (length (policies s)) trace)"

lemma decide_loop_shape:
  "decide_loop D i k ps trace = Some (d, trace', ps') \<Longrightarrow>
   length ps' = length ps \<and> length (Decisions trace') = length (Decisions trace) \<and>
   ReceivedBatches trace' = ReceivedBatches trace \<and> SpanCount trace' = SpanCount trace \<and>
   d \<in> {Sampled, NotSampled, NoResult}"
proof (induction D i k ps trace arbitrary: d trace' ps' rule: decide_loop.induct)
  case (2 D i k p ps trace)
  obtain r ev' where ev: "Evaluate D i trace (pol_evaluator p) = (r, ev')"
    by (cases "Evaluate D i trace (pol_evaluator p)")
  let ?d = "case r of Inl e \<Rightarrow> Unspecified | Inr d \<Rightarrow> d"
  have slot: "\<not> length (Decisions trace) \<le> k" using "2.prems" ev by (auto simp: Let_def split: if_splits)
  show ?case
  proof (cases "?d = Sampled \<or> ?d = NotSampled")
    case True
    with "2.prems" ev slot show ?thesis by (auto simp: Let_def)
  next
    case False
    with "2.prems" ev slot obtain d1 t1 ps1 where
      rec: "decide_loop D i (Suc k) ps (trace\<lparr>Decisions := (Decisions trace)[k := ?d]\<rparr>) = Some (d1, t1, ps1)"
      and eq: "d = d1" "trace' = t1" "ps' = p\<lparr>pol_evaluator := ev'\<rparr> # ps1"
      by (auto simp: Let_def)
    from "2.IH" [OF ev [symmetric] refl refl slot refl False rec] eq show ?thesis by simp
  qed
qed simp

lemma makeDecision_shape:
  assumes "makeDecision D i ps trace = Some (d, trace', ps')"
  shows "length ps' = length ps \<and> length (Decisions trace') = length (Decisions trace) \<and>
    ReceivedBatches trace' = ReceivedBatches trace \<and> SpanCount trace' = SpanCount trace \<and>
    d \<in> {Sampled, NotSampled}"
proof -
  from assms obtain d0 where "decide_loop D i 0 ps trace = Some (d0, trace', ps')"
    and "d = (if d0 = NoResult then Sampled else d0)" by (auto simp: makeDecision_def)
  with decide_loop_shape [of D i 0 ps trace d0 trace' ps'] show ?thesis by auto
qed

lemma decide_id_inv:
  assumes "tsp_inv s" and "decide_id D i s = Some s'"
  shows "tsp_inv s'"
proof (cases "idToTrace s i")
  case (Some trace)
  with assms(2) obtain d trace' ps' where m: "makeDecision D i (policies s) trace = Some (d, trace', ps')"
    and s': "s' = s\<lparr>policies := ps', idToTrace := (idToTrace s)(i \<mapsto> trace'\<lparr>FinalDecision := d\<rparr>),
      sent := (if d = Sampled then sent s @ [ReceivedBatches trace'] else sent s)\<rparr>"
    by (auto simp: decide_id_def)
  note shape = makeDecision_shape [OF m]
  have "trace_ok (length (policies s)) trace" using assms(1) Some by (simp add: tsp_inv_def)
  with shape have "trace_ok (length ps') (trace'\<lparr>FinalDecision := d\<rparr>)" by (auto simp: trace_ok_def)
  with assms(1) shape Some show ?thesis by (auto simp: tsp_inv_def s')
qed (use assms in \<open>simp add: decide_id_def\<close>)

lemma batcher_only_inv:
  "tsp_inv s \<Longrightarrow> batcher_inv b \<Longrightarrow> tsp_inv (s\<lparr>decisionBatcher := b\<rparr>)"
  by (simp add: tsp_inv_def)

lemma tick_inv:
  assumes "tsp_inv s" and "samplingPolicyOnTick D s = Some s'"
  shows "tsp_inv s'"
proof -
  from assms(2) obtain batch ok b' where c: "CloseCurrentAndTakeFirstBatch (decisionBatcher s) = Some (batch, ok, b')"
    and f: "fold_opt (decide_id D) batch (s\<lparr>decisionBatcher := b'\<rparr>) = Some s'"
    by (auto simp: samplingPolicyOnTick_def split: option.splits)
  have "batcher_inv (decisionBatcher s)" using assms(1) by (simp add: tsp_inv_def)
  with ids.close_law [OF _ c] have "batcher_inv b'" by simp
  with assms(1) have "tsp_inv (s\<lparr>decisionBatcher := b'\<rparr>)" by (rule batcher_only_inv)
  then show ?thesis using f by (rule fold_opt_invariant [where P = tsp_inv, rotated]) (rule decide_id_inv)
qed

lemma unat_dec: "0 < unat (w :: 64 word) \<Longrightarrow> unat (w - 1) = unat w - 1"
  by (simp add: unat_minus_one unat_gt_0)

lemma unat_inc: "unat (w :: 64 word) < 2 ^ 63 \<Longrightarrow> unat (w + 1) = unat w + 1"
proof -
  assume w: "unat w < 2 ^ 63"
  have "unat (w + 1) = (unat w + unat (1 :: 64 word)) mod 2 ^ 64" by (subst unat_word_ariths(1)) simp
  also have "\<dots> = unat w + 1" using w by (simp only: unat_1) simp
  finally show ?thesis .
qed

text \<open>The state while an identifier is being posted: it is on the map but not yet in the channel.\<close>

definition posting :: "TraceID \<Rightarrow> tsp \<Rightarrow> bool" where
  "posting i s \<longleftrightarrow> distinct (deleteChan s) \<and> i \<notin> set (deleteChan s) \<and>
     insert i (set (deleteChan s)) = dom (idToTrace s) \<and>
     length (deleteChan s) \<le> maxNumTraces s \<and> maxNumTraces s < 2 ^ 63 \<and>
     unat (numTracesOnMap s) = length (deleteChan s) + 1 \<and> batcher_inv (decisionBatcher s) \<and>
     (\<forall>j trace. j \<noteq> i \<longrightarrow> idToTrace s j = Some trace \<longrightarrow> trace_ok (length (policies s)) trace)"

text \<open>A posted identifier leaves the rest of the state alone, except for what it had to drop.\<close>

lemma post_deletion_spec:
  "posting i s \<Longrightarrow> post_deletion i s = Some s' \<Longrightarrow>
   distinct (deleteChan s') \<and> i \<in> set (deleteChan s') \<and> set (deleteChan s') = dom (idToTrace s') \<and>
   length (deleteChan s') \<le> maxNumTraces s' \<and> maxNumTraces s' = maxNumTraces s \<and>
   unat (numTracesOnMap s') = length (deleteChan s') \<and> decisionBatcher s' = decisionBatcher s \<and>
   policies s' = policies s \<and> sent s' = sent s \<and> idToTrace s' i = idToTrace s i \<and>
   (\<forall>j t. idToTrace s' j = Some t \<longrightarrow> idToTrace s j = Some t)"
proof (induction i s rule: post_deletion.induct)
  case (1 i s)
  show ?case
  proof (cases "length (deleteChan s) < maxNumTraces s")
    case True
    with "1.prems" show ?thesis by (auto simp: posting_def post_deletion.simps [of i s])
  next
    case False
    with "1.prems"(2) obtain k ks where ch: "deleteChan s = k # ks"
      by (auto simp: post_deletion.simps [of i s] split: list.splits)
    let ?s = "dropTrace k (s\<lparr>deleteChan := ks\<rparr>)"
    from "1.prems"(1) have "insert i (set (deleteChan s)) = dom (idToTrace s)" by (simp add: posting_def)
    with ch have "k \<in> dom (idToTrace s)" by (metis insertCI list.set_intros(1))
    with "1.prems"(1) ch obtain trace where k: "idToTrace s k = Some trace" "k \<noteq> i"
      by (auto simp: posting_def)
    have d: "?s = s\<lparr>deleteChan := ks, idToTrace := (idToTrace s)(k := None), numTracesOnMap := numTracesOnMap s + not 0\<rparr>"
      using k by (simp add: dropTrace_def)
    have "posting i ?s"
      using "1.prems"(1) ch k unfolding d by (auto simp: posting_def unat_dec)
    moreover have "post_deletion i ?s = Some s'"
      using "1.prems"(2) False ch by (simp add: post_deletion.simps [of i s])
    ultimately show ?thesis using "1.IH" [OF False ch] k unfolding d
      by (auto split: if_splits)
  qed
qed

lemma load_or_store_inv:
  assumes "tsp_inv s" and "load_or_store i (int (length spans)) s = Some s'"
  shows "tsp_inv (deliver rss i spans s')"
proof (cases "idToTrace s i")
  case (Some trace)
  with assms(2) have s': "s' = s\<lparr>idToTrace := (idToTrace s)(i \<mapsto>
      trace\<lparr>SpanCount := SpanCount trace + int (length spans)\<rparr>)\<rparr>" by (simp add: load_or_store_def)
  have "trace_ok (length (policies s)) trace" using assms(1) Some by (simp add: tsp_inv_def)
  then show ?thesis using assms(1) Some
    by (auto simp: tsp_inv_def deliver_def s' trace_ok_def appendToTraces_def all_spans_def)
next
  case None
  let ?new = "new_trace s (int (length spans))"
  from None assms(2) obtain b' where add: "AddToCurrentBatch i (decisionBatcher s) = Some b'"
    and post: "post_deletion i (s\<lparr>idToTrace := (idToTrace s)(i \<mapsto> ?new), decisionBatcher := b',
      numTracesOnMap := numTracesOnMap s + 1\<rparr>) = Some s'" (is "post_deletion i ?s = _")
    by (auto simp: load_or_store_def split: option.splits)
  have b': "batcher_inv b'" using ids.add_law [OF _ add] assms(1) by (simp add: tsp_inv_def)
  have "unat (numTracesOnMap s) < 2 ^ 63" using assms(1) by (simp add: tsp_inv_def)
  then have "unat (numTracesOnMap s + 1) = length (deleteChan s) + 1"
    using assms(1) by (simp add: unat_inc tsp_inv_def)
  with assms(1) None b' have "posting i ?s" by (auto simp: posting_def tsp_inv_def)
  note p = post_deletion_spec [OF this post]
  then have new: "idToTrace s' i = Some ?new" by simp
  have old: "trace_ok (length (policies s)) trace" if "j \<noteq> i" "idToTrace s' j = Some trace" for j trace
  proof -
    from p that(2) have "((idToTrace s)(i \<mapsto> ?new)) j = Some trace" by simp
    with that(1) have "idToTrace s j = Some trace" by simp
    with assms(1) show ?thesis by (simp add: tsp_inv_def)
  qed
  show ?thesis
    using p new old assms(1) b'
    by (auto simp: tsp_inv_def deliver_def new_trace_def trace_ok_def appendToTraces_def all_spans_def)
qed

lemma step_inv: "step s s' \<Longrightarrow> tsp_inv s \<Longrightarrow> tsp_inv s'"
proof (induction rule: step.induct)
  case (step_drain s)
  then show ?case using ids.background_law [of "decisionBatcher s"] batcher_only_inv by (simp add: tsp_inv_def)
qed (auto simp: receive_def intro: load_or_store_inv tick_inv)

lemma reachable_inv: "reachable s0 s \<Longrightarrow> tsp_inv s0 \<Longrightarrow> tsp_inv s"
  by (induction rule: reachable.induct) (auto intro: step_inv)

lemma newTracesProcessor_inv:
  assumes "newTracesProcessor sb sg n cfg = Inr s" and "NumTraces cfg < 2 ^ 63"
  shows "tsp_inv s"
  using assms batcher_New_inv
  by (auto simp: newTracesProcessor_def tsp_inv_def split: if_splits sum.splits)

section \<open>Memory\<close>

lemma decide_id_max: "decide_id D i s = Some s' \<Longrightarrow> maxNumTraces s' = maxNumTraces s \<and> length (policies s') = length (policies s)"
  by (auto simp: decide_id_def split: option.splits dest!: makeDecision_shape)

definition same_shape :: "tsp \<Rightarrow> tsp \<Rightarrow> bool" where
  "same_shape s s' \<longleftrightarrow> maxNumTraces s' = maxNumTraces s \<and> length (policies s') = length (policies s)"

lemma tick_max:
  assumes "samplingPolicyOnTick D s = Some s'"
  shows "same_shape s s'"
proof -
  from assms obtain batch b' where f: "fold_opt (decide_id D) batch (s\<lparr>decisionBatcher := b'\<rparr>) = Some s'"
    by (auto simp: samplingPolicyOnTick_def split: option.splits)
  have "same_shape s (s\<lparr>decisionBatcher := b'\<rparr>)" by (simp add: same_shape_def)
  then show ?thesis using f
    by (rule fold_opt_invariant [where P = "same_shape s", rotated]) (auto simp: same_shape_def dest: decide_id_max)
qed

lemma post_deletion_max:
  "post_deletion i s = Some s' \<Longrightarrow> maxNumTraces s' = maxNumTraces s \<and> policies s' = policies s"
proof (induction i s rule: post_deletion.induct)
  case (1 i s)
  then show ?case
    by (cases "length (deleteChan s) < maxNumTraces s")
      (auto simp: post_deletion.simps [of i s] dropTrace_def split: list.splits option.splits)
qed

lemma step_max: "step s s' \<Longrightarrow> same_shape s s'"
proof (induction rule: step.induct)
  case (step_receive rss i spans s s')
  then obtain s1 where l: "load_or_store i (int (length spans)) s = Some s1" and s': "s' = deliver rss i spans s1"
    by (auto simp: receive_def)
  from l have "maxNumTraces s1 = maxNumTraces s \<and> policies s1 = policies s"
    by (auto simp: load_or_store_def split: option.splits dest!: post_deletion_max)
  then show ?case by (auto simp: same_shape_def deliver_def s' split: option.splits)
qed (auto dest: tick_max simp: same_shape_def)

lemma reachable_max: "reachable s0 s \<Longrightarrow> same_shape s0 s"
  by (induction rule: reachable.induct) (auto dest!: step_max simp: same_shape_def)

text \<open>
  C2. The processor never holds more traces than configured, whatever spans arrive, however they
  interleave with the ticks and the batcher: in every reachable state the map has at most
  \<open>NumTraces\<close> entries, and the counter reported as a metric is their exact number.
\<close>

theorem tsp_memory_bound:
  assumes "newTracesProcessor sort_base sort_groups numCPU cfg = Inr s0"
    and "NumTraces cfg < 2 ^ 63" and "reachable s0 s"
  shows "card (dom (idToTrace s)) \<le> NumTraces cfg \<and> unat (numTracesOnMap s) = card (dom (idToTrace s))"
proof -
  have "tsp_inv s" using reachable_inv [OF assms(3)] newTracesProcessor_inv [OF assms(1,2)] by blast
  moreover from this have "card (dom (idToTrace s)) = length (deleteChan s)"
    by (metis distinct_card tsp_inv_def)
  moreover have "maxNumTraces s = NumTraces cfg"
    using reachable_max [OF assms(3)] assms(1)
    by (auto simp: same_shape_def newTracesProcessor_def split: if_splits sum.splits)
  ultimately show ?thesis by (simp add: tsp_inv_def)
qed

section \<open>Ticks and receives do not get stuck\<close>

lemma decide_loop_total:
  "length (Decisions trace) = k + length ps \<Longrightarrow> decide_loop D i k ps trace \<noteq> None"
proof (induction ps arbitrary: k trace)
  case (Cons p ps)
  obtain r ev' where ev: "Evaluate D i trace (pol_evaluator p) = (r, ev')"
    by (cases "Evaluate D i trace (pol_evaluator p)")
  let ?d = "case r of Inl e \<Rightarrow> Unspecified | Inr d \<Rightarrow> d"
  have "decide_loop D i (Suc k) ps (trace\<lparr>Decisions := (Decisions trace)[k := ?d]\<rparr>) \<noteq> None"
    using Cons.prems by (intro Cons.IH) simp
  with ev Cons.prems show ?case by (auto simp: Let_def)
qed simp

lemma decide_id_total:
  assumes "tsp_inv s"
  shows "decide_id D i s \<noteq> None"
proof (cases "idToTrace s i")
  case (Some trace)
  with assms have "length (Decisions trace) = 0 + length (policies s)"
    by (simp add: tsp_inv_def trace_ok_def)
  from decide_loop_total [OF this] Some show ?thesis by (simp add: decide_id_def makeDecision_def)
qed (simp add: decide_id_def)

lemma fold_decide_total: "tsp_inv s \<Longrightarrow> fold_opt (decide_id D) ids s \<noteq> None"
proof (induction ids arbitrary: s)
  case (Cons i ids)
  from decide_id_total [OF Cons.prems] obtain s' where "decide_id D i s = Some s'" by blast
  with Cons.IH [OF decide_id_inv [OF Cons.prems this]] show ?case by simp
qed simp

lemma tick_total: "tsp_inv s \<Longrightarrow> samplingPolicyOnTick D s \<noteq> None"
proof -
  assume inv: "tsp_inv s"
  then have "batcher_inv (decisionBatcher s)" by (simp add: tsp_inv_def)
  with ids.close_total obtain batch ok b' where
    c: "CloseCurrentAndTakeFirstBatch (decisionBatcher s) = Some (batch, ok, b')" by fastforce
  with ids.close_law \<open>batcher_inv (decisionBatcher s)\<close> have "batcher_inv b'" by blast
  from fold_decide_total [OF batcher_only_inv [OF inv this]] c show ?thesis
    by (simp add: samplingPolicyOnTick_def)
qed

lemma post_deletion_total: "0 < maxNumTraces s \<Longrightarrow> post_deletion i s \<noteq> None"
proof (induction i s rule: post_deletion.induct)
  case (1 i s)
  then show ?case
    by (cases "length (deleteChan s) < maxNumTraces s")
      (auto simp: post_deletion.simps [of i s] dropTrace_def split: list.splits option.splits)
qed


section \<open>Decisions\<close>

text \<open>The policies do not look at the decisions recorded so far.\<close>

lemma Evaluate_ignores_Decisions: "Evaluate D i (trace\<lparr>Decisions := ds\<rparr>) e = Evaluate D i trace e"
proof (induction e)
  case (AndP subs)
  then have "map (\<lambda>e. (e, Evaluate D i (trace\<lparr>Decisions := ds\<rparr>) e)) subs = map (\<lambda>e. (e, Evaluate D i trace e)) subs"
    by simp
  then show ?case by (simp only: Evaluate.simps)
next
  case (CompositeP subs mx sec)
  have "map (\<lambda>(e, alloc, sps). ((e, alloc, if sec \<noteq> now D then 0 else sps), Evaluate D i (trace\<lparr>Decisions := ds\<rparr>) e)) subs =
    map (\<lambda>(e, alloc, sps). ((e, alloc, if sec \<noteq> now D then 0 else sps), Evaluate D i trace e)) subs"
    using CompositeP by (fastforce intro: map_cong)
  then show ?case by (simp only: Evaluate.simps Let_def) simp
next
  case (DefaultP name sampler op filters subs)
  then have "map (\<lambda>e. (e, Evaluate D i (trace\<lparr>Decisions := ds\<rparr>) e)) filters = map (\<lambda>e. (e, Evaluate D i trace e)) filters"
    "map (\<lambda>e. (e, Evaluate D i (trace\<lparr>Decisions := ds\<rparr>) e)) subs = map (\<lambda>e. (e, Evaluate D i trace e)) subs"
    by simp_all
  with DefaultP show ?case by (simp only: Evaluate.simps)
qed (simp_all add: latency_Evaluate_def numericAttributeFilter_Evaluate_def spanCount_Evaluate_def
    statusCodeFilter_Evaluate_def traceStateFilter_Evaluate_def stringAttributeFilter_Evaluate_def
    rateLimiting_Evaluate_def Let_def)

definition definite :: "Decision \<Rightarrow> bool" where
  "definite d \<longleftrightarrow> d = Sampled \<or> d = NotSampled"

lemma decide_loop_first:
  "decide_loop D i k ps trace = Some (d, trace', ps') \<Longrightarrow>
   d = (case find definite (map (\<lambda>p. dec D i trace (pol_evaluator p)) ps) of Some d \<Rightarrow> d | None \<Rightarrow> NoResult)"
proof (induction ps arbitrary: k trace trace' ps')
  case (Cons p ps)
  obtain ev' where ev: "Evaluate D i trace (pol_evaluator p) = (Inr (dec D i trace (pol_evaluator p)), ev')"
    using Evaluate_dec [of D i trace "pol_evaluator p"] by (cases "Evaluate D i trace (pol_evaluator p)") auto
  let ?d = "dec D i trace (pol_evaluator p)"
  let ?t = "trace\<lparr>Decisions := (Decisions trace)[k := ?d]\<rparr>"
  show ?case
  proof (cases "definite ?d")
    case True
    with Cons.prems ev show ?thesis by (auto simp: definite_def Let_def split: if_splits)
  next
    case False
    with Cons.prems ev obtain t1 ps1 where "decide_loop D i (Suc k) ps ?t = Some (d, t1, ps1)"
      by (auto simp: definite_def Let_def split: if_splits)
    from Cons.IH [OF this] False show ?thesis by (simp add: dec_def Evaluate_ignores_Decisions)
  qed
qed simp

text \<open>
  C7. The processor's decision on a trace is that of the first policy, in order of priority, that
  says sampled or not sampled; a trace on which no policy has an opinion is sampled. There is always
  a decision.
\<close>

theorem makeDecision_first_policy:
  assumes "length (Decisions trace) = length ps"
  shows "\<exists>trace' ps'. makeDecision D i ps trace =
    Some (case find definite (map (\<lambda>p. dec D i trace (pol_evaluator p)) ps) of Some d \<Rightarrow> d | None \<Rightarrow> Sampled,
          trace', ps')"
proof -
  from decide_loop_total [of trace 0 ps D i] assms obtain d trace' ps' where
    l: "decide_loop D i 0 ps trace = Some (d, trace', ps')" by (auto simp: not_None_eq)
  have "d \<noteq> NoResult" if "find definite (map (\<lambda>p. dec D i trace (pol_evaluator p)) ps) = Some d" for d
    using that by (auto simp: find_Some_iff definite_def)
  with decide_loop_first [OF l] l show ?thesis
    by (auto simp: makeDecision_def split: option.splits)
qed

text \<open>
  A processor built from a configuration has no policies, because the configured ones are
  copied into an empty slice: whatever is configured, every trace it decides on is sampled.
\<close>

theorem configured_policies_are_ignored:
  assumes "newTracesProcessor sort_base sort_groups numCPU cfg = Inr s0" and "sort_groups [] = []"
    and "reachable s0 s"
  shows "makeDecision D i (policies s) trace = Some (Sampled, trace, [])"
proof -
  have "policies s0 = []" using assms(1,2)
    by (auto simp: newTracesProcessor_def go_copy_def split: if_splits sum.splits)
  then have "policies s = []" using reachable_max [OF assms(3)] by (simp add: same_shape_def)
  then show ?thesis by (simp add: makeDecision_def)
qed

section \<open>Spans\<close>

text \<open>The spans kept for an identifier.\<close>

definition kept :: "tsp \<Rightarrow> TraceID \<Rightarrow> Span list" where
  "kept s i = (case idToTrace s i of None \<Rightarrow> [] | Some trace \<Rightarrow> all_spans (ReceivedBatches trace))"

definition undecided :: "tsp \<Rightarrow> TraceID \<Rightarrow> bool" where
  "undecided s i = (case idToTrace s i of None \<Rightarrow> True | Some trace \<Rightarrow> FinalDecision trace = Unspecified)"

lemma load_or_store_keeps:
  assumes "tsp_inv s" and "load_or_store i n s = Some s'"
  shows "idToTrace s' i \<noteq> None \<and> kept s' i = kept s i \<and> undecided s' i = undecided s i \<and> sent s' = sent s"
proof (cases "idToTrace s i")
  case (Some trace)
  with assms(2) show ?thesis by (auto simp: load_or_store_def kept_def undecided_def)
next
  case None
  from None assms(2) obtain b' where add: "AddToCurrentBatch i (decisionBatcher s) = Some b'"
    and post: "post_deletion i (s\<lparr>idToTrace := (idToTrace s)(i \<mapsto> new_trace s n), decisionBatcher := b',
      numTracesOnMap := numTracesOnMap s + 1\<rparr>) = Some s'" (is "post_deletion i ?s = _")
    by (auto simp: load_or_store_def split: option.splits)
  have b': "batcher_inv b'" using ids.add_law [OF _ add] assms(1) by (simp add: tsp_inv_def)
  have "unat (numTracesOnMap s) < 2 ^ 63" using assms(1) by (simp add: tsp_inv_def)
  then have "unat (numTracesOnMap s + 1) = length (deleteChan s) + 1"
    using assms(1) by (simp add: unat_inc tsp_inv_def)
  with assms(1) None b' have "posting i ?s" by (auto simp: posting_def tsp_inv_def)
  from post_deletion_spec [OF this post] None show ?thesis
    by (simp add: kept_def undecided_def new_trace_def all_spans_def)
qed


section \<open>Concrete runs\<close>

definition span_of :: "TraceID \<Rightarrow> 64 word \<Rightarrow> Span" where
  "span_of i t = \<lparr>sp_TraceID = i, StartTimestamp = t, EndTimestamp = t + 1, sp_Attributes = (\<lambda>k. None),
     sp_Status = StatusCodeOk, sp_TraceState = []\<rparr>"

definition rs_of :: "TraceID \<Rightarrow> 64 word \<Rightarrow> ResourceSpans" where
  "rs_of i t = \<lparr>Resource = (\<lambda>k. None), ScopeSpans = [[span_of i t]]\<rparr>"

definition cfg1 :: Config where
  "cfg1 = \<lparr>DecisionWaitSeconds = 1, NumTraces = 1, PolicyCfgs = []\<rparr>"

definition tsp1 :: tsp where
  "tsp1 = \<lparr>maxNumTraces = 1, policies = [], idToTrace = (\<lambda>_. None),
     decisionBatcher = \<lparr>pendingIds = [], batches = [[]], currentBatch = [], stopped = False, batchChannelSize = 2\<rparr>,
     deleteChan = [], numTracesOnMap = 0, sent = []\<rparr>"

lemma new1: "newTracesProcessor (\<lambda>xs. xs) (\<lambda>xs. xs) 1 cfg1 = Inr tsp1"
  by (simp add: newTracesProcessor_def cfg1_def tsp1_def Validate_def batcher_New_def go_copy_def)

definition drained :: "tsp \<Rightarrow> tsp option" where
  "drained s = Some (s\<lparr>decisionBatcher := drain (decisionBatcher s)\<rparr>)"

text \<open>
  Under memory pressure a trace can be sent twice: with room for one trace, spans of a trace, of
  another one, and of the first again leave the first identifier twice in the batcher, and the tick
  that takes this batch decides and sends the same spans two times.
\<close>

theorem dropped_trace_is_sent_twice:
  "map_option (\<lambda>s. map all_spans (sent s))
     (Option.bind (receive (rs_of [1] 10) [1] [span_of [1] 10] tsp1) (\<lambda>s.
      Option.bind (receive (rs_of [2] 20) [2] [span_of [2] 20] s) (\<lambda>s.
      Option.bind (receive (rs_of [1] 30) [1] [span_of [1] 30] s) (\<lambda>s.
      Option.bind (drained s) (\<lambda>s. Option.bind (drained s) (\<lambda>s. Option.bind (drained s) (\<lambda>s.
      Option.bind (samplingPolicyOnTick deps0 s) (\<lambda>s. samplingPolicyOnTick deps0 s)))))))) =
   Some [[span_of [1] 30], [span_of [1] 30]]"
  by (simp add: receive_def load_or_store_def tsp1_def AddToCurrentBatch_def drain_def post_deletion.simps
      dropTrace_def deliver_def new_trace_def appendToTraces_def rs_of_def drained_def
      samplingPolicyOnTick_def CloseCurrentAndTakeFirstBatch_def decide_id_def makeDecision_def all_spans_def)

lemma tsp_memory_bound_witness:
  "card (dom (idToTrace tsp1)) \<le> NumTraces cfg1 \<and> unat (numTracesOnMap tsp1) = card (dom (idToTrace tsp1))"
  by (rule tsp_memory_bound [OF new1 _ reach_start]) (simp add: cfg1_def)


lemma makeDecision_first_policy_witness:
  "\<exists>trace' ps'. makeDecision deps0 [1] [\<lparr>pol_name = ''p'', pol_evaluator = NeverSampleP\<rparr>]
     (trace1\<lparr>Decisions := [Pending]\<rparr>) = Some (NotSampled, trace', ps')"
  using makeDecision_first_policy [of "trace1\<lparr>Decisions := [Pending]\<rparr>"
      "[\<lparr>pol_name = ''p'', pol_evaluator = NeverSampleP\<rparr>]" deps0 "[1]"]
  by (simp add: dec_def definite_def)

lemma configured_policies_are_ignored_witness:
  "makeDecision deps0 [1] (policies tsp1) trace1 = Some (Sampled, trace1, [])"
  by (rule configured_policies_are_ignored [OF new1 _ reach_start]) simp


end
