(* ===== verification/Go_Utf8.thy ===== *)
theory Go_Utf8
  imports Go_Prelude "HOL-Library.Sublist"
begin

text \<open>
  UTF-8 as Go's \<open>unicode/utf8\<close> has it: \<open>utf8\<close> encodes a list of runes into a string of bytes,
  \<open>runes\<close> is the conversion \<open>[]rune(s)\<close>, which reads a byte that starts no valid encoding as the
  replacement rune. The locale \<open>rune_code\<close> states what makes searching bytes the same as searching
  runes: an encoding begins with a byte that occurs nowhere else in an encoding, and this byte
  determines the length. It is interpreted for UTF-8.
\<close>

type_synonym rune = nat

definition byte :: "nat \<Rightarrow> char" where
  "byte n = char_of n"

definition valid_rune :: "rune \<Rightarrow> bool" where
  "valid_rune r \<longleftrightarrow> r < 0xD800 \<or> 0xE000 \<le> r \<and> r < 0x110000"

definition utf8_rune :: "rune \<Rightarrow> string" where
  "utf8_rune r =
     (if r < 0x80 then [byte r]
      else if r < 0x800 then [byte (0xC0 + r div 64), byte (0x80 + r mod 64)]
      else if r < 0x10000
      then [byte (0xE0 + r div 4096), byte (0x80 + r div 64 mod 64), byte (0x80 + r mod 64)]
      else [byte (0xF0 + r div 262144), byte (0x80 + r div 4096 mod 64),
            byte (0x80 + r div 64 mod 64), byte (0x80 + r mod 64)])"

definition utf8 :: "rune list \<Rightarrow> string" where
  "utf8 rs = concat (map utf8_rune rs)"

definition RuneError :: rune where
  "RuneError = 0xFFFD"

abbreviation between :: "nat \<Rightarrow> nat \<Rightarrow> nat \<Rightarrow> bool" where
  "between lo hi n \<equiv> lo \<le> n \<and> n \<le> hi"

text \<open>The second byte of a longer encoding is in a range that depends on the first: this excludes
  overlong encodings, surrogates and runes beyond the last.\<close>

definition second_ok :: "nat \<Rightarrow> nat \<Rightarrow> bool" where
  "second_ok b0 b1 =
     (if b0 = 0xE0 then between 0xA0 0xBF b1
      else if b0 = 0xED then between 0x80 0x9F b1
      else if b0 = 0xF0 then between 0x90 0xBF b1
      else if b0 = 0xF4 then between 0x80 0x8F b1
      else between 0x80 0xBF b1)"

text \<open>\<open>utf8.DecodeRune\<close> on numbers: the rune and the number of bytes read.\<close>

definition decode_rune :: "nat list \<Rightarrow> rune \<times> nat" where
  "decode_rune bs =
     (case bs of
        [] \<Rightarrow> (RuneError, 0)
      | b0 # r0 \<Rightarrow>
          if b0 < 0x80 then (b0, 1)
          else (case r0 of
             [] \<Rightarrow> (RuneError, 1)
           | b1 # r1 \<Rightarrow>
               if \<not> between 0xC2 0xF4 b0 \<or> \<not> second_ok b0 b1 then (RuneError, 1)
               else if b0 < 0xE0 then ((b0 - 0xC0) * 64 + (b1 - 0x80), 2)
               else (case r1 of
                  [] \<Rightarrow> (RuneError, 1)
                | b2 # r2 \<Rightarrow>
                    if \<not> between 0x80 0xBF b2 then (RuneError, 1)
                    else if b0 < 0xF0 then ((b0 - 0xE0) * 4096 + (b1 - 0x80) * 64 + (b2 - 0x80), 3)
                    else (case r2 of
                       [] \<Rightarrow> (RuneError, 1)
                     | b3 # r3 \<Rightarrow>
                         if \<not> between 0x80 0xBF b3 then (RuneError, 1)
                         else ((b0 - 0xF0) * 262144 + (b1 - 0x80) * 4096 + (b2 - 0x80) * 64 + (b3 - 0x80), 4)))))"

function decode_runes :: "nat list \<Rightarrow> rune list" where
  "decode_runes [] = []"
| "decode_runes (b # bs) =
     fst (decode_rune (b # bs)) # decode_runes (drop (snd (decode_rune (b # bs))) (b # bs))"
  by pat_completeness auto

lemma decode_rune_pos: "0 < snd (decode_rune (b # bs))"
  by (simp add: decode_rune_def split: list.splits)

termination decode_runes
proof (relation "measure length")
  fix b :: nat and bs
  have "length (drop (snd (decode_rune (b # bs))) (b # bs)) < length (b # bs)"
    using decode_rune_pos [of b bs] unfolding length_drop by simp
  then show "(drop (snd (decode_rune (b # bs))) (b # bs), b # bs) \<in> measure length" by simp
qed simp

definition runes :: "string \<Rightarrow> rune list" where
  "runes s = decode_runes (map of_char s)"

text \<open>\<open>strings.TrimSpace\<close>: the encodings of the runes of \<open>unicode.IsSpace\<close> are removed at both ends.\<close>

definition space_runes :: "rune list" where
  "space_runes = [9, 10, 11, 12, 13, 32, 0x85, 0xA0, 0x1680] @ [0x2000..<0x200B] @ [0x2028, 0x2029, 0x202F, 0x205F, 0x3000]"

fun strip :: "nat \<Rightarrow> string list \<Rightarrow> string \<Rightarrow> string" where
  "strip 0 ws s = s"
| "strip (Suc n) ws s =
     (case List.find (\<lambda>w. take (length w) s = w) ws of None \<Rightarrow> s | Some w \<Rightarrow> strip n ws (drop (length w) s))"

definition TrimSpace :: "string \<Rightarrow> string" where
  "TrimSpace s =
     (let ws = map utf8_rune space_runes; s = strip (length s) ws s
      in rev (strip (length s) (map rev ws) (rev s)))"

section \<open>Decoding what was encoded\<close>

lemma of_char_byte [simp]: "of_char (byte n) = n mod 256"
  by (simp add: byte_def)

lemma decode_utf8_rune:
  assumes "valid_rune r"
  shows "decode_rune (map of_char (utf8_rune r) @ bs) = (r, length (utf8_rune r))"
proof -
  consider "r < 0x80" | "0x80 \<le> r" "r < 0x800" | "0x800 \<le> r" "r < 0x10000" | "0x10000 \<le> r" "r < 0x110000"
    using assms unfolding valid_rune_def by linarith
  then show ?thesis
  proof cases
    case 2
    define a b where "a = r div 64" and "b = r mod 64"
    have r: "r = a * 64 + b" unfolding a_def b_def by presburger
    have lt: "2 \<le> a" "a < 32" "b < 64" using 2 unfolding a_def b_def by auto
    have e: "utf8_rune r = [byte (0xC0 + a), byte (0x80 + b)]" using 2 by (simp add: utf8_rune_def a_def b_def)
    show ?thesis using lt unfolding e by (simp add: decode_rune_def second_ok_def r)
  next
    case 3
    define a b c where "a = r div 4096" and "b = r div 64 mod 64" and "c = r mod 64"
    have "a = r div 64 div 64" unfolding a_def by (simp add: div_mult2_eq [symmetric])
    then have r: "r = a * 4096 + b * 64 + c"
      using div_mult_mod_eq [of r 64] div_mult_mod_eq [of "r div 64" 64] unfolding b_def c_def by linarith
    have lt: "a < 16" "b < 64" "c < 64" using 3 unfolding a_def b_def c_def by auto
    have "a = 0 \<Longrightarrow> 32 \<le> b" "a = 13 \<Longrightarrow> b \<le> 31"
      using assms 3 lt unfolding r valid_rune_def by auto
    moreover have "utf8_rune r = [byte (0xE0 + a), byte (0x80 + b), byte (0x80 + c)]"
      using 3 by (simp add: utf8_rune_def a_def b_def c_def)
    ultimately show ?thesis using lt by (simp add: decode_rune_def second_ok_def r)
  next
    case 4
    define a b c d where "a = r div 262144" and "b = r div 4096 mod 64" and "c = r div 64 mod 64" and "d = r mod 64"
    have "a = r div 64 div 64 div 64" "b = r div 64 div 64 mod 64"
      unfolding a_def b_def by (simp_all add: div_mult2_eq [symmetric])
    then have r: "r = a * 262144 + b * 4096 + c * 64 + d"
      using div_mult_mod_eq [of r 64] div_mult_mod_eq [of "r div 64" 64] div_mult_mod_eq [of "r div 64 div 64" 64]
      unfolding c_def d_def by linarith
    have lt: "a < 5" "b < 64" "c < 64" "d < 64" using 4 unfolding a_def b_def c_def d_def by auto
    have "a = 0 \<Longrightarrow> 16 \<le> b" "a = 4 \<Longrightarrow> b \<le> 15"
      using assms 4 lt unfolding r valid_rune_def by auto
    moreover have "utf8_rune r = [byte (0xF0 + a), byte (0x80 + b), byte (0x80 + c), byte (0x80 + d)]"
      using 4 by (simp add: utf8_rune_def a_def b_def c_def d_def)
    ultimately show ?thesis using lt by (simp add: decode_rune_def second_ok_def r)
  qed (simp add: decode_rune_def utf8_rune_def)
qed

lemma utf8_simps [simp]: "utf8 [] = []" "utf8 (r # rs) = utf8_rune r @ utf8 rs"
  by (simp_all add: utf8_def)

lemma utf8_append [simp]: "utf8 (xs @ ys) = utf8 xs @ utf8 ys"
  by (simp add: utf8_def)

lemma decode_utf8: "list_all valid_rune rs \<Longrightarrow> decode_runes (map of_char (utf8 rs)) = rs"
proof (induction rs)
  case (Cons r rs)
  let ?e = "map of_char (utf8_rune r) @ map of_char (utf8 rs) :: nat list"
  obtain b bs where e: "?e = b # bs" by (cases ?e) (auto simp: utf8_rune_def split: if_splits)
  have d: "decode_rune (b # bs) = (r, length (utf8_rune r))"
    using decode_utf8_rune [of r "map of_char (utf8 rs)"] Cons.prems e by simp
  have "decode_runes ?e = r # decode_runes (drop (length (utf8_rune r)) ?e)"
    unfolding e decode_runes.simps d fst_conv snd_conv ..
  then show ?case using Cons by simp
qed simp

lemma runes_utf8: "list_all valid_rune rs \<Longrightarrow> runes (utf8 rs) = rs"
  by (simp add: runes_def decode_utf8)

section \<open>Searching encoded text\<close>

locale rune_code =
  fixes enc :: "'r \<Rightarrow> 'b list" and start :: "'b \<Rightarrow> bool" and ok :: "'r \<Rightarrow> bool"
  assumes enc_not_Nil: "enc r \<noteq> []"
    and start_hd: "ok r \<Longrightarrow> start (hd (enc r))"
    and start_tl: "ok r \<Longrightarrow> b \<in> set (tl (enc r)) \<Longrightarrow> \<not> start b"
    and same_hd: "ok r \<Longrightarrow> ok r' \<Longrightarrow> hd (enc r) = hd (enc r') \<Longrightarrow> length (enc r) = length (enc r')"
    and enc_inj: "ok r \<Longrightarrow> ok r' \<Longrightarrow> enc r = enc r' \<Longrightarrow> r = r'"
begin

lemma boundary:
  assumes "list_all ok ys" "concat (map enc ys) = u @ v" "v = [] \<or> start (hd v)"
  shows "\<exists>a b. ys = a @ b \<and> u = concat (map enc a) \<and> v = concat (map enc b)"
  using assms
proof (induction ys arbitrary: u)
  case (Cons y ys)
  show ?case
  proof (cases "u = [] \<or> v = []")
    case True
    then show ?thesis
    proof
      assume "u = []"
      with Cons.prems show ?thesis by (intro exI [of _ "[]"] exI [of _ "y # ys"]) simp
    next
      assume "v = []"
      with Cons.prems show ?thesis by (intro exI [of _ "y # ys"] exI [of _ "[]"]) simp
    qed
  next
    case False
    obtain h t where y: "enc y = h # t" using enc_not_Nil by (cases "enc y") auto
    from False Cons.prems(2) y obtain u' where u: "u = h # u'" "t @ concat (map enc ys) = u' @ v"
      by (cases u) auto
    from u(2) obtain us where "t = u' @ us \<and> us @ concat (map enc ys) = v \<or> t @ us = u' \<and> concat (map enc ys) = us @ v"
      unfolding append_eq_append_conv2 by blast
    then consider us where "u' = t @ us" "concat (map enc ys) = us @ v"
      | "us \<noteq> []" "t = u' @ us" "us @ concat (map enc ys) = v"
      by (cases "us = []") auto
    then show ?thesis
    proof cases
      case 1
      with Cons obtain a b where "ys = a @ b" "us = concat (map enc a)" "v = concat (map enc b)" by auto
      with 1 u y show ?thesis by (intro exI [of _ "y # a"] exI [of _ b]) simp
    next
      case 2
      then have "hd v \<in> set (tl (enc y))" using y by (cases us) auto
      with start_tl [of y "hd v"] Cons.prems(1,3) False show ?thesis by auto
    qed
  qed
qed simp

lemma start_of: "list_all ok xs \<Longrightarrow> concat (map enc xs) = [] \<or> start (hd (concat (map enc xs)))"
  using start_hd enc_not_Nil by (cases xs) (auto simp: hd_append)

lemma prefix_free:
  assumes "list_all ok xs" "list_all ok ys" "concat (map enc ys) = concat (map enc xs) @ w"
  shows "\<exists>c. ys = xs @ c \<and> w = concat (map enc c)"
  using assms
proof (induction xs arbitrary: ys)
  case (Cons x xs)
  obtain y ys' where ys: "ys = y # ys'" using Cons.prems(3) enc_not_Nil by (cases ys) auto
  have "hd (enc y) = hd (enc x)"
    using Cons.prems(3) ys enc_not_Nil by (metis append_is_Nil_conv concat.simps(2) hd_append2 list.simps(9))
  then have "length (enc y) = length (enc x)" using same_hd Cons.prems ys by auto
  then have "enc y = enc x" "concat (map enc ys') = concat (map enc xs) @ w"
    using Cons.prems(3) ys by auto
  moreover from this have "y = x" using enc_inj Cons.prems ys by auto
  ultimately show ?case using Cons.IH [of ys'] Cons.prems ys by auto
qed simp

lemma occurrence:
  assumes "list_all ok xs" "list_all ok ys" "xs \<noteq> []" "concat (map enc ys) = u @ concat (map enc xs) @ w"
  shows "\<exists>a c. ys = a @ xs @ c \<and> u = concat (map enc a) \<and> w = concat (map enc c)"
proof -
  have "start (hd (concat (map enc xs) @ w))"
    using start_of [OF assms(1)] enc_not_Nil assms(3) by (cases xs) auto
  with boundary [OF assms(2), of u "concat (map enc xs) @ w"] assms(4) obtain a b where
    ab: "ys = a @ b" "u = concat (map enc a)" "concat (map enc xs) @ w = concat (map enc b)" by auto
  then obtain c where "b = xs @ c" "w = concat (map enc c)"
    using prefix_free [of xs b w] assms by auto
  with ab show ?thesis by auto
qed

lemma prefix_iff:
  assumes "list_all ok xs" "list_all ok ys"
  shows "prefix (concat (map enc xs)) (concat (map enc ys)) \<longleftrightarrow> prefix xs ys"
  using prefix_free [OF assms] by (auto simp: prefix_def)

lemma sublist_iff:
  assumes "list_all ok xs" "list_all ok ys"
  shows "sublist (concat (map enc xs)) (concat (map enc ys)) \<longleftrightarrow> sublist xs ys"
proof (cases "xs = []")
  case False
  show ?thesis
  proof
    assume "sublist (concat (map enc xs)) (concat (map enc ys))"
    then obtain u w where "concat (map enc ys) = u @ concat (map enc xs) @ w" by (auto simp: sublist_def)
    from occurrence [OF assms False this] show "sublist xs ys" by (auto simp: sublist_def)
  next
    assume "sublist xs ys"
    then obtain a c where "ys = a @ xs @ c" by (auto simp: sublist_def)
    then have "concat (map enc ys) = concat (map enc a) @ concat (map enc xs) @ concat (map enc c)" by simp
    then show "sublist (concat (map enc xs)) (concat (map enc ys))" unfolding sublist_def by blast
  qed
qed simp

text \<open>A text that begins and ends with two others that do not overlap.\<close>

lemma ends_iff:
  assumes "list_all ok xs" "list_all ok zs" "list_all ok ys"
  shows "(\<exists>m. concat (map enc ys) = concat (map enc xs) @ m @ concat (map enc zs)) \<longleftrightarrow> (\<exists>m. ys = xs @ m @ zs)"
proof
  assume "\<exists>m. concat (map enc ys) = concat (map enc xs) @ m @ concat (map enc zs)"
  then obtain m where m: "concat (map enc ys) = concat (map enc xs) @ m @ concat (map enc zs)" ..
  from prefix_free [OF assms(1,3) this] obtain c where
    c: "ys = xs @ c" "m @ concat (map enc zs) = concat (map enc c)" by auto
  from boundary [of c m "concat (map enc zs)"] start_of [OF assms(2)] c assms(3) obtain a b where
    ab: "c = a @ b" "concat (map enc b) = concat (map enc zs)" by auto
  from prefix_free [of zs b "[]"] ab(2) assms(2,3) c(1) ab(1) obtain d where
    d: "b = zs @ d" "[] = concat (map enc d)" by auto
  then have "b = zs" using enc_not_Nil by (cases d) auto
  with c ab show "\<exists>m. ys = xs @ m @ zs" by auto
qed auto

end

lemma hd_utf8_rune:
  "valid_rune r \<Longrightarrow> of_char (hd (utf8_rune r)) =
     (if r < 0x80 then r else if r < 0x800 then 0xC0 + r div 64
      else if r < 0x10000 then 0xE0 + r div 4096 else 0xF0 + r div 262144)"
  by (auto simp: utf8_rune_def valid_rune_def)

interpretation utf8: rune_code utf8_rune "\<lambda>c. \<not> between 0x80 0xBF (of_char c)" valid_rune
proof
  fix r r' :: rune and b
  show "utf8_rune r \<noteq> []" by (simp add: utf8_rune_def)
  show "\<not> between 0x80 0xBF (of_char (hd (utf8_rune r)))" if "valid_rune r"
    using that by (simp add: hd_utf8_rune)
  show "\<not> \<not> between 0x80 0xBF (of_char b)" if "valid_rune r" "b \<in> set (tl (utf8_rune r))"
    using that by (auto simp: utf8_rune_def split: if_splits)
  show "length (utf8_rune r) = length (utf8_rune r')"
    if "valid_rune r" "valid_rune r'" "hd (utf8_rune r) = hd (utf8_rune r')"
    using that hd_utf8_rune [of r] hd_utf8_rune [of r']
    by (auto simp: utf8_rune_def valid_rune_def split: if_splits)
  show "r = r'" if "valid_rune r" "valid_rune r'" "utf8_rune r = utf8_rune r'"
    using that decode_utf8_rune [of r "[]"] decode_utf8_rune [of r' "[]"] by simp
qed

text \<open>The same, for encoded strings.\<close>

lemma utf8_prefix:
  "list_all valid_rune xs \<Longrightarrow> list_all valid_rune ys \<Longrightarrow> prefix (utf8 xs) (utf8 ys) \<longleftrightarrow> prefix xs ys"
  by (simp add: utf8_def utf8.prefix_iff)

lemma utf8_sublist:
  "list_all valid_rune xs \<Longrightarrow> list_all valid_rune ys \<Longrightarrow> sublist (utf8 xs) (utf8 ys) \<longleftrightarrow> sublist xs ys"
  by (simp add: utf8_def utf8.sublist_iff)

lemma utf8_ends:
  "list_all valid_rune xs \<Longrightarrow> list_all valid_rune zs \<Longrightarrow> list_all valid_rune ys \<Longrightarrow>
     (\<exists>m. utf8 ys = utf8 xs @ m @ utf8 zs) \<longleftrightarrow> (\<exists>m. ys = xs @ m @ zs)"
  by (simp add: utf8_def utf8.ends_iff)

lemma utf8_suffix:
  "list_all valid_rune xs \<Longrightarrow> list_all valid_rune ys \<Longrightarrow> suffix (utf8 xs) (utf8 ys) \<longleftrightarrow> suffix xs ys"
  using utf8_ends [of "[]" xs ys] by (simp add: suffix_def)

lemma utf8_inj:
  "list_all valid_rune xs \<Longrightarrow> list_all valid_rune ys \<Longrightarrow> utf8 xs = utf8 ys \<longleftrightarrow> xs = ys"
  by (metis runes_utf8)

end
