(* ===== verification/Stanza_Like.thy ===== *)
theory Stanza_Like
  imports Go_Utf8
begin

text \<open>
  The \<open>like\<close> function of the pipeline's expressions (\<open>stanza/operator/helper/like.go\<close>): a pattern is
  compiled into a string operation when it has no single-character wildcard and at most one inner
  \<open>%\<close>, and into a regular expression otherwise. Patterns and subjects are strings of bytes, as in the
  source; the pattern is walked rune by rune. The theorem compares every tier with one reference
  definition of LIKE over runes.

  The part of Go's regular expressions that \<open>likePatternToRegexp\<close> writes is \<open>regexp_Compile\<close> and
  \<open>MatchString\<close>: \<open>(?s)^\<close>, then \<open>.*\<close>, \<open>.\<close>, escaped and plain runes, then \<open>$\<close>.
\<close>

abbreviation percent :: rune where "percent \<equiv> 0x25"
abbreviation underscore :: rune where "underscore \<equiv> 0x5F"
abbreviation backslash :: rune where "backslash \<equiv> 0x5C"

section \<open>Classifying a pattern\<close>

datatype patternKind =
  kindNoWildcards | kindPrefix | kindSuffix | kindContains | kindPrefixSuffix | kindRegexp

text \<open>The two builders; \<open>cur\<close> points to the right one as soon as an inner \<open>%\<close> was seen.\<close>

record like_walk =
  left :: "rune list"
  right :: "rune list"
  middlePct :: bool

definition WriteRune :: "rune \<Rightarrow> like_walk \<Rightarrow> like_walk" where
  "WriteRune c w = (if middlePct w then w\<lparr>right := right w @ [c]\<rparr> else w\<lparr>left := left w @ [c]\<rparr>)"

text \<open>The loop from index \<open>i\<close> on; \<open>None\<close> is the early return of \<open>kindRegexp\<close>.\<close>

fun walk :: "nat \<Rightarrow> bool \<Rightarrow> nat \<Rightarrow> rune list \<Rightarrow> like_walk \<Rightarrow> like_walk option" where
  "walk n trailingPct i [] w = Some w"
| "walk n trailingPct i (ch # rest) w =
     (if ch = underscore then None
      else if ch = backslash \<and> i + 1 < n
      then (case rest of
              [] \<Rightarrow> Some w
            | c # rest' \<Rightarrow> walk n trailingPct (i + 2) rest' (WriteRune c w))
      else if ch = percent
      then (if i = 0 \<or> i = n - 1 \<and> trailingPct then walk n trailingPct (i + 1) rest w
            else if \<not> middlePct w then walk n trailingPct (i + 1) rest (w\<lparr>middlePct := True\<rparr>)
            else None)
      else walk n trailingPct (i + 1) rest (WriteRune ch w))"

definition parseLikePattern :: "rune list \<Rightarrow> patternKind \<times> rune list \<times> rune list" where
  "parseLikePattern rs =
     (let n = length rs;
          leadingPct = (n > 0 \<and> rs ! 0 = percent);
          trailingPct = (n > 0 \<and> rs ! (n - 1) = percent \<and> (n \<le> 1 \<or> rs ! (n - 2) \<noteq> backslash))
      in case walk n trailingPct 0 rs \<lparr>left = [], right = [], middlePct = False\<rparr> of
           None \<Rightarrow> (kindRegexp, [], [])
         | Some w \<Rightarrow>
             if middlePct w
             then (if leadingPct \<or> trailingPct then (kindRegexp, [], [])
                   else (kindPrefixSuffix, left w, right w))
             else if leadingPct \<and> trailingPct then (kindContains, left w, [])
             else if leadingPct then (kindSuffix, left w, [])
             else if trailingPct then (kindPrefix, left w, [])
             else (kindNoWildcards, left w, []))"

section \<open>The regular expression\<close>

definition ascii :: "string \<Rightarrow> rune list" where
  "ascii s = map of_char s"

text \<open>\<open>regexp.QuoteMeta\<close> of one rune.\<close>

definition special :: "rune \<Rightarrow> bool" where
  "special c \<longleftrightarrow> c \<in> set (backslash # ascii ''.+*?()|[]{}^$'')"

definition QuoteMeta :: "rune \<Rightarrow> rune list" where
  "QuoteMeta c = (if special c then [backslash, c] else [c])"

fun pattern_regexp :: "rune list \<Rightarrow> rune list" where
  "pattern_regexp [] = []"
| "pattern_regexp (ch # rest) =
     (if ch = percent then ascii ''.*'' @ pattern_regexp rest
      else if ch = underscore then ascii ''.'' @ pattern_regexp rest
      else if ch = backslash
      then (case rest of
              c # rest' \<Rightarrow> QuoteMeta c @ pattern_regexp rest'
            | [] \<Rightarrow> [backslash, backslash])
      else QuoteMeta ch @ pattern_regexp rest)"

definition likePatternToRegexp :: "rune list \<Rightarrow> rune list" where
  "likePatternToRegexp rs = ascii ''(?s)^'' @ pattern_regexp rs @ ascii ''$''"

datatype re_item = ReRune rune | ReAny | ReAnyStar

definition alnum :: "rune \<Rightarrow> bool" where
  "alnum c \<longleftrightarrow> between 0x30 0x39 c \<or> between 0x41 0x5A c \<or> between 0x61 0x7A c"

text \<open>The items up to the closing \<open>$\<close>. A backslash quotes an ASCII rune that is no letter and no
  digit; what lies outside the fragment is \<open>None\<close>.\<close>

fun re_items :: "rune list \<Rightarrow> re_item list option" where
  "re_items [] = None"
| "re_items (c # cs) =
     (if c = 0x24 then (if cs = [] then Some [] else None)
      else if c = 0x2E
      then (case cs of
              d # cs' \<Rightarrow>
                if d = 0x2A then map_option (Cons ReAnyStar) (re_items cs')
                else map_option (Cons ReAny) (re_items cs)
            | [] \<Rightarrow> None)
      else if c = backslash
      then (case cs of
              d # cs' \<Rightarrow> if d < 0x80 \<and> \<not> alnum d then map_option (Cons (ReRune d)) (re_items cs') else None
            | [] \<Rightarrow> None)
      else if special c then None
      else map_option (Cons (ReRune c)) (re_items cs))"

definition regexp_Compile :: "rune list \<Rightarrow> re_item list option" where
  "regexp_Compile rs =
     (if take 5 rs = ascii ''(?s)^'' then re_items (drop 5 rs) else None)"

fun re_match :: "re_item list \<Rightarrow> rune list \<Rightarrow> bool" where
  "re_match [] s \<longleftrightarrow> s = []"
| "re_match (ReRune c # p) s \<longleftrightarrow> s \<noteq> [] \<and> hd s = c \<and> re_match p (drop 1 s)"
| "re_match (ReAny # p) s \<longleftrightarrow> s \<noteq> [] \<and> re_match p (drop 1 s)"
| "re_match (ReAnyStar # p) s \<longleftrightarrow> list_ex (\<lambda>n. re_match p (drop n s)) [0..<Suc (length s)]"

definition MatchString :: "re_item list \<Rightarrow> string \<Rightarrow> bool" where
  "MatchString re s = re_match re (runes s)"

section \<open>Compiling a pattern\<close>

definition compileLike :: "string \<Rightarrow> (string \<Rightarrow> bool) option" where
  "compileLike pattern =
     (case parseLikePattern (runes pattern) of (kind, l1, l2) \<Rightarrow>
        let lit1 = utf8 l1; lit2 = utf8 l2 in
        (case kind of
           kindNoWildcards \<Rightarrow> Some (\<lambda>s. s = lit1)
         | kindPrefix \<Rightarrow> Some (\<lambda>s. prefix lit1 s)
         | kindSuffix \<Rightarrow> Some (\<lambda>s. suffix lit1 s)
         | kindContains \<Rightarrow> Some (\<lambda>s. contains s lit1)
         | kindPrefixSuffix \<Rightarrow>
             Some (\<lambda>s. length s \<ge> length lit1 + length lit2 \<and> prefix lit1 s \<and> suffix lit2 s)
         | kindRegexp \<Rightarrow>
             (case regexp_Compile (likePatternToRegexp (runes pattern)) of
                None \<Rightarrow> None
              | Some re \<Rightarrow> Some (MatchString re))))"

section \<open>LIKE\<close>

text \<open>The reference: a pattern is a list of tokens, \<open>\\\<close> quotes the next rune and is itself at the end.\<close>

datatype like_token = Rune rune | One | Many

fun like_tokens :: "rune list \<Rightarrow> like_token list" where
  "like_tokens [] = []"
| "like_tokens [c] =
     [if c = percent then Many else if c = underscore then One else Rune c]"
| "like_tokens (c # d # rest) =
     (if c = backslash then Rune d # like_tokens rest
      else (if c = percent then Many else if c = underscore then One else Rune c) # like_tokens (d # rest))"

fun like :: "like_token list \<Rightarrow> rune list \<Rightarrow> bool" where
  "like [] s \<longleftrightarrow> s = []"
| "like (Rune c # p) s \<longleftrightarrow> (case s of [] \<Rightarrow> False | d # s' \<Rightarrow> c = d \<and> like p s')"
| "like (One # p) s \<longleftrightarrow> (case s of [] \<Rightarrow> False | d # s' \<Rightarrow> like p s')"
| "like (Many # p) s \<longleftrightarrow> like p s \<or> (case s of [] \<Rightarrow> False | d # s' \<Rightarrow> like (Many # p) s')"

lemma like_Rune: "like (Rune c # p) s \<longleftrightarrow> (\<exists>s'. s = c # s' \<and> like p s')"
  by (cases s) auto

lemma like_One: "like (One # p) s \<longleftrightarrow> (\<exists>d s'. s = d # s' \<and> like p s')"
  by (cases s) auto

lemma like_Many_Cons: "like (Many # p) s \<longleftrightarrow> (\<exists>u v. s = u @ v \<and> like p v)"
proof (induction s)
  case (Cons d s)
  have "like (Many # p) (d # s) \<longleftrightarrow> like p (d # s) \<or> (\<exists>u v. s = u @ v \<and> like p v)"
    using Cons.IH by simp
  then show ?case by (auto simp: Cons_eq_append_conv)
qed simp

declare like.simps(2-4) [simp del]

lemma like_append: "like (p @ q) s \<longleftrightarrow> (\<exists>u v. s = u @ v \<and> like p u \<and> like q v)"
proof (induction p arbitrary: s)
  case Nil
  then show ?case by simp
next
  case (Cons t p)
  show ?case
  proof (cases t)
    case Many
    have "like ((t # p) @ q) s \<longleftrightarrow> (\<exists>x u v. s = x @ u @ v \<and> like p u \<and> like q v)"
      by (simp add: Many like_Many_Cons Cons.IH) blast
    also have "\<dots> \<longleftrightarrow> (\<exists>u v. s = u @ v \<and> like (t # p) u \<and> like q v)"
      by (simp add: Many like_Many_Cons) (metis append.assoc)
    finally show ?thesis .
  qed (simp_all add: like_Rune like_One Cons.IH, (metis append_Cons)+)
qed

lemma like_Runes: "like (map Rune l) s \<longleftrightarrow> s = l"
  by (induction l arbitrary: s) (auto simp: like_Rune)

lemma like_Many: "like [Many] s"
  by (simp add: like_Many_Cons)

lemma like_tiers:
  "like (map Rune l @ [Many]) s \<longleftrightarrow> prefix l s"
  "like (Many # map Rune l) s \<longleftrightarrow> suffix l s"
  "like (Many # map Rune l @ [Many]) s \<longleftrightarrow> sublist l s"
  "like (map Rune l @ Many # map Rune r) s \<longleftrightarrow> (\<exists>m. s = l @ m @ r)"
  using like_append [of "map Rune l" "[Many]" s] like_append [of "[Many]" "map Rune l" s]
    like_append [of "[Many]" "map Rune l @ [Many]" s] like_append [of "map Rune l" "[Many]"]
    like_append [of "map Rune l" "[Many] @ map Rune r" s] like_append [of "[Many]" "map Rune r"]
  by (auto simp: like_Runes like_Many prefix_def suffix_def sublist_def)

section \<open>The regular expression matches LIKE\<close>

fun item :: "like_token \<Rightarrow> re_item" where
  "item (Rune c) = ReRune c"
| "item One = ReAny"
| "item Many = ReAnyStar"

lemma re_items_QuoteMeta: "re_items (QuoteMeta c @ cs) = map_option (Cons (ReRune c)) (re_items cs)"
  by (auto simp: QuoteMeta_def special_def ascii_def alnum_def)

lemma pattern_regexp_no_star: "hd (pattern_regexp rs @ [0x24]) \<noteq> 0x2A \<and> pattern_regexp rs @ [0x24] \<noteq> []"
  by (cases rs) (auto simp: ascii_def QuoteMeta_def special_def split: list.splits)

lemma re_items_dot:
  "cs \<noteq> [] \<Longrightarrow> hd cs \<noteq> 0x2A \<Longrightarrow> re_items (0x2E # cs) = map_option (Cons ReAny) (re_items cs)"
  by (cases cs) auto

lemma re_items_dot_star: "re_items (0x2E # 0x2A # cs) = map_option (Cons ReAnyStar) (re_items cs)"
  by simp

lemma re_items_pattern: "re_items (pattern_regexp rs @ [0x24]) = Some (map item (like_tokens rs))"
proof (induction rs rule: like_tokens.induct)
  case (2 c)
  then show ?case
    using pattern_regexp_no_star [of "[]"] by (auto simp: ascii_def alnum_def re_items_QuoteMeta)
next
  case (3 c d rest)
  then show ?case
    using pattern_regexp_no_star [of "d # rest"]
    by (auto simp del: re_items.simps simp: re_items_dot_star re_items_dot re_items_QuoteMeta ascii_def)
qed simp

lemma re_match_like: "re_match (map item p) s \<longleftrightarrow> like p s"
proof (induction p arbitrary: s)
  case (Cons t p)
  show ?case
  proof (cases t)
    case Many
    have "(\<exists>n<Suc (length s). like p (drop n s)) \<longleftrightarrow> (\<exists>u v. s = u @ v \<and> like p v)"
      by (metis append_eq_conv_conj append_take_drop_id le_imp_less_Suc length_append le_add1)
    then show ?thesis
      by (simp add: Many Cons.IH like_Many_Cons list_ex_iff Bex_def del: upt_Suc)
  qed (cases s; auto simp: Cons.IH like_Rune like_One)+
qed simp

lemma regexp_tier:
  "\<exists>re. regexp_Compile (likePatternToRegexp rs) = Some re \<and> (\<forall>s. re_match re s \<longleftrightarrow> like (like_tokens rs) s)"
  using re_items_pattern [of rs]
  by (auto simp: regexp_Compile_def likePatternToRegexp_def ascii_def re_match_like)

section \<open>The walk\<close>

definition tokens_of :: "like_walk \<Rightarrow> like_token list" where
  "tokens_of w = map Rune (left w) @ (if middlePct w then Many # map Rune (right w) else [])"

lemma tokens_WriteRune:
  "(middlePct w \<or> right w = []) \<Longrightarrow> tokens_of (WriteRune c w) = tokens_of w @ [Rune c]"
  by (auto simp: tokens_of_def WriteRune_def)

lemma WriteRune_right: "middlePct w \<or> right w = [] \<Longrightarrow> middlePct (WriteRune c w) \<or> right (WriteRune c w) = []"
  by (auto simp: WriteRune_def)

text \<open>An unescaped \<open>%\<close> ends the rest of the pattern.\<close>

definition ends_pct :: "rune list \<Rightarrow> bool" where
  "ends_pct rs \<longleftrightarrow> rs \<noteq> [] \<and> last rs = percent \<and> (length rs \<le> 1 \<or> rs ! (length rs - 2) \<noteq> backslash)"

lemma ends_pct_Cons: "ends_pct (c # d # rs) \<longleftrightarrow> (if rs = [] then d = percent \<and> c \<noteq> backslash else ends_pct (d # rs))"
  by (cases rs) (auto simp: ends_pct_def nth_Cons split: nat.splits)

lemma ends_pct_single [simp]: "ends_pct [c] \<longleftrightarrow> c = percent"
  by (simp add: ends_pct_def)

lemma like_tokens_Cons:
  "c \<noteq> backslash \<or> rs = [] \<Longrightarrow>
    like_tokens (c # rs) = (if c = percent then Many else if c = underscore then One else Rune c) # like_tokens rs"
  by (cases rs) auto

lemma walk_tokens:
  assumes "walk n t i rs w = Some w'" "0 < i \<or> hd rs \<noteq> percent" "i + length rs = n" "middlePct w \<or> right w = []"
    "t \<longrightarrow> rs = [] \<or> ends_pct rs"
  shows "tokens_of w @ like_tokens rs = tokens_of w' @ (if t \<and> rs \<noteq> [] then [Many] else [])"
  using assms
proof (induction n t i rs w rule: walk.induct)
  case (1 n t i w)
  then show ?case by simp
next
  case (2 n t i ch rest w)
  have tl: "t \<longrightarrow> rest = [] \<or> ends_pct rest"
    using "2.prems"(5) by (cases rest) (auto simp: ends_pct_Cons ends_pct_def split: if_splits)
  have not1: "ch \<noteq> underscore" using "2.prems"(1) by auto
  show ?case
  proof (cases "ch = backslash \<and> rest \<noteq> []")
    case True
    then obtain c rest' where r: "rest = c # rest'" by (cases rest) auto
    have "t \<longrightarrow> rest' \<noteq> [] \<and> ends_pct rest'"
      using "2.prems"(5) True by (cases rest') (auto simp: r ends_pct_Cons split: if_splits)
    then show ?thesis
      using "2.IH"(1) [of c rest'] "2.prems" True WriteRune_right [of w c] tokens_WriteRune [of w c]
      by (auto simp: r)
  next
    case False
    then have esc: "\<not> (ch = backslash \<and> i + 1 < n)" using "2.prems"(3) by auto
    have toks: "like_tokens (ch # rest) = (if ch = percent then Many else Rune ch) # like_tokens rest"
      using False not1 by (subst like_tokens_Cons) auto
    consider "ch \<noteq> percent" | "ch = percent" "rest = []" "t"
      | "ch = percent" "\<not> (rest = [] \<and> t)" by blast
    then show ?thesis
    proof cases
      case 1
      have "rest = [] \<Longrightarrow> \<not> t" using "2.prems"(5) 1 by (auto simp: ends_pct_def)
      have "walk n t (i + 1) rest (WriteRune ch w) = Some w'"
        using "2.prems"(1) unfolding walk.simps if_not_P [OF not1] if_not_P [OF esc] if_not_P [OF 1] .
      then have "tokens_of (WriteRune ch w) @ like_tokens rest = tokens_of w' @ (if t \<and> rest \<noteq> [] then [Many] else [])"
      proof (rule "2.IH"(4) [OF not1 esc 1])
        show "0 < i + 1 \<or> hd rest \<noteq> percent" by simp
        show "i + 1 + length rest = n" using "2.prems"(3) by simp
      qed (fact tl WriteRune_right [OF "2.prems"(4)])+
      moreover have "tokens_of w @ like_tokens (ch # rest) = tokens_of (WriteRune ch w) @ like_tokens rest"
        using 1 unfolding toks tokens_WriteRune [OF "2.prems"(4)] by simp
      moreover have "(t \<and> ch # rest \<noteq> []) = (t \<and> rest \<noteq> [])" using \<open>rest = [] \<Longrightarrow> \<not> t\<close> by auto
      ultimately show ?thesis by simp
    next
      case 2
      then show ?thesis using "2.prems" by (auto split: if_splits)
    next
      case 3
      then have inner: "\<not> (i = 0 \<or> i = n - 1 \<and> t)" using "2.prems" by auto
      then have m: "\<not> middlePct w" "walk n t (i + 1) rest (w\<lparr>middlePct := True\<rparr>) = Some w'"
        using "2.prems"(1) 3 not1 by (auto split: if_splits)
      have w1: "tokens_of (w\<lparr>middlePct := True\<rparr>) = tokens_of w @ [Many]"
        using m "2.prems"(4) by (simp add: tokens_of_def)
      have "tokens_of (w\<lparr>middlePct := True\<rparr>) @ like_tokens rest = tokens_of w' @ (if t \<and> rest \<noteq> [] then [Many] else [])"
        using m(2)
      proof (rule "2.IH"(3) [OF not1 esc 3(1) inner m(1)])
        show "0 < i + 1 \<or> hd rest \<noteq> percent" by simp
        show "i + 1 + length rest = n" using "2.prems"(3) by simp
        show "middlePct (w\<lparr>middlePct := True\<rparr>) \<or> right (w\<lparr>middlePct := True\<rparr>) = []" by simp
      qed (fact tl)
      moreover have "tokens_of w @ like_tokens (ch # rest) = tokens_of (w\<lparr>middlePct := True\<rparr>) @ like_tokens rest"
        using 3(1) unfolding toks w1 by simp
      moreover have "(t \<and> ch # rest \<noteq> []) = (t \<and> rest \<noteq> [])" using 3(2) by auto
      ultimately show ?thesis by simp
    qed
  qed
qed

section \<open>Every tier is LIKE\<close>

definition tier :: "patternKind \<Rightarrow> rune list \<Rightarrow> rune list \<Rightarrow> rune list \<Rightarrow> bool" where
  "tier k l r s =
     (case k of
        kindNoWildcards \<Rightarrow> s = l
      | kindPrefix \<Rightarrow> prefix l s
      | kindSuffix \<Rightarrow> suffix l s
      | kindContains \<Rightarrow> sublist l s
      | kindPrefixSuffix \<Rightarrow> (\<exists>m. s = l @ m @ r)
      | kindRegexp \<Rightarrow> False)"

lemma parse_tier:
  assumes "parseLikePattern rs = (k, l, r)" "k \<noteq> kindRegexp"
  shows "like (like_tokens rs) s \<longleftrightarrow> tier k l r s"
proof -
  let ?w0 = "\<lparr>left = [], right = [], middlePct = False\<rparr>" and ?n = "length rs"
  let ?lead = "rs \<noteq> [] \<and> hd rs = percent" and ?t = "ends_pct rs"
  have lead: "(0 < ?n \<and> rs ! 0 = percent) = ?lead" by (cases rs) auto
  have trail: "(0 < ?n \<and> rs ! (?n - 1) = percent \<and> (?n \<le> 1 \<or> rs ! (?n - 2) \<noteq> backslash)) = ?t"
    by (auto simp: ends_pct_def last_conv_nth)
  obtain w where w: "walk ?n ?t 0 rs ?w0 = Some w"
    using assms unfolding parseLikePattern_def Let_def lead trail by (auto split: option.splits)
  have klr: "(k, l, r) = (if middlePct w then (if ?lead \<or> ?t then (kindRegexp, [], []) else (kindPrefixSuffix, left w, right w))
      else if ?lead \<and> ?t then (kindContains, left w, []) else if ?lead then (kindSuffix, left w, [])
      else if ?t then (kindPrefix, left w, []) else (kindNoWildcards, left w, []))"
    using assms(1) w unfolding parseLikePattern_def Let_def lead trail by simp
  show ?thesis
  proof (cases ?lead)
    case False
    have "like_tokens rs = tokens_of w @ (if ?t \<and> rs \<noteq> [] then [Many] else [])"
      using walk_tokens [OF w] False w by (cases rs) (auto simp: tokens_of_def)
    then show ?thesis
      using klr False assms(2) like_tiers like_Runes
      by (auto simp: tier_def tokens_of_def ends_pct_def split: if_splits)
  next
    case True
    then obtain rest where rs: "rs = percent # rest" by (cases rs) auto
    have w1: "walk ?n ?t 1 rest ?w0 = Some w" using w by (simp add: rs)
    have t: "?t \<longrightarrow> rest = [] \<or> ends_pct rest" by (cases rest) (auto simp: rs ends_pct_Cons)
    have "like_tokens rest = tokens_of w @ (if ?t \<and> rest \<noteq> [] then [Many] else [])"
      using walk_tokens [OF w1] t by (simp add: rs tokens_of_def)
    moreover have "like_tokens rs = Many # like_tokens rest" by (simp add: rs like_tokens_Cons)
    moreover have "rest = [] \<Longrightarrow> ?t" by (simp add: rs)
    ultimately show ?thesis
      using klr True assms(2) w1
      by (cases "rest = []") (auto simp: tier_def tokens_of_def like_tiers like_Many split: if_splits)
  qed
qed

lemma walk_valid:
  "walk n t i rs w = Some w' \<Longrightarrow> list_all valid_rune rs \<Longrightarrow> list_all valid_rune (left w @ right w) \<Longrightarrow>
     list_all valid_rune (left w' @ right w')"
proof (induction rs arbitrary: i w rule: measure_induct_rule [of length])
  case (less rs)
  show ?case
  proof (cases rs)
    case (Cons ch rest)
    have "list_all valid_rune (left (WriteRune c w) @ right (WriteRune c w))" if "valid_rune c" for c
      using that less.prems(3) by (simp add: WriteRune_def)
    with less.prems Cons show ?thesis
      by (auto split: if_splits list.splits dest!: less.IH [rotated])
  qed (use less.prems in simp)
qed

lemma parse_valid:
  "parseLikePattern rs = (k, l, r) \<Longrightarrow> list_all valid_rune rs \<Longrightarrow> list_all valid_rune l \<and> list_all valid_rune r"
  by (auto simp: parseLikePattern_def Let_def split: option.splits if_splits dest!: walk_valid)

lemma contains_sublist: "contains s sub \<longleftrightarrow> sublist sub s"
  by (simp add: contains_iff sublist_def)

lemma ends_conv: "length s \<ge> length u + length v \<and> prefix u s \<and> suffix v s \<longleftrightarrow> (\<exists>m. s = u @ m @ v)"
proof
  assume h: "length s \<ge> length u + length v \<and> prefix u s \<and> suffix v s"
  then obtain y where y: "s = y @ v" by (auto simp: suffix_def)
  with h have "prefix u y" by (auto simp: prefix_append)
  with y show "\<exists>m. s = u @ m @ v" by (auto simp: prefix_def)
qed (auto simp: prefix_def suffix_def)

text \<open>C17. For a pattern and a subject that are valid UTF-8, compiling succeeds, and the matcher it
  gives, whichever tier the pattern falls into, accepts exactly the subjects LIKE accepts.\<close>

theorem compileLike_LIKE:
  assumes "list_all valid_rune pattern" "list_all valid_rune s"
  shows "\<exists>matcher. compileLike (utf8 pattern) = Some matcher
     \<and> (matcher (utf8 s) \<longleftrightarrow> like (like_tokens pattern) s)"
proof -
  obtain k l r where p: "parseLikePattern pattern = (k, l, r)" by (metis prod_cases3)
  have v: "list_all valid_rune l" "list_all valid_rune r" using parse_valid [OF p] assms(1) by auto
  show ?thesis
  proof (cases "k = kindRegexp")
    case True
    obtain re where "regexp_Compile (likePatternToRegexp pattern) = Some re"
      "\<forall>s. re_match re s \<longleftrightarrow> like (like_tokens pattern) s" using regexp_tier by blast
    with True p assms show ?thesis by (simp add: compileLike_def runes_utf8 MatchString_def)
  next
    case False
    have "prefix (utf8 l) (utf8 s) \<longleftrightarrow> prefix l s" "sublist (utf8 l) (utf8 s) \<longleftrightarrow> sublist l s"
      "(\<exists>m. utf8 s = utf8 l @ m @ utf8 r) \<longleftrightarrow> (\<exists>m. s = l @ m @ r)"
      "suffix (utf8 l) (utf8 s) \<longleftrightarrow> suffix l s" "utf8 s = utf8 l \<longleftrightarrow> s = l"
      using v assms(2) by (simp_all add: utf8_prefix utf8_sublist utf8_ends utf8_suffix utf8_inj)
    with False p assms parse_tier [OF p, of s] show ?thesis
      by (cases k) (simp_all add: compileLike_def runes_utf8 tier_def contains_sublist ends_conv)
  qed
qed

theorem compileLike_LIKE_witness:
  "\<exists>matcher. compileLike (utf8 [0x61, 0x25, 0xE9]) = Some matcher \<and> matcher (utf8 [0x61, 0x20AC, 0xE9])"
proof -
  have "like (like_tokens [0x61, 0x25, 0xE9]) [0x61, 0x20AC, 0xE9]"
    by (simp add: like.simps)
  then show ?thesis
    using compileLike_LIKE [of "[0x61, 0x25, 0xE9]" "[0x61, 0x20AC, 0xE9]"] by (simp add: valid_rune_def)
qed

end
