(* ===== verification/Stanza_Paths.thy ===== *)
theory Stanza_Paths
  imports Go_Prelude
begin

text \<open>
  Field paths of the logs pipeline (\<open>stanza/entry/field.go\<close>): \<open>fromJSONDot\<close> splits the text of a path
  into its keys, \<open>toJSONDot\<close> prints keys back. The splitter is the source's state machine: it walks the
  text with an index, and cuts a token out of the text from the index where the token started. The
  source ranges over runes; each character it looks for is ASCII, so no byte of a longer rune is one
  of them, and walking bytes takes the same transitions.

  The theorem states exactly which keys survive printing and reading.
\<close>

section \<open>Splitting and printing\<close>

datatype split_error =
    UnquotedBracket | AfterQuote | AfterBracket | UnclosedBracket | UnclosedDoubleQuote
  | UnclosedSingleQuote | NoFields

datatype splitState = Begin | InBracket | InQuote | OutQuote | OutBracket | InUnbracketedToken

record splitter =
  Fields :: "string list"
  State :: splitState
  quoteChar :: char
  tokenStart :: nat

text \<open>A slice expression \<open>s[i:j]\<close>.\<close>

definition slice :: "'a list \<Rightarrow> nat \<Rightarrow> nat \<Rightarrow> 'a list" where
  "slice s i j = drop i (take j s)"

definition split_step :: "string \<Rightarrow> nat \<Rightarrow> char \<Rightarrow> splitter \<Rightarrow> split_error + splitter" where
  "split_step s i c p =
     (case State p of
        Begin \<Rightarrow>
          if c = CHR ''['' then Inr (p\<lparr>State := InBracket\<rparr>)
          else Inr (p\<lparr>tokenStart := i, State := InUnbracketedToken\<rparr>)
      | InBracket \<Rightarrow>
          if c \<noteq> CHR 0x27 \<and> c \<noteq> CHR 0x22 then Inl UnquotedBracket
          else Inr (p\<lparr>State := InQuote, quoteChar := c, tokenStart := i + 1\<rparr>)
      | InQuote \<Rightarrow>
          if c = quoteChar p
          then Inr (p\<lparr>Fields := Fields p @ [slice s (tokenStart p) i], State := OutQuote\<rparr>)
          else Inr p
      | OutQuote \<Rightarrow>
          if c \<noteq> CHR '']'' then Inl AfterQuote else Inr (p\<lparr>State := OutBracket\<rparr>)
      | OutBracket \<Rightarrow>
          if c = CHR ''.'' then Inr (p\<lparr>State := InUnbracketedToken, tokenStart := i + 1\<rparr>)
          else if c = CHR ''['' then Inr (p\<lparr>State := InBracket\<rparr>)
          else Inl AfterBracket
      | InUnbracketedToken \<Rightarrow>
          if c = CHR ''.''
          then Inr (p\<lparr>Fields := Fields p @ [slice s (tokenStart p) i], tokenStart := i + 1\<rparr>)
          else if c = CHR ''[''
          then Inr (p\<lparr>Fields := Fields p @ [slice s (tokenStart p) i], State := InBracket\<rparr>)
          else Inr p)"

fun split_loop :: "string \<Rightarrow> nat \<Rightarrow> string \<Rightarrow> splitter \<Rightarrow> split_error + splitter" where
  "split_loop s i [] p = Inr p"
| "split_loop s i (c # cs) p =
     (case split_step s i c p of Inl e \<Rightarrow> Inl e | Inr p' \<Rightarrow> split_loop s (i + 1) cs p')"

text \<open>What follows the loop.\<close>

definition split_end :: "string \<Rightarrow> splitter \<Rightarrow> split_error + string list" where
  "split_end s p =
     (if State p = InBracket \<or> State p = OutQuote then Inl UnclosedBracket
      else if State p = InQuote
      then (if quoteChar p = CHR 0x22 then Inl UnclosedDoubleQuote else Inl UnclosedSingleQuote)
      else
        (let fields = (if State p = InUnbracketedToken
                       then Fields p @ [slice s (tokenStart p) (length s)] else Fields p)
         in if fields = [] then Inl NoFields else Inr fields))"

definition fromJSONDot :: "string \<Rightarrow> split_error + string list" where
  "fromJSONDot s =
     (case split_loop s 0 s \<lparr>Fields = [], State = Begin, quoteChar = CHR 0x00, tokenStart = 0\<rparr> of
        Inl e \<Rightarrow> Inl e
      | Inr p \<Rightarrow> split_end s p)"

definition toJSONDot :: "string \<Rightarrow> string list \<Rightarrow> string" where
  "toJSONDot prefix keys =
     (if keys = [] then prefix
      else if \<exists>key\<in>set keys. contains key ''.''
      then prefix @ concat (map (\<lambda>key. ''['' @ [CHR 0x27] @ key @ [CHR 0x27] @ '']'') keys)
      else prefix @ ''.'' @ join keys ''.'')"

section \<open>A reader without indices\<close>

text \<open>The same transitions on the remaining text, with the token read so far in place of its start.\<close>

lemma contains_single [simp]: "contains s [c] \<longleftrightarrow> c \<in> set s"
  by (auto simp: contains_iff in_set_conv_decomp)

fun reader :: "splitState \<Rightarrow> char \<Rightarrow> string \<Rightarrow> string list \<Rightarrow> string \<Rightarrow> split_error + string list" where
  "reader Begin q tok fs [] = (if fs = [] then Inl NoFields else Inr fs)"
| "reader OutBracket q tok fs [] = (if fs = [] then Inl NoFields else Inr fs)"
| "reader InUnbracketedToken q tok fs [] = Inr (fs @ [tok])"
| "reader InQuote q tok fs [] =
     (if q = CHR 0x22 then Inl UnclosedDoubleQuote else Inl UnclosedSingleQuote)"
| "reader InBracket q tok fs [] = Inl UnclosedBracket"
| "reader OutQuote q tok fs [] = Inl UnclosedBracket"
| "reader Begin q tok fs (c # cs) =
     (if c = CHR ''['' then reader InBracket q tok fs cs
      else reader InUnbracketedToken q [c] fs cs)"
| "reader InBracket q tok fs (c # cs) =
     (if c = CHR 0x27 \<or> c = CHR 0x22 then reader InQuote c [] fs cs else Inl UnquotedBracket)"
| "reader InQuote q tok fs (c # cs) =
     (if c = q then reader OutQuote q tok (fs @ [tok]) cs else reader InQuote q (tok @ [c]) fs cs)"
| "reader OutQuote q tok fs (c # cs) =
     (if c = CHR '']'' then reader OutBracket q tok fs cs else Inl AfterQuote)"
| "reader OutBracket q tok fs (c # cs) =
     (if c = CHR ''.'' then reader InUnbracketedToken q [] fs cs
      else if c = CHR ''['' then reader InBracket q tok fs cs
      else Inl AfterBracket)"
| "reader InUnbracketedToken q tok fs (c # cs) =
     (if c = CHR ''.'' then reader InUnbracketedToken q [] (fs @ [tok]) cs
      else if c = CHR ''['' then reader InBracket q tok (fs @ [tok]) cs
      else reader InUnbracketedToken q (tok @ [c]) fs cs)"

definition token_of :: "string \<Rightarrow> string \<Rightarrow> splitter \<Rightarrow> bool" where
  "token_of u tok p \<longleftrightarrow>
     (State p \<in> {InQuote, InUnbracketedToken} \<longrightarrow> tokenStart p \<le> length u \<and> drop (tokenStart p) u = tok)"

lemma split_loop_reader:
  assumes "token_of u tok p"
  shows "(case split_loop (u @ cs) (length u) cs p of Inl e \<Rightarrow> Inl e | Inr p' \<Rightarrow> split_end (u @ cs) p')
     = reader (State p) (quoteChar p) tok (Fields p) cs"
  using assms
proof (induction cs arbitrary: u tok p)
  case Nil
  then show ?case
    by (cases "State p") (auto simp: split_end_def token_of_def slice_def)
next
  case (Cons c cs)
  have IH: "(case split_loop (u @ d # cs) (Suc (length u)) cs p' of
        Inl e \<Rightarrow> Inl e | Inr p'' \<Rightarrow> split_end (u @ d # cs) p'') = reader st q tok' fs cs"
    if "token_of (u @ [d]) tok' p'" "st = State p'" "q = quoteChar p'" "fs = Fields p'"
    for d tok' p' st q fs
    using Cons.IH [OF that(1)] that(2-) by (simp cong: sum.case_cong)
  show ?case
    using Cons.prems
    by (cases "State p") (auto simp: split_step_def token_of_def slice_def intro!: IH)
qed

lemma fromJSONDot_reader: "fromJSONDot s = reader Begin (CHR 0x00) [] [] s"
  using split_loop_reader [of "[]" "[]" "\<lparr>Fields = [], State = Begin, quoteChar = CHR 0x00, tokenStart = 0\<rparr>" s]
  by (simp add: fromJSONDot_def token_of_def cong: sum.case_cong)

lemma reader_fields:
  "reader st q tok fs cs = Inr r \<Longrightarrow> \<exists>r'. r = fs @ r'"
  by (induction st q tok fs cs rule: reader.induct) (fastforce split: if_splits)+

lemma reader_token:
  "CHR ''.'' \<notin> set u \<Longrightarrow> CHR ''['' \<notin> set u \<Longrightarrow>
    reader InUnbracketedToken q tok fs (u @ v) = reader InUnbracketedToken q (tok @ u) fs v"
  by (induction u arbitrary: tok) auto

lemma reader_quoted:
  "q \<notin> set u \<Longrightarrow> reader InQuote q tok fs (u @ v) = reader InQuote q (tok @ u) fs v"
  by (induction u arbitrary: tok) auto

text \<open>A token that ends before the key does can not be completed later.\<close>

lemma reader_short:
  assumes "u \<noteq> k"
  shows "reader st q tok (fs @ [u]) cs \<noteq> Inr (fs @ k # ks)"
  using reader_fields [of st q tok "fs @ [u]" cs "fs @ k # ks"] assms by auto

lemma reader_dotted:
  assumes "ks \<noteq> []" "\<forall>k\<in>set ks. CHR ''.'' \<notin> set k"
  shows "reader InUnbracketedToken q [] fs (join ks ''.'') = Inr (fs @ ks)
     \<longleftrightarrow> (\<forall>k\<in>set ks. CHR ''['' \<notin> set k)"
  using assms
proof (induction ks arbitrary: fs rule: list_nonempty_induct)
  case (single k)
  show ?case
  proof (cases "CHR ''['' \<in> set k")
    case True
    then obtain u v where k: "k = u @ CHR ''['' # v" "CHR ''['' \<notin> set u" by (meson split_list_first)
    with single show ?thesis by (auto simp: reader_token reader_short)
  next
    case False
    with single show ?thesis using reader_token [of k q "[]" fs "[]"] by simp
  qed
next
  case (cons k ks)
  have j: "join (k # ks) ''.'' = k @ CHR ''.'' # join ks ''.''"
    using cons.hyps by (simp add: join_Cons)
  show ?case
  proof (cases "CHR ''['' \<in> set k")
    case True
    then obtain u v where k: "k = u @ CHR ''['' # v" "CHR ''['' \<notin> set u" by (meson split_list_first)
    with cons.prems show ?thesis unfolding j by (auto simp: reader_token reader_short)
  next
    case False
    with cons.prems cons.IH [of "fs @ [k]"] show ?thesis unfolding j by (simp add: reader_token)
  qed
qed

lemma reader_bracketed:
  "reader InBracket q tok fs
     (CHR 0x27 # k @ CHR 0x27 # CHR '']'' # concat (map (\<lambda>k. ''['' @ [CHR 0x27] @ k @ [CHR 0x27] @ '']'') ks))
     = Inr (fs @ k # ks)
   \<longleftrightarrow> (\<forall>k\<in>set (k # ks). CHR 0x27 \<notin> set k)"
proof (induction ks arbitrary: fs k q tok)
  case Nil
  show ?case
  proof (cases "CHR 0x27 \<in> set k")
    case True
    then obtain u v where k: "k = u @ CHR 0x27 # v" "CHR 0x27 \<notin> set u" by (meson split_list_first)
    then show ?thesis by (auto simp: reader_quoted reader_short)
  next
    case False
    then show ?thesis by (simp add: reader_quoted)
  qed
next
  case (Cons k' ks)
  show ?case
  proof (cases "CHR 0x27 \<in> set k")
    case True
    then obtain u v where k: "k = u @ CHR 0x27 # v" "CHR 0x27 \<notin> set u" by (meson split_list_first)
    then show ?thesis by (auto simp: reader_quoted reader_short)
  next
    case False
    with Cons.IH [of _ _ "fs @ [k]" k'] show ?thesis by (simp add: reader_quoted)
  qed
qed

lemma reader_Begin:
  assumes "p \<noteq> []" "CHR ''.'' \<notin> set p" "CHR ''['' \<notin> set p"
  shows "reader Begin q [] [] (p @ v) = reader InUnbracketedToken q p [] v"
  using assms by (cases p) (auto simp: reader_token)

section \<open>The round trip\<close>

text \<open>Keys that \<open>toJSONDot\<close> prints readably: brackets are used as soon as one key has a dot, and
  inside them a quote ends the key; without brackets, an opening bracket ends it.\<close>

definition readable :: "string list \<Rightarrow> bool" where
  "readable keys \<longleftrightarrow>
     (if \<exists>key\<in>set keys. contains key ''.''
      then \<forall>key\<in>set keys. CHR 0x27 \<notin> set key
      else \<forall>key\<in>set keys. CHR ''['' \<notin> set key)"

lemma split_printed:
  assumes "p \<noteq> []" "CHR ''.'' \<notin> set p" "CHR ''['' \<notin> set p"
  shows "fromJSONDot (toJSONDot p ks) = Inr (p # ks) \<longleftrightarrow> readable ks"
proof (cases "ks = [] \<or> (\<exists>k\<in>set ks. CHR ''.'' \<in> set k)")
  case True
  then show ?thesis
    using assms reader_bracketed [of _ _ "[p]" "hd ks" "tl ks"] reader_Begin [of p _ "[]"]
    by (cases ks) (auto simp: fromJSONDot_reader toJSONDot_def readable_def reader_Begin)
next
  case False
  then show ?thesis
    using assms reader_dotted [of ks _ "[p]"]
    by (auto simp: fromJSONDot_reader toJSONDot_def readable_def reader_Begin)
qed

text \<open>C18. Printing a path and splitting the text gives the keys back if and only if the keys are
  readable: no quote in any of them when one has a dot, no opening bracket in any of them otherwise.
  The prefixes of the package (\<open>body\<close>, \<open>attributes\<close>, \<open>resource\<close>) satisfy the hypotheses.\<close>

theorem fromJSONDot_toJSONDot:
  assumes "p \<noteq> []" "CHR ''.'' \<notin> set p" "CHR ''['' \<notin> set p"
  shows "fromJSONDot (toJSONDot p ks) = Inr (p # ks) \<longleftrightarrow> readable ks"
  using assms by (rule split_printed)

theorem fromJSONDot_toJSONDot_witness:
  "fromJSONDot (toJSONDot ''body'' [''k8s.pod'', ''name'']) = Inr [''body'', ''k8s.pod'', ''name'']
   \<and> fromJSONDot (toJSONDot ''body'' [''a[0]'']) \<noteq> Inr [''body'', ''a[0]'']"
  using fromJSONDot_toJSONDot [of "''body''" "[''k8s.pod'', ''name'']"]
    fromJSONDot_toJSONDot [of "''body''" "[''a[0]'']"]
  by (simp add: readable_def)

end
