(* ===== verification/Go_Format.thy ===== *)
theory Go_Format
  imports Go_Floats
begin

text \<open>
  Values of type \<open>float64\<close> with the ones that are not numbers, their conversion from integers, and
  \<open>strconv.FormatFloat\<close> with format \<open>'f'\<close> and the shortest precision: the fewest digits that read
  back as the same value, the nearest of them if there is a choice.
\<close>

section \<open>Values\<close>

datatype go_float = Finite rat | NegZero | PosInf | NegInf | NaN

definition IsNaN :: "go_float \<Rightarrow> bool" where
  "IsNaN x \<longleftrightarrow> x = NaN"

definition float_of_int :: "int \<Rightarrow> go_float" where
  "float_of_int n = Finite (float64 (of_int n))"

lemma IsNaN_simps [simp]: "IsNaN NaN" "\<not> IsNaN PosInf" "\<not> IsNaN NegInf" "\<not> IsNaN NegZero" "\<not> IsNaN (Finite q)"
  "\<not> IsNaN (float_of_int n)"
  by (simp_all add: IsNaN_def float_of_int_def)

section \<open>Formatting\<close>

text \<open>How often a positive number below one is multiplied by ten to reach one; the least positive
  float64 needs 324 times.\<close>

fun scale_up :: "nat \<Rightarrow> rat \<Rightarrow> nat" where
  "scale_up 0 x = 0"
| "scale_up (Suc n) x = (if 1 \<le> x then 0 else Suc (scale_up n (x * 10)))"

definition decimal_exponent :: "rat \<Rightarrow> int" where
  "decimal_exponent x =
     (if 1 \<le> x then int (length (nat_digits (nat \<lfloor>x\<rfloor>))) - 1 else - int (scale_up 324 x))"

text \<open>The candidates with \<open>k\<close> digits that read back as \<open>x\<close>, the nearer one first.\<close>

definition candidates :: "rat \<Rightarrow> int \<Rightarrow> nat \<Rightarrow> int list" where
  "candidates x e k =
     (let u = 10 powi (e - int k + 1); lo = \<lfloor>x / u\<rfloor>;
          cs = (if x - of_int lo * u \<le> of_int (lo + 1) * u - x then [lo, lo + 1] else [lo + 1, lo])
      in filter (\<lambda>c. float64 (of_int c * u) = x) cs)"

fun shortest :: "nat \<Rightarrow> rat \<Rightarrow> int \<Rightarrow> nat \<Rightarrow> int \<times> int" where
  "shortest 0 x e k = (\<lfloor>x / 10 powi (e - 16)\<rfloor>, e - 16)"
| "shortest (Suc n) x e k =
     (case candidates x e k of c # _ \<Rightarrow> (c, e - int k + 1) | [] \<Rightarrow> shortest n x e (Suc k))"

definition with_point :: "int \<Rightarrow> int \<Rightarrow> string" where
  "with_point c q =
     (let ds = nat_digits (nat c) in
      if 0 \<le> q then ds @ replicate (nat q) (CHR ''0'')
      else
        (let n = nat (- q); ds = replicate (Suc n - length ds) (CHR ''0'') @ ds
         in take (length ds - n) ds @ ''.'' @ drop (length ds - n) ds))"

definition FormatFloat :: "go_float \<Rightarrow> string" where
  "FormatFloat x =
     (case x of
        NaN \<Rightarrow> ''NaN''
      | PosInf \<Rightarrow> ''+Inf''
      | NegInf \<Rightarrow> ''-Inf''
      | NegZero \<Rightarrow> ''-0''
      | Finite q \<Rightarrow>
          if q = 0 then ''0''
          else
            (let a = \<bar>q\<bar>; (c, e) = shortest 17 a (decimal_exponent a) 1
             in (if q < 0 then ''-'' else []) @ with_point c e))"

lemma FormatFloat_examples:
  "FormatFloat (float_of_int 100) = ''100''"
  "FormatFloat (Finite (1 / 2)) = ''0.5''"
  "FormatFloat (Finite (float64 (1 / 10))) = ''0.1''"
  "FormatFloat (Finite (- float64 (25 / 10000))) = ''-0.0025''"
  by code_simp+

end
