(* ===== verification/Stanza_Entry.thy ===== *)
theory Stanza_Entry
  imports Stanza_Paths Go_Format "HOL-Library.Finite_Map" "HOL-Library.Sublist"
begin

text \<open>
  Log entries of the pipeline and their body fields (\<open>stanza/entry/body_field.go\<close>, \<open>field.go\<close>).
  A value of Go's type \<open>any\<close> is a datatype with one constructor per dynamic type the sources
  distinguish. A Go map is \<open>nil\<close> or a finite map; reading a nil map finds nothing, assigning to one
  panics. A panic is \<open>None\<close>. Maps are trees here: two places of an entry never share a map, so an
  update through one of them is not seen through the other.

  The JSON decoder is outside the repository; it is the argument \<open>unmarshal\<close>. It fails (\<open>None\<close>), or
  stores a map, which is nil for the text \<open>null\<close>.
\<close>

section \<open>Values\<close>

datatype any =
    VNil
  | VBool bool
  | VString string
  | VStrings "string list"
  | VBytes string
  | VInt64 "64 word"
  | VInt32 "32 word"
  | VInt16 "16 word"
  | VInt8 "8 word"
  | VInt "64 word"
  | VUint64 "64 word"
  | VUint32 "32 word"
  | VUint16 "16 word"
  | VUint8 "8 word"
  | VUint "64 word"
  | VFloat64 go_float
  | VFloat32 go_float
  | VMap "(string, any) fmap option"
  | VSlice "any list"
  | VOther string \<comment> \<open>any other type, with the text that \<open>%v\<close> prints\<close>

type_synonym gomap = "(string, any) fmap option"

definition map_get :: "gomap \<Rightarrow> string \<Rightarrow> any option" where
  "map_get m k = (case m of None \<Rightarrow> None | Some f \<Rightarrow> fmlookup f k)"

definition map_set :: "gomap \<Rightarrow> string \<Rightarrow> any \<Rightarrow> gomap option" where
  "map_set m k v = (case m of None \<Rightarrow> None | Some f \<Rightarrow> Some (Some (fmupd k v f)))"

definition map_delete :: "gomap \<Rightarrow> string \<Rightarrow> gomap" where
  "map_delete m k = map_option (fmdrop k) m"

text \<open>The type assertion \<open>v.(map[string]any)\<close>.\<close>

definition as_map :: "any \<Rightarrow> gomap option" where
  "as_map v = (case v of VMap m \<Rightarrow> Some m | _ \<Rightarrow> None)"

lemma map_get_simps [simp]:
  "map_get None k = None" "map_get (Some f) k = fmlookup f k"
  by (simp_all add: map_get_def)

lemma map_set_simps [simp]:
  "map_set None k v = None" "map_set (Some f) k v = Some (Some (fmupd k v f))"
  by (simp_all add: map_set_def)

lemma map_delete_simps [simp]:
  "map_delete None k = None" "map_delete (Some f) k = Some (fmdrop k f)"
  by (simp_all add: map_delete_def)

lemma as_map_iff [simp]: "as_map v = Some m \<longleftrightarrow> v = VMap m"
  by (simp add: as_map_def split: any.split)

lemma as_map_VMap [simp]: "as_map (VMap m) = Some m"
  by simp

lemma as_map_None: "as_map v = None \<longleftrightarrow> (\<forall>m. v \<noteq> VMap m)"
  by (simp add: as_map_def split: any.split)

section \<open>Entries\<close>

datatype severity =
    Default | Trace | Trace2 | Trace3 | Trace4 | Debug | Debug2 | Debug3 | Debug4
  | Info | Info2 | Info3 | Info4 | Warn | Warn2 | Warn3 | Warn4
  | Error | Error2 | Error3 | Error4 | Fatal | Fatal2 | Fatal3 | Fatal4

text \<open>A time stamp is its nanoseconds since
  the epoch, \<open>None\<close> the zero time. Identifiers are byte slices, \<open>None\<close> the nil slice.\<close>

record entry =
  Timestamp :: "64 word option"
  ObservedTimestamp :: "64 word"
  Body :: any
  Attributes :: gomap
  Resource :: gomap
  SeverityText :: string
  Severity :: severity
  SpanID :: "string option"
  TraceID :: "string option"
  TraceFlags :: "string option"
  ScopeName :: string

definition InternalTempAttributePrefix :: string where
  "InternalTempAttributePrefix = ''__signozlogspipelineprocessor_internal__''"

definition cachedBodyJsonKey :: string where
  "cachedBodyJsonKey = InternalTempAttributePrefix @ ''parsedBodyJson''"

section \<open>Fields\<close>

text \<open>A field of the package: a path below the attributes or the resource, whose operations are those
  of the upstream package, or a path below the body, whose operations are here.\<close>

datatype field = AttributeField "string list" | ResourceField "string list" | BodyField "string list"

datatype field_error =
    Splitting split_error | AttributesWithoutSubfield | ResourceWithoutSubfield | UnrecognizedPrefix

definition newField :: "string \<Rightarrow> bool \<Rightarrow> field_error + field" where
  "newField s rootable =
     (case fromJSONDot s of
        Inl e \<Rightarrow> Inl (Splitting e)
      | Inr keys \<Rightarrow>
          if hd keys = ''attributes''
          then (if \<not> rootable \<and> length keys = 1 then Inl AttributesWithoutSubfield
                else Inr (AttributeField (tl keys)))
          else if hd keys = ''resource''
          then (if \<not> rootable \<and> length keys = 1 then Inl ResourceWithoutSubfield
                else Inr (ResourceField (tl keys)))
          else if hd keys = ''body'' then Inr (BodyField (tl keys))
          else Inl UnrecognizedPrefix)"

definition NewField :: "string \<Rightarrow> field_error + field" where
  "NewField s = newField s False"

text \<open>\<open>UnmarshalText\<close> of a \<open>RootableField\<close>.\<close>

definition NewRootableField :: "string \<Rightarrow> field_error + field" where
  "NewRootableField s = newField s True"

definition BodyField_isRoot :: "string list \<Rightarrow> bool" where
  "BodyField_isRoot keys \<longleftrightarrow> length keys = 0"

definition BodyField_Parent :: "string list \<Rightarrow> string list" where
  "BodyField_Parent keys = (if BodyField_isRoot keys then keys else take (length keys - 1) keys)"

definition BodyField_Child :: "string list \<Rightarrow> string \<Rightarrow> string list" where
  "BodyField_Child keys key = keys @ [key]"

definition BodyField_String :: "string list \<Rightarrow> string" where
  "BodyField_String keys = toJSONDot ''body'' keys"

datatype body_field_error = BodySplitting split_error | NotBody

definition BodyField_UnmarshalText :: "string \<Rightarrow> body_field_error + string list" where
  "BodyField_UnmarshalText text =
     (case fromJSONDot text of
        Inl e \<Rightarrow> Inl (BodySplitting e)
      | Inr keys \<Rightarrow> if hd keys \<noteq> ''body'' then Inl NotBody else Inr (tl keys))"

section \<open>The body as JSON\<close>

text \<open>\<open>ParseBodyJson\<close>: the map, or nil, and the entry with the parsed body cached in its attributes.
  It panics when the attribute under the cache's key is not a map.\<close>

definition body_bytes :: "any \<Rightarrow> string option" where
  "body_bytes v = (case v of VBytes b \<Rightarrow> Some b | VString s \<Rightarrow> Some s | _ \<Rightarrow> None)"

definition ParseBodyJson ::
  "(string \<Rightarrow> gomap option) \<Rightarrow> entry \<Rightarrow> (entry \<times> gomap) option" where
  "ParseBodyJson unmarshal e =
     (case as_map (Body e) of
        Some m \<Rightarrow> Some (e, m)
      | None \<Rightarrow>
          (let e = (if Attributes e = None then e\<lparr>Attributes := Some fmempty\<rparr> else e) in
           case map_get (Attributes e) cachedBodyJsonKey of
             Some cached \<Rightarrow> map_option (\<lambda>m. (e, m)) (as_map cached)
           | None \<Rightarrow>
               (case Option.bind (body_bytes (Body e)) unmarshal of
                  None \<Rightarrow> Some (e, None)
                | Some parsed \<Rightarrow>
                    map_option (\<lambda>attrs. (e\<lparr>Attributes := attrs\<rparr>, parsed))
                      (map_set (Attributes e) cachedBodyJsonKey (VMap parsed)))))"

text \<open>The loop of \<open>Get\<close> over the keys.\<close>

fun value_at :: "any \<Rightarrow> string list \<Rightarrow> any option" where
  "value_at v [] = Some v"
| "value_at v (k # ks) =
     (case as_map v of
        None \<Rightarrow> None
      | Some m \<Rightarrow> (case map_get m k of None \<Rightarrow> None | Some v' \<Rightarrow> value_at v' ks))"

definition BodyField_Get ::
  "(string \<Rightarrow> gomap option) \<Rightarrow> string list \<Rightarrow> entry \<Rightarrow> (entry \<times> any option) option" where
  "BodyField_Get unmarshal keys e =
     (if length keys > 0
      then map_option (\<lambda>(e', bodyJson).
             (e', value_at (if bodyJson \<noteq> None then VMap bodyJson else Body e') keys))
           (ParseBodyJson unmarshal e)
      else Some (e, value_at (Body e) keys))"

section \<open>Updating the body\<close>

text \<open>\<open>getNestedMap\<close>: the map below a key, a new empty one where there is none.\<close>

definition getNestedMap :: "gomap \<Rightarrow> string \<Rightarrow> gomap" where
  "getNestedMap m key =
     (case map_get m key of
        None \<Rightarrow> Some fmempty
      | Some v \<Rightarrow> (case as_map v of None \<Rightarrow> Some fmempty | Some n \<Rightarrow> n))"

text \<open>Descend along keys with \<open>getNestedMap\<close>, change the map reached, and store every map on the way
  back under its key. Storing below a nil map is Go's panic.\<close>

fun update_at :: "string list \<Rightarrow> (gomap \<Rightarrow> gomap option) \<Rightarrow> gomap \<Rightarrow> gomap option" where
  "update_at [] f m = f m"
| "update_at (k # ks) f m =
     (case update_at ks f (getNestedMap m k) of
        None \<Rightarrow> None
      | Some n \<Rightarrow> map_set m k (VMap n))"

definition body_map :: "entry \<Rightarrow> gomap" where
  "body_map e = (case as_map (Body e) of Some m \<Rightarrow> m | None \<Rightarrow> Some fmempty)"

text \<open>\<open>Merge\<close>: assigning no key at all leaves even a nil map alone.\<close>

definition merge_into :: "gomap \<Rightarrow> gomap \<Rightarrow> gomap option" where
  "merge_into vs m =
     (case vs of
        None \<Rightarrow> Some m
      | Some f \<Rightarrow>
          if f = fmempty then Some m
          else (case m of None \<Rightarrow> None | Some g \<Rightarrow> Some (Some (g ++\<^sub>f f))))"

definition BodyField_Merge :: "string list \<Rightarrow> entry \<Rightarrow> gomap \<Rightarrow> entry option" where
  "BodyField_Merge keys e vs =
     map_option (\<lambda>m. e\<lparr>Body := VMap m\<rparr>) (update_at keys (merge_into vs) (body_map e))"

definition BodyField_Set :: "string list \<Rightarrow> entry \<Rightarrow> any \<Rightarrow> entry option" where
  "BodyField_Set keys e v =
     (case as_map v of
        Some vs \<Rightarrow> BodyField_Merge keys e vs
      | None \<Rightarrow>
          if BodyField_isRoot keys then Some (e\<lparr>Body := v\<rparr>)
          else map_option (\<lambda>m. e\<lparr>Body := VMap m\<rparr>)
                 (update_at (butlast keys) (\<lambda>m. map_set m (last keys) v) (body_map e)))"

text \<open>\<open>Delete\<close>: the value removed, if the field is there.\<close>

fun delete_at :: "any \<Rightarrow> string list \<Rightarrow> (any \<times> any) option" where
  "delete_at v [] = None"
| "delete_at v (k # ks) =
     (case as_map v of
        None \<Rightarrow> None
      | Some m \<Rightarrow>
          (case map_get m k of
             None \<Rightarrow> None
           | Some v' \<Rightarrow>
               if ks = [] then Some (VMap (map_delete m k), v')
               else (case delete_at v' ks of
                       None \<Rightarrow> None
                     | Some (n, w) \<Rightarrow> map_option (\<lambda>m'. (VMap m', w)) (map_set m k n))))"

definition BodyField_Delete :: "string list \<Rightarrow> entry \<Rightarrow> entry \<times> any option" where
  "BodyField_Delete keys e =
     (if BodyField_isRoot keys then (e\<lparr>Body := VNil\<rparr>, Some (Body e))
      else (case delete_at (Body e) keys of
              None \<Rightarrow> (e, None)
            | Some (v, w) \<Rightarrow> (e\<lparr>Body := v\<rparr>, Some w)))"

section \<open>Lookup and update\<close>

lemma value_at_append:
  "value_at v (p @ q) = (case value_at v p of None \<Rightarrow> None | Some w \<Rightarrow> value_at w q)"
  by (induction p arbitrary: v) (auto split: option.splits)

lemma map_set_get:
  "map_set m k v = Some m' \<Longrightarrow> map_get m' k' = (if k' = k then Some v else map_get m k')"
  by (cases m) auto

lemma map_set_None: "map_set m k v = None \<longleftrightarrow> m = None"
  by (cases m) auto

text \<open>What a reader sees below the key an update stored.\<close>

lemma value_at_nested:
  "value_at (VMap (getNestedMap m k)) (j # ks) = value_at (VMap m) (k # j # ks)"
  by (simp add: getNestedMap_def split: option.splits)

lemma update_at_here:
  assumes "update_at ks f m = Some m'"
  shows "\<exists>g g'. f g = Some g' \<and> value_at (VMap m') ks = Some (VMap g')
     \<and> (\<forall>j js. value_at (VMap g) (j # js) = value_at (VMap m) (ks @ j # js))"
  using assms
proof (induction ks arbitrary: m m')
  case Nil
  then show ?case by auto
next
  case (Cons k ks)
  obtain n where n: "update_at ks f (getNestedMap m k) = Some n" "map_set m k (VMap n) = Some m'"
    using Cons.prems by (auto split: option.splits)
  have eq: "value_at (VMap (getNestedMap m k)) (ks @ j # js) = value_at (VMap m) ((k # ks) @ j # js)" for j js
    by (cases ks) (simp_all only: append_Cons append_Nil value_at_nested)
  from Cons.IH [OF n(1)] obtain g g' where "f g = Some g'" "value_at (VMap n) ks = Some (VMap g')"
    "\<forall>j js. value_at (VMap g) (j # js) = value_at (VMap (getNestedMap m k)) (ks @ j # js)" by auto
  then show ?case
    using map_set_get [OF n(2)] unfolding eq by (intro exI [of _ g] exI [of _ g']) auto
qed

lemma update_at_frame:
  assumes "update_at ks f m = Some m'" "\<not> prefix q ks" "\<not> prefix ks q"
  shows "value_at (VMap m') q = value_at (VMap m) q"
  using assms
proof (induction ks arbitrary: m m' q)
  case Nil
  then show ?case by simp
next
  case (Cons k ks)
  obtain n where n: "update_at ks f (getNestedMap m k) = Some n" "map_set m k (VMap n) = Some m'"
    using Cons.prems(1) by (auto split: option.splits)
  obtain j js where q: "q = j # js" using Cons.prems(2) by (cases q) auto
  show ?case
  proof (cases "j = k")
    case True
    then obtain i l where js: "js = i # l"
      using Cons.prems q by (cases js) auto
    have "value_at (VMap n) js = value_at (VMap (getNestedMap m k)) js"
      using Cons.IH [OF n(1)] Cons.prems(2,3) q True by auto
    then show ?thesis
      using map_set_get [OF n(2)] value_at_nested [of m k i l] by (simp add: q True js)
  next
    case False
    then show ?thesis using map_set_get [OF n(2)] by (simp add: q)
  qed
qed

text \<open>An update panics exactly when it stores below a nil map.\<close>

fun nil_map_on :: "any \<Rightarrow> string list \<Rightarrow> bool" where
  "nil_map_on v [] \<longleftrightarrow> False"
| "nil_map_on v (k # ks) \<longleftrightarrow>
     as_map v = Some None \<or> (case value_at v [k] of None \<Rightarrow> False | Some w \<Rightarrow> nil_map_on w ks)"

lemma nil_map_on_leaf: "as_map v = None \<Longrightarrow> \<not> nil_map_on v ks"
  by (cases ks) auto

lemma nil_map_on_empty [simp]: "\<not> nil_map_on (VMap (Some fmempty)) ks"
  by (cases ks) auto

lemma update_at_None:
  "update_at ks (\<lambda>m. map_set m k v) m = None \<longleftrightarrow> nil_map_on (VMap m) (ks @ [k])"
proof (induction ks arbitrary: m)
  case Nil
  then show ?case by (auto simp: map_set_None split: option.splits)
next
  case (Cons j ks)
  have "nil_map_on (VMap (getNestedMap m j)) (ks @ [k])
      \<longleftrightarrow> (\<exists>w. value_at (VMap m) [j] = Some w \<and> nil_map_on w (ks @ [k]))"
    by (auto simp: getNestedMap_def nil_map_on_leaf split: option.splits)
  with Cons.IH [of "getNestedMap m j"] show ?case
    by (auto simp: map_set_None split: option.splits)
qed

lemma delete_at_ConsE:
  assumes "delete_at v (k # ks) = Some (v', w)"
  obtains f where "v = VMap (Some f)" "ks = []" "fmlookup f k = Some w" "v' = VMap (Some (fmdrop k f))"
  | f x n where "v = VMap (Some f)" "ks \<noteq> []" "fmlookup f k = Some x" "delete_at x ks = Some (n, w)"
      "v' = VMap (Some (fmupd k n f))"
proof -
  obtain m x where m: "v = VMap m" "map_get m k = Some x"
    using assms by (auto split: option.splits)
  then obtain f where "m = Some f" by (cases m) auto
  with assms m that show thesis by (auto split: if_splits option.splits prod.splits)
qed

lemma delete_at_None: "ks \<noteq> [] \<Longrightarrow> delete_at v ks = None \<longleftrightarrow> value_at v ks = None"
proof (induction ks arbitrary: v)
  case (Cons k ks)
  show ?case
  proof (cases "\<exists>f x. v = VMap (Some f) \<and> fmlookup f k = Some x")
    case True
    then obtain f x where "v = VMap (Some f)" "fmlookup f k = Some x" by blast
    then show ?thesis using Cons.IH [of x] by (cases "delete_at x ks") auto
  next
    case False
    then have "value_at v [k] = None"
      by (auto simp: map_get_def split: option.splits)
    then show ?thesis by (auto split: option.splits)
  qed
qed simp

lemma delete_at_value:
  "delete_at v ks = Some (v', w) \<Longrightarrow> value_at v ks = Some w \<and> value_at v' ks = None"
proof (induction ks arbitrary: v v')
  case (Cons k ks)
  from Cons.prems show ?case by (rule delete_at_ConsE) (use Cons.IH in auto)
qed simp

lemma delete_at_frame:
  "delete_at v ks = Some (v', w) \<Longrightarrow> \<not> prefix q ks \<Longrightarrow> \<not> prefix ks q \<Longrightarrow>
     value_at v' q = value_at v q"
proof (induction ks arbitrary: v v' q)
  case (Cons k ks)
  obtain j js where q: "q = j # js" using Cons.prems(2) by (cases q) auto
  from Cons.prems(1) show ?case
    by (rule delete_at_ConsE) (use Cons.IH Cons.prems(2,3) q in auto)
qed simp

section \<open>Body fields\<close>

lemma BodyField_Set_leaf:
  assumes "as_map v = None" "keys \<noteq> []" "BodyField_Set keys e v = Some e'"
  obtains m' where "e' = e\<lparr>Body := VMap m'\<rparr>"
    "update_at (butlast keys) (\<lambda>m. map_set m (last keys) v) (body_map e) = Some m'"
  using assms by (auto simp: BodyField_Set_def BodyField_isRoot_def)

lemma BodyField_Get_VMap:
  assumes "Body e = VMap m"
  shows "BodyField_Get U keys e = Some (e, value_at (Body e) keys)"
  using assms by (cases m) (simp_all add: BodyField_Get_def ParseBodyJson_def)

lemma update_at_value:
  assumes "update_at ks (\<lambda>m. map_set m k v) m = Some m'"
  shows "value_at (VMap m') (ks @ [k]) = Some v"
proof -
  obtain g g' where "map_set g k v = Some g'" "value_at (VMap m') ks = Some (VMap g')"
    using update_at_here [OF assms] by blast
  then show ?thesis using map_set_get [of g k v g' k] by (simp add: value_at_append)
qed

lemma update_at_siblings:
  assumes "update_at ks (\<lambda>m. map_set m k v) m = Some m'" "\<not> prefix q (ks @ [k])" "\<not> prefix (ks @ [k]) q"
  shows "value_at (VMap m') q = value_at (VMap m) q"
proof (cases "prefix ks q")
  case False
  with assms show ?thesis using update_at_frame [OF assms(1), of q] by auto
next
  case True
  then obtain j js where q: "q = ks @ j # js" using assms(2) by (metis append_Nil2 neq_Nil_conv prefixE prefixI)
  with assms(3) have "j \<noteq> k" by auto
  obtain g g' where g: "map_set g k v = Some g'" "value_at (VMap m') ks = Some (VMap g')"
    "\<forall>j js. value_at (VMap g) (j # js) = value_at (VMap m) (ks @ j # js)"
    using update_at_here [OF assms(1)] by blast
  have "value_at (VMap m') q = value_at (VMap g') (j # js)" using g(2) by (simp add: q value_at_append)
  also have "\<dots> = value_at (VMap g) (j # js)" using map_set_get [OF g(1), of j] \<open>j \<noteq> k\<close> by simp
  finally show ?thesis using g(3) q by simp
qed

text \<open>Setting a body field to a value that is not a map, and reading: the field holds the value, a
  path through it reads inside the value, and every path that neither leads to the field nor passes
  through it reads what the body, as a map, held before.\<close>

theorem BodyField_Set_Get:
  assumes "as_map v = None" "BodyField_Set keys e v = Some e'"
  shows "BodyField_Get unmarshal keys e' = Some (e', Some v)
    \<and> (\<not> prefix q keys \<longrightarrow> \<not> prefix keys q \<longrightarrow>
         BodyField_Get unmarshal q e' = Some (e', value_at (VMap (body_map e)) q))"
proof (cases "keys = []")
  case True
  with assms show ?thesis by (auto simp: BodyField_Set_def BodyField_isRoot_def BodyField_Get_def)
next
  case False
  then obtain m' where m': "e' = e\<lparr>Body := VMap m'\<rparr>"
    "update_at (butlast keys) (\<lambda>m. map_set m (last keys) v) (body_map e) = Some m'"
    using BodyField_Set_leaf assms by blast
  then show ?thesis
    using update_at_value [OF m'(2)] update_at_siblings [OF m'(2), of q] False
    by (simp add: BodyField_Get_VMap)
qed

definition blank_entry :: entry where
  "blank_entry =
     \<lparr>Timestamp = None, ObservedTimestamp = 0, Body = VNil, Attributes = None, Resource = None,
      SeverityText = [], Severity = Default, SpanID = None, TraceID = None, TraceFlags = None,
      ScopeName = []\<rparr>"

theorem BodyField_Set_Get_witness:
  "\<exists>e'. BodyField_Set [''a'', ''b''] (blank_entry\<lparr>Body := VMap (Some (fmupd ''c'' (VBool True) fmempty))\<rparr>)
       (VString ''x'') = Some e'
     \<and> BodyField_Get (\<lambda>_. None) [''a'', ''b''] e' = Some (e', Some (VString ''x''))
     \<and> BodyField_Get (\<lambda>_. None) [''c''] e' = Some (e', Some (VBool True))"
proof -
  let ?e = "blank_entry\<lparr>Body := VMap (Some (fmupd ''c'' (VBool True) fmempty))\<rparr>"
  obtain e' where "BodyField_Set [''a'', ''b''] ?e (VString ''x'') = Some e'"
    by (simp add: BodyField_Set_def as_map_def BodyField_isRoot_def body_map_def getNestedMap_def)
  then show ?thesis
    using BodyField_Set_Get [of "VString ''x''" "[''a'', ''b'']" ?e e' "\<lambda>_. None" "[''c'']"]
    by (simp add: as_map_def body_map_def)
qed

text \<open>Setting a value that is not a map panics exactly when a nil map lies on the way.\<close>

lemma BodyField_Set_panics_iff:
  "as_map v = None \<Longrightarrow>
     BodyField_Set keys e v = None \<longleftrightarrow> nil_map_on (VMap (body_map e)) keys"
  by (auto simp: BodyField_Set_def BodyField_isRoot_def update_at_None [of "butlast keys" "last keys"])

text \<open>Setting a map merges it into the map that is there: its keys win, the other keys stay.\<close>

lemma BodyField_Set_map:
  assumes "BodyField_Set keys e (VMap (Some vs)) = Some e'" "vs \<noteq> fmempty"
  shows "\<exists>g. BodyField_Get unmarshal keys e' = Some (e', Some (VMap (Some g)))
     \<and> (\<forall>k v. fmlookup vs k = Some v \<longrightarrow> fmlookup g k = Some v)
     \<and> (\<forall>k. fmlookup vs k = None \<longrightarrow> fmlookup g k = value_at (VMap (body_map e)) (keys @ [k]))"
proof -
  obtain m' where m': "e' = e\<lparr>Body := VMap m'\<rparr>" "update_at keys (merge_into (Some vs)) (body_map e) = Some m'"
    using assms by (auto simp: BodyField_Set_def BodyField_Merge_def)
  from update_at_here [OF m'(2)] obtain g g' where
    g: "merge_into (Some vs) g = Some g'" "value_at (VMap m') keys = Some (VMap g')"
    "\<forall>j js. value_at (VMap g) (j # js) = value_at (VMap (body_map e)) (keys @ j # js)" by blast
  then obtain h where h: "g = Some h" "g' = Some (h ++\<^sub>f vs)"
    using assms(2) by (auto simp: merge_into_def split: option.splits)
  have "value_at (VMap (body_map e)) (keys @ [k]) = fmlookup h k" for k
    using g(3) [rule_format, of k "[]"] by (simp add: h split: option.splits)
  then show ?thesis
    using g(2) m'(1) by (intro exI [of _ "h ++\<^sub>f vs"]) (auto simp: h BodyField_Get_VMap fmdom'I)
qed

text \<open>Deleting a field below a body that is a map: it reports the value \<open>Get\<close> reads there, or that
  there is none and then changes nothing; afterwards \<open>Get\<close> finds no such field, and every path that
  neither leads to the field nor passes through it reads what it read before.\<close>

theorem BodyField_Delete_Get:
  assumes "Body e = VMap m" "keys \<noteq> []" "BodyField_Delete keys e = (e', r)"
  shows "BodyField_Get unmarshal keys e = Some (e, r)
    \<and> BodyField_Get unmarshal keys e' = Some (e', None)
    \<and> (\<not> prefix q keys \<longrightarrow> \<not> prefix keys q \<longrightarrow>
         BodyField_Get unmarshal q e' = Some (e', value_at (Body e) q))"
proof (cases "delete_at (Body e) keys")
  case None
  with assms delete_at_None [of keys "Body e"] show ?thesis
    by (auto simp: BodyField_Delete_def BodyField_isRoot_def BodyField_Get_VMap)
next
  case (Some p)
  then obtain v' w where d: "delete_at (Body e) keys = Some (v', w)" by (cases p) simp
  then have e': "e' = e\<lparr>Body := v'\<rparr>" "r = Some w"
    using assms by (auto simp: BodyField_Delete_def BodyField_isRoot_def)
  obtain m' where "v' = VMap m'"
    using d assms(2) by (cases keys) (auto elim: delete_at_ConsE simp del: delete_at.simps)
  then show ?thesis
    using delete_at_value [OF d] delete_at_frame [OF d, of q] e' assms(1)
    by (simp add: BodyField_Get_VMap)
qed

theorem BodyField_Delete_Get_witness:
  "BodyField_Get (\<lambda>_. None) [''b'']
     (fst (BodyField_Delete [''a'']
        (blank_entry\<lparr>Body := VMap (Some (fmupd ''a'' VNil (fmupd ''b'' (VBool True) fmempty)))\<rparr>)))
   = Some (fst (BodyField_Delete [''a'']
        (blank_entry\<lparr>Body := VMap (Some (fmupd ''a'' VNil (fmupd ''b'' (VBool True) fmempty)))\<rparr>)),
       Some (VBool True))"
  using BodyField_Delete_Get [of "blank_entry\<lparr>Body := VMap (Some (fmupd ''a'' VNil (fmupd ''b'' (VBool True) fmempty)))\<rparr>"
      "Some (fmupd ''a'' VNil (fmupd ''b'' (VBool True) fmempty))" "[''a'']"
      "fst (BodyField_Delete [''a''] (blank_entry\<lparr>Body := VMap (Some (fmupd ''a'' VNil (fmupd ''b'' (VBool True) fmempty)))\<rparr>))"
      "snd (BodyField_Delete [''a''] (blank_entry\<lparr>Body := VMap (Some (fmupd ''a'' VNil (fmupd ''b'' (VBool True) fmempty)))\<rparr>))"
      "\<lambda>_. None" "[''b'']"]
  by simp

section \<open>The cached parse\<close>

text \<open>The first read below a text body caches the parsed map, the next ones find it.\<close>

lemma ParseBodyJson_caches:
  assumes "Body e = VString s" "unmarshal s = Some parsed" "map_get (Attributes e) cachedBodyJsonKey = None"
  shows "\<exists>e'. ParseBodyJson unmarshal e = Some (e', parsed) \<and> ParseBodyJson unmarshal' e' = Some (e', parsed)
     \<and> Body e' = Body e"
  using assms by (cases "Attributes e") (auto simp: ParseBodyJson_def as_map_def body_bytes_def)

text \<open>The cache is not renewed when the body is replaced by another text: a read below the new body
  answers with the fields of the old one.\<close>

lemma ParseBodyJson_stale:
  assumes "Body e = VString s" "unmarshal s = Some parsed" "map_get (Attributes e) cachedBodyJsonKey = None"
    "ParseBodyJson unmarshal e = Some (e1, parsed)" "BodyField_Set [] e1 (VString s') = Some e2"
  shows "ParseBodyJson unmarshal e2 = Some (e2, parsed)"
  using assms
  by (cases "Attributes e") (auto simp: ParseBodyJson_def BodyField_Set_def BodyField_isRoot_def as_map_def body_bytes_def)

section \<open>Reading field names\<close>

text \<open>The printed form of a body field names the same field, in both notations, exactly for
  readable keys.\<close>

lemma NewField_String:
  "readable ks \<Longrightarrow> NewField (BodyField_String ks) = Inr (BodyField ks)
     \<and> BodyField_UnmarshalText (BodyField_String ks) = Inr ks"
  using split_printed [of "''body''" ks]
  by (simp add: NewField_def newField_def BodyField_String_def BodyField_UnmarshalText_def)

lemma BodyField_Child_Parent: "BodyField_Parent (BodyField_Child ks k) = ks"
  by (simp add: BodyField_Parent_def BodyField_Child_def BodyField_isRoot_def)

end
