(* ===== verification/Stanza_Operators.thy ===== *)
theory Stanza_Operators
  imports Stanza_Entry "HOL-Library.Monad_Syntax"
begin

text \<open>
  The operators' common parts (\<open>stanza/operator/helper/transformer.go\<close>, \<open>parser.go\<close>, \<open>expr.go\<close>,
  \<open>scope_name.go\<close>) and the operators that move data between fields (\<open>add\<close>, \<open>copy\<close>, \<open>move\<close>,
  \<open>remove\<close>, \<open>noop\<close>, \<open>router\<close>).

  An operator changes the entry it is given and writes it to the next operator; an error of that
  write is dropped. The next operator is an argument \<open>next\<close>: it returns the entry as it leaves it and
  the list of what came out at the end of the pipeline. A panic is \<open>None\<close>.

  Outside the repository: the expression machine, the fields of the upstream package (attributes and
  resource, and the body fields some operators take from there), the attributer of a route, the JSON
  decoders. They are the record \<open>deps\<close>.
\<close>

section \<open>Dependencies\<close>

text \<open>The environment of an expression. A pooled environment keeps the \<open>body_map\<close> of an earlier entry
  unless the expression refers to fields of the body.\<close>

record expr_env =
  env_body :: any
  env_attributes :: gomap
  env_resource :: gomap
  env_timestamp :: "64 word option"
  env_severity_text :: string
  env_severity_number :: severity
  env_trace_id :: "string option"
  env_span_id :: "string option"
  env_trace_flags :: "string option"
  env_body_map :: gomap
  env_patterns :: "(string \<times> (string \<Rightarrow> bool)) list"

record ('f, 'p) deps =
  unmarshal :: "string \<Rightarrow> gomap option"
  NewAttributeField :: "string list \<Rightarrow> 'f"
  NewResourceField :: "string list \<Rightarrow> 'f"
  up_Get :: "'f \<Rightarrow> entry \<Rightarrow> any option"
  up_Set :: "'f \<Rightarrow> entry \<Rightarrow> any \<Rightarrow> entry \<times> string option"
  up_Delete :: "'f \<Rightarrow> entry \<Rightarrow> entry \<times> any option"
  run_bool :: "'p \<Rightarrow> expr_env \<Rightarrow> string + bool"
  run_any :: "'p \<Rightarrow> expr_env \<Rightarrow> string + any"
  pooled :: expr_env

datatype op_error =
    IfExprFailed string
  | FieldMissing
  | SetFailed string
  | ValueExprFailed string
  | ValueMissing
  | NotParsed string
  | TimeFailed op_error
  | SeverityFailed op_error
  | TraceFailed op_error
  | ScopeNameFailed op_error
  | NotAString
  | LabelFailed string

section \<open>Fields of an entry\<close>

definition entry_Get :: "('f, 'p) deps \<Rightarrow> field \<Rightarrow> entry \<Rightarrow> (entry \<times> any option) option" where
  "entry_Get D f e =
     (case f of
        AttributeField ks \<Rightarrow> Some (e, up_Get D (NewAttributeField D ks) e)
      | ResourceField ks \<Rightarrow> Some (e, up_Get D (NewResourceField D ks) e)
      | BodyField ks \<Rightarrow> BodyField_Get (unmarshal D) ks e)"

definition entry_Set :: "('f, 'p) deps \<Rightarrow> field \<Rightarrow> entry \<Rightarrow> any \<Rightarrow> (entry \<times> string option) option" where
  "entry_Set D f e v =
     (case f of
        AttributeField ks \<Rightarrow> Some (up_Set D (NewAttributeField D ks) e v)
      | ResourceField ks \<Rightarrow> Some (up_Set D (NewResourceField D ks) e v)
      | BodyField ks \<Rightarrow> map_option (\<lambda>e'. (e', None)) (BodyField_Set ks e v))"

section \<open>Expressions\<close>

definition getExprEnv ::
  "('f, 'p) deps \<Rightarrow> entry \<Rightarrow> bool \<Rightarrow> (string \<times> (string \<Rightarrow> bool)) list \<Rightarrow> (entry \<times> expr_env) option" where
  "getExprEnv D e forExprWithBodyFieldRef compiledPatterns =
     (let env = (pooled D)\<lparr>env_body := Body e, env_attributes := Attributes e, env_resource := Resource e,
            env_timestamp := Timestamp e, env_severity_text := SeverityText e,
            env_severity_number := Severity e, env_trace_id := TraceID e, env_span_id := SpanID e,
            env_trace_flags := TraceFlags e, env_patterns := compiledPatterns\<rparr>
      in if forExprWithBodyFieldRef
         then map_option (\<lambda>(e', m). (e', env\<lparr>env_body_map := m\<rparr>)) (ParseBodyJson (unmarshal D) e)
         else Some (e, env))"

section \<open>Transformers\<close>

record 'p transformer =
  OnError :: string
  IfExpr :: "'p option"
  ifExprHasBodyFieldRef :: bool
  ifExprCompiledPatterns :: "(string \<times> (string \<Rightarrow> bool)) list"

type_synonym 'w writer = "entry \<Rightarrow> (entry \<times> 'w list) option"
type_synonym 'w processed = "(entry \<times> 'w list \<times> op_error option) option"

definition SendOnError :: string where "SendOnError = ''send''"
definition SendOnErrorQuiet :: string where "SendOnErrorQuiet = ''send_quiet''"
definition DropOnError :: string where "DropOnError = ''drop''"
definition DropOnErrorQuiet :: string where "DropOnErrorQuiet = ''drop_quiet''"

record transformer_config =
  cfg_OnError :: string
  cfg_IfExpr :: string

datatype build_error = InvalidOnError | InvalidIfExpr string

text \<open>\<open>Build\<close>, with the compiler of boolean expressions as an argument.\<close>

definition TransformerConfig_Build ::
  "(string \<Rightarrow> string + ('p \<times> bool \<times> (string \<times> (string \<Rightarrow> bool)) list)) \<Rightarrow>
    transformer_config \<Rightarrow> build_error + 'p transformer" where
  "TransformerConfig_Build ExprCompileBool c =
     (if cfg_OnError c \<notin> {SendOnError, SendOnErrorQuiet, DropOnError, DropOnErrorQuiet}
      then Inl InvalidOnError
      else
        (let t = \<lparr>OnError = cfg_OnError c, IfExpr = None, ifExprHasBodyFieldRef = False,
                  ifExprCompiledPatterns = []\<rparr>
         in if cfg_IfExpr c = [] then Inr t
            else (case ExprCompileBool (cfg_IfExpr c) of
                    Inl err \<Rightarrow> Inl (InvalidIfExpr err)
                  | Inr (compiled, hasRef, patterns) \<Rightarrow>
                      Inr (t\<lparr>IfExpr := Some compiled, ifExprHasBodyFieldRef := hasRef,
                             ifExprCompiledPatterns := patterns\<rparr>))))"

definition Write :: "'w writer \<Rightarrow> entry \<Rightarrow> op_error option \<Rightarrow> 'w processed" where
  "Write next e err = map_option (\<lambda>(e', ws). (e', ws, err)) (next e)"

definition HandleEntryError :: "'p transformer \<Rightarrow> 'w writer \<Rightarrow> entry \<Rightarrow> op_error \<Rightarrow> 'w processed" where
  "HandleEntryError t next e err =
     (if OnError t = SendOnError \<or> OnError t = SendOnErrorQuiet then Write next e (Some err)
      else Some (e, [], Some err))"

definition Skip :: "('f, 'p) deps \<Rightarrow> 'p transformer \<Rightarrow> entry \<Rightarrow> (entry \<times> (op_error + bool)) option" where
  "Skip D t e =
     (case IfExpr t of
        None \<Rightarrow> Some (e, Inr False)
      | Some p \<Rightarrow> do {
          (e', env) \<leftarrow> getExprEnv D e (ifExprHasBodyFieldRef t) (ifExprCompiledPatterns t);
          Some (e', case run_bool D p env of
                      Inl err \<Rightarrow> Inl (IfExprFailed err)
                    | Inr matches \<Rightarrow> Inr (\<not> matches))
        })"

type_synonym transform = "entry \<Rightarrow> (entry \<times> op_error option) option"

definition ProcessWith ::
  "('f, 'p) deps \<Rightarrow> 'p transformer \<Rightarrow> 'w writer \<Rightarrow> transform \<Rightarrow> entry \<Rightarrow> 'w processed" where
  "ProcessWith D t next transform e = do {
     (e, skip) \<leftarrow> Skip D t e;
     (case skip of
        Inl err \<Rightarrow> HandleEntryError t next e err
      | Inr True \<Rightarrow> Write next e None
      | Inr False \<Rightarrow> do {
          (e, err) \<leftarrow> transform e;
          (case err of
             Some err \<Rightarrow> HandleEntryError t next e err
           | None \<Rightarrow> Write next e None)
        })
   }"

text \<open>\<open>ProcessBatchWith\<close>: every entry is processed, the errors are collected.\<close>

fun ProcessBatchWith :: "(entry \<Rightarrow> 'w processed) \<Rightarrow> entry list \<Rightarrow> ('w list \<times> op_error list) option" where
  "ProcessBatchWith process [] = Some ([], [])"
| "ProcessBatchWith process (e # es) = do {
     (e', ws, err) \<leftarrow> process e;
     (ws', errs) \<leftarrow> ProcessBatchWith process es;
     Some (ws @ ws', (case err of None \<Rightarrow> errs | Some x \<Rightarrow> x # errs))
   }"

section \<open>Parsers\<close>

record 'p parser = "'p transformer" +
  ParseFrom :: field
  ParseTo :: field
  BodyFrom :: "field option"
  TimeParser :: "(entry \<Rightarrow> (entry \<times> op_error option) option) option"
  SeverityParser :: "(entry \<Rightarrow> (entry \<times> op_error option) option) option"
  TraceParser :: "(entry \<Rightarrow> (entry \<times> op_error option) option) option"
  ScopeNameParser :: "(entry \<Rightarrow> (entry \<times> op_error option) option) option"

text \<open>An optional helper parser runs on the entry and reports an error or none.\<close>

definition run_helper :: "transform option \<Rightarrow> transform" where
  "run_helper p e = (case p of None \<Rightarrow> Some (e, None) | Some f \<Rightarrow> f e)"

text \<open>What \<open>ParseWith\<close> does once the parsed value is stored: the body, then the four helpers, all of
  which run; the first of their errors, in this order, is the one reported.\<close>

definition run_helpers :: "('f, 'p) deps \<Rightarrow> ('p, 'z) parser_scheme \<Rightarrow> transform" where
  "run_helpers D p e = do {
     e \<leftarrow> (case BodyFrom p of
             None \<Rightarrow> Some e
           | Some f \<Rightarrow> map_option (\<lambda>(e, body). case body of None \<Rightarrow> e | Some b \<Rightarrow> e\<lparr>Body := b\<rparr>) (entry_Get D f e));
     (e, timeErr) \<leftarrow> run_helper (TimeParser p) e;
     (e, severityErr) \<leftarrow> run_helper (SeverityParser p) e;
     (e, traceErr) \<leftarrow> run_helper (TraceParser p) e;
     (e, scopeErr) \<leftarrow> run_helper (ScopeNameParser p) e;
     Some (e, if timeErr \<noteq> None then map_option TimeFailed timeErr
              else if severityErr \<noteq> None then map_option SeverityFailed severityErr
              else if traceErr \<noteq> None then map_option TraceFailed traceErr
              else map_option ScopeNameFailed scopeErr)
   }"

text \<open>\<open>ParseWith\<close>: an error it returns has already gone through \<open>HandleEntryError\<close>; without one nothing
  has been written yet.\<close>

definition ParseWith ::
  "('f, 'p) deps \<Rightarrow> ('p, 'z) parser_scheme \<Rightarrow> 'w writer \<Rightarrow> (any \<Rightarrow> op_error + any) \<Rightarrow> entry \<Rightarrow> 'w processed" where
  "ParseWith D p next parse e =
     (let fail = HandleEntryError (transformer.truncate p) next in do {
        (e, value) \<leftarrow> entry_Get D (ParseFrom p) e;
        (case value of
           None \<Rightarrow> fail e FieldMissing
         | Some v \<Rightarrow>
             (case parse v of
                Inl err \<Rightarrow> fail e err
              | Inr newValue \<Rightarrow> do {
                  (e, err) \<leftarrow> entry_Set D (ParseTo p) e newValue;
                  (case err of
                     Some err \<Rightarrow> fail e (SetFailed err)
                   | None \<Rightarrow> do {
                       (e, err) \<leftarrow> run_helpers D p e;
                       (case err of
                          Some err \<Rightarrow> fail e err
                        | None \<Rightarrow> Some (e, [], None))
                     })
                }))
      })"

definition ParserProcessWith ::
  "('f, 'p) deps \<Rightarrow> ('p, 'z) parser_scheme \<Rightarrow> 'w writer \<Rightarrow> (any \<Rightarrow> op_error + any) \<Rightarrow> entry \<Rightarrow> 'w processed" where
  "ParserProcessWith D p next parse e = do {
     (e, skip) \<leftarrow> Skip D (transformer.truncate p) e;
     (case skip of
        Inl err \<Rightarrow> HandleEntryError (transformer.truncate p) next e err
      | Inr True \<Rightarrow> Write next e None
      | Inr False \<Rightarrow> do {
          (e, ws, err) \<leftarrow> ParseWith D p next parse e;
          (case err of
             Some err \<Rightarrow> Some (e, ws, Some err)
           | None \<Rightarrow> Write next e None)
        })
   }"

definition ScopeNameParser_Parse :: "('f, 'p) deps \<Rightarrow> field \<Rightarrow> transform" where
  "ScopeNameParser_Parse D from e = do {
     (e, value) \<leftarrow> entry_Get D from e;
     (case value of
        None \<Rightarrow> Some (e, Some FieldMissing)
      | Some (VString s) \<Rightarrow> Some (e\<lparr>ScopeName := s\<rparr>, None)
      | Some v \<Rightarrow> do {
          (e, err) \<leftarrow> entry_Set D from e v;
          Some (e, Some (case err of Some x \<Rightarrow> SetFailed x | None \<Rightarrow> NotAString))
        })
   }"

section \<open>Moving data\<close>

text \<open>\<open>add\<close>: a constant value, or the value of an expression.\<close>

definition add_Transform :: "('f, 'p) deps \<Rightarrow> 'f \<Rightarrow> any \<Rightarrow> 'p option \<Rightarrow> bool \<Rightarrow> transform" where
  "add_Transform D field value program valueExprHasBodyFieldRef e =
     (let set = (\<lambda>e v. case up_Set D field e v of (e', err) \<Rightarrow> Some (e', map_option SetFailed err))
      in if value \<noteq> VNil then set e value
         else (case program of
                 Some p \<Rightarrow> do {
                   (e, env) \<leftarrow> getExprEnv D e valueExprHasBodyFieldRef [];
                   (case run_any D p env of
                      Inl err \<Rightarrow> Some (e, Some (ValueExprFailed err))
                    | Inr result \<Rightarrow> set e result)
                 }
               | None \<Rightarrow> Some (e, Some ValueMissing)))"

definition isExpr :: "string \<Rightarrow> bool" where
  "isExpr str \<longleftrightarrow> prefix ''EXPR('' str \<and> suffix '')'' str"

definition copy_Transform :: "('f, 'p) deps \<Rightarrow> field \<Rightarrow> 'f \<Rightarrow> transform" where
  "copy_Transform D from to e = do {
     (e, val) \<leftarrow> entry_Get D from e;
     (case val of
        None \<Rightarrow> Some (e, Some FieldMissing)
      | Some v \<Rightarrow> (case up_Set D to e v of (e', err) \<Rightarrow> Some (e', map_option SetFailed err)))
   }"

definition move_Transform :: "('f, 'p) deps \<Rightarrow> 'f \<Rightarrow> 'f \<Rightarrow> transform" where
  "move_Transform D from to e =
     (case up_Delete D from e of
        (e', None) \<Rightarrow> Some (e', Some FieldMissing)
      | (e', Some v) \<Rightarrow> (case up_Set D to e' v of (e'', err) \<Rightarrow> Some (e'', map_option SetFailed err)))"

text \<open>The field of \<open>remove\<close>: all attributes, the whole resource, or one field.\<close>

datatype 'f remove_field = AllAttributes | AllResource | OneField 'f

definition unmarshalCheckString :: "(string \<Rightarrow> string + 'f) \<Rightarrow> string \<Rightarrow> string + 'f remove_field" where
  "unmarshalCheckString up_NewField s =
     (if s = ''resource'' then Inr AllResource
      else if s = ''attributes'' then Inr AllAttributes
      else (case up_NewField s of Inl err \<Rightarrow> Inl err | Inr f \<Rightarrow> Inr (OneField f)))"

definition remove_Transform :: "('f, 'p) deps \<Rightarrow> 'f remove_field \<Rightarrow> transform" where
  "remove_Transform D field e =
     (case field of
        AllAttributes \<Rightarrow> Some (e\<lparr>Attributes := None\<rparr>, None)
      | AllResource \<Rightarrow> Some (e\<lparr>Resource := None\<rparr>, None)
      | OneField f \<Rightarrow>
          (case up_Delete D f e of
             (e', None) \<Rightarrow> Some (e', Some FieldMissing)
           | (e', Some v) \<Rightarrow> Some (e', None)))"

definition noop_Process :: "'w writer \<Rightarrow> entry \<Rightarrow> 'w processed" where
  "noop_Process next e = Write next e None"

section \<open>Routing\<close>

text \<open>A route: its expression, the attributer of the upstream package, and its outputs. All outputs
  get the same entry, one after the other, each as the one before left it.\<close>

record ('p, 'w) route =
  Attribute :: "entry \<Rightarrow> entry \<times> string option"
  Expression :: 'p
  exprHasBodyFieldRef :: bool
  OutputIDs :: "string list"
  OutputOperators :: "'w writer list"

fun send_all :: "'w writer list \<Rightarrow> entry \<Rightarrow> (entry \<times> 'w list) option" where
  "send_all [] e = Some (e, [])"
| "send_all (output # outputs) e = do {
     (e, ws) \<leftarrow> output e;
     (e, ws') \<leftarrow> send_all outputs e;
     Some (e, ws @ ws')
   }"

fun try_routes :: "('f, 'p) deps \<Rightarrow> ('p, 'w) route list \<Rightarrow> expr_env \<Rightarrow> entry \<Rightarrow> 'w processed" where
  "try_routes D [] env e = Some (e, [], None)"
| "try_routes D (route # routes) env e =
     (case run_bool D (Expression route) env of
        Inl err \<Rightarrow> try_routes D routes env e
      | Inr False \<Rightarrow> try_routes D routes env e
      | Inr True \<Rightarrow>
          (case Attribute route e of
             (e', Some err) \<Rightarrow> Some (e', [], Some (LabelFailed err))
           | (e', None) \<Rightarrow> map_option (\<lambda>(e'', ws). (e'', ws, None)) (send_all (OutputOperators route) e')))"

definition router_Process ::
  "('f, 'p) deps \<Rightarrow> ('p, 'w) route list \<Rightarrow> (string \<times> (string \<Rightarrow> bool)) list \<Rightarrow> entry \<Rightarrow> 'w processed" where
  "router_Process D routes allCompiledPatterns e = do {
     (e, env) \<leftarrow> getExprEnv D e (list_ex exprHasBodyFieldRef routes) allCompiledPatterns;
     try_routes D routes env e
   }"

fun findOperator :: "(string \<times> 'w writer) list \<Rightarrow> string \<Rightarrow> 'w writer option" where
  "findOperator [] operatorID = None"
| "findOperator ((i, operator) # operators) operatorID =
     (if i = operatorID then Some operator else findOperator operators operatorID)"

fun findOperators :: "(string \<times> 'w writer) list \<Rightarrow> string list \<Rightarrow> 'w writer list option" where
  "findOperators operators [] = Some []"
| "findOperators operators (i # ids) = do {
     operator \<leftarrow> findOperator operators i;
     rest \<leftarrow> findOperators operators ids;
     Some (operator # rest)
   }"

fun SetOutputs :: "(string \<times> 'w writer) list \<Rightarrow> ('p, 'w) route list \<Rightarrow> ('p, 'w) route list option" where
  "SetOutputs operators [] = Some []"
| "SetOutputs operators (route # routes) = do {
     ops \<leftarrow> findOperators operators (OutputIDs route);
     rest \<leftarrow> SetOutputs operators routes;
     Some (route\<lparr>OutputOperators := ops\<rparr> # rest)
   }"

end
