(* ===== verification/Stanza_Parsers.thy ===== *)
theory Stanza_Parsers
  imports Stanza_Operators "HOL-Library.List_Lexorder" "HOL-Library.Char_ord"
begin

text \<open>
  The operators that interpret values: \<open>json_parser\<close> with its flattening, \<open>normalize\<close>, the severity
  parser (\<open>severity.go\<close>, \<open>severity_builder.go\<close>), the trace parser (\<open>trace.go\<close>) and the regular
  expression parser with its cache (\<open>operators/regex\<close>).

  Arguments stand for code outside the repository: the JSON decoders and encoder, \<open>unquote\<close> for
  \<open>strconv.Unquote\<close>, \<open>unicode_lower\<close> for the Unicode table behind \<open>strings.ToLower\<close> (ASCII is
  modelled), \<open>sprint\<close> for what \<open>%v\<close> prints of floats and composite values.
\<close>

section \<open>Sorted keys\<close>

definition sorted_keys :: "gomap \<Rightarrow> string list" where
  "sorted_keys m = (case m of None \<Rightarrow> [] | Some f \<Rightarrow> sorted_list_of_fset (fmdom f))"

section \<open>The JSON parser\<close>

record json_parser =
  enableFlattening :: bool
  maxFlatteningDepth :: nat
  enablePaths :: bool
  pathPrefix :: string

definition json_Build :: "bool \<Rightarrow> int \<Rightarrow> bool \<Rightarrow> string \<Rightarrow> json_parser" where
  "json_Build flattening maxDepth paths pfx =
     \<lparr>enableFlattening = flattening, maxFlatteningDepth = nat (if maxDepth < 0 then 0 else maxDepth),
      enablePaths = paths, pathPrefix = pfx\<rparr>"

definition generateKey :: "json_parser \<Rightarrow> string \<Rightarrow> string \<Rightarrow> string" where
  "generateKey p parent key =
     (if enablePaths p \<and> parent \<noteq> [] then join [parent, key] ''.'' else key)"

function flatten :: "json_parser \<Rightarrow> string \<Rightarrow> any \<Rightarrow> (string, any) fmap \<Rightarrow> nat \<Rightarrow> (string, any) fmap" where
  "flatten p parent value destination depth =
     (case as_map value of
        Some mapped \<Rightarrow>
          if depth > maxFlatteningDepth p then fmupd parent value destination
          else fold (\<lambda>key destination.
                 case map_get mapped key of
                   None \<Rightarrow> destination
                 | Some v \<Rightarrow> flatten p (generateKey p parent key) v destination (depth + 1))
               (sorted_keys mapped) destination
      | None \<Rightarrow> fmupd parent value destination)"
  by pat_completeness auto
termination by (relation "measure (\<lambda>(p, _, _, _, depth). Suc (maxFlatteningDepth p) - depth)") auto

declare flatten.simps [simp del]

definition Unquote :: "(string \<Rightarrow> string option) \<Rightarrow> string \<Rightarrow> string" where
  "Unquote unquote s = (case unquote s of Some u \<Rightarrow> u | None \<Rightarrow> s)"

text \<open>\<open>parse\<close> of \<open>json_parser\<close>; the decoder fails with a message or stores a map, nil for \<open>null\<close>.\<close>

definition json_parse ::
  "(string \<Rightarrow> string + gomap) \<Rightarrow> (string \<Rightarrow> string option) \<Rightarrow> json_parser \<Rightarrow> any \<Rightarrow> op_error + any" where
  "json_parse decode unquote p value =
     (case (case value of
              VString s \<Rightarrow> decode (Unquote unquote s)
            | VMap m \<Rightarrow> Inr m
            | _ \<Rightarrow> Inl ''type'') of
        Inl err \<Rightarrow> Inl (NotParsed err)
      | Inr parsedValue \<Rightarrow>
          if enableFlattening p
          then Inr (VMap (Some (flatten p (pathPrefix p) (VMap parsedValue) fmempty 0)))
          else Inr (VMap parsedValue))"

section \<open>Normalize\<close>

definition MessageField :: string where "MessageField = ''message''"

definition msgCompatibleFields :: "string list" where
  "msgCompatibleFields = [''log'', ''msg'']"

definition OriginalBodyAttributeKey :: string where
  "OriginalBodyAttributeKey = ''signoz.__internal__.'' @ ''original_body''"

text \<open>\<open>processTextLogs\<close>; the decoder fills a map and may fail half way.\<close>

definition processTextLogs ::
  "(string \<Rightarrow> (string, any) fmap \<times> bool) \<Rightarrow> (string \<Rightarrow> string option) \<Rightarrow> string \<Rightarrow> (string, any) fmap" where
  "processTextLogs decode unquote str =
     (let unquoted = Unquote unquote str in
      if prefix ''{'' unquoted \<and> suffix ''}'' unquoted
      then (case decode unquoted of
              (output, True) \<Rightarrow> output
            | (output, False) \<Rightarrow> fmupd MessageField (VString str) output)
      else fmupd MessageField (VString str) fmempty)"

text \<open>\<open>getMessage\<close> deletes a field that holds nil.\<close>

definition getMessage :: "string list \<Rightarrow> entry \<Rightarrow> (entry \<times> any option) option" where
  "getMessage field e = do {
     (e, v) \<leftarrow> BodyField_Get (\<lambda>_. None) field e;
     (case v of
        None \<Rightarrow> Some (e, None)
      | Some v \<Rightarrow>
          if v = VNil then Some (fst (BodyField_Delete field e), None) else Some (e, Some v))
   }"

fun promote_message :: "string list \<Rightarrow> entry \<Rightarrow> entry option" where
  "promote_message [] e = Some e"
| "promote_message (fieldName # names) e = do {
     (e, v) \<leftarrow> BodyField_Get (\<lambda>_. None) [fieldName] e;
     (case v of
        None \<Rightarrow> promote_message names e
      | Some val \<Rightarrow> do {
          e \<leftarrow> BodyField_Set [MessageField] e val;
          Some (fst (BodyField_Delete [fieldName] e))
        })
   }"

fun shift_keys :: "gomap \<Rightarrow> string list \<Rightarrow> entry \<Rightarrow> entry option" where
  "shift_keys m [] e = Some e"
| "shift_keys m (key # keys) e =
     (case map_get m key of
        None \<Rightarrow> shift_keys m keys e
      | Some v \<Rightarrow> do { e \<leftarrow> BodyField_Set [key] e v; shift_keys m keys e })"

text \<open>\<open>normalize\<close>. The source ranges over the message map in no particular order; its keys are
  distinct and each is set once, so the order does not matter, and here it is the sorted one.\<close>

definition normalize :: "entry \<Rightarrow> entry option" where
  "normalize e = do {
     (e, message) \<leftarrow> getMessage [MessageField] e;
     e \<leftarrow> (if message = None then promote_message msgCompatibleFields e else Some e);
     (e, message) \<leftarrow> getMessage [MessageField] e;
     (case Option.bind message as_map of
        None \<Rightarrow> Some e
      | Some m \<Rightarrow> shift_keys m (sorted_keys m) (fst (BodyField_Delete [MessageField] e)))
   }"

record normalize_deps =
  sonic_decode :: "string \<Rightarrow> (string, any) fmap \<times> bool"
  sonic_marshal :: "gomap \<Rightarrow> string option"
  strconv_Unquote :: "string \<Rightarrow> string option"

text \<open>The type switch of \<open>transform\<close>: the parsed value, and the original where there is one to keep.\<close>

definition parse_body :: "normalize_deps \<Rightarrow> bool \<Rightarrow> any \<Rightarrow> gomap \<times> any option" where
  "parse_body N jsonBodyDualIngestion body =
     (case body of
        VString v \<Rightarrow> (Some (processTextLogs (sonic_decode N) (strconv_Unquote N) v), Some (VString v))
      | VMap v \<Rightarrow> (v, if jsonBodyDualIngestion then map_option VString (sonic_marshal N v) else None)
      | VNil \<Rightarrow> (Some (fmupd MessageField VNil fmempty), Some (VString []))
      | v \<Rightarrow> (Some (fmupd MessageField v fmempty), Some v))"

definition keep_original :: "bool \<Rightarrow> any option \<Rightarrow> entry \<Rightarrow> entry option" where
  "keep_original jsonBodyDualIngestion original e =
     (case (jsonBodyDualIngestion, original) of
        (True, Some orig) \<Rightarrow>
          map_option (\<lambda>attrs. e\<lparr>Attributes := attrs\<rparr>)
            (map_set (if Attributes e = None then Some fmempty else Attributes e) OriginalBodyAttributeKey orig)
      | _ \<Rightarrow> Some e)"

definition normalize_transform :: "normalize_deps \<Rightarrow> bool \<Rightarrow> transform" where
  "normalize_transform N jsonBodyDualIngestion e =
     (if map_get (Attributes e) OriginalBodyAttributeKey \<noteq> None then Some (e, None)
      else
        (case parse_body N jsonBodyDualIngestion (Body e) of (parsedValue, original) \<Rightarrow> do {
           e \<leftarrow> normalize (e\<lparr>Body := VMap parsedValue\<rparr>);
           e \<leftarrow> keep_original jsonBodyDualIngestion original e;
           Some (e, None)
         }))"

section \<open>Severity\<close>

definition ascii_lower :: "char \<Rightarrow> char" where
  "ascii_lower c = (let n = of_char c in if 65 \<le> n \<and> n \<le> (90::nat) then char_of (n + 32) else c)"

text \<open>\<open>strings.ToLower\<close>\<close>

definition ToLower :: "(string \<Rightarrow> string) \<Rightarrow> string \<Rightarrow> string" where
  "ToLower unicode_lower s =
     (if list_all (\<lambda>c. of_char c < (128::nat)) s then map ascii_lower s else unicode_lower s)"

type_synonym severityMap = "(string, severity) fmap"

definition otel_severities :: "(string \<times> severity) list" where
  "otel_severities =
     [(''trace'', Trace), (''1'', Trace), (''trace2'', Trace2), (''2'', Trace2),
      (''trace3'', Trace3), (''3'', Trace3), (''trace4'', Trace4), (''4'', Trace4),
      (''debug'', Debug), (''5'', Debug), (''debug2'', Debug2), (''6'', Debug2),
      (''debug3'', Debug3), (''7'', Debug3), (''debug4'', Debug4), (''8'', Debug4),
      (''info'', Info), (''9'', Info), (''info2'', Info2), (''10'', Info2),
      (''info3'', Info3), (''11'', Info3), (''info4'', Info4), (''12'', Info4),
      (''warn'', Warn), (''13'', Warn), (''warn2'', Warn2), (''14'', Warn2),
      (''warn3'', Warn3), (''15'', Warn3), (''warn4'', Warn4), (''16'', Warn4),
      (''error'', Error), (''17'', Error), (''error2'', Error2), (''18'', Error2),
      (''error3'', Error3), (''19'', Error3), (''error4'', Error4), (''20'', Error4),
      (''fatal'', Fatal), (''21'', Fatal), (''fatal2'', Fatal2), (''22'', Fatal2),
      (''fatal3'', Fatal3), (''23'', Fatal3), (''fatal4'', Fatal4), (''24'', Fatal4)]"

definition severityMap_add :: "severity \<Rightarrow> string list \<Rightarrow> severityMap \<Rightarrow> severityMap" where
  "severityMap_add severity values m = fold (\<lambda>str m. fmupd str severity m) values m"

definition getBuiltinMapping :: "string \<Rightarrow> severityMap" where
  "getBuiltinMapping name =
     (if name = ''none'' then fmempty
      else if name = ''otel'' \<or> name = ''aliases'' then fmap_of_list otel_severities
      else
        severityMap_add Error4 [''err4''] (severityMap_add Error3 [''err3'']
        (severityMap_add Error2 [''err2''] (severityMap_add Error [''err'']
        (severityMap_add Warn4 [''warning4''] (severityMap_add Warn3 [''warning3'']
        (severityMap_add Warn2 [''warning2''] (severityMap_add Warn [''warning'']
        (fmap_of_list otel_severities)))))))))"

text \<open>The whole number a float denotes, if it is one that fits an \<open>int\<close>.\<close>

definition whole_number :: "go_float \<Rightarrow> int option" where
  "whole_number v =
     (case v of
        Finite x \<Rightarrow> if x = of_int \<lfloor>x\<rfloor> \<and> - (2 ^ 63) \<le> \<lfloor>x\<rfloor> \<and> \<lfloor>x\<rfloor> < 2 ^ 63 then Some \<lfloor>x\<rfloor> else None
      | NegZero \<Rightarrow> Some 0
      | _ \<Rightarrow> None)"

definition severityMap_find ::
  "(string \<Rightarrow> string) \<Rightarrow> severityMap \<Rightarrow> any \<Rightarrow> op_error + (severity \<times> string)" where
  "severityMap_find unicode_lower m value =
     (let found = (\<lambda>key text. Inr (case fmlookup m key of Some s \<Rightarrow> s | None \<Rightarrow> Default, text))
      in case value of
           VInt v \<Rightarrow> found (Itoa (sint v)) (Itoa (sint v))
         | VFloat64 v \<Rightarrow>
             (case whole_number v of
                None \<Rightarrow> Inl (NotParsed ''not a whole number'')
              | Some i \<Rightarrow> found (Itoa i) (Itoa i))
         | VString v \<Rightarrow> found (ToLower unicode_lower v) v
         | VBytes v \<Rightarrow> found (ToLower unicode_lower v) v
         | _ \<Rightarrow> Inl (NotParsed ''type cannot be a severity''))"

definition isRange :: "any \<Rightarrow> (int \<times> int) option" where
  "isRange value =
     (case value of
        VMap rawMap \<Rightarrow>
          (case (map_get rawMap ''min'', map_get rawMap ''max'') of
             (Some (VInt lo), Some (VInt hi)) \<Rightarrow> Some (sint lo, sint hi)
           | _ \<Rightarrow> None)
      | _ \<Rightarrow> None)"

definition expandRange :: "int \<Rightarrow> int \<Rightarrow> string list" where
  "expandRange lo hi = (if lo > hi then map Itoa [hi..lo] else map Itoa [lo..hi])"

definition parseableValues :: "(string \<Rightarrow> string) \<Rightarrow> any \<Rightarrow> op_error + string list" where
  "parseableValues unicode_lower value =
     (case value of
        VInt v \<Rightarrow> Inr [Itoa (sint v)]
      | VString v \<Rightarrow>
          if v = ''2xx'' then Inr (expandRange 200 299)
          else if v = ''3xx'' then Inr (expandRange 300 399)
          else if v = ''4xx'' then Inr (expandRange 400 499)
          else if v = ''5xx'' then Inr (expandRange 500 599)
          else Inr [ToLower unicode_lower v]
      | VBytes v \<Rightarrow> Inr [ToLower unicode_lower v]
      | v \<Rightarrow>
          (case isRange v of
             Some (lo, hi) \<Rightarrow> Inr (expandRange lo hi)
           | None \<Rightarrow> Inl (NotParsed ''type cannot be parsed as a severity'')))"

definition validateSeverity :: "(string \<Rightarrow> string) \<Rightarrow> any \<Rightarrow> op_error + severity" where
  "validateSeverity unicode_lower severity =
     (case severityMap_find unicode_lower (getBuiltinMapping ''aliases'') severity of
        Inl err \<Rightarrow> Inl err
      | Inr (sev, _) \<Rightarrow> Inr sev)"

fun add_values ::
  "(string \<Rightarrow> string) \<Rightarrow> severity \<Rightarrow> any list \<Rightarrow> severityMap \<Rightarrow> op_error + severityMap" where
  "add_values unicode_lower sev [] m = Inr m"
| "add_values unicode_lower sev (v # vs) m =
     (case parseableValues unicode_lower v of
        Inl err \<Rightarrow> Inl err
      | Inr strs \<Rightarrow> add_values unicode_lower sev vs (severityMap_add sev strs m))"

text \<open>The mapping of \<open>SeverityConfig.Build\<close>: the configured entries, in the order the range visits
  them. A nil value is neither a slice nor another value for the source's type switch.\<close>

fun add_mapping ::
  "(string \<Rightarrow> string) \<Rightarrow> (string \<times> any) list \<Rightarrow> severityMap \<Rightarrow> op_error + severityMap" where
  "add_mapping unicode_lower [] m = Inr m"
| "add_mapping unicode_lower ((severity, unknown) # mapping) m =
     (case validateSeverity unicode_lower (VString severity) of
        Inl err \<Rightarrow> Inl err
      | Inr sev \<Rightarrow>
          (case add_values unicode_lower sev
                  (case unknown of VSlice vs \<Rightarrow> vs | VNil \<Rightarrow> [] | v \<Rightarrow> [v]) m of
             Inl err \<Rightarrow> Inl err
           | Inr m' \<Rightarrow> add_mapping unicode_lower mapping m'))"

record severity_parser =
  sev_ParseFrom :: field
  sev_Mapping :: severityMap
  sev_overwriteText :: bool

definition SeverityConfig_Build ::
  "(string \<Rightarrow> string) \<Rightarrow> field option \<Rightarrow> string \<Rightarrow> (string \<times> any) list \<Rightarrow> bool \<Rightarrow> op_error + severity_parser" where
  "SeverityConfig_Build unicode_lower parseFrom preset mapping overwrite =
     (case add_mapping unicode_lower mapping (getBuiltinMapping preset) of
        Inl err \<Rightarrow> Inl err
      | Inr m \<Rightarrow>
          (case parseFrom of
             None \<Rightarrow> Inl FieldMissing
           | Some f \<Rightarrow> Inr \<lparr>sev_ParseFrom = f, sev_Mapping = m, sev_overwriteText = overwrite\<rparr>))"

text \<open>\<open>severity_String\<close> is the name the upstream package prints for a severity.\<close>

definition SeverityParser_Parse ::
  "('f, 'p) deps \<Rightarrow> (string \<Rightarrow> string) \<Rightarrow> (severity \<Rightarrow> string) \<Rightarrow> severity_parser \<Rightarrow> transform" where
  "SeverityParser_Parse D unicode_lower severity_String p e = do {
     (e, value) \<leftarrow> entry_Get D (sev_ParseFrom p) e;
     (case value of
        None \<Rightarrow> Some (e, Some FieldMissing)
      | Some v \<Rightarrow>
          (case severityMap_find unicode_lower (sev_Mapping p) v of
             Inl err \<Rightarrow> Some (e, Some err)
           | Inr (severity, sevText) \<Rightarrow>
               Some (e\<lparr>Severity := severity,
                      SeverityText := (if sev_overwriteText p \<and> severity \<noteq> Default
                                       then severity_String severity else sevText)\<rparr>, None)))
   }"

section \<open>Trace identifiers\<close>

definition hex_digit :: "char \<Rightarrow> nat option" where
  "hex_digit c =
     (let n = of_char c in
      if 48 \<le> n \<and> n \<le> 57 then Some (n - 48)
      else if 97 \<le> n \<and> n \<le> 102 then Some (n - 87)
      else if 65 \<le> n \<and> n \<le> 70 then Some (n - 55)
      else None)"

text \<open>\<open>hex.DecodeString\<close>\<close>

fun hex_decode :: "string \<Rightarrow> string option" where
  "hex_decode [] = Some []"
| "hex_decode [c] = None"
| "hex_decode (c # d # cs) = do {
     x \<leftarrow> hex_digit c;
     y \<leftarrow> hex_digit d;
     rest \<leftarrow> hex_decode cs;
     Some (char_of (16 * x + y) # rest)
   }"

text \<open>The verb \<open>%v\<close>.\<close>

definition Sprintv :: "(any \<Rightarrow> string) \<Rightarrow> any \<Rightarrow> string" where
  "Sprintv sprint v =
     (case v of
        VNil \<Rightarrow> ''<nil>''
      | VBool b \<Rightarrow> if b then ''true'' else ''false''
      | VString s \<Rightarrow> s
      | VInt64 i \<Rightarrow> Itoa (sint i) | VInt32 i \<Rightarrow> Itoa (sint i) | VInt16 i \<Rightarrow> Itoa (sint i)
      | VInt8 i \<Rightarrow> Itoa (sint i) | VInt i \<Rightarrow> Itoa (sint i)
      | VUint64 i \<Rightarrow> Itoa (uint i) | VUint32 i \<Rightarrow> Itoa (uint i) | VUint16 i \<Rightarrow> Itoa (uint i)
      | VUint8 i \<Rightarrow> Itoa (uint i) | VUint i \<Rightarrow> Itoa (uint i)
      | VOther s \<Rightarrow> s
      | _ \<Rightarrow> sprint v)"

text \<open>\<open>parseHexField\<close>: the bytes (nil when the field is missing or not hexadecimal) and whether it failed.\<close>

definition parseHexField ::
  "('f, 'p) deps \<Rightarrow> (any \<Rightarrow> string) \<Rightarrow> field \<Rightarrow> entry \<Rightarrow> (entry \<times> string option \<times> bool) option" where
  "parseHexField D sprint field e = do {
     (e, value) \<leftarrow> entry_Get D field e;
     Some (e, case value of
                None \<Rightarrow> (None, False)
              | Some v \<Rightarrow>
                  (case hex_decode (Sprintv sprint v) of
                     None \<Rightarrow> (None, True)
                   | Some bytes \<Rightarrow> (Some bytes, False)))
   }"

record trace_parser =
  TraceIDFrom :: field
  SpanIDFrom :: field
  TraceFlagsFrom :: field

text \<open>\<open>Validate\<close> fills in the fields that are not configured.\<close>

definition TraceParser_Validate :: "field option \<Rightarrow> field option \<Rightarrow> field option \<Rightarrow> trace_parser" where
  "TraceParser_Validate traceID spanID traceFlags =
     \<lparr>TraceIDFrom = (case traceID of Some f \<Rightarrow> f | None \<Rightarrow> BodyField [''trace_id'']),
      SpanIDFrom = (case spanID of Some f \<Rightarrow> f | None \<Rightarrow> BodyField [''span_id'']),
      TraceFlagsFrom = (case traceFlags of Some f \<Rightarrow> f | None \<Rightarrow> BodyField [''trace_flags''])\<rparr>"

definition TraceParser_Parse :: "('f, 'p) deps \<Rightarrow> (any \<Rightarrow> string) \<Rightarrow> trace_parser \<Rightarrow> transform" where
  "TraceParser_Parse D sprint t e = do {
     (e, traceID, err1) \<leftarrow> parseHexField D sprint (TraceIDFrom t) e;
     e \<leftarrow> Some (e\<lparr>TraceID := traceID\<rparr>);
     (e, spanID, err2) \<leftarrow> parseHexField D sprint (SpanIDFrom t) e;
     e \<leftarrow> Some (e\<lparr>SpanID := spanID\<rparr>);
     (e, flags, err3) \<leftarrow> parseHexField D sprint (TraceFlagsFrom t) e;
     e \<leftarrow> Some (e\<lparr>TraceFlags := flags\<rparr>);
     Some (e, if err1 \<or> err2 \<or> err3 then Some (NotParsed ''Error decoding traces for logs'') else None)
   }"

end
