(* ===== verification/Stanza_Properties.thy ===== *)
theory Stanza_Properties
  imports Stanza_Parsers
begin

text \<open>
  Properties of the value operators: flattening leaves no map behind and no leaf out, normalizing
  returns and leaves a map, for every body that holds no nil map.
\<close>

section \<open>Flattening\<close>

text \<open>At most \<open>n\<close> maps lie inside each other.\<close>

fun nested :: "nat \<Rightarrow> any \<Rightarrow> bool" where
  "nested 0 v \<longleftrightarrow> as_map v = None"
| "nested (Suc n) v \<longleftrightarrow>
     (case as_map v of None \<Rightarrow> True | Some m \<Rightarrow> list_all (\<lambda>k. nested n (the (map_get m k))) (sorted_keys m))"

lemma set_sorted_keys [simp]: "set (sorted_keys m) = {k. map_get m k \<noteq> None}"
  by (cases m) (auto simp: sorted_keys_def fmlookup_dom_iff)

definition flat :: "(string, any) fmap \<Rightarrow> bool" where
  "flat d \<longleftrightarrow> (\<forall>k v. fmlookup d k = Some v \<longrightarrow> as_map v = None)"

lemma flat_fmupd [intro]: "flat d \<Longrightarrow> as_map v = None \<Longrightarrow> flat (fmupd k v d)"
  by (simp add: flat_def)

lemma flat_fmempty [simp]: "flat fmempty"
  by (simp add: flat_def)

lemma fold_invariant:
  "P d \<Longrightarrow> (\<And>k d. k \<in> set ks \<Longrightarrow> P d \<Longrightarrow> P (f k d)) \<Longrightarrow> P (fold f ks d)"
  by (induction ks arbitrary: d) auto

lemma flatten_flat:
  "flat d \<Longrightarrow> nested n v \<Longrightarrow> n + depth \<le> Suc (maxFlatteningDepth p) \<Longrightarrow> flat (flatten p parent v d depth)"
proof (induction n arbitrary: parent v d depth)
  case 0
  then show ?case by (subst flatten.simps) auto
next
  case (Suc n)
  show ?case
  proof (cases "as_map v")
    case None
    with Suc.prems show ?thesis by (subst flatten.simps) auto
  next
    case (Some m)
    have "flat (fold (\<lambda>key d. case map_get m key of None \<Rightarrow> d
        | Some v \<Rightarrow> flatten p (generateKey p parent key) v d (depth + 1)) (sorted_keys m) d)"
    proof (rule fold_invariant [of flat, OF Suc.prems(1)])
      fix k d assume k: "k \<in> set (sorted_keys m)" "flat d"
      then obtain w where w: "map_get m k = Some w" by auto
      with k Suc.prems(2) Some have "nested n w" by (auto simp: list_all_iff)
      with Suc.IH [OF k(2)] Suc.prems(3) w show "flat (case map_get m k of None \<Rightarrow> d
        | Some v \<Rightarrow> flatten p (generateKey p parent k) v d (depth + 1))" by simp
    qed
    with Some Suc.prems(3) show ?thesis by (subst flatten.simps) simp
  qed
qed

lemma flatten_keeps: "fmdom d |\<subseteq>| fmdom (flatten p parent v d depth)"
proof (induction p parent v d depth rule: flatten.induct)
  case (1 p parent v d depth)
  show ?case
  proof (cases "\<exists>m. as_map v = Some m \<and> depth \<le> maxFlatteningDepth p")
    case False
    then show ?thesis by (subst flatten.simps) (auto split: option.splits)
  next
    case True
    then obtain m where m: "as_map v = Some m" "\<not> maxFlatteningDepth p < depth" by auto
    have "fmdom d |\<subseteq>| fmdom (fold (\<lambda>key d. case map_get m key of None \<Rightarrow> d
        | Some v \<Rightarrow> flatten p (generateKey p parent key) v d (depth + 1)) (sorted_keys m) d)"
    proof (rule fold_invariant [of "\<lambda>d'. fmdom d |\<subseteq>| fmdom d'"])
      fix k and d' :: "(string, any) fmap" assume "k \<in> set (sorted_keys m)" "fmdom d |\<subseteq>| fmdom d'"
      moreover from this obtain w where "map_get m k = Some w" by auto
      ultimately show "fmdom d |\<subseteq>| fmdom (case map_get m k of None \<Rightarrow> d'
          | Some v \<Rightarrow> flatten p (generateKey p parent k) v d' (depth + 1))"
        using 1 [OF m(1,2), of k] by (auto intro: fsubset_trans)
    qed simp
    with m show ?thesis by (subst flatten.simps) simp
  qed
qed

lemma fold_reaches:
  assumes "k \<in> set ks" "\<And>d. P (f k d)" "\<And>k d. P d \<Longrightarrow> P (f k d)"
  shows "P (fold f ks d)"
proof -
  obtain xs ys where ks: "ks = xs @ k # ys" using assms(1) by (meson split_list)
  have "P (f k (fold f xs d))" by (rule assms(2))
  then have "P (fold f ys (f k (fold f xs d)))" by (rule fold_invariant) (rule assms(3))
  then show ?thesis by (simp add: ks)
qed

lemma flatten_leaf:
  assumes "value_at v ks = Some w" "as_map w = None" "length ks + depth \<le> Suc (maxFlatteningDepth p)"
  shows "foldl (generateKey p) parent ks |\<in>| fmdom (flatten p parent v d depth)"
  using assms
proof (induction ks arbitrary: parent v d depth)
  case Nil
  then show ?case by (subst flatten.simps) auto
next
  case (Cons k ks)
  then obtain m x where m: "as_map v = Some m" "map_get m k = Some x" "value_at x ks = Some w"
    by (auto split: option.splits)
  have "foldl (generateKey p) parent (k # ks) |\<in>| fmdom (fold (\<lambda>key d. case map_get m key of None \<Rightarrow> d
        | Some v \<Rightarrow> flatten p (generateKey p parent key) v d (depth + 1)) (sorted_keys m) d)"
  proof (rule fold_reaches [where k = k])
    show "k \<in> set (sorted_keys m)" using m by simp
    show "foldl (generateKey p) parent (k # ks) |\<in>| fmdom (case map_get m k of None \<Rightarrow> d
        | Some v \<Rightarrow> flatten p (generateKey p parent k) v d (depth + 1))" for d
      using Cons.IH [OF m(3) Cons.prems(2)] Cons.prems(3) m(2) by simp
    show "foldl (generateKey p) parent (k # ks) |\<in>| fmdom d \<Longrightarrow>
        foldl (generateKey p) parent (k # ks) |\<in>| fmdom (case map_get m key of None \<Rightarrow> d
        | Some v \<Rightarrow> flatten p (generateKey p parent key) v d (depth + 1))" for key d
      using flatten_keeps by (fastforce split: option.splits)
  qed
  with m Cons.prems(3) show ?case by (subst flatten.simps) simp
qed

text \<open>With flattening enabled and a document whose maps are nested no deeper than the configured
  depth, the parser returns a map without maps, and every leaf of the document has a key in it: the
  keys on the way to the leaf, joined as \<open>generateKey\<close> joins them.\<close>

theorem json_parse_flat:
  assumes "enableFlattening p" "decode (Unquote unquote s) = Inr parsed"
    "nested (Suc (maxFlatteningDepth p)) (VMap parsed)"
  shows "\<exists>d. json_parse decode unquote p (VString s) = Inr (VMap (Some d)) \<and> flat d
    \<and> (\<forall>ks w. value_at (VMap parsed) ks = Some w \<longrightarrow> as_map w = None \<longrightarrow>
          length ks \<le> Suc (maxFlatteningDepth p) \<longrightarrow>
          foldl (generateKey p) (pathPrefix p) ks |\<in>| fmdom d)"
  using assms flatten_flat [OF flat_fmempty assms(3), of 0 p "pathPrefix p"]
    flatten_leaf [of "VMap parsed" _ _ 0 p "pathPrefix p" fmempty]
  by (simp add: json_parse_def)

definition sample_document :: "(string, any) fmap" where
  "sample_document = fmupd ''a'' (VMap (Some (fmupd ''b'' (VBool True) fmempty))) fmempty"

theorem json_parse_flat_witness:
  "\<exists>d. json_parse (\<lambda>_. Inr (Some sample_document)) (\<lambda>_. None) (json_Build True 1 True []) (VString ''x'')
      = Inr (VMap (Some d)) \<and> flat d \<and> ''a.b'' |\<in>| fmdom d"
proof -
  have n: "nested (Suc (maxFlatteningDepth (json_Build True 1 True []))) (VMap (Some sample_document))"
    by (simp add: json_Build_def sample_document_def sorted_keys_def as_map_def list_all_iff fmlookup_dom_iff)
  have v: "value_at (VMap (Some sample_document)) [''a'', ''b''] = Some (VBool True)"
    by (simp add: sample_document_def)
  obtain d where d: "json_parse (\<lambda>_. Inr (Some sample_document)) (\<lambda>_. None) (json_Build True 1 True [])
      (VString ''x'') = Inr (VMap (Some d))" "flat d"
    "\<forall>ks w. value_at (VMap (Some sample_document)) ks = Some w \<longrightarrow> as_map w = None \<longrightarrow>
       length ks \<le> Suc (maxFlatteningDepth (json_Build True 1 True [])) \<longrightarrow>
       foldl (generateKey (json_Build True 1 True [])) (pathPrefix (json_Build True 1 True [])) ks |\<in>| fmdom d"
    using json_parse_flat [of "json_Build True 1 True []" "\<lambda>_. Inr (Some sample_document)" "\<lambda>_. None" "''x''"
        "Some sample_document", OF _ _ n] by (auto simp: json_Build_def)
  from d(3) [rule_format, OF v] have "''a.b'' |\<in>| fmdom d"
    by (simp add: as_map_def json_Build_def generateKey_def)
  with d show ?thesis by blast
qed

section \<open>Values without nil maps\<close>

primrec nil_free :: "any \<Rightarrow> bool" where
  "nil_free VNil = True"
| "nil_free (VBool b) = True"
| "nil_free (VString s) = True"
| "nil_free (VStrings ss) = True"
| "nil_free (VBytes b) = True"
| "nil_free (VInt64 i) = True"
| "nil_free (VInt32 i32) = True"
| "nil_free (VInt16 i16) = True"
| "nil_free (VInt8 i8) = True"
| "nil_free (VInt i) = True"
| "nil_free (VUint64 u) = True"
| "nil_free (VUint32 u32) = True"
| "nil_free (VUint16 u16) = True"
| "nil_free (VUint8 u8) = True"
| "nil_free (VUint u) = True"
| "nil_free (VFloat64 f) = True"
| "nil_free (VFloat32 f) = True"
| "nil_free (VMap m) = (case map_option (fmmap nil_free) m of None \<Rightarrow> False | Some f \<Rightarrow> fmpred (\<lambda>k b. b) f)"
| "nil_free (VSlice vs) = list_all id (map nil_free vs)"
| "nil_free (VOther s) = True"

lemma nil_free_VMap [simp]:
  "nil_free (VMap (Some f)) \<longleftrightarrow> (\<forall>k v. fmlookup f k = Some v \<longrightarrow> nil_free v)"
  "\<not> nil_free (VMap None)"
  by (auto simp: fmpred_iff)

declare nil_free.simps(18) [simp del]

lemma nil_freeE: "nil_free (VMap m) \<Longrightarrow> \<exists>f. m = Some f"
  by (cases m) auto

text \<open>A body that is a map, without nil maps.\<close>

definition tame :: "entry \<Rightarrow> bool" where
  "tame e \<longleftrightarrow> (\<exists>f. Body e = VMap (Some f)) \<and> nil_free (Body e)"

lemma tame_Get:
  "tame e \<Longrightarrow> \<exists>v. BodyField_Get U [k] e = Some (e, v) \<and> (\<forall>w. v = Some w \<longrightarrow> nil_free w)"
  by (auto simp: tame_def BodyField_Get_VMap split: option.splits)

lemma tame_Delete: "tame e \<Longrightarrow> tame (fst (BodyField_Delete [k] e))"
  by (auto simp: tame_def BodyField_Delete_def BodyField_isRoot_def split: option.splits if_splits)

lemma tame_Set: "tame e \<Longrightarrow> nil_free v \<Longrightarrow> \<exists>e'. BodyField_Set [k] e v = Some e' \<and> tame e'"
proof -
  assume e: "tame e" and v: "nil_free v"
  obtain f where f: "Body e = VMap (Some f)" "\<forall>k v. fmlookup f k = Some v \<longrightarrow> nil_free v"
    using e by (auto simp: tame_def)
  show ?thesis
  proof (cases "as_map v")
    case None
    with f v show ?thesis
      by (auto simp: BodyField_Set_def BodyField_isRoot_def body_map_def tame_def)
  next
    case (Some m)
    then obtain g where g: "v = VMap (Some g)" "\<forall>k v. fmlookup g k = Some v \<longrightarrow> nil_free v"
      using v nil_freeE by fastforce
    obtain n where n: "getNestedMap (Some f) k = Some n" "\<forall>k v. fmlookup n k = Some v \<longrightarrow> nil_free v"
    proof (cases "\<exists>m. fmlookup f k = Some (VMap m)")
      case True
      then obtain m n where "fmlookup f k = Some (VMap m)" "m = Some n" using f(2) nil_freeE by blast
      with f(2) that show thesis by (force simp: getNestedMap_def)
    next
      case False
      then have "getNestedMap (Some f) k = Some fmempty"
        by (auto simp: getNestedMap_def as_map_None split: option.splits)
      with that show thesis by simp
    qed
    obtain n' where n': "merge_into (Some g) (Some n) = Some (Some n')"
      "\<forall>k v. fmlookup n' k = Some v \<longrightarrow> nil_free v"
    proof (cases "g = fmempty")
      case True
      with n(2) that show thesis by (auto simp: merge_into_def)
    next
      case False
      have "\<forall>k v. fmlookup (n ++\<^sub>f g) k = Some v \<longrightarrow> nil_free v"
        using n(2) g(2) by (simp add: fmlookup_add)
      with False that [of "n ++\<^sub>f g"] show thesis by (simp add: merge_into_def)
    qed
    then show ?thesis using f n(1) g
      by (auto simp: BodyField_Set_def BodyField_Merge_def body_map_def tame_def)
  qed
qed

section \<open>Normalizing\<close>

lemma tame_getMessage:
  "tame e \<Longrightarrow> \<exists>e' v. getMessage [k] e = Some (e', v) \<and> tame e' \<and> (\<forall>w. v = Some w \<longrightarrow> nil_free w)"
  using tame_Get [of e "\<lambda>_. None" k] tame_Delete [of e k] by (auto simp: getMessage_def split: option.splits)

lemma tame_promote: "tame e \<Longrightarrow> \<exists>e'. promote_message names e = Some e' \<and> tame e'"
proof (induction names arbitrary: e)
  case (Cons n names)
  obtain v where v: "BodyField_Get (\<lambda>_. None) [n] e = Some (e, v)" "\<forall>w. v = Some w \<longrightarrow> nil_free w"
    using tame_Get [OF Cons.prems] by blast
  show ?case
  proof (cases v)
    case None
    with v Cons show ?thesis by simp
  next
    case (Some w)
    obtain e' where "BodyField_Set [MessageField] e w = Some e'" "tame e'"
      using tame_Set [OF Cons.prems] v Some by blast
    with v Some tame_Delete show ?thesis by auto
  qed
qed simp

lemma tame_shift:
  "tame e \<Longrightarrow> nil_free (VMap m) \<Longrightarrow> \<exists>e'. shift_keys m keys e = Some e' \<and> tame e'"
proof (induction keys arbitrary: e)
  case (Cons k keys)
  obtain f where f: "m = Some f" using nil_freeE [OF Cons.prems(2)] ..
  show ?case
  proof (cases "fmlookup f k")
    case None
    with Cons f show ?thesis by simp
  next
    case (Some v)
    then obtain e' where "BodyField_Set [k] e v = Some e'" "tame e'"
      using tame_Set [OF Cons.prems(1), of v k] Cons.prems(2) f by auto
    with Cons.IH [OF this(2) Cons.prems(2)] Some f show ?thesis by simp
  qed
qed simp

lemma tame_normalize: "tame e \<Longrightarrow> \<exists>e'. normalize e = Some e' \<and> tame e'"
proof -
  assume "tame e"
  then obtain e1 v1 where 1: "getMessage [MessageField] e = Some (e1, v1)" "tame e1"
    using tame_getMessage by blast
  obtain e2 where 2: "(if v1 = None then promote_message msgCompatibleFields e1 else Some e1) = Some e2" "tame e2"
    using tame_promote [OF 1(2), of msgCompatibleFields] 1(2) by (cases "v1 = None") auto
  obtain e3 v3 where 3: "getMessage [MessageField] e2 = Some (e3, v3)" "tame e3" "\<forall>w. v3 = Some w \<longrightarrow> nil_free w"
    using tame_getMessage [OF 2(2)] by blast
  show ?thesis
  proof (cases "Option.bind v3 as_map")
    case None
    with 1 2 3 show ?thesis by (simp add: normalize_def)
  next
    case (Some m)
    then have "nil_free (VMap m)" using 3(3) by (cases v3) auto
    with tame_shift [OF tame_Delete [OF 3(2)]] 1 2 3 Some show ?thesis by (simp add: normalize_def)
  qed
qed

lemma nil_free_text:
  assumes "\<And>t. nil_free (VMap (Some (fst (decode t))))"
  shows "nil_free (VMap (Some (processTextLogs decode unquote s)))"
  using assms [of "Unquote unquote s"]
  by (cases "decode (Unquote unquote s)") (auto simp: processTextLogs_def Let_def split: bool.splits)

lemma tame_parse_body:
  assumes "nil_free (Body e)" "\<And>t. nil_free (VMap (Some (fst (sonic_decode N t))))"
  shows "tame (e\<lparr>Body := VMap (fst (parse_body N dual (Body e)))\<rparr>)"
  using assms(1) nil_free_text [OF assms(2)]
  by (cases "Body e") (auto simp: tame_def parse_body_def dest: nil_freeE)

lemma keep_original_returns:
  "\<exists>e'. keep_original dual original e = Some e' \<and> Body e' = Body e
     \<and> (\<forall>v. dual \<longrightarrow> original = Some v \<longrightarrow> map_get (Attributes e') OriginalBodyAttributeKey = Some v)"
  by (cases "Attributes e") (auto simp: keep_original_def split: bool.splits option.splits)

text \<open>C19. Normalizing an entry whose body has not been normalized before, for a body and a decoder that
  produce no nil map: the operator returns without an error and without a panic, the body is a map
  whatever it was, and with dual ingestion a text body is kept in the attributes as it came.\<close>

theorem normalize_transform_type:
  assumes "nil_free (Body e)" "\<And>t. nil_free (VMap (Some (fst (sonic_decode N t))))"
    "map_get (Attributes e) OriginalBodyAttributeKey = None"
  shows "\<exists>e' f. normalize_transform N dual e = Some (e', None) \<and> Body e' = VMap (Some f)
    \<and> (\<forall>s. dual \<longrightarrow> Body e = VString s \<longrightarrow> map_get (Attributes e') OriginalBodyAttributeKey = Some (VString s))"
proof -
  obtain parsed original where p: "parse_body N dual (Body e) = (parsed, original)" by fastforce
  obtain e1 f where e1: "normalize (e\<lparr>Body := VMap parsed\<rparr>) = Some e1" "Body e1 = VMap (Some f)"
    using tame_normalize [OF tame_parse_body [OF assms(1,2), of dual]] p by (auto simp: tame_def)
  obtain e2 where e2: "keep_original dual original e1 = Some e2" "Body e2 = Body e1"
    "\<forall>v. dual \<longrightarrow> original = Some v \<longrightarrow> map_get (Attributes e2) OriginalBodyAttributeKey = Some v"
    using keep_original_returns [of dual original e1] by (elim exE conjE)
  have "original = Some (VString s)" if "Body e = VString s" for s
    using p that by (simp add: parse_body_def)
  with e2(3) have "\<forall>s. dual \<longrightarrow> Body e = VString s \<longrightarrow>
      map_get (Attributes e2) OriginalBodyAttributeKey = Some (VString s)" by blast
  moreover have "normalize_transform N dual e = Some (e2, None)"
    using e1(1) e2(1) assms(3) p by (simp add: normalize_transform_def)
  ultimately show ?thesis using e1(2) e2(2) by metis
qed

definition plain_deps :: normalize_deps where
  "plain_deps = \<lparr>sonic_decode = (\<lambda>_. (fmempty, False)), sonic_marshal = (\<lambda>_. None), strconv_Unquote = (\<lambda>_. None)\<rparr>"

theorem normalize_transform_type_witness:
  "\<exists>e' f. normalize_transform plain_deps True (blank_entry\<lparr>Body := VString ''hello''\<rparr>) = Some (e', None)
     \<and> Body e' = VMap (Some f) \<and> map_get (Attributes e') OriginalBodyAttributeKey = Some (VString ''hello'')"
  using normalize_transform_type [of "blank_entry\<lparr>Body := VString ''hello''\<rparr>" plain_deps True]
  by (simp add: plain_deps_def blank_entry_def)

end
