(* ===== verification/Logs_Convert.thy ===== *)
theory Logs_Convert
  imports Stanza_Entry
begin

text \<open>
  From entries back to log records (\<open>utils.go\<close> of the logs pipeline processor): values, records, and
  the grouping of records by resource and scope. The order in which a map is copied is Go's random
  one; the copied map is a finite map here. The hash of a resource is upstream code, the argument
  \<open>HashResource\<close>.

  The theorem: the loop with its two index maps computes a grouping in order of first occurrence.
\<close>

section \<open>Values\<close>

datatype pvalue =
    PEmpty
  | PStr string
  | PBool bool
  | PInt "64 word"
  | PDouble go_float
  | PBytes string
  | PSlice "pvalue list"
  | PMap "(string, pvalue) fmap"

definition keep_key :: "string \<Rightarrow> bool" where
  "keep_key k \<longleftrightarrow> \<not> prefix InternalTempAttributePrefix k"

text \<open>\<open>upsertToAttributeVal\<close>, with \<open>upsertToMap\<close>, \<open>upsertToSlice\<close> and \<open>upsertStringsToSlice\<close> at the values
  they are called for. An integer becomes an \<open>int64\<close>; an unsigned one keeps its bits.\<close>

primrec upsertToAttributeVal :: "any \<Rightarrow> pvalue" where
  "upsertToAttributeVal VNil = PStr ''<nil>''"
| "upsertToAttributeVal (VBool b) = PBool b"
| "upsertToAttributeVal (VString s) = PStr s"
| "upsertToAttributeVal (VStrings ss) = PSlice (map PStr ss)"
| "upsertToAttributeVal (VBytes b) = PBytes b"
| "upsertToAttributeVal (VInt64 i) = PInt i"
| "upsertToAttributeVal (VInt32 i32) = PInt (scast i32)"
| "upsertToAttributeVal (VInt16 i16) = PInt (scast i16)"
| "upsertToAttributeVal (VInt8 i8) = PInt (scast i8)"
| "upsertToAttributeVal (VInt i) = PInt i"
| "upsertToAttributeVal (VUint64 u) = PInt u"
| "upsertToAttributeVal (VUint32 u32) = PInt (ucast u32)"
| "upsertToAttributeVal (VUint16 u16) = PInt (ucast u16)"
| "upsertToAttributeVal (VUint8 u8) = PInt (ucast u8)"
| "upsertToAttributeVal (VUint u) = PInt u"
| "upsertToAttributeVal (VFloat64 f) = PDouble f"
| "upsertToAttributeVal (VFloat32 f) = PDouble f"
| "upsertToAttributeVal (VMap m) =
     PMap (case map_option (fmmap upsertToAttributeVal) m of None \<Rightarrow> fmempty | Some f \<Rightarrow> fmfilter keep_key f)"
| "upsertToAttributeVal (VSlice vs) = PSlice (map upsertToAttributeVal vs)"
| "upsertToAttributeVal (VOther s) = PStr s"

definition upsertToMap :: "gomap \<Rightarrow> (string, pvalue) fmap" where
  "upsertToMap m =
     (case m of None \<Rightarrow> fmempty | Some f \<Rightarrow> fmfilter keep_key (fmmap upsertToAttributeVal f))"

section \<open>Records\<close>

record log_record =
  lr_Timestamp :: "64 word"
  lr_ObservedTimestamp :: "64 word"
  lr_SeverityNumber :: nat
  lr_SeverityText :: string
  lr_Attributes :: "(string, pvalue) fmap"
  lr_Body :: pvalue
  lr_TraceID :: string
  lr_SpanID :: string
  lr_Flags :: "32 word"

fun sevMap :: "severity \<Rightarrow> nat" where
  "sevMap Default = 0" | "sevMap Trace = 1" | "sevMap Trace2 = 2" | "sevMap Trace3 = 3"
| "sevMap Trace4 = 4" | "sevMap Debug = 5" | "sevMap Debug2 = 6" | "sevMap Debug3 = 7"
| "sevMap Debug4 = 8" | "sevMap Info = 9" | "sevMap Info2 = 10" | "sevMap Info3 = 11"
| "sevMap Info4 = 12" | "sevMap Warn = 13" | "sevMap Warn2 = 14" | "sevMap Warn3 = 15"
| "sevMap Warn4 = 16" | "sevMap Error = 17" | "sevMap Error2 = 18" | "sevMap Error3 = 19"
| "sevMap Error4 = 20" | "sevMap Fatal = 21" | "sevMap Fatal2 = 22" | "sevMap Fatal3 = 23"
| "sevMap Fatal4 = 24"

fun defaultSevTextMap :: "severity \<Rightarrow> string" where
  "defaultSevTextMap Default = ''''" | "defaultSevTextMap Trace = ''TRACE''"
| "defaultSevTextMap Trace2 = ''TRACE2''" | "defaultSevTextMap Trace3 = ''TRACE3''"
| "defaultSevTextMap Trace4 = ''TRACE4''" | "defaultSevTextMap Debug = ''DEBUG''"
| "defaultSevTextMap Debug2 = ''DEBUG2''" | "defaultSevTextMap Debug3 = ''DEBUG3''"
| "defaultSevTextMap Debug4 = ''DEBUG4''" | "defaultSevTextMap Info = ''INFO''"
| "defaultSevTextMap Info2 = ''INFO2''" | "defaultSevTextMap Info3 = ''INFO3''"
| "defaultSevTextMap Info4 = ''INFO4''" | "defaultSevTextMap Warn = ''WARN''"
| "defaultSevTextMap Warn2 = ''WARN2''" | "defaultSevTextMap Warn3 = ''WARN3''"
| "defaultSevTextMap Warn4 = ''WARN4''" | "defaultSevTextMap Error = ''ERROR''"
| "defaultSevTextMap Error2 = ''ERROR2''" | "defaultSevTextMap Error3 = ''ERROR3''"
| "defaultSevTextMap Error4 = ''ERROR4''" | "defaultSevTextMap Fatal = ''FATAL''"
| "defaultSevTextMap Fatal2 = ''FATAL2''" | "defaultSevTextMap Fatal3 = ''FATAL3''"
| "defaultSevTextMap Fatal4 = ''FATAL4''"

text \<open>\<open>var buffer [n]byte; copy(buffer[max(0, n-len(id)):n], id)\<close>\<close>

definition copy_id :: "nat \<Rightarrow> string option \<Rightarrow> string" where
  "copy_id n ident =
     (case ident of
        None \<Rightarrow> replicate n (CHR 0x00)
      | Some b \<Rightarrow>
          (let copyStartIdx = n - length b
           in replicate copyStartIdx (CHR 0x00) @ take (n - copyStartIdx) b))"

definition convertInto :: "entry \<Rightarrow> log_record" where
  "convertInto ent =
     \<lparr>lr_Timestamp = (case Timestamp ent of None \<Rightarrow> 0 | Some t \<Rightarrow> t),
      lr_ObservedTimestamp = ObservedTimestamp ent,
      lr_SeverityNumber = sevMap (Severity ent),
      lr_SeverityText = (if SeverityText ent = [] then defaultSevTextMap (Severity ent) else SeverityText ent),
      lr_Attributes = upsertToMap (Attributes ent),
      lr_Body = (if Body ent = VNil then PEmpty else upsertToAttributeVal (Body ent)),
      lr_TraceID = copy_id 16 (TraceID ent),
      lr_SpanID = copy_id 8 (SpanID ent),
      lr_Flags = (case TraceFlags ent of Some (c # _) \<Rightarrow> of_nat (of_char c) | _ \<Rightarrow> 0)\<rparr>"

section \<open>Grouping\<close>

record scope_logs =
  sl_Name :: string
  sl_Records :: "log_record list"

record resource_logs =
  rl_Attributes :: "(string, pvalue) fmap"
  rl_ScopeLogs :: "scope_logs list"

record conversion =
  resourceHashToIdx :: "64 word \<rightharpoonup> nat"
  scopeIdxByResource :: "64 word \<Rightarrow> string \<rightharpoonup> nat"
  pLogs :: "resource_logs list"

definition append_record :: "log_record \<Rightarrow> scope_logs \<Rightarrow> scope_logs" where
  "append_record r sl = sl\<lparr>sl_Records := sl_Records sl @ [r]\<rparr>"

definition convert_step :: "(gomap \<Rightarrow> 64 word) \<Rightarrow> entry \<Rightarrow> conversion \<Rightarrow> conversion" where
  "convert_step HashResource e c =
     (let resourceID = HashResource (Resource e);
          sl = \<lparr>sl_Name = ScopeName e, sl_Records = [convertInto e]\<rparr>
      in case resourceHashToIdx c resourceID of
           None \<Rightarrow>
             c\<lparr>resourceHashToIdx := (resourceHashToIdx c)(resourceID \<mapsto> length (pLogs c)),
               scopeIdxByResource := (scopeIdxByResource c)(resourceID := [ScopeName e \<mapsto> 0]),
               pLogs := pLogs c @ [\<lparr>rl_Attributes = upsertToMap (Resource e), rl_ScopeLogs = [sl]\<rparr>]\<rparr>
         | Some resourceIdx \<Rightarrow>
             (let rl = pLogs c ! resourceIdx in
              case scopeIdxByResource c resourceID (ScopeName e) of
                None \<Rightarrow>
                  c\<lparr>scopeIdxByResource := (scopeIdxByResource c)(resourceID :=
                      (scopeIdxByResource c resourceID)(ScopeName e \<mapsto> length (rl_ScopeLogs rl))),
                    pLogs := (pLogs c)[resourceIdx := rl\<lparr>rl_ScopeLogs := rl_ScopeLogs rl @ [sl]\<rparr>]\<rparr>
              | Some scopeIdx \<Rightarrow>
                  c\<lparr>pLogs := (pLogs c)[resourceIdx := rl\<lparr>rl_ScopeLogs := (rl_ScopeLogs rl)
                      [scopeIdx := append_record (convertInto e) (rl_ScopeLogs rl ! scopeIdx)]\<rparr>]\<rparr>))"

definition convertEntriesToPlogs :: "(gomap \<Rightarrow> 64 word) \<Rightarrow> entry list \<Rightarrow> resource_logs list" where
  "convertEntriesToPlogs HashResource entries =
     pLogs (fold (convert_step HashResource) entries
       \<lparr>resourceHashToIdx = Map.empty, scopeIdxByResource = (\<lambda>_. Map.empty), pLogs = []\<rparr>)"

section \<open>The reference grouping\<close>

definition group_scopes :: "entry list \<Rightarrow> scope_logs list" where
  "group_scopes es =
     map (\<lambda>s. \<lparr>sl_Name = s, sl_Records = map convertInto (filter (\<lambda>e. ScopeName e = s) es)\<rparr>)
       (firsts (map ScopeName es))"

definition group_logs :: "(gomap \<Rightarrow> 64 word) \<Rightarrow> entry list \<Rightarrow> resource_logs list" where
  "group_logs H es =
     map (\<lambda>h. let same = filter (\<lambda>e. H (Resource e) = h) es in
            \<lparr>rl_Attributes = upsertToMap (Resource (hd same)), rl_ScopeLogs = group_scopes same\<rparr>)
       (firsts (map (\<lambda>e. H (Resource e)) es))"

lemma group_scopes_snoc:
  "group_scopes (es @ [e]) =
     (if ScopeName e \<in> set (map ScopeName es)
      then map (\<lambda>s. \<lparr>sl_Name = s, sl_Records = map convertInto (filter (\<lambda>e. ScopeName e = s) (es @ [e]))\<rparr>)
             (firsts (map ScopeName es))
      else group_scopes es @ [\<lparr>sl_Name = ScopeName e, sl_Records = [convertInto e]\<rparr>])"
  by (auto simp: group_scopes_def firsts_snoc filter_fresh)

lemma group_scopes_single [simp]:
  "group_scopes [e] = [\<lparr>sl_Name = ScopeName e, sl_Records = [convertInto e]\<rparr>]"
  by (simp add: group_scopes_def)

lemma group_scopes_update:
  assumes "locates ix (firsts (map ScopeName es))" "ix (ScopeName e) = Some i"
  shows "(group_scopes es)[i := append_record (convertInto e) (group_scopes es ! i)] = group_scopes (es @ [e])"
proof -
  let ?f = "\<lambda>es s. \<lparr>sl_Name = s, sl_Records = map convertInto (filter (\<lambda>e. ScopeName e = s) es)\<rparr>"
  have i: "i < length (firsts (map ScopeName es))" "firsts (map ScopeName es) ! i = ScopeName e"
    using locates_Some [OF assms] by auto
  then have "ScopeName e \<in> set (map ScopeName es)" by (metis nth_mem set_firsts)
  moreover have "append_record (convertInto e) (group_scopes es ! i) = ?f (es @ [e]) (ScopeName e)"
    using i by (simp add: group_scopes_def append_record_def)
  moreover have "(map (?f es) (firsts (map ScopeName es)))[i := ?f (es @ [e]) (ScopeName e)]
      = map (?f (es @ [e])) (firsts (map ScopeName es))"
    using i by (intro map_update_at) auto
  ultimately show ?thesis by (simp add: group_scopes_snoc) (simp add: group_scopes_def)
qed

section \<open>The loop computes the grouping\<close>

definition converted :: "(gomap \<Rightarrow> 64 word) \<Rightarrow> entry list \<Rightarrow> conversion \<Rightarrow> bool" where
  "converted H es c \<longleftrightarrow>
     pLogs c = group_logs H es
     \<and> locates (resourceHashToIdx c) (firsts (map (\<lambda>e. H (Resource e)) es))
     \<and> (\<forall>h. locates (scopeIdxByResource c h)
           (firsts (map ScopeName (filter (\<lambda>e. H (Resource e) = h) es))))"

lemma converted_snoc:
  assumes "converted H es c"
  shows "converted H (es @ [e]) (convert_step H e c)"
proof -
  let ?h = "H (Resource e)" and ?hs = "firsts (map (\<lambda>e. H (Resource e)) es)"
  let ?same = "\<lambda>es h. filter (\<lambda>e. H (Resource e) = h) es"
  let ?f = "\<lambda>es h. \<lparr>rl_Attributes = upsertToMap (Resource (hd (?same es h))), rl_ScopeLogs = group_scopes (?same es h)\<rparr>"
  have c: "pLogs c = map (?f es) ?hs" "locates (resourceHashToIdx c) ?hs"
    "\<And>h. locates (scopeIdxByResource c h) (firsts (map ScopeName (?same es h)))"
    using assms by (auto simp: converted_def group_logs_def Let_def)
  show ?thesis
  proof (cases "resourceHashToIdx c ?h")
    case None
    then have new: "?h \<notin> set (map (\<lambda>e. H (Resource e)) es)"
      using locates_None [OF c(2)] by simp
    then have none: "?same es ?h = []" by (simp add: filter_fresh)
    have gr: "group_logs H (es @ [e]) = map (?f es) ?hs @ [?f [e] ?h]"
      using new none by (auto simp: group_logs_def Let_def firsts_snoc)
    show ?thesis
      unfolding converted_def gr
      using None c(1) locates_snoc [OF c(2), of ?h] new c(3) none
        locates_snoc [OF locates_Nil, of "ScopeName e"]
      by (auto simp: convert_step_def Let_def firsts_snoc)
  next
    case (Some i)
    have i: "i < length ?hs" "?hs ! i = ?h" using locates_Some [OF c(2) Some] by auto
    then have old: "?h \<in> set (map (\<lambda>e. H (Resource e)) es)" by (metis nth_mem set_firsts)
    then have hd: "hd (?same (es @ [e]) ?h) = hd (?same es ?h)" by (auto simp: hd_append filter_empty_conv)
    have gr: "group_logs H (es @ [e]) = (map (?f es) ?hs)[i := ?f (es @ [e]) ?h]"
      using old i map_update_at [of ?hs i ?h "?f es" "?f (es @ [e])"]
      by (auto simp: group_logs_def Let_def firsts_snoc)
    have rl: "pLogs c ! i = ?f es ?h" using c(1) i by simp
    show ?thesis
    proof (cases "scopeIdxByResource c ?h (ScopeName e)")
      case None
      then have new: "ScopeName e \<notin> set (map ScopeName (?same es ?h))"
        using locates_None [OF c(3)] by simp
      then have up: "?f (es @ [e]) ?h = (pLogs c ! i)\<lparr>rl_ScopeLogs := rl_ScopeLogs (pLogs c ! i) @
          [\<lparr>sl_Name = ScopeName e, sl_Records = [convertInto e]\<rparr>]\<rparr>"
        unfolding rl hd by (simp add: group_scopes_snoc)
      have len: "length (rl_ScopeLogs (pLogs c ! i)) = length (firsts (map ScopeName (?same es ?h)))"
        unfolding rl by (simp add: group_scopes_def)
      have step: "convert_step H e c = c\<lparr>scopeIdxByResource := (scopeIdxByResource c)(?h :=
          (scopeIdxByResource c ?h)(ScopeName e \<mapsto> length (firsts (map ScopeName (?same es ?h))))),
          pLogs := (pLogs c)[i := ?f (es @ [e]) ?h]\<rparr>"
        unfolding up using Some None by (simp add: convert_step_def Let_def len)
      have "locates ((scopeIdxByResource c ?h)(ScopeName e \<mapsto> length (firsts (map ScopeName (?same es ?h)))))
          (firsts (map ScopeName (?same (es @ [e]) ?h)))"
        using locates_snoc [OF c(3) [of ?h], of "ScopeName e"] new by (simp add: firsts_snoc)
      moreover have "locates (resourceHashToIdx c) (firsts (map (\<lambda>e. H (Resource e)) (es @ [e])))"
        using c(2) old by (simp add: firsts_snoc)
      ultimately show ?thesis
        unfolding converted_def gr step using c(1,3) by simp
    next
      case (Some j)
      have up: "?f (es @ [e]) ?h = (pLogs c ! i)\<lparr>rl_ScopeLogs := (rl_ScopeLogs (pLogs c ! i))
          [j := append_record (convertInto e) (rl_ScopeLogs (pLogs c ! i) ! j)]\<rparr>"
        unfolding rl hd using group_scopes_update [OF c(3) Some] by simp
      have step: "convert_step H e c = c\<lparr>pLogs := (pLogs c)[i := ?f (es @ [e]) ?h]\<rparr>"
        unfolding up using \<open>resourceHashToIdx c ?h = Some i\<close> Some by (simp add: convert_step_def Let_def)
      have "ScopeName e \<in> set (map ScopeName (?same es ?h))"
        using locates_None [OF c(3), of ?h "ScopeName e"] Some by simp
      then have "locates (scopeIdxByResource c h) (firsts (map ScopeName (?same (es @ [e]) h)))" for h
        using c(3) [of h] by (cases "h = ?h") (simp_all add: firsts_snoc)
      moreover have "locates (resourceHashToIdx c) (firsts (map (\<lambda>e. H (Resource e)) (es @ [e])))"
        using c(2) old by (simp add: firsts_snoc)
      ultimately show ?thesis unfolding converted_def gr step using c(1) by simp
    qed
  qed
qed

lemma converted_fold:
  "converted H es c \<Longrightarrow> converted H (es @ es') (fold (convert_step H) es' c)"
proof (induction es' arbitrary: es c)
  case (Cons e es')
  show ?case using Cons.IH [OF converted_snoc [OF Cons.prems, of e]] by simp
qed simp

text \<open>C20. Converting entries back groups them by the hash of their resource and, inside, by their scope
  name, both in the order of first occurrence: every entry becomes exactly one record, in its group,
  and the records of a group keep the order of their entries.\<close>

theorem convertEntriesToPlogs_groups:
  "convertEntriesToPlogs HashResource entries = group_logs HashResource entries"
proof -
  have "converted HashResource [] \<lparr>resourceHashToIdx = Map.empty, scopeIdxByResource = (\<lambda>_. Map.empty), pLogs = []\<rparr>"
    by (simp add: converted_def group_logs_def)
  from converted_fold [OF this, of entries] show ?thesis
    by (simp add: convertEntriesToPlogs_def converted_def)
qed

section \<open>Internal attributes\<close>

text \<open>No key with the internal prefix, at any depth.\<close>

primrec clean :: "pvalue \<Rightarrow> bool" where
  "clean PEmpty = True"
| "clean (PStr s) = True"
| "clean (PBool b) = True"
| "clean (PInt i) = True"
| "clean (PDouble f) = True"
| "clean (PBytes b) = True"
| "clean (PSlice vs) = list_all id (map clean vs)"
| "clean (PMap m) = (fmpred (\<lambda>k b. b) (fmmap clean m) \<and> fmpred (\<lambda>k v. keep_key k) m)"

lemma clean_upsert: "clean (upsertToAttributeVal v)"
proof (induction v)
  case (VMap m)
  then show ?case
    by (cases m) (auto simp: fmpred_iff fmran'I split: if_splits)
qed (simp_all add: list_all_iff)

lemma convertInto_clean:
  "clean (lr_Body (convertInto e)) \<and> clean (PMap (lr_Attributes (convertInto e)))"
  using clean_upsert [of "VMap (Attributes e)"] clean_upsert [of "Body e"]
  by (auto simp: convertInto_def upsertToMap_def fmfilter_fmmap split: option.splits)

lemma copy_id_length: "length (copy_id n ident) = n"
  by (auto simp: copy_id_def Let_def split: option.splits)

end
