(* ===== verification/Logs_Pipeline.thy ===== *)
theory Logs_Pipeline
  imports Logs_Convert Stanza_Parsers
begin

text \<open>
  The logs pipeline as a whole (\<open>processor.go\<close>): the converter loop feeds a batch of entries to the
  first operator, operators write to the next one, the last one to the emitter, whose batches are
  converted and sent on. The operators are those of \<open>Stanza_Operators\<close> and \<open>Stanza_Parsers\<close> in a
  chain; the worker pool in front, the graph builder and the batching of the emitter are upstream.

  Theorems: what comes out of a chain for one entry, what a batch gives, and that an error of the
  first operator ends the batch.
\<close>

section \<open>Operators in a chain\<close>

datatype ('f, 'p) operator =
    OpAdd "'p transformer" 'f any "'p option" bool
  | OpCopy "'p transformer" field 'f
  | OpMove "'p transformer" 'f 'f
  | OpRemove "'p transformer" "'f remove_field"
  | OpNoop
  | OpJson "'p parser" json_parser "string \<Rightarrow> string + gomap" "string \<Rightarrow> string option"
  | OpNormalize "'p transformer" normalize_deps bool
  | OpSeverity "'p transformer" "string \<Rightarrow> string" "severity \<Rightarrow> string" severity_parser
  | OpTrace "'p transformer" "any \<Rightarrow> string" trace_parser

definition op_Process :: "('f, 'p) deps \<Rightarrow> ('f, 'p) operator \<Rightarrow> 'w writer \<Rightarrow> entry \<Rightarrow> 'w processed" where
  "op_Process D op next e =
     (case op of
        OpAdd t field value program ref \<Rightarrow> ProcessWith D t next (add_Transform D field value program ref) e
      | OpCopy t from to \<Rightarrow> ProcessWith D t next (copy_Transform D from to) e
      | OpMove t from to \<Rightarrow> ProcessWith D t next (move_Transform D from to) e
      | OpRemove t field \<Rightarrow> ProcessWith D t next (remove_Transform D field) e
      | OpNoop \<Rightarrow> noop_Process next e
      | OpJson p j decode unquote \<Rightarrow> ParserProcessWith D p next (json_parse decode unquote j) e
      | OpNormalize t N dual \<Rightarrow> ProcessWith D t next (normalize_transform N dual) e
      | OpSeverity t lower name s \<Rightarrow> ProcessWith D t next (SeverityParser_Parse D lower name s) e
      | OpTrace t sprint tp \<Rightarrow> ProcessWith D t next (TraceParser_Parse D sprint tp) e)"

text \<open>The emitter at the end keeps the entry it is given.\<close>

fun chain :: "('f, 'p) deps \<Rightarrow> ('f, 'p) operator list \<Rightarrow> entry writer" where
  "chain D [] e = Some (e, [e])"
| "chain D (op # ops) e = map_option (\<lambda>(e', ws, err). (e', ws)) (op_Process D op (chain D ops) e)"

text \<open>\<open>startPipeline\<close> and \<open>Validate\<close>: there has to be a first operator.\<close>

definition firstOperator :: "('f, 'p) deps \<Rightarrow> ('f, 'p) operator list \<Rightarrow> (entry \<Rightarrow> entry processed) option" where
  "firstOperator D ops = (case ops of [] \<Rightarrow> None | op # rest \<Rightarrow> Some (op_Process D op (chain D rest)))"

section \<open>The converter loop\<close>

text \<open>One batch of \<open>converterLoop\<close>: an error of the first operator breaks out of the batch.\<close>

fun feed :: "(entry \<Rightarrow> 'w processed) \<Rightarrow> entry list \<Rightarrow> 'w list option" where
  "feed process [] = Some []"
| "feed process (e # entries) = do {
     (e', ws, err) \<leftarrow> process e;
     (case err of
        Some x \<Rightarrow> Some ws
      | None \<Rightarrow> do { ws' \<leftarrow> feed process entries; Some (ws @ ws') })
   }"

fun converterLoop :: "(entry \<Rightarrow> 'w processed) \<Rightarrow> entry list list \<Rightarrow> 'w list option" where
  "converterLoop process [] = Some []"
| "converterLoop process (entries # batches) = do {
     ws \<leftarrow> feed process entries;
     ws' \<leftarrow> converterLoop process batches;
     Some (ws @ ws')
   }"

text \<open>\<open>consumeStanzaLogEntries\<close>: what the next consumer is given; its error is logged and dropped.\<close>

definition consumeStanzaLogEntries :: "(gomap \<Rightarrow> 64 word) \<Rightarrow> entry list \<Rightarrow> resource_logs list" where
  "consumeStanzaLogEntries HashResource entries = convertEntriesToPlogs HashResource entries"

section \<open>What an operator writes\<close>

definition sends :: "('p, 'z) transformer_scheme \<Rightarrow> bool" where
  "sends t \<longleftrightarrow> OnError t = SendOnError \<or> OnError t = SendOnErrorQuiet"

text \<open>An operator writes once, with what the next operator made of it; only when it fails and is
  configured to drop does it write nothing.\<close>

definition writes_once :: "bool \<Rightarrow> ('w writer \<Rightarrow> entry \<Rightarrow> 'w processed) \<Rightarrow> bool" where
  "writes_once snd_on_error process \<longleftrightarrow>
     (\<forall>next e e' ws err. process next e = Some (e', ws, err) \<longrightarrow>
        (\<exists>x. next x = Some (e', ws)) \<or> \<not> snd_on_error \<and> err \<noteq> None \<and> ws = [])"

lemma Write_once: "Write next e err = Some (e', ws, err') \<Longrightarrow> next e = Some (e', ws) \<and> err' = err"
  by (auto simp: Write_def)

lemma HandleEntryError_once:
  "HandleEntryError t next e err = Some (e', ws, err') \<Longrightarrow>
     err' = Some err \<and> (next e = Some (e', ws) \<or> \<not> sends t \<and> ws = [])"
  by (auto simp: HandleEntryError_def sends_def dest: Write_once split: if_splits)

definition once :: "bool \<Rightarrow> 'w writer \<Rightarrow> 'w processed \<Rightarrow> bool" where
  "once snd_on_error next r \<longleftrightarrow>
     (\<forall>e' ws err. r = Some (e', ws, err) \<longrightarrow>
        (\<exists>x. next x = Some (e', ws)) \<or> \<not> snd_on_error \<and> err \<noteq> None \<and> ws = [])"

lemma once_bind: "(\<And>x. m = Some x \<Longrightarrow> once b w (f x)) \<Longrightarrow> once b w (Option.bind m f)"
  by (cases m) (auto simp: once_def)

lemma once_Write: "once b w (Write w e err)"
  by (auto simp: once_def dest: Write_once)

lemma once_HandleEntryError: "sends t = b \<Longrightarrow> once b w (HandleEntryError t w e err)"
  by (auto simp: once_def dest!: HandleEntryError_once)

lemmas once_intros = once_bind once_Write once_HandleEntryError

lemma writes_onceI: "(\<And>w e. once b w (process w e)) \<Longrightarrow> writes_once b process"
  by (simp add: once_def writes_once_def)

lemma ProcessWith_once: "writes_once (sends t) (\<lambda>w. ProcessWith D t w transform)"
  unfolding ProcessWith_def
  by (rule writes_onceI) (auto intro!: once_intros split: option.split sum.split prod.split bool.split)

lemma sends_truncate [simp]: "sends (transformer.truncate p) = sends p"
  by (simp add: sends_def transformer.truncate_def)

text \<open>\<open>ParseWith\<close> writes nothing when it reports no error.\<close>

definition parse_post :: "bool \<Rightarrow> 'w writer \<Rightarrow> 'w processed \<Rightarrow> bool" where
  "parse_post snd_on_error next r \<longleftrightarrow>
     (\<forall>e' ws err. r = Some (e', ws, err) \<longrightarrow>
        (if err = None then ws = [] else (\<exists>x. next x = Some (e', ws)) \<or> \<not> snd_on_error \<and> ws = []))"

lemma parse_post_bind:
  "(\<And>x. m = Some x \<Longrightarrow> parse_post b next (f x)) \<Longrightarrow> parse_post b next (Option.bind m f)"
  by (cases m) (auto simp: parse_post_def)

lemma parse_post_fail: "parse_post (sends p) next (HandleEntryError (transformer.truncate p) next e err)"
  by (auto simp: parse_post_def dest!: HandleEntryError_once)

lemma parse_post_done: "parse_post b next (Some (e, [], None))"
  by (simp add: parse_post_def)

lemma ParseWith_post: "parse_post (sends p) next (ParseWith D p next parse e)"
  unfolding ParseWith_def Let_def
  by (auto intro!: parse_post_bind parse_post_fail parse_post_done split: option.split sum.split prod.split)

lemma ParseWith_once:
  assumes "ParseWith D p w parse e = Some (e', ws, err)"
  shows "if err = None then ws = [] else (\<exists>x. w x = Some (e', ws)) \<or> \<not> sends p \<and> ws = []"
  using ParseWith_post [of p w D parse e] assms unfolding parse_post_def by blast

lemma ParserProcessWith_once: "writes_once (sends p) (\<lambda>w. ParserProcessWith D p w parse)"
  unfolding ParserProcessWith_def
proof (rule writes_onceI)
  fix w :: "'a writer" and e
  have parsed: "once (sends p) w (case r of (e, ws, err) \<Rightarrow>
      (case err of Some err \<Rightarrow> Some (e, ws, Some err) | None \<Rightarrow> Write w e None))"
    if "ParseWith D p w parse e = Some r" for e r
    using that ParseWith_once [of D p w parse e]
    by (cases r) (auto simp: once_Write once_def [of _ _ "Some _"] split: option.split)
  show "once (sends p) w (Skip D (transformer.truncate p) e \<bind> (\<lambda>(e, skip).
      case skip of Inl err \<Rightarrow> HandleEntryError (transformer.truncate p) w e err
      | Inr True \<Rightarrow> Write w e None
      | Inr False \<Rightarrow> ParseWith D p w parse e \<bind> (\<lambda>(e, ws, err).
          case err of None \<Rightarrow> Write w e None | Some err \<Rightarrow> Some (e, ws, Some err))))"
    using parsed by (auto intro!: once_intros split: sum.split bool.split prod.split)
qed

definition op_sends :: "('f, 'p) operator \<Rightarrow> bool" where
  "op_sends op =
     (case op of
        OpAdd t _ _ _ _ \<Rightarrow> sends t | OpCopy t _ _ \<Rightarrow> sends t | OpMove t _ _ \<Rightarrow> sends t
      | OpRemove t _ \<Rightarrow> sends t | OpNoop \<Rightarrow> True | OpJson p _ _ _ \<Rightarrow> sends p
      | OpNormalize t _ _ \<Rightarrow> sends t | OpSeverity t _ _ _ \<Rightarrow> sends t | OpTrace t _ _ \<Rightarrow> sends t)"

lemma op_Process_once: "writes_once (op_sends op) (op_Process D op)"
proof (cases op)
  case OpNoop
  then show ?thesis by (auto simp: writes_once_def op_Process_def noop_Process_def dest: Write_once)
qed (simp_all add: op_Process_def [abs_def] op_sends_def ProcessWith_once ParserProcessWith_once)

lemma chain_at_most_one: "chain D ops e = Some (e', ws) \<Longrightarrow> length ws \<le> 1"
proof (induction ops arbitrary: e e' ws)
  case (Cons op ops)
  then obtain err where "op_Process D op (chain D ops) e = Some (e', ws, err)" by auto
  with op_Process_once [of op D] Cons.IH show ?case unfolding writes_once_def by fastforce
qed simp

lemma chain_exactly_one: "chain D ops e = Some (e', ws) \<Longrightarrow> list_all op_sends ops \<Longrightarrow> length ws = 1"
proof (induction ops arbitrary: e e' ws)
  case (Cons op ops)
  then obtain err where "op_Process D op (chain D ops) e = Some (e', ws, err)" by auto
  with op_Process_once [of op D] Cons show ?case unfolding writes_once_def by fastforce
qed simp

lemma first_exactly_one:
  assumes "op_Process D op (chain D ops) e = Some (e', ws, err)" "list_all op_sends (op # ops)"
  shows "length ws = 1"
  using chain_exactly_one [of D "op # ops" e e' ws] assms by simp

lemma first_at_most_one:
  assumes "op_Process D op (chain D ops) e = Some (e', ws, err)"
  shows "length ws \<le> 1"
  using chain_at_most_one [of D "op # ops" e e' ws] assms by simp

section \<open>Batches\<close>

lemma feed_length:
  assumes "feed process entries = Some ws" "\<And>e e' ws err. process e = Some (e', ws, err) \<Longrightarrow> length ws \<le> 1"
  shows "length ws \<le> length entries"
  using assms(1)
proof (induction entries arbitrary: ws)
  case (Cons e entries)
  then show ?case
    using assms(2) by (fastforce simp: bind_eq_Some_conv split: option.splits)
qed simp


text \<open>The batch ends at the first entry on which the first operator fails: it is still sent on, as
  configured, but the entries after it never enter the pipeline.\<close>

theorem feed_stops_at_error:
  assumes "feed process before = Some ws" "\<forall>e\<in>set before. \<exists>e' us. process e = Some (e', us, None)"
    "process e = Some (e', us, Some err)"
  shows "feed process (before @ e # later) = Some (ws @ us)"
  using assms(1,2)
proof (induction before arbitrary: ws)
  case Nil
  then show ?case using assms(3) by simp
next
  case (Cons b before)
  then obtain b' vs ws' where "process b = Some (b', vs, None)" "feed process before = Some ws'" "ws = vs @ ws'"
    by (fastforce simp: bind_eq_Some_conv split: option.splits)
  with Cons show ?case by simp
qed

section \<open>Witnesses\<close>

definition no_deps :: "(unit, unit) deps" where
  "no_deps = \<lparr>unmarshal = (\<lambda>_. None), NewAttributeField = (\<lambda>_. ()), NewResourceField = (\<lambda>_. ()),
     up_Get = (\<lambda>_ _. None), up_Set = (\<lambda>_ e _. (e, None)), up_Delete = (\<lambda>_ e. (e, None)),
     run_bool = (\<lambda>_ _. Inr True), run_any = (\<lambda>_ _. Inr VNil),
     pooled = \<lparr>env_body = VNil, env_attributes = None, env_resource = None, env_timestamp = None,
       env_severity_text = [], env_severity_number = Default, env_trace_id = None, env_span_id = None,
       env_trace_flags = None, env_body_map = None, env_patterns = []\<rparr>\<rparr>"

definition send_always :: "unit transformer" where
  "send_always = \<lparr>OnError = SendOnError, IfExpr = None, ifExprHasBodyFieldRef = False, ifExprCompiledPatterns = []\<rparr>"

lemma move_fails:
  "op_Process no_deps (OpMove send_always () ()) (chain no_deps []) e = Some (e, [e], Some FieldMissing)"
  by (simp add: op_Process_def ProcessWith_def Skip_def send_always_def move_Transform_def no_deps_def
      HandleEntryError_def Write_def)

lemma noop_keeps: "op_Process no_deps OpNoop (chain no_deps []) e = Some (e, [e], None)"
  by (simp add: op_Process_def noop_Process_def Write_def)


theorem feed_stops_at_error_witness:
  "feed (op_Process no_deps (OpMove send_always () ()) (chain no_deps [])) [blank_entry, blank_entry]
     = Some [blank_entry]"
  using feed_stops_at_error [of "op_Process no_deps (OpMove send_always () ()) (chain no_deps [])" "[]" "[]"
      blank_entry blank_entry "[blank_entry]" FieldMissing "[blank_entry]"]
  by (simp add: move_fails)

end
