(* ===== verification/Regex_Cache.thy ===== *)
theory Regex_Cache
  imports Stanza_Parsers Go_Floats
begin

text \<open>
  The regular expression parser and its cache (\<open>operators/regex\<close>): a bounded first-in first-out map
  whose queue of keys is a Go channel, with a limiter that stops additions when too many entries are
  evicted. The matcher is upstream code, the argument \<open>MatchValues\<close>; it gives a map of the named
  groups or an error. Converting a negative float to \<open>uint64\<close> is left to the implementation by the
  language: it is the argument \<open>to_uint64\<close>.

  Theorems: the cached parser answers as the matcher does and never holds more than its size; on a
  machine that keeps the bits of a negative number, a throttled limiter stays throttled.
\<close>

section \<open>The limiter\<close>

record atomicLimiter =
  count :: "64 word"
  limit_max :: "64 word"

definition throttled :: "atomicLimiter \<Rightarrow> bool" where
  "throttled l \<longleftrightarrow> count l \<ge> limit_max l"

definition increment :: "atomicLimiter \<Rightarrow> atomicLimiter" where
  "increment l = (if count l = limit_max l then l else l\<lparr>count := count l + 1\<rparr>)"

text \<open>\<open>math.Round\<close>: to the nearest integer, halves away from zero.\<close>

definition math_Round :: "rat \<Rightarrow> int" where
  "math_Round x = (if x < 0 then - \<lfloor>- x + 1 / 2\<rfloor> else \<lfloor>x + 1 / 2\<rfloor>)"

definition decrement_of :: "atomicLimiter \<Rightarrow> int" where
  "decrement_of l = math_Round (float64 (float64 (- 1 / 10) * float64 (of_int (uint (limit_max l)))))"

text \<open>One tick of the goroutine that \<open>init\<close> starts.\<close>

definition limiter_tick :: "(int \<Rightarrow> 64 word) \<Rightarrow> atomicLimiter \<Rightarrow> atomicLimiter" where
  "limiter_tick to_uint64 l =
     (if count l > 0 then l\<lparr>count := count l + not (to_uint64 (decrement_of l))\<rparr> else l)"

definition newStartedAtomicLimiter :: "64 word \<Rightarrow> atomicLimiter" where
  "newStartedAtomicLimiter m = \<lparr>count = 0, limit_max = m\<rparr>"

section \<open>The cache\<close>

text \<open>The channel is its queue and its capacity, a \<open>uint16\<close>.\<close>

record memoryCache =
  cache :: "(string, any) fmap"
  keys :: "string list"
  keys_cap :: nat
  limiter :: atomicLimiter

definition newMemoryCache :: "16 word \<Rightarrow> memoryCache" where
  "newMemoryCache maxSize =
     \<lparr>cache = fmempty, keys = [], keys_cap = unat maxSize,
      limiter = newStartedAtomicLimiter (ucast maxSize + 1)\<rparr>"

definition cache_get :: "memoryCache \<Rightarrow> string \<Rightarrow> any" where
  "cache_get m key = (case fmlookup (cache m) key of None \<Rightarrow> VNil | Some v \<Rightarrow> v)"

definition evict :: "memoryCache \<Rightarrow> memoryCache" where
  "evict m = m\<lparr>cache := fmdrop (hd (keys m)) (cache m), keys := tl (keys m), limiter := increment (limiter m)\<rparr>"

text \<open>\<open>add\<close>; receiving from an empty channel of capacity zero never returns, which is \<open>None\<close>.\<close>

definition cache_add :: "memoryCache \<Rightarrow> string \<Rightarrow> any \<Rightarrow> (memoryCache \<times> bool) option" where
  "cache_add m key data =
     (if throttled (limiter m) then Some (m, False)
      else if length (keys m) = keys_cap m \<and> keys m = [] then None
      else
        (let m = (if length (keys m) = keys_cap m then evict m else m)
         in Some (m\<lparr>cache := fmupd key data (cache m), keys := keys m @ [key]\<rparr>, True)))"

definition cache_copy :: "memoryCache \<Rightarrow> (string, any) fmap" where
  "cache_copy m = cache m"

definition cache_maxSize :: "memoryCache \<Rightarrow> nat" where
  "cache_maxSize m = keys_cap m"

section \<open>The parser\<close>

definition regex_match ::
  "(string \<Rightarrow> string + gomap) \<Rightarrow> memoryCache option \<Rightarrow> string \<Rightarrow> (memoryCache option \<times> (op_error + any)) option" where
  "regex_match MatchValues c value =
     (case c of
        None \<Rightarrow>
          Some (None, case MatchValues value of Inl err \<Rightarrow> Inl (NotParsed err) | Inr m \<Rightarrow> Inr (VMap m))
      | Some m \<Rightarrow>
          if cache_get m value \<noteq> VNil then Some (c, Inr (cache_get m value))
          else
            (case MatchValues value of
               Inl err \<Rightarrow> Some (c, Inl (NotParsed err))
             | Inr parsed \<Rightarrow>
                 map_option (\<lambda>(m', _). (Some m', Inr (VMap parsed))) (cache_add m value (VMap parsed))))"

definition regex_parse ::
  "(string \<Rightarrow> string + gomap) \<Rightarrow> memoryCache option \<Rightarrow> any \<Rightarrow> (memoryCache option \<times> (op_error + any)) option" where
  "regex_parse MatchValues c value =
     (case value of
        VString raw \<Rightarrow> regex_match MatchValues c raw
      | _ \<Rightarrow> Some (c, Inl (NotParsed ''type cannot be parsed as regex'')))"

text \<open>The cache of \<open>Build\<close>: none for size zero.\<close>

definition regex_Build_cache :: "16 word \<Rightarrow> memoryCache option" where
  "regex_Build_cache sz = (if sz > 0 then Some (newMemoryCache sz) else None)"

text \<open>A run: lookups, and ticks of the limiter between them.\<close>

datatype cache_event = Lookup any | Tick

fun regex_run ::
  "(int \<Rightarrow> 64 word) \<Rightarrow> (string \<Rightarrow> string + gomap) \<Rightarrow> cache_event list \<Rightarrow> memoryCache option \<Rightarrow>
    (memoryCache option \<times> (op_error + any) list) option" where
  "regex_run u M [] c = Some (c, [])"
| "regex_run u M (Tick # evs) c =
     regex_run u M evs (map_option (\<lambda>m. m\<lparr>limiter := limiter_tick u (limiter m)\<rparr>) c)"
| "regex_run u M (Lookup v # evs) c = do {
     (c', r) \<leftarrow> regex_parse M c v;
     (c'', rs) \<leftarrow> regex_run u M evs c';
     Some (c'', r # rs)
   }"

definition uncached :: "(string \<Rightarrow> string + gomap) \<Rightarrow> cache_event list \<Rightarrow> (op_error + any) list" where
  "uncached M evs = concat (map (\<lambda>ev. case ev of Tick \<Rightarrow> [] | Lookup v \<Rightarrow>
     (case regex_parse M None v of None \<Rightarrow> [] | Some (_, r) \<Rightarrow> [r])) evs)"

section \<open>The invariant\<close>

definition cache_ok :: "(string \<Rightarrow> string + gomap) \<Rightarrow> nat \<Rightarrow> memoryCache \<Rightarrow> bool" where
  "cache_ok M n m \<longleftrightarrow>
     distinct (keys m) \<and> fset (fmdom (cache m)) = set (keys m)
     \<and> length (keys m) \<le> keys_cap m \<and> 0 < keys_cap m \<and> keys_cap m = n
     \<and> (\<forall>k v. fmlookup (cache m) k = Some v \<longrightarrow> (\<exists>p. M k = Inr p \<and> v = VMap p))"

lemma cache_ok_limiter [simp]: "cache_ok M n (m\<lparr>limiter := l\<rparr>) = cache_ok M n m"
  by (simp add: cache_ok_def)

lemma cache_ok_get:
  assumes "cache_ok M n m"
  shows "cache_get m k = VNil \<longleftrightarrow> k \<notin> set (keys m)"
    "cache_get m k \<noteq> VNil \<Longrightarrow> \<exists>p. M k = Inr p \<and> cache_get m k = VMap p"
proof -
  have "k \<in> set (keys m) \<longleftrightarrow> fmlookup (cache m) k \<noteq> None"
    using assms by (metis cache_ok_def fmdom_notD fmlookup_dom_iff option.distinct(1))
  then show "cache_get m k = VNil \<longleftrightarrow> k \<notin> set (keys m)"
    using assms by (auto simp: cache_get_def cache_ok_def split: option.splits)
  show "cache_get m k \<noteq> VNil \<Longrightarrow> \<exists>p. M k = Inr p \<and> cache_get m k = VMap p"
    using assms by (auto simp: cache_get_def cache_ok_def split: option.splits)
qed

lemma cache_ok_evict:
  assumes "cache_ok M n m" "length (keys m) = keys_cap m"
  shows "cache_ok M n (evict m) \<and> length (keys (evict m)) < keys_cap (evict m)
    \<and> set (keys (evict m)) \<subseteq> set (keys m)"
proof -
  obtain k ks where ks: "keys m = k # ks" using assms by (cases "keys m") (auto simp: cache_ok_def)
  with assms show ?thesis by (auto simp: cache_ok_def evict_def)
qed

lemma cache_ok_add:
  assumes "cache_ok M n m" "k \<notin> set (keys m)" "M k = Inr p"
  shows "\<exists>m' b. cache_add m k (VMap p) = Some (m', b) \<and> cache_ok M n m'"
proof (cases "throttled (limiter m)")
  case True
  with assms show ?thesis by (intro exI [of _ m] exI [of _ False]) (simp add: cache_add_def)
next
  case False
  define m1 where "m1 = (if length (keys m) = keys_cap m then evict m else m)"
  have m1: "cache_ok M n m1" "length (keys m1) < keys_cap m1" "k \<notin> set (keys m1)"
    using assms cache_ok_evict [OF assms(1)] by (auto simp: m1_def cache_ok_def)
  have "\<not> (length (keys m) = keys_cap m \<and> keys m = [])" using assms(1) by (auto simp: cache_ok_def)
  moreover have "cache_ok M n (m1\<lparr>cache := fmupd k (VMap p) (cache m1), keys := keys m1 @ [k]\<rparr>)"
    using m1 assms(3) by (auto simp: cache_ok_def)
  ultimately show ?thesis using False unfolding cache_add_def Let_def m1_def [symmetric] by simp blast
qed

lemma regex_parse_ok:
  assumes "\<And>m. c = Some m \<Longrightarrow> cache_ok M n m"
  shows "\<exists>c' r. regex_parse M c v = Some (c', r) \<and> regex_parse M None v = Some (None, r)
    \<and> (\<forall>m'. c' = Some m' \<longrightarrow> cache_ok M n m')"
proof (cases "\<exists>s m. v = VString s \<and> c = Some m")
  case False
  with assms show ?thesis by (cases c; cases v) (auto simp: regex_parse_def regex_match_def)
next
  case True
  then obtain s m where v: "v = VString s" "c = Some m" by blast
  show ?thesis
  proof (cases "cache_get m s \<noteq> VNil")
    case True
    then show ?thesis
      using cache_ok_get(2) [OF assms [OF v(2)] True] assms v by (auto simp: regex_parse_def regex_match_def)
  next
    case False
    show ?thesis
    proof (cases "M s")
      case (Inl err)
      with False v assms show ?thesis by (simp add: regex_parse_def regex_match_def)
    next
      case (Inr p)
      obtain m' b where "cache_add m s (VMap p) = Some (m', b)" "cache_ok M n m'"
        using cache_ok_add [OF assms [OF v(2)] _ Inr] cache_ok_get(1) [OF assms [OF v(2)], of s] False by blast
      with False v Inr show ?thesis by (simp add: regex_parse_def regex_match_def)
    qed
  qed
qed

lemma regex_run_ok:
  assumes "\<And>m. c = Some m \<Longrightarrow> cache_ok M n m"
  shows "\<exists>c'. regex_run u M evs c = Some (c', uncached M evs) \<and> (\<forall>m'. c' = Some m' \<longrightarrow> cache_ok M n m')"
  using assms
proof (induction evs arbitrary: c)
  case (Cons ev evs)
  show ?case
  proof (cases ev)
    case Tick
    have "cache_ok M n m'" if "map_option (\<lambda>m. m\<lparr>limiter := limiter_tick u (limiter m)\<rparr>) c = Some m'" for m'
      using that Cons.prems by auto
    then have "\<exists>c'. regex_run u M evs (map_option (\<lambda>m. m\<lparr>limiter := limiter_tick u (limiter m)\<rparr>) c)
        = Some (c', uncached M evs) \<and> (\<forall>m'. c' = Some m' \<longrightarrow> cache_ok M n m')" by (rule Cons.IH)
    with Tick show ?thesis by (simp add: uncached_def)
  next
    case (Lookup v)
    obtain c' r where c': "regex_parse M c v = Some (c', r)" "regex_parse M None v = Some (None, r)"
      "\<forall>m'. c' = Some m' \<longrightarrow> cache_ok M n m'"
      using regex_parse_ok [of c M n v] Cons.prems by blast
    with Cons.IH [of c'] Lookup show ?thesis by (auto simp: uncached_def)
  qed
qed (simp add: uncached_def)

lemma cache_ok_new: "sz > 0 \<Longrightarrow> cache_ok M (unat sz) (newMemoryCache sz)"
  by (simp add: cache_ok_def newMemoryCache_def unat_gt_0 word_neq_0_conv)

text \<open>For every configured size and every sequence of lookups and limiter ticks, the parser with its
  cache answers exactly as without one, and the cache never holds more entries than its size.\<close>

theorem regex_cache_transparent:
  "\<exists>c. regex_run to_uint64 MatchValues evs (regex_Build_cache sz) = Some (c, uncached MatchValues evs)
     \<and> (case c of None \<Rightarrow> True | Some m \<Rightarrow> fcard (fmdom (cache m)) \<le> unat sz)"
proof -
  have ok: "cache_ok MatchValues (unat sz) m" if "regex_Build_cache sz = Some m" for m
    using that cache_ok_new by (auto simp: regex_Build_cache_def split: if_splits)
  obtain c where c: "regex_run to_uint64 MatchValues evs (regex_Build_cache sz) = Some (c, uncached MatchValues evs)"
    "\<forall>m. c = Some m \<longrightarrow> cache_ok MatchValues (unat sz) m"
    using regex_run_ok [OF ok] by blast
  have "fcard (fmdom (cache m)) \<le> unat sz" if "cache_ok MatchValues (unat sz) m" for m
    using that by (auto simp: cache_ok_def fcard.rep_eq distinct_card)
  with c show ?thesis by (intro exI [of _ c]) (auto split: option.splits)
qed

section \<open>The limiter does not recover\<close>

lemma float64_tenth: "float64 (1 / 10) = 3602879701896397 / 36028797018963968"
  by code_simp

lemma float64_half: "float64 (1 / 2) = 1 / 2"
  by code_simp

lemma math_Round_neg: "1 / 2 \<le> y \<Longrightarrow> math_Round (- y) = - \<lfloor>y + 1 / 2\<rfloor>"
  by (simp add: math_Round_def)

lemma decrement_bounds:
  assumes "5 \<le> uint (limit_max l)" "uint (limit_max l) \<le> 2 ^ 16"
  shows "decrement_of l \<le> - 1" "- (2 ^ 16) \<le> decrement_of l"
proof -
  define m where "m = uint (limit_max l)"
  define y where "y = float64 (float64 (1 / 10) * of_int m)"
  have m: "5 \<le> m" "m \<le> 2 ^ 16" using assms by (simp_all add: m_def)
  have fm: "float64 (of_int m) = of_int m" using m by (intro float64_int) auto
  have pos: "0 < float64 (1 / 10) * of_int m" using m unfolding float64_tenth by simp
  have "decrement_of l = math_Round (- y)"
    using pos m float64_minus [of "1 / 10"] float64_minus [OF pos]
    unfolding decrement_of_def m_def [symmetric] y_def fm by simp
  moreover have lo: "1 / 2 \<le> y"
  proof -
    have "(1 / 2 :: rat) \<le> 3602879701896397 / 36028797018963968 * 5" by simp
    also have "\<dots> \<le> 3602879701896397 / 36028797018963968 * of_int m" using m by (intro mult_left_mono) auto
    finally have "float64 (1 / 2) \<le> y" unfolding y_def float64_tenth by (intro float64_mono) auto
    then show ?thesis by (simp add: float64_half)
  qed
  moreover have "y \<le> of_int m"
  proof -
    have "float64 (1 / 10) * of_int m \<le> 1 * of_int m"
      using m unfolding float64_tenth by (intro mult_right_mono) auto
    then have "y \<le> float64 (of_int m)" unfolding y_def using pos by (intro float64_mono) auto
    with fm show ?thesis by simp
  qed
  ultimately obtain f where "decrement_of l = - f" "f = \<lfloor>y + 1 / 2\<rfloor>" "1 \<le> f" "f \<le> m"
    by (auto simp: math_Round_neg le_floor_iff floor_le_iff)
  then show "decrement_of l \<le> - 1" "- (2 ^ 16) \<le> decrement_of l" using m(2) by linarith+
qed

lemma limiter_tick_grows:
  assumes "5 \<le> uint (limit_max l)" "uint (limit_max l) \<le> 2 ^ 16" "throttled l"
    "uint (count l) + 2 ^ 16 < 2 ^ 64"
  shows "uint (count l) \<le> uint (count (limiter_tick word_of_int l))
    \<and> uint (count (limiter_tick word_of_int l)) \<le> uint (count l) + 2 ^ 16
    \<and> limit_max (limiter_tick word_of_int l) = limit_max l"
proof -
  obtain d where dd: "decrement_of l = - d - 1" and d: "0 \<le> d" "d < 2 ^ 16"
    using decrement_bounds [OF assms(1,2)] by (intro that [of "- decrement_of l - 1"]) auto
  have "not (word_of_int (decrement_of l)) = (word_of_int d :: 64 word)"
    by (simp add: not_eq_complement dd)
  moreover have "uint (word_of_int d :: 64 word) = d"
    using d unfolding uint_word_of_int_eq by (intro take_bit_int_eq_self) auto
  ultimately have "uint (count l + not (word_of_int (decrement_of l))) = uint (count l) + d"
    using d assms(4) by (simp add: uint_plus_if')
  with d show ?thesis by (simp add: limiter_tick_def)
qed

text \<open>A limiter whose bound is at least five, as for every cache of four entries or more, does not
  recover from throttling where converting a negative number to \<open>uint64\<close> keeps its bits: each tick
  adds to the counter what it means to subtract, until the counter overflows.\<close>

theorem limiter_never_recovers:
  assumes "5 \<le> uint (limit_max l)" "uint (limit_max l) \<le> 2 ^ 16" "throttled l"
    "uint (count l) + int (Suc n) * 2 ^ 16 < 2 ^ 64"
  shows "throttled ((limiter_tick word_of_int ^^ n) l)"
proof -
  have "uint (limit_max l) \<le> uint (count ((limiter_tick word_of_int ^^ n) l))
    \<and> uint (count ((limiter_tick word_of_int ^^ n) l)) \<le> uint (count l) + int n * 2 ^ 16
    \<and> limit_max ((limiter_tick word_of_int ^^ n) l) = limit_max l"
    using assms(4)
  proof (induction n)
    case 0
    then show ?case using assms(3) by (simp add: throttled_def word_le_def)
  next
    case (Suc n)
    let ?l = "(limiter_tick word_of_int ^^ n) l"
    have IH: "uint (limit_max l) \<le> uint (count ?l)" "uint (count ?l) \<le> uint (count l) + int n * 2 ^ 16"
      "limit_max ?l = limit_max l" using Suc by auto
    have "throttled ?l" using IH by (simp add: throttled_def word_le_def)
    moreover have "uint (count ?l) + 2 ^ 16 < 2 ^ 64" using IH(2) Suc.prems by simp
    ultimately show ?case using limiter_tick_grows [of ?l] IH assms(1,2) by (auto simp: algebra_simps)
  qed
  then show ?thesis by (simp add: throttled_def word_le_def)
qed

theorem limiter_never_recovers_witness:
  "throttled ((limiter_tick word_of_int ^^ 1000000) \<lparr>count = 101, limit_max = 101\<rparr>)"
  using limiter_never_recovers [of "\<lparr>count = 101, limit_max = 101\<rparr>" 1000000] by (simp add: throttled_def)

end
