(* ===== verification/Time_Bucketed_Set.thy ===== *)
theory Time_Bucketed_Set
  imports Go_Prelude "HOL-Library.Finite_Map"
begin

text \<open>
  The time-bucketed set (\<open>pkg/timebucketedset\<close>): which identities were written for which bucket of
  time, so that an exporter writes each of them once per bucket. The caches that hold the identities
  of a bucket are \<open>fastcache\<close> and the hash is \<open>xxhash\<close>, upstream code: the record \<open>fastcache\<close> and the
  argument \<open>Sum64\<close>. \<open>Plan\<close> gives up its read lock to create a bucket; its program points are the
  datatype \<open>plan_pc\<close>, one step is what happens under one hold of the lock, and the interleavings of
  any number of calls are a step relation. \<open>Apply\<close> is one step per row, which allows more
  interleavings than its lock does. A panic is \<open>None\<close>.

  Theorems: the number of caches ever allocated is bounded, an identity is skipped only after it was
  applied for that bucket, what \<open>Plan\<close> answers after \<open>Apply\<close>, and when identities are written early.
\<close>

section \<open>Configuration\<close>

text \<open>Durations are nanoseconds.\<close>

record SetConfig =
  MaxBuckets :: int
  MaxBucketSize :: int
  PreWriteWindow :: int

definition DefaultConfig :: SetConfig where
  "DefaultConfig = \<lparr>MaxBuckets = 3, MaxBucketSize = 256 * 2 ^ 20, PreWriteWindow = 0\<rparr>"

definition WithDefaults :: "SetConfig \<Rightarrow> SetConfig" where
  "WithDefaults c =
     (let c = (if MaxBuckets c = 0 then c\<lparr>MaxBuckets := 3\<rparr> else c)
      in if MaxBucketSize c = 0 then c\<lparr>MaxBucketSize := 256 * 2 ^ 20\<rparr> else c)"

definition Config_Validate :: "SetConfig \<Rightarrow> int \<Rightarrow> string option" where
  "Config_Validate c width =
     (if width \<le> 0 then Some ''width must be positive''
      else if MaxBuckets c < 2 then Some ''max_buckets must be at least 2''
      else if MaxBucketSize c < 32 * 2 ^ 20 then Some ''max_bucket_size must be at least''
      else if PreWriteWindow c < 0 \<or> PreWriteWindow c \<ge> width
        then Some ''pre_write_window must be shorter than the bucket width''
      else if PreWriteWindow c > 0 \<and> PreWriteWindow c < 1000000000
        then Some ''pre_write_window must be at least 1s''
      else None)"

section \<open>The set\<close>

record 'c fastcache =
  fc_New :: "int \<Rightarrow> 'c"
  fc_Has :: "'c \<Rightarrow> string \<Rightarrow> bool"
  fc_Set :: "'c \<Rightarrow> string \<Rightarrow> 'c"
  fc_Reset :: "'c \<Rightarrow> 'c"

text \<open>The counters of \<open>telemetry\<close>.\<close>

record telemetry =
  miss :: "64 word"
  hit :: "64 word"
  preWrite :: "64 word"
  noBucket :: "64 word"
  applied :: "64 word"
  ignored :: "64 word"
  evictions :: "64 word"

record 'c Set = telemetry +
  config :: SetConfig
  buckets :: "(int, 'c) fmap"
  spareBuckets :: "'c list"
  width :: int
  preWriteWindow :: int

definition NewSet :: "int \<Rightarrow> SetConfig \<Rightarrow> string + 'c Set" where
  "NewSet w c =
     (let c = WithDefaults c
      in case Config_Validate c w of
           Some err \<Rightarrow> Inl err
         | None \<Rightarrow> Inr
             \<lparr>miss = 0, hit = 0, preWrite = 0, noBucket = 0, applied = 0, ignored = 0, evictions = 0,
              config = c, buckets = fmempty, spareBuckets = [],
              width = quot w 1000000, preWriteWindow = quot (PreWriteWindow c) 1000000\<rparr>)"

definition BucketStart :: "'c Set \<Rightarrow> int \<Rightarrow> int option" where
  "BucketStart bs ms = (if width bs = 0 then None else Some (wrap64 (quot ms (width bs) * width bs)))"

text \<open>The bucket dropped for \<open>start\<close>: the oldest one, unless \<open>start\<close> is older still.\<close>

definition oldest_bucket :: "'c Set \<Rightarrow> int \<Rightarrow> int" where
  "oldest_bucket bs start = Min (insert start (fset (fmdom (buckets bs))))"

definition evict_bucket :: "'c fastcache \<Rightarrow> int \<Rightarrow> 'c Set \<Rightarrow> 'c Set" where
  "evict_bucket F oldest bs =
     (case fmlookup (buckets bs) oldest of
        None \<Rightarrow> bs
      | Some bucket \<Rightarrow>
          bs\<lparr>buckets := fmdrop oldest (buckets bs), evictions := evictions bs + 1,
             spareBuckets := spareBuckets bs @ [fc_Reset F bucket]\<rparr>)"

definition place_bucket :: "'c fastcache \<Rightarrow> int \<Rightarrow> 'c Set \<Rightarrow> 'c Set" where
  "place_bucket F start bs =
     (if spareBuckets bs = [] then
        bs\<lparr>buckets := fmupd start (fc_New F (MaxBucketSize (config bs))) (buckets bs)\<rparr>
      else
        bs\<lparr>buckets := fmupd start (last (spareBuckets bs)) (buckets bs),
           spareBuckets := butlast (spareBuckets bs)\<rparr>)"

definition createBucket :: "'c fastcache \<Rightarrow> int \<Rightarrow> 'c Set \<Rightarrow> 'c Set" where
  "createBucket F start bs =
     (if start |\<in>| fmdom (buckets bs) then bs
      else if int (fcard (fmdom (buckets bs))) \<ge> MaxBuckets (config bs) then
        (let oldest = oldest_bucket bs start
         in if oldest = start then bs else place_bucket F start (evict_bucket F oldest bs))
      else place_bucket F start bs)"

definition isInPreWriteWindow :: "(string \<Rightarrow> 64 word) \<Rightarrow> 'c Set \<Rightarrow> string \<Rightarrow> int \<Rightarrow> int \<Rightarrow> bool" where
  "isInPreWriteWindow Sum64 bs ident start ms =
     (let current = wrap64 (ms - start); preWriteStart = wrap64 (width bs - preWriteWindow bs)
      in if current < preWriteStart \<or> current \<ge> width bs then False
         else current \<ge> wrap64 (preWriteStart +
           wrap64 (uint (Sum64 ident) mod uint (word_of_int (preWriteWindow bs) :: 64 word))))"

section \<open>Plan\<close>

text \<open>Where a call of \<open>Plan\<close> stands each time it holds no lock; \<open>Answer\<close> when it has returned.\<close>

datatype plan_pc = PlanStart | CreateCurrent | LookCurrent | CreateNext | LookNext | Answer bool bool

record plan_call =
  c_id :: string
  c_start :: int
  c_now :: int

definition after_next :: "'c fastcache \<Rightarrow> plan_call \<Rightarrow> 'c option \<Rightarrow> 'c Set \<Rightarrow> plan_pc \<times> 'c Set" where
  "after_next F p bucket bs =
     (case bucket of
        None \<Rightarrow> (Answer False False, bs\<lparr>hit := hit bs + 1\<rparr>)
      | Some b \<Rightarrow>
          if \<not> fc_Has F b (c_id p) then (Answer False True, bs\<lparr>preWrite := preWrite bs + 1\<rparr>)
          else (Answer False False, bs\<lparr>hit := hit bs + 1\<rparr>))"

text \<open>\<open>getOrCreateBucket\<close> up to the place where it gives up the lock: it has the bucket or nil, or has
  to create one.\<close>

datatype 'c found = Found "'c option" | Missing

definition getBucket :: "'c Set \<Rightarrow> int \<Rightarrow> int \<Rightarrow> 'c found option" where
  "getBucket bs start ms =
     map_option (\<lambda>b0.
       if start > wrap64 (b0 + width bs) then Found None
       else case fmlookup (buckets bs) start of Some b \<Rightarrow> Found (Some b) | None \<Rightarrow> Missing) (BucketStart bs ms)"

definition after_current ::
  "(string \<Rightarrow> 64 word) \<Rightarrow> 'c fastcache \<Rightarrow> plan_call \<Rightarrow> 'c option \<Rightarrow> 'c Set \<Rightarrow> (plan_pc \<times> 'c Set) option" where
  "after_current Sum64 F p bucket bs =
     (case bucket of
        None \<Rightarrow> Some (Answer True False, bs\<lparr>noBucket := noBucket bs + 1\<rparr>)
      | Some b \<Rightarrow>
          if \<not> fc_Has F b (c_id p) then Some (Answer True False, bs\<lparr>miss := miss bs + 1\<rparr>)
          else if preWriteWindow bs = 0 \<or> \<not> isInPreWriteWindow Sum64 bs (c_id p) (c_start p) (c_now p)
            then Some (Answer False False, bs\<lparr>hit := hit bs + 1\<rparr>)
          else
            (case getBucket bs (wrap64 (c_start p + width bs)) (c_now p) of
               None \<Rightarrow> None
             | Some (Found b') \<Rightarrow> Some (after_next F p b' bs)
             | Some Missing \<Rightarrow> Some (CreateNext, bs)))"

fun plan_step ::
  "(string \<Rightarrow> 64 word) \<Rightarrow> 'c fastcache \<Rightarrow> plan_call \<Rightarrow> plan_pc \<Rightarrow> 'c Set \<Rightarrow> (plan_pc \<times> 'c Set) option" where
  "plan_step H F p PlanStart bs =
     (case getBucket bs (c_start p) (c_now p) of
        None \<Rightarrow> None
      | Some (Found b) \<Rightarrow> after_current H F p b bs
      | Some Missing \<Rightarrow> Some (CreateCurrent, bs))"
| "plan_step H F p CreateCurrent bs = Some (LookCurrent, createBucket F (c_start p) bs)"
| "plan_step H F p LookCurrent bs = after_current H F p (fmlookup (buckets bs) (c_start p)) bs"
| "plan_step H F p CreateNext bs =
     Some (LookNext, createBucket F (wrap64 (c_start p + width bs)) bs)"
| "plan_step H F p LookNext bs =
     Some (after_next F p (fmlookup (buckets bs) (wrap64 (c_start p + width bs))) bs)"
| "plan_step H F p (Answer c n) bs = Some (Answer c n, bs)"

text \<open>A call that runs alone: five steps always reach the answer.\<close>

fun plan_steps ::
  "nat \<Rightarrow> (string \<Rightarrow> 64 word) \<Rightarrow> 'c fastcache \<Rightarrow> plan_call \<Rightarrow> plan_pc \<times> 'c Set \<Rightarrow> (plan_pc \<times> 'c Set) option" where
  "plan_steps 0 H F p ps = Some ps"
| "plan_steps (Suc n) H F p ps = Option.bind (plan_step H F p (fst ps) (snd ps)) (plan_steps n H F p)"

definition Plan :: "(string \<Rightarrow> 64 word) \<Rightarrow> 'c fastcache \<Rightarrow> plan_call \<Rightarrow> 'c Set \<Rightarrow> (plan_pc \<times> 'c Set) option" where
  "Plan H F p bs = plan_steps 5 H F p (PlanStart, bs)"

section \<open>Apply\<close>

definition apply_row :: "'c fastcache \<Rightarrow> string \<times> int \<Rightarrow> 'c Set \<Rightarrow> 'c Set" where
  "apply_row F row bs =
     (case fmlookup (buckets bs) (snd row) of
        None \<Rightarrow> bs\<lparr>ignored := ignored bs + 1\<rparr>
      | Some b \<Rightarrow> bs\<lparr>buckets := fmupd (snd row) (fc_Set F b (fst row)) (buckets bs), applied := applied bs + 1\<rparr>)"

definition Apply :: "'c fastcache \<Rightarrow> (string \<times> int) list \<Rightarrow> 'c Set \<Rightarrow> 'c Set" where
  "Apply F rows bs = fold (apply_row F) rows bs"

section \<open>Scenarios\<close>

text \<open>\<open>Step\<close> and \<open>RunSteps\<close>: calls one after the other, up to the first \<open>Plan\<close> whose answer differs
  from what is expected.\<close>

datatype Step =
  PlanStep plan_call "bool option" "bool option"
| ApplyStep string int

datatype step_error =
  CurrentIs nat bool
| NextIs nat bool

fun RunSteps ::
  "(string \<Rightarrow> 64 word) \<Rightarrow> 'c fastcache \<Rightarrow> nat \<Rightarrow> Step list \<Rightarrow> 'c Set \<Rightarrow> (step_error option \<times> 'c Set) option" where
  "RunSteps H F i [] bs = Some (None, bs)"
| "RunSteps H F i (ApplyStep ident start # steps) bs =
     RunSteps H F (Suc i) steps (Apply F [(ident, start)] bs)"
| "RunSteps H F i (PlanStep p expectedCurrent expectedNext # steps) bs =
     (case Plan H F p bs of
        Some (Answer current nextw, bs') \<Rightarrow>
          if expectedCurrent \<noteq> None \<and> expectedCurrent \<noteq> Some current then Some (Some (CurrentIs i current), bs')
          else if expectedNext \<noteq> None \<and> expectedNext \<noteq> Some nextw then Some (Some (NextIs i nextw), bs')
          else RunSteps H F (Suc i) steps bs'
      | _ \<Rightarrow> None)"

section \<open>Interleavings\<close>

text \<open>Any number of calls in flight; the trace records what callers see.\<close>

datatype event = Planned plan_call bool bool | Applied string int

record 'c system =
  the_set :: "'c Set"
  calls :: "nat \<rightharpoonup> plan_call \<times> plan_pc"

inductive interleaves :: "(string \<Rightarrow> 64 word) \<Rightarrow> 'c fastcache \<Rightarrow> 'c system \<Rightarrow> event list \<Rightarrow> 'c system \<Rightarrow> bool"
  for H F s0 where
  interleaves_start: "interleaves H F s0 [] s0"
| interleaves_call: "interleaves H F s0 tr s \<Longrightarrow> calls s t = None \<Longrightarrow>
    interleaves H F s0 tr (s\<lparr>calls := (calls s)(t \<mapsto> (p, PlanStart))\<rparr>)"
| interleaves_step: "interleaves H F s0 tr s \<Longrightarrow> calls s t = Some (p, pc) \<Longrightarrow>
    plan_step H F p pc (the_set s) = Some (pc', bs') \<Longrightarrow>
    interleaves H F s0 tr (s\<lparr>the_set := bs', calls := (calls s)(t \<mapsto> (p, pc'))\<rparr>)"
| interleaves_return: "interleaves H F s0 tr s \<Longrightarrow> calls s t = Some (p, Answer c n) \<Longrightarrow>
    interleaves H F s0 (tr @ [Planned p c n]) (s\<lparr>calls := (calls s)(t := None)\<rparr>)"
| interleaves_apply: "interleaves H F s0 tr s \<Longrightarrow>
    interleaves H F s0 (tr @ [Applied ident start]) (s\<lparr>the_set := apply_row F (ident, start) (the_set s)\<rparr>)"

section \<open>The number of caches\<close>

definition set_inv :: "'c Set \<Rightarrow> bool" where
  "set_inv bs \<longleftrightarrow> spareBuckets bs = [] \<and> 2 \<le> MaxBuckets (config bs)
     \<and> int (fcard (fmdom (buckets bs))) \<le> MaxBuckets (config bs)"

text \<open>What no operation changes.\<close>

definition same_setup :: "'c Set \<Rightarrow> 'c Set \<Rightarrow> bool" where
  "same_setup a b \<longleftrightarrow> config a = config b \<and> width a = width b \<and> preWriteWindow a = preWriteWindow b"

lemma oldest_bucket_in: "oldest_bucket bs start \<noteq> start \<Longrightarrow> oldest_bucket bs start |\<in>| fmdom (buckets bs)"
  using Min_in [of "insert start (fset (fmdom (buckets bs)))"] by (auto simp: oldest_bucket_def)

lemma same_setup_refl [simp]: "same_setup bs bs"
  by (simp add: same_setup_def)

lemma same_setup_trans: "same_setup a b \<Longrightarrow> same_setup b c \<Longrightarrow> same_setup a c"
  by (simp add: same_setup_def)

text \<open>The three ways \<open>createBucket\<close> can go.\<close>

lemma createBucket_cases:
  assumes "set_inv bs"
  obtains (same) "createBucket F start bs = bs"
      "start |\<in>| fmdom (buckets bs) \<or> (\<forall>k. k |\<in>| fmdom (buckets bs) \<longrightarrow> start \<le> k)"
  | (fresh) "start |\<notin>| fmdom (buckets bs)" "int (fcard (fmdom (buckets bs))) < MaxBuckets (config bs)"
      "createBucket F start bs =
        bs\<lparr>buckets := fmupd start (fc_New F (MaxBucketSize (config bs))) (buckets bs)\<rparr>"
  | (evicted) old b where "fmlookup (buckets bs) old = Some b" "start |\<notin>| fmdom (buckets bs)" "old < start"
      "createBucket F start bs =
        bs\<lparr>buckets := fmupd start (fc_Reset F b) (fmdrop old (buckets bs)), evictions := evictions bs + 1,
           spareBuckets := []\<rparr>"
proof (cases "start |\<in>| fmdom (buckets bs)")
  case start: False
  let ?old = "oldest_bucket bs start"
  have old_le: "?old \<le> k" if "k = start \<or> k |\<in>| fmdom (buckets bs)" for k
    using that unfolding oldest_bucket_def by (intro Min_le) auto
  show thesis
  proof (cases "int (fcard (fmdom (buckets bs))) \<ge> MaxBuckets (config bs)")
    case full: True
    show thesis
    proof (cases "?old = start")
      case True
      with full start old_le show thesis by (intro same) (auto simp: createBucket_def)
    next
      case False
      then obtain b where b: "fmlookup (buckets bs) ?old = Some b"
        using oldest_bucket_in by (fastforce simp: fmlookup_dom_iff)
      have "createBucket F start bs =
          bs\<lparr>buckets := fmupd start (fc_Reset F b) (fmdrop ?old (buckets bs)), evictions := evictions bs + 1,
             spareBuckets := []\<rparr>"
        using assms full start False b
        by (simp add: createBucket_def Let_def evict_bucket_def place_bucket_def set_inv_def)
      then show thesis using evicted [OF b start] old_le [of start] False by force
    qed
  next
    case False
    with assms start show thesis
      by (intro fresh) (auto simp: createBucket_def place_bucket_def set_inv_def)
  qed
qed (rule same, simp_all add: createBucket_def)

lemma createBucket_inv:
  assumes "set_inv bs"
  shows "set_inv (createBucket F start bs) \<and> same_setup (createBucket F start bs) bs"
  using assms
proof (cases rule: createBucket_cases [where F = F and start = start])
  case fresh
  with assms show ?thesis by (simp add: set_inv_def same_setup_def fcard_finsert_disjoint)
next
  case (evicted old b)
  then have "old |\<in>| fmdom (buckets bs)" by (simp add: fmdomI)
  then have "fcard (fmdom (buckets bs) |-| {|old|}) = fcard (fmdom (buckets bs)) - 1" "0 < fcard (fmdom (buckets bs))"
    by (auto simp: fcard.rep_eq card_gt_0_iff)
  with evicted assms show ?thesis by (simp add: set_inv_def same_setup_def fcard_finsert_disjoint)
qed (use assms in simp)

text \<open>A cache of the new set was there before, or holds nothing.\<close>

lemma createBucket_lookup:
  assumes "set_inv bs" "\<And>c i. \<not> fc_Has F (fc_Reset F c) i" "\<And>n i. \<not> fc_Has F (fc_New F n) i"
    "fmlookup (buckets (createBucket F start bs)) k = Some c" "fc_Has F c i"
  shows "fmlookup (buckets bs) k = Some c"
  using assms(1)
  by (cases rule: createBucket_cases [where F = F and start = start]) (use assms(2-) in \<open>auto split: if_splits\<close>)

text \<open>The other parts of a step change counters only.\<close>

definition same_content :: "'c Set \<Rightarrow> 'c Set \<Rightarrow> bool" where
  "same_content a b \<longleftrightarrow> same_setup a b \<and> buckets a = buckets b \<and> spareBuckets a = spareBuckets b"

lemma same_contentD:
  "same_content a b \<Longrightarrow> set_inv a = set_inv b \<and> same_setup a b \<and> buckets a = buckets b"
  by (simp add: same_content_def same_setup_def set_inv_def)

lemma after_next_frame: "after_next F p b bs = (pc', bs') \<Longrightarrow> same_content bs' bs"
  by (auto simp: after_next_def same_content_def same_setup_def split: option.splits if_splits)

lemma after_current_frame: "after_current H F p b bs = Some (pc', bs') \<Longrightarrow> same_content bs' bs"
  using after_next_frame [of F p _ bs pc' bs']
  by (auto simp: after_current_def same_content_def same_setup_def split: option.splits if_splits found.splits)

lemma plan_step_inv:
  assumes "plan_step H F p pc bs = Some (pc', bs')" "set_inv bs"
  shows "set_inv bs' \<and> same_setup bs' bs"
  using assms createBucket_inv [OF assms(2)] same_contentD [OF after_current_frame, of H F p _ bs pc' bs']
    same_contentD [OF after_next_frame, of F p _ bs pc' bs']
  by (cases pc) (auto split: option.splits found.splits)

lemma apply_row_inv: "set_inv bs \<Longrightarrow> set_inv (apply_row F row bs) \<and> same_setup (apply_row F row bs) bs"
  by (auto simp: apply_row_def set_inv_def same_setup_def fmdomI finsert_absorb split: option.splits)

lemma NewSet_inv: "NewSet w c = Inr bs \<Longrightarrow> set_inv bs \<and> buckets bs = fmempty \<and> config bs = WithDefaults c"
  by (auto simp: NewSet_def set_inv_def Config_Validate_def Let_def fcard.rep_eq split: option.splits if_splits)

lemma interleaves_inv:
  assumes "interleaves H F s0 tr s" "set_inv (the_set s0)"
  shows "set_inv (the_set s) \<and> same_setup (the_set s) (the_set s0)"
  using assms
proof (induction rule: interleaves.induct)
  case (interleaves_step tr s t p pc pc' bs')
  with plan_step_inv same_setup_trans show ?case by fastforce
next
  case (interleaves_apply tr s ident start)
  with apply_row_inv same_setup_trans show ?case by fastforce
qed auto

text \<open>Whatever calls run and however they interleave, the set never holds more than \<open>MaxBuckets\<close>
  caches, live or spare.\<close>

theorem set_bounded:
  assumes "NewSet w c = Inr bs" "interleaves Sum64 F \<lparr>the_set = bs, calls = Map.empty\<rparr> tr s"
  shows "int (fcard (fmdom (buckets (the_set s))) + length (spareBuckets (the_set s))) \<le> MaxBuckets (WithDefaults c)"
proof -
  have "set_inv (the_set s)" "config (the_set s) = WithDefaults c"
    using interleaves_inv [OF assms(2)] NewSet_inv [OF assms(1)] by (auto simp: same_setup_def)
  then show ?thesis by (simp add: set_inv_def)
qed

section \<open>No identity is skipped before it was written\<close>

text \<open>What the code relies on: an empty cache has nothing, and setting one identity makes no other
  appear. A cache may forget.\<close>

definition fastcache_laws :: "'c fastcache \<Rightarrow> bool" where
  "fastcache_laws F \<longleftrightarrow> (\<forall>n i. \<not> fc_Has F (fc_New F n) i) \<and> (\<forall>c i. \<not> fc_Has F (fc_Reset F c) i)
     \<and> (\<forall>c i j. fc_Has F (fc_Set F c i) j \<longrightarrow> j = i \<or> fc_Has F c j)"

definition registered :: "'c fastcache \<Rightarrow> event list \<Rightarrow> 'c Set \<Rightarrow> bool" where
  "registered F tr bs \<longleftrightarrow>
     (\<forall>start b i. fmlookup (buckets bs) start = Some b \<longrightarrow> fc_Has F b i \<longrightarrow> Applied i start \<in> set tr)"

text \<open>A call that is past the test of its own bucket without writing.\<close>

fun skipping :: "plan_pc \<Rightarrow> bool" where
  "skipping CreateNext = True"
| "skipping LookNext = True"
| "skipping (Answer c n) = (\<not> c \<or> n)"
| "skipping _ = False"

lemma registered_mono: "registered F tr bs \<Longrightarrow> registered F (tr @ es) bs"
  by (auto simp: registered_def)

lemma registered_createBucket:
  assumes "registered F tr bs" "fastcache_laws F" "set_inv bs"
  shows "registered F tr (createBucket F start bs)"
proof -
  have "\<And>c i. \<not> fc_Has F (fc_Reset F c) i" "\<And>n i. \<not> fc_Has F (fc_New F n) i"
    using assms(2) by (auto simp: fastcache_laws_def)
  from createBucket_lookup [OF assms(3) this] assms(1) show ?thesis unfolding registered_def by blast
qed

lemma registered_apply_row:
  assumes "registered F tr bs" "fastcache_laws F"
  shows "registered F (tr @ [Applied ident start]) (apply_row F (ident, start) bs)"
  using assms by (fastforce simp: registered_def apply_row_def fastcache_laws_def split: option.splits if_splits)

lemma skipping_after_next: "after_next F p b bs = (pc', bs') \<Longrightarrow> skipping pc'"
  by (auto simp: after_next_def split: option.splits if_splits)

lemma skipping_after_current:
  assumes "after_current H F p b bs = Some (pc', bs')" "skipping pc'"
  shows "\<exists>c. b = Some c \<and> fc_Has F c (c_id p)"
  using assms by (auto simp: after_current_def split: option.splits if_splits)

lemma skipping_plan_step:
  assumes "plan_step H F p pc bs = Some (pc', bs')" "skipping pc'"
  shows "skipping pc \<or> (\<exists>c. fmlookup (buckets bs) (c_start p) = Some c \<and> fc_Has F c (c_id p))"
  using assms skipping_after_current [of H F p _ bs pc' bs']
  by (cases pc) (fastforce simp: getBucket_def split: option.splits found.splits if_splits)+

lemma registered_plan_step:
  assumes "plan_step H F p pc bs = Some (pc', bs')" "registered F tr bs" "fastcache_laws F" "set_inv bs"
  shows "registered F tr bs'"
  using assms registered_createBucket [OF assms(2-4)] same_contentD [OF after_current_frame, of H F p _ bs pc' bs']
    same_contentD [OF after_next_frame, of F p _ bs pc' bs']
  by (cases pc) (auto simp: registered_def split: option.splits found.splits)

definition skips_justified :: "event list \<Rightarrow> bool" where
  "skips_justified tr \<longleftrightarrow>
     (\<forall>before p c n after. tr = before @ Planned p c n # after \<longrightarrow> \<not> c \<or> n \<longrightarrow>
        Applied (c_id p) (c_start p) \<in> set before)"

lemma skips_justified_snoc:
  assumes "skips_justified tr"
    "\<And>p c n. e = Planned p c n \<Longrightarrow> \<not> c \<or> n \<Longrightarrow> Applied (c_id p) (c_start p) \<in> set tr"
  shows "skips_justified (tr @ [e])"
  unfolding skips_justified_def
proof (intro allI impI)
  fix before p c n after
  assume split: "tr @ [e] = before @ Planned p c n # after" and skip: "\<not> c \<or> n"
  show "Applied (c_id p) (c_start p) \<in> set before"
  proof (cases after rule: rev_cases)
    case Nil
    with split assms(2) skip show ?thesis by simp
  next
    case (snoc ys y)
    with split have "tr = before @ Planned p c n # ys" by simp
    with assms(1) skip show ?thesis by (simp add: skips_justified_def)
  qed
qed

lemma interleaves_justified:
  assumes "interleaves H F s0 tr s" "fastcache_laws F" "set_inv (the_set s0)" "buckets (the_set s0) = fmempty"
    "calls s0 = Map.empty"
  shows "registered F tr (the_set s) \<and> skips_justified tr
    \<and> (\<forall>t p pc. calls s t = Some (p, pc) \<longrightarrow> skipping pc \<longrightarrow> Applied (c_id p) (c_start p) \<in> set tr)"
  using assms
proof (induction rule: interleaves.induct)
  case interleaves_start
  then show ?case by (simp add: registered_def skips_justified_def)
next
  case (interleaves_step tr s t p pc pc' bs')
  note inv = conjunct1 [OF interleaves_inv [OF interleaves_step.hyps(1) interleaves_step.prems(2)]]
  have "Applied (c_id p) (c_start p) \<in> set tr" if "skipping pc'"
    using skipping_plan_step [OF interleaves_step.hyps(3) that] interleaves_step.IH interleaves_step.prems interleaves_step.hyps(2)
    unfolding registered_def by blast
  with interleaves_step registered_plan_step [OF interleaves_step.hyps(3) _ interleaves_step.prems(1) inv] show ?case by auto
next
  case (interleaves_return tr s t p c n)
  then have "skips_justified (tr @ [Planned p c n])" by (intro skips_justified_snoc) auto
  with interleaves_return show ?case by (auto intro: registered_mono)
next
  case (interleaves_apply tr s ident start)
  then show ?case by (auto intro: registered_apply_row skips_justified_snoc)
qed auto

text \<open>C28. In every interleaving of calls, \<open>Plan\<close> tells its caller not to write an identity for a
  bucket, or to write it for the next one already, only after \<open>Apply\<close> recorded that identity for that
  bucket: no write is skipped that was not made.\<close>

theorem Plan_skips_only_applied:
  assumes "fastcache_laws F" "NewSet w c = Inr bs"
    "interleaves Sum64 F \<lparr>the_set = bs, calls = Map.empty\<rparr> (before @ Planned p current nextw # after) s"
    "\<not> current \<or> nextw"
  shows "Applied (c_id p) (c_start p) \<in> set before"
proof -
  have "skips_justified (before @ Planned p current nextw # after)"
    using interleaves_justified [OF assms(3,1)] NewSet_inv [OF assms(2)] by simp
  with assms(4) show ?thesis unfolding skips_justified_def by blast
qed

section \<open>Writing early\<close>

lemma isInPreWriteWindow_iff:
  assumes "0 \<le> start" "start \<le> ms" "ms < start + width bs" "start < 2 ^ 62" "width bs < 2 ^ 62"
    "0 < preWriteWindow bs" "preWriteWindow bs \<le> width bs"
  shows "isInPreWriteWindow Sum64 bs ident start ms \<longleftrightarrow>
    start + width bs - preWriteWindow bs + uint (Sum64 ident) mod preWriteWindow bs \<le> ms"
proof -
  let ?w = "width bs" and ?p = "preWriteWindow bs"
  define h where "h = uint (Sum64 ident) mod ?p"
  have h: "0 \<le> h" "h < ?p" using assms(6) by (simp_all add: h_def)
  have "uint (word_of_int ?p :: 64 word) = ?p"
    using assms unfolding uint_word_of_int_eq by (intro take_bit_int_eq_self) auto
  moreover have "wrap64 h = h" "wrap64 (ms - start) = ms - start" "wrap64 (?w - ?p) = ?w - ?p"
    "wrap64 (?w - ?p + h) = ?w - ?p + h" using assms h by (auto intro!: wrap64_id)
  ultimately show ?thesis using assms h by (auto simp: isInPreWriteWindow_def Let_def h_def)
qed

text \<open>The bucket of the present time can always be found or created, and so can the next one.\<close>

lemma createBucket_next:
  assumes "set_inv bs" "start |\<in>| fmdom (buckets bs)" "start < n" "n |\<notin>| fmdom (buckets bs)"
    "fastcache_laws F"
  shows "\<exists>b. fmlookup (buckets (createBucket F n bs)) n = Some b \<and> (\<forall>i. \<not> fc_Has F b i)"
  using assms(1)
proof (cases rule: createBucket_cases [where F = F and start = n])
  case same
  with assms show ?thesis by force
qed (use assms in \<open>auto simp: fastcache_laws_def\<close>)

text \<open>Once an identity was applied to the bucket of the present time, \<open>Plan\<close> returns and says not to
  write it again. It says to write it to the next bucket exactly when the present time is inside the
  pre-write window, past the offset the hash gives the identity, and the next bucket does not have it.\<close>

theorem Plan_after_Apply:
  assumes "fastcache_laws F" "set_inv bs" "fmlookup (buckets bs) start = Some b"
    "fc_Has F (fc_Set F b ident) ident"
    "0 \<le> start" "start < 2 ^ 62" "0 < width bs" "width bs < 2 ^ 61" "start \<le> ms" "ms < start + width bs"
    "BucketStart bs ms = Some start" "0 \<le> preWriteWindow bs" "preWriteWindow bs \<le> width bs"
  shows "\<exists>bs'. Plan Sum64 F \<lparr>c_id = ident, c_start = start, c_now = ms\<rparr> (Apply F [(ident, start)] bs) =
    Some (Answer False
      (preWriteWindow bs \<noteq> 0
       \<and> start + width bs - preWriteWindow bs + uint (Sum64 ident) mod preWriteWindow bs \<le> ms
       \<and> \<not> (\<exists>b'. fmlookup (buckets bs) (start + width bs) = Some b' \<and> fc_Has F b' ident)), bs')"
proof -
  let ?p = "\<lparr>c_id = ident, c_start = start, c_now = ms\<rparr>" and ?n = "start + width bs"
  define bs1 where "bs1 = Apply F [(ident, start)] bs"
  have bs1: "set_inv bs1" "width bs1 = width bs" "preWriteWindow bs1 = preWriteWindow bs"
    "fmlookup (buckets bs1) start = Some (fc_Set F b ident)" "fmlookup (buckets bs1) ?n = fmlookup (buckets bs) ?n"
    "BucketStart bs1 ms = Some start"
    using apply_row_inv [OF assms(2), of F "(ident, start)"] assms(3,7,11)
    by (auto simp: bs1_def Apply_def apply_row_def same_setup_def BucketStart_def)
  have n: "wrap64 ?n = ?n" using assms by (intro wrap64_id) auto
  have first: "Plan Sum64 F ?p bs1 =
      Option.bind (after_current Sum64 F ?p (Some (fc_Set F b ident)) bs1) (plan_steps 4 Sum64 F ?p)"
    using bs1 n assms(7) by (simp add: Plan_def getBucket_def eval_nat_numeral)
  show ?thesis
  proof (cases "preWriteWindow bs \<noteq> 0 \<and> ?n - preWriteWindow bs + uint (Sum64 ident) mod preWriteWindow bs \<le> ms")
    case False
    then have "preWriteWindow bs1 = 0 \<or> \<not> isInPreWriteWindow Sum64 bs1 ident start ms"
      using isInPreWriteWindow_iff [of start ms bs1 Sum64 ident] assms bs1 by auto
    with first False assms(4) show ?thesis
      unfolding bs1_def [symmetric] by (auto simp: after_current_def eval_nat_numeral)
  next
    case True
    then have win: "preWriteWindow bs1 \<noteq> 0" "isInPreWriteWindow Sum64 bs1 ident start ms"
      using isInPreWriteWindow_iff [of start ms bs1 Sum64 ident] assms bs1 by auto
    show ?thesis
    proof (cases "fmlookup (buckets bs) ?n")
      case (Some b')
      with first win True assms(4) bs1 n show ?thesis
        unfolding bs1_def [symmetric]
        by (auto simp: after_current_def getBucket_def after_next_def eval_nat_numeral)
    next
      case None
      obtain c where "fmlookup (buckets (createBucket F ?n bs1)) ?n = Some c" "\<not> fc_Has F c ident"
        using createBucket_next [OF bs1(1) _ _ _ assms(1), of start ?n] bs1 None assms(7)
        by (auto simp: fmlookup_dom_iff)
      moreover have "width (createBucket F ?n bs1) = width bs"
        using createBucket_inv [OF bs1(1), of F ?n] bs1(2) by (simp add: same_setup_def)
      ultimately show ?thesis
        using first win True None assms(4) bs1 n unfolding bs1_def [symmetric]
        by (auto simp: after_current_def getBucket_def after_next_def eval_nat_numeral)
    qed
  qed
qed

section \<open>Calls that run alone\<close>

lemma after_next_answers:
  obtains c n bs' where "after_next F p b bs = (Answer c n, bs')"
proof -
  have "\<exists>c n bs'. after_next F p b bs = (Answer c n, bs')" by (auto simp: after_next_def split: option.splits)
  with that show thesis by blast
qed

lemma plan_steps_Answer: "plan_steps k H F p (Answer c n, bs) = Some (Answer c n, bs)"
  by (induction k) auto

lemma getBucket_total: "width bs \<noteq> 0 \<Longrightarrow> \<exists>g. getBucket bs start ms = Some g"
  by (simp add: getBucket_def BucketStart_def)

lemma after_current_total:
  assumes "width bs \<noteq> 0"
  shows "\<exists>pc' bs'. after_current H F p b bs = Some (pc', bs') \<and> width bs' \<noteq> 0
    \<and> ((\<exists>c n. pc' = Answer c n) \<or> pc' = CreateNext)"
proof -
  obtain g where g: "getBucket bs (wrap64 (c_start p + width bs)) (c_now p) = Some g"
    using getBucket_total [OF assms] by blast
  then have "after_current H F p b bs \<noteq> None"
    by (cases g) (auto simp: after_current_def split: option.splits)
  then obtain pc' bs' where r: "after_current H F p b bs = Some (pc', bs')" by auto
  moreover from this have "(\<exists>c n. pc' = Answer c n) \<or> pc' = CreateNext"
    by (auto simp: after_current_def after_next_def split: option.splits found.splits if_splits)
  ultimately show ?thesis
    using assms same_contentD [OF after_current_frame [OF r]] by (auto simp: same_setup_def)
qed

lemma plan_from_CreateNext: "\<exists>c n bs'. plan_steps (Suc (Suc k)) H F p (CreateNext, bs) = Some (Answer c n, bs')"
proof -
  let ?bs = "createBucket F (wrap64 (c_start p + width bs)) bs"
  obtain c n bs' where "after_next F p (fmlookup (buckets ?bs) (wrap64 (c_start p + width ?bs))) ?bs = (Answer c n, bs')"
    by (rule after_next_answers)
  then show ?thesis by (simp add: plan_steps_Answer)
qed

lemma plan_after_current:
  assumes "width bs \<noteq> 0"
  shows "\<exists>c n bs'. Option.bind (after_current H F p b bs) (plan_steps (Suc (Suc k)) H F p) = Some (Answer c n, bs')"
  using after_current_total [OF assms, of H F p b] plan_from_CreateNext [of k H F p] plan_steps_Answer by fastforce

lemma width_createBucket [simp]: "width (createBucket F start bs) = width bs"
  by (simp add: createBucket_def place_bucket_def evict_bucket_def Let_def split: option.splits)

text \<open>A call of \<open>Plan\<close> returns an answer whenever the width of the buckets is not zero; the width is
  zero, and \<open>Plan\<close> panics, for the widths below a millisecond that \<open>Validate\<close> accepts.\<close>

theorem Plan_returns_iff:
  "(\<exists>c n bs'. Plan Sum64 F p bs = Some (Answer c n, bs')) \<longleftrightarrow> width bs \<noteq> 0"
proof (cases "width bs = 0")
  case False
  obtain g where g: "getBucket bs (c_start p) (c_now p) = Some g" using getBucket_total [OF False] by blast
  have "\<exists>c n bs'. Plan Sum64 F p bs = Some (Answer c n, bs')"
  proof (cases g)
    case (Found b)
    with g plan_after_current [OF False, of Sum64 F p b 2] show ?thesis
      by (simp add: Plan_def eval_nat_numeral)
  next
    case Missing
    with g plan_after_current [of "createBucket F (c_start p) bs" Sum64 F p _ 0] False show ?thesis
      by (simp add: Plan_def eval_nat_numeral)
  qed
  with False show ?thesis by simp
qed (simp add: Plan_def getBucket_def BucketStart_def eval_nat_numeral)

lemma narrow_width_panics:
  assumes "NewSet w c = Inr bs" "w < 1000000"
  shows "Plan Sum64 F p bs = None"
proof -
  have "0 < w" using assms(1) by (auto simp: NewSet_def Config_Validate_def Let_def split: option.splits if_splits)
  with assms have "width bs = 0" by (auto simp: NewSet_def quot_nonneg Let_def split: option.splits)
  then show ?thesis by (simp add: Plan_def getBucket_def BucketStart_def eval_nat_numeral)
qed

text \<open>A call that runs alone is one of the interleavings.\<close>

lemma plan_steps_interleaves:
  assumes "interleaves H F s0 tr s" "calls s t = Some (p, pc)" "plan_steps k H F p (pc, the_set s) = Some (pc', bs')"
  shows "interleaves H F s0 tr (s\<lparr>the_set := bs', calls := (calls s)(t \<mapsto> (p, pc'))\<rparr>)"
  using assms
proof (induction k arbitrary: s pc)
  case 0
  then have "s\<lparr>the_set := bs', calls := (calls s)(t \<mapsto> (p, pc'))\<rparr> = s" by (auto simp: map_upd_triv)
  with 0 show ?case by (simp only:)
next
  case (Suc k)
  then obtain pc1 bs1 where step: "plan_step H F p pc (the_set s) = Some (pc1, bs1)"
    "plan_steps k H F p (pc1, bs1) = Some (pc', bs')" by (auto simp: bind_eq_Some_conv)
  from Suc.IH [OF interleaves_step [OF Suc.prems(1,2) step(1)]] step(2) show ?case by (simp cong: if_cong)
qed

lemma Plan_interleaves:
  assumes "interleaves H F s0 tr \<lparr>the_set = bs, calls = Map.empty\<rparr>" "Plan H F p bs = Some (Answer c n, bs')"
  shows "interleaves H F s0 (tr @ [Planned p c n]) \<lparr>the_set = bs', calls = Map.empty\<rparr>"
proof -
  have "interleaves H F s0 tr \<lparr>the_set = bs, calls = [0 \<mapsto> (p, PlanStart)]\<rparr>"
    using interleaves_call [OF assms(1), of 0 p] by simp
  from plan_steps_interleaves [OF this, of 0 p PlanStart 5] assms(2)
  have "interleaves H F s0 tr \<lparr>the_set = bs', calls = [0 \<mapsto> (p, Answer c n)]\<rparr>" by (simp add: Plan_def)
  from interleaves_return [OF this, of 0 p c n] show ?thesis by simp
qed

lemma Apply_interleaves:
  assumes "interleaves H F s0 tr \<lparr>the_set = bs, calls = Map.empty\<rparr>"
  shows "interleaves H F s0 (tr @ map (\<lambda>(i, st). Applied i st) rows) \<lparr>the_set = Apply F rows bs, calls = Map.empty\<rparr>"
  using assms
proof (induction rows arbitrary: tr bs)
  case (Cons row rows)
  from Cons.IH [OF interleaves_apply [OF Cons.prems, of "fst row" "snd row", simplified]] show ?case
    by (simp add: Apply_def case_prod_beta)
qed (simp add: Apply_def)

section \<open>Concrete runs\<close>

text \<open>A cache that never forgets.\<close>

definition list_cache :: "string list fastcache" where
  "list_cache = \<lparr>fc_New = (\<lambda>_. []), fc_Has = (\<lambda>c i. i \<in> set c), fc_Set = (\<lambda>c i. i # c), fc_Reset = (\<lambda>_. [])\<rparr>"

text \<open>Buckets of an hour with a window of a minute.\<close>

definition hour_set :: "string list Set" where
  "hour_set = \<lparr>miss = 0, hit = 0, preWrite = 0, noBucket = 0, applied = 0, ignored = 0, evictions = 0,
     config = \<lparr>MaxBuckets = 3, MaxBucketSize = 256 * 2 ^ 20, PreWriteWindow = 60000000000\<rparr>,
     buckets = fmempty, spareBuckets = [], width = 3600000, preWriteWindow = 60000\<rparr>"

definition hour_call :: plan_call where
  "hour_call = \<lparr>c_id = ''a'', c_start = 7200000, c_now = 7200005\<rparr>"

lemma list_cache_laws: "fastcache_laws list_cache"
  by (simp add: fastcache_laws_def list_cache_def)

lemma hour_set_NewSet:
  "NewSet 3600000000000 (DefaultConfig\<lparr>PreWriteWindow := 60000000000\<rparr>) = Inr hour_set"
  by (simp add: NewSet_def hour_set_def DefaultConfig_def WithDefaults_def Config_Validate_def quot_def)

lemma hour_plan_1:
  "Plan (\<lambda>_. 0) list_cache hour_call hour_set =
     Some (Answer True False, hour_set\<lparr>miss := 1, buckets := fmap_of_list [(7200000, [])]\<rparr>)"
  by code_simp

lemma hour_plan_2:
  "Plan (\<lambda>_. 0) list_cache hour_call
     (Apply list_cache [(''a'', 7200000)] (hour_set\<lparr>miss := 1, buckets := fmap_of_list [(7200000, [])]\<rparr>)) =
   Some (Answer False False,
     hour_set\<lparr>miss := 1, applied := 1, hit := 1, buckets := fmap_of_list [(7200000, [''a''])]\<rparr>)"
  by code_simp

lemma hour_run:
  "interleaves (\<lambda>_. 0) list_cache \<lparr>the_set = hour_set, calls = Map.empty\<rparr>
     ([Planned hour_call True False, Applied ''a'' 7200000] @ Planned hour_call False False # [])
     \<lparr>the_set = hour_set\<lparr>miss := 1, applied := 1, hit := 1, buckets := fmap_of_list [(7200000, [''a''])]\<rparr>,
      calls = Map.empty\<rparr>"
  using Plan_interleaves [OF Apply_interleaves [OF Plan_interleaves [OF interleaves_start hour_plan_1], of "[(''a'', 7200000)]"] hour_plan_2]
  by simp

theorem set_bounded_witness:
  "\<exists>tr s. interleaves (\<lambda>_. 0) list_cache \<lparr>the_set = hour_set, calls = Map.empty\<rparr> tr s \<and> buckets (the_set s) \<noteq> fmempty
     \<and> int (fcard (fmdom (buckets (the_set s))) + length (spareBuckets (the_set s))) \<le> 3"
  using set_bounded [OF hour_set_NewSet hour_run] hour_run
  by (fastforce simp: DefaultConfig_def WithDefaults_def)

theorem Plan_skips_only_applied_witness:
  "Applied ''a'' 7200000 \<in> set [Planned hour_call True False, Applied ''a'' 7200000]"
  using Plan_skips_only_applied [OF list_cache_laws hour_set_NewSet hour_run] by (simp add: hour_call_def)

theorem Plan_after_Apply_witness:
  "\<exists>bs'. Plan (\<lambda>_. 7) list_cache \<lparr>c_id = ''a'', c_start = 7200000, c_now = 10740007\<rparr>
     (Apply list_cache [(''a'', 7200000)] (hour_set\<lparr>buckets := fmap_of_list [(7200000, [])]\<rparr>)) =
     Some (Answer False True, bs')"
proof -
  have "set_inv (hour_set\<lparr>buckets := fmap_of_list [(7200000, [])]\<rparr>)" by code_simp
  from Plan_after_Apply [OF list_cache_laws this, of 7200000 "[]" "''a''" 10740007 "\<lambda>_. 7"] show ?thesis
    by (simp add: hour_set_def list_cache_def BucketStart_def quot_def wrap64_def)
qed

end
