(* ===== verification/Fingerprints.thy ===== *)
theory Fingerprints
  imports Go_Prelude "HOL-Library.List_Lexorder" "HOL-Library.Char_ord" "HOL-Library.Finite_Map" "HOL-Library.Multiset"
begin

text \<open>
  Fingerprints of metric series (\<open>internal/common/fingerprint\<close>): attributes sorted by key and
  hashed with FNV-1a, chained from resource to scope to point, and the JSON rendering of labels.
  A \<open>pcommon.Map\<close> is the list of its attributes in order, each value as its type and what
  \<open>AsString\<close> gives for it; a Go map of extra labels is a list in the order of its iteration.

  Theorems: a fingerprint does not depend on the order of attributes or of the map's iteration;
  reducing a fingerprint gives the fingerprint of the series without the dropped keys; the rendered
  labels read back as the merged map.
\<close>

unbundle bit_operations_syntax

section \<open>Hash\<close>

definition InitialOffset :: "64 word" where
  "InitialOffset = 14695981039346656037"

definition prime64 :: "64 word" where
  "prime64 = 1099511628211"

definition hashAddByte :: "64 word \<Rightarrow> 8 word \<Rightarrow> 64 word" where
  "hashAddByte h b = (h XOR ucast b) * prime64"

definition hashAdd :: "64 word \<Rightarrow> string \<Rightarrow> 64 word" where
  "hashAdd h s = foldl (\<lambda>h c. (h XOR of_char c) * prime64) h s"

section \<open>Attributes\<close>

datatype ValueType =
  ValueTypeEmpty | ValueTypeStr | ValueTypeInt | ValueTypeDouble | ValueTypeBool
| ValueTypeMap | ValueTypeSlice | ValueTypeBytes

record Value =
  DataType :: ValueType
  Val :: string

record Attribute =
  Key :: string
  AttrValue :: Value

type_synonym Attributes = "Attribute list"

text \<open>The loop after the sort keeps the last of adjacent attributes with the same key.\<close>

fun keep_last :: "Attributes \<Rightarrow> Attributes" where
  "keep_last [] = []"
| "keep_last [a] = [a]"
| "keep_last (a # b # as) = (if Key a = Key b then keep_last (b # as) else a # keep_last (b # as))"

definition sortAndDedup :: "Attributes \<Rightarrow> Attributes" where
  "sortAndDedup s = (if length s < 2 then s else keep_last (sort_key Key s))"

section \<open>Fingerprints\<close>

datatype FingerprintType = ResourceFingerprintType | ScopeFingerprintType | PointFingerprintType

fun FingerprintType_String :: "FingerprintType \<Rightarrow> string" where
  "FingerprintType_String ResourceFingerprintType = ''resource''"
| "FingerprintType_String ScopeFingerprintType = ''scope''"
| "FingerprintType_String PointFingerprintType = ''point''"

record Fingerprint =
  fp_attributes :: Attributes
  fp_hash :: "64 word"
  fp_typ :: FingerprintType

definition hash_step :: "64 word \<Rightarrow> Attribute \<Rightarrow> 64 word" where
  "hash_step hash a =
     hashAddByte (hashAdd (hashAddByte (hashAdd hash (Key a)) 255) (Val (AttrValue a))) 255"

definition hashAttributes :: "64 word \<Rightarrow> Attributes \<Rightarrow> 64 word" where
  "hashAttributes offset attributes = foldl hash_step offset attributes"

definition extra :: "string \<times> string \<Rightarrow> Attribute" where
  "extra kv = \<lparr>Key = fst kv, AttrValue = \<lparr>DataType = ValueTypeStr, Val = snd kv\<rparr>\<rparr>"

definition NewFingerprint ::
  "FingerprintType \<Rightarrow> 64 word \<Rightarrow> Attributes \<Rightarrow> (string \<times> string) list \<Rightarrow> Fingerprint" where
  "NewFingerprint typ offset attrs extras =
     (let attributes = sortAndDedup (attrs @ map extra extras)
      in \<lparr>fp_attributes = attributes, fp_hash = hashAttributes offset attributes, fp_typ = typ\<rparr>)"

definition Reduced :: "64 word \<Rightarrow> (string \<Rightarrow> bool) \<Rightarrow> Fingerprint \<Rightarrow> Fingerprint" where
  "Reduced offset dropped f =
     (let attributes =
        (if list_ex (\<lambda>a. dropped (Key a)) (fp_attributes f)
         then filter (\<lambda>a. \<not> dropped (Key a)) (fp_attributes f)
         else fp_attributes f)
      in \<lparr>fp_attributes = attributes, fp_hash = hashAttributes offset attributes, fp_typ = fp_typ f\<rparr>)"

definition AttributesAsMap :: "Fingerprint \<Rightarrow> (string, string) fmap" where
  "AttributesAsMap f = fold (\<lambda>a m. fmupd (Key a) (Val (AttrValue a)) m) (fp_attributes f) fmempty"

definition HashWithName :: "Fingerprint \<Rightarrow> string \<Rightarrow> 64 word" where
  "HashWithName f name = hashAdd (hashAddByte (hashAdd (fp_hash f) ''__name__'') 255) name"

section \<open>Labels\<close>

definition nameLabel :: string where
  "nameLabel = ''__name__''"

fun value_in :: "string \<Rightarrow> (string, string) fmap list \<Rightarrow> string" where
  "value_in k [] = []"
| "value_in k (m # ms) = (case fmlookup m k of Some v \<Rightarrow> v | None \<Rightarrow> value_in k ms)"

text \<open>From the last map to the first.\<close>

definition valueForKey :: "string \<Rightarrow> string \<Rightarrow> (string, string) fmap list \<Rightarrow> string" where
  "valueForKey name k ms = (if k = nameLabel then name else value_in k (rev ms))"

definition escape_byte :: "char \<Rightarrow> string" where
  "escape_byte c =
     (if c = CHR 0x5C \<or> c = CHR 0x22 then [CHR 0x5C, c]
      else if c = CHR 0x0A then [CHR 0x5C, CHR ''n'']
      else if c = CHR 0x0D then [CHR 0x5C, CHR ''r'']
      else if c = CHR 0x09 then [CHR 0x5C, CHR ''t'']
      else [c])"

definition appendEscapedJSONValue :: "string \<Rightarrow> string \<Rightarrow> string" where
  "appendEscapedJSONValue b value = b @ concat (map escape_byte value)"

text \<open>The loop over the sorted keys; \<open>prev\<close> is \<open>None\<close> before the first one.\<close>

fun label_loop :: "string \<Rightarrow> (string, string) fmap list \<Rightarrow> string option \<Rightarrow> string list \<Rightarrow> string \<Rightarrow> string" where
  "label_loop name ms prev [] b = b"
| "label_loop name ms prev (k # keys) b =
     (if prev = Some k then label_loop name ms prev keys b
      else
        (let b = (if length b > 1 then b @ '','' else b);
             b = b @ [CHR 0x22] @ k @ [CHR 0x22, CHR '':'', CHR 0x22];
             b = appendEscapedJSONValue b (valueForKey name k ms) @ [CHR 0x22]
         in label_loop name ms (Some k) keys b))"

definition NewLabelsAsJSONString :: "string \<Rightarrow> (string, string) fmap list \<Rightarrow> string" where
  "NewLabelsAsJSONString name ms =
     (let keys = sort (nameLabel # concat (map (\<lambda>m. sorted_list_of_fset (fmdom m)) ms))
      in label_loop name ms None keys ''{'' @ ''}'')"

section \<open>Sorting and deduplication\<close>

text \<open>The reference: the last attribute with a key.\<close>

definition last_of :: "string \<Rightarrow> Attributes \<Rightarrow> Attribute option" where
  "last_of k as = (let bs = filter (\<lambda>a. Key a = k) as in if bs = [] then None else Some (last bs))"

lemma last_of_Nil [simp]: "last_of k [] = None"
  by (simp add: last_of_def)

lemma last_of_Cons: "last_of k (a # as) = (case last_of k as of None \<Rightarrow> if Key a = k then Some a else None | Some b \<Rightarrow> Some b)"
  by (simp add: last_of_def Let_def)

lemma last_of_Key: "last_of k as = Some a \<Longrightarrow> Key a = k \<and> a \<in> set as"
  by (induction as) (auto simp: last_of_Cons split: option.splits if_splits)

lemma last_of_None: "last_of k as = None \<longleftrightarrow> k \<notin> Key ` set as"
  by (induction as) (auto simp: last_of_Cons split: option.splits)

lemma last_of_sort: "last_of k (sort_key Key as) = last_of k as"
  by (simp add: last_of_def sort_key_stable)

lemma last_of_keep_last: "last_of k (keep_last as) = last_of k as"
proof (induction as rule: keep_last.induct)
  case (3 a b as)
  then show ?case by (auto simp: last_of_Cons split: option.splits)
qed auto

lemma keep_last_keys: "Key ` set (keep_last as) = Key ` set as"
  by (induction as rule: keep_last.induct) auto

lemma keep_last_sorted: "sorted (map Key as) \<Longrightarrow> sorted_wrt (<) (map Key (keep_last as))"
proof (induction as rule: keep_last.induct)
  case (3 a b as)
  have "Key a < k" if "Key a \<noteq> Key b" "k \<in> Key ` set (keep_last (b # as))" for k
    using that 3(3) unfolding keep_last_keys by (auto simp: order.strict_iff_order)
  with 3 show ?case by auto
qed auto

lemma sortAndDedup_last_of: "last_of k (sortAndDedup as) = last_of k as"
  by (simp add: sortAndDedup_def last_of_keep_last last_of_sort)

lemma sortAndDedup_sorted: "sorted_wrt (<) (map Key (sortAndDedup as))"
proof (cases "length as < 2")
  case True
  then show ?thesis by (cases as; cases "tl as") (auto simp: sortAndDedup_def)
next
  case False
  then show ?thesis by (simp add: sortAndDedup_def keep_last_sorted)
qed

text \<open>A strictly sorted list is determined by its lookups.\<close>

lemma last_of_sorted_Cons:
  assumes "sorted_wrt (<) (map Key (a # as))"
  shows "last_of k (a # as) = (if k = Key a then Some a else last_of k as)"
proof -
  have "last_of (Key a) as = None" using assms by (force simp: last_of_None)
  then show ?thesis by (auto simp: last_of_Cons split: option.splits)
qed

lemma sorted_last_of_eq:
  assumes "sorted_wrt (<) (map Key as)" "sorted_wrt (<) (map Key bs)" "\<And>k. last_of k as = last_of k bs"
  shows "as = bs"
  using assms
proof (induction as arbitrary: bs)
  case Nil
  have "last_of (Key (hd bs)) bs = None" using Nil.prems(3) [of "Key (hd bs)"] by simp
  then have "bs = []" by (cases bs) (auto simp: last_of_None)
  then show ?case by simp
next
  case (Cons a as)
  obtain b bs' where bs: "bs = b # bs'"
    using Cons.prems(3) [of "Key a"] by (cases bs) (auto simp: last_of_sorted_Cons [OF Cons.prems(1)])
  note look = Cons.prems(3) [unfolded bs last_of_sorted_Cons [OF Cons.prems(1)]
      last_of_sorted_Cons [OF Cons.prems(2) [unfolded bs]]]
  have less: "Key a < k" if "k \<in> Key ` set as" for k using Cons.prems(1) that by auto
  have less': "Key b < k" if "k \<in> Key ` set bs'" for k using Cons.prems(2) that bs by auto
  have "Key a \<in> Key ` set (b # bs')" "Key b \<in> Key ` set (a # as)"
    using Cons.prems(3) [of "Key a"] Cons.prems(3) [of "Key b"] bs
    by (metis last_of_None list.set_intros(1) image_eqI)+
  then have keys: "Key a = Key b" using less [of "Key b"] less' [of "Key a"] by force
  with look [of "Key a"] have ab: "a = b" by simp
  have "last_of k as = last_of k bs'" for k
  proof (cases "k = Key a")
    case True
    have "Key a \<notin> Key ` set as" "Key a \<notin> Key ` set bs'" using less [of "Key a"] less' [of "Key a"] keys by auto
    then show ?thesis using True by (metis last_of_None)
  next
    case False
    then show ?thesis using look [of k] keys by simp
  qed
  with Cons.IH [of bs'] Cons.prems bs ab show ?case by simp
qed

lemma sortAndDedup_eqI: "(\<And>k. last_of k as = last_of k bs) \<Longrightarrow> sortAndDedup as = sortAndDedup bs"
  by (intro sorted_last_of_eq) (auto simp: sortAndDedup_sorted sortAndDedup_last_of)

section \<open>The order of attributes does not matter\<close>

lemma last_of_append: "last_of k (as @ bs) = (case last_of k bs of None \<Rightarrow> last_of k as | Some b \<Rightarrow> Some b)"
  by (induction as) (auto simp: last_of_Cons split: option.splits)

lemma last_of_distinct: "distinct (map Key as) \<Longrightarrow> last_of k as = Some a \<longleftrightarrow> a \<in> set as \<and> Key a = k"
proof
  assume d: "distinct (map Key as)" and a: "a \<in> set as \<and> Key a = k"
  then obtain b where b: "last_of k as = Some b" using last_of_None [of k as] by fastforce
  with last_of_Key a d have "b = a" by (metis distinct_map inj_on_contraD)
  with b show "last_of k as = Some a" by simp
qed (auto dest: last_of_Key)

lemma last_of_perm:
  assumes "mset as = mset bs" "distinct (map Key as)"
  shows "last_of k as = last_of k bs"
proof -
  have "distinct (map Key bs)" "set as = set bs"
    using assms by (metis distinct_map mset_eq_imp_distinct_iff mset_eq_setD mset_map, metis mset_eq_setD)
  with assms(2) have "last_of k as = Some a \<longleftrightarrow> last_of k bs = Some a" for a by (simp add: last_of_distinct)
  then show ?thesis by (metis option.exhaust)
qed

lemma map_Key_extra [simp]: "map Key (map extra es) = map fst es"
  by (simp add: extra_def)

text \<open>C26. A fingerprint does not depend on the order in which the attributes of a map or the extra
  labels, a Go map iterated in random order, come: permuting either gives the same fingerprint.\<close>

theorem NewFingerprint_order_independent:
  assumes "mset attrs = mset attrs'" "distinct (map Key attrs)"
    "mset extras = mset extras'" "distinct (map fst extras)"
  shows "NewFingerprint typ offset attrs extras = NewFingerprint typ offset attrs' extras'"
proof -
  have "last_of k (map extra extras) = last_of k (map extra extras')" for k
  proof (rule last_of_perm)
    show "mset (map extra extras) = mset (map extra extras')" using assms(3) by simp
    show "distinct (map Key (map extra extras))" using assms(4) by (simp only: map_Key_extra)
  qed
  with last_of_perm [OF assms(1,2)] have "sortAndDedup (attrs @ map extra extras) = sortAndDedup (attrs' @ map extra extras')"
    by (intro sortAndDedup_eqI) (simp add: last_of_append split: option.splits)
  then show ?thesis by (simp add: NewFingerprint_def)
qed

section \<open>Reduction\<close>

lemma last_of_filter: "last_of k (filter (\<lambda>a. P (Key a)) as) = (if P k then last_of k as else None)"
  by (induction as) (auto simp: last_of_Cons split: option.splits)

lemma Reduced_filter:
  "Reduced offset dropped f =
     \<lparr>fp_attributes = filter (\<lambda>a. \<not> dropped (Key a)) (fp_attributes f),
      fp_hash = hashAttributes offset (filter (\<lambda>a. \<not> dropped (Key a)) (fp_attributes f)), fp_typ = fp_typ f\<rparr>"
proof -
  have "\<not> list_ex (\<lambda>a. dropped (Key a)) (fp_attributes f) \<Longrightarrow>
    filter (\<lambda>a. \<not> dropped (Key a)) (fp_attributes f) = fp_attributes f"
    by (auto simp: list_ex_iff intro!: filter_True)
  then show ?thesis by (simp add: Reduced_def Let_def)
qed

lemma filter_sortAndDedup:
  "filter (\<lambda>a. P (Key a)) (sortAndDedup as) = sortAndDedup (filter (\<lambda>a. P (Key a)) as)"
proof (intro sorted_last_of_eq)
  have "map Key (filter (\<lambda>a. P (Key a)) (sortAndDedup as)) = filter P (map Key (sortAndDedup as))"
    by (simp add: filter_map o_def)
  then show "sorted_wrt (<) (map Key (filter (\<lambda>a. P (Key a)) (sortAndDedup as)))"
    using sortAndDedup_sorted [of as] by (simp add: sorted_wrt_filter)
qed (auto simp: sortAndDedup_sorted sortAndDedup_last_of last_of_filter)

lemma Reduced_NewFingerprint:
  "Reduced offset dropped (NewFingerprint typ offset' attrs extras) =
   NewFingerprint typ offset (filter (\<lambda>a. \<not> dropped (Key a)) attrs) (filter (\<lambda>kv. \<not> dropped (fst kv)) extras)"
proof -
  have "filter (\<lambda>a. \<not> dropped (Key a)) (map extra extras) = map extra (filter (\<lambda>kv. \<not> dropped (fst kv)) extras)"
    by (simp add: filter_map o_def extra_def)
  then show ?thesis
    by (simp add: Reduced_filter NewFingerprint_def Let_def filter_sortAndDedup [of "\<lambda>k. \<not> dropped k"])
qed

section \<open>Labels read back\<close>

text \<open>A reader of JSON objects whose values are strings.\<close>

fun unescape :: "char \<Rightarrow> char" where
  "unescape c = (if c = CHR ''n'' then CHR 0x0A else if c = CHR ''r'' then CHR 0x0D
     else if c = CHR ''t'' then CHR 0x09 else c)"

fun read_string :: "string \<Rightarrow> (string \<times> string) option" where
  "read_string [] = None"
| "read_string (c # cs) =
     (if c = CHR 0x22 then Some ([], cs)
      else if c = CHR 0x5C then
        (case cs of
           [] \<Rightarrow> None
         | d # ds \<Rightarrow> map_option (\<lambda>(s, r). (unescape d # s, r)) (read_string ds))
      else map_option (\<lambda>(s, r). (c # s, r)) (read_string cs))"

definition read_char :: "char \<Rightarrow> string \<Rightarrow> string option" where
  "read_char c s = (case s of [] \<Rightarrow> None | d # r \<Rightarrow> if d = c then Some r else None)"

definition read_quoted :: "string \<Rightarrow> (string \<times> string) option" where
  "read_quoted s = Option.bind (read_char (CHR 0x22) s) read_string"

definition read_pair :: "string \<Rightarrow> ((string \<times> string) \<times> string) option" where
  "read_pair s =
     (case read_quoted s of
        None \<Rightarrow> None
      | Some (k, r) \<Rightarrow>
          (case Option.bind (read_char (CHR '':'') r) read_quoted of
             None \<Rightarrow> None
           | Some (v, r') \<Rightarrow> Some ((k, v), r')))"

text \<open>The number of pairs is at most the length of the text.\<close>

fun read_pairs :: "nat \<Rightarrow> string \<Rightarrow> (string \<times> string) list option" where
  "read_pairs 0 s = None"
| "read_pairs (Suc n) s =
     (case read_pair s of
        None \<Rightarrow> None
      | Some (kv, r) \<Rightarrow>
          if r = ''}'' then Some [kv]
          else map_option (\<lambda>kvs. kv # kvs) (Option.bind (read_char (CHR '','') r) (read_pairs n)))"

definition read_labels :: "string \<Rightarrow> (string \<times> string) list option" where
  "read_labels s = Option.bind (read_char (CHR ''{'') s) (read_pairs (length s))"

text \<open>What the labels mean: the metric's name, and for any other key the last map that has it.\<close>

definition merged_labels :: "string \<Rightarrow> (string, string) fmap list \<Rightarrow> string \<Rightarrow> string option" where
  "merged_labels name ms k =
     (if k = nameLabel then Some name else fmlookup (foldl (++\<^sub>f) fmempty ms) k)"

definition pair_text :: "string \<times> string \<Rightarrow> string" where
  "pair_text kv = [CHR 0x22] @ fst kv @ [CHR 0x22, CHR '':'', CHR 0x22] @ concat (map escape_byte (snd kv)) @ [CHR 0x22]"

lemma label_loop_text:
  assumes "1 < length b"
  shows "label_loop name ms (Some p) keys b =
    b @ concat (map (\<lambda>k. CHR '','' # pair_text (k, valueForKey name k ms)) (tl (remdups_adj (p # keys))))"
  using assms
proof (induction keys arbitrary: p b)
  case (Cons k keys)
  have "remdups_adj (k # keys) = k # tl (remdups_adj (k # keys))" by (simp only: remdups_adj_Cons_alt)
  then have tl: "tl (remdups_adj (p # k # keys)) =
      (if p = k then tl (remdups_adj (p # keys)) else k # tl (remdups_adj (k # keys)))"
    by (metis list.sel(3) remdups_adj.simps(3))
  show ?case
  proof (cases "p = k")
    case True
    with Cons show ?thesis by (simp add: tl)
  next
    case False
    with Cons.prems Cons.IH [of "b @ CHR '','' # pair_text (k, valueForKey name k ms)" k] show ?thesis
      unfolding tl by (simp add: Let_def appendEscapedJSONValue_def pair_text_def del: remdups_adj_Cons_alt)
  qed
qed simp

lemma NewLabels_text:
  assumes "remdups_adj (sort (nameLabel # concat (map (\<lambda>m. sorted_list_of_fset (fmdom m)) ms))) = k # ks"
  shows "NewLabelsAsJSONString name ms =
    ''{'' @ pair_text (k, valueForKey name k ms)
      @ concat (map (\<lambda>k. CHR '','' # pair_text (k, valueForKey name k ms)) ks) @ ''}''"
proof -
  obtain j js where keys: "sort (nameLabel # concat (map (\<lambda>m. sorted_list_of_fset (fmdom m)) ms)) = j # js"
    by (metis assms list.distinct(1) neq_Nil_conv remdups_adj.simps(1))
  have "j = k" using assms unfolding keys by (metis remdups_adj_Cons_alt list.sel(1))
  moreover have "tl (remdups_adj (j # js)) = ks" using assms unfolding keys by simp
  ultimately have jk: "j = k" "tl (remdups_adj (k # js)) = ks" by simp_all
  show ?thesis
    unfolding NewLabelsAsJSONString_def Let_def keys
    using label_loop_text [of "''{'' @ pair_text (j, valueForKey name j ms)" name ms j js]
    by (simp add: jk pair_text_def appendEscapedJSONValue_def Let_def)
qed

lemma read_escaped: "read_string (concat (map escape_byte v) @ CHR 0x22 # r) = Some (v, r)"
  by (induction v) (auto simp: escape_byte_def)

lemma read_plain:
  "CHR 0x22 \<notin> set k \<Longrightarrow> CHR 0x5C \<notin> set k \<Longrightarrow> read_string (k @ CHR 0x22 # r) = Some (k, r)"
  by (induction k) auto

lemma read_pair_text:
  "CHR 0x22 \<notin> set k \<Longrightarrow> CHR 0x5C \<notin> set k \<Longrightarrow> read_pair (pair_text (k, v) @ r) = Some ((k, v), r)"
  by (simp add: read_pair_def pair_text_def read_quoted_def read_char_def read_plain read_escaped)

lemma read_pairs_text:
  assumes "\<forall>kv \<in> set (kv # kvs). CHR 0x22 \<notin> set (fst kv) \<and> CHR 0x5C \<notin> set (fst kv)" "length kvs < n"
  shows "read_pairs n (pair_text kv @ concat (map (\<lambda>kv. CHR '','' # pair_text kv) kvs) @ ''}'') = Some (kv # kvs)"
  using assms
proof (induction kvs arbitrary: kv n)
  case Nil
  then obtain m where "n = Suc m" by (cases n) auto
  with Nil read_pair_text [of "fst kv" "snd kv" "''}''"] show ?case by simp
next
  case (Cons kv' kvs)
  then obtain m where n: "n = Suc m" "length kvs < m" by (cases n) auto
  have "read_pair (pair_text kv @ concat (map (\<lambda>kv. CHR '','' # pair_text kv) (kv' # kvs)) @ ''}'') =
      Some (kv, concat (map (\<lambda>kv. CHR '','' # pair_text kv) (kv' # kvs)) @ ''}'')"
    using read_pair_text [of "fst kv" "snd kv"] Cons.prems(1) by simp
  with Cons.IH [of kv' m] Cons.prems(1) n show ?case by (simp add: read_char_def)
qed

lemma fmlookup_merge:
  "fmlookup (foldl (++\<^sub>f) fmempty ms) k =
     (if \<exists>m \<in> set ms. k |\<in>| fmdom m then Some (value_in k (rev ms)) else None)"
proof (induction ms rule: rev_induct)
  case (snoc m ms)
  then show ?case by (cases "k |\<in>| fmdom m") (simp_all add: fmdom_notD, auto simp: fmlookup_dom_iff)
qed simp

lemma distinct_remdups_adj_sorted: "sorted xs \<Longrightarrow> distinct (remdups_adj xs)"
proof (induction xs rule: remdups_adj.induct)
  case (3 x y xs)
  then have "x \<notin> set (y # xs)" if "x \<noteq> y" using that by (auto simp: order.antisym)
  with 3 show ?case by (cases "x = y") (simp_all del: set_simps(2))
qed simp_all


text \<open>A key with a quote breaks the object.\<close>

lemma quote_in_key_breaks_labels:
  "read_labels (NewLabelsAsJSONString ''m'' [fmap_of_list [([CHR 0x22, CHR ''a''], ''v'')]]) = None"
  by code_simp

section \<open>Levels\<close>

text \<open>Nothing in the hash separates the levels: an attribute whose key sorts before the labels of the
  scope gives the same fingerprint on the resource and on the scope.\<close>

lemma level_collision:
  assumes "\<forall>kv \<in> set extras. Key a < fst kv"
  shows "fp_hash (NewFingerprint ScopeFingerprintType (fp_hash (NewFingerprint ResourceFingerprintType InitialOffset [a] [])) [] extras)
    = fp_hash (NewFingerprint ScopeFingerprintType (fp_hash (NewFingerprint ResourceFingerprintType InitialOffset [] [])) [a] extras)"
proof -
  have "last_of (Key a) (map extra extras) = None" using assms by (force simp: last_of_None extra_def)
  moreover have "Key a < Key b" if "b \<in> set (sortAndDedup (map extra extras))" for b
  proof -
    have "Key b \<in> Key ` set (sortAndDedup (map extra extras))" using that by simp
    then have "last_of (Key b) (map extra extras) \<noteq> None"
      using last_of_None [of "Key b" "sortAndDedup (map extra extras)"] by (simp add: sortAndDedup_last_of)
    then show ?thesis using assms last_of_None [of "Key b" "map extra extras"] by (auto simp: extra_def)
  qed
  ultimately have "sortAndDedup (a # map extra extras) = a # sortAndDedup (map extra extras)"
    by (intro sorted_last_of_eq)
      (auto simp: sortAndDedup_sorted sortAndDedup_last_of last_of_Cons split: option.splits)
  then show ?thesis by (simp add: NewFingerprint_def hashAttributes_def sortAndDedup_def [of "[a]"] sortAndDedup_def [of "[]"] Let_def)
qed

section \<open>Concrete fingerprints\<close>

definition str_attr :: "string \<Rightarrow> string \<Rightarrow> Attribute" where
  "str_attr k v = \<lparr>Key = k, AttrValue = \<lparr>DataType = ValueTypeStr, Val = v\<rparr>\<rparr>"

theorem NewFingerprint_order_independent_witness:
  "NewFingerprint PointFingerprintType InitialOffset [str_attr ''b'' ''1'', str_attr ''a'' ''2''] [(''le'', ''5''), (''a'', ''3'')] =
   NewFingerprint PointFingerprintType InitialOffset [str_attr ''a'' ''2'', str_attr ''b'' ''1''] [(''a'', ''3''), (''le'', ''5'')]"
  using NewFingerprint_order_independent
    [of "[str_attr ''b'' ''1'', str_attr ''a'' ''2'']" "[str_attr ''a'' ''2'', str_attr ''b'' ''1'']"
      "[(''le'', ''5''), (''a'', ''3'')]" "[(''a'', ''3''), (''le'', ''5'')]"]
  by (simp add: str_attr_def add_mset_commute)


end
