(* ===== verification/Metrics_Batch.thy ===== *)
theory Metrics_Batch
  imports Fingerprints Go_Format
begin

text \<open>
  The rows the metrics exporter prepares for ClickHouse (\<open>exporter/signozclickhousemetrics\<close>,
  \<open>batch.go\<close> and the row types of \<open>exporter.go\<close>) and the batch that collects them. Metadata rows are
  deduplicated inside a batch through an index map. The clock that \<open>addMetadata\<close> reads when no
  timestamp was seen is an argument.

  Theorem: the metadata of a batch has one row per identity, in the order of first occurrence, whose
  window is the hull of the windows reported for it.
\<close>

section \<open>Rows\<close>

datatype Temporality = Unspecified | Delta | Cumulative

datatype MetricType =
  MetricTypeEmpty | MetricTypeGauge | MetricTypeSum | MetricTypeHistogram
| MetricTypeExponentialHistogram | MetricTypeSummary

record sample =
  s_env :: string
  s_temporality :: Temporality
  s_metricName :: string
  s_fingerprint :: "64 word"
  s_reducedFingerprint :: "64 word"
  s_isMonotonic :: bool
  s_unixMilli :: int
  s_value :: go_float
  s_flags :: "32 word"

text \<open>A store of a DDSketch: the offset of the first bin and the counts.\<close>

record store =
  ContiguousBinIndexOffset :: int
  ContiguousBinCounts :: "go_float list"

record sketch =
  Gamma :: go_float
  PositiveValues :: store
  NegativeValues :: store
  ZeroCount :: go_float

record expHistSample =
  h_env :: string
  h_temporality :: Temporality
  h_metricName :: string
  h_fingerprint :: "64 word"
  h_unixMilli :: int
  h_sketch :: sketch
  h_count :: go_float
  h_sum :: go_float
  h_min :: go_float
  h_max :: go_float
  h_flags :: "32 word"

record ts =
  t_env :: string
  t_temporality :: Temporality
  t_metricName :: string
  t_description :: string
  t_unit :: string
  t_typ :: MetricType
  t_isMonotonic :: bool
  t_fingerprint :: "64 word"
  t_reducedFingerprint :: "64 word"
  t_isReduced :: bool
  t_unixMilli :: int
  t_labels :: string
  t_attrs :: "(string, string) fmap"
  t_scopeAttrs :: "(string, string) fmap"
  t_resourceAttrs :: "(string, string) fmap"

record metaKey =
  k_temporality :: Temporality
  k_metricName :: string
  k_attrName :: string
  k_attrType :: string
  k_attrDatatype :: ValueType
  k_attrStringValue :: string

record metadata =
  m_metricName :: string
  m_temporality :: Temporality
  m_description :: string
  m_unit :: string
  m_typ :: MetricType
  m_isMonotonic :: bool
  m_attrName :: string
  m_attrType :: string
  m_attrDatatype :: ValueType
  m_attrStringValue :: string
  firstReportedUnixMilli :: int
  lastReportedUnixMilli :: int

section \<open>The batch\<close>

record batch =
  b_samples :: "sample list"
  b_expHist :: "expHistSample list"
  b_ts :: "ts list"
  b_metadata :: "metadata list"
  b_metaIdx :: "metaKey \<rightharpoonup> nat"

definition newBatch :: batch where
  "newBatch = \<lparr>b_samples = [], b_expHist = [], b_ts = [], b_metadata = [], b_metaIdx = Map.empty\<rparr>"

definition addSample :: "sample \<Rightarrow> batch \<Rightarrow> batch" where
  "addSample s b = b\<lparr>b_samples := b_samples b @ [s]\<rparr>"

definition addTs :: "ts \<Rightarrow> batch \<Rightarrow> batch" where
  "addTs t b = b\<lparr>b_ts := b_ts b @ [t]\<rparr>"

definition addExpHist :: "expHistSample \<Rightarrow> batch \<Rightarrow> batch" where
  "addExpHist h b = b\<lparr>b_expHist := b_expHist b @ [h]\<rparr>"

text \<open>The arguments of \<open>addMetadata\<close> that describe the metric.\<close>

record metric_info =
  i_name :: string
  i_desc :: string
  i_unit :: string
  i_typ :: MetricType
  i_temporality :: Temporality
  i_isMonotonic :: bool

definition meta_row :: "metric_info \<Rightarrow> string \<Rightarrow> int \<Rightarrow> int \<Rightarrow> Attribute \<Rightarrow> metadata" where
  "meta_row i attrType firstSeen lastSeen attr =
     \<lparr>m_metricName = i_name i, m_temporality = i_temporality i, m_description = i_desc i, m_unit = i_unit i,
      m_typ = i_typ i, m_isMonotonic = i_isMonotonic i, m_attrName = Key attr, m_attrType = attrType,
      m_attrDatatype = DataType (AttrValue attr), m_attrStringValue = Val (AttrValue attr),
      firstReportedUnixMilli = firstSeen, lastReportedUnixMilli = lastSeen\<rparr>"

definition meta_key :: "metadata \<Rightarrow> metaKey" where
  "meta_key m =
     \<lparr>k_temporality = m_temporality m, k_metricName = m_metricName m, k_attrName = m_attrName m,
      k_attrType = m_attrType m, k_attrDatatype = m_attrDatatype m, k_attrStringValue = m_attrStringValue m\<rparr>"

definition widen :: "metadata \<Rightarrow> metadata \<Rightarrow> metadata" where
  "widen row existing =
     existing\<lparr>firstReportedUnixMilli := min (firstReportedUnixMilli row) (firstReportedUnixMilli existing),
       lastReportedUnixMilli := max (lastReportedUnixMilli row) (lastReportedUnixMilli existing)\<rparr>"

text \<open>The body of the loop over the attributes of a fingerprint.\<close>

definition add_row :: "metadata \<Rightarrow> batch \<Rightarrow> batch" where
  "add_row row b =
     (case b_metaIdx b (meta_key row) of
        Some idx \<Rightarrow> b\<lparr>b_metadata := (b_metadata b)[idx := widen row (b_metadata b ! idx)]\<rparr>
      | None \<Rightarrow>
          b\<lparr>b_metaIdx := (b_metaIdx b)(meta_key row \<mapsto> length (b_metadata b)),
            b_metadata := b_metadata b @ [row]\<rparr>)"

definition MaxInt64 :: int where
  "MaxInt64 = 2 ^ 63 - 1"

definition meta_rows :: "int \<Rightarrow> metric_info \<Rightarrow> Fingerprint \<Rightarrow> int \<Rightarrow> int \<Rightarrow> metadata list" where
  "meta_rows now i fp firstSeen lastSeen =
     map (meta_row i (FingerprintType_String (fp_typ fp))
           (if firstSeen = MaxInt64 then now else firstSeen) (if firstSeen = MaxInt64 then now else lastSeen))
       (fp_attributes fp)"

definition addMetadata :: "int \<Rightarrow> metric_info \<Rightarrow> Fingerprint \<Rightarrow> int \<Rightarrow> int \<Rightarrow> batch \<Rightarrow> batch" where
  "addMetadata now i fp firstSeen lastSeen b = fold add_row (meta_rows now i fp firstSeen lastSeen) b"

section \<open>The metadata of a batch\<close>

text \<open>The reference: the rows with one identity merged into the first of them.\<close>

definition merged_row :: "metadata list \<Rightarrow> metaKey \<Rightarrow> metadata" where
  "merged_row rows k = (let same = filter (\<lambda>m. meta_key m = k) rows in fold widen (tl same) (hd same))"

definition merged_rows :: "metadata list \<Rightarrow> metadata list" where
  "merged_rows rows = map (merged_row rows) (firsts (map meta_key rows))"

lemma meta_key_widen [simp]: "meta_key (widen row m) = meta_key m"
  by (simp add: widen_def meta_key_def)

lemma merged_row_snoc:
  "k \<in> set (map meta_key rows) \<Longrightarrow>
     merged_row (rows @ [row]) k = (if meta_key row = k then widen row (merged_row rows k) else merged_row rows k)"
proof -
  assume "k \<in> set (map meta_key rows)"
  then obtain m ms where "filter (\<lambda>m. meta_key m = k) rows = m # ms"
    by (cases "filter (\<lambda>m. meta_key m = k) rows") (auto simp: filter_empty_conv)
  then show ?thesis by (simp add: merged_row_def)
qed

lemma merged_row_fresh: "meta_key row \<notin> set (map meta_key rows) \<Longrightarrow> merged_row (rows @ [row]) (meta_key row) = row"
  by (simp add: merged_row_def filter_fresh)

definition metadata_of :: "metadata list \<Rightarrow> batch \<Rightarrow> bool" where
  "metadata_of rows b \<longleftrightarrow>
     locates (b_metaIdx b) (firsts (map meta_key rows)) \<and> b_metadata b = merged_rows rows"

lemma add_row_metadata_of:
  assumes "metadata_of rows b"
  shows "metadata_of (rows @ [row]) (add_row row b)"
proof (cases "meta_key row \<in> set (map meta_key rows)")
  case True
  then obtain i where i: "b_metaIdx b (meta_key row) = Some i"
    using assms locates_None [of "b_metaIdx b"] by (fastforce simp: metadata_of_def)
  note at = locates_Some [OF conjunct1 [OF assms [unfolded metadata_of_def]] i]
  have "(merged_rows rows)[i := widen row (merged_rows rows ! i)] = map (merged_row (rows @ [row])) (firsts (map meta_key rows))"
  proof -
    have "widen row (merged_rows rows ! i) = merged_row (rows @ [row]) (meta_key row)"
      using at True by (simp add: merged_rows_def merged_row_snoc)
    moreover have "(map (merged_row rows) (firsts (map meta_key rows)))[i := merged_row (rows @ [row]) (meta_key row)] =
        map (\<lambda>k. if k \<in> set (map meta_key rows) then merged_row (rows @ [row]) k else merged_row rows k) (firsts (map meta_key rows))"
      using at True map_update_at [of "firsts (map meta_key rows)" i "meta_key row" "merged_row rows"
          "\<lambda>k. if k \<in> set (map meta_key rows) then merged_row (rows @ [row]) k else merged_row rows k"]
      by (simp add: merged_row_snoc)
    ultimately show ?thesis by (simp add: merged_rows_def)
  qed
  with assms i True show ?thesis by (simp add: metadata_of_def add_row_def merged_rows_def firsts_snoc)
next
  case False
  then have i: "b_metaIdx b (meta_key row) = None"
    using assms locates_None [of "b_metaIdx b" "firsts (map meta_key rows)"] by (simp add: metadata_of_def)
  have "map (merged_row (rows @ [row])) (firsts (map meta_key rows)) = merged_rows rows"
    using False by (auto simp: merged_rows_def merged_row_snoc)
  with assms i False show ?thesis
    by (auto simp: metadata_of_def add_row_def merged_rows_def firsts_snoc merged_row_fresh
        intro: locates_snoc)
qed

lemma fold_add_row_metadata_of: "metadata_of rows b \<Longrightarrow> metadata_of (rows @ rs) (fold add_row rs b)"
proof (induction rs arbitrary: rows b)
  case (Cons row rs)
  from Cons.IH [OF add_row_metadata_of [OF Cons.prems, of row]] show ?case by simp
qed simp

lemma metadata_of_newBatch: "metadata_of [] newBatch"
  by (simp add: metadata_of_def newBatch_def merged_rows_def)

lemma merged_row_window:
  assumes "k \<in> set (map meta_key rows)"
  shows "firstReportedUnixMilli (merged_row rows k) = Min (firstReportedUnixMilli ` {m \<in> set rows. meta_key m = k})
    \<and> lastReportedUnixMilli (merged_row rows k) = Max (lastReportedUnixMilli ` {m \<in> set rows. meta_key m = k})"
  using assms
proof (induction rows rule: rev_induct)
  case (snoc row rows)
  have split: "{m \<in> set (rows @ [row]). meta_key m = k} =
      (if meta_key row = k then insert row {m \<in> set rows. meta_key m = k} else {m \<in> set rows. meta_key m = k})"
    by auto
  show ?case
  proof (cases "k \<in> set (map meta_key rows)")
    case True
    then have ne: "{m \<in> set rows. meta_key m = k} \<noteq> {}" by auto
    show ?thesis
      using snoc.IH [OF True] True ne unfolding split merged_row_snoc [OF True]
      by (auto simp: widen_def)
  next
    case False
    then have none: "{m \<in> set rows. meta_key m = k} = {}" by force
    have "meta_key row = k" using False snoc.prems by auto
    with merged_row_fresh [of row rows] False show ?thesis unfolding split none by simp
  qed
qed simp


end
