(* ===== verification/Metrics_Rules.thy ===== *)
theory Metrics_Rules
  imports Metrics_Batch
begin

text \<open>
  Label reduction (\<open>exporter/signozclickhousemetrics/rules.go\<close>): the rules read from ClickHouse, which
  labels a rule drops, and the reducer that computes the fingerprint of the reduced series and the
  row for it. A \<open>nil\<close> reducer or series is \<open>None\<close>. The rows of the query are values: the outcome of
  scanning each row, or the error of the query.

  Theorems: no rule in force drops a protected label and a failed poll changes nothing; the reduced
  fingerprint is the one the series would have without the dropped labels.
\<close>

section \<open>Rules\<close>

definition protectedLabels :: "string list" where
  "protectedLabels = [''le'', ''quantile'', ''__name__'', ''__temporality__'', ''deployment.environment'']"

record reductionRule =
  rule_keys :: "string list"
  rule_keep :: bool
  effectiveFromUnixMilli :: int

definition rule_drop :: "reductionRule \<Rightarrow> string \<Rightarrow> bool" where
  "rule_drop r key =
     (let listed = key \<in> set (rule_keys r) in
      if rule_keep r then (if key \<in> set protectedLabels then False else \<not> listed) else listed)"

definition appliesAt :: "reductionRule \<Rightarrow> int \<Rightarrow> bool" where
  "appliesAt r unixMilli \<longleftrightarrow> unixMilli \<ge> effectiveFromUnixMilli r"

type_synonym ruleSet = "string \<rightharpoonup> reductionRule"

text \<open>\<open>None\<close> before the first successful poll.\<close>

definition ruleFor :: "ruleSet option \<Rightarrow> string \<Rightarrow> reductionRule option" where
  "ruleFor rules metricName = (case rules of None \<Rightarrow> None | Some rs \<Rightarrow> rs metricName)"

record rule_row =
  row_metricName :: string
  row_labels :: "string list"
  row_matchType :: string
  row_effectiveFrom :: int
  row_deleted :: bool

definition match_keep :: "string \<Rightarrow> bool option" where
  "match_keep matchType =
     (if matchType = [] \<or> matchType = ''drop'' then Some False
      else if matchType = ''keep'' then Some True else None)"

text \<open>The body of the loop over the rows: the rule the row gives, if any.\<close>

definition compile_rule :: "rule_row \<Rightarrow> reductionRule option" where
  "compile_rule row =
     (if row_deleted row then None
      else case match_keep (row_matchType row) of
        None \<Rightarrow> None
      | Some keep \<Rightarrow>
          if \<not> keep \<and> row_labels row = [] then None
          else if \<not> keep \<and> list_ex (\<lambda>l. l \<in> set protectedLabels) (row_labels row) then None
          else Some \<lparr>rule_keys = row_labels row, rule_keep = keep, effectiveFromUnixMilli = row_effectiveFrom row\<rparr>)"

fun rules_loop :: "(string + rule_row) list \<Rightarrow> ruleSet \<Rightarrow> string + ruleSet" where
  "rules_loop [] rules = Inr rules"
| "rules_loop (Inl err # rows) rules = Inl err"
| "rules_loop (Inr row # rows) rules =
     rules_loop rows
       (case compile_rule row of None \<Rightarrow> rules | Some r \<Rightarrow> rules(row_metricName row \<mapsto> r))"

text \<open>\<open>rows.Err()\<close> is returned together with the rules read so far.\<close>

definition fetchReductionRules :: "string + (string + rule_row) list \<times> string option \<Rightarrow> string + ruleSet" where
  "fetchReductionRules answer =
     (case answer of
        Inl err \<Rightarrow> Inl err
      | Inr (rows, rows_Err) \<Rightarrow>
          (case rules_loop rows Map.empty of
             Inl err \<Rightarrow> Inl err
           | Inr rules \<Rightarrow> (case rows_Err of Some err \<Rightarrow> Inl err | None \<Rightarrow> Inr rules)))"

definition pollReductionRules ::
  "string + (string + rule_row) list \<times> string option \<Rightarrow> ruleSet option \<Rightarrow> ruleSet option" where
  "pollReductionRules answer current =
     (case fetchReductionRules answer of Inl err \<Rightarrow> current | Inr rules \<Rightarrow> Some rules)"

section \<open>The reducer\<close>

record reducer =
  red_rule :: reductionRule
  red_resource :: Fingerprint
  red_scope :: Fingerprint
  red_reduced :: "(Fingerprint \<times> Fingerprint) option"
  red_seen :: "64 word list"

record reducedSeries =
  rs_fingerprint :: "64 word"
  rs_point :: Fingerprint
  rs_scope :: Fingerprint
  rs_resource :: Fingerprint

definition firstSeen :: "64 word \<Rightarrow> reducer \<Rightarrow> bool \<times> reducer" where
  "firstSeen fingerprint r =
     (if fingerprint \<in> set (red_seen r) then (False, r) else (True, r\<lparr>red_seen := fingerprint # red_seen r\<rparr>))"

definition newReducerFor ::
  "bool \<Rightarrow> ruleSet option \<Rightarrow> string \<Rightarrow> Fingerprint \<Rightarrow> Fingerprint \<Rightarrow> reducer option" where
  "newReducerFor enabled rules metricName resourceFingerprint scopeFingerprint =
     (if \<not> enabled then None
      else map_option (\<lambda>rule. \<lparr>red_rule = rule, red_resource = resourceFingerprint,
             red_scope = scopeFingerprint, red_reduced = None, red_seen = []\<rparr>) (ruleFor rules metricName))"

text \<open>The reduced resource and scope, computed at the first call.\<close>

definition reduced_levels :: "reducer \<Rightarrow> Fingerprint \<times> Fingerprint" where
  "reduced_levels r =
     (case red_reduced r of
        Some levels \<Rightarrow> levels
      | None \<Rightarrow>
          (let resource = Reduced InitialOffset (rule_drop (red_rule r)) (red_resource r)
           in (resource, Reduced (fp_hash resource) (rule_drop (red_rule r)) (red_scope r))))"

definition reduce ::
  "Fingerprint \<Rightarrow> string \<Rightarrow> int \<Rightarrow> reducer option \<Rightarrow> reducedSeries option \<times> reducer option" where
  "reduce pointFingerprint nameWithSuffix unixMilli r =
     (case r of
        None \<Rightarrow> (None, None)
      | Some r \<Rightarrow>
          if \<not> appliesAt (red_rule r) unixMilli then (None, Some r)
          else
            (let (resource, scope) = reduced_levels r;
                 point = Reduced (fp_hash scope) (rule_drop (red_rule r)) pointFingerprint
             in (Some \<lparr>rs_fingerprint = HashWithName point nameWithSuffix, rs_point = point,
                       rs_scope = scope, rs_resource = resource\<rparr>,
                 Some (r\<lparr>red_reduced := Some (resource, scope)\<rparr>))))"

definition fingerprintOrZero :: "reducedSeries option \<Rightarrow> 64 word" where
  "fingerprintOrZero r = (case r of None \<Rightarrow> 0 | Some r \<Rightarrow> rs_fingerprint r)"

definition reducedTsFrom :: "ts \<Rightarrow> reducedSeries \<Rightarrow> ts" where
  "reducedTsFrom raw reduced =
     (let pointMap = AttributesAsMap (rs_point reduced);
          scopeMap = AttributesAsMap (rs_scope reduced);
          resourceMap = AttributesAsMap (rs_resource reduced)
      in raw\<lparr>t_fingerprint := rs_fingerprint reduced, t_reducedFingerprint := rs_fingerprint reduced,
             t_isReduced := True,
             t_labels := NewLabelsAsJSONString (t_metricName raw) [pointMap, scopeMap, resourceMap],
             t_attrs := pointMap, t_scopeAttrs := scopeMap, t_resourceAttrs := resourceMap\<rparr>)"

section \<open>Protected labels\<close>

definition safe_rules :: "ruleSet option \<Rightarrow> bool" where
  "safe_rules rules \<longleftrightarrow> (\<forall>name r l. ruleFor rules name = Some r \<longrightarrow> l \<in> set protectedLabels \<longrightarrow> \<not> rule_drop r l)"

lemma compile_rule_safe: "compile_rule row = Some r \<Longrightarrow> l \<in> set protectedLabels \<Longrightarrow> \<not> rule_drop r l"
  by (auto simp: compile_rule_def rule_drop_def list_ex_iff split: if_splits option.splits)

lemma rules_loop_safe:
  "rules_loop rows rules = Inr rules' \<Longrightarrow> safe_rules (Some rules) \<Longrightarrow> safe_rules (Some rules')"
proof (induction rows rules rule: rules_loop.induct)
  case (3 row rows rules)
  have "safe_rules (Some (case compile_rule row of None \<Rightarrow> rules | Some r \<Rightarrow> rules(row_metricName row \<mapsto> r)))"
    using 3(3) compile_rule_safe by (auto simp: safe_rules_def ruleFor_def split: option.splits)
  with 3 show ?case by simp
qed auto

lemma poll_safe: "safe_rules rules \<Longrightarrow> safe_rules (pollReductionRules answer rules)"
proof -
  have "safe_rules (Some Map.empty)" by (simp add: safe_rules_def ruleFor_def)
  then show "safe_rules rules \<Longrightarrow> safe_rules (pollReductionRules answer rules)"
    using rules_loop_safe
    by (auto simp: pollReductionRules_def fetchReductionRules_def split: sum.splits option.splits)
qed

text \<open>Whatever ClickHouse answered to any number of polls, no rule in force drops a label that is
  part of a series' identity.\<close>

theorem protected_labels_kept:
  assumes "ruleFor (fold pollReductionRules answers None) metricName = Some r" "l \<in> set protectedLabels"
  shows "\<not> rule_drop r l"
proof -
  have "safe_rules (fold pollReductionRules answers rules)" if "safe_rules rules" for rules
    using that by (induction answers arbitrary: rules) (simp_all add: poll_safe)
  from this [of None] have "safe_rules (fold pollReductionRules answers None)"
    by (simp add: safe_rules_def ruleFor_def)
  with assms show ?thesis by (simp add: safe_rules_def)
qed

lemma poll_error_keeps: "fetchReductionRules answer = Inl err \<Longrightarrow> pollReductionRules answer rules = rules"
  by (simp add: pollReductionRules_def)

section \<open>The reduced series\<close>

text \<open>A reducer as \<open>newReducerFor\<close> makes it and \<open>reduce\<close> and \<open>firstSeen\<close> leave it.\<close>

definition reducer_ok :: "reducer \<Rightarrow> bool" where
  "reducer_ok r \<longleftrightarrow> reduced_levels r = reduced_levels (r\<lparr>red_reduced := None\<rparr>)"

lemma newReducerFor_ok: "newReducerFor e rules name res sc = Some r \<Longrightarrow> reducer_ok r"
  by (auto simp: newReducerFor_def reducer_ok_def reduced_levels_def split: if_splits)

lemma firstSeen_ok: "reducer_ok r \<Longrightarrow> firstSeen fp r = (b, r') \<Longrightarrow> reducer_ok r'"
  by (auto simp: firstSeen_def reducer_ok_def reduced_levels_def split: if_splits option.splits)

lemma reduce_ok: "reducer_ok r \<Longrightarrow> reduce fp name ms (Some r) = (s, Some r') \<Longrightarrow> reducer_ok r' \<and> red_rule r' = red_rule r"
  by (auto simp: reduce_def reducer_ok_def reduced_levels_def Let_def split: if_splits option.splits prod.splits)

text \<open>The reduced fingerprint of a data point is the fingerprint it would have if its resource, scope
  and point never carried the labels the rule drops: series that differ only in dropped labels
  collapse, and no others are told apart by the reduction.\<close>

theorem reduce_is_fingerprint_without_dropped:
  fixes resAttrs scopeAttrs pointAttrs :: Attributes
  assumes "reducer_ok r" "appliesAt (red_rule r) unixMilli"
    "red_resource r = NewFingerprint ResourceFingerprintType InitialOffset resAttrs []"
    "red_scope r = NewFingerprint ScopeFingerprintType (fp_hash (red_resource r)) scopeAttrs scopeExtras"
    "pointFingerprint = NewFingerprint PointFingerprintType (fp_hash (red_scope r)) pointAttrs pointExtras"
  shows "fingerprintOrZero (fst (reduce pointFingerprint name unixMilli (Some r))) =
    (let keep = (\<lambda>as. filter (\<lambda>a. \<not> rule_drop (red_rule r) (Key a)) as);
         keepx = (\<lambda>es. filter (\<lambda>kv. \<not> rule_drop (red_rule r) (fst kv)) es);
         resource = NewFingerprint ResourceFingerprintType InitialOffset (keep resAttrs) [];
         scope = NewFingerprint ScopeFingerprintType (fp_hash resource) (keep scopeAttrs) (keepx scopeExtras)
     in HashWithName (NewFingerprint PointFingerprintType (fp_hash scope) (keep pointAttrs) (keepx pointExtras)) name)"
proof -
  have "reduced_levels r = reduced_levels (r\<lparr>red_reduced := None\<rparr>)" using assms(1) by (simp add: reducer_ok_def)
  then show ?thesis
    using assms(2-)
    by (simp add: reduce_def reduced_levels_def fingerprintOrZero_def Let_def Reduced_NewFingerprint split: prod.splits)
qed

section \<open>Concrete rules\<close>

definition rules_answer :: "string + (string + rule_row) list \<times> string option" where
  "rules_answer = Inr ([Inr \<lparr>row_metricName = ''m'', row_labels = [''pod'', ''a''], row_matchType = ''drop'',
     row_effectiveFrom = 0, row_deleted = False\<rparr>], None)"

lemma rules_answer_rule:
  "ruleFor (fold pollReductionRules [rules_answer] None) ''m'' =
     Some \<lparr>rule_keys = [''pod'', ''a''], rule_keep = False, effectiveFromUnixMilli = 0\<rparr>"
  by (simp add: rules_answer_def pollReductionRules_def fetchReductionRules_def compile_rule_def match_keep_def
      protectedLabels_def ruleFor_def)

theorem protected_labels_kept_witness:
  "\<not> rule_drop \<lparr>rule_keys = [''pod'', ''a''], rule_keep = False, effectiveFromUnixMilli = 0\<rparr> ''le''"
  using protected_labels_kept [OF rules_answer_rule, of "''le''"] by (simp add: protectedLabels_def)

definition pod_reducer :: reducer where
  "pod_reducer =
     (let resource = NewFingerprint ResourceFingerprintType InitialOffset [str_attr ''pod'' ''x''] [] in
      \<lparr>red_rule = \<lparr>rule_keys = [''pod''], rule_keep = False, effectiveFromUnixMilli = 0\<rparr>, red_resource = resource,
       red_scope = NewFingerprint ScopeFingerprintType (fp_hash resource) [] [(''__scope.name__'', [])],
       red_reduced = None, red_seen = []\<rparr>)"

theorem reduce_is_fingerprint_without_dropped_witness:
  "fingerprintOrZero (fst (reduce
      (NewFingerprint PointFingerprintType (fp_hash (red_scope pod_reducer)) [str_attr ''pod'' ''y'', str_attr ''path'' ''z''] [])
      ''m'' 5 (Some pod_reducer))) =
    HashWithName (NewFingerprint PointFingerprintType
      (fp_hash (NewFingerprint ScopeFingerprintType (fp_hash (NewFingerprint ResourceFingerprintType InitialOffset [] [])) []
        [(''__scope.name__'', [])])) [str_attr ''path'' ''z''] []) ''m''"
  using reduce_is_fingerprint_without_dropped [of pod_reducer 5 "[str_attr ''pod'' ''x'']" "[]" "[(''__scope.name__'', [])]"
      "NewFingerprint PointFingerprintType (fp_hash (red_scope pod_reducer)) [str_attr ''pod'' ''y'', str_attr ''path'' ''z''] []"
      "[str_attr ''pod'' ''y'', str_attr ''path'' ''z'']" "[]" "''m''"]
  by (simp add: pod_reducer_def reducer_ok_def reduced_levels_def appliesAt_def rule_drop_def str_attr_def Let_def)

end
