(* ===== verification/Metrics_Exporter.thy ===== *)
theory Metrics_Exporter
  imports Metrics_Rules
begin

text \<open>
  From telemetry to rows (\<open>exporter/signozclickhousemetrics/exporter.go\<close>, \<open>process*\<close> and
  \<open>prepareBatch\<close>). The data points are the fields of \<open>pmetric\<close> the code reads; an optional field is an
  \<open>option\<close>, and its getter gives zero where it is absent. Upstream code is the record \<open>metric_deps\<close>:
  the names of temporalities, \<open>math.Pow\<close> for the base of a sketch, and the clock; it also holds the
  configuration the functions look at.

  What every branch of the code writes for one value, a sample, metadata, a series row and a row of
  the reduced series when it is new, is \<open>add_point\<close>.
\<close>

section \<open>Telemetry\<close>

datatype number = EmptyValue | IntValue int | DoubleValue go_float

record number_point =
  np_Timestamp :: "64 word"
  np_Attributes :: Attributes
  np_Flags :: "32 word"
  np_Value :: number

record histogram_point =
  hp_Timestamp :: "64 word"
  hp_Attributes :: Attributes
  hp_Flags :: "32 word"
  hp_Count :: "64 word"
  hp_Sum :: "go_float option"
  hp_Min :: "go_float option"
  hp_Max :: "go_float option"
  ExplicitBounds :: "go_float list"
  BucketCounts :: "64 word list"

record summary_point =
  sp_Timestamp :: "64 word"
  sp_Attributes :: Attributes
  sp_Flags :: "32 word"
  sp_Count :: "64 word"
  sp_Sum :: go_float
  QuantileValues :: "(go_float \<times> go_float) list"

record exponential_point =
  ep_Timestamp :: "64 word"
  ep_Attributes :: Attributes
  ep_Flags :: "32 word"
  ep_Count :: "64 word"
  ep_Sum :: "go_float option"
  ep_Min :: "go_float option"
  ep_Max :: "go_float option"
  ep_Scale :: int
  ep_ZeroCount :: "64 word"
  ep_Positive :: "int \<times> 64 word list"
  ep_Negative :: "int \<times> 64 word list"

datatype metric_data =
  GaugeData "number_point list"
| SumData Temporality bool "number_point list"
| HistogramData Temporality "histogram_point list"
| SummaryData "summary_point list"
| ExponentialData Temporality "exponential_point list"
| EmptyData

record metric =
  mt_Name :: string
  mt_Description :: string
  mt_Unit :: string
  mt_Data :: metric_data

record scope_metrics =
  sm_Attributes :: Attributes
  sm_Name :: string
  sm_Version :: string
  sm_SchemaUrl :: string
  sm_Metrics :: "metric list"

record resource_metrics =
  rm_Attributes :: Attributes
  rm_Scopes :: "scope_metrics list"

record metric_deps =
  TemporalityString :: "Temporality \<Rightarrow> string"
  math_Pow :: "go_float \<Rightarrow> go_float \<Rightarrow> go_float"
  clock :: int
  ReductionEnabled :: bool
  reductionRules :: "ruleSet option"
  enableExpHist :: bool

text \<open>The environment, the resource and the scope a metric belongs to.\<close>

record point_ctx =
  c_env :: string
  c_resource :: Fingerprint
  c_scope :: Fingerprint

text \<open>\<open>dp.Timestamp().AsTime().UnixMilli()\<close>: nanoseconds as int64, to milliseconds rounding down.\<close>

definition UnixMilli :: "64 word \<Rightarrow> int" where
  "UnixMilli t = sint t div 1000000"

definition getter :: "go_float option \<Rightarrow> go_float" where
  "getter x = (case x of None \<Rightarrow> Finite 0 | Some v \<Rightarrow> v)"

section \<open>One value\<close>

definition raw_sample :: "point_ctx \<Rightarrow> metric_info \<Rightarrow> 64 word \<Rightarrow> 64 word \<Rightarrow> int \<Rightarrow> go_float \<Rightarrow> 32 word \<Rightarrow> sample" where
  "raw_sample c i fp reduced ms value flags =
     \<lparr>s_env = c_env c, s_temporality = i_temporality i, s_metricName = i_name i, s_fingerprint = fp,
      s_reducedFingerprint = reduced, s_isMonotonic = i_isMonotonic i, s_unixMilli = ms, s_value = value,
      s_flags = flags\<rparr>"

definition raw_ts :: "point_ctx \<Rightarrow> metric_info \<Rightarrow> Fingerprint \<Rightarrow> 64 word \<Rightarrow> int \<Rightarrow> ts" where
  "raw_ts c i fp reduced ms =
     (let point = AttributesAsMap fp; scope = AttributesAsMap (c_scope c); resource = AttributesAsMap (c_resource c)
      in \<lparr>t_env = c_env c, t_temporality = i_temporality i, t_metricName = i_name i, t_description = i_desc i,
          t_unit = i_unit i, t_typ = i_typ i, t_isMonotonic = i_isMonotonic i,
          t_fingerprint = HashWithName fp (i_name i), t_reducedFingerprint = reduced, t_isReduced = False,
          t_unixMilli = ms, t_labels = NewLabelsAsJSONString (i_name i) [point, scope, resource],
          t_attrs = point, t_scopeAttrs = scope, t_resourceAttrs = resource\<rparr>)"

definition point_fingerprint :: "point_ctx \<Rightarrow> Attributes \<Rightarrow> (string \<times> string) list \<Rightarrow> Fingerprint" where
  "point_fingerprint c attrs extras = NewFingerprint PointFingerprintType (fp_hash (c_scope c)) attrs extras"

definition add_reduced :: "ts \<Rightarrow> reducedSeries option \<Rightarrow> batch \<Rightarrow> reducer option \<Rightarrow> batch \<times> reducer option" where
  "add_reduced raw reduced b r =
     (case (reduced, r) of
        (Some rs, Some r) \<Rightarrow>
          (let (new, r) = firstSeen (rs_fingerprint rs) r
           in (if new then addTs (reducedTsFrom raw rs) b else b, Some r))
      | _ \<Rightarrow> (b, r))"

definition add_point ::
  "metric_deps \<Rightarrow> point_ctx \<Rightarrow> metric_info \<Rightarrow> Attributes \<Rightarrow> (string \<times> string) list \<Rightarrow> int \<Rightarrow> go_float \<Rightarrow> 32 word \<Rightarrow>
    batch \<times> reducer option \<Rightarrow> batch \<times> reducer option" where
  "add_point D c i attrs extras ms value flags br =
     (let fp = point_fingerprint c attrs extras;
          (reduced, r) = reduce fp (i_name i) ms (snd br);
          b = addSample (raw_sample c i (HashWithName fp (i_name i)) (fingerprintOrZero reduced) ms value flags) (fst br);
          b = addMetadata (clock D) i fp ms ms b;
          raw = raw_ts c i fp (fingerprintOrZero reduced) ms
      in add_reduced raw reduced (addTs raw b) r)"

text \<open>Metadata of the resource and the scope, after the loop over the points.\<close>

definition add_levels :: "metric_deps \<Rightarrow> point_ctx \<Rightarrow> metric_info \<Rightarrow> int \<times> int \<Rightarrow> batch \<Rightarrow> batch" where
  "add_levels D c i seen b =
     addMetadata (clock D) i (c_scope c) (fst seen) (snd seen)
       (addMetadata (clock D) i (c_resource c) (fst seen) (snd seen) b)"

definition see :: "int \<Rightarrow> int \<times> int \<Rightarrow> int \<times> int" where
  "see ms seen = (min (fst seen) ms, max (snd seen) ms)"

definition unseen :: "int \<times> int" where
  "unseen = (MaxInt64, 0)"

definition temporality_label :: "metric_deps \<Rightarrow> metric_info \<Rightarrow> string \<times> string" where
  "temporality_label D i = (''__temporality__'', TemporalityString D (i_temporality i))"

definition new_reducer :: "metric_deps \<Rightarrow> point_ctx \<Rightarrow> string \<Rightarrow> reducer option" where
  "new_reducer D c name = newReducerFor (ReductionEnabled D) (reductionRules D) name (c_resource c) (c_scope c)"

section \<open>Gauges and sums\<close>

definition number_value :: "number \<Rightarrow> go_float" where
  "number_value v = (case v of EmptyValue \<Rightarrow> Finite 0 | IntValue n \<Rightarrow> float_of_int n | DoubleValue x \<Rightarrow> x)"

definition number_step ::
  "metric_deps \<Rightarrow> point_ctx \<Rightarrow> metric_info \<Rightarrow> number_point \<Rightarrow> (int \<times> int) \<times> batch \<times> reducer option \<Rightarrow>
    (int \<times> int) \<times> batch \<times> reducer option" where
  "number_step D c i dp st =
     (let ms = UnixMilli (np_Timestamp dp); seen = see ms (fst st); value = number_value (np_Value dp)
      in if IsNaN value then (seen, snd st)
         else (seen, add_point D c i (np_Attributes dp) [temporality_label D i] ms value (np_Flags dp) (snd st)))"

definition process_numbers ::
  "metric_deps \<Rightarrow> point_ctx \<Rightarrow> metric_info \<Rightarrow> number_point list \<Rightarrow> batch \<Rightarrow> batch" where
  "process_numbers D c i points b =
     (let (seen, b, r) = fold (number_step D c i) points (unseen, b, new_reducer D c (i_name i))
      in add_levels D c i seen b)"

definition base_info :: "metric \<Rightarrow> MetricType \<Rightarrow> Temporality \<Rightarrow> bool \<Rightarrow> metric_info" where
  "base_info m typ temporality isMonotonic =
     \<lparr>i_name = mt_Name m, i_desc = mt_Description m, i_unit = mt_Unit m, i_typ = typ,
      i_temporality = temporality, i_isMonotonic = isMonotonic\<rparr>"

definition processGauge :: "metric_deps \<Rightarrow> point_ctx \<Rightarrow> metric \<Rightarrow> number_point list \<Rightarrow> batch \<Rightarrow> batch" where
  "processGauge D c m points b = process_numbers D c (base_info m MetricTypeGauge Unspecified False) points b"

definition processSum ::
  "metric_deps \<Rightarrow> point_ctx \<Rightarrow> metric \<Rightarrow> Temporality \<Rightarrow> bool \<Rightarrow> number_point list \<Rightarrow> batch \<Rightarrow> batch" where
  "processSum D c m temporality isMonotonic points b =
     process_numbers D c (base_info m MetricTypeSum temporality isMonotonic) points b"

section \<open>Suffixes\<close>

definition suffixed :: "string \<Rightarrow> metric_info \<Rightarrow> metric_info" where
  "suffixed suffix i = i\<lparr>i_name := i_name i @ suffix\<rparr>"

text \<open>The switch of \<open>addSample\<close>: what a suffix changes for samples; the metadata of resource and scope
  keeps the metric's unit.\<close>

definition count_info :: "metric_info \<Rightarrow> metric_info" where
  "count_info i = suffixed ''.count'' (i\<lparr>i_typ := MetricTypeSum, i_unit := ''1''\<rparr>)"

definition count_level_info :: "metric_info \<Rightarrow> metric_info" where
  "count_level_info i = suffixed ''.count'' (i\<lparr>i_typ := MetricTypeSum\<rparr>)"

definition sum_info :: "metric_info \<Rightarrow> metric_info" where
  "sum_info i = suffixed ''.sum'' (i\<lparr>i_typ := MetricTypeSum\<rparr>)"

definition extremum_info :: "string \<Rightarrow> metric_info \<Rightarrow> metric_info" where
  "extremum_info suffix i =
     suffixed suffix (i\<lparr>i_typ := MetricTypeGauge, i_temporality := Unspecified, i_isMonotonic := False\<rparr>)"

definition quantile_info :: "metric_info \<Rightarrow> metric_info" where
  "quantile_info i = suffixed ''.quantile'' (i\<lparr>i_temporality := Unspecified, i_isMonotonic := False\<rparr>)"

definition float_of_uint :: "64 word \<Rightarrow> go_float" where
  "float_of_uint n = float_of_int (uint n)"

section \<open>Histograms\<close>

fun bucket_loop ::
  "metric_deps \<Rightarrow> point_ctx \<Rightarrow> metric_info \<Rightarrow> histogram_point \<Rightarrow> go_float list \<Rightarrow> 64 word list \<Rightarrow> 64 word \<Rightarrow>
    batch \<times> reducer option \<Rightarrow> batch \<times> reducer option" where
  "bucket_loop D c i dp (bound # bounds) (n # counts) cumulativeCount br =
     bucket_loop D c i dp bounds counts (cumulativeCount + n)
       (add_point D c i (hp_Attributes dp) [(''le'', FormatFloat bound), temporality_label D i]
         (UnixMilli (hp_Timestamp dp)) (float_of_uint (cumulativeCount + n)) (hp_Flags dp) br)"
| "bucket_loop D c i dp _ _ cumulativeCount br = br"

definition addBucketSample ::
  "metric_deps \<Rightarrow> point_ctx \<Rightarrow> metric_info \<Rightarrow> histogram_point \<Rightarrow> batch \<times> reducer option \<Rightarrow> batch \<times> reducer option" where
  "addBucketSample D c i dp br =
     add_point D c i (hp_Attributes dp) [(''le'', ''+Inf''), temporality_label D i]
       (UnixMilli (hp_Timestamp dp)) (float_of_uint (hp_Count dp)) (hp_Flags dp)
       (bucket_loop D c i dp (ExplicitBounds dp) (BucketCounts dp) 0 br)"

text \<open>The batch and the reducer of each suffix.\<close>

record hist_state =
  hs_batch :: batch
  hs_count :: "reducer option"
  hs_sum :: "reducer option"
  hs_min :: "reducer option"
  hs_max :: "reducer option"
  hs_bucket :: "reducer option"

definition hist_sample ::
  "metric_deps \<Rightarrow> point_ctx \<Rightarrow> metric_info \<Rightarrow> histogram_point \<Rightarrow> go_float \<Rightarrow> batch \<times> reducer option \<Rightarrow> batch \<times> reducer option" where
  "hist_sample D c i dp value br =
     add_point D c i (hp_Attributes dp) [temporality_label D i] (UnixMilli (hp_Timestamp dp)) value (hp_Flags dp) br"

definition hist_count :: "metric_deps \<Rightarrow> point_ctx \<Rightarrow> metric_info \<Rightarrow> histogram_point \<Rightarrow> hist_state \<Rightarrow> hist_state" where
  "hist_count D c i dp h =
     (let (b, r) = hist_sample D c (count_info i) dp (float_of_uint (hp_Count dp)) (hs_batch h, hs_count h)
      in h\<lparr>hs_batch := b, hs_count := r\<rparr>)"

definition hist_sum :: "metric_deps \<Rightarrow> point_ctx \<Rightarrow> metric_info \<Rightarrow> histogram_point \<Rightarrow> hist_state \<Rightarrow> hist_state" where
  "hist_sum D c i dp h =
     (case hp_Sum dp of
        None \<Rightarrow> h
      | Some v \<Rightarrow> let (b, r) = hist_sample D c (sum_info i) dp v (hs_batch h, hs_sum h) in h\<lparr>hs_batch := b, hs_sum := r\<rparr>)"

definition hist_min :: "metric_deps \<Rightarrow> point_ctx \<Rightarrow> metric_info \<Rightarrow> histogram_point \<Rightarrow> hist_state \<Rightarrow> hist_state" where
  "hist_min D c i dp h =
     (case hp_Min dp of
        None \<Rightarrow> h
      | Some v \<Rightarrow> let (b, r) = hist_sample D c (extremum_info ''.min'' i) dp v (hs_batch h, hs_min h) in h\<lparr>hs_batch := b, hs_min := r\<rparr>)"

definition hist_max :: "metric_deps \<Rightarrow> point_ctx \<Rightarrow> metric_info \<Rightarrow> histogram_point \<Rightarrow> hist_state \<Rightarrow> hist_state" where
  "hist_max D c i dp h =
     (case hp_Max dp of
        None \<Rightarrow> h
      | Some v \<Rightarrow> let (b, r) = hist_sample D c (extremum_info ''.max'' i) dp v (hs_batch h, hs_max h) in h\<lparr>hs_batch := b, hs_max := r\<rparr>)"

definition hist_buckets :: "metric_deps \<Rightarrow> point_ctx \<Rightarrow> metric_info \<Rightarrow> histogram_point \<Rightarrow> hist_state \<Rightarrow> hist_state" where
  "hist_buckets D c i dp h =
     (let (b, r) = addBucketSample D c (suffixed ''.bucket'' i) dp (hs_batch h, hs_bucket h)
      in h\<lparr>hs_batch := b, hs_bucket := r\<rparr>)"

definition hist_step ::
  "metric_deps \<Rightarrow> point_ctx \<Rightarrow> metric_info \<Rightarrow> histogram_point \<Rightarrow> (int \<times> int) \<times> hist_state \<Rightarrow> (int \<times> int) \<times> hist_state" where
  "hist_step D c i dp st =
     (let seen = see (UnixMilli (hp_Timestamp dp)) (fst st)
      in if IsNaN (getter (hp_Sum dp)) \<or> IsNaN (getter (hp_Min dp)) \<or> IsNaN (getter (hp_Max dp)) then (seen, snd st)
         else (seen, hist_buckets D c i dp (hist_max D c i dp (hist_min D c i dp (hist_sum D c i dp (hist_count D c i dp (snd st)))))))"

definition processHistogram ::
  "metric_deps \<Rightarrow> point_ctx \<Rightarrow> metric \<Rightarrow> Temporality \<Rightarrow> histogram_point list \<Rightarrow> batch \<Rightarrow> batch" where
  "processHistogram D c m temporality points b =
     (let i = base_info m MetricTypeHistogram temporality True;
          new = (\<lambda>suffix. new_reducer D c (mt_Name m @ suffix));
          (seen, h) = fold (hist_step D c i) points
            (unseen, \<lparr>hs_batch = b, hs_count = new ''.count'', hs_sum = new ''.sum'', hs_min = new ''.min'',
                      hs_max = new ''.max'', hs_bucket = new ''.bucket''\<rparr>)
      in add_levels D c (suffixed ''.bucket'' i) seen
          (add_levels D c (extremum_info ''.max'' i) seen
            (add_levels D c (extremum_info ''.min'' i) seen
              (add_levels D c (sum_info i) seen
                (add_levels D c (count_level_info i) seen (hs_batch h))))))"

section \<open>Summaries\<close>

fun quantile_loop ::
  "metric_deps \<Rightarrow> point_ctx \<Rightarrow> metric_info \<Rightarrow> summary_point \<Rightarrow> (go_float \<times> go_float) list \<Rightarrow>
    batch \<times> reducer option \<Rightarrow> batch \<times> reducer option" where
  "quantile_loop D c i dp [] br = br"
| "quantile_loop D c i dp ((q, v) # qs) br =
     quantile_loop D c i dp qs
       (add_point D c i (sp_Attributes dp) [(''quantile'', FormatFloat q), temporality_label D i]
         (UnixMilli (sp_Timestamp dp)) v (sp_Flags dp) br)"

record summary_state =
  ss_batch :: batch
  ss_count :: "reducer option"
  ss_sum :: "reducer option"
  ss_quantile :: "reducer option"

definition summary_sample ::
  "metric_deps \<Rightarrow> point_ctx \<Rightarrow> metric_info \<Rightarrow> summary_point \<Rightarrow> go_float \<Rightarrow> batch \<times> reducer option \<Rightarrow> batch \<times> reducer option" where
  "summary_sample D c i dp value br =
     add_point D c i (sp_Attributes dp) [temporality_label D i] (UnixMilli (sp_Timestamp dp)) value (sp_Flags dp) br"

definition summary_point_rows ::
  "metric_deps \<Rightarrow> point_ctx \<Rightarrow> metric_info \<Rightarrow> summary_point \<Rightarrow> summary_state \<Rightarrow> summary_state" where
  "summary_point_rows D c i dp s =
     (let (b, rc) = summary_sample D c (count_info i) dp (float_of_uint (sp_Count dp)) (ss_batch s, ss_count s);
          (b, rs) = summary_sample D c (sum_info i) dp (sp_Sum dp) (b, ss_sum s);
          (b, rq) = quantile_loop D c (quantile_info i) dp (QuantileValues dp) (b, ss_quantile s)
      in \<lparr>ss_batch = b, ss_count = rc, ss_sum = rs, ss_quantile = rq\<rparr>)"

definition summary_step ::
  "metric_deps \<Rightarrow> point_ctx \<Rightarrow> metric_info \<Rightarrow> summary_point \<Rightarrow> (int \<times> int) \<times> summary_state \<Rightarrow> (int \<times> int) \<times> summary_state" where
  "summary_step D c i dp st =
     (let seen = see (UnixMilli (sp_Timestamp dp)) (fst st);
          skip = (IsNaN (sp_Sum dp) \<or> list_ex (\<lambda>qv. IsNaN (snd qv)) (QuantileValues dp))
      in if skip then (seen, snd st) else (seen, summary_point_rows D c i dp (snd st)))"

definition processSummary :: "metric_deps \<Rightarrow> point_ctx \<Rightarrow> metric \<Rightarrow> summary_point list \<Rightarrow> batch \<Rightarrow> batch" where
  "processSummary D c m points b =
     (let i = base_info m MetricTypeSummary Cumulative True;
          new = (\<lambda>suffix. new_reducer D c (mt_Name m @ suffix));
          (seen, s) = fold (summary_step D c i) points
            (unseen, \<lparr>ss_batch = b, ss_count = new ''.count'', ss_sum = new ''.sum'', ss_quantile = new ''.quantile''\<rparr>)
      in add_levels D c (quantile_info i) seen
          (add_levels D c (sum_info i) seen
            (add_levels D c (count_level_info i) seen (ss_batch s))))"

section \<open>Exponential histograms\<close>

text \<open>They are not reduced: the reducer is nil.\<close>

definition exp_sample ::
  "metric_deps \<Rightarrow> point_ctx \<Rightarrow> metric_info \<Rightarrow> exponential_point \<Rightarrow> go_float \<Rightarrow> batch \<Rightarrow> batch" where
  "exp_sample D c i dp value b =
     fst (add_point D c i (ep_Attributes dp) [temporality_label D i] (UnixMilli (ep_Timestamp dp)) value (ep_Flags dp) (b, None))"

definition toStore :: "int \<times> 64 word list \<Rightarrow> store" where
  "toStore buckets =
     \<lparr>ContiguousBinIndexOffset = fst buckets, ContiguousBinCounts = map float_of_uint (snd buckets)\<rparr>"

text \<open>The scale is an \<open>int32\<close>, and so is its negation.\<close>

definition neg32 :: "int \<Rightarrow> int" where
  "neg32 x = (- x + 2 ^ 31) mod 2 ^ 32 - 2 ^ 31"

definition ddsketch :: "metric_deps \<Rightarrow> exponential_point \<Rightarrow> sketch" where
  "ddsketch D dp =
     \<lparr>Gamma = math_Pow D (Finite 2) (math_Pow D (Finite 2) (float_of_int (neg32 (ep_Scale dp)))),
      PositiveValues = toStore (ep_Positive dp), NegativeValues = toStore (ep_Negative dp),
      ZeroCount = float_of_uint (ep_ZeroCount dp)\<rparr>"

definition addDDSketchSample ::
  "metric_deps \<Rightarrow> point_ctx \<Rightarrow> metric_info \<Rightarrow> exponential_point \<Rightarrow> batch \<Rightarrow> batch" where
  "addDDSketchSample D c i dp b =
     (let ms = UnixMilli (ep_Timestamp dp); fp = point_fingerprint c (ep_Attributes dp) [temporality_label D i];
          b = addExpHist
            \<lparr>h_env = c_env c, h_temporality = i_temporality i, h_metricName = i_name i,
             h_fingerprint = HashWithName fp (i_name i), h_unixMilli = ms, h_sketch = ddsketch D dp,
             h_count = float_of_uint (ep_Count dp), h_sum = getter (ep_Sum dp), h_min = getter (ep_Min dp),
             h_max = getter (ep_Max dp), h_flags = ep_Flags dp\<rparr> b
      in addTs (raw_ts c i fp 0 ms) (addMetadata (clock D) i fp ms ms b))"

definition exp_point_rows :: "metric_deps \<Rightarrow> point_ctx \<Rightarrow> metric_info \<Rightarrow> exponential_point \<Rightarrow> batch \<Rightarrow> batch" where
  "exp_point_rows D c i dp b =
     (let b = exp_sample D c (count_info i) dp (float_of_uint (ep_Count dp)) b;
          b = (case ep_Sum dp of None \<Rightarrow> b | Some v \<Rightarrow> exp_sample D c (sum_info i) dp v b);
          b = (case ep_Min dp of None \<Rightarrow> b | Some v \<Rightarrow> exp_sample D c (extremum_info ''.min'' i) dp v b);
          b = (case ep_Max dp of None \<Rightarrow> b | Some v \<Rightarrow> exp_sample D c (extremum_info ''.max'' i) dp v b)
      in addDDSketchSample D c i dp b)"

definition exp_step ::
  "metric_deps \<Rightarrow> point_ctx \<Rightarrow> metric_info \<Rightarrow> exponential_point \<Rightarrow> (int \<times> int) \<times> batch \<Rightarrow> (int \<times> int) \<times> batch" where
  "exp_step D c i dp st =
     (let seen = see (UnixMilli (ep_Timestamp dp)) (fst st)
      in if IsNaN (getter (ep_Sum dp)) \<or> IsNaN (getter (ep_Min dp)) \<or> IsNaN (getter (ep_Max dp)) then (seen, snd st)
         else (seen, exp_point_rows D c i dp (snd st)))"

definition processExponentialHistogram ::
  "metric_deps \<Rightarrow> point_ctx \<Rightarrow> metric \<Rightarrow> Temporality \<Rightarrow> exponential_point list \<Rightarrow> batch \<Rightarrow> batch" where
  "processExponentialHistogram D c m temporality points b =
     (if \<not> enableExpHist D \<or> temporality \<noteq> Delta then b
      else
        (let i = base_info m MetricTypeExponentialHistogram temporality True;
             (seen, b) = fold (exp_step D c i) points (unseen, b)
         in add_levels D c (extremum_info ''.max'' i) seen
             (add_levels D c (extremum_info ''.min'' i) seen
               (add_levels D c (sum_info i) seen
                 (add_levels D c (count_level_info i) seen b)))))"

section \<open>The batch of a request\<close>

definition process_metric :: "metric_deps \<Rightarrow> point_ctx \<Rightarrow> metric \<Rightarrow> batch \<Rightarrow> batch" where
  "process_metric D c m b =
     (case mt_Data m of
        GaugeData ps \<Rightarrow> processGauge D c m ps b
      | SumData t monotonic ps \<Rightarrow> processSum D c m t monotonic ps b
      | HistogramData t ps \<Rightarrow> processHistogram D c m t ps b
      | SummaryData ps \<Rightarrow> processSummary D c m ps b
      | ExponentialData t ps \<Rightarrow> processExponentialHistogram D c m t ps b
      | EmptyData \<Rightarrow> b)"

definition resource_env :: "Attributes \<Rightarrow> string" where
  "resource_env attrs =
     (case find (\<lambda>a. Key a = ''deployment.environment'') attrs of None \<Rightarrow> [] | Some a \<Rightarrow> Val (AttrValue a))"

definition scope_ctx :: "resource_metrics \<Rightarrow> scope_metrics \<Rightarrow> point_ctx" where
  "scope_ctx rm sm =
     (let resource = NewFingerprint ResourceFingerprintType InitialOffset (rm_Attributes rm) []
      in \<lparr>c_env = resource_env (rm_Attributes rm), c_resource = resource,
          c_scope = NewFingerprint ScopeFingerprintType (fp_hash resource) (sm_Attributes sm)
            [(''__scope.name__'', sm_Name sm), (''__scope.version__'', sm_Version sm),
             (''__scope.schema_url__'', sm_SchemaUrl sm)]\<rparr>)"

definition prepareBatch :: "metric_deps \<Rightarrow> resource_metrics list \<Rightarrow> batch" where
  "prepareBatch D md =
     fold (\<lambda>rm. fold (\<lambda>sm. fold (process_metric D (scope_ctx rm sm)) (sm_Metrics sm)) (rm_Scopes rm)) md newBatch"

end
