(* ===== verification/Metrics_Series.thy ===== *)
theory Metrics_Series
  imports Metrics_Exporter
begin

text \<open>
  What the metrics exporter prepares for a request: every sample and sketch has the row of its series
  in the same batch, and the samples are exactly those the telemetry asks for, in order.
\<close>

section \<open>Every sample has its series\<close>

lemma addMetadata_frame [simp]:
  "b_samples (addMetadata now i fp f l b) = b_samples b"
  "b_ts (addMetadata now i fp f l b) = b_ts b"
  "b_expHist (addMetadata now i fp f l b) = b_expHist b"
proof -
  have "b_samples (fold add_row rows b) = b_samples b \<and> b_ts (fold add_row rows b) = b_ts b
    \<and> b_expHist (fold add_row rows b) = b_expHist b" for rows
    by (induction rows arbitrary: b) (simp_all add: add_row_def split: option.splits)
  then show "b_samples (addMetadata now i fp f l b) = b_samples b"
    "b_ts (addMetadata now i fp f l b) = b_ts b"
    "b_expHist (addMetadata now i fp f l b) = b_expHist b"
    by (simp_all add: addMetadata_def)
qed

lemma add_levels_frame [simp]:
  "b_samples (add_levels D c i seen b) = b_samples b"
  "b_ts (add_levels D c i seen b) = b_ts b"
  "b_expHist (add_levels D c i seen b) = b_expHist b"
  by (simp_all add: add_levels_def)

definition has_series :: "batch \<Rightarrow> bool \<Rightarrow> string \<Rightarrow> 64 word \<Rightarrow> bool" where
  "has_series b reduced name fp \<longleftrightarrow>
     (\<exists>t \<in> set (b_ts b). t_isReduced t = reduced \<and> t_metricName t = name \<and> t_fingerprint t = fp)"

definition sample_ok :: "batch \<Rightarrow> sample \<Rightarrow> bool" where
  "sample_ok b s \<longleftrightarrow> has_series b False (s_metricName s) (s_fingerprint s)
     \<and> (s_reducedFingerprint s = 0 \<or> has_series b True (s_metricName s) (s_reducedFingerprint s))
     \<and> \<not> IsNaN (s_value s)"

definition exp_ok :: "batch \<Rightarrow> expHistSample \<Rightarrow> bool" where
  "exp_ok b h \<longleftrightarrow> has_series b False (h_metricName h) (h_fingerprint h)
     \<and> \<not> IsNaN (h_sum h) \<and> \<not> IsNaN (h_min h) \<and> \<not> IsNaN (h_max h)"

definition batch_ok :: "batch \<Rightarrow> bool" where
  "batch_ok b \<longleftrightarrow> list_all (sample_ok b) (b_samples b) \<and> list_all (exp_ok b) (b_expHist b)"

text \<open>The series a reducer has seen are in the batch.\<close>

definition seen_ok :: "string \<Rightarrow> batch \<Rightarrow> reducer option \<Rightarrow> bool" where
  "seen_ok name b r \<longleftrightarrow> (\<forall>r0. r = Some r0 \<longrightarrow> (\<forall>fp \<in> set (red_seen r0). has_series b True name fp))"

definition grows :: "batch \<Rightarrow> batch \<Rightarrow> bool" where
  "grows b b' \<longleftrightarrow> set (b_ts b) \<subseteq> set (b_ts b')"

lemma grows_trans: "grows a b \<Longrightarrow> grows b c \<Longrightarrow> grows a c"
  by (auto simp: grows_def)

lemma grows_series: "grows b b' \<Longrightarrow> has_series b red name fp \<Longrightarrow> has_series b' red name fp"
  by (auto simp: grows_def has_series_def)

lemma grows_seen: "grows b b' \<Longrightarrow> seen_ok name b r \<Longrightarrow> seen_ok name b' r"
  by (auto simp: seen_ok_def grows_series)

lemma grows_rows:
  assumes "grows b b'"
  shows "list_all (sample_ok b) ss \<Longrightarrow> list_all (sample_ok b') ss" "list_all (exp_ok b) hs \<Longrightarrow> list_all (exp_ok b') hs"
  using grows_series [OF assms] by (auto simp: list_all_iff sample_ok_def exp_ok_def)

lemma add_reduced_cases:
  "add_reduced raw reduced b r = (b', r') \<Longrightarrow>
     b_samples b' = b_samples b \<and> b_expHist b' = b_expHist b \<and>
     (b_ts b' = b_ts b \<or> (\<exists>rs. reduced = Some rs \<and> b_ts b' = b_ts b @ [reducedTsFrom raw rs]))"
  by (auto simp: add_reduced_def firstSeen_def addTs_def Let_def split: option.splits if_splits prod.splits)

lemma reducedTsFrom_facts [simp]:
  "t_isReduced (reducedTsFrom raw rs)" "t_metricName (reducedTsFrom raw rs) = t_metricName raw"
  "t_fingerprint (reducedTsFrom raw rs) = rs_fingerprint rs"
  by (simp_all add: reducedTsFrom_def Let_def)

lemma raw_ts_facts [simp]:
  "\<not> t_isReduced (raw_ts c i fp red ms)" "t_metricName (raw_ts c i fp red ms) = i_name i"
  "t_fingerprint (raw_ts c i fp red ms) = HashWithName fp (i_name i)"
  by (simp_all add: raw_ts_def Let_def)

lemma reduce_seen:
  "reduce fp name ms r = (reduced, r') \<Longrightarrow>
     (reduced = None \<or> r' \<noteq> None) \<and> (\<forall>b n. seen_ok n b r' = seen_ok n b r)"
  by (auto simp: reduce_def seen_ok_def Let_def split: option.splits if_splits prod.splits)

lemma add_reduced_seen:
  assumes "add_reduced raw reduced b r = (b', r')" "seen_ok (t_metricName raw) b r" "reduced = None \<or> r \<noteq> None"
  shows "seen_ok (t_metricName raw) b' r' \<and>
    (fingerprintOrZero reduced = 0 \<or> has_series b' True (t_metricName raw) (fingerprintOrZero reduced))"
  using assms
  by (auto simp: add_reduced_def firstSeen_def addTs_def seen_ok_def has_series_def fingerprintOrZero_def Let_def
      split: option.splits if_splits prod.splits)

lemma add_point_ok:
  assumes "batch_ok b" "seen_ok (i_name i) b r" "\<not> IsNaN v"
    "add_point D c i attrs extras ms v flags (b, r) = (b', r')"
  shows "batch_ok b' \<and> seen_ok (i_name i) b' r' \<and> grows b b'"
proof -
  let ?fp = "point_fingerprint c attrs extras"
  obtain reduced r1 where red: "reduce ?fp (i_name i) ms r = (reduced, r1)" by fastforce
  let ?s = "raw_sample c i (HashWithName ?fp (i_name i)) (fingerprintOrZero reduced) ms v flags"
  let ?raw = "raw_ts c i ?fp (fingerprintOrZero reduced) ms"
  let ?b1 = "addTs ?raw (addMetadata (clock D) i ?fp ms ms (addSample ?s b))"
  have step: "add_reduced ?raw reduced ?b1 r1 = (b', r')"
    using assms(4) red by (simp add: add_point_def Let_def)
  have b1: "b_samples ?b1 = b_samples b @ [?s]" "b_expHist ?b1 = b_expHist b" "b_ts ?b1 = b_ts b @ [?raw]"
    by (simp_all add: addTs_def addSample_def)
  note cases = add_reduced_cases [OF step, unfolded b1]
  have g: "grows b b'" "grows ?b1 b'" using cases b1 by (auto simp: grows_def)
  have "seen_ok (i_name i) ?b1 r1"
    using assms(2) reduce_seen [OF red] b1(3) by (auto simp: seen_ok_def has_series_def)
  then have seen: "seen_ok (i_name i) b' r'"
    "fingerprintOrZero reduced = 0 \<or> has_series b' True (i_name i) (fingerprintOrZero reduced)"
    using add_reduced_seen [OF step] reduce_seen [OF red] by auto
  have "has_series ?b1 False (i_name i) (HashWithName ?fp (i_name i))"
    using b1(3) raw_ts_facts by (fastforce simp: has_series_def)
  then have "sample_ok b' ?s"
    using seen(2) assms(3) grows_series [OF g(2)] by (simp add: sample_ok_def raw_sample_def)
  then have "batch_ok b'"
    using cases grows_rows [OF g(1)] assms(1) by (auto simp: batch_ok_def)
  with seen(1) g(1) show ?thesis by simp
qed

text \<open>A step on the batch and the reducer of one series name that keeps the batch in order.\<close>

definition keeps :: "string \<Rightarrow> (batch \<times> reducer option \<Rightarrow> batch \<times> reducer option) \<Rightarrow> bool" where
  "keeps name f \<longleftrightarrow>
     (\<forall>b r b' r'. batch_ok b \<longrightarrow> seen_ok name b r \<longrightarrow> f (b, r) = (b', r') \<longrightarrow>
        batch_ok b' \<and> seen_ok name b' r' \<and> grows b b')"

lemma keepsD:
  assumes "keeps name f" "batch_ok b" "seen_ok name b r"
  shows "batch_ok (fst (f (b, r)))" "seen_ok name (fst (f (b, r))) (snd (f (b, r)))" "grows b (fst (f (b, r)))"
  using assms unfolding keeps_def by (metis prod.collapse)+

lemma keeps_comp:
  assumes "keeps name f" "keeps name g"
  shows "keeps name (\<lambda>br. g (f br))"
  unfolding keeps_def
proof (intro allI impI)
  fix b r b' r'
  assume ok: "batch_ok b" "seen_ok name b r" and gf: "g (f (b, r)) = (b', r')"
  note 1 = keepsD [OF assms(1) ok] and 2 = keepsD [OF assms(2) keepsD(1,2) [OF assms(1) ok]]
  from 2(1,2) grows_trans [OF 1(3) 2(3)] gf show "batch_ok b' \<and> seen_ok name b' r' \<and> grows b b'" by simp
qed

lemma keeps_add_point: "\<not> IsNaN v \<Longrightarrow> keeps (i_name i) (add_point D c i attrs extras ms v flags)"
  unfolding keeps_def using add_point_ok by blast

lemma not_NaN_uint [simp]: "\<not> IsNaN (float_of_uint n)"
  by (simp add: float_of_uint_def)

lemma keeps_bucket_loop: "keeps (i_name i) (bucket_loop D c i dp bounds counts cum)"
proof (induction bounds arbitrary: counts cum)
  case (Cons bound bounds)
  show ?case
  proof (cases counts)
    case (Cons n ns)
    then show ?thesis using keeps_comp [OF keeps_add_point Cons.IH] by simp
  qed (simp add: keeps_def grows_def)
qed (simp add: keeps_def grows_def)

lemma keeps_addBucketSample: "keeps (i_name i) (addBucketSample D c i dp)"
  using keeps_comp [OF keeps_bucket_loop keeps_add_point [OF not_NaN_uint]]
  unfolding addBucketSample_def [abs_def] by simp

lemma keeps_quantile_loop:
  "\<not> list_ex (\<lambda>qv. IsNaN (snd qv)) qs \<Longrightarrow> keeps (i_name i) (quantile_loop D c i dp qs)"
proof (induction qs)
  case (Cons qv qs)
  then show ?case by (cases qv) (use keeps_comp [OF keeps_add_point Cons.IH] in simp)
qed (simp add: keeps_def grows_def)

lemma new_reducer_seen: "seen_ok name b (new_reducer D c n)"
  by (auto simp: seen_ok_def new_reducer_def newReducerFor_def split: if_splits)

lemma batch_ok_levels [simp]: "batch_ok (add_levels D c i seen b) = batch_ok b"
proof -
  have "has_series (add_levels D c i seen b) = has_series b" by (simp add: has_series_def fun_eq_iff)
  then show ?thesis by (simp add: batch_ok_def sample_ok_def [abs_def] exp_ok_def [abs_def])
qed

lemma batch_ok_numbers:
  assumes "batch_ok b"
  shows "batch_ok (process_numbers D c i points b)"
proof -
  have "batch_ok (fst (snd (fold (number_step D c i) points (seen, b, r))))"
    if "batch_ok b" "seen_ok (i_name i) b r" for seen b r
    using that
  proof (induction points arbitrary: seen b r)
    case (Cons dp points)
    let ?st = "number_step D c i dp (seen, b, r)"
    have "batch_ok (fst (snd ?st)) \<and> seen_ok (i_name i) (fst (snd ?st)) (snd (snd ?st))"
      using Cons.prems keepsD [OF keeps_add_point Cons.prems]
      by (cases "IsNaN (number_value (np_Value dp))") (simp_all add: number_step_def Let_def)
    with Cons.IH [of "fst (snd ?st)" "snd (snd ?st)" "fst ?st"] show ?case by simp
  qed simp
  from this [OF assms new_reducer_seen, where seen = unseen] show ?thesis
    by (simp add: process_numbers_def case_prod_beta)
qed

text \<open>The reducers of a histogram, each with its name.\<close>

definition hist_ok :: "metric_info \<Rightarrow> hist_state \<Rightarrow> bool" where
  "hist_ok i h \<longleftrightarrow> batch_ok (hs_batch h)
     \<and> seen_ok (i_name (count_info i)) (hs_batch h) (hs_count h) \<and> seen_ok (i_name (sum_info i)) (hs_batch h) (hs_sum h)
     \<and> seen_ok (i_name (extremum_info ''.min'' i)) (hs_batch h) (hs_min h)
     \<and> seen_ok (i_name (extremum_info ''.max'' i)) (hs_batch h) (hs_max h)
     \<and> seen_ok (i_name (suffixed ''.bucket'' i)) (hs_batch h) (hs_bucket h)"

lemma keeps_hist_sample: "\<not> IsNaN v \<Longrightarrow> keeps (i_name i) (hist_sample D c i dp v)"
  unfolding hist_sample_def by (rule keeps_add_point)

lemma hist_ok_count:
  assumes "hist_ok i h"
  shows "hist_ok i (hist_count D c i dp h)"
proof -
  have ok: "batch_ok (hs_batch h)" "seen_ok (i_name (count_info i)) (hs_batch h) (hs_count h)" using assms by (simp_all add: hist_ok_def)
  note keepsD(1,2) [OF keeps_hist_sample ok] grows_seen [OF keepsD(3) [OF keeps_hist_sample ok]]
  with assms show ?thesis by (auto simp: hist_ok_def hist_count_def case_prod_beta getter_def split: option.splits)
qed

lemma hist_ok_sum:
  assumes "hist_ok i h" "\<not> IsNaN (getter (hp_Sum dp))"
  shows "hist_ok i (hist_sum D c i dp h)"
proof -
  have ok: "batch_ok (hs_batch h)" "seen_ok (i_name (sum_info i)) (hs_batch h) (hs_sum h)" using assms by (simp_all add: hist_ok_def)
  note keepsD(1,2) [OF keeps_hist_sample ok] grows_seen [OF keepsD(3) [OF keeps_hist_sample ok]]
  with assms show ?thesis by (auto simp: hist_ok_def hist_sum_def case_prod_beta getter_def split: option.splits)
qed

lemma hist_ok_min:
  assumes "hist_ok i h" "\<not> IsNaN (getter (hp_Min dp))"
  shows "hist_ok i (hist_min D c i dp h)"
proof -
  have ok: "batch_ok (hs_batch h)" "seen_ok (i_name (extremum_info ''.min'' i)) (hs_batch h) (hs_min h)" using assms by (simp_all add: hist_ok_def)
  note keepsD(1,2) [OF keeps_hist_sample ok] grows_seen [OF keepsD(3) [OF keeps_hist_sample ok]]
  with assms show ?thesis by (auto simp: hist_ok_def hist_min_def case_prod_beta getter_def split: option.splits)
qed

lemma hist_ok_max:
  assumes "hist_ok i h" "\<not> IsNaN (getter (hp_Max dp))"
  shows "hist_ok i (hist_max D c i dp h)"
proof -
  have ok: "batch_ok (hs_batch h)" "seen_ok (i_name (extremum_info ''.max'' i)) (hs_batch h) (hs_max h)" using assms by (simp_all add: hist_ok_def)
  note keepsD(1,2) [OF keeps_hist_sample ok] grows_seen [OF keepsD(3) [OF keeps_hist_sample ok]]
  with assms show ?thesis by (auto simp: hist_ok_def hist_max_def case_prod_beta getter_def split: option.splits)
qed

lemma hist_ok_buckets:
  assumes "hist_ok i h"
  shows "hist_ok i (hist_buckets D c i dp h)"
proof -
  have ok: "batch_ok (hs_batch h)" "seen_ok (i_name (suffixed ''.bucket'' i)) (hs_batch h) (hs_bucket h)" using assms by (simp_all add: hist_ok_def)
  note keepsD(1,2) [OF keeps_addBucketSample ok] grows_seen [OF keepsD(3) [OF keeps_addBucketSample ok]]
  with assms show ?thesis by (auto simp: hist_ok_def hist_buckets_def case_prod_beta getter_def split: option.splits)
qed

lemma batch_ok_histogram:
  assumes "batch_ok b"
  shows "batch_ok (processHistogram D c m temporality points b)"
proof -
  have "hist_ok i (snd (fold (hist_step D c i) points (seen, h)))" if "hist_ok i h" for i seen h
    using that
  proof (induction points arbitrary: seen h)
    case (Cons dp points)
    have "hist_ok i (snd (hist_step D c i dp (seen, h)))"
      using Cons.prems
      by (auto simp: hist_step_def Let_def intro!: hist_ok_buckets hist_ok_max hist_ok_min hist_ok_sum hist_ok_count)
    with Cons.IH [of "snd (hist_step D c i dp (seen, h))" "fst (hist_step D c i dp (seen, h))"] show ?case by simp
  qed simp
  moreover have "hist_ok i \<lparr>hs_batch = b, hs_count = new_reducer D c n1, hs_sum = new_reducer D c n2,
      hs_min = new_reducer D c n3, hs_max = new_reducer D c n4, hs_bucket = new_reducer D c n5\<rparr>" for i n1 n2 n3 n4 n5
    using assms by (simp add: hist_ok_def new_reducer_seen)
  ultimately have "batch_ok (hs_batch (snd (fold (hist_step D c i) points (seen,
      \<lparr>hs_batch = b, hs_count = new_reducer D c n1, hs_sum = new_reducer D c n2,
       hs_min = new_reducer D c n3, hs_max = new_reducer D c n4, hs_bucket = new_reducer D c n5\<rparr>))))" for i seen n1 n2 n3 n4 n5
    unfolding hist_ok_def by blast
  then show ?thesis by (simp add: processHistogram_def Let_def case_prod_beta)
qed

definition summary_ok :: "metric_info \<Rightarrow> summary_state \<Rightarrow> bool" where
  "summary_ok i s \<longleftrightarrow> batch_ok (ss_batch s)
     \<and> seen_ok (i_name (count_info i)) (ss_batch s) (ss_count s) \<and> seen_ok (i_name (sum_info i)) (ss_batch s) (ss_sum s)
     \<and> seen_ok (i_name (quantile_info i)) (ss_batch s) (ss_quantile s)"

lemma keeps_summary_sample: "\<not> IsNaN v \<Longrightarrow> keeps (i_name i) (summary_sample D c i dp v)"
  unfolding summary_sample_def by (rule keeps_add_point)

lemma summary_ok_rows:
  assumes "summary_ok i s" "\<not> IsNaN (sp_Sum dp)" "\<not> list_ex (\<lambda>qv. IsNaN (snd qv)) (QuantileValues dp)"
  shows "summary_ok i (summary_point_rows D c i dp s)"
proof -
  let ?n1 = "i_name (count_info i)" and ?n2 = "i_name (sum_info i)" and ?n3 = "i_name (quantile_info i)"
  let ?x1 = "summary_sample D c (count_info i) dp (float_of_uint (sp_Count dp)) (ss_batch s, ss_count s)"
  let ?x2 = "summary_sample D c (sum_info i) dp (sp_Sum dp) (fst ?x1, ss_sum s)"
  let ?x3 = "quantile_loop D c (quantile_info i) dp (QuantileValues dp) (fst ?x2, ss_quantile s)"
  have ok: "batch_ok (ss_batch s)" "seen_ok ?n1 (ss_batch s) (ss_count s)" "seen_ok ?n2 (ss_batch s) (ss_sum s)"
    "seen_ok ?n3 (ss_batch s) (ss_quantile s)" using assms(1) by (simp_all add: summary_ok_def)
  note k1 = keepsD [OF keeps_summary_sample [OF not_NaN_uint] ok(1,2), of D c dp "sp_Count dp"]
  note k2 = keepsD [OF keeps_summary_sample [OF assms(2)] k1(1) grows_seen [OF k1(3) ok(3)], of D c dp]
  note k3 = keepsD [OF keeps_quantile_loop [OF assms(3)] k2(1) grows_seen [OF k2(3) grows_seen [OF k1(3) ok(4)]], of D c dp]
  have "seen_ok ?n1 (fst ?x3) (snd ?x1)" "seen_ok ?n2 (fst ?x3) (snd ?x2)"
    using grows_seen [OF grows_trans [OF k2(3) k3(3)] k1(2)] grows_seen [OF k3(3) k2(2)] .
  with k3 show ?thesis by (simp add: summary_point_rows_def summary_ok_def Let_def case_prod_beta)
qed

lemma batch_ok_summary:
  assumes "batch_ok b"
  shows "batch_ok (processSummary D c m points b)"
proof -
  have "summary_ok i (snd (fold (summary_step D c i) points (seen, s)))" if "summary_ok i s" for i seen s
    using that
  proof (induction points arbitrary: seen s)
    case (Cons dp points)
    have "summary_ok i (snd (summary_step D c i dp (seen, s)))"
      using Cons.prems summary_ok_rows [OF Cons.prems] by (simp add: summary_step_def Let_def)
    with Cons.IH [of "snd (summary_step D c i dp (seen, s))" "fst (summary_step D c i dp (seen, s))"] show ?case by simp
  qed simp
  moreover have "summary_ok i \<lparr>ss_batch = b, ss_count = new_reducer D c n1, ss_sum = new_reducer D c n2,
      ss_quantile = new_reducer D c n3\<rparr>" for i n1 n2 n3
    using assms by (simp add: summary_ok_def new_reducer_seen)
  ultimately have "batch_ok (ss_batch (snd (fold (summary_step D c i) points (seen,
      \<lparr>ss_batch = b, ss_count = new_reducer D c n1, ss_sum = new_reducer D c n2, ss_quantile = new_reducer D c n3\<rparr>))))"
    for i seen n1 n2 n3
    unfolding summary_ok_def by blast
  then show ?thesis by (simp add: processSummary_def Let_def case_prod_beta)
qed

lemma batch_ok_exp_sample: "batch_ok b \<Longrightarrow> \<not> IsNaN v \<Longrightarrow> batch_ok (exp_sample D c i dp v b)"
  unfolding exp_sample_def by (rule keepsD(1) [OF keeps_add_point]) (simp_all add: seen_ok_def)

lemma batch_ok_sketch:
  assumes "batch_ok b" "\<not> IsNaN (getter (ep_Sum dp))" "\<not> IsNaN (getter (ep_Min dp))" "\<not> IsNaN (getter (ep_Max dp))"
  shows "batch_ok (addDDSketchSample D c i dp b)"
proof -
  let ?b = "addDDSketchSample D c i dp b"
  let ?fp = "point_fingerprint c (ep_Attributes dp) [temporality_label D i]"
  obtain h where h: "b_expHist ?b = b_expHist b @ [h]" "h_metricName h = i_name i" "h_fingerprint h = HashWithName ?fp (i_name i)"
    "h_sum h = getter (ep_Sum dp)" "h_min h = getter (ep_Min dp)" "h_max h = getter (ep_Max dp)"
    by (simp add: addDDSketchSample_def addTs_def addExpHist_def Let_def)
  have b: "b_samples ?b = b_samples b" "b_ts ?b = b_ts b @ [raw_ts c i ?fp 0 (UnixMilli (ep_Timestamp dp))]"
    by (simp_all add: addDDSketchSample_def addTs_def addExpHist_def Let_def)
  have g: "grows b ?b" by (auto simp: grows_def b)
  have "has_series ?b False (i_name i) (HashWithName ?fp (i_name i))"
    unfolding has_series_def b using raw_ts_facts by fastforce
  then have "exp_ok ?b h" using h assms by (simp add: exp_ok_def)
  with assms(1) grows_rows [OF g] show ?thesis by (simp add: batch_ok_def h(1) b(1))
qed

lemma batch_ok_exp_rows:
  assumes "batch_ok b" "\<not> IsNaN (getter (ep_Sum dp))" "\<not> IsNaN (getter (ep_Min dp))" "\<not> IsNaN (getter (ep_Max dp))"
  shows "batch_ok (exp_point_rows D c i dp b)"
  unfolding exp_point_rows_def Let_def
  using assms(2-)
  by (intro batch_ok_sketch assms(2-))
    (auto simp: getter_def intro!: batch_ok_exp_sample assms(1) split: option.splits)

lemma batch_ok_exponential:
  assumes "batch_ok b"
  shows "batch_ok (processExponentialHistogram D c m temporality points b)"
proof -
  have "batch_ok (snd (fold (exp_step D c i) points (seen, b)))" if "batch_ok b" for i seen b
    using that
  proof (induction points arbitrary: seen b)
    case (Cons dp points)
    have "batch_ok (snd (exp_step D c i dp (seen, b)))"
      using Cons.prems batch_ok_exp_rows [OF Cons.prems] by (simp add: exp_step_def Let_def)
    with Cons.IH [of "snd (exp_step D c i dp (seen, b))" "fst (exp_step D c i dp (seen, b))"] show ?case by simp
  qed simp
  with assms show ?thesis by (simp add: processExponentialHistogram_def Let_def case_prod_beta)
qed

lemma batch_ok_metric: "batch_ok b \<Longrightarrow> batch_ok (process_metric D c m b)"
  by (simp add: process_metric_def processGauge_def processSum_def batch_ok_numbers batch_ok_histogram
      batch_ok_summary batch_ok_exponential split: metric_data.splits)

lemma fold_keeps: "(\<And>x b. P b \<Longrightarrow> P (f x b)) \<Longrightarrow> P b \<Longrightarrow> P (fold f xs b)"
  by (induction xs arbitrary: b) auto

lemma batch_ok_prepareBatch: "batch_ok (prepareBatch D md)"
  unfolding prepareBatch_def
  by (intro fold_keeps [where P = batch_ok] batch_ok_metric) (simp_all add: batch_ok_def newBatch_def)

text \<open>C23. In the rows prepared for any request, every sample has a row of its own series, and of its
  reduced series when it is reduced, under the same metric name; every sketch has a series row; no
  sample or sketch carries a value that is not a number.\<close>

theorem prepareBatch_samples_have_series:
  assumes "s \<in> set (b_samples (prepareBatch D md))"
  shows "(\<exists>t \<in> set (b_ts (prepareBatch D md)).
      \<not> t_isReduced t \<and> t_metricName t = s_metricName s \<and> t_fingerprint t = s_fingerprint s)
    \<and> (s_reducedFingerprint s = 0 \<or> (\<exists>t \<in> set (b_ts (prepareBatch D md)).
      t_isReduced t \<and> t_metricName t = s_metricName s \<and> t_fingerprint t = s_reducedFingerprint s))
    \<and> \<not> IsNaN (s_value s)"
  using batch_ok_prepareBatch [of D md] assms
  by (auto simp: batch_ok_def list_all_iff sample_ok_def has_series_def)

lemma prepareBatch_sketches_have_series:
  "h \<in> set (b_expHist (prepareBatch D md)) \<Longrightarrow> exp_ok (prepareBatch D md) h"
  using batch_ok_prepareBatch [of D md] by (auto simp: batch_ok_def list_all_iff)

section \<open>The samples of a request\<close>

text \<open>The reference: name, time and value of every sample, from the telemetry alone. The buckets of a
  histogram become cumulative counts.\<close>

definition sample_row :: "sample \<Rightarrow> string \<times> int \<times> go_float" where
  "sample_row s = (s_metricName s, s_unixMilli s, s_value s)"

definition number_rows :: "string \<Rightarrow> number_point \<Rightarrow> (string \<times> int \<times> go_float) list" where
  "number_rows name dp =
     (let v = number_value (np_Value dp) in if IsNaN v then [] else [(name, UnixMilli (np_Timestamp dp), v)])"

definition optional_row :: "string \<Rightarrow> int \<Rightarrow> go_float option \<Rightarrow> (string \<times> int \<times> go_float) list" where
  "optional_row name ms v = (case v of None \<Rightarrow> [] | Some x \<Rightarrow> [(name, ms, x)])"

definition bucket_rows :: "string \<Rightarrow> histogram_point \<Rightarrow> (string \<times> int \<times> go_float) list" where
  "bucket_rows name dp =
     map (\<lambda>k. (name, UnixMilli (hp_Timestamp dp), float_of_uint (sum_list (take (Suc k) (BucketCounts dp)))))
       [0..<min (length (ExplicitBounds dp)) (length (BucketCounts dp))]
     @ [(name, UnixMilli (hp_Timestamp dp), float_of_uint (hp_Count dp))]"

definition histogram_rows :: "string \<Rightarrow> histogram_point \<Rightarrow> (string \<times> int \<times> go_float) list" where
  "histogram_rows name dp =
     (let ms = UnixMilli (hp_Timestamp dp) in
      if IsNaN (getter (hp_Sum dp)) \<or> IsNaN (getter (hp_Min dp)) \<or> IsNaN (getter (hp_Max dp)) then []
      else [(name @ ''.count'', ms, float_of_uint (hp_Count dp))] @ optional_row (name @ ''.sum'') ms (hp_Sum dp)
        @ optional_row (name @ ''.min'') ms (hp_Min dp) @ optional_row (name @ ''.max'') ms (hp_Max dp)
        @ bucket_rows (name @ ''.bucket'') dp)"

definition summary_rows :: "string \<Rightarrow> summary_point \<Rightarrow> (string \<times> int \<times> go_float) list" where
  "summary_rows name dp =
     (let ms = UnixMilli (sp_Timestamp dp) in
      if IsNaN (sp_Sum dp) \<or> list_ex (\<lambda>qv. IsNaN (snd qv)) (QuantileValues dp) then []
      else [(name @ ''.count'', ms, float_of_uint (sp_Count dp)), (name @ ''.sum'', ms, sp_Sum dp)]
        @ map (\<lambda>qv. (name @ ''.quantile'', ms, snd qv)) (QuantileValues dp))"

definition exponential_rows :: "string \<Rightarrow> exponential_point \<Rightarrow> (string \<times> int \<times> go_float) list" where
  "exponential_rows name dp =
     (let ms = UnixMilli (ep_Timestamp dp) in
      if IsNaN (getter (ep_Sum dp)) \<or> IsNaN (getter (ep_Min dp)) \<or> IsNaN (getter (ep_Max dp)) then []
      else [(name @ ''.count'', ms, float_of_uint (ep_Count dp))] @ optional_row (name @ ''.sum'') ms (ep_Sum dp)
        @ optional_row (name @ ''.min'') ms (ep_Min dp) @ optional_row (name @ ''.max'') ms (ep_Max dp))"

definition metric_rows :: "bool \<Rightarrow> metric \<Rightarrow> (string \<times> int \<times> go_float) list" where
  "metric_rows expHist m =
     (case mt_Data m of
        GaugeData ps \<Rightarrow> concat (map (number_rows (mt_Name m)) ps)
      | SumData _ _ ps \<Rightarrow> concat (map (number_rows (mt_Name m)) ps)
      | HistogramData _ ps \<Rightarrow> concat (map (histogram_rows (mt_Name m)) ps)
      | SummaryData ps \<Rightarrow> concat (map (summary_rows (mt_Name m)) ps)
      | ExponentialData t ps \<Rightarrow> if expHist \<and> t = Delta then concat (map (exponential_rows (mt_Name m)) ps) else []
      | EmptyData \<Rightarrow> [])"

abbreviation rows :: "batch \<Rightarrow> (string \<times> int \<times> go_float) list" where
  "rows b \<equiv> map sample_row (b_samples b)"

lemma rows_add_point [simp]:
  "rows (fst (add_point D c i attrs extras ms v flags br)) = rows (fst br) @ [(i_name i, ms, v)]"
proof -
  obtain reduced r where red: "reduce (point_fingerprint c attrs extras) (i_name i) ms (snd br) = (reduced, r)" by fastforce
  obtain b' r' where step: "add_point D c i attrs extras ms v flags br = (b', r')" by fastforce
  from red step show ?thesis
    using add_reduced_cases by (fastforce simp: add_point_def Let_def addTs_def addSample_def sample_row_def raw_sample_def)
qed

lemma rows_add_levels [simp]: "rows (add_levels D c i seen b) = rows b"
  by simp

lemma names [simp]:
  "i_name (count_info i) = i_name i @ ''.count''" "i_name (sum_info i) = i_name i @ ''.sum''"
  "i_name (extremum_info s i) = i_name i @ s" "i_name (suffixed s i) = i_name i @ s"
  "i_name (quantile_info i) = i_name i @ ''.quantile''" "i_name (base_info m typ t mn) = mt_Name m"
  by (simp_all add: count_info_def sum_info_def extremum_info_def suffixed_def quantile_info_def base_info_def)

lemma rows_bucket_loop:
  "rows (fst (bucket_loop D c i dp bounds counts cum br)) = rows (fst br) @
     map (\<lambda>k. (i_name i, UnixMilli (hp_Timestamp dp), float_of_uint (cum + sum_list (take (Suc k) counts))))
       [0..<min (length bounds) (length counts)]"
proof (induction bounds arbitrary: counts cum br)
  case (Cons bound bounds)
  show ?case
  proof (cases counts)
    case (Cons n ns)
    have "[0..<Suc (min (length bounds) (length ns))] = 0 # map Suc [0..<min (length bounds) (length ns)]"
      by (simp only: map_Suc_upt upt_conv_Cons zero_less_Suc)
    then show ?thesis by (simp add: Cons Cons.IH o_def add.assoc)
  qed simp
qed simp

lemma rows_addBucketSample:
  "rows (fst (addBucketSample D c i dp br)) = rows (fst br) @ bucket_rows (i_name i) dp"
  by (simp add: addBucketSample_def rows_bucket_loop bucket_rows_def)

lemma rows_quantile_loop:
  "rows (fst (quantile_loop D c i dp qs br)) =
     rows (fst br) @ map (\<lambda>qv. (i_name i, UnixMilli (sp_Timestamp dp), snd qv)) qs"
proof (induction qs arbitrary: br)
  case (Cons qv qs)
  then show ?case by (cases qv) (simp only: quantile_loop.simps rows_add_point, simp)
qed simp

text \<open>A loop whose steps append the rows of one point.\<close>

lemma rows_fold:
  assumes "\<And>x st. rows (get (step x st)) = rows (get st) @ f x"
  shows "rows (get (fold step xs st)) = rows (get st) @ concat (map f xs)"
  using assms by (induction xs arbitrary: st) auto

lemma rows_numbers: "rows (process_numbers D c i points b) = rows b @ concat (map (number_rows (i_name i)) points)"
  using rows_fold [of "\<lambda>st. fst (snd st)" "number_step D c i" "number_rows (i_name i)" points "(unseen, b, new_reducer D c (i_name i))"]
  by (simp add: process_numbers_def case_prod_beta number_step_def number_rows_def Let_def)

lemma rows_hist:
  "rows (hs_batch (hist_count D c i dp h)) = rows (hs_batch h) @ [(i_name i @ ''.count'', UnixMilli (hp_Timestamp dp), float_of_uint (hp_Count dp))]"
  "rows (hs_batch (hist_sum D c i dp h)) = rows (hs_batch h) @ optional_row (i_name i @ ''.sum'') (UnixMilli (hp_Timestamp dp)) (hp_Sum dp)"
  "rows (hs_batch (hist_min D c i dp h)) = rows (hs_batch h) @ optional_row (i_name i @ ''.min'') (UnixMilli (hp_Timestamp dp)) (hp_Min dp)"
  "rows (hs_batch (hist_max D c i dp h)) = rows (hs_batch h) @ optional_row (i_name i @ ''.max'') (UnixMilli (hp_Timestamp dp)) (hp_Max dp)"
  "rows (hs_batch (hist_buckets D c i dp h)) = rows (hs_batch h) @ bucket_rows (i_name i @ ''.bucket'') dp"
  by (simp_all add: hist_count_def hist_sum_def hist_min_def hist_max_def hist_buckets_def hist_sample_def
      rows_addBucketSample case_prod_beta optional_row_def split: option.splits)

lemma rows_histogram:
  "rows (processHistogram D c m t points b) = rows b @ concat (map (histogram_rows (mt_Name m)) points)"
proof -
  let ?i = "base_info m MetricTypeHistogram t True"
  have "rows (hs_batch (snd (hist_step D c ?i dp st))) = rows (hs_batch (snd st)) @ histogram_rows (mt_Name m) dp" for dp st
    by (simp add: hist_step_def histogram_rows_def rows_hist Let_def)
  from rows_fold [where get = "\<lambda>st. hs_batch (snd st)" and step = "hist_step D c ?i" and f = "histogram_rows (mt_Name m)", OF this] show ?thesis
    by (simp add: processHistogram_def Let_def case_prod_beta)
qed

lemma rows_summary: "rows (processSummary D c m points b) = rows b @ concat (map (summary_rows (mt_Name m)) points)"
proof -
  let ?i = "base_info m MetricTypeSummary Cumulative True"
  have "rows (ss_batch (snd (summary_step D c ?i dp st))) = rows (ss_batch (snd st)) @ summary_rows (mt_Name m) dp" for dp st
    by (simp add: summary_step_def summary_rows_def summary_point_rows_def summary_sample_def rows_quantile_loop
        case_prod_beta Let_def)
  from rows_fold [where get = "\<lambda>st. ss_batch (snd st)" and step = "summary_step D c ?i" and f = "summary_rows (mt_Name m)", OF this] show ?thesis
    by (simp add: processSummary_def Let_def case_prod_beta)
qed

lemma rows_exponential:
  "rows (processExponentialHistogram D c m t points b) =
     rows b @ (if enableExpHist D \<and> t = Delta then concat (map (exponential_rows (mt_Name m)) points) else [])"
proof -
  let ?i = "base_info m MetricTypeExponentialHistogram t True"
  have sketch: "rows (addDDSketchSample D c i dp b) = rows b" for i dp b
    by (simp add: addDDSketchSample_def addTs_def addExpHist_def Let_def)
  have "rows (snd (exp_step D c ?i dp st)) = rows (snd st) @ exponential_rows (mt_Name m) dp" for dp st
    by (simp add: exp_step_def exponential_rows_def exp_point_rows_def exp_sample_def optional_row_def sketch Let_def
        split: option.splits)
  from rows_fold [where get = snd and step = "exp_step D c ?i" and f = "exponential_rows (mt_Name m)", OF this] show ?thesis
    by (cases "t = Delta") (simp_all add: processExponentialHistogram_def Let_def case_prod_beta)
qed

lemma rows_metric: "rows (process_metric D c m b) = rows b @ metric_rows (enableExpHist D) m"
  by (simp add: process_metric_def metric_rows_def processGauge_def processSum_def rows_numbers rows_histogram
      rows_summary rows_exponential split: metric_data.splits)

text \<open>C22. The samples prepared for any request are, in order, one per gauge and sum point, and for each
  histogram point its count, its sum, minimum and maximum where present, its cumulative bucket
  counts and the total; for summaries and exponential histograms likewise. A point with a value that
  is not a number contributes none; nothing else is dropped, repeated or reordered.\<close>

theorem prepareBatch_samples:
  "map sample_row (b_samples (prepareBatch D md)) =
     concat (map (\<lambda>rm. concat (map (\<lambda>sm. concat (map (metric_rows (enableExpHist D)) (sm_Metrics sm))) (rm_Scopes rm))) md)"
proof -
  let ?m = "metric_rows (enableExpHist D)"
  let ?s = "\<lambda>sm. concat (map ?m (sm_Metrics sm))"
  have scope: "rows (fold (process_metric D c) ms b) = rows b @ concat (map ?m ms)" for c ms b
    by (rule rows_fold [where get = "\<lambda>b. b" and step = "process_metric D c" and f = ?m, OF rows_metric])
  have resource: "rows (fold (\<lambda>sm. fold (process_metric D (scope_ctx rm sm)) (sm_Metrics sm)) sms b) =
      rows b @ concat (map ?s sms)" for rm sms b
    by (rule rows_fold [where get = "\<lambda>b. b" and f = ?s
        and step = "\<lambda>sm. fold (process_metric D (scope_ctx rm sm)) (sm_Metrics sm)", OF scope])
  show ?thesis
    using rows_fold [where get = "\<lambda>b. b" and f = "\<lambda>rm. concat (map ?s (rm_Scopes rm))"
        and step = "\<lambda>rm. fold (\<lambda>sm. fold (process_metric D (scope_ctx rm sm)) (sm_Metrics sm)) (rm_Scopes rm)",
        OF resource, of md newBatch]
    by (simp add: prepareBatch_def newBatch_def)
qed

end
