(* ===== verification/Metrics_Write.thy ===== *)
theory Metrics_Write
  imports Metrics_Series
begin

text \<open>
  Writing a batch (\<open>exporter/signozclickhousemetrics/exporter.go\<close>, \<open>writeBatch\<close>, \<open>PushMetrics\<close>,
  \<open>makeCacheKey\<close>, \<open>collectUsageForSample\<close>). The connection answers \<open>PrepareBatch\<close>, each \<open>Append\<close>, by the
  position of the row in its statement, and \<open>Send\<close>; a statement's rows are written when \<open>Send\<close>
  succeeds. The cache of series rows is \<open>ttlcache\<close>, upstream code: its operations are the record
  \<open>ttlcache\<close>. The four writes run in parallel and share no state; their errors are joined.

  Theorems: cache keys tell series apart; after a successful write every series of the batch is
  written or was cached; after a failed \<open>Send\<close> the series are cached all the same, and the retry
  does not write them.
\<close>

section \<open>Keys\<close>

definition FormatUint :: "64 word \<Rightarrow> string" where
  "FormatUint n = nat_digits (unat n)"

definition makeCacheKey :: "64 word \<Rightarrow> 64 word \<Rightarrow> string" where
  "makeCacheKey a b = FormatUint a @ '':'' @ FormatUint b"

definition roundedUnixMilli :: "ts \<Rightarrow> int" where
  "roundedUnixMilli t = wrap64 (quot (t_unixMilli t) 3600000 * 3600000)"

definition cacheKey :: "ts \<Rightarrow> string" where
  "cacheKey t =
     makeCacheKey (t_fingerprint t) (word_of_int (roundedUnixMilli t)) @ (if t_isReduced t then '':reduced'' else [])"

section \<open>The connection and the cache\<close>

datatype dest_table = TimeSeriesTable | SamplesTable | ExpHistTable | MetadataTable

record conn =
  PrepareBatch :: "dest_table \<Rightarrow> string option"
  AppendRow :: "dest_table \<Rightarrow> nat \<Rightarrow> string option"
  Send :: "dest_table \<Rightarrow> string option"

record 'k ttlcache =
  tc_Get :: "'k \<Rightarrow> string \<Rightarrow> bool option"
  tc_Set :: "'k \<Rightarrow> string \<Rightarrow> bool \<Rightarrow> 'k"

text \<open>What one write did: the rows that are in the table, or the error.\<close>

type_synonym 'row written = "string + 'row list"

definition send_rows :: "conn \<Rightarrow> dest_table \<Rightarrow> 'row list \<Rightarrow> 'row written" where
  "send_rows C T rs = (case Send C T of Some err \<Rightarrow> Inl err | None \<Rightarrow> Inr rs)"

fun ts_loop ::
  "conn \<Rightarrow> 'k ttlcache \<Rightarrow> ts list \<Rightarrow> ts list \<Rightarrow> 'k \<Rightarrow> 'k \<times> ts written" where
  "ts_loop C T done [] k = (k, send_rows C TimeSeriesTable done)"
| "ts_loop C T done (t # timeSeries) k =
     (if tc_Get T k (cacheKey t) = Some True then ts_loop C T done timeSeries k
      else
        (case AppendRow C TimeSeriesTable (length done) of
           Some err \<Rightarrow> (k, Inl err)
         | None \<Rightarrow> ts_loop C T (done @ [t]) timeSeries (tc_Set T k (cacheKey t) True)))"

definition writeTimeSeries :: "conn \<Rightarrow> 'k ttlcache \<Rightarrow> ts list \<Rightarrow> 'k \<Rightarrow> 'k \<times> ts written" where
  "writeTimeSeries C T timeSeries k =
     (if timeSeries = [] then (k, Inr [])
      else case PrepareBatch C TimeSeriesTable of Some err \<Rightarrow> (k, Inl err) | None \<Rightarrow> ts_loop C T [] timeSeries k)"

fun append_all :: "conn \<Rightarrow> dest_table \<Rightarrow> nat \<Rightarrow> 'row list \<Rightarrow> string option" where
  "append_all C T n [] = None"
| "append_all C T n (x # xs) = (case AppendRow C T n of Some err \<Rightarrow> Some err | None \<Rightarrow> append_all C T (Suc n) xs)"

definition write_rows :: "conn \<Rightarrow> dest_table \<Rightarrow> 'row list \<Rightarrow> 'row list \<Rightarrow> 'row written" where
  "write_rows C T all chosen =
     (if all = [] then Inr []
      else case PrepareBatch C T of
        Some err \<Rightarrow> Inl err
      | None \<Rightarrow> (case append_all C T 0 chosen of Some err \<Rightarrow> Inl err | None \<Rightarrow> send_rows C T chosen))"

definition writeSamples :: "conn \<Rightarrow> sample list \<Rightarrow> sample written" where
  "writeSamples C samples = write_rows C SamplesTable samples samples"

definition writeExpHist :: "conn \<Rightarrow> expHistSample list \<Rightarrow> expHistSample written" where
  "writeExpHist C expHist = write_rows C ExpHistTable expHist expHist"

text \<open>\<open>chosen\<close> says which rows the sampling keeps; all of them for a ratio of one.\<close>

definition writeMetadata :: "conn \<Rightarrow> (metadata \<Rightarrow> bool) \<Rightarrow> metadata list \<Rightarrow> metadata written" where
  "writeMetadata C chosen rs = write_rows C MetadataTable rs (filter chosen rs)"

record batch_written =
  w_ts :: "ts written"
  w_samples :: "sample written"
  w_expHist :: "expHistSample written"
  w_metadata :: "metadata written"

definition writeBatch ::
  "conn \<Rightarrow> 'k ttlcache \<Rightarrow> (metadata \<Rightarrow> bool) \<Rightarrow> batch \<Rightarrow> 'k \<Rightarrow> 'k \<times> batch_written" where
  "writeBatch C T chosen b k =
     (let (k', wt) = writeTimeSeries C T (b_ts b) k
      in (k', \<lparr>w_ts = wt, w_samples = writeSamples C (b_samples b), w_expHist = writeExpHist C (b_expHist b),
               w_metadata = writeMetadata C chosen (b_metadata b)\<rparr>))"

text \<open>The error \<open>writeBatch\<close> returns; that of the metadata is only logged.\<close>

definition errors :: "batch_written \<Rightarrow> string list" where
  "errors w =
     (case w_ts w of Inl e \<Rightarrow> [e] | Inr _ \<Rightarrow> []) @ (case w_samples w of Inl e \<Rightarrow> [e] | Inr _ \<Rightarrow> [])
     @ (case w_expHist w of Inl e \<Rightarrow> [e] | Inr _ \<Rightarrow> [])"

definition PushMetrics ::
  "bool \<Rightarrow> metric_deps \<Rightarrow> conn \<Rightarrow> 'k ttlcache \<Rightarrow> (metadata \<Rightarrow> bool) \<Rightarrow> resource_metrics list \<Rightarrow> 'k \<Rightarrow>
    'k \<times> (string list + batch_written)" where
  "PushMetrics shut D C T chosen md k =
     (if shut then (k, Inl [''shutdown has been called''])
      else
        (let (k', w) = writeBatch C T chosen (prepareBatch D md) k
         in (k', if errors w = [] then Inr w else Inl (errors w))))"

section \<open>Usage\<close>

definition hasPrefix :: "string \<Rightarrow> string \<Rightarrow> bool" where
  "hasPrefix s pre \<longleftrightarrow> take (length pre) s = pre"

definition collectUsageForSample :: "ruleSet option \<Rightarrow> sample \<Rightarrow> bool" where
  "collectUsageForSample rules s =
     (if hasPrefix (s_metricName s) ''signoz'' \<or> hasPrefix (s_metricName s) ''otelcol'' then False
      else if s_reducedFingerprint s \<noteq> 0 \<or> ruleFor rules (s_metricName s) \<noteq> None then False
      else True)"

definition usage_count :: "ruleSet option \<Rightarrow> sample list \<Rightarrow> nat" where
  "usage_count rules samples = length (filter (collectUsageForSample rules) samples)"

section \<open>Cache keys tell series apart\<close>

lemma FormatUint_inject: "FormatUint a = FormatUint b \<longleftrightarrow> a = b"
  by (simp add: FormatUint_def word_unat_eq_iff)

lemma colon_not_digit: "CHR '':'' \<notin> set (FormatUint a)"
  using nat_digits_all_digits [of "CHR '':''" "unat a"] by (auto simp: FormatUint_def)

lemma split_at_first:
  assumes "xs @ c # ys = xs' @ c # ys'" "c \<notin> set xs" "c \<notin> set xs'"
  shows "xs = xs' \<and> ys = ys'"
proof -
  have "takeWhile (\<lambda>x. x \<noteq> c) (xs @ c # ys) = xs" "takeWhile (\<lambda>x. x \<noteq> c) (xs' @ c # ys') = xs'"
    using assms(2,3) by (subst takeWhile_append2, auto)+
  with assms(1) show ?thesis by auto
qed

lemma wrap64_range: "- (2 ^ 63) \<le> wrap64 x \<and> wrap64 x < 2 ^ 63"
proof -
  have "0 \<le> (x + 2 ^ 63) mod 2 ^ 64" "(x + 2 ^ 63) mod 2 ^ 64 < (2 ^ 64 :: int)" by simp_all
  then show ?thesis unfolding wrap64_def by simp
qed

lemma word_of_int_inject64:
  assumes "word_of_int a = (word_of_int b :: 64 word)" "- (2 ^ 63) \<le> a" "a < 2 ^ 63" "- (2 ^ 63) \<le> b" "b < 2 ^ 63"
  shows "a = b"
proof -
  have "sint (word_of_int a :: 64 word) = a" "sint (word_of_int b :: 64 word) = b"
    using assms(2-) unfolding sint_sbintrunc' by (auto intro!: signed_take_bit_int_eq_self)
  with assms(1) show ?thesis by metis
qed

lemma cacheKey_inject:
  "cacheKey t = cacheKey t' \<longleftrightarrow>
     t_fingerprint t = t_fingerprint t' \<and> roundedUnixMilli t = roundedUnixMilli t' \<and> t_isReduced t = t_isReduced t'"
proof
  assume eq: "cacheKey t = cacheKey t'"
  let ?w = "\<lambda>t. FormatUint (word_of_int (roundedUnixMilli t))"
  let ?r = "\<lambda>t. if t_isReduced t then '':reduced'' else []"
  from eq have fp: "FormatUint (t_fingerprint t) = FormatUint (t_fingerprint t')" and rest: "?w t @ ?r t = ?w t' @ ?r t'"
    using split_at_first [of "FormatUint (t_fingerprint t)" "CHR '':''" "?w t @ ?r t"
        "FormatUint (t_fingerprint t')" "?w t' @ ?r t'"] colon_not_digit
    by (auto simp: cacheKey_def makeCacheKey_def)
  have "t_isReduced x \<longleftrightarrow> CHR '':'' \<in> set (?w x @ ?r x)" for x using colon_not_digit by simp
  with rest have red: "t_isReduced t = t_isReduced t'" by metis
  with rest have "?w t = ?w t'" by simp
  then have "word_of_int (roundedUnixMilli t) = (word_of_int (roundedUnixMilli t') :: 64 word)" by (simp add: FormatUint_inject)
  then have "roundedUnixMilli t = roundedUnixMilli t'"
    using wrap64_range by (intro word_of_int_inject64) (auto simp: roundedUnixMilli_def)
  with fp red show "t_fingerprint t = t_fingerprint t' \<and> roundedUnixMilli t = roundedUnixMilli t' \<and> t_isReduced t = t_isReduced t'"
    by (simp add: FormatUint_inject)
qed (simp add: cacheKey_def)

section \<open>What is written\<close>

text \<open>Between two writes nothing expires: an entry is there after it was set, and setting one leaves the
  others.\<close>

definition cache_laws :: "'k ttlcache \<Rightarrow> bool" where
  "cache_laws T \<longleftrightarrow> (\<forall>k x v y. tc_Get T (tc_Set T k x v) y = (if y = x then Some v else tc_Get T k y))"

lemma ts_loop_written:
  assumes "cache_laws T" "ts_loop C T done tss k = (k', Inr sent)"
    "distinct (map cacheKey done)" "\<forall>t \<in> set done. tc_Get T k (cacheKey t) = Some True"
  shows "\<exists>new. sent = done @ new \<and> set new \<subseteq> set tss \<and> distinct (map cacheKey sent)
    \<and> (\<forall>t \<in> set tss. tc_Get T k (cacheKey t) = Some True \<or> cacheKey t \<in> cacheKey ` set new)"
  using assms(2-)
proof (induction tss arbitrary: "done" k)
  case Nil
  then show ?case by (auto simp: send_rows_def split: option.splits)
next
  case (Cons t tss)
  show ?case
  proof (cases "tc_Get T k (cacheKey t) = Some True")
    case True
    with Cons.prems Cons.IH [of "done" k] obtain new where "sent = done @ new" "set new \<subseteq> set tss" "distinct (map cacheKey sent)"
      "\<forall>t \<in> set tss. tc_Get T k (cacheKey t) = Some True \<or> cacheKey t \<in> cacheKey ` set new" by auto
    with True show ?thesis by (intro exI [of _ new]) auto
  next
    case False
    then have none: "AppendRow C TimeSeriesTable (length done) = None"
      and rec: "ts_loop C T (done @ [t]) tss (tc_Set T k (cacheKey t) True) = (k', Inr sent)"
      using Cons.prems(1) by (auto split: option.splits)
    have get: "tc_Get T (tc_Set T k (cacheKey t) True) y = (if y = cacheKey t then Some True else tc_Get T k y)" for y
      using assms(1) by (simp add: cache_laws_def)
    have "distinct (map cacheKey (done @ [t]))" using Cons.prems(2,3) False by auto
    moreover have "\<forall>s \<in> set (done @ [t]). tc_Get T (tc_Set T k (cacheKey t) True) (cacheKey s) = Some True"
      using Cons.prems(3) by (simp add: get)
    ultimately obtain new where new: "sent = (done @ [t]) @ new" "set new \<subseteq> set tss" "distinct (map cacheKey sent)"
      "\<forall>s \<in> set tss. tc_Get T (tc_Set T k (cacheKey t) True) (cacheKey s) = Some True \<or> cacheKey s \<in> cacheKey ` set new"
      using Cons.IH [OF rec] by blast
    then show ?thesis by (intro exI [of _ "t # new"]) (auto simp: get split: if_splits)
  qed
qed


section \<open>A failed write is not repeated\<close>

lemma ts_loop_caches:
  assumes "cache_laws T" "\<forall>n. AppendRow C TimeSeriesTable n = None" "ts_loop C T done tss k = (k', r)"
  shows "(\<forall>t \<in> set tss. tc_Get T k' (cacheKey t) = Some True)
    \<and> (\<forall>x. tc_Get T k x = Some True \<longrightarrow> tc_Get T k' x = Some True)
    \<and> (\<exists>all. r = send_rows C TimeSeriesTable all)"
  using assms(3)
proof (induction tss arbitrary: "done" k)
  case (Cons t tss)
  show ?case
  proof (cases "tc_Get T k (cacheKey t) = Some True")
    case True
    with Cons.prems Cons.IH [of "done" k] show ?thesis by auto
  next
    case False
    with Cons.prems assms(2) have rec: "ts_loop C T (done @ [t]) tss (tc_Set T k (cacheKey t) True) = (k', r)" by simp
    have get: "tc_Get T (tc_Set T k (cacheKey t) True) y = (if y = cacheKey t then Some True else tc_Get T k y)" for y
      using assms(1) by (simp add: cache_laws_def)
    from Cons.IH [OF rec] show ?thesis by (auto simp: get)
  qed
qed auto

lemma ts_loop_all_cached:
  "\<forall>t \<in> set tss. tc_Get T k (cacheKey t) = Some True \<Longrightarrow> ts_loop C T done tss k = (k, send_rows C TimeSeriesTable done)"
  by (induction tss) auto

text \<open>When sending the series of a batch fails, they are in the cache all the same: writing the same
  batch again, as the retry of the exporter does, succeeds and writes none of them.\<close>

theorem series_lost_after_failed_send:
  assumes "cache_laws T" "b_ts b \<noteq> []" "PrepareBatch C TimeSeriesTable = None"
    "\<forall>n. AppendRow C TimeSeriesTable n = None" "Send C TimeSeriesTable = Some err"
    "PrepareBatch C' TimeSeriesTable = None" "Send C' TimeSeriesTable = None"
    "writeBatch C T chosen b k = (k1, w1)" "writeBatch C' T chosen b k1 = (k2, w2)"
  shows "w_ts w1 = Inl err \<and> w_ts w2 = Inr []"
proof -
  obtain r where first: "ts_loop C T [] (b_ts b) k = (k1, r)" "w_ts w1 = r"
    using assms(2,3,8) by (auto simp: writeBatch_def writeTimeSeries_def split: prod.splits)
  note caches = ts_loop_caches [OF assms(1,4) first(1)]
  have "ts_loop C' T [] (b_ts b) k1 = (k1, Inr [])"
    using caches assms(7) by (simp add: ts_loop_all_cached send_rows_def)
  then have "w_ts w2 = Inr []" using assms(2,6,9) by (auto simp: writeBatch_def writeTimeSeries_def)
  moreover have "w_ts w1 = Inl err" using caches first(2) assms(5) by (auto simp: send_rows_def)
  ultimately show ?thesis by simp
qed

section \<open>Concrete writes\<close>

definition map_cache :: "(string \<rightharpoonup> bool) ttlcache" where
  "map_cache = \<lparr>tc_Get = (\<lambda>k x. k x), tc_Set = (\<lambda>k x v. k(x \<mapsto> v))\<rparr>"

definition good_conn :: conn where
  "good_conn = \<lparr>PrepareBatch = (\<lambda>_. None), AppendRow = (\<lambda>_ _. None), Send = (\<lambda>_. None)\<rparr>"

definition no_deps :: metric_deps where
  "no_deps = \<lparr>TemporalityString = (\<lambda>_. ''Unspecified''), math_Pow = (\<lambda>_ _. Finite 0), clock = 0,
     ReductionEnabled = False, reductionRules = None, enableExpHist = False\<rparr>"

definition gauge_request :: "resource_metrics list" where
  "gauge_request = [\<lparr>rm_Attributes = [], rm_Scopes = [\<lparr>sm_Attributes = [], sm_Name = [], sm_Version = [],
     sm_SchemaUrl = [], sm_Metrics = [\<lparr>mt_Name = ''m'', mt_Description = [], mt_Unit = [], mt_Data = GaugeData
       [\<lparr>np_Timestamp = 5000000, np_Attributes = [], np_Flags = 0, np_Value = IntValue 7\<rparr>]\<rparr>]\<rparr>]\<rparr>]"

lemma map_cache_laws: "cache_laws map_cache"
  by (simp add: cache_laws_def map_cache_def)

lemma gauge_samples: "rows (prepareBatch no_deps gauge_request) = [(''m'', 5, float_of_int 7)]"
  by code_simp

theorem prepareBatch_samples_have_series_witness:
  "\<exists>s \<in> set (b_samples (prepareBatch no_deps gauge_request)).
     \<exists>t \<in> set (b_ts (prepareBatch no_deps gauge_request)). t_metricName t = ''m'' \<and> t_fingerprint t = s_fingerprint s"
proof -
  obtain s where s: "s \<in> set (b_samples (prepareBatch no_deps gauge_request))" "s_metricName s = ''m''"
    using gauge_samples by (auto simp: sample_row_def)
  from prepareBatch_samples_have_series [OF s(1)] s show ?thesis by auto
qed

definition one_series :: ts where
  "one_series = \<lparr>t_env = [], t_temporality = Delta, t_metricName = ''m'', t_description = [], t_unit = [],
     t_typ = MetricTypeSum, t_isMonotonic = True, t_fingerprint = 12, t_reducedFingerprint = 0, t_isReduced = False,
     t_unixMilli = 7200005, t_labels = [], t_attrs = fmempty, t_scopeAttrs = fmempty, t_resourceAttrs = fmempty\<rparr>"

lemma write_one:
  "writeTimeSeries good_conn map_cache [one_series, one_series] Map.empty = (Map.empty(cacheKey one_series \<mapsto> True), Inr [one_series])"
  by (simp add: writeTimeSeries_def good_conn_def map_cache_def send_rows_def)


theorem series_lost_after_failed_send_witness:
  "w_ts (snd (writeBatch good_conn map_cache (\<lambda>_. True) (newBatch\<lparr>b_ts := [one_series]\<rparr>)
     (fst (writeBatch (good_conn\<lparr>Send := (\<lambda>_. Some ''timeout'')\<rparr>) map_cache (\<lambda>_. True) (newBatch\<lparr>b_ts := [one_series]\<rparr>) Map.empty)))) = Inr []"
proof -
  let ?b = "newBatch\<lparr>b_ts := [one_series]\<rparr>" and ?C = "good_conn\<lparr>Send := (\<lambda>_. Some ''timeout'')\<rparr>"
  obtain k1 w1 where 1: "writeBatch ?C map_cache (\<lambda>_. True) ?b Map.empty = (k1, w1)" by fastforce
  obtain k2 w2 where 2: "writeBatch good_conn map_cache (\<lambda>_. True) ?b k1 = (k2, w2)" by fastforce
  from series_lost_after_failed_send [OF map_cache_laws _ _ _ _ _ _ 1 2, of "''timeout''"] show ?thesis
    by (simp add: 1 2) (simp add: good_conn_def)
qed

end
