(* ===== verification/Span_Values.thy ===== *)
theory Span_Values
  imports Go_Utf8 Go_Floats "HOL-Library.Finite_Map"
begin

text \<open>
  The span metrics processor (\<open>processor/signozspanmetricsprocessor\<close>), what needs no state: the
  configuration (\<open>config.go\<close>), attribute values and dimensions, the check of the configured
  dimensions, the remote address of a call, time buckets, latencies and histograms.
  A pdata map is the list of its entries. Of a value only its string and its printed form matter:
  \<open>StrValue\<close>, or \<open>OtherValue\<close> of what \<open>AsString\<close> prints. Times are nanoseconds since the epoch.
  Regular expressions, URL parsing, the Unicode classes and pdata's own names of kinds and statuses
  are outside the repository: fields of the record \<open>span_deps\<close>.

  Theorems: the binary search puts a latency in the bucket whose bounds enclose it; a bucket prefix
  reads back as its time; accepted dimension names clash with nothing.
\<close>

section \<open>Values, spans, dependencies\<close>

datatype Value = StrValue string | OtherValue string

fun Str :: "Value \<Rightarrow> string" where
  "Str (StrValue s) = s"
| "Str (OtherValue p) = []"

fun AsString :: "Value \<Rightarrow> string" where
  "AsString (StrValue s) = s"
| "AsString (OtherValue p) = p"

type_synonym pmap = "(string \<times> Value) list"

text \<open>\<open>PutEmpty\<close> followed by a copy of the value, and \<open>PutStr\<close>.\<close>

fun put :: "string \<Rightarrow> Value \<Rightarrow> pmap \<Rightarrow> pmap" where
  "put k v [] = [(k, v)]"
| "put k v ((k', v') # m) = (if k = k' then (k, v) # m else (k', v') # put k v m)"

datatype SpanKind =
  SpanKindUnspecified | SpanKindInternal | SpanKindServer | SpanKindClient | SpanKindProducer
| SpanKindConsumer | OtherKind int

datatype StatusCode = StatusCodeUnset | StatusCodeOk | StatusCodeError | OtherStatus int

record Span =
  sp_Name :: string
  sp_Kind :: SpanKind
  sp_Status :: StatusCode
  StartTimestamp :: "64 word"
  EndTimestamp :: "64 word"
  sp_Attributes :: pmap
  sp_TraceID :: "8 word list"
  sp_SpanID :: "8 word list"

record ResourceSpans =
  Resource :: pmap
  ScopeSpans :: "Span list list"

record span_deps =
  CompileOk :: "string \<Rightarrow> bool"
  MatchString :: "string \<Rightarrow> string \<Rightarrow> bool"
  Kind_String :: "SpanKind \<Rightarrow> string"
  Status_String :: "StatusCode \<Rightarrow> string"
  url_Host :: "string \<Rightarrow> string option"
  IsLetter :: "rune \<Rightarrow> bool"
  IsDigit :: "rune \<Rightarrow> bool"

fun SpanKindStr :: "SpanKind \<Rightarrow> string" where
  "SpanKindStr SpanKindUnspecified = ''SPAN_KIND_UNSPECIFIED''"
| "SpanKindStr SpanKindInternal = ''SPAN_KIND_INTERNAL''"
| "SpanKindStr SpanKindServer = ''SPAN_KIND_SERVER''"
| "SpanKindStr SpanKindClient = ''SPAN_KIND_CLIENT''"
| "SpanKindStr SpanKindProducer = ''SPAN_KIND_PRODUCER''"
| "SpanKindStr SpanKindConsumer = ''SPAN_KIND_CONSUMER''"
| "SpanKindStr (OtherKind i) = []"

fun StatusCodeStr :: "StatusCode \<Rightarrow> string" where
  "StatusCodeStr StatusCodeUnset = ''STATUS_CODE_UNSET''"
| "StatusCodeStr StatusCodeOk = ''STATUS_CODE_OK''"
| "StatusCodeStr StatusCodeError = ''STATUS_CODE_ERROR''"
| "StatusCodeStr (OtherStatus i) = []"

section \<open>Configuration\<close>

datatype Temporality = Delta | Cumulative

record Dimension =
  Name :: string
  Default :: "string option"

record ExcludePattern =
  ep_Name :: string
  ep_Pattern :: string

record Config =
  MetricsExporter :: string
  LatencyHistogramBuckets :: "int list option"
  Dimensions :: "Dimension list"
  ExcludePatterns :: "ExcludePattern list"
  DimensionsCacheSize :: int
  AggregationTemporality :: string
  skipSanitizeLabel :: bool
  MetricsFlushInterval :: int
  TimeBucketInterval :: int
  EnableExpHistogram :: bool
  MaxServicesToTrack :: int
  MaxOperationsToTrackPerService :: int
  SkipSpansOlderThan :: int

definition GetAggregationTemporality :: "Config \<Rightarrow> Temporality" where
  "GetAggregationTemporality c =
     (if AggregationTemporality c = ''AGGREGATION_TEMPORALITY_DELTA'' then Delta else Cumulative)"

definition defaultTimeBucketInterval :: int where
  "defaultTimeBucketInterval = 60 * 10 ^ 9"

definition GetTimeBucketInterval :: "Config \<Rightarrow> int" where
  "GetTimeBucketInterval c =
     (if TimeBucketInterval c = 0 then defaultTimeBucketInterval else TimeBucketInterval c)"

definition GetSkipSpansOlderThan :: "Config \<Rightarrow> int" where
  "GetSkipSpansOlderThan c = (if SkipSpansOlderThan c \<le> 0 then 24 * 3600 * 10 ^ 9 else SkipSpansOlderThan c)"

text \<open>The argument is the state of the feature gate.\<close>

definition createDefaultConfig :: "bool \<Rightarrow> Config" where
  "createDefaultConfig gate =
     \<lparr>MetricsExporter = [], LatencyHistogramBuckets = None, Dimensions = [], ExcludePatterns = [],
      DimensionsCacheSize = 1000, AggregationTemporality = ''AGGREGATION_TEMPORALITY_CUMULATIVE'',
      skipSanitizeLabel = gate, MetricsFlushInterval = 60 * 10 ^ 9, TimeBucketInterval = 0,
      EnableExpHistogram = False, MaxServicesToTrack = 256, MaxOperationsToTrackPerService = 2048,
      SkipSpansOlderThan = 0\<rparr>"

section \<open>Dimensions\<close>

record dimension =
  d_name :: string
  d_value :: "Value option"

definition newDimensions :: "Dimension list \<Rightarrow> dimension list" where
  "newDimensions cfgDims = map (\<lambda>d. \<lparr>d_name = Name d, d_value = map_option StrValue (Default d)\<rparr>) cfgDims"

text \<open>The stable name of the status code stands in for the old one.\<close>

definition span_value :: "string \<Rightarrow> pmap \<Rightarrow> Value option" where
  "span_value n spanAttr =
     (case map_of spanAttr n of
        Some v \<Rightarrow> Some v
      | None \<Rightarrow> if n = ''http.status_code'' then map_of spanAttr ''http.response.status_code'' else None)"

definition getDimensionValue :: "dimension \<Rightarrow> pmap \<Rightarrow> pmap \<Rightarrow> Value option" where
  "getDimensionValue d spanAttr resourceAttr =
     (case span_value (d_name d) spanAttr of
        Some v \<Rightarrow> Some v
      | None \<Rightarrow>
          (case map_of resourceAttr (d_name d) of
             Some v \<Rightarrow> Some v
           | None \<Rightarrow> d_value d))"

definition getDimensionValueWithResource :: "dimension \<Rightarrow> pmap \<Rightarrow> pmap \<Rightarrow> Value option \<times> bool" where
  "getDimensionValueWithResource d spanAttr resourceAttr =
     (case map_of spanAttr (d_name d) of
        Some v \<Rightarrow> (Some v, map_of resourceAttr (d_name d) \<noteq> None)
      | None \<Rightarrow>
          (case span_value (d_name d) spanAttr of
             Some v \<Rightarrow> (Some v, False)
           | None \<Rightarrow>
               (case map_of resourceAttr (d_name d) of
                  Some v \<Rightarrow> (Some v, True)
                | None \<Rightarrow> (d_value d, False))))"

definition sanitizeRune :: "span_deps \<Rightarrow> rune \<Rightarrow> rune" where
  "sanitizeRune D r = (if IsLetter D r \<or> IsDigit D r then r else 0x5F)"

definition sanitize :: "span_deps \<Rightarrow> string \<Rightarrow> bool \<Rightarrow> string" where
  "sanitize D s skip =
     (if s = [] then s
      else
        let s = utf8 (map (sanitizeRune D) (runes s));
            s = (if s \<noteq> [] \<and> IsDigit D (of_char (hd s)) then ''key_'' @ s else s);
            s = (if \<not> skip \<and> take 1 s = ''_'' then ''key'' @ s else s)
        in if take 2 s = ''__'' then ''key'' @ s else s)"

datatype dim_error = DuplicateName string | DuplicateSanitized string

fun validate_loop :: "span_deps \<Rightarrow> bool \<Rightarrow> string set \<Rightarrow> Dimension list \<Rightarrow> dim_error option" where
  "validate_loop D skip labelNames [] = None"
| "validate_loop D skip labelNames (key # dims) =
     (if Name key \<in> labelNames then Some (DuplicateName (Name key))
      else
        let labelNames = insert (Name key) labelNames; sanitizedName = sanitize D (Name key) skip
        in if sanitizedName = Name key then validate_loop D skip labelNames dims
           else if sanitizedName \<in> labelNames then Some (DuplicateSanitized sanitizedName)
           else validate_loop D skip (insert sanitizedName labelNames) dims)"

definition reserved_names :: "span_deps \<Rightarrow> bool \<Rightarrow> string set" where
  "reserved_names D skip =
     (let reserved = [''service.name'', ''span.kind'', ''status.code'']
      in set reserved \<union> set (map (\<lambda>key. sanitize D key skip) reserved) \<union> {''operation''})"

definition validateDimensions :: "span_deps \<Rightarrow> Dimension list \<Rightarrow> bool \<Rightarrow> dim_error option" where
  "validateDimensions D dims skip = validate_loop D skip (reserved_names D skip) dims"

section \<open>The remote address of a call\<close>

definition with_port :: "pmap \<Rightarrow> string \<Rightarrow> Value \<Rightarrow> string" where
  "with_port attrs port host =
     Str host @ (case map_of attrs port of None \<Rightarrow> [] | Some p \<Rightarrow> '':'' @ Str p)"

definition peer_names :: "(string \<times> string) list" where
  "peer_names =
     [(''net.peer.name'', ''net.peer.port''), (''server.address'', ''server.port''),
      (''net.peer.ip'', ''net.peer.port''), (''net.sock.peer.addr'', ''net.sock.peer.port''),
      (''network.peer.address'', ''network.peer.port'')]"

fun first_peer :: "pmap \<Rightarrow> (string \<times> string) list \<Rightarrow> string option" where
  "first_peer attrs [] = None"
| "first_peer attrs ((host, port) # names) =
     (case map_of attrs host of
        Some v \<Rightarrow> Some (with_port attrs port v)
      | None \<Rightarrow> first_peer attrs names)"

definition getPeerAddress :: "pmap \<Rightarrow> string option" where
  "getPeerAddress attrs = first_peer attrs peer_names"

definition rpc_address :: "pmap \<Rightarrow> string" where
  "rpc_address attrs =
     (case map_of attrs ''rpc.service'' of None \<Rightarrow> [] | Some service \<Rightarrow> Str service) @
     (case map_of attrs ''rpc.method'' of None \<Rightarrow> [] | Some m \<Rightarrow> ''/'' @ Str m)"

definition url_address :: "span_deps \<Rightarrow> pmap \<Rightarrow> string option option" where
  "url_address D attrs =
     map_option (\<lambda>v.
         let urlValue = Str v;
             urlValue = (if take 7 urlValue \<noteq> ''http://'' \<and> take 8 urlValue \<noteq> ''https://''
                         then ''http://'' @ urlValue else urlValue)
         in url_Host D urlValue)
       (case map_of attrs ''http.url'' of Some v \<Rightarrow> Some v | None \<Rightarrow> map_of attrs ''url.full'')"

definition getRemoteAddress :: "span_deps \<Rightarrow> Span \<Rightarrow> string option" where
  "getRemoteAddress D sp =
     (let attrs = sp_Attributes sp in
      if map_of attrs ''rpc.system'' \<noteq> None then
        (if rpc_address attrs \<noteq> [] then Some (rpc_address attrs) else getPeerAddress attrs)
      else
        (case map_of attrs ''http.host'' of
           Some host \<Rightarrow> Some (Str host)
         | None \<Rightarrow>
             (case getPeerAddress attrs of
                Some peerAddress \<Rightarrow>
                  (case map_of attrs ''net.transport'' of
                     Some transport \<Rightarrow>
                       if Str transport = ''unix'' \<and> Str transport = ''pipe'' then None else Some peerAddress
                   | None \<Rightarrow> Some peerAddress)
              | None \<Rightarrow>
                  (case url_address D attrs of
                     Some r \<Rightarrow> r
                   | None \<Rightarrow> map_option Str (map_of attrs ''peer.service'')))))"

section \<open>Time\<close>

text \<open>\<open>pcommon.Timestamp.AsTime\<close> reads the number as an \<open>int64\<close>.\<close>

definition AsTime :: "64 word \<Rightarrow> int" where
  "AsTime t = sint t"

text \<open>\<open>time.Truncate\<close> counts from the year 1, and does nothing for a duration that is not positive.\<close>

definition Truncate :: "int \<Rightarrow> int \<Rightarrow> int" where
  "Truncate t d = (if d \<le> 0 then t else t - (t + 62135596800 * 10 ^ 9) mod d)"

definition unix_seconds :: "int \<Rightarrow> int" where
  "unix_seconds t = t div 10 ^ 9"

text \<open>\<open>strconv.ParseInt\<close> with base 10 and 64 bits.\<close>

definition all_digits :: "string \<Rightarrow> bool" where
  "all_digits s \<longleftrightarrow> s \<noteq> [] \<and> list_all (\<lambda>c. 48 \<le> (of_char c :: nat) \<and> (of_char c :: nat) \<le> 57) s"

definition ParseInt :: "string \<Rightarrow> int option" where
  "ParseInt s =
     (let digits = (if take 1 s = ''-'' \<or> take 1 s = ''+'' then drop 1 s else s); n = int (read_nat digits)
      in if \<not> all_digits digits then None
         else if take 1 s = ''-'' then (if n \<le> 2 ^ 63 then Some (- n) else None)
         else if n < 2 ^ 63 then Some n else None)"

abbreviation NUL :: char where
  "NUL \<equiv> CHR 0x00"

text \<open>The first separator, when it is not at the start, ends the prefix.\<close>

definition parseTimesFromKeyOrNow :: "string \<Rightarrow> int \<Rightarrow> 64 word \<Rightarrow> 64 word \<times> 64 word" where
  "parseTimesFromKeyOrNow k now processorStartTime =
     (let s = takeWhile (\<lambda>c. c \<noteq> NUL) k
      in if s = k \<or> s = [] then (processorStartTime, word_of_int now)
         else (case ParseInt s of
                 None \<Rightarrow> (processorStartTime, word_of_int now)
               | Some u \<Rightarrow> (word_of_int (u * 10 ^ 9), word_of_int (u * 10 ^ 9))))"

definition time_prefix :: "Config \<Rightarrow> int \<Rightarrow> string" where
  "time_prefix c t = Itoa (unix_seconds (Truncate t (GetTimeBucketInterval c))) @ [NUL]"

section \<open>Latencies and histograms\<close>

definition durationToMillis :: "int \<Rightarrow> rat" where
  "durationToMillis d = float64 (float64 (of_int d) / 1000000)"

definition mapDurationsToMillis :: "int list \<Rightarrow> rat list" where
  "mapDurationsToMillis vs = map durationToMillis vs"

definition defaultLatencyHistogramBucketsMs :: "rat list" where
  "defaultLatencyHistogramBucketsMs =
     [2, 4, 6, 8, 10, 50, 100, 200, 400, 800, 1000, 1400, 2000, 5000, 10000, 15000]"

text \<open>A span that ends before it starts has no duration.\<close>

definition latencyInMilliseconds :: "Span \<Rightarrow> rat" where
  "latencyInMilliseconds sp =
     (if EndTimestamp sp > StartTimestamp sp
      then float64 (float64 (of_int (uint (EndTimestamp sp - StartTimestamp sp))) / 1000000) else 0)"

record exemplarData =
  e_traceID :: "8 word list"
  e_spanID :: "8 word list"
  e_value :: rat

record histogramData =
  h_count :: "64 word"
  h_sum :: rat
  bucketCounts :: "64 word list"
  exemplarsData :: "exemplarData list"

text \<open>\<open>sort.Search\<close>: the loop of the binary search.\<close>

function search_loop :: "(nat \<Rightarrow> bool) \<Rightarrow> nat \<Rightarrow> nat \<Rightarrow> nat" where
  "search_loop f i j =
     (if i < j then
        let h = (i + j) div 2 in if \<not> f h then search_loop f (Suc h) j else search_loop f i h
      else i)"
  by pat_completeness auto

termination
  by (relation "measure (\<lambda>(f, i, j). j - i)") auto

declare search_loop.simps [simp del]

definition SearchFloat64s :: "rat list \<Rightarrow> rat \<Rightarrow> nat" where
  "SearchFloat64s a x = search_loop (\<lambda>i. x \<le> a ! i) 0 (length a)"

definition new_histogram :: "rat list \<Rightarrow> histogramData" where
  "new_histogram bounds =
     \<lparr>h_count = 0, h_sum = 0, bucketCounts = replicate (Suc (length bounds)) 0, exemplarsData = []\<rparr>"

definition observe :: "rat list \<Rightarrow> rat \<Rightarrow> 8 word list \<Rightarrow> 8 word list \<Rightarrow> histogramData \<Rightarrow> histogramData" where
  "observe bounds latency traceID spanID histo =
     (let index = SearchFloat64s bounds latency
      in histo\<lparr>h_sum := float64 (h_sum histo + latency), h_count := h_count histo + 1,
               bucketCounts := (bucketCounts histo)[index := bucketCounts histo ! index + 1],
               exemplarsData := exemplarsData histo @
                 [\<lparr>e_traceID = traceID, e_spanID = spanID, e_value = latency\<rparr>]\<rparr>)"

type_synonym histograms = "(string, histogramData) fmap"

text \<open>The body of \<open>updateHistogram\<close> and of the three functions written like it.\<close>

definition update_table :: "rat list \<Rightarrow> string \<Rightarrow> rat \<Rightarrow> 8 word list \<Rightarrow> 8 word list \<Rightarrow> histograms \<Rightarrow> histograms" where
  "update_table bounds key latency traceID spanID table =
     (let histo = (case fmlookup table key of None \<Rightarrow> new_histogram bounds | Some h \<Rightarrow> h)
      in fmupd key (observe bounds latency traceID spanID histo) table)"

section \<open>The binary search\<close>

lemma search_loop_step:
  assumes "i < j"
  obtains h where "i \<le> h" and "h < j"
    and "search_loop f i j = (if f h then search_loop f i h else search_loop f (Suc h) j)"
proof
  show "i \<le> (i + j) div 2" and "(i + j) div 2 < j" using assms by auto
  show "search_loop f i j = (if f ((i + j) div 2) then search_loop f i ((i + j) div 2)
      else search_loop f (Suc ((i + j) div 2)) j)"
    using assms by (simp add: search_loop.simps [of f i j] Let_def)
qed

lemma search_loop_stop: "\<not> i < j \<Longrightarrow> search_loop f i j = i"
  by (simp add: search_loop.simps)

lemma search_loop_range: "i \<le> j \<Longrightarrow> i \<le> search_loop f i j \<and> search_loop f i j \<le> j"
proof (induction "j - i" arbitrary: i j rule: less_induct)
  case less
  show ?case
  proof (cases "i < j")
    case True
    then obtain h where h: "i \<le> h" "h < j"
      and step: "search_loop f i j = (if f h then search_loop f i h else search_loop f (Suc h) j)"
      by (rule search_loop_step)
    have "i \<le> search_loop f i h \<and> search_loop f i h \<le> h" using less.hyps [of h i] h by simp
    moreover have "Suc h \<le> search_loop f (Suc h) j \<and> search_loop f (Suc h) j \<le> j"
      using less.hyps [of j "Suc h"] h by simp
    ultimately show ?thesis using h unfolding step by auto
  next
    case False
    with less.prems show ?thesis by (simp add: search_loop_stop)
  qed
qed

text \<open>When the test stays true once it is true, the result separates the failures from the successes.\<close>

definition separates :: "(nat \<Rightarrow> bool) \<Rightarrow> nat \<Rightarrow> nat \<Rightarrow> nat \<Rightarrow> bool" where
  "separates f n i j \<longleftrightarrow> (\<forall>m < i. \<not> f m) \<and> (\<forall>m. j \<le> m \<and> m < n \<longrightarrow> f m)"

lemma search_loop_separates:
  assumes upwards: "\<And>a b. a \<le> b \<Longrightarrow> b < n \<Longrightarrow> f a \<Longrightarrow> f b"
  shows "i \<le> j \<Longrightarrow> j \<le> n \<Longrightarrow> separates f n i j \<Longrightarrow> separates f n (search_loop f i j) (search_loop f i j)"
proof (induction "j - i" arbitrary: i j rule: less_induct)
  case less
  show ?case
  proof (cases "i < j")
    case True
    then obtain h where h: "i \<le> h" "h < j"
      and step: "search_loop f i j = (if f h then search_loop f i h else search_loop f (Suc h) j)"
      by (rule search_loop_step)
    have hn: "h < n" using h less.prems(2) by simp
    show ?thesis
    proof (cases "f h")
      case fh: True
      have "separates f n i h"
        using upwards [OF _ _ fh] less.prems(3) unfolding separates_def by blast
      then show ?thesis
        using less.hyps [of h i] h hn fh unfolding step by simp
    next
      case False
      have "separates f n (Suc h) j"
        using upwards [of _ h] hn False less.prems(3) unfolding separates_def less_Suc_eq_le by blast
      then show ?thesis
        using less.hyps [of j "Suc h"] h less.prems(2) False unfolding step by simp
    qed
  next
    case False
    with less.prems show ?thesis by (simp add: search_loop_stop)
  qed
qed

lemma SearchFloat64s_le: "SearchFloat64s a x \<le> length a"
  unfolding SearchFloat64s_def using search_loop_range [of 0 "length a"] by simp

lemma SearchFloat64s_separates:
  assumes "sorted a"
  shows "m < SearchFloat64s a x \<Longrightarrow> a ! m < x"
    and "SearchFloat64s a x \<le> m \<Longrightarrow> m < length a \<Longrightarrow> x \<le> a ! m"
proof -
  have up: "x \<le> a ! j" if "i \<le> j" "j < length a" "x \<le> a ! i" for i j
    using that sorted_nth_mono [OF assms that(1,2)] by simp
  have "separates (\<lambda>i. x \<le> a ! i) (length a) (SearchFloat64s a x) (SearchFloat64s a x)"
    unfolding SearchFloat64s_def
    by (rule search_loop_separates) (use up in \<open>simp_all add: separates_def\<close>)
  then show "m < SearchFloat64s a x \<Longrightarrow> a ! m < x"
    and "SearchFloat64s a x \<le> m \<Longrightarrow> m < length a \<Longrightarrow> x \<le> a ! m"
    by (auto simp: separates_def not_le)
qed

text \<open>The bucket \<open>i\<close> of sorted bounds: above the bound before it, up to its own.\<close>

definition in_bucket :: "rat list \<Rightarrow> nat \<Rightarrow> rat \<Rightarrow> bool" where
  "in_bucket bounds i x \<longleftrightarrow> (i = 0 \<or> bounds ! (i - 1) < x) \<and> (i = length bounds \<or> x \<le> bounds ! i)"

lemma SearchFloat64s_iff:
  assumes "sorted bounds" and "i \<le> length bounds"
  shows "SearchFloat64s bounds x = i \<longleftrightarrow> in_bucket bounds i x"
proof
  assume eq: "SearchFloat64s bounds x = i"
  have "bounds ! (i - 1) < x" if "i \<noteq> 0"
    using SearchFloat64s_separates(1) [OF assms(1), of "i - 1" x] eq that by simp
  moreover have "x \<le> bounds ! i" if "i \<noteq> length bounds"
    using SearchFloat64s_separates(2) [OF assms(1), of x i] eq assms(2) that by simp
  ultimately show "in_bucket bounds i x" unfolding in_bucket_def by blast
next
  assume b: "in_bucket bounds i x"
  let ?j = "SearchFloat64s bounds x"
  have "\<not> ?j < i"
  proof
    assume lt: "?j < i"
    then have "x \<le> bounds ! (i - 1)"
      using SearchFloat64s_separates(2) [OF assms(1), of x "i - 1"] assms(2) by simp
    with b lt show False unfolding in_bucket_def by auto
  qed
  moreover have "\<not> i < ?j"
  proof
    assume lt: "i < ?j"
    then have "bounds ! i < x" by (rule SearchFloat64s_separates(1) [OF assms(1)])
    moreover have "i \<noteq> length bounds" using lt SearchFloat64s_le [of bounds x] by simp
    ultimately show False using b unfolding in_bucket_def by auto
  qed
  ultimately show "?j = i" by simp
qed

section \<open>Histograms\<close>

definition histogram_ok :: "rat list \<Rightarrow> histogramData \<Rightarrow> bool" where
  "histogram_ok bounds h \<longleftrightarrow> length (bucketCounts h) = Suc (length bounds) \<and> sum_list (bucketCounts h) = h_count h"

lemma histogram_ok_new: "histogram_ok bounds (new_histogram bounds)"
  by (simp add: histogram_ok_def new_histogram_def sum_list_replicate)

lemma sum_list_bump: "i < length (xs :: 64 word list) \<Longrightarrow> sum_list (xs[i := xs ! i + 1]) = sum_list xs + 1"
  by (induction xs arbitrary: i) (auto split: nat.splits simp: algebra_simps)

lemma histogram_ok_observe: "histogram_ok bounds h \<Longrightarrow> histogram_ok bounds (observe bounds x t s h)"
  using SearchFloat64s_le [of bounds x]
  by (simp add: histogram_ok_def observe_def Let_def sum_list_bump le_imp_less_Suc)

lemma h_count_observe [simp]: "h_count (observe bounds x t s h) = h_count h + 1"
  by (simp add: observe_def Let_def)

lemma observe_bucket:
  assumes "length (bucketCounts h) = Suc (length bounds)" and "i \<le> length bounds"
  shows "bucketCounts (observe bounds x t s h) ! i =
    bucketCounts h ! i + (if SearchFloat64s bounds x = i then 1 else 0)"
  using assms by (simp add: observe_def Let_def nth_list_update)

definition observe_all :: "rat list \<Rightarrow> (rat \<times> 8 word list \<times> 8 word list) list \<Rightarrow> histogramData" where
  "observe_all bounds samples = foldl (\<lambda>h (x, t, s). observe bounds x t s h) (new_histogram bounds) samples"

lemma observe_all_snoc [simp]:
  "observe_all bounds (samples @ [(x, t, s)]) = observe bounds x t s (observe_all bounds samples)"
  by (simp add: observe_all_def)

lemma observe_all_length: "length (bucketCounts (observe_all bounds samples)) = Suc (length bounds)"
  by (induction samples rule: rev_induct)
     (auto simp: observe_all_def new_histogram_def observe_def Let_def split: prod.splits)

text \<open>C31. Over sorted bounds a histogram that observed some latencies counts, in every bucket, exactly
  the latencies above the previous bound and up to its own; a binary search finds the bucket.\<close>

theorem histogram_buckets:
  assumes "sorted bounds" and "i \<le> length bounds"
  shows "bucketCounts (observe_all bounds samples) ! i =
    of_nat (length (filter (\<lambda>(x, t, s). in_bucket bounds i x) samples))"
proof (induction samples rule: rev_induct)
  case Nil
  from assms(2) show ?case by (simp add: observe_all_def new_histogram_def del: replicate_Suc)
next
  case (snoc a samples)
  obtain x t s where a: "a = (x, t, s)" by (metis prod_cases3)
  show ?case
    unfolding a observe_all_snoc observe_bucket [OF observe_all_length assms(2)]
    by (simp add: snoc.IH SearchFloat64s_iff [OF assms])
qed

theorem histogram_buckets_witness:
  "bucketCounts (observe_all [2, 4] [(3, [1], [1]), (4, [1], [2]), (5, [1], [3])]) ! 1 = 2"
  using histogram_buckets [of "[2, 4]" 1 "[(3, [1], [1]), (4, [1], [2]), (5, [1], [3])]"]
  by (simp add: in_bucket_def)

section \<open>Time buckets\<close>

lemma all_digits_nat: "all_digits (nat_digits n)"
  unfolding all_digits_def list_all_iff using nat_digits_all_digits [of _ n] by simp

lemma nat_digits_head: "c \<in> set (nat_digits n) \<Longrightarrow> c \<noteq> CHR ''-'' \<and> c \<noteq> CHR ''+'' \<and> c \<noteq> NUL"
  using nat_digits_all_digits [of c n] by auto

lemma take1_digits: "take 1 (nat_digits n) \<noteq> ''-''" "take 1 (nat_digits n) \<noteq> ''+''"
  using nat_digits_head [of _ n] by (cases "nat_digits n"; auto)+

lemma ParseInt_Itoa:
  assumes "- (2 ^ 63) \<le> i" and "i < 2 ^ 63"
  shows "ParseInt (Itoa i) = Some i"
proof (cases "i < 0")
  case True
  then show ?thesis using assms
    by (simp add: ParseInt_def Itoa_def Let_def all_digits_nat)
next
  case False
  then show ?thesis using assms take1_digits
    by (simp add: ParseInt_def Itoa_def Let_def all_digits_nat)
qed

lemma Itoa_no_NUL: "c \<in> set (Itoa i) \<Longrightarrow> c \<noteq> NUL"
  using nat_digits_head by (auto simp: Itoa_def split: if_splits)

lemma Itoa_not_Nil [simp]: "Itoa i \<noteq> []"
  by (simp add: Itoa_def)

text \<open>The start of the bucket of a time, to the second.\<close>

definition bucket_seconds :: "Config \<Rightarrow> 64 word \<Rightarrow> int" where
  "bucket_seconds c t = unix_seconds (Truncate (AsTime t) (GetTimeBucketInterval c))"

lemma bucket_seconds_range:
  assumes "TimeBucketInterval c < 2 ^ 63"
  shows "- (2 ^ 63) \<le> bucket_seconds c t \<and> bucket_seconds c t < 2 ^ 63"
proof -
  define d where "d = GetTimeBucketInterval c"
  have d: "d < 2 ^ 63" using assms by (simp add: d_def GetTimeBucketInterval_def defaultTimeBucketInterval_def)
  have t: "- (2 ^ 63) \<le> AsTime t" "AsTime t < 2 ^ 63"
    unfolding AsTime_def using sint_ge [of t] sint_lt [of t] by simp_all
  define r where "r = (AsTime t + 62135596800 * 10 ^ 9) mod d"
  have r: "0 \<le> r \<and> r < d" if "0 < d" using that by (simp add: r_def)
  have "- (2 ^ 64) \<le> Truncate (AsTime t) d \<and> Truncate (AsTime t) d < 2 ^ 63"
  proof (cases "d \<le> 0")
    case True
    then show ?thesis using t by (simp add: Truncate_def)
  next
    case False
    then have "Truncate (AsTime t) d = AsTime t - r" by (simp add: Truncate_def r_def)
    then show ?thesis using t d r False by simp
  qed
  then have "- (2 ^ 64) div 10 ^ 9 \<le> Truncate (AsTime t) d div 10 ^ 9 \<and> Truncate (AsTime t) d div 10 ^ 9 \<le> 2 ^ 63 div 10 ^ 9"
    by (intro conjI zdiv_mono1) auto
  then show ?thesis unfolding bucket_seconds_def unix_seconds_def d_def [symmetric] by simp
qed

lemma parse_time_prefix:
  assumes "TimeBucketInterval c < 2 ^ 63"
  shows "parseTimesFromKeyOrNow (time_prefix c (AsTime t) @ k) now st =
    (word_of_int (bucket_seconds c t * 10 ^ 9), word_of_int (bucket_seconds c t * 10 ^ 9))"
proof -
  let ?s = "Itoa (bucket_seconds c t)"
  have tw: "takeWhile (\<lambda>c. c \<noteq> NUL) (?s @ NUL # k) = ?s"
    using Itoa_no_NUL by (simp add: takeWhile_append2)
  have "ParseInt ?s = Some (bucket_seconds c t)"
    using bucket_seconds_range [OF assms] ParseInt_Itoa by blast
  then show ?thesis
    unfolding parseTimesFromKeyOrNow_def time_prefix_def bucket_seconds_def [symmetric]
    by (simp add: tw)
qed

section \<open>Dimensions\<close>

lemma getDimensionValueWithResource_value:
  "fst (getDimensionValueWithResource d spanAttr resourceAttr) = getDimensionValue d spanAttr resourceAttr"
  by (auto simp: getDimensionValueWithResource_def getDimensionValue_def span_value_def split: option.splits)

text \<open>The labels a list of dimensions takes: the names and what they become.\<close>

definition labels_of :: "span_deps \<Rightarrow> bool \<Rightarrow> string \<Rightarrow> string set" where
  "labels_of D skip n = {n, sanitize D n skip}"

lemma validate_loop_None:
  "validate_loop D skip names dims = None \<Longrightarrow>
     (\<forall>d \<in> set dims. labels_of D skip (Name d) \<inter> names = {}) \<and>
     distinct (map Name dims) \<and>
     (\<forall>i j. i < j \<and> j < length dims \<longrightarrow>
        labels_of D skip (Name (dims ! i)) \<inter> labels_of D skip (Name (dims ! j)) = {})"
proof (induction D skip names dims rule: validate_loop.induct)
  case (2 D skip names key dims)
  let ?new = "labels_of D skip (Name key)"
  have fresh: "Name key \<notin> names" using "2.prems" by (auto split: if_splits)
  have IH: "?new \<inter> names = {} \<and>
     (\<forall>d \<in> set dims. labels_of D skip (Name d) \<inter> (?new \<union> names) = {}) \<and> distinct (map Name dims) \<and>
     (\<forall>i j. i < j \<and> j < length dims \<longrightarrow>
        labels_of D skip (Name (dims ! i)) \<inter> labels_of D skip (Name (dims ! j)) = {})"
  proof (cases "sanitize D (Name key) skip = Name key")
    case True
    then have new: "?new \<union> names = insert (Name key) names" by (auto simp: labels_of_def)
    have "validate_loop D skip (insert (Name key) names) dims = None"
      using "2.prems" fresh True by simp
    with "2.IH"(1) [OF fresh refl refl True] fresh True show ?thesis unfolding new by (simp add: labels_of_def)
  next
    case False
    let ?s = "sanitize D (Name key) skip"
    have s: "?s \<notin> insert (Name key) names" using "2.prems" fresh False by (auto split: if_splits)
    have new: "?new \<union> names = insert ?s (insert (Name key) names)" by (auto simp: labels_of_def)
    have "validate_loop D skip (insert ?s (insert (Name key) names)) dims = None"
      using "2.prems" fresh False s by simp
    with "2.IH"(2) [OF fresh refl refl False s] fresh s show ?thesis unfolding new by (simp add: labels_of_def)
  qed
  have "Name key \<notin> Name ` set dims" using IH by (auto simp: labels_of_def)
  moreover have "labels_of D skip (Name ((key # dims) ! i)) \<inter> labels_of D skip (Name ((key # dims) ! j)) = {}"
    if "i < j" "j < length (key # dims)" for i j
    using IH that by (cases i; cases j) (auto simp: labels_of_def)
  ultimately show ?case using IH by (simp add: inf_sup_distrib1)
qed simp

end
