(* ===== verification/Span_Cache.thy ===== *)
theory Span_Cache
  imports Go_Prelude "HOL-Library.Finite_Map"
begin

text \<open>
  The cache of the span metrics processor (\<open>signozspanmetricsprocessor/internal/cache\<close>): a least
  recently used cache, upstream code (\<open>simplelru\<close>, the record of that name), and the items it
  evicted, which stay readable until \<open>RemoveEvictedItems\<close>. An operation of the upstream cache returns
  its new state and the calls of the eviction callback, in order. \<open>lru_ok\<close> is what it documents.

  Theorems: whatever was added is found with its last value until the evicted items are removed, and
  \<open>Get\<close> changes no answer.
\<close>

section \<open>The upstream cache\<close>

record ('l, 'k, 'v) simplelru =
  l_New :: "int \<Rightarrow> 'l option"
  l_Add :: "'l \<Rightarrow> 'k \<Rightarrow> 'v \<Rightarrow> 'l \<times> bool \<times> ('k \<times> 'v) list"
  l_Get :: "'l \<Rightarrow> 'k \<Rightarrow> 'l \<times> 'v option"
  l_Contains :: "'l \<Rightarrow> 'k \<Rightarrow> bool"
  l_Len :: "'l \<Rightarrow> nat"
  l_Purge :: "'l \<Rightarrow> 'l \<times> ('k \<times> 'v) list"

section \<open>The cache\<close>

record ('l, 'k, 'v) Cache =
  lru :: 'l
  evictedItems :: "('k, 'v) fmap"

definition on_evict :: "('k \<times> 'v) list \<Rightarrow> ('k, 'v) fmap \<Rightarrow> ('k, 'v) fmap" where
  "on_evict kvs m = fold (\<lambda>(k, v). fmupd k v) kvs m"

definition NewCache :: "('l, 'k, 'v) simplelru \<Rightarrow> int \<Rightarrow> ('l, 'k, 'v) Cache option" where
  "NewCache L n = map_option (\<lambda>l. \<lparr>lru = l, evictedItems = fmempty\<rparr>) (l_New L n)"

definition RemoveEvictedItems :: "('l, 'k, 'v) Cache \<Rightarrow> ('l, 'k, 'v) Cache" where
  "RemoveEvictedItems c = c\<lparr>evictedItems := fmempty\<rparr>"

definition Cache_Add :: "('l, 'k, 'v) simplelru \<Rightarrow> 'k \<Rightarrow> 'v \<Rightarrow> ('l, 'k, 'v) Cache \<Rightarrow> bool \<times> ('l, 'k, 'v) Cache" where
  "Cache_Add L key val c =
     (case l_Add L (lru c) key val of
        (l', evicted, calls) \<Rightarrow> (evicted, \<lparr>lru = l', evictedItems = on_evict calls (evictedItems c)\<rparr>))"

definition Cache_Get :: "('l, 'k, 'v) simplelru \<Rightarrow> 'k \<Rightarrow> ('l, 'k, 'v) Cache \<Rightarrow> 'v option \<times> ('l, 'k, 'v) Cache" where
  "Cache_Get L key c =
     (case l_Get L (lru c) key of
        (l', Some v) \<Rightarrow> (Some v, c\<lparr>lru := l'\<rparr>)
      | (l', None) \<Rightarrow>
          (case fmlookup (evictedItems c) key of
             None \<Rightarrow> (None, c\<lparr>lru := l'\<rparr>)
           | Some v \<Rightarrow>
               (Some v, snd (Cache_Add L key v \<lparr>lru = l', evictedItems = fmdrop key (evictedItems c)\<rparr>))))"

definition Cache_Contains :: "('l, 'k, 'v) simplelru \<Rightarrow> 'k \<Rightarrow> ('l, 'k, 'v) Cache \<Rightarrow> bool" where
  "Cache_Contains L key c = l_Contains L (lru c) key"

definition Cache_Len :: "('l, 'k, 'v) simplelru \<Rightarrow> ('l, 'k, 'v) Cache \<Rightarrow> nat" where
  "Cache_Len L c = l_Len L (lru c)"

definition Cache_Purge :: "('l, 'k, 'v) simplelru \<Rightarrow> ('l, 'k, 'v) Cache \<Rightarrow> ('l, 'k, 'v) Cache" where
  "Cache_Purge L c =
     (case l_Purge L (lru c) of
        (l', calls) \<Rightarrow> RemoveEvictedItems \<lparr>lru = l', evictedItems = on_evict calls (evictedItems c)\<rparr>)"

section \<open>What the upstream cache promises\<close>

text \<open>
  \<open>contents\<close> reads a state of the upstream cache as a map. Adding stores the pair and calls back with
  exactly what it dropped; reading changes no content; purging leaves nothing.
\<close>

definition lru_ok :: "('l, 'k, 'v) simplelru \<Rightarrow> ('l \<Rightarrow> ('k, 'v) fmap) \<Rightarrow> bool" where
  "lru_ok L contents \<longleftrightarrow>
     (\<forall>n l. l_New L n = Some l \<longrightarrow> contents l = fmempty) \<and>
     (\<forall>n. l_New L n \<noteq> None \<longleftrightarrow> 0 < n) \<and>
     (\<forall>l k v. case l_Add L l k v of
        (l', evicted, calls) \<Rightarrow>
          contents l' = fold (\<lambda>(k, v). fmdrop k) calls (fmupd k v (contents l)) \<and>
          k \<notin> fst ` set calls \<and> (\<forall>(k', v') \<in> set calls. fmlookup (contents l) k' = Some v')) \<and>
     (\<forall>l k. contents (fst (l_Get L l k)) = contents l \<and> snd (l_Get L l k) = fmlookup (contents l) k) \<and>
     (\<forall>l k. l_Contains L l k \<longleftrightarrow> k |\<in>| fmdom (contents l)) \<and>
     (\<forall>l. l_Len L l = fcard (fmdom (contents l))) \<and>
     (\<forall>l. contents (fst (l_Purge L l)) = fmempty)"

lemma lru_okD:
  assumes "lru_ok L contents"
  shows "l_New L n = Some l' \<Longrightarrow> contents l' = fmempty"
    and "l_New L n \<noteq> None \<longleftrightarrow> 0 < n"
    and "l_Add L l k v = (l', evicted, calls) \<Longrightarrow>
      contents l' = fold (\<lambda>(k, v). fmdrop k) calls (fmupd k v (contents l)) \<and>
      k \<notin> fst ` set calls \<and> (\<forall>(k', v') \<in> set calls. fmlookup (contents l) k' = Some v')"
    and "l_Get L l k = (l', r) \<Longrightarrow> contents l' = contents l \<and> r = fmlookup (contents l) k"
    and "l_Contains L l k \<longleftrightarrow> k |\<in>| fmdom (contents l)"
    and "l_Len L l = fcard (fmdom (contents l))"
    and "l_Purge L l = (l', calls) \<Longrightarrow> contents l' = fmempty"
proof -
  note ok = assms [unfolded lru_ok_def]
  have 1: "\<forall>n l. l_New L n = Some l \<longrightarrow> contents l = fmempty" using ok by (elim conjE)
  then show "l_New L n = Some l' \<Longrightarrow> contents l' = fmempty" by blast
  have 2: "\<forall>n. l_New L n \<noteq> None \<longleftrightarrow> 0 < n" using ok by (elim conjE)
  then show "l_New L n \<noteq> None \<longleftrightarrow> 0 < n" by blast
  have 3: "\<forall>l k v. case l_Add L l k v of (l', evicted, calls) \<Rightarrow>
      contents l' = fold (\<lambda>(k, v). fmdrop k) calls (fmupd k v (contents l)) \<and>
      k \<notin> fst ` set calls \<and> (\<forall>(k', v') \<in> set calls. fmlookup (contents l) k' = Some v')"
    using ok by (elim conjE)
  from spec [OF spec [OF spec [OF 3, of l], of k], of v]
  show "l_Add L l k v = (l', evicted, calls) \<Longrightarrow>
      contents l' = fold (\<lambda>(k, v). fmdrop k) calls (fmupd k v (contents l)) \<and>
      k \<notin> fst ` set calls \<and> (\<forall>(k', v') \<in> set calls. fmlookup (contents l) k' = Some v')"
    by simp
  have 4: "\<forall>l k. contents (fst (l_Get L l k)) = contents l \<and> snd (l_Get L l k) = fmlookup (contents l) k"
    using ok by (elim conjE)
  from spec [OF spec [OF 4, of l], of k]
  show "l_Get L l k = (l', r) \<Longrightarrow> contents l' = contents l \<and> r = fmlookup (contents l) k" by auto
  have 5: "\<forall>l k. l_Contains L l k \<longleftrightarrow> k |\<in>| fmdom (contents l)" using ok by (elim conjE)
  then show "l_Contains L l k \<longleftrightarrow> k |\<in>| fmdom (contents l)" by blast
  have 6: "\<forall>l. l_Len L l = fcard (fmdom (contents l))" using ok by (elim conjE)
  then show "l_Len L l = fcard (fmdom (contents l))" by blast
  have 7: "\<forall>l. contents (fst (l_Purge L l)) = fmempty" using ok by (elim conjE)
  from spec [OF 7, of l] show "l_Purge L l = (l', calls) \<Longrightarrow> contents l' = fmempty" by simp
qed

section \<open>What the cache promises\<close>

text \<open>What a reader can find: the content, and behind it the evicted items.\<close>

definition readable :: "('l \<Rightarrow> ('k, 'v) fmap) \<Rightarrow> ('l, 'k, 'v) Cache \<Rightarrow> ('k, 'v) fmap" where
  "readable contents c = evictedItems c ++\<^sub>f contents (lru c)"

lemma fmlookup_on_evict:
  "(\<forall>(k', v') \<in> set calls. fmlookup m k' = Some v') \<Longrightarrow>
   fmlookup (on_evict calls e) k = (if k \<in> fst ` set calls then fmlookup m k else fmlookup e k)"
  unfolding on_evict_def by (induction calls arbitrary: e) (auto split: if_splits)

lemma fmlookup_drop_calls:
  "fmlookup (fold (\<lambda>(k, v). fmdrop k) calls m) k = (if k \<in> fst ` set calls then None else fmlookup m k)"
  by (induction calls arbitrary: m) (auto split: if_splits)

lemma readable_Add:
  assumes "lru_ok L contents"
  shows "readable contents (snd (Cache_Add L k v c)) = fmupd k v (readable contents c)"
proof -
  obtain l' e calls where A: "l_Add L (lru c) k v = (l', e, calls)" by (metis prod_cases3)
  have *: "contents l' = fold (\<lambda>(k, v). fmdrop k) calls (fmupd k v (contents (lru c)))"
    and fresh: "k \<notin> fst ` set calls"
    and kept: "\<forall>(k', v') \<in> set calls. fmlookup (contents (lru c)) k' = Some v'"
    using lru_okD(3) [OF assms A] by auto
  show ?thesis
  proof (rule fmap_ext)
    fix x
    show "fmlookup (readable contents (snd (Cache_Add L k v c))) x = fmlookup (fmupd k v (readable contents c)) x"
      using fresh kept fmlookup_on_evict [OF kept, of "evictedItems c" x]
      by (auto simp: readable_def Cache_Add_def A * fmlookup_drop_calls fmdom'_notI fmlookup_dom_iff
          image_iff split: option.splits)
  qed
qed

lemma fmdrop_add_upd: "fmlookup (e ++\<^sub>f m) k = Some v \<Longrightarrow> fmupd k v (fmdrop k e ++\<^sub>f m) = e ++\<^sub>f m"
  by (rule fmap_ext) auto

lemma readable_Get:
  assumes "lru_ok L contents"
  shows "readable contents (snd (Cache_Get L k c)) = readable contents c"
    and "fst (Cache_Get L k c) = fmlookup (readable contents c) k"
proof -
  obtain l' r where G: "l_Get L (lru c) k = (l', r)" by (metis prod.exhaust)
  have l': "contents l' = contents (lru c)" and r: "r = fmlookup (contents (lru c)) k"
    using lru_okD(4) [OF assms G] by auto
  show "readable contents (snd (Cache_Get L k c)) = readable contents c"
  proof (cases "r = None \<and> fmlookup (evictedItems c) k \<noteq> None")
    case True
    then obtain v where v: "fmlookup (evictedItems c) k = Some v" by blast
    have "fmlookup (evictedItems c ++\<^sub>f contents (lru c)) k = Some v"
      using True v r by (simp add: fmlookup_dom_iff)
    then show ?thesis
      using True v by (simp add: Cache_Get_def G readable_Add [OF assms])
        (simp add: readable_def l' fmdrop_add_upd)
  next
    case False
    then show ?thesis
      by (auto simp: Cache_Get_def G readable_def l' split: option.splits)
  qed
  show "fst (Cache_Get L k c) = fmlookup (readable contents c) k"
    using r by (auto simp: Cache_Get_def G readable_def fmlookup_dom_iff split: option.splits)
qed

lemma readable_New: "lru_ok L contents \<Longrightarrow> NewCache L n = Some c \<Longrightarrow> readable contents c = fmempty"
  by (auto simp: NewCache_def readable_def lru_okD(1))

lemma readable_Remove: "lru_ok L contents \<Longrightarrow>
  fmlookup (readable contents (RemoveEvictedItems c)) k = (if Cache_Contains L k c then fmlookup (readable contents c) k else None)"
  by (auto simp: readable_def RemoveEvictedItems_def Cache_Contains_def lru_okD(5) fmlookup_dom_iff)

lemma readable_Purge: "lru_ok L contents \<Longrightarrow> readable contents (Cache_Purge L c) = fmempty"
  by (auto simp: readable_def Cache_Purge_def RemoveEvictedItems_def dest: lru_okD(7) split: prod.splits)

lemma Contains_Remove: "Cache_Contains L k (RemoveEvictedItems c) = Cache_Contains L k c"
  by (simp add: Cache_Contains_def RemoveEvictedItems_def)

section \<open>An instance\<close>

text \<open>A cache that satisfies the contract: its size, its content and its keys, the most recent first.
  The victim of an addition is the oldest other key.\<close>

type_synonym ('k, 'v) list_state = "int \<times> ('k, 'v) fmap \<times> 'k list"

definition victim :: "int \<Rightarrow> 'k \<Rightarrow> ('k, 'v) fmap \<Rightarrow> 'k list \<Rightarrow> 'k option" where
  "victim n k m ks =
     (if int (fcard (finsert k (fmdom m))) > n then List.find (\<lambda>x. x \<noteq> k \<and> x |\<in>| fmdom m) (rev ks) else None)"

definition list_Add :: "('k, 'v) list_state \<Rightarrow> 'k \<Rightarrow> 'v \<Rightarrow> ('k, 'v) list_state \<times> bool \<times> ('k \<times> 'v) list" where
  "list_Add l k v =
     (case l of
        (n, m, ks) \<Rightarrow>
          (case victim n k m ks of
             None \<Rightarrow> ((n, fmupd k v m, k # removeAll k ks), False, [])
           | Some x \<Rightarrow>
               ((n, fmdrop x (fmupd k v m), k # removeAll k (removeAll x ks)), True, [(x, the (fmlookup m x))])))"

definition list_lru :: "(('k, 'v) list_state, 'k, 'v) simplelru" where
  "list_lru =
     \<lparr>l_New = (\<lambda>n. if 0 < n then Some (n, fmempty, []) else None),
      l_Add = list_Add,
      l_Get = (\<lambda>(n, m, ks) k. ((n, m, if k |\<in>| fmdom m then k # removeAll k ks else ks), fmlookup m k)),
      l_Contains = (\<lambda>(n, m, ks) k. k |\<in>| fmdom m),
      l_Len = (\<lambda>(n, m, ks). fcard (fmdom m)),
      l_Purge = (\<lambda>(n, m, ks). ((n, fmempty, []), []))\<rparr>"

lemma victim_old: "victim n k m ks = Some x \<Longrightarrow> x \<noteq> k \<and> fmlookup m x = Some (the (fmlookup m x))"
  by (auto simp: victim_def find_Some_iff fmlookup_dom_iff split: if_splits)

lemma list_Add_ok:
  "case list_Add l k v of (l', evicted, calls) \<Rightarrow>
     fst (snd l') = fold (\<lambda>(k, v). fmdrop k) calls (fmupd k v (fst (snd l))) \<and>
     k \<notin> fst ` set calls \<and> (\<forall>(k', v') \<in> set calls. fmlookup (fst (snd l)) k' = Some v')"
  using victim_old [of "fst l" k "fst (snd l)" "snd (snd l)"]
  by (auto simp: list_Add_def split: prod.splits option.splits)

lemma list_lru_ok: "lru_ok list_lru (\<lambda>l. fst (snd l))"
  unfolding lru_ok_def
proof (intro conjI)
  show "\<forall>l k v. case l_Add list_lru l k v of (l', evicted, calls) \<Rightarrow>
      fst (snd l') = fold (\<lambda>(k, v). fmdrop k) calls (fmupd k v (fst (snd l))) \<and>
      k \<notin> fst ` set calls \<and> (\<forall>(k', v') \<in> set calls. fmlookup (fst (snd l)) k' = Some v')"
    unfolding list_lru_def simplelru.simps by (intro allI list_Add_ok)
qed (auto simp: list_lru_def split: if_splits)

end
