(* ===== verification/Span_Metrics.thy ===== *)
theory Span_Metrics
  imports Span_Values Span_Cache "HOL-Library.AList"
begin

text \<open>
  The span metrics processor (\<open>processor/signozspanmetricsprocessor/processor.go\<close>) with its state:
  the tables of histograms and their caches of dimensions, the keys, the aggregation of spans and the
  export. A Go map is ranged over in any order and the clock is read for every entry: an export gets,
  for each table, the list of its keys with the readings (\<open>ranges\<close>). Exponential histograms are
  upstream code: the record \<open>expohisto\<close>. The key buffer is reset before every use, so it is the string
  a function returns; logging is not modelled. The bounds of the three other histograms are equal to
  \<open>latencyBounds\<close> and never read.
\<close>

section \<open>State\<close>

record 'e expohisto =
  x_New :: 'e
  x_Update :: "'e \<Rightarrow> rat \<Rightarrow> 'e"
  x_Count :: "'e \<Rightarrow> 64 word"
  x_Sum :: "'e \<Rightarrow> rat"
  x_Min :: "'e \<Rightarrow> rat"
  x_Max :: "'e \<Rightarrow> rat"
  x_ZeroCount :: "'e \<Rightarrow> 64 word"
  x_Scale :: "'e \<Rightarrow> int"
  x_Positive :: "'e \<Rightarrow> int \<times> 64 word list"
  x_Negative :: "'e \<Rightarrow> int \<times> 64 word list"

type_synonym 'l dim_cache = "('l, string, pmap) Cache"

record ('l, 'e) processorImp =
  instanceID :: string
  config :: Config
  metricsConsumer :: "string list"
  dimensions :: "dimension list"
  expDimensions :: "dimension list"
  callDimensions :: "dimension list"
  dbCallDimensions :: "dimension list"
  externalCallDimensions :: "dimension list"
  startTimestamp :: "64 word"
  histograms :: histograms
  latencyBounds :: "rat list"
  expHistograms :: "(string, 'e) fmap"
  callHistograms :: histograms
  dbCallHistograms :: histograms
  externalCallHistograms :: histograms
  metricKeyToDimensions :: "'l dim_cache"
  expHistogramKeyToDimensions :: "'l dim_cache"
  callMetricKeyToDimensions :: "'l dim_cache"
  dbCallMetricKeyToDimensions :: "'l dim_cache"
  externalCallMetricKeyToDimensions :: "'l dim_cache"
  attrsCardinality :: "(string, string fset) fmap"
  excludePatternRegex :: "(string \<times> string) list"
  started :: bool
  shutdownOnce :: bool
  serviceToOperations :: "(string, string fset) fmap"
  maxNumberOfServicesToTrack :: int
  maxNumberOfOperationsToTrackPerService :: int

datatype new_error = BadDimensions dim_error | BadCacheSize int

text \<open>Later patterns replace earlier ones of the same name.\<close>

definition exclude_map :: "ExcludePattern list \<Rightarrow> (string \<times> string) list" where
  "exclude_map ps = foldl (\<lambda>m p. AList.update (ep_Name p) (ep_Pattern p) m) [] ps"

text \<open>\<open>None\<close> is the panic of \<open>regexp.MustCompile\<close>.\<close>

definition newProcessor ::
  "span_deps \<Rightarrow> ('l, string, pmap) simplelru \<Rightarrow> string \<Rightarrow> Config \<Rightarrow> int \<Rightarrow> (new_error + ('l, 'e) processorImp) option" where
  "newProcessor D L ident cfg now =
     (let cfg = (if TimeBucketInterval cfg = 0 then cfg\<lparr>TimeBucketInterval := defaultTimeBucketInterval\<rparr> else cfg);
          bounds = (case LatencyHistogramBuckets cfg of
                      None \<Rightarrow> defaultLatencyHistogramBucketsMs | Some vs \<Rightarrow> mapDurationsToMillis vs);
          named = (\<lambda>ns. newDimensions (map (\<lambda>n. \<lparr>Name = n, Default = None\<rparr>) ns @ Dimensions cfg))
      in case validateDimensions D (Dimensions cfg) (skipSanitizeLabel cfg) of
           Some err \<Rightarrow> Some (Inl (BadDimensions err))
         | None \<Rightarrow>
             if DimensionsCacheSize cfg \<le> 0 then Some (Inl (BadCacheSize (DimensionsCacheSize cfg)))
             else
               (case NewCache L (DimensionsCacheSize cfg) of
                  None \<Rightarrow> Some (Inl (BadCacheSize (DimensionsCacheSize cfg)))
                | Some c \<Rightarrow>
                    if \<not> list_all (\<lambda>p. CompileOk D (ep_Pattern p)) (ExcludePatterns cfg) then None
                    else Some (Inr
                      \<lparr>instanceID = ident, config = cfg, metricsConsumer = [],
                       dimensions = named [], expDimensions = named [],
                       callDimensions = named [''http.status_code''],
                       dbCallDimensions = named [''db.system'', ''db.name''],
                       externalCallDimensions = named [''http.status_code''],
                       startTimestamp = word_of_int now,
                       histograms = fmempty, latencyBounds = bounds, expHistograms = fmempty,
                       callHistograms = fmempty, dbCallHistograms = fmempty, externalCallHistograms = fmempty,
                       metricKeyToDimensions = c, expHistogramKeyToDimensions = c,
                       callMetricKeyToDimensions = c, dbCallMetricKeyToDimensions = c,
                       externalCallMetricKeyToDimensions = c,
                       attrsCardinality = fmempty, excludePatternRegex = exclude_map (ExcludePatterns cfg),
                       started = False, shutdownOnce = False, serviceToOperations = fmempty,
                       maxNumberOfServicesToTrack = MaxServicesToTrack cfg,
                       maxNumberOfOperationsToTrackPerService = MaxOperationsToTrackPerService cfg\<rparr>)))"

definition shouldSkip :: "span_deps \<Rightarrow> string \<Rightarrow> Span \<Rightarrow> pmap \<Rightarrow> ('l, 'e) processorImp \<Rightarrow> bool" where
  "shouldSkip D serviceName sp resourceAttrs p =
     list_ex (\<lambda>(key, pattern).
         key = ''service.name'' \<and> MatchString D pattern serviceName \<or>
         key = ''operation'' \<and> MatchString D pattern (sp_Name sp) \<or>
         key = ''span.kind'' \<and> MatchString D pattern (Kind_String D (sp_Kind sp)) \<or>
         key = ''status.code'' \<and> MatchString D pattern (Status_String D (sp_Status sp)) \<or>
         list_ex (\<lambda>(k, v). key = k \<and> MatchString D pattern (AsString v)) (sp_Attributes sp) \<or>
         list_ex (\<lambda>(k, v). key = k \<and> MatchString D pattern (AsString v)) resourceAttrs)
       (excludePatternRegex p)"

section \<open>Keys\<close>

definition operations_of :: "string \<Rightarrow> ('l, 'e) processorImp \<Rightarrow> string fset" where
  "operations_of serviceName p = (case fmlookup (serviceToOperations p) serviceName of None \<Rightarrow> {||} | Some ops \<Rightarrow> ops)"

text \<open>The names a span is tracked under: past the limits, the overflow names.\<close>

definition tracked_service :: "string \<Rightarrow> ('l, 'e) processorImp \<Rightarrow> string" where
  "tracked_service serviceName p =
     (if int (fcard (fmdom (serviceToOperations p))) > maxNumberOfServicesToTrack p
      then ''overflow_service'' else serviceName)"

definition tracked_operation :: "string \<Rightarrow> string \<Rightarrow> ('l, 'e) processorImp \<Rightarrow> string" where
  "tracked_operation serviceName spanName p =
     (if int (fcard (operations_of serviceName p)) > maxNumberOfOperationsToTrackPerService p
      then ''overflow_operation'' else spanName)"

definition concat_values :: "string list \<Rightarrow> string" where
  "concat_values vs = join vs [NUL]"

definition buildKey ::
  "string \<Rightarrow> Span \<Rightarrow> dimension list \<Rightarrow> pmap \<Rightarrow> ('l, 'e) processorImp \<Rightarrow> string \<times> ('l, 'e) processorImp" where
  "buildKey serviceName sp optionalDims resourceAttrs p =
     (let serviceName = tracked_service serviceName p;
          spanName = tracked_operation serviceName (sp_Name sp) p
      in (concat_values ([serviceName, spanName, SpanKindStr (sp_Kind sp), StatusCodeStr (sp_Status sp)] @
            List.map_filter (\<lambda>d. map_option AsString (getDimensionValue d (sp_Attributes sp) resourceAttrs)) optionalDims),
          p\<lparr>serviceToOperations :=
              fmupd serviceName (finsert spanName (operations_of serviceName p)) (serviceToOperations p)\<rparr>))"

definition custom_value :: "Span \<Rightarrow> pmap \<Rightarrow> dimension \<Rightarrow> string list" where
  "custom_value sp resourceAttrs d =
     (case getDimensionValueWithResource d (sp_Attributes sp) resourceAttrs of
        (Some v, foundInResource) \<Rightarrow>
          AsString v # (if foundInResource then [''resource_'' @ AsString v] else [])
      | (None, _) \<Rightarrow> [])"

definition buildCustomKey :: "string \<Rightarrow> Span \<Rightarrow> dimension list \<Rightarrow> pmap \<Rightarrow> string list \<Rightarrow> string" where
  "buildCustomKey serviceName sp optionalDims resourceAttrs extraVals =
     concat_values ([serviceName, StatusCodeStr (sp_Status sp)] @ extraVals @
       concat (map (custom_value sp resourceAttrs) optionalDims))"

definition key_prefix :: "Span \<Rightarrow> ('l, 'e) processorImp \<Rightarrow> string" where
  "key_prefix sp p =
     (if GetAggregationTemporality (config p) = Delta then time_prefix (config p) (AsTime (StartTimestamp sp)) else [])"

definition buildMetricKey ::
  "string \<Rightarrow> Span \<Rightarrow> dimension list \<Rightarrow> pmap \<Rightarrow> ('l, 'e) processorImp \<Rightarrow> string \<times> ('l, 'e) processorImp" where
  "buildMetricKey serviceName sp dims resourceAttr p =
     apfst (\<lambda>k. key_prefix sp p @ k) (buildKey serviceName sp dims resourceAttr p)"

definition buildCustomMetricKey ::
  "string \<Rightarrow> Span \<Rightarrow> dimension list \<Rightarrow> pmap \<Rightarrow> string list \<Rightarrow> ('l, 'e) processorImp \<Rightarrow> string" where
  "buildCustomMetricKey serviceName sp dims resourceAttr extraVals p =
     key_prefix sp p @ buildCustomKey serviceName sp dims resourceAttr extraVals"

section \<open>Dimensions of a key\<close>

definition put_dimension :: "Span \<Rightarrow> pmap \<Rightarrow> dimension \<Rightarrow> pmap \<Rightarrow> pmap" where
  "put_dimension sp resourceAttrs d dims =
     (if d_name d = ''signoz.collector.id'' then dims
      else
        (case getDimensionValueWithResource d (sp_Attributes sp) resourceAttrs of
           (Some v, foundInResource) \<Rightarrow>
             let dims = put (d_name d) v dims
             in if foundInResource then put (''resource_'' @ d_name d) v dims else dims
         | (None, _) \<Rightarrow> dims))"

definition note_cardinality :: "pmap \<Rightarrow> (string, string fset) fmap \<Rightarrow> (string, string fset) fmap" where
  "note_cardinality dims m =
     fold (\<lambda>(k, v) m. fmupd k (finsert (AsString v) (case fmlookup m k of None \<Rightarrow> {||} | Some vs \<Rightarrow> vs)) m) dims m"

definition buildDimensionKVs ::
  "string \<Rightarrow> Span \<Rightarrow> dimension list \<Rightarrow> pmap \<Rightarrow> ('l, 'e) processorImp \<Rightarrow> pmap \<times> ('l, 'e) processorImp" where
  "buildDimensionKVs serviceName sp optionalDims resourceAttrs p =
     (let serviceName = tracked_service serviceName p;
          spanName = tracked_operation serviceName (sp_Name sp) p;
          dims = fold (\<lambda>(k, v). put k (StrValue v))
            [(''service.name'', serviceName), (''operation'', spanName), (''span.kind'', SpanKindStr (sp_Kind sp)),
             (''status.code'', StatusCodeStr (sp_Status sp)), (''signoz.collector.id'', instanceID p),
             (''resource_signoz.collector.id'', instanceID p)] [];
          dims = fold (put_dimension sp resourceAttrs) optionalDims dims
      in (dims, p\<lparr>attrsCardinality := note_cardinality dims (attrsCardinality p)\<rparr>))"

definition buildCustomDimensionKVs ::
  "string \<Rightarrow> Span \<Rightarrow> dimension list \<Rightarrow> pmap \<Rightarrow> pmap \<Rightarrow> ('l, 'e) processorImp \<Rightarrow> pmap \<times> ('l, 'e) processorImp" where
  "buildCustomDimensionKVs serviceName sp optionalDims resourceAttrs extraDims p =
     (let dims = fold (\<lambda>(k, v). put k v) ((''service.name'', StrValue serviceName) # extraDims @
            [(''status.code'', StrValue (StatusCodeStr (sp_Status sp))), (''signoz.collector.id'', StrValue (instanceID p)),
             (''resource_signoz.collector.id'', StrValue (instanceID p))]) [];
          dims = fold (put_dimension sp resourceAttrs) optionalDims dims
      in (dims, p\<lparr>attrsCardinality := note_cardinality dims (attrsCardinality p)\<rparr>))"

text \<open>The five functions that remember the dimensions of a key on a miss.\<close>

definition cache ::
  "('l, string, pmap) simplelru \<Rightarrow> string \<Rightarrow> Span \<Rightarrow> string \<Rightarrow> pmap \<Rightarrow> ('l, 'e) processorImp \<Rightarrow> ('l, 'e) processorImp" where
  "cache L serviceName sp k resourceAttrs p =
     (case Cache_Get L k (metricKeyToDimensions p) of
        (Some _, c) \<Rightarrow> p\<lparr>metricKeyToDimensions := c\<rparr>
      | (None, c) \<Rightarrow>
          (case buildDimensionKVs serviceName sp (dimensions p) resourceAttrs p of
             (dims, p) \<Rightarrow> p\<lparr>metricKeyToDimensions := snd (Cache_Add L k dims c)\<rparr>))"

definition expHistogramCache ::
  "('l, string, pmap) simplelru \<Rightarrow> string \<Rightarrow> Span \<Rightarrow> string \<Rightarrow> pmap \<Rightarrow> ('l, 'e) processorImp \<Rightarrow> ('l, 'e) processorImp" where
  "expHistogramCache L serviceName sp k resourceAttrs p =
     (case Cache_Get L k (expHistogramKeyToDimensions p) of
        (Some _, c) \<Rightarrow> p\<lparr>expHistogramKeyToDimensions := c\<rparr>
      | (None, c) \<Rightarrow>
          (case buildDimensionKVs serviceName sp (expDimensions p) resourceAttrs p of
             (dims, p) \<Rightarrow> p\<lparr>expHistogramKeyToDimensions := snd (Cache_Add L k dims c)\<rparr>))"

definition callCache ::
  "('l, string, pmap) simplelru \<Rightarrow> string \<Rightarrow> Span \<Rightarrow> string \<Rightarrow> pmap \<Rightarrow> ('l, 'e) processorImp \<Rightarrow> ('l, 'e) processorImp" where
  "callCache L serviceName sp k resourceAttrs p =
     (case Cache_Get L k (callMetricKeyToDimensions p) of
        (Some _, c) \<Rightarrow> p\<lparr>callMetricKeyToDimensions := c\<rparr>
      | (None, c) \<Rightarrow>
          (case buildDimensionKVs serviceName sp (callDimensions p) resourceAttrs p of
             (dims, p) \<Rightarrow> p\<lparr>callMetricKeyToDimensions := snd (Cache_Add L k dims c)\<rparr>))"

definition dbCallCache ::
  "('l, string, pmap) simplelru \<Rightarrow> string \<Rightarrow> Span \<Rightarrow> string \<Rightarrow> pmap \<Rightarrow> ('l, 'e) processorImp \<Rightarrow> ('l, 'e) processorImp" where
  "dbCallCache L serviceName sp k resourceAttrs p =
     (case Cache_Get L k (dbCallMetricKeyToDimensions p) of
        (Some _, c) \<Rightarrow> p\<lparr>dbCallMetricKeyToDimensions := c\<rparr>
      | (None, c) \<Rightarrow>
          (case buildCustomDimensionKVs serviceName sp (dbCallDimensions p) resourceAttrs [] p of
             (dims, p) \<Rightarrow> p\<lparr>dbCallMetricKeyToDimensions := snd (Cache_Add L k dims c)\<rparr>))"

definition externalCallCache ::
  "('l, string, pmap) simplelru \<Rightarrow> string \<Rightarrow> Span \<Rightarrow> string \<Rightarrow> pmap \<Rightarrow> pmap \<Rightarrow> ('l, 'e) processorImp \<Rightarrow> ('l, 'e) processorImp" where
  "externalCallCache L serviceName sp k resourceAttrs extraDims p =
     (case Cache_Get L k (externalCallMetricKeyToDimensions p) of
        (Some _, c) \<Rightarrow> p\<lparr>externalCallMetricKeyToDimensions := c\<rparr>
      | (None, c) \<Rightarrow>
          (case buildCustomDimensionKVs serviceName sp (externalCallDimensions p) resourceAttrs extraDims p of
             (dims, p) \<Rightarrow> p\<lparr>externalCallMetricKeyToDimensions := snd (Cache_Add L k dims c)\<rparr>))"

section \<open>Aggregation\<close>

definition updateHistogram :: "string \<Rightarrow> rat \<Rightarrow> Span \<Rightarrow> ('l, 'e) processorImp \<Rightarrow> ('l, 'e) processorImp" where
  "updateHistogram key latency sp p =
     p\<lparr>histograms := update_table (latencyBounds p) key latency (sp_TraceID sp) (sp_SpanID sp) (histograms p)\<rparr>"

definition updateExpHistogram :: "'e expohisto \<Rightarrow> string \<Rightarrow> rat \<Rightarrow> ('l, 'e) processorImp \<Rightarrow> ('l, 'e) processorImp" where
  "updateExpHistogram X key latency p =
     p\<lparr>expHistograms := fmupd key (x_Update X (case fmlookup (expHistograms p) key of None \<Rightarrow> x_New X | Some h \<Rightarrow> h) latency)
         (expHistograms p)\<rparr>"

definition updateCallHistogram :: "string \<Rightarrow> rat \<Rightarrow> Span \<Rightarrow> ('l, 'e) processorImp \<Rightarrow> ('l, 'e) processorImp" where
  "updateCallHistogram key latency sp p =
     p\<lparr>callHistograms := update_table (latencyBounds p) key latency (sp_TraceID sp) (sp_SpanID sp) (callHistograms p)\<rparr>"

definition updateDBHistogram :: "string \<Rightarrow> rat \<Rightarrow> Span \<Rightarrow> ('l, 'e) processorImp \<Rightarrow> ('l, 'e) processorImp" where
  "updateDBHistogram key latency sp p =
     p\<lparr>dbCallHistograms := update_table (latencyBounds p) key latency (sp_TraceID sp) (sp_SpanID sp) (dbCallHistograms p)\<rparr>"

definition updateExternalHistogram :: "string \<Rightarrow> rat \<Rightarrow> Span \<Rightarrow> ('l, 'e) processorImp \<Rightarrow> ('l, 'e) processorImp" where
  "updateExternalHistogram key latency sp p =
     p\<lparr>externalCallHistograms :=
         update_table (latencyBounds p) key latency (sp_TraceID sp) (sp_SpanID sp) (externalCallHistograms p)\<rparr>"

definition stale :: "int \<Rightarrow> Span \<Rightarrow> ('l, 'e) processorImp \<Rightarrow> bool" where
  "stale now sp p \<longleftrightarrow> AsTime (StartTimestamp sp) < now - GetSkipSpansOlderThan (config p)"

definition aggregate_latency ::
  "('l, string, pmap) simplelru \<Rightarrow> string \<Rightarrow> Span \<Rightarrow> pmap \<Rightarrow> ('l, 'e) processorImp \<Rightarrow> ('l, 'e) processorImp" where
  "aggregate_latency L serviceName sp resourceAttr p =
     (case buildMetricKey serviceName sp (dimensions p) resourceAttr p of
        (key, p) \<Rightarrow> updateHistogram key (latencyInMilliseconds sp) sp (cache L serviceName sp key resourceAttr p))"

definition aggregate_exp ::
  "'e expohisto \<Rightarrow> ('l, string, pmap) simplelru \<Rightarrow> string \<Rightarrow> Span \<Rightarrow> pmap \<Rightarrow> ('l, 'e) processorImp \<Rightarrow> ('l, 'e) processorImp" where
  "aggregate_exp X L serviceName sp resourceAttr p =
     (if EnableExpHistogram (config p) then
        (case buildMetricKey serviceName sp (expDimensions p) resourceAttr p of
           (key, p) \<Rightarrow> updateExpHistogram X key (latencyInMilliseconds sp) (expHistogramCache L serviceName sp key resourceAttr p))
      else p)"

definition aggregate_call ::
  "('l, string, pmap) simplelru \<Rightarrow> string \<Rightarrow> Span \<Rightarrow> pmap \<Rightarrow> ('l, 'e) processorImp \<Rightarrow> ('l, 'e) processorImp" where
  "aggregate_call L serviceName sp resourceAttr p =
     (case buildMetricKey serviceName sp (callDimensions p) resourceAttr p of
        (key, p) \<Rightarrow> updateCallHistogram key (latencyInMilliseconds sp) sp (callCache L serviceName sp key resourceAttr p))"

definition aggregate_external ::
  "span_deps \<Rightarrow> ('l, string, pmap) simplelru \<Rightarrow> string \<Rightarrow> Span \<Rightarrow> pmap \<Rightarrow> ('l, 'e) processorImp \<Rightarrow> ('l, 'e) processorImp" where
  "aggregate_external D L serviceName sp resourceAttr p =
     (case getRemoteAddress D sp of
        Some remoteAddr \<Rightarrow>
          if sp_Kind sp = SpanKindClient then
            let key = buildCustomMetricKey serviceName sp (externalCallDimensions p) resourceAttr [remoteAddr] p
            in updateExternalHistogram key (latencyInMilliseconds sp) sp
                 (externalCallCache L serviceName sp key resourceAttr [(''address'', StrValue remoteAddr)] p)
          else p
      | None \<Rightarrow> p)"

definition aggregate_db ::
  "('l, string, pmap) simplelru \<Rightarrow> string \<Rightarrow> Span \<Rightarrow> pmap \<Rightarrow> ('l, 'e) processorImp \<Rightarrow> ('l, 'e) processorImp" where
  "aggregate_db L serviceName sp resourceAttr p =
     (if sp_Kind sp \<noteq> SpanKindServer \<and> map_of (sp_Attributes sp) ''db.system'' \<noteq> None then
        let key = buildCustomMetricKey serviceName sp (dbCallDimensions p) resourceAttr [] p
        in updateDBHistogram key (latencyInMilliseconds sp) sp (dbCallCache L serviceName sp key resourceAttr p)
      else p)"

definition accepted :: "span_deps \<Rightarrow> int \<Rightarrow> string \<Rightarrow> Span \<Rightarrow> pmap \<Rightarrow> ('l, 'e) processorImp \<Rightarrow> bool" where
  "accepted D now serviceName sp resourceAttr p \<longleftrightarrow> \<not> stale now sp p \<and> \<not> shouldSkip D serviceName sp resourceAttr p"

definition aggregateMetricsForSpan ::
  "span_deps \<Rightarrow> 'e expohisto \<Rightarrow> ('l, string, pmap) simplelru \<Rightarrow> int \<Rightarrow> string \<Rightarrow> Span \<Rightarrow> pmap \<Rightarrow> ('l, 'e) processorImp \<Rightarrow>
    ('l, 'e) processorImp" where
  "aggregateMetricsForSpan D X L now serviceName sp resourceAttr p =
     (if \<not> accepted D now serviceName sp resourceAttr p then p
      else aggregate_db L serviceName sp resourceAttr
        (aggregate_external D L serviceName sp resourceAttr
          (aggregate_call L serviceName sp resourceAttr
            (aggregate_exp X L serviceName sp resourceAttr
              (aggregate_latency L serviceName sp resourceAttr p)))))"

text \<open>\<open>now_at\<close> is the reading of the clock when a span is aggregated.\<close>

definition aggregate_resource ::
  "span_deps \<Rightarrow> 'e expohisto \<Rightarrow> ('l, string, pmap) simplelru \<Rightarrow> (Span \<Rightarrow> int) \<Rightarrow> ResourceSpans \<Rightarrow> ('l, 'e) processorImp \<Rightarrow>
    ('l, 'e) processorImp" where
  "aggregate_resource D X L now_at rspans p =
     (case map_of (Resource rspans) ''service.name'' of
        None \<Rightarrow> p
      | Some serviceAttr \<Rightarrow>
          fold (fold (\<lambda>sp. aggregateMetricsForSpan D X L (now_at sp) (Str serviceAttr) sp (Resource rspans)))
            (ScopeSpans rspans) p)"

definition aggregateMetrics ::
  "span_deps \<Rightarrow> 'e expohisto \<Rightarrow> ('l, string, pmap) simplelru \<Rightarrow> (Span \<Rightarrow> int) \<Rightarrow> ResourceSpans list \<Rightarrow> ('l, 'e) processorImp \<Rightarrow>
    ('l, 'e) processorImp" where
  "aggregateMetrics D X L now_at traces p = fold (aggregate_resource D X L now_at) traces p"

text \<open>The traces go on unmodified; \<open>next_consumer\<close> answers with its error.\<close>

definition ConsumeTraces ::
  "span_deps \<Rightarrow> 'e expohisto \<Rightarrow> ('l, string, pmap) simplelru \<Rightarrow> (Span \<Rightarrow> int) \<Rightarrow> (ResourceSpans list \<Rightarrow> string option) \<Rightarrow>
    ResourceSpans list \<Rightarrow> ('l, 'e) processorImp \<Rightarrow> string option \<times> ('l, 'e) processorImp" where
  "ConsumeTraces D X L now_at next_consumer traces p =
     (next_consumer traces, aggregateMetrics D X L now_at traces p)"

end
