(* ===== verification/Span_Export.thy ===== *)
theory Span_Export
  imports Span_Metrics
begin

text \<open>
  The export of the span metrics processor (\<open>processor.go\<close>): the collection of the five tables, the
  reset between exports, and \<open>Start\<close> and \<open>Shutdown\<close>. The loop that \<open>Start\<close> runs in a goroutine is a
  step of the relation \<open>spans_run\<close> for each tick, between the calls of \<open>ConsumeTraces\<close>; both hold the
  lock while they touch the state.
\<close>

section \<open>Metrics\<close>

datatype exemplar =
  EmptyExemplar
| Exemplar rat "64 word" "8 word list" "8 word list"

datatype number = IntValue int | DoubleValue rat

record point =
  p_start :: "64 word"
  p_time :: "64 word"
  p_attributes :: pmap

record number_point = point +
  p_value :: number

record histogram_point = point +
  p_bounds :: "rat list"
  p_buckets :: "64 word list"
  p_count :: "64 word"
  p_sum :: rat
  p_exemplars :: "exemplar list"

record exponential_point = point +
  p_exp_count :: "64 word"
  p_exp_sum :: rat
  p_min :: "rat option"
  p_max :: "rat option"
  p_zeroCount :: "64 word"
  p_scale :: int
  p_positive :: "int \<times> 64 word list"
  p_negative :: "int \<times> 64 word list"

datatype metric_data =
  SumData "number_point list"
| HistogramData "histogram_point list"
| ExponentialData "exponential_point list"

record metric =
  m_name :: string
  m_unit :: string
  m_temporality :: Temporality
  m_data :: metric_data

text \<open>An exemplar without a trace stays empty.\<close>

definition setExemplars :: "exemplarData list \<Rightarrow> 64 word \<Rightarrow> exemplar list" where
  "setExemplars es timestamp =
     map (\<lambda>ed. if list_all (\<lambda>b. b = 0) (e_traceID ed) then EmptyExemplar
               else Exemplar (e_value ed) timestamp (e_traceID ed) (e_spanID ed)) es"

definition expoHistToExponentialDataPoint ::
  "'e expohisto \<Rightarrow> 'e \<Rightarrow> 64 word \<times> 64 word \<Rightarrow> pmap \<Rightarrow> exponential_point" where
  "expoHistToExponentialDataPoint X agg tms attrs =
     \<lparr>p_start = fst tms, p_time = snd tms, p_attributes = attrs,
      p_exp_count = x_Count X agg, p_exp_sum = x_Sum X agg,
      p_min = (if x_Count X agg \<noteq> 0 then Some (x_Min X agg) else None),
      p_max = (if x_Count X agg \<noteq> 0 then Some (x_Max X agg) else None),
      p_zeroCount = x_ZeroCount X agg, p_scale = x_Scale X agg,
      p_positive = x_Positive X agg, p_negative = x_Negative X agg\<rparr>"

section \<open>Collection\<close>

text \<open>How the maps are ranged over: their keys, with a reading of the clock for each.\<close>

type_synonym range = "(string \<times> int) list"

record ranges =
  r_latency :: range
  r_exp :: range
  r_calls :: range
  r_db :: range
  r_external :: range

definition entries :: "(string, 'h) fmap \<Rightarrow> range \<Rightarrow> (string \<times> 'h \<times> int) list" where
  "entries table r = List.map_filter (\<lambda>(k, now). map_option (\<lambda>h. (k, h, now)) (fmlookup table k)) r"

text \<open>The loop of the five collect functions: a point for each entry, up to the first key without dimensions.\<close>

fun collect_loop ::
  "('l, string, pmap) simplelru \<Rightarrow> (string \<Rightarrow> 'h \<Rightarrow> int \<Rightarrow> pmap \<Rightarrow> 'p) \<Rightarrow> (string \<times> 'h \<times> int) list \<Rightarrow> 'l dim_cache \<Rightarrow>
    (string + 'p list) \<times> 'l dim_cache" where
  "collect_loop L mk [] c = (Inr [], c)"
| "collect_loop L mk ((k, h, now) # es) c =
     (case Cache_Get L k c of
        (None, c) \<Rightarrow> (Inl k, c)
      | (Some dims, c) \<Rightarrow>
          (case collect_loop L mk es c of
             (Inl err, c) \<Rightarrow> (Inl err, c)
           | (Inr ps, c) \<Rightarrow> (Inr (mk k h now dims # ps), c)))"

definition times_of :: "('l, 'e) processorImp \<Rightarrow> string \<Rightarrow> int \<Rightarrow> 64 word \<times> 64 word" where
  "times_of p k now = parseTimesFromKeyOrNow k now (startTimestamp p)"

definition latency_point :: "('l, 'e) processorImp \<Rightarrow> string \<Rightarrow> histogramData \<Rightarrow> int \<Rightarrow> pmap \<Rightarrow> histogram_point" where
  "latency_point p k hist now dims =
     (case times_of p k now of
        (start, end_time) \<Rightarrow>
          \<lparr>p_start = start, p_time = end_time, p_attributes = dims, p_bounds = latencyBounds p,
           p_buckets = bucketCounts hist, p_count = h_count hist, p_sum = h_sum hist,
           p_exemplars = setExemplars (exemplarsData hist) end_time\<rparr>)"

definition count_point :: "('l, 'e) processorImp \<Rightarrow> string \<Rightarrow> histogramData \<Rightarrow> int \<Rightarrow> pmap \<Rightarrow> number_point" where
  "count_point p k hist now dims =
     (case times_of p k now of
        (start, end_time) \<Rightarrow>
          \<lparr>p_start = start, p_time = end_time, p_attributes = dims, p_value = IntValue (sint (h_count hist))\<rparr>)"

definition sum_point :: "('l, 'e) processorImp \<Rightarrow> string \<Rightarrow> histogramData \<Rightarrow> int \<Rightarrow> pmap \<Rightarrow> number_point" where
  "sum_point p k hist now dims =
     (case times_of p k now of
        (start, end_time) \<Rightarrow>
          \<lparr>p_start = start, p_time = end_time, p_attributes = dims, p_value = DoubleValue (h_sum hist)\<rparr>)"

definition collected ::
  "('l, 'e) processorImp \<Rightarrow> (string \<times> string \<times> ('p list \<Rightarrow> metric_data)) list \<Rightarrow> string + 'p list \<Rightarrow> string + metric list" where
  "collected p headers r =
     (case r of
        Inl err \<Rightarrow> Inl err
      | Inr ps \<Rightarrow> Inr (map (\<lambda>(name, unit, data).
          \<lparr>m_name = name, m_unit = unit, m_temporality = GetAggregationTemporality (config p), m_data = data ps\<rparr>) headers))"

definition collectLatencyMetrics ::
  "('l, string, pmap) simplelru \<Rightarrow> ranges \<Rightarrow> ('l, 'e) processorImp \<Rightarrow> (string + metric list) \<times> ('l, 'e) processorImp" where
  "collectLatencyMetrics L it p =
     (case collect_loop L (latency_point p) (entries (histograms p) (r_latency it)) (metricKeyToDimensions p) of
        (r, c) \<Rightarrow> (collected p [(''signoz_latency'', ''ms'', HistogramData)] r, p\<lparr>metricKeyToDimensions := c\<rparr>))"

definition collectExpHistogramMetrics ::
  "'e expohisto \<Rightarrow> ('l, string, pmap) simplelru \<Rightarrow> ranges \<Rightarrow> ('l, 'e) processorImp \<Rightarrow> (string + metric list) \<times> ('l, 'e) processorImp" where
  "collectExpHistogramMetrics X L it p =
     (case collect_loop L (\<lambda>k h now. expoHistToExponentialDataPoint X h (times_of p k now))
         (entries (expHistograms p) (r_exp it)) (expHistogramKeyToDimensions p) of
        (r, c) \<Rightarrow> (collected p [(''signoz_latency'', ''ms'', ExponentialData)] r, p\<lparr>expHistogramKeyToDimensions := c\<rparr>))"

definition sum_and_count :: "('l, 'e) processorImp \<Rightarrow> string \<Rightarrow> histogramData \<Rightarrow> int \<Rightarrow> pmap \<Rightarrow> number_point \<times> number_point" where
  "sum_and_count p k h now dims = (sum_point p k h now dims, count_point p k h now dims)"

definition collectDBCallMetrics ::
  "('l, string, pmap) simplelru \<Rightarrow> ranges \<Rightarrow> ('l, 'e) processorImp \<Rightarrow> (string + metric list) \<times> ('l, 'e) processorImp" where
  "collectDBCallMetrics L it p =
     (case collect_loop L (sum_and_count p) (entries (dbCallHistograms p) (r_db it)) (dbCallMetricKeyToDimensions p) of
        (r, c) \<Rightarrow>
          (collected p [(''signoz_db_latency_sum'', ''1'', \<lambda>ps. SumData (map fst ps)),
                        (''signoz_db_latency_count'', ''1'', \<lambda>ps. SumData (map snd ps))] r,
           p\<lparr>dbCallMetricKeyToDimensions := c\<rparr>))"

definition collectExternalCallMetrics ::
  "('l, string, pmap) simplelru \<Rightarrow> ranges \<Rightarrow> ('l, 'e) processorImp \<Rightarrow> (string + metric list) \<times> ('l, 'e) processorImp" where
  "collectExternalCallMetrics L it p =
     (case collect_loop L (sum_and_count p) (entries (externalCallHistograms p) (r_external it))
         (externalCallMetricKeyToDimensions p) of
        (r, c) \<Rightarrow>
          (collected p [(''signoz_external_call_latency_sum'', ''1'', \<lambda>ps. SumData (map fst ps)),
                        (''signoz_external_call_latency_count'', ''1'', \<lambda>ps. SumData (map snd ps))] r,
           p\<lparr>externalCallMetricKeyToDimensions := c\<rparr>))"

definition collectCallMetrics ::
  "('l, string, pmap) simplelru \<Rightarrow> ranges \<Rightarrow> ('l, 'e) processorImp \<Rightarrow> (string + metric list) \<times> ('l, 'e) processorImp" where
  "collectCallMetrics L it p =
     (case collect_loop L (count_point p) (entries (callHistograms p) (r_calls it)) (callMetricKeyToDimensions p) of
        (r, c) \<Rightarrow> (collected p [(''signoz_calls_total'', '''', SumData)] r, p\<lparr>callMetricKeyToDimensions := c\<rparr>))"

section \<open>Export\<close>

definition drop_exemplars :: "histograms \<Rightarrow> histograms" where
  "drop_exemplars t = fmmap (\<lambda>h. h\<lparr>exemplarsData := []\<rparr>) t"

definition resetExemplarData :: "('l, 'e) processorImp \<Rightarrow> ('l, 'e) processorImp" where
  "resetExemplarData p =
     p\<lparr>histograms := drop_exemplars (histograms p), callHistograms := drop_exemplars (callHistograms p),
       dbCallHistograms := drop_exemplars (dbCallHistograms p),
       externalCallHistograms := drop_exemplars (externalCallHistograms p)\<rparr>"

definition resetAccumulatedMetrics :: "('l, string, pmap) simplelru \<Rightarrow> ('l, 'e) processorImp \<Rightarrow> ('l, 'e) processorImp" where
  "resetAccumulatedMetrics L p =
     p\<lparr>histograms := fmempty, expHistograms := fmempty, callHistograms := fmempty, dbCallHistograms := fmempty,
       externalCallHistograms := fmempty,
       metricKeyToDimensions := Cache_Purge L (metricKeyToDimensions p),
       expHistogramKeyToDimensions := Cache_Purge L (expHistogramKeyToDimensions p),
       callMetricKeyToDimensions := Cache_Purge L (callMetricKeyToDimensions p),
       dbCallMetricKeyToDimensions := Cache_Purge L (dbCallMetricKeyToDimensions p),
       externalCallMetricKeyToDimensions := Cache_Purge L (externalCallMetricKeyToDimensions p)\<rparr>"

definition remove_evicted :: "('l, 'e) processorImp \<Rightarrow> ('l, 'e) processorImp" where
  "remove_evicted p =
     p\<lparr>metricKeyToDimensions := RemoveEvictedItems (metricKeyToDimensions p),
       expHistogramKeyToDimensions := RemoveEvictedItems (expHistogramKeyToDimensions p),
       callMetricKeyToDimensions := RemoveEvictedItems (callMetricKeyToDimensions p),
       dbCallMetricKeyToDimensions := RemoveEvictedItems (dbCallMetricKeyToDimensions p),
       externalCallMetricKeyToDimensions := RemoveEvictedItems (externalCallMetricKeyToDimensions p)\<rparr>"

text \<open>The entries whose dimensions are no longer cached are deleted.\<close>

definition keep_cached :: "('l, string, pmap) simplelru \<Rightarrow> 'l dim_cache \<Rightarrow> (string, 'h) fmap \<Rightarrow> (string, 'h) fmap" where
  "keep_cached L c table = fmfilter (\<lambda>k. Cache_Contains L k c) table"

definition delete_uncached :: "('l, string, pmap) simplelru \<Rightarrow> ('l, 'e) processorImp \<Rightarrow> ('l, 'e) processorImp" where
  "delete_uncached L p =
     p\<lparr>histograms := keep_cached L (metricKeyToDimensions p) (histograms p),
       callHistograms := keep_cached L (callMetricKeyToDimensions p) (callHistograms p),
       dbCallHistograms := keep_cached L (dbCallMetricKeyToDimensions p) (dbCallHistograms p),
       externalCallHistograms := keep_cached L (externalCallMetricKeyToDimensions p) (externalCallHistograms p),
       expHistograms := keep_cached L (expHistogramKeyToDimensions p) (expHistograms p)\<rparr>"

definition finish_build :: "('l, string, pmap) simplelru \<Rightarrow> ('l, 'e) processorImp \<Rightarrow> ('l, 'e) processorImp" where
  "finish_build L p =
     (let p = delete_uncached L (remove_evicted p);
          p = (if GetAggregationTemporality (config p) = Delta then resetAccumulatedMetrics L p else p)
      in resetExemplarData p)"

text \<open>The next collection appends its metrics; an error ends the build.\<close>

definition and_then ::
  "(string + metric list) \<times> ('l, 'e) processorImp \<Rightarrow> (('l, 'e) processorImp \<Rightarrow> (string + metric list) \<times> ('l, 'e) processorImp) \<Rightarrow>
    (string + metric list) \<times> ('l, 'e) processorImp" where
  "and_then r f =
     (case r of
        (Inl err, p) \<Rightarrow> (Inl err, p)
      | (Inr ms, p) \<Rightarrow>
          (case f p of
             (Inl err, p) \<Rightarrow> (Inl err, p)
           | (Inr ms', p) \<Rightarrow> (Inr (ms @ ms'), p)))"

definition buildMetrics ::
  "'e expohisto \<Rightarrow> ('l, string, pmap) simplelru \<Rightarrow> ranges \<Rightarrow> ('l, 'e) processorImp \<Rightarrow> (string + metric list) \<times> ('l, 'e) processorImp" where
  "buildMetrics X L it p =
     (let r = collectCallMetrics L it p;
          r = and_then r (collectLatencyMetrics L it);
          r = and_then r (collectExternalCallMetrics L it);
          r = and_then r (collectDBCallMetrics L it);
          r = and_then r (collectExpHistogramMetrics X L it)
      in and_then r (\<lambda>p. (Inr [], finish_build L p)))"

text \<open>What every consumer gets (\<open>None\<close> is the zero \<open>pmetric.Metrics\<close> that is sent after an error), and the new state.\<close>

definition exportMetrics ::
  "'e expohisto \<Rightarrow> ('l, string, pmap) simplelru \<Rightarrow> ranges \<Rightarrow> ('l, 'e) processorImp \<Rightarrow> metric list option \<times> ('l, 'e) processorImp" where
  "exportMetrics X L it p =
     (case buildMetrics X L it p of
        (r, p) \<Rightarrow> (case r of Inl _ \<Rightarrow> None | Inr ms \<Rightarrow> Some ms, resetExemplarData p))"

section \<open>Start and Shutdown\<close>

definition Split_comma :: "string \<Rightarrow> string list" where
  "Split_comma s = foldr (\<lambda>c acc. if c = CHR '','' then [] # acc else (case acc of [] \<Rightarrow> [[c]] | w # ws \<Rightarrow> (c # w) # ws)) s [[]]"

definition exporter_names :: "Config \<Rightarrow> string list" where
  "exporter_names c = map TrimSpace (Split_comma (MetricsExporter c))"

datatype start_error = NoExporters | NotMetricsExporter string | ExporterNotFound

text \<open>The exporters of the metrics pipelines, in the order the map is ranged over, and whether each
  takes metrics.\<close>

fun find_consumers :: "string list \<Rightarrow> (string \<times> bool) list \<Rightarrow> string list \<Rightarrow> start_error option \<times> string list" where
  "find_consumers names [] found = (None, found)"
| "find_consumers names ((k, is_metrics) # exps) found =
     (if \<not> is_metrics then (Some (NotMetricsExporter k), found)
      else find_consumers names exps (found @ filter (\<lambda>n. n = k) names))"

definition Start :: "(string \<times> bool) list option \<Rightarrow> ('l, 'e) processorImp \<Rightarrow> start_error option \<times> ('l, 'e) processorImp" where
  "Start host p =
     (case host of
        None \<Rightarrow> (Some NoExporters, p)
      | Some exporters \<Rightarrow>
          (case find_consumers (exporter_names (config p)) exporters (metricsConsumer p) of
             (Some err, found) \<Rightarrow> (Some err, p\<lparr>metricsConsumer := found\<rparr>)
           | (None, found) \<Rightarrow>
               if found = [] then (Some ExporterNotFound, p)
               else (None, p\<lparr>metricsConsumer := found, started := True\<rparr>)))"

text \<open>The flag of the result tells that the channel \<open>done\<close> is closed by this call.\<close>

definition Shutdown :: "('l, 'e) processorImp \<Rightarrow> bool \<times> ('l, 'e) processorImp" where
  "Shutdown p =
     (if shutdownOnce p then (False, p)
      else if started p then (True, p\<lparr>shutdownOnce := True, started := False\<rparr>)
      else (False, p\<lparr>shutdownOnce := True\<rparr>))"

section \<open>Runs\<close>

datatype event = Consumed "Span \<Rightarrow> int" "ResourceSpans list" | Exported "metric list option"

text \<open>A range enumerates its table.\<close>

definition enumerates :: "range \<Rightarrow> (string, 'h) fmap \<Rightarrow> bool" where
  "enumerates r table \<longleftrightarrow> distinct (map fst r) \<and> fset_of_list (map fst r) = fmdom table"

definition ranges_ok :: "ranges \<Rightarrow> ('l, 'e) processorImp \<Rightarrow> bool" where
  "ranges_ok it p \<longleftrightarrow>
     enumerates (r_latency it) (histograms p) \<and> enumerates (r_exp it) (expHistograms p) \<and>
     enumerates (r_calls it) (callHistograms p) \<and> enumerates (r_db it) (dbCallHistograms p) \<and>
     enumerates (r_external it) (externalCallHistograms p)"

inductive spans_run ::
  "span_deps \<Rightarrow> 'e expohisto \<Rightarrow> ('l, string, pmap) simplelru \<Rightarrow> ('l, 'e) processorImp \<Rightarrow> event list \<Rightarrow> ('l, 'e) processorImp \<Rightarrow> bool"
  for D X L p0 where
  run_start: "spans_run D X L p0 [] p0"
| run_consume: "spans_run D X L p0 evs p \<Longrightarrow>
    spans_run D X L p0 (evs @ [Consumed now_at traces]) (snd (ConsumeTraces D X L now_at next_consumer traces p))"
| run_export: "spans_run D X L p0 evs p \<Longrightarrow> ranges_ok it p \<Longrightarrow> exportMetrics X L it p = (m, p') \<Longrightarrow>
    spans_run D X L p0 (evs @ [Exported m]) p'"

end
