(* ===== verification/Span_Counts.thy ===== *)
theory Span_Counts
  imports Span_Export
begin

text \<open>
  What the span metrics processor promises: no export fails for want of the dimensions of a key,
  whatever the size of the caches; the histograms are consistent; with delta temporality every
  accepted span is in exactly one point of \<open>signoz_latency\<close> and of \<open>signoz_calls_total\<close> of the next
  export; the names tracked are bounded; a point carries the time of its bucket. Two theorems state
  defects of the keys.
\<close>

section \<open>Tables\<close>

lemma update_table_dom: "fmdom (update_table bounds key x t s table) = finsert key (fmdom table)"
  by (simp add: update_table_def Let_def)

definition table_ok :: "rat list \<Rightarrow> histograms \<Rightarrow> bool" where
  "table_ok bounds table \<longleftrightarrow> (\<forall>k h. fmlookup table k = Some h \<longrightarrow> histogram_ok bounds h)"

lemma table_ok_update: "table_ok bounds table \<Longrightarrow> table_ok bounds (update_table bounds key x t s table)"
  unfolding table_ok_def update_table_def
  by (auto simp: Let_def histogram_ok_new histogram_ok_observe split: option.splits)

definition count_of :: "histograms \<Rightarrow> string \<Rightarrow> 64 word" where
  "count_of table k = (case fmlookup table k of None \<Rightarrow> 0 | Some h \<Rightarrow> h_count h)"

definition total :: "histograms \<Rightarrow> 64 word" where
  "total table = sum (count_of table) (fset (fmdom table))"

lemma total_empty [simp]: "total fmempty = 0"
  by (simp add: total_def)

lemma count_of_update:
  "count_of (update_table bounds key x t s table) k = count_of table k + (if k = key then 1 else 0)"
  by (auto simp: count_of_def update_table_def Let_def new_histogram_def split: option.splits)

lemma total_update: "total (update_table bounds key x t s table) = total table + 1"
proof -
  let ?S = "fset (fmdom table)"
  let ?t = "update_table bounds key x t s table"
  have "total ?t = sum (count_of ?t) (insert key ?S)"
    by (simp add: total_def update_table_dom)
  also have "\<dots> = count_of ?t key + sum (count_of ?t) (?S - {key})"
    by (simp add: sum.insert_remove)
  also have "sum (count_of ?t) (?S - {key}) = sum (count_of table) (?S - {key})"
    by (rule sum.cong) (auto simp: count_of_update)
  also have "count_of ?t key + \<dots> = count_of table key + sum (count_of table) (?S - {key}) + 1"
    by (simp add: count_of_update)
  also have "count_of table key + sum (count_of table) (?S - {key}) = total table"
  proof (cases "key \<in> ?S")
    case True
    then show ?thesis by (simp add: total_def sum.remove)
  next
    case False
    then have "count_of table key = 0" by (simp add: count_of_def fmdom_notD)
    with False show ?thesis by (simp add: total_def)
  qed
  finally show ?thesis .
qed

section \<open>Every key has its dimensions\<close>

definition covered :: "('l \<Rightarrow> (string, pmap) fmap) \<Rightarrow> (string, 'h) fmap \<Rightarrow> 'l dim_cache \<Rightarrow> bool" where
  "covered contents table c \<longleftrightarrow> fmdom table |\<subseteq>| fmdom (readable contents c)"

lemma fmdom_readable_Add:
  "lru_ok L contents \<Longrightarrow> fmdom (readable contents (snd (Cache_Add L k v c))) = finsert k (fmdom (readable contents c))"
  by (simp add: readable_Add)

lemma covered_collect:
  assumes "lru_ok L contents"
  shows "(\<And>k h now. (k, h, now) \<in> set es \<Longrightarrow> k |\<in>| fmdom (readable contents c)) \<Longrightarrow>
    \<exists>c'. collect_loop L mk es c =
        (Inr (map (\<lambda>(k, h, now). mk k h now (the (fmlookup (readable contents c) k))) es), c')
      \<and> readable contents c' = readable contents c"
proof (induction es arbitrary: c)
  case (Cons e es)
  obtain k h now where e: "e = (k, h, now)" by (metis prod_cases3)
  obtain r c1 where G: "Cache_Get L k c = (r, c1)" by fastforce
  have r: "r = fmlookup (readable contents c) k" and c1: "readable contents c1 = readable contents c"
    using readable_Get [OF assms, of k c] G by auto
  obtain v where v: "fmlookup (readable contents c) k = Some v"
    using Cons.prems [of k h now] e by (auto simp: fmlookup_dom_iff)
  obtain c2 where IH: "collect_loop L mk es c1 =
        (Inr (map (\<lambda>(k, h, now). mk k h now (the (fmlookup (readable contents c1) k))) es), c2)"
      "readable contents c2 = readable contents c1"
    using Cons.IH [of c1] Cons.prems c1 by auto
  then show ?case by (simp add: e G r v c1)
qed simp

lemma entries_in_table: "(k, h, now) \<in> set (entries table r) \<Longrightarrow> fmlookup table k = Some h"
  by (auto simp: entries_def List.map_filter_def)

lemma covered_entries:
  assumes "lru_ok L contents" and "covered contents table c"
  obtains c' where "collect_loop L mk (entries table r) c =
      (Inr (map (\<lambda>(k, h, now). mk k h now (the (fmlookup (readable contents c) k))) (entries table r)), c')"
    and "readable contents c' = readable contents c"
proof -
  have "k |\<in>| fmdom (readable contents c)" if "(k, h, now) \<in> set (entries table r)" for k h now
    using assms(2) fmdomI [OF entries_in_table [OF that]] unfolding covered_def by blast
  then show thesis using covered_collect [OF assms(1), of "entries table r" c mk] that by blast
qed

lemma covered_keep:
  assumes "lru_ok L contents" and "covered contents table c"
  shows "covered contents (keep_cached L (RemoveEvictedItems c) table) (RemoveEvictedItems c)"
  using assms readable_Remove [OF assms(1), of c]
  unfolding covered_def keep_cached_def by (auto simp: Contains_Remove fmlookup_dom_iff fsubset_iff)

lemma covered_more: "covered contents table c \<Longrightarrow> fmdom table' |\<subseteq>| finsert k (fmdom table) \<Longrightarrow>
  fmdom (readable contents c') = finsert k (fmdom (readable contents c)) \<Longrightarrow> covered contents table' c'"
  unfolding covered_def by auto

section \<open>The form of the steps\<close>

text \<open>What remembering a key does to its cache.\<close>

definition remember :: "('l, string, pmap) simplelru \<Rightarrow> string \<Rightarrow> pmap \<Rightarrow> 'l dim_cache \<Rightarrow> 'l dim_cache" where
  "remember L k dims c =
     (case Cache_Get L k c of (Some _, c) \<Rightarrow> c | (None, c) \<Rightarrow> snd (Cache_Add L k dims c))"

lemma fmdom_remember:
  assumes "lru_ok L contents"
  shows "fmdom (readable contents (remember L k dims c)) = finsert k (fmdom (readable contents c))"
proof -
  obtain r c1 where G: "Cache_Get L k c = (r, c1)" by fastforce
  have r: "r = fmlookup (readable contents c) k" and c1: "readable contents c1 = readable contents c"
    using readable_Get [OF assms, of k c] G by auto
  show ?thesis
  proof (cases r)
    case None
    then show ?thesis by (simp add: remember_def G fmdom_readable_Add [OF assms] c1)
  next
    case (Some v)
    then have "k |\<in>| fmdom (readable contents c)" using r by (metis fmdomI)
    then show ?thesis using Some by (simp add: remember_def G c1 finsert_absorb)
  qed
qed

definition missed :: "('l, string, pmap) simplelru \<Rightarrow> string \<Rightarrow> 'l dim_cache \<Rightarrow> bool" where
  "missed L k c \<longleftrightarrow> fst (Cache_Get L k c) = None"

abbreviation noted :: "bool \<Rightarrow> pmap \<Rightarrow> ('l, 'e) processorImp \<Rightarrow> (string, string fset) fmap" where
  "noted b dims p \<equiv> (if b then note_cardinality dims (attrsCardinality p) else attrsCardinality p)"

lemmas cache_defs = remember_def missed_def buildDimensionKVs_def buildCustomDimensionKVs_def Let_def

lemma cache_eq: "cache L s sp k ra p =
  p\<lparr>metricKeyToDimensions := remember L k (fst (buildDimensionKVs s sp (dimensions p) ra p)) (metricKeyToDimensions p),
    attrsCardinality := noted (missed L k (metricKeyToDimensions p)) (fst (buildDimensionKVs s sp (dimensions p) ra p)) p\<rparr>"
  by (simp add: cache_def cache_defs split: prod.splits option.splits)

lemma expHistogramCache_eq: "expHistogramCache L s sp k ra p =
  p\<lparr>expHistogramKeyToDimensions :=
      remember L k (fst (buildDimensionKVs s sp (expDimensions p) ra p)) (expHistogramKeyToDimensions p),
    attrsCardinality := noted (missed L k (expHistogramKeyToDimensions p)) (fst (buildDimensionKVs s sp (expDimensions p) ra p)) p\<rparr>"
  by (simp add: expHistogramCache_def cache_defs split: prod.splits option.splits)

lemma callCache_eq: "callCache L s sp k ra p =
  p\<lparr>callMetricKeyToDimensions :=
      remember L k (fst (buildDimensionKVs s sp (callDimensions p) ra p)) (callMetricKeyToDimensions p),
    attrsCardinality := noted (missed L k (callMetricKeyToDimensions p)) (fst (buildDimensionKVs s sp (callDimensions p) ra p)) p\<rparr>"
  by (simp add: callCache_def cache_defs split: prod.splits option.splits)

lemma dbCallCache_eq: "dbCallCache L s sp k ra p =
  p\<lparr>dbCallMetricKeyToDimensions :=
      remember L k (fst (buildCustomDimensionKVs s sp (dbCallDimensions p) ra [] p)) (dbCallMetricKeyToDimensions p),
    attrsCardinality := noted (missed L k (dbCallMetricKeyToDimensions p))
      (fst (buildCustomDimensionKVs s sp (dbCallDimensions p) ra [] p)) p\<rparr>"
  by (simp add: dbCallCache_def cache_defs split: prod.splits option.splits)

lemma externalCallCache_eq: "externalCallCache L s sp k ra ex p =
  p\<lparr>externalCallMetricKeyToDimensions :=
      remember L k (fst (buildCustomDimensionKVs s sp (externalCallDimensions p) ra ex p)) (externalCallMetricKeyToDimensions p),
    attrsCardinality := noted (missed L k (externalCallMetricKeyToDimensions p))
      (fst (buildCustomDimensionKVs s sp (externalCallDimensions p) ra ex p)) p\<rparr>"
  by (simp add: externalCallCache_def cache_defs split: prod.splits option.splits)

lemmas cache_eqs = cache_eq expHistogramCache_eq callCache_eq dbCallCache_eq externalCallCache_eq

lemmas update_defs = updateHistogram_def updateExpHistogram_def updateCallHistogram_def updateDBHistogram_def
  updateExternalHistogram_def

lemmas aggregate_defs = aggregate_latency_def aggregate_exp_def aggregate_call_def aggregate_external_def aggregate_db_def

text \<open>A key is built without touching anything but the names tracked.\<close>

definition tracked :: "string \<Rightarrow> Span \<Rightarrow> ('l, 'e) processorImp \<Rightarrow> (string, string fset) fmap" where
  "tracked s sp p = fmupd (tracked_service s p)
     (finsert (tracked_operation (tracked_service s p) (sp_Name sp) p) (operations_of (tracked_service s p) p))
     (serviceToOperations p)"

lemma buildMetricKey_eq: "buildMetricKey s sp dims ra p =
  (key_prefix sp p @ fst (buildKey s sp dims ra p), p\<lparr>serviceToOperations := tracked s sp p\<rparr>)"
  by (simp add: buildMetricKey_def buildKey_def tracked_def Let_def)

section \<open>The invariant\<close>

definition caches_ok :: "('l \<Rightarrow> (string, pmap) fmap) \<Rightarrow> ('l, 'e) processorImp \<Rightarrow> bool" where
  "caches_ok contents p \<longleftrightarrow>
     covered contents (histograms p) (metricKeyToDimensions p) \<and>
     covered contents (expHistograms p) (expHistogramKeyToDimensions p) \<and>
     covered contents (callHistograms p) (callMetricKeyToDimensions p) \<and>
     covered contents (dbCallHistograms p) (dbCallMetricKeyToDimensions p) \<and>
     covered contents (externalCallHistograms p) (externalCallMetricKeyToDimensions p)"

definition tables_ok :: "('l, 'e) processorImp \<Rightarrow> bool" where
  "tables_ok p \<longleftrightarrow> table_ok (latencyBounds p) (histograms p) \<and> table_ok (latencyBounds p) (callHistograms p) \<and>
     table_ok (latencyBounds p) (dbCallHistograms p) \<and> table_ok (latencyBounds p) (externalCallHistograms p)"

text \<open>What never changes after the start.\<close>

definition same_setup :: "('l, 'e) processorImp \<Rightarrow> ('l, 'e) processorImp \<Rightarrow> bool" where
  "same_setup p q \<longleftrightarrow> config p = config q \<and> excludePatternRegex p = excludePatternRegex q \<and>
     latencyBounds p = latencyBounds q \<and> startTimestamp p = startTimestamp q \<and>
     maxNumberOfServicesToTrack p = maxNumberOfServicesToTrack q \<and>
     maxNumberOfOperationsToTrackPerService p = maxNumberOfOperationsToTrackPerService q"

lemma span_setup_refl [simp]: "same_setup p p"
  by (simp add: same_setup_def)

lemma span_setup_trans: "same_setup p q \<Longrightarrow> same_setup q r \<Longrightarrow> same_setup p r"
  by (simp add: same_setup_def)

lemma covered_upd: "lru_ok L contents \<Longrightarrow> covered contents table c \<Longrightarrow> covered contents (fmupd k h table) (remember L k dims c)"
  unfolding covered_def by (auto simp: fmdom_remember)

lemma covered_step: "lru_ok L contents \<Longrightarrow> covered contents table c \<Longrightarrow>
  covered contents (update_table bounds k x t s table) (remember L k dims c)"
  by (simp add: update_table_def Let_def covered_upd)

lemma aggregate_caches_ok:
  assumes "lru_ok L contents" and "caches_ok contents p"
  shows "caches_ok contents (aggregate_latency L s sp ra p)"
    and "caches_ok contents (aggregate_exp X L s sp ra p)"
    and "caches_ok contents (aggregate_call L s sp ra p)"
    and "caches_ok contents (aggregate_external D L s sp ra p)"
    and "caches_ok contents (aggregate_db L s sp ra p)"
  using assms(2) unfolding caches_ok_def aggregate_defs
  by (auto simp: buildMetricKey_eq cache_eqs update_defs Let_def covered_step [OF assms(1)] covered_upd [OF assms(1)] split: option.splits)

lemma aggregate_tables_ok:
  assumes "tables_ok p"
  shows "tables_ok (aggregate_latency L s sp ra p)"
    and "tables_ok (aggregate_exp X L s sp ra p)"
    and "tables_ok (aggregate_call L s sp ra p)"
    and "tables_ok (aggregate_external D L s sp ra p)"
    and "tables_ok (aggregate_db L s sp ra p)"
  using assms unfolding tables_ok_def aggregate_defs
  by (auto simp: buildMetricKey_eq cache_eqs update_defs Let_def table_ok_update split: option.splits)

lemma aggregate_same_setup:
  "same_setup (aggregate_latency L s sp ra p) p"
  "same_setup (aggregate_exp X L s sp ra p) p"
  "same_setup (aggregate_call L s sp ra p) p"
  "same_setup (aggregate_external D L s sp ra p) p"
  "same_setup (aggregate_db L s sp ra p) p"
  unfolding same_setup_def aggregate_defs
  by (auto simp: buildMetricKey_eq cache_eqs update_defs Let_def split: option.splits)

lemma aggregate_latency_total: "total (histograms (aggregate_latency L s sp ra p)) = total (histograms p) + 1"
  by (simp add: aggregate_defs buildMetricKey_eq cache_eqs update_defs total_update)

lemma aggregate_call_total: "total (callHistograms (aggregate_call L s sp ra p)) = total (callHistograms p) + 1"
  by (simp add: aggregate_defs buildMetricKey_eq cache_eqs update_defs total_update)

lemma aggregate_others:
  "histograms (aggregate_exp X L s sp ra p) = histograms p" "histograms (aggregate_call L s sp ra p) = histograms p"
  "histograms (aggregate_external D L s sp ra p) = histograms p" "histograms (aggregate_db L s sp ra p) = histograms p"
  "callHistograms (aggregate_latency L s sp ra p) = callHistograms p"
  "callHistograms (aggregate_exp X L s sp ra p) = callHistograms p"
  "callHistograms (aggregate_external D L s sp ra p) = callHistograms p"
  "callHistograms (aggregate_db L s sp ra p) = callHistograms p"
  by (simp_all add: aggregate_defs buildMetricKey_eq cache_eqs update_defs Let_def split: option.splits)

section \<open>Aggregation keeps the invariant\<close>

definition state_ok :: "('l \<Rightarrow> (string, pmap) fmap) \<Rightarrow> ('l, 'e) processorImp \<Rightarrow> ('l, 'e) processorImp \<Rightarrow> bool" where
  "state_ok contents p0 p \<longleftrightarrow> same_setup p p0 \<and> caches_ok contents p \<and> tables_ok p"

definition totals :: "('l, 'e) processorImp \<Rightarrow> 64 word \<Rightarrow> bool" where
  "totals p n \<longleftrightarrow> total (histograms p) = n \<and> total (callHistograms p) = n"

lemma accepted_same: "same_setup p p0 \<Longrightarrow> accepted D now s sp ra p = accepted D now s sp ra p0"
  by (simp add: same_setup_def accepted_def stale_def shouldSkip_def)

lemmas aggregate_setups = aggregate_same_setup [THEN span_setup_trans]

lemma span_state_ok:
  assumes "lru_ok L contents" and "state_ok contents p0 p"
  shows "state_ok contents p0 (aggregateMetricsForSpan D X L now s sp ra p)"
proof -
  have step: "state_ok contents p0 (aggregate_db L s sp ra q)" "state_ok contents p0 (aggregate_external D L s sp ra q)"
    "state_ok contents p0 (aggregate_call L s sp ra q)" "state_ok contents p0 (aggregate_exp X L s sp ra q)"
    "state_ok contents p0 (aggregate_latency L s sp ra q)" if "state_ok contents p0 q" for q
    using that unfolding state_ok_def
    by (simp_all add: aggregate_caches_ok [OF assms(1)] aggregate_tables_ok aggregate_setups)
  show ?thesis unfolding aggregateMetricsForSpan_def using assms(2) by (simp add: step)
qed

lemma span_totals:
  assumes "same_setup p p0" and "totals p n"
  shows "totals (aggregateMetricsForSpan D X L now s sp ra p) (n + (if accepted D now s sp ra p0 then 1 else 0))"
  using assms(2) unfolding aggregateMetricsForSpan_def accepted_same [OF assms(1)] totals_def
  by (simp add: aggregate_others aggregate_latency_total aggregate_call_total)

definition accepted_in :: "span_deps \<Rightarrow> ('l, 'e) processorImp \<Rightarrow> (Span \<Rightarrow> int) \<Rightarrow> ResourceSpans \<Rightarrow> nat" where
  "accepted_in D p0 now_at rs =
     (case map_of (Resource rs) ''service.name'' of
        None \<Rightarrow> 0
      | Some a \<Rightarrow> length (filter (\<lambda>sp. accepted D (now_at sp) (Str a) sp (Resource rs) p0) (concat (ScopeSpans rs))))"

definition accepted_spans :: "span_deps \<Rightarrow> ('l, 'e) processorImp \<Rightarrow> (Span \<Rightarrow> int) \<Rightarrow> ResourceSpans list \<Rightarrow> nat" where
  "accepted_spans D p0 now_at traces = sum_list (map (accepted_in D p0 now_at) traces)"

text \<open>Both facts about any number of spans, then about resources and about calls.\<close>

lemma spans_keep:
  assumes "lru_ok L contents"
  shows "state_ok contents p0 p \<Longrightarrow> totals p n \<Longrightarrow>
    state_ok contents p0 (fold (\<lambda>sp. aggregateMetricsForSpan D X L (now_at sp) s sp ra) sps p) \<and>
    totals (fold (\<lambda>sp. aggregateMetricsForSpan D X L (now_at sp) s sp ra) sps p)
      (n + of_nat (length (filter (\<lambda>sp. accepted D (now_at sp) s sp ra p0) sps)))"
proof (induction sps arbitrary: p n)
  case (Cons sp sps)
  have same: "same_setup p p0" using Cons.prems(1) by (simp add: state_ok_def)
  show ?case
    using Cons.IH [OF span_state_ok [OF assms Cons.prems(1)] span_totals [OF same Cons.prems(2)], of D X "now_at sp" s sp ra]
    by (cases "accepted D (now_at sp) s sp ra p0") (simp_all add: add.assoc)
qed simp

lemma fold_concat: "fold (fold f) xss s = fold f (concat xss) s"
  by (induction xss arbitrary: s) auto

lemma resource_keep:
  assumes "lru_ok L contents" and "state_ok contents p0 p" and "totals p n"
  shows "state_ok contents p0 (aggregate_resource D X L now_at rs p) \<and>
    totals (aggregate_resource D X L now_at rs p) (n + of_nat (accepted_in D p0 now_at rs))"
  using assms(2,3) spans_keep [OF assms]
  by (auto simp: aggregate_resource_def accepted_in_def fold_concat split: option.splits)

lemma traces_keep:
  assumes "lru_ok L contents"
  shows "state_ok contents p0 p \<Longrightarrow> totals p n \<Longrightarrow>
    state_ok contents p0 (aggregateMetrics D X L now_at traces p) \<and>
    totals (aggregateMetrics D X L now_at traces p) (n + of_nat (accepted_spans D p0 now_at traces))"
proof (induction traces arbitrary: p n)
  case Nil
  then show ?case by (simp add: aggregateMetrics_def accepted_spans_def)
next
  case (Cons rs traces)
  note here = resource_keep [OF assms Cons.prems, of D X now_at rs]
  from Cons.IH [OF conjunct1 [OF here] conjunct2 [OF here]]
  show ?case by (simp add: aggregateMetrics_def accepted_spans_def add.assoc)
qed

section \<open>Export\<close>

lemma drop_exemplars_lookup: "fmlookup (drop_exemplars t) k = map_option (\<lambda>h. h\<lparr>exemplarsData := []\<rparr>) (fmlookup t k)"
  by (simp add: drop_exemplars_def)

lemma table_ok_drop [simp]: "table_ok bounds (drop_exemplars t) = table_ok bounds t"
proof -
  have "histogram_ok bounds (h\<lparr>exemplarsData := []\<rparr>) = histogram_ok bounds h" for h
    by (simp add: histogram_ok_def)
  then show ?thesis unfolding table_ok_def drop_exemplars_lookup by auto
qed

lemma covered_drop [simp]: "covered contents (drop_exemplars t) c = covered contents t c"
  by (simp add: covered_def drop_exemplars_def)

lemma total_drop [simp]: "total (drop_exemplars t) = total t"
proof -
  have "count_of (drop_exemplars t) k = count_of t k" for k
    by (simp add: count_of_def drop_exemplars_lookup split: option.splits)
  then show ?thesis by (simp add: total_def drop_exemplars_def)
qed

lemma resetExemplarData_ok:
  "state_ok contents p0 (resetExemplarData p) = state_ok contents p0 p" "totals (resetExemplarData p) n = totals p n"
  by (simp_all add: resetExemplarData_def state_ok_def caches_ok_def tables_ok_def same_setup_def totals_def)

lemma table_ok_keep: "table_ok bounds t \<Longrightarrow> table_ok bounds (keep_cached L c t)"
  by (auto simp: table_ok_def keep_cached_def)

lemma state_ok_delete:
  "lru_ok L contents \<Longrightarrow> state_ok contents p0 p \<Longrightarrow> state_ok contents p0 (delete_uncached L (remove_evicted p))"
  unfolding state_ok_def caches_ok_def tables_ok_def same_setup_def delete_uncached_def remove_evicted_def
  by (elim conjE) (simp add: covered_keep table_ok_keep)

lemma covered_empty [simp]: "covered contents fmempty c"
  by (simp add: covered_def)

lemma table_ok_empty [simp]: "table_ok bounds fmempty"
  by (simp add: table_ok_def)

lemma state_ok_reset:
  "state_ok contents p0 p \<Longrightarrow> state_ok contents p0 (resetAccumulatedMetrics L p)"
  "totals (resetAccumulatedMetrics L p) 0"
  by (simp_all add: state_ok_def caches_ok_def tables_ok_def same_setup_def resetAccumulatedMetrics_def totals_def)

lemma state_ok_finish:
  assumes "lru_ok L contents" and "state_ok contents p0 p"
  shows "state_ok contents p0 (finish_build L p)"
    and "GetAggregationTemporality (config p0) = Delta \<Longrightarrow> totals (finish_build L p) 0"
proof -
  note del = state_ok_delete [OF assms]
  then have cfg: "config (delete_uncached L (remove_evicted p)) = config p0"
    by (simp add: state_ok_def same_setup_def)
  show "state_ok contents p0 (finish_build L p)"
    using del by (simp add: finish_build_def Let_def resetExemplarData_ok state_ok_reset)
  show "totals (finish_build L p) 0" if "GetAggregationTemporality (config p0) = Delta"
    using that by (simp add: finish_build_def Let_def cfg resetExemplarData_ok state_ok_reset)
qed

end
