(* ===== verification/Span_Keys.thy ===== *)
theory Span_Keys
  imports Span_Metrics
begin

text \<open>
  The metric keys of the span metrics processor: what a key says of the span it was built from, the
  time of its bucket, the bound on the names tracked, and where keys go wrong: dimensions without a
  value leave no trace in the key, the name at the limit is in the key but not in the labels, and a
  numeric service name is taken for a time.
\<close>

section \<open>Keys and labels\<close>

definition label_values :: "string \<Rightarrow> Span \<Rightarrow> dimension list \<Rightarrow> pmap \<Rightarrow> ('l, 'e) processorImp \<Rightarrow> string list" where
  "label_values s sp dims ra p =
     [tracked_service s p, tracked_operation (tracked_service s p) (sp_Name sp) p,
      SpanKindStr (sp_Kind sp), StatusCodeStr (sp_Status sp)] @
     List.map_filter (\<lambda>d. map_option AsString (getDimensionValue d (sp_Attributes sp) ra)) dims"

lemma buildKey_values: "fst (buildKey s sp dims ra p) = concat_values (label_values s sp dims ra p)"
  by (simp add: buildKey_def label_values_def Let_def)

lemma label_values_not_Nil: "label_values s sp dims ra p \<noteq> []"
  by (simp add: label_values_def)

definition nul_free :: "string list \<Rightarrow> bool" where
  "nul_free vs \<longleftrightarrow> list_all (\<lambda>v. NUL \<notin> set v) vs"

lemma concat_values_inject:
  "nul_free vs \<Longrightarrow> nul_free ws \<Longrightarrow> vs \<noteq> [] \<Longrightarrow> ws \<noteq> [] \<Longrightarrow> concat_values vs = concat_values ws \<Longrightarrow> vs = ws"
proof (induction vs arbitrary: ws)
  case (Cons x xs)
  obtain y ys where ws: "ws = y # ys" using Cons.prems(4) by (cases ws) auto
  have nul: "NUL \<notin> set x" "NUL \<notin> set y" "nul_free xs" "nul_free ys"
    using Cons.prems(1,2) by (simp_all add: ws nul_free_def)
  have eq: "x @ (if xs = [] then [] else NUL # concat_values xs) = y @ (if ys = [] then [] else NUL # concat_values ys)"
    using Cons.prems(5) unfolding ws concat_values_def join_Cons by (simp split: if_splits)
  show ?case
  proof (cases "xs = [] \<or> ys = []")
    case True
    have "NUL \<in> set (x @ (if xs = [] then [] else NUL # concat_values xs)) \<longleftrightarrow> xs \<noteq> []"
      "NUL \<in> set (y @ (if ys = [] then [] else NUL # concat_values ys)) \<longleftrightarrow> ys \<noteq> []"
      using nul by auto
    with eq True have "xs = []" "ys = []" by simp_all
    with eq show ?thesis by (simp add: ws)
  next
    case False
    with eq have "x @ NUL # concat_values xs = y @ NUL # concat_values ys" by simp
    then have "x = y \<and> concat_values xs = concat_values ys" by (rule split_at_sep [OF nul(1,2)])
    with Cons.IH [OF nul(3,4)] False show ?thesis by (simp add: ws)
  qed
qed simp

lemma map_filter_total: "list_all (\<lambda>d. f d \<noteq> None) ds \<Longrightarrow> List.map_filter f ds = map (the \<circ> f) ds"
  by (induction ds) (auto simp: List.map_filter_simps)

text \<open>Two spans that share a metric key have the same labels, if no value contains the separator
  and every configured dimension has a value in both: the same service and operation as tracked, kind
  and status, and the same printed value of every dimension.\<close>

theorem key_determines_labels:
  assumes "fst (buildKey s1 sp1 dims ra1 p) = fst (buildKey s2 sp2 dims ra2 p)"
    and "nul_free (label_values s1 sp1 dims ra1 p)" and "nul_free (label_values s2 sp2 dims ra2 p)"
    and "list_all (\<lambda>d. getDimensionValue d (sp_Attributes sp1) ra1 \<noteq> None) dims"
    and "list_all (\<lambda>d. getDimensionValue d (sp_Attributes sp2) ra2 \<noteq> None) dims"
  shows "tracked_service s1 p = tracked_service s2 p \<and>
    tracked_operation (tracked_service s1 p) (sp_Name sp1) p = tracked_operation (tracked_service s2 p) (sp_Name sp2) p \<and>
    SpanKindStr (sp_Kind sp1) = SpanKindStr (sp_Kind sp2) \<and>
    StatusCodeStr (sp_Status sp1) = StatusCodeStr (sp_Status sp2) \<and>
    list_all (\<lambda>d. AsString (the (getDimensionValue d (sp_Attributes sp1) ra1)) =
      AsString (the (getDimensionValue d (sp_Attributes sp2) ra2))) dims"
proof -
  have eq: "label_values s1 sp1 dims ra1 p = label_values s2 sp2 dims ra2 p"
    using assms(1) unfolding buildKey_values
    by (rule concat_values_inject [OF assms(2,3) label_values_not_Nil label_values_not_Nil])
  have "map (the \<circ> (\<lambda>d. map_option AsString (getDimensionValue d (sp_Attributes sp1) ra1))) dims =
      map (the \<circ> (\<lambda>d. map_option AsString (getDimensionValue d (sp_Attributes sp2) ra2))) dims"
    using eq assms(4,5) unfolding label_values_def by (simp add: map_filter_total)
  then show ?thesis
    using eq assms(4,5) unfolding label_values_def by (auto simp: list_all_iff option.map_sel)
qed

definition dim :: "string \<Rightarrow> dimension" where
  "dim n = \<lparr>d_name = n, d_value = None\<rparr>"

text \<open>A processor at its start, with delta temporality and caches of one entry, and a span.\<close>

definition demo_deps :: span_deps where
  "demo_deps = \<lparr>CompileOk = (\<lambda>_. True), MatchString = (\<lambda>_ _. False), Kind_String = SpanKindStr,
     Status_String = StatusCodeStr, url_Host = Some, IsLetter = (\<lambda>r. 97 \<le> r \<and> r \<le> 122), IsDigit = (\<lambda>r. 48 \<le> r \<and> r \<le> 57)\<rparr>"

definition demo_config :: Config where
  "demo_config = (createDefaultConfig False)
     \<lparr>AggregationTemporality := ''AGGREGATION_TEMPORALITY_DELTA'', DimensionsCacheSize := 1\<rparr>"

definition demo :: "((string, pmap) list_state, nat) processorImp" where
  "demo = projr (the (newProcessor demo_deps list_lru ''id'' demo_config 0))"

lemma demo_new: "newProcessor demo_deps list_lru ''id'' demo_config 0 = Some (Inr demo)"
  by (simp add: demo_def newProcessor_def demo_config_def createDefaultConfig_def demo_deps_def NewCache_def
      list_lru_def validateDimensions_def Let_def)

lemma demo_simps [simp]:
  "config demo = demo_config\<lparr>TimeBucketInterval := defaultTimeBucketInterval\<rparr>" "serviceToOperations demo = fmempty"
  "maxNumberOfServicesToTrack demo = 256" "maxNumberOfOperationsToTrackPerService demo = 2048"
  "excludePatternRegex demo = []"
  by (simp_all add: demo_def newProcessor_def demo_config_def createDefaultConfig_def demo_deps_def NewCache_def
      list_lru_def validateDimensions_def Let_def exclude_map_def)

lemma demo_delta: "GetAggregationTemporality (config demo) = Delta"
  by (simp add: demo_config_def GetAggregationTemporality_def)

definition demo_span :: Span where
  "demo_span = \<lparr>sp_Name = ''op'', sp_Kind = SpanKindServer, sp_Status = StatusCodeOk, StartTimestamp = 90 * 10 ^ 9,
     EndTimestamp = 91 * 10 ^ 9, sp_Attributes = [(''a'', StrValue ''x'')], sp_TraceID = [1], sp_SpanID = [1]\<rparr>"

theorem key_determines_labels_witness:
  "list_all (\<lambda>d. AsString (the (getDimensionValue d (sp_Attributes demo_span) [])) =
      AsString (the (getDimensionValue d (sp_Attributes (demo_span\<lparr>StartTimestamp := 0\<rparr>)) []))) [dim ''a'']"
  using key_determines_labels [of "''s''" demo_span "[dim ''a'']" "[]" demo "''s''" "demo_span\<lparr>StartTimestamp := 0\<rparr>" "[]"]
  by (simp add: buildKey_def Let_def nul_free_def label_values_def dim_def getDimensionValue_def span_value_def
      demo_span_def tracked_service_def tracked_operation_def operations_of_def fcard_fempty List.map_filter_simps)

section \<open>The time of a key\<close>

text \<open>With delta temporality the time of a key reads back from its text: both timestamps of a point
  are the start, to the second, of the bucket in which its spans started, whatever the clock says.\<close>

theorem delta_key_time:
  assumes "GetAggregationTemporality (config p) = Delta" and "TimeBucketInterval (config p) < 2 ^ 63"
  shows "parseTimesFromKeyOrNow (fst (buildMetricKey s sp dims ra p)) now st =
    (word_of_int (bucket_seconds (config p) (StartTimestamp sp) * 10 ^ 9),
     word_of_int (bucket_seconds (config p) (StartTimestamp sp) * 10 ^ 9))"
  using parse_time_prefix [OF assms(2)] by (simp add: buildMetricKey_def key_prefix_def assms(1))

theorem delta_key_time_witness:
  "parseTimesFromKeyOrNow (fst (buildMetricKey ''s'' demo_span [] [] demo)) 0 7 = (60 * 10 ^ 9, 60 * 10 ^ 9)"
  using delta_key_time [OF demo_delta, of "''s''" demo_span "[]" "[]" 0 7]
  by (simp add: defaultTimeBucketInterval_def bucket_seconds_def AsTime_def demo_span_def unix_seconds_def
      Truncate_def GetTimeBucketInterval_def)

section \<open>Tracked names\<close>

text \<open>A set that takes names up to a limit and one overflow name beyond it.\<close>

definition limited :: "int \<Rightarrow> string \<Rightarrow> string fset \<Rightarrow> bool" where
  "limited m overflow S \<longleftrightarrow> int (fcard S) \<le> max 0 (m + 1) + (if overflow |\<in>| S then 1 else 0)"

lemma limited_empty: "limited m overflow {||}"
  by (simp add: limited_def fcard_fempty)

lemma limited_insert:
  assumes "limited m overflow S"
  shows "limited m overflow (finsert (if int (fcard S) > m then overflow else x) S)"
proof (cases "int (fcard S) > m")
  case True
  with assms show ?thesis by (auto simp: limited_def finsert_absorb fcard_finsert_if)
next
  case False
  then show ?thesis by (auto simp: limited_def fcard_finsert_if)
qed

lemma limited_bound: "limited m overflow S \<Longrightarrow> int (fcard S) \<le> max 1 (m + 2)"
  by (auto simp: limited_def split: if_splits)

definition tracking_ok :: "('l, 'e) processorImp \<Rightarrow> bool" where
  "tracking_ok p \<longleftrightarrow>
     limited (maxNumberOfServicesToTrack p) ''overflow_service'' (fmdom (serviceToOperations p)) \<and>
     (\<forall>s. limited (maxNumberOfOperationsToTrackPerService p) ''overflow_operation'' (operations_of s p))"

lemma tracked_service_limited:
  "limited (maxNumberOfServicesToTrack p) ''overflow_service'' (fmdom (serviceToOperations p)) \<Longrightarrow>
   limited (maxNumberOfServicesToTrack p) ''overflow_service'' (finsert (tracked_service s p) (fmdom (serviceToOperations p)))"
  unfolding tracked_service_def by (rule limited_insert)

lemma tracked_operation_limited:
  "limited (maxNumberOfOperationsToTrackPerService p) ''overflow_operation'' (operations_of s p) \<Longrightarrow>
   limited (maxNumberOfOperationsToTrackPerService p) ''overflow_operation'' (finsert (tracked_operation s n p) (operations_of s p))"
  unfolding tracked_operation_def by (rule limited_insert)

lemma operations_of_upd:
  "operations_of s (p\<lparr>serviceToOperations := fmupd t S (serviceToOperations p)\<rparr>) = (if s = t then S else operations_of s p)"
  by (simp add: operations_of_def)

lemma buildKey_tracking_ok: "tracking_ok p \<Longrightarrow> tracking_ok (snd (buildKey s sp dims ra p))"
  unfolding tracking_ok_def buildKey_def Let_def
  by (simp add: operations_of_upd tracked_service_limited tracked_operation_limited)

section \<open>Defects\<close>

text \<open>A dimension without a value leaves no place in the key: a span with the value in one dimension and
  a span with it in the other have one key, so the second is counted under the labels of the first.\<close>

theorem missing_dimension_collides:
  assumes "a \<noteq> b" and "a \<noteq> ''http.status_code''" and "b \<noteq> ''http.status_code''"
  shows "fst (buildKey s (sp\<lparr>sp_Attributes := [(a, v)]\<rparr>) [dim a, dim b] [] p) =
    fst (buildKey s (sp\<lparr>sp_Attributes := [(b, v)]\<rparr>) [dim a, dim b] [] p)"
  using assms by (simp add: buildKey_def dim_def getDimensionValue_def span_value_def Let_def List.map_filter_simps)

text \<open>The service that reaches the limit is in its key under its own name; the labels, built after the
  key, call it the overflow service.\<close>

theorem service_at_limit_mislabelled:
  assumes "int (fcard (fmdom (serviceToOperations p))) = maxNumberOfServicesToTrack p"
    and "s |\<notin>| fmdom (serviceToOperations p)"
  shows "tracked_service s p = s \<and>
    map_of (fst (buildDimensionKVs s sp [] ra (snd (buildKey s sp [] ra p)))) ''service.name'' =
      Some (StrValue ''overflow_service'')"
proof -
  have "tracked_service s p = s" using assms(1) by (simp add: tracked_service_def)
  moreover have "tracked_service s (snd (buildKey s sp [] ra p)) = ''overflow_service''"
    using assms calculation by (simp add: buildKey_def Let_def tracked_service_def fcard_finsert_if)
  ultimately show ?thesis by (simp add: buildDimensionKVs_def Let_def)
qed

text \<open>With cumulative temporality a service whose name is a number is taken for a time bucket.\<close>

theorem numeric_service_read_as_time:
  assumes "GetAggregationTemporality (config p) = Cumulative" and "tracked_service s p = ''42''"
  shows "parseTimesFromKeyOrNow (fst (buildMetricKey s sp dims ra p)) now st = (42 * 10 ^ 9, 42 * 10 ^ 9)"
proof -
  have "fst (buildMetricKey s sp dims ra p) = ''42'' @ NUL # concat_values (tl (label_values s sp dims ra p))"
    using assms by (simp add: buildMetricKey_def key_prefix_def buildKey_values label_values_def concat_values_def)
  then show ?thesis
    by (simp add: parseTimesFromKeyOrNow_def ParseInt_def all_digits_def Let_def read_nat_def digit_val_def)
qed

text \<open>The transport cannot be both a Unix socket and a pipe, so it never excludes a peer address.\<close>

theorem transport_never_excludes:
  assumes "map_of (sp_Attributes sp) ''rpc.system'' = None" and "map_of (sp_Attributes sp) ''http.host'' = None"
    and "getPeerAddress (sp_Attributes sp) = Some addr"
  shows "getRemoteAddress D sp = Some addr"
  using assms by (auto simp: getRemoteAddress_def Let_def split: option.splits)

text \<open>A port that is not a string, as the conventions have it, is lost: the address ends in a colon.\<close>

theorem integer_port_lost:
  "with_port [(''net.peer.port'', OtherValue ''8080'')] ''net.peer.port'' (StrValue ''db'') = ''db:''"
  by (simp add: with_port_def)

end
