(* ===== verification/Span_Properties.thy ===== *)
theory Span_Properties
  imports Span_Counts Span_Keys
begin

text \<open>
  The properties of the span metrics processor: over every run of calls and exports, no export fails
  (\<open>export_never_fails\<close>), with delta temporality the points of an export count every accepted span once
  (\<open>delta_export_counts_spans\<close>), the tracked names are bounded, and the time of a point is that of its
  bucket. The last section states defects of the keys.
\<close>

section \<open>What a build yields\<close>

text \<open>Two states that differ only in what their caches hold where.\<close>

definition same_data ::
  "('l \<Rightarrow> (string, pmap) fmap) \<Rightarrow> ('l, 'e) processorImp \<Rightarrow> ('l, 'e) processorImp \<Rightarrow> bool" where
  "same_data contents p q \<longleftrightarrow>
     same_setup p q \<and> histograms p = histograms q \<and> expHistograms p = expHistograms q \<and>
     callHistograms p = callHistograms q \<and> dbCallHistograms p = dbCallHistograms q \<and>
     externalCallHistograms p = externalCallHistograms q \<and> serviceToOperations p = serviceToOperations q \<and>
     readable contents (metricKeyToDimensions p) = readable contents (metricKeyToDimensions q) \<and>
     readable contents (expHistogramKeyToDimensions p) = readable contents (expHistogramKeyToDimensions q) \<and>
     readable contents (callMetricKeyToDimensions p) = readable contents (callMetricKeyToDimensions q) \<and>
     readable contents (dbCallMetricKeyToDimensions p) = readable contents (dbCallMetricKeyToDimensions q) \<and>
     readable contents (externalCallMetricKeyToDimensions p) = readable contents (externalCallMetricKeyToDimensions q)"

lemma same_data_refl: "same_data contents p p"
  by (simp add: same_data_def)

lemma same_data_trans: "same_data contents p q \<Longrightarrow> same_data contents q r \<Longrightarrow> same_data contents p r"
  unfolding same_data_def by (elim conjE) (simp add: same_setup_def)

lemma same_data_caches_ok: "same_data contents p q \<Longrightarrow> caches_ok contents q \<Longrightarrow> caches_ok contents p"
  by (simp add: same_data_def caches_ok_def covered_def)

lemma same_data_state_ok: "same_data contents p q \<Longrightarrow> state_ok contents p0 q \<Longrightarrow> state_ok contents p0 p"
  using same_data_caches_ok [of contents p q] unfolding state_ok_def tables_ok_def same_data_def same_setup_def
  by (elim conjE) simp

text \<open>The points of a table, each with the dimensions of its key.\<close>

definition points_of ::
  "('l \<Rightarrow> (string, pmap) fmap) \<Rightarrow> (string \<Rightarrow> 'h \<Rightarrow> int \<Rightarrow> pmap \<Rightarrow> 'p) \<Rightarrow> (string, 'h) fmap \<Rightarrow> range \<Rightarrow> 'l dim_cache \<Rightarrow> 'p list" where
  "points_of contents mk table r c =
     map (\<lambda>(k, h, now). mk k h now (the (fmlookup (readable contents c) k))) (entries table r)"

lemma collect_points:
  assumes "lru_ok L contents" and "covered contents table c"
  obtains c' where "collect_loop L mk (entries table r) c = (Inr (points_of contents mk table r c), c')"
    and "readable contents c' = readable contents c"
  using covered_entries [OF assms] unfolding points_of_def by blast

abbreviation metric_of :: "('l, 'e) processorImp \<Rightarrow> string \<Rightarrow> string \<Rightarrow> metric_data \<Rightarrow> metric" where
  "metric_of p n u d \<equiv> \<lparr>m_name = n, m_unit = u, m_temporality = GetAggregationTemporality (config p), m_data = d\<rparr>"

lemma collectCall_ok:
  assumes "lru_ok L contents" and "caches_ok contents p"
  obtains q where "collectCallMetrics L it p =
      (Inr [metric_of p ''signoz_calls_total'' [] (SumData
        (points_of contents (count_point p) (callHistograms p) (r_calls it) (callMetricKeyToDimensions p)))], q)"
    and "same_data contents q p"
proof -
  have "covered contents (callHistograms p) (callMetricKeyToDimensions p)"
    using assms(2) by (simp add: caches_ok_def)
  from collect_points [OF assms(1) this, of "count_point p" "r_calls it"] obtain c' where
    "collect_loop L (count_point p) (entries (callHistograms p) (r_calls it)) (callMetricKeyToDimensions p) =
      (Inr (points_of contents (count_point p) (callHistograms p) (r_calls it) (callMetricKeyToDimensions p)), c')"
    "readable contents c' = readable contents (callMetricKeyToDimensions p)" by blast
  with that show thesis by (simp add: collectCallMetrics_def collected_def same_data_def same_setup_def)
qed

lemma collectLatency_ok:
  assumes "lru_ok L contents" and "caches_ok contents p"
  obtains q where "collectLatencyMetrics L it p =
      (Inr [metric_of p ''signoz_latency'' ''ms'' (HistogramData
        (points_of contents (latency_point p) (histograms p) (r_latency it) (metricKeyToDimensions p)))], q)"
    and "same_data contents q p"
proof -
  have "covered contents (histograms p) (metricKeyToDimensions p)"
    using assms(2) by (simp add: caches_ok_def)
  from collect_points [OF assms(1) this, of "latency_point p" "r_latency it"] obtain c' where
    "collect_loop L (latency_point p) (entries (histograms p) (r_latency it)) (metricKeyToDimensions p) =
      (Inr (points_of contents (latency_point p) (histograms p) (r_latency it) (metricKeyToDimensions p)), c')"
    "readable contents c' = readable contents (metricKeyToDimensions p)" by blast
  with that show thesis by (simp add: collectLatencyMetrics_def collected_def same_data_def same_setup_def)
qed

text \<open>Of the other three collections only that they succeed, and that none of their metrics is a
  histogram or the call count.\<close>

definition other_metric :: "metric \<Rightarrow> bool" where
  "other_metric m \<longleftrightarrow> m_name m \<noteq> ''signoz_calls_total'' \<and> (\<forall>ps. m_data m \<noteq> HistogramData ps)"

definition collects :: "('l \<Rightarrow> (string, pmap) fmap) \<Rightarrow> ('l, 'e) processorImp \<Rightarrow> (string + metric list) \<times> ('l, 'e) processorImp \<Rightarrow> bool" where
  "collects contents p r \<longleftrightarrow> (\<exists>ms q. r = (Inr ms, q) \<and> list_all other_metric ms \<and> same_data contents q p)"

lemma collect_others:
  assumes "lru_ok L contents" and "caches_ok contents p"
  shows "collects contents p (collectExternalCallMetrics L it p)"
    and "collects contents p (collectDBCallMetrics L it p)"
    and "collects contents p (collectExpHistogramMetrics X L it p)"
proof -
  have c: "covered contents (externalCallHistograms p) (externalCallMetricKeyToDimensions p)"
    "covered contents (dbCallHistograms p) (dbCallMetricKeyToDimensions p)"
    "covered contents (expHistograms p) (expHistogramKeyToDimensions p)"
    using assms(2) by (simp_all add: caches_ok_def)
  from collect_points [OF assms(1) c(1), of "sum_and_count p" "r_external it"] obtain c1 where
    "collect_loop L (sum_and_count p) (entries (externalCallHistograms p) (r_external it)) (externalCallMetricKeyToDimensions p) =
      (Inr (points_of contents (sum_and_count p) (externalCallHistograms p) (r_external it) (externalCallMetricKeyToDimensions p)), c1)"
    "readable contents c1 = readable contents (externalCallMetricKeyToDimensions p)" by blast
  then show "collects contents p (collectExternalCallMetrics L it p)"
    by (simp add: collects_def collectExternalCallMetrics_def collected_def other_metric_def same_data_def same_setup_def)
  from collect_points [OF assms(1) c(2), of "sum_and_count p" "r_db it"] obtain c2 where
    "collect_loop L (sum_and_count p) (entries (dbCallHistograms p) (r_db it)) (dbCallMetricKeyToDimensions p) =
      (Inr (points_of contents (sum_and_count p) (dbCallHistograms p) (r_db it) (dbCallMetricKeyToDimensions p)), c2)"
    "readable contents c2 = readable contents (dbCallMetricKeyToDimensions p)" by blast
  then show "collects contents p (collectDBCallMetrics L it p)"
    by (simp add: collects_def collectDBCallMetrics_def collected_def other_metric_def same_data_def same_setup_def)
  let ?mk = "\<lambda>k h now. expoHistToExponentialDataPoint X h (times_of p k now)"
  from collect_points [OF assms(1) c(3), of ?mk "r_exp it"] obtain c3 where
    "collect_loop L ?mk (entries (expHistograms p) (r_exp it)) (expHistogramKeyToDimensions p) =
      (Inr (points_of contents ?mk (expHistograms p) (r_exp it) (expHistogramKeyToDimensions p)), c3)"
    "readable contents c3 = readable contents (expHistogramKeyToDimensions p)" by blast
  then show "collects contents p (collectExpHistogramMetrics X L it p)"
    by (simp add: collects_def collectExpHistogramMetrics_def collected_def other_metric_def same_data_def same_setup_def)
qed

definition chained ::
  "('l \<Rightarrow> (string, pmap) fmap) \<Rightarrow> ('l, 'e) processorImp \<Rightarrow> metric list \<Rightarrow> (string + metric list) \<times> ('l, 'e) processorImp \<Rightarrow> bool" where
  "chained contents p ms0 r \<longleftrightarrow>
     (\<exists>ms q. r = (Inr (ms0 @ ms), q) \<and> list_all other_metric ms \<and> same_data contents q p)"

lemma chained_then:
  assumes "chained contents p ms0 r" and "\<And>q. same_data contents q p \<Longrightarrow> collects contents q (f q)"
  shows "chained contents p ms0 (and_then r f)"
proof -
  obtain ms q where r: "r = (Inr (ms0 @ ms), q)" "list_all other_metric ms" and d: "same_data contents q p"
    using assms(1) unfolding chained_def by blast
  obtain ms' q' where f: "f q = (Inr ms', q')" "list_all other_metric ms'" and d': "same_data contents q' q"
    using assms(2) [OF d] unfolding collects_def by blast
  show ?thesis
    using r(2) f(2) same_data_trans [OF d' d] unfolding chained_def and_then_def r(1)
    by (intro exI [of _ "ms @ ms'"] exI [of _ q']) (simp add: f(1))
qed

definition built ::
  "('l \<Rightarrow> (string, pmap) fmap) \<Rightarrow> ranges \<Rightarrow> ('l, 'e) processorImp \<Rightarrow> ('l, 'e) processorImp \<Rightarrow> metric list \<Rightarrow> metric list" where
  "built contents it p p1 ms =
     metric_of p ''signoz_calls_total'' [] (SumData
       (points_of contents (count_point p) (callHistograms p) (r_calls it) (callMetricKeyToDimensions p))) #
     metric_of p ''signoz_latency'' ''ms'' (HistogramData
       (points_of contents (latency_point p1) (histograms p) (r_latency it) (metricKeyToDimensions p1))) # ms"

lemma buildMetrics_ok:
  assumes "lru_ok L contents" and "caches_ok contents p"
  obtains ms p1 q where "buildMetrics X L it p = (Inr (built contents it p p1 ms), finish_build L q)"
    and "list_all other_metric ms" and "same_data contents q p" and "same_data contents p1 p"
proof -
  let ?m1 = "metric_of p ''signoz_calls_total'' [] (SumData
    (points_of contents (count_point p) (callHistograms p) (r_calls it) (callMetricKeyToDimensions p)))"
  obtain p1 where r1: "collectCallMetrics L it p = (Inr [?m1], p1)" and d1: "same_data contents p1 p"
    using collectCall_ok [OF assms] by blast
  note ok1 = same_data_caches_ok [OF d1 assms(2)]
  let ?m2 = "metric_of p ''signoz_latency'' ''ms'' (HistogramData
    (points_of contents (latency_point p1) (histograms p) (r_latency it) (metricKeyToDimensions p1)))"
  have eqs: "histograms p1 = histograms p" "config p1 = config p" using d1 by (simp_all add: same_data_def same_setup_def)
  obtain p2 where "collectLatencyMetrics L it p1 = (Inr [?m2], p2)" and d2: "same_data contents p2 p1"
    using collectLatency_ok [OF assms(1) ok1, of it] unfolding eqs by blast
  then have r2: "and_then (collectCallMetrics L it p) (collectLatencyMetrics L it) = (Inr [?m1, ?m2], p2)"
    by (simp add: r1 and_then_def)
  have "chained contents p [?m1, ?m2] (and_then (collectCallMetrics L it p) (collectLatencyMetrics L it))"
    using same_data_trans [OF d2 d1] unfolding chained_def r2 by simp
  then have "chained contents p [?m1, ?m2] (and_then (and_then (and_then (and_then (collectCallMetrics L it p)
      (collectLatencyMetrics L it)) (collectExternalCallMetrics L it)) (collectDBCallMetrics L it))
      (collectExpHistogramMetrics X L it))"
    by (rule chained_then [OF chained_then [OF chained_then]])
      (intro collect_others assms(1) same_data_caches_ok [OF _ assms(2)]; assumption)+
  then obtain ms q where "and_then (and_then (and_then (and_then (collectCallMetrics L it p)
      (collectLatencyMetrics L it)) (collectExternalCallMetrics L it)) (collectDBCallMetrics L it))
      (collectExpHistogramMetrics X L it) = (Inr ([?m1, ?m2] @ ms), q)"
    and ms: "list_all other_metric ms" "same_data contents q p"
    unfolding chained_def by blast
  then have "buildMetrics X L it p = (Inr (built contents it p p1 ms), finish_build L q)"
    unfolding buildMetrics_def Let_def by (simp add: and_then_def built_def)
  then show thesis using ms d1 that by blast
qed

section \<open>Counting the points\<close>

definition latency_points :: "metric list \<Rightarrow> histogram_point list" where
  "latency_points ms = concat (map (\<lambda>m. case m_data m of HistogramData ps \<Rightarrow> ps | _ \<Rightarrow> []) ms)"

definition int_value :: "number_point \<Rightarrow> int" where
  "int_value pt = (case p_value pt of IntValue i \<Rightarrow> i | DoubleValue _ \<Rightarrow> 0)"

definition call_counts :: "metric list \<Rightarrow> int list" where
  "call_counts ms = concat (map (\<lambda>m.
     if m_name m = ''signoz_calls_total'' then (case m_data m of SumData ps \<Rightarrow> map int_value ps | _ \<Rightarrow> []) else []) ms)"

lemma latency_points_other: "list_all other_metric ms \<Longrightarrow> latency_points ms = []"
  by (induction ms) (auto simp: latency_points_def other_metric_def split: metric_data.splits)

lemma call_counts_other: "list_all other_metric ms \<Longrightarrow> call_counts ms = []"
  by (induction ms) (auto simp: call_counts_def other_metric_def)

lemma latency_points_built: "list_all other_metric ms \<Longrightarrow> latency_points (built contents it p p1 ms) =
    points_of contents (latency_point p1) (histograms p) (r_latency it) (metricKeyToDimensions p1)"
  using latency_points_other [of ms] by (simp add: built_def latency_points_def)

lemma call_counts_built: "list_all other_metric ms \<Longrightarrow> call_counts (built contents it p p1 ms) =
    map int_value (points_of contents (count_point p) (callHistograms p) (r_calls it) (callMetricKeyToDimensions p))"
  using call_counts_other [of ms] by (simp add: built_def call_counts_def)

lemma entries_total:
  assumes "enumerates r table"
  shows "sum_list (map (\<lambda>(k, h, now). h_count h) (entries table r)) = total table"
proof -
  have "sum_list (map (\<lambda>(k, h, now). h_count h) (entries table r)) = sum_list (map (count_of table) (map fst r))"
    by (induction r) (auto simp: entries_def List.map_filter_simps count_of_def split: option.splits)
  also have "\<dots> = sum (count_of table) (set (map fst r))"
    using assms by (intro sum_list_distinct_conv_sum_set) (simp add: enumerates_def)
  also have "set (map fst r) = fset (fmdom table)"
    using assms unfolding enumerates_def by (metis fset_of_list.rep_eq)
  finally show ?thesis by (simp add: total_def)
qed

lemma latency_counts_total:
  assumes "enumerates r table"
  shows "sum_list (map p_count (points_of contents (latency_point p) table r c)) = total table"
  unfolding entries_total [OF assms, symmetric] points_of_def
  by (rule arg_cong [where f = sum_list]) (auto simp: latency_point_def split: prod.splits)

lemma call_counts_total:
  assumes "enumerates r table"
  shows "sum_list (map (\<lambda>pt. word_of_int (int_value pt)) (points_of contents (count_point p) table r c)) = total table"
  unfolding entries_total [OF assms, symmetric] points_of_def
  by (rule arg_cong [where f = sum_list]) (auto simp: count_point_def int_value_def split: prod.splits)

section \<open>Runs\<close>

lemma new_state_ok:
  assumes "lru_ok L contents" and "newProcessor D L ident cfg now = Some (Inr p0)"
  shows "state_ok contents p0 p0" and "totals p0 0"
proof -
  have "histograms p0 = fmempty \<and> expHistograms p0 = fmempty \<and> callHistograms p0 = fmempty \<and>
      dbCallHistograms p0 = fmempty \<and> externalCallHistograms p0 = fmempty"
    using assms(2) unfolding newProcessor_def by (auto simp: Let_def split: option.splits if_splits)
  then show "state_ok contents p0 p0" and "totals p0 0"
    by (simp_all add: state_ok_def caches_ok_def tables_ok_def totals_def)
qed

text \<open>The spans accepted since the last export.\<close>

fun since_step :: "span_deps \<Rightarrow> ('l, 'e) processorImp \<Rightarrow> nat \<Rightarrow> event \<Rightarrow> nat" where
  "since_step D p0 n (Consumed now_at traces) = n + accepted_spans D p0 now_at traces"
| "since_step D p0 n (Exported m) = 0"

definition accepted_since :: "span_deps \<Rightarrow> ('l, 'e) processorImp \<Rightarrow> event list \<Rightarrow> nat" where
  "accepted_since D p0 evs = foldl (since_step D p0) 0 evs"

lemma accepted_since_snoc [simp]: "accepted_since D p0 (evs @ [ev]) = since_step D p0 (accepted_since D p0 evs) ev"
  by (simp add: accepted_since_def)

lemma traces_state_ok:
  "lru_ok L contents \<Longrightarrow> state_ok contents p0 p \<Longrightarrow> state_ok contents p0 (aggregateMetrics D X L now_at traces p)"
proof (induction traces arbitrary: p)
  case Nil
  then show ?case by (simp add: aggregateMetrics_def)
next
  case (Cons rs traces)
  have "state_ok contents p0 (fold (\<lambda>sp. aggregateMetricsForSpan D X L (now_at sp) s sp ra) sps q)"
    if "state_ok contents p0 q" for s ra sps q
    using that Cons.prems(1) by (induction sps arbitrary: q) (auto intro: span_state_ok)
  then have "state_ok contents p0 (aggregate_resource D X L now_at rs p)"
    using Cons.prems(2) by (simp add: aggregate_resource_def fold_concat split: option.splits)
  with Cons.IH [OF Cons.prems(1)] show ?case by (simp add: aggregateMetrics_def)
qed

lemma run_ok:
  assumes "lru_ok L contents" and "newProcessor D L ident cfg now = Some (Inr p0)" and "spans_run D X L p0 evs p"
  shows "state_ok contents p0 p \<and>
    (GetAggregationTemporality (config p0) = Delta \<longrightarrow> totals p (of_nat (accepted_since D p0 evs)))"
  using assms(3)
proof induction
  case run_start
  then show ?case using new_state_ok [OF assms(1,2)] by (simp add: accepted_since_def)
next
  case (run_consume evs p now_at traces next_consumer)
  then have ok: "state_ok contents p0 p" by blast
  from run_consume.IH show ?case
    using traces_state_ok [OF assms(1) ok, of D X now_at traces]
      traces_keep [OF assms(1) ok, of "of_nat (accepted_since D p0 evs)" D X now_at traces]
    by (simp add: ConsumeTraces_def)
next
  case (run_export evs p it m p')
  have ok: "state_ok contents p0 p" using run_export.IH by blast
  then have "caches_ok contents p" by (simp add: state_ok_def)
  from buildMetrics_ok [OF assms(1) this, of X it] obtain ms q where
    "buildMetrics X L it p = (Inr ms, finish_build L q)" and d: "same_data contents q p" by blast
  then have p': "p' = resetExemplarData (finish_build L q)"
    using run_export.hyps by (simp add: exportMetrics_def)
  note fin = state_ok_finish [OF assms(1) same_data_state_ok [OF d ok]]
  show ?case unfolding p' by (simp add: resetExemplarData_ok fin)
qed

text \<open>C29. An export never fails for want of the dimensions of a key: whatever was consumed and
  exported before, however small the caches, and in whatever order the maps are ranged over, the
  build succeeds, and in every point of the latency histogram the count is the sum of the buckets,
  of which there is one more than bounds.\<close>

theorem export_never_fails:
  assumes "lru_ok L contents" and "newProcessor D L ident cfg now = Some (Inr p0)"
    and "spans_run D X L p0 evs p" and "ranges_ok it p"
  shows "\<exists>ms p'. exportMetrics X L it p = (Some ms, p') \<and>
    list_all (\<lambda>pt. length (p_buckets pt) = Suc (length (p_bounds pt)) \<and> sum_list (p_buckets pt) = p_count pt)
      (latency_points ms)"
proof -
  have ok: "state_ok contents p0 p" using run_ok [OF assms(1-3)] by blast
  then have c: "caches_ok contents p" and t: "table_ok (latencyBounds p) (histograms p)"
    by (simp_all add: state_ok_def tables_ok_def)
  obtain ms p1 q where
    b: "buildMetrics X L it p = (Inr (built contents it p p1 ms), finish_build L q)" "list_all other_metric ms" and p1: "same_data contents p1 p"
    using buildMetrics_ok [OF assms(1) c, of X it] by blast
  have bounds: "latencyBounds p1 = latencyBounds p" using p1 by (simp add: same_data_def same_setup_def)
  have "list_all (\<lambda>pt. length (p_buckets pt) = Suc (length (p_bounds pt)) \<and> sum_list (p_buckets pt) = p_count pt)
      (points_of contents (latency_point p1) (histograms p) (r_latency it) (metricKeyToDimensions p1))"
    using t entries_in_table [of _ _ _ "histograms p" "r_latency it"]
    by (fastforce simp: list_all_iff points_of_def latency_point_def bounds table_ok_def histogram_ok_def split: prod.splits)
  then show ?thesis by (simp add: exportMetrics_def b(1) latency_points_built [OF b(2)])
qed

text \<open>C30. With delta temporality the spans accepted since the previous export are each counted once:
  the counts of the points of \<open>signoz_latency\<close>, and those of \<open>signoz_calls_total\<close>, add up to their
  number, modulo the width of the counters, even when entries were evicted from the caches.\<close>

theorem delta_export_counts_spans:
  assumes "lru_ok L contents" and "newProcessor D L ident cfg now = Some (Inr p0)"
    and "spans_run D X L p0 evs p" and "ranges_ok it p" and "GetAggregationTemporality (config p0) = Delta"
  shows "\<exists>ms p'. exportMetrics X L it p = (Some ms, p') \<and>
    sum_list (map p_count (latency_points ms)) = of_nat (accepted_since D p0 evs) \<and>
    sum_list (map word_of_int (call_counts ms)) = (of_nat (accepted_since D p0 evs) :: 64 word)"
proof -
  have ok: "state_ok contents p0 p" and n: "totals p (of_nat (accepted_since D p0 evs))"
    using run_ok [OF assms(1-3)] assms(5) by blast+
  then have c: "caches_ok contents p" by (simp add: state_ok_def)
  have r: "enumerates (r_latency it) (histograms p)" "enumerates (r_calls it) (callHistograms p)"
    using assms(4) by (simp_all add: ranges_ok_def)
  obtain ms p1 q where
    b: "buildMetrics X L it p = (Inr (built contents it p p1 ms), finish_build L q)" "list_all other_metric ms"
    using buildMetrics_ok [OF assms(1) c, of X it] by blast
  note points = latency_counts_total [OF r(1), of contents p1 "metricKeyToDimensions p1"]
    call_counts_total [OF r(2), of contents p "callMetricKeyToDimensions p"]
  show ?thesis
    using n points
    by (simp add: exportMetrics_def b(1) latency_points_built [OF b(2)] call_counts_built [OF b(2)] totals_def comp_def)
qed

section \<open>The names tracked\<close>

lemma tracking_ok_cong:
  "serviceToOperations p = serviceToOperations q \<Longrightarrow> maxNumberOfServicesToTrack p = maxNumberOfServicesToTrack q \<Longrightarrow>
   maxNumberOfOperationsToTrackPerService p = maxNumberOfOperationsToTrackPerService q \<Longrightarrow> tracking_ok p = tracking_ok q"
  by (simp add: tracking_ok_def operations_of_def)

lemma buildMetricKey_tracking_ok: "tracking_ok p \<Longrightarrow> tracking_ok (p\<lparr>serviceToOperations := tracked s sp p\<rparr>)"
  using buildKey_tracking_ok [of p s sp] by (simp add: buildKey_def tracked_def Let_def)

lemma aggregate_tracking_ok:
  assumes "tracking_ok p"
  shows "tracking_ok (aggregate_latency L s sp ra p)"
    and "tracking_ok (aggregate_exp X L s sp ra p)"
    and "tracking_ok (aggregate_call L s sp ra p)"
    and "tracking_ok (aggregate_external D L s sp ra p)"
    and "tracking_ok (aggregate_db L s sp ra p)"
  using assms buildMetricKey_tracking_ok [OF assms, of s sp]
  by (simp_all add: aggregate_defs buildMetricKey_eq cache_eqs update_defs Let_def tracking_ok_def operations_of_def
      split: option.splits)

lemma span_tracking_ok: "tracking_ok p \<Longrightarrow> tracking_ok (aggregateMetricsForSpan D X L now s sp ra p)"
  by (simp add: aggregateMetricsForSpan_def aggregate_tracking_ok)

lemma traces_tracking_ok: "tracking_ok p \<Longrightarrow> tracking_ok (aggregateMetrics D X L now_at traces p)"
proof (induction traces arbitrary: p)
  case Nil
  then show ?case by (simp add: aggregateMetrics_def)
next
  case (Cons rs traces)
  have "tracking_ok (fold (\<lambda>sp. aggregateMetricsForSpan D X L (now_at sp) s sp ra) sps q)"
    if "tracking_ok q" for s ra sps q
    using that by (induction sps arbitrary: q) (auto intro: span_tracking_ok)
  then have "tracking_ok (aggregate_resource D X L now_at rs p)"
    using Cons.prems by (simp add: aggregate_resource_def fold_concat split: option.splits)
  with Cons.IH show ?case by (simp add: aggregateMetrics_def)
qed

lemma finish_tracking_ok: "tracking_ok (resetExemplarData (finish_build L p)) = tracking_ok p"
  by (rule tracking_ok_cong)
    (simp_all add: finish_build_def resetExemplarData_def resetAccumulatedMetrics_def delete_uncached_def
      remove_evicted_def Let_def)

lemma run_tracking_ok:
  assumes "lru_ok L contents" and "newProcessor D L ident cfg now = Some (Inr p0)" and "spans_run D X L p0 evs p"
  shows "tracking_ok p"
  using assms(3)
proof induction
  case run_start
  have "serviceToOperations p0 = fmempty"
    using assms(2) unfolding newProcessor_def by (auto simp: Let_def split: option.splits if_splits)
  then show ?case by (simp add: tracking_ok_def operations_of_def limited_empty)
next
  case (run_consume evs p now_at traces next_consumer)
  then show ?case by (simp add: ConsumeTraces_def traces_tracking_ok)
next
  case (run_export evs p it m p')
  have "caches_ok contents p" using run_ok [OF assms(1,2) run_export.hyps(1)] by (simp add: state_ok_def)
  from buildMetrics_ok [OF assms(1) this, of X it] obtain ms q where
    "buildMetrics X L it p = (Inr ms, finish_build L q)" and d: "same_data contents q p" by blast
  then have p': "p' = resetExemplarData (finish_build L q)"
    using run_export.hyps by (simp add: exportMetrics_def)
  have "tracking_ok q" using run_export.IH tracking_ok_cong [of q p] d by (simp add: same_data_def same_setup_def)
  then show ?case by (simp add: p' finish_tracking_ok)
qed

text \<open>C32. The names tracked are bounded in every run: at most two services more than configured, and at
  most two operations more than configured for each of them (the one that passes the limit and the
  overflow name), even for a limit below zero.\<close>

theorem tracked_names_bounded:
  assumes "lru_ok L contents" and "newProcessor D L ident cfg now = Some (Inr p0)" and "spans_run D X L p0 evs p"
  shows "int (fcard (fmdom (serviceToOperations p))) \<le> max 1 (maxNumberOfServicesToTrack p + 2) \<and>
    int (fcard (operations_of s p)) \<le> max 1 (maxNumberOfOperationsToTrackPerService p + 2)"
  using run_tracking_ok [OF assms] limited_bound unfolding tracking_ok_def by blast

section \<open>A run\<close>

text \<open>The maps can always be ranged over.\<close>

lemma enumerates_exists: "\<exists>r. enumerates r table"
proof -
  obtain ks where ks: "set ks = fset (fmdom table)" "distinct ks"
    using finite_distinct_list [of "fset (fmdom table)"] by auto
  then have "enumerates (map (\<lambda>k. (k, 0)) ks) table"
    by (simp add: enumerates_def comp_def fset_inject [symmetric] fset_of_list.rep_eq)
  then show ?thesis by blast
qed

lemma ranges_exist: "\<exists>it. ranges_ok it p"
proof -
  obtain a b c d e where "enumerates a (histograms p)" "enumerates b (expHistograms p)" "enumerates c (callHistograms p)"
    "enumerates d (dbCallHistograms p)" "enumerates e (externalCallHistograms p)"
    using enumerates_exists by metis
  then have "ranges_ok \<lparr>r_latency = a, r_exp = b, r_calls = c, r_db = d, r_external = e\<rparr> p"
    by (simp add: ranges_ok_def)
  then show ?thesis by blast
qed

definition demo_expo :: "nat expohisto" where
  "demo_expo = \<lparr>x_New = 0, x_Update = (\<lambda>n _. Suc n), x_Count = of_nat, x_Sum = (\<lambda>_. 0), x_Min = (\<lambda>_. 0), x_Max = (\<lambda>_. 0),
     x_ZeroCount = (\<lambda>_. 0), x_Scale = (\<lambda>_. 0), x_Positive = (\<lambda>_. (0, [])), x_Negative = (\<lambda>_. (0, []))\<rparr>"

definition demo_traces :: "ResourceSpans list" where
  "demo_traces = [\<lparr>Resource = [(''service.name'', StrValue ''s'')],
     ScopeSpans = [[demo_span, demo_span\<lparr>sp_Name := ''other''\<rparr>]]\<rparr>]"

definition demo_end :: "((string, pmap) list_state, nat) processorImp" where
  "demo_end = aggregateMetrics demo_deps demo_expo list_lru (\<lambda>_. 0) demo_traces demo"

lemma demo_run: "spans_run demo_deps demo_expo list_lru demo [Consumed (\<lambda>_. 0) demo_traces] demo_end"
  using run_consume [OF run_start, of demo_deps demo_expo list_lru demo "\<lambda>_. 0" demo_traces]
  by (simp add: ConsumeTraces_def demo_end_def)

lemma demo_accepted: "accepted_since demo_deps demo [Consumed (\<lambda>_. 0) demo_traces] = 2"
  by (simp add: accepted_since_def accepted_spans_def accepted_in_def demo_traces_def accepted_def stale_def shouldSkip_def
      demo_span_def AsTime_def demo_config_def createDefaultConfig_def GetSkipSpansOlderThan_def)

theorem export_never_fails_witness:
  "\<exists>it ms p'. ranges_ok it demo_end \<and> exportMetrics demo_expo list_lru it demo_end = (Some ms, p')"
  using ranges_exist [of demo_end] export_never_fails [OF list_lru_ok demo_new demo_run] by blast

theorem delta_export_counts_spans_witness:
  "\<exists>it ms p'. exportMetrics demo_expo list_lru it demo_end = (Some ms, p') \<and>
     sum_list (map p_count (latency_points ms)) = 2"
proof -
  obtain it where "ranges_ok it demo_end" using ranges_exist by blast
  from delta_export_counts_spans [OF list_lru_ok demo_new demo_run this demo_delta, unfolded demo_accepted]
  show ?thesis by auto
qed

theorem tracked_names_bounded_witness:
  "int (fcard (fmdom (serviceToOperations demo_end))) \<le> max 1 (maxNumberOfServicesToTrack demo_end + 2)"
  using tracked_names_bounded [OF list_lru_ok demo_new demo_run] by blast

end
