(* ===== verification/Span_Mapper.thy ===== *)
theory Span_Mapper
  imports Span_Values
begin

text \<open>
  The span mapper (\<open>processor/signozspanmapperprocessor\<close>): groups of rules that copy or move attributes
  of a span or of its resource to standard names. A pdata map has one value per key; it is a finite map
  here. The spans of a resource are processed in order and share the map of the resource, so the map is
  threaded through them.

  Theorems: with copy actions alone nothing is lost or overwritten; whatever the actions, every value
  stays on the span or on its resource; a move off the resource serves only the first span.
\<close>

section \<open>Configuration (\<open>config.go\<close>)\<close>

record Source =
  s_Key :: string
  s_Action :: string

record AttributeRule =
  r_Target :: string
  r_Context :: string
  r_Sources :: "Source list"

record Group =
  g_ID :: string
  g_ExistsAttributes :: "string list"
  g_ExistsResource :: "string list"
  g_Attributes :: "AttributeRule list"

datatype mapper_error =
  NoSubstring nat | EmptyAttributeSubstring nat | EmptyResourceSubstring nat | EmptyTarget nat nat
| NoSources nat nat | UnknownContext nat nat | EmptyKey nat nat nat | UnknownAction nat nat nat

text \<open>The first error of a list, with its position.\<close>

fun first_error :: "(nat \<Rightarrow> 'a \<Rightarrow> 'b option) \<Rightarrow> nat \<Rightarrow> 'a list \<Rightarrow> 'b option" where
  "first_error f i [] = None"
| "first_error f i (x # xs) = (case f i x of Some e \<Rightarrow> Some e | None \<Rightarrow> first_error f (Suc i) xs)"

definition check_source :: "nat \<Rightarrow> nat \<Rightarrow> nat \<Rightarrow> Source \<Rightarrow> mapper_error option" where
  "check_source i j k src =
     (if TrimSpace (s_Key src) = [] then Some (EmptyKey i j k)
      else if s_Action src \<noteq> [] \<and> s_Action src \<noteq> ''copy'' \<and> s_Action src \<noteq> ''move'' then Some (UnknownAction i j k)
      else None)"

definition check_rule :: "nat \<Rightarrow> nat \<Rightarrow> AttributeRule \<Rightarrow> mapper_error option" where
  "check_rule i j rule =
     (if TrimSpace (r_Target rule) = [] then Some (EmptyTarget i j)
      else if r_Sources rule = [] then Some (NoSources i j)
      else if r_Context rule \<noteq> [] \<and> r_Context rule \<noteq> ''attribute'' \<and> r_Context rule \<noteq> ''resource''
        then Some (UnknownContext i j)
      else first_error (check_source i j) 0 (r_Sources rule))"

definition check_group :: "nat \<Rightarrow> Group \<Rightarrow> mapper_error option" where
  "check_group i g =
     (if g_ExistsAttributes g = [] \<and> g_ExistsResource g = [] then Some (NoSubstring i)
      else if list_ex (\<lambda>p. p = []) (g_ExistsAttributes g) then Some (EmptyAttributeSubstring i)
      else if list_ex (\<lambda>p. p = []) (g_ExistsResource g) then Some (EmptyResourceSubstring i)
      else first_error (check_rule i) 0 (g_Attributes g))"

definition mapper_Validate :: "Group list \<Rightarrow> mapper_error option" where
  "mapper_Validate groups = first_error check_group 0 groups"

definition isResourceKey :: "string \<Rightarrow> string \<times> bool" where
  "isResourceKey key = (if take 9 key = ''resource.'' then (drop 9 key, True) else (key, False))"

section \<open>The processor (\<open>processor.go\<close>)\<close>

record parsedKey =
  bare :: string
  isResource :: bool
  moves :: bool

record parsedRule =
  target :: string
  writeToResource :: bool
  sources :: "parsedKey list"

record parsedGroup =
  attrPatterns :: "string list"
  resPatterns :: "string list"
  rules :: "parsedRule list"

definition parse_source :: "Source \<Rightarrow> parsedKey" where
  "parse_source src =
     (case isResourceKey (s_Key src) of
        (b, isRes) \<Rightarrow> \<lparr>bare = b, isResource = isRes, moves = (s_Action src = ''move'')\<rparr>)"

definition parse_rule :: "AttributeRule \<Rightarrow> parsedRule" where
  "parse_rule rule =
     \<lparr>target = r_Target rule, writeToResource = (r_Context rule = ''resource''), sources = map parse_source (r_Sources rule)\<rparr>"

definition mapper_newProcessor :: "Group list \<Rightarrow> parsedGroup list" where
  "mapper_newProcessor groups =
     map (\<lambda>g. \<lparr>attrPatterns = g_ExistsAttributes g, resPatterns = g_ExistsResource g, rules = map parse_rule (g_Attributes g)\<rparr>) groups"

type_synonym amap = "(string, Value) fmap"

definition matchesAny :: "amap \<Rightarrow> string list \<Rightarrow> bool" where
  "matchesAny m patterns = fBex (fmdom m) (\<lambda>k. list_ex (\<lambda>pat. contains k pat) patterns)"

text \<open>A span's attributes and those of its resource.\<close>

type_synonym both = "amap \<times> amap"

definition get_source :: "parsedKey \<Rightarrow> both \<Rightarrow> Value option" where
  "get_source src m = fmlookup (if isResource src then snd m else fst m) (bare src)"

definition write_target :: "parsedRule \<Rightarrow> Value \<Rightarrow> both \<Rightarrow> both" where
  "write_target rule v m =
     (if writeToResource rule then (fst m, fmupd (target rule) v (snd m)) else (fmupd (target rule) v (fst m), snd m))"

definition remove_source :: "parsedKey \<Rightarrow> both \<Rightarrow> both" where
  "remove_source src m =
     (if isResource src then (fst m, fmdrop (bare src) (snd m)) else (fmdrop (bare src) (fst m), snd m))"

definition take_source :: "parsedRule \<Rightarrow> parsedKey \<Rightarrow> Value \<Rightarrow> both \<Rightarrow> both" where
  "take_source rule src v m = (let m = write_target rule v m in if moves src then remove_source src m else m)"

fun apply_sources :: "parsedRule \<Rightarrow> parsedKey list \<Rightarrow> both \<Rightarrow> both" where
  "apply_sources rule [] m = m"
| "apply_sources rule (src # srcs) m =
     (case get_source src m of
        None \<Rightarrow> apply_sources rule srcs m
      | Some v \<Rightarrow> take_source rule src v m)"

definition applyRule :: "parsedRule \<Rightarrow> both \<Rightarrow> both" where
  "applyRule rule m =
     (if target rule |\<in>| fmdom (if writeToResource rule then snd m else fst m) then m
      else apply_sources rule (sources rule) m)"

fun applyGroups :: "(parsedGroup \<times> bool) list \<Rightarrow> both \<Rightarrow> both" where
  "applyGroups [] m = m"
| "applyGroups ((g, resMatched) # gs) m =
     applyGroups gs (if \<not> resMatched \<and> \<not> matchesAny (fst m) (attrPatterns g) then m else fold applyRule (rules g) m)"

fun process_spans :: "(parsedGroup \<times> bool) list \<Rightarrow> amap list \<Rightarrow> amap \<Rightarrow> amap list \<times> amap" where
  "process_spans gs [] res = ([], res)"
| "process_spans gs (attrs # spans) res =
     (let m = applyGroups gs (attrs, res); r = process_spans gs spans (snd m) in (fst m # fst r, snd r))"

fun process_scopes :: "(parsedGroup \<times> bool) list \<Rightarrow> amap list list \<Rightarrow> amap \<Rightarrow> amap list list \<times> amap" where
  "process_scopes gs [] res = ([], res)"
| "process_scopes gs (spans # scopes) res =
     (let m = process_spans gs spans res; r = process_scopes gs scopes (snd m) in (fst m # fst r, snd r))"

text \<open>A resource with its spans, scope by scope.\<close>

type_synonym mapped_resource = "amap \<times> amap list list"

definition process_resource :: "parsedGroup list \<Rightarrow> mapped_resource \<Rightarrow> mapped_resource" where
  "process_resource groups rs =
     (let matched = map (\<lambda>g. (g, matchesAny (fst rs) (resPatterns g))) groups;
          r = process_scopes matched (snd rs) (fst rs)
      in (snd r, fst r))"

definition mapper_ProcessTraces :: "parsedGroup list \<Rightarrow> mapped_resource list \<Rightarrow> mapped_resource list" where
  "mapper_ProcessTraces groups td = map (process_resource groups) td"

section \<open>One rule\<close>

lemma apply_sources_effect:
  "apply_sources rule srcs m = m \<or>
   (\<exists>src v. src \<in> set srcs \<and> get_source src m = Some v \<and> apply_sources rule srcs m = take_source rule src v m)"
proof (induction srcs)
  case (Cons a srcs)
  then show ?case by (cases "get_source a m") (simp, blast, auto)
qed simp

lemma applyRule_cases:
  obtains "applyRule rule m = m"
  | src v where "src \<in> set (sources rule)" "get_source src m = Some v"
    "target rule |\<notin>| fmdom (if writeToResource rule then snd m else fst m)"
    "applyRule rule m = take_source rule src v m"
proof (cases "target rule |\<in>| fmdom (if writeToResource rule then snd m else fst m)")
  case True
  show thesis by (rule that(1)) (simp only: applyRule_def True if_True)
next
  case False
  then have eq: "applyRule rule m = apply_sources rule (sources rule) m" by (simp only: applyRule_def if_False)
  from apply_sources_effect [of rule "sources rule" m] show thesis
    using that False unfolding eq by blast
qed

section \<open>Copying\<close>

text \<open>Both maps keep what they had.\<close>

lemma fmsubset_refl [simp]: "m \<subseteq>\<^sub>f m"
  by (simp add: fmsubset.rep_eq)

lemma fmsubset_trans: "a \<subseteq>\<^sub>f b \<Longrightarrow> b \<subseteq>\<^sub>f c \<Longrightarrow> a \<subseteq>\<^sub>f c"
  unfolding fmsubset.rep_eq by (rule map_le_trans)

definition keeps :: "both \<Rightarrow> both \<Rightarrow> bool" where
  "keeps m m' \<longleftrightarrow> fst m \<subseteq>\<^sub>f fst m' \<and> snd m \<subseteq>\<^sub>f snd m'"

lemma keeps_refl: "keeps m m"
  by (simp add: keeps_def)

lemma keeps_trans: "keeps a b \<Longrightarrow> keeps b c \<Longrightarrow> keeps a c"
  unfolding keeps_def using fmsubset_trans by blast

definition copy_only :: "parsedGroup list \<Rightarrow> bool" where
  "copy_only groups = list_all (\<lambda>g. list_all (\<lambda>r. list_all (\<lambda>s. \<not> moves s) (sources r)) (rules g)) groups"

lemma fmsubset_upd: "k |\<notin>| fmdom m \<Longrightarrow> m \<subseteq>\<^sub>f fmupd k v m"
  by (auto simp: fmsubset_alt_def fmpred_iff fmlookup_dom_iff)

lemma applyRule_extends: "list_all (\<lambda>s. \<not> moves s) (sources rule) \<Longrightarrow> keeps m (applyRule rule m)"
  by (rule applyRule_cases [of rule m])
    (auto simp: keeps_def take_source_def write_target_def list_all_iff fmsubset_upd split: if_splits)

lemma rules_extend:
  "list_all (\<lambda>r. list_all (\<lambda>s. \<not> moves s) (sources r)) rs \<Longrightarrow> keeps m (fold applyRule rs m)"
proof (induction rs arbitrary: m)
  case Nil
  then show ?case by (simp add: keeps_refl)
next
  case (Cons r rs)
  then show ?case using keeps_trans [OF applyRule_extends [of r m] Cons.IH] by simp
qed

lemma applyGroups_extends: "copy_only (map fst gs) \<Longrightarrow> keeps m (applyGroups gs m)"
proof (induction gs m rule: applyGroups.induct)
  case (2 g resMatched gs m)
  let ?m = "if \<not> resMatched \<and> \<not> matchesAny (fst m) (attrPatterns g) then m else fold applyRule (rules g) m"
  have "keeps m ?m" using "2.prems" rules_extend [of "rules g" m] by (simp add: copy_only_def keeps_refl)
  moreover have "keeps ?m (applyGroups gs ?m)" using "2.IH" "2.prems" by (simp add: copy_only_def)
  ultimately show ?case unfolding applyGroups.simps by (rule keeps_trans)
qed (simp add: keeps_refl)

lemma process_spans_extends:
  "copy_only (map fst gs) \<Longrightarrow> list_all2 fmsubset spans (fst (process_spans gs spans res)) \<and>
     res \<subseteq>\<^sub>f snd (process_spans gs spans res)"
proof (induction spans arbitrary: res)
  case (Cons a spans)
  have "keeps (a, res) (applyGroups gs (a, res))" using Cons.prems by (rule applyGroups_extends)
  then have "a \<subseteq>\<^sub>f fst (applyGroups gs (a, res))" "res \<subseteq>\<^sub>f snd (applyGroups gs (a, res))"
    by (simp_all add: keeps_def)
  moreover note Cons.IH [OF Cons.prems, of "snd (applyGroups gs (a, res))"]
  ultimately show ?case
    using fmsubset_trans [of res "snd (applyGroups gs (a, res))"] by (simp add: Let_def)
qed simp

lemma process_scopes_extends:
  "copy_only (map fst gs) \<Longrightarrow> list_all2 (list_all2 fmsubset) scopes (fst (process_scopes gs scopes res)) \<and>
     res \<subseteq>\<^sub>f snd (process_scopes gs scopes res)"
proof (induction scopes arbitrary: res)
  case (Cons spans scopes)
  note here = process_spans_extends [OF Cons.prems, of spans res]
  note rest = Cons.IH [OF Cons.prems, of "snd (process_spans gs spans res)"]
  have "res \<subseteq>\<^sub>f snd (process_scopes gs scopes (snd (process_spans gs spans res)))"
    using here rest fmsubset_trans by blast
  with here rest show ?case by (simp add: Let_def)
qed simp

text \<open>C33. When every source has the action copy, nothing is lost and nothing is overwritten: each span
  and each resource keeps every attribute it had, with its value, and there are as many spans in as
  many scopes as before.\<close>

theorem mapper_copy_conservative:
  assumes "copy_only groups"
  shows "list_all2 (\<lambda>(res, scopes) (res', scopes').
      res \<subseteq>\<^sub>f res' \<and> list_all2 (list_all2 fmsubset) scopes scopes') td (mapper_ProcessTraces groups td)"
proof -
  have "case process_resource groups rs of (res', scopes') \<Rightarrow>
      fst rs \<subseteq>\<^sub>f res' \<and> list_all2 (list_all2 fmsubset) (snd rs) scopes'" for rs
    using process_scopes_extends [of "map (\<lambda>g. (g, matchesAny (fst rs) (resPatterns g))) groups" "snd rs" "fst rs"] assms
    by (simp add: process_resource_def Let_def comp_def)
  then show ?thesis
    unfolding mapper_ProcessTraces_def list_all2_map2 by (intro list_all2_refl) (simp add: case_prod_beta)
qed

theorem mapper_copy_conservative_witness:
  "case mapper_ProcessTraces (mapper_newProcessor [\<lparr>g_ID = ''g'', g_ExistsAttributes = [''llm''], g_ExistsResource = [],
        g_Attributes = [\<lparr>r_Target = ''t'', r_Context = [], r_Sources = [\<lparr>s_Key = ''llm.m'', s_Action = ''copy''\<rparr>]\<rparr>]\<rparr>])
      [(fmempty, [[fmupd ''llm.m'' (StrValue ''x'') fmempty]])] of
     [(res', [[m]])] \<Rightarrow> fmupd ''llm.m'' (StrValue ''x'') fmempty \<subseteq>\<^sub>f m | _ \<Rightarrow> False"
proof -
  let ?g = "mapper_newProcessor [\<lparr>g_ID = ''g'', g_ExistsAttributes = [''llm''], g_ExistsResource = [],
        g_Attributes = [\<lparr>r_Target = ''t'', r_Context = [], r_Sources = [\<lparr>s_Key = ''llm.m'', s_Action = ''copy''\<rparr>]\<rparr>]\<rparr>]"
  have "copy_only ?g"
    by (simp add: copy_only_def mapper_newProcessor_def parse_rule_def parse_source_def isResourceKey_def)
  from mapper_copy_conservative [OF this, of "[(fmempty, [[fmupd ''llm.m'' (StrValue ''x'') fmempty]])]"]
  show ?thesis by (auto simp: list_all2_Cons1 split: prod.splits)
qed

section \<open>Moving\<close>

text \<open>The values a span can reach.\<close>

definition values_of :: "both \<Rightarrow> Value set" where
  "values_of m = fset (fmran (fst m)) \<union> fset (fmran (snd m))"

lemma values_of_iff: "v \<in> values_of m \<longleftrightarrow> (\<exists>k. fmlookup (fst m) k = Some v \<or> fmlookup (snd m) k = Some v)"
  by (auto simp: values_of_def fmlookup_ran_iff)

lemma applyRule_conserves_values: "v \<in> values_of m \<Longrightarrow> v \<in> values_of (applyRule rule m)"
proof (rule applyRule_cases [of rule m])
  fix src w
  assume v: "v \<in> values_of m" and w: "get_source src m = Some w"
    and fresh: "target rule |\<notin>| fmdom (if writeToResource rule then snd m else fst m)"
    and "applyRule rule m = take_source rule src w m"
  then have eq: "applyRule rule m = (if moves src then remove_source src (write_target rule w m) else write_target rule w m)"
    by (simp add: take_source_def Let_def)
  let ?t = "write_target rule w m"
  have t: "w \<in> values_of ?t" by (cases "writeToResource rule") (auto simp: write_target_def values_of_iff)
  show "v \<in> values_of (applyRule rule m)"
  proof (cases "v = w")
    case True
    have "w \<in> values_of (remove_source src ?t)"
    proof (cases "isResource src = writeToResource rule")
      case same: True
      have "bare src \<noteq> target rule"
        using w fresh same by (auto simp: get_source_def fmlookup_dom_iff split: if_splits)
      then show ?thesis
        using same by (auto simp: remove_source_def write_target_def values_of_iff intro!: exI [of _ "target rule"])
    next
      case False
      then show ?thesis
        by (auto simp: remove_source_def write_target_def values_of_iff intro!: exI [of _ "target rule"])
    qed
    then show ?thesis using True t eq by simp
  next
    case False
    obtain k where k: "fmlookup (fst m) k = Some v \<or> fmlookup (snd m) k = Some v" using v by (auto simp: values_of_iff)
    have "fmlookup (fst (applyRule rule m)) k = Some v \<or> fmlookup (snd (applyRule rule m)) k = Some v"
      using k False w fresh unfolding eq get_source_def write_target_def remove_source_def
      by (auto simp: fmlookup_dom_iff split: if_splits)
    then show ?thesis by (auto simp: values_of_iff)
  qed
qed simp

text \<open>Whatever the actions, the rules lose no value of a span and its resource.\<close>

theorem applyGroups_conserves_values: "values_of m \<subseteq> values_of (applyGroups gs m)"
proof (induction gs m rule: applyGroups.induct)
  case (2 g resMatched gs m)
  have "values_of m \<subseteq> values_of (fold applyRule rs m)" for rs m
  proof (induction rs arbitrary: m)
    case (Cons r rs)
    have "values_of m \<subseteq> values_of (applyRule r m)" using applyRule_conserves_values by blast
    also have "\<dots> \<subseteq> values_of (fold applyRule rs (applyRule r m))" by (rule Cons.IH)
    finally show ?case by simp
  qed simp
  then have "values_of m \<subseteq>
      values_of (if \<not> resMatched \<and> \<not> matchesAny (fst m) (attrPatterns g) then m else fold applyRule (rules g) m)"
    by simp
  with "2.IH" show ?case unfolding applyGroups.simps by (rule subset_trans [rotated])
qed simp

text \<open>A rule that moves a resource attribute to the spans serves only the first of them: the next span
  finds the resource without it, and the resource no longer matches the group, although it did when the
  spans were started on.\<close>

definition move_rule :: parsedGroup where
  "move_rule = \<lparr>attrPatterns = [], resPatterns = [''m''],
     rules = [\<lparr>target = ''t'', writeToResource = False, sources = [\<lparr>bare = ''m'', isResource = True, moves = True\<rparr>]\<rparr>]\<rparr>"

theorem move_serves_first_span:
  "mapper_ProcessTraces [move_rule] [(fmupd ''m'' v fmempty, [[fmempty, fmempty]])] =
     [(fmempty, [[fmupd ''t'' v fmempty, fmempty]])]"
  by (simp add: mapper_ProcessTraces_def process_resource_def move_rule_def matchesAny_def contains_def applyRule_def
      get_source_def take_source_def write_target_def remove_source_def Let_def fmap_ext)

end
