(* ===== verification/Go_Arith.thy ===== *)
theory Go_Arith
  imports Go_Format
begin

text \<open>
  Arithmetic of \<open>float64\<close> with infinities, NaN and the sign of zero, as IEEE 754 has it and Go
  prescribes: the exact result is rounded to the nearest value, and one beyond the largest is infinite.
\<close>

section \<open>Operations\<close>

fun negative :: "go_float \<Rightarrow> bool" where
  "negative (Finite r) \<longleftrightarrow> r < 0"
| "negative NegZero \<longleftrightarrow> True"
| "negative NegInf \<longleftrightarrow> True"
| "negative _ \<longleftrightarrow> False"

text \<open>The number a finite value denotes.\<close>

fun number_of :: "go_float \<Rightarrow> rat" where
  "number_of (Finite r) = r"
| "number_of _ = 0"

definition infinite_value :: "go_float \<Rightarrow> bool" where
  "infinite_value x \<longleftrightarrow> x = PosInf \<or> x = NegInf"

definition signed_inf :: "bool \<Rightarrow> go_float" where
  "signed_inf neg = (if neg then NegInf else PosInf)"

definition signed_zero :: "bool \<Rightarrow> go_float" where
  "signed_zero neg = (if neg then NegZero else Finite 0)"

text \<open>The float nearest to a number; \<open>neg\<close> is the sign of a zero.\<close>

definition round_value :: "bool \<Rightarrow> rat \<Rightarrow> go_float" where
  "round_value neg r =
     (let x = float64 r
      in if x = 0 then signed_zero neg
         else if x \<ge> 2 ^ 1024 then PosInf
         else if x \<le> - (2 ^ 1024) then NegInf
         else Finite x)"

definition fneg :: "go_float \<Rightarrow> go_float" where
  "fneg x = (case x of
     Finite r \<Rightarrow> if r = 0 then NegZero else Finite (- r)
   | NegZero \<Rightarrow> Finite 0 | PosInf \<Rightarrow> NegInf | NegInf \<Rightarrow> PosInf | NaN \<Rightarrow> NaN)"

definition fadd :: "go_float \<Rightarrow> go_float \<Rightarrow> go_float" where
  "fadd a b =
     (if IsNaN a \<or> IsNaN b then NaN
      else if infinite_value a \<and> infinite_value b then (if a = b then a else NaN)
      else if infinite_value a then a
      else if infinite_value b then b
      else if a = NegZero \<and> b = NegZero then NegZero
      else round_value False (number_of a + number_of b))"

definition fsub :: "go_float \<Rightarrow> go_float \<Rightarrow> go_float" where
  "fsub a b = fadd a (fneg b)"

definition fmul :: "go_float \<Rightarrow> go_float \<Rightarrow> go_float" where
  "fmul a b =
     (let neg = (negative a \<noteq> negative b)
      in if IsNaN a \<or> IsNaN b then NaN
         else if infinite_value a \<or> infinite_value b then
           (if \<not> infinite_value a \<and> number_of a = 0 \<or> \<not> infinite_value b \<and> number_of b = 0 then NaN else signed_inf neg)
         else round_value neg (number_of a * number_of b))"

definition fdiv :: "go_float \<Rightarrow> go_float \<Rightarrow> go_float" where
  "fdiv a b =
     (let neg = (negative a \<noteq> negative b)
      in if IsNaN a \<or> IsNaN b \<or> infinite_value a \<and> infinite_value b then NaN
         else if infinite_value a then signed_inf neg
         else if infinite_value b then signed_zero neg
         else if number_of b = 0 then (if number_of a = 0 then NaN else signed_inf neg)
         else round_value neg (number_of a / number_of b))"

definition fless :: "go_float \<Rightarrow> go_float \<Rightarrow> bool" where
  "fless a b \<longleftrightarrow>
     \<not> IsNaN a \<and> \<not> IsNaN b \<and>
     (if infinite_value a \<or> infinite_value b then a \<noteq> b \<and> (a = NegInf \<or> b = PosInf) else number_of a < number_of b)"

definition feq :: "go_float \<Rightarrow> go_float \<Rightarrow> bool" where
  "feq a b \<longleftrightarrow>
     \<not> IsNaN a \<and> \<not> IsNaN b \<and> (if infinite_value a \<or> infinite_value b then a = b else number_of a = number_of b)"

section \<open>Values that are not below zero\<close>

fun nonneg :: "go_float \<Rightarrow> bool" where
  "nonneg (Finite r) \<longleftrightarrow> 0 \<le> r"
| "nonneg NegZero \<longleftrightarrow> True"
| "nonneg PosInf \<longleftrightarrow> True"
| "nonneg _ \<longleftrightarrow> False"

lemma round_value_nonneg: "0 \<le> r \<Longrightarrow> nonneg (round_value neg r)"
  using float64_nonneg [of r] by (simp add: round_value_def Let_def signed_zero_def)

lemma nonneg_number: "nonneg a \<Longrightarrow> 0 \<le> number_of a"
  by (cases a) auto

lemma fadd_nonneg: "nonneg a \<Longrightarrow> nonneg b \<Longrightarrow> nonneg (fadd a b)"
  using nonneg_number [of a] nonneg_number [of b]
  by (cases a; cases b) (auto simp: fadd_def infinite_value_def round_value_nonneg)

lemma fmul_nonneg:
  "nonneg a \<Longrightarrow> nonneg b \<Longrightarrow> \<not> infinite_value a \<Longrightarrow> \<not> infinite_value b \<Longrightarrow> nonneg (fmul a b)"
  using nonneg_number [of a] nonneg_number [of b]
  by (cases a; cases b) (auto simp: fmul_def Let_def infinite_value_def round_value_nonneg)

lemma fdiv_nonneg:
  "nonneg a \<Longrightarrow> 0 < r \<Longrightarrow> nonneg (fdiv a (Finite r))"
  using nonneg_number [of a]
  by (cases a) (auto simp: fdiv_def Let_def infinite_value_def signed_inf_def round_value_nonneg)

text \<open>A difference of finite values of which the first is not less.\<close>

lemma fsub_nonneg:
  assumes "\<not> infinite_value a" and "\<not> infinite_value b" and "\<not> IsNaN a" and "\<not> IsNaN b" and "\<not> fless a b"
  shows "nonneg (fsub a b)"
proof -
  have le: "number_of b \<le> number_of a" using assms by (simp add: fless_def)
  have "number_of (fneg b) = - number_of b" "\<not> infinite_value (fneg b)" "\<not> IsNaN (fneg b)"
    using assms(2,4) by (cases b; simp add: fneg_def infinite_value_def)+
  then show ?thesis
    using le assms(1,3) by (simp add: fsub_def fadd_def round_value_nonneg)
qed

end
