(* ===== verification/Go_Glob.thy ===== *)
theory Go_Glob
  imports Go_Utf8
begin

text \<open>
  Shell patterns as Go's \<open>path.Match\<close> has them: a star matches any bytes but a slash, a question mark
  one rune but a slash, brackets a class of runes, and a backslash quotes. A malformed pattern is the
  result \<open>None\<close>.

  Theorems: whether a pattern is malformed does not depend on the name it is matched with; a pattern
  without special characters matches itself alone, with a star behind it what it is a prefix of, up to
  the next slash.
\<close>

section \<open>\<open>path.Match\<close>\<close>

abbreviation backslash :: char where
  "backslash \<equiv> CHR 0x5C"

definition prepend :: "string \<Rightarrow> string \<times> string \<Rightarrow> string \<times> string" where
  "prepend x r = (x @ fst r, snd r)"

fun scan :: "bool \<Rightarrow> string \<Rightarrow> string \<times> string" where
  "scan inrange [] = ([], [])"
| "scan inrange (c # cs) =
     (if c = backslash then (case cs of [] \<Rightarrow> ([c], []) | d # ds \<Rightarrow> prepend [c, d] (scan inrange ds))
      else if c = CHR ''['' then prepend [c] (scan True cs)
      else if c = CHR '']'' then prepend [c] (scan False cs)
      else if c = CHR ''*'' \<and> \<not> inrange then ([], c # cs)
      else prepend [c] (scan inrange cs))"

definition scanChunk :: "string \<Rightarrow> bool \<times> string \<times> string" where
  "scanChunk pattern = (let p = dropWhile (\<lambda>c. c = CHR ''*'') pattern in (p \<noteq> pattern, scan False p))"

definition DecodeRuneInString :: "string \<Rightarrow> rune \<times> nat" where
  "DecodeRuneInString s = decode_rune (map of_char s)"

definition skip_rune :: "string \<Rightarrow> string" where
  "skip_rune s = drop (snd (DecodeRuneInString s)) s"

text \<open>A rune of a class; nothing may end behind it.\<close>

definition getEsc :: "string \<Rightarrow> (rune \<times> string) option" where
  "getEsc chunk =
     (if chunk = [] \<or> hd chunk = CHR ''-'' \<or> hd chunk = CHR '']'' then None
      else
        let chunk = (if hd chunk = backslash then tl chunk else chunk); (r, n) = DecodeRuneInString chunk
        in if chunk = [] \<or> r = RuneError \<and> n = 1 \<or> drop n chunk = [] then None else Some (r, drop n chunk))"

lemma DecodeRuneInString_pos: "s \<noteq> [] \<Longrightarrow> 0 < snd (DecodeRuneInString s)"
  by (cases s) (simp_all add: DecodeRuneInString_def decode_rune_pos)

lemma skip_rune_shorter: "s \<noteq> [] \<Longrightarrow> length (skip_rune s) < length s"
  using DecodeRuneInString_pos [of s] by (simp add: skip_rune_def)

lemma getEsc_shorter: "getEsc chunk = Some (r, rest) \<Longrightarrow> length rest < length chunk"
  using DecodeRuneInString_pos [of chunk] DecodeRuneInString_pos [of "tl chunk"]
  by (auto simp: getEsc_def Let_def case_prod_beta split: if_splits)

text \<open>The ranges of a class: whether \<open>r\<close> is in one of them, and what follows the class.\<close>

function class_loop :: "rune \<Rightarrow> bool \<Rightarrow> nat \<Rightarrow> string \<Rightarrow> (bool \<times> string) option" where
  "class_loop r matched nrange chunk =
     (if chunk \<noteq> [] \<and> hd chunk = CHR '']'' \<and> nrange > 0 then Some (matched, tl chunk)
      else (case getEsc chunk of
        None \<Rightarrow> None
      | Some (lo, chunk') \<Rightarrow>
          if hd chunk' = CHR ''-'' then
            (case getEsc (tl chunk') of
               None \<Rightarrow> None
             | Some (hi, chunk'') \<Rightarrow> class_loop r (matched \<or> lo \<le> r \<and> r \<le> hi) (Suc nrange) chunk'')
          else class_loop r (matched \<or> lo = r) (Suc nrange) chunk'))"
  by pat_completeness auto

termination
proof (relation "measure (\<lambda>(r, m, n, chunk). length chunk)")
  fix chunk x lo chunk' y hi chunk''
  assume "getEsc chunk = Some x" "(lo, chunk') = x" "getEsc (tl chunk') = Some y" "(hi, chunk'') = y"
  then have "length chunk' < length chunk" "length chunk'' < length (tl chunk')" using getEsc_shorter by blast+
  then show "((r, matched, n, chunk''), r', m', n', chunk) \<in> measure (\<lambda>(r, m, n, chunk). length chunk)" for r matched n r' m' n'
    by simp
qed (auto dest: getEsc_shorter)

declare class_loop.simps [simp del]

lemma class_loop_shorter: "class_loop r matched n chunk = Some (b, rest) \<Longrightarrow> length rest < length chunk"
proof (induction r matched n chunk rule: class_loop.induct)
  case (1 r matched n chunk)
  note step = "1.prems" [unfolded class_loop.simps [of r matched n chunk]]
  consider "chunk \<noteq> []" "rest = tl chunk"
    | lo chunk' where "\<not> (chunk \<noteq> [] \<and> hd chunk = CHR '']'' \<and> n > 0)" "getEsc chunk = Some (lo, chunk')" "hd chunk' \<noteq> CHR ''-''"
      "class_loop r (matched \<or> lo = r) (Suc n) chunk' = Some (b, rest)"
    | lo chunk' hi chunk'' where "\<not> (chunk \<noteq> [] \<and> hd chunk = CHR '']'' \<and> n > 0)" "getEsc chunk = Some (lo, chunk')" "hd chunk' = CHR ''-''"
      "getEsc (tl chunk') = Some (hi, chunk'')" "class_loop r (matched \<or> lo \<le> r \<and> r \<le> hi) (Suc n) chunk'' = Some (b, rest)"
    using step by (auto split: if_splits option.splits)
  then show ?case
  proof cases
    case 1
    then show ?thesis by simp
  next
    case 2
    then show ?thesis using "1.IH"(2) [OF 2(1,2) refl 2(3,4)] getEsc_shorter [OF 2(2)] by simp
  next
    case 3
    then show ?thesis using "1.IH"(1) [OF 3(1,2) refl 3(3,4) refl 3(5)] getEsc_shorter [OF 3(2)] getEsc_shorter [OF 3(4)] by simp
  qed
qed

text \<open>The rest of the name behind a chunk; \<open>Some None\<close> when the chunk does not match. After a failure
  the loop goes on to check that the chunk is well-formed.\<close>

function matchChunk :: "bool \<Rightarrow> string \<Rightarrow> string \<Rightarrow> string option option" where
  "matchChunk failed [] s = Some (if failed then None else Some s)"
| "matchChunk failed (c # chunk) s =
     (let failed = (failed \<or> s = [])
      in if c = CHR ''['' then
           (let r = (if failed then 0 else fst (DecodeRuneInString s)); s = (if failed then s else skip_rune s);
                negated = (chunk \<noteq> [] \<and> hd chunk = CHR ''^'')
            in case class_loop r False 0 (if negated then tl chunk else chunk) of
                 None \<Rightarrow> None
               | Some (matched, chunk) \<Rightarrow> matchChunk (failed \<or> matched = negated) chunk s)
         else if c = CHR ''?'' then
           matchChunk (failed \<or> hd s = CHR ''/'') chunk (if failed then s else skip_rune s)
         else if c = backslash then
           (case chunk of
              [] \<Rightarrow> None
            | d # chunk \<Rightarrow> matchChunk (failed \<or> d \<noteq> hd s) chunk (if failed then s else tl s))
         else matchChunk (failed \<or> c \<noteq> hd s) chunk (if failed then s else tl s))"
  by pat_completeness auto

termination
  by (relation "measure (\<lambda>(f, chunk, s). length chunk)") (auto dest!: class_loop_shorter split: if_splits)

fun star_loop :: "string \<Rightarrow> bool \<Rightarrow> string \<Rightarrow> string option option" where
  "star_loop chunk last_chunk [] = Some None"
| "star_loop chunk last_chunk (c # name) =
     (if c = CHR ''/'' then Some None
      else (case matchChunk False chunk name of
        None \<Rightarrow> None
      | Some None \<Rightarrow> star_loop chunk last_chunk name
      | Some (Some t) \<Rightarrow> if last_chunk \<and> t \<noteq> [] then star_loop chunk last_chunk name else Some (Some t)))"

lemma scan_length: "length (fst (scan b p)) + length (snd (scan b p)) = length p"
  by (induction b p rule: scan.induct) (auto simp: prepend_def split: list.splits)

lemma scan_progress: "p \<noteq> [] \<Longrightarrow> hd p \<noteq> CHR ''*'' \<Longrightarrow> fst (scan False p) \<noteq> []"
  by (cases p) (auto simp: prepend_def split: list.splits)

lemma scanChunk_shorter:
  assumes "p \<noteq> []" and "scanChunk p = (star, chunk, rest)"
  shows "length rest < length p"
proof -
  let ?q = "dropWhile (\<lambda>c. c = CHR ''*'') p"
  have len: "length chunk + length rest = length ?q" and star: "star \<longleftrightarrow> ?q \<noteq> p"
    using assms(2) scan_length [of False ?q] by (auto simp: scanChunk_def Let_def)
  show ?thesis
  proof (cases "?q = p")
    case True
    then have "hd p \<noteq> CHR ''*''" using assms(1) hd_dropWhile [of "\<lambda>c. c = CHR ''*''" p] by auto
    then have "chunk \<noteq> []" using scan_progress [OF assms(1)] assms(2) True by (auto simp: scanChunk_def Let_def)
    then show ?thesis using len True by (cases chunk) auto
  next
    case False
    then have "length ?q < length p"
      by (metis dropWhile_eq_self_iff length_dropWhile_le le_neq_implies_less takeWhile_dropWhile_id length_append add_cancel_left_left length_0_conv self_append_conv2)
    then show ?thesis using len by simp
  qed
qed

lemma scanChunk_rest: "(star, chunk, rest) = scanChunk p \<Longrightarrow> p \<noteq> [] \<Longrightarrow> length rest < length p"
  using scanChunk_shorter by metis

text \<open>The check of what remains of a pattern when a name does not match.\<close>

function well_formed :: "string \<Rightarrow> bool" where
  "well_formed pattern =
     (if pattern = [] then True
      else (case scanChunk pattern of
        (star, chunk, rest) \<Rightarrow> if matchChunk False chunk [] = None then False else well_formed rest))"
  by pat_completeness auto

termination
  by (relation "measure length") (auto dest: scanChunk_rest)

declare well_formed.simps [simp del]

text \<open>Where the name goes on behind a chunk: at its place, or after bytes the star before it takes.\<close>

definition place_chunk :: "bool \<Rightarrow> string \<Rightarrow> bool \<Rightarrow> string \<Rightarrow> string option option" where
  "place_chunk star chunk last_chunk name =
     (let later = (if star then star_loop chunk last_chunk name else Some None)
      in case matchChunk False chunk name of
           None \<Rightarrow> None
         | Some None \<Rightarrow> later
         | Some (Some t) \<Rightarrow> if t = [] \<or> \<not> last_chunk then Some (Some t) else later)"

function path_Match :: "string \<Rightarrow> string \<Rightarrow> bool option" where
  "path_Match pattern name =
     (if pattern = [] then Some (name = [])
      else (case scanChunk pattern of
        (star, chunk, rest) \<Rightarrow>
          if star \<and> chunk = [] then Some (CHR ''/'' \<notin> set name)
          else (case place_chunk star chunk (rest = []) name of
            None \<Rightarrow> None
          | Some None \<Rightarrow> if well_formed rest then Some False else None
          | Some (Some t) \<Rightarrow> path_Match rest t)))"
  by pat_completeness auto

termination
  by (relation "measure (\<lambda>(p, n). length p)") (auto dest: scanChunk_rest)

declare path_Match.simps [simp del]

section \<open>Malformed patterns\<close>

text \<open>What is read of a class does not depend on the rune looked for.\<close>

lemma class_loop_reads: "map_option snd (class_loop r m n chunk) = map_option snd (class_loop r' m' n chunk)"
proof (induction r m n chunk arbitrary: m' rule: class_loop.induct)
  case (1 r m n chunk)
  note unfold = class_loop.simps [of r m n chunk] class_loop.simps [of r' m' n chunk]
  consider "chunk \<noteq> [] \<and> hd chunk = CHR '']'' \<and> n > 0" | "\<not> (chunk \<noteq> [] \<and> hd chunk = CHR '']'' \<and> n > 0)" "getEsc chunk = None"
    | lo chunk' where "\<not> (chunk \<noteq> [] \<and> hd chunk = CHR '']'' \<and> n > 0)" "getEsc chunk = Some (lo, chunk')"
    by (cases "getEsc chunk") auto
  then show ?case
  proof cases
    case 3
    show ?thesis
    proof (cases "hd chunk' = CHR ''-''")
      case True
      have "getEsc (tl chunk') = Some (hi, chunk'') \<Longrightarrow>
          map_option snd (class_loop r (m \<or> lo \<le> r \<and> r \<le> hi) (Suc n) chunk'') =
          map_option snd (class_loop r' (m' \<or> lo \<le> r' \<and> r' \<le> hi) (Suc n) chunk'')" for hi chunk''
        using "1.IH"(1) [OF 3 refl True] by blast
      then show ?thesis using 3 True unfolding unfold by (auto split: option.splits)
    next
      case False
      show ?thesis using "1.IH"(2) [OF 3 refl False, of "m' \<or> lo = r'"] 3 False unfolding unfold by auto
    qed
  qed (simp_all add: unfold)
qed

lemma class_loop_None: "class_loop r m n chunk = None \<longleftrightarrow> class_loop r' m' n chunk = None"
  using class_loop_reads [of r m n chunk r' m'] by (cases "class_loop r m n chunk"; cases "class_loop r' m' n chunk") simp_all

lemma same_snd: "map_option snd x = map_option snd y \<Longrightarrow> x = Some (b, rest) \<Longrightarrow> \<exists>b'. y = Some (b', rest)"
  by (cases y) auto

lemma class_loop_rest:
  "class_loop r m n chunk = Some (b, rest) \<Longrightarrow> \<exists>b'. class_loop r' m' n chunk = Some (b', rest)"
  using same_snd [OF class_loop_reads] by blast

lemma matchChunk_None: "matchChunk failed chunk s = None \<longleftrightarrow> matchChunk failed' chunk s' = None"
proof (induction failed chunk s arbitrary: failed' s' rule: matchChunk.induct)
  case (2 failed c chunk s)
  let ?f = "failed \<or> s = []" and ?f' = "failed' \<or> s' = []"
  show ?case
  proof (cases "c = CHR ''[''")
    case True
    let ?r = "if ?f then 0 else fst (DecodeRuneInString s)" and ?r' = "if ?f' then 0 else fst (DecodeRuneInString s')"
    let ?chunk = "if chunk \<noteq> [] \<and> hd chunk = CHR ''^'' then tl chunk else chunk"
    show ?thesis
    proof (cases "class_loop ?r False 0 ?chunk")
      case None
      then have "class_loop ?r' False 0 ?chunk = None" using class_loop_None by metis
      with None True show ?thesis by (simp add: Let_def)
    next
      case (Some x)
      obtain b rest where x: "x = (b, rest)" by fastforce
      obtain b' where b': "class_loop ?r' False 0 ?chunk = Some (b', rest)" using class_loop_rest Some x by metis
      show ?thesis
        using "2.IH"(1) [OF refl True refl refl refl Some [unfolded x] refl] Some b' True x by (simp add: Let_def)
    qed
  next
    case False
    consider "c = CHR ''?''" | "c = backslash" | "c \<noteq> CHR ''?''" "c \<noteq> backslash" by blast
    then show ?thesis
    proof cases
      case 1
      then show ?thesis using "2.IH"(2) [OF refl False 1] by (simp add: Let_def)
    next
      case 2
      then have "c \<noteq> CHR ''?''" by simp
      note IH = "2.IH"(3) [OF refl False this 2]
      show ?thesis
      proof (cases chunk)
        case Nil
        then show ?thesis using 2 by simp
      next
        case (Cons d ds)
        show ?thesis using IH [OF Cons] 2 Cons by (simp add: Let_def)
      qed
    next
      case 3
      then show ?thesis using "2.IH"(4) [OF refl False 3] False by (simp add: Let_def)
    qed
  qed
qed simp

lemma star_loop_None: "star_loop chunk l name = None \<Longrightarrow> matchChunk False chunk [] = None"
proof (induction name)
  case (Cons c name)
  show ?case
  proof (cases "matchChunk False chunk name")
    case None
    then show ?thesis using matchChunk_None [of False chunk name False "[]"] by simp
  next
    case (Some x)
    then show ?thesis using Cons by (simp split: if_splits option.splits)
  qed
qed simp

text \<open>Whether a pattern is malformed does not depend on the name: \<open>path.Match\<close> reports it always or never.\<close>

theorem path_Match_malformed: "path_Match pattern name = None \<longleftrightarrow> \<not> well_formed pattern"
proof (induction pattern arbitrary: name rule: well_formed.induct)
  case (1 pattern)
  show ?case
  proof (cases "pattern = []")
    case True
    then show ?thesis using path_Match.simps [of "[]" name] well_formed.simps [of "[]"] by simp
  next
    case False
    obtain star chunk rest where sc: "scanChunk pattern = (star, chunk, rest)" by (metis prod_cases3)
    have same: "matchChunk False chunk name = None \<longleftrightarrow> matchChunk False chunk [] = None" by (rule matchChunk_None)
    have IH: "path_Match rest t = None \<longleftrightarrow> \<not> well_formed rest" if "matchChunk False chunk [] \<noteq> None" for t
      using "1.IH" [OF False sc [symmetric] refl] that by blast
    show ?thesis
    proof (cases "star \<and> chunk = []")
      case True
      let ?q = "dropWhile (\<lambda>c. c = CHR ''*'') pattern"
      have "fst (scan False ?q) = []" "rest = snd (scan False ?q)" using sc True by (auto simp: scanChunk_def Let_def)
      then have "?q = []" using scan_progress [of ?q] hd_dropWhile [of "\<lambda>c. c = CHR ''*''" pattern] by auto
      then have "rest = []" using \<open>rest = snd _\<close> by (simp only: scan.simps snd_conv)
      then have "well_formed pattern"
        using True sc well_formed.simps [of pattern] well_formed.simps [of "[]"] by simp
      then show ?thesis using True False sc by (simp add: path_Match.simps [of pattern name])
    next
      case no_star: False
      show ?thesis
        using no_star False sc same IH star_loop_None [of chunk "rest = []" name]
        unfolding path_Match.simps [of pattern name] well_formed.simps [of pattern]
        by (auto simp: place_chunk_def Let_def split: option.splits)
    qed
  qed
qed

section \<open>Plain patterns\<close>

definition plain :: "string \<Rightarrow> bool" where
  "plain p = list_all (\<lambda>c. c \<notin> {CHR ''*'', CHR ''?'', CHR ''['', backslash}) p"

lemma scan_plain: "plain p \<Longrightarrow> scan b p = (p, [])"
  by (induction p arbitrary: b) (auto simp: plain_def prepend_def)

lemma scan_plain_star: "plain p \<Longrightarrow> scan False (p @ ''*'') = (p, ''*'')"
  by (induction p) (auto simp: plain_def prepend_def)

lemma matchChunk_plain_failed: "plain p \<Longrightarrow> matchChunk True p s = Some None"
  by (induction p) (auto simp: plain_def)

lemma matchChunk_plain:
  "plain p \<Longrightarrow> matchChunk False p s = Some (if prefix p s then Some (drop (length p) s) else None)"
proof (induction p arbitrary: s)
  case (Cons c p)
  have p: "plain p" using Cons.prems by (simp add: plain_def)
  show ?case
    using Cons.prems Cons.IH [OF p] matchChunk_plain_failed [OF p]
    by (cases s; cases "hd s = c") (auto simp: plain_def)
qed simp

lemma plain_hd: "plain p \<Longrightarrow> p \<noteq> [] \<Longrightarrow> hd p \<noteq> CHR ''*''"
  by (cases p) (auto simp: plain_def)

lemma scanChunk_plain: "plain p \<Longrightarrow> p \<noteq> [] \<Longrightarrow> scanChunk (p @ q) = (False, scan False (p @ q))"
  using plain_hd [of p] by (cases p) (simp_all add: scanChunk_def)

lemma path_Match_Nil [simp]: "path_Match [] name = Some (name = [])"
  by (simp add: path_Match.simps [of "[]" name])

theorem path_Match_plain: "plain p \<Longrightarrow> path_Match p name = Some (p = name)"
proof (cases "p = []")
  case False
  moreover assume "plain p"
  ultimately show ?thesis
    using scanChunk_plain [of p "[]"] well_formed.simps [of "[]"]
    by (auto simp: path_Match.simps [of p name] place_chunk_def scan_plain matchChunk_plain prefix_def)
qed auto

theorem path_Match_prefix:
  assumes "plain p"
  shows "path_Match (p @ ''*'') name = Some (\<exists>t. name = p @ t \<and> CHR ''/'' \<notin> set t)"
proof -
  have star: "path_Match ''*'' t = Some (CHR ''/'' \<notin> set t)" for t
    by (simp add: path_Match.simps [of "''*''" t] scanChunk_def)
  have wf: "well_formed ''*''" using path_Match_malformed [of "''*''" "[]"] star by simp
  show ?thesis
  proof (cases "p = []")
    case False
    then show ?thesis
      using assms scanChunk_plain [of p "''*''"] star wf
      by (auto simp: path_Match.simps [of "p @ ''*''" name] place_chunk_def scan_plain_star matchChunk_plain prefix_def)
  qed (simp add: star)
qed

end
