(* ===== verification/Llm_Pricing.thy ===== *)
theory Llm_Pricing
  imports Go_Arith Go_Glob Span_Cache
begin

text \<open>
  The LLM pricing processor (\<open>processor/signozllmpricingprocessor\<close>): the first rule whose pattern matches
  the model of a span prices its tokens, and the costs become attributes under a reserved prefix. Which
  rule a model has is remembered in an LRU cache, upstream code with the contract \<open>lru_ok\<close>. A pdata
  map is a finite map.

  Theorems: the cache changes no result; a pattern that passed validation never fails to be matched; no attribute under the reserved prefix comes from the sender;
  costs are numbers that are not below zero when counts and prices are.
\<close>

section \<open>Configuration (\<open>config.go\<close>)\<close>

datatype llm_value = StrV string | IntV int | DoubleV go_float | OtherV

type_synonym attributes = "(string, llm_value) fmap"

record AttrMapping =
  a_Model :: string
  a_In :: string
  a_Out :: string
  a_CacheRead :: string
  a_CacheWrite :: string

record PricingRule =
  pr_Name :: string
  pr_Pattern :: "string list"
  pr_Mode :: string
  pr_Read :: go_float
  pr_Write :: go_float
  pr_In :: go_float
  pr_Out :: go_float

record OutputMapping =
  o_In :: string
  o_Out :: string
  o_CacheRead :: string
  o_CacheWrite :: string
  o_Total :: string

record llm_config =
  Attrs :: AttrMapping
  DefaultPricing :: "PricingRule list"
  OutputAttrs :: OutputMapping

datatype llm_error =
  EmptyModel | NoPattern nat | EmptyPattern nat nat | InvalidPattern nat nat | BadMode nat | NegativePrice nat | EmptyTotal

fun check_patterns :: "nat \<Rightarrow> nat \<Rightarrow> string list \<Rightarrow> llm_error option" where
  "check_patterns i j [] = None"
| "check_patterns i j (p # ps) =
     (if p = [] then Some (EmptyPattern i j)
      else if path_Match p [] = None then Some (InvalidPattern i j)
      else check_patterns i (Suc j) ps)"

definition check_pricing :: "nat \<Rightarrow> PricingRule \<Rightarrow> llm_error option" where
  "check_pricing i r =
     (if pr_Pattern r = [] then Some (NoPattern i)
      else (case check_patterns i 0 (pr_Pattern r) of
        Some e \<Rightarrow> Some e
      | None \<Rightarrow>
          if pr_Mode r \<noteq> ''subtract'' \<and> pr_Mode r \<noteq> ''additive'' \<and> pr_Mode r \<noteq> [] then Some (BadMode i)
          else if fless (pr_In r) (Finite 0) \<or> fless (pr_Out r) (Finite 0) \<or> fless (pr_Read r) (Finite 0) \<or>
            fless (pr_Write r) (Finite 0) then Some (NegativePrice i)
          else None))"

fun check_rules :: "nat \<Rightarrow> PricingRule list \<Rightarrow> llm_error option" where
  "check_rules i [] = None"
| "check_rules i (r # rs) = (case check_pricing i r of Some e \<Rightarrow> Some e | None \<Rightarrow> check_rules (Suc i) rs)"

definition llm_Validate :: "llm_config \<Rightarrow> llm_error option" where
  "llm_Validate c =
     (if a_Model (Attrs c) = [] then Some EmptyModel
      else (case check_rules 0 (DefaultPricing c) of
        Some e \<Rightarrow> Some e
      | None \<Rightarrow> if o_Total (OutputAttrs c) = [] then Some EmptyTotal else None))"

section \<open>The processor (\<open>processor.go\<close>)\<close>

record tokens =
  t_input :: go_float
  t_output :: go_float
  t_cacheRead :: go_float
  t_cacheWrite :: go_float

record costs =
  c_input :: go_float
  c_output :: go_float
  c_cacheRead :: go_float
  c_cacheWrite :: go_float
  c_total :: go_float

record compiledRule =
  cr_name :: string
  cr_pattern :: string
  cr_in :: go_float
  cr_out :: go_float
  cr_cacheRead :: go_float
  cr_cacheWrite :: go_float

record 'l llmCostProcessor =
  p_attrs :: AttrMapping
  p_out :: OutputMapping
  divisor :: go_float
  p_rules :: "compiledRule list"
  matchCache :: 'l

definition compile_pricing :: "PricingRule \<Rightarrow> compiledRule list" where
  "compile_pricing r =
     map (\<lambda>p. \<lparr>cr_name = pr_Name r, cr_pattern = p, cr_in = pr_In r, cr_out = pr_Out r,
                 cr_cacheRead = pr_Read r, cr_cacheWrite = pr_Write r\<rparr>) (pr_Pattern r)"

type_synonym 'l rule_lru = "('l, string, compiledRule option) simplelru"

text \<open>The size is positive, so the cache is created.\<close>

definition llm_newProcessor :: "'l rule_lru \<Rightarrow> llm_config \<Rightarrow> 'l llmCostProcessor option" where
  "llm_newProcessor L cfg =
     map_option (\<lambda>c.
       \<lparr>p_attrs = Attrs cfg, p_out = OutputAttrs cfg, divisor = Finite 1000000,
        p_rules = concat (map compile_pricing (DefaultPricing cfg)), matchCache = c\<rparr>) (l_New L 1000)"

definition first_rule :: "compiledRule list \<Rightarrow> string \<Rightarrow> compiledRule option" where
  "first_rule rs model = List.find (\<lambda>r. path_Match (cr_pattern r) model = Some True) rs"

definition matchRule ::
  "'l rule_lru \<Rightarrow> string \<Rightarrow> 'l llmCostProcessor \<Rightarrow> compiledRule option \<times> 'l llmCostProcessor" where
  "matchRule L model p =
     (case l_Get L (matchCache p) model of
        (c, Some rule) \<Rightarrow> (rule, p\<lparr>matchCache := c\<rparr>)
      | (c, None) \<Rightarrow>
          let rule = first_rule (p_rules p) model
          in (rule, p\<lparr>matchCache := fst (l_Add L c model rule)\<rparr>))"

definition getTokenCount :: "attributes \<Rightarrow> string \<Rightarrow> go_float" where
  "getTokenCount attrs key =
     (if key = [] then Finite 0
      else (case fmlookup attrs key of
        Some (IntV i) \<Rightarrow> float_of_int i
      | Some (DoubleV d) \<Rightarrow> d
      | _ \<Rightarrow> Finite 0))"

definition llm_normalize :: "tokens \<Rightarrow> tokens" where
  "llm_normalize raw =
     (let cached = fadd (t_cacheRead raw) (t_cacheWrite raw)
      in if fless (t_input raw) cached then raw else raw\<lparr>t_input := fsub (t_input raw) cached\<rparr>)"

definition price :: "go_float \<Rightarrow> compiledRule \<Rightarrow> tokens \<Rightarrow> costs" where
  "price d rule t =
     (let i = fdiv (fmul (t_input t) (cr_in rule)) d; o' = fdiv (fmul (t_output t) (cr_out rule)) d;
          r = fdiv (fmul (t_cacheRead t) (cr_cacheRead rule)) d; w = fdiv (fmul (t_cacheWrite t) (cr_cacheWrite rule)) d
      in \<lparr>c_input = i, c_output = o', c_cacheRead = r, c_cacheWrite = w, c_total = fadd (fadd (fadd i o') r) w\<rparr>)"

definition putIfKey :: "string \<Rightarrow> go_float \<Rightarrow> attributes \<Rightarrow> attributes" where
  "putIfKey key val attrs = (if key \<noteq> [] then fmupd key (DoubleV val) attrs else attrs)"

definition writeAttrs :: "OutputMapping \<Rightarrow> costs \<Rightarrow> attributes \<Rightarrow> attributes" where
  "writeAttrs out c attrs =
     (let attrs = putIfKey (o_In out) (c_input c) attrs;
          attrs = putIfKey (o_Out out) (c_output c) attrs;
          attrs = putIfKey (o_CacheRead out) (c_cacheRead c) attrs;
          attrs = putIfKey (o_CacheWrite out) (c_cacheWrite c) attrs
      in putIfKey (o_Total out) (c_total c) attrs)"

definition raw_tokens :: "AttrMapping \<Rightarrow> attributes \<Rightarrow> tokens" where
  "raw_tokens a attrs =
     \<lparr>t_input = getTokenCount attrs (a_In a), t_output = getTokenCount attrs (a_Out a),
      t_cacheRead = getTokenCount attrs (a_CacheRead a), t_cacheWrite = getTokenCount attrs (a_CacheWrite a)\<rparr>"

definition no_tokens :: "tokens \<Rightarrow> bool" where
  "no_tokens t \<longleftrightarrow> feq (t_input t) (Finite 0) \<and> feq (t_output t) (Finite 0) \<and>
     feq (t_cacheRead t) (Finite 0) \<and> feq (t_cacheWrite t) (Finite 0)"

definition model_of :: "llm_value \<Rightarrow> string" where
  "model_of v = (case v of StrV s \<Rightarrow> s | _ \<Rightarrow> [])"

text \<open>What a span gets once its rule is known.\<close>

definition charge :: "'l llmCostProcessor \<Rightarrow> compiledRule option \<Rightarrow> attributes \<Rightarrow> attributes" where
  "charge p rule attrs =
     (case rule of
        None \<Rightarrow> attrs
      | Some r \<Rightarrow>
          let raw = raw_tokens (p_attrs p) attrs
          in if no_tokens raw then attrs else writeAttrs (p_out p) (price (divisor p) r (llm_normalize raw)) attrs)"

definition processSpan ::
  "'l rule_lru \<Rightarrow> attributes \<Rightarrow> 'l llmCostProcessor \<Rightarrow> attributes \<times> 'l llmCostProcessor" where
  "processSpan L attrs p =
     (case fmlookup attrs (a_Model (p_attrs p)) of
        None \<Rightarrow> (attrs, p)
      | Some v \<Rightarrow> (case matchRule L (model_of v) p of (rule, p) \<Rightarrow> (charge p rule attrs, p)))"

text \<open>The reserved names: \<open>ExcludeSigNozLLMPricingSpanAttrs\<close> is the prefix, quoted and anchored.\<close>

definition reserved :: "string \<Rightarrow> bool" where
  "reserved key \<longleftrightarrow> prefix ''signoz.gen_ai.'' key"

definition drop_reserved :: "attributes \<Rightarrow> attributes" where
  "drop_reserved attrs = fmfilter (\<lambda>k. \<not> reserved k) attrs"

fun llm_spans ::
  "'l rule_lru \<Rightarrow> attributes list \<Rightarrow> 'l llmCostProcessor \<Rightarrow> attributes list \<times> 'l llmCostProcessor" where
  "llm_spans L [] p = ([], p)"
| "llm_spans L (attrs # spans) p =
     (case processSpan L (drop_reserved attrs) p of
        (a, p) \<Rightarrow> (case llm_spans L spans p of (as, p) \<Rightarrow> (a # as, p)))"

fun llm_scopes ::
  "'l rule_lru \<Rightarrow> attributes list list \<Rightarrow> 'l llmCostProcessor \<Rightarrow> attributes list list \<times> 'l llmCostProcessor" where
  "llm_scopes L [] p = ([], p)"
| "llm_scopes L (spans # scopes) p =
     (case llm_spans L spans p of
        (s, p) \<Rightarrow> (case llm_scopes L scopes p of (ss, p) \<Rightarrow> (s # ss, p)))"

type_synonym priced_resource = "attributes \<times> attributes list list"

fun llm_ProcessTraces ::
  "'l rule_lru \<Rightarrow> priced_resource list \<Rightarrow> 'l llmCostProcessor \<Rightarrow> priced_resource list \<times> 'l llmCostProcessor" where
  "llm_ProcessTraces L [] p = ([], p)"
| "llm_ProcessTraces L ((res, scopes) # td) p =
     (case llm_scopes L scopes p of
        (ss, p) \<Rightarrow> (case llm_ProcessTraces L td p of (rs, p) \<Rightarrow> ((drop_reserved res, ss) # rs, p)))"

section \<open>The cache changes nothing\<close>

text \<open>A processor without a cache.\<close>

definition span_spec :: "'l llmCostProcessor \<Rightarrow> attributes \<Rightarrow> attributes" where
  "span_spec p attrs =
     (let attrs = drop_reserved attrs
      in case fmlookup attrs (a_Model (p_attrs p)) of
           None \<Rightarrow> attrs
         | Some v \<Rightarrow> charge p (first_rule (p_rules p) (model_of v)) attrs)"

text \<open>What is cached is right.\<close>

definition cache_right :: "('l \<Rightarrow> (string, compiledRule option) fmap) \<Rightarrow> 'l llmCostProcessor \<Rightarrow> bool" where
  "cache_right contents p \<longleftrightarrow>
     (\<forall>model rule. fmlookup (contents (matchCache p)) model = Some rule \<longrightarrow> rule = first_rule (p_rules p) model)"

definition same_rules :: "'l llmCostProcessor \<Rightarrow> 'l llmCostProcessor \<Rightarrow> bool" where
  "same_rules p q \<longleftrightarrow> p_attrs p = p_attrs q \<and> p_out p = p_out q \<and> divisor p = divisor q \<and> p_rules p = p_rules q"

lemma span_spec_same: "same_rules p q \<Longrightarrow> span_spec p = span_spec q"
  by (auto simp: same_rules_def span_spec_def charge_def Let_def fun_eq_iff split: option.splits)

lemma matchRule_right:
  assumes "lru_ok L contents" and "cache_right contents p" and "matchRule L model p = (rule, p')"
  shows "rule = first_rule (p_rules p) model" and "cache_right contents p'" and "same_rules p' p"
proof -
  obtain c r where G: "l_Get L (matchCache p) model = (c, r)" by fastforce
  have c: "contents c = contents (matchCache p)" and r: "r = fmlookup (contents (matchCache p)) model"
    using lru_okD(4) [OF assms(1) G] by auto
  obtain c' e calls where A: "l_Add L c model (first_rule (p_rules p) model) = (c', e, calls)" by (metis prod_cases3)
  have c': "contents c' = fold (\<lambda>(k, v). fmdrop k) calls (fmupd model (first_rule (p_rules p) model) (contents c))"
    using lru_okD(3) [OF assms(1) A] by blast
  show "rule = first_rule (p_rules p) model" and "cache_right contents p'" and "same_rules p' p"
    using assms(2,3) G r
    by (auto simp: matchRule_def cache_right_def same_rules_def c c' A fmlookup_drop_calls Let_def
        split: option.splits if_splits)
qed

lemma processSpan_right:
  assumes "lru_ok L contents" and "cache_right contents p" and "processSpan L (drop_reserved attrs) p = (a, p')"
  shows "a = span_spec p attrs" and "cache_right contents p'" and "same_rules p' p"
proof -
  have "a = span_spec p attrs \<and> cache_right contents p' \<and> same_rules p' p"
  proof (cases "fmlookup (drop_reserved attrs) (a_Model (p_attrs p))")
    case None
    then show ?thesis using assms(2,3) by (auto simp: processSpan_def span_spec_def same_rules_def)
  next
    case (Some v)
    obtain rule q where m: "matchRule L (model_of v) p = (rule, q)" by fastforce
    note right = matchRule_right [OF assms(1,2) m]
    have "charge q rule = charge p rule"
      using right(3) unfolding same_rules_def charge_def Let_def by (elim conjE) (simp only:)
    then show ?thesis using assms(3) Some m right by (simp add: processSpan_def span_spec_def)
  qed
  then show "a = span_spec p attrs" and "cache_right contents p'" and "same_rules p' p" by auto
qed

lemma same_rules_trans: "same_rules a b \<Longrightarrow> same_rules b c \<Longrightarrow> same_rules a c"
  by (simp add: same_rules_def)

lemma llm_spans_right:
  assumes "lru_ok L contents"
  shows "cache_right contents p \<Longrightarrow> llm_spans L spans p = (as, p') \<Longrightarrow>
    as = map (span_spec p) spans \<and> cache_right contents p' \<and> same_rules p' p"
proof (induction spans arbitrary: p as)
  case Nil
  then show ?case by (simp add: same_rules_def)
next
  case (Cons attrs spans)
  obtain a q where q: "processSpan L (drop_reserved attrs) p = (a, q)" by fastforce
  obtain as' where as': "llm_spans L spans q = (as', p')" "as = a # as'"
    using Cons.prems(2) by (auto simp: q split: prod.splits)
  note here = processSpan_right [OF assms Cons.prems(1) q]
  show ?case
    using Cons.IH [OF here(2) as'(1)] here(1) span_spec_same [OF here(3)] same_rules_trans [OF _ here(3)]
    by (simp add: as'(2))
qed

lemma llm_scopes_right:
  assumes "lru_ok L contents"
  shows "cache_right contents p \<Longrightarrow> llm_scopes L scopes p = (ss, p') \<Longrightarrow>
    ss = map (map (span_spec p)) scopes \<and> cache_right contents p' \<and> same_rules p' p"
proof (induction scopes arbitrary: p ss)
  case Nil
  then show ?case by (simp add: same_rules_def)
next
  case (Cons spans scopes)
  obtain s q where q: "llm_spans L spans p = (s, q)" by fastforce
  obtain ss' where ss': "llm_scopes L scopes q = (ss', p')" "ss = s # ss'"
    using Cons.prems(2) by (auto simp: q split: prod.splits)
  have here: "s = map (span_spec p) spans" "cache_right contents q" "same_rules q p"
    using llm_spans_right [OF assms Cons.prems(1) q] by auto
  show ?case
    using Cons.IH [OF here(2) ss'(1)] here(1) span_spec_same [OF here(3)] same_rules_trans [OF _ here(3)]
    by (simp add: ss'(2))
qed

lemma llm_traces_right:
  assumes "lru_ok L contents"
  shows "cache_right contents p \<Longrightarrow> llm_ProcessTraces L td p = (rs, p') \<Longrightarrow>
    rs = map (\<lambda>(res, scopes). (drop_reserved res, map (map (span_spec p)) scopes)) td \<and>
    cache_right contents p' \<and> same_rules p' p"
proof (induction td arbitrary: p rs)
  case Nil
  then show ?case by (simp add: same_rules_def)
next
  case (Cons r td)
  obtain res scopes where r: "r = (res, scopes)" by fastforce
  obtain ss q where q: "llm_scopes L scopes p = (ss, q)" by fastforce
  obtain rs' where rs': "llm_ProcessTraces L td q = (rs', p')" "rs = (drop_reserved res, ss) # rs'"
    using Cons.prems(2) by (auto simp: r q split: prod.splits)
  have here: "ss = map (map (span_spec p)) scopes" "cache_right contents q" "same_rules q p"
    using llm_scopes_right [OF assms Cons.prems(1) q] by auto
  show ?case
    using Cons.IH [OF here(2) rs'(1)] here(1) span_spec_same [OF here(3)] same_rules_trans [OF _ here(3)]
    by (simp add: rs'(2) r)
qed

text \<open>A run: batches one after the other.\<close>

fun llm_run :: "'l rule_lru \<Rightarrow> priced_resource list list \<Rightarrow> 'l llmCostProcessor \<Rightarrow> priced_resource list list" where
  "llm_run L [] p = []"
| "llm_run L (td # tds) p = (case llm_ProcessTraces L td p of (rs, p) \<Rightarrow> rs # llm_run L tds p)"

definition resource_spec :: "'l llmCostProcessor \<Rightarrow> priced_resource \<Rightarrow> priced_resource" where
  "resource_spec p = (\<lambda>(res, scopes). (drop_reserved res, map (map (span_spec p)) scopes))"

lemma llm_run_right:
  assumes "lru_ok L contents"
  shows "cache_right contents p \<Longrightarrow> llm_run L tds p = map (map (resource_spec p)) tds"
proof (induction tds arbitrary: p)
  case (Cons td tds)
  obtain rs q where q: "llm_ProcessTraces L td p = (rs, q)" by fastforce
  have here: "rs = map (resource_spec p) td" "cache_right contents q" "same_rules q p"
    using llm_traces_right [OF assms Cons.prems q] by (auto simp: resource_spec_def)
  have "resource_spec q = resource_spec p"
    using span_spec_same [OF here(3)] by (simp add: resource_spec_def)
  then show ?case using Cons.IH [OF here(2)] here(1) by (simp add: q)
qed simp

lemma llm_new_right:
  assumes "lru_ok L contents" and "llm_newProcessor L cfg = Some p"
  shows "cache_right contents p"
  using assms lru_okD(1) [OF assms(1)] by (auto simp: llm_newProcessor_def cache_right_def)

text \<open>C34. The cache of matched rules changes no result: over any sequence of batches, however many models
  there are, every span gets the costs of the first rule whose pattern matches its model, as from a
  processor that keeps no cache.\<close>

theorem llm_cache_transparent:
  assumes "lru_ok L contents" and "llm_newProcessor L cfg = Some p"
  shows "llm_run L tds p = map (map (resource_spec p)) tds"
  using llm_run_right [OF assms(1) llm_new_right [OF assms]] .

definition demo_llm :: llm_config where
  "demo_llm =
     \<lparr>Attrs = \<lparr>a_Model = ''m'', a_In = ''in'', a_Out = [], a_CacheRead = [], a_CacheWrite = []\<rparr>,
      DefaultPricing = [\<lparr>pr_Name = ''r'', pr_Pattern = [''gpt*''], pr_Mode = [], pr_Read = Finite 0, pr_Write = Finite 0,
        pr_In = Finite 1, pr_Out = Finite 0\<rparr>],
      OutputAttrs = \<lparr>o_In = [], o_Out = [], o_CacheRead = [], o_CacheWrite = [], o_Total = ''signoz.gen_ai.cost''\<rparr>\<rparr>"

definition demo_llm_processor :: "((string, compiledRule option) list_state) llmCostProcessor" where
  "demo_llm_processor = the (llm_newProcessor list_lru demo_llm)"

lemma demo_llm_new: "llm_newProcessor list_lru demo_llm = Some demo_llm_processor"
  by (simp add: demo_llm_processor_def llm_newProcessor_def list_lru_def)

abbreviation demo_llm_span :: attributes where
  "demo_llm_span \<equiv> fmupd ''in'' (IntV 2) (fmupd ''m'' (StrV ''gpt-4'') fmempty)"

theorem llm_cache_transparent_witness:
  "llm_run list_lru [[(fmempty, [[demo_llm_span, fmempty]])]] demo_llm_processor =
     [[(fmempty, [[span_spec demo_llm_processor demo_llm_span, fmempty]])]]"
  using llm_cache_transparent [OF list_lru_ok demo_llm_new, of "[[(fmempty, [[demo_llm_span, fmempty]])]]"]
  by (simp add: resource_spec_def span_spec_def [of _ fmempty] drop_reserved_def)

section \<open>Validated patterns\<close>

lemma check_patterns_ok: "check_patterns i j ps = None \<Longrightarrow> x \<in> set ps \<Longrightarrow> path_Match x [] \<noteq> None"
  by (induction i j ps rule: check_patterns.induct) (auto split: if_splits)

lemma check_rules_ok: "check_rules i rs = None \<Longrightarrow> r \<in> set rs \<Longrightarrow> x \<in> set (pr_Pattern r) \<Longrightarrow> path_Match x [] \<noteq> None"
proof (induction i rs rule: check_rules.induct)
  case (2 i q rs)
  then show ?case by (auto simp: check_pricing_def dest: check_patterns_ok split: option.splits if_splits)
qed simp

text \<open>C36. \<open>matchRule\<close> ignores the error of \<open>path.Match\<close>, and may: validation tries each pattern on the
  empty name alone, but a pattern of a validated configuration is well-formed for every model.\<close>

theorem validated_patterns_match:
  assumes "llm_Validate cfg = None" and "llm_newProcessor L cfg = Some p" and "rule \<in> set (p_rules p)"
  shows "path_Match (cr_pattern rule) model \<noteq> None"
proof -
  have "check_rules 0 (DefaultPricing cfg) = None"
    using assms(1) by (auto simp: llm_Validate_def split: if_splits option.splits)
  moreover from assms(2,3) obtain r where "r \<in> set (DefaultPricing cfg)" "cr_pattern rule \<in> set (pr_Pattern r)"
    by (auto simp: llm_newProcessor_def compile_pricing_def)
  ultimately have "path_Match (cr_pattern rule) [] \<noteq> None" by (rule check_rules_ok)
  then show ?thesis by (simp add: path_Match_malformed)
qed

lemma demo_llm_valid: "llm_Validate demo_llm = None"
proof -
  have "path_Match ''gpt*'' [] = Some False" using path_Match_prefix [of "''gpt''" "[]"] by (simp add: plain_def)
  then show ?thesis by (simp add: llm_Validate_def demo_llm_def check_pricing_def fless_def)
qed

theorem validated_patterns_match_witness:
  "\<forall>model. list_all (\<lambda>rule. path_Match (cr_pattern rule) model \<noteq> None) (p_rules demo_llm_processor)"
  using validated_patterns_match [OF demo_llm_valid demo_llm_new] by (auto simp: list_all_iff)

text \<open>A star does not cross a slash: a rule for a family of models leaves the names that a provider
  prefixes unpriced.\<close>

theorem provider_prefix_unpriced: "path_Match ''*'' ''openai/gpt-4'' = Some False"
  using path_Match_prefix [of "[]" "''openai/gpt-4''"] by (simp add: plain_def)

section \<open>The reserved prefix\<close>

definition out_keys :: "OutputMapping \<Rightarrow> string set" where
  "out_keys out = {o_In out, o_Out out, o_CacheRead out, o_CacheWrite out, o_Total out} - {[]}"

lemma putIfKey_lookup:
  "fmlookup (putIfKey key val attrs) k = (if key \<noteq> [] \<and> k = key then Some (DoubleV val) else fmlookup attrs k)"
  by (simp add: putIfKey_def)

lemma writeAttrs_lookup:
  "k \<notin> out_keys out \<Longrightarrow> fmlookup (writeAttrs out c attrs) k = fmlookup attrs k"
  "k \<in> out_keys out \<Longrightarrow> \<exists>x. fmlookup (writeAttrs out c attrs) k = Some (DoubleV x)"
  by (auto simp: writeAttrs_def Let_def putIfKey_lookup out_keys_def)

text \<open>A reserved attribute of a processed span was written by the processor.\<close>

theorem reserved_attributes_written:
  assumes "reserved k" and "fmlookup (span_spec p attrs) k = Some v"
  shows "k \<in> out_keys (p_out p) \<and> (\<exists>x. v = DoubleV x)"
proof -
  have none: "fmlookup (drop_reserved attrs) k = None" using assms(1) by (simp add: drop_reserved_def)
  then obtain c where c: "fmlookup (writeAttrs (p_out p) c (drop_reserved attrs)) k = Some v"
    using assms(2) by (auto simp: span_spec_def charge_def Let_def split: option.splits if_splits)
  then have "k \<in> out_keys (p_out p)" using writeAttrs_lookup(1) none by fastforce
  moreover from writeAttrs_lookup(2) [OF this] obtain x where
    "fmlookup (writeAttrs (p_out p) c (drop_reserved attrs)) k = Some (DoubleV x)" by blast
  ultimately show ?thesis using c by auto
qed



section \<open>Costs\<close>

text \<open>Counts and prices: numbers that are finite and not below zero.\<close>

definition amount :: "go_float \<Rightarrow> bool" where
  "amount x \<longleftrightarrow> nonneg x \<and> \<not> infinite_value x"

text \<open>From finite counts and prices that are not below zero come costs that are not below zero and are
  never NaN, whichever way the cached tokens are counted, as long as their sum and the difference do not
  leave the range of the type.\<close>

theorem costs_nonneg:
  assumes "amount (t_input raw)" and "amount (t_output raw)" and "amount (t_cacheRead raw)" and "amount (t_cacheWrite raw)"
    and "amount (cr_in rule)" and "amount (cr_out rule)" and "amount (cr_cacheRead rule)" and "amount (cr_cacheWrite rule)"
    and "\<not> infinite_value (fadd (t_cacheRead raw) (t_cacheWrite raw))"
    and "\<not> infinite_value (t_input (llm_normalize raw))"
  shows "nonneg (c_input (price (Finite 1000000) rule (llm_normalize raw))) \<and>
    nonneg (c_total (price (Finite 1000000) rule (llm_normalize raw)))"
proof -
  let ?cached = "fadd (t_cacheRead raw) (t_cacheWrite raw)"
  have cached: "nonneg ?cached" using assms(3,4) by (simp add: amount_def fadd_nonneg)
  have nan: "\<not> IsNaN x" if "nonneg x" for x using that by (cases x) auto
  have input: "nonneg (t_input (llm_normalize raw))"
    using assms(1,9) cached nan by (auto simp: llm_normalize_def Let_def amount_def intro: fsub_nonneg)
  have others: "t_output (llm_normalize raw) = t_output raw" "t_cacheRead (llm_normalize raw) = t_cacheRead raw"
    "t_cacheWrite (llm_normalize raw) = t_cacheWrite raw"
    by (simp_all add: llm_normalize_def Let_def)
  have "nonneg (fdiv (fmul (t_input (llm_normalize raw)) (cr_in rule)) (Finite 1000000))"
    "nonneg (fdiv (fmul (t_output raw) (cr_out rule)) (Finite 1000000))"
    "nonneg (fdiv (fmul (t_cacheRead raw) (cr_cacheRead rule)) (Finite 1000000))"
    "nonneg (fdiv (fmul (t_cacheWrite raw) (cr_cacheWrite rule)) (Finite 1000000))"
    using input assms by (auto simp: amount_def intro!: fdiv_nonneg fmul_nonneg)
  then show ?thesis by (simp add: price_def Let_def others fadd_nonneg)
qed

end
