(* ===== verification/Key_Checks.thy ===== *)
theory Key_Checks
  imports Go_Utf8 Go_Format
begin

text \<open>
  Checks on attribute keys (\<open>pkg/keycheck\<close>) and the identifiers by which rows of the tag tables are
  written once per batch (\<open>pkg/tagdedup\<close>). The Unicode classes are the arguments \<open>IsLower\<close> and
  \<open>IsLetter\<close>; the four regular expressions are written out.

  Theorems: a key is cardinal exactly if it has a symbol outside the white list or looks random, a key
  looks random only through its length or one of its segments, an identifier determines its row, and a
  batch writes every identifier once.
\<close>

section \<open>Random keys (\<open>keycheck.go\<close>)\<close>

definition MaxKeyLength :: nat where "MaxKeyLength = 256"

definition ShortKeyLength :: nat where "ShortKeyLength = 15"

definition MediumKeyLength :: nat where "MediumKeyLength = 25"

definition code :: "char \<Rightarrow> nat" where
  "code c = of_char c"

definition is_digit :: "char \<Rightarrow> bool" where
  "is_digit c \<longleftrightarrow> between 48 57 (code c)"

definition is_hex :: "char \<Rightarrow> bool" where
  "is_hex c \<longleftrightarrow> is_digit c \<or> between 97 102 (code c) \<or> between 65 70 (code c)"

definition is_base64 :: "char \<Rightarrow> bool" where
  "is_base64 c \<longleftrightarrow> is_digit c \<or> between 97 122 (code c) \<or> between 65 90 (code c) \<or> c = CHR ''+'' \<or> c = CHR ''/''"

text \<open>A class for every place of a fixed-length expression.\<close>

definition uuid_shape :: "(char \<Rightarrow> bool) list" where
  "uuid_shape =
     (let hyphen = (\<lambda>c. c = CHR ''-'')
      in replicate 8 is_hex @ [hyphen] @ replicate 4 is_hex @ [hyphen] @
         [\<lambda>c. between 49 53 (code c)] @ replicate 3 is_hex @ [hyphen] @
         [\<lambda>c. c \<in> set ''89abAB''] @ replicate 3 is_hex @ [hyphen] @ replicate 12 is_hex)"

definition uuidRegex :: "string \<Rightarrow> bool" where
  "uuidRegex s = list_all2 (\<lambda>p c. p c) uuid_shape s"

definition hexRegex :: "string \<Rightarrow> bool" where
  "hexRegex s \<longleftrightarrow> 16 \<le> length s \<and> list_all is_hex s"

text \<open>Up to two signs of padding follow at least sixteen characters.\<close>

definition base64Regex :: "string \<Rightarrow> bool" where
  "base64Regex s \<longleftrightarrow>
     (let body = takeWhile (\<lambda>c. c \<noteq> CHR ''='') s; padding = dropWhile (\<lambda>c. c \<noteq> CHR ''='') s
      in 16 \<le> length body \<and> list_all is_base64 body \<and> length padding \<le> 2 \<and> list_all (\<lambda>c. c = CHR ''='') padding)"

definition timestampRegex :: "string \<Rightarrow> bool" where
  "timestampRegex s \<longleftrightarrow> length s = 13 \<and> list_all is_digit s"

definition isMostlyLetters :: "(rune \<Rightarrow> bool) \<Rightarrow> string \<Rightarrow> bool" where
  "isMostlyLetters IsLetter s \<longleftrightarrow>
     s \<noteq> [] \<and> float64 (of_nat (length (filter IsLetter (runes s))) / of_nat (length s)) > float64 (7 / 10)"

definition isAlphaLower :: "(rune \<Rightarrow> bool) \<Rightarrow> (rune \<Rightarrow> bool) \<Rightarrow> string \<Rightarrow> bool" where
  "isAlphaLower IsLower IsLetter s = list_all (\<lambda>r. \<not> (\<not> IsLower r \<and> \<not> IsLetter r)) (runes s)"

definition containsNonAlpha :: "(rune \<Rightarrow> bool) \<Rightarrow> string \<Rightarrow> bool" where
  "containsNonAlpha IsLetter s = list_ex (\<lambda>r. \<not> IsLetter r) (runes s)"

definition isBase64String :: "(rune \<Rightarrow> bool) \<Rightarrow> string \<Rightarrow> bool" where
  "isBase64String IsLetter s = (if \<not> containsNonAlpha IsLetter s then False else base64Regex s)"

definition isULID :: "string \<Rightarrow> bool" where
  "isULID s \<longleftrightarrow> length s = 26 \<and>
     list_all (\<lambda>r. (between 65 90 r \<or> between 48 57 r) \<and> r \<notin> {73, 76, 79, 85}) (runes s)"

definition isRandomSegment :: "(rune \<Rightarrow> bool) \<Rightarrow> string \<Rightarrow> bool" where
  "isRandomSegment IsLetter segment \<longleftrightarrow>
     length segment > MaxKeyLength \<or> uuidRegex segment \<or> hexRegex segment \<or> isBase64String IsLetter segment \<or>
     timestampRegex segment \<or> isULID segment"

text \<open>The loop over the bytes; \<open>segment\<close> is \<open>key[start:i]\<close>.\<close>

fun segment_loop :: "(rune \<Rightarrow> bool) \<Rightarrow> string \<Rightarrow> string \<Rightarrow> bool" where
  "segment_loop L segment [] = (if segment = [] then False else isRandomSegment L segment)"
| "segment_loop L segment (c # cs) =
     (if c = CHR ''.'' then
        (if segment = [] then segment_loop L [] cs
         else if isRandomSegment L segment then True
         else segment_loop L [] cs)
      else segment_loop L (segment @ [c]) cs)"

definition processKeySegments :: "(rune \<Rightarrow> bool) \<Rightarrow> string \<Rightarrow> bool" where
  "processKeySegments IsLetter key = segment_loop IsLetter [] key"

definition contains_any :: "string \<Rightarrow> string \<Rightarrow> bool" where
  "contains_any s chars = list_ex (\<lambda>c. c \<in> set chars) s"

definition IsRandomKey :: "(rune \<Rightarrow> bool) \<Rightarrow> (rune \<Rightarrow> bool) \<Rightarrow> string \<Rightarrow> bool" where
  "IsRandomKey IsLower IsLetter key =
     (if length key > MaxKeyLength then True
      else if length key \<le> ShortKeyLength \<and> isAlphaLower IsLower IsLetter key then False
      else if length key \<le> MediumKeyLength \<and> contains_any key ''_-'' \<and> isMostlyLetters IsLetter key then False
      else processKeySegments IsLetter key)"

section \<open>Cardinal keys (\<open>cardinality.go\<close>)\<close>

definition JSONKeyAllowedSymbols :: "string list" where
  "JSONKeyAllowedSymbols = [''_'', ''.'', '':'', ''@'', ''-'', ''$'', ''#'', ''{'', ''}'', ''/'']"

definition hasNonAllowedSymbols :: "string \<Rightarrow> bool" where
  "hasNonAllowedSymbols s =
     list_ex (\<lambda>r. \<not> (between 97 122 r \<or> between 65 90 r) \<and> \<not> between 48 57 r \<and>
       utf8_rune r \<notin> set JSONKeyAllowedSymbols) (runes s)"

definition IsCardinal :: "(rune \<Rightarrow> bool) \<Rightarrow> (rune \<Rightarrow> bool) \<Rightarrow> string \<Rightarrow> bool" where
  "IsCardinal IsLower IsLetter key =
     (if length key > MaxKeyLength then True
      else if hasNonAllowedSymbols key then True
      else if length key \<le> ShortKeyLength \<and> isAlphaLower IsLower IsLetter key then False
      else if length key \<le> MediumKeyLength \<and> contains_any key ''_-'' \<and> isMostlyLetters IsLetter key then False
      else processKeySegments IsLetter key)"

definition IsBacktickRequired :: "string \<Rightarrow> bool" where
  "IsBacktickRequired key = contains_any key (join ['':'', ''@'', ''-''] [])"

definition CleanBackticks :: "string \<Rightarrow> string" where
  "CleanBackticks key = filter (\<lambda>c. c \<noteq> CHR 0x60) key"

section \<open>What the checks decide\<close>

theorem IsCardinal_iff:
  "IsCardinal IsLower IsLetter key \<longleftrightarrow> hasNonAllowedSymbols key \<or> IsRandomKey IsLower IsLetter key"
  by (simp add: IsCardinal_def IsRandomKey_def)

text \<open>The segments of a key: what its dots separate.\<close>

fun split_dots :: "string \<Rightarrow> string list" where
  "split_dots [] = [[]]"
| "split_dots (c # cs) =
     (if c = CHR ''.'' then [] # split_dots cs
      else (case split_dots cs of [] \<Rightarrow> [[c]] | s # ss \<Rightarrow> (c # s) # ss))"

lemma split_dots_not_Nil [simp]: "split_dots s \<noteq> []"
  by (induction s) (auto split: list.splits)

lemma isRandomSegment_Nil [simp]: "\<not> isRandomSegment L []"
  by (simp add: isRandomSegment_def MaxKeyLength_def uuidRegex_def uuid_shape_def Let_def hexRegex_def isBase64String_def
      base64Regex_def timestampRegex_def isULID_def)

lemma segment_loop_split:
  "segment_loop L segment key = list_ex (isRandomSegment L) ((segment @ hd (split_dots key)) # tl (split_dots key))"
proof (induction key arbitrary: segment)
  case (Cons c cs)
  obtain s ss where s: "split_dots cs = s # ss" by (cases "split_dots cs") auto
  show ?case using Cons.IH [of "[]"] Cons.IH [of "segment @ [c]"] by (auto simp: s)
qed simp

text \<open>C37. A key looks random exactly if it is too long or, unless one of the two exceptions for short
  readable keys applies, one of the segments its dots separate does: the loop over the bytes examines
  every segment, the last one included.\<close>

theorem IsRandomKey_iff:
  "IsRandomKey IsLower IsLetter key \<longleftrightarrow>
     length key > 256 \<or>
     \<not> (length key \<le> 15 \<and> isAlphaLower IsLower IsLetter key) \<and>
     \<not> (length key \<le> 25 \<and> contains_any key ''_-'' \<and> isMostlyLetters IsLetter key) \<and>
     list_ex (isRandomSegment IsLetter) (split_dots key)"
proof -
  have "processKeySegments IsLetter key = list_ex (isRandomSegment IsLetter) (split_dots key)"
    unfolding processKeySegments_def segment_loop_split by (cases "split_dots key") auto
  then show ?thesis
    by (simp add: IsRandomKey_def MaxKeyLength_def ShortKeyLength_def MediumKeyLength_def)
qed

section \<open>Identifiers of rows (\<open>tagdedup.go\<close>)\<close>

abbreviation US :: char where
  "US \<equiv> CHR 0x1F"

definition FormatBool :: "bool \<Rightarrow> string" where
  "FormatBool b = (if b then ''true'' else ''false'')"

definition KeyID :: "string \<Rightarrow> string \<Rightarrow> string \<Rightarrow> bool \<Rightarrow> string" where
  "KeyID key tagType dataType isColumn =
     key @ [US] @ tagType @ [US] @ dataType @ [US] @ FormatBool isColumn"

definition ValueID :: "string \<Rightarrow> string \<Rightarrow> string \<Rightarrow> string \<Rightarrow> go_float \<Rightarrow> string" where
  "ValueID key tagType dataType stringValue numberValue =
     key @ [US] @ tagType @ [US] @ dataType @ [US] @ stringValue @ [US] @ FormatFloat numberValue"

record Deduper =
  dd_keys :: "string set"
  dd_values :: "string set"

definition dd_New :: Deduper where
  "dd_New = \<lparr>dd_keys = {}, dd_values = {}\<rparr>"

definition SeenKeyID :: "string \<Rightarrow> Deduper \<Rightarrow> bool \<times> Deduper" where
  "SeenKeyID i d = (if i \<in> dd_keys d then (True, d) else (False, d\<lparr>dd_keys := insert i (dd_keys d)\<rparr>))"

definition SeenValueID :: "string \<Rightarrow> Deduper \<Rightarrow> bool \<times> Deduper" where
  "SeenValueID i d = (if i \<in> dd_values d then (True, d) else (False, d\<lparr>dd_values := insert i (dd_values d)\<rparr>))"

lemma FormatBool_inject: "FormatBool a = FormatBool b \<longleftrightarrow> a = b"
  by (simp add: FormatBool_def)

text \<open>The identifier of a key row determines it, when key and types do not contain the separator: two
  rows are taken for one only if they agree in the key, both types and the column flag.\<close>

theorem KeyID_inject:
  assumes "US \<notin> set k1" and "US \<notin> set k2" and "US \<notin> set t1" and "US \<notin> set t2" and "US \<notin> set d1" and "US \<notin> set d2"
    and "KeyID k1 t1 d1 c1 = KeyID k2 t2 d2 c2"
  shows "k1 = k2 \<and> t1 = t2 \<and> d1 = d2 \<and> c1 = c2"
proof -
  from assms(7) have "k1 @ US # (t1 @ US # (d1 @ US # FormatBool c1)) = k2 @ US # (t2 @ US # (d2 @ US # FormatBool c2))"
    by (simp add: KeyID_def)
  from split_at_sep [OF assms(1,2) this] have k: "k1 = k2"
    and "t1 @ US # (d1 @ US # FormatBool c1) = t2 @ US # (d2 @ US # FormatBool c2)" by auto
  from split_at_sep [OF assms(3,4) this(2)] have t: "t1 = t2" and "d1 @ US # FormatBool c1 = d2 @ US # FormatBool c2" by auto
  from split_at_sep [OF assms(5,6) this(2)] show ?thesis by (simp add: k t FormatBool_inject)
qed

theorem KeyID_inject_witness:
  "KeyID ''a:b'' ''tag'' ''string'' True \<noteq> KeyID ''a'' ''b:tag'' ''string'' True"
  using KeyID_inject [of "''a:b''" "''a''" "''tag''" "''b:tag''" "''string''" "''string''" True True] by auto

text \<open>The identifier of a value row determines it up to the way its number is printed.\<close>

theorem ValueID_inject:
  assumes "US \<notin> set k1" and "US \<notin> set k2" and "US \<notin> set t1" and "US \<notin> set t2" and "US \<notin> set d1" and "US \<notin> set d2"
    and "US \<notin> set s1" and "US \<notin> set s2" and "ValueID k1 t1 d1 s1 n1 = ValueID k2 t2 d2 s2 n2"
  shows "k1 = k2 \<and> t1 = t2 \<and> d1 = d2 \<and> s1 = s2 \<and> FormatFloat n1 = FormatFloat n2"
proof -
  from assms(9) have "k1 @ US # (t1 @ US # (d1 @ US # (s1 @ US # FormatFloat n1))) =
      k2 @ US # (t2 @ US # (d2 @ US # (s2 @ US # FormatFloat n2)))"
    by (simp add: ValueID_def)
  from split_at_sep [OF assms(1,2) this] have k: "k1 = k2"
    and "t1 @ US # (d1 @ US # (s1 @ US # FormatFloat n1)) = t2 @ US # (d2 @ US # (s2 @ US # FormatFloat n2))" by auto
  from split_at_sep [OF assms(3,4) this(2)] have t: "t1 = t2"
    and "d1 @ US # (s1 @ US # FormatFloat n1) = d2 @ US # (s2 @ US # FormatFloat n2)" by auto
  from split_at_sep [OF assms(5,6) this(2)] have d: "d1 = d2" and "s1 @ US # FormatFloat n1 = s2 @ US # FormatFloat n2" by auto
  from split_at_sep [OF assms(7,8) this(2)] show ?thesis by (simp add: k t d)
qed

text \<open>A separator inside a component makes identifiers collide.\<close>

theorem separator_in_key_collides: "KeyID (''a'' @ [US] @ ''b'') ''c'' d f = KeyID ''a'' (''b'' @ [US] @ ''c'') d f"
  by (simp add: KeyID_def)

text \<open>The rows of a batch that are written: those not seen before.\<close>

fun write_keys :: "string list \<Rightarrow> Deduper \<Rightarrow> string list \<times> Deduper" where
  "write_keys [] d = ([], d)"
| "write_keys (i # is) d =
     (case SeenKeyID i d of
        (seen, d) \<Rightarrow> (case write_keys is d of (ws, d) \<Rightarrow> (if seen then ws else i # ws, d)))"

lemma write_keys_set:
  "set (fst (write_keys is d)) = set is - dd_keys d \<and> distinct (fst (write_keys is d)) \<and>
   dd_keys (snd (write_keys is d)) = dd_keys d \<union> set is"
proof (induction "is" arbitrary: d)
  case (Cons i "is")
  show ?case
    using Cons.IH [of d] Cons.IH [of "d\<lparr>dd_keys := insert i (dd_keys d)\<rparr>"]
    by (cases "i \<in> dd_keys d") (auto simp: SeenKeyID_def case_prod_beta)
qed simp

text \<open>A new deduplicator lets every identifier of a batch pass exactly once.\<close>

theorem batch_writes_once:
  "set (fst (write_keys is dd_New)) = set is \<and> distinct (fst (write_keys is dd_New))"
  using write_keys_set [of "is" dd_New] by (simp add: dd_New_def)

end
