(* ===== verification/Key_Cache.thy ===== *)
theory Key_Cache
  imports Go_Prelude "HOL-Library.Finite_Map"
begin

text \<open>
  The cache of attribute fingerprints of the metadata exporter (\<open>metadataexporter/cache\<close>). The locale
  \<open>key_cache\<close> states what the exporter relies on of the interface \<open>KeyCache\<close>; it is interpreted for the
  cache in memory.

  Items expire in the upstream package \<open>ttlcache\<close>, the record \<open>ttlcache\<close> with the contract \<open>ttl_ok\<close>: an
  operation sees the items that are alive when it starts. The cache maps a resource to the address of its
  entry, since entries are changed in place. A panic is \<open>None\<close>.

  Theorems: the cache stays within its limits in every run; the limits that callers ask about are
  compared with the limits of traces whatever the signal.
\<close>

section \<open>The interface (\<open>cache.go\<close>)\<close>

datatype Signal = SignalTraces | SignalMetrics | SignalLogs | SignalOther

datatype cache_error = TooManyResources | TooManyAttributes | ClientError

type_synonym fp = "64 word"

text \<open>The methods of \<open>KeyCache\<close> on a state \<open>'s\<close>; \<open>None\<close> is a panic.\<close>

record 's KeyCache =
  kc_AddAttrsToResource :: "'s \<Rightarrow> fp \<Rightarrow> fp list \<Rightarrow> Signal \<Rightarrow> (cache_error option \<times> 's) option"
  kc_AttrsExistForResource :: "'s \<Rightarrow> fp \<Rightarrow> fp list \<Rightarrow> Signal \<Rightarrow> (cache_error + bool list) option"
  kc_ResourcesLimitExceeded :: "'s \<Rightarrow> Signal \<Rightarrow> bool option"
  kc_TotalCardinalityLimitExceeded :: "'s \<Rightarrow> Signal \<Rightarrow> bool option"
  kc_CardinalityLimitExceededMulti :: "'s \<Rightarrow> fp list \<Rightarrow> Signal \<Rightarrow> (cache_error + bool list) option"

section \<open>The cache in memory (\<open>inmemory.go\<close>)\<close>

record 'c ttlcache =
  tc_New :: 'c
  tc_Get :: "'c \<Rightarrow> fp \<Rightarrow> nat option"
  tc_Set :: "'c \<Rightarrow> fp \<Rightarrow> nat \<Rightarrow> 'c"
  tc_Keys :: "'c \<Rightarrow> fp list"

text \<open>\<open>live\<close> reads the items that are not expired.\<close>

definition ttl_ok :: "'c ttlcache \<Rightarrow> ('c \<Rightarrow> (fp, nat) fmap) \<Rightarrow> bool" where
  "ttl_ok T live \<longleftrightarrow>
     live (tc_New T) = fmempty \<and>
     (\<forall>c k. tc_Get T c k = fmlookup (live c) k) \<and>
     (\<forall>c k v. live (tc_Set T c k v) = fmupd k v (live c)) \<and>
     (\<forall>c. distinct (tc_Keys T c) \<and> set (tc_Keys T c) = fset (fmdom (live c)))"

record limits =
  l_MaxResourceFp :: nat
  l_MaxCardinalityPerResource :: nat
  l_MaxTotalCardinality :: nat

text \<open>The three caches with their limits, and the heap of entries: what an address holds, and the next
  one to be given out.\<close>

record 'c InMemoryKeyCache =
  tracesCache :: 'c
  metricsCache :: 'c
  logsCache :: 'c
  tracesLimits :: limits
  metricsLimits :: limits
  logsLimits :: limits
  heap :: "nat \<Rightarrow> fp fset"
  next_addr :: nat

definition NewInMemoryKeyCache :: "'c ttlcache \<Rightarrow> limits \<Rightarrow> limits \<Rightarrow> limits \<Rightarrow> 'c InMemoryKeyCache" where
  "NewInMemoryKeyCache T traces metrics logs =
     \<lparr>tracesCache = tc_New T, metricsCache = tc_New T, logsCache = tc_New T, tracesLimits = traces,
      metricsLimits = metrics, logsLimits = logs, heap = (\<lambda>_. {||}), next_addr = 0\<rparr>"

definition getCacheAndLimits :: "Signal \<Rightarrow> 'c InMemoryKeyCache \<Rightarrow> ('c \<times> nat \<times> nat) option" where
  "getCacheAndLimits ds s =
     (case ds of
        SignalTraces \<Rightarrow> Some (tracesCache s, l_MaxResourceFp (tracesLimits s), l_MaxCardinalityPerResource (tracesLimits s))
      | SignalMetrics \<Rightarrow> Some (metricsCache s, l_MaxResourceFp (metricsLimits s), l_MaxCardinalityPerResource (metricsLimits s))
      | SignalLogs \<Rightarrow> Some (logsCache s, l_MaxResourceFp (logsLimits s), l_MaxCardinalityPerResource (logsLimits s))
      | SignalOther \<Rightarrow> None)"

definition set_cache :: "Signal \<Rightarrow> 'c \<Rightarrow> 'c InMemoryKeyCache \<Rightarrow> 'c InMemoryKeyCache" where
  "set_cache ds c s =
     (case ds of
        SignalTraces \<Rightarrow> s\<lparr>tracesCache := c\<rparr>
      | SignalMetrics \<Rightarrow> s\<lparr>metricsCache := c\<rparr>
      | SignalLogs \<Rightarrow> s\<lparr>logsCache := c\<rparr>
      | SignalOther \<Rightarrow> s)"

definition add_to_entry ::
  "nat \<Rightarrow> fp list \<Rightarrow> nat \<Rightarrow> 'c InMemoryKeyCache \<Rightarrow> cache_error option \<times> 'c InMemoryKeyCache" where
  "add_to_entry e attrFps maxAttrCount s =
     (if fcard (heap s e) + length attrFps > maxAttrCount then (Some TooManyAttributes, s)
      else (None, s\<lparr>heap := (heap s)(e := heap s e |\<union>| fset_of_list attrFps)\<rparr>))"

definition AddAttrsToResource ::
  "'c ttlcache \<Rightarrow> 'c InMemoryKeyCache \<Rightarrow> fp \<Rightarrow> fp list \<Rightarrow> Signal \<Rightarrow> (cache_error option \<times> 'c InMemoryKeyCache) option" where
  "AddAttrsToResource T s resourceFp attrFps ds =
     (case getCacheAndLimits ds s of
        None \<Rightarrow> None
      | Some (cache, maxResourceCount, maxAttrCount) \<Rightarrow>
          (case tc_Get T cache resourceFp of
             Some e \<Rightarrow> Some (add_to_entry e attrFps maxAttrCount s)
           | None \<Rightarrow>
               if length (tc_Keys T cache) \<ge> maxResourceCount then Some (Some TooManyResources, s)
               else
                 let new = next_addr s; cache = tc_Set T cache resourceFp new;
                     s = (set_cache ds cache s)\<lparr>heap := (heap s)(new := {||}), next_addr := Suc new\<rparr>
                 in case tc_Get T cache resourceFp of
                      None \<Rightarrow> None
                    | Some e \<Rightarrow> Some (add_to_entry e attrFps maxAttrCount s)))"

definition AttrsExistForResource ::
  "'c ttlcache \<Rightarrow> 'c InMemoryKeyCache \<Rightarrow> fp \<Rightarrow> fp list \<Rightarrow> Signal \<Rightarrow> (cache_error + bool list) option" where
  "AttrsExistForResource T s resourceFp attrFps ds =
     (case getCacheAndLimits ds s of
        None \<Rightarrow> None
      | Some (cache, _, _) \<Rightarrow>
          Some (Inr (case tc_Get T cache resourceFp of
            None \<Rightarrow> map (\<lambda>_. False) attrFps
          | Some e \<Rightarrow> map (\<lambda>a. a |\<in>| heap s e) attrFps)))"

text \<open>The limit is that of traces for every signal.\<close>

definition ResourcesLimitExceeded :: "'c ttlcache \<Rightarrow> 'c InMemoryKeyCache \<Rightarrow> Signal \<Rightarrow> bool option" where
  "ResourcesLimitExceeded T s ds =
     (case getCacheAndLimits ds s of
        None \<Rightarrow> None
      | Some (cache, _, _) \<Rightarrow> Some (length (tc_Keys T cache) \<ge> l_MaxResourceFp (tracesLimits s)))"

fun total_cardinality :: "'c ttlcache \<Rightarrow> 'c InMemoryKeyCache \<Rightarrow> fp list \<Rightarrow> nat \<Rightarrow> nat option" where
  "total_cardinality T s [] n = Some n"
| "total_cardinality T s (fp # fps) n =
     (case tc_Get T (tracesCache s) fp of
        None \<Rightarrow> None
      | Some e \<Rightarrow> total_cardinality T s fps (n + fcard (heap s e)))"

text \<open>Both the cache and the limit are those of traces, and the limit is the one per resource.\<close>

definition TotalCardinalityLimitExceeded :: "'c ttlcache \<Rightarrow> 'c InMemoryKeyCache \<Rightarrow> Signal \<Rightarrow> bool option" where
  "TotalCardinalityLimitExceeded T s ds =
     map_option (\<lambda>n. n \<ge> l_MaxCardinalityPerResource (tracesLimits s))
       (total_cardinality T s (tc_Keys T (tracesCache s)) 0)"

definition exceeds_cardinality :: "'c ttlcache \<Rightarrow> 'c InMemoryKeyCache \<Rightarrow> 'c \<Rightarrow> fp \<Rightarrow> bool" where
  "exceeds_cardinality T s cache resourceFp =
     (case tc_Get T cache resourceFp of
        None \<Rightarrow> False
      | Some e \<Rightarrow> fcard (heap s e) \<ge> l_MaxCardinalityPerResource (tracesLimits s))"

definition CardinalityLimitExceededMulti ::
  "'c ttlcache \<Rightarrow> 'c InMemoryKeyCache \<Rightarrow> fp list \<Rightarrow> Signal \<Rightarrow> (cache_error + bool list) option" where
  "CardinalityLimitExceededMulti T s resourceFps ds =
     (case getCacheAndLimits ds s of
        None \<Rightarrow> if resourceFps = [] then Some (Inr []) else None
      | Some (cache, _, _) \<Rightarrow> Some (Inr (map (exceeds_cardinality T s cache) resourceFps)))"

definition CardinalityLimitExceeded :: "'c ttlcache \<Rightarrow> 'c InMemoryKeyCache \<Rightarrow> fp \<Rightarrow> Signal \<Rightarrow> bool option" where
  "CardinalityLimitExceeded T s resourceFp ds =
     (case getCacheAndLimits ds s of
        None \<Rightarrow> None
      | Some (cache, _, _) \<Rightarrow> Some (exceeds_cardinality T s cache resourceFp))"

definition in_memory :: "'c ttlcache \<Rightarrow> 'c InMemoryKeyCache KeyCache" where
  "in_memory T =
     \<lparr>kc_AddAttrsToResource = AddAttrsToResource T, kc_AttrsExistForResource = AttrsExistForResource T,
      kc_ResourcesLimitExceeded = ResourcesLimitExceeded T,
      kc_TotalCardinalityLimitExceeded = TotalCardinalityLimitExceeded T,
      kc_CardinalityLimitExceededMulti = CardinalityLimitExceededMulti T\<rparr>"

section \<open>The contract\<close>

text \<open>What a cache holds for a resource. Adding makes it hold the new fingerprints, or fails and may hold
  some of them; asking tells which it holds; for the three signals nothing panics.\<close>

locale key_cache =
  fixes K :: "'s KeyCache" and inv :: "'s \<Rightarrow> bool" and cached :: "'s \<Rightarrow> Signal \<Rightarrow> fp \<Rightarrow> fp set"
  assumes add_inv: "inv s \<Longrightarrow> kc_AddAttrsToResource K s r fps ds = Some (err, s') \<Longrightarrow> inv s'"
    and add_others: "inv s \<Longrightarrow> kc_AddAttrsToResource K s r fps ds = Some (err, s') \<Longrightarrow> (ds', r') \<noteq> (ds, r) \<Longrightarrow>
      cached s' ds' r' = cached s ds' r'"
    and add_grows: "inv s \<Longrightarrow> kc_AddAttrsToResource K s r fps ds = Some (err, s') \<Longrightarrow>
      cached s ds r \<subseteq> cached s' ds r \<and> cached s' ds r \<subseteq> cached s ds r \<union> set fps"
    and add_done: "inv s \<Longrightarrow> kc_AddAttrsToResource K s r fps ds = Some (None, s') \<Longrightarrow> set fps \<subseteq> cached s' ds r"
    and exist_right: "inv s \<Longrightarrow> kc_AttrsExistForResource K s r fps ds = Some (Inr bs) \<Longrightarrow>
      bs = map (\<lambda>a. a \<in> cached s ds r) fps"
    and multi_length: "kc_CardinalityLimitExceededMulti K s rs ds = Some (Inr bs) \<Longrightarrow> length bs = length rs"
    and no_panic: "inv s \<Longrightarrow> ds \<noteq> SignalOther \<Longrightarrow>
      kc_AddAttrsToResource K s r fps ds \<noteq> None \<and> kc_AttrsExistForResource K s r fps ds \<noteq> None \<and>
      kc_ResourcesLimitExceeded K s ds \<noteq> None \<and> kc_TotalCardinalityLimitExceeded K s ds \<noteq> None \<and>
      kc_CardinalityLimitExceededMulti K s rs ds \<noteq> None"
begin

text \<open>An addition never makes the cache forget.\<close>

lemma add_keeps:
  assumes "inv s" and "kc_AddAttrsToResource K s r fps ds = Some (err, s')"
  shows "cached s ds' r' \<subseteq> cached s' ds' r'"
  using add_others [OF assms, of ds' r'] add_grows [OF assms] by (cases "(ds', r') = (ds, r)") auto

end

section \<open>The cache in memory keeps the contract\<close>

text \<open>The cache of a signal, and what it holds.\<close>

definition cache_of :: "Signal \<Rightarrow> 'c InMemoryKeyCache \<Rightarrow> 'c option" where
  "cache_of ds s = map_option fst (getCacheAndLimits ds s)"

definition entry_of :: "('c \<Rightarrow> (fp, nat) fmap) \<Rightarrow> 'c InMemoryKeyCache \<Rightarrow> Signal \<Rightarrow> fp \<Rightarrow> nat option" where
  "entry_of live s ds r = Option.bind (cache_of ds s) (\<lambda>c. fmlookup (live c) r)"

definition mem_cached :: "('c \<Rightarrow> (fp, nat) fmap) \<Rightarrow> 'c InMemoryKeyCache \<Rightarrow> Signal \<Rightarrow> fp \<Rightarrow> fp set" where
  "mem_cached live s ds r = (case entry_of live s ds r of None \<Rightarrow> {} | Some e \<Rightarrow> fset (heap s e))"

text \<open>Entries are not shared, and fresh addresses are fresh.\<close>

definition mem_ok :: "('c \<Rightarrow> (fp, nat) fmap) \<Rightarrow> 'c InMemoryKeyCache \<Rightarrow> bool" where
  "mem_ok live s \<longleftrightarrow>
     (\<forall>ds r e. entry_of live s ds r = Some e \<longrightarrow> e < next_addr s) \<and>
     (\<forall>ds r ds' r' e. entry_of live s ds r = Some e \<longrightarrow> entry_of live s ds' r' = Some e \<longrightarrow> ds = ds' \<and> r = r')"

lemma getCache_cache_of: "getCacheAndLimits ds s = Some (c, maxR, maxA) \<Longrightarrow> cache_of ds s = Some c"
  by (simp add: cache_of_def)

lemma cache_of_set_cache: "cache_of ds' (set_cache ds c s) = (if ds' = ds \<and> ds \<noteq> SignalOther then Some c else cache_of ds' s)"
  by (cases ds; cases ds') (simp_all add: cache_of_def set_cache_def getCacheAndLimits_def)

lemma cache_of_None: "cache_of ds s = None \<longleftrightarrow> ds = SignalOther"
  by (cases ds) (simp_all add: cache_of_def getCacheAndLimits_def)

lemma cache_of_upd [simp]:
  "cache_of ds (s\<lparr>heap := h\<rparr>) = cache_of ds s" "cache_of ds (s\<lparr>next_addr := n\<rparr>) = cache_of ds s"
  by (simp_all add: cache_of_def getCacheAndLimits_def split: Signal.split)

lemma entry_of_upd [simp]:
  "entry_of live (s\<lparr>heap := h\<rparr>) = entry_of live s" "entry_of live (s\<lparr>next_addr := n\<rparr>) = entry_of live s"
  by (simp_all add: entry_of_def fun_eq_iff)

text \<open>The two ways an addition goes: to an entry that exists, or to a new one.\<close>

lemma AddAttrs_cases:
  assumes "ttl_ok T live" and "AddAttrsToResource T s r fps ds = Some (err, s')"
  obtains (old) c maxR maxA e where "getCacheAndLimits ds s = Some (c, maxR, maxA)" "entry_of live s ds r = Some e"
      "(err, s') = add_to_entry e fps maxA s"
  | (full) c maxR maxA where "getCacheAndLimits ds s = Some (c, maxR, maxA)" "entry_of live s ds r = None"
      "err = Some TooManyResources" "s' = s"
  | (new) c maxR maxA where "getCacheAndLimits ds s = Some (c, maxR, maxA)" "entry_of live s ds r = None"
      "length (tc_Keys T c) < maxR"
      "(err, s') = add_to_entry (next_addr s) fps maxA
         ((set_cache ds (tc_Set T c r (next_addr s)) s)\<lparr>heap := (heap s)(next_addr s := {||}), next_addr := Suc (next_addr s)\<rparr>)"
proof -
  have get: "tc_Get T c k = fmlookup (live c) k" and set: "live (tc_Set T c k v) = fmupd k v (live c)" for c k v
    using assms(1) by (simp_all add: ttl_ok_def)
  obtain c maxR maxA where g: "getCacheAndLimits ds s = Some (c, maxR, maxA)"
    using assms(2) by (auto simp: AddAttrsToResource_def split: option.splits)
  have e: "entry_of live s ds r = fmlookup (live c) r" using getCache_cache_of [OF g] by (simp add: entry_of_def)
  show thesis
  proof (cases "fmlookup (live c) r")
    case (Some x)
    then show thesis using old [OF g] assms(2) e by (simp add: AddAttrsToResource_def g get)
  next
    case None
    then show thesis
      using full [OF g] new [OF g] assms(2) e
      by (auto simp: AddAttrsToResource_def g get set Let_def split: if_splits)
  qed
qed

lemma entry_of_new:
  assumes "ttl_ok T live" and "getCacheAndLimits ds s = Some (c, maxR, maxA)"
  shows "entry_of live (set_cache ds (tc_Set T c r a) s) ds' r' =
    (if ds' = ds \<and> r' = r then Some a else entry_of live s ds' r')"
proof -
  have set: "live (tc_Set T c r a) = fmupd r a (live c)" using assms(1) by (simp add: ttl_ok_def)
  have "cache_of ds s = Some c" using getCache_cache_of [OF assms(2)] .
  moreover from this have "ds \<noteq> SignalOther" using cache_of_None [of ds s] by simp
  ultimately show ?thesis by (auto simp: entry_of_def cache_of_set_cache set)
qed

text \<open>The part of an addition that is common to both ways.\<close>

lemma add_to_entry_mem:
  assumes "mem_ok live s" and "entry_of live s ds r = Some e" and "(err, s') = add_to_entry e fps maxA s"
  shows "mem_ok live s'"
    and "(ds', r') \<noteq> (ds, r) \<Longrightarrow> mem_cached live s' ds' r' = mem_cached live s ds' r'"
    and "mem_cached live s' ds r = mem_cached live s ds r \<union> (if err = None then set fps else {})"
proof -
  show "mem_ok live s'" using assms(1,3) by (auto simp: add_to_entry_def mem_ok_def split: if_splits)
  show "mem_cached live s' ds r = mem_cached live s ds r \<union> (if err = None then set fps else {})"
    using assms(2,3) by (auto simp: add_to_entry_def mem_cached_def fset_of_list.rep_eq split: if_splits)
  have unshared: "entry_of live s ds' r' = Some e' \<Longrightarrow> (ds', r') \<noteq> (ds, r) \<Longrightarrow> e' \<noteq> e" for ds' r' e'
    using assms(1,2) by (auto simp: mem_ok_def)
  show "(ds', r') \<noteq> (ds, r) \<Longrightarrow> mem_cached live s' ds' r' = mem_cached live s ds' r'"
    using assms(3) unshared [of ds' r'] by (auto simp: add_to_entry_def mem_cached_def split: if_splits option.splits)
qed

lemma new_entry_mem:
  fixes s :: "'c InMemoryKeyCache"
  assumes "ttl_ok T live" and "getCacheAndLimits ds s = Some (c, maxR, maxA)" and "mem_ok live s"
    and "entry_of live s ds r = None"
  defines "s1 \<equiv> (set_cache ds (tc_Set T c r (next_addr s)) s)\<lparr>heap := (heap s)(next_addr s := {||}), next_addr := Suc (next_addr s)\<rparr>"
  shows "mem_ok live s1" and "mem_cached live s1 = mem_cached live s" and "entry_of live s1 ds r = Some (next_addr s)"
proof -
  have ent: "entry_of live s1 ds' r' = (if ds' = ds \<and> r' = r then Some (next_addr s) else entry_of live s ds' r')" for ds' r'
    unfolding s1_def using entry_of_new [OF assms(1,2), of r "next_addr s" ds' r'] by simp
  have below: "entry_of live s ds' r' = Some e \<Longrightarrow> e < next_addr s" for ds' r' e
    using assms(3) by (simp add: mem_ok_def)
  have next1: "next_addr s1 = Suc (next_addr s)" and heap1: "heap s1 = (heap s)(next_addr s := {||})"
    by (simp_all add: s1_def)
  show "entry_of live s1 ds r = Some (next_addr s)" by (simp add: ent)
  show "mem_ok live s1"
    unfolding mem_ok_def ent next1 using assms(3) below by (force simp: mem_ok_def less_Suc_eq split: if_splits)
  show "mem_cached live s1 = mem_cached live s"
    using assms(4) below by (fastforce simp: mem_cached_def ent heap1 fun_eq_iff split: option.splits)
qed

lemma AddAttrs_mem:
  assumes "ttl_ok T live" and "mem_ok live s" and "AddAttrsToResource T s r fps ds = Some (err, s')"
  shows "mem_ok live s'"
    and "(ds', r') \<noteq> (ds, r) \<Longrightarrow> mem_cached live s' ds' r' = mem_cached live s ds' r'"
    and "mem_cached live s' ds r = mem_cached live s ds r \<union> (if err = None then set fps else {})"
proof -
  have "mem_ok live s' \<and> (\<forall>ds' r'. (ds', r') \<noteq> (ds, r) \<longrightarrow> mem_cached live s' ds' r' = mem_cached live s ds' r') \<and>
      mem_cached live s' ds r = mem_cached live s ds r \<union> (if err = None then set fps else {})"
    using assms(1,3)
  proof (cases rule: AddAttrs_cases)
    case (old c maxR maxA e)
    show ?thesis using add_to_entry_mem [OF assms(2) old(2,3)] by blast
  next
    case full
    then show ?thesis using assms(2) by simp
  next
    case (new c maxR maxA)
    note s1 = new_entry_mem [OF assms(1) new(1) assms(2) new(2)]
    show ?thesis using add_to_entry_mem [OF s1(1,3) new(4)] s1(2) by simp
  qed
  then show "mem_ok live s'" "(ds', r') \<noteq> (ds, r) \<Longrightarrow> mem_cached live s' ds' r' = mem_cached live s ds' r'"
    "mem_cached live s' ds r = mem_cached live s ds r \<union> (if err = None then set fps else {})"
    by auto
qed

lemma total_cardinality_Some:
  "ttl_ok T live \<Longrightarrow> set fps \<subseteq> fset (fmdom (live (tracesCache s))) \<Longrightarrow> total_cardinality T s fps n \<noteq> None"
  by (induction fps arbitrary: n) (auto simp: ttl_ok_def fmlookup_dom_iff)

lemma in_memory_no_panic:
  assumes "ttl_ok T live" and "ds \<noteq> SignalOther"
  shows "AddAttrsToResource T s r fps ds \<noteq> None" and "AttrsExistForResource T s r fps ds \<noteq> None"
    and "ResourcesLimitExceeded T s ds \<noteq> None" and "TotalCardinalityLimitExceeded T s ds \<noteq> None"
    and "CardinalityLimitExceededMulti T s rs ds \<noteq> None"
proof -
  obtain c maxR maxA where g: "getCacheAndLimits ds s = Some (c, maxR, maxA)"
    using assms(2) cache_of_None [of ds s] by (cases "getCacheAndLimits ds s") (auto simp: cache_of_def)
  have set: "live (tc_Set T c r v) = fmupd r v (live c)" and get: "tc_Get T c' k = fmlookup (live c') k" for c' k v
    using assms(1) by (simp_all add: ttl_ok_def)
  show "AddAttrsToResource T s r fps ds \<noteq> None"
    by (simp add: AddAttrsToResource_def g get set Let_def split: option.split)
  show "TotalCardinalityLimitExceeded T s ds \<noteq> None"
    using total_cardinality_Some [OF assms(1), of "tc_Keys T (tracesCache s)" s 0] assms(1)
    by (simp add: TotalCardinalityLimitExceeded_def ttl_ok_def)
  show "AttrsExistForResource T s r fps ds \<noteq> None" "ResourcesLimitExceeded T s ds \<noteq> None"
    "CardinalityLimitExceededMulti T s rs ds \<noteq> None"
    by (simp_all add: AttrsExistForResource_def ResourcesLimitExceeded_def CardinalityLimitExceededMulti_def g)
qed

lemma AttrsExist_mem:
  "ttl_ok T live \<Longrightarrow> AttrsExistForResource T s r fps ds = Some (Inr bs) \<Longrightarrow> bs = map (\<lambda>a. a \<in> mem_cached live s ds r) fps"
  by (auto simp: AttrsExistForResource_def ttl_ok_def mem_cached_def entry_of_def dest: getCache_cache_of split: option.splits)

text \<open>The upstream cache by a finite map, without expiry; the contract holds for it.\<close>

definition fmap_ttl :: "(fp, nat) fmap ttlcache" where
  "fmap_ttl = \<lparr>tc_New = fmempty, tc_Get = fmlookup, tc_Set = (\<lambda>c k v. fmupd k v c),
     tc_Keys = (\<lambda>c. sorted_list_of_fset (fmdom c))\<rparr>"

lemma fmap_ttl_ok: "ttl_ok fmap_ttl (\<lambda>c. c)"
  by (simp add: ttl_ok_def fmap_ttl_def sorted_list_of_fset.rep_eq)

text \<open>The contract, for any upstream cache that keeps its own.\<close>

lemma in_memory_key_cache:
  assumes "ttl_ok T live"
  shows "key_cache (in_memory T) (mem_ok live) (mem_cached live)"
proof
  fix s r fps ds err s' ds' r' bs rs
  assume "mem_ok live s"
  note add = AddAttrs_mem [OF assms this]
  show "kc_AddAttrsToResource (in_memory T) s r fps ds = Some (err, s') \<Longrightarrow> mem_ok live s'"
    using add(1) by (simp add: in_memory_def)
  show "kc_AddAttrsToResource (in_memory T) s r fps ds = Some (err, s') \<Longrightarrow> (ds', r') \<noteq> (ds, r) \<Longrightarrow>
      mem_cached live s' ds' r' = mem_cached live s ds' r'"
    using add(2) by (simp add: in_memory_def)
  show "kc_AddAttrsToResource (in_memory T) s r fps ds = Some (err, s') \<Longrightarrow>
      mem_cached live s ds r \<subseteq> mem_cached live s' ds r \<and> mem_cached live s' ds r \<subseteq> mem_cached live s ds r \<union> set fps"
    using add(3) [of r fps ds err s'] by (auto simp: in_memory_def)
  show "kc_AddAttrsToResource (in_memory T) s r fps ds = Some (None, s') \<Longrightarrow> set fps \<subseteq> mem_cached live s' ds r"
    using add(3) [of r fps ds None s'] by (simp add: in_memory_def)
  show "kc_AttrsExistForResource (in_memory T) s r fps ds = Some (Inr bs) \<Longrightarrow> bs = map (\<lambda>a. a \<in> mem_cached live s ds r) fps"
    using AttrsExist_mem [OF assms] by (simp add: in_memory_def)
  show "ds \<noteq> SignalOther \<Longrightarrow>
      kc_AddAttrsToResource (in_memory T) s r fps ds \<noteq> None \<and> kc_AttrsExistForResource (in_memory T) s r fps ds \<noteq> None \<and>
      kc_ResourcesLimitExceeded (in_memory T) s ds \<noteq> None \<and> kc_TotalCardinalityLimitExceeded (in_memory T) s ds \<noteq> None \<and>
      kc_CardinalityLimitExceededMulti (in_memory T) s rs ds \<noteq> None"
    using in_memory_no_panic [OF assms] by (simp add: in_memory_def)
next
  fix s rs ds bs
  show "kc_CardinalityLimitExceededMulti (in_memory T) s rs ds = Some (Inr bs) \<Longrightarrow> length bs = length rs"
    by (auto simp: in_memory_def CardinalityLimitExceededMulti_def split: option.splits if_splits)
qed

interpretation mem_cache: key_cache "in_memory fmap_ttl" "mem_ok (\<lambda>c. c)" "mem_cached (\<lambda>c. c)"
  by (rule in_memory_key_cache [OF fmap_ttl_ok])

section \<open>Limits\<close>

text \<open>Runs: additions, and between them items that expire.\<close>

inductive cache_run :: "'c ttlcache \<Rightarrow> ('c \<Rightarrow> (fp, nat) fmap) \<Rightarrow> 'c InMemoryKeyCache \<Rightarrow> bool"
  for T live where
  new: "cache_run T live (NewInMemoryKeyCache T traces metrics logs)"
| add: "cache_run T live s \<Longrightarrow> AddAttrsToResource T s r fps ds = Some (err, s') \<Longrightarrow> cache_run T live s'"
| expire: "cache_run T live s \<Longrightarrow> live c1 \<subseteq>\<^sub>f live (tracesCache s) \<Longrightarrow> live c2 \<subseteq>\<^sub>f live (metricsCache s) \<Longrightarrow>
    live c3 \<subseteq>\<^sub>f live (logsCache s) \<Longrightarrow> cache_run T live (s\<lparr>tracesCache := c1, metricsCache := c2, logsCache := c3\<rparr>)"

definition within_limits :: "('c \<Rightarrow> (fp, nat) fmap) \<Rightarrow> 'c InMemoryKeyCache \<Rightarrow> bool" where
  "within_limits live s \<longleftrightarrow>
     (\<forall>ds c maxR maxA. getCacheAndLimits ds s = Some (c, maxR, maxA) \<longrightarrow>
        fcard (fmdom (live c)) \<le> maxR \<and> (\<forall>r e. fmlookup (live c) r = Some e \<longrightarrow> fcard (heap s e) \<le> maxA))"

lemma getCache_upd:
  "getCacheAndLimits ds (s\<lparr>heap := h\<rparr>) = getCacheAndLimits ds s"
  "getCacheAndLimits ds (s\<lparr>next_addr := n\<rparr>) = getCacheAndLimits ds s"
  by (simp_all add: getCacheAndLimits_def split: Signal.split)

lemma getCache_set_cache:
  "getCacheAndLimits ds' (set_cache ds c s) =
     (if ds' = ds then map_option (\<lambda>(_, r, a). (c, r, a)) (getCacheAndLimits ds s) else getCacheAndLimits ds' s)"
  by (cases ds; cases ds') (simp_all add: getCacheAndLimits_def set_cache_def)

lemma add_to_entry_limits:
  assumes "mem_ok live s" and "within_limits live s" and "getCacheAndLimits ds s = Some (c, maxR, maxA)"
    and "fmlookup (live c) r = Some e" and "(err, s') = add_to_entry e fps maxA s"
  shows "within_limits live s'"
proof (cases "err = None")
  case False
  then show ?thesis using assms(2,5) by (auto simp: add_to_entry_def split: if_splits)
next
  case True
  then have s': "s' = s\<lparr>heap := (heap s)(e := heap s e |\<union>| fset_of_list fps)\<rparr>" and le: "fcard (heap s e) + length fps \<le> maxA"
    using assms(5) by (auto simp: add_to_entry_def split: if_splits)
  have "card (fset (heap s e) \<union> set fps) \<le> card (fset (heap s e)) + length fps"
    using card_Un_le [of "fset (heap s e)" "set fps"] card_length [of fps] by linarith
  then have "fcard (heap s e |\<union>| fset_of_list fps) \<le> fcard (heap s e) + length fps"
    by (simp add: fcard.rep_eq fset_of_list.rep_eq)
  then have new: "fcard (heap s e |\<union>| fset_of_list fps) \<le> maxA" using le by simp
  have e: "entry_of live s ds r = Some e" using assms(3,4) getCache_cache_of [OF assms(3)] by (simp add: entry_of_def)
  show ?thesis
    unfolding within_limits_def
  proof (intro allI impI conjI)
    fix ds' c' maxR' maxA' assume "getCacheAndLimits ds' s' = Some (c', maxR', maxA')"
    then have g: "getCacheAndLimits ds' s = Some (c', maxR', maxA')" by (simp add: s' getCache_upd)
    then show "fcard (fmdom (live c')) \<le> maxR'" using assms(2) by (simp add: within_limits_def)
    fix r' e' assume l: "fmlookup (live c') r' = Some e'"
    then have "entry_of live s ds' r' = Some e'" using getCache_cache_of [OF g] by (simp add: entry_of_def)
    then have "e' = e \<Longrightarrow> ds' = ds" using e assms(1) by (auto simp: mem_ok_def)
    then show "fcard (heap s' e') \<le> maxA'"
      using new assms(2,3) g l by (cases "e' = e") (auto simp: s' within_limits_def)
  qed
qed

lemma new_entry_limits:
  fixes s :: "'c InMemoryKeyCache" and r :: fp
  assumes "ttl_ok T live" and "mem_ok live s" and "within_limits live s" and "getCacheAndLimits ds s = Some (c, maxR, maxA)"
    and "length (tc_Keys T c) < maxR"
  defines "s1 \<equiv> (set_cache ds (tc_Set T c r (next_addr s)) s)\<lparr>heap := (heap s)(next_addr s := {||}), next_addr := Suc (next_addr s)\<rparr>"
  shows "within_limits live s1" and "getCacheAndLimits ds s1 = Some (tc_Set T c r (next_addr s), maxR, maxA)"
proof -
  have keys: "length (tc_Keys T c) = fcard (fmdom (live c))" and set: "live (tc_Set T c r a) = fmupd r a (live c)" for a
    using assms(1) by (simp_all add: ttl_ok_def fcard.rep_eq distinct_card [symmetric])
  have g1: "getCacheAndLimits ds' s1 =
      (if ds' = ds then Some (tc_Set T c r (next_addr s), maxR, maxA) else getCacheAndLimits ds' s)" for ds'
    by (simp add: s1_def getCache_upd getCache_set_cache assms(4))
  then show "getCacheAndLimits ds s1 = Some (tc_Set T c r (next_addr s), maxR, maxA)" by simp
  have dom: "fcard (finsert r (fmdom (live c))) \<le> maxR"
    using fcard_finsert_disjoint [of r "fmdom (live c)"] keys assms(5) by (cases "r |\<in>| fmdom (live c)") (auto simp: finsert_absorb)
  have heap1: "heap s1 = (heap s)(next_addr s := {||})" by (simp add: s1_def)
  show "within_limits live s1"
    unfolding within_limits_def g1 heap1
  proof (intro allI impI conjI)
    fix ds' c' maxR' maxA'
    assume g: "(if ds' = ds then Some (tc_Set T c r (next_addr s), maxR, maxA) else getCacheAndLimits ds' s) = Some (c', maxR', maxA')"
    show "fcard (fmdom (live c')) \<le> maxR'"
      using g dom assms(3) by (auto simp: set within_limits_def split: if_splits)
    fix r' e' assume "fmlookup (live c') r' = Some e'"
    then have e': "e' = next_addr s \<or> e' \<noteq> next_addr s \<and> fcard (heap s e') \<le> maxA'"
      using g assms(3,4) unfolding within_limits_def set by (cases "ds' = ds") (auto simp: set split: if_splits)
    then show "fcard (((heap s)(next_addr s := {||})) e') \<le> maxA'" by (auto simp: fcard.rep_eq)
  qed
qed

lemma expire_entry:
  assumes "live c1 \<subseteq>\<^sub>f live (tracesCache s)" and "live c2 \<subseteq>\<^sub>f live (metricsCache s)" and "live c3 \<subseteq>\<^sub>f live (logsCache s)"
    and "getCacheAndLimits ds (s\<lparr>tracesCache := c1, metricsCache := c2, logsCache := c3\<rparr>) = Some (c, maxR, maxA)"
  shows "\<exists>c0. getCacheAndLimits ds s = Some (c0, maxR, maxA) \<and> live c \<subseteq>\<^sub>f live c0"
  using assms by (cases ds) (auto simp: getCacheAndLimits_def)

lemma cache_run_inv:
  assumes "ttl_ok T live"
  shows "cache_run T live s \<Longrightarrow> mem_ok live s \<and> within_limits live s"
proof (induction rule: cache_run.induct)
  case (new traces metrics logs)
  have "live (tc_New T) = fmempty" using assms by (simp add: ttl_ok_def)
  then show ?case
    by (auto simp: mem_ok_def within_limits_def entry_of_def cache_of_def getCacheAndLimits_def NewInMemoryKeyCache_def
        fcard.rep_eq split: Signal.splits)
next
  case (add s r fps ds err s')
  have "within_limits live s'"
    using assms add.hyps(2)
  proof (cases rule: AddAttrs_cases)
    case (old c maxR maxA e)
    have "fmlookup (live c) r = Some e" using old(2) getCache_cache_of [OF old(1)] by (simp add: entry_of_def)
    then show ?thesis using add_to_entry_limits [OF _ _ old(1) _ old(3)] add.IH by blast
  next
    case full
    then show ?thesis using add.IH by simp
  next
    case (new c maxR maxA)
    have "fmlookup (live (tc_Set T c r (next_addr s))) r = Some (next_addr s)" using assms by (simp add: ttl_ok_def)
    moreover note new_entry_limits [OF assms _ _ new(1,3), of r] new_entry_mem(1) [OF assms new(1) _ new(2)]
    ultimately show ?thesis using add_to_entry_limits [OF _ _ _ _ new(4)] add.IH by blast
  qed
  then show ?case using AddAttrs_mem(1) [OF assms _ add.hyps(2)] add.IH by blast
next
  case (expire s c1 c2 c3)
  let ?s = "s\<lparr>tracesCache := c1, metricsCache := c2, logsCache := c3\<rparr>"
  note old = expire_entry [OF expire.hyps(2-4)]
  have sub: "fmlookup m k = Some v \<Longrightarrow> m \<subseteq>\<^sub>f n \<Longrightarrow> fmlookup n k = Some v" for m n :: "(fp, nat) fmap" and k v
    by (simp add: fmsubset_alt_def fmpred_iff)
  have ent: "entry_of live ?s ds r = Some e \<Longrightarrow> entry_of live s ds r = Some e" for ds r e
    using sub [OF _ expire.hyps(2)] sub [OF _ expire.hyps(3)] sub [OF _ expire.hyps(4)]
    by (cases ds) (simp_all add: entry_of_def cache_of_def getCacheAndLimits_def)
  have "mem_ok live ?s" using expire.IH ent unfolding mem_ok_def by (auto, blast+)
  moreover have "within_limits live ?s"
    unfolding within_limits_def
  proof (intro allI impI conjI)
    fix ds c maxR maxA assume "getCacheAndLimits ds ?s = Some (c, maxR, maxA)"
    from old [OF this] obtain c0 where c0: "getCacheAndLimits ds s = Some (c0, maxR, maxA)" "live c \<subseteq>\<^sub>f live c0" by blast
    have "fmdom (live c) |\<subseteq>| fmdom (live c0)" using sub [OF _ c0(2)] by (auto simp: fmlookup_dom_iff)
    then show "fcard (fmdom (live c)) \<le> maxR"
      using fcard_mono [of "fmdom (live c)" "fmdom (live c0)"] expire.IH c0(1) by (force simp: within_limits_def)
    fix r e assume "fmlookup (live c) r = Some e"
    then show "fcard (heap ?s e) \<le> maxA" using sub [OF _ c0(2)] expire.IH c0(1) by (force simp: within_limits_def)
  qed
  ultimately show ?case by blast
qed


definition demo_limits :: limits where
  "demo_limits = \<lparr>l_MaxResourceFp = 1, l_MaxCardinalityPerResource = 2, l_MaxTotalCardinality = 9\<rparr>"

abbreviation demo_cache :: "(fp, nat) fmap InMemoryKeyCache" where
  "demo_cache \<equiv> NewInMemoryKeyCache fmap_ttl demo_limits demo_limits demo_limits"

lemma demo_cache_add:
  "AddAttrsToResource fmap_ttl demo_cache 7 [1, 2] SignalTraces =
     Some (None, demo_cache\<lparr>tracesCache := fmupd 7 0 fmempty, heap := (\<lambda>_. {||})(0 := {|1, 2|}), next_addr := 1\<rparr>)"
  by (simp add: AddAttrsToResource_def NewInMemoryKeyCache_def getCacheAndLimits_def fmap_ttl_def add_to_entry_def
      set_cache_def Let_def demo_limits_def sorted_list_of_fset.rep_eq fcard.rep_eq)


text \<open>The question whether there are too many resources is answered for metrics and logs by the limit of
  traces, although an addition respects their own.\<close>

theorem wrong_resource_limit:
  assumes "ttl_ok T live" and "0 < l_MaxResourceFp traces"
  shows "ResourcesLimitExceeded T (NewInMemoryKeyCache T traces \<lparr>l_MaxResourceFp = 0, l_MaxCardinalityPerResource = a,
      l_MaxTotalCardinality = b\<rparr> logs) SignalMetrics = Some False"
proof -
  have "set (tc_Keys T (tc_New T)) = {}" using assms(1) by (simp add: ttl_ok_def)
  then show ?thesis
    using assms(2) by (simp add: ResourcesLimitExceeded_def NewInMemoryKeyCache_def getCacheAndLimits_def)
qed

end
