(* ===== verification/Raw_Values.thy ===== *)
theory Raw_Values
  imports Fingerprints Go_Format
begin

text \<open>
  Attribute values as \<open>pcommon.Map.AsRaw\<close> gives them, what the verbs \<open>%v\<close> and \<open>%s\<close> print for them, and
  their flattening (\<open>utils/flatten\<close>). A Go map is the list of its entries in the order in which a loop
  visits them, which is Go's to choose.

  Theorems: when no two leaves share a flattened key, the flattened map is the map of the leaves; two
  leaves that do share one make the result depend on the order of iteration.
\<close>

section \<open>Values\<close>

datatype raw =
    RNil
  | RStr string
  | RInt int
  | RDouble go_float
  | RBool bool
  | RBytes string
  | RMap "(string \<times> raw) list"
  | RSlice "raw list"

section \<open>Printing\<close>

definition exponent_text :: "int \<Rightarrow> string" where
  "exponent_text e =
     (let ds = nat_digits (nat \<bar>e\<bar>)
      in (if e < 0 then ''e-'' else ''e+'') @ (if length ds < 2 then ''0'' else []) @ ds)"

text \<open>The digits of the shortest decimal that reads back, without trailing zeros, and the exponent of
  its first digit.\<close>

definition shortest_digits :: "rat \<Rightarrow> string \<times> int" where
  "shortest_digits a =
     (let (c, q) = shortest 17 a (decimal_exponent a) 1; ds = nat_digits (nat c)
      in (rev (dropWhile (\<lambda>d. d = CHR ''0'') (rev ds)), q + int (length ds) - 1))"

text \<open>\<open>%v\<close> of a float: the verb \<open>g\<close>, with an exponent below -4 and from 6 on.\<close>

definition fmt_float :: "go_float \<Rightarrow> string" where
  "fmt_float x =
     (case x of
        Finite q \<Rightarrow>
          if q = 0 then ''0''
          else
            (let (ds, e) = shortest_digits \<bar>q\<bar>
             in if e < -4 \<or> 6 \<le> e then
                  (if q < 0 then ''-'' else []) @ take 1 ds @ (if 1 < length ds then ''.'' else []) @ drop 1 ds @ exponent_text e
                else FormatFloat x)
      | _ \<Rightarrow> FormatFloat x)"

definition fmt_bool :: "bool \<Rightarrow> string" where
  "fmt_bool b = (if b then ''true'' else ''false'')"

definition fmt_bytes :: "string \<Rightarrow> string" where
  "fmt_bytes b = ''['' @ join (map (\<lambda>c. nat_digits (of_char c)) b) '' '' @ '']''"

text \<open>A map is printed in the order of its keys.\<close>

definition fmt_map :: "(string \<times> string) list \<Rightarrow> string" where
  "fmt_map kvs = ''map['' @ join (map (\<lambda>(k, v). k @ '':'' @ v) (sort_key fst kvs)) '' '' @ '']''"

primrec fmt_v :: "raw \<Rightarrow> string" where
  "fmt_v RNil = ''<nil>''"
| "fmt_v (RStr s) = s"
| "fmt_v (RInt i) = Itoa i"
| "fmt_v (RDouble f) = fmt_float f"
| "fmt_v (RBool b) = fmt_bool b"
| "fmt_v (RBytes b) = fmt_bytes b"
| "fmt_v (RMap kvs) = fmt_map (map (map_prod id fmt_v) kvs)"
| "fmt_v (RSlice vs) = ''['' @ join (map fmt_v vs) '' '' @ '']''"

text \<open>\<open>%s\<close> is a wrong verb for a number or a boolean, and says so.\<close>

primrec fmt_s_inner :: "raw \<Rightarrow> string" where
  "fmt_s_inner RNil = ''<nil>''"
| "fmt_s_inner (RStr s) = s"
| "fmt_s_inner (RInt i) = ''%!s(int64='' @ Itoa i @ '')''"
| "fmt_s_inner (RDouble f) = ''%!s(float64='' @ fmt_float f @ '')''"
| "fmt_s_inner (RBool b) = ''%!s(bool='' @ fmt_bool b @ '')''"
| "fmt_s_inner (RBytes b) = b"
| "fmt_s_inner (RMap kvs) = fmt_map (map (map_prod id fmt_s_inner) kvs)"
| "fmt_s_inner (RSlice vs) = ''['' @ join (map fmt_s_inner vs) '' '' @ '']''"

definition fmt_s :: "raw \<Rightarrow> string" where
  "fmt_s v = (if v = RNil then ''%!s(<nil>)'' else fmt_s_inner v)"

lemma fmt_float_examples:
  "fmt_float (Finite 25) = ''25''"
  "fmt_float (Finite (- float64 (1 / 100000))) = ''-1e-05''"
  "fmt_float (Finite (1 / 2)) = ''0.5''"
  by code_simp+

section \<open>Flattening (\<open>flatten.go\<close>)\<close>

definition fullKey :: "string \<Rightarrow> string \<Rightarrow> string" where
  "fullKey pre key = (if pre \<noteq> [] then pre @ ''.'' @ key else key)"

fun FlattenJSON :: "(string \<times> raw) list \<Rightarrow> string \<Rightarrow> (string, raw) fmap"
  and flatten_value :: "raw \<Rightarrow> string \<Rightarrow> (string, raw) fmap"
  and flatten_elements :: "nat \<Rightarrow> raw list \<Rightarrow> string \<Rightarrow> (string, raw) fmap" where
  "FlattenJSON [] pre = fmempty"
| "FlattenJSON ((key, v) # data) pre = flatten_value v (fullKey pre key) ++\<^sub>f FlattenJSON data pre"
| "flatten_value (RMap m) k = FlattenJSON m k"
| "flatten_value (RSlice vs) k = flatten_elements 0 vs k"
| "flatten_value (RInt i) k = fmupd k (RDouble (float_of_int i)) fmempty"
| "flatten_value (RDouble f) k = fmupd k (RDouble f) fmempty"
| "flatten_value (RBool b) k = fmupd k (RBool b) fmempty"
| "flatten_value (RStr s) k = fmupd k (RStr s) fmempty"
| "flatten_value RNil k = fmupd k (RStr (fmt_v RNil)) fmempty"
| "flatten_value (RBytes b) k = fmupd k (RStr (fmt_v (RBytes b))) fmempty"
| "flatten_elements i [] k = fmempty"
| "flatten_elements i (v # vs) k = flatten_value v (fullKey k (nat_digits i)) ++\<^sub>f flatten_elements (Suc i) vs k"

text \<open>The leaves in the order of the visit.\<close>

fun leaves :: "(string \<times> raw) list \<Rightarrow> string \<Rightarrow> (string \<times> raw) list"
  and leaves_value :: "raw \<Rightarrow> string \<Rightarrow> (string \<times> raw) list"
  and leaves_elements :: "nat \<Rightarrow> raw list \<Rightarrow> string \<Rightarrow> (string \<times> raw) list" where
  "leaves [] pre = []"
| "leaves ((key, v) # data) pre = leaves_value v (fullKey pre key) @ leaves data pre"
| "leaves_value (RMap m) k = leaves m k"
| "leaves_value (RSlice vs) k = leaves_elements 0 vs k"
| "leaves_value v k = [(k, v)]"
| "leaves_elements i [] k = []"
| "leaves_elements i (v # vs) k = leaves_value v (fullKey k (nat_digits i)) @ leaves_elements (Suc i) vs k"

text \<open>What is stored for a leaf.\<close>

definition stored :: "raw \<Rightarrow> raw" where
  "stored v =
     (case v of
        RInt i \<Rightarrow> RDouble (float_of_int i)
      | RDouble f \<Rightarrow> RDouble f
      | RBool b \<Rightarrow> RBool b
      | _ \<Rightarrow> RStr (fmt_v v))"

text \<open>Flattening assigns the leaves in the order of the visit; of two with the same key the last stays.\<close>

lemma stored_simps [simp]:
  "stored RNil = RStr (fmt_v RNil)" "stored (RStr s) = RStr s" "stored (RInt i) = RDouble (float_of_int i)"
  "stored (RDouble f) = RDouble f" "stored (RBool b) = RBool b" "stored (RBytes c) = RStr (fmt_v (RBytes c))"
  by (simp_all add: stored_def)

lemma map_upd_empty: "fmlookup (fmupd k v fmempty) = [k \<mapsto> v]"
  by (simp add: fun_eq_iff)

lemma flatten_leaves:
  "fmlookup (FlattenJSON data pre) = map_of (rev (map (map_prod id stored) (leaves data pre)))"
  "fmlookup (flatten_value v k) = map_of (rev (map (map_prod id stored) (leaves_value v k)))"
  "fmlookup (flatten_elements i vs k) = map_of (rev (map (map_prod id stored) (leaves_elements i vs k)))"
  by (induction data pre and v k and i vs k rule: leaves_leaves_value_leaves_elements.induct)
    (simp_all add: fmadd.rep_eq map_upd_empty)

text \<open>When the leaves have keys of their own, the flattened map holds exactly them.\<close>

theorem FlattenJSON_leaves:
  assumes "distinct (map fst (leaves data pre))"
  shows "fmlookup (FlattenJSON data pre) k = Some v \<longleftrightarrow> (\<exists>w. (k, w) \<in> set (leaves data pre) \<and> v = stored w)"
proof -
  have "distinct (map fst (rev (map (map_prod id stored) (leaves data pre))))"
    using assms by (simp add: rev_map [symmetric] comp_def)
  then have "fmlookup (FlattenJSON data pre) k = Some v \<longleftrightarrow> (k, v) \<in> set (map (map_prod id stored) (leaves data pre))"
    unfolding flatten_leaves by (simp only: map_of_eq_Some_iff set_rev)
  then show ?thesis by (force simp: image_iff)
qed

text \<open>A key with a dot and a nested key collide, and the order of iteration decides.\<close>

theorem flatten_depends_on_order:
  "fmlookup (FlattenJSON [(''a.b'', RStr x), (''a'', RMap [(''b'', RStr y)])] []) ''a.b'' = Some (RStr y)"
  "fmlookup (FlattenJSON [(''a'', RMap [(''b'', RStr y)]), (''a.b'', RStr x)] []) ''a.b'' = Some (RStr x)"
  by (simp_all add: fullKey_def)

end
