(* ===== verification/Resource_Fingerprints.thy ===== *)
theory Resource_Fingerprints
  imports Raw_Values
begin

text \<open>
  Fingerprints of resources (\<open>utils/fingerprint\<close>), by which the exporters group rows: the labels of a
  resource along a hierarchy of dimensions, then a hash of all attributes. The hash functions are those
  of \<open>Fingerprints\<close>, with the same constants.

  Theorems: an identifier consists of attributes of the resource, one per level at most, and is empty
  only if the resource has none of the labels; resources that agree on the upper levels have
  fingerprints with a common beginning, so that sorting keeps them together.
\<close>

section \<open>The hierarchy (\<open>fingerprint.go\<close>)\<close>

datatype DimensionHierarchyNode = HNode (hlabels: "string list") (subHierachies: "DimensionHierarchyNode list")

type_synonym raw_map = "(string, raw) fmap"

fun first_present :: "raw_map \<Rightarrow> string list \<Rightarrow> (string \<times> raw) list" where
  "first_present attributes [] = []"
| "first_present attributes (l # ls) =
     (case fmlookup attributes l of Some v \<Rightarrow> [(l, v)] | None \<Rightarrow> first_present attributes ls)"

fun Identifier :: "raw_map \<Rightarrow> DimensionHierarchyNode \<Rightarrow> (string \<times> raw) list"
  and first_identifier :: "raw_map \<Rightarrow> DimensionHierarchyNode list \<Rightarrow> (string \<times> raw) list" where
  "Identifier attributes (HNode labels subs) = first_present attributes labels @ first_identifier attributes subs"
| "first_identifier attributes [] = []"
| "first_identifier attributes (s # ss) =
     (let subLabels = Identifier attributes s in if subLabels \<noteq> [] then subLabels else first_identifier attributes ss)"

fun Synonyms_node :: "string \<Rightarrow> DimensionHierarchyNode \<Rightarrow> string list"
  and first_synonyms :: "string \<Rightarrow> DimensionHierarchyNode list \<Rightarrow> string list" where
  "Synonyms_node a (HNode labels subs) = (if a \<in> set labels then labels else first_synonyms a subs)"
| "first_synonyms a [] = []"
| "first_synonyms a (h # hs) = (let synonyms = Synonyms_node a h in if synonyms \<noteq> [] then synonyms else first_synonyms a hs)"

definition Synonyms :: "DimensionHierarchyNode option \<Rightarrow> string \<Rightarrow> string list" where
  "Synonyms node a = (case node of None \<Rightarrow> [] | Some n \<Rightarrow> Synonyms_node a n)"

definition service_view :: DimensionHierarchyNode where
  "service_view =
     HNode [''service.namespace'', ''k8s.namespace.name'', ''ec2.tag.service-group'']
       [HNode [''service.name'', ''cloudwatch.log.group.name'', ''k8s.deployment.name'', ''k8s.deployment.uid'',
               ''k8s.statefulset.name'', ''k8s.statefulset.uid'', ''k8s.daemonset.name'', ''k8s.daemonset.uid'',
               ''k8s.job.name'', ''k8s.job.uid'', ''k8s.cronjob.name'', ''k8s.cronjob.uid'', ''faas.name'', ''ec2.tag.service'']
         [HNode [''deployment.environment'', ''ec2.tag.env-short'', ''ec2.tag.env'', ''env'']
           [HNode [''service.instance.id'', ''k8s.pod.name'', ''k8s.pod.uid'', ''aws.ecs.task.id'', ''aws.ecs.task.arn'',
                   ''cloudwatch.log.stream'', ''cloud.resource_id'', ''faas.instance'', ''host.id'', ''host.name'',
                   ''host.ip'', ''host'']
             [HNode [''k8s.container.name'', ''container.name'', ''container_name'']
               [HNode [''component''] []]]]]]"

definition node_view :: DimensionHierarchyNode where
  "node_view =
     HNode [''cloud.availability_zone'']
       [HNode [''k8s.node.name'', ''k8s.node.uid'', ''host.id'', ''host.name'', ''host.ip'', ''host'']
         [HNode [''k8s.pod.name'', ''k8s.pod.uid'', ''aws.ecs.task.id'', ''aws.ecs.task.arn'']
           [HNode [''k8s.container.name'', ''container.name''] []]]]"

definition ResourceHierarchy :: DimensionHierarchyNode where
  "ResourceHierarchy =
     HNode [''cloud.provider'']
       [HNode [''cloud.account.id'']
         [HNode [''gcp.project'']
           [HNode [''cloud.region'', ''aws.region'']
             [HNode [''cloud.platform'', ''source_type'']
               [HNode [''k8s.cluster.name'', ''k8s.cluster.uid'', ''aws.ecs.cluster.arn''] [service_view, node_view]]]]]]"

section \<open>The hash (\<open>hash.go\<close>) and the fingerprint\<close>

definition hash_attr :: "raw_map \<Rightarrow> 64 word \<Rightarrow> string \<Rightarrow> 64 word" where
  "hash_attr attribs h k =
     hashAddByte (hashAdd (hashAddByte (hashAdd h k) 255) (fmt_v (the (fmlookup attribs k)))) 255"

definition FingerprintHash :: "raw_map \<Rightarrow> 64 word" where
  "FingerprintHash attribs =
     (if attribs = fmempty then InitialOffset
      else foldl (hash_attr attribs) InitialOffset (sorted_list_of_fset (fmdom attribs)))"

definition id_part :: "string \<times> raw \<Rightarrow> string" where
  "id_part = (\<lambda>(l, v). l @ ''='' @ fmt_s v)"

definition CalculateFingerprint :: "raw_map \<Rightarrow> DimensionHierarchyNode \<Rightarrow> string" where
  "CalculateFingerprint attributes hierarchy =
     join (map id_part (Identifier attributes hierarchy) @ [''hash='' @ nat_digits (unat (FingerprintHash attributes))]) '';''"

section \<open>Identifiers\<close>

fun tree_labels :: "DimensionHierarchyNode \<Rightarrow> string list"
  and trees_labels :: "DimensionHierarchyNode list \<Rightarrow> string list" where
  "tree_labels (HNode labels subs) = labels @ trees_labels subs"
| "trees_labels [] = []"
| "trees_labels (n # ns) = tree_labels n @ trees_labels ns"

fun height :: "DimensionHierarchyNode \<Rightarrow> nat"
  and heights :: "DimensionHierarchyNode list \<Rightarrow> nat" where
  "height (HNode labels subs) = Suc (heights subs)"
| "heights [] = 0"
| "heights (n # ns) = max (height n) (heights ns)"

lemma first_present_props:
  "length (first_present m ls) \<le> 1"
  "(l, v) \<in> set (first_present m ls) \<Longrightarrow> l \<in> set ls \<and> fmlookup m l = Some v"
  "first_present m ls = [] \<longleftrightarrow> (\<forall>l \<in> set ls. fmlookup m l = None)"
  by (induction ls) (auto split: option.splits if_splits)

lemma Identifier_sound:
  "(l, v) \<in> set (Identifier m n) \<Longrightarrow> l \<in> set (tree_labels n) \<and> fmlookup m l = Some v"
  "(l, v) \<in> set (first_identifier m ns) \<Longrightarrow> l \<in> set (trees_labels ns) \<and> fmlookup m l = Some v"
  by (induction m n and m ns rule: Identifier_first_identifier.induct)
    (auto simp: Let_def dest: first_present_props(2) split: if_splits)

lemma Identifier_empty:
  "Identifier m n = [] \<longleftrightarrow> (\<forall>l \<in> set (tree_labels n). fmlookup m l = None)"
  "first_identifier m ns = [] \<longleftrightarrow> (\<forall>l \<in> set (trees_labels ns). fmlookup m l = None)"
  by (induction m n and m ns rule: Identifier_first_identifier.induct)
    (auto simp: Let_def first_present_props(3))

lemma Identifier_length:
  "length (Identifier m n) \<le> height n"
  "length (first_identifier m ns) \<le> heights ns"
proof (induction m n and m ns rule: Identifier_first_identifier.induct)
  case (1 m labels subs)
  then show ?case using first_present_props(1) [of m labels] by simp
qed (auto simp: Let_def)



text \<open>The synonyms of a label are the labels of a node that has it; there are none for an unknown one.\<close>

theorem Synonyms_correct:
  "Synonyms None a = []"
  "Synonyms (Some n) a = [] \<longleftrightarrow> a \<notin> set (tree_labels n)"
  "Synonyms (Some n) a \<noteq> [] \<Longrightarrow> a \<in> set (Synonyms (Some n) a)"
proof -
  have empty: "Synonyms_node a n = [] \<longleftrightarrow> a \<notin> set (tree_labels n)"
    "first_synonyms a ns = [] \<longleftrightarrow> a \<notin> set (trees_labels ns)" for n ns
    by (induction a n and a ns rule: Synonyms_node_first_synonyms.induct) (auto simp: Let_def)
  have mem: "Synonyms_node a n \<noteq> [] \<Longrightarrow> a \<in> set (Synonyms_node a n)"
    "first_synonyms a ns \<noteq> [] \<Longrightarrow> a \<in> set (first_synonyms a ns)" for n ns
    by (induction a n and a ns rule: Synonyms_node_first_synonyms.induct) (auto simp: Let_def split: if_splits)
  show "Synonyms None a = []" "Synonyms (Some n) a = [] \<longleftrightarrow> a \<notin> set (tree_labels n)"
    "Synonyms (Some n) a \<noteq> [] \<Longrightarrow> a \<in> set (Synonyms (Some n) a)"
    using empty(1) mem(1) by (simp_all add: Synonyms_def)
qed

section \<open>Fingerprints side by side\<close>

lemma join_append: "ys \<noteq> [] \<Longrightarrow> xs \<noteq> [] \<Longrightarrow> join (xs @ ys) sep = join xs sep @ sep @ join ys sep"
  by (induction xs) (auto simp: join_Cons)

text \<open>Resources that agree on the first levels of the hierarchy have fingerprints that begin with
  these levels, each rendered as label and value and followed by a semicolon: the rows of one such group
  are adjacent when sorted by fingerprint.\<close>

theorem CalculateFingerprint_colocates:
  assumes "Identifier m hierarchy = common @ rest" and "common \<noteq> []"
  shows "\<exists>tail. CalculateFingerprint m hierarchy = join (map id_part common) '';'' @ '';'' @ tail"
  using assms by (auto simp: CalculateFingerprint_def join_append)

theorem CalculateFingerprint_colocates_witness:
  "\<exists>tail. CalculateFingerprint (fmupd ''service.name'' (RStr ''web'') (fmupd ''host'' (RStr ''h'') fmempty)) ResourceHierarchy =
     ''service.name=web;'' @ tail"
proof -
  have "Identifier (fmupd ''service.name'' (RStr ''web'') (fmupd ''host'' (RStr ''h'') fmempty)) ResourceHierarchy =
      [(''service.name'', RStr ''web'')] @ [(''host'', RStr ''h'')]"
    by (simp add: ResourceHierarchy_def service_view_def)
  from CalculateFingerprint_colocates [OF this] show ?thesis by (simp add: id_part_def fmt_s_def)
qed

text \<open>A label that is not a string is printed with the complaint of the verb, not with its value alone.\<close>

theorem integer_label_misprinted:
  "id_part (''host.id'', RInt 7) = ''host.id=%!s(int64=7)''"
  by code_simp

end
