(* ===== verification/Metadata_Write.thy ===== *)
theory Metadata_Write
  imports Key_Cache Resource_Fingerprints
begin

text \<open>
  The writer of the metadata exporter (\<open>writeToStatementBatch\<close>): records of resources and attributes,
  grouped by resource, of which the ones the key cache does not hold become rows of one batch. The cache
  is any \<open>KeyCache\<close>. The order in which Go ranges over its maps is the record \<open>map_order\<close>; the batch of the
  database client is \<open>stmt\<close>, which accepts rows or not and is sent or not.

  Theorems: nothing panics, and with the cache in memory the rows are exactly the latest records of
  fingerprints not cached, each once, of the resources below their limit; fingerprints are cached before
  the batch is sent, so a failed one is not repeated, and a group that does not fit into the cache is
  written again with every batch.
\<close>

section \<open>Records and rows\<close>

record statement_record =
  resourceFingerprint :: fp
  fprint :: fp
  rAttrs :: raw_map
  mattrs :: raw_map
  roundedSixHrsUnixMilli :: int

definition is_RStr :: "raw \<Rightarrow> bool" where
  "is_RStr v \<longleftrightarrow> (case v of RStr _ \<Rightarrow> True | _ \<Rightarrow> False)"

definition flattenJSONToStringMap :: "raw_map \<Rightarrow> (string, string) fmap" where
  "flattenJSONToStringMap m =
     fmmap (\<lambda>v. case v of RStr s \<Rightarrow> s | _ \<Rightarrow> []) (fmfilter (\<lambda>k. case fmlookup m k of Some v \<Rightarrow> is_RStr v | None \<Rightarrow> False) m)"

type_synonym row = "int \<times> Signal \<times> fp \<times> fp \<times> (string, string) fmap \<times> (string, string) fmap"

definition row_of :: "Signal \<Rightarrow> statement_record \<Rightarrow> row" where
  "row_of ds r =
     (roundedSixHrsUnixMilli r, ds, resourceFingerprint r, fprint r, flattenJSONToStringMap (rAttrs r),
      flattenJSONToStringMap (mattrs r))"

record map_order =
  o_records :: "statement_record list \<Rightarrow> statement_record list"
  o_groups :: "fp list \<Rightarrow> fp list"

definition order_ok :: "map_order \<Rightarrow> bool" where
  "order_ok ord \<longleftrightarrow> (\<forall>xs. mset (o_records ord xs) = mset xs) \<and> (\<forall>xs. mset (o_groups ord xs) = mset xs)"

record statement =
  stmt_Append :: "row \<Rightarrow> bool"
  stmt_Send :: "row list \<Rightarrow> bool"

section \<open>Writing\<close>

definition pair_of :: "statement_record \<Rightarrow> fp \<times> fp" where
  "pair_of r = (resourceFingerprint r, fprint r)"

text \<open>Of the records with the same pair the last one stays.\<close>

fun latest :: "statement_record list \<Rightarrow> statement_record list" where
  "latest [] = []"
| "latest (r # rs) = (if pair_of r \<in> pair_of ` set rs then latest rs else r # latest rs)"

definition removeDuplicateRecords :: "map_order \<Rightarrow> statement_record list \<Rightarrow> statement_record list" where
  "removeDuplicateRecords ord records = o_records ord (latest records)"

fun resource_fps :: "fp list \<Rightarrow> statement_record list \<Rightarrow> fp list" where
  "resource_fps seen [] = []"
| "resource_fps seen (r # rs) =
     (if resourceFingerprint r \<in> set seen then resource_fps seen rs
      else resourceFingerprint r # resource_fps (resourceFingerprint r # seen) rs)"

definition group_of :: "statement_record list \<Rightarrow> fp \<Rightarrow> statement_record list" where
  "group_of records resourceFp = filter (\<lambda>r. resourceFingerprint r = resourceFp) records"

text \<open>One resource: the records whose fingerprints are new become rows and go into the cache.\<close>

definition write_group ::
  "'s KeyCache \<Rightarrow> Signal \<Rightarrow> statement_record list \<Rightarrow> fp \<Rightarrow> 's \<Rightarrow> (statement_record list \<times> 's) option" where
  "write_group K ds records resourceFp s =
     (let g = group_of records resourceFp
      in case kc_AttrsExistForResource K s resourceFp (map fprint g) ds of
           None \<Rightarrow> None
         | Some (Inl e) \<Rightarrow> Some ([], s)
         | Some (Inr existence) \<Rightarrow>
             if length existence > length g then None
             else
               let new = map snd (filter (\<lambda>(ex, r). \<not> ex) (zip existence g))
               in if new = [] then Some ([], s)
                  else (case kc_AddAttrsToResource K s resourceFp (map fprint new) ds of
                    None \<Rightarrow> None
                  | Some (err, s) \<Rightarrow> Some (new, s)))"

fun write_groups ::
  "'s KeyCache \<Rightarrow> Signal \<Rightarrow> statement_record list \<Rightarrow> (fp \<Rightarrow> bool) \<Rightarrow> fp list \<Rightarrow> 's \<Rightarrow> (statement_record list \<times> 's) option" where
  "write_groups K ds records exceeds [] s = Some ([], s)"
| "write_groups K ds records exceeds (fp # fps) s =
     (if exceeds fp then write_groups K ds records exceeds fps s
      else (case write_group K ds records fp s of
        None \<Rightarrow> None
      | Some (new, s) \<Rightarrow>
          (case write_groups K ds records exceeds fps s of
             None \<Rightarrow> None
           | Some (rest, s) \<Rightarrow> Some (new @ rest, s))))"

text \<open>\<open>exceedsCardinality\<close> as filled from the answers; no answer is the zero value.\<close>

definition exceeds_map :: "fp list \<Rightarrow> cache_error + bool list \<Rightarrow> fp \<Rightarrow> bool" where
  "exceeds_map fps answer fp =
     (case answer of Inl _ \<Rightarrow> False | Inr bs \<Rightarrow> (case map_of (zip fps bs) fp of Some b \<Rightarrow> b | None \<Rightarrow> False))"

text \<open>The number of writes, whether sending failed, the rows that reached the database, and the cache.\<close>

record 's written =
  w_total :: nat
  w_failed :: bool
  w_rows :: "row list"
  w_cache :: 's

definition writeToStatementBatch ::
  "'s KeyCache \<Rightarrow> map_order \<Rightarrow> statement \<Rightarrow> statement_record list \<Rightarrow> Signal \<Rightarrow> 's \<Rightarrow> 's written option" where
  "writeToStatementBatch K ord stmt records ds s =
     (let records = removeDuplicateRecords ord records; nothing = \<lparr>w_total = 0, w_failed = False, w_rows = [], w_cache = s\<rparr>
      in case kc_ResourcesLimitExceeded K s ds of
           None \<Rightarrow> None
         | Some True \<Rightarrow> Some nothing
         | Some False \<Rightarrow>
             (case kc_TotalCardinalityLimitExceeded K s ds of
                None \<Rightarrow> None
              | Some True \<Rightarrow> Some nothing
              | Some False \<Rightarrow>
                  let fps = resource_fps [] records
                  in case kc_CardinalityLimitExceededMulti K s fps ds of
                       None \<Rightarrow> None
                     | Some answer \<Rightarrow>
                         (case write_groups K ds records (exceeds_map fps answer) (o_groups ord fps) s of
                            None \<Rightarrow> None
                          | Some (new, s) \<Rightarrow>
                              let rows = filter (stmt_Append stmt) (map (row_of ds) new)
                              in Some (if stmt_Send stmt rows
                                       then \<lparr>w_total = length new, w_failed = False, w_rows = rows, w_cache = s\<rparr>
                                       else \<lparr>w_total = length new, w_failed = True, w_rows = [], w_cache = s\<rparr>))))"

section \<open>Which records are written\<close>

lemma latest_props:
  "set (latest rs) \<subseteq> set rs" "pair_of ` set (latest rs) = pair_of ` set rs" "distinct (map pair_of (latest rs))"
proof -
  show "set (latest rs) \<subseteq> set rs" by (induction rs) auto
  show same: "pair_of ` set (latest rs) = pair_of ` set rs" for rs by (induction rs) auto
  show "distinct (map pair_of (latest rs))" by (induction rs) (auto simp: same)
qed

lemma removeDuplicate_props:
  assumes "order_ok ord"
  shows "set (removeDuplicateRecords ord rs) = set (latest rs)" and "distinct (map pair_of (removeDuplicateRecords ord rs))"
proof -
  have "mset (removeDuplicateRecords ord rs) = mset (latest rs)"
    using assms by (simp add: removeDuplicateRecords_def order_ok_def)
  then show "set (removeDuplicateRecords ord rs) = set (latest rs)" "distinct (map pair_of (removeDuplicateRecords ord rs))"
    using latest_props(3) [of rs] mset_eq_setD mset_eq_imp_distinct_iff [of "map pair_of (removeDuplicateRecords ord rs)"]
    by (blast, metis mset_map)
qed

lemma resource_fps_props:
  "set (resource_fps seen rs) = resourceFingerprint ` set rs - set seen" "distinct (resource_fps seen rs)"
proof -
  show same: "set (resource_fps seen rs) = resourceFingerprint ` set rs - set seen" for seen rs
    by (induction rs arbitrary: seen) auto
  show "distinct (resource_fps seen rs)" by (induction rs arbitrary: seen) (auto simp: same)
qed

lemma new_records: "map snd (filter (\<lambda>(ex, r). \<not> ex) (zip (map P g) g)) = filter (\<lambda>r. \<not> P r) g"
  by (induction g) auto

text \<open>The records of a group that are not cached.\<close>

definition uncached :: "(fp \<Rightarrow> fp set) \<Rightarrow> statement_record list \<Rightarrow> fp \<Rightarrow> statement_record list" where
  "uncached held records fp = filter (\<lambda>r. fprint r \<notin> held fp) (group_of records fp)"

context key_cache
begin

lemma write_group_right:
  assumes "inv s" and "ds \<noteq> SignalOther"
  obtains new s' where "write_group K ds records fp s = Some (new, s')" and "inv s'"
    and "\<And>ds' r. (ds', r) \<noteq> (ds, fp) \<Longrightarrow> cached s' ds' r = cached s ds' r" and "cached s ds fp \<subseteq> cached s' ds fp"
    and "new = [] \<or> new = uncached (cached s ds) records fp"
    and "(\<forall>e. kc_AttrsExistForResource K s fp (map fprint (group_of records fp)) ds \<noteq> Some (Inl e)) \<Longrightarrow>
      new = uncached (cached s ds) records fp"
proof -
  let ?g = "group_of records fp"
  let ?new = "uncached (cached s ds) records fp"
  obtain x where x: "kc_AttrsExistForResource K s fp (map fprint ?g) ds = Some x"
    using no_panic [OF assms, of fp "map fprint ?g"] by blast
  show thesis
  proof (cases x)
    case (Inl e)
    then show thesis using that [of "[]" s] assms(1) x by (simp add: write_group_def Let_def)
  next
    case (Inr bs)
    have bs: "bs = map (\<lambda>r. fprint r \<in> cached s ds fp) ?g"
      using exist_right [OF assms(1) x [unfolded Inr]] by simp
    have new: "map snd (filter (\<lambda>(ex, r). \<not> ex) (zip bs ?g)) = ?new"
      unfolding bs new_records by (simp add: uncached_def)
    have wg: "write_group K ds records fp s =
        (if ?new = [] then Some ([], s)
         else (case kc_AddAttrsToResource K s fp (map fprint ?new) ds of None \<Rightarrow> None | Some (err, s) \<Rightarrow> Some (?new, s)))"
      unfolding write_group_def Let_def x Inr option.case sum.case new by (simp only: bs length_map less_irrefl if_False)
    show thesis
    proof (cases "?new = []")
      case True
      then show thesis using that [of "[]" s] assms(1) wg by simp
    next
      case False
      obtain err s' where a: "kc_AddAttrsToResource K s fp (map fprint ?new) ds = Some (err, s')"
        using no_panic [OF assms, of fp "map fprint ?new"] by force
      show thesis
        using that [of ?new s'] wg False a add_inv [OF assms(1) a] add_others [OF assms(1) a] add_grows [OF assms(1) a] by simp
    qed
  qed
qed

lemma write_groups_right:
  assumes "ds \<noteq> SignalOther" and exact: "\<And>s r fps e. kc_AttrsExistForResource K s r fps ds \<noteq> Some (Inl e)"
  shows "inv s \<Longrightarrow> distinct fps \<Longrightarrow>
    \<exists>s'. write_groups K ds records exceeds fps s =
      Some (concat (map (uncached (cached s ds) records) (filter (\<lambda>fp. \<not> exceeds fp) fps)), s') \<and>
      inv s' \<and> (\<forall>ds r. cached s ds r \<subseteq> cached s' ds r)"
proof (induction fps arbitrary: s)
  case (Cons fp fps)
  show ?case
  proof (cases "exceeds fp")
    case True
    then show ?thesis using Cons by simp
  next
    case False
    obtain new s1 where w: "write_group K ds records fp s = Some (new, s1)" "inv s1"
      and others: "\<And>ds' r. (ds', r) \<noteq> (ds, fp) \<Longrightarrow> cached s1 ds' r = cached s ds' r" and grow: "cached s ds fp \<subseteq> cached s1 ds fp"
      and new: "new = uncached (cached s ds) records fp"
      using write_group_right [OF Cons.prems(1) assms(1), of records fp] exact by metis
    obtain s' where s': "write_groups K ds records exceeds fps s1 =
        Some (concat (map (uncached (cached s1 ds) records) (filter (\<lambda>fp. \<not> exceeds fp) fps)), s')"
      "inv s'" "\<forall>ds r. cached s1 ds r \<subseteq> cached s' ds r"
      using Cons.IH [OF w(2)] Cons.prems(2) by auto
    have same: "map (uncached (cached s1 ds) records) (filter (\<lambda>fp. \<not> exceeds fp) fps) =
        map (uncached (cached s ds) records) (filter (\<lambda>fp. \<not> exceeds fp) fps)"
    proof (intro map_cong refl)
      fix x assume "x \<in> set (filter (\<lambda>fp. \<not> exceeds fp) fps)"
      then have "cached s1 ds x = cached s ds x" using Cons.prems(2) by (intro others) auto
      then show "uncached (cached s1 ds) records x = uncached (cached s ds) records x" by (simp add: uncached_def)
    qed
    have "cached s ds' r \<subseteq> cached s' ds' r" for ds' r
      using s'(3) others [of ds' r] grow by (cases "(ds', r) = (ds, fp)") auto
    then show ?thesis using False w(1) new s'(2) s'(1) [unfolded same] by simp
  qed
qed simp

text \<open>The writer does not panic, whatever the cache answers.\<close>

lemma write_groups_total:
  assumes "ds \<noteq> SignalOther"
  shows "inv s \<Longrightarrow> \<exists>new s'. write_groups K ds records exceeds fps s = Some (new, s') \<and> inv s'"
proof (induction fps arbitrary: s)
  case (Cons fp fps)
  obtain new s1 where w: "write_group K ds records fp s = Some (new, s1)" "inv s1"
    using write_group_right [OF Cons.prems assms] by metis
  show ?case using Cons.IH [OF Cons.prems] Cons.IH [OF w(2)] w(1) by (cases "exceeds fp") auto
qed simp

lemma writeToStatementBatch_total:
  assumes "inv s" and "ds \<noteq> SignalOther"
  shows "\<exists>w. writeToStatementBatch K ord stmt records ds s = Some w \<and> inv (w_cache w)"
proof -
  let ?rs = "removeDuplicateRecords ord records" and ?fps = "resource_fps [] (removeDuplicateRecords ord records)"
  obtain a b c where ops: "kc_ResourcesLimitExceeded K s ds = Some a" "kc_TotalCardinalityLimitExceeded K s ds = Some b"
    "kc_CardinalityLimitExceededMulti K s ?fps ds = Some c"
    using no_panic [OF assms] by blast
  obtain new s' where w: "write_groups K ds ?rs (exceeds_map ?fps c) (o_groups ord ?fps) s = Some (new, s')" "inv s'"
    using write_groups_total [OF assms(2,1)] by blast
  show ?thesis using assms(1) w ops by (cases a; cases b) (simp_all add: writeToStatementBatch_def Let_def)
qed

end

section \<open>With the cache in memory\<close>

lemma in_memory_exact: "kc_AttrsExistForResource (in_memory T) s r fps ds \<noteq> Some (Inl e)"
  by (simp add: in_memory_def AttrsExistForResource_def split: option.splits)

lemma in_memory_exceeds:
  assumes "kc_CardinalityLimitExceededMulti (in_memory T) s fps ds = Some answer" and "ds \<noteq> SignalOther" and "fp \<in> set fps"
  shows "CardinalityLimitExceeded T s fp ds = Some (exceeds_map fps answer fp)"
proof -
  obtain c a b where g: "getCacheAndLimits ds s = Some (c, a, b)"
    using assms(2) by (cases ds) (auto simp: getCacheAndLimits_def)
  have "answer = Inr (map (exceeds_cardinality T s c) fps)"
    using assms(1) by (simp add: in_memory_def CardinalityLimitExceededMulti_def g)
  then show ?thesis using assms(3) by (simp add: exceeds_map_def CardinalityLimitExceeded_def g map_of_zip_map)
qed

lemma distinct_groups:
  assumes "distinct (map pair_of records)" and "distinct fps"
  shows "distinct (map pair_of (concat (map (uncached held records) fps)))"
proof -
  have inj: "inj_on pair_of (set records)" and "distinct records" using assms(1) by (simp_all add: distinct_map)
  then have "distinct (concat (map (uncached held records) fps))"
    using assms(2) by (induction fps) (auto simp: uncached_def group_of_def)
  moreover have "inj_on pair_of (set (concat (map (uncached held records) fps)))"
    by (rule inj_on_subset [OF inj]) (auto simp: uncached_def group_of_def)
  ultimately show ?thesis by (simp add: distinct_map)
qed


abbreviation demo_order :: map_order where
  "demo_order \<equiv> \<lparr>o_records = (\<lambda>rs. rs), o_groups = (\<lambda>fps. fps)\<rparr>"

abbreviation demo_stmt :: "bool \<Rightarrow> statement" where
  "demo_stmt sent \<equiv> \<lparr>stmt_Append = (\<lambda>_. True), stmt_Send = (\<lambda>_. sent)\<rparr>"

definition demo_record :: "fp \<Rightarrow> statement_record" where
  "demo_record a = \<lparr>resourceFingerprint = 7, fprint = a, rAttrs = fmempty, mattrs = fmempty, roundedSixHrsUnixMilli = 0\<rparr>"


section \<open>Defects\<close>

definition roomy_limits :: limits where
  "roomy_limits = \<lparr>l_MaxResourceFp = 9, l_MaxCardinalityPerResource = 2, l_MaxTotalCardinality = 9\<rparr>"

abbreviation roomy_cache :: "(fp, nat) fmap InMemoryKeyCache" where
  "roomy_cache \<equiv> NewInMemoryKeyCache fmap_ttl roomy_limits roomy_limits roomy_limits"

lemmas write_eval = writeToStatementBatch_def removeDuplicateRecords_def write_group_def group_of_def exceeds_map_def
  in_memory_def AddAttrsToResource_def AttrsExistForResource_def ResourcesLimitExceeded_def TotalCardinalityLimitExceeded_def
  CardinalityLimitExceededMulti_def exceeds_cardinality_def add_to_entry_def set_cache_def getCacheAndLimits_def
  NewInMemoryKeyCache_def fmap_ttl_def roomy_limits_def demo_record_def pair_of_def Let_def sorted_list_of_fset.rep_eq fcard.rep_eq

definition demo_write :: "bool \<Rightarrow> fp list \<Rightarrow> (fp, nat) fmap InMemoryKeyCache \<Rightarrow> (fp, nat) fmap InMemoryKeyCache written option" where
  "demo_write sent fps s =
     writeToStatementBatch (in_memory fmap_ttl) demo_order (demo_stmt sent) (map demo_record fps) SignalTraces s"

text \<open>Fingerprints are cached before the batch is sent: when sending fails, the record is never written.\<close>

theorem metadata_lost_after_failed_send:
  "\<exists>w1 w2. demo_write False [1] roomy_cache = Some w1 \<and> w_failed w1 \<and>
     demo_write True [1] (w_cache w1) = Some w2 \<and> \<not> w_failed w2 \<and> w_rows w2 = []"
  by (simp add: demo_write_def write_eval)

text \<open>A group that does not fit into the cache is not cached at all, and is written again each time.\<close>

theorem overfull_group_rewritten:
  "\<exists>w1 w2. demo_write True [1, 2, 3] roomy_cache = Some w1 \<and> length (w_rows w1) = 3 \<and>
     demo_write True [1, 2, 3] (w_cache w1) = Some w2 \<and> w_rows w2 = w_rows w1"
  by (simp add: demo_write_def write_eval)

end
