(* ===== verification/Metadata_Exporter.thy ===== *)
theory Metadata_Exporter
  imports Metadata_Write Span_Cache
begin

text \<open>
  The metadata exporter (\<open>exporter/metadataexporter\<close>): which attributes of spans, log records and points
  are kept, their fingerprints, and the records handed to the writer. The writer of JSON bodies is not
  modelled.

  The tracker of distinct values keeps an LRU cache per key in a cache with expiry and a capacity, both
  upstream (\<open>string_ttl\<close>, \<open>simplelru\<close>); the order in which Go ranges over maps is \<open>push_order\<close>. A panic is
  \<open>None\<close>.

  Theorems: no push panics; windows are aligned; the tracker holds at most as many values as the limit,
  so the check that more were seen never succeeds.
\<close>

section \<open>The tracker of values (\<open>vt.go\<close>)\<close>

record 'c string_ttl =
  st_New :: "nat \<Rightarrow> 'c"
  st_Get :: "'c \<Rightarrow> string \<Rightarrow> 'c \<times> nat option"
  st_Set :: "'c \<Rightarrow> string \<Rightarrow> nat \<Rightarrow> 'c"

type_synonym 'l value_lru = "('l, raw, unit) simplelru"

record ('c, 'l) ValueTracker =
  vt_ttl :: 'c
  maxValuesPerKey :: int
  vt_heap :: "nat \<Rightarrow> 'l option"
  vt_next :: nat

definition NewValueTracker :: "'c string_ttl \<Rightarrow> nat \<Rightarrow> int \<Rightarrow> ('c, 'l) ValueTracker" where
  "NewValueTracker T maxKeys maxValues =
     \<lparr>vt_ttl = st_New T maxKeys, maxValuesPerKey = maxValues, vt_heap = (\<lambda>_. None), vt_next = 0\<rparr>"

definition AddValue :: "'c string_ttl \<Rightarrow> 'l value_lru \<Rightarrow> string \<Rightarrow> raw \<Rightarrow> ('c, 'l) ValueTracker \<Rightarrow> ('c, 'l) ValueTracker" where
  "AddValue T L key v vt =
     (case st_Get T (vt_ttl vt) key of
        (c, Some a) \<Rightarrow>
          vt\<lparr>vt_ttl := c, vt_heap := (vt_heap vt)(a := map_option (\<lambda>l. fst (l_Add L l v ())) (vt_heap vt a))\<rparr>
      | (c, None) \<Rightarrow>
          (case l_New L (maxValuesPerKey vt) of
             None \<Rightarrow> vt\<lparr>vt_ttl := c\<rparr>
           | Some l \<Rightarrow>
               vt\<lparr>vt_ttl := st_Set T c key (vt_next vt), vt_heap := (vt_heap vt)(vt_next vt := Some (fst (l_Add L l v ()))),
                  vt_next := Suc (vt_next vt)\<rparr>))"

definition GetUniqueValueCount ::
  "'c string_ttl \<Rightarrow> 'l value_lru \<Rightarrow> string \<Rightarrow> ('c, 'l) ValueTracker \<Rightarrow> nat \<times> ('c, 'l) ValueTracker" where
  "GetUniqueValueCount T L key vt =
     (case st_Get T (vt_ttl vt) key of
        (c, Some a) \<Rightarrow> (case vt_heap vt a of Some l \<Rightarrow> l_Len L l | None \<Rightarrow> 0, vt\<lparr>vt_ttl := c\<rparr>)
      | (c, None) \<Rightarrow> (0, vt\<lparr>vt_ttl := c\<rparr>))"

section \<open>The exporter (\<open>exporter.go\<close>)\<close>

record LimitsConfig =
  MaxKeys :: nat
  MaxStringDistinctValues :: nat
  MaxStringLength :: nat

record tagValueCountFromDB =
  tagDataType :: string
  stringTagValueCount :: nat
  numberValueCount :: nat

type_synonym tag_counts = "(string, tagValueCountFromDB) fmap"

record ('s, 'c, 'l) metadataExporter =
  Enabled :: bool
  maxTraces :: LimitsConfig
  maxLogs :: LimitsConfig
  maxMetrics :: LimitsConfig
  keyCache :: 's
  tracesTracker :: "('c, 'l) ValueTracker"
  metricsTracker :: "('c, 'l) ValueTracker"
  logsTracker :: "('c, 'l) ValueTracker"
  logTagValueCountFromDB :: tag_counts
  tracesTagValueCountFromDB :: tag_counts
  metricsTagValueCountFromDB :: tag_counts
  alwaysIncludeTracesAttributes :: "string list"
  alwaysIncludeLogsAttributes :: "string list"
  alwaysIncludeMetricsAttributes :: "string list"

definition newMetadataExporter ::
  "'c string_ttl \<Rightarrow> 's \<Rightarrow> bool \<Rightarrow> LimitsConfig \<Rightarrow> LimitsConfig \<Rightarrow> LimitsConfig \<Rightarrow> string list \<Rightarrow> string list \<Rightarrow> string list \<Rightarrow>
     ('s, 'c, 'l) metadataExporter" where
  "newMetadataExporter T cache enabled traces logs metrics alwaysTraces alwaysLogs alwaysMetrics =
     (let tracker = (\<lambda>l. NewValueTracker T (MaxKeys l) (int (MaxStringDistinctValues l)))
      in \<lparr>Enabled = enabled, maxTraces = traces, maxLogs = logs, maxMetrics = metrics, keyCache = cache,
          tracesTracker = tracker traces, metricsTracker = tracker metrics, logsTracker = tracker logs,
          logTagValueCountFromDB = fmempty, tracesTagValueCountFromDB = fmempty, metricsTagValueCountFromDB = fmempty,
          alwaysIncludeTracesAttributes = alwaysTraces, alwaysIncludeLogsAttributes = alwaysLogs,
          alwaysIncludeMetricsAttributes = alwaysMetrics\<rparr>)"

text \<open>A query that fails leaves the counts; a row that cannot be scanned (\<open>None\<close>) is left out.\<close>

fun scan_counts :: "(string \<times> string \<times> nat \<times> nat) option list \<Rightarrow> tag_counts \<Rightarrow> tag_counts" where
  "scan_counts [] m = m"
| "scan_counts (None # rows) m = scan_counts rows m"
| "scan_counts (Some (k, t, s, n) # rows) m =
     scan_counts rows (fmupd k \<lparr>tagDataType = t, stringTagValueCount = s, numberValueCount = n\<rparr> m)"

definition store_counts :: "Signal \<Rightarrow> tag_counts \<Rightarrow> ('s, 'c, 'l) metadataExporter \<Rightarrow> ('s, 'c, 'l) metadataExporter" where
  "store_counts ds m e =
     (case ds of
        SignalLogs \<Rightarrow> e\<lparr>logTagValueCountFromDB := m\<rparr>
      | SignalTraces \<Rightarrow> e\<lparr>tracesTagValueCountFromDB := m\<rparr>
      | _ \<Rightarrow> e)"

definition updateTagValueCountFromDB ::
  "Signal \<Rightarrow> (string \<times> string \<times> nat \<times> nat) option list option \<Rightarrow> ('s, 'c, 'l) metadataExporter \<Rightarrow> ('s, 'c, 'l) metadataExporter" where
  "updateTagValueCountFromDB ds result e =
     (case result of None \<Rightarrow> e | Some rows \<Rightarrow> store_counts ds (scan_counts rows fmempty) e)"

definition counts_of :: "Signal \<Rightarrow> ('s, 'c, 'l) metadataExporter \<Rightarrow> tag_counts option" where
  "counts_of ds e =
     (case ds of
        SignalTraces \<Rightarrow> Some (tracesTagValueCountFromDB e)
      | SignalLogs \<Rightarrow> Some (logTagValueCountFromDB e)
      | SignalMetrics \<Rightarrow> Some (metricsTagValueCountFromDB e)
      | SignalOther \<Rightarrow> None)"

definition getType :: "string \<Rightarrow> Signal \<Rightarrow> ('s, 'c, 'l) metadataExporter \<Rightarrow> string" where
  "getType key ds e =
     (case counts_of ds e of
        None \<Rightarrow> ''string''
      | Some m \<Rightarrow> (case fmlookup m key of None \<Rightarrow> ''string'' | Some val \<Rightarrow> tagDataType val))"

definition always_of :: "Signal \<Rightarrow> ('s, 'c, 'l) metadataExporter \<Rightarrow> string list" where
  "always_of ds e =
     (case ds of
        SignalTraces \<Rightarrow> alwaysIncludeTracesAttributes e
      | SignalLogs \<Rightarrow> alwaysIncludeLogsAttributes e
      | SignalMetrics \<Rightarrow> alwaysIncludeMetricsAttributes e
      | SignalOther \<Rightarrow> [])"

definition max_of :: "Signal \<Rightarrow> ('s, 'c, 'l) metadataExporter \<Rightarrow> LimitsConfig option" where
  "max_of ds e =
     (case ds of
        SignalTraces \<Rightarrow> Some (maxTraces e) | SignalLogs \<Rightarrow> Some (maxLogs e) | SignalMetrics \<Rightarrow> Some (maxMetrics e)
      | SignalOther \<Rightarrow> None)"

definition shouldSkipAttributeFromDB :: "string \<Rightarrow> Signal \<Rightarrow> ('s, 'c, 'l) metadataExporter \<Rightarrow> bool" where
  "shouldSkipAttributeFromDB key ds e =
     (case (counts_of ds e, max_of ds e) of
        (Some m, Some cfgMax) \<Rightarrow>
          if key \<in> set (always_of ds e) then False
          else (case fmlookup m key of
            None \<Rightarrow> False
          | Some val \<Rightarrow>
              if tagDataType val = ''string'' then stringTagValueCount val > MaxStringDistinctValues cfgMax
              else tagDataType val = ''float64'' \<or> tagDataType val = ''int64'')
      | _ \<Rightarrow> False)"

definition signal_string :: "Signal \<Rightarrow> string" where
  "signal_string ds =
     (case ds of SignalTraces \<Rightarrow> ''traces'' | SignalMetrics \<Rightarrow> ''metrics'' | SignalLogs \<Rightarrow> ''logs'' | SignalOther \<Rightarrow> [])"

definition makeUVTKey :: "string \<Rightarrow> Signal \<Rightarrow> string" where
  "makeUVTKey key ds = key @ '':'' @ signal_string ds"

definition addToUVT ::
  "'c string_ttl \<Rightarrow> 'l value_lru \<Rightarrow> string \<Rightarrow> raw \<Rightarrow> Signal \<Rightarrow> ('s, 'c, 'l) metadataExporter \<Rightarrow> ('s, 'c, 'l) metadataExporter" where
  "addToUVT T L key v ds e =
     (case ds of
        SignalTraces \<Rightarrow> e\<lparr>tracesTracker := AddValue T L key v (tracesTracker e)\<rparr>
      | SignalMetrics \<Rightarrow> e\<lparr>metricsTracker := AddValue T L key v (metricsTracker e)\<rparr>
      | SignalLogs \<Rightarrow> e\<lparr>logsTracker := AddValue T L key v (logsTracker e)\<rparr>
      | SignalOther \<Rightarrow> e)"

definition unique_count ::
  "'c string_ttl \<Rightarrow> 'l value_lru \<Rightarrow> string \<Rightarrow> Signal \<Rightarrow> ('s, 'c, 'l) metadataExporter \<Rightarrow> nat \<times> ('s, 'c, 'l) metadataExporter" where
  "unique_count T L key ds e =
     (case ds of
        SignalTraces \<Rightarrow> (case GetUniqueValueCount T L key (tracesTracker e) of (n, vt) \<Rightarrow> (n, e\<lparr>tracesTracker := vt\<rparr>))
      | SignalMetrics \<Rightarrow> (case GetUniqueValueCount T L key (metricsTracker e) of (n, vt) \<Rightarrow> (n, e\<lparr>metricsTracker := vt\<rparr>))
      | SignalLogs \<Rightarrow> (case GetUniqueValueCount T L key (logsTracker e) of (n, vt) \<Rightarrow> (n, e\<lparr>logsTracker := vt\<rparr>))
      | SignalOther \<Rightarrow> (0, e))"

definition shouldSkipAttributeUVT ::
  "'c string_ttl \<Rightarrow> 'l value_lru \<Rightarrow> string \<Rightarrow> Signal \<Rightarrow> ('s, 'c, 'l) metadataExporter \<Rightarrow> bool \<times> ('s, 'c, 'l) metadataExporter" where
  "shouldSkipAttributeUVT T L key ds e =
     (let typ = getType key ds e
      in case max_of ds e of
           None \<Rightarrow> (False, e)
         | Some limit \<Rightarrow>
             if key \<in> set (always_of ds e) then (False, e)
             else (case unique_count T L (makeUVTKey key ds) ds e of
               (cnt, e) \<Rightarrow>
                 (typ = ''string'' \<and> MaxStringDistinctValues limit > 0 \<and> cnt > MaxStringDistinctValues limit \<or>
                  typ = ''float64'', e)))"

fun filter_keys ::
  "'c string_ttl \<Rightarrow> 'l value_lru \<Rightarrow> Signal \<Rightarrow> nat \<Rightarrow> string list \<Rightarrow> raw_map \<Rightarrow> ('s, 'c, 'l) metadataExporter \<Rightarrow>
     raw_map \<times> ('s, 'c, 'l) metadataExporter" where
  "filter_keys T L ds maxLen [] attrs e = (attrs, e)"
| "filter_keys T L ds maxLen (k # ks) attrs e =
     (case shouldSkipAttributeUVT T L k ds e of
        (True, e) \<Rightarrow> filter_keys T L ds maxLen ks (fmdrop k attrs) e
      | (False, e) \<Rightarrow>
          (case fmlookup attrs k of
             Some (RStr s) \<Rightarrow>
               if s = [] \<or> length s > maxLen then filter_keys T L ds maxLen ks attrs e
               else filter_keys T L ds maxLen ks attrs (addToUVT T L (makeUVTKey k ds) (RStr s) ds e)
           | _ \<Rightarrow> filter_keys T L ds maxLen ks attrs e))"

text \<open>The orders of the loops over maps: those of the writer, over the entries of a map to flatten, and
  over the keys of a map to filter.\<close>

record push_order = map_order +
  o_entries :: "(string \<times> raw) list \<Rightarrow> (string \<times> raw) list"
  o_keys :: "string list \<Rightarrow> string list"

definition filterAttrs ::
  "'c string_ttl \<Rightarrow> 'l value_lru \<Rightarrow> push_order \<Rightarrow> raw_map \<Rightarrow> Signal \<Rightarrow> ('s, 'c, 'l) metadataExporter \<Rightarrow>
     raw_map \<times> ('s, 'c, 'l) metadataExporter" where
  "filterAttrs T L ord attrs ds e =
     filter_keys T L ds (case max_of ds e of Some l \<Rightarrow> MaxStringLength l | None \<Rightarrow> 0)
       (o_keys ord (sorted_list_of_fset (fmdom attrs))) attrs e"

section \<open>Pushing\<close>

definition sixHoursInMs :: int where
  "sixHoursInMs = 21600000"

text \<open>Division of integers in Go truncates; the milliseconds of a time stamp are rounded down.\<close>

definition go_quot :: "int \<Rightarrow> int \<Rightarrow> int" where
  "go_quot a b = (if (a < 0) = (b < 0) then \<bar>a\<bar> div \<bar>b\<bar> else - (\<bar>a\<bar> div \<bar>b\<bar>))"

definition timestamp_UnixMilli :: "64 word \<Rightarrow> int" where
  "timestamp_UnixMilli ts = sint ts div 1000000"

definition round_six_hours :: "int \<Rightarrow> int" where
  "round_six_hours unixMilli = go_quot unixMilli sixHoursInMs * sixHoursInMs"

text \<open>The Go map built from attributes, in their order, without the ones to skip; its flattening.\<close>

fun raw_attributes :: "(string \<Rightarrow> bool) \<Rightarrow> (string \<times> raw) list \<Rightarrow> raw_map \<Rightarrow> raw_map" where
  "raw_attributes skip [] m = m"
| "raw_attributes skip ((k, v) # kvs) m = raw_attributes skip kvs (if skip k then m else fmupd k v m)"

definition flattened :: "push_order \<Rightarrow> raw_map \<Rightarrow> raw_map" where
  "flattened ord m =
     FlattenJSON (o_entries ord (map (\<lambda>k. (k, the (fmlookup m k))) (sorted_list_of_fset (fmdom m)))) []"

definition new_record :: "raw_map \<Rightarrow> raw_map \<Rightarrow> int \<Rightarrow> statement_record" where
  "new_record resource attrs unixMilli =
     \<lparr>resourceFingerprint = FingerprintHash resource, fprint = FingerprintHash attrs, rAttrs = resource, mattrs = attrs,
      roundedSixHrsUnixMilli = round_six_hours unixMilli\<rparr>"

record trace_span =
  ts_Name :: string
  ts_Attributes :: "(string \<times> raw) list"
  ts_StartTimestamp :: "64 word"

record log_rec =
  lg_Attributes :: "(string \<times> raw) list"
  lg_Timestamp :: "64 word"

definition original_body_key :: string where
  "original_body_key = ''signoz.__internal__.original_body''"

definition span_record ::
  "'c string_ttl \<Rightarrow> 'l value_lru \<Rightarrow> push_order \<Rightarrow> raw_map \<Rightarrow> trace_span \<Rightarrow> ('s, 'c, 'l) metadataExporter \<Rightarrow>
     statement_record \<times> ('s, 'c, 'l) metadataExporter" where
  "span_record T L ord resource sp e =
     (let spanAttrs = fmupd ''name'' (RStr (ts_Name sp))
            (raw_attributes (\<lambda>k. shouldSkipAttributeFromDB k SignalTraces e) (ts_Attributes sp) fmempty)
      in case filterAttrs T L ord (flattened ord spanAttrs) SignalTraces e of
           (filtered, e) \<Rightarrow> (new_record resource filtered (timestamp_UnixMilli (ts_StartTimestamp sp)), e))"

definition log_record_of ::
  "'c string_ttl \<Rightarrow> 'l value_lru \<Rightarrow> push_order \<Rightarrow> raw_map \<Rightarrow> log_rec \<Rightarrow> ('s, 'c, 'l) metadataExporter \<Rightarrow>
     statement_record \<times> ('s, 'c, 'l) metadataExporter" where
  "log_record_of T L ord resource r e =
     (let attrs = raw_attributes (\<lambda>k. k = original_body_key \<or> shouldSkipAttributeFromDB k SignalLogs e)
            (lg_Attributes r) fmempty
      in case filterAttrs T L ord (flattened ord attrs) SignalLogs e of
           (filtered, e) \<Rightarrow> (new_record resource filtered (timestamp_UnixMilli (lg_Timestamp r)), e))"

text \<open>The records of items, one after the other; the trackers change on the way.\<close>

fun each :: "('a \<Rightarrow> 'e \<Rightarrow> 'b \<times> 'e) \<Rightarrow> 'a list \<Rightarrow> 'e \<Rightarrow> 'b list \<times> 'e" where
  "each f [] e = ([], e)"
| "each f (x # xs) e = (case f x e of (y, e) \<Rightarrow> (case each f xs e of (ys, e) \<Rightarrow> (y # ys, e)))"

definition resource_records ::
  "push_order \<Rightarrow> (('s, 'c, 'l) metadataExporter \<Rightarrow> string \<Rightarrow> bool) \<Rightarrow>
   (raw_map \<Rightarrow> 'a \<Rightarrow> ('s, 'c, 'l) metadataExporter \<Rightarrow> statement_record \<times> ('s, 'c, 'l) metadataExporter) \<Rightarrow>
   (string \<times> raw) list \<times> 'a list list \<Rightarrow> ('s, 'c, 'l) metadataExporter \<Rightarrow>
   statement_record list \<times> ('s, 'c, 'l) metadataExporter" where
  "resource_records ord skip item rs e =
     (let resource = flattened ord (raw_attributes (skip e) (fst rs) fmempty)
      in each (item resource) (concat (snd rs)) e)"

definition all_records ::
  "push_order \<Rightarrow> (('s, 'c, 'l) metadataExporter \<Rightarrow> string \<Rightarrow> bool) \<Rightarrow>
   (raw_map \<Rightarrow> 'a \<Rightarrow> ('s, 'c, 'l) metadataExporter \<Rightarrow> statement_record \<times> ('s, 'c, 'l) metadataExporter) \<Rightarrow>
   ((string \<times> raw) list \<times> 'a list list) list \<Rightarrow> ('s, 'c, 'l) metadataExporter \<Rightarrow>
   statement_record list \<times> ('s, 'c, 'l) metadataExporter" where
  "all_records ord skip item rss e =
     (case each (resource_records ord skip item) rss e of (rs, e) \<Rightarrow> (concat rs, e))"

text \<open>The records are written; whatever happens, the push reports no error. The result is the rows that
  reached the database.\<close>

definition write_records ::
  "'s KeyCache \<Rightarrow> push_order \<Rightarrow> statement \<Rightarrow> Signal \<Rightarrow> statement_record list \<times> ('s, 'c, 'l) metadataExporter \<Rightarrow>
     (row list \<times> ('s, 'c, 'l) metadataExporter) option" where
  "write_records K ord stmt ds = (\<lambda>(records, e).
     map_option (\<lambda>w. (w_rows w, e\<lparr>keyCache := w_cache w\<rparr>))
       (writeToStatementBatch K (map_order.truncate ord) stmt records ds (keyCache e)))"

text \<open>\<open>None\<close> for the statement is a batch that could not be prepared.\<close>

definition metadata_PushTraces ::
  "'s KeyCache \<Rightarrow> 'c string_ttl \<Rightarrow> 'l value_lru \<Rightarrow> push_order \<Rightarrow> statement option \<Rightarrow>
     ((string \<times> raw) list \<times> trace_span list list) list \<Rightarrow> ('s, 'c, 'l) metadataExporter \<Rightarrow>
     (row list \<times> ('s, 'c, 'l) metadataExporter) option" where
  "metadata_PushTraces K T L ord stmt td e =
     (if \<not> Enabled e then Some ([], e)
      else (case stmt of
        None \<Rightarrow> Some ([], e)
      | Some st \<Rightarrow>
          write_records K ord st SignalTraces
            (all_records ord (\<lambda>e k. shouldSkipAttributeFromDB k SignalTraces e) (span_record T L ord) td e)))"

text \<open>The metrics of a scope are given by the attributes of their data points, whatever their type, each
  with the clock at the time it is reached.\<close>

definition metric_record ::
  "push_order \<Rightarrow> raw_map \<Rightarrow> (string \<times> raw) list \<times> int \<Rightarrow> ('s, 'c, 'l) metadataExporter \<Rightarrow>
     statement_record \<times> ('s, 'c, 'l) metadataExporter" where
  "metric_record ord resource = (\<lambda>(attrs, now) e.
     (new_record resource (flattened ord (raw_attributes (\<lambda>k. False) attrs fmempty)) now, e))"

definition metadata_PushMetrics ::
  "'s KeyCache \<Rightarrow> push_order \<Rightarrow> statement option \<Rightarrow>
     ((string \<times> raw) list \<times> ((string \<times> raw) list \<times> int) list list) list \<Rightarrow> ('s, 'c, 'l) metadataExporter \<Rightarrow>
     (row list \<times> ('s, 'c, 'l) metadataExporter) option" where
  "metadata_PushMetrics K ord stmt md e =
     (if \<not> Enabled e then Some ([], e)
      else (case stmt of
        None \<Rightarrow> Some ([], e)
      | Some st \<Rightarrow>
          write_records K ord st SignalMetrics
            (all_records ord (\<lambda>e k. False) (metric_record ord) md e)))"

definition attribute_Process ::
  "'s KeyCache \<Rightarrow> 'c string_ttl \<Rightarrow> 'l value_lru \<Rightarrow> push_order \<Rightarrow> statement option \<Rightarrow>
     ((string \<times> raw) list \<times> log_rec list list) list \<Rightarrow> ('s, 'c, 'l) metadataExporter \<Rightarrow>
     (row list \<times> ('s, 'c, 'l) metadataExporter) option" where
  "attribute_Process K T L ord stmt ld e =
     (case stmt of
        None \<Rightarrow> Some ([], e)
      | Some st \<Rightarrow>
          write_records K ord st SignalLogs
            (all_records ord (\<lambda>e k. shouldSkipAttributeFromDB k SignalLogs e) (log_record_of T L ord) ld e))"

definition metadata_PushLogs ::
  "'s KeyCache \<Rightarrow> 'c string_ttl \<Rightarrow> 'l value_lru \<Rightarrow> push_order \<Rightarrow> statement option \<Rightarrow>
     ((string \<times> raw) list \<times> log_rec list list) list \<Rightarrow> ('s, 'c, 'l) metadataExporter \<Rightarrow>
     (row list \<times> ('s, 'c, 'l) metadataExporter) option" where
  "metadata_PushLogs K T L ord stmt ld e = (if \<not> Enabled e then Some ([], e) else attribute_Process K T L ord stmt ld e)"

section \<open>Windows\<close>

text \<open>A record belongs to the six-hour window its time lies in.\<close>

theorem round_six_hours_window:
  assumes "0 \<le> t"
  shows "round_six_hours t \<le> t \<and> t < round_six_hours t + sixHoursInMs \<and> sixHoursInMs dvd round_six_hours t"
proof -
  have "round_six_hours t = t div 21600000 * 21600000" using assms by (simp add: round_six_hours_def go_quot_def sixHoursInMs_def)
  then show ?thesis unfolding sixHoursInMs_def by presburger
qed

section \<open>What a push leaves alone\<close>

lemma each_preserves:
  assumes "\<And>x e. P e \<Longrightarrow> P (snd (f x e))"
  shows "P e \<Longrightarrow> P (snd (each f xs e))"
proof (induction xs arbitrary: e)
  case (Cons x xs)
  then show ?case using assms [of e x] by (simp add: case_prod_beta)
qed simp

lemma all_records_preserves:
  assumes "\<And>resource x e. P e \<Longrightarrow> P (snd (item resource x e))" and "P e"
  shows "P (snd (all_records ord skip item rss e))"
proof -
  have "P (snd (resource_records ord skip item rs e))" if "P e" for rs e
    unfolding resource_records_def Let_def
    by (rule each_preserves [of P, OF assms(1) that])
  from each_preserves [of P, OF this assms(2)] show ?thesis by (simp add: all_records_def case_prod_beta)
qed

text \<open>Filtering changes the trackers only.\<close>

definition tracker_step ::
  "'c string_ttl \<Rightarrow> 'l value_lru \<Rightarrow> (('s, 'c, 'l) metadataExporter \<Rightarrow> bool) \<Rightarrow> bool" where
  "tracker_step T L P \<longleftrightarrow>
     (\<forall>e key v ds. P e \<longrightarrow> P (addToUVT T L key v ds e)) \<and> (\<forall>e key ds. P e \<longrightarrow> P (snd (unique_count T L key ds e)))"

lemma shouldSkipUVT_preserves:
  assumes "tracker_step T L P" and "P e"
  shows "P (snd (shouldSkipAttributeUVT T L k ds e))"
  using assms by (auto simp: shouldSkipAttributeUVT_def tracker_step_def Let_def case_prod_beta split: option.splits)

lemma filter_keys_preserves:
  assumes "tracker_step T L P"
  shows "P e \<Longrightarrow> P (snd (filter_keys T L ds maxLen ks attrs e))"
proof (induction ks arbitrary: attrs e)
  case (Cons k ks)
  obtain b e1 where b: "shouldSkipAttributeUVT T L k ds e = (b, e1)" by fastforce
  have e1: "P e1" using shouldSkipUVT_preserves [OF assms Cons.prems, of k ds] by (simp add: b)
  then have "P (addToUVT T L (makeUVTKey k ds) v ds e1)" for v using assms by (simp add: tracker_step_def)
  then show ?case
    using Cons.IH e1 by (cases b) (simp_all add: b split: option.split raw.split)
qed simp

lemma records_preserve:
  assumes "tracker_step T L P" and "P e"
  shows "P (snd (span_record T L ord resource sp e))" and "P (snd (log_record_of T L ord resource r e))"
  using filter_keys_preserves [OF assms]
  by (simp_all add: span_record_def log_record_of_def filterAttrs_def Let_def case_prod_beta)

lemma keyCache_step: "tracker_step T L (\<lambda>e. keyCache e = s)"
  by (auto simp: tracker_step_def addToUVT_def unique_count_def case_prod_beta split: Signal.split)

lemma all_records_keyCache:
  "keyCache (snd (all_records ord skip (span_record T L ord) td e)) = keyCache e"
  "keyCache (snd (all_records ord skip (log_record_of T L ord) ld e)) = keyCache e"
  "keyCache (snd (all_records ord skip (metric_record ord) md e)) = keyCache e"
  by (rule all_records_preserves [where P = "\<lambda>e'. keyCache e' = keyCache e"];
      auto simp: records_preserve [OF keyCache_step] metric_record_def)+

context key_cache
begin

lemma write_records_total:
  assumes "inv (keyCache (snd r))" and "ds \<noteq> SignalOther"
  shows "\<exists>rows e'. write_records K ord stmt ds r = Some (rows, e') \<and> inv (keyCache e')"
  using writeToStatementBatch_total [OF assms, of "map_order.truncate ord" stmt "fst r"]
  by (auto simp: write_records_def case_prod_beta)

text \<open>No push panics, whatever the cache answers.\<close>

lemma push_total:
  fixes e :: "('s, 'c, 'l) metadataExporter"
  assumes "inv (keyCache e)"
  shows "\<exists>rows e'. metadata_PushTraces K T L ord stmt td e = Some (rows, e') \<and> inv (keyCache e')"
    and "\<exists>rows e'. metadata_PushMetrics K ord stmt md e = Some (rows, e') \<and> inv (keyCache e')"
    and "\<exists>rows e'. metadata_PushLogs K T L ord stmt ld e = Some (rows, e') \<and> inv (keyCache e')"
proof -
  have w: "\<exists>rows e'. write_records K ord st ds r = Some (rows, e') \<and> inv (keyCache e')"
    if "keyCache (snd r) = keyCache e" and "ds \<noteq> SignalOther" for st ds and r :: "statement_record list \<times> ('s, 'c, 'l) metadataExporter"
    using write_records_total [of r ds ord st] assms that by simp
  show "\<exists>rows e'. metadata_PushTraces K T L ord stmt td e = Some (rows, e') \<and> inv (keyCache e')"
    using assms w [OF all_records_keyCache(1)] by (cases stmt) (simp_all add: metadata_PushTraces_def)
  show "\<exists>rows e'. metadata_PushMetrics K ord stmt md e = Some (rows, e') \<and> inv (keyCache e')"
    using assms w [OF all_records_keyCache(3)] by (cases stmt) (simp_all add: metadata_PushMetrics_def)
  show "\<exists>rows e'. metadata_PushLogs K T L ord stmt ld e = Some (rows, e') \<and> inv (keyCache e')"
    using assms w [OF all_records_keyCache(2)] by (cases stmt) (simp_all add: metadata_PushLogs_def attribute_Process_def)
qed

end

text \<open>With the cache in memory, in any state a run of it can reach, no push of traces, metrics or logs
  panics: the entries the writer asks about exist, and the answers are as many as the questions.\<close>

theorem metadata_push_total:
  assumes "ttl_ok C live" and "mem_ok live (keyCache e)"
  shows "metadata_PushTraces (in_memory C) T L ord stmt td e \<noteq> None \<and> metadata_PushMetrics (in_memory C) ord stmt md e \<noteq> None \<and>
    metadata_PushLogs (in_memory C) T L ord stmt ld e \<noteq> None"
  using key_cache.push_total [OF in_memory_key_cache [OF assms(1)] assms(2)] by (metis option.distinct(1))

section \<open>Distinct values\<close>

text \<open>What the upstream LRU cache documents of its size: a new one has the capacity asked for, and it never
  holds more than its capacity.\<close>

definition lru_bounded :: "('l, 'k, 'v) simplelru \<Rightarrow> ('l \<Rightarrow> int) \<Rightarrow> bool" where
  "lru_bounded L capacity \<longleftrightarrow>
     (\<forall>n l. l_New L n = Some l \<longrightarrow> capacity l = n \<and> int (l_Len L l) \<le> n) \<and>
     (\<forall>l k v. capacity (fst (l_Add L l k v)) = capacity l \<and>
        (int (l_Len L l) \<le> capacity l \<longrightarrow> int (l_Len L (fst (l_Add L l k v))) \<le> capacity l))"

definition tracker_ok :: "'l value_lru \<Rightarrow> ('l \<Rightarrow> int) \<Rightarrow> LimitsConfig \<Rightarrow> ('c, 'l) ValueTracker \<Rightarrow> bool" where
  "tracker_ok L capacity limit vt \<longleftrightarrow> maxValuesPerKey vt = int (MaxStringDistinctValues limit) \<and>
     (\<forall>a l. vt_heap vt a = Some l \<longrightarrow> capacity l = maxValuesPerKey vt \<and> int (l_Len L l) \<le> maxValuesPerKey vt)"

lemma AddValue_ok:
  assumes "lru_bounded L capacity" and "tracker_ok L capacity limit vt"
  shows "tracker_ok L capacity limit (AddValue T L key v vt)"
proof -
  note old = assms(2) [unfolded tracker_ok_def, THEN conjunct2, rule_format]
  have grow: "capacity (fst (l_Add L l k w)) = capacity l"
    "capacity l = int m \<Longrightarrow> l_Len L l \<le> m \<Longrightarrow> l_Len L (fst (l_Add L l k w)) \<le> m" for l k w m
  proof -
    from assms(1) have step: "capacity (fst (l_Add L l k w)) = capacity l \<and>
        (int (l_Len L l) \<le> capacity l \<longrightarrow> int (l_Len L (fst (l_Add L l k w))) \<le> capacity l)"
      unfolding lru_bounded_def by blast
    then show "capacity (fst (l_Add L l k w)) = capacity l" by blast
    show "capacity l = int m \<Longrightarrow> l_Len L l \<le> m \<Longrightarrow> l_Len L (fst (l_Add L l k w)) \<le> m" using step by simp
  qed
  have new: "l_New L n = Some l \<Longrightarrow> capacity l = n \<and> int (l_Len L l) \<le> n" for n l
    using assms(1) by (simp add: lru_bounded_def)
  show ?thesis
  proof (cases "st_Get T (vt_ttl vt) key")
    case (Pair c r)
    show ?thesis
    proof (cases r)
      case (Some a)
      then show ?thesis using assms(2) Pair old grow by (auto simp: AddValue_def tracker_ok_def split: if_splits)
    next
      case None
      show ?thesis
      proof (cases "l_New L (maxValuesPerKey vt)")
        case (Some l)
        then show ?thesis
          using assms(2) Pair None old grow [of l] new [OF Some] by (auto simp: AddValue_def tracker_ok_def split: if_splits)
      qed (use assms(2) Pair None in \<open>auto simp: AddValue_def tracker_ok_def\<close>)
    qed
  qed
qed

lemma Get_ok:
  "tracker_ok L capacity limit vt \<Longrightarrow> tracker_ok L capacity limit (snd (GetUniqueValueCount T L key vt))"
  by (auto simp: GetUniqueValueCount_def tracker_ok_def split: prod.split option.split)

lemma count_bounded:
  assumes "tracker_ok L capacity limit vt"
  shows "fst (GetUniqueValueCount T L key vt) \<le> MaxStringDistinctValues limit"
  using assms by (auto simp: GetUniqueValueCount_def tracker_ok_def split: prod.split option.split)

definition exporter_ok :: "'l value_lru \<Rightarrow> ('l \<Rightarrow> int) \<Rightarrow> ('s, 'c, 'l) metadataExporter \<Rightarrow> bool" where
  "exporter_ok L capacity e \<longleftrightarrow>
     tracker_ok L capacity (maxTraces e) (tracesTracker e) \<and> tracker_ok L capacity (maxMetrics e) (metricsTracker e) \<and>
     tracker_ok L capacity (maxLogs e) (logsTracker e)"

lemma exporter_step: "lru_bounded L capacity \<Longrightarrow> tracker_step T L (exporter_ok L capacity)"
  by (auto simp: tracker_step_def exporter_ok_def addToUVT_def unique_count_def case_prod_beta AddValue_ok Get_ok
      split: Signal.split)

text \<open>Runs of the exporter: pushes, and updates of the counts from the database.\<close>

inductive exporter_run ::
  "'s KeyCache \<Rightarrow> 'c string_ttl \<Rightarrow> 'l value_lru \<Rightarrow> ('s, 'c, 'l) metadataExporter \<Rightarrow> bool" for K T L where
  run_new: "exporter_run K T L (newMetadataExporter T cache enabled traces logs metrics alwaysT alwaysL alwaysM)"
| run_traces: "exporter_run K T L e \<Longrightarrow> metadata_PushTraces K T L ord stmt td e = Some (rows, e') \<Longrightarrow> exporter_run K T L e'"
| run_metrics: "exporter_run K T L e \<Longrightarrow> metadata_PushMetrics K ord stmt md e = Some (rows, e') \<Longrightarrow> exporter_run K T L e'"
| run_logs: "exporter_run K T L e \<Longrightarrow> metadata_PushLogs K T L ord stmt ld e = Some (rows, e') \<Longrightarrow> exporter_run K T L e'"
| run_counts: "exporter_run K T L e \<Longrightarrow> exporter_run K T L (updateTagValueCountFromDB ds result e)"

lemma exporter_ok_upd [simp]: "exporter_ok L capacity (e\<lparr>keyCache := c\<rparr>) = exporter_ok L capacity e"
  by (simp add: exporter_ok_def)

lemma write_records_ok:
  "write_records K ord stmt ds r = Some (rows, e') \<Longrightarrow> exporter_ok L capacity (snd r) \<Longrightarrow> exporter_ok L capacity e'"
  by (auto simp: write_records_def case_prod_beta)

lemma all_records_ok:
  assumes "lru_bounded L capacity" and "exporter_ok L capacity e"
  shows "exporter_ok L capacity (snd (all_records ord skip (span_record T L ord) td e))"
    and "exporter_ok L capacity (snd (all_records ord skip (log_record_of T L ord) ld e))"
    and "exporter_ok L capacity (snd (all_records ord skip (metric_record ord) md e))"
  by (rule all_records_preserves [where P = "exporter_ok L capacity"];
      simp add: assms records_preserve [OF exporter_step [OF assms(1)]] metric_record_def case_prod_beta)+

lemma exporter_run_ok:
  assumes "lru_bounded L capacity"
  shows "exporter_run K T L e \<Longrightarrow> exporter_ok L capacity e"
proof (induction rule: exporter_run.induct)
  case run_new
  show ?case by (simp add: exporter_ok_def newMetadataExporter_def NewValueTracker_def tracker_ok_def Let_def)
next
  case (run_traces e ord stmt td rows e')
  then show ?case
    by (auto simp: metadata_PushTraces_def elim: write_records_ok [OF _ all_records_ok(1) [OF assms]] split: if_splits option.splits)
next
  case (run_metrics e ord stmt md rows e')
  then show ?case
    by (auto simp: metadata_PushMetrics_def elim: write_records_ok [OF _ all_records_ok(3) [OF assms]] split: if_splits option.splits)
next
  case (run_logs e ord stmt ld rows e')
  then show ?case
    by (auto simp: metadata_PushLogs_def attribute_Process_def elim: write_records_ok [OF _ all_records_ok(2) [OF assms]]
        split: if_splits option.splits)
next
  case (run_counts e ds result)
  then show ?case
    by (auto simp: updateTagValueCountFromDB_def store_counts_def exporter_ok_def split: option.split Signal.split)
qed

text \<open>The limit on distinct values does not work through the tracker: its caches hold at most as many
  values as the limit, the check asks for more, and so in no run is a string attribute left out because
  too many of its values were seen.\<close>

theorem distinct_values_never_limited:
  assumes "lru_bounded L capacity" and "exporter_run K T L e" and "getType key ds e = ''string''"
  shows "\<not> fst (shouldSkipAttributeUVT T L key ds e)"
proof -
  have ok: "exporter_ok L capacity e" by (rule exporter_run_ok [OF assms(1,2)])
  have le: "max_of ds e = Some limit \<Longrightarrow> fst (unique_count T L k ds e) \<le> MaxStringDistinctValues limit" for k limit
    using ok count_bounded by (cases ds) (force simp: exporter_ok_def max_of_def unique_count_def case_prod_beta)+
  show ?thesis
  proof (cases "max_of ds e")
    case (Some limit)
    from le [OF this, of "makeUVTKey key ds"] show ?thesis
      using assms(3) Some by (simp add: shouldSkipAttributeUVT_def Let_def case_prod_beta)
  qed (simp add: shouldSkipAttributeUVT_def)
qed

text \<open>Upstream caches for the witnesses: a finite map, and the most recent values.\<close>

definition fmap_string_ttl :: "(string, nat) fmap string_ttl" where
  "fmap_string_ttl = \<lparr>st_New = (\<lambda>n. fmempty), st_Get = (\<lambda>c k. (c, fmlookup c k)), st_Set = (\<lambda>c k v. fmupd k v c)\<rparr>"

definition recent_lru :: "(nat \<times> 'k list, 'k, unit) simplelru" where
  "recent_lru =
     \<lparr>l_New = (\<lambda>n. if 0 < n then Some (nat n, []) else None),
      l_Add = (\<lambda>(n, ks) k v. ((n, take n (k # removeAll k ks)), length (k # removeAll k ks) > n, [])),
      l_Get = (\<lambda>l k. (l, if k \<in> set (snd l) then Some () else None)),
      l_Contains = (\<lambda>l k. k \<in> set (snd l)),
      l_Len = (\<lambda>l. length (snd l)),
      l_Purge = (\<lambda>l. ((fst l, []), []))\<rparr>"

lemma recent_lru_bounded: "lru_bounded recent_lru (\<lambda>l. int (fst l))"
  by (auto simp: lru_bounded_def recent_lru_def split: if_splits)

definition demo_limit :: LimitsConfig where
  "demo_limit = \<lparr>MaxKeys = 5, MaxStringDistinctValues = 1, MaxStringLength = 9\<rparr>"

definition demo_exporter :: "((fp, nat) fmap InMemoryKeyCache, (string, nat) fmap, nat \<times> raw list) metadataExporter" where
  "demo_exporter = newMetadataExporter fmap_string_ttl demo_cache True demo_limit demo_limit demo_limit [] [] []"

theorem distinct_values_never_limited_witness:
  "\<not> fst (shouldSkipAttributeUVT fmap_string_ttl recent_lru ''user'' SignalTraces demo_exporter)"
proof -
  have run: "exporter_run (in_memory fmap_ttl) fmap_string_ttl recent_lru demo_exporter"
    unfolding demo_exporter_def by (rule run_new)
  have "getType ''user'' SignalTraces demo_exporter = ''string''"
    by (simp add: getType_def counts_of_def demo_exporter_def newMetadataExporter_def)
  from distinct_values_never_limited [OF recent_lru_bounded run this] show ?thesis .
qed

theorem metadata_push_total_witness:
  "\<forall>ord stmt td. metadata_PushTraces (in_memory fmap_ttl) fmap_string_ttl recent_lru ord stmt td demo_exporter \<noteq> None"
proof -
  have "mem_ok (\<lambda>c. c) (keyCache demo_exporter)"
    using cache_run_inv [OF fmap_ttl_ok cache_run.new] by (simp add: demo_exporter_def newMetadataExporter_def Let_def)
  from metadata_push_total [OF fmap_ttl_ok this] show ?thesis by blast
qed

end
