(* ===== verification/Spec2Isabelle.thy ===== *)
theory Spec2Isabelle
  imports Migration_Catalog Sampling_Processor Stanza_Like Stanza_Properties Logs_Pipeline Regex_Cache
    Time_Bucketed_Set Metrics_Write Span_Properties Span_Mapper Llm_Pricing Key_Checks
    Metadata_Exporter
begin

text \<open>
  A verification development for the SigNoz OpenTelemetry collector.

  \<^bold>\<open>The program.\<close> The repository builds two binaries. The collector (\<open>cmd/signozotelcollector\<close>)
  is an OpenTelemetry collector with SigNoz's receivers, processors, connectors and exporters; before
  it serves telemetry, its \<open>migrate\<close> sub-commands bring the ClickHouse schema up to date. The
  schema migrator (\<open>cmd/signozschemamigrator\<close>) is the library those commands call, and a binary of
  its own. Modelled here are the schema migrator with the migrate commands, the tail sampling processor
  (\<open>processor/signoztailsampler\<close>), the logs pipeline (\<open>processor/signozlogspipelineprocessor\<close>), the
  metrics exporter (\<open>exporter/signozclickhousemetrics\<close>) with the fingerprints of series
  (\<open>internal/common/fingerprint\<close>), the span metrics processor
  (\<open>processor/signozspanmetricsprocessor\<close>), the span mapper (\<open>processor/signozspanmapperprocessor\<close>), LLM
  pricing (\<open>processor/signozllmpricingprocessor\<close>), the metadata exporter (\<open>exporter/metadataexporter\<close>) with the
  fingerprints of resources (\<open>utils/fingerprint\<close>), the time-bucketed set (\<open>pkg/timebucketedset\<close>), the key
  checks (\<open>pkg/keycheck\<close>) and the deduplication of tags (\<open>pkg/tagdedup\<close>).

  \<^bold>\<open>Schema migrator.\<close> A migration is a numbered list of operations for one of six databases. The
  manager renders an operation to SQL, waits until the cluster is quiet, writes an \<open>in-progress\<close>
  row to \<open>schema_migrations_v2\<close>, executes the statement, waits again and marks the row \<open>finished\<close>,
  or \<open>failed\<close> with the error.
  \<^item> \<open>Go_Prelude\<close>: Go's \<open>strings.Join\<close>, \<open>strconv.Itoa\<close> and \<open>strings.Contains\<close>, balanced text,
    generic lemmas.
  \<^item> \<open>Sql_Columns\<close> (\<open>column.go\<close>): column types, codecs, settings and their rendering; a nil
    interface value is a constructor, and calling a method on it is the panic it is in Go.
  \<^item> \<open>Sql_Tables\<close> (\<open>table.go\<close>, \<open>Index\<close>, \<open>Projection\<close>): the five engines. The locale
    \<open>sql_target\<close> states what \<open>WithReplication\<close> and \<open>ToSQL\<close> of an engine promise.
  \<^item> \<open>Sql_Operations\<close> (\<open>op.go\<close> and the five \<open>*_operations.go\<close>): one record per operation, its
    attributes (\<open>IsMutation\<close>, \<open>IsIdempotent\<close>, \<open>IsLightweight\<close>, \<open>ForceMigrate\<close>,
    \<open>ShouldWaitForDistributionQueue\<close>), \<open>OnCluster\<close>, \<open>WithReplication\<close> and \<open>ToSQL\<close>; the Go interface
    is the datatype \<open>Operation\<close>. The locale \<open>migration_operation\<close> is the contract the manager relies on.
    Theorems: when rendering panics, that the cluster reaches every statement but that of CREATE
    PROJECTION, what \<open>WithReplication\<close> changes.
  \<^item> \<open>Migration_Effects\<close>: computations over the manager's state. ClickHouse, its client, the
    backoff package and \<open>net/netip\<close> are outside the repository: the record \<open>env\<close> holds one function
    per kind of request, whose answer may depend on every request made before. The history of
    requests is part of the state, so the order of effects is what theorems can speak about.
  \<^item> \<open>Migration_Manager\<close> (\<open>manager.go\<close>): host discovery and its cache, connections, the polling
    loops, status rows, squashed migrations, \<open>RunOperation\<close> and the four migration commands.
  \<^item> \<open>Migration_Protocol\<close>, \<open>Migration_Liveness\<close>: which operations either executor runs, the
    order of status writes and execution, what an error leaves behind, that a second run of the
    synchronous command is silent, that every command returns, that it succeeds on a healthy cluster.
  \<^item> \<open>Migration_Literals\<close>, \<open>Migrations_Logs\<close>, \<open>Migrations_Metrics\<close>, \<open>Migrations_Traces\<close>,
    \<open>Migrations_Others\<close>: every migration the repository ships (\<open>*_migrations.go\<close>), one definition per
    migration, written with one constructor per kind of Go literal.
  \<^item> \<open>Migration_Catalog\<close>: what the shipped lists have to satisfy, proved of them: identifiers ascend,
    one executor runs each migration, a fresh installation refers to no table that is not there, the
    synchronous command brings a healthy cluster through all of them.
  \<^item> \<open>Migrate_Commands\<close>, \<open>Migrate_Properties\<close> (\<open>cmd/signozotelcollector/migrate\<close>): readiness,
    bootstrap, up and check with their retry loops. Up establishes what check tests.

  \<^bold>\<open>Tail sampler.\<close> Spans are grouped by trace; a trace waits in a pipeline of batches, one batch per
  tick, and is then decided by the policies and sent or dropped. Its memory is bounded by a channel
  of trace identifiers that deletes the oldest trace when the map is full.
  \<^item> \<open>Sampling_Policies\<close> (\<open>internal/sampling\<close>, \<open>evaluator.go\<close>): the decisions, the trace data, the
    iterators of \<open>util.go\<close>, every policy, \<open>And\<close>, \<open>Composite\<close> and the default evaluator, as one
    datatype \<open>evaluator\<close> with the state the policies keep between calls, and \<open>Evaluate\<close>. The
    regular expressions, the LRU cache, the trace state parser and the clock are the record \<open>deps\<close>;
    the clock is read once per evaluation.
  \<^item> \<open>Go_Floats\<close>, \<open>Sampling_Percentage\<close>: binary64 arithmetic as the code uses it, and the threshold of
    the probabilistic policy: monotone and accurate.
  \<^item> \<open>Sampling_Properties\<close>: filters against references that keep no state, budgets of the rate limited
    policies per second (locale \<open>span_budget\<close>, interpreted for both), the default evaluator.
  \<^item> \<open>Sampling_Batcher\<close> (\<open>internal/idbatcher\<close>): the batcher with its channel and goroutine, a
    refinement of a queue (locale \<open>id_queue\<close>).
  \<^item> \<open>Sampling_Processor\<close> (\<open>processor.go\<close>, \<open>config.go\<close>): reception, deletion and ticks as operations,
    and the interleavings of one receiver and the ticker as an inductive step relation. Theorems:
    the memory bound in every reachable state, no stuck state, the decision on a trace, no span lost.

  \<^bold>\<open>Logs pipeline.\<close> Log records become entries, run through a chain of operators and are grouped back
  by resource and scope.
  \<^item> \<open>Go_Utf8\<close>: runes and their bytes, as \<open>range\<close> over a string sees them.
  \<^item> \<open>Stanza_Paths\<close>, \<open>Stanza_Entry\<close> (\<open>stanza/entry\<close>): paths in JSON notation and their printing, dynamic
    values, entries, and reading, setting, merging and deleting a field of the body. A body that is text
    is parsed once and cached in an attribute. Values are immutable here: a map reachable from two
    places is two maps.
  \<^item> \<open>Stanza_Operators\<close>, \<open>Stanza_Parsers\<close> (\<open>stanza/operator\<close>): the transformer and parser bases with
    their error handling, and the operators. Expressions, clocks and the upstream helpers are arguments.
  \<^item> \<open>Stanza_Properties\<close>: normalizing leaves a map, flattening leaves no map inside.
  \<^item> \<open>Stanza_Like\<close> (\<open>helper/like.go\<close>): the tiers of a compiled LIKE pattern, down to the regular
    expression, against LIKE itself.
  \<^item> \<open>Regex_Cache\<close> (\<open>operators/regex\<close>): the cached parser answers as the matcher does.
  \<^item> \<open>Logs_Convert\<close>, \<open>Logs_Pipeline\<close> (\<open>utils.go\<close>, \<open>processor.go\<close>): the conversion is the grouping it
    should be, and entries are neither lost nor repeated while operators send on error.

  \<^bold>\<open>Metrics exporter.\<close> A request becomes a batch of rows for four tables, written in parallel.
  \<^item> \<open>Go_Format\<close>: float values and \<open>strconv.FormatFloat\<close>.
  \<^item> \<open>Fingerprints\<close>: attributes, hashes, reduction and labels; independent of order, and read back.
  \<^item> \<open>Metrics_Batch\<close> (\<open>batch.go\<close>), \<open>Metrics_Rules\<close> (\<open>rules.go\<close>): rows, deduplicated metadata, reduction
    rules and reducers. Reducing is fingerprinting without the dropped labels; protected labels stay.
  \<^item> \<open>Metrics_Exporter\<close> (\<open>process*\<close>, \<open>prepareBatch\<close>), \<open>Metrics_Series\<close>: the rows of every metric type; the
    samples are the ones the telemetry asks for, each with its series.
  \<^item> \<open>Metrics_Write\<close> (\<open>writeBatch\<close>): the statements, their failures and the cache of series.

  \<^bold>\<open>Time-bucketed set.\<close> \<open>Time_Bucketed_Set\<close>: the identities written per bucket of time. \<open>Plan\<close> gives up
  its lock to create a bucket, so its program points and the interleavings of any number of calls are
  modelled; the number of caches is bounded, and no write is skipped that was not made.

  \<^bold>\<open>Span metrics.\<close> Spans are aggregated into five tables of histograms by a key built from their
  dimensions; a ticker exports the tables.
  \<^item> \<open>Span_Cache\<close> (\<open>internal/cache\<close>): the cache of the dimensions of a key over the upstream LRU cache,
    whose documented behaviour is \<open>lru_ok\<close>; what was added stays readable until evicted items are removed.
  \<^item> \<open>Span_Values\<close> (\<open>config.go\<close>, parts of \<open>processor.go\<close>): values, dimensions, remote addresses, time
    buckets, histograms with their binary search.
  \<^item> \<open>Span_Metrics\<close>, \<open>Span_Export\<close> (\<open>processor.go\<close>): the state, keys, labels, aggregation; collection, reset,
    \<open>Start\<close>, \<open>Shutdown\<close>, and runs of calls and exports as an inductive relation.
  \<^item> \<open>Span_Counts\<close>, \<open>Span_Properties\<close>: the invariant, that no export fails, that a delta export counts each
    accepted span once, that the names tracked are bounded. \<open>Span_Keys\<close>: what keys determine, and defects.

  \<^bold>\<open>Metadata exporter.\<close> Attributes of telemetry become rows, one per pair of fingerprints of a resource and
  of the attributes of an item, as long as a cache of fingerprints does not know the pair.
  \<^item> \<open>Raw_Values\<close> (\<open>utils/flatten\<close>), \<open>Resource_Fingerprints\<close> (\<open>utils/fingerprint\<close>): raw values, their printing and
    flattening; identifiers along the hierarchy of dimensions, hashes.
  \<^item> \<open>Key_Cache\<close> (\<open>cache/inmemory.go\<close>): the locale \<open>key_cache\<close> is the contract of the interface \<open>KeyCache\<close>; the
    cache in memory keeps it and stays within its limits.
  \<^item> \<open>Metadata_Write\<close> (\<open>writeToStatementBatch\<close>), \<open>Metadata_Exporter\<close> (the pushes, filters and trackers): exactly
    the uncached pairs are written, no push panics, and the defects of limits and failed batches.

  \<^bold>\<open>Other processors and packages.\<close>
  \<^item> \<open>Span_Mapper\<close>: rules that copy or move attributes to standard names; copying loses and overwrites
    nothing, no value disappears, and a move off the resource serves one span only.
  \<^item> \<open>Go_Arith\<close>: arithmetic of float64; \<open>Go_Glob\<close>: \<open>path.Match\<close>. \<open>Llm_Pricing\<close>: token counts priced by the
    first rule that matches the model; its cache changes nothing, no claimed cost survives, no validated
    pattern fails.
  \<^item> \<open>Key_Checks\<close>: what makes a key random or cardinal, the identifiers of tag rows.

  \<^bold>\<open>Bounds and fuel.\<close> The polling loops of the manager take the fuel \<open>Fuel m\<close>, and the retry loops of
  the commands a fuel \<open>n\<close>; running out is the outcome \<open>Diverge\<close>. Under \<open>backoff_bounded E K\<close> (the
  backoff package stops within \<open>K\<close> polls of a reset, which its maximal elapsed time documents) any
  fuel above \<open>K\<close> is enough, and the termination theorems prove that \<open>Diverge\<close> is not reached. The
  other recursions are structural. Time stamps, hashes and the counter of traces are 64-bit words,
  span counters wrap as int64 does where a policy adds them.

  \<^bold>\<open>Not modelled.\<close>
  The goroutine that counts the rows of one distribution queue is one request of \<open>env\<close>. Logging, metrics
  and the registration of commands and components have no effect on the state modelled. Of the logs
  pipeline, ILIKE, the expression patcher and time layouts are not modelled. Of the metadata exporter, the
  Redis cache and the writer of JSON bodies are not modelled. The receivers, the other exporters and
  processors, the OpAMP client and the other packages below \<open>pkg\<close> and \<open>utils\<close> are not modelled: they are
  dominated by network protocols and by the batch API of the ClickHouse client.
\<close>

end
